(* ===== verification/PDA_Prelude.thy ===== *)
theory PDA_Prelude
  imports Complex_Main "HOL-Library.Word" "HOL-Library.Char_ord" "HOL-Library.List_Lexorder" "HOL-Library.Sublist" "HOL-Library.AList"
begin

text \<open>
  Shared ground of the development: Go's \<open>error\<close> values, the state and error monad in
  which every handler, service and store operation is written, 64-bit signed integers,
  instants, the string functions of the standard library that the code calls, and
  the association lists that stand for Go maps and database tables. Nothing here is
  specific to one component; the lemmas are the rules the component theories share.
\<close>

section \<open>Lemma collections\<close>

named_theorems prog_simps \<open>equations of the state and error monad\<close>
named_theorems prog_iffs \<open>inversion of a monadic run that returned or failed\<close>
named_theorems frame_intros \<open>programs that leave an observation of the state alone\<close>
named_theorems keeps_intros \<open>programs that keep an invariant\<close>
named_theorems err_defs \<open>the error values of the packages\<close>
named_theorems const_defs \<open>the string constants of the packages\<close>

section \<open>Errors\<close>

text \<open>
  A Go \<open>error\<close> is a domain error (code, safe message, retryable flag), a text made by
  \<open>errors.New\<close> or \<open>fmt.Errorf\<close>, a wrapped error (\<open>%w\<close>), or a failure that a driver
  reported (database, cache, broker), numbered by the call that met it.
\<close>

datatype err =
    DomainError (err_code: string) (err_message: string) (err_retryable: bool)
  | TextError string
  | WrapError string err
  | DriverError nat

fun errors_is :: "err \<Rightarrow> err \<Rightarrow> bool" where
  "errors_is (WrapError m e) target = (WrapError m e = target \<or> errors_is e target)"
| "errors_is e target = (e = target)"

fun errors_as_domain :: "err \<Rightarrow> (string \<times> string \<times> bool) option" where
  "errors_as_domain (DomainError c m r) = Some (c, m, r)"
| "errors_as_domain (WrapError m e) = errors_as_domain e"
| "errors_as_domain _ = None"

section \<open>Programs\<close>

text \<open>
  A program reads and writes a state and returns an error (\<open>Inl\<close>) or a value
  (\<open>Inr\<close>); the state it reached is kept in both cases, because Go does not undo
  assignments when a function returns an error.
\<close>

type_synonym ('s, 'a) prog = "'s \<Rightarrow> (err + 'a) \<times> 's"

definition returnP :: "'a \<Rightarrow> ('s, 'a) prog" where
  "returnP x = (\<lambda>s. (Inr x, s))"

definition failP :: "err \<Rightarrow> ('s, 'a) prog" where
  "failP e = (\<lambda>s. (Inl e, s))"

definition bindP :: "('s, 'a) prog \<Rightarrow> ('a \<Rightarrow> ('s, 'b) prog) \<Rightarrow> ('s, 'b) prog" where
  "bindP m f = (\<lambda>s. case m s of (Inl e, s') \<Rightarrow> (Inl e, s') | (Inr x, s') \<Rightarrow> f x s')"

definition thenP :: "('s, 'a) prog \<Rightarrow> ('s, 'b) prog \<Rightarrow> ('s, 'b) prog" where
  "thenP m k = bindP m (\<lambda>_. k)"

text \<open>\<open>liftE\<close> runs a pure fallible function; \<open>checkP\<close> is the guard
  \<open>if cond { return err }\<close>; \<open>ignoreP\<close> is a call whose error is discarded
  (\<open>_ = f()\<close>).\<close>

definition liftE :: "err + 'a \<Rightarrow> ('s, 'a) prog" where
  "liftE r = (\<lambda>s. (r, s))"

definition checkP :: "bool \<Rightarrow> err \<Rightarrow> ('s, unit) prog" where
  "checkP bad e = (if bad then failP e else returnP ())"

definition ignoreP :: "('s, 'a) prog \<Rightarrow> ('s, unit) prog" where
  "ignoreP m = (\<lambda>s. (Inr (), snd (m s)))"

fun mapP :: "('a \<Rightarrow> ('s, 'b) prog) \<Rightarrow> 'a list \<Rightarrow> ('s, 'b list) prog" where
  "mapP f [] = returnP []"
| "mapP f (x # xs) = bindP (f x) (\<lambda>y. bindP (mapP f xs) (\<lambda>ys. returnP (y # ys)))"

fun forP :: "'a list \<Rightarrow> ('a \<Rightarrow> ('s, unit) prog) \<Rightarrow> ('s, unit) prog" where
  "forP [] f = returnP ()"
| "forP (x # xs) f = bindP (f x) (\<lambda>_. forP xs f)"

lemma bindP_returnP [simp, prog_simps]: "bindP (returnP x) f = f x"
  by (simp add: bindP_def returnP_def)

lemma bindP_failP [simp, prog_simps]: "bindP (failP e) f = failP e"
  by (simp add: bindP_def failP_def)

lemma bindP_assoc [simp, prog_simps]:
  "bindP (bindP m f) g = bindP m (\<lambda>x. bindP (f x) g)"
  by (rule ext) (simp add: bindP_def split: prod.split sum.split)

lemma returnP_run [simp, prog_simps]: "returnP x s = (Inr x, s)"
  by (simp add: returnP_def)

lemma failP_run [simp, prog_simps]: "failP e s = (Inl e, s)"
  by (simp add: failP_def)

lemma liftE_run [simp, prog_simps]: "liftE r s = (r, s)"
  by (simp add: liftE_def)

lemma ignoreP_run [simp, prog_simps]: "ignoreP m s = (Inr (), snd (m s))"
  by (simp add: ignoreP_def)

lemma checkP_run [prog_simps]: "checkP b e s = ((if b then Inl e else Inr ()), s)"
  by (simp add: checkP_def)

lemma bindP_run [prog_simps]:
  "bindP m f s = (case m s of (Inl e, s') \<Rightarrow> (Inl e, s') | (Inr x, s') \<Rightarrow> f x s')"
  by (simp add: bindP_def)

lemma bindP_Inr_iff [prog_iffs]:
  "bindP m f s = (Inr y, s') \<longleftrightarrow> (\<exists>x s1. m s = (Inr x, s1) \<and> f x s1 = (Inr y, s'))"
  by (auto simp: bindP_def split: prod.splits sum.splits)

lemma bindP_Inl_iff [prog_iffs]:
  "bindP m f s = (Inl e, s') \<longleftrightarrow>
     m s = (Inl e, s') \<or> (\<exists>x s1. m s = (Inr x, s1) \<and> f x s1 = (Inl e, s'))"
  by (auto simp: bindP_def split: prod.splits sum.splits)

lemma thenP_Inr_iff [prog_iffs]:
  "thenP m k s = (Inr y, s') \<longleftrightarrow> (\<exists>x s1. m s = (Inr x, s1) \<and> k s1 = (Inr y, s'))"
  by (simp add: thenP_def bindP_Inr_iff)

lemma thenP_Inl_iff [prog_iffs]:
  "thenP m k s = (Inl e, s') \<longleftrightarrow>
     m s = (Inl e, s') \<or> (\<exists>x s1. m s = (Inr x, s1) \<and> k s1 = (Inl e, s'))"
  by (simp add: thenP_def bindP_Inl_iff)

lemma checkP_Inr_iff [prog_iffs]: "checkP b e s = (Inr u, s') \<longleftrightarrow> \<not> b \<and> s' = s"
  by (auto simp: checkP_def)

lemma checkP_Inl_iff [prog_iffs]: "checkP b e s = (Inl e', s') \<longleftrightarrow> b \<and> e' = e \<and> s' = s"
  by (auto simp: checkP_def)

lemma liftE_Inr_iff [prog_iffs]: "liftE r s = (Inr x, s') \<longleftrightarrow> r = Inr x \<and> s' = s"
  by auto

lemma liftE_Inl_iff [prog_iffs]: "liftE r s = (Inl e, s') \<longleftrightarrow> r = Inl e \<and> s' = s"
  by auto

subsection \<open>Frames\<close>

text \<open>\<open>frame f m\<close>: whatever \<open>m\<close> returns, the observation \<open>f\<close> of the state is the one
  it started from.\<close>

definition frame :: "('s \<Rightarrow> 'v) \<Rightarrow> ('s, 'a) prog \<Rightarrow> bool" where
  "frame f m \<longleftrightarrow> (\<forall>s. f (snd (m s)) = f s)"

lemma frameI [intro?]: "(\<And>s r s'. m s = (r, s') \<Longrightarrow> f s' = f s) \<Longrightarrow> frame f m"
  unfolding frame_def by (metis prod.collapse)

lemma frameD: "frame f m \<Longrightarrow> m s = (r, s') \<Longrightarrow> f s' = f s"
  unfolding frame_def by (metis snd_conv)

lemma frame_returnP [frame_intros]: "frame f (returnP x)"
  by (simp add: frame_def)

lemma frame_failP [frame_intros]: "frame f (failP e)"
  by (simp add: frame_def)

lemma frame_liftE [frame_intros]: "frame f (liftE r)"
  by (simp add: frame_def)

lemma frame_checkP [frame_intros]: "frame f (checkP b e)"
  by (simp add: frame_def checkP_run)

lemma frame_bindP [frame_intros]:
  assumes "frame f m" and "\<And>x. frame f (k x)"
  shows "frame f (bindP m k)"
proof
  fix s r s' assume run: "bindP m k s = (r, s')"
  obtain q s1 where m: "m s = (q, s1)" by fastforce
  with assms(1) have s1: "f s1 = f s" by (rule frameD)
  show "f s' = f s"
  proof (cases q)
    case (Inl e) with run m s1 show ?thesis by (simp add: bindP_def)
  next
    case (Inr x)
    with run m have "k x s1 = (r, s')" by (simp add: bindP_def)
    with assms(2) have "f s' = f s1" by (rule frameD)
    with s1 show ?thesis by simp
  qed
qed

lemma frame_if [frame_intros]: "frame f m \<Longrightarrow> frame f n \<Longrightarrow> frame f (if b then m else n)"
  by simp

lemma frame_option [frame_intros]:
  "frame f m \<Longrightarrow> (\<And>x. frame f (k x)) \<Longrightarrow> frame f (case v of None \<Rightarrow> m | Some x \<Rightarrow> k x)"
  by (cases v) simp_all

lemma frame_forP [frame_intros]: "(\<And>x. frame f (g x)) \<Longrightarrow> frame f (forP xs g)"
  by (induction xs) (auto intro: frame_intros)

subsection \<open>Invariants\<close>

text \<open>\<open>keeps I m\<close>: from a state that satisfies \<open>I\<close>, \<open>m\<close> reaches one that does.\<close>

definition keeps :: "('s \<Rightarrow> bool) \<Rightarrow> ('s, 'a) prog \<Rightarrow> bool" where
  "keeps I m \<longleftrightarrow> (\<forall>s. I s \<longrightarrow> I (snd (m s)))"

lemma keepsD: "keeps I m \<Longrightarrow> m s = (r, s') \<Longrightarrow> I s \<Longrightarrow> I s'"
  unfolding keeps_def by (metis snd_conv)

lemma keepsI [intro?]: "(\<And>s r s'. m s = (r, s') \<Longrightarrow> I s \<Longrightarrow> I s') \<Longrightarrow> keeps I m"
  unfolding keeps_def by (metis prod.collapse)

lemma keeps_pure [keeps_intros]:
  "keeps I (returnP x)" "keeps I (failP e)" "keeps I (liftE r)" "keeps I (checkP b e)"
  by (simp_all add: keeps_def checkP_run)

lemma keeps_bindP [keeps_intros]:
  "keeps I m \<Longrightarrow> (\<And>x. keeps I (k x)) \<Longrightarrow> keeps I (bindP m k)"
  unfolding keeps_def by (auto simp: bindP_def split: prod.split sum.split)

lemma keeps_if [keeps_intros]: "keeps I m \<Longrightarrow> keeps I n \<Longrightarrow> keeps I (if b then m else n)"
  by simp

lemma keeps_option [keeps_intros]:
  "keeps I m \<Longrightarrow> (\<And>x. keeps I (k x)) \<Longrightarrow> keeps I (case v of None \<Rightarrow> m | Some x \<Rightarrow> k x)"
  by (cases v) simp_all

subsection \<open>Errors that the caller handles\<close>

text \<open>\<open>mapped f m\<close>: the error of a call is translated on its way out.\<close>

definition mapped :: "(err \<Rightarrow> err) \<Rightarrow> ('s, 'a) prog \<Rightarrow> ('s, 'a) prog" where
  "mapped f m s = (case m s of (Inl e, s1) \<Rightarrow> (Inl (f e), s1) | (Inr x, s1) \<Rightarrow> (Inr x, s1))"

text \<open>\<open>tryP m\<close>: the caller looks at the error of \<open>m\<close> itself.\<close>

definition tryP :: "('s, 'a) prog \<Rightarrow> ('s, err + 'a) prog" where
  "tryP m s = (case m s of (r, s1) \<Rightarrow> (Inr r, s1))"

lemma mapped_run [prog_simps]: "mapped f m s = (map_sum f id (fst (m s)), snd (m s))"
  by (simp add: mapped_def split: prod.split sum.split)

lemma mapped_Inr [prog_iffs]: "mapped f m s = (Inr x, s') \<longleftrightarrow> m s = (Inr x, s')"
  by (auto simp: mapped_def split: prod.splits sum.splits)

lemma mapped_Inl [prog_iffs]: "mapped f m s = (Inl e, s') \<longleftrightarrow> (\<exists>x. e = f x \<and> m s = (Inl x, s'))"
  by (auto simp: mapped_def split: prod.splits sum.splits)

lemma tryP_Inr [prog_iffs]: "tryP m s = (Inr r, s') \<longleftrightarrow> m s = (r, s')"
  by (auto simp: tryP_def split: prod.splits)

lemma tryP_Inl [prog_iffs]: "tryP m s \<noteq> (Inl e, s')"
  by (auto simp: tryP_def split: prod.splits)

lemma keeps_mapped [keeps_intros]: "keeps I m \<Longrightarrow> keeps I (mapped f m)"
  by (simp add: keeps_def mapped_run)

lemma keeps_tryP [keeps_intros]: "keeps I m \<Longrightarrow> keeps I (tryP m)"
  by (rule keepsI) (auto simp: tryP_def dest: keepsD split: prod.splits)

lemma frame_mapped [frame_intros]: "frame g m \<Longrightarrow> frame g (mapped f m)"
  by (simp add: frame_def mapped_run)

lemma frame_tryP [frame_intros]: "frame g m \<Longrightarrow> frame g (tryP m)"
  by (rule frameI) (auto simp: tryP_def dest: frameD split: prod.splits)

section \<open>Reply of a service call\<close>

text \<open>
  An application service answers with a value, with an error, or with both: after a
  committed transaction whose event could not be published the code returns the value
  together with \<open>MESSAGING_PUBLISH_PENDING\<close>. On every other error the callers look at the
  error alone, so a value beside it is not kept.
\<close>

datatype 'a reply = Done 'a | Failed err | DonePending 'a err

fun reply_value :: "'a reply \<Rightarrow> 'a option" where
  "reply_value (Done x) = Some x"
| "reply_value (DonePending x e) = Some x"
| "reply_value (Failed e) = None"

fun reply_error :: "'a reply \<Rightarrow> err option" where
  "reply_error (Done x) = None"
| "reply_error (DonePending x e) = Some e"
| "reply_error (Failed e) = Some e"

section \<open>Integers and instants\<close>

text \<open>Go's \<open>int64\<close> (and \<open>int\<close> on the 64-bit targets) wraps; \<open>i64_less\<close> and \<open>i64_le\<close> are
  its signed comparisons. An instant is the number of nanoseconds since the zero
  \<open>time.Time\<close>; \<open>UTC()\<close> changes the location only, so it is the identity here.\<close>

type_synonym int64 = "64 word"
type_synonym time = int
type_synonym uuid = nat

definition i64_less :: "int64 \<Rightarrow> int64 \<Rightarrow> bool" where
  "i64_less a b \<longleftrightarrow> sint a < sint b"

definition i64_le :: "int64 \<Rightarrow> int64 \<Rightarrow> bool" where
  "i64_le a b \<longleftrightarrow> sint a \<le> sint b"

definition max_int64 :: int where
  "max_int64 = 9223372036854775807"

definition min_int64 :: int where
  "min_int64 = -9223372036854775808"

definition in_int64 :: "int \<Rightarrow> bool" where
  "in_int64 k \<longleftrightarrow> min_int64 \<le> k \<and> k \<le> max_int64"

lemma sint_in_int64 [simp]: "in_int64 (sint (a :: int64))"
  using sint_greater_eq [of a] sint_less [of a]
  by (simp add: in_int64_def min_int64_def max_int64_def)

lemma sint_int64_bounds: "min_int64 \<le> sint (a :: int64)" "sint a \<le> max_int64"
  using sint_in_int64 [of a] by (simp_all add: in_int64_def)

lemma signed_take_bit_int64: "in_int64 k \<Longrightarrow> signed_take_bit 63 k = k"
  by (rule signed_take_bit_int_eq_self)
    (simp_all add: in_int64_def min_int64_def max_int64_def)

lemma sint_of_int_int64: "in_int64 k \<Longrightarrow> sint (word_of_int k :: int64) = k"
  by (simp add: signed_of_int signed_take_bit_int64)

lemma sint_plus_int64: "in_int64 (sint a + sint b) \<Longrightarrow> sint (a + b :: int64) = sint a + sint b"
  by (simp add: sint_word_ariths signed_take_bit_int64)

lemma sint_minus_int64: "in_int64 (sint a - sint b) \<Longrightarrow> sint (a - b :: int64) = sint a - sint b"
  by (simp add: sint_word_ariths signed_take_bit_int64)

lemma sint_minus_nonneg:
  fixes a b :: int64
  assumes "0 \<le> sint b" and "sint b \<le> sint a"
  shows "sint (a - b) = sint a - sint b"
  using assms sint_int64_bounds [of a]
  by (intro sint_minus_int64) (simp add: in_int64_def min_int64_def max_int64_def)

text \<open>A \<open>bigint\<close> expression of the database raises instead of wrapping.\<close>

definition bigint_add :: "int64 \<Rightarrow> int64 \<Rightarrow> int64 option" where
  "bigint_add a b = (if in_int64 (sint a + sint b) then Some (a + b) else None)"

definition bigint_sub :: "int64 \<Rightarrow> int64 \<Rightarrow> int64 option" where
  "bigint_sub a b = (if in_int64 (sint a - sint b) then Some (a - b) else None)"

lemma bigint_add_Some: "bigint_add a b = Some c \<Longrightarrow> sint c = sint a + sint b"
  by (auto simp: bigint_add_def sint_plus_int64 split: if_splits)

lemma bigint_sub_Some: "bigint_sub a b = Some c \<Longrightarrow> sint c = sint a - sint b"
  by (auto simp: bigint_sub_def sint_minus_int64 split: if_splits)

lemma i64_less_irrefl [simp]: "\<not> i64_less a a"
  by (simp add: i64_less_def)

lemma not_i64_less: "\<not> i64_less a b \<longleftrightarrow> i64_le b a"
  by (auto simp: i64_less_def i64_le_def)

lemma int64_succ_neq [simp]: "v + 1 \<noteq> (v :: int64)" "v \<noteq> v + 1"
  by simp_all

lemma succ_version:
  fixes v :: int64
  assumes "1 \<le> sint (v + 1)"
  shows "sint (v + 1) = sint v + 1"
proof (cases "sint v = max_int64")
  case True
  with assms show ?thesis by (simp add: sint_word_ariths max_int64_def)
next
  case False
  with sint_int64_bounds [of v] show ?thesis
    by (intro sint_plus_int64 [of v 1, simplified]) (simp add: in_int64_def max_int64_def min_int64_def)
qed

lemma find_append: "find P (xs @ ys) = (case find P xs of None \<Rightarrow> find P ys | Some x \<Rightarrow> Some x)"
  by (induction xs) simp_all

lemma some_the: "x \<noteq> None \<Longrightarrow> x = Some (the x)"
  by auto

lemma split_run: "f = (fst f, snd f)"
  by simp

end
