(* ===== verification/Go_Strings.thy ===== *)
theory Go_Strings
  imports PDA_Prelude
begin

text \<open>
  The functions of Go's \<open>strings\<close> and \<open>encoding/base64\<close> packages that the program
  calls, on byte strings: a \<open>char\<close> is a byte, so a rune outside ASCII is its UTF-8 bytes.
  \<open>trim_space\<close> strips every Unicode white-space rune; case mapping and \<open>equal_fold\<close> act on
  the ASCII letters, the alphabet of the codes the program compares; what \<open>strings.ToUpper\<close> and
  \<open>strings.EqualFold\<close> do to other letters is left out.
\<close>

section \<open>Trimming\<close>

definition space_runes :: "string list" where
  "space_runes =
     [[CHR 0x09], [CHR 0x0A], [CHR 0x0B], [CHR 0x0C], [CHR 0x0D], [CHR 0x20],
      [CHR 0xC2, CHR 0x85], [CHR 0xC2, CHR 0xA0], [CHR 0xE1, CHR 0x9A, CHR 0x80],
      [CHR 0xE2, CHR 0x80, CHR 0x80], [CHR 0xE2, CHR 0x80, CHR 0x81],
      [CHR 0xE2, CHR 0x80, CHR 0x82], [CHR 0xE2, CHR 0x80, CHR 0x83],
      [CHR 0xE2, CHR 0x80, CHR 0x84], [CHR 0xE2, CHR 0x80, CHR 0x85],
      [CHR 0xE2, CHR 0x80, CHR 0x86], [CHR 0xE2, CHR 0x80, CHR 0x87],
      [CHR 0xE2, CHR 0x80, CHR 0x88], [CHR 0xE2, CHR 0x80, CHR 0x89],
      [CHR 0xE2, CHR 0x80, CHR 0x8A], [CHR 0xE2, CHR 0x80, CHR 0xA8],
      [CHR 0xE2, CHR 0x80, CHR 0xA9], [CHR 0xE2, CHR 0x80, CHR 0xAF],
      [CHR 0xE2, CHR 0x81, CHR 0x9F], [CHR 0xE3, CHR 0x80, CHR 0x80]]"

fun rune_prefix :: "string list \<Rightarrow> string \<Rightarrow> nat" where
  "rune_prefix [] s = 0"
| "rune_prefix (w # ws) s = (if w \<noteq> [] \<and> take (length w) s = w then length w else rune_prefix ws s)"

lemma rune_prefix_le: "rune_prefix ws s \<le> length s"
  by (induction ws s rule: rune_prefix.induct) (auto, metis length_take min.absorb_iff2 min.commute nle_le)

function strip :: "string list \<Rightarrow> string \<Rightarrow> string" where
  "strip ws s = (if rune_prefix ws s = 0 then s else strip ws (drop (rune_prefix ws s) s))"
  by pat_completeness auto
termination
proof (relation "measure (\<lambda>(ws, s). length s)", goal_cases)
  case (2 ws s)
  with rune_prefix_le [of ws s] show ?case by auto
qed simp

declare strip.simps [simp del]

definition trim_left :: "string \<Rightarrow> string" where
  "trim_left s = strip space_runes s"

definition trim_right :: "string \<Rightarrow> string" where
  "trim_right s = rev (strip (map rev space_runes) (rev s))"

definition trim_space :: "string \<Rightarrow> string" where
  "trim_space s = trim_right (trim_left s)"

definition blank :: "string \<Rightarrow> bool" where
  "blank s \<longleftrightarrow> trim_space s = ''''"

lemma strip_stops: "rune_prefix ws (strip ws s) = 0"
proof (induction ws s rule: strip.induct)
  case (1 ws s)
  then show ?case
    by (cases "rune_prefix ws s = 0") (simp_all add: strip.simps [of ws s])
qed

lemma strip_idem [simp]: "strip ws (strip ws s) = strip ws s"
  by (subst strip.simps) (simp add: strip_stops)

lemma strip_suffix: "\<exists>p. s = p @ strip ws s"
proof (induction ws s rule: strip.induct)
  case (1 ws s)
  show ?case
  proof (cases "rune_prefix ws s = 0")
    case True then show ?thesis by (simp add: strip.simps [of ws s])
  next
    case False
    with 1 obtain p where p: "drop (rune_prefix ws s) s = p @ strip ws (drop (rune_prefix ws s) s)"
      by blast
    have "s = take (rune_prefix ws s) s @ drop (rune_prefix ws s) s" by simp
    also have "\<dots> = (take (rune_prefix ws s) s @ p) @ strip ws (drop (rune_prefix ws s) s)"
      by (subst p) simp
    also have "strip ws (drop (rune_prefix ws s) s) = strip ws s"
      using False by (simp add: strip.simps [of ws s])
    finally show ?thesis by blast
  qed
qed

lemma length_strip: "length (strip ws s) \<le> length s"
  using strip_suffix [of s ws] by (metis length_append le_add2)

lemma length_trim_space: "length (trim_space s) \<le> length s"
  unfolding trim_space_def trim_right_def trim_left_def
  using length_strip [of "map rev space_runes" "rev (strip space_runes s)"]
    length_strip [of space_runes s] by simp

lemma trim_space_empty [simp]: "trim_space '''' = ''''"
  using length_trim_space [of "''''"] by simp

section \<open>Letter case\<close>

definition ascii_lower :: "char \<Rightarrow> char" where
  "ascii_lower c = (let n = (of_char c :: nat) in if 65 \<le> n \<and> n \<le> 90 then char_of (n + 32) else c)"

definition ascii_upper :: "char \<Rightarrow> char" where
  "ascii_upper c = (let n = (of_char c :: nat) in if 97 \<le> n \<and> n \<le> 122 then char_of (n - 32) else c)"

definition to_lower :: "string \<Rightarrow> string" where
  "to_lower s = map ascii_lower s"

definition to_upper :: "string \<Rightarrow> string" where
  "to_upper s = map ascii_upper s"

definition equal_fold :: "string \<Rightarrow> string \<Rightarrow> bool" where
  "equal_fold s t \<longleftrightarrow> to_lower s = to_lower t"

lemma equal_fold_refl [simp]: "equal_fold s s"
  by (simp add: equal_fold_def)

lemma equal_fold_sym: "equal_fold s t = equal_fold t s"
  by (auto simp: equal_fold_def)

lemma equal_fold_trans: "equal_fold s t \<Longrightarrow> equal_fold t u \<Longrightarrow> equal_fold s u"
  by (simp add: equal_fold_def)

section \<open>Searching, joining and splitting\<close>

definition str_contains :: "string \<Rightarrow> string \<Rightarrow> bool" where
  "str_contains s sub \<longleftrightarrow> sublist sub s"

definition has_prefix :: "string \<Rightarrow> string \<Rightarrow> bool" where
  "has_prefix s p \<longleftrightarrow> take (length p) s = p"

definition replace_char :: "char \<Rightarrow> char \<Rightarrow> string \<Rightarrow> string" where
  "replace_char a b s = map (\<lambda>c. if c = a then b else c) s"

fun str_join :: "string \<Rightarrow> string list \<Rightarrow> string" where
  "str_join sep [] = ''''"
| "str_join sep [x] = x"
| "str_join sep (x # y # xs) = x @ sep @ str_join sep (y # xs)"

fun split_char :: "char \<Rightarrow> string \<Rightarrow> string list" where
  "split_char c [] = [[]]"
| "split_char c (x # xs) =
     (if x = c then [] # split_char c xs
      else (case split_char c xs of [] \<Rightarrow> [[x]] | w # ws \<Rightarrow> (x # w) # ws))"

lemma split_char_nonempty [simp]: "split_char c s \<noteq> []"
  by (induction c s rule: split_char.induct) (auto split: list.split)

lemma split_char_no_sep: "c \<notin> set s \<Longrightarrow> split_char c s = [s]"
  by (induction s) (auto split: list.split)

lemma split_char_append:
  "c \<notin> set s \<Longrightarrow> split_char c (s @ c # t) = s # split_char c t"
  by (induction s) (auto split: list.split)

text \<open>Joining parts that do not hold the separator loses nothing.\<close>

lemma split_join:
  "xs \<noteq> [] \<Longrightarrow> \<forall>x \<in> set xs. c \<notin> set x \<Longrightarrow> split_char c (str_join [c] xs) = xs"
proof (induction xs rule: induct_list012)
  case (2 x)
  then show ?case by (simp add: split_char_no_sep)
next
  case (3 x y ys)
  then have x: "c \<notin> set x" and IH: "split_char c (str_join [c] (y # ys)) = y # ys" by simp_all
  have "split_char c (str_join [c] (x # y # ys)) = split_char c (x @ c # str_join [c] (y # ys))"
    by simp
  also have "\<dots> = x # split_char c (str_join [c] (y # ys))" using x by (rule split_char_append)
  finally show ?case by (simp only: IH)
qed simp

lemma str_join_inj:
  assumes "str_join [c] xs = str_join [c] ys" and "xs \<noteq> []" and "ys \<noteq> []"
    and "\<forall>x \<in> set xs. c \<notin> set x" and "\<forall>y \<in> set ys. c \<notin> set y"
  shows "xs = ys"
  using assms split_join by metis

section \<open>Unpadded URL-safe base64\<close>

text \<open>
  \<open>base64.RawURLEncoding\<close>: six bits per character, no padding. The decoder drops
  carriage returns and line feeds, refuses characters outside the alphabet and a lone last
  character, and does not look at the unused low bits of the last one.
\<close>

definition b64_alphabet :: string where
  "b64_alphabet = ''ABCDEFGHIJKLMNOPQRSTUVWXYZabcdefghijklmnopqrstuvwxyz0123456789-_''"

definition b64_char :: "nat \<Rightarrow> char" where
  "b64_char n = b64_alphabet ! n"

fun index_of :: "'a list \<Rightarrow> 'a \<Rightarrow> nat option" where
  "index_of [] x = None"
| "index_of (y # ys) x = (if y = x then Some 0 else map_option Suc (index_of ys x))"

definition b64_value :: "char \<Rightarrow> nat option" where
  "b64_value c = index_of b64_alphabet c"

fun b64_encode :: "nat list \<Rightarrow> string" where
  "b64_encode (a # b # c # xs) =
     b64_char (a div 4) # b64_char ((a mod 4) * 16 + b div 16)
     # b64_char ((b mod 16) * 4 + c div 64) # b64_char (c mod 64) # b64_encode xs"
| "b64_encode [a, b] =
     [b64_char (a div 4), b64_char ((a mod 4) * 16 + b div 16), b64_char ((b mod 16) * 4)]"
| "b64_encode [a] = [b64_char (a div 4), b64_char ((a mod 4) * 16)]"
| "b64_encode [] = []"

fun b64_groups :: "nat list \<Rightarrow> nat list option" where
  "b64_groups (p # q # r # t # vs) =
     map_option (\<lambda>bs. (p * 4 + q div 16) # ((q mod 16) * 16 + r div 4) # ((r mod 4) * 64 + t) # bs)
       (b64_groups vs)"
| "b64_groups [p, q, r] = Some [p * 4 + q div 16, (q mod 16) * 16 + r div 4]"
| "b64_groups [p, q] = Some [p * 4 + q div 16]"
| "b64_groups [p] = None"
| "b64_groups [] = Some []"

definition raw_url_encode :: "string \<Rightarrow> string" where
  "raw_url_encode s = b64_encode (map of_char s)"

definition raw_url_decode :: "string \<Rightarrow> string option" where
  "raw_url_decode s =
     (case those (map b64_value (filter (\<lambda>c. c \<noteq> CHR 0x0D \<and> c \<noteq> CHR 0x0A) s)) of
        None \<Rightarrow> None
      | Some vs \<Rightarrow> map_option (map char_of) (b64_groups vs))"

lemma length_b64_alphabet: "length b64_alphabet = 64"
  by (simp add: b64_alphabet_def)

lemma index_of_nth: "distinct xs \<Longrightarrow> n < length xs \<Longrightarrow> index_of xs (xs ! n) = Some n"
proof (induction xs arbitrary: n)
  case (Cons x xs)
  then show ?case by (cases n) auto
qed simp

lemma distinct_b64_alphabet: "distinct b64_alphabet"
  by (simp add: b64_alphabet_def)

lemma b64_value_char [simp]: "n < 64 \<Longrightarrow> b64_value (b64_char n) = Some n"
  by (simp add: b64_value_def b64_char_def index_of_nth distinct_b64_alphabet length_b64_alphabet)

lemma b64_char_in: "n < 64 \<Longrightarrow> b64_char n \<in> set b64_alphabet"
  by (simp add: b64_char_def length_b64_alphabet)

lemma b64_alphabet_no_newline: "CHR 0x0D \<notin> set b64_alphabet" "CHR 0x0A \<notin> set b64_alphabet"
  by (simp_all add: b64_alphabet_def)

lemma b64_char_no_newline [simp]:
  "n < 64 \<Longrightarrow> b64_char n \<noteq> CHR 0x0D" "n < 64 \<Longrightarrow> b64_char n \<noteq> CHR 0x0A"
  using b64_char_in [of n] b64_alphabet_no_newline by auto

fun sextets :: "nat list \<Rightarrow> nat list" where
  "sextets (a # b # c # xs) =
     a div 4 # ((a mod 4) * 16 + b div 16) # ((b mod 16) * 4 + c div 64) # c mod 64 # sextets xs"
| "sextets [a, b] = [a div 4, (a mod 4) * 16 + b div 16, (b mod 16) * 4]"
| "sextets [a] = [a div 4, (a mod 4) * 16]"
| "sextets [] = []"

lemma b64_encode_sextets: "b64_encode xs = map b64_char (sextets xs)"
  by (induction xs rule: b64_encode.induct) simp_all

lemma sextet_bounds:
  "a < 256 \<Longrightarrow> a div 4 < (64 :: nat)" "b < 256 \<Longrightarrow> b div 16 < (16 :: nat)"
  "c < 256 \<Longrightarrow> c div 64 < (4 :: nat)"
  by (simp_all add: less_mult_imp_div_less)

lemma pack_less: "x < m \<Longrightarrow> y < n \<Longrightarrow> x * n + y < m * (n :: nat)"
proof -
  assume "x < m" "y < n"
  then have "x * n + y < Suc x * n" "Suc x * n \<le> m * n" by (auto simp del: mult_Suc intro: mult_le_mono1) simp
  then show ?thesis by linarith
qed

lemma unpack: "y < n \<Longrightarrow> (x * n + y) div n = (x :: nat)" "y < n \<Longrightarrow> (x * n + y) mod n = (y :: nat)"
  by simp_all

lemma pack_16: "x < 4 \<Longrightarrow> y < 16 \<Longrightarrow> x * 16 + y < (64 :: nat)"
  using pack_less [of x 4 y 16] by simp

lemma pack_4: "x < 16 \<Longrightarrow> y < 4 \<Longrightarrow> x * 4 + y < (64 :: nat)"
  using pack_less [of x 16 y 4] by simp

lemma sextets_less: "\<forall>a \<in> set xs. a < 256 \<Longrightarrow> \<forall>n \<in> set (sextets xs). n < 64"
proof (induction xs rule: sextets.induct)
  case (1 a b c xs)
  then show ?case by (simp add: sextet_bounds pack_16 pack_4)
next
  case (2 a b)
  then show ?case using pack_4 [of "b mod 16" 0] by (simp add: sextet_bounds pack_16)
next
  case (3 a)
  then show ?case using pack_16 [of "a mod 4" 0] by (simp add: sextet_bounds)
qed simp

lemma b64_groups_sextets: "\<forall>a \<in> set xs. a < 256 \<Longrightarrow> b64_groups (sextets xs) = Some xs"
proof (induction xs rule: sextets.induct)
  case (1 a b c xs)
  then have "b div 16 < 16" "c div 64 < 4" and IH: "b64_groups (sextets xs) = Some xs"
    by (simp_all add: sextet_bounds)
  with unpack [of "b div 16" 16 "a mod 4"] unpack [of "c div 64" 4 "b mod 16"] show ?case by simp
next
  case (2 a b)
  then have "b div 16 < 16" by (simp add: sextet_bounds)
  with unpack [of "b div 16" 16 "a mod 4"] show ?case by simp
next
  case (3 a)
  then show ?case by simp
qed simp

lemma those_map_value: "\<forall>n \<in> set ns. n < 64 \<Longrightarrow> those (map (b64_value \<circ> b64_char) ns) = Some ns"
  by (induction ns) simp_all

lemma raw_url_roundtrip: "raw_url_decode (raw_url_encode s) = Some s"
proof -
  let ?bs = "map of_char s :: nat list"
  have bound: "\<forall>a \<in> set ?bs. a < 256" by auto
  let ?ns = "sextets ?bs"
  from bound have small: "\<forall>n \<in> set ?ns. n < 64" by (rule sextets_less)
  then have "filter (\<lambda>c. c \<noteq> CHR 0x0D \<and> c \<noteq> CHR 0x0A) (map b64_char ?ns) = map b64_char ?ns"
    by (simp add: filter_id_conv)
  with small have "those (map b64_value (filter (\<lambda>c. c \<noteq> CHR 0x0D \<and> c \<noteq> CHR 0x0A) (map b64_char ?ns)))
      = Some ?ns"
    by (simp add: those_map_value)
  then show ?thesis
    using bound
    by (simp add: raw_url_decode_def raw_url_encode_def b64_encode_sextets b64_groups_sextets comp_def)
qed

end
