(* ===== verification/Event.thy ===== *)
theory Event
  imports Go_Strings
begin

text \<open>
  The platform packages every service uses: the actor and command metadata
  (\<open>internal/platform/domain/context.go\<close>), the domain event envelope and its validation
  (\<open>internal/platform/event/envelope.go\<close>), and the in-memory event log with its publisher
  (\<open>internal/integration/adapters/messagingmock/publisher.go\<close>).
\<close>

section \<open>JSON documents and identifiers\<close>

text \<open>
  A marshalled document is the value it stands for; an object lists its members in the
  order the encoder writes them. \<open>raw_message\<close> is \<open>json.RawMessage\<close>: no bytes at all, bytes
  that are not JSON, or a document. \<open>uuid_nil\<close> is \<open>uuid.Nil\<close>.
\<close>

datatype json =
    JNull
  | JBool bool
  | JInt int
  | JNum rat
  | JStr string
  | JUuid uuid
  | JTime time
  | JArr "json list"
  | JObj "(string \<times> json) list"

datatype raw_message = RawEmpty | RawInvalid | RawJSON json

text \<open>A nil pointer is \<open>null\<close>, and so is a nil slice: the slices that are marshalled here were built
  by \<open>append\<close>, so an empty one is nil.\<close>

definition json_opt :: "('a \<Rightarrow> json) \<Rightarrow> 'a option \<Rightarrow> json" where
  "json_opt f x = (case x of None \<Rightarrow> JNull | Some y \<Rightarrow> f y)"

definition json_slice :: "('a \<Rightarrow> json) \<Rightarrow> 'a list \<Rightarrow> json" where
  "json_slice f xs = (if xs = [] then JNull else JArr (map f xs))"

definition json_int64 :: "int64 \<Rightarrow> json" where
  "json_int64 n = JInt (sint n)"

definition json_valid :: "raw_message \<Rightarrow> bool" where
  "json_valid m = (case m of RawJSON _ \<Rightarrow> True | _ \<Rightarrow> False)"

lemma json_valid_simps [simp]:
  "json_valid (RawJSON j)" "\<not> json_valid RawEmpty" "\<not> json_valid RawInvalid"
  by (simp_all add: json_valid_def)

definition uuid_nil :: uuid where
  "uuid_nil = 0"

definition time_zero :: time where
  "time_zero = 0"

definition is_zero :: "time \<Rightarrow> bool" where
  "is_zero t \<longleftrightarrow> t = time_zero"

section \<open>Actors and command metadata\<close>

record actor =
  ac_operator :: string
  ac_device :: string
  ac_warehouse :: string
  ac_correlation :: string

definition new_actor_context :: "string \<Rightarrow> string \<Rightarrow> string \<Rightarrow> string \<Rightarrow> err + actor" where
  "new_actor_context operator device warehouse correlation =
     (if blank operator \<or> blank device \<or> blank warehouse \<or> blank correlation
      then Inl (TextError ''actor context fields must be non-empty'')
      else Inr \<lparr>ac_operator = operator, ac_device = device, ac_warehouse = warehouse,
                ac_correlation = correlation\<rparr>)"

definition actor_complete :: "actor \<Rightarrow> bool" where
  "actor_complete a \<longleftrightarrow> \<not> blank (ac_operator a) \<and> \<not> blank (ac_device a)
     \<and> \<not> blank (ac_warehouse a) \<and> \<not> blank (ac_correlation a)"

record command_metadata =
  cm_id :: uuid
  cm_key :: string
  cm_issued :: time
  cm_actor :: actor

definition new_command_metadata ::
    "uuid \<Rightarrow> string \<Rightarrow> time \<Rightarrow> actor \<Rightarrow> err + command_metadata" where
  "new_command_metadata cid key issued a =
     (if cid = uuid_nil \<or> blank key \<or> is_zero issued
      then Inl (TextError ''command metadata is incomplete'')
      else Inr \<lparr>cm_id = cid, cm_key = key, cm_issued = issued, cm_actor = a\<rparr>)"

lemma new_actor_context_complete: "new_actor_context p d w c = Inr a \<Longrightarrow> actor_complete a"
  by (auto simp: new_actor_context_def actor_complete_def split: if_splits)

section \<open>Event envelope\<close>

record envelope =
  ev_id :: uuid
  ev_type :: string
  ev_version :: int64
  ev_agg_type :: string
  ev_agg_id :: string
  ev_agg_version :: int64
  ev_at :: time
  ev_correlation :: string
  ev_cause :: uuid
  ev_warehouse :: string
  ev_operator :: string
  ev_device :: string
  ev_topic :: string
  ev_payload :: raw_message

definition zero_envelope :: envelope where
  "zero_envelope = \<lparr>ev_id = uuid_nil, ev_type = '''', ev_version = 0, ev_agg_type = '''',
     ev_agg_id = '''', ev_agg_version = 0, ev_at = time_zero, ev_correlation = '''',
     ev_cause = uuid_nil, ev_warehouse = '''', ev_operator = '''', ev_device = '''',
     ev_topic = '''', ev_payload = RawEmpty\<rparr>"

text \<open>
  \<open>Validate\<close> looks at the text fields by ranging over a Go map, in an order the runtime
  chooses: \<open>validate_in\<close> takes that order, \<open>envelope_fields\<close> is the order of the source.
  The order decides only which missing field the error names.
\<close>

definition envelope_fields :: "(string \<times> (envelope \<Rightarrow> string)) list" where
  "envelope_fields =
     [(''eventType'', ev_type), (''aggregateType'', ev_agg_type), (''aggregateId'', ev_agg_id),
      (''correlationId'', ev_correlation), (''warehouseId'', ev_warehouse),
      (''operatorId'', ev_operator), (''deviceId'', ev_device), (''topic'', ev_topic)]"

definition validate_in :: "(string \<times> (envelope \<Rightarrow> string)) list \<Rightarrow> envelope \<Rightarrow> err + unit" where
  "validate_in order e =
     (if ev_id e = uuid_nil \<or> ev_cause e = uuid_nil \<or> i64_less (ev_version e) 1
         \<or> i64_less (ev_agg_version e) 1 \<or> is_zero (ev_at e)
      then Inl (TextError ''event envelope identity, versions, and timestamp are required'')
      else (case find (\<lambda>(name, field). blank (field e)) order of
              Some (name, _) \<Rightarrow> Inl (TextError (''event envelope '' @ name @ '' is required''))
            | None \<Rightarrow>
                if ev_payload e = RawEmpty \<or> \<not> json_valid (ev_payload e)
                then Inl (TextError ''event payload must be valid JSON'')
                else Inr ()))"

definition validate :: "envelope \<Rightarrow> err + unit" where
  "validate e = validate_in envelope_fields e"

definition well_formed :: "envelope \<Rightarrow> bool" where
  "well_formed e \<longleftrightarrow> ev_id e \<noteq> uuid_nil \<and> ev_cause e \<noteq> uuid_nil \<and> 1 \<le> sint (ev_version e)
     \<and> 1 \<le> sint (ev_agg_version e) \<and> ev_at e \<noteq> time_zero
     \<and> \<not> blank (ev_type e) \<and> \<not> blank (ev_agg_type e) \<and> \<not> blank (ev_agg_id e)
     \<and> \<not> blank (ev_correlation e) \<and> \<not> blank (ev_warehouse e) \<and> \<not> blank (ev_operator e)
     \<and> \<not> blank (ev_device e) \<and> \<not> blank (ev_topic e) \<and> json_valid (ev_payload e)"

lemma validate_in_accepts:
  assumes "set order = set envelope_fields"
  shows "validate_in order e = Inr () \<longleftrightarrow> well_formed e"
proof -
  have "find (\<lambda>(name, field). blank (field e)) order = None \<longleftrightarrow>
      (\<forall>(name, field) \<in> set order. \<not> blank (field e))"
    by (auto simp: find_None_iff)
  then show ?thesis
    unfolding assms
    by (auto simp: validate_in_def well_formed_def envelope_fields_def i64_less_def is_zero_def
        json_valid_def split: option.split raw_message.splits)
qed

lemma validate_accepts: "validate e = Inr () \<longleftrightarrow> well_formed e"
  by (simp add: validate_def validate_in_accepts)

lemma validate_accepts_unit: "validate e = Inr u \<longleftrightarrow> well_formed e"
  using validate_accepts by (cases u) simp

section \<open>The event log and its publisher\<close>

record event_log =
  el_events :: "envelope list"

definition log_append :: "envelope \<Rightarrow> (event_log, unit) prog" where
  "log_append e = (\<lambda>l. (Inr (), l\<lparr>el_events := el_events l @ [e]\<rparr>))"

definition log_all :: "event_log \<Rightarrow> envelope list" where
  "log_all l = el_events l"

definition mock_publish :: "string \<Rightarrow> envelope \<Rightarrow> (event_log, unit) prog" where
  "mock_publish fail_event_type e =
     thenP (liftE (validate e))
      (thenP (checkP (fail_event_type \<noteq> '''' \<and> ev_type e = fail_event_type)
          (TextError (''deterministic mock publish failure for event type '' @ ev_type e)))
        (log_append e))"

lemma mock_publish_cases:
  "mock_publish ft e l =
     (case validate e of
        Inl x \<Rightarrow> (Inl x, l)
      | Inr _ \<Rightarrow> if ft \<noteq> '''' \<and> ev_type e = ft
          then (Inl (TextError (''deterministic mock publish failure for event type '' @ ev_type e)), l)
          else (Inr (), l\<lparr>el_events := el_events l @ [e]\<rparr>))"
  by (auto simp: mock_publish_def thenP_def prog_simps log_append_def split: sum.split)

text \<open>The log holds validated events only, and grows by exactly what was accepted.\<close>

lemma mock_publish_log:
  assumes "mock_publish ft e l = (r, l')"
  shows "log_all l' = log_all l @ (if r = Inr () then [e] else [])"
    and "r = Inr () \<longleftrightarrow> well_formed e \<and> (ft = '''' \<or> ev_type e \<noteq> ft)"
  using assms validate_accepts [of e]
  by (auto simp: mock_publish_cases log_all_def split: sum.splits if_splits)

end
