(* ===== verification/Environment.thy ===== *)
theory Environment
  imports Event
begin

text \<open>
  What every service is given besides its store: the clock \<open>now\<close>, the generator behind
  \<open>uuid.New()\<close> (a third-party package, so a parameter: the \<open>n\<close>-th call returns
  \<open>env_uuid n\<close>), and the event publisher, here the one of
  \<open>internal/integration/adapters/messagingmock/publisher.go\<close> on its event log. The worlds of
  the stores extend this record.
\<close>

record env =
  env_clock :: "nat \<Rightarrow> time"
  env_reads :: nat
  env_uuid :: "nat \<Rightarrow> uuid"
  env_ids :: nat
  env_log :: event_log
  env_fail_type :: string

definition clock_now :: "('a env_scheme, time) prog" where
  "clock_now s = (Inr (env_clock s (env_reads s)), s\<lparr>env_reads := Suc (env_reads s)\<rparr>)"

definition new_uuid :: "('a env_scheme, uuid) prog" where
  "new_uuid s = (Inr (env_uuid s (env_ids s)), s\<lparr>env_ids := Suc (env_ids s)\<rparr>)"

definition publish_event :: "envelope \<Rightarrow> ('a env_scheme, unit) prog" where
  "publish_event e s =
     (case mock_publish (env_fail_type s) e (env_log s) of (r, l) \<Rightarrow> (r, s\<lparr>env_log := l\<rparr>))"

text \<open>The environment leaves every observation of the store alone that does not look at it.\<close>

definition store_only :: "('a env_scheme \<Rightarrow> 'v) \<Rightarrow> bool" where
  "store_only f \<longleftrightarrow> (\<forall>s n l. f (s\<lparr>env_reads := n\<rparr>) = f s \<and> f (s\<lparr>env_ids := n\<rparr>) = f s
     \<and> f (s\<lparr>env_log := l\<rparr>) = f s)"

lemma frame_clock_now: "store_only f \<Longrightarrow> frame f clock_now"
  by (simp add: frame_def clock_now_def store_only_def)

lemma frame_new_uuid: "store_only f \<Longrightarrow> frame f new_uuid"
  by (simp add: frame_def new_uuid_def store_only_def)

lemma frame_publish_event: "store_only f \<Longrightarrow> frame f (publish_event e)"
  by (simp add: frame_def publish_event_def store_only_def split: prod.split)

lemma keeps_of_frame: "frame I m \<Longrightarrow> keeps I m"
  by (simp add: frame_def keeps_def)

lemmas keeps_env =
  keeps_of_frame [OF frame_clock_now] keeps_of_frame [OF frame_new_uuid]
  keeps_of_frame [OF frame_publish_event]

lemma clock_now_Inr: "clock_now s = (Inr t, s') \<longleftrightarrow>
    t = env_clock s (env_reads s) \<and> s' = s\<lparr>env_reads := Suc (env_reads s)\<rparr>"
  by (auto simp: clock_now_def)

lemma new_uuid_Inr: "new_uuid s = (Inr t, s') \<longleftrightarrow>
    t = env_uuid s (env_ids s) \<and> s' = s\<lparr>env_ids := Suc (env_ids s)\<rparr>"
  by (auto simp: new_uuid_def)

lemma publish_event_log:
  assumes "publish_event e s = (r, s')"
  shows "el_events (env_log s') = el_events (env_log s) @ (if r = Inr () then [e] else [])"
  using assms mock_publish_log(1) [of "env_fail_type s" e "env_log s"]
  by (auto simp: publish_event_def log_all_def split: prod.splits)

lemma frame_log_env [frame_intros]: "frame env_log clock_now" "frame env_log new_uuid"
  by (simp_all add: frame_def clock_now_def new_uuid_def)

lemma frame_of_log: "frame env_log m \<Longrightarrow> frame (\<lambda>s. el_events (env_log s)) m"
  by (simp add: frame_def)

section \<open>A broker\<close>

text \<open>
  A Kafka broker as its clients see it. A write is acknowledged or not, and leaves copies of its message
  in the log: at least one when it was acknowledged, some or none otherwise; \<open>bk_copies\<close> counts the ones
  beyond that. Which writes are acknowledged is the broker's choice.
\<close>

record 'm broker =
  bk_log :: "'m list"
  bk_writes :: nat
  bk_acked :: "nat \<Rightarrow> bool"
  bk_copies :: "nat \<Rightarrow> nat"
  bk_error :: "nat \<Rightarrow> err"

definition write_message :: "'m \<Rightarrow> ('m broker, unit) prog" where
  "write_message m b =
     (let n = bk_writes b; k = (if bk_acked b n then 1 else 0) + bk_copies b n in
      (if bk_acked b n then Inr () else Inl (bk_error b n),
       b\<lparr>bk_writes := Suc n, bk_log := bk_log b @ replicate k m\<rparr>))"

lemma write_message_log:
  assumes "write_message m b = (q, b')"
  shows "set (bk_log b) \<subseteq> set (bk_log b')" and "q = Inr () \<Longrightarrow> m \<in> set (bk_log b')"
  using assms by (auto simp: write_message_def Let_def split: if_splits)

text \<open>A program on the second of two states.\<close>

definition on_second :: "('b, 'x) prog \<Rightarrow> ('a \<times> 'b, 'x) prog" where
  "on_second m = (\<lambda>(a, b). case m b of (r, b1) \<Rightarrow> (r, (a, b1)))"

end
