(* ===== verification/SQL.thy ===== *)
theory SQL
  imports Environment
begin

text \<open>
  Statements and transactions of a PostgreSQL database as pgx runs them, whatever its tables
  are: \<open>w_db\<close> holds them. Any statement may meet a fault: \<open>w_fault\<close> says what happens to the
  \<open>n\<close>-th one. Transactions run one after the other, which is the order in which the row and
  advisory locks of the code let conflicting ones through. (Deliveries of WMS tasks may overlap where
  there is no row to lock yet; their theory has a model of that.)
\<close>

section \<open>Statements and transactions\<close>

datatype fault = NoFault | FailBefore | FailAfter

record 'd db_world = env +
  w_db :: 'd
  w_fault :: "nat \<Rightarrow> fault"
  w_tick :: nat
  w_in_tx :: bool
  w_aborted :: bool
  w_sql_now :: "nat \<Rightarrow> time"

text \<open>
  A statement is a function of \<open>now()\<close> and the tables. \<open>FailBefore\<close>: it did not run;
  \<open>FailAfter\<close>: it ran, and the reply was lost. Either way the driver reports an error, and
  inside a transaction everything after a failed statement fails until the rollback.
\<close>

type_synonym ('d, 'a) statement = "time \<Rightarrow> 'd \<Rightarrow> err + 'a \<times> 'd"

definition fail_world :: "'d db_world \<Rightarrow> 'd db_world" where
  "fail_world w = w\<lparr>w_aborted := w_in_tx w\<rparr>"

definition sql :: "('d, 'a) statement \<Rightarrow> ('d db_world, 'a) prog" where
  "sql f w =
     (let n = w_tick w; w1 = w\<lparr>w_tick := Suc n\<rparr>; r = f (w_sql_now w n) (w_db w) in
      if w_aborted w then (Inl (DriverError n), w1)
      else case w_fault w n of
        NoFault \<Rightarrow> (case r of Inl e \<Rightarrow> (Inl e, fail_world w1) | Inr (x, d) \<Rightarrow> (Inr x, w1\<lparr>w_db := d\<rparr>))
      | FailBefore \<Rightarrow> (Inl (DriverError n), fail_world w1)
      | FailAfter \<Rightarrow> (Inl (DriverError n),
          fail_world (case r of Inl _ \<Rightarrow> w1 | Inr (x, d) \<Rightarrow> w1\<lparr>w_db := d\<rparr>)))"

text \<open>\<open>pool.Begin\<close>, the body, and \<open>Commit\<close> or the deferred \<open>Rollback\<close>. A commit that fails
  after the server has done its work leaves the changes in place.\<close>

definition end_tx :: "'d db_world \<Rightarrow> 'd db_world" where
  "end_tx w = w\<lparr>w_in_tx := False, w_aborted := False\<rparr>"

definition with_tx :: "('d db_world, 'a) prog \<Rightarrow> ('d db_world, 'a) prog" where
  "with_tx m w =
     (let n = w_tick w; w0 = w\<lparr>w_tick := Suc n\<rparr> in
      if w_fault w n \<noteq> NoFault then (Inl (DriverError n), w0)
      else case m (w0\<lparr>w_in_tx := True, w_aborted := False\<rparr>) of
        (Inl e, w2) \<Rightarrow> (Inl e, end_tx (w2\<lparr>w_db := w_db w\<rparr>))
      | (Inr x, w2) \<Rightarrow>
          (let k = w_tick w2; w3 = w2\<lparr>w_tick := Suc k\<rparr> in
           if w_aborted w2 then (Inl (DriverError k), end_tx (w3\<lparr>w_db := w_db w\<rparr>))
           else case w_fault w2 k of
             NoFault \<Rightarrow> (Inr x, end_tx w3)
           | FailBefore \<Rightarrow> (Inl (DriverError k), end_tx (w3\<lparr>w_db := w_db w\<rparr>))
           | FailAfter \<Rightarrow> (Inl (DriverError k), end_tx w3)))"

text \<open>Queries, updates and inserts.\<close>

definition query :: "(time \<Rightarrow> 'd \<Rightarrow> 'a) \<Rightarrow> ('d db_world, 'a) prog" where
  "query f = sql (\<lambda>now d. Inr (f now d, d))"

definition violates :: "string \<Rightarrow> err" where
  "violates c = TextError (''constraint violation: '' @ c)"

text \<open>\<open>UPDATE \<dots> WHERE key = k\<close>: the number of rows is 0 or 1; the new row must satisfy the
  checks of the table.\<close>

definition update_at ::
    "string \<Rightarrow> ('r \<Rightarrow> bool) \<Rightarrow> 'k \<Rightarrow> ('r \<Rightarrow> 'r) \<Rightarrow> ('k \<times> 'r) list \<Rightarrow> err + nat \<times> ('k \<times> 'r) list" where
  "update_at name ok k f tab =
     (case map_of tab k of
        None \<Rightarrow> Inr (0, tab)
      | Some r \<Rightarrow> if ok (f r) then Inr (1, AList.update k (f r) tab) else Inl (violates name))"

definition insert_at ::
    "string \<Rightarrow> ('r \<Rightarrow> bool) \<Rightarrow> 'k \<Rightarrow> 'r \<Rightarrow> ('k \<times> 'r) list \<Rightarrow> err + ('k \<times> 'r) list" where
  "insert_at name ok k r tab =
     (if map_of tab k \<noteq> None \<or> \<not> ok r then Inl (violates name) else Inr (tab @ [(k, r)]))"

definition insert_ignore ::
    "string \<Rightarrow> ('r \<Rightarrow> bool) \<Rightarrow> 'k \<Rightarrow> 'r \<Rightarrow> ('k \<times> 'r) list \<Rightarrow> err + ('k \<times> 'r) list" where
  "insert_ignore name ok k r tab =
     (if \<not> ok r then Inl (violates name) else if map_of tab k \<noteq> None then Inr tab
      else Inr (tab @ [(k, r)]))"

text \<open>A statement on one table, given how to read and write that table.\<close>

definition on_table ::
    "('d \<Rightarrow> 't) \<Rightarrow> ('t \<Rightarrow> 'd \<Rightarrow> 'd) \<Rightarrow> (time \<Rightarrow> 't \<Rightarrow> err + 'a \<times> 't) \<Rightarrow> ('d, 'a) statement" where
  "on_table get put f now d = map_sum id (\<lambda>(x, t). (x, put t d)) (f now (get d))"

definition no_value :: "err + 't \<Rightarrow> err + unit \<times> 't" where
  "no_value r = map_sum id (\<lambda>t. ((), t)) r"

section \<open>Rules\<close>

text \<open>Observations of the database contents.\<close>

definition of_db :: "('d \<Rightarrow> 'v) \<Rightarrow> 'd db_world \<Rightarrow> 'v" where
  "of_db g w = g (w_db w)"

lemma fail_world_db [simp]: "w_db (fail_world w) = w_db w"
  by (simp add: fail_world_def)

lemma end_tx_db [simp]: "w_db (end_tx w) = w_db w"
  by (simp add: end_tx_def)

lemma sql_Inr:
  assumes "sql f w = (Inr x, w')"
  obtains now where "f now (w_db w) = Inr (x, w_db w')"
  using assms by (auto simp: sql_def Let_def split: if_splits fault.splits sum.splits prod.splits)

lemma sql_db_cases:
  assumes "sql f w = (r, w')"
  shows "w_db w' = w_db w \<or> (\<exists>now x. f now (w_db w) = Inr (x, w_db w'))"
  using assms by (auto simp: sql_def Let_def split: if_splits fault.splits sum.splits prod.splits)

lemma query_Inr:
  assumes "query f w = (Inr x, w')"
  obtains now where "f now (w_db w) = x" "w_db w' = w_db w"
proof -
  obtain now where "(Inr (f now (w_db w), w_db w) :: err + _) = Inr (x, w_db w')"
    using assms [unfolded query_def] by (rule sql_Inr)
  then show thesis by (intro that [of now]) auto
qed

lemma query_db: "query f w = (r, w') \<Longrightarrow> w_db w' = w_db w"
  by (auto simp: query_def sql_def Let_def split: if_splits fault.splits)

lemma frame_query [frame_intros]: "frame (of_db g) (query f)"
  by (rule frameI) (simp add: of_db_def query_db)

lemma keeps_query [keeps_intros]: "keeps (of_db g) (query f)"
  by (rule keepsI) (simp add: of_db_def query_db)

lemma keeps_sql:
  assumes "\<And>now d x d'. g d \<Longrightarrow> f now d = Inr (x, d') \<Longrightarrow> g d'"
  shows "keeps (of_db g) (sql f)"
  by (rule keepsI)
    (auto simp: of_db_def sql_def Let_def split: if_splits fault.splits sum.splits prod.splits dest: assms)

lemma frame_sql:
  assumes "\<And>now d x d'. f now d = Inr (x, d') \<Longrightarrow> g d' = g d"
  shows "frame (of_db g) (sql f)"
  by (rule frameI)
    (auto simp: of_db_def sql_def Let_def split: if_splits fault.splits sum.splits prod.splits dest: assms)

lemma store_only_of_db: "store_only (of_db g)"
  by (simp add: store_only_def of_db_def)

lemmas keeps_db_env = keeps_env [OF store_only_of_db]

lemmas frame_db_env = frame_clock_now [OF store_only_of_db] frame_new_uuid [OF store_only_of_db]
  frame_publish_event [OF store_only_of_db]

lemma frame_log_sql [frame_intros]: "frame env_log (sql f)"
  by (rule frameI)
    (auto simp: sql_def fail_world_def Let_def split: if_splits fault.splits sum.splits prod.splits)

lemma frame_log_query [frame_intros]: "frame env_log (query f)"
  unfolding query_def by (rule frame_log_sql)

lemma frame_log_with_tx:
  assumes "frame (\<lambda>w. f (env_log w)) m"
  shows "frame (\<lambda>w. f (env_log w)) (with_tx m)"
proof
  fix w r w' assume run: "with_tx m w = (r, w')"
  let ?w1 = "w\<lparr>w_tick := Suc (w_tick w), w_in_tx := True, w_aborted := False\<rparr>"
  obtain q w2 where m: "m ?w1 = (q, w2)" by fastforce
  with frameD [OF assms m] run show "f (env_log w') = f (env_log w)"
    by (auto simp: with_tx_def end_tx_def Let_def split: if_splits sum.splits fault.splits)
qed

lemma with_tx_Inr:
  assumes "with_tx m w = (Inr x, w')"
  obtains w1 w2 where "w_db w1 = w_db w" "m w1 = (Inr x, w2)" "w_db w' = w_db w2"
proof -
  let ?w1 = "w\<lparr>w_tick := Suc (w_tick w), w_in_tx := True, w_aborted := False\<rparr>"
  obtain r w2 where m: "m ?w1 = (r, w2)" by fastforce
  with assms have "r = Inr x" "w_db w' = w_db w2"
    by (auto simp: with_tx_def Let_def split: if_splits sum.splits fault.splits)
  with m show thesis by (intro that [of ?w1 w2]) simp_all
qed

text \<open>A transaction that reports an error changed nothing, or did all its work and lost the
  reply to its commit.\<close>

lemma with_tx_Inl:
  assumes "with_tx m w = (Inl e, w')"
  obtains (rolled_back) "w_db w' = w_db w"
  | (committed) w1 w2 x where "w_db w1 = w_db w" "m w1 = (Inr x, w2)" "w_db w' = w_db w2"
proof -
  let ?w1 = "w\<lparr>w_tick := Suc (w_tick w), w_in_tx := True, w_aborted := False\<rparr>"
  obtain r w2 where m: "m ?w1 = (r, w2)" by fastforce
  show thesis
  proof (cases r)
    case (Inl x)
    with assms m have "w_db w' = w_db w"
      by (auto simp: with_tx_def Let_def split: if_splits)
    then show thesis by (rule rolled_back)
  next
    case (Inr x)
    with assms m have "w_db w' = w_db w \<or> w_db w' = w_db w2"
      by (auto simp: with_tx_def Let_def split: if_splits fault.splits)
    with committed [of ?w1 x w2] rolled_back m Inr show thesis by auto
  qed
qed

lemma keeps_with_tx:
  assumes "keeps (of_db g) m"
  shows "keeps (of_db g) (with_tx m)"
proof
  fix s r s' assume run: "with_tx m s = (r, s')" and g: "of_db g s"
  have m: "g (w_db w2)" if "w_db w1 = w_db s" "m w1 = (q, w2)" for w1 w2 q
    using keepsD [OF assms that(2)] that(1) g by (simp add: of_db_def)
  show "of_db g s'"
  proof (cases r)
    case (Inl e)
    from run [unfolded Inl] show ?thesis
      by (cases rule: with_tx_Inl) (use g m in \<open>auto simp: of_db_def\<close>)
  next
    case (Inr x)
    from run [unfolded Inr] show ?thesis
      by (rule with_tx_Inr) (use m in \<open>auto simp: of_db_def\<close>)
  qed
qed

text \<open>The same two facts for an observation of the database.\<close>

lemma with_tx_ok_view: "with_tx m s = (Inr x, s') \<Longrightarrow>
    \<exists>s1 s2. of_db g s1 = of_db g s \<and> (of_db i s \<longrightarrow> of_db i s1) \<and> m s1 = (Inr x, s2) \<and> of_db g s' = of_db g s2"
proof (erule with_tx_Inr)
  fix w1 w2 assume "w_db w1 = w_db s" "m w1 = (Inr x, w2)" "w_db s' = w_db w2"
  then show ?thesis by (intro exI [of _ w1] exI [of _ w2]) (simp add: of_db_def)
qed

lemma with_tx_fail_view: "with_tx m s = (Inl e, s') \<Longrightarrow> of_db g s' = of_db g s \<or>
    (\<exists>x s1 s2. of_db g s1 = of_db g s \<and> (of_db i s \<longrightarrow> of_db i s1) \<and> m s1 = (Inr x, s2) \<and> of_db g s' = of_db g s2)"
proof (erule with_tx_Inl)
  fix w1 w2 x assume "w_db w1 = w_db s" "m w1 = (Inr x, w2)" "w_db s' = w_db w2"
  then show ?thesis by (intro disjI2 exI [of _ x] exI [of _ w1] exI [of _ w2]) (simp add: of_db_def)
qed (simp add: of_db_def)

lemma with_tx_view_ok: "with_tx m s = (Inr x, s') \<Longrightarrow>
    \<exists>s1 s2. of_db g s1 = of_db g s \<and> m s1 = (Inr x, s2) \<and> of_db g s' = of_db g s2"
  by (drule with_tx_ok_view [where g = g and i = "\<lambda>d. True"]) auto

lemma with_tx_view_fail: "with_tx m s = (Inl e, s') \<Longrightarrow> of_db g s' = of_db g s \<or>
    (\<exists>x s1 s2. of_db g s1 = of_db g s \<and> m s1 = (Inr x, s2) \<and> of_db g s' = of_db g s2)"
  by (drule with_tx_fail_view [where g = g and i = "\<lambda>d. True"]) auto

lemma on_table_Inr: "on_table get put f now d = Inr (x, d') \<longleftrightarrow>
    (\<exists>t. f now (get d) = Inr (x, t) \<and> d' = put t d)"
  by (auto simp: on_table_def map_sum_def split: sum.splits prod.splits)

lemma update_at_Inr: "update_at name ok k f tab = Inr (n, tab') \<longleftrightarrow>
    (case map_of tab k of None \<Rightarrow> n = 0 \<and> tab' = tab
     | Some r \<Rightarrow> n = 1 \<and> ok (f r) \<and> tab' = AList.update k (f r) tab)"
  by (auto simp: update_at_def split: option.splits)

lemma update_at_map: "update_at name ok k f tab = Inr (n, tab') \<Longrightarrow>
    map_of tab' = (map_of tab)(k := map_option f (map_of tab k)) \<and> n = (if map_of tab k = None then 0 else 1)"
  by (auto simp: update_at_Inr update_conv' fun_upd_idem split: option.splits)

lemma insert_at_Inr: "insert_at name ok k r tab = Inr tab' \<longleftrightarrow>
    map_of tab k = None \<and> ok r \<and> tab' = tab @ [(k, r)]"
  by (auto simp: insert_at_def)

lemma insert_at_map: "insert_at name ok k r tab = Inr tab' \<Longrightarrow> map_of tab' = (map_of tab)(k \<mapsto> r)"
  by (auto simp: insert_at_Inr map_add_def fun_eq_iff split: option.splits)

lemma no_value_Inr: "no_value r = Inr (u, t) \<longleftrightarrow> r = Inr t"
  by (cases r) (auto simp: no_value_def)

lemma rows_dropped: "map_sum id (\<lambda>(_, t). ((), t)) r = Inr (u, t) \<longleftrightarrow> (\<exists>n. r = Inr (n, t))"
  by (cases r) auto

lemmas stmt_iffs = on_table_Inr no_value_Inr

section \<open>Fault-free runs\<close>

definition healthy :: "'d db_world \<Rightarrow> bool" where
  "healthy w \<longleftrightarrow> (\<forall>n. w_fault w n = NoFault) \<and> \<not> w_aborted w"

lemma query_healthy: "healthy w \<Longrightarrow>
    query f w = (Inr (f (w_sql_now w (w_tick w)) (w_db w)), w\<lparr>w_tick := Suc (w_tick w)\<rparr>)"
  by (simp add: query_def sql_def healthy_def Let_def)

lemma healthy_tick [simp]: "healthy (w\<lparr>w_tick := n\<rparr>) = healthy w"
  by (simp add: healthy_def)

section \<open>Statements that do not matter to an observation\<close>

lemma frame_on_table:
  "(\<And>x d. g (put x d) = g d) \<Longrightarrow> frame (of_db g) (sql (on_table get put f))"
  by (rule frame_sql) (auto simp: on_table_Inr)

lemma sql_table_Inr:
  assumes "sql (on_table get put f) w = (Inr x, w')"
  obtains now t where "f now (get (w_db w)) = Inr (x, t)" "w_db w' = put t (w_db w)"
  using assms by (auto simp: on_table_Inr elim!: sql_Inr)

section \<open>Commits whose error is not the answer\<close>

text \<open>A transaction whose body decides what a failed commit means: a begin or a body that fails is
  an error, otherwise the value comes with the error of the commit, if there was one.\<close>

definition commit_report :: "('d db_world, 'a) prog \<Rightarrow> ('d db_world, 'a \<times> err option) prog" where
  "commit_report m w =
     (let n = w_tick w; w0 = w\<lparr>w_tick := Suc n\<rparr> in
      if w_fault w n \<noteq> NoFault then (Inl (DriverError n), w0)
      else case m (w0\<lparr>w_in_tx := True, w_aborted := False\<rparr>) of
        (Inl e, w2) \<Rightarrow> (Inl e, end_tx (w2\<lparr>w_db := w_db w\<rparr>))
      | (Inr x, w2) \<Rightarrow>
          (let k = w_tick w2; w3 = w2\<lparr>w_tick := Suc k\<rparr> in
           if w_aborted w2 then (Inr (x, Some (DriverError k)), end_tx (w3\<lparr>w_db := w_db w\<rparr>))
           else case w_fault w2 k of
             NoFault \<Rightarrow> (Inr (x, None), end_tx w3)
           | FailBefore \<Rightarrow> (Inr (x, Some (DriverError k)), end_tx (w3\<lparr>w_db := w_db w\<rparr>))
           | FailAfter \<Rightarrow> (Inr (x, Some (DriverError k)), end_tx w3)))"

lemma commit_report_db:
  assumes "commit_report m w = (r, w')"
  obtains (unchanged) "w_db w' = w_db w"
  | (committed) w1 w2 x where "w_db w1 = w_db w" "m w1 = (Inr x, w2)" "w_db w' = w_db w2"
      "r = Inr (x, None) \<or> (\<exists>e. r = Inr (x, Some e))"
proof -
  let ?w1 = "w\<lparr>w_tick := Suc (w_tick w), w_in_tx := True, w_aborted := False\<rparr>"
  obtain q w2 where m: "m ?w1 = (q, w2)" by fastforce
  show thesis
  proof (cases q)
    case (Inl e)
    with assms m have "w_db w' = w_db w" by (auto simp: commit_report_def Let_def split: if_splits)
    then show thesis by (rule unchanged)
  next
    case (Inr x)
    with assms m have "w_db w' = w_db w \<or> w_db w' = w_db w2 \<and> (r = Inr (x, None) \<or> (\<exists>e. r = Inr (x, Some e)))"
      by (auto simp: commit_report_def Let_def split: if_splits fault.splits)
    with committed [of ?w1 x w2] unchanged m Inr show thesis by auto
  qed
qed

lemma commit_report_ok:
  assumes "commit_report m w = (Inr (x, None), w')"
  obtains w1 w2 where "w_db w1 = w_db w" "m w1 = (Inr x, w2)" "w_db w' = w_db w2"
proof -
  let ?w1 = "w\<lparr>w_tick := Suc (w_tick w), w_in_tx := True, w_aborted := False\<rparr>"
  obtain q w2 where m: "m ?w1 = (q, w2)" by fastforce
  with assms have "q = Inr x" "w_db w' = w_db w2"
    by (auto simp: commit_report_def Let_def split: if_splits sum.splits fault.splits)
  with m show thesis by (intro that [of ?w1 w2]) simp_all
qed

lemma keeps_commit_report:
  assumes "keeps (of_db g) m"
  shows "keeps (of_db g) (commit_report m)"
proof
  fix s r s' assume run: "commit_report m s = (r, s')" and g: "of_db g s"
  from run show "of_db g s'"
    by (cases rule: commit_report_db) (use g keepsD [OF assms] in \<open>auto simp: of_db_def\<close>)
qed

end
