(* ===== verification/Exec_Task.thy ===== *)
theory Exec_Task
  imports Event
begin

text \<open>
  The warehouse task of \<open>internal/execution/domain/task.go\<close> and the data of
  \<open>internal/execution/ports/task.go\<close>: the task record, its claim and release transitions,
  the filter, page, summary and dashboard types.
\<close>

section \<open>Statuses, categories and errors\<close>

definition StatusNew :: string where [const_defs]: "StatusNew = ''NEW''"
definition StatusAssigned :: string where [const_defs]: "StatusAssigned = ''ASSIGNED''"
definition StatusInProgress :: string where [const_defs]: "StatusInProgress = ''IN_PROGRESS''"
definition StatusCompleted :: string where [const_defs]: "StatusCompleted = ''COMPLETED''"
definition StatusOnHold :: string where [const_defs]: "StatusOnHold = ''ON_HOLD''"

definition CategoryReceiving :: string where [const_defs]: "CategoryReceiving = ''RECEIVING''"
definition CategoryPutaway :: string where [const_defs]: "CategoryPutaway = ''PUTAWAY''"
definition CategoryPicking :: string where [const_defs]: "CategoryPicking = ''PICKING''"
definition CategoryReplenishment :: string where
  [const_defs]: "CategoryReplenishment = ''REPLENISHMENT''"
definition CategoryCycleCount :: string where [const_defs]: "CategoryCycleCount = ''CYCLE_COUNT''"

definition ErrTaskLocked :: err where
  [err_defs]: "ErrTaskLocked =
     DomainError ''TASK_LOCKED'' ''Task is assigned to another operator'' False"
definition ErrTaskNotAssigned :: err where
  [err_defs]: "ErrTaskNotAssigned =
     DomainError ''TASK_NOT_ASSIGNED'' ''Task is not assigned to this operator'' False"
definition ErrVersionConflict :: err where
  [err_defs]: "ErrVersionConflict =
     DomainError ''TASK_VERSION_CONFLICT'' ''Task version has changed'' False"
definition ErrTaskNotFound :: err where
  [err_defs]: "ErrTaskNotFound = DomainError ''TASK_NOT_FOUND'' ''Task not found'' False"

section \<open>The task\<close>

record receiving_line_snapshot =
  rl_line :: string
  rl_item :: string
  rl_sku :: string
  rl_item_name :: string
  rl_uom :: string
  rl_lot :: string
  rl_barcode :: string
  rl_expected :: rat
  rl_handed_over :: rat
  rl_received :: rat
  rl_remaining :: rat
  rl_lot_required :: bool
  rl_serial_required :: bool

record task =
  tk_id :: string
  tk_category :: string
  tk_status :: string
  tk_priority :: int64
  tk_title :: string
  tk_line_count :: int64
  tk_piece_count :: int64
  tk_due :: "time option"
  tk_warehouse :: string
  tk_operator :: "string option"
  tk_lock_state :: string
  tk_version :: int64
  tk_created :: time
  tk_updated :: time
  tk_purchase_order :: string
  tk_lpn :: string
  tk_supplier :: string
  tk_lines :: "receiving_line_snapshot list"

definition claim :: "string \<Rightarrow> int64 \<Rightarrow> time \<Rightarrow> task \<Rightarrow> err + task" where
  "claim operator base now t =
     (if tk_version t \<noteq> base then Inl ErrVersionConflict
      else if tk_operator t \<noteq> None \<and> tk_operator t \<noteq> Some operator then Inl ErrTaskLocked
      else if tk_operator t = Some operator \<and> tk_status t = StatusAssigned then Inr t
      else Inr (t\<lparr>tk_operator := Some operator, tk_status := StatusAssigned,
                  tk_version := tk_version t + 1, tk_updated := now\<rparr>))"

definition release :: "string \<Rightarrow> int64 \<Rightarrow> time \<Rightarrow> task \<Rightarrow> err + task" where
  "release operator base now t =
     (if tk_version t \<noteq> base then Inl ErrVersionConflict
      else if tk_operator t \<noteq> Some operator then Inl ErrTaskNotAssigned
      else Inr (t\<lparr>tk_operator := None, tk_status := StatusNew,
                  tk_version := tk_version t + 1, tk_updated := now\<rparr>))"

text \<open>What the two transitions keep and change: never the identity, the warehouse or the
  contents of the task, and the version by at most one step.\<close>

definition same_work :: "task \<Rightarrow> task \<Rightarrow> bool" where
  "same_work t t' \<longleftrightarrow>
     t' = t\<lparr>tk_operator := tk_operator t', tk_status := tk_status t', tk_version := tk_version t',
           tk_updated := tk_updated t'\<rparr>"

lemma same_work_id: "same_work t t' \<Longrightarrow> tk_id t' = tk_id t"
  unfolding same_work_def by (drule arg_cong [where f = tk_id]) simp

lemma same_work_warehouse: "same_work t t' \<Longrightarrow> tk_warehouse t' = tk_warehouse t"
  unfolding same_work_def by (drule arg_cong [where f = tk_warehouse]) simp

lemma same_work_category: "same_work t t' \<Longrightarrow> tk_category t' = tk_category t"
  unfolding same_work_def by (drule arg_cong [where f = tk_category]) simp

lemmas same_work_simps = same_work_id same_work_warehouse same_work_category

lemma claim_ok:
  assumes "claim operator base now t = Inr t'"
  shows "tk_version t = base" and "tk_operator t' = Some operator" and "tk_status t' = StatusAssigned"
    and "same_work t t'"
    and "t' = t \<or> tk_version t' = base + 1 \<and> tk_updated t' = now"
    and "tk_operator t = None \<or> tk_operator t = Some operator"
  using assms by (auto simp: claim_def same_work_def split: if_splits)

lemma claim_changed:
  "claim operator base now t = Inr t' \<Longrightarrow> tk_version t' \<noteq> tk_version t \<longleftrightarrow>
     \<not> (tk_operator t = Some operator \<and> tk_status t = StatusAssigned)"
  by (auto simp: claim_def split: if_splits)

lemma release_ok:
  assumes "release operator base now t = Inr t'"
  shows "tk_version t = base" and "tk_operator t = Some operator" and "tk_operator t' = None"
    and "tk_status t' = StatusNew" and "same_work t t'" and "tk_version t' = base + 1"
    and "tk_updated t' = now"
  using assms by (auto simp: release_def same_work_def split: if_splits)

section \<open>Filters, pages, summaries\<close>

record task_filter =
  tf_warehouse :: string
  tf_operator :: string
  tf_category :: string
  tf_status :: string
  tf_query :: string
  tf_cursor :: string
  tf_priority_min :: int64
  tf_priority_max :: int64
  tf_zone :: string
  tf_date_from :: string
  tf_date_to :: string
  tf_sort :: string
  tf_direction :: string
  tf_limit :: int64

record task_page =
  tp_tasks :: "task list"
  tp_next_cursor :: "string option"

record summary_item =
  si_category :: string
  si_status :: string
  si_count :: int64

record dashboard =
  db_inbound :: int64
  db_putaway :: int64
  db_picking :: int64
  db_shipping :: int64
  db_in_progress_count :: int64
  db_completed_count :: int64
  db_percent :: rat
  db_pending_sync :: "int64 option"
  db_alerts :: int64
  db_as_of :: time
  db_total :: int64
  db_assigned :: int64
  db_in_progress :: int64
  db_completed :: int64
  db_high_priority :: int64
  db_updated :: time

definition zero_dashboard :: dashboard where
  "zero_dashboard = \<lparr>db_inbound = 0, db_putaway = 0, db_picking = 0, db_shipping = 0,
     db_in_progress_count = 0, db_completed_count = 0, db_percent = 0, db_pending_sync = None,
     db_alerts = 0, db_as_of = time_zero, db_total = 0, db_assigned = 0, db_in_progress = 0,
     db_completed = 0, db_high_priority = 0, db_updated = time_zero\<rparr>"

record idempotency_result =
  ir_task :: task
  ir_event :: envelope

end
