(* ===== verification/Movement_Domain.thy ===== *)
theory Movement_Domain
  imports Event
begin

text \<open>
  Putaway, picking and replenishment tasks: \<open>internal/execution/movement/domain/movement.go\<close>.
  A transition returns the task it leaves behind, or the error with which it refuses; none
  of them assigns to the task before its last guard. \<open>RelatedTasks\<close>, a list of further tasks
  that is copied for display only, is left out of the record.
\<close>

section \<open>Workflows, statuses, errors\<close>

definition Putaway :: string where [const_defs]: "Putaway = ''PUTAWAY''"
definition Picking :: string where [const_defs]: "Picking = ''PICKING''"
definition Replenishment :: string where [const_defs]: "Replenishment = ''REPLENISHMENT''"
definition MvNew :: string where [const_defs]: "MvNew = ''NEW''"
definition MvAssigned :: string where [const_defs]: "MvAssigned = ''ASSIGNED''"
definition MvInProgress :: string where [const_defs]: "MvInProgress = ''IN_PROGRESS''"
definition MvPartiallyCompleted :: string where
  [const_defs]: "MvPartiallyCompleted = ''PARTIALLY_COMPLETED''"
definition MvCompleted :: string where [const_defs]: "MvCompleted = ''COMPLETED''"

definition ErrMvNotFound :: err where
  [err_defs]: "ErrMvNotFound = DomainError ''TASK_NOT_FOUND'' ''Movement task not found'' False"
definition ErrMvNotAssigned :: err where
  [err_defs]: "ErrMvNotAssigned =
     DomainError ''TASK_NOT_ASSIGNED'' ''Movement task is assigned to another operator'' False"
definition ErrMvVersion :: err where
  [err_defs]: "ErrMvVersion =
     DomainError ''TASK_VERSION_CONFLICT'' ''Movement task version has changed'' False"
definition ErrSource :: err where
  [err_defs]: "ErrSource = DomainError ''SOURCE_LOCATION_INVALID'' ''Source location is invalid'' False"
definition ErrDestination :: err where
  [err_defs]: "ErrDestination =
     DomainError ''DESTINATION_LOCATION_INVALID'' ''Destination location is invalid'' False"
definition ErrItem :: err where
  [err_defs]: "ErrItem = DomainError ''ITEM_INVALID'' ''Item or barcode is invalid'' False"
definition ErrSequence :: err where
  [err_defs]: "ErrSequence =
     DomainError ''VALIDATION_SEQUENCE_INVALID'' ''Required validation steps are incomplete'' False"
definition ErrQuantity :: err where
  [err_defs]: "ErrQuantity =
     DomainError ''QUANTITY_EXCEEDS_ALLOWED'' ''Quantity exceeds the remaining requirement'' False"
definition ErrStock :: err where
  [err_defs]: "ErrStock =
     DomainError ''INSUFFICIENT_STOCK'' ''Source location has insufficient stock'' False"
definition ErrCapacity :: err where
  [err_defs]: "ErrCapacity = DomainError ''LOCATION_CAPACITY_EXCEEDED''
     ''Destination location has insufficient compatible capacity'' False"
definition ErrIncomplete :: err where
  [err_defs]: "ErrIncomplete =
     DomainError ''TASK_INCOMPLETE'' ''Remaining required quantity must be zero'' False"
definition ErrNotInProgress :: err where
  [err_defs]: "ErrNotInProgress =
     DomainError ''TASK_NOT_IN_PROGRESS'' ''Task must be started before execution'' False"
definition ErrNotStartable :: err where
  [err_defs]: "ErrNotStartable =
     DomainError ''TASK_NOT_STARTABLE'' ''Task must be claimed before it starts'' False"
definition ErrLot :: err where
  [err_defs]: "ErrLot = DomainError ''LOT_INVALID'' ''Lot is not assigned to this putaway task'' False"

section \<open>The task and its transitions\<close>

record movement =
  mv_id :: string
  mv_parent :: string
  mv_line :: string
  mv_workflow :: string
  mv_status :: string
  mv_warehouse :: string
  mv_operator :: "string option"
  mv_version :: int64
  mv_source :: string
  mv_source_id :: string
  mv_source_code :: string
  mv_source_name :: string
  mv_source_bin :: string
  mv_source_bin_id :: string
  mv_source_bin_code :: string
  mv_dest :: string
  mv_dest_id :: string
  mv_dest_code :: string
  mv_dest_name :: string
  mv_dest_short_code :: string
  mv_dest_bin_id :: string
  mv_dest_bin_code :: string
  mv_item :: string
  mv_item_code :: string
  mv_item_name :: string
  mv_fulfillment :: string
  mv_sales_order :: string
  mv_sales_order_code :: string
  mv_material_request :: string
  mv_work_order :: string
  mv_work_order_code :: string
  mv_receipt :: string
  mv_receipt_code :: string
  mv_lot_id :: string
  mv_lpn :: string
  mv_uom :: string
  mv_barcode :: string
  mv_lot :: string
  mv_required :: int64
  mv_done :: int64
  mv_source_ok :: bool
  mv_lpn_ok :: bool
  mv_dest_ok :: bool
  mv_item_ok :: bool
  mv_lot_ok :: bool
  mv_scan_requirements :: "string list"
  mv_active_lines :: "string list"
  mv_updated :: time

definition remaining :: "movement \<Rightarrow> int64" where
  "remaining t = mv_required t - mv_done t"

definition mv_guard :: "string \<Rightarrow> int64 \<Rightarrow> movement \<Rightarrow> err + unit" where
  "mv_guard operator base t =
     (if mv_version t \<noteq> base then Inl ErrMvVersion
      else if mv_operator t \<noteq> Some operator then Inl ErrMvNotAssigned
      else if mv_status t \<noteq> MvInProgress \<and> mv_status t \<noteq> MvPartiallyCompleted then Inl ErrNotInProgress
      else Inr ())"

definition touch :: "time \<Rightarrow> movement \<Rightarrow> movement" where
  "touch now t = t\<lparr>mv_version := mv_version t + 1, mv_updated := now\<rparr>"

definition mv_claim :: "string \<Rightarrow> int64 \<Rightarrow> time \<Rightarrow> movement \<Rightarrow> err + movement" where
  "mv_claim operator base now t =
     (if mv_version t \<noteq> base then Inl ErrMvVersion
      else if mv_operator t \<noteq> None \<and> mv_operator t \<noteq> Some operator then Inl ErrMvNotAssigned
      else if mv_operator t \<noteq> None \<and> mv_status t = MvAssigned then Inr t
      else Inr (touch now (t\<lparr>mv_operator := Some operator, mv_status := MvAssigned\<rparr>)))"

definition mv_start :: "string \<Rightarrow> int64 \<Rightarrow> time \<Rightarrow> movement \<Rightarrow> err + movement" where
  "mv_start operator base now t =
     (if mv_version t \<noteq> base then Inl ErrMvVersion
      else if mv_operator t \<noteq> Some operator then Inl ErrMvNotAssigned
      else if mv_status t = MvInProgress then Inr t
      else if mv_status t \<noteq> MvAssigned then Inl ErrNotStartable
      else Inr (touch now (t\<lparr>mv_status := MvInProgress\<rparr>)))"

definition matches_any :: "string \<Rightarrow> string list \<Rightarrow> bool" where
  "matches_any value candidates \<longleftrightarrow>
     (\<exists>c \<in> set candidates. c \<noteq> '''' \<and> equal_fold (trim_space value) (trim_space c))"

definition source_matches :: "string \<Rightarrow> movement \<Rightarrow> bool" where
  "source_matches value t \<longleftrightarrow>
     (if mv_source_bin_id t \<noteq> '''' \<or> mv_source_bin_code t \<noteq> ''''
      then matches_any value [mv_source_bin_code t, mv_source_bin_id t]
      else matches_any value [mv_source t, mv_source_code t, mv_source_id t])"

definition dest_matches :: "string \<Rightarrow> movement \<Rightarrow> bool" where
  "dest_matches value t \<longleftrightarrow>
     (if mv_dest_bin_id t \<noteq> '''' \<or> mv_dest_bin_code t \<noteq> ''''
      then matches_any value [mv_dest_bin_code t, mv_dest_bin_id t]
      else matches_any value [mv_dest t, mv_dest_code t, mv_dest_id t])"

text \<open>The transitions that an operator makes on a started task run their own checks after
  the common guard.\<close>

definition guarded ::
    "string \<Rightarrow> int64 \<Rightarrow> movement \<Rightarrow> (err + movement) \<Rightarrow> err + movement" where
  "guarded operator base t r = (case mv_guard operator base t of Inl e \<Rightarrow> Inl e | Inr _ \<Rightarrow> r)"

definition validate_source :: "string \<Rightarrow> string \<Rightarrow> int64 \<Rightarrow> time \<Rightarrow> movement \<Rightarrow> err + movement" where
  "validate_source operator value base now t = guarded operator base t
     (if \<not> source_matches value t then Inl ErrSource
      else Inr (touch now (t\<lparr>mv_source_ok := True\<rparr>)))"

definition validate_destination ::
    "string \<Rightarrow> string \<Rightarrow> int64 \<Rightarrow> time \<Rightarrow> movement \<Rightarrow> err + movement" where
  "validate_destination operator value base now t = guarded operator base t
     (if \<not> mv_source_ok t then Inl ErrSequence
      else if \<not> dest_matches value t then Inl ErrDestination
      else Inr (touch now (t\<lparr>mv_dest_ok := True\<rparr>)))"

definition validate_item :: "string \<Rightarrow> string \<Rightarrow> int64 \<Rightarrow> time \<Rightarrow> movement \<Rightarrow> err + movement" where
  "validate_item operator barcode base now t = guarded operator base t
     (if \<not> mv_source_ok t \<or> (mv_workflow t = Replenishment \<and> \<not> mv_dest_ok t) then Inl ErrSequence
      else if barcode \<noteq> mv_barcode t then Inl ErrItem
      else Inr (touch now (t\<lparr>mv_item_ok := True\<rparr>)))"

definition validate_lot :: "string \<Rightarrow> string \<Rightarrow> int64 \<Rightarrow> time \<Rightarrow> movement \<Rightarrow> err + movement" where
  "validate_lot operator lot base now t = guarded operator base t
     (if \<not> mv_source_ok t \<or> \<not> mv_item_ok t then Inl ErrSequence
      else if mv_lot t \<noteq> '''' \<and> lot \<noteq> mv_lot t then Inl ErrLot
      else Inr (touch now (t\<lparr>mv_lot_ok := True, mv_status := MvInProgress\<rparr>)))"

definition validated :: "movement \<Rightarrow> bool" where
  "validated t \<longleftrightarrow> mv_source_ok t \<and> mv_dest_ok t
     \<and> \<not> (mv_workflow t \<noteq> Picking \<and> \<not> mv_item_ok t)
     \<and> \<not> (mv_workflow t \<noteq> Picking \<and> mv_lot t \<noteq> '''' \<and> \<not> mv_lot_ok t)"

definition move :: "string \<Rightarrow> int64 \<Rightarrow> int64 \<Rightarrow> time \<Rightarrow> movement \<Rightarrow> err + movement" where
  "move operator quantity base now t = guarded operator base t
     (if \<not> validated t then Inl ErrSequence
      else if i64_le quantity 0 \<or> i64_less (remaining t) quantity then Inl ErrQuantity
      else let t1 = touch now (t\<lparr>mv_done := mv_done t + quantity\<rparr>) in
        Inr (t1\<lparr>mv_status := if remaining t1 = 0 then MvCompleted else MvPartiallyCompleted\<rparr>))"

definition guard_completion :: "string \<Rightarrow> int64 \<Rightarrow> movement \<Rightarrow> err + unit" where
  "guard_completion operator base t = mv_guard operator base t"

record location =
  lo_id :: string
  lo_zone :: string
  lo_capacity :: int64
  lo_used :: int64
  lo_item :: "string option"

section \<open>What the transitions keep\<close>

text \<open>No transition touches the identity of a task or the work it describes; the version
  moves by one, except when a claim or a start finds its work already done.\<close>

definition mv_frame :: "movement \<Rightarrow> movement" where
  "mv_frame t = t\<lparr>mv_operator := None, mv_status := '''', mv_version := 0, mv_done := 0,
     mv_source_ok := False, mv_dest_ok := False, mv_item_ok := False, mv_lot_ok := False, mv_updated := 0\<rparr>"

definition mv_work :: "movement \<Rightarrow> movement \<Rightarrow> bool" where
  "mv_work t t' \<longleftrightarrow> mv_frame t' = mv_frame t"

lemma mv_work_sel:
  assumes "mv_work t t'"
  shows "mv_id t' = mv_id t" "mv_workflow t' = mv_workflow t" "mv_warehouse t' = mv_warehouse t"
    "mv_source t' = mv_source t" "mv_dest t' = mv_dest t" "mv_item t' = mv_item t"
    "mv_required t' = mv_required t" "mv_barcode t' = mv_barcode t" "mv_lot t' = mv_lot t"
proof -
  note eq = assms [unfolded mv_work_def]
  show "mv_id t' = mv_id t" "mv_workflow t' = mv_workflow t" "mv_warehouse t' = mv_warehouse t"
    "mv_source t' = mv_source t" "mv_dest t' = mv_dest t" "mv_item t' = mv_item t"
    "mv_required t' = mv_required t" "mv_barcode t' = mv_barcode t" "mv_lot t' = mv_lot t"
    using arg_cong [OF eq, of mv_id] arg_cong [OF eq, of mv_workflow] arg_cong [OF eq, of mv_warehouse]
      arg_cong [OF eq, of mv_source] arg_cong [OF eq, of mv_dest] arg_cong [OF eq, of mv_item]
      arg_cong [OF eq, of mv_required] arg_cong [OF eq, of mv_barcode] arg_cong [OF eq, of mv_lot]
    by (simp_all add: mv_frame_def)
qed

lemma guarded_Inr: "guarded operator base t r = Inr t' \<longleftrightarrow>
    mv_version t = base \<and> mv_operator t = Some operator
    \<and> (mv_status t = MvInProgress \<or> mv_status t = MvPartiallyCompleted) \<and> r = Inr t'"
  by (auto simp: guarded_def mv_guard_def split: if_splits)

lemmas mv_defs = mv_claim_def mv_start_def validate_source_def validate_destination_def
  validate_item_def validate_lot_def move_def touch_def guarded_Inr

text \<open>Quantities: what is done stays between zero and what is required.\<close>

definition mv_quantities :: "movement \<Rightarrow> bool" where
  "mv_quantities t \<longleftrightarrow> 0 \<le> sint (mv_done t) \<and> sint (mv_done t) \<le> sint (mv_required t)"

lemma remaining_sint: "mv_quantities t \<Longrightarrow> sint (remaining t) = sint (mv_required t) - sint (mv_done t)"
  by (simp add: mv_quantities_def remaining_def sint_minus_nonneg)

lemma move_ok:
  assumes "move operator quantity base now t = Inr t'" and "mv_quantities t"
  shows "mv_work t t'" and "validated t" and "0 < sint quantity"
    and "sint (mv_done t') = sint (mv_done t) + sint quantity" and "mv_quantities t'"
    and "mv_version t' = mv_version t + 1" and "mv_version t = base" and "mv_operator t = Some operator"
    and "mv_status t' = (if sint (mv_done t') = sint (mv_required t') then MvCompleted else MvPartiallyCompleted)"
    and "mv_source_ok t' = mv_source_ok t" "mv_dest_ok t' = mv_dest_ok t" "mv_item_ok t' = mv_item_ok t"
proof -
  define t1 where "t1 = touch now (t\<lparr>mv_done := mv_done t + quantity\<rparr>)"
  from assms(1) have g: "mv_version t = base" "mv_operator t = Some operator" "validated t"
      "\<not> i64_le quantity 0" "\<not> i64_less (remaining t) quantity"
    and t': "t' = t1\<lparr>mv_status := if remaining t1 = 0 then MvCompleted else MvPartiallyCompleted\<rparr>"
    by (auto simp: move_def guarded_Inr Let_def t1_def split: if_splits)
  from g(4,5) have q: "0 < sint quantity" "sint quantity \<le> sint (mv_required t) - sint (mv_done t)"
    by (auto simp: i64_le_def i64_less_def remaining_sint [OF assms(2)])
  have dn: "sint (mv_done t + quantity) = sint (mv_done t) + sint quantity"
    using assms(2) q sint_int64_bounds [of "mv_required t"]
    by (intro sint_plus_int64) (auto simp: in_int64_def mv_quantities_def min_int64_def max_int64_def)
  have quant: "mv_quantities t1" using assms(2) q dn by (auto simp: mv_quantities_def t1_def touch_def)
  have zero: "remaining t1 = 0 \<longleftrightarrow> sint (mv_done t1) = sint (mv_required t1)"
    using remaining_sint [OF quant] by (metis signed_eq_0_iff diff_eq_eq add_0)
  show "mv_work t t'" by (simp add: mv_work_def mv_frame_def t' t1_def touch_def)
  show "sint (mv_done t') = sint (mv_done t) + sint quantity" "mv_version t' = mv_version t + 1"
    "mv_source_ok t' = mv_source_ok t" "mv_dest_ok t' = mv_dest_ok t" "mv_item_ok t' = mv_item_ok t"
    by (simp_all add: t' t1_def touch_def dn)
  show "mv_quantities t'" using quant by (simp add: mv_quantities_def t')
  show "mv_status t' = (if sint (mv_done t') = sint (mv_required t') then MvCompleted else MvPartiallyCompleted)"
    using zero by (simp add: t')
qed (use assms(1) in \<open>auto simp: move_def guarded_Inr Let_def i64_le_def split: if_splits\<close>)

end
