(* ===== verification/Receiving_Domain.thy ===== *)
theory Receiving_Domain
  imports Event
begin

text \<open>
  Receiving tasks: \<open>internal/execution/receiving/domain/receiving.go\<close>, with their policy,
  their lines, and the transitions start, claim, confirm and complete.
\<close>

section \<open>Statuses and errors\<close>

definition RvNew :: string where [const_defs]: "RvNew = ''NEW''"
definition RvInProgress :: string where [const_defs]: "RvInProgress = ''IN_PROGRESS''"
definition RvPartiallyCompleted :: string where
  [const_defs]: "RvPartiallyCompleted = ''PARTIALLY_COMPLETED''"
definition RvCompleted :: string where [const_defs]: "RvCompleted = ''COMPLETED''"

definition ErrRvNotFound :: err where
  [err_defs]: "ErrRvNotFound = DomainError ''TASK_NOT_FOUND'' ''Receiving task not found'' False"
definition ErrRvNotAssigned :: err where
  [err_defs]: "ErrRvNotAssigned =
     DomainError ''TASK_NOT_ASSIGNED'' ''Receiving task is not assigned to this operator'' False"
definition ErrAlreadyCompleted :: err where
  [err_defs]: "ErrAlreadyCompleted =
     DomainError ''TASK_ALREADY_COMPLETED'' ''Receiving task is already completed'' False"
definition ErrRvVersion :: err where
  [err_defs]: "ErrRvVersion =
     DomainError ''TASK_VERSION_CONFLICT'' ''Receiving task version has changed'' False"
definition ErrBarcodeUnknown :: err where
  [err_defs]: "ErrBarcodeUnknown = DomainError ''BARCODE_UNKNOWN'' ''Barcode is unknown'' False"
definition ErrBarcodeWrongContext :: err where
  [err_defs]: "ErrBarcodeWrongContext =
     DomainError ''BARCODE_WRONG_CONTEXT'' ''Barcode does not belong to this receiving task'' False"
definition ErrQuantityExceeded :: err where
  [err_defs]: "ErrQuantityExceeded =
     DomainError ''QUANTITY_EXCEEDS_ALLOWED'' ''Quantity exceeds allowed amount'' False"
definition ErrRemarkRequired :: err where
  [err_defs]: "ErrRemarkRequired =
     DomainError ''REMARK_REQUIRED'' ''A remark is required for quantity variance'' False"
definition ErrRvIncomplete :: err where
  [err_defs]: "ErrRvIncomplete =
     DomainError ''RECEIVING_TASK_INCOMPLETE'' ''All receiving lines must be complete'' False"
definition ErrConditionInvalid :: err where
  [err_defs]: "ErrConditionInvalid =
     DomainError ''CONDITION_INVALID'' ''Condition is not allowed for this receiving line'' False"

section \<open>The task\<close>

record policy =
  po_over_receipt :: bool
  po_remark_on_variance :: bool
  po_lot_required :: bool
  po_serial_required :: bool
  po_conditions :: "string list"

record rline =
  ln_id :: string
  ln_item :: string
  ln_item_name :: string
  ln_barcode :: string
  ln_expected :: int64
  ln_received :: int64
  ln_sku :: string
  ln_uom :: string
  ln_lot :: string
  ln_handed_over :: int64
  ln_remaining :: int64
  ln_lot_required :: bool
  ln_serial_required :: bool
  ln_verified :: bool

record receiving =
  rv_id :: string
  rv_order :: string
  rv_po :: string
  rv_lpn :: string
  rv_supplier :: string
  rv_source_type :: string
  rv_source_system :: string
  rv_doc_type :: string
  rv_doc_id :: string
  rv_doc_code :: string
  rv_work_order :: string
  rv_work_order_code :: string
  rv_output :: string
  rv_request :: string
  rv_confirmation :: string
  rv_status :: string
  rv_warehouse :: string
  rv_operator :: "string option"
  rv_version :: int64
  rv_policy :: policy
  rv_lines :: "rline list"
  rv_updated :: time

definition rv_touch :: "string \<Rightarrow> time \<Rightarrow> receiving \<Rightarrow> receiving" where
  "rv_touch status now t = t\<lparr>rv_status := status, rv_version := rv_version t + 1, rv_updated := now\<rparr>"

definition rv_start :: "string \<Rightarrow> int64 \<Rightarrow> time \<Rightarrow> receiving \<Rightarrow> err + receiving" where
  "rv_start operator base now t =
     (if rv_version t \<noteq> base then Inl ErrRvVersion
      else if rv_status t = RvCompleted then Inl ErrAlreadyCompleted
      else if rv_operator t \<noteq> Some operator then Inl ErrRvNotAssigned
      else Inr (rv_touch RvInProgress now t))"

definition rv_claim :: "string \<Rightarrow> int64 \<Rightarrow> time \<Rightarrow> receiving \<Rightarrow> err + receiving" where
  "rv_claim operator base now t =
     (if rv_version t \<noteq> base then Inl ErrRvVersion
      else if rv_status t = RvCompleted then Inl ErrAlreadyCompleted
      else if rv_operator t \<noteq> None \<and> rv_operator t \<noteq> Some operator then Inl ErrRvNotAssigned
      else Inr (rv_touch RvInProgress now (t\<lparr>rv_operator := Some operator\<rparr>)))"

text \<open>The loop over the lines: the first line with the given id is checked and updated.\<close>

definition confirm_line ::
    "policy \<Rightarrow> string \<Rightarrow> int64 \<Rightarrow> string \<Rightarrow> string option \<Rightarrow> rline \<Rightarrow> err + rline" where
  "confirm_line pol barcode quantity condition remark l =
     (let cond = (if condition = '''' then ''GOOD'' else condition);
          left = ln_expected l - ln_received l in
      if ln_barcode l \<noteq> barcode then Inl ErrBarcodeWrongContext
      else if i64_le quantity 0 then Inl ErrQuantityExceeded
      else if po_conditions pol \<noteq> [] \<and> cond \<notin> set (po_conditions pol) then Inl ErrConditionInvalid
      else if i64_less left quantity \<and> \<not> po_over_receipt pol then Inl ErrQuantityExceeded
      else if po_remark_on_variance pol \<and> quantity \<noteq> left
              \<and> (case remark of None \<Rightarrow> True | Some m \<Rightarrow> blank m) then Inl ErrRemarkRequired
      else Inr (l\<lparr>ln_received := ln_received l + quantity\<rparr>))"

fun confirm_lines ::
    "policy \<Rightarrow> string \<Rightarrow> string \<Rightarrow> int64 \<Rightarrow> string \<Rightarrow> string option \<Rightarrow> rline list \<Rightarrow> err + rline \<times> rline list" where
  "confirm_lines pol line barcode quantity condition remark [] = Inl ErrBarcodeWrongContext"
| "confirm_lines pol line barcode quantity condition remark (l # ls) =
     (if ln_id l \<noteq> line
      then map_sum id (\<lambda>(x, ls'). (x, l # ls'))
             (confirm_lines pol line barcode quantity condition remark ls)
      else map_sum id (\<lambda>l'. (l', l' # ls)) (confirm_line pol barcode quantity condition remark l))"

definition confirm_with_condition ::
    "string \<Rightarrow> string \<Rightarrow> string \<Rightarrow> int64 \<Rightarrow> string \<Rightarrow> string option \<Rightarrow> int64 \<Rightarrow> time \<Rightarrow> receiving
     \<Rightarrow> err + rline \<times> receiving" where
  "confirm_with_condition operator line barcode quantity condition remark base now t =
     (if rv_version t \<noteq> base then Inl ErrRvVersion
      else if rv_status t = RvCompleted then Inl ErrAlreadyCompleted
      else if rv_operator t \<noteq> Some operator then Inl ErrRvNotAssigned
      else map_sum id (\<lambda>(l, ls). (l, rv_touch RvPartiallyCompleted now (t\<lparr>rv_lines := ls\<rparr>)))
             (confirm_lines (rv_policy t) line barcode quantity condition remark (rv_lines t)))"

definition confirm ::
    "string \<Rightarrow> string \<Rightarrow> string \<Rightarrow> int64 \<Rightarrow> string option \<Rightarrow> int64 \<Rightarrow> time \<Rightarrow> receiving
     \<Rightarrow> err + rline \<times> receiving" where
  "confirm operator line barcode quantity remark base now t =
     confirm_with_condition operator line barcode quantity ''GOOD'' remark base now t"

definition rv_complete :: "string \<Rightarrow> int64 \<Rightarrow> time \<Rightarrow> receiving \<Rightarrow> err + receiving" where
  "rv_complete operator base now t =
     (if rv_version t \<noteq> base then Inl ErrRvVersion
      else if rv_operator t \<noteq> Some operator then Inl ErrRvNotAssigned
      else if \<exists>l \<in> set (rv_lines t). i64_less (ln_received l) (ln_expected l) then Inl ErrRvIncomplete
      else Inr (rv_touch RvCompleted now t))"

section \<open>Ports' data\<close>

record rv_filter =
  rf_warehouse :: string
  rf_operator :: string
  rf_status :: string
  rf_query :: string
  rf_cursor :: string
  rf_limit :: int64

record rv_page =
  rp_items :: "receiving list"
  rp_next_cursor :: "string option"

text \<open>The stored result is a JSON document; \<open>None\<close> stands for bytes that do not decode into
  a task.\<close>

record rv_command_status =
  rs_id :: uuid
  rs_type :: string
  rs_status :: string
  rs_warehouse :: string
  rs_operator :: string
  rs_result :: "receiving option"

end
