(* ===== verification/Inventory_Domain.thy ===== *)
theory Inventory_Domain
  imports Event
begin

text \<open>
  Stock balances, transfers and cycle counts:
  \<open>internal/inventory/domain/inventory.go\<close> and the data of
  \<open>internal/inventory/ports/inventory.go\<close>.
\<close>

definition ErrInvNotFound :: err where
  [err_defs]: "ErrInvNotFound = DomainError ''INVENTORY_NOT_FOUND'' ''Inventory record not found'' False"
definition ErrSameLocation :: err where
  [err_defs]: "ErrSameLocation =
     DomainError ''SOURCE_EQUALS_DESTINATION'' ''Source and destination must differ'' False"
definition ErrInvSource :: err where
  [err_defs]: "ErrInvSource = DomainError ''SOURCE_LOCATION_INVALID'' ''Source location is invalid'' False"
definition ErrInvDestination :: err where
  [err_defs]: "ErrInvDestination =
     DomainError ''DESTINATION_LOCATION_INVALID'' ''Destination location is invalid'' False"
definition ErrInvStock :: err where
  [err_defs]: "ErrInvStock =
     DomainError ''INSUFFICIENT_STOCK'' ''Source location has insufficient stock'' False"
definition ErrCountVersion :: err where
  [err_defs]: "ErrCountVersion =
     DomainError ''TASK_VERSION_CONFLICT'' ''Cycle count version has changed'' False"
definition ErrAssigned :: err where
  [err_defs]: "ErrAssigned =
     DomainError ''TASK_NOT_ASSIGNED'' ''Cycle count is assigned to another operator'' False"
definition ErrCountIncomplete :: err where
  [err_defs]: "ErrCountIncomplete =
     DomainError ''TASK_INCOMPLETE'' ''All count lines must be submitted'' False"
definition ErrLocationInvalid :: err where
  [err_defs]: "ErrLocationInvalid = DomainError ''LOCATION_INVALID'' ''Count location is invalid'' False"
definition ErrItemNotInDocument :: err where
  [err_defs]: "ErrItemNotInDocument =
     DomainError ''ITEM_NOT_IN_DOCUMENT'' ''Item is not part of this count task'' False"

record balance =
  bl_warehouse :: string
  bl_location :: string
  bl_item :: string
  bl_item_code :: string
  bl_description :: string
  bl_location_code :: string
  bl_quantity :: int64
  bl_on_hand :: int64
  bl_reserved :: int64
  bl_available :: int64
  bl_damaged :: int64
  bl_hold :: int64
  bl_quarantine :: int64
  bl_in_transit :: int64
  bl_uom :: string
  bl_lot :: string
  bl_serial :: string
  bl_stale :: bool
  bl_version :: int64
  bl_as_of :: time

record stock_move =
  sm_id :: string
  sm_task :: string
  sm_workflow :: string
  sm_warehouse :: string
  sm_item :: string
  sm_source :: string
  sm_dest :: string
  sm_quantity :: int64
  sm_version :: int64
  sm_at :: time

record transfer =
  tr_command :: string
  tr_warehouse :: string
  tr_source :: string
  tr_dest :: string
  tr_item :: string
  tr_quantity :: int64
  tr_status :: string
  tr_transfer_id :: string
  tr_before_source :: "balance option"
  tr_after_source :: "balance option"
  tr_before_dest :: "balance option"
  tr_after_dest :: "balance option"
  tr_audit :: string
  tr_as_of :: time

record count_line =
  cl_id :: string
  cl_item :: string
  cl_expected :: int64
  cl_counted :: "int64 option"
  cl_variance :: "int64 option"
  cl_recount :: bool

record count_task =
  ct_id :: string
  ct_warehouse :: string
  ct_location :: string
  ct_status :: string
  ct_operator :: "string option"
  ct_version :: int64
  ct_blind :: bool
  ct_tolerance :: int64
  ct_lines :: "count_line list"
  ct_updated :: time

text \<open>The guard assigns an unassigned task to the operator; it returns the task it leaves.\<close>

definition ct_guard :: "string \<Rightarrow> int64 \<Rightarrow> count_task \<Rightarrow> err + count_task" where
  "ct_guard op base t =
     (if ct_version t \<noteq> base then Inl ErrCountVersion
      else case ct_operator t of
             None \<Rightarrow> Inr (t\<lparr>ct_operator := Some op\<rparr>)
           | Some p \<Rightarrow> if p \<noteq> op then Inl ErrAssigned else Inr t)"

definition ct_touch :: "string \<Rightarrow> time \<Rightarrow> count_task \<Rightarrow> count_task" where
  "ct_touch status now t = t\<lparr>ct_status := status, ct_version := ct_version t + 1, ct_updated := now\<rparr>"

fun update_line :: "string \<Rightarrow> (count_line \<Rightarrow> count_line) \<Rightarrow> count_line list \<Rightarrow> count_line list option" where
  "update_line i f [] = None"
| "update_line i f (l # ls) =
     (if cl_id l = i then Some (f l # ls) else map_option ((#) l) (update_line i f ls))"

definition submitted :: "int64 \<Rightarrow> count_line \<Rightarrow> count_line" where
  "submitted q l = (let v = q - cl_expected l in
     l\<lparr>cl_counted := Some q, cl_variance := Some v, cl_recount := v \<noteq> 0\<rparr>)"

definition recounted :: "count_line \<Rightarrow> count_line" where
  "recounted l = l\<lparr>cl_counted := None, cl_variance := None, cl_recount := True\<rparr>"

definition ct_line_step ::
    "string \<Rightarrow> (count_line \<Rightarrow> count_line) \<Rightarrow> string \<Rightarrow> string \<Rightarrow> int64 \<Rightarrow> time \<Rightarrow> count_task \<Rightarrow> err + count_task" where
  "ct_line_step status f op line base now t =
     (case ct_guard op base t of
        Inl e \<Rightarrow> Inl e
      | Inr t1 \<Rightarrow>
          (case update_line line f (ct_lines t1) of
             None \<Rightarrow> Inl ErrInvNotFound
           | Some ls \<Rightarrow> Inr (ct_touch status now (t1\<lparr>ct_lines := ls\<rparr>))))"

definition ct_submit :: "string \<Rightarrow> string \<Rightarrow> int64 \<Rightarrow> int64 \<Rightarrow> time \<Rightarrow> count_task \<Rightarrow> err + count_task" where
  "ct_submit op line q base now t = ct_line_step ''IN_PROGRESS'' (submitted q) op line base now t"

definition ct_recount :: "string \<Rightarrow> string \<Rightarrow> int64 \<Rightarrow> time \<Rightarrow> count_task \<Rightarrow> err + count_task" where
  "ct_recount op line base now t = ct_line_step ''RECOUNT'' recounted op line base now t"

definition ct_complete :: "string \<Rightarrow> int64 \<Rightarrow> time \<Rightarrow> count_task \<Rightarrow> err + count_task" where
  "ct_complete op base now t =
     (case ct_guard op base t of
        Inl e \<Rightarrow> Inl e
      | Inr t1 \<Rightarrow>
          if \<exists>l \<in> set (ct_lines t1). cl_counted l = None \<or> cl_recount l then Inl ErrCountIncomplete
          else Inr (ct_touch ''COMPLETED'' now t1))"

section \<open>Documents\<close>

text \<open>The inventory commands keep either a transfer or a count task in one column. Reading one as
  the other keeps the members both have, and leaves the rest zero.\<close>

datatype inventory_document = TransferDoc transfer | CountDoc count_task

definition zero_transfer :: transfer where
  "zero_transfer = \<lparr>tr_command = '''', tr_warehouse = '''', tr_source = '''', tr_dest = '''',
     tr_item = '''', tr_quantity = 0, tr_status = '''', tr_transfer_id = '''', tr_before_source = None,
     tr_after_source = None, tr_before_dest = None, tr_after_dest = None, tr_audit = '''',
     tr_as_of = time_zero\<rparr>"

definition zero_count :: count_task where
  "zero_count = \<lparr>ct_id = '''', ct_warehouse = '''', ct_location = '''', ct_status = '''',
     ct_operator = None, ct_version = 0, ct_blind = False, ct_tolerance = 0, ct_lines = [],
     ct_updated = time_zero\<rparr>"

fun decode_transfer :: "inventory_document \<Rightarrow> transfer" where
  "decode_transfer (TransferDoc t) = t"
| "decode_transfer (CountDoc c) = zero_transfer\<lparr>tr_warehouse := ct_warehouse c, tr_status := ct_status c\<rparr>"

fun decode_count :: "inventory_document \<Rightarrow> count_task" where
  "decode_count (CountDoc c) = c"
| "decode_count (TransferDoc t) = zero_count\<lparr>ct_warehouse := tr_warehouse t, ct_status := tr_status t\<rparr>"

definition balance_json :: "balance \<Rightarrow> json" where
  "balance_json b = JObj [(''warehouseId'', JStr (bl_warehouse b)), (''locationId'', JStr (bl_location b)),
     (''itemId'', JStr (bl_item b)), (''itemCode'', JStr (bl_item_code b)),
     (''description'', JStr (bl_description b)), (''locationCode'', JStr (bl_location_code b)),
     (''quantity'', json_int64 (bl_quantity b)), (''onHand'', json_int64 (bl_on_hand b)),
     (''reserved'', json_int64 (bl_reserved b)), (''available'', json_int64 (bl_available b)),
     (''damaged'', json_int64 (bl_damaged b)), (''hold'', json_int64 (bl_hold b)),
     (''quarantine'', json_int64 (bl_quarantine b)), (''inTransit'', json_int64 (bl_in_transit b)),
     (''uom'', JStr (bl_uom b)), (''lotNumber'', JStr (bl_lot b)), (''serialNumber'', JStr (bl_serial b)),
     (''stale'', JBool (bl_stale b)), (''version'', json_int64 (bl_version b)), (''asOf'', JTime (bl_as_of b))]"

definition transfer_json :: "transfer \<Rightarrow> json" where
  "transfer_json t = JObj [(''commandId'', JStr (tr_command t)), (''warehouseId'', JStr (tr_warehouse t)),
     (''sourceLocation'', JStr (tr_source t)), (''destinationLocation'', JStr (tr_dest t)),
     (''itemId'', JStr (tr_item t)), (''quantity'', json_int64 (tr_quantity t)),
     (''status'', JStr (tr_status t)), (''transferId'', JStr (tr_transfer_id t)),
     (''beforeSource'', json_opt balance_json (tr_before_source t)),
     (''afterSource'', json_opt balance_json (tr_after_source t)),
     (''beforeDestination'', json_opt balance_json (tr_before_dest t)),
     (''afterDestination'', json_opt balance_json (tr_after_dest t)),
     (''auditId'', JStr (tr_audit t)), (''asOf'', JTime (tr_as_of t))]"

definition count_line_json :: "count_line \<Rightarrow> json" where
  "count_line_json l = JObj [(''id'', JStr (cl_id l)), (''itemId'', JStr (cl_item l)),
     (''expectedQuantity'', json_int64 (cl_expected l)),
     (''countedQuantity'', json_opt json_int64 (cl_counted l)),
     (''variance'', json_opt json_int64 (cl_variance l)), (''recountRequired'', JBool (cl_recount l))]"

definition count_json :: "count_task \<Rightarrow> json" where
  "count_json t = JObj [(''id'', JStr (ct_id t)), (''warehouseId'', JStr (ct_warehouse t)),
     (''locationId'', JStr (ct_location t)), (''status'', JStr (ct_status t)),
     (''operatorId'', json_opt JStr (ct_operator t)), (''version'', json_int64 (ct_version t)),
     (''blindCount'', JBool (ct_blind t)), (''tolerance'', json_int64 (ct_tolerance t)),
     (''lines'', json_slice count_line_json (ct_lines t)), (''updatedAt'', JTime (ct_updated t))]"

end
