(* ===== verification/Shipping_Domain.thy ===== *)
theory Shipping_Domain
  imports Event
begin

text \<open>
  Shipments and their packages: \<open>internal/shipping/domain/shipment.go\<close>.
\<close>

definition ErrShNotFound :: err where
  [err_defs]: "ErrShNotFound = DomainError ''SHIPMENT_NOT_FOUND'' ''Shipment not found'' False"
definition ErrNotReady :: err where
  [err_defs]: "ErrNotReady =
     DomainError ''SHIPMENT_NOT_READY'' ''Shipment prerequisites are incomplete'' False"
definition ErrPackage :: err where
  [err_defs]: "ErrPackage = DomainError ''PACKAGE_INCOMPLETE'' ''Every package must be complete'' False"
definition ErrCarrier :: err where
  [err_defs]: "ErrCarrier = DomainError ''CARRIER_INVALID'' ''Carrier is invalid'' False"
definition ErrTracking :: err where
  [err_defs]: "ErrTracking = DomainError ''TRACKING_INVALID'' ''Tracking number is invalid'' False"
definition ErrShVersion :: err where
  [err_defs]: "ErrShVersion =
     DomainError ''SHIPMENT_VERSION_CONFLICT'' ''Shipment version has changed'' False"
definition ErrConfirmed :: err where
  [err_defs]: "ErrConfirmed =
     DomainError ''SHIPMENT_ALREADY_CONFIRMED'' ''Shipment is already confirmed'' False"
definition ErrPackageNotFound :: err where
  [err_defs]: "ErrPackageNotFound = DomainError ''BARCODE_UNKNOWN'' ''Package is unknown'' False"
definition ErrPackageContext :: err where
  [err_defs]: "ErrPackageContext =
     DomainError ''BARCODE_WRONG_CONTEXT'' ''Package does not belong to this shipment'' False"

record package =
  pk_id :: string
  pk_status :: string
  pk_weight :: int64

record shipment =
  sh_id :: string
  sh_order :: string
  sh_warehouse :: string
  sh_status :: string
  sh_carrier :: "string option"
  sh_tracking :: "string option"
  sh_picked :: bool
  sh_version :: int64
  sh_packages :: "package list"
  sh_updated :: time

record readiness_report =
  rd_ready :: bool
  rd_picking :: bool
  rd_packages :: bool
  rd_blocking :: "string list"
  rd_as_of :: time

definition package_closed :: "package \<Rightarrow> bool" where
  "package_closed p \<longleftrightarrow> pk_status p = ''COMPLETED'' \<or> pk_status p = ''VERIFIED''"

definition readiness :: "shipment \<Rightarrow> readiness_report" where
  "readiness s =
     (let closed = list_all package_closed (sh_packages s) in
      \<lparr>rd_ready = sh_picked s \<and> closed \<and> sh_packages s \<noteq> [],
       rd_picking = sh_picked s, rd_packages = closed,
       rd_blocking = (if sh_picked s then [] else [''PICKING_INCOMPLETE''])
         @ (if closed then [] else [''PACKAGE_INCOMPLETE'']),
       rd_as_of = sh_updated s\<rparr>)"

definition sh_touch :: "time \<Rightarrow> shipment \<Rightarrow> shipment" where
  "sh_touch now s = s\<lparr>sh_version := sh_version s + 1, sh_updated := now\<rparr>"

text \<open>The loop of \<open>VerifyPackage\<close>: \<open>None\<close> when the package was closed already.\<close>

fun verify_packages :: "string \<Rightarrow> string \<Rightarrow> package list \<Rightarrow> err + package list option" where
  "verify_packages i barcode [] = Inl ErrPackageNotFound"
| "verify_packages i barcode (p # ps) =
     (if pk_id p \<noteq> i then map_sum id (map_option ((#) p)) (verify_packages i barcode ps)
      else if barcode \<noteq> '''' \<and> barcode \<noteq> i then Inl ErrPackageContext
      else if package_closed p then Inr None
      else Inr (Some (p\<lparr>pk_status := ''VERIFIED''\<rparr> # ps)))"

definition verify_package :: "string \<Rightarrow> string \<Rightarrow> int64 \<Rightarrow> time \<Rightarrow> shipment \<Rightarrow> err + shipment" where
  "verify_package i barcode base now s =
     (if sh_version s \<noteq> base then Inl ErrShVersion
      else case verify_packages i barcode (sh_packages s) of
             Inl e \<Rightarrow> Inl e
           | Inr None \<Rightarrow> Inr s
           | Inr (Some ps) \<Rightarrow> Inr (sh_touch now (s\<lparr>sh_packages := ps\<rparr>)))"

definition carriers :: "string list" where
  "carriers = [''DHL'', ''FEDEX'', ''UPS'', ''VNPOST'']"

text \<open>The pattern \<open>^[A-Za-z0-9-]{6,40}$\<close>.\<close>

definition tracking_char :: "char \<Rightarrow> bool" where
  "tracking_char c = (let n = (of_char c :: nat) in
     65 \<le> n \<and> n \<le> 90 \<or> 97 \<le> n \<and> n \<le> 122 \<or> 48 \<le> n \<and> n \<le> 57 \<or> n = 45)"

definition tracking_ok :: "string \<Rightarrow> bool" where
  "tracking_ok s \<longleftrightarrow> list_all tracking_char s \<and> 6 \<le> length s \<and> length s \<le> 40"

definition confirm_with_packages ::
    "string \<Rightarrow> string \<Rightarrow> string list \<Rightarrow> int64 \<Rightarrow> time \<Rightarrow> shipment \<Rightarrow> err + shipment" where
  "confirm_with_packages carrier tracking verified base now s =
     (let r = readiness s;
          carrier' = to_upper (trim_space carrier);
          tracking' = trim_space tracking in
      if sh_version s \<noteq> base then Inl ErrShVersion
      else if sh_status s = ''SHIPPED'' then Inl ErrConfirmed
      else if \<not> rd_picking r then Inl ErrNotReady
      else if \<not> rd_packages r \<or> sh_packages s = [] then Inl ErrPackage
      else if verified \<noteq> [] \<and> (\<exists>p \<in> set (sh_packages s). pk_id p \<notin> set verified) then Inl ErrPackage
      else if carrier' \<notin> set carriers then Inl ErrCarrier
      else if \<not> tracking_ok tracking' then Inl ErrTracking
      else Inr (sh_touch now (s\<lparr>sh_carrier := Some carrier', sh_tracking := Some tracking',
                               sh_status := ''SHIPPED''\<rparr>)))"

definition sh_confirm :: "string \<Rightarrow> string \<Rightarrow> int64 \<Rightarrow> time \<Rightarrow> shipment \<Rightarrow> err + shipment" where
  "sh_confirm carrier tracking base now s = confirm_with_packages carrier tracking [] base now s"

section \<open>Documents\<close>

definition package_json :: "package \<Rightarrow> json" where
  "package_json p = JObj [(''id'', JStr (pk_id p)), (''status'', JStr (pk_status p)),
     (''weightGrams'', json_int64 (pk_weight p))]"

definition shipment_json :: "shipment \<Rightarrow> json" where
  "shipment_json s = JObj [(''id'', JStr (sh_id s)), (''orderId'', JStr (sh_order s)),
     (''warehouseId'', JStr (sh_warehouse s)), (''status'', JStr (sh_status s)),
     (''carrier'', json_opt JStr (sh_carrier s)), (''trackingNumber'', json_opt JStr (sh_tracking s)),
     (''pickingComplete'', JBool (sh_picked s)), (''version'', json_int64 (sh_version s)),
     (''packages'', json_slice package_json (sh_packages s)), (''updatedAt'', JTime (sh_updated s))]"

end
