(* ===== verification/Database.thy ===== *)
theory Database
  imports SQL Exec_Task Movement_Domain Receiving_Domain Inventory_Domain Shipping_Domain
begin

text \<open>
  The tables behind the warehouse services, with the keys of
  \<open>migrations/execution/*.up.sql\<close>; their CHECK constraints stand with the stores.
\<close>

section \<open>Tables\<close>

record warehouse_row =
  wt_category :: string
  wt_status :: string
  wt_priority :: int64
  wt_warehouse :: string
  wt_operator :: "string option"
  wt_version :: int64
  wt_updated :: time

record outbox_row =
  ob_aggregate :: string
  ob_version :: int64
  ob_type :: string
  ob_envelope :: envelope

record receiving_row =
  rt_po :: string
  rt_status :: string
  rt_warehouse :: string
  rt_operator :: "string option"
  rt_version :: int64
  rt_over_receipt :: bool
  rt_remark_on_variance :: bool
  rt_updated :: time

record receiving_line_row =
  rlr_task :: string
  rlr_item :: string
  rlr_item_name :: string
  rlr_barcode :: string
  rlr_expected :: int64
  rlr_received :: int64

record stock_row =
  st_quantity :: int64
  st_version :: int64
  st_updated :: time

record audit_row =
  au_action :: string
  au_outcome :: string
  au_aggregate :: string
  au_operator :: string
  au_device :: string
  au_warehouse :: string
  au_correlation :: string
  au_at :: time
  au_details :: json

record movement_row =
  mt_workflow :: string
  mt_status :: string
  mt_warehouse :: string
  mt_operator :: "string option"
  mt_version :: int64
  mt_source :: string
  mt_dest :: string
  mt_item :: string
  mt_barcode :: string
  mt_required :: int64
  mt_done :: int64
  mt_source_ok :: bool
  mt_dest_ok :: bool
  mt_item_ok :: bool
  mt_updated :: time

record location_row =
  wl_zone :: string
  wl_capacity :: int64
  wl_used :: int64
  wl_item :: "string option"

record inventory_movement_row =
  im_task :: string
  im_workflow :: string
  im_warehouse :: string
  im_item :: string
  im_source :: string
  im_dest :: string
  im_quantity :: int64
  im_version :: int64
  im_at :: time

record 'r command_row =
  cr_key :: string
  cr_type :: string
  cr_scope :: string
  cr_warehouse :: string
  cr_operator :: string
  cr_result :: 'r

record count_row =
  cc_warehouse :: string
  cc_operator :: "string option"
  cc_location :: string
  cc_status :: string
  cc_version :: int64
  cc_updated :: time

record count_line_row =
  ccl_task :: string
  ccl_item :: string
  ccl_expected :: int64
  ccl_counted :: "int64 option"
  ccl_variance :: "int64 option"
  ccl_recount :: bool

record shipment_row =
  sr_order :: string
  sr_warehouse :: string
  sr_status :: string
  sr_carrier :: "string option"
  sr_tracking :: "string option"
  sr_picked :: bool
  sr_version :: int64
  sr_updated :: time

record package_row =
  pr_shipment :: string
  pr_status :: string
  pr_weight :: int64

record tables =
  warehouse_task :: "(string \<times> warehouse_row) list"
  command_idempotency :: "(string \<times> idempotency_result) list"
  domain_outbox :: "(uuid \<times> outbox_row) list"
  receiving_task :: "(string \<times> receiving_row) list"
  receiving_line :: "(string \<times> receiving_line_row) list"
  inventory_balance :: "((string \<times> string) \<times> stock_row) list"
  receiving_command_status :: "(uuid \<times> receiving command_row) list"
  audit_record :: "(uuid \<times> audit_row) list"
  movement_task :: "(string \<times> movement_row) list"
  warehouse_location :: "((string \<times> string) \<times> location_row) list"
  inventory_location_balance :: "((string \<times> string \<times> string) \<times> stock_row) list"
  inventory_movement :: "(uuid \<times> inventory_movement_row) list"
  movement_command_status :: "(uuid \<times> movement command_row) list"
  cycle_count_task :: "(string \<times> count_row) list"
  cycle_count_line :: "(string \<times> count_line_row) list"
  inventory_command_status :: "(uuid \<times> inventory_document command_row) list"
  shipment_table :: "(string \<times> shipment_row) list"
  shipment_package :: "(string \<times> package_row) list"
  shipping_command_status :: "(uuid \<times> shipment command_row) list"

definition empty_tables :: tables where
  "empty_tables = \<lparr>warehouse_task = [], command_idempotency = [], domain_outbox = [],
     receiving_task = [], receiving_line = [], inventory_balance = [],
     receiving_command_status = [], audit_record = [], movement_task = [],
     warehouse_location = [], inventory_location_balance = [], inventory_movement = [],
     movement_command_status = [], cycle_count_task = [], cycle_count_line = [],
     inventory_command_status = [], shipment_table = [], shipment_package = [],
     shipping_command_status = []\<rparr>"

text \<open>The world of the services: this database and the environment.\<close>

type_synonym world = "tables db_world"

end
