(* ===== verification/Stock.thy ===== *)
theory Stock
  imports PDA_Prelude
begin

text \<open>
  Quantities on hand, by place or by item, as partial functions to 64-bit integers, and the
  updates the stores make on them: taking, adding, moving.
\<close>

section \<open>Stock\<close>

type_synonym 'k quantities = "'k \<Rightarrow> int64 option"

text \<open>Taking a quantity at one place and adding it at another; the database refuses a negative
  rest and an overflow.\<close>

definition take_stock :: "'k quantities \<Rightarrow> 'k \<Rightarrow> int64 \<Rightarrow> 'k quantities option" where
  "take_stock st k q = (case st k of None \<Rightarrow> None
     | Some n \<Rightarrow> if i64_le q n then map_option (\<lambda>m. st(k \<mapsto> m)) (bigint_sub n q) else None)"

definition add_stock :: "'k quantities \<Rightarrow> 'k \<Rightarrow> int64 \<Rightarrow> 'k quantities option" where
  "add_stock st k q = (case st k of None \<Rightarrow> Some (st(k \<mapsto> q))
     | Some n \<Rightarrow> map_option (\<lambda>m. st(k \<mapsto> m)) (bigint_add n q))"

definition move_stock ::
    "'k quantities \<Rightarrow> 'k \<Rightarrow> 'k \<Rightarrow> int64 \<Rightarrow> 'k quantities option" where
  "move_stock st a b q = Option.bind (take_stock st a q) (\<lambda>st1. add_stock st1 b q)"

definition stock_at :: "'k quantities \<Rightarrow> 'k \<Rightarrow> int" where
  "stock_at st k = (case st k of None \<Rightarrow> 0 | Some n \<Rightarrow> sint n)"

lemma take_stock_at: "take_stock st k q = Some st' \<Longrightarrow>
    stock_at st' j = stock_at st j - (if j = k then sint q else 0)"
  by (auto simp: take_stock_def stock_at_def dest: bigint_sub_Some split: option.splits if_splits)

lemma add_stock_at: "add_stock st k q = Some st' \<Longrightarrow>
    stock_at st' j = stock_at st j + (if j = k then sint q else 0)"
  by (auto simp: add_stock_def stock_at_def dest: bigint_add_Some split: option.splits)

lemma move_stock_at: "move_stock st a b q = Some st' \<Longrightarrow>
    stock_at st' j = stock_at st j - (if j = a then sint q else 0) + (if j = b then sint q else 0)"
  by (auto simp: move_stock_def bind_eq_Some_conv dest!: take_stock_at [where j = j] add_stock_at [where j = j])

lemma take_stock_nonneg: "take_stock st k q = Some st' \<Longrightarrow> 0 \<le> stock_at st' k"
  by (auto simp: take_stock_def stock_at_def i64_le_def dest: bigint_sub_Some split: option.splits if_splits)

text \<open>Moving stock keeps every total over a finite set of places that holds both ends.\<close>

lemma move_stock_total:
  assumes "move_stock st a b q = Some st'" and "finite S" and "a \<in> S" and "b \<in> S"
  shows "(\<Sum>k\<in>S. stock_at st' k) = (\<Sum>k\<in>S. stock_at st k)"
proof -
  have "(\<Sum>k\<in>S. stock_at st' k)
      = (\<Sum>k\<in>S. stock_at st k) - (\<Sum>k\<in>S. if k = a then sint q else 0) + (\<Sum>k\<in>S. if k = b then sint q else 0)"
    by (simp add: move_stock_at [OF assms(1)] sum.distrib sum_subtractf)
  with assms(2-4) show ?thesis by simp
qed

lemma move_stock_nonneg:
  assumes "move_stock st a b q = Some st'" and "0 < sint q" and "\<forall>k. 0 \<le> stock_at st k"
  shows "\<forall>k. 0 \<le> stock_at st' k"
proof
  fix k
  from assms(1) obtain st1 where t: "take_stock st a q = Some st1" and a: "add_stock st1 b q = Some st'"
    by (auto simp: move_stock_def bind_eq_Some_conv)
  have "0 \<le> stock_at st1 k"
    using take_stock_at [OF t, of k] take_stock_nonneg [OF t] spec [OF assms(3), of k] by (cases "k = a") simp_all
  with add_stock_at [OF a, of k] assms(2) show "0 \<le> stock_at st' k" by (auto split: if_splits)
qed

text \<open>Adding two quantities that are not negative wraps into the negative.\<close>

lemma sint_plus_nonneg:
  fixes a b :: int64
  assumes "0 \<le> sint a" and "0 \<le> sint b" and "0 \<le> sint (a + b)"
  shows "sint (a + b) = sint a + sint b"
proof (cases "in_int64 (sint a + sint b)")
  case True
  then show ?thesis by (rule sint_plus_int64)
next
  case False
  have wrap: "(x + 9223372036854775808) mod 18446744073709551616 = x - 9223372036854775808"
    if "9223372036854775808 \<le> x" "x < 18446744073709551616" for x :: int
  proof -
    have "(x - 9223372036854775808 + 18446744073709551616) mod 18446744073709551616
        = (x - 9223372036854775808) mod 18446744073709551616" by (rule mod_add_self2)
    with that show ?thesis by (simp add: add.commute)
  qed
  have "9223372036854775808 \<le> sint a + sint b" "sint a + sint b < 18446744073709551616"
    using False assms(1,2) sint_int64_bounds [of a] sint_int64_bounds [of b]
    by (simp_all add: in_int64_def min_int64_def max_int64_def)
  from wrap [OF this] have "signed_take_bit 63 (sint a + sint b) = sint a + sint b - 18446744073709551616"
    by (simp add: signed_take_bit_eq_take_bit_shift take_bit_eq_mod)
  with assms False sint_int64_bounds [of a] sint_int64_bounds [of b] show ?thesis
    by (simp add: sint_word_ariths in_int64_def min_int64_def max_int64_def)
qed

text \<open>The total over all the places of a class, such as the places of one item in one warehouse.\<close>

definition stock_total :: "('k \<Rightarrow> bool) \<Rightarrow> 'k quantities \<Rightarrow> int" where
  "stock_total P st = (\<Sum>k | k \<in> dom st \<and> P k. stock_at st k)"

lemma stock_total_superset:
  assumes "finite S" and "dom st \<subseteq> S"
  shows "stock_total P st = (\<Sum>k | k \<in> S \<and> P k. stock_at st k)"
  unfolding stock_total_def
  by (rule sum.mono_neutral_left) (use assms in \<open>auto simp: stock_at_def domIff split: option.splits\<close>)

lemma move_stock_dom: "move_stock st a b q = Some st' \<Longrightarrow> dom st' = insert b (dom st) \<and> a \<in> dom st"
  by (auto simp: move_stock_def take_stock_def add_stock_def bind_eq_Some_conv split: option.splits if_splits)

lemma move_stock_class_total:
  assumes mv: "move_stock st a b q = Some st'" and fin: "finite (dom st)" and "P a = P b"
  shows "finite (dom st')" and "stock_total P st' = stock_total P st"
proof -
  let ?S = "insert a (insert b (dom st))"
  have dom: "dom st' \<subseteq> ?S" "dom st \<subseteq> ?S" "finite ?S" using move_stock_dom [OF mv] fin by auto
  then show "finite (dom st')" by (meson finite_subset)
  have "(\<Sum>k | k \<in> ?S \<and> P k. stock_at st' k) = (\<Sum>k | k \<in> ?S \<and> P k. stock_at st k)"
  proof (cases "P a")
    case True
    then show ?thesis by (intro move_stock_total [OF mv]) (use assms(3) dom(3) in auto)
  next
    case False
    then show ?thesis
      by (intro sum.cong refl) (use assms(3) in \<open>auto simp: move_stock_at [OF mv]\<close>)
  qed
  then show "stock_total P st' = stock_total P st"
    using stock_total_superset [OF dom(3,1)] stock_total_superset [OF dom(3,2)] by simp
qed

end
