(* ===== verification/Pg_Common.thy ===== *)
theory Pg_Common
  imports Database Stock
begin

text \<open>
  The statements the PostgreSQL stores share: the mirror row of the task list, the outbox, the
  audit trail, the command tables and the advisory lock.
\<close>

section \<open>The task list\<close>

text \<open>The CHECK constraints of \<open>warehouse_task\<close>.\<close>

definition warehouse_ok :: "warehouse_row \<Rightarrow> bool" where
  "warehouse_ok r \<longleftrightarrow> i64_le 0 (wt_priority r) \<and> i64_le (wt_priority r) 100 \<and> i64_less 0 (wt_version r)"

text \<open>\<open>UPDATE warehouse_task\<close>: the row of the task list that mirrors a workflow's task.\<close>

definition mirror_task ::
    "string \<Rightarrow> string \<Rightarrow> string option \<Rightarrow> int64 \<Rightarrow> time \<Rightarrow> (world, nat) prog" where
  "mirror_task i status operator version updated =
     sql (on_table warehouse_task (\<lambda>x d. d\<lparr>warehouse_task := x\<rparr>) (\<lambda>now tab.
       update_at ''warehouse_task'' warehouse_ok i (\<lambda>r. r\<lparr>wt_status := status,
         wt_operator := operator, wt_version := version, wt_updated := updated\<rparr>) tab))"

section \<open>The outbox\<close>

text \<open>\<open>json.Marshal\<close> of an envelope: an absent payload is written as \<open>null\<close>, an invalid one
  is refused.\<close>

definition marshal_envelope :: "envelope \<Rightarrow> err + envelope" where
  "marshal_envelope e = (case ev_payload e of
     RawInvalid \<Rightarrow> Inl (TextError ''json: error calling MarshalJSON'')
   | RawEmpty \<Rightarrow> Inr (e\<lparr>ev_payload := RawJSON JNull\<rparr>)
   | RawJSON j \<Rightarrow> Inr e)"

definition insert_outbox :: "envelope \<Rightarrow> (world, unit) prog" where
  "insert_outbox e = sql (on_table domain_outbox (\<lambda>x d. d\<lparr>domain_outbox := x\<rparr>) (\<lambda>now tab.
     no_value (insert_at ''domain_outbox'' (\<lambda>_. True) (ev_id e)
       \<lparr>ob_aggregate = ev_agg_id e, ob_version = ev_agg_version e, ob_type = ev_type e,
        ob_envelope = e\<rparr> tab)))"

definition outbox_of :: "tables \<Rightarrow> envelope list" where
  "outbox_of d = map (ob_envelope \<circ> snd) (domain_outbox d)"

lemma marshal_envelope_Inr: "marshal_envelope e = Inr e' \<Longrightarrow>
    ev_id e' = ev_id e \<and> (ev_payload e \<noteq> RawEmpty \<longrightarrow> e' = e)"
  by (auto simp: marshal_envelope_def split: raw_message.splits)

lemma well_formed_marshal: "well_formed e \<Longrightarrow> marshal_envelope e = Inr e"
  by (auto simp: well_formed_def marshal_envelope_def json_valid_def split: raw_message.splits)

lemma insert_outbox_ok:
  assumes "insert_outbox e s = (Inr u, s')"
  obtains tab' where "w_db s' = (w_db s)\<lparr>domain_outbox := tab'\<rparr>"
    and "map (ob_envelope \<circ> snd) tab' = outbox_of (w_db s) @ [e]"
    and "map_of (domain_outbox (w_db s)) (ev_id e) = None"
  using assms unfolding insert_outbox_def
  by (auto simp: prog_iffs stmt_iffs insert_at_Inr outbox_of_def elim!: sql_Inr)

section \<open>Commands and audit\<close>

text \<open>Finding an idempotency record takes the advisory lock of its key first: a statement of its own.\<close>

definition advisory_lock :: "(world, unit) prog" where
  "advisory_lock = query (\<lambda>now d. ())"

text \<open>Commands, keyed by command id with a unique idempotency key; the audit trail.\<close>

definition command_by_key :: "string \<Rightarrow> (uuid \<times> 'r command_row) list \<Rightarrow> (uuid \<times> 'r command_row) option" where
  "command_by_key k tab = find (\<lambda>(i, r). cr_key r = k) tab"

definition key_unused :: "(uuid \<times> 'r command_row) list \<Rightarrow> 'r command_row \<Rightarrow> bool" where
  "key_unused tab r \<longleftrightarrow> command_by_key (cr_key r) tab = None"

definition insert_command ::
    "string \<Rightarrow> uuid \<Rightarrow> 'r command_row \<Rightarrow> (uuid \<times> 'r command_row) list
     \<Rightarrow> err + (uuid \<times> 'r command_row) list" where
  "insert_command name i r tab = insert_at name (key_unused tab) i r tab"

definition insert_audit ::
    "uuid \<Rightarrow> string \<Rightarrow> string \<Rightarrow> string \<Rightarrow> actor \<Rightarrow> json \<Rightarrow> (world, unit) prog" where
  "insert_audit i action outcome aggregate a details =
     sql (on_table audit_record (\<lambda>x d. d\<lparr>audit_record := x\<rparr>) (\<lambda>now tab.
       no_value (insert_at ''audit_record'' (\<lambda>_. True) i
         \<lparr>au_action = action, au_outcome = outcome, au_aggregate = aggregate,
          au_operator = ac_operator a, au_device = ac_device a, au_warehouse = ac_warehouse a,
          au_correlation = ac_correlation a, au_at = now, au_details = details\<rparr> tab)))"

lemma insert_command_key:
  assumes "insert_command name i r tab = Inr tab'"
  shows "command_by_key k tab' = (if k = cr_key r then Some (i, r) else command_by_key k tab)"
  using assms
  by (auto simp: insert_command_def insert_at_Inr key_unused_def command_by_key_def find_append
      split: option.splits)

section \<open>Patterns\<close>

text \<open>\<open>LIKE\<close>: \<open>%\<close> stands for any characters, \<open>_\<close> for one, and a backslash quotes the next; \<open>ILIKE\<close>
  folds the case, and the statements ask for \<open>'%' || $1 || '%'\<close>.\<close>

fun like :: "string \<Rightarrow> string \<Rightarrow> bool" where
  "like s [] = (s = [])"
| "like [] (p # ps) = (p = CHR ''%'' \<and> like [] ps)"
| "like (c # s) (p # ps) =
     (if p = CHR ''%'' then like (c # s) ps \<or> like s (p # ps)
      else if p = CHR ''_'' then like s ps
      else if p = CHR 0x5C then (case ps of [] \<Rightarrow> False | q # qs \<Rightarrow> c = q \<and> like s qs)
      else c = p \<and> like s ps)"

definition ilike :: "string \<Rightarrow> string \<Rightarrow> bool" where
  "ilike s q = like (to_lower s) (CHR ''%'' # to_lower q @ [CHR ''%''])"

section \<open>Stock tables\<close>

text \<open>\<open>INSERT \<dots> ON CONFLICT DO UPDATE SET quantity = quantity + EXCLUDED.quantity\<close>: a new row,
  or the old one with the quantity added, which raises on overflow.\<close>

definition upsert_stock ::
    "string \<Rightarrow> (stock_row \<Rightarrow> bool) \<Rightarrow> 'k \<Rightarrow> int64 \<Rightarrow> time \<Rightarrow> ('k \<times> stock_row) list
     \<Rightarrow> err + ('k \<times> stock_row) list" where
  "upsert_stock name ok k q ts tab = (case map_of tab k of
     None \<Rightarrow> insert_at name ok k \<lparr>st_quantity = q, st_version = 1, st_updated = ts\<rparr> tab
   | Some r \<Rightarrow> (case bigint_add (st_quantity r) q of
         None \<Rightarrow> Inl (violates ''bigint out of range'')
       | Some m \<Rightarrow> map_sum id snd (update_at name ok k
           (\<lambda>r. r\<lparr>st_quantity := m, st_version := st_version r + 1, st_updated := ts\<rparr>) tab)))"

lemma upsert_stock_add:
  assumes "upsert_stock name ok k q now tab = Inr tab'"
  shows "add_stock (\<lambda>k. map_option st_quantity (map_of tab k)) k q
    = Some (\<lambda>k. map_option st_quantity (map_of tab' k))"
proof (cases "map_of tab k")
  case None
  with assms have "insert_at name ok k \<lparr>st_quantity = q, st_version = 1, st_updated = now\<rparr> tab = Inr tab'"
    by (simp add: upsert_stock_def)
  from insert_at_map [OF this] None show ?thesis by (auto simp: add_stock_def fun_eq_iff)
next
  case (Some r)
  with assms obtain m n where m: "bigint_add (st_quantity r) q = Some m"
    and upd: "update_at name ok k
       (\<lambda>r. r\<lparr>st_quantity := m, st_version := st_version r + 1, st_updated := now\<rparr>) tab = Inr (n, tab')"
    by (auto simp: upsert_stock_def map_sum_def split: option.splits sum.splits)
  from update_at_map [OF upd] Some m show ?thesis by (auto simp: add_stock_def fun_eq_iff)
qed

section \<open>Seeds\<close>

text \<open>The demonstration data is dated 2026-08-01, midnight UTC.\<close>

definition seed_instant :: time where
  "seed_instant = 63921139200000000000"

section \<open>No invariant\<close>

definition pg_any :: "world \<Rightarrow> bool" where
  "pg_any = of_db (\<lambda>d. True)"

lemma pg_any [simp]: "pg_any w"
  by (simp add: pg_any_def of_db_def)

lemma keeps_any: "keeps pg_any m"
  by (simp add: keeps_def)

section \<open>Tables of children\<close>

text \<open>
  A table of child rows (the lines of a receipt or of a count, the packages of a shipment):
  reading the children of a parent in key order, and what saving them one by one does to the
  children of that parent and of every other.
\<close>

section \<open>Reading\<close>

text \<open>\<open>SELECT \<dots> WHERE parent = $1 ORDER BY key\<close>; keys are unique.\<close>

definition child_keys :: "('r \<Rightarrow> string) \<Rightarrow> string \<Rightarrow> (string \<times> 'r) list \<Rightarrow> string list" where
  "child_keys parent i tab =
     filter (\<lambda>l. map_option parent (map_of tab l) = Some i) (sort (remdups (map fst tab)))"

definition children ::
    "('r \<Rightarrow> string) \<Rightarrow> (string \<Rightarrow> 'r \<Rightarrow> 'c) \<Rightarrow> string \<Rightarrow> (string \<times> 'r) list \<Rightarrow> 'c list" where
  "children parent scan i tab = map (\<lambda>l. scan l (the (map_of tab l))) (child_keys parent i tab)"

lemma distinct_child_keys: "distinct (child_keys parent i tab)"
  by (simp add: child_keys_def)

lemma update_keys_same: "update_at name ok k f tab = Inr (n, tab') \<Longrightarrow> map fst tab' = map fst tab"
  by (force simp: update_at_Inr update_keys split: option.splits dest: map_of_SomeD)

lemma child_keys_cong:
  "map fst tab' = map fst tab \<Longrightarrow> (\<And>l. map_option parent (map_of tab' l) = map_option parent (map_of tab l)) \<Longrightarrow>
    child_keys parent i tab' = child_keys parent i tab"
  by (simp add: child_keys_def)

section \<open>Saving\<close>

definition save_child ::
    "string \<Rightarrow> ('r \<Rightarrow> bool) \<Rightarrow> (tables \<Rightarrow> (string \<times> 'r) list) \<Rightarrow> ((string \<times> 'r) list \<Rightarrow> tables \<Rightarrow> tables)
     \<Rightarrow> string \<Rightarrow> ('r \<Rightarrow> 'r) \<Rightarrow> (world, unit) prog" where
  "save_child name ok get put k f =
     bindP (sql (on_table get put (\<lambda>now tab. update_at name ok k f tab))) (\<lambda>n. returnP ())"

locale child_table =
  fixes name :: string and ok :: "'r \<Rightarrow> bool"
    and get :: "tables \<Rightarrow> (string \<times> 'r) list" and put :: "(string \<times> 'r) list \<Rightarrow> tables \<Rightarrow> tables"
    and parent :: "'r \<Rightarrow> string" and scan :: "string \<Rightarrow> 'r \<Rightarrow> 'c" and key :: "'c \<Rightarrow> string"
    and store :: "'c \<Rightarrow> 'r \<Rightarrow> 'r" and core :: "'c \<Rightarrow> 'd"
  assumes get_put: "get (put t d) = t" and put_put: "put t' (put t d) = put t' d" and put_get: "put (get d) d = d"
    and parent_store: "parent (store c r) = parent r"
    and key_scan: "key (scan l r) = l"
    and key_core: "core c = core c' \<Longrightarrow> key c = key c'"
    and scan_store: "core c = core (scan (key c) r) \<Longrightarrow> scan (key c) (store c r) = c"
begin

lemma children_ids: "map key (children parent scan i tab) = child_keys parent i tab"
  by (simp add: children_def key_scan comp_def)

lemma save_one:
  assumes "save_child name ok get put (key c) (store c) s = (Inr u, s')"
  obtains tab where "w_db s' = put tab (w_db s)" and "map fst tab = map fst (get (w_db s))"
    and "map_of tab = (map_of (get (w_db s)))(key c := map_option (store c) (map_of (get (w_db s)) (key c)))"
    and "map_of (get (w_db s)) (key c) \<noteq> None \<longrightarrow> (\<exists>r. ok (store c r))"
proof -
  from assms obtain n where
    "sql (on_table get put (\<lambda>now tab. update_at name ok (key c) (store c) tab)) s = (Inr n, s')"
    by (auto simp: save_child_def prog_iffs)
  then obtain tab where upd: "update_at name ok (key c) (store c) (get (w_db s)) = Inr (n, tab)"
    and db: "w_db s' = put tab (w_db s)" by (rule sql_table_Inr) auto
  show thesis
    by (rule that [OF db update_keys_same [OF upd] update_at_map [OF upd, THEN conjunct1]])
      (use upd in \<open>auto simp: update_at_Inr split: option.splits\<close>)
qed

lemma children_update:
  assumes keys: "map fst tab' = map fst tab" and at: "map_of tab' = (map_of tab)(k := map_option (store c) (map_of tab k))"
  shows "child_keys parent i tab' = child_keys parent i tab"
    and "children parent scan i tab' =
      map (\<lambda>l. if l = k then scan l (store c (the (map_of tab l))) else scan l (the (map_of tab l))) (child_keys parent i tab)"
proof -
  show ck: "child_keys parent i tab' = child_keys parent i tab"
    by (rule child_keys_cong [OF keys]) (auto simp: at parent_store option.map_comp comp_def)
  show "children parent scan i tab' =
      map (\<lambda>l. if l = k then scan l (store c (the (map_of tab l))) else scan l (the (map_of tab l))) (child_keys parent i tab)"
    unfolding children_def ck by (rule map_cong) (auto simp: at child_keys_def)
qed

text \<open>Saving the tail of a list of children, the head of which is saved already.\<close>

lemma save_rest:
  assumes "forP cs (\<lambda>c. save_child name ok get put (key c) (store c)) s = (Inr u, s')"
    and "children parent scan i (get (w_db s)) = done' @ old" and "map core old = map core cs"
    and "distinct (map key (done' @ old))"
  shows "\<exists>tab. w_db s' = put tab (w_db s) \<and> children parent scan i tab = done' @ cs
    \<and> (\<forall>j. j \<noteq> i \<longrightarrow> children parent scan j tab = children parent scan j (get (w_db s)))
    \<and> (\<forall>c \<in> set cs. \<exists>r. ok (store c r))"
  using assms
proof (induction cs arbitrary: s done' old)
  case Nil
  then show ?case by (intro exI [of _ "get (w_db s)"]) (simp add: put_get)
next
  case (Cons c cs)
  from Cons.prems(1) obtain s1 where one: "save_child name ok get put (key c) (store c) s = (Inr (), s1)"
    and rest: "forP cs (\<lambda>c. save_child name ok get put (key c) (store c)) s1 = (Inr u, s')"
    by (auto simp: prog_iffs)
  from one obtain tab where db: "w_db s1 = put tab (w_db s)" and k: "map fst tab = map fst (get (w_db s))"
    and at: "map_of tab = (map_of (get (w_db s)))(key c := map_option (store c) (map_of (get (w_db s)) (key c)))"
    and ok: "map_of (get (w_db s)) (key c) \<noteq> None \<longrightarrow> (\<exists>r. ok (store c r))" by (rule save_one)
  let ?T = "get (w_db s)"
  from Cons.prems(3) obtain o' old' where old: "old = o' # old'" and co: "core o' = core c" "map core old' = map core cs"
    by (cases old) auto
  have ko: "key o' = key c" using co(1) by (rule key_core)
  have ids: "child_keys parent i ?T = map key done' @ key c # map key old'"
    using Cons.prems(2) old ko by (simp add: children_ids [symmetric])
  then have mem: "key c \<in> set (child_keys parent i ?T)" by simp
  then obtain r where r: "map_of ?T (key c) = Some r" and p: "parent r = i" by (auto simp: child_keys_def)
  have dist: "distinct (map key done' @ key c # map key old')" using Cons.prems(4) old ko by simp
  have kids: "map (\<lambda>l. scan l (the (map_of ?T l))) (child_keys parent i ?T) = done' @ o' # old'"
    using Cons.prems(2) old by (simp add: children_def)
  have parts: "map (\<lambda>l. scan l (the (map_of ?T l))) (map key done') = done'"
    "scan (key c) r = o'" "map (\<lambda>l. scan l (the (map_of ?T l))) (map key old') = old'"
    using kids unfolding ids by (auto simp: r append_eq_append_conv)
  have same: "map (\<lambda>l. if l = key c then scan l (store c (the (map_of ?T l))) else scan l (the (map_of ?T l))) (map key done')
      = map (\<lambda>l. scan l (the (map_of ?T l))) (map key done')"
    "map (\<lambda>l. if l = key c then scan l (store c (the (map_of ?T l))) else scan l (the (map_of ?T l))) (map key old')
      = map (\<lambda>l. scan l (the (map_of ?T l))) (map key old')"
    using dist by (auto intro!: map_cong simp: image_iff)
  have "scan (key c) (store c r) = c" by (rule scan_store) (simp add: parts(2) co(1))
  then have new: "children parent scan i tab = (done' @ [c]) @ old'"
    unfolding children_update(2) [OF k at] ids using r by (simp del: map_map add: same parts)
  have others: "children parent scan j tab = children parent scan j ?T" if "j \<noteq> i" for j
  proof -
    have "key c \<notin> set (child_keys parent j ?T)" using that r p by (simp add: child_keys_def)
    then show ?thesis
      unfolding children_update(2) [OF k at] by (auto simp: children_def)
  qed
  have "\<exists>tab'. w_db s' = put tab' (w_db s1) \<and> children parent scan i tab' = (done' @ [c]) @ cs
    \<and> (\<forall>j. j \<noteq> i \<longrightarrow> children parent scan j tab' = children parent scan j (get (w_db s1)))
    \<and> (\<forall>c \<in> set cs. \<exists>r. ok (store c r))"
    by (rule Cons.IH [OF rest _ co(2)]) (use new dist ko in \<open>simp_all add: db get_put\<close>)
  with others ok r show ?case by (auto simp: db get_put put_put)
qed

lemma save_children:
  assumes "forP cs (\<lambda>c. save_child name ok get put (key c) (store c)) s = (Inr u, s')"
    and "map core cs = map core (children parent scan i (get (w_db s)))"
  shows "\<exists>tab. w_db s' = put tab (w_db s) \<and> children parent scan i tab = cs
    \<and> (\<forall>j. j \<noteq> i \<longrightarrow> children parent scan j tab = children parent scan j (get (w_db s)))
    \<and> (\<forall>c \<in> set cs. \<exists>r. ok (store c r))"
  using save_rest [OF assms(1), of i "[]"] assms(2) by (simp add: children_ids distinct_child_keys)

end

end
