(* ===== verification/Exec_Service.thy ===== *)
theory Exec_Service
  imports Exec_Task
begin

text \<open>
  The task service of \<open>internal/execution/application/task_service.go\<close> over the ports of
  \<open>internal/execution/ports/task.go\<close>: listing, detail, summary, dashboard and command status
  with their access checks, and the idempotent commands claim and release. The contract of
  a task store is the locale \<open>task_store\<close>; what a command does is stated once against it.
\<close>

section \<open>Ports\<close>

text \<open>One field per port function the service calls; \<open>tsp_within_tx\<close> takes the closure, whose
  captured variables \<open>result\<close> and \<open>mutated\<close> are its value.\<close>

record 's task_ports =
  tsp_get :: "string \<Rightarrow> ('s, task) prog"
  tsp_save :: "task \<Rightarrow> ('s, unit) prog"
  tsp_list :: "task_filter \<Rightarrow> ('s, task_page) prog"
  tsp_summary :: "string \<Rightarrow> string \<Rightarrow> string \<Rightarrow> ('s, summary_item list) prog"
  tsp_dashboard :: "string \<Rightarrow> string \<Rightarrow> ('s, dashboard) prog"
  tsp_find :: "string \<Rightarrow> ('s, idempotency_result option) prog"
  tsp_save_key :: "string \<Rightarrow> idempotency_result \<Rightarrow> ('s, unit) prog"
  tsp_append :: "envelope \<Rightarrow> ('s, unit) prog"
  tsp_within_tx :: "('s, idempotency_result \<times> bool) prog \<Rightarrow> ('s, idempotency_result \<times> bool) prog"
  tsp_publish :: "envelope \<Rightarrow> ('s, unit) prog"
  tsp_invalidate :: "string \<Rightarrow> string \<Rightarrow> ('s, unit) prog"
  tsp_now :: "('s, time) prog"
  tsp_new_uuid :: "('s, uuid) prog"
  tsp_uuid_string :: "uuid \<Rightarrow> string"

record task_command =
  tc_task :: string
  tc_key :: string
  tc_id :: uuid
  tc_base_version :: int64
  tc_actor :: actor

definition warehouse_denied :: err where
  [err_defs]: "warehouse_denied =
     DomainError ''WAREHOUSE_ACCESS_DENIED'' ''Warehouse access denied'' False"

definition command_denied :: err where
  [err_defs]: "command_denied =
     DomainError ''WAREHOUSE_ACCESS_DENIED'' ''Command access denied'' False"

definition task_publish_pending :: err where
  [err_defs]: "task_publish_pending =
     DomainError ''MESSAGING_PUBLISH_PENDING'' ''Task committed; event publication pending'' True"

section \<open>Queries\<close>

definition command_status ::
    "'s task_ports \<Rightarrow> uuid \<Rightarrow> actor \<Rightarrow> ('s, idempotency_result) prog" where
  "command_status P cid a =
     bindP (tsp_find P (tsp_uuid_string P cid)) (\<lambda>found.
       case found of
         None \<Rightarrow> failP ErrTaskNotFound
       | Some r \<Rightarrow>
           if tk_warehouse (ir_task r) \<noteq> ac_warehouse a
              \<or> tk_operator (ir_task r) \<noteq> Some (ac_operator a)
           then failP command_denied else returnP r)"

definition list_tasks :: "'s task_ports \<Rightarrow> task_filter \<Rightarrow> actor \<Rightarrow> ('s, task_page) prog" where
  "list_tasks P f a =
     (if tf_warehouse f \<noteq> ac_warehouse a then failP warehouse_denied
      else tsp_list P (f\<lparr>tf_operator := ac_operator a,
        tf_limit := if i64_less (tf_limit f) 1 \<or> i64_less 100 (tf_limit f) then 20 else tf_limit f\<rparr>))"

definition detail :: "'s task_ports \<Rightarrow> string \<Rightarrow> actor \<Rightarrow> ('s, task) prog" where
  "detail P i a =
     bindP (tsp_get P i) (\<lambda>t.
       if tk_warehouse t \<noteq> ac_warehouse a
          \<or> (tk_operator t \<noteq> None \<and> tk_operator t \<noteq> Some (ac_operator a))
       then failP ErrTaskNotFound else returnP t)"

definition summary ::
    "'s task_ports \<Rightarrow> string \<Rightarrow> string \<Rightarrow> actor \<Rightarrow> ('s, summary_item list) prog" where
  "summary P w status a =
     (if w \<noteq> ac_warehouse a then failP warehouse_denied
      else tsp_summary P w (ac_operator a) status)"

definition get_dashboard :: "'s task_ports \<Rightarrow> actor \<Rightarrow> ('s, dashboard) prog" where
  "get_dashboard P a = tsp_dashboard P (ac_warehouse a) (ac_operator a)"

section \<open>Commands\<close>

definition task_event ::
    "task_command \<Rightarrow> string \<Rightarrow> uuid \<Rightarrow> time \<Rightarrow> task \<Rightarrow> envelope" where
  "task_event c event_type eid ts t =
     \<lparr>ev_id = eid, ev_type = event_type, ev_version = 1, ev_agg_type = ''WarehouseTask'',
      ev_agg_id = tk_id t, ev_agg_version = tk_version t, ev_at = ts,
      ev_correlation = ac_correlation (tc_actor c), ev_cause = tc_id c,
      ev_warehouse = ac_warehouse (tc_actor c), ev_operator = ac_operator (tc_actor c),
      ev_device = ac_device (tc_actor c), ev_topic = ''pda.task.events.v1'',
      ev_payload = RawJSON (JObj [(''category'', JStr (tk_category t)),
        (''status'', JStr (tk_status t)), (''taskId'', JStr (tk_id t))])\<rparr>"

definition wrap_err :: "string \<Rightarrow> err + 'a \<Rightarrow> err + 'a" where
  "wrap_err m r = (case r of Inl e \<Rightarrow> Inl (WrapError m e) | Inr x \<Rightarrow> Inr x)"

lemma wrap_err_Inr_iff [simp]: "wrap_err m r = Inr x \<longleftrightarrow> r = Inr x"
  by (cases r) (simp_all add: wrap_err_def)

text \<open>The closure given to \<open>WithinTransaction\<close>; \<open>record_task\<close> is its part after the
  transition, which turned \<open>t\<close> into \<open>t'\<close>.\<close>

definition record_task ::
    "'s task_ports \<Rightarrow> task_command \<Rightarrow> string \<Rightarrow> task \<Rightarrow> task \<Rightarrow> ('s, idempotency_result \<times> bool) prog" where
  "record_task P c event_type t t' =
     (if tk_version t' = tk_version t
      then let result = \<lparr>ir_task = t', ir_event = zero_envelope\<rparr> in
        bindP (tsp_save_key P (tc_key c) result) (\<lambda>_. returnP (result, False))
      else
        bindP (tsp_new_uuid P) (\<lambda>eid.
        bindP (tsp_now P) (\<lambda>ts.
        let e = task_event c event_type eid ts t';
            result = \<lparr>ir_task = t', ir_event = e\<rparr> in
        bindP (liftE (wrap_err ''create task event'' (validate e))) (\<lambda>_.
        bindP (tsp_save P t') (\<lambda>_.
        bindP (tsp_append P e) (\<lambda>_.
        bindP (tsp_save_key P (tc_key c) result) (\<lambda>_.
        returnP (result, True))))))))"

definition mutate_tx ::
    "'s task_ports \<Rightarrow> task_command \<Rightarrow> string \<Rightarrow> (task \<Rightarrow> ('s, task) prog)
     \<Rightarrow> ('s, idempotency_result \<times> bool) prog" where
  "mutate_tx P c event_type transition =
     bindP (tsp_find P (tc_key c)) (\<lambda>previous.
       case previous of
         Some r \<Rightarrow> returnP (r, False)
       | None \<Rightarrow>
          bindP (tsp_get P (tc_task c)) (\<lambda>t.
          bindP (checkP (tk_warehouse t \<noteq> ac_warehouse (tc_actor c)) warehouse_denied) (\<lambda>_.
          bindP (transition t) (\<lambda>t'.
          record_task P c event_type t t'))))"

definition mutate ::
    "'s task_ports \<Rightarrow> task_command \<Rightarrow> string \<Rightarrow> (task \<Rightarrow> ('s, task) prog) \<Rightarrow> 's \<Rightarrow> task reply \<times> 's" where
  "mutate P c event_type transition s =
     (case tsp_within_tx P (mutate_tx P c event_type transition) s of
        (Inl e, s1) \<Rightarrow> (Failed e, s1)
      | (Inr (r, mutated), s1) \<Rightarrow>
          if \<not> mutated then (Done (ir_task r), s1)
          else
            let s2 = snd (tsp_invalidate P (ac_warehouse (tc_actor c)) (ac_operator (tc_actor c)) s1)
            in if ev_id (ir_event r) = uuid_nil then (Done (ir_task r), s2)
               else case tsp_publish P (ir_event r) s2 of
                      (Inl _, s3) \<Rightarrow> (DonePending (ir_task r) task_publish_pending, s3)
                    | (Inr _, s3) \<Rightarrow> (Done (ir_task r), s3))"

text \<open>A transition that reads the clock for its time stamp.\<close>

definition timed ::
    "'s task_ports \<Rightarrow> (time \<Rightarrow> task \<Rightarrow> err + task) \<Rightarrow> task \<Rightarrow> ('s, task) prog" where
  "timed P f t = bindP (tsp_now P) (\<lambda>now. liftE (f now t))"

definition claim_task :: "'s task_ports \<Rightarrow> task_command \<Rightarrow> 's \<Rightarrow> task reply \<times> 's" where
  "claim_task P c =
     mutate P c ''TaskAssigned'' (timed P (claim (ac_operator (tc_actor c)) (tc_base_version c)))"

definition release_task :: "'s task_ports \<Rightarrow> task_command \<Rightarrow> 's \<Rightarrow> task reply \<times> 's" where
  "release_task P c =
     mutate P c ''TaskReleased'' (timed P (release (ac_operator (tc_actor c)) (tc_base_version c)))"

end
