(* ===== verification/Exec_Contract.thy ===== *)
theory Exec_Contract
  imports Exec_Service
begin

text \<open>
  What a task store promises, as a locale over an abstract view of its state, and what a
  command therefore does: replay, leave alone, or change one task together with one
  outbox event and one idempotency record. The stores are interpreted in their own theories.
\<close>

section \<open>The abstract store\<close>

record task_view =
  tv_tasks :: "string \<rightharpoonup> task"
  tv_keys :: "string \<rightharpoonup> idempotency_result"
  tv_outbox :: "envelope list"

text \<open>The store keeps a result as JSON, where an absent payload becomes the document
  \<open>null\<close>: \<open>stored_as\<close> relates the result given to the one found later.\<close>

definition stored_as :: "idempotency_result \<Rightarrow> idempotency_result \<Rightarrow> bool" where
  "stored_as r r' \<longleftrightarrow> ir_task r' = ir_task r \<and> ev_id (ir_event r') = ev_id (ir_event r)
     \<and> (ev_payload (ir_event r) \<noteq> RawEmpty \<longrightarrow> r' = r)"

lemma stored_as_refl [simp]: "stored_as r r"
  by (simp add: stored_as_def)

text \<open>The effect of a command on the view. \<open>f\<close> is the transition with its clock reading.\<close>

inductive task_effect ::
    "task_command \<Rightarrow> string \<Rightarrow> (time \<Rightarrow> task \<Rightarrow> err + task)
     \<Rightarrow> task_view \<Rightarrow> idempotency_result \<Rightarrow> bool \<Rightarrow> task_view \<Rightarrow> bool"
  for c :: task_command and event_type :: string and f :: "time \<Rightarrow> task \<Rightarrow> err + task" where
  replayed: "tv_keys v (tc_key c) = Some r \<Longrightarrow> task_effect c event_type f v r False v"
| unchanged: "tv_keys v (tc_key c) = None \<Longrightarrow> tv_tasks v (tc_task c) = Some t \<Longrightarrow>
    tk_warehouse t = ac_warehouse (tc_actor c) \<Longrightarrow> f now t = Inr t' \<Longrightarrow>
    tk_version t' = tk_version t \<Longrightarrow> r = \<lparr>ir_task = t', ir_event = zero_envelope\<rparr> \<Longrightarrow>
    stored_as r r' \<Longrightarrow>
    task_effect c event_type f v r False (v\<lparr>tv_keys := (tv_keys v)(tc_key c \<mapsto> r')\<rparr>)"
| changed: "tv_keys v (tc_key c) = None \<Longrightarrow> tv_tasks v (tc_task c) = Some t \<Longrightarrow>
    tk_warehouse t = ac_warehouse (tc_actor c) \<Longrightarrow> f now t = Inr t' \<Longrightarrow>
    tk_version t' \<noteq> tk_version t \<Longrightarrow> e = task_event c event_type eid ts t' \<Longrightarrow>
    well_formed e \<Longrightarrow> r = \<lparr>ir_task = t', ir_event = e\<rparr> \<Longrightarrow>
    task_effect c event_type f v r True
      \<lparr>tv_tasks = (tv_tasks v)(tc_task c \<mapsto> t'), tv_keys = (tv_keys v)(tc_key c \<mapsto> r),
       tv_outbox = tv_outbox v @ [e]\<rparr>"

inductive_cases task_effectE: "task_effect c event_type f v r m v'"

lemma task_event_sel [simp]:
  "ev_id (task_event c et eid ts t) = eid" "ev_type (task_event c et eid ts t) = et"
  "ev_agg_id (task_event c et eid ts t) = tk_id t"
  "ev_agg_version (task_event c et eid ts t) = tk_version t"
  "ev_warehouse (task_event c et eid ts t) = ac_warehouse (tc_actor c)"
  "ev_operator (task_event c et eid ts t) = ac_operator (tc_actor c)"
  "ev_cause (task_event c et eid ts t) = tc_id c"
  "ev_payload (task_event c et eid ts t) \<noteq> RawEmpty"
  by (simp_all add: task_event_def)

section \<open>The contract\<close>

text \<open>
  \<open>inv\<close> is the store's invariant and \<open>view\<close> its contents. Every operation keeps the
  invariant; one that reports an error, and every read, keeps the contents. A transaction
  that reports success ran its body once.
\<close>

locale task_store =
  fixes P :: "'s task_ports"
    and inv :: "'s \<Rightarrow> bool"
    and view :: "'s \<Rightarrow> task_view"
  assumes keeps_get: "keeps inv (tsp_get P i)"
    and keeps_save: "keeps inv (tsp_save P t)"
    and keeps_find: "keeps inv (tsp_find P k)"
    and keeps_save_key: "keeps inv (tsp_save_key P k r)"
    and keeps_append: "keeps inv (tsp_append P e)"
    and keeps_now: "keeps inv (tsp_now P)"
    and keeps_uuid: "keeps inv (tsp_new_uuid P)"
    and keeps_publish: "keeps inv (tsp_publish P e)"
    and keeps_invalidate: "keeps inv (tsp_invalidate P w p)"
    and keeps_tx: "keeps inv m \<Longrightarrow> keeps inv (tsp_within_tx P m)"
    and frame_get: "frame view (tsp_get P i)"
    and frame_find: "frame view (tsp_find P k)"
    and frame_now: "frame view (tsp_now P)"
    and frame_uuid: "frame view (tsp_new_uuid P)"
    and frame_publish: "frame view (tsp_publish P e)"
    and frame_invalidate: "frame view (tsp_invalidate P w p)"
    and get_ok: "inv s \<Longrightarrow> tsp_get P i s = (Inr t, s') \<Longrightarrow>
      tv_tasks (view s) i = Some t \<and> tk_id t = i"
    and find_ok: "tsp_find P k s = (Inr found, s') \<Longrightarrow> tv_keys (view s) k = found"
    and save_ok: "inv s \<Longrightarrow> tsp_save P t s = (Inr u, s') \<Longrightarrow>
      tv_tasks (view s) (tk_id t) = Some t0 \<Longrightarrow> same_work t0 t \<Longrightarrow>
      view s' = (view s)\<lparr>tv_tasks := (tv_tasks (view s))(tk_id t \<mapsto> t)\<rparr>"
    and save_key_ok: "tsp_save_key P k r s = (Inr u, s') \<Longrightarrow>
      \<exists>r'. stored_as r r' \<and> view s' = (view s)\<lparr>tv_keys := (tv_keys (view s))(k \<mapsto> r')\<rparr>"
    and append_ok: "well_formed e \<Longrightarrow> tsp_append P e s = (Inr u, s') \<Longrightarrow>
      view s' = (view s)\<lparr>tv_outbox := tv_outbox (view s) @ [e]\<rparr>"
    and tx_ok: "tsp_within_tx P m s = (Inr x, s') \<Longrightarrow>
      \<exists>s1 s2. view s1 = view s \<and> (inv s \<longrightarrow> inv s1) \<and> m s1 = (Inr x, s2) \<and> view s' = view s2"
begin

lemmas keeps_ports = keeps_get keeps_save keeps_find keeps_save_key keeps_append keeps_now
  keeps_uuid keeps_publish keeps_invalidate

lemmas frame_ports = frame_get frame_find frame_now frame_uuid frame_publish frame_invalidate

lemma keeps_timed: "keeps inv (timed P f t)"
  unfolding timed_def by (intro keeps_intros keeps_ports)

lemma keeps_record_task: "keeps inv (record_task P c et t t')"
  unfolding record_task_def Let_def by (intro keeps_intros keeps_ports)

lemma keeps_mutate_tx: "keeps inv (mutate_tx P c et (timed P f))"
  unfolding mutate_tx_def by (intro keeps_intros keeps_ports keeps_record_task keeps_timed)

lemma timed_Inr:
  "timed P f t s = (Inr t', s') \<Longrightarrow> \<exists>now. f now t = Inr t' \<and> view s' = view s"
  unfolding timed_def by (auto simp: prog_iffs dest: frameD [OF frame_now])

text \<open>A transition must return the same piece of work it was given.\<close>

definition works :: "(time \<Rightarrow> task \<Rightarrow> err + task) \<Rightarrow> bool" where
  "works f \<longleftrightarrow> (\<forall>now t t'. f now t = Inr t' \<longrightarrow> same_work t t')"

lemma works_claim: "works (claim p b)" and works_release: "works (release p b)"
  by (auto simp: works_def dest: claim_ok(4) release_ok(5))

lemma record_task_effect:
  assumes inv: "inv s" and run: "record_task P c et t t' s = (Inr (r, m), s')"
    and key: "tv_keys (view s) (tc_key c) = None" and task: "tv_tasks (view s) (tc_task c) = Some t"
    and wh: "tk_warehouse t = ac_warehouse (tc_actor c)" and id: "tk_id t = tc_task c"
    and f: "f now t = Inr t'" and work: "same_work t t'"
  shows "task_effect c et f (view s) r m (view s')"
proof (cases "tk_version t' = tk_version t")
  case True
  with run have "tsp_save_key P (tc_key c) \<lparr>ir_task = t', ir_event = zero_envelope\<rparr> s = (Inr (), s')"
    and rm: "r = \<lparr>ir_task = t', ir_event = zero_envelope\<rparr>" "m = False"
    unfolding record_task_def Let_def by (auto simp: prog_iffs)
  then obtain r' where "stored_as r r'" "view s' = (view s)\<lparr>tv_keys := (tv_keys (view s))(tc_key c \<mapsto> r')\<rparr>"
    using save_key_ok by blast
  with True f wh task key show ?thesis by (auto intro: task_effect.unchanged simp: rm)
next
  case False
  with run obtain eid ts s4 s5 s6 s7 e
    where e: "e = task_event c et eid ts t'"
      and uuid: "tsp_new_uuid P s = (Inr eid, s4)" and clock: "tsp_now P s4 = (Inr ts, s5)"
      and valid: "validate e = Inr ()" and save: "tsp_save P t' s5 = (Inr (), s6)"
      and app: "tsp_append P e s6 = (Inr (), s7)"
      and keyed: "tsp_save_key P (tc_key c) \<lparr>ir_task = t', ir_event = e\<rparr> s7 = (Inr (), s')"
      and rm: "r = \<lparr>ir_task = t', ir_event = e\<rparr>" "m = True"
    unfolding record_task_def by (auto simp: prog_iffs Let_def)
  have i5: "inv s5" by (rule keepsD [OF keeps_now clock keepsD [OF keeps_uuid uuid inv]])
  have v5: "view s5 = view s" using frameD [OF frame_now clock] frameD [OF frame_uuid uuid] by simp
  have idt': "tk_id t' = tc_task c" using same_work_id [OF work] id by simp
  have v6: "view s6 = (view s)\<lparr>tv_tasks := (tv_tasks (view s))(tc_task c \<mapsto> t')\<rparr>"
    using save_ok [OF i5 save, of t] v5 task work idt' by simp
  from save_key_ok [OF keyed] e
  have "view s' = (view s7)\<lparr>tv_keys := (tv_keys (view s7))(tc_key c \<mapsto> r)\<rparr>"
    by (auto simp: stored_as_def rm)
  then have "view s' = \<lparr>tv_tasks = (tv_tasks (view s))(tc_task c \<mapsto> t'),
      tv_keys = (tv_keys (view s))(tc_key c \<mapsto> r), tv_outbox = tv_outbox (view s) @ [e]\<rparr>"
    using append_ok [OF _ app] v6 valid by (simp add: validate_accepts)
  with False f wh task key rm e valid show ?thesis
    by (auto intro!: task_effect.changed simp: validate_accepts)
qed

lemma mutate_tx_effect:
  assumes inv: "inv s" and run: "mutate_tx P c et (timed P f) s = (Inr (r, m), s')" and "works f"
  shows "task_effect c et f (view s) r m (view s')"
proof -
  from run obtain found s1 where find: "tsp_find P (tc_key c) s = (Inr found, s1)"
    unfolding mutate_tx_def by (auto simp: prog_iffs)
  note v1 = frameD [OF frame_find find] and key = find_ok [OF find]
  note i1 = keepsD [OF keeps_find find inv]
  show ?thesis
  proof (cases found)
    case (Some r0)
    with run find have "r = r0" "m = False" "s' = s1"
      unfolding mutate_tx_def by (auto simp: bindP_run)
    with v1 key Some show ?thesis by (simp add: task_effect.replayed)
  next
    case None
    with run find obtain t t' s2 s3 where get: "tsp_get P (tc_task c) s1 = (Inr t, s2)"
      and wh: "tk_warehouse t = ac_warehouse (tc_actor c)"
      and tr: "timed P f t s2 = (Inr t', s3)"
      and rest: "record_task P c et t t' s3 = (Inr (r, m), s')"
      unfolding mutate_tx_def by (auto simp: prog_iffs)
    note i2 = keepsD [OF keeps_get get i1]
    from timed_Inr [OF tr] obtain now where f: "f now t = Inr t'" and v3: "view s3 = view s2" by auto
    with v1 frameD [OF frame_get get] have v: "view s3 = view s" by simp
    from \<open>works f\<close> f have work: "same_work t t'" by (auto simp: works_def)
    have "inv s3" by (rule keepsD [OF keeps_timed tr i2])
    then have "task_effect c et f (view s3) r m (view s')"
      using rest by (rule record_task_effect) (use get_ok [OF i1 get] v v1 key None wh f work in auto)
    with v show ?thesis by simp
  qed
qed

text \<open>A command that answers with a value took effect; one that answers with a value and
  the pending error did too.\<close>

lemma mutate_value:
  assumes inv: "inv s" and run: "mutate P c et (timed P f) s = (rep, s')" and "works f"
    and val: "reply_value rep = Some t"
  shows "\<exists>r m. task_effect c et f (view s) r m (view s') \<and> t = ir_task r"
proof -
  from run val obtain r m s1
    where tx: "tsp_within_tx P (mutate_tx P c et (timed P f)) s = (Inr (r, m), s1)"
    unfolding mutate_def by (auto split: prod.splits sum.splits)
  obtain s2 q where invd: "tsp_invalidate P (ac_warehouse (tc_actor c)) (ac_operator (tc_actor c)) s1 = (q, s2)"
    by fastforce
  note fi = frameD [OF frame_invalidate invd]
  have "view s' = view s1 \<and> t = ir_task r"
    using run tx invd val fi
    by (auto simp: mutate_def Let_def split: if_splits prod.splits sum.splits dest: frameD [OF frame_publish])
  moreover from tx_ok [OF tx] inv obtain sa sb where "view sa = view s" "inv sa"
    "mutate_tx P c et (timed P f) sa = (Inr (r, m), sb)" "view s1 = view sb" by auto
  ultimately show ?thesis using mutate_tx_effect [of sa c et f r m sb] \<open>works f\<close> by auto
qed

lemma keeps_mutate:
  assumes "inv s" and run: "mutate P c et (timed P f) s = (rep, s')"
  shows "inv s'"
proof -
  obtain q s1 where tx: "tsp_within_tx P (mutate_tx P c et (timed P f)) s = (q, s1)" by fastforce
  note i1 = keepsD [OF keeps_tx [OF keeps_mutate_tx] tx \<open>inv s\<close>]
  obtain x s2 where invd: "tsp_invalidate P (ac_warehouse (tc_actor c)) (ac_operator (tc_actor c)) s1 = (x, s2)"
    by fastforce
  note i2 = keepsD [OF keeps_invalidate invd i1]
  from run tx invd i1 i2 show ?thesis
    by (auto simp: mutate_def Let_def split: if_splits prod.splits sum.splits
        dest: keepsD [OF keeps_publish])
qed

end

section \<open>Two kinds of store\<close>

text \<open>
  A store with real transactions: a transaction that reports an error left the contents
  alone, or committed and lost only the acknowledgement. A store without them runs the body
  in place, and gets away with it because its writes never fail.
\<close>

locale task_store_tx = task_store +
  assumes tx_fail: "tsp_within_tx P m s = (Inl er, s') \<Longrightarrow> view s' = view s \<or>
      (\<exists>y s1 s2. view s1 = view s \<and> (inv s \<longrightarrow> inv s1) \<and> m s1 = (Inr y, s2) \<and> view s' = view s2)"
begin

lemma mutate_all_or_nothing:
  assumes inv: "inv s" and run: "mutate P c et (timed P f) s = (rep, s')" and "works f"
  shows "view s' = view s \<or> (\<exists>r m. task_effect c et f (view s) r m (view s'))"
proof (cases "reply_value rep")
  case (Some t)
  with mutate_value [OF inv run \<open>works f\<close>] show ?thesis by blast
next
  case None
  with run obtain e where "tsp_within_tx P (mutate_tx P c et (timed P f)) s = (Inl e, s')"
    unfolding mutate_def Let_def by (auto split: prod.splits sum.splits if_splits)
  from tx_fail [OF this] show ?thesis
  proof (elim disjE exE conjE)
    fix y s1 s2 assume "view s1 = view s" "inv s \<longrightarrow> inv s1" "view s' = view s2"
      "mutate_tx P c et (timed P f) s1 = (Inr y, s2)"
    with mutate_tx_effect [of s1 c et f "fst y" "snd y" s2] inv \<open>works f\<close> show ?thesis by auto
  qed simp
qed

end

locale task_store_total = task_store +
  assumes tx_plain: "tsp_within_tx P m = m"
    and save_total: "fst (tsp_save P t s) = Inr ()"
    and append_total: "fst (tsp_append P e s) = Inr ()"
    and save_key_total: "fst (tsp_save_key P k r s) = Inr ()"
begin

lemma never_fails:
  "tsp_save P t s \<noteq> (Inl x, s')" "tsp_append P e s \<noteq> (Inl x, s')" "tsp_save_key P k r s \<noteq> (Inl x, s')"
  using save_total [of t s] append_total [of e s] save_key_total [of k r s] by auto

lemma frame_timed: "frame view (timed P f t)"
  unfolding timed_def by (intro frame_intros frame_ports)

lemma record_task_fails: "record_task P c et t t' s = (Inl x, s') \<Longrightarrow> view s' = view s"
  unfolding record_task_def Let_def
  by (auto simp: prog_iffs never_fails split: if_splits dest!: frameD [OF frame_uuid] frameD [OF frame_now])

lemma mutate_fails:
  assumes "mutate P c et (timed P f) s = (Failed e, s')"
  shows "view s' = view s"
proof -
  from assms have "mutate_tx P c et (timed P f) s = (Inl e, s')"
    unfolding mutate_def Let_def by (auto simp: tx_plain split: prod.splits sum.splits if_splits)
  then show ?thesis
    unfolding mutate_tx_def
    by (auto simp: prog_iffs split: option.splits dest!: record_task_fails frameD [OF frame_find]
        frameD [OF frame_get] frameD [OF frame_timed])
qed

end

text \<open>A store whose only way to the event log is the publisher.\<close>

locale task_store_log = task_store +
  fixes log :: "'a \<Rightarrow> envelope list"
  assumes log_publish: "tsp_publish P e s = (q, s') \<Longrightarrow>
      log s' = log s @ (if q = Inr () then [e] else [])"
    and log_get: "frame log (tsp_get P i)"
    and log_save: "frame log (tsp_save P t)"
    and log_find: "frame log (tsp_find P k)"
    and log_save_key: "frame log (tsp_save_key P k r)"
    and log_append: "frame log (tsp_append P e)"
    and log_now: "frame log (tsp_now P)"
    and log_uuid: "frame log (tsp_new_uuid P)"
    and log_invalidate: "frame log (tsp_invalidate P w p)"
    and log_tx: "frame log m \<Longrightarrow> frame log (tsp_within_tx P m)"
begin

lemmas log_frames = log_get log_save log_find log_save_key log_append log_now log_uuid log_invalidate

lemma log_mutate_tx: "frame log (mutate_tx P c et (timed P f))"
  unfolding mutate_tx_def record_task_def timed_def Let_def by (intro frame_intros log_frames)

text \<open>What is published was committed: a command publishes at most the event it recorded.\<close>

lemma mutate_publishes:
  assumes inv: "inv s" and run: "mutate P c et (timed P f) s = (rep, s')" and "works f"
  shows "log s' = log s \<or>
    (\<exists>r. task_effect c et f (view s) r True (view s') \<and> log s' = log s @ [ir_event r])"
proof -
  obtain q s1 where tx: "tsp_within_tx P (mutate_tx P c et (timed P f)) s = (q, s1)" by fastforce
  have l1: "log s1 = log s" by (rule frameD [OF log_tx [OF log_mutate_tx] tx])
  obtain z s2 where invd: "tsp_invalidate P (ac_warehouse (tc_actor c)) (ac_operator (tc_actor c)) s1 = (z, s2)"
    by fastforce
  have l2: "log s2 = log s" using frameD [OF log_invalidate invd] l1 by simp
  show ?thesis
  proof (cases "\<exists>r. q = Inr (r, True) \<and> ev_id (ir_event r) \<noteq> uuid_nil")
    case False
    with run tx invd l1 l2 show ?thesis
      by (auto simp: mutate_def Let_def split: sum.splits if_splits prod.splits)
  next
    case True
    then obtain r where q: "q = Inr (r, True)" "ev_id (ir_event r) \<noteq> uuid_nil" by blast
    obtain y s3 where pub: "tsp_publish P (ir_event r) s2 = (y, s3)" by fastforce
    with run tx invd q have s': "s' = s3" and "reply_value rep = Some (ir_task r)"
      by (auto simp: mutate_def Let_def split: sum.splits)
    from tx_ok [OF tx [unfolded q]] inv obtain sa sb where "view sa = view s" "inv sa"
      "mutate_tx P c et (timed P f) sa = (Inr (r, True), sb)" "view s1 = view sb" by auto
    with mutate_tx_effect [of sa c et f r True sb] \<open>works f\<close>
    have "task_effect c et f (view s) r True (view s1)" by simp
    moreover have "view s' = view s1"
      using frameD [OF frame_invalidate invd] frameD [OF frame_publish pub] s' by simp
    ultimately show ?thesis using log_publish [OF pub] l2 s' by auto
  qed
qed

end

section \<open>Consequences of the effect\<close>

text \<open>Histories of claims and releases, by any operators, in any order.\<close>

inductive task_step :: "task_command \<Rightarrow> task_view \<Rightarrow> task_view \<Rightarrow> bool" for c :: task_command where
  claimed: "task_effect c ''TaskAssigned'' (claim (ac_operator (tc_actor c)) (tc_base_version c)) v r m v'
    \<Longrightarrow> task_step c v v'"
| released: "task_effect c ''TaskReleased'' (release (ac_operator (tc_actor c)) (tc_base_version c)) v r m v'
    \<Longrightarrow> task_step c v v'"
| nothing: "task_step c v v"

inductive task_history :: "task_command list \<Rightarrow> task_view \<Rightarrow> task_view \<Rightarrow> bool" where
  start: "task_history [] v v"
| step: "task_history cs v0 v \<Longrightarrow> task_step c v v' \<Longrightarrow> task_history (cs @ [c]) v0 v'"

text \<open>A step changes at most the task it names: nothing, or the task by one version with
  one event of that version.\<close>

definition one_more :: "task_view \<Rightarrow> task_view \<Rightarrow> string \<Rightarrow> task \<Rightarrow> task \<Rightarrow> envelope \<Rightarrow> bool" where
  "one_more v v' i t t' e \<longleftrightarrow> tv_tasks v i = Some t \<and> tv_tasks v' = (tv_tasks v)(i \<mapsto> t')
     \<and> tv_outbox v' = tv_outbox v @ [e] \<and> ev_agg_id e = tk_id t \<and> well_formed e
     \<and> ev_agg_version e = tk_version t' \<and> same_work t t'
     \<and> sint (tk_version t') = sint (tk_version t) + 1"

lemma effect_cases:
  assumes "task_effect c et f v r m v'"
    and bump: "\<And>n t t'. f n t = Inr t' \<Longrightarrow> same_work t t' \<and> (t' = t \<or> tk_version t' = tk_version t + 1)"
  obtains (same) "\<not> m" "tv_tasks v' = tv_tasks v" "tv_outbox v' = tv_outbox v"
  | (more) t t' n where "m" "one_more v v' (tc_task c) t t' (ir_event r)" "f n t = Inr t'"
      "tv_keys v (tc_key c) = None" "tv_keys v' = (tv_keys v)(tc_key c \<mapsto> r)"
  using assms(1)
proof (cases rule: task_effect.cases)
  case (changed t now t' e eid ts)
  from bump [OF changed(6)] changed(7) have b: "same_work t t'" "tk_version t' = tk_version t + 1" by auto
  from changed have "1 \<le> sint (tk_version t + 1)" using b by (simp add: well_formed_def)
  with succ_version b have v: "sint (tk_version t') = sint (tk_version t) + 1" by simp
  have "one_more v v' (tc_task c) t t' (ir_event r)"
    unfolding one_more_def using changed b v by (simp add: same_work_id [OF b(1)])
  with changed that(2) show thesis by auto
qed (auto intro: that(1))

lemma claim_bump: "claim p b n t = Inr t' \<Longrightarrow> same_work t t' \<and> (t' = t \<or> tk_version t' = tk_version t + 1)"
  using claim_ok [of p b n t t'] by auto

lemma release_bump: "release p b n t = Inr t' \<Longrightarrow> same_work t t' \<and> (t' = t \<or> tk_version t' = tk_version t + 1)"
  using release_ok [of p b n t t'] by auto

lemma step_cases:
  assumes "task_step c v v'"
  obtains (same) "tv_tasks v' = tv_tasks v" "tv_outbox v' = tv_outbox v"
  | (claim) t t' n e where "one_more v v' (tc_task c) t t' e"
      "claim (ac_operator (tc_actor c)) (tc_base_version c) n t = Inr t'"
  | (release) t t' n e where "one_more v v' (tc_task c) t t' e"
      "release (ac_operator (tc_actor c)) (tc_base_version c) n t = Inr t'"
  using assms
proof (cases rule: task_step.cases)
  case (claimed r m)
  then show thesis by (rule effect_cases) (auto dest: claim_bump intro: that)
next
  case (released r m)
  then show thesis by (rule effect_cases) (auto dest: release_bump intro: that)
qed (auto intro: that)

text \<open>The events of one task, in the order of the outbox, carry consecutive versions.\<close>

definition events_of :: "string \<Rightarrow> envelope list \<Rightarrow> int list" where
  "events_of i es = map (\<lambda>e. sint (ev_agg_version e)) (filter (\<lambda>e. ev_agg_id e = i) es)"

lemma events_of_append: "events_of i (es @ [e]) =
    events_of i es @ (if ev_agg_id e = i then [sint (ev_agg_version e)] else [])"
  by (simp add: events_of_def)

definition keyed_by_id :: "task_view \<Rightarrow> bool" where
  "keyed_by_id v \<longleftrightarrow> (\<forall>i t. tv_tasks v i = Some t \<longrightarrow> tk_id t = i)"

lemma one_more_events:
  assumes "one_more v v' j t t' e" and "keyed_by_id v"
  shows "events_of i (tv_outbox v') = events_of i (tv_outbox v) @ (if i = j then [sint (tk_version t')] else [])"
    and "tv_tasks v' i = (if i = j then Some t' else tv_tasks v i)" and "keyed_by_id v'"
  using assms by (auto simp: one_more_def events_of_append keyed_by_id_def same_work_id)

lemma history_events:
  assumes "task_history cs v0 v" and "keyed_by_id v0" and "tv_tasks v0 i = Some t0"
  shows "keyed_by_id v \<and> (\<exists>t n. tv_tasks v i = Some t \<and> sint (tk_version t) = sint (tk_version t0) + int n
     \<and> events_of i (tv_outbox v) =
         events_of i (tv_outbox v0) @ map (\<lambda>k. sint (tk_version t0) + 1 + int k) [0..<n])"
  using assms
proof (induction rule: task_history.induct)
  case (start v)
  then show ?case by (auto intro!: exI [of _ 0])
next
  case (step cs v0 v c v')
  then obtain t n where k: "keyed_by_id v" and t: "tv_tasks v i = Some t"
    and ver: "sint (tk_version t) = sint (tk_version t0) + int n"
    and ev: "events_of i (tv_outbox v) =
         events_of i (tv_outbox v0) @ map (\<lambda>k. sint (tk_version t0) + 1 + int k) [0..<n]" by auto
  have more: ?case if om: "one_more v v' (tc_task c) u u' e" for u u' e
  proof (cases "i = tc_task c")
    case True
    with om t have "u = t" by (simp add: one_more_def)
    with om ver have "sint (tk_version u') = sint (tk_version t0) + int (Suc n)" by (simp add: one_more_def)
    with one_more_events(1,2) [OF om k, of i] one_more_events(3) [OF om k] ev True show ?thesis by (auto intro!: exI [of _ "Suc n"])
  next
    case False
    with one_more_events(1,2) [OF om k, of i] one_more_events(3) [OF om k] ev t ver show ?thesis by auto
  qed
  from \<open>task_step c v v'\<close> show ?case
  proof (cases rule: step_cases)
    case same with k t ver ev show ?thesis by (auto simp: keyed_by_id_def)
  qed (rule more, assumption)+
qed

text \<open>Nobody but the operator it is assigned to changes an assigned task.\<close>

lemma step_keeps_assignment:
  assumes "task_step c v v'" and "tv_tasks v i = Some t" and "tk_operator t = Some owner"
    and "ac_operator (tc_actor c) \<noteq> owner"
  shows "tv_tasks v' i = Some t"
  using assms(1)
proof (cases rule: step_cases)
  case (claim u u' n e)
  with assms claim_ok(6) [OF claim(2)] show ?thesis by (auto simp: one_more_def)
next
  case (release u u' n e)
  with assms release_ok(2) [OF release(2)] show ?thesis by (auto simp: one_more_def)
qed (use assms in simp)

lemma history_keeps_assignment:
  assumes "task_history cs v0 v" and "tv_tasks v0 i = Some t" and "tk_operator t = Some owner"
    and "\<forall>c \<in> set cs. ac_operator (tc_actor c) \<noteq> owner"
  shows "tv_tasks v i = Some t"
  using assms
proof (induction rule: task_history.induct)
  case (step cs v0 v c v')
  then show ?case using step_keeps_assignment [of c v v' i t owner] by auto
qed

text \<open>A task that changed at all has a higher version.\<close>

lemma step_version:
  assumes "task_step c v v'" and "tv_tasks v i = Some t"
  obtains "tv_tasks v' i = Some t"
  | t' where "tv_tasks v' i = Some t'" "sint (tk_version t) < sint (tk_version t')"
  using assms(1)
proof (cases rule: step_cases)
  case (claim u u' n e)
  with assms(2) that show thesis by (cases "i = tc_task c") (auto simp: one_more_def)
next
  case (release u u' n e)
  with assms(2) that show thesis by (cases "i = tc_task c") (auto simp: one_more_def)
qed (use assms(2) that in simp)

lemma history_version:
  assumes "task_history cs v0 v" and "tv_tasks v0 i = Some t0"
  shows "\<exists>t. tv_tasks v i = Some t \<and> (t = t0 \<or> sint (tk_version t0) < sint (tk_version t))"
  using assms
proof (induction rule: task_history.induct)
  case (step cs v0 v c v')
  then obtain t where t: "tv_tasks v i = Some t" "t = t0 \<or> sint (tk_version t0) < sint (tk_version t)"
    by auto
  from \<open>task_step c v v'\<close> t(1) show ?case by (rule step_version) (use t(2) in auto)
qed simp

end
