(* ===== verification/Pg_Task_Store.thy ===== *)
theory Pg_Task_Store
  imports Pg_Common Exec_Contract "HOL-Library.Product_Lexorder"
begin

text \<open>
  The PostgreSQL task store of \<open>internal/execution/adapters/postgres/store.go\<close>. Text is
  compared byte by byte, the order of the C collation.
\<close>

section \<open>Rows and documents\<close>

text \<open>\<open>scanTask\<close> fills the columns it selects and leaves the other fields at their zero
  values.\<close>

definition scan_task :: "string \<Rightarrow> warehouse_row \<Rightarrow> task" where
  "scan_task i r = \<lparr>tk_id = i, tk_category = wt_category r, tk_status = wt_status r,
     tk_priority = wt_priority r, tk_title = '''', tk_line_count = 0, tk_piece_count = 0,
     tk_due = None, tk_warehouse = wt_warehouse r, tk_operator = wt_operator r,
     tk_lock_state = '''', tk_version = wt_version r, tk_created = time_zero,
     tk_updated = wt_updated r, tk_purchase_order = '''', tk_lpn = '''', tk_supplier = '''',
     tk_lines = []\<rparr>"

section \<open>Statements\<close>

definition pg_within_tx :: "(world, 'a) prog \<Rightarrow> (world, 'a) prog" where
  "pg_within_tx m = with_tx m"

definition pg_seed_task :: "task \<Rightarrow> (world, unit) prog" where
  "pg_seed_task t = sql (on_table warehouse_task (\<lambda>x d. d\<lparr>warehouse_task := x\<rparr>) (\<lambda>now tab.
     no_value (insert_ignore ''warehouse_task'' warehouse_ok (tk_id t)
       \<lparr>wt_category = tk_category t, wt_status = tk_status t, wt_priority = tk_priority t,
        wt_warehouse = tk_warehouse t, wt_operator = tk_operator t, wt_version = tk_version t,
        wt_updated = tk_updated t\<rparr> tab)))"

definition pg_seed :: "task list \<Rightarrow> (world, unit) prog" where
  "pg_seed ts = forP ts pg_seed_task"

definition pg_get :: "string \<Rightarrow> (world, task) prog" where
  "pg_get i = bindP (query (\<lambda>now d. map_of (warehouse_task d) i)) (\<lambda>row.
     case row of None \<Rightarrow> failP ErrTaskNotFound | Some r \<Rightarrow> returnP (scan_task i r))"

definition store_task :: "task \<Rightarrow> warehouse_row \<Rightarrow> warehouse_row" where
  "store_task t r = r\<lparr>wt_status := tk_status t, wt_operator := tk_operator t,
     wt_version := tk_version t, wt_updated := tk_updated t\<rparr>"

definition pg_save :: "task \<Rightarrow> (world, unit) prog" where
  "pg_save t =
     bindP (sql (on_table warehouse_task (\<lambda>x d. d\<lparr>warehouse_task := x\<rparr>) (\<lambda>now tab.
       update_at ''warehouse_task'' warehouse_ok (tk_id t) (store_task t) tab))) (\<lambda>n.
     checkP (n \<noteq> 1) ErrTaskNotFound)"

definition pg_visible :: "string \<Rightarrow> string \<Rightarrow> warehouse_row \<Rightarrow> bool" where
  "pg_visible w p r \<longleftrightarrow> wt_warehouse r = w \<and> (wt_operator r = None \<or> wt_operator r = Some p)"

definition list_rows :: "task_filter \<Rightarrow> string \<Rightarrow> tables \<Rightarrow> task list" where
  "list_rows f after d =
     take (nat (sint (tf_limit f) + 1)) (map (\<lambda>(i, r). scan_task i r) (sort_key fst
       (filter (\<lambda>(i, r). pg_visible (tf_warehouse f) (tf_operator f) r
          \<and> (tf_category f = '''' \<or> wt_category r = tf_category f)
          \<and> (tf_status f = '''' \<or> wt_status r = tf_status f)
          \<and> (tf_query f = '''' \<or> ilike i (tf_query f)) \<and> after < i) (warehouse_task d))))"

definition pg_page :: "int64 \<Rightarrow> task list \<Rightarrow> task_page" where
  "pg_page limit items =
     (if sint limit < int (length items)
      then \<lparr>tp_tasks = take (nat (sint limit)) items,
            tp_next_cursor = Some (raw_url_encode (tk_id (items ! (nat (sint limit) - 1))))\<rparr>
      else \<lparr>tp_tasks = items, tp_next_cursor = None\<rparr>)"

definition pg_list :: "task_filter \<Rightarrow> (world, task_page) prog" where
  "pg_list f =
     (case (if tf_cursor f = '''' then Some '''' else raw_url_decode (tf_cursor f)) of
        None \<Rightarrow> failP (TextError ''invalid cursor'')
      | Some after \<Rightarrow> bindP (query (\<lambda>now d. list_rows f after d)) (\<lambda>items.
          returnP (pg_page (tf_limit f) items)))"

definition pg_summary :: "string \<Rightarrow> string \<Rightarrow> string \<Rightarrow> (world, summary_item list) prog" where
  "pg_summary w p status = query (\<lambda>now d.
     let rows = filter (\<lambda>r. pg_visible w p r \<and> (status = '''' \<or> wt_status r = status))
                  (map snd (warehouse_task d));
         keys = sort (remdups (map (\<lambda>r. (wt_category r, wt_status r)) rows)) in
     map (\<lambda>(c, s). \<lparr>si_category = c, si_status = s,
        si_count = of_nat (length (filter (\<lambda>r. wt_category r = c \<and> wt_status r = s) rows))\<rparr>) keys)"

definition count_rows :: "(warehouse_row \<Rightarrow> bool) \<Rightarrow> warehouse_row list \<Rightarrow> int64" where
  "count_rows f rows = of_nat (length (filter f rows))"

definition pg_dashboard :: "string \<Rightarrow> string \<Rightarrow> (world, dashboard) prog" where
  "pg_dashboard w p = query (\<lambda>now d.
     let rows = filter (pg_visible w p) (map snd (warehouse_task d)) in
     zero_dashboard\<lparr>db_total := count_rows (\<lambda>_. True) rows,
       db_assigned := count_rows (\<lambda>r. wt_operator r = Some p \<and> wt_status r = StatusAssigned) rows,
       db_in_progress := count_rows (\<lambda>r. wt_operator r = Some p \<and> wt_status r = StatusInProgress) rows,
       db_completed := count_rows (\<lambda>r. wt_operator r = Some p \<and> wt_status r = StatusCompleted) rows,
       db_high_priority := count_rows (\<lambda>r. i64_le 80 (wt_priority r)) rows,
       db_updated := (if rows = [] then now else Max (set (map wt_updated rows)))\<rparr>)"

definition pg_find :: "string \<Rightarrow> (world, idempotency_result option) prog" where
  "pg_find k = bindP advisory_lock (\<lambda>_. query (\<lambda>now d. map_of (command_idempotency d) k))"

definition pg_save_key :: "string \<Rightarrow> idempotency_result \<Rightarrow> (world, unit) prog" where
  "pg_save_key k r = bindP (liftE (marshal_envelope (ir_event r))) (\<lambda>e.
     sql (on_table command_idempotency (\<lambda>x d. d\<lparr>command_idempotency := x\<rparr>) (\<lambda>now tab.
       no_value (insert_at ''command_idempotency'' (\<lambda>_. True) k (r\<lparr>ir_event := e\<rparr>) tab))))"

definition pg_append :: "envelope \<Rightarrow> (world, unit) prog" where
  "pg_append e = bindP (liftE (marshal_envelope e)) insert_outbox"

definition pg_invalidate :: "string \<Rightarrow> string \<Rightarrow> (world, unit) prog" where
  "pg_invalidate w p = returnP ()"

definition pg_task_ports :: "(uuid \<Rightarrow> string) \<Rightarrow> world task_ports" where
  "pg_task_ports uuid_string = \<lparr>tsp_get = pg_get, tsp_save = pg_save, tsp_list = pg_list,
     tsp_summary = pg_summary, tsp_dashboard = pg_dashboard, tsp_find = pg_find,
     tsp_save_key = pg_save_key, tsp_append = pg_append, tsp_within_tx = pg_within_tx,
     tsp_publish = publish_event, tsp_invalidate = pg_invalidate, tsp_now = clock_now,
     tsp_new_uuid = new_uuid, tsp_uuid_string = uuid_string\<rparr>"

lemma pg_task_ports_sel [simp]:
  "tsp_get (pg_task_ports u) = pg_get" "tsp_save (pg_task_ports u) = pg_save"
  "tsp_list (pg_task_ports u) = pg_list" "tsp_summary (pg_task_ports u) = pg_summary"
  "tsp_dashboard (pg_task_ports u) = pg_dashboard" "tsp_find (pg_task_ports u) = pg_find"
  "tsp_save_key (pg_task_ports u) = pg_save_key" "tsp_append (pg_task_ports u) = pg_append"
  "tsp_within_tx (pg_task_ports u) = pg_within_tx" "tsp_publish (pg_task_ports u) = publish_event"
  "tsp_invalidate (pg_task_ports u) = pg_invalidate" "tsp_now (pg_task_ports u) = clock_now"
  "tsp_new_uuid (pg_task_ports u) = new_uuid" "tsp_uuid_string (pg_task_ports u) = u"
  by (simp_all add: pg_task_ports_def)

section \<open>The contract holds\<close>

definition task_db :: "tables \<Rightarrow> task_view" where
  "task_db d = \<lparr>tv_tasks = (\<lambda>i. map_option (scan_task i) (map_of (warehouse_task d) i)),
     tv_keys = map_of (command_idempotency d), tv_outbox = outbox_of d\<rparr>"

definition pg_task_view :: "world \<Rightarrow> task_view" where
  "pg_task_view = of_db task_db"

lemma frame_pg_reads:
  "frame pg_task_view (pg_get i)" "frame pg_task_view (pg_find k)" "frame pg_task_view (pg_invalidate w p)"
  unfolding pg_task_view_def pg_get_def pg_find_def advisory_lock_def pg_invalidate_def
  by (intro frame_intros)+

lemma frame_pg_env:
  "frame pg_task_view clock_now" "frame pg_task_view new_uuid" "frame pg_task_view (publish_event e)"
  unfolding pg_task_view_def by (intro frame_db_env)+

lemma pg_get_ok: "pg_get i s = (Inr t, s') \<Longrightarrow> tv_tasks (pg_task_view s) i = Some t \<and> tk_id t = i"
  by (auto simp: pg_get_def prog_iffs pg_task_view_def of_db_def task_db_def scan_task_def
      split: option.splits elim!: query_Inr)

lemma pg_find_ok: "pg_find k s = (Inr x, s') \<Longrightarrow> tv_keys (pg_task_view s) k = x"
  by (auto simp: pg_find_def advisory_lock_def prog_iffs pg_task_view_def of_db_def task_db_def
      elim!: query_Inr)

lemma scan_store_task:
  "same_work (scan_task i r) t \<Longrightarrow> scan_task i (store_task t r) = t"
  unfolding same_work_def by (simp add: scan_task_def store_task_def)

lemma pg_save_ok:
  assumes "pg_save t s = (Inr u, s')" and "tv_tasks (pg_task_view s) (tk_id t) = Some t0" and "same_work t0 t"
  shows "pg_task_view s' = (pg_task_view s)\<lparr>tv_tasks := (tv_tasks (pg_task_view s))(tk_id t \<mapsto> t)\<rparr>"
proof -
  from assms(1) obtain now tab' where
    upd: "update_at ''warehouse_task'' warehouse_ok (tk_id t) (store_task t) (warehouse_task (w_db s)) = Inr (1, tab')"
    and db: "w_db s' = (w_db s)\<lparr>warehouse_task := tab'\<rparr>"
    unfolding pg_save_def by (auto simp: prog_iffs stmt_iffs elim!: sql_Inr)
  from assms(2) obtain r where r: "map_of (warehouse_task (w_db s)) (tk_id t) = Some r"
    and t0: "t0 = scan_task (tk_id t) r"
    by (auto simp: pg_task_view_def of_db_def task_db_def)
  from update_at_map [OF upd] r have "map_of tab' = (map_of (warehouse_task (w_db s)))(tk_id t \<mapsto> store_task t r)"
    by simp
  with scan_store_task assms(3) t0 show ?thesis
    by (auto simp: pg_task_view_def of_db_def task_db_def outbox_of_def db fun_eq_iff)
qed

lemma pg_save_key_ok:
  assumes "pg_save_key k r s = (Inr u, s')"
  shows "\<exists>r'. stored_as r r' \<and> pg_task_view s' = (pg_task_view s)\<lparr>tv_keys := (tv_keys (pg_task_view s))(k \<mapsto> r')\<rparr>"
proof -
  from assms obtain e tab' where e: "marshal_envelope (ir_event r) = Inr e"
    and ins: "insert_at ''command_idempotency'' (\<lambda>_. True) k (r\<lparr>ir_event := e\<rparr>) (command_idempotency (w_db s)) = Inr tab'"
    and db: "w_db s' = (w_db s)\<lparr>command_idempotency := tab'\<rparr>"
    unfolding pg_save_key_def by (auto simp: prog_iffs stmt_iffs elim!: sql_Inr)
  from marshal_envelope_Inr [OF e] have "stored_as r (r\<lparr>ir_event := e\<rparr>)" by (auto simp: stored_as_def)
  with insert_at_map [OF ins] show ?thesis
    by (auto simp: pg_task_view_def of_db_def task_db_def outbox_of_def db intro!: exI [of _ "r\<lparr>ir_event := e\<rparr>"])
qed

lemma pg_append_ok:
  assumes "well_formed e" and "pg_append e s = (Inr u, s')"
  shows "pg_task_view s' = (pg_task_view s)\<lparr>tv_outbox := tv_outbox (pg_task_view s) @ [e]\<rparr>"
proof -
  from assms have "insert_outbox e s = (Inr u, s')"
    by (auto simp: pg_append_def prog_iffs well_formed_marshal)
  then show ?thesis
    by (rule insert_outbox_ok) (simp add: pg_task_view_def of_db_def task_db_def outbox_of_def)
qed

lemmas pg_tx_ok = with_tx_ok_view [where g = task_db and i = "\<lambda>d. True", folded pg_task_view_def pg_any_def]

lemmas pg_tx_fail = with_tx_fail_view [where g = task_db and i = "\<lambda>d. True", folded pg_task_view_def pg_any_def]

interpretation pg: task_store_tx "pg_task_ports u" pg_any pg_task_view
  by (unfold_locales, unfold pg_task_ports_sel pg_within_tx_def)
    ((rule keeps_any frame_pg_reads frame_pg_env pg_get_ok pg_find_ok pg_save_ok pg_save_key_ok
        pg_append_ok pg_tx_ok pg_tx_fail; assumption?)+)

lemma frame_log_pg:
  "frame env_log (pg_get i)" "frame env_log (pg_save t)" "frame env_log (pg_find k)"
  "frame env_log (pg_save_key k r)" "frame env_log (pg_append e)" "frame env_log (pg_invalidate w p)"
  unfolding pg_get_def pg_save_def pg_find_def pg_save_key_def pg_append_def pg_invalidate_def
    advisory_lock_def insert_outbox_def
  by (intro frame_intros)+

interpretation pg_log: task_store_log "pg_task_ports u" pg_any pg_task_view "\<lambda>s. el_events (env_log s)"
  by (unfold_locales, unfold pg_task_ports_sel pg_within_tx_def)
    ((rule publish_event_log; assumption) | (rule frame_of_log, rule frame_log_pg frame_log_env)
     | (rule frame_log_with_tx; assumption))+

end
