(* ===== verification/Memory_Store.thy ===== *)
theory Memory_Store
  imports Exec_Contract Environment "HOL-Library.Product_Lexorder"
begin

text \<open>
  The in-memory task store of \<open>internal/execution/adapters/memory/store.go\<close>. Its Go maps are
  association lists: ranging over a map visits the entries in an order that the results
  below do not depend on, because every list is sorted and every count is a sum.
\<close>

record mem_store = env +
  ms_tasks :: "(string \<times> task) list"
  ms_keys :: "(string \<times> idempotency_result) list"
  ms_outbox :: "envelope list"
  ms_invalidations :: int64

definition mem_new :: "task list \<Rightarrow> env \<Rightarrow> mem_store" where
  "mem_new ts e = env.extend e
     \<lparr>ms_tasks = fold (\<lambda>t. AList.update (tk_id t) t) ts [], ms_keys = [], ms_outbox = [],
      ms_invalidations = 0\<rparr>"

text \<open>The mutex is held while the operation runs; the operation's effects stay when it
  returns an error.\<close>

definition mem_within_tx :: "(mem_store, 'a) prog \<Rightarrow> (mem_store, 'a) prog" where
  "mem_within_tx m = m"

definition mem_get :: "string \<Rightarrow> (mem_store, task) prog" where
  "mem_get i s = (case map_of (ms_tasks s) i of
     None \<Rightarrow> (Inl ErrTaskNotFound, s) | Some t \<Rightarrow> (Inr t, s))"

definition mem_save :: "task \<Rightarrow> (mem_store, unit) prog" where
  "mem_save t s = (Inr (), s\<lparr>ms_tasks := AList.update (tk_id t) t (ms_tasks s)\<rparr>)"

definition mem_find :: "string \<Rightarrow> (mem_store, idempotency_result option) prog" where
  "mem_find k s = (Inr (map_of (ms_keys s) k), s)"

definition mem_save_key :: "string \<Rightarrow> idempotency_result \<Rightarrow> (mem_store, unit) prog" where
  "mem_save_key k r s = (Inr (), s\<lparr>ms_keys := AList.update k r (ms_keys s)\<rparr>)"

definition mem_append :: "envelope \<Rightarrow> (mem_store, unit) prog" where
  "mem_append e s = (Inr (), s\<lparr>ms_outbox := ms_outbox s @ [e]\<rparr>)"

definition mem_invalidate :: "string \<Rightarrow> string \<Rightarrow> (mem_store, unit) prog" where
  "mem_invalidate w p s = (Inr (), s\<lparr>ms_invalidations := ms_invalidations s + 1\<rparr>)"

definition mem_outbox :: "mem_store \<Rightarrow> envelope list" where
  "mem_outbox s = ms_outbox s"

subsection \<open>Listing\<close>

definition mem_matches :: "task_filter \<Rightarrow> task \<Rightarrow> bool" where
  "mem_matches f t \<longleftrightarrow>
     tk_warehouse t = tf_warehouse f
   \<and> (tk_operator t = None \<or> tk_operator t = Some (tf_operator f))
   \<and> (tf_category f = '''' \<or> tk_category t = tf_category f)
   \<and> (tf_status f = '''' \<or> tk_status t = tf_status f)
   \<and> (tf_query f = '''' \<or> str_contains (to_lower (tk_id t)) (to_lower (tf_query f)))
   \<and> \<not> (i64_less 0 (tf_priority_min f) \<and> i64_less (tk_priority t) (tf_priority_min f))
   \<and> \<not> (i64_less 0 (tf_priority_max f) \<and> i64_less (tf_priority_max f) (tk_priority t))"

definition InvalidCursor :: err where
  [err_defs]: "InvalidCursor = TextError ''INVALID_CURSOR''"

definition PanicBounds :: err where
  [err_defs]: "PanicBounds = TextError ''panic: index out of range''"

definition mem_values :: "task_filter \<Rightarrow> mem_store \<Rightarrow> task list" where
  "mem_values f s = sort_key tk_id (filter (mem_matches f) (map snd (ms_tasks s)))"

definition mem_start :: "task list \<Rightarrow> string \<Rightarrow> nat" where
  "mem_start ts i = (case index_of (map tk_id ts) i of None \<Rightarrow> 0 | Some n \<Rightarrow> Suc n)"

text \<open>The page from \<open>start\<close>: \<open>values[start:end]\<close> panics when \<open>end\<close> is below \<open>start\<close>, and
  \<open>values[end-1]\<close> when \<open>end\<close> is 0.\<close>

definition mem_page :: "task list \<Rightarrow> nat \<Rightarrow> int64 \<Rightarrow> err + task_page" where
  "mem_page ts start limit =
     (let e0 = int start + sint limit;
          e = (if int (length ts) < e0 then int (length ts) else e0) in
      if e < int start then Inl PanicBounds
      else if e < int (length ts)
      then (if e = 0 then Inl PanicBounds
            else Inr \<lparr>tp_tasks = take (nat e - start) (drop start ts),
                      tp_next_cursor = Some (raw_url_encode (tk_id (ts ! (nat e - 1))))\<rparr>)
      else Inr \<lparr>tp_tasks = take (nat e - start) (drop start ts), tp_next_cursor = None\<rparr>)"

definition mem_list :: "task_filter \<Rightarrow> (mem_store, task_page) prog" where
  "mem_list f s =
     (let ts = mem_values f s in
      if tf_cursor f = '''' then (mem_page ts 0 (tf_limit f), s)
      else case raw_url_decode (tf_cursor f) of
             None \<Rightarrow> (Inl InvalidCursor, s)
           | Some i \<Rightarrow> (mem_page ts (mem_start ts i) (tf_limit f), s))"

subsection \<open>Summary and dashboard\<close>

definition mem_visible :: "string \<Rightarrow> string \<Rightarrow> task \<Rightarrow> bool" where
  "mem_visible w p t \<longleftrightarrow> tk_warehouse t = w \<and> (tk_operator t = None \<or> tk_operator t = Some p)"

definition summary_key :: "task \<Rightarrow> string" where
  "summary_key t = tk_category t @ ''|'' @ tk_status t"

fun count_keys :: "string list \<Rightarrow> (string \<times> int64) list" where
  "count_keys [] = []"
| "count_keys (k # ks) = (let m = count_keys ks in
     AList.update k ((case map_of m k of None \<Rightarrow> 0 | Some n \<Rightarrow> n) + 1) m)"

definition summary_of :: "string \<times> int64 \<Rightarrow> summary_item" where
  "summary_of = (\<lambda>(key, n). let parts = split_char (CHR ''|'') key in
     \<lparr>si_category = parts ! 0, si_status = parts ! 1, si_count = n\<rparr>)"

definition mem_summary :: "string \<Rightarrow> string \<Rightarrow> string \<Rightarrow> (mem_store, summary_item list) prog" where
  "mem_summary w p status s =
     (Inr (sort_key (\<lambda>x. (si_category x, si_status x))
        (map summary_of (count_keys (map summary_key
          (filter (\<lambda>t. mem_visible w p t \<and> (status = '''' \<or> tk_status t = status))
            (map snd (ms_tasks s))))))), s)"

definition bump_if :: "bool \<Rightarrow> int64 \<Rightarrow> int64" where
  "bump_if b n = (if b then n + 1 else n)"

definition dashboard_add :: "string \<Rightarrow> string \<Rightarrow> dashboard \<Rightarrow> task \<Rightarrow> dashboard" where
  "dashboard_add w p d t =
     (if \<not> mem_visible w p t then d
      else d\<lparr>db_total := db_total d + 1,
        db_inbound := bump_if (tk_category t = CategoryReceiving) (db_inbound d),
        db_putaway := bump_if (tk_category t = CategoryPutaway) (db_putaway d),
        db_picking := bump_if (tk_category t = CategoryPicking) (db_picking d),
        db_in_progress_count := bump_if (tk_status t = StatusInProgress) (db_in_progress_count d),
        db_in_progress := bump_if (tk_status t = StatusInProgress) (db_in_progress d),
        db_completed_count := bump_if (tk_status t = StatusCompleted) (db_completed_count d),
        db_completed := bump_if (tk_status t = StatusCompleted) (db_completed d),
        db_alerts := bump_if (i64_le 80 (tk_priority t)) (db_alerts d),
        db_high_priority := bump_if (i64_le 80 (tk_priority t)) (db_high_priority d),
        db_as_of := (if db_as_of d < tk_updated t then tk_updated t else db_as_of d),
        db_updated := (if db_as_of d < tk_updated t then tk_updated t else db_updated d),
        db_assigned := bump_if (tk_operator t = Some p) (db_assigned d)\<rparr>)"

text \<open>The percentage divides \<open>float64\<close> values in the source; here it is the exact quotient.\<close>

definition dashboard_finish :: "time \<Rightarrow> dashboard \<Rightarrow> dashboard" where
  "dashboard_finish now d =
     (let total = db_inbound d + db_putaway d + db_picking d;
          d1 = (if is_zero (db_as_of d) then d\<lparr>db_as_of := now\<rparr> else d) in
      if i64_less 0 total
      then d1\<lparr>db_percent := of_int (sint (db_completed_count d)) * 100 / of_int (sint total)\<rparr>
      else d1)"

definition mem_dashboard :: "string \<Rightarrow> string \<Rightarrow> (mem_store, dashboard) prog" where
  "mem_dashboard w p s =
     (let d = foldl (dashboard_add w p) zero_dashboard (map snd (ms_tasks s)) in
      if is_zero (db_as_of d)
      then (case clock_now s of (r, s') \<Rightarrow> (map_sum id (\<lambda>now. dashboard_finish now d) r, s'))
      else (Inr (dashboard_finish time_zero d), s))"

section \<open>The store as the task service sees it\<close>

definition mem_ports :: "(uuid \<Rightarrow> string) \<Rightarrow> mem_store task_ports" where
  "mem_ports uuid_string = \<lparr>tsp_get = mem_get, tsp_save = mem_save, tsp_list = mem_list,
     tsp_summary = mem_summary, tsp_dashboard = mem_dashboard, tsp_find = mem_find,
     tsp_save_key = mem_save_key, tsp_append = mem_append, tsp_within_tx = mem_within_tx,
     tsp_publish = publish_event, tsp_invalidate = mem_invalidate, tsp_now = clock_now,
     tsp_new_uuid = new_uuid, tsp_uuid_string = uuid_string\<rparr>"

definition mem_inv :: "mem_store \<Rightarrow> bool" where
  "mem_inv s \<longleftrightarrow> (\<forall>i t. map_of (ms_tasks s) i = Some t \<longrightarrow> tk_id t = i)"

definition mem_view :: "mem_store \<Rightarrow> task_view" where
  "mem_view s = \<lparr>tv_tasks = map_of (ms_tasks s), tv_keys = map_of (ms_keys s), tv_outbox = ms_outbox s\<rparr>"

lemma mem_ports_sel [simp]:
  "tsp_get (mem_ports u) = mem_get" "tsp_save (mem_ports u) = mem_save"
  "tsp_list (mem_ports u) = mem_list" "tsp_summary (mem_ports u) = mem_summary"
  "tsp_dashboard (mem_ports u) = mem_dashboard" "tsp_find (mem_ports u) = mem_find"
  "tsp_save_key (mem_ports u) = mem_save_key" "tsp_append (mem_ports u) = mem_append"
  "tsp_within_tx (mem_ports u) = mem_within_tx" "tsp_publish (mem_ports u) = publish_event"
  "tsp_invalidate (mem_ports u) = mem_invalidate" "tsp_now (mem_ports u) = clock_now"
  "tsp_new_uuid (mem_ports u) = new_uuid" "tsp_uuid_string (mem_ports u) = u"
  by (simp_all add: mem_ports_def)

lemmas mem_op_defs = mem_get_def mem_save_def mem_find_def mem_save_key_def mem_append_def
  mem_invalidate_def mem_within_tx_def

lemma store_only_mem: "store_only mem_inv" "store_only mem_view"
  by (simp_all add: store_only_def mem_inv_def mem_view_def)

lemma keeps_mem_ops:
  "keeps mem_inv (mem_get i)" "keeps mem_inv (mem_save t)" "keeps mem_inv (mem_find k)"
  "keeps mem_inv (mem_save_key k r)" "keeps mem_inv (mem_append e)" "keeps mem_inv (mem_invalidate w p)"
  by (auto simp: keeps_def mem_op_defs mem_inv_def update_conv' split: option.splits)

lemma keeps_mem_env:
  "keeps mem_inv clock_now" "keeps mem_inv new_uuid" "keeps mem_inv (publish_event e)"
  by (intro keeps_env store_only_mem)+

lemma frame_mem_ops:
  "frame mem_view (mem_get i)" "frame mem_view (mem_find k)" "frame mem_view (mem_invalidate w p)"
  by (auto simp: frame_def mem_op_defs mem_view_def split: option.splits)

lemma frame_mem_env:
  "frame mem_view clock_now" "frame mem_view new_uuid" "frame mem_view (publish_event e)"
  by (intro frame_clock_now frame_new_uuid frame_publish_event store_only_mem)+

lemma mem_get_ok: "mem_inv s \<Longrightarrow> mem_get i s = (Inr t, s') \<Longrightarrow>
    tv_tasks (mem_view s) i = Some t \<and> tk_id t = i"
  by (auto simp: mem_get_def mem_view_def mem_inv_def split: option.splits)

lemma mem_save_ok: "mem_save t s = (Inr u, s') \<Longrightarrow>
    mem_view s' = (mem_view s)\<lparr>tv_tasks := (tv_tasks (mem_view s))(tk_id t \<mapsto> t)\<rparr>"
  by (auto simp: mem_save_def mem_view_def update_conv')

lemma mem_save_key_ok: "mem_save_key k r s = (Inr u, s') \<Longrightarrow>
    \<exists>r'. stored_as r r' \<and> mem_view s' = (mem_view s)\<lparr>tv_keys := (tv_keys (mem_view s))(k \<mapsto> r')\<rparr>"
  by (auto simp: mem_save_key_def mem_view_def update_conv' intro!: exI [of _ r])

lemma mem_find_ok: "mem_find k s = (Inr x, s') \<Longrightarrow> tv_keys (mem_view s) k = x"
  by (auto simp: mem_find_def mem_view_def)

lemma mem_append_ok: "well_formed e \<Longrightarrow> mem_append e s = (Inr u, s') \<Longrightarrow>
    mem_view s' = (mem_view s)\<lparr>tv_outbox := tv_outbox (mem_view s) @ [e]\<rparr>"
  by (auto simp: mem_append_def mem_view_def)

lemma mem_tx_ok: "mem_within_tx m s = (Inr x, s') \<Longrightarrow>
    \<exists>s1 s2. mem_view s1 = mem_view s \<and> (mem_inv s \<longrightarrow> mem_inv s1) \<and> m s1 = (Inr x, s2) \<and> mem_view s' = mem_view s2"
  unfolding mem_within_tx_def by blast

interpretation memory: task_store_total "mem_ports u" mem_inv mem_view
  by (unfold_locales, unfold mem_ports_sel)
    ((rule keeps_mem_ops keeps_mem_env frame_mem_ops frame_mem_env mem_get_ok mem_save_ok
      mem_save_key_ok mem_find_ok mem_append_ok mem_tx_ok; assumption)
     | simp add: mem_op_defs)+

end
