(* ===== verification/Exec_Properties.thy ===== *)
theory Exec_Properties
  imports Pg_Task_Store Memory_Store
begin

text \<open>
  The task service on its two stores: the lemmas of the contract carried over to the
  PostgreSQL store, under any schedule of database faults, and to the in-memory store, and
  the properties of the program they give.
\<close>

section \<open>Sequences of calls\<close>

datatype task_call = ClaimCall task_command | ReleaseCall task_command

fun call_command :: "task_call \<Rightarrow> task_command" where
  "call_command (ClaimCall c) = c"
| "call_command (ReleaseCall c) = c"

fun run_call :: "'s task_ports \<Rightarrow> task_call \<Rightarrow> 's \<Rightarrow> task reply \<times> 's" where
  "run_call P (ClaimCall c) s = claim_task P c s"
| "run_call P (ReleaseCall c) s = release_task P c s"

fun run_calls :: "'s task_ports \<Rightarrow> task_call list \<Rightarrow> 's \<Rightarrow> 's" where
  "run_calls P [] s = s"
| "run_calls P (c # cs) s = run_calls P cs (snd (run_call P c s))"

fun call_event :: "task_call \<Rightarrow> string" where
  "call_event (ClaimCall c) = ''TaskAssigned''"
| "call_event (ReleaseCall c) = ''TaskReleased''"

fun call_transition :: "task_call \<Rightarrow> time \<Rightarrow> task \<Rightarrow> err + task" where
  "call_transition (ClaimCall c) = claim (ac_operator (tc_actor c)) (tc_base_version c)"
| "call_transition (ReleaseCall c) = release (ac_operator (tc_actor c)) (tc_base_version c)"

definition call_effect :: "task_call \<Rightarrow> task_view \<Rightarrow> idempotency_result \<Rightarrow> bool \<Rightarrow> task_view \<Rightarrow> bool" where
  "call_effect x = task_effect (call_command x) (call_event x) (call_transition x)"

lemma run_call_mutate:
  "run_call P x = mutate P (call_command x) (call_event x) (timed P (call_transition x))"
  by (cases x) (simp_all add: fun_eq_iff claim_task_def release_task_def)

lemma call_effect_step: "call_effect x v r m v' \<Longrightarrow> task_step (call_command x) v v'"
  by (cases x) (auto simp: call_effect_def intro: task_step.intros)

context task_store
begin

lemma works_call: "works (call_transition x)"
  by (cases x) (simp_all add: works_claim works_release)

lemma run_call_value:
  "inv s \<Longrightarrow> run_call P x s = (rep, s') \<Longrightarrow> reply_value rep = Some t \<Longrightarrow>
    \<exists>r m. call_effect x (view s) r m (view s') \<and> t = ir_task r"
  using mutate_value works_call by (simp add: run_call_mutate call_effect_def)

lemma run_call_inv: "inv s \<Longrightarrow> run_call P x s = (rep, s') \<Longrightarrow> inv s'"
  using keeps_mutate by (simp add: run_call_mutate)

end

context task_store_tx
begin

lemma run_call_step:
  assumes "inv s" and "run_call P x s = (rep, s')"
  shows "task_step (call_command x) (view s) (view s')"
proof -
  have "view s' = view s \<or> (\<exists>r m. call_effect x (view s) r m (view s'))"
    using mutate_all_or_nothing [OF assms(1) _ works_call] assms(2)
    by (simp add: run_call_mutate call_effect_def)
  then show ?thesis by (auto intro: call_effect_step task_step.nothing)
qed

lemma run_calls_history_from:
  "inv s \<Longrightarrow> task_history cs v0 (view s) \<Longrightarrow>
    task_history (cs @ map call_command xs) v0 (view (run_calls P xs s))"
proof (induction xs arbitrary: s cs)
  case (Cons x xs)
  obtain rep s' where run: "run_call P x s = (rep, s')" by fastforce
  have "task_history (cs @ [call_command x]) v0 (view s')"
    by (rule task_history.step [OF Cons.prems(2) run_call_step [OF Cons.prems(1) run]])
  from Cons.IH [OF run_call_inv [OF Cons.prems(1) run] this] run show ?case by simp
qed simp

lemma run_calls_history:
  "inv s \<Longrightarrow> task_history (map call_command xs) (view s) (view (run_calls P xs s))"
  using run_calls_history_from [of s "[]" "view s" xs] task_history.start by simp

end

text \<open>Idempotency records are never overwritten.\<close>

lemma effect_keeps_keys:
  "task_effect c et f v r m v' \<Longrightarrow> tv_keys v k = Some q \<Longrightarrow> tv_keys v' k = Some q"
  by (erule task_effect.cases) auto

lemma step_keeps_keys: "task_step c v v' \<Longrightarrow> tv_keys v k = Some q \<Longrightarrow> tv_keys v' k = Some q"
  by (erule task_step.cases) (auto dest: effect_keeps_keys)

lemma history_keeps_keys:
  "task_history cs v v' \<Longrightarrow> tv_keys v k = Some q \<Longrightarrow> tv_keys v' k = Some q"
  by (induction rule: task_history.induct) (auto dest: step_keeps_keys)

lemma effect_records:
  "task_effect c et f v r m v' \<Longrightarrow> \<exists>q. tv_keys v' (tc_key c) = Some q \<and> ir_task q = ir_task r"
  by (erule task_effect.cases) (auto simp: stored_as_def)

lemma effect_replays:
  "task_effect c et f v r m v' \<Longrightarrow> tv_keys v (tc_key c) = Some q \<Longrightarrow> r = q \<and> v' = v"
  by (erule task_effect.cases) auto

lemma scan_task_inj: "scan_task i r = scan_task i r' \<Longrightarrow> r = r'"
  by (cases r, cases r') (simp add: scan_task_def)

context task_store_log
begin

lemma run_call_publishes:
  assumes "inv s" and "run_call P x s = (rep, s')"
  shows "log s' = log s \<or>
    (\<exists>r. call_effect x (view s) r True (view s') \<and> log s' = log s @ [ir_event r])"
  using mutate_publishes [OF assms(1) _ works_call] assms(2)
  by (simp add: run_call_mutate call_effect_def)

end

lemma effect_outbox: "task_effect c et f v r m v' \<Longrightarrow>
    tv_outbox v' = tv_outbox v @ (if m then [ir_event r] else [])"
  by (erule task_effect.cases) auto

lemma step_outbox_mono: "task_step c v v' \<Longrightarrow> set (tv_outbox v) \<subseteq> set (tv_outbox v')"
  by (erule task_step.cases) (auto dest: effect_outbox)

lemma history_outbox_mono: "task_history cs v v' \<Longrightarrow> set (tv_outbox v) \<subseteq> set (tv_outbox v')"
  by (induction rule: task_history.induct) (auto dest!: step_outbox_mono)

lemma outbox_of_view: "outbox_of (w_db s) = tv_outbox (pg_task_view s)"
  by (simp add: pg_task_view_def of_db_def task_db_def)

lemma run_call_published:
  assumes "run_call (pg_task_ports u) x s = (rep, s')"
  shows "\<exists>es. el_events (env_log s') = el_events (env_log s) @ es \<and> set es \<subseteq> set (outbox_of (w_db s'))"
  using pg_log.run_call_publishes [OF pg_any assms] effect_outbox
  by (fastforce simp: call_effect_def outbox_of_view)

lemma run_calls_published:
  "\<exists>es. el_events (env_log (run_calls (pg_task_ports u) xs s)) = el_events (env_log s) @ es
     \<and> set es \<subseteq> set (outbox_of (w_db (run_calls (pg_task_ports u) xs s)))"
proof (induction xs arbitrary: s)
  case (Cons x xs)
  obtain rep s' where run: "run_call (pg_task_ports u) x s = (rep, s')" by fastforce
  from run_call_published [OF run] obtain es where
    es: "el_events (env_log s') = el_events (env_log s) @ es" "set es \<subseteq> set (outbox_of (w_db s'))" by auto
  from Cons.IH [of s'] obtain es' where
    es': "el_events (env_log (run_calls (pg_task_ports u) xs s')) = el_events (env_log s') @ es'"
    "set es' \<subseteq> set (outbox_of (w_db (run_calls (pg_task_ports u) xs s')))" by auto
  have "set (outbox_of (w_db s')) \<subseteq> set (outbox_of (w_db (run_calls (pg_task_ports u) xs s')))"
    unfolding outbox_of_view by (rule history_outbox_mono [OF pg.run_calls_history [OF pg_any]])
  with es es' run show ?case by (auto intro!: exI [of _ "es @ es'"])
qed simp

section \<open>Properties on PostgreSQL\<close>

text \<open>C1: Gap-free event log. Whatever claims and releases are made through the service, by
  whomever and under whatever database faults, the outbox rows of a task carry consecutive
  versions starting one above its first version, and the stored version is the last of them:
  no committed change goes without its event, no event without its change, and the 64-bit
  version never wraps.\<close>

theorem outbox_versions_consecutive:
  assumes "map_of (warehouse_task (w_db s)) i = Some r0"
  shows "\<exists>r n. map_of (warehouse_task (w_db (run_calls (pg_task_ports u) xs s))) i = Some r
    \<and> sint (wt_version r) = sint (wt_version r0) + int n
    \<and> events_of i (outbox_of (w_db (run_calls (pg_task_ports u) xs s))) =
        events_of i (outbox_of (w_db s)) @ map (\<lambda>k. sint (wt_version r0) + 1 + int k) [0..<n]"
proof -
  let ?s' = "run_calls (pg_task_ports u) xs s"
  have t: "tv_tasks (pg_task_view s) i = Some (scan_task i r0)"
    using assms by (simp add: pg_task_view_def of_db_def task_db_def)
  have k: "keyed_by_id (pg_task_view s)"
    by (auto simp: keyed_by_id_def pg_task_view_def of_db_def task_db_def scan_task_def)
  from history_events [OF pg.run_calls_history [where s = s and u = u and xs = xs, OF pg_any] k t] show ?thesis
    by (auto simp: pg_task_view_def of_db_def task_db_def scan_task_def)
qed

text \<open>C5: Assignment is exclusive. While a task is assigned to an operator, no sequence of
  claims and releases by other operators changes its row in any way.\<close>

theorem assignment_exclusive:
  assumes "map_of (warehouse_task (w_db s)) i = Some r" and "wt_operator r = Some owner"
    and "\<forall>x \<in> set xs. ac_operator (tc_actor (call_command x)) \<noteq> owner"
  shows "map_of (warehouse_task (w_db (run_calls (pg_task_ports u) xs s))) i = Some r"
proof -
  have t: "tv_tasks (pg_task_view s) i = Some (scan_task i r)" "tk_operator (scan_task i r) = Some owner"
    using assms(1,2) by (simp_all add: pg_task_view_def of_db_def task_db_def scan_task_def)
  have "tv_tasks (pg_task_view (run_calls (pg_task_ports u) xs s)) i = Some (scan_task i r)"
    by (rule history_keeps_assignment [OF pg.run_calls_history t]) (use assms(3) in auto)
  then show ?thesis by (auto simp: pg_task_view_def of_db_def task_db_def dest: scan_task_inj)
qed

text \<open>The replay itself: with the key on record the closure reads it back and changes nothing, so
  the call answers with the recorded task or, when the database meets a fault, with its error.\<close>

lemma known_key_replayed:
  assumes k: "map_of (command_idempotency (w_db s)) (tc_key c) = Some q"
    and run: "mutate (pg_task_ports u) c et f s = (rep, s')"
  shows "(rep = Done (ir_task q) \<or> (\<exists>n. rep = Failed (DriverError n)))
    \<and> w_db s' = w_db s \<and> env_log s' = env_log s
    \<and> ((\<forall>n \<ge> w_tick s. w_fault s n = NoFault) \<longrightarrow> rep = Done (ir_task q))"
  using run k
  by (auto simp: mutate_def mutate_tx_def pg_within_tx_def with_tx_def pg_find_def advisory_lock_def
      query_def sql_def bindP_run returnP_def Let_def end_tx_def fail_world_def split: if_splits fault.splits)

text \<open>C3: Retries are idempotent. When a claim or release has answered with a value (even if
  its event is still pending), then after any further calls the same call is answered with the
  same task; only when the database meets a fault on the way can the answer be an error, and then
  it is the driver's, never a version conflict or a refusal. In every case the retry changes
  neither tasks, nor idempotency records, nor outbox, and publishes nothing.\<close>

theorem retry_is_idempotent:
  assumes "run_call (pg_task_ports u) x s = (rep, s1)" and "reply_value rep = Some t"
    and "run_call (pg_task_ports u) x (run_calls (pg_task_ports u) xs s1) = (rep2, s3)"
  shows "(rep2 = Done t \<or> (\<exists>n. rep2 = Failed (DriverError n)))
    \<and> w_db s3 = w_db (run_calls (pg_task_ports u) xs s1)
    \<and> env_log s3 = env_log (run_calls (pg_task_ports u) xs s1)
    \<and> ((\<forall>n \<ge> w_tick (run_calls (pg_task_ports u) xs s1).
          w_fault (run_calls (pg_task_ports u) xs s1) n = NoFault) \<longrightarrow> rep2 = Done t)"
proof -
  let ?s2 = "run_calls (pg_task_ports u) xs s1"
  from pg.run_call_value [OF pg_any assms(1,2)] obtain r m where
    e1: "call_effect x (pg_task_view s) r m (pg_task_view s1)" and t: "t = ir_task r" by auto
  from effect_records [OF e1 [unfolded call_effect_def]] obtain q where
    "tv_keys (pg_task_view s1) (tc_key (call_command x)) = Some q" and q: "ir_task q = ir_task r" by auto
  then have "tv_keys (pg_task_view ?s2) (tc_key (call_command x)) = Some q"
    using history_keeps_keys [OF pg.run_calls_history [OF pg_any]] by blast
  then have "map_of (command_idempotency (w_db ?s2)) (tc_key (call_command x)) = Some q"
    by (simp add: pg_task_view_def of_db_def task_db_def)
  from known_key_replayed [OF this assms(3) [unfolded run_call_mutate]] t q show ?thesis by simp
qed

text \<open>C2: Nothing is published before it is committed. Every event that the calls hand to the
  publisher is in the outbox table, whatever faults the database meets.\<close>

theorem published_after_commit:
  "\<exists>es. el_events (env_log (run_calls (pg_task_ports u) xs s)) = el_events (env_log s) @ es
     \<and> set es \<subseteq> set (outbox_of (w_db (run_calls (pg_task_ports u) xs s)))"
  by (rule run_calls_published)

section \<open>Concurrent claims\<close>

text \<open>A claim that answers with a value on a fresh key saw the version it named and leaves
  the task assigned to its operator.\<close>

lemma claim_value:
  assumes "claim_task (pg_task_ports u) c s = (rep, s')" and "reply_value rep = Some t'"
    and "map_of (command_idempotency (w_db s)) (tc_key c) = None"
  obtains r where "map_of (warehouse_task (w_db s)) (tc_task c) = Some r"
    and "wt_version r = tc_base_version c"
    and "wt_operator r = None \<or> wt_operator r = Some (ac_operator (tc_actor c))"
    and "tv_tasks (pg_task_view s') (tc_task c) = Some t'"
    and "tk_operator t' = Some (ac_operator (tc_actor c))"
    and "tk_version t' = wt_version r \<or> sint (tk_version t') = sint (wt_version r) + 1"
proof -
  from pg.run_call_value [where x = "ClaimCall c", OF pg_any] assms(1,2) obtain q m where
    e: "task_effect c ''TaskAssigned'' (claim (ac_operator (tc_actor c)) (tc_base_version c))
          (pg_task_view s) q m (pg_task_view s')" and t': "t' = ir_task q"
    by (fastforce simp: call_effect_def)
  show thesis
    using e
  proof (cases rule: task_effect.cases)
    case replayed
    with assms(3) show ?thesis by (simp add: pg_task_view_def of_db_def task_db_def)
  next
    case (unchanged t now t'' r')
    from unchanged have "claim (ac_operator (tc_actor c)) (tc_base_version c) now t = Inr t''" by simp
    note c = claim_ok [OF this]
    from unchanged c have "t'' = t" by (metis int64_succ_neq(1))
    with unchanged c t' that show ?thesis
      by (auto simp: pg_task_view_def of_db_def task_db_def scan_task_def)
  next
    case (changed t now t'' e eid ts)
    from changed have "claim (ac_operator (tc_actor c)) (tc_base_version c) now t = Inr t''" by simp
    note c = claim_ok [OF this]
    from changed c have v: "tk_version t'' = tk_version t + 1" by auto
    from changed have "1 \<le> sint (tk_version t + 1)" using v by (simp add: well_formed_def)
    with succ_version v have "sint (tk_version t'') = sint (tk_version t) + 1" by simp
    with changed c t' that show ?thesis
      by (auto simp: pg_task_view_def of_db_def task_db_def scan_task_def)
  qed
qed

text \<open>C4: One claim wins. If two claims that are not replays name the same task and the same
  version, with any calls in between, and both answer with a value, then they come from the
  same operator.\<close>

theorem one_claim_wins:
  assumes "claim_task (pg_task_ports u) c1 s = (rep1, s1)" and "reply_value rep1 = Some t1"
    and "claim_task (pg_task_ports u) c2 (run_calls (pg_task_ports u) xs s1) = (rep2, s3)"
    and "reply_value rep2 = Some t2"
    and "tc_task c1 = tc_task c2" and "tc_base_version c1 = tc_base_version c2"
    and "map_of (command_idempotency (w_db s)) (tc_key c1) = None"
    and "map_of (command_idempotency (w_db (run_calls (pg_task_ports u) xs s1))) (tc_key c2) = None"
  shows "ac_operator (tc_actor c1) = ac_operator (tc_actor c2)"
proof -
  let ?s2 = "run_calls (pg_task_ports u) xs s1"
  from claim_value [OF assms(1,2,7)] obtain r where
    "map_of (warehouse_task (w_db s)) (tc_task c1) = Some r" and r: "wt_version r = tc_base_version c1"
    and "wt_operator r = None \<or> wt_operator r = Some (ac_operator (tc_actor c1))"
    and v1: "tv_tasks (pg_task_view s1) (tc_task c1) = Some t1"
      "tk_operator t1 = Some (ac_operator (tc_actor c1))"
    and "tk_version t1 = wt_version r \<or> sint (tk_version t1) = sint (wt_version r) + 1" .
  then have le: "sint (wt_version r) \<le> sint (tk_version t1)" by auto
  from claim_value [OF assms(3,4,8)] obtain r2 where
    r2: "map_of (warehouse_task (w_db ?s2)) (tc_task c2) = Some r2" "wt_version r2 = tc_base_version c2"
    "wt_operator r2 = None \<or> wt_operator r2 = Some (ac_operator (tc_actor c2))"
    and "tv_tasks (pg_task_view s3) (tc_task c2) = Some t2"
      "tk_operator t2 = Some (ac_operator (tc_actor c2))"
    and "tk_version t2 = wt_version r2 \<or> sint (tk_version t2) = sint (wt_version r2) + 1" .
  then have "tv_tasks (pg_task_view ?s2) (tc_task c2) = Some (scan_task (tc_task c2) r2)"
    by (simp add: pg_task_view_def of_db_def task_db_def)
  with history_version [OF pg.run_calls_history [where u = u and xs = xs, OF pg_any] v1(1) [unfolded assms(5)]]
  have "scan_task (tc_task c2) r2 = t1 \<or> sint (tk_version t1) < sint (tk_version (scan_task (tc_task c2) r2))"
    by auto
  with v1 r r2 le assms(6) show ?thesis by (auto simp: scan_task_def)
qed

section \<open>A world to run the code in\<close>

definition ex_actor :: "string \<Rightarrow> actor" where
  "ex_actor p = \<lparr>ac_operator = p, ac_device = ''D1'', ac_warehouse = ''WH-01'', ac_correlation = ''X''\<rparr>"

definition ex_world :: "tables \<Rightarrow> world" where
  "ex_world d = \<lparr>env_clock = (\<lambda>n. int n + 1), env_reads = 0, env_uuid = (\<lambda>n. n + 1), env_ids = 0,
     env_log = \<lparr>el_events = []\<rparr>, env_fail_type = '''', w_db = d, w_fault = (\<lambda>_. NoFault),
     w_tick = 0, w_in_tx = False, w_aborted = False, w_sql_now = (\<lambda>n. int n)\<rparr>"

definition ex_row :: warehouse_row where
  "ex_row = \<lparr>wt_category = ''PUTAWAY'', wt_status = ''NEW'', wt_priority = 50,
     wt_warehouse = ''WH-01'', wt_operator = None, wt_version = 1, wt_updated = 5\<rparr>"

definition ex_tables :: tables where
  "ex_tables = empty_tables\<lparr>warehouse_task := [(''T1'', ex_row)]\<rparr>"

definition ex_claim :: "string \<Rightarrow> string \<Rightarrow> int64 \<Rightarrow> task_command" where
  "ex_claim p k v = \<lparr>tc_task = ''T1'', tc_key = k, tc_id = 7, tc_base_version = v, tc_actor = ex_actor p\<rparr>"

abbreviation ex_ports :: "world task_ports" where
  "ex_ports \<equiv> pg_task_ports (\<lambda>_. ''U'')"

abbreviation ex_start :: world where
  "ex_start \<equiv> ex_world ex_tables"

abbreviation ex_after :: "task_call \<Rightarrow> world \<Rightarrow> world" where
  "ex_after x s \<equiv> snd (run_call ex_ports x s)"

text \<open>A call answers: what a witness needs to know of a run.\<close>

definition answers :: "task_call \<Rightarrow> world \<Rightarrow> bool" where
  "answers x s \<longleftrightarrow> reply_value (fst (run_call ex_ports x s)) \<noteq> None"

lemma answersD: "answers x s \<Longrightarrow>
    run_call ex_ports x s = (fst (run_call ex_ports x s), ex_after x s)
    \<and> reply_value (fst (run_call ex_ports x s)) = Some (the (reply_value (fst (run_call ex_ports x s))))"
  by (auto simp: answers_def)

theorem outbox_versions_consecutive_witness:
  "\<exists>r n. map_of (warehouse_task (w_db (run_calls ex_ports [ClaimCall (ex_claim ''A'' ''k'' 1)] ex_start))) ''T1'' = Some r
    \<and> sint (wt_version r) = 1 + int n
    \<and> events_of ''T1'' (outbox_of (w_db (run_calls ex_ports [ClaimCall (ex_claim ''A'' ''k'' 1)] ex_start))) =
        map (\<lambda>k. 2 + int k) [0..<n]"
  using outbox_versions_consecutive [of ex_start "''T1''" ex_row "\<lambda>_. ''U''" "[ClaimCall (ex_claim ''A'' ''k'' 1)]"]
  by (simp add: ex_world_def ex_tables_def ex_row_def outbox_of_def empty_tables_def events_of_def)

theorem assignment_exclusive_witness:
  "map_of (warehouse_task (w_db (run_calls ex_ports [ClaimCall (ex_claim ''B'' ''k'' 1), ReleaseCall (ex_claim ''B'' ''l'' 1)]
     (ex_world (ex_tables\<lparr>warehouse_task := [(''T1'', ex_row\<lparr>wt_operator := Some ''A''\<rparr>)]\<rparr>))))) ''T1''
   = Some (ex_row\<lparr>wt_operator := Some ''A''\<rparr>)"
  by (rule assignment_exclusive [where owner = "''A''"])
    (simp_all add: ex_world_def ex_claim_def ex_actor_def)

abbreviation ex_later :: world where
  "ex_later \<equiv> run_calls ex_ports [ClaimCall (ex_claim ''B'' ''l'' 2)] (ex_after (ClaimCall (ex_claim ''A'' ''k'' 1)) ex_start)"

lemma ex_answers: "answers (ClaimCall (ex_claim ''A'' ''k'' 1)) ex_start"
  by code_simp

lemma ex_later_quiet: "w_fault ex_later n = NoFault"
  by code_simp

theorem retry_is_idempotent_witness:
  "fst (run_call ex_ports (ClaimCall (ex_claim ''A'' ''k'' 1)) ex_later)
     = Done (the (reply_value (fst (run_call ex_ports (ClaimCall (ex_claim ''A'' ''k'' 1)) ex_start))))
   \<and> w_db (ex_after (ClaimCall (ex_claim ''A'' ''k'' 1)) ex_later) = w_db ex_later"
  using retry_is_idempotent [OF answersD [OF ex_answers, THEN conjunct1] answersD [OF ex_answers, THEN conjunct2],
      of "[ClaimCall (ex_claim ''B'' ''l'' 2)]" "fst (run_call ex_ports (ClaimCall (ex_claim ''A'' ''k'' 1)) ex_later)"
        "ex_after (ClaimCall (ex_claim ''A'' ''k'' 1)) ex_later"] ex_later_quiet
  by (simp only: prod.collapse simp_thms)

definition ex_held :: world where
  "ex_held = ex_world (ex_tables\<lparr>warehouse_task := [(''T1'',
     ex_row\<lparr>wt_operator := Some ''A'', wt_status := ''ASSIGNED''\<rparr>)]\<rparr>)"

definition ex_held_after :: world where
  "ex_held_after = snd (claim_task ex_ports (ex_claim ''A'' ''k'' 1) ex_held)"

lemma ex_held_answers:
  "reply_value (fst (claim_task ex_ports (ex_claim ''A'' ''k'' 1) ex_held)) \<noteq> None"
  "reply_value (fst (claim_task ex_ports (ex_claim ''A'' ''l'' 1) (run_calls ex_ports [] ex_held_after))) \<noteq> None"
  "map_of (command_idempotency (w_db ex_held)) (tc_key (ex_claim ''A'' ''k'' 1)) = None"
  "map_of (command_idempotency (w_db (run_calls ex_ports [] ex_held_after))) (tc_key (ex_claim ''A'' ''l'' 1)) = None"
  by code_simp+

theorem one_claim_wins_witness:
  "ac_operator (tc_actor (ex_claim ''A'' ''k'' 1)) = ac_operator (tc_actor (ex_claim ''A'' ''l'' 1))"
proof (rule one_claim_wins)
  show "claim_task ex_ports (ex_claim ''A'' ''k'' 1) ex_held
      = (fst (claim_task ex_ports (ex_claim ''A'' ''k'' 1) ex_held), ex_held_after)"
    by (simp add: ex_held_after_def)
  show "claim_task ex_ports (ex_claim ''A'' ''l'' 1) (run_calls ex_ports [] ex_held_after)
      = (fst (claim_task ex_ports (ex_claim ''A'' ''l'' 1) (run_calls ex_ports [] ex_held_after)),
         snd (claim_task ex_ports (ex_claim ''A'' ''l'' 1) (run_calls ex_ports [] ex_held_after)))"
    by simp
  show "reply_value (fst (claim_task ex_ports (ex_claim ''A'' ''k'' 1) ex_held))
      = Some (the (reply_value (fst (claim_task ex_ports (ex_claim ''A'' ''k'' 1) ex_held))))"
    using ex_held_answers(1) by auto
  show "reply_value (fst (claim_task ex_ports (ex_claim ''A'' ''l'' 1) (run_calls ex_ports [] ex_held_after)))
      = Some (the (reply_value (fst (claim_task ex_ports (ex_claim ''A'' ''l'' 1) (run_calls ex_ports [] ex_held_after)))))"
    using ex_held_answers(2) by (metis option.collapse)
qed (use ex_held_answers(3,4) in \<open>simp_all add: ex_claim_def\<close>)

end
