(* ===== verification/Movement_Service.thy ===== *)
theory Movement_Service
  imports Movement_Domain Environment Exec_Service
begin

text \<open>
  The putaway, picking and replenishment services of
  \<open>internal/execution/movement/application/services.go\<close> over the ports of
  \<open>internal/execution/movement/ports/movement.go\<close>.
\<close>

section \<open>Ports\<close>

text \<open>The stored result is a JSON document; \<open>None\<close> stands for bytes that do not decode into a
  task.\<close>

record mv_command_result =
  mr_id :: uuid
  mr_workflow :: string
  mr_warehouse :: string
  mr_operator :: string
  mr_result :: "movement option"

record 's mv_ports =
  mp_list :: "string \<Rightarrow> string \<Rightarrow> string \<Rightarrow> ('s, movement list) prog"
  mp_get :: "string \<Rightarrow> ('s, movement) prog"
  mp_get_for_update :: "string \<Rightarrow> ('s, movement) prog"
  mp_save :: "movement \<Rightarrow> ('s, unit) prog"
  mp_suggestions :: "movement \<Rightarrow> ('s, location list) prog"
  mp_check_move :: "movement \<Rightarrow> int64 \<Rightarrow> ('s, unit) prog"
  mp_apply_move :: "movement \<Rightarrow> int64 \<Rightarrow> ('s, unit) prog"
  mp_find :: "string \<Rightarrow> ('s, mv_command_result option) prog"
  mp_save_command :: "string \<Rightarrow> mv_command_result \<Rightarrow> ('s, unit) prog"
  mp_within_tx :: "('s, movement \<times> envelope option) prog \<Rightarrow> ('s, movement \<times> envelope option) prog"
  mp_append :: "envelope \<Rightarrow> ('s, unit) prog"
  mp_audit :: "string \<Rightarrow> movement \<Rightarrow> actor \<Rightarrow> json \<Rightarrow> ('s, unit) prog"
  mp_publish :: "envelope \<Rightarrow> ('s, unit) prog"
  mp_invalidate :: "string \<Rightarrow> string \<Rightarrow> ('s, unit) prog"
  mp_now :: "('s, time) prog"
  mp_new_uuid :: "('s, uuid) prog"
  mp_uuid_string :: "uuid \<Rightarrow> string"

record mv_command =
  mc_id :: uuid
  mc_key :: string
  mc_task :: string
  mc_base_version :: int64
  mc_actor :: actor

definition mv_access_denied :: err where
  [err_defs]: "mv_access_denied =
     DomainError ''WAREHOUSE_ACCESS_DENIED'' ''Movement task access denied'' False"

definition key_other_context :: err where
  [err_defs]: "key_other_context = DomainError ''IDEMPOTENCY_KEY_REUSED''
     ''Idempotency key belongs to another command context'' False"

definition key_other_task :: err where
  [err_defs]: "key_other_task =
     DomainError ''IDEMPOTENCY_KEY_REUSED'' ''Idempotency key belongs to another task'' False"

definition mv_publish_pending :: err where
  [err_defs]: "mv_publish_pending = DomainError ''MESSAGING_PUBLISH_PENDING''
     ''Movement committed; event publication pending'' True"

definition group_incomplete :: err where
  [err_defs]: "group_incomplete =
     DomainError ''TASK_INCOMPLETE'' ''All putaway lines must be completed first'' False"

definition undecodable :: err where
  [err_defs]: "undecodable = TextError ''json: cannot unmarshal stored result''"

section \<open>Queries\<close>

definition mv_command_status :: "'s mv_ports \<Rightarrow> uuid \<Rightarrow> actor \<Rightarrow> ('s, mv_command_result) prog" where
  "mv_command_status P cid a =
     bindP (mp_find P (mp_uuid_string P cid)) (\<lambda>found.
       case found of
         None \<Rightarrow> failP ErrMvNotFound
       | Some r \<Rightarrow> if mr_warehouse r \<noteq> ac_warehouse a \<or> mr_operator r \<noteq> ac_operator a
                   then failP command_denied else returnP r)"

definition mv_list :: "'s mv_ports \<Rightarrow> string \<Rightarrow> actor \<Rightarrow> ('s, movement list) prog" where
  "mv_list P w a = mp_list P w (ac_warehouse a) (ac_operator a)"

definition mv_detail :: "'s mv_ports \<Rightarrow> string \<Rightarrow> string \<Rightarrow> actor \<Rightarrow> ('s, movement) prog" where
  "mv_detail P w i a =
     bindP (mp_get P i) (\<lambda>t.
       if mv_workflow t \<noteq> w \<or> mv_warehouse t \<noteq> ac_warehouse a
          \<or> (mv_operator t \<noteq> None \<and> mv_operator t \<noteq> Some (ac_operator a))
       then failP mv_access_denied else returnP t)"

definition putaway_suggestions :: "'s mv_ports \<Rightarrow> string \<Rightarrow> actor \<Rightarrow> ('s, location list) prog" where
  "putaway_suggestions P i a = bindP (mv_detail P Putaway i a) (mp_suggestions P)"

definition picking_allocate :: "'s mv_ports \<Rightarrow> mv_command \<Rightarrow> ('s, movement) prog" where
  "picking_allocate P x = mv_detail P Picking (mc_task x) (mc_actor x)"

section \<open>Commands\<close>

definition mv_event ::
    "string \<Rightarrow> mv_command \<Rightarrow> string \<Rightarrow> uuid \<Rightarrow> time \<Rightarrow> movement \<Rightarrow> json \<Rightarrow> envelope" where
  "mv_event w c event_type eid ts t payload =
     \<lparr>ev_id = eid, ev_type = event_type, ev_version = 1, ev_agg_type = w @ ''Task'',
      ev_agg_id = mv_id t, ev_agg_version = mv_version t, ev_at = ts,
      ev_correlation = ac_correlation (mc_actor c), ev_cause = mc_id c,
      ev_warehouse = ac_warehouse (mc_actor c), ev_operator = ac_operator (mc_actor c),
      ev_device = ac_device (mc_actor c), ev_topic = ''pda.movement.events.v1'',
      ev_payload = RawJSON payload\<rparr>"

definition mv_payload :: "movement \<Rightarrow> int64 \<Rightarrow> json" where
  "mv_payload t quantity = JObj [(''quantity'', JInt (sint quantity)), (''status'', JStr (mv_status t)),
     (''taskId'', JStr (mv_id t)), (''workflow'', JStr (mv_workflow t))]"

text \<open>The branch for a key that was used before.\<close>

definition mv_replay ::
    "string \<Rightarrow> mv_command \<Rightarrow> mv_command_result \<Rightarrow> ('s, movement \<times> envelope option) prog" where
  "mv_replay w c prev =
     (if mr_workflow prev \<noteq> w \<or> mr_warehouse prev \<noteq> ac_warehouse (mc_actor c)
         \<or> mr_operator prev \<noteq> ac_operator (mc_actor c) then failP key_other_context
      else case mr_result prev of
             None \<Rightarrow> failP undecodable
           | Some t \<Rightarrow> if mv_id t \<noteq> mc_task c then failP key_other_task else returnP (t, None))"

text \<open>The closure's part after the transition, which left the task \<open>t\<close>: check and apply the
  stock move when there is one, save, append event and audit record, record the result.\<close>

definition mv_record ::
    "'s mv_ports \<Rightarrow> string \<Rightarrow> mv_command \<Rightarrow> string \<Rightarrow> int64 \<Rightarrow> movement
     \<Rightarrow> ('s, movement \<times> envelope option) prog" where
  "mv_record P w c event_type quantity t =
     bindP (if i64_less 0 quantity then mp_check_move P t quantity else returnP ()) (\<lambda>_.
     bindP (mp_save P t) (\<lambda>_.
     bindP (if i64_less 0 quantity then mp_apply_move P t quantity else returnP ()) (\<lambda>_.
     bindP (mp_new_uuid P) (\<lambda>eid.
     bindP (mp_now P) (\<lambda>ts.
     let payload = mv_payload t quantity; e = mv_event w c event_type eid ts t payload in
     bindP (liftE (wrap_err ''event envelope'' (validate e))) (\<lambda>_.
     bindP (mp_append P e) (\<lambda>_.
     bindP (mp_audit P event_type t (mc_actor c) payload) (\<lambda>_.
     bindP (mp_save_command P (mc_key c)
        \<lparr>mr_id = mc_id c, mr_workflow = w, mr_warehouse = ac_warehouse (mc_actor c),
         mr_operator = ac_operator (mc_actor c), mr_result = Some t\<rparr>) (\<lambda>_.
     returnP (t, Some e))))))))))"

definition mv_mutate_tx ::
    "'s mv_ports \<Rightarrow> string \<Rightarrow> mv_command \<Rightarrow> string \<Rightarrow> (movement \<Rightarrow> ('s, movement) prog) \<Rightarrow> int64
     \<Rightarrow> ('s, movement \<times> envelope option) prog" where
  "mv_mutate_tx P w c event_type transition quantity =
     bindP (mp_find P (mc_key c)) (\<lambda>found.
       case found of
         Some prev \<Rightarrow> mv_replay w c prev
       | None \<Rightarrow>
          bindP (mp_get_for_update P (mc_task c)) (\<lambda>t.
          bindP (checkP (mv_workflow t \<noteq> w) ErrMvNotFound) (\<lambda>_.
          bindP (checkP (mv_warehouse t \<noteq> ac_warehouse (mc_actor c)) warehouse_denied) (\<lambda>_.
          bindP (transition t) (\<lambda>t'. mv_record P w c event_type quantity t')))))"

definition mv_mutate ::
    "'s mv_ports \<Rightarrow> string \<Rightarrow> mv_command \<Rightarrow> string \<Rightarrow> (movement \<Rightarrow> ('s, movement) prog) \<Rightarrow> int64
     \<Rightarrow> 's \<Rightarrow> movement reply \<times> 's" where
  "mv_mutate P w c event_type transition quantity s =
     (case mp_within_tx P (mv_mutate_tx P w c event_type transition quantity) s of
        (Inl e, s1) \<Rightarrow> (Failed e, s1)
      | (Inr (t, None), s1) \<Rightarrow> (Done t, s1)
      | (Inr (t, Some e), s1) \<Rightarrow>
          let s2 = snd (mp_invalidate P (ac_warehouse (mc_actor c)) (ac_operator (mc_actor c)) s1) in
          case mp_publish P e s2 of
            (Inl _, s3) \<Rightarrow> (DonePending t mv_publish_pending, s3)
          | (Inr _, s3) \<Rightarrow> (Done t, s3))"

definition mv_timed ::
    "'s mv_ports \<Rightarrow> (time \<Rightarrow> movement \<Rightarrow> err + movement) \<Rightarrow> movement \<Rightarrow> ('s, movement) prog" where
  "mv_timed P f t = bindP (mp_now P) (\<lambda>now. liftE (f now t))"

text \<open>Two closures check before they read the clock: the end of a grouped putaway and the
  completion of a pick.\<close>

definition group_complete :: "time \<Rightarrow> movement \<Rightarrow> err + movement" where
  "group_complete now t =
     (if mv_status t \<noteq> MvPartiallyCompleted then Inl group_incomplete
      else Inr (touch now (t\<lparr>mv_status := MvCompleted\<rparr>)))"

definition picking_complete :: "string \<Rightarrow> int64 \<Rightarrow> time \<Rightarrow> movement \<Rightarrow> err + movement" where
  "picking_complete operator base now t =
     (if remaining t \<noteq> 0 then Inl ErrIncomplete
      else case guard_completion operator base t of
             Inl e \<Rightarrow> Inl e
           | Inr _ \<Rightarrow> Inr (touch now (t\<lparr>mv_status := MvCompleted\<rparr>)))"

text \<open>\<open>late f\<close> reads the clock only when the check of \<open>f\<close>, which does not depend on it, passes.\<close>

definition late ::
    "'s mv_ports \<Rightarrow> (time \<Rightarrow> movement \<Rightarrow> err + movement) \<Rightarrow> movement \<Rightarrow> ('s, movement) prog" where
  "late P f t = (case f time_zero t of
     Inl e \<Rightarrow> failP e | Inr _ \<Rightarrow> bindP (mp_now P) (\<lambda>now. liftE (f now t)))"

subsection \<open>Putaway\<close>

abbreviation (input) mc_op :: "mv_command \<Rightarrow> string" where
  "mc_op x \<equiv> ac_operator (mc_actor x)"

abbreviation (input) mc_base :: "mv_command \<Rightarrow> int64" where
  "mc_base x \<equiv> mc_base_version x"

definition putaway_list :: "'s mv_ports \<Rightarrow> actor \<Rightarrow> ('s, movement list) prog" where
  "putaway_list P a = mv_list P Putaway a"

definition putaway_detail :: "'s mv_ports \<Rightarrow> string \<Rightarrow> actor \<Rightarrow> ('s, movement) prog" where
  "putaway_detail P i a = mv_detail P Putaway i a"

definition putaway_claim :: "'s mv_ports \<Rightarrow> mv_command \<Rightarrow> 's \<Rightarrow> movement reply \<times> 's" where
  "putaway_claim P x = mv_mutate P Putaway x ''PutawayTaskClaimed''
     (mv_timed P (mv_claim (mc_op x) (mc_base x))) 0"

text \<open>\<open>Start\<close> claims with the command, then starts with a fresh command id and the key derived
  from it. An error of the claim, a pending publication included, ends it.\<close>

definition start_after ::
    "'s mv_ports \<Rightarrow> string \<Rightarrow> string \<Rightarrow> mv_command \<Rightarrow> movement reply \<times> 's \<Rightarrow> movement reply \<times> 's" where
  "start_after P w event_type x = (\<lambda>(rep, s1).
     case rep of
       Failed e \<Rightarrow> (Failed e, s1)
     | DonePending t e \<Rightarrow> (Failed e, s1)
     | Done t \<Rightarrow>
         if mv_status t = MvInProgress then (Done t, s1)
         else case mp_new_uuid P s1 of
           (Inl e, s2) \<Rightarrow> (Failed e, s2)
         | (Inr cid, s2) \<Rightarrow>
             let y = x\<lparr>mc_base_version := mv_version t, mc_id := cid,
                       mc_key := mp_uuid_string P cid @ '':start''\<rparr> in
             mv_mutate P w y event_type (mv_timed P (mv_start (mc_op y) (mc_base y))) 0 s2)"

definition putaway_start :: "'s mv_ports \<Rightarrow> mv_command \<Rightarrow> 's \<Rightarrow> movement reply \<times> 's" where
  "putaway_start P x s = start_after P Putaway ''PutawayTaskStarted'' x (putaway_claim P x s)"

definition putaway_validate_source ::
    "'s mv_ports \<Rightarrow> mv_command \<Rightarrow> string \<Rightarrow> 's \<Rightarrow> movement reply \<times> 's" where
  "putaway_validate_source P x v = mv_mutate P Putaway x ''PutawayTaskStarted''
     (mv_timed P (validate_source (mc_op x) v (mc_base x))) 0"

definition putaway_validate_lpn ::
    "'s mv_ports \<Rightarrow> mv_command \<Rightarrow> string \<Rightarrow> 's \<Rightarrow> movement reply \<times> 's" where
  "putaway_validate_lpn P x v = mv_mutate P Putaway x ''PutawayLPNValidated''
     (mv_timed P (validate_source (mc_op x) v (mc_base x))) 0"

definition putaway_validate_item ::
    "'s mv_ports \<Rightarrow> mv_command \<Rightarrow> string \<Rightarrow> 's \<Rightarrow> movement reply \<times> 's" where
  "putaway_validate_item P x v = mv_mutate P Putaway x ''PutawayItemValidated''
     (mv_timed P (validate_item (mc_op x) v (mc_base x))) 0"

definition putaway_validate_lot ::
    "'s mv_ports \<Rightarrow> mv_command \<Rightarrow> string \<Rightarrow> 's \<Rightarrow> movement reply \<times> 's" where
  "putaway_validate_lot P x v = mv_mutate P Putaway x ''PutawayLotValidated''
     (mv_timed P (validate_lot (mc_op x) v (mc_base x))) 0"

definition putaway_validate_destination ::
    "'s mv_ports \<Rightarrow> mv_command \<Rightarrow> string \<Rightarrow> 's \<Rightarrow> movement reply \<times> 's" where
  "putaway_validate_destination P x v = mv_mutate P Putaway x ''PutawayDestinationValidated''
     (mv_timed P (validate_destination (mc_op x) v (mc_base x))) 0"

definition putaway_confirm ::
    "'s mv_ports \<Rightarrow> mv_command \<Rightarrow> int64 \<Rightarrow> 's \<Rightarrow> movement reply \<times> 's" where
  "putaway_confirm P x q = mv_mutate P Putaway x ''InventoryMoved''
     (mv_timed P (move (mc_op x) q (mc_base x))) q"

definition putaway_confirm_group :: "'s mv_ports \<Rightarrow> mv_command \<Rightarrow> 's \<Rightarrow> movement reply \<times> 's" where
  "putaway_confirm_group P x = mv_mutate P Putaway x ''PutawayGroupCompleted'' (late P group_complete) 0"

subsection \<open>Picking\<close>

definition picking_list :: "'s mv_ports \<Rightarrow> actor \<Rightarrow> ('s, movement list) prog" where
  "picking_list P a = mv_list P Picking a"

definition picking_detail :: "'s mv_ports \<Rightarrow> string \<Rightarrow> actor \<Rightarrow> ('s, movement) prog" where
  "picking_detail P i a = mv_detail P Picking i a"

definition picking_claim :: "'s mv_ports \<Rightarrow> mv_command \<Rightarrow> 's \<Rightarrow> movement reply \<times> 's" where
  "picking_claim P x = mv_mutate P Picking x ''PickingTaskClaimed''
     (mv_timed P (mv_claim (mc_op x) (mc_base x))) 0"

definition picking_start :: "'s mv_ports \<Rightarrow> mv_command \<Rightarrow> 's \<Rightarrow> movement reply \<times> 's" where
  "picking_start P x s = start_after P Picking ''PickingTaskStarted'' x (picking_claim P x s)"

definition picking_validate_location ::
    "'s mv_ports \<Rightarrow> mv_command \<Rightarrow> string \<Rightarrow> 's \<Rightarrow> movement reply \<times> 's" where
  "picking_validate_location P x v = mv_mutate P Picking x ''PickingTaskStarted''
     (mv_timed P (validate_source (mc_op x) v (mc_base x))) 0"

definition picking_resolve_barcode ::
    "'s mv_ports \<Rightarrow> mv_command \<Rightarrow> string \<Rightarrow> 's \<Rightarrow> movement reply \<times> 's" where
  "picking_resolve_barcode P x v = mv_mutate P Picking x ''PickingBarcodeResolved''
     (mv_timed P (validate_item (mc_op x) v (mc_base x))) 0"

definition picking_validate_lot ::
    "'s mv_ports \<Rightarrow> mv_command \<Rightarrow> string \<Rightarrow> 's \<Rightarrow> movement reply \<times> 's" where
  "picking_validate_lot P x v = mv_mutate P Picking x ''PickingLotValidated''
     (mv_timed P (validate_lot (mc_op x) v (mc_base x))) 0"

definition picking_validate_destination ::
    "'s mv_ports \<Rightarrow> mv_command \<Rightarrow> string \<Rightarrow> 's \<Rightarrow> movement reply \<times> 's" where
  "picking_validate_destination P x v = mv_mutate P Picking x ''PickingDestinationValidated''
     (mv_timed P (validate_destination (mc_op x) v (mc_base x))) 0"

definition picking_confirm ::
    "'s mv_ports \<Rightarrow> mv_command \<Rightarrow> int64 \<Rightarrow> 's \<Rightarrow> movement reply \<times> 's" where
  "picking_confirm P x q = mv_mutate P Picking x ''PickConfirmed''
     (mv_timed P (move (mc_op x) q (mc_base x))) q"

definition picking_finish :: "'s mv_ports \<Rightarrow> mv_command \<Rightarrow> 's \<Rightarrow> movement reply \<times> 's" where
  "picking_finish P x = mv_mutate P Picking x ''PickingTaskCompleted''
     (late P (picking_complete (mc_op x) (mc_base x))) 0"

subsection \<open>Replenishment\<close>

definition replenishment_list :: "'s mv_ports \<Rightarrow> actor \<Rightarrow> ('s, movement list) prog" where
  "replenishment_list P a = mv_list P Replenishment a"

definition replenishment_detail :: "'s mv_ports \<Rightarrow> string \<Rightarrow> actor \<Rightarrow> ('s, movement) prog" where
  "replenishment_detail P i a = mv_detail P Replenishment i a"

definition replenishment_validate_source ::
    "'s mv_ports \<Rightarrow> mv_command \<Rightarrow> string \<Rightarrow> 's \<Rightarrow> movement reply \<times> 's" where
  "replenishment_validate_source P x v = mv_mutate P Replenishment x ''ReplenishmentSourceValidated''
     (mv_timed P (validate_source (mc_op x) v (mc_base x))) 0"

definition replenishment_validate_destination ::
    "'s mv_ports \<Rightarrow> mv_command \<Rightarrow> string \<Rightarrow> 's \<Rightarrow> movement reply \<times> 's" where
  "replenishment_validate_destination P x v =
     mv_mutate P Replenishment x ''ReplenishmentDestinationValidated''
       (mv_timed P (validate_destination (mc_op x) v (mc_base x))) 0"

definition replenishment_validate_item ::
    "'s mv_ports \<Rightarrow> mv_command \<Rightarrow> string \<Rightarrow> 's \<Rightarrow> movement reply \<times> 's" where
  "replenishment_validate_item P x v = mv_mutate P Replenishment x ''ReplenishmentItemValidated''
     (mv_timed P (validate_item (mc_op x) v (mc_base x))) 0"

definition replenishment_confirm ::
    "'s mv_ports \<Rightarrow> mv_command \<Rightarrow> int64 \<Rightarrow> 's \<Rightarrow> movement reply \<times> 's" where
  "replenishment_confirm P x q = mv_mutate P Replenishment x ''InventoryMoved''
     (mv_timed P (move (mc_op x) q (mc_base x))) q"

end
