(* ===== verification/Receiving_Service.thy ===== *)
theory Receiving_Service
  imports Receiving_Domain Movement_Service
begin

text \<open>
  The receiving service of \<open>internal/execution/receiving/application/service.go\<close> over the ports
  of \<open>internal/execution/receiving/ports/receiving.go\<close>.
\<close>

section \<open>Ports\<close>

record 's rv_ports =
  rvp_list :: "rv_filter \<Rightarrow> ('s, rv_page) prog"
  rvp_get :: "string \<Rightarrow> ('s, receiving) prog"
  rvp_get_for_update :: "string \<Rightarrow> ('s, receiving) prog"
  rvp_save :: "receiving \<Rightarrow> ('s, unit) prog"
  rvp_resolve :: "string \<Rightarrow> string \<Rightarrow> ('s, rline) prog"
  rvp_apply :: "string \<Rightarrow> string \<Rightarrow> int64 \<Rightarrow> ('s, unit) prog"
  rvp_find_key :: "string \<Rightarrow> ('s, rv_command_status option) prog"
  rvp_find_id :: "uuid \<Rightarrow> ('s, rv_command_status option) prog"
  rvp_save_command :: "string \<Rightarrow> rv_command_status \<Rightarrow> ('s, unit) prog"
  rvp_append :: "envelope \<Rightarrow> ('s, unit) prog"
  rvp_audit :: "string \<Rightarrow> string \<Rightarrow> receiving \<Rightarrow> actor \<Rightarrow> json \<Rightarrow> ('s, unit) prog"
  rvp_denied :: "string \<Rightarrow> string \<Rightarrow> actor \<Rightarrow> string \<Rightarrow> ('s, unit) prog"
  rvp_within_tx :: "('s, receiving \<times> envelope option) prog \<Rightarrow> ('s, receiving \<times> envelope option) prog"
  rvp_publish :: "envelope \<Rightarrow> ('s, unit) prog"
  rvp_invalidate :: "string \<Rightarrow> string \<Rightarrow> ('s, unit) prog"
  rvp_now :: "('s, time) prog"
  rvp_new_uuid :: "('s, uuid) prog"

record rv_command =
  rc_id :: uuid
  rc_key :: string
  rc_task :: string
  rc_base_version :: int64
  rc_actor :: actor

record rv_confirm = rv_command +
  rc_line :: string
  rc_barcode :: string
  rc_quantity :: int64
  rc_condition :: string
  rc_remark :: "string option"
  rc_scanned :: "time option"

record batch_line =
  bt_line :: string
  bt_revision :: string
  bt_lot :: string
  bt_uom :: string
  bt_actual :: int64

record rv_batch_confirm = rv_command +
  rc_lines :: "batch_line list"
  rc_batch_remark :: "string option"

definition rv_access_denied :: err where
  [err_defs]: "rv_access_denied =
     DomainError ''WAREHOUSE_ACCESS_DENIED'' ''Receiving task access denied'' False"

definition rv_publish_pending :: err where
  [err_defs]: "rv_publish_pending = DomainError ''MESSAGING_PUBLISH_PENDING''
     ''Receiving committed; event publication pending'' True"

section \<open>Queries\<close>

definition rv_list :: "'s rv_ports \<Rightarrow> rv_filter \<Rightarrow> actor \<Rightarrow> ('s, rv_page) prog" where
  "rv_list P f a =
     (if rf_warehouse f \<noteq> ac_warehouse a then failP warehouse_denied
      else rvp_list P (f\<lparr>rf_operator := ac_operator a,
        rf_limit := if i64_less (rf_limit f) 1 \<or> i64_less 100 (rf_limit f) then 20 else rf_limit f\<rparr>))"

definition rv_detail :: "'s rv_ports \<Rightarrow> string \<Rightarrow> actor \<Rightarrow> ('s, receiving) prog" where
  "rv_detail P i a =
     bindP (rvp_get P i) (\<lambda>t.
       if rv_warehouse t \<noteq> ac_warehouse a
          \<or> (rv_operator t \<noteq> None \<and> rv_operator t \<noteq> Some (ac_operator a))
       then failP rv_access_denied else returnP t)"

definition rv_resolve_barcode :: "'s rv_ports \<Rightarrow> string \<Rightarrow> string \<Rightarrow> actor \<Rightarrow> ('s, rline) prog" where
  "rv_resolve_barcode P i barcode a =
     bindP (rv_detail P i a) (\<lambda>t.
       if rv_status t \<noteq> RvInProgress \<and> rv_status t \<noteq> RvPartiallyCompleted then failP ErrRvNotAssigned
       else rvp_resolve P i barcode)"

definition rv_command_status_of :: "'s rv_ports \<Rightarrow> uuid \<Rightarrow> actor \<Rightarrow> ('s, rv_command_status) prog" where
  "rv_command_status_of P cid a =
     bindP (rvp_find_id P cid) (\<lambda>found.
       case found of
         None \<Rightarrow> failP ErrRvNotFound
       | Some r \<Rightarrow> if rs_warehouse r \<noteq> ac_warehouse a \<or> rs_operator r \<noteq> ac_operator a
                   then failP command_denied else returnP r)"

section \<open>Commands\<close>

text \<open>A transition gives the task it leaves, the item received and the quantity that came in.\<close>

type_synonym rv_transition = "time \<Rightarrow> receiving \<Rightarrow> err + receiving \<times> string \<times> int64"

definition no_delta :: "(time \<Rightarrow> receiving \<Rightarrow> err + receiving) \<Rightarrow> rv_transition" where
  "no_delta f now t = map_sum id (\<lambda>t'. (t', '''', 0)) (f now t)"

text \<open>The loop of \<open>Confirm\<close> keeps the last line with the id.\<close>

definition received_before :: "string \<Rightarrow> rline list \<Rightarrow> int64" where
  "received_before line ls = fold (\<lambda>l b. if ln_id l = line then ln_received l else b) ls 0"

definition confirm_delta :: "rv_confirm \<Rightarrow> rv_transition" where
  "confirm_delta c now t =
     (let before = received_before (rc_line c) (rv_lines t) in
      map_sum id (\<lambda>(l, t'). (t', ln_item l, ln_received l - before))
        (confirm_with_condition (ac_operator (rc_actor c)) (rc_line c) (rc_barcode c) (rc_quantity c)
           (rc_condition c) (rc_remark c) (rc_base_version c) now t))"

definition rv_payload :: "receiving \<Rightarrow> json" where
  "rv_payload t = JObj [(''status'', JStr (rv_status t)), (''taskId'', JStr (rv_id t))]"

definition rv_event ::
    "'a rv_command_scheme \<Rightarrow> string \<Rightarrow> uuid \<Rightarrow> time \<Rightarrow> receiving \<Rightarrow> envelope" where
  "rv_event c event_type eid ts t =
     \<lparr>ev_id = eid, ev_type = event_type, ev_version = 1, ev_agg_type = ''ReceivingTask'',
      ev_agg_id = rv_id t, ev_agg_version = rv_version t, ev_at = ts,
      ev_correlation = ac_correlation (rc_actor c), ev_cause = rc_id c,
      ev_warehouse = ac_warehouse (rc_actor c), ev_operator = ac_operator (rc_actor c),
      ev_device = ac_device (rc_actor c), ev_topic = ''pda.receiving.events.v1'',
      ev_payload = RawJSON (rv_payload t)\<rparr>"

definition rv_record ::
    "'s rv_ports \<Rightarrow> 'a rv_command_scheme \<Rightarrow> string \<Rightarrow> string \<Rightarrow> receiving \<Rightarrow> string \<Rightarrow> int64
     \<Rightarrow> ('s, receiving \<times> envelope option) prog" where
  "rv_record P c event_type command_type t item delta =
     bindP (rvp_new_uuid P) (\<lambda>eid.
     bindP (rvp_now P) (\<lambda>ts.
     let e = rv_event c event_type eid ts t in
     bindP (liftE (wrap_err ''event envelope'' (validate e))) (\<lambda>_.
     bindP (rvp_save P t) (\<lambda>_.
     bindP (if i64_less 0 delta then rvp_apply P (rv_warehouse t) item delta else returnP ()) (\<lambda>_.
     bindP (rvp_append P e) (\<lambda>_.
     bindP (rvp_audit P event_type ''SUCCESS'' t (rc_actor c) (rv_payload t)) (\<lambda>_.
     bindP (rvp_save_command P (rc_key c)
        \<lparr>rs_id = rc_id c, rs_type = command_type, rs_status = ''COMPLETED'',
         rs_warehouse = ac_warehouse (rc_actor c), rs_operator = ac_operator (rc_actor c),
         rs_result = Some t\<rparr>) (\<lambda>_.
     returnP (t, Some e)))))))))"

definition rv_mutate_tx ::
    "'s rv_ports \<Rightarrow> 'a rv_command_scheme \<Rightarrow> string \<Rightarrow> string
     \<Rightarrow> (receiving \<Rightarrow> ('s, receiving \<times> string \<times> int64) prog) \<Rightarrow> ('s, receiving \<times> envelope option) prog" where
  "rv_mutate_tx P c event_type command_type transition =
     bindP (rvp_find_key P (rc_key c)) (\<lambda>found.
       case found of
         Some prev \<Rightarrow> (case rs_result prev of None \<Rightarrow> failP undecodable | Some t \<Rightarrow> returnP (t, None))
       | None \<Rightarrow>
          bindP (rvp_get_for_update P (rc_task c)) (\<lambda>t.
          bindP (checkP (rv_warehouse t \<noteq> ac_warehouse (rc_actor c)) warehouse_denied) (\<lambda>_.
          bindP (transition t) (\<lambda>(t', item, delta).
            rv_record P c event_type command_type t' item delta))))"

text \<open>\<open>err.(*platform.DomainError)\<close> looks at the error itself, not at what it wraps.\<close>

definition denied_code :: "err \<Rightarrow> string" where
  "denied_code e = (case e of DomainError c m r \<Rightarrow> c | _ \<Rightarrow> ''INTERNAL_ERROR'')"

definition rv_mutate ::
    "'s rv_ports \<Rightarrow> 'a rv_command_scheme \<Rightarrow> string \<Rightarrow> string
     \<Rightarrow> (receiving \<Rightarrow> ('s, receiving \<times> string \<times> int64) prog) \<Rightarrow> 's \<Rightarrow> receiving reply \<times> 's" where
  "rv_mutate P c event_type command_type transition s =
     (case rvp_within_tx P (rv_mutate_tx P c event_type command_type transition) s of
        (Inl e, s1) \<Rightarrow>
          (case rvp_denied P event_type (rc_task c) (rc_actor c) (denied_code e) s1 of
             (Inl audit_err, s2) \<Rightarrow> (Failed audit_err, s2)
           | (Inr _, s2) \<Rightarrow> (Failed e, s2))
      | (Inr (t, None), s1) \<Rightarrow> (Done t, s1)
      | (Inr (t, Some e), s1) \<Rightarrow>
          let s2 = snd (rvp_invalidate P (ac_warehouse (rc_actor c)) (ac_operator (rc_actor c)) s1) in
          case rvp_publish P e s2 of
            (Inl _, s3) \<Rightarrow> (DonePending t rv_publish_pending, s3)
          | (Inr _, s3) \<Rightarrow> (Done t, s3))"

definition rv_timed ::
    "'s rv_ports \<Rightarrow> rv_transition \<Rightarrow> receiving \<Rightarrow> ('s, receiving \<times> string \<times> int64) prog" where
  "rv_timed P f t = bindP (rvp_now P) (\<lambda>now. liftE (f now t))"

definition claim_receiving :: "'s rv_ports \<Rightarrow> rv_command \<Rightarrow> 's \<Rightarrow> receiving reply \<times> 's" where
  "claim_receiving P c = rv_mutate P c ''ReceivingTaskClaimed'' ''CLAIM''
     (rv_timed P (no_delta (rv_claim (ac_operator (rc_actor c)) (rc_base_version c))))"

definition start_receiving :: "'s rv_ports \<Rightarrow> rv_command \<Rightarrow> 's \<Rightarrow> receiving reply \<times> 's" where
  "start_receiving P c = rv_mutate P c ''ReceivingTaskStarted'' ''START''
     (rv_timed P (no_delta (rv_start (ac_operator (rc_actor c)) (rc_base_version c))))"

definition confirm_receiving :: "'s rv_ports \<Rightarrow> rv_confirm \<Rightarrow> 's \<Rightarrow> receiving reply \<times> 's" where
  "confirm_receiving P c = rv_mutate P c ''ReceivingQuantityConfirmed'' ''CONFIRM_QUANTITY''
     (rv_timed P (confirm_delta c))"

definition complete_receiving :: "'s rv_ports \<Rightarrow> rv_command \<Rightarrow> 's \<Rightarrow> receiving reply \<times> 's" where
  "complete_receiving P c = rv_mutate P c ''ReceivingTaskCompleted'' ''COMPLETE''
     (rv_timed P (no_delta (rv_complete (ac_operator (rc_actor c)) (rc_base_version c))))"

end
