(* ===== verification/Receiving_Contract.thy ===== *)
theory Receiving_Contract
  imports Receiving_Service Stock
begin

text \<open>
  The contract of a receiving store, and what a receiving command does to tasks, item balances,
  outbox and command records when it takes effect.
\<close>

section \<open>What the transitions do\<close>

text \<open>The part of a task that no transition touches.\<close>

definition rv_frame :: "receiving \<Rightarrow> receiving" where
  "rv_frame t = t\<lparr>rv_status := '''', rv_operator := None, rv_version := 0, rv_updated := 0,
     rv_lines := map (\<lambda>l. l\<lparr>ln_received := 0\<rparr>) (rv_lines t)\<rparr>"

definition rv_work :: "receiving \<Rightarrow> receiving \<Rightarrow> bool" where
  "rv_work t t' \<longleftrightarrow> rv_frame t' = rv_frame t"

lemma rv_work_refl [simp]: "rv_work t t"
  by (simp add: rv_work_def)

lemma rv_work_sel:
  assumes "rv_work t t'"
  shows "rv_id t' = rv_id t" "rv_warehouse t' = rv_warehouse t" "rv_policy t' = rv_policy t"
    "rv_po t' = rv_po t" "map (\<lambda>l. l\<lparr>ln_received := 0\<rparr>) (rv_lines t') = map (\<lambda>l. l\<lparr>ln_received := 0\<rparr>) (rv_lines t)"
  using arg_cong [OF assms [unfolded rv_work_def], of rv_id] arg_cong [OF assms [unfolded rv_work_def], of rv_warehouse]
    arg_cong [OF assms [unfolded rv_work_def], of rv_policy] arg_cong [OF assms [unfolded rv_work_def], of rv_po]
    arg_cong [OF assms [unfolded rv_work_def], of rv_lines]
  by (simp_all add: rv_frame_def)

lemma rv_touch_sel [simp]:
  "rv_id (rv_touch st now t) = rv_id t" "rv_warehouse (rv_touch st now t) = rv_warehouse t"
  "rv_lines (rv_touch st now t) = rv_lines t" "rv_status (rv_touch st now t) = st"
  "rv_version (rv_touch st now t) = rv_version t + 1" "rv_operator (rv_touch st now t) = rv_operator t"
  "rv_frame (rv_touch st now t) = rv_frame t" "rv_policy (rv_touch st now t) = rv_policy t"
  by (simp_all add: rv_touch_def rv_frame_def)

lemma rv_frame_operator [simp]: "rv_frame (t\<lparr>rv_operator := p\<rparr>) = rv_frame t"
  by (simp add: rv_frame_def)

lemma rv_plain:
  "rv_claim p b now t = Inr t' \<Longrightarrow> rv_status t \<noteq> RvCompleted \<and> rv_lines t' = rv_lines t \<and> rv_work t t' \<and> rv_version t' = rv_version t + 1"
  "rv_start p b now t = Inr t' \<Longrightarrow> rv_status t \<noteq> RvCompleted \<and> rv_lines t' = rv_lines t \<and> rv_work t t' \<and> rv_version t' = rv_version t + 1"
  "rv_complete p b now t = Inr t' \<Longrightarrow> rv_status t' = RvCompleted \<and> rv_lines t' = rv_lines t \<and> rv_work t t'
     \<and> rv_version t' = rv_version t + 1 \<and> (\<forall>l \<in> set (rv_lines t). sint (ln_expected l) \<le> sint (ln_received l))"
  by (auto simp: rv_claim_def rv_start_def rv_complete_def rv_work_def i64_less_def not_less split: if_splits)

lemma confirm_line_ok:
  assumes "confirm_line pol barcode q cond remark l = Inr l'"
  shows "l' = l\<lparr>ln_received := ln_received l + q\<rparr>" and "0 < sint q" and "ln_barcode l = barcode"
    and "po_over_receipt pol \<or> sint q \<le> sint (ln_expected l - ln_received l)"
  using assms by (auto simp: confirm_line_def Let_def i64_le_def i64_less_def split: if_splits)

lemma confirm_lines_ok:
  "confirm_lines pol line barcode q cond remark ls = Inr (l', ls') \<Longrightarrow>
    \<exists>ls1 l ls2. ls = ls1 @ l # ls2 \<and> ls' = ls1 @ l' # ls2 \<and> ln_id l = line
      \<and> line \<notin> ln_id ` set ls1 \<and> confirm_line pol barcode q cond remark l = Inr l'"
proof (induction ls arbitrary: ls')
  case (Cons a ls)
  show ?case
  proof (cases "ln_id a = line")
    case True
    with Cons.prems have "confirm_line pol barcode q cond remark a = Inr l'" "ls' = l' # ls"
      by (auto simp: map_sum_def split: sum.splits)
    with True show ?thesis by (intro exI [of _ "[]"]) auto
  next
    case False
    with Cons.prems obtain ls'' where "confirm_lines pol line barcode q cond remark ls = Inr (l', ls'')"
      and ls': "ls' = a # ls''" by (auto simp: map_sum_def split: sum.splits)
    from Cons.IH [OF this(1)] obtain ls1 l ls2 where "ls = ls1 @ l # ls2" "ls'' = ls1 @ l' # ls2"
      "ln_id l = line" "line \<notin> ln_id ` set ls1" "confirm_line pol barcode q cond remark l = Inr l'" by auto
    with ls' False show ?thesis by (intro exI [of _ "a # ls1"]) auto
  qed
qed simp

lemma received_before_skip: "line \<notin> ln_id ` set ls \<Longrightarrow>
    fold (\<lambda>l b. if ln_id l = line then ln_received l else b) ls b0 = b0"
  by (induction ls arbitrary: b0) auto

lemma confirm_delta_ok:
  assumes "confirm_delta c now t = Inr (t', item, d)" and "distinct (map ln_id (rv_lines t))"
  obtains ls1 l ls2 where "rv_lines t = ls1 @ l # ls2" and "ln_id l = rc_line c" and "item = ln_item l"
    and "d = rc_quantity c" and "0 < sint d" and "ln_barcode l = rc_barcode c"
    and "rv_lines t' = ls1 @ l\<lparr>ln_received := ln_received l + d\<rparr> # ls2"
    and "po_over_receipt (rv_policy t) \<or> sint d \<le> sint (ln_expected l - ln_received l)"
    and "rv_status t \<noteq> RvCompleted" and "rv_work t t'" and "rv_version t' = rv_version t + 1"
    and "rv_version t = rc_base_version c" and "rv_operator t = Some (ac_operator (rc_actor c))"
    and "rv_status t' = RvPartiallyCompleted" and "rv_operator t' = rv_operator t"
proof -
  from assms(1) obtain l' ls' where g: "rv_version t = rc_base_version c" "rv_status t \<noteq> RvCompleted"
      "rv_operator t = Some (ac_operator (rc_actor c))"
    and lines: "confirm_lines (rv_policy t) (rc_line c) (rc_barcode c) (rc_quantity c) (rc_condition c)
        (rc_remark c) (rv_lines t) = Inr (l', ls')"
    and t': "t' = rv_touch RvPartiallyCompleted now (t\<lparr>rv_lines := ls'\<rparr>)" and item: "item = ln_item l'"
    and d: "d = ln_received l' - received_before (rc_line c) (rv_lines t)"
    by (auto simp: confirm_delta_def confirm_with_condition_def Let_def map_sum_def split: if_splits sum.splits)
  from confirm_lines_ok [OF lines] obtain ls1 l ls2 where ls: "rv_lines t = ls1 @ l # ls2" "ls' = ls1 @ l' # ls2"
    "ln_id l = rc_line c" and cl: "confirm_line (rv_policy t) (rc_barcode c) (rc_quantity c) (rc_condition c)
       (rc_remark c) l = Inr l'" by auto
  note cl = confirm_line_ok [OF cl]
  from ls assms(2) have "rc_line c \<notin> ln_id ` set ls1" "rc_line c \<notin> ln_id ` set ls2" by auto
  then have "received_before (rc_line c) (rv_lines t) = ln_received l"
    by (simp add: received_before_def ls(1,3) received_before_skip)
  with d cl(1) have dq: "d = rc_quantity c" by simp
  show thesis
  proof (rule that [OF ls(1,3)])
    show "rv_work t t'" using ls cl(1) by (simp add: rv_work_def t') (simp add: rv_frame_def)
  qed (use ls cl item dq g in \<open>simp_all add: t'\<close>)
qed

section \<open>The contract\<close>

record rv_view =
  gv_tasks :: "string \<rightharpoonup> receiving"
  gv_keys :: "string \<rightharpoonup> rv_command_status"
  gv_outbox :: "envelope list"
  gv_balance :: "(string \<times> string) quantities"

definition rv_rows_ok :: "receiving \<Rightarrow> bool" where
  "rv_rows_ok t \<longleftrightarrow> (\<forall>l \<in> set (rv_lines t). 0 \<le> sint (ln_received l))"

definition balance_after ::
    "receiving \<Rightarrow> string \<Rightarrow> int64 \<Rightarrow> (string \<times> string) quantities \<Rightarrow> (string \<times> string) quantities option" where
  "balance_after t item d b = (if i64_less 0 d then add_stock b (rv_warehouse t, item) d else Some b)"

definition rv_result :: "'a rv_command_scheme \<Rightarrow> string \<Rightarrow> receiving \<Rightarrow> rv_command_status" where
  "rv_result c ct t = \<lparr>rs_id = rc_id c, rs_type = ct, rs_status = ''COMPLETED'',
     rs_warehouse = ac_warehouse (rc_actor c), rs_operator = ac_operator (rc_actor c), rs_result = Some t\<rparr>"

inductive rv_effect ::
    "'a rv_command_scheme \<Rightarrow> string \<Rightarrow> string \<Rightarrow> rv_transition
     \<Rightarrow> rv_view \<Rightarrow> receiving \<Rightarrow> envelope option \<Rightarrow> rv_view \<Rightarrow> bool"
  for c :: "'a rv_command_scheme" and et :: string and ct :: string and f :: rv_transition where
  replayed: "gv_keys v (rc_key c) = Some r \<Longrightarrow> rs_result r = Some t \<Longrightarrow> rv_effect c et ct f v t None v"
| changed: "gv_keys v (rc_key c) = None \<Longrightarrow> gv_tasks v (rc_task c) = Some t \<Longrightarrow>
    rv_warehouse t = ac_warehouse (rc_actor c) \<Longrightarrow> f now t = Inr (t', item, d) \<Longrightarrow>
    e = rv_event c et eid ts t' \<Longrightarrow> well_formed e \<Longrightarrow> rv_rows_ok t' \<Longrightarrow>
    balance_after t' item d (gv_balance v) = Some b \<Longrightarrow>
    rv_effect c et ct f v t' (Some e)
      \<lparr>gv_tasks = (gv_tasks v)(rc_task c \<mapsto> t'),
       gv_keys = (gv_keys v)(rc_key c \<mapsto> rv_result c ct t'),
       gv_outbox = gv_outbox v @ [e], gv_balance = b\<rparr>"

locale receiving_store =
  fixes P :: "'s rv_ports" and view :: "'s \<Rightarrow> rv_view"
  assumes frame_find: "frame view (rvp_find_key P k)"
    and frame_get: "frame view (rvp_get_for_update P i)"
    and frame_audit: "frame view (rvp_audit P a oc t ac j)"
    and frame_denied: "frame view (rvp_denied P a i ac code)"
    and frame_now: "frame view (rvp_now P)"
    and frame_uuid: "frame view (rvp_new_uuid P)"
    and frame_publish: "frame view (rvp_publish P e)"
    and frame_invalidate: "frame view (rvp_invalidate P w p)"
    and find_ok: "rvp_find_key P k s = (Inr found, s') \<Longrightarrow> gv_keys (view s) k = found"
    and get_ok: "rvp_get_for_update P i s = (Inr t, s') \<Longrightarrow>
      gv_tasks (view s) i = Some t \<and> rv_id t = i \<and> distinct (map ln_id (rv_lines t))"
    and save_ok: "rvp_save P t s = (Inr u, s') \<Longrightarrow> gv_tasks (view s) (rv_id t) = Some t0 \<Longrightarrow>
      rv_work t0 t \<Longrightarrow> distinct (map ln_id (rv_lines t)) \<Longrightarrow>
      rv_rows_ok t \<and> view s' = (view s)\<lparr>gv_tasks := (gv_tasks (view s))(rv_id t \<mapsto> t)\<rparr>"
    and apply_ok: "rvp_apply P w item d s = (Inr u, s') \<Longrightarrow>
      \<exists>b. add_stock (gv_balance (view s)) (w, item) d = Some b \<and> view s' = (view s)\<lparr>gv_balance := b\<rparr>"
    and append_ok: "well_formed e \<Longrightarrow> rvp_append P e s = (Inr u, s') \<Longrightarrow>
      view s' = (view s)\<lparr>gv_outbox := gv_outbox (view s) @ [e]\<rparr>"
    and save_command_ok: "rvp_save_command P k r s = (Inr u, s') \<Longrightarrow>
      view s' = (view s)\<lparr>gv_keys := (gv_keys (view s))(k \<mapsto> r)\<rparr>"
    and tx_ok: "rvp_within_tx P m s = (Inr y, s') \<Longrightarrow>
      \<exists>s1 s2. view s1 = view s \<and> m s1 = (Inr y, s2) \<and> view s' = view s2"
    and tx_fail: "rvp_within_tx P m s = (Inl er, s') \<Longrightarrow> view s' = view s \<or>
      (\<exists>y s1 s2. view s1 = view s \<and> m s1 = (Inr y, s2) \<and> view s' = view s2)"
begin

definition works :: "rv_transition \<Rightarrow> bool" where
  "works f \<longleftrightarrow> (\<forall>now t t' item d. f now t = Inr (t', item, d) \<longrightarrow> distinct (map ln_id (rv_lines t)) \<longrightarrow>
     rv_work t t' \<and> map ln_id (rv_lines t') = map ln_id (rv_lines t))"

lemma rv_record_effect:
  assumes run: "rv_record P c et ct t' item d s = (Inr (r, x), s')"
    and key: "gv_keys (view s) (rc_key c) = None" and task: "gv_tasks (view s) (rc_task c) = Some t"
    and "rv_warehouse t = ac_warehouse (rc_actor c)" "rv_id t = rc_task c"
    and f: "f now t = Inr (t', item, d)" and work: "rv_work t t'" and dist: "distinct (map ln_id (rv_lines t'))"
  shows "rv_effect c et ct f (view s) r x (view s')"
proof -
  from run obtain s1 s2 s3 s4 s5 s6 eid ts e where
    uuid: "rvp_new_uuid P s = (Inr eid, s1)" and clock: "rvp_now P s1 = (Inr ts, s2)"
    and e: "e = rv_event c et eid ts t'" and valid: "validate e = Inr ()"
    and save: "rvp_save P t' s2 = (Inr (), s3)"
    and app: "(if i64_less 0 d then rvp_apply P (rv_warehouse t') item d else returnP ()) s3 = (Inr (), s4)"
    and out: "rvp_append P e s4 = (Inr (), s5)"
    and aud: "rvp_audit P et ''SUCCESS'' t' (rc_actor c) (rv_payload t') s5 = (Inr (), s6)"
    and cmd: "rvp_save_command P (rc_key c) (rv_result c ct t') s6 = (Inr (), s')"
    and rx: "r = t'" "x = Some e"
    unfolding rv_record_def Let_def rv_result_def by (auto simp: prog_iffs simp del: if_split)
  have v2: "view s2 = view s" using frameD [OF frame_now clock] frameD [OF frame_uuid uuid] by simp
  have id: "rv_id t' = rc_task c" using rv_work_sel(1) [OF work] assms(5) by simp
  from save_ok [OF save, of t] v2 task work id dist have ok: "rv_rows_ok t'"
    and v3: "view s3 = (view s)\<lparr>gv_tasks := (gv_tasks (view s))(rc_task c \<mapsto> t')\<rparr>" by simp_all
  from app apply_ok [of "rv_warehouse t'" item d s3 "()" s4] v3 obtain b where
    b: "balance_after t' item d (gv_balance (view s)) = Some b" and v4: "view s4 = (view s3)\<lparr>gv_balance := b\<rparr>"
    by (cases "i64_less 0 d") (auto simp: balance_after_def)
  have "view s' = \<lparr>gv_tasks = (gv_tasks (view s))(rc_task c \<mapsto> t'),
      gv_keys = (gv_keys (view s))(rc_key c \<mapsto> rv_result c ct t'),
      gv_outbox = gv_outbox (view s) @ [e], gv_balance = b\<rparr>"
    using save_command_ok [OF cmd] frameD [OF frame_audit aud] append_ok [OF _ out] valid v4 v3
    by (simp add: validate_accepts)
  with assms e valid ok b rx show ?thesis by (auto intro!: rv_effect.changed simp: validate_accepts)
qed

lemma rv_mutate_tx_effect:
  assumes run: "rv_mutate_tx P c et ct (rv_timed P f) s = (Inr (r, x), s')" and f: "works f"
  shows "rv_effect c et ct f (view s) r x (view s')"
proof -
  from run obtain found s1 where find: "rvp_find_key P (rc_key c) s = (Inr found, s1)"
    unfolding rv_mutate_tx_def by (auto simp: prog_iffs)
  note v1 = frameD [OF frame_find find] and key = find_ok [OF find]
  show ?thesis
  proof (cases found)
    case (Some prev)
    with run find v1 key show ?thesis
      unfolding rv_mutate_tx_def by (auto simp: bindP_run split: option.splits intro: rv_effect.replayed)
  next
    case None
    with run find obtain t t' item d now s2 s3 where get: "rvp_get_for_update P (rc_task c) s1 = (Inr t, s2)"
      and wf: "rv_warehouse t = ac_warehouse (rc_actor c)"
      and clock: "rvp_now P s2 = (Inr now, s3)" and t': "f now t = Inr (t', item, d)"
      and rest: "rv_record P c et ct t' item d s3 = (Inr (r, x), s')"
      unfolding rv_mutate_tx_def rv_timed_def by (fastforce simp: prog_iffs)
    have v: "view s3 = view s" using frameD [OF frame_get get] frameD [OF frame_now clock] v1 by simp
    have "rv_work t t'" "distinct (map ln_id (rv_lines t'))"
      using f [unfolded works_def, rule_format, OF t'] get_ok [OF get] by simp_all
    with rest have "rv_effect c et ct f (view s3) r x (view s')"
      by (intro rv_record_effect) (use get_ok [OF get] key None v v1 wf t' in auto)
    with v show ?thesis by simp
  qed
qed

lemma rv_mutate_cases:
  assumes run: "rv_mutate P c et ct (rv_timed P f) s = (rep, s')" and f: "works f"
  shows "(\<exists>t x. rv_effect c et ct f (view s) t x (view s') \<and> reply_value rep \<in> {None, Some t})
     \<or> view s' = view s \<and> reply_value rep = None"
proof -
  obtain y s1 where tx: "rvp_within_tx P (rv_mutate_tx P c et ct (rv_timed P f)) s = (y, s1)" by fastforce
  show ?thesis
  proof (cases y)
    case (Inl e)
    obtain d s2 where den: "rvp_denied P et (rc_task c) (rc_actor c) (denied_code e) s1 = (d, s2)" by fastforce
    with run tx Inl have rep: "reply_value rep = None" "s' = s2"
      by (auto simp: rv_mutate_def split: sum.splits)
    note v = frameD [OF frame_denied den]
    from tx_fail [OF tx [unfolded Inl]] show ?thesis
    proof (elim disjE exE conjE)
      fix z sa sb assume "view sa = view s" "rv_mutate_tx P c et ct (rv_timed P f) sa = (Inr z, sb)" "view s1 = view sb"
      with rv_mutate_tx_effect [of c et ct f sa "fst z" "snd z" sb] f rep v show ?thesis by auto
    qed (use rep v in simp)
  next
    case (Inr z)
    obtain t x where z: "z = (t, x)" by fastforce
    from tx_ok [OF tx [unfolded Inr]] z obtain sa sb where "view sa = view s" "view s1 = view sb"
      "rv_mutate_tx P c et ct (rv_timed P f) sa = (Inr (t, x), sb)" by auto
    with rv_mutate_tx_effect [of c et ct f sa t x sb] f
    have eff: "rv_effect c et ct f (view s) t x (view s1)" by simp
    obtain u s2 where invd: "rvp_invalidate P (ac_warehouse (rc_actor c)) (ac_operator (rc_actor c)) s1 = (u, s2)"
      by fastforce
    have "view s' = view s1 \<and> reply_value rep = Some t"
      using run tx invd frameD [OF frame_invalidate invd] unfolding Inr z
      by (auto simp: rv_mutate_def Let_def split: option.splits prod.splits sum.splits
          dest: frameD [OF frame_publish])
    with eff show ?thesis by auto
  qed
qed

lemma works_plain:
  "works (no_delta (rv_claim p b))" "works (no_delta (rv_start p b))" "works (no_delta (rv_complete p b))"
  by (auto simp: works_def no_delta_def map_sum_def split: sum.splits dest: rv_plain)

lemma works_confirm: "works (confirm_delta c)"
  unfolding works_def
  by (intro allI impI, elim confirm_delta_ok, assumption) simp

end

section \<open>Histories\<close>

inductive rv_step :: "rv_view \<Rightarrow> rv_view \<Rightarrow> bool" where
  claims: "rv_effect (c :: rv_command) et ct (no_delta (rv_claim p b)) v t e v' \<Longrightarrow> rv_step v v'"
| starts: "rv_effect (c :: rv_command) et ct (no_delta (rv_start p b)) v t e v' \<Longrightarrow> rv_step v v'"
| completes: "rv_effect (c :: rv_command) et ct (no_delta (rv_complete p b)) v t e v' \<Longrightarrow> rv_step v v'"
| confirms: "rv_effect (c :: rv_confirm) et ct (confirm_delta c) v t e v' \<Longrightarrow> rv_step v v'"

definition rv_inv :: "rv_view \<Rightarrow> bool" where
  "rv_inv v \<longleftrightarrow> (\<forall>i t. gv_tasks v i = Some t \<longrightarrow>
     rv_id t = i \<and> distinct (map ln_id (rv_lines t)) \<and> rv_rows_ok t)"

text \<open>What a task has received of an item in its warehouse.\<close>

definition received_of :: "receiving \<Rightarrow> string \<times> string \<Rightarrow> int" where
  "received_of t k = (if rv_warehouse t = fst k
     then (\<Sum>l\<leftarrow>rv_lines t. if ln_item l = snd k then sint (ln_received l) else 0) else 0)"

text \<open>A changing step either leaves the lines alone, or adds a positive quantity to one line and
  to the balance of its item.\<close>

lemma rv_effect_changes:
  assumes "rv_effect c et ct f v t e v'" and "rv_inv v"
    and plain: "\<And>now t t' item d. f now t = Inr (t', item, d) \<Longrightarrow> distinct (map ln_id (rv_lines t)) \<Longrightarrow>
      rv_rows_ok t \<Longrightarrow> rv_rows_ok t' \<Longrightarrow>
      rv_work t t' \<and> map ln_id (rv_lines t') = map ln_id (rv_lines t)
      \<and> (\<forall>k. received_of t' k = received_of t k + (if i64_less 0 d \<and> k = (rv_warehouse t, item) then sint d else 0))
      \<and> (rv_status t = RvCompleted \<longrightarrow> rv_status t' = RvCompleted \<and> rv_lines t' = rv_lines t)"
  obtains (same) "v' = v"
  | (changed) i t t' where "gv_tasks v i = Some t" "gv_tasks v' = (gv_tasks v)(i \<mapsto> t')"
      "rv_work t t'" "rv_id t' = i" "distinct (map ln_id (rv_lines t'))" "rv_rows_ok t'"
      "\<forall>k. stock_at (gv_balance v') k - received_of t' k = stock_at (gv_balance v) k - received_of t k"
      "rv_status t = RvCompleted \<longrightarrow> rv_status t' = RvCompleted \<and> rv_lines t' = rv_lines t"
  using assms(1)
proof cases
  case replayed
  then show thesis by (intro same) simp
next
  case (changed t0 now item d e' eid ts b)
  with assms(2) have i: "rv_id t0 = rc_task c" "distinct (map ln_id (rv_lines t0))" "rv_rows_ok t0"
    by (auto simp: rv_inv_def)
  from changed have "f now t0 = Inr (t, item, d)" "rv_rows_ok t" by simp_all
  note p = plain [OF this(1) i(2,3) this(2)]
  note w = rv_work_sel [OF p [THEN conjunct1]]
  have "stock_at b k = stock_at (gv_balance v) k + (if i64_less 0 d \<and> k = (rv_warehouse t0, item) then sint d else 0)" for k
    using \<open>balance_after t item d (gv_balance v) = Some b\<close> add_stock_at [where j = k] w(2)
    by (auto simp: balance_after_def split: if_splits)
  with changed p i w show thesis by (intro that(2) [of "rc_task c" t0 t]) simp_all
qed

lemma received_of_same: "rv_work t t' \<Longrightarrow> rv_lines t' = rv_lines t \<Longrightarrow> received_of t' k = received_of t k"
  by (simp add: received_of_def rv_work_sel)

lemma received_of_confirm:
  assumes "confirm_delta c now t = Inr (t', item, d)" and "distinct (map ln_id (rv_lines t))"
    and "rv_rows_ok t" and "rv_rows_ok t'"
  shows "rv_work t t' \<and> map ln_id (rv_lines t') = map ln_id (rv_lines t)
      \<and> (\<forall>k. received_of t' k = received_of t k + (if i64_less 0 d \<and> k = (rv_warehouse t, item) then sint d else 0))
      \<and> (rv_status t = RvCompleted \<longrightarrow> rv_status t' = RvCompleted \<and> rv_lines t' = rv_lines t)"
  using assms(1,2)
proof (rule confirm_delta_ok)
  fix ls1 l ls2 assume ls: "rv_lines t = ls1 @ l # ls2" "rv_lines t' = ls1 @ l\<lparr>ln_received := ln_received l + d\<rparr> # ls2"
    and d: "item = ln_item l" "0 < sint d" and st: "rv_status t \<noteq> RvCompleted" and w: "rv_work t t'"
  from assms(3,4) ls have "0 \<le> sint (ln_received l)" "0 \<le> sint (ln_received l + d)" by (simp_all add: rv_rows_ok_def)
  with d have "sint (ln_received l + d) = sint (ln_received l) + sint d" by (intro sint_plus_nonneg) simp_all
  with ls d st w show ?thesis by (auto simp: received_of_def rv_work_sel i64_less_def)
qed

lemma rv_step_cases:
  assumes "rv_step v v'" and "rv_inv v"
  obtains (same) "v' = v"
  | (changed) i t t' where "gv_tasks v i = Some t" "gv_tasks v' = (gv_tasks v)(i \<mapsto> t')"
      "rv_work t t'" "rv_id t' = i" "distinct (map ln_id (rv_lines t'))" "rv_rows_ok t'"
      "\<forall>k. stock_at (gv_balance v') k - received_of t' k = stock_at (gv_balance v) k - received_of t k"
      "rv_status t = RvCompleted \<longrightarrow> rv_status t' = RvCompleted \<and> rv_lines t' = rv_lines t"
  using assms(1)
proof cases
  case (claims c et ct p b t e)
  from claims(1) assms(2) show thesis
    by (rule rv_effect_changes)
      (auto simp: no_delta_def map_sum_def received_of_same split: sum.splits dest!: rv_plain intro: that)
next
  case (starts c et ct p b t e)
  from starts(1) assms(2) show thesis
    by (rule rv_effect_changes)
      (auto simp: no_delta_def map_sum_def received_of_same split: sum.splits dest!: rv_plain intro: that)
next
  case (completes c et ct p b t e)
  from completes(1) assms(2) show thesis
    by (rule rv_effect_changes)
      (auto simp: no_delta_def map_sum_def received_of_same split: sum.splits dest!: rv_plain intro: that)
next
  case (confirms c et ct t e)
  from confirms(1) assms(2) show thesis
    by (rule rv_effect_changes) (rule received_of_confirm that; assumption)+
qed

lemma rv_step_inv: "rv_step v v' \<Longrightarrow> rv_inv v \<Longrightarrow> rv_inv v'"
  by (erule rv_step_cases, assumption) (auto simp: rv_inv_def)

text \<open>Receipts: what the tasks have received of an item, against the balance.\<close>

definition unexplained :: "rv_view \<Rightarrow> string \<times> string \<Rightarrow> int" where
  "unexplained v k = stock_at (gv_balance v) k - (\<Sum>i\<in>dom (gv_tasks v). received_of (the (gv_tasks v i)) k)"

lemma rv_step_unexplained:
  assumes "rv_step v v'" and inv: "rv_inv v" and fin: "finite (dom (gv_tasks v))"
  shows "unexplained v' k = unexplained v k \<and> dom (gv_tasks v') = dom (gv_tasks v)"
  using assms(1) inv
proof (cases rule: rv_step_cases)
  case (changed i t t')
  let ?D = "dom (gv_tasks v)"
  have i: "i \<in> ?D" and dom: "dom (gv_tasks v') = ?D" using changed(1,2) by auto
  have rest: "(\<Sum>j\<in>?D - {i}. received_of (the (gv_tasks v' j)) k) = (\<Sum>j\<in>?D - {i}. received_of (the (gv_tasks v j)) k)"
    by (rule sum.cong) (auto simp: changed(2))
  have "(\<Sum>j\<in>?D. received_of (the (gv_tasks v' j)) k) = received_of t' k + (\<Sum>j\<in>?D - {i}. received_of (the (gv_tasks v j)) k)"
    using sum.remove [OF fin i, of "\<lambda>j. received_of (the (gv_tasks v' j)) k"] rest changed(2) by simp
  moreover have "(\<Sum>j\<in>?D. received_of (the (gv_tasks v j)) k) = received_of t k + (\<Sum>j\<in>?D - {i}. received_of (the (gv_tasks v j)) k)"
    using sum.remove [OF fin i, of "\<lambda>j. received_of (the (gv_tasks v j)) k"] changed(1) by simp
  ultimately show ?thesis using spec [OF changed(7), of k] dom by (simp add: unexplained_def)
qed simp

lemma rv_history_unexplained:
  assumes "rv_step\<^sup>*\<^sup>* v0 v" and "rv_inv v0" and "finite (dom (gv_tasks v0))"
  shows "rv_inv v \<and> unexplained v k = unexplained v0 k \<and> dom (gv_tasks v) = dom (gv_tasks v0)"
  using assms
proof (induction rule: rtranclp_induct)
  case (step v v')
  then have "rv_inv v" "unexplained v k = unexplained v0 k" "dom (gv_tasks v) = dom (gv_tasks v0)" by auto
  with rv_step_inv [OF step(2)] rv_step_unexplained [OF step(2), of k] step(5) show ?case by simp
qed simp

text \<open>A completed task stays completed and receives nothing more.\<close>

lemma rv_history_completed:
  assumes "rv_step\<^sup>*\<^sup>* v0 v" and "rv_inv v0" and "gv_tasks v0 i = Some t" and "rv_status t = RvCompleted"
  shows "\<exists>t'. gv_tasks v i = Some t' \<and> rv_status t' = RvCompleted \<and> rv_lines t' = rv_lines t"
proof -
  from assms have "rv_inv v \<and> (\<exists>t'. gv_tasks v i = Some t' \<and> rv_status t' = RvCompleted \<and> rv_lines t' = rv_lines t)"
  proof (induction rule: rtranclp_induct)
    case (step v v')
    then obtain t' where inv: "rv_inv v" and t': "gv_tasks v i = Some t'" "rv_status t' = RvCompleted"
      "rv_lines t' = rv_lines t" by auto
    from step(2) inv have "\<exists>t'. gv_tasks v' i = Some t' \<and> rv_status t' = RvCompleted \<and> rv_lines t' = rv_lines t"
      by (rule rv_step_cases) (use t' in auto)
    with rv_step_inv [OF step(2) inv] show ?case by simp
  qed simp
  then show ?thesis by simp
qed

end
