(* ===== verification/Pg_Receiving_Store.thy ===== *)
theory Pg_Receiving_Store
  imports Receiving_Contract Pg_Common
begin

text \<open>
  The PostgreSQL receiving store of
  \<open>internal/execution/receiving/adapters/postgres/store.go\<close>.
\<close>

section \<open>Rows\<close>

definition scan_line :: "string \<Rightarrow> receiving_line_row \<Rightarrow> rline" where
  "scan_line l r = \<lparr>ln_id = l, ln_item = rlr_item r, ln_item_name = rlr_item_name r,
     ln_barcode = rlr_barcode r, ln_expected = rlr_expected r, ln_received = rlr_received r,
     ln_sku = '''', ln_uom = '''', ln_lot = '''', ln_handed_over = 0, ln_remaining = 0,
     ln_lot_required = False, ln_serial_required = False, ln_verified = False\<rparr>"

definition scan_receiving :: "string \<Rightarrow> receiving_row \<Rightarrow> rline list \<Rightarrow> receiving" where
  "scan_receiving i r ls = \<lparr>rv_id = i, rv_order = '''', rv_po = rt_po r, rv_lpn = '''', rv_supplier = '''',
     rv_source_type = '''', rv_source_system = '''', rv_doc_type = '''', rv_doc_id = '''',
     rv_doc_code = '''', rv_work_order = '''', rv_work_order_code = '''', rv_output = '''',
     rv_request = '''', rv_confirmation = '''', rv_status = rt_status r, rv_warehouse = rt_warehouse r,
     rv_operator = rt_operator r, rv_version = rt_version r,
     rv_policy = \<lparr>po_over_receipt = rt_over_receipt r, po_remark_on_variance = rt_remark_on_variance r,
        po_lot_required = False, po_serial_required = False, po_conditions = []\<rparr>,
     rv_lines = ls, rv_updated = rt_updated r\<rparr>"

text \<open>The CHECK constraints of \<open>receiving_task\<close> and \<open>receiving_line\<close>; \<open>UNIQUE(task_id, barcode)\<close>
  bites on inserts.\<close>

definition receiving_ok :: "receiving_row \<Rightarrow> bool" where
  "receiving_ok r \<longleftrightarrow> i64_less 0 (rt_version r)"

definition receiving_line_ok :: "receiving_line_row \<Rightarrow> bool" where
  "receiving_line_ok r \<longleftrightarrow> i64_less 0 (rlr_expected r) \<and> i64_le 0 (rlr_received r)"

definition new_line_ok :: "(string \<times> receiving_line_row) list \<Rightarrow> receiving_line_row \<Rightarrow> bool" where
  "new_line_ok tab r \<longleftrightarrow> receiving_line_ok r
     \<and> (\<forall>x \<in> set (map snd tab). (rlr_task x, rlr_barcode x) \<noteq> (rlr_task r, rlr_barcode r))"

text \<open>\<open>SELECT \<dots> FROM receiving_line WHERE task_id = $1 ORDER BY line_id\<close>.\<close>

definition lines_of :: "string \<Rightarrow> (string \<times> receiving_line_row) list \<Rightarrow> rline list" where
  "lines_of i tab = children rlr_task scan_line i tab"

section \<open>Statements\<close>

definition pgr_seed_line :: "string \<Rightarrow> rline \<Rightarrow> (world, unit) prog" where
  "pgr_seed_line i l = sql (on_table receiving_line (\<lambda>x d. d\<lparr>receiving_line := x\<rparr>) (\<lambda>now tab.
     no_value (insert_ignore ''receiving_line'' (if map_of tab (ln_id l) = None then new_line_ok tab else receiving_line_ok)
       (ln_id l) \<lparr>rlr_task = i, rlr_item = ln_item l, rlr_item_name = ln_item_name l,
          rlr_barcode = ln_barcode l, rlr_expected = ln_expected l, rlr_received = ln_received l\<rparr> tab)))"

definition pgr_seed_task :: "receiving \<Rightarrow> (world, unit) prog" where
  "pgr_seed_task t =
     bindP (sql (on_table warehouse_task (\<lambda>x d. d\<lparr>warehouse_task := x\<rparr>) (\<lambda>now tab.
       no_value (insert_ignore ''warehouse_task'' warehouse_ok (rv_id t)
         \<lparr>wt_category = ''RECEIVING'', wt_status = rv_status t, wt_priority = 50,
          wt_warehouse = rv_warehouse t, wt_operator = rv_operator t, wt_version = rv_version t,
          wt_updated = rv_updated t\<rparr> tab)))) (\<lambda>_.
     bindP (sql (on_table receiving_task (\<lambda>x d. d\<lparr>receiving_task := x\<rparr>) (\<lambda>now tab.
       no_value (insert_ignore ''receiving_task'' receiving_ok (rv_id t)
         \<lparr>rt_po = rv_po t, rt_status = rv_status t, rt_warehouse = rv_warehouse t,
          rt_operator = rv_operator t, rt_version = rv_version t,
          rt_over_receipt = po_over_receipt (rv_policy t),
          rt_remark_on_variance = po_remark_on_variance (rv_policy t), rt_updated = rv_updated t\<rparr> tab)))) (\<lambda>_.
     forP (rv_lines t) (pgr_seed_line (rv_id t))))"

definition pgr_within_tx :: "(world, 'a) prog \<Rightarrow> (world, 'a) prog" where
  "pgr_within_tx m = with_tx m"

definition pgr_seed :: "receiving list \<Rightarrow> (world, unit) prog" where
  "pgr_seed ts = pgr_within_tx (forP ts pgr_seed_task)"

definition pgr_get :: "string \<Rightarrow> (world, receiving) prog" where
  "pgr_get i = bindP (query (\<lambda>now d. map_of (receiving_task d) i)) (\<lambda>row.
     case row of
       None \<Rightarrow> failP ErrRvNotFound
     | Some r \<Rightarrow> bindP (query (\<lambda>now d. lines_of i (receiving_line d))) (\<lambda>ls.
         returnP (scan_receiving i r ls)))"

definition store_receiving :: "receiving \<Rightarrow> receiving_row \<Rightarrow> receiving_row" where
  "store_receiving t r = r\<lparr>rt_status := rv_status t, rt_operator := rv_operator t,
     rt_version := rv_version t, rt_updated := rv_updated t\<rparr>"

definition store_line :: "rline \<Rightarrow> receiving_line_row \<Rightarrow> receiving_line_row" where
  "store_line l r = r\<lparr>rlr_received := ln_received l\<rparr>"

definition pgr_save_line :: "rline \<Rightarrow> (world, unit) prog" where
  "pgr_save_line l = save_child ''receiving_line'' receiving_line_ok receiving_line
     (\<lambda>x d. d\<lparr>receiving_line := x\<rparr>) (ln_id l) (store_line l)"

definition pgr_save :: "receiving \<Rightarrow> (world, unit) prog" where
  "pgr_save t =
     bindP (sql (on_table receiving_task (\<lambda>x d. d\<lparr>receiving_task := x\<rparr>) (\<lambda>now tab.
       update_at ''receiving_task'' receiving_ok (rv_id t) (store_receiving t) tab))) (\<lambda>n.
     bindP (checkP (n \<noteq> 1) ErrRvNotFound) (\<lambda>_.
     forP (rv_lines t) pgr_save_line))"

definition pgr_list_ids :: "rv_filter \<Rightarrow> string \<Rightarrow> tables \<Rightarrow> string list" where
  "pgr_list_ids f after d =
     take (nat (sint (rf_limit f) + 1)) (sort (map fst (filter (\<lambda>(i, r). rt_warehouse r = rf_warehouse f
        \<and> (rt_operator r = None \<or> rt_operator r = Some (rf_operator f))
        \<and> (rf_status f = '''' \<or> rt_status r = rf_status f) \<and> after < i) (receiving_task d))))"

definition pgr_list :: "rv_filter \<Rightarrow> (world, rv_page) prog" where
  "pgr_list f =
     (case (if rf_cursor f = '''' then Some '''' else raw_url_decode (rf_cursor f)) of
        None \<Rightarrow> failP (TextError ''invalid cursor'')
      | Some after \<Rightarrow> bindP (query (\<lambda>now d. pgr_list_ids f after d)) (\<lambda>ids.
          let limit = nat (sint (rf_limit f)); more = limit < length ids in
          bindP (mapP pgr_get (if more then take limit ids else ids)) (\<lambda>items.
          returnP \<lparr>rp_items = items,
            rp_next_cursor = (if more then Some (raw_url_encode (ids ! (limit - 1))) else None)\<rparr>)))"

definition pgr_resolve :: "string \<Rightarrow> string \<Rightarrow> (world, rline) prog" where
  "pgr_resolve i barcode =
     bindP (query (\<lambda>now d. find (\<lambda>(l, r). rlr_task r = i \<and> rlr_barcode r = barcode) (receiving_line d))) (\<lambda>hit.
       case hit of
         Some (l, r) \<Rightarrow> returnP (scan_line l r)
       | None \<Rightarrow>
          bindP (query (\<lambda>now d. \<exists>(l, r) \<in> set (receiving_line d). rlr_barcode r = barcode)) (\<lambda>exists.
          if exists then failP ErrBarcodeWrongContext else failP ErrBarcodeUnknown))"

definition pgr_apply :: "string \<Rightarrow> string \<Rightarrow> int64 \<Rightarrow> (world, unit) prog" where
  "pgr_apply w item delta = sql (on_table inventory_balance (\<lambda>x d. d\<lparr>inventory_balance := x\<rparr>) (\<lambda>now tab.
     no_value (upsert_stock ''inventory_balance'' (\<lambda>_. True) (w, item) delta now tab)))"

text \<open>The command table; its \<open>status\<close> column is kept in \<open>cr_scope\<close>.\<close>

definition rv_status_of :: "uuid \<times> receiving command_row \<Rightarrow> rv_command_status" where
  "rv_status_of = (\<lambda>(i, r). \<lparr>rs_id = i, rs_type = cr_type r, rs_status = cr_scope r,
     rs_warehouse = cr_warehouse r, rs_operator = cr_operator r, rs_result = Some (cr_result r)\<rparr>)"

definition pgr_find_key :: "string \<Rightarrow> (world, rv_command_status option) prog" where
  "pgr_find_key k = bindP advisory_lock (\<lambda>_.
     query (\<lambda>now d. map_option rv_status_of (command_by_key k (receiving_command_status d))))"

definition pgr_find_id :: "uuid \<Rightarrow> (world, rv_command_status option) prog" where
  "pgr_find_id i = query (\<lambda>now d.
     map_option (\<lambda>r. rv_status_of (i, r)) (map_of (receiving_command_status d) i))"

definition pgr_save_command :: "string \<Rightarrow> rv_command_status \<Rightarrow> (world, unit) prog" where
  "pgr_save_command k r = (case rs_result r of
     None \<Rightarrow> failP (TextError ''invalid input syntax for type json'')
   | Some t \<Rightarrow> sql (on_table receiving_command_status (\<lambda>x d. d\<lparr>receiving_command_status := x\<rparr>) (\<lambda>now tab.
       no_value (insert_command ''receiving_command_status'' (rs_id r)
         \<lparr>cr_key = k, cr_type = rs_type r, cr_scope = rs_status r, cr_warehouse = rs_warehouse r,
          cr_operator = rs_operator r, cr_result = t\<rparr> tab))))"

definition pgr_append :: "envelope \<Rightarrow> (world, unit) prog" where
  "pgr_append e = bindP (liftE (marshal_envelope e)) insert_outbox"

definition pgr_audit :: "string \<Rightarrow> string \<Rightarrow> receiving \<Rightarrow> actor \<Rightarrow> json \<Rightarrow> (world, unit) prog" where
  "pgr_audit action outcome t a details =
     bindP new_uuid (\<lambda>i. insert_audit i action outcome (rv_id t) a details)"

definition pgr_denied :: "string \<Rightarrow> string \<Rightarrow> actor \<Rightarrow> string \<Rightarrow> (world, unit) prog" where
  "pgr_denied action aggregate a code =
     bindP new_uuid (\<lambda>i. insert_audit i action ''DENIED'' aggregate a (JObj [(''errorCode'', JStr code)]))"

definition pgr_invalidate :: "string \<Rightarrow> string \<Rightarrow> (world, unit) prog" where
  "pgr_invalidate w p = returnP ()"

definition pg_rv_ports :: "world rv_ports" where
  "pg_rv_ports = \<lparr>rvp_list = pgr_list, rvp_get = pgr_get, rvp_get_for_update = pgr_get,
     rvp_save = pgr_save, rvp_resolve = pgr_resolve, rvp_apply = pgr_apply,
     rvp_find_key = pgr_find_key, rvp_find_id = pgr_find_id, rvp_save_command = pgr_save_command,
     rvp_append = pgr_append, rvp_audit = pgr_audit, rvp_denied = pgr_denied,
     rvp_within_tx = pgr_within_tx, rvp_publish = publish_event, rvp_invalidate = pgr_invalidate,
     rvp_now = clock_now, rvp_new_uuid = new_uuid\<rparr>"

lemma pg_rv_ports_sel [simp]:
  "rvp_list pg_rv_ports = pgr_list" "rvp_get pg_rv_ports = pgr_get"
  "rvp_get_for_update pg_rv_ports = pgr_get" "rvp_save pg_rv_ports = pgr_save"
  "rvp_resolve pg_rv_ports = pgr_resolve" "rvp_apply pg_rv_ports = pgr_apply"
  "rvp_find_key pg_rv_ports = pgr_find_key" "rvp_find_id pg_rv_ports = pgr_find_id"
  "rvp_save_command pg_rv_ports = pgr_save_command" "rvp_append pg_rv_ports = pgr_append"
  "rvp_audit pg_rv_ports = pgr_audit" "rvp_denied pg_rv_ports = pgr_denied"
  "rvp_within_tx pg_rv_ports = pgr_within_tx" "rvp_publish pg_rv_ports = publish_event"
  "rvp_invalidate pg_rv_ports = pgr_invalidate" "rvp_now pg_rv_ports = clock_now"
  "rvp_new_uuid pg_rv_ports = new_uuid"
  by (simp_all add: pg_rv_ports_def)

section \<open>Views\<close>

definition rv_keys_of :: "tables \<Rightarrow> string \<Rightarrow> rv_command_status option" where
  "rv_keys_of d k = map_option rv_status_of (command_by_key k (receiving_command_status d))"

definition receiving_of :: "tables \<Rightarrow> string \<Rightarrow> receiving option" where
  "receiving_of d i = map_option (\<lambda>r. scan_receiving i r (lines_of i (receiving_line d))) (map_of (receiving_task d) i)"

definition balance_of :: "tables \<Rightarrow> (string \<times> string) quantities" where
  "balance_of d = (\<lambda>k. map_option st_quantity (map_of (inventory_balance d) k))"

definition rv_db :: "tables \<Rightarrow> rv_view" where
  "rv_db d = \<lparr>gv_tasks = receiving_of d, gv_keys = rv_keys_of d, gv_outbox = outbox_of d,
     gv_balance = balance_of d\<rparr>"

definition pg_rv_view :: "world \<Rightarrow> rv_view" where
  "pg_rv_view = of_db rv_db"

lemma pg_rv_view_eq: "pg_rv_view s = rv_db (w_db s)"
  by (simp add: pg_rv_view_def of_db_def)

lemma rv_db_frames [simp]: "rv_db (d\<lparr>audit_record := e\<rparr>) = rv_db d" "rv_db (d\<lparr>warehouse_task := f\<rparr>) = rv_db d"
  by (simp_all add: rv_db_def rv_keys_of_def [abs_def] receiving_of_def [abs_def] outbox_of_def balance_of_def)

lemma frame_pgr_reads:
  "frame pg_rv_view (pgr_find_key k)" "frame pg_rv_view (pgr_get i)" "frame pg_rv_view (pgr_invalidate w p)"
  unfolding pg_rv_view_def pgr_find_key_def pgr_get_def pgr_invalidate_def advisory_lock_def
  by (intro frame_intros)+

lemma frame_pgr_env:
  "frame pg_rv_view clock_now" "frame pg_rv_view new_uuid" "frame pg_rv_view (publish_event e)"
  unfolding pg_rv_view_def by (intro frame_db_env)+

lemma frame_rv_insert_audit: "frame pg_rv_view (insert_audit i a oc g ac j)"
  unfolding pg_rv_view_def insert_audit_def by (rule frame_on_table) simp

lemma frame_pgr_audit: "frame pg_rv_view (pgr_audit a oc t ac j)" "frame pg_rv_view (pgr_denied a i ac code)"
  unfolding pgr_audit_def pgr_denied_def by (intro frame_intros frame_pgr_env frame_rv_insert_audit)+

lemma pgr_find_ok: "pgr_find_key k s = (Inr x, s') \<Longrightarrow> gv_keys (pg_rv_view s) k = x"
  by (auto simp: pgr_find_key_def advisory_lock_def prog_iffs pg_rv_view_eq rv_db_def
      rv_keys_of_def elim!: query_Inr)

interpretation lines: child_table "''receiving_line''" receiving_line_ok receiving_line
  "\<lambda>x d. d\<lparr>receiving_line := x\<rparr>" rlr_task scan_line ln_id store_line "\<lambda>l. l\<lparr>ln_received := 0\<rparr>"
proof
  show "ln_id c = ln_id c'" if "c\<lparr>ln_received := 0\<rparr> = c'\<lparr>ln_received := 0\<rparr>" for c c'
    using arg_cong [OF that, of ln_id] by simp
  fix c r assume "c\<lparr>ln_received := 0\<rparr> = scan_line (ln_id c) r\<lparr>ln_received := 0\<rparr>"
  then have "c\<lparr>ln_received := 0\<rparr>\<lparr>ln_received := ln_received c\<rparr>
      = scan_line (ln_id c) r\<lparr>ln_received := 0\<rparr>\<lparr>ln_received := ln_received c\<rparr>" by (rule arg_cong)
  then show "scan_line (ln_id c) (store_line c r) = c" by (simp add: scan_line_def store_line_def)
qed (simp_all add: scan_line_def store_line_def)

lemmas lines_of_ids = lines.children_ids [folded lines_of_def]

lemma pgr_get_ok: "pgr_get i s = (Inr t, s') \<Longrightarrow>
    gv_tasks (pg_rv_view s) i = Some t \<and> rv_id t = i \<and> distinct (map ln_id (rv_lines t))"
  by (auto simp: pgr_get_def prog_iffs pg_rv_view_eq rv_db_def receiving_of_def scan_receiving_def
      lines_of_ids distinct_child_keys split: option.splits elim!: query_Inr)

lemma pgr_save_ok:
  assumes "pgr_save t s = (Inr u, s')" and "gv_tasks (pg_rv_view s) (rv_id t) = Some t0" and "rv_work t0 t"
    and "distinct (map ln_id (rv_lines t))"
  shows "rv_rows_ok t \<and> pg_rv_view s' = (pg_rv_view s)\<lparr>gv_tasks := (gv_tasks (pg_rv_view s))(rv_id t \<mapsto> t)\<rparr>"
proof -
  from assms(1) obtain s1 where
    upd: "sql (on_table receiving_task (\<lambda>x d. d\<lparr>receiving_task := x\<rparr>) (\<lambda>now tab.
       update_at ''receiving_task'' receiving_ok (rv_id t) (store_receiving t) tab)) s = (Inr 1, s1)"
    and lines: "forP (rv_lines t) pgr_save_line s1 = (Inr u, s')"
    unfolding pgr_save_def by (auto simp: prog_iffs)
  from upd obtain tab' where
    tab: "update_at ''receiving_task'' receiving_ok (rv_id t) (store_receiving t) (receiving_task (w_db s)) = Inr (1, tab')"
    and db: "w_db s1 = (w_db s)\<lparr>receiving_task := tab'\<rparr>"
    by (rule sql_table_Inr) auto
  from assms(2) obtain r where r: "map_of (receiving_task (w_db s)) (rv_id t) = Some r"
    and t0: "t0 = scan_receiving (rv_id t) r (lines_of (rv_id t) (receiving_line (w_db s)))"
    by (auto simp: pg_rv_view_eq rv_db_def receiving_of_def)
  have ids: "map (\<lambda>l. l\<lparr>ln_received := 0\<rparr>) (rv_lines t)
      = map (\<lambda>l. l\<lparr>ln_received := 0\<rparr>) (lines_of (rv_id t) (receiving_line (w_db s)))"
    using rv_work_sel(5) [OF assms(3)] by (simp add: t0 scan_receiving_def)
  from lines.save_children [OF lines [unfolded pgr_save_line_def], of "rv_id t"] ids obtain ltab where
    d2: "w_db s' = (w_db s1)\<lparr>receiving_line := ltab\<rparr>"
    and ls: "lines_of (rv_id t) ltab = rv_lines t"
      "\<And>j. j \<noteq> rv_id t \<Longrightarrow> lines_of j ltab = lines_of j (receiving_line (w_db s))"
    and ok: "\<forall>l \<in> set (rv_lines t). \<exists>r. receiving_line_ok (store_line l r)"
    by (auto simp: db lines_of_def)
  have rows: "rv_rows_ok t"
    using ok by (auto simp: rv_rows_ok_def receiving_line_ok_def store_line_def i64_le_def)
  have scan: "scan_receiving (rv_id t) (store_receiving t r) (rv_lines t) = t"
  proof -
    have "t = (rv_frame t)\<lparr>rv_status := rv_status t, rv_operator := rv_operator t, rv_version := rv_version t,
       rv_updated := rv_updated t, rv_lines := rv_lines t\<rparr>" by (simp add: rv_frame_def)
    also have "rv_frame t = rv_frame t0" using assms(3) by (simp add: rv_work_def)
    finally show ?thesis by (simp add: rv_frame_def t0 scan_receiving_def store_receiving_def)
  qed
  have "receiving_of (w_db s') = (receiving_of (w_db s))(rv_id t \<mapsto> t)"
    using update_at_map [OF tab] r scan ls by (auto simp: receiving_of_def fun_eq_iff d2 db)
  then have "pg_rv_view s' = (pg_rv_view s)\<lparr>gv_tasks := (gv_tasks (pg_rv_view s))(rv_id t \<mapsto> t)\<rparr>"
    by (simp add: pg_rv_view_eq rv_db_def outbox_of_def balance_of_def rv_keys_of_def [abs_def] d2 db)
  with rows show ?thesis by simp
qed

section \<open>The contract holds\<close>

lemma pgr_apply_ok:
  assumes "pgr_apply w item delta s = (Inr u, s')"
  shows "\<exists>b. add_stock (gv_balance (pg_rv_view s)) (w, item) delta = Some b
    \<and> pg_rv_view s' = (pg_rv_view s)\<lparr>gv_balance := b\<rparr>"
proof -
  from assms obtain now tab where t: "upsert_stock ''inventory_balance'' (\<lambda>_. True) (w, item) delta now
      (inventory_balance (w_db s)) = Inr tab" and d: "w_db s' = (w_db s)\<lparr>inventory_balance := tab\<rparr>"
    unfolding pgr_apply_def by (rule sql_table_Inr) (auto simp: no_value_Inr)
  from upsert_stock_add [OF t] show ?thesis
    by (simp add: pg_rv_view_eq rv_db_def outbox_of_def balance_of_def rv_keys_of_def [abs_def]
        receiving_of_def [abs_def] d)
qed

lemma pgr_append_ok:
  assumes "well_formed e" and "pgr_append e s = (Inr u, s')"
  shows "pg_rv_view s' = (pg_rv_view s)\<lparr>gv_outbox := gv_outbox (pg_rv_view s) @ [e]\<rparr>"
proof -
  from assms have "insert_outbox e s = (Inr u, s')"
    by (auto simp: pgr_append_def prog_iffs well_formed_marshal)
  then show ?thesis
    by (rule insert_outbox_ok)
      (simp add: pg_rv_view_eq rv_db_def outbox_of_def balance_of_def rv_keys_of_def [abs_def]
        receiving_of_def [abs_def])
qed

lemma pgr_save_command_ok:
  assumes "pgr_save_command k r s = (Inr u, s')"
  shows "pg_rv_view s' = (pg_rv_view s)\<lparr>gv_keys := (gv_keys (pg_rv_view s))(k \<mapsto> r)\<rparr>"
proof -
  from assms obtain t where t: "rs_result r = Some t" and ins: "sql (on_table receiving_command_status
       (\<lambda>x d. d\<lparr>receiving_command_status := x\<rparr>) (\<lambda>now tab.
       no_value (insert_command ''receiving_command_status'' (rs_id r)
         \<lparr>cr_key = k, cr_type = rs_type r, cr_scope = rs_status r, cr_warehouse = rs_warehouse r,
          cr_operator = rs_operator r, cr_result = t\<rparr> tab))) s = (Inr u, s')"
    by (auto simp: pgr_save_command_def split: option.splits)
  from ins obtain tab' where tab: "insert_command ''receiving_command_status'' (rs_id r)
         \<lparr>cr_key = k, cr_type = rs_type r, cr_scope = rs_status r, cr_warehouse = rs_warehouse r,
          cr_operator = rs_operator r, cr_result = t\<rparr> (receiving_command_status (w_db s)) = Inr tab'"
    and db: "w_db s' = (w_db s)\<lparr>receiving_command_status := tab'\<rparr>"
    by (rule sql_table_Inr) (auto simp: no_value_Inr)
  have "\<lparr>rs_id = rs_id r, rs_type = rs_type r, rs_status = rs_status r, rs_warehouse = rs_warehouse r,
      rs_operator = rs_operator r, rs_result = Some t\<rparr> = r" using t by simp
  then show ?thesis
    by (simp add: pg_rv_view_eq rv_db_def outbox_of_def balance_of_def rv_keys_of_def receiving_of_def [abs_def]
        rv_status_of_def db insert_command_key [OF tab] fun_eq_iff)
qed

lemmas pgr_tx_ok = with_tx_view_ok [where g = rv_db, folded pg_rv_view_def]

lemmas pgr_tx_fail = with_tx_view_fail [where g = rv_db, folded pg_rv_view_def]

interpretation pgr: receiving_store pg_rv_ports pg_rv_view
  by (unfold_locales, unfold pg_rv_ports_sel pgr_within_tx_def)
    ((rule frame_pgr_reads frame_pgr_env frame_pgr_audit pgr_find_ok pgr_get_ok pgr_save_ok
        pgr_apply_ok pgr_append_ok pgr_save_command_ok pgr_tx_ok pgr_tx_fail; assumption?)+)

end
