(* ===== verification/Receiving_Properties.thy ===== *)
theory Receiving_Properties
  imports Pg_Receiving_Store Exec_Properties
begin

text \<open>
  The receiving service on the PostgreSQL store: receipts against balances over any sequence of
  commands and faults, what a confirmation does, completed tasks, and the trail of refusals.
\<close>

section \<open>Sequences of calls\<close>

datatype rv_call =
    ClaimReceiving rv_command | StartReceiving rv_command
  | ConfirmReceiving rv_confirm | CompleteReceiving rv_command

fun run_rv :: "'s rv_ports \<Rightarrow> rv_call \<Rightarrow> 's \<Rightarrow> receiving reply \<times> 's" where
  "run_rv P (ClaimReceiving c) = claim_receiving P c"
| "run_rv P (StartReceiving c) = start_receiving P c"
| "run_rv P (ConfirmReceiving c) = confirm_receiving P c"
| "run_rv P (CompleteReceiving c) = complete_receiving P c"

fun run_rvs :: "'s rv_ports \<Rightarrow> rv_call list \<Rightarrow> 's \<Rightarrow> 's" where
  "run_rvs P [] s = s"
| "run_rvs P (c # cs) s = run_rvs P cs (snd (run_rv P c s))"

context receiving_store
begin

lemma rv_mutate_view:
  assumes "rv_mutate P c et ct (rv_timed P f) s = (rep, s')" and "works f"
  shows "view s' = view s \<or> (\<exists>t x. rv_effect c et ct f (view s) t x (view s'))"
  using rv_mutate_cases [OF assms] by blast

lemma run_rv_steps:
  assumes "run_rv P c s = (rep, s')"
  shows "rv_step\<^sup>*\<^sup>* (view s) (view s')"
proof -
  have "view s' = view s \<or> rv_step (view s) (view s')"
  proof (cases c)
    case (ClaimReceiving x)
    with assms show ?thesis
      using rv_mutate_view [OF _ works_plain(1)] by (fastforce simp: claim_receiving_def intro: rv_step.intros)
  next
    case (StartReceiving x)
    with assms show ?thesis
      using rv_mutate_view [OF _ works_plain(2)] by (fastforce simp: start_receiving_def intro: rv_step.intros)
  next
    case (ConfirmReceiving x)
    with assms show ?thesis
      using rv_mutate_view [OF _ works_confirm] by (fastforce simp: confirm_receiving_def intro: rv_step.intros)
  next
    case (CompleteReceiving x)
    with assms show ?thesis
      using rv_mutate_view [OF _ works_plain(3)] by (fastforce simp: complete_receiving_def intro: rv_step.intros)
  qed
  then show ?thesis by auto
qed

lemma run_rvs_steps: "rv_step\<^sup>*\<^sup>* (view s) (view (run_rvs P cs s))"
proof (induction cs arbitrary: s)
  case (Cons c cs)
  obtain rep s1 where run: "run_rv P c s = (rep, s1)" by fastforce
  from rtranclp_trans [OF run_rv_steps [OF run] Cons.IH] run show ?case by simp
qed simp

end

lemma finite_rv_tasks: "finite (dom (gv_tasks (rv_db d)))"
proof -
  have "dom (gv_tasks (rv_db d)) = fst ` set (receiving_task d)"
    by (auto simp: rv_db_def receiving_of_def dom_map_of_conv_image_fst [symmetric])
  then show ?thesis by simp
qed

section \<open>Properties\<close>

text \<open>C9: Receipts are on the books. Over any sequence of receiving commands and any database
  faults, the balance of every item changes by exactly what the lines of the tasks record as
  received: the part of a balance that the lines do not explain stays what it was. The
  quantities received never become negative, so they never wrapped.\<close>

theorem receipts_on_the_books:
  assumes "rv_inv (rv_db (w_db s))"
  shows "unexplained (rv_db (w_db (run_rvs pg_rv_ports cs s))) k = unexplained (rv_db (w_db s)) k
    \<and> rv_inv (rv_db (w_db (run_rvs pg_rv_ports cs s)))"
  using rv_history_unexplained [OF pgr.run_rvs_steps [of s cs], of k] assms finite_rv_tasks
  by (simp add: pg_rv_view_eq)

text \<open>A completed receipt is closed. After any further commands a completed receiving task is
  still completed, with the same quantities on every line.\<close>

theorem completed_receipt_closed:
  assumes "rv_inv (rv_db (w_db s))" and "receiving_of (w_db s) i = Some t" and "rv_status t = RvCompleted"
  shows "\<exists>t'. receiving_of (w_db (run_rvs pg_rv_ports cs s)) i = Some t'
    \<and> rv_status t' = RvCompleted \<and> rv_lines t' = rv_lines t"
  using rv_history_completed [OF pgr.run_rvs_steps [of s cs], of i t] assms
  by (simp add: pg_rv_view_eq rv_db_def)

text \<open>A confirmed receipt. When a confirmation answers with a value on a fresh key, its version
  is the stored one and its operator holds the task; exactly one line, the one named, with the
  barcode scanned, grows by the confirmed positive quantity, which stays within what is still
  expected unless the task allows over-receipt; the balance of its item grows by the same
  quantity and no other balance changes; one event is appended to the outbox.\<close>

theorem confirmed_receipt:
  assumes "run_rv pg_rv_ports (ConfirmReceiving c) s = (rep, s')" and "reply_value rep = Some t'"
    and "rv_keys_of (w_db s) (rc_key c) = None" and "rv_inv (rv_db (w_db s))"
    and "receiving_of (w_db s) (rc_task c) = Some t"
    and "\<forall>l \<in> set (rv_lines t). 0 < sint (ln_expected l)"
  shows "rv_version t = rc_base_version c \<and> rv_operator t = Some (ac_operator (rc_actor c))
    \<and> (\<exists>ls1 l ls2. rv_lines t = ls1 @ l # ls2 \<and> ln_id l = rc_line c \<and> ln_barcode l = rc_barcode c
        \<and> 0 < sint (rc_quantity c)
        \<and> (po_over_receipt (rv_policy t) \<or> sint (ln_received l) + sint (rc_quantity c) \<le> sint (ln_expected l))
        \<and> receiving_of (w_db s') (rc_task c) = Some t' \<and> rv_version t' = rv_version t + 1
        \<and> rv_status t' = RvPartiallyCompleted
        \<and> rv_lines t' = ls1 @ l\<lparr>ln_received := ln_received l + rc_quantity c\<rparr> # ls2
        \<and> (\<forall>k. stock_at (balance_of (w_db s')) k = stock_at (balance_of (w_db s)) k
             + (if k = (rv_warehouse t, ln_item l) then sint (rc_quantity c) else 0)))
    \<and> (\<exists>e. outbox_of (w_db s') = outbox_of (w_db s) @ [e] \<and> ev_agg_id e = rc_task c)"
proof -
  from assms(1) have run: "rv_mutate pg_rv_ports c ''ReceivingQuantityConfirmed'' ''CONFIRM_QUANTITY''
      (rv_timed pg_rv_ports (confirm_delta c)) s = (rep, s')" by (simp add: confirm_receiving_def)
  from pgr.rv_mutate_cases [OF run pgr.works_confirm] assms(2) obtain x where
    "rv_effect c ''ReceivingQuantityConfirmed'' ''CONFIRM_QUANTITY'' (confirm_delta c) (pg_rv_view s) t' x (pg_rv_view s')"
    by auto
  then show ?thesis
  proof cases
    case replayed
    with assms(3) show ?thesis by (simp add: pg_rv_view_eq rv_db_def)
  next
    case (changed t0 now item d e eid ts b)
    from changed(4) assms(5) have t0: "t0 = t" by (simp add: pg_rv_view_eq rv_db_def)
    with changed(6) have conf: "confirm_delta c now t = Inr (t', item, d)" by simp
    from assms(4,5) have inv: "rv_id t = rc_task c" "distinct (map ln_id (rv_lines t))" "rv_rows_ok t"
      by (auto simp: rv_inv_def rv_db_def)
    have db: "receiving_of (w_db s') (rc_task c) = Some t'" "outbox_of (w_db s') = outbox_of (w_db s) @ [e]"
      "balance_of (w_db s') = b" "balance_after t' item d (balance_of (w_db s)) = Some b"
      using changed by (auto simp: pg_rv_view_eq rv_db_def dest: fun_cong [where x = "rc_task c"])
    show ?thesis
      using conf inv(2)
    proof (rule confirm_delta_ok)
      fix ls1 l ls2 assume ls: "rv_lines t = ls1 @ l # ls2"
          "rv_lines t' = ls1 @ l\<lparr>ln_received := ln_received l + d\<rparr> # ls2" "ln_id l = rc_line c"
          "item = ln_item l" "ln_barcode l = rc_barcode c"
        and d: "d = rc_quantity c" "0 < sint d"
        and over: "po_over_receipt (rv_policy t) \<or> sint d \<le> sint (ln_expected l - ln_received l)"
        and w: "rv_work t t'" and v: "rv_version t' = rv_version t + 1" "rv_version t = rc_base_version c"
          "rv_operator t = Some (ac_operator (rc_actor c))" "rv_status t' = RvPartiallyCompleted"
      have r: "0 \<le> sint (ln_received l)" using inv(3) ls(1) by (simp add: rv_rows_ok_def)
      have left: "sint (ln_expected l - ln_received l) = sint (ln_expected l) - sint (ln_received l)"
        using r assms(6) ls(1) sint_int64_bounds [of "ln_expected l"] sint_int64_bounds [of "ln_received l"]
        by (intro sint_minus_int64) (simp add: in_int64_def min_int64_def max_int64_def)
      have stock: "stock_at (balance_of (w_db s')) k = stock_at (balance_of (w_db s)) k
             + (if k = (rv_warehouse t, ln_item l) then sint (rc_quantity c) else 0)" for k
        using db(3,4) d ls(4) rv_work_sel(2) [OF w] add_stock_at [where j = k]
        by (auto simp: balance_after_def i64_less_def)
      have ev: "ev_agg_id e = rc_task c" using changed rv_work_sel(1) [OF w] inv(1) by (simp add: rv_event_def)
      have "po_over_receipt (rv_policy t) \<or> sint (ln_received l) + sint (rc_quantity c) \<le> sint (ln_expected l)"
        using over d(1) left by auto
      then have "\<exists>ls1 l ls2. rv_lines t = ls1 @ l # ls2 \<and> ln_id l = rc_line c \<and> ln_barcode l = rc_barcode c
        \<and> 0 < sint (rc_quantity c)
        \<and> (po_over_receipt (rv_policy t) \<or> sint (ln_received l) + sint (rc_quantity c) \<le> sint (ln_expected l))
        \<and> receiving_of (w_db s') (rc_task c) = Some t' \<and> rv_version t' = rv_version t + 1
        \<and> rv_status t' = RvPartiallyCompleted
        \<and> rv_lines t' = ls1 @ l\<lparr>ln_received := ln_received l + rc_quantity c\<rparr> # ls2
        \<and> (\<forall>k. stock_at (balance_of (w_db s')) k = stock_at (balance_of (w_db s)) k
             + (if k = (rv_warehouse t, ln_item l) then sint (rc_quantity c) else 0))"
        using ls d db(1) v stock by (intro exI [of _ ls1] exI [of _ l] exI [of _ ls2]) simp
      with v db(2) ev show ?thesis by blast
    qed
  qed
qed

lemma mutate_refusal_audited:
  assumes "rv_mutate pg_rv_ports c et ct (rv_timed pg_rv_ports f) s = (Failed (DomainError code m r), s')"
  shows "\<exists>tab i row. audit_record (w_db s') = tab @ [(i, row)] \<and> au_action row = et
    \<and> au_outcome row = ''DENIED'' \<and> au_aggregate row = rc_task c
    \<and> au_operator row = ac_operator (rc_actor c) \<and> au_details row = JObj [(''errorCode'', JStr code)]"
proof -
  have audit_error: "insert_audit i a oc g ac j x \<noteq> (Inl (DomainError c' m' r'), y)" for i a oc g ac j x c' m' r' y
    by (auto simp: insert_audit_def sql_def on_table_def no_value_def insert_at_def map_sum_def violates_def
        Let_def split: if_splits fault.splits sum.splits prod.splits)
  obtain y s1 where tx: "pgr_within_tx (rv_mutate_tx pg_rv_ports c et ct (rv_timed pg_rv_ports f)) s = (y, s1)"
    by fastforce
  from assms tx obtain e where y: "y = Inl e"
    by (cases y) (auto simp: rv_mutate_def Let_def split: prod.splits option.splits sum.splits)
  obtain z s2 where den: "pgr_denied et (rc_task c) (rc_actor c) (denied_code e) s1 = (z, s2)" by fastforce
  from den audit_error have z: "z \<noteq> Inl (DomainError code m r)"
    by (auto simp: pgr_denied_def bindP_run new_uuid_def)
  from assms tx y den z obtain u where zu: "z = Inr u" and e: "e = DomainError code m r" and s': "s' = s2"
    by (auto simp: rv_mutate_def split: sum.splits)
  from den zu e obtain i s3 where
    "insert_audit i et ''DENIED'' (rc_task c) (rc_actor c) (JObj [(''errorCode'', JStr code)]) s3 = (Inr u, s2)"
    by (auto simp: pgr_denied_def prog_iffs denied_code_def)
  then show ?thesis
    unfolding insert_audit_def by (rule sql_table_Inr) (auto simp: no_value_Inr insert_at_Inr s')
qed

fun rv_call_event :: "rv_call \<Rightarrow> string" where
  "rv_call_event (ClaimReceiving c) = ''ReceivingTaskClaimed''"
| "rv_call_event (StartReceiving c) = ''ReceivingTaskStarted''"
| "rv_call_event (ConfirmReceiving c) = ''ReceivingQuantityConfirmed''"
| "rv_call_event (CompleteReceiving c) = ''ReceivingTaskCompleted''"

fun rv_call_task :: "rv_call \<Rightarrow> string" where
  "rv_call_task (ConfirmReceiving c) = rc_task c"
| "rv_call_task (ClaimReceiving c) = rc_task c"
| "rv_call_task (StartReceiving c) = rc_task c"
| "rv_call_task (CompleteReceiving c) = rc_task c"

fun rv_call_actor :: "rv_call \<Rightarrow> actor" where
  "rv_call_actor (ConfirmReceiving c) = rc_actor c"
| "rv_call_actor (ClaimReceiving c) = rc_actor c"
| "rv_call_actor (StartReceiving c) = rc_actor c"
| "rv_call_actor (CompleteReceiving c) = rc_actor c"

text \<open>Every refusal leaves a trace. When a receiving command is answered with a domain error
  alone, the last record of the audit trail says that the action was denied to that operator
  on that task, with that error code.\<close>

theorem refusal_audited:
  assumes "run_rv pg_rv_ports x s = (Failed (DomainError code m r), s')"
  shows "\<exists>tab i row. audit_record (w_db s') = tab @ [(i, row)] \<and> au_action row = rv_call_event x
    \<and> au_outcome row = ''DENIED'' \<and> au_aggregate row = rv_call_task x
    \<and> au_operator row = ac_operator (rv_call_actor x) \<and> au_details row = JObj [(''errorCode'', JStr code)]"
  using assms
  by (cases x) (auto simp: claim_receiving_def start_receiving_def confirm_receiving_def
      complete_receiving_def dest: mutate_refusal_audited)

section \<open>Sample runs\<close>

definition ex_rv_row :: receiving_row where
  "ex_rv_row = \<lparr>rt_po = ''PO-1'', rt_status = ''IN_PROGRESS'', rt_warehouse = ''WH-01'', rt_operator = Some ''A'',
     rt_version = 2, rt_over_receipt = False, rt_remark_on_variance = False, rt_updated = 0\<rparr>"

definition ex_rv_line :: "string \<Rightarrow> string \<Rightarrow> receiving_line_row" where
  "ex_rv_line item barcode = \<lparr>rlr_task = ''R1'', rlr_item = item, rlr_item_name = item, rlr_barcode = barcode,
     rlr_expected = 10, rlr_received = 0\<rparr>"

definition ex_rv_world :: "string \<Rightarrow> world" where
  "ex_rv_world status = ex_world (empty_tables\<lparr>receiving_task := [(''R1'', ex_rv_row\<lparr>rt_status := status\<rparr>)],
     receiving_line := [(''L2'', ex_rv_line ''I2'' ''B2''), (''L1'', ex_rv_line ''I1'' ''B1'')]\<rparr>)"

definition ex_rv_command :: "string \<Rightarrow> string \<Rightarrow> int64 \<Rightarrow> rv_command" where
  "ex_rv_command p k v = \<lparr>rc_id = 7, rc_key = k, rc_task = ''R1'', rc_base_version = v, rc_actor = ex_actor p\<rparr>"

definition ex_rv_confirm :: "string \<Rightarrow> string \<Rightarrow> int64 \<Rightarrow> int64 \<Rightarrow> rv_confirm" where
  "ex_rv_confirm p k v q = \<lparr>rc_id = 7, rc_key = k, rc_task = ''R1'', rc_base_version = v, rc_actor = ex_actor p,
     rc_line = ''L1'', rc_barcode = ''B1'', rc_quantity = q, rc_condition = '''', rc_remark = None, rc_scanned = None\<rparr>"

definition ex_receipt :: "receiving reply \<times> world" where
  "ex_receipt = run_rv pg_rv_ports (ConfirmReceiving (ex_rv_confirm ''A'' ''k'' 2 4)) (ex_rv_world ''IN_PROGRESS'')"

lemma ex_rv_inv: "rv_inv (rv_db (w_db (ex_rv_world st)))"
  by (auto simp: rv_inv_def rv_db_def receiving_of_def ex_rv_world_def ex_world_def empty_tables_def
      scan_receiving_def lines_of_ids distinct_child_keys rv_rows_ok_def lines_of_def children_def child_keys_def
      scan_line_def ex_rv_line_def split: if_splits)

lemma ex_receipt_run:
  "reply_value (fst ex_receipt) = Some (the (reply_value (fst ex_receipt)))"
  "rv_keys_of (w_db (ex_rv_world ''IN_PROGRESS'')) ''k'' = None"
  "receiving_of (w_db (ex_rv_world ''IN_PROGRESS'')) ''R1''
     = Some (the (receiving_of (w_db (ex_rv_world ''IN_PROGRESS'')) ''R1''))"
  "list_all (\<lambda>l. 0 < sint (ln_expected l)) (rv_lines (the (receiving_of (w_db (ex_rv_world ''IN_PROGRESS'')) ''R1'')))"
  "receiving_of (w_db (ex_rv_world ''COMPLETED'')) ''R1''
     = Some (the (receiving_of (w_db (ex_rv_world ''COMPLETED'')) ''R1''))"
  "rv_status (the (receiving_of (w_db (ex_rv_world ''COMPLETED'')) ''R1'')) = RvCompleted"
  "fst (run_rv pg_rv_ports (StartReceiving (ex_rv_command ''B'' ''k'' 2)) (ex_rv_world ''IN_PROGRESS''))
     = Failed ErrRvNotAssigned"
  by code_simp+

theorem receipts_on_the_books_witness:
  "unexplained (rv_db (w_db (run_rvs pg_rv_ports [ConfirmReceiving (ex_rv_confirm ''A'' ''k'' 2 4)]
     (ex_rv_world ''IN_PROGRESS'')))) (''WH-01'', ''I1'') = unexplained (rv_db (w_db (ex_rv_world ''IN_PROGRESS''))) (''WH-01'', ''I1'')"
  using receipts_on_the_books [OF ex_rv_inv] by blast

theorem completed_receipt_closed_witness:
  "\<exists>t'. receiving_of (w_db (run_rvs pg_rv_ports [ConfirmReceiving (ex_rv_confirm ''A'' ''k'' 2 4)]
     (ex_rv_world ''COMPLETED''))) ''R1'' = Some t' \<and> rv_status t' = RvCompleted"
  using completed_receipt_closed [OF ex_rv_inv ex_receipt_run(5,6)] by blast

theorem confirmed_receipt_witness:
  "\<exists>t'. receiving_of (w_db (snd ex_receipt)) ''R1'' = Some t' \<and> rv_status t' = RvPartiallyCompleted"
proof -
  let ?t = "the (receiving_of (w_db (ex_rv_world ''IN_PROGRESS'')) ''R1'')"
  have run: "run_rv pg_rv_ports (ConfirmReceiving (ex_rv_confirm ''A'' ''k'' 2 4)) (ex_rv_world ''IN_PROGRESS'')
      = (fst ex_receipt, snd ex_receipt)" by (simp add: ex_receipt_def)
  have c: "rc_key (ex_rv_confirm ''A'' ''k'' 2 4) = ''k''" "rc_task (ex_rv_confirm ''A'' ''k'' 2 4) = ''R1''"
    by (simp_all add: ex_rv_confirm_def)
  have "\<forall>l \<in> set (rv_lines ?t). 0 < sint (ln_expected l)" using ex_receipt_run(4) by (simp add: list_all_iff)
  with confirmed_receipt [OF run ex_receipt_run(1) _ ex_rv_inv, unfolded c, OF ex_receipt_run(2,3)]
  show ?thesis by blast
qed

theorem refusal_audited_witness:
  "\<exists>tab i row. audit_record (w_db (snd (run_rv pg_rv_ports (StartReceiving (ex_rv_command ''B'' ''k'' 2))
      (ex_rv_world ''IN_PROGRESS'')))) = tab @ [(i, row)] \<and> au_outcome row = ''DENIED''"
proof -
  let ?r = "run_rv pg_rv_ports (StartReceiving (ex_rv_command ''B'' ''k'' 2)) (ex_rv_world ''IN_PROGRESS'')"
  have "?r = (Failed (DomainError ''TASK_NOT_ASSIGNED'' ''Receiving task is not assigned to this operator'' False), snd ?r)"
    by (rule prod_eqI) (simp_all only: ex_receipt_run(7) ErrRvNotAssigned_def fst_conv snd_conv)
  from refusal_audited [OF this] show ?thesis by blast
qed

section \<open>Behaviour worth knowing\<close>

text \<open>A used key is replayed without comparing operator, warehouse or task.\<close>

lemma used_key_is_replayed_to_anyone:
  "reply_value (fst (run_rv pg_rv_ports (StartReceiving (ex_rv_command ''B'' ''k'' 2)) (snd ex_receipt)))
   = reply_value (fst ex_receipt)"
  by code_simp

end
