(* ===== verification/Movement_Contract.thy ===== *)
theory Movement_Contract
  imports Movement_Service Stock
begin

text \<open>
  The contract of a movement store, and what a movement command does to tasks, stock, outbox
  and idempotency records when it takes effect.
\<close>

section \<open>Actions\<close>

text \<open>The transitions of the services, with the quantity each moves; \<open>x\<close> is the command.\<close>

inductive mv_action :: "mv_command \<Rightarrow> (time \<Rightarrow> movement \<Rightarrow> err + movement) \<Rightarrow> int64 \<Rightarrow> bool"
  for x :: mv_command where
  "mv_action x (mv_claim (mc_op x) (mc_base x)) 0"
| "mv_action x (mv_start (mc_op x) (mc_base x)) 0"
| "mv_action x (validate_source (mc_op x) v (mc_base x)) 0"
| "mv_action x (validate_destination (mc_op x) v (mc_base x)) 0"
| "mv_action x (validate_item (mc_op x) v (mc_base x)) 0"
| "mv_action x (validate_lot (mc_op x) v (mc_base x)) 0"
| "mv_action x (move (mc_op x) q (mc_base x)) q"
| "mv_action x group_complete 0"
| "mv_action x (picking_complete (mc_op x) (mc_base x)) 0"

text \<open>Nothing is moved before the locations, and the item where the workflow asks for it,
  have been validated.\<close>

definition mv_ok :: "movement \<Rightarrow> bool" where
  "mv_ok t \<longleftrightarrow> mv_quantities t \<and>
     (mv_done t \<noteq> 0 \<longrightarrow> mv_source_ok t \<and> mv_dest_ok t \<and> (mv_workflow t \<noteq> Picking \<longrightarrow> mv_item_ok t))"

definition moved :: "int64 \<Rightarrow> int" where
  "moved q = (if 0 < sint q then sint q else 0)"

lemma moved_zero [simp]: "moved 0 = 0"
  by (simp add: moved_def)

lemma touch_sel [simp]:
  "mv_done (touch now t) = mv_done t" "mv_required (touch now t) = mv_required t"
  "mv_source_ok (touch now t) = mv_source_ok t" "mv_dest_ok (touch now t) = mv_dest_ok t"
  "mv_item_ok (touch now t) = mv_item_ok t" "mv_workflow (touch now t) = mv_workflow t"
  "mv_version (touch now t) = mv_version t + 1" "mv_frame (touch now t) = mv_frame t"
  by (simp_all add: touch_def mv_frame_def)

lemma mv_frame_upd [simp]:
  "mv_frame (t\<lparr>mv_operator := p\<rparr>) = mv_frame t" "mv_frame (t\<lparr>mv_status := st\<rparr>) = mv_frame t"
  "mv_frame (t\<lparr>mv_source_ok := b\<rparr>) = mv_frame t" "mv_frame (t\<lparr>mv_dest_ok := b\<rparr>) = mv_frame t"
  "mv_frame (t\<lparr>mv_item_ok := b\<rparr>) = mv_frame t" "mv_frame (t\<lparr>mv_lot_ok := b\<rparr>) = mv_frame t"
  by (simp_all add: mv_frame_def)

lemma action_ok:
  assumes "mv_action x f q" and "f now t = Inr t'" and "mv_ok t"
  shows "mv_ok t' \<and> mv_work t t' \<and> (t' = t \<or> mv_version t' = mv_version t + 1)
    \<and> sint (mv_done t') = sint (mv_done t) + moved q"
  using assms(1)
proof cases
  case 7
  with assms(2) have mv: "move (mc_op x) q (mc_base x) now t = Inr t'" by simp
  have "mv_quantities t" using assms(3) by (simp add: mv_ok_def)
  note m = move_ok [OF mv this]
  from m assms(3) mv_work_sel(2) [OF m(1)] show ?thesis
    by (auto simp: mv_ok_def moved_def validated_def)
qed (use assms(2,3) in \<open>auto simp: mv_claim_def mv_start_def validate_source_def
    validate_destination_def validate_item_def validate_lot_def guarded_Inr group_complete_def
    picking_complete_def mv_ok_def mv_work_def mv_quantities_def split: if_splits sum.splits\<close>)

type_synonym stock = "string \<times> string \<times> string \<Rightarrow> int64 option"

section \<open>The contract\<close>

record mv_view =
  vv_tasks :: "string \<rightharpoonup> movement"
  vv_keys :: "string \<rightharpoonup> mv_command_result"
  vv_outbox :: "envelope list"
  vv_stock :: stock

text \<open>The lot flag is not a column: a store keeps the one it loaded.\<close>

definition persisted :: "movement \<Rightarrow> movement \<Rightarrow> movement" where
  "persisted t0 t = t\<lparr>mv_lot_ok := mv_lot_ok t0\<rparr>"

definition place :: "movement \<Rightarrow> string \<Rightarrow> string \<times> string \<times> string" where
  "place t l = (mv_warehouse t, l, mv_item t)"

definition stock_after :: "movement \<Rightarrow> int64 \<Rightarrow> stock \<Rightarrow> stock option" where
  "stock_after t q st =
     (if i64_less 0 q then move_stock st (place t (mv_source t)) (place t (mv_dest t)) q else Some st)"

definition mv_result :: "string \<Rightarrow> mv_command \<Rightarrow> movement \<Rightarrow> mv_command_result" where
  "mv_result w c t = \<lparr>mr_id = mc_id c, mr_workflow = w, mr_warehouse = ac_warehouse (mc_actor c),
     mr_operator = ac_operator (mc_actor c), mr_result = Some t\<rparr>"

inductive mv_effect ::
    "string \<Rightarrow> mv_command \<Rightarrow> string \<Rightarrow> (time \<Rightarrow> movement \<Rightarrow> err + movement) \<Rightarrow> int64
     \<Rightarrow> mv_view \<Rightarrow> movement \<Rightarrow> envelope option \<Rightarrow> mv_view \<Rightarrow> bool"
  for w :: string and c :: mv_command and et :: string
    and f :: "time \<Rightarrow> movement \<Rightarrow> err + movement" and q :: int64 where
  replayed: "vv_keys v (mc_key c) = Some r \<Longrightarrow> mr_workflow r = w \<Longrightarrow>
    mr_warehouse r = ac_warehouse (mc_actor c) \<Longrightarrow> mr_operator r = ac_operator (mc_actor c) \<Longrightarrow>
    mr_result r = Some t \<Longrightarrow> mv_id t = mc_task c \<Longrightarrow> mv_effect w c et f q v t None v"
| changed: "vv_keys v (mc_key c) = None \<Longrightarrow> vv_tasks v (mc_task c) = Some t \<Longrightarrow>
    mv_workflow t = w \<Longrightarrow> mv_warehouse t = ac_warehouse (mc_actor c) \<Longrightarrow> f now t = Inr t' \<Longrightarrow>
    e = mv_event w c et eid ts t' (mv_payload t' q) \<Longrightarrow> well_formed e \<Longrightarrow>
    stock_after t' q (vv_stock v) = Some st \<Longrightarrow>
    mv_effect w c et f q v t' (Some e)
      \<lparr>vv_tasks = (vv_tasks v)(mc_task c \<mapsto> persisted t t'),
       vv_keys = (vv_keys v)(mc_key c \<mapsto> mv_result w c t'),
       vv_outbox = vv_outbox v @ [e], vv_stock = st\<rparr>"

locale movement_store =
  fixes P :: "'s mv_ports" and view :: "'s \<Rightarrow> mv_view"
  assumes frame_find: "frame view (mp_find P k)"
    and frame_get: "frame view (mp_get_for_update P i)"
    and frame_check: "frame view (mp_check_move P t q)"
    and frame_audit: "frame view (mp_audit P a t ac j)"
    and frame_now: "frame view (mp_now P)"
    and frame_uuid: "frame view (mp_new_uuid P)"
    and frame_publish: "frame view (mp_publish P e)"
    and frame_invalidate: "frame view (mp_invalidate P w p)"
    and find_ok: "mp_find P k s = (Inr found, s') \<Longrightarrow> vv_keys (view s) k = found"
    and get_ok: "mp_get_for_update P i s = (Inr t, s') \<Longrightarrow> vv_tasks (view s) i = Some t \<and> mv_id t = i"
    and save_ok: "mp_save P t s = (Inr u, s') \<Longrightarrow> vv_tasks (view s) (mv_id t) = Some t0 \<Longrightarrow>
      mv_work t0 t \<Longrightarrow>
      view s' = (view s)\<lparr>vv_tasks := (vv_tasks (view s))(mv_id t \<mapsto> persisted t0 t)\<rparr>"
    and apply_ok: "mp_apply_move P t q s = (Inr u, s') \<Longrightarrow>
      \<exists>st. move_stock (vv_stock (view s)) (place t (mv_source t)) (place t (mv_dest t)) q = Some st
        \<and> view s' = (view s)\<lparr>vv_stock := st\<rparr>"
    and append_ok: "well_formed e \<Longrightarrow> mp_append P e s = (Inr u, s') \<Longrightarrow>
      view s' = (view s)\<lparr>vv_outbox := vv_outbox (view s) @ [e]\<rparr>"
    and save_command_ok: "mp_save_command P k r s = (Inr u, s') \<Longrightarrow>
      view s' = (view s)\<lparr>vv_keys := (vv_keys (view s))(k \<mapsto> r)\<rparr>"
    and tx_ok: "mp_within_tx P m s = (Inr y, s') \<Longrightarrow>
      \<exists>s1 s2. view s1 = view s \<and> m s1 = (Inr y, s2) \<and> view s' = view s2"
    and tx_fail: "mp_within_tx P m s = (Inl er, s') \<Longrightarrow> view s' = view s \<or>
      (\<exists>y s1 s2. view s1 = view s \<and> m s1 = (Inr y, s2) \<and> view s' = view s2)"
begin

text \<open>A transition program runs \<open>f\<close> at some reading of the clock.\<close>

definition runs ::
    "(movement \<Rightarrow> ('s, movement) prog) \<Rightarrow> (time \<Rightarrow> movement \<Rightarrow> err + movement) \<Rightarrow> bool" where
  "runs tr f \<longleftrightarrow> (\<forall>t s t' s'. tr t s = (Inr t', s') \<longrightarrow> (\<exists>now. f now t = Inr t') \<and> view s' = view s)"

lemma runs_timed: "runs (mv_timed P f) f"
  unfolding runs_def mv_timed_def by (auto simp: prog_iffs dest: frameD [OF frame_now])

lemma runs_late: "runs (late P f) f"
  unfolding runs_def late_def
  by (auto simp: prog_iffs split: sum.splits dest: frameD [OF frame_now])

definition keeps_work :: "(time \<Rightarrow> movement \<Rightarrow> err + movement) \<Rightarrow> bool" where
  "keeps_work f \<longleftrightarrow> (\<forall>now t t'. f now t = Inr t' \<longrightarrow> mv_work t t')"

lemma mv_record_effect:
  assumes run: "mv_record P w c et q t' s = (Inr (r, x), s')"
    and key: "vv_keys (view s) (mc_key c) = None" and task: "vv_tasks (view s) (mc_task c) = Some t"
    and "mv_workflow t = w" "mv_warehouse t = ac_warehouse (mc_actor c)" "mv_id t = mc_task c"
    and f: "f now t = Inr t'" and work: "mv_work t t'"
  shows "mv_effect w c et f q (view s) r x (view s')"
proof -
  from run obtain s1 s2 s3 s4 s5 s6 s7 eid ts e where
    chk: "(if i64_less 0 q then mp_check_move P t' q else returnP ()) s = (Inr (), s1)"
    and save: "mp_save P t' s1 = (Inr (), s2)"
    and app: "(if i64_less 0 q then mp_apply_move P t' q else returnP ()) s2 = (Inr (), s3)"
    and uuid: "mp_new_uuid P s3 = (Inr eid, s4)" and clock: "mp_now P s4 = (Inr ts, s5)"
    and e: "e = mv_event w c et eid ts t' (mv_payload t' q)" and valid: "validate e = Inr ()"
    and out: "mp_append P e s5 = (Inr (), s6)"
    and aud: "mp_audit P et t' (mc_actor c) (mv_payload t' q) s6 = (Inr (), s7)"
    and cmd: "mp_save_command P (mc_key c) (mv_result w c t') s7 = (Inr (), s')"
    and rx: "r = t'" "x = Some e"
    unfolding mv_record_def Let_def mv_result_def by (auto simp: prog_iffs simp del: if_split)
  have v1: "view s1 = view s" using chk frameD [OF frame_check] by (auto split: if_splits)
  have id: "mv_id t' = mc_task c" using mv_work_sel(1) [OF work] assms(6) by simp
  have v2: "view s2 = (view s)\<lparr>vv_tasks := (vv_tasks (view s))(mc_task c \<mapsto> persisted t t')\<rparr>"
    using save_ok [OF save, of t] v1 task work id by simp
  from app apply_ok [of t' q s2 "()" s3] v2 obtain st where
    st: "stock_after t' q (vv_stock (view s)) = Some st" and v3: "view s3 = (view s2)\<lparr>vv_stock := st\<rparr>"
    by (cases "i64_less 0 q") (auto simp: stock_after_def)
  have v5: "view s5 = view s3" using frameD [OF frame_now clock] frameD [OF frame_uuid uuid] by simp
  have "view s' = \<lparr>vv_tasks = (vv_tasks (view s))(mc_task c \<mapsto> persisted t t'),
      vv_keys = (vv_keys (view s))(mc_key c \<mapsto> mv_result w c t'),
      vv_outbox = vv_outbox (view s) @ [e], vv_stock = st\<rparr>"
    using save_command_ok [OF cmd] frameD [OF frame_audit aud] append_ok [OF _ out] valid v5 v3 v2
    by (simp add: validate_accepts)
  with assms e valid st rx show ?thesis by (auto intro!: mv_effect.changed simp: validate_accepts)
qed

lemma mv_replay_ok: "mv_replay w c prev s = (Inr (r, x), s') \<Longrightarrow>
    s' = s \<and> x = None \<and> mr_workflow prev = w \<and> mr_warehouse prev = ac_warehouse (mc_actor c)
    \<and> mr_operator prev = ac_operator (mc_actor c) \<and> mr_result prev = Some r \<and> mv_id r = mc_task c"
  by (auto simp: mv_replay_def split: if_splits option.splits)

lemma mv_mutate_tx_effect:
  assumes run: "mv_mutate_tx P w c et tr q s = (Inr (r, x), s')" and tr: "runs tr f" "keeps_work f"
  shows "mv_effect w c et f q (view s) r x (view s')"
proof -
  from run obtain found s1 where find: "mp_find P (mc_key c) s = (Inr found, s1)"
    unfolding mv_mutate_tx_def by (auto simp: prog_iffs)
  note v1 = frameD [OF frame_find find] and key = find_ok [OF find]
  show ?thesis
  proof (cases found)
    case (Some prev)
    with run find have "mv_replay w c prev s1 = (Inr (r, x), s')"
      unfolding mv_mutate_tx_def by (auto simp: bindP_run)
    from mv_replay_ok [OF this] v1 key Some show ?thesis by (auto intro: mv_effect.replayed)
  next
    case None
    with run find obtain t t' s2 s3 where get: "mp_get_for_update P (mc_task c) s1 = (Inr t, s2)"
      and wf: "mv_workflow t = w" "mv_warehouse t = ac_warehouse (mc_actor c)"
      and trans: "tr t s2 = (Inr t', s3)"
      and rest: "mv_record P w c et q t' s3 = (Inr (r, x), s')"
      unfolding mv_mutate_tx_def by (auto simp: prog_iffs)
    from tr(1) trans obtain now where f: "f now t = Inr t'" and "view s3 = view s2"
      unfolding runs_def by blast
    with frameD [OF frame_get get] v1 have v: "view s3 = view s" by simp
    from tr(2) f have work: "mv_work t t'" by (auto simp: keeps_work_def)
    from rest have "mv_effect w c et f q (view s3) r x (view s')"
      by (rule mv_record_effect) (use get_ok [OF get] key None v v1 wf f work in auto)
    with v show ?thesis by simp
  qed
qed

lemma mv_mutate_cases:
  assumes run: "mv_mutate P w c et tr q s = (rep, s')" and tr: "runs tr f" "keeps_work f"
  shows "(\<exists>t x. mv_effect w c et f q (view s) t x (view s') \<and> reply_value rep \<in> {None, Some t})
     \<or> view s' = view s \<and> reply_value rep = None"
proof -
  obtain y s1 where tx: "mp_within_tx P (mv_mutate_tx P w c et tr q) s = (y, s1)" by fastforce
  show ?thesis
  proof (cases y)
    case (Inl e)
    with run tx have rep: "rep = Failed e" "s' = s1" by (auto simp: mv_mutate_def)
    from tx_fail [OF tx [unfolded Inl]] show ?thesis
    proof (elim disjE exE conjE)
      fix z sa sb assume "view sa = view s" "mv_mutate_tx P w c et tr q sa = (Inr z, sb)" "view s1 = view sb"
      with mv_mutate_tx_effect [of w c et tr q sa "fst z" "snd z" sb f] tr rep show ?thesis by auto
    qed (use rep in simp)
  next
    case (Inr z)
    obtain t x where z: "z = (t, x)" by fastforce
    from tx_ok [OF tx [unfolded Inr]] z obtain sa sb where "view sa = view s" "view s1 = view sb"
      "mv_mutate_tx P w c et tr q sa = (Inr (t, x), sb)" by auto
    with mv_mutate_tx_effect [of w c et tr q sa t x sb f] tr
    have eff: "mv_effect w c et f q (view s) t x (view s1)" by simp
    obtain u s2 where invd: "mp_invalidate P (ac_warehouse (mc_actor c)) (ac_operator (mc_actor c)) s1 = (u, s2)"
      by fastforce
    have "view s' = view s1 \<and> reply_value rep = Some t"
      using run tx invd frameD [OF frame_invalidate invd] unfolding Inr z
      by (auto simp: mv_mutate_def Let_def split: option.splits prod.splits sum.splits
          dest: frameD [OF frame_publish])
    with eff show ?thesis by auto
  qed
qed

end

section \<open>Histories\<close>

inductive mv_step :: "mv_view \<Rightarrow> mv_view \<Rightarrow> bool" where
  acts: "mv_action x f q \<Longrightarrow> mv_effect w x et f q v t e v' \<Longrightarrow> mv_step v v'"

definition mv_inv :: "mv_view \<Rightarrow> bool" where
  "mv_inv v \<longleftrightarrow> (\<forall>i t. vv_tasks v i = Some t \<longrightarrow> mv_id t = i \<and> mv_ok t)
     \<and> (\<forall>k. 0 \<le> stock_at (vv_stock v) k)"

lemma persisted_sel [simp]:
  "mv_id (persisted t0 t) = mv_id t" "mv_done (persisted t0 t) = mv_done t"
  "place (persisted t0 t) = place t" "mv_source (persisted t0 t) = mv_source t"
  "mv_dest (persisted t0 t) = mv_dest t" "mv_ok (persisted t0 t) = mv_ok t"
  "mv_required (persisted t0 t) = mv_required t"
  by (simp_all add: persisted_def place_def mv_ok_def mv_quantities_def fun_eq_iff)

lemma stock_after_persisted [simp]: "stock_after (persisted t0 t) q st = stock_after t q st"
  by (simp add: stock_after_def)

lemma place_work: "mv_work t t' \<Longrightarrow> place t' = place t"
  by (auto simp: place_def mv_work_sel fun_eq_iff)

lemma stock_after_at: "stock_after t q st = Some st' \<Longrightarrow>
    stock_at st' k = stock_at st k - (if k = place t (mv_source t) then moved q else 0)
      + (if k = place t (mv_dest t) then moved q else 0)"
  by (auto simp: stock_after_def moved_def i64_less_def move_stock_at split: if_splits)

lemma stock_after_nonneg:
  assumes "stock_after t q st = Some st'" and "\<forall>k. 0 \<le> stock_at st k"
  shows "\<forall>k. 0 \<le> stock_at st' k"
proof (cases "i64_less 0 q")
  case True
  with assms(1) have "move_stock st (place t (mv_source t)) (place t (mv_dest t)) q = Some st'"
    by (simp add: stock_after_def)
  then show ?thesis
    by (rule move_stock_nonneg) (use True assms(2) in \<open>simp_all add: i64_less_def\<close>)
qed (use assms in \<open>simp add: stock_after_def\<close>)

lemma step_cases_mv:
  assumes "mv_step v v'" and "mv_inv v"
  obtains (same) "v' = v"
  | (changed) i t t' q where "vv_tasks v i = Some t" "vv_tasks v' = (vv_tasks v)(i \<mapsto> t')"
      "mv_work t t'" "mv_ok t'" "mv_id t' = i" "sint (mv_done t') = sint (mv_done t) + moved q"
      "stock_after t' q (vv_stock v) = Some (vv_stock v')"
  using assms(1)
proof cases
  case (acts x f q w et t e)
  from acts(2) show thesis
  proof (cases rule: mv_effect.cases)
    case replayed then show thesis by (intro same) simp
  next
    case (changed t0 now e' eid ts st)
    from changed assms(2) have ok: "mv_ok t0" and id: "mv_id t0 = mc_task x" by (auto simp: mv_inv_def)
    from changed have "f now t0 = Inr t" by simp
    from action_ok [OF acts(1) this ok] have a: "mv_ok t" "mv_work t0 t"
      "sint (mv_done t) = sint (mv_done t0) + moved q" by auto
    have w: "mv_work t0 (persisted t0 t)" using a(2) by (simp add: mv_work_def mv_frame_def persisted_def)
    have "stock_after (persisted t0 t) q (vv_stock v) = Some (vv_stock v')"
      using changed by simp
    with changed a w id mv_work_sel(1) [OF a(2)] show thesis
      by (intro that(2) [of "mc_task x" t0 "persisted t0 t" q]) simp_all
  qed
qed

lemma mv_step_inv: "mv_step v v' \<Longrightarrow> mv_inv v \<Longrightarrow> mv_inv v'"
  by (erule step_cases_mv, assumption)
    (auto simp: mv_inv_def dest: stock_after_nonneg)

text \<open>The ledger: stock at a place, plus what tasks took from it, minus what they brought.\<close>

definition taken :: "movement \<Rightarrow> string \<times> string \<times> string \<Rightarrow> int" where
  "taken t k = (if k = place t (mv_source t) then sint (mv_done t) else 0)
     - (if k = place t (mv_dest t) then sint (mv_done t) else 0)"

definition ledger :: "mv_view \<Rightarrow> string \<times> string \<times> string \<Rightarrow> int" where
  "ledger v k = stock_at (vv_stock v) k + (\<Sum>i\<in>dom (vv_tasks v). taken (the (vv_tasks v i)) k)"

lemma taken_work:
  assumes "mv_work t t'" and "sint (mv_done t') = sint (mv_done t) + d"
  shows "taken t' k = taken t k + (if k = place t' (mv_source t') then d else 0)
    - (if k = place t' (mv_dest t') then d else 0)"
  using assms by (auto simp: taken_def place_work mv_work_sel)

lemma mv_step_ledger:
  assumes "mv_step v v'" and inv: "mv_inv v" and fin: "finite (dom (vv_tasks v))"
  shows "ledger v' k = ledger v k \<and> dom (vv_tasks v') = dom (vv_tasks v)"
  using assms(1) inv
proof (cases rule: step_cases_mv)
  case (changed i t t' q)
  let ?D = "dom (vv_tasks v)"
  have i: "i \<in> ?D" and dom: "dom (vv_tasks v') = ?D" using changed(1,2) by auto
  have rest: "(\<Sum>j\<in>?D - {i}. taken (the (vv_tasks v' j)) k) = (\<Sum>j\<in>?D - {i}. taken (the (vv_tasks v j)) k)"
    by (rule sum.cong) (auto simp: changed(2))
  have "(\<Sum>j\<in>?D. taken (the (vv_tasks v' j)) k) = taken t' k + (\<Sum>j\<in>?D - {i}. taken (the (vv_tasks v j)) k)"
    using sum.remove [OF fin i, of "\<lambda>j. taken (the (vv_tasks v' j)) k"] rest changed(2) by simp
  moreover have "(\<Sum>j\<in>?D. taken (the (vv_tasks v j)) k) = taken t k + (\<Sum>j\<in>?D - {i}. taken (the (vv_tasks v j)) k)"
    using sum.remove [OF fin i, of "\<lambda>j. taken (the (vv_tasks v j)) k"] changed(1) by simp
  ultimately show ?thesis
    using taken_work [OF changed(3,6), of k] stock_after_at [OF changed(7), of k] dom
    by (simp add: ledger_def)
qed simp

lemma mv_history_ledger:
  assumes "mv_step\<^sup>*\<^sup>* v0 v" and "mv_inv v0" and "finite (dom (vv_tasks v0))"
  shows "mv_inv v \<and> ledger v k = ledger v0 k \<and> dom (vv_tasks v) = dom (vv_tasks v0)"
  using assms
proof (induction rule: rtranclp_induct)
  case (step v v')
  then have "mv_inv v" "ledger v k = ledger v0 k" "dom (vv_tasks v) = dom (vv_tasks v0)" by auto
  with mv_step_inv [OF step(2)] mv_step_ledger [OF step(2), of k] step(5) show ?case by simp
qed simp

end
