(* ===== verification/Pg_Movement_Store.thy ===== *)
theory Pg_Movement_Store
  imports Movement_Contract Pg_Common
begin

text \<open>
  The PostgreSQL movement store of
  \<open>internal/execution/movement/adapters/postgres/store.go\<close>.
\<close>

section \<open>Rows\<close>

definition scan_movement :: "string \<Rightarrow> movement_row \<Rightarrow> movement" where
  "scan_movement i r = \<lparr>mv_id = i, mv_parent = '''', mv_line = '''', mv_workflow = mt_workflow r,
     mv_status = mt_status r, mv_warehouse = mt_warehouse r, mv_operator = mt_operator r,
     mv_version = mt_version r, mv_source = mt_source r, mv_source_id = '''', mv_source_code = '''',
     mv_source_name = '''', mv_source_bin = '''', mv_source_bin_id = '''', mv_source_bin_code = '''',
     mv_dest = mt_dest r, mv_dest_id = '''', mv_dest_code = '''', mv_dest_name = '''',
     mv_dest_short_code = '''', mv_dest_bin_id = '''', mv_dest_bin_code = '''', mv_item = mt_item r,
     mv_item_code = '''', mv_item_name = '''', mv_fulfillment = '''', mv_sales_order = '''',
     mv_sales_order_code = '''', mv_material_request = '''', mv_work_order = '''',
     mv_work_order_code = '''', mv_receipt = '''', mv_receipt_code = '''', mv_lot_id = '''',
     mv_lpn = '''', mv_uom = '''', mv_barcode = mt_barcode r, mv_lot = '''',
     mv_required = mt_required r, mv_done = mt_done r, mv_source_ok = mt_source_ok r,
     mv_lpn_ok = False, mv_dest_ok = mt_dest_ok r, mv_item_ok = mt_item_ok r, mv_lot_ok = False,
     mv_scan_requirements = [], mv_active_lines = [], mv_updated = mt_updated r\<rparr>"

text \<open>The CHECK constraints of \<open>movement_task\<close>, \<open>warehouse_location\<close>,
  \<open>inventory_location_balance\<close> and \<open>inventory_movement\<close>.\<close>

definition movement_row_ok :: "movement_row \<Rightarrow> bool" where
  "movement_row_ok r \<longleftrightarrow> mt_workflow r \<in> {Putaway, Picking, Replenishment} \<and> i64_less 0 (mt_version r)
     \<and> i64_less 0 (mt_required r) \<and> i64_le 0 (mt_done r)"

definition location_ok :: "location_row \<Rightarrow> bool" where
  "location_ok r \<longleftrightarrow> i64_le 0 (wl_capacity r) \<and> i64_le 0 (wl_used r)"

definition stock_ok :: "stock_row \<Rightarrow> bool" where
  "stock_ok r \<longleftrightarrow> i64_le 0 (st_quantity r)"

definition inventory_movement_ok :: "(uuid \<times> inventory_movement_row) list \<Rightarrow> inventory_movement_row \<Rightarrow> bool" where
  "inventory_movement_ok tab r \<longleftrightarrow> i64_less 0 (im_quantity r)
     \<and> (\<forall>x \<in> set (map snd tab). (im_task x, im_version x) \<noteq> (im_task r, im_version r))"

section \<open>Statements\<close>

definition pgm_get :: "string \<Rightarrow> (world, movement) prog" where
  "pgm_get i = bindP (query (\<lambda>now d. map_of (movement_task d) i)) (\<lambda>row.
     case row of None \<Rightarrow> failP ErrMvNotFound | Some r \<Rightarrow> returnP (scan_movement i r))"

definition pgm_list :: "string \<Rightarrow> string \<Rightarrow> string \<Rightarrow> (world, movement list) prog" where
  "pgm_list w warehouse operator = query (\<lambda>now d.
     map (\<lambda>(i, r). scan_movement i r) (sort_key fst (filter (\<lambda>(i, r).
       mt_workflow r = w \<and> mt_warehouse r = warehouse
       \<and> (mt_operator r = None \<or> mt_operator r = Some operator)) (movement_task d))))"

definition store_movement :: "movement \<Rightarrow> movement_row \<Rightarrow> movement_row" where
  "store_movement t r = r\<lparr>mt_status := mv_status t, mt_operator := mv_operator t,
     mt_version := mv_version t, mt_done := mv_done t, mt_source_ok := mv_source_ok t,
     mt_dest_ok := mv_dest_ok t, mt_item_ok := mv_item_ok t, mt_updated := mv_updated t\<rparr>"

definition pgm_save :: "movement \<Rightarrow> (world, unit) prog" where
  "pgm_save t =
     bindP (sql (on_table movement_task (\<lambda>x d. d\<lparr>movement_task := x\<rparr>) (\<lambda>now tab.
       update_at ''movement_task'' movement_row_ok (mv_id t) (store_movement t) tab))) (\<lambda>n.
     bindP (checkP (n \<noteq> 1) ErrMvNotFound) (\<lambda>_.
     bindP (mirror_task (mv_id t) (mv_status t) (mv_operator t) (mv_version t) (mv_updated t)) (\<lambda>_.
     returnP ())))"

definition suits :: "string \<Rightarrow> location_row \<Rightarrow> bool" where
  "suits item r \<longleftrightarrow> wl_item r = None \<or> wl_item r = Some item"

definition pgm_suggestions :: "movement \<Rightarrow> (world, location list) prog" where
  "pgm_suggestions t = query (\<lambda>now d.
     map (\<lambda>((w, l), r). \<lparr>lo_id = l, lo_zone = wl_zone r, lo_capacity = wl_capacity r,
                          lo_used = wl_used r, lo_item = wl_item r\<rparr>)
       (sort_key (snd \<circ> fst) (filter (\<lambda>((w, l), r). w = mv_warehouse t
          \<and> sint (remaining t) \<le> sint (wl_capacity r) - sint (wl_used r) \<and> suits (mv_item t) r)
        (warehouse_location d))))"

text \<open>\<open>CheckMove\<close> compares before it looks at the error: a query that fails leaves \<open>stock\<close> at
  0, and any database error becomes \<open>ErrStock\<close> because the quantity is positive.\<close>

definition pgm_check_move :: "movement \<Rightarrow> int64 \<Rightarrow> (world, unit) prog" where
  "pgm_check_move t q = (\<lambda>s0.
     case query (\<lambda>now d. map_of (inventory_location_balance d) (place t (mv_source t))) s0 of
       (Inl e, s1) \<Rightarrow> if i64_less 0 q then (Inl ErrStock, s1) else (Inl e, s1)
     | (Inr None, s1) \<Rightarrow> (Inl ErrStock, s1)
     | (Inr (Some r), s1) \<Rightarrow>
         if i64_less (st_quantity r) q then (Inl ErrStock, s1)
         else bindP (query (\<lambda>now d. map_of (warehouse_location d) (mv_warehouse t, mv_dest t))) (\<lambda>loc.
           case loc of
             None \<Rightarrow> failP ErrDestination
           | Some l \<Rightarrow> if \<not> suits (mv_item t) l then failP ErrCapacity
               else if i64_less (wl_capacity l - wl_used l) q then failP ErrCapacity
               else returnP ()) s1)"

text \<open>The statements that move stock. \<open>quantity - $4\<close> and \<open>quantity + $4\<close> raise on overflow;
  the constraint refuses a negative rest.\<close>

definition take_at ::
    "string \<times> string \<times> string \<Rightarrow> int64 \<Rightarrow> time \<Rightarrow> ((string \<times> string \<times> string) \<times> stock_row) list
     \<Rightarrow> err + nat \<times> ((string \<times> string \<times> string) \<times> stock_row) list" where
  "take_at k q ts tab = (case map_of tab k of
     None \<Rightarrow> Inr (0, tab)
   | Some r \<Rightarrow>
       if \<not> i64_le q (st_quantity r) then Inr (0, tab)
       else case bigint_sub (st_quantity r) q of
         None \<Rightarrow> Inl (violates ''bigint out of range'')
       | Some m \<Rightarrow> update_at ''inventory_location_balance'' stock_ok k
           (\<lambda>r. r\<lparr>st_quantity := m, st_version := st_version r + 1, st_updated := ts\<rparr>) tab)"

definition put_at ::
    "string \<times> string \<times> string \<Rightarrow> int64 \<Rightarrow> time \<Rightarrow> ((string \<times> string \<times> string) \<times> stock_row) list
     \<Rightarrow> err + ((string \<times> string \<times> string) \<times> stock_row) list" where
  "put_at k q ts tab = upsert_stock ''inventory_location_balance'' stock_ok k q ts tab"

definition use_capacity ::
    "(int64 \<Rightarrow> int64 \<Rightarrow> int64 option) \<Rightarrow> string \<times> string \<Rightarrow> int64 \<Rightarrow> (world, unit) prog" where
  "use_capacity f k q = sql (on_table warehouse_location (\<lambda>x d. d\<lparr>warehouse_location := x\<rparr>) (\<lambda>now tab.
     case map_of tab k of
       None \<Rightarrow> Inr ((), tab)
     | Some r \<Rightarrow> (case f (wl_used r) q of
         None \<Rightarrow> Inl (violates ''bigint out of range'')
       | Some m \<Rightarrow> no_value (map_sum id snd
           (update_at ''warehouse_location'' location_ok k (\<lambda>r. r\<lparr>wl_used := m\<rparr>) tab)))))"

definition insert_movement ::
    "uuid \<Rightarrow> inventory_movement_row \<Rightarrow> (world, unit) prog" where
  "insert_movement i r = sql (on_table inventory_movement (\<lambda>x d. d\<lparr>inventory_movement := x\<rparr>) (\<lambda>now tab.
     no_value (insert_at ''inventory_movement'' (inventory_movement_ok tab) i r tab)))"

abbreviation (input) on_stock ::
    "(time \<Rightarrow> ((string \<times> string \<times> string) \<times> stock_row) list
       \<Rightarrow> err + 'a \<times> ((string \<times> string \<times> string) \<times> stock_row) list) \<Rightarrow> (world, 'a) prog" where
  "on_stock f \<equiv> sql (on_table inventory_location_balance (\<lambda>x d. d\<lparr>inventory_location_balance := x\<rparr>) f)"

definition pgm_apply_move :: "movement \<Rightarrow> int64 \<Rightarrow> (world, unit) prog" where
  "pgm_apply_move t q =
     bindP (on_stock (\<lambda>now tab. take_at (place t (mv_source t)) q now tab)) (\<lambda>n.
     bindP (checkP (n \<noteq> 1) ErrStock) (\<lambda>_.
     bindP (on_stock (\<lambda>now tab. no_value (put_at (place t (mv_dest t)) q now tab))) (\<lambda>_.
     bindP (use_capacity bigint_sub (mv_warehouse t, mv_source t) q) (\<lambda>_.
     bindP (use_capacity bigint_add (mv_warehouse t, mv_dest t) q) (\<lambda>_.
     bindP new_uuid (\<lambda>i.
     insert_movement i \<lparr>im_task = mv_id t, im_workflow = mv_workflow t, im_warehouse = mv_warehouse t,
       im_item = mv_item t, im_source = mv_source t, im_dest = mv_dest t, im_quantity = q,
       im_version = mv_version t, im_at = mv_updated t\<rparr>))))))"

definition pgm_find :: "string \<Rightarrow> (world, mv_command_result option) prog" where
  "pgm_find k = bindP advisory_lock (\<lambda>_.
     query (\<lambda>now d. map_option (\<lambda>(i, r). \<lparr>mr_id = i, mr_workflow = cr_scope r,
         mr_warehouse = cr_warehouse r, mr_operator = cr_operator r, mr_result = Some (cr_result r)\<rparr>)
       (command_by_key k (movement_command_status d))))"

text \<open>A result that is not a task document cannot be stored; the service never gives one.\<close>

definition pgm_save_command :: "string \<Rightarrow> mv_command_result \<Rightarrow> (world, unit) prog" where
  "pgm_save_command k r = (case mr_result r of
     None \<Rightarrow> failP (TextError ''invalid input syntax for type json'')
   | Some t \<Rightarrow> sql (on_table movement_command_status (\<lambda>x d. d\<lparr>movement_command_status := x\<rparr>) (\<lambda>now tab.
       no_value (insert_command ''movement_command_status'' (mr_id r)
         \<lparr>cr_key = k, cr_type = ''MUTATE'', cr_scope = mr_workflow r, cr_warehouse = mr_warehouse r,
          cr_operator = mr_operator r, cr_result = t\<rparr> tab))))"

definition pgm_append :: "envelope \<Rightarrow> (world, unit) prog" where
  "pgm_append e = bindP (liftE (marshal_envelope e)) insert_outbox"

definition pgm_audit :: "string \<Rightarrow> movement \<Rightarrow> actor \<Rightarrow> json \<Rightarrow> (world, unit) prog" where
  "pgm_audit action t a details =
     bindP new_uuid (\<lambda>i. insert_audit i action ''SUCCESS'' (mv_id t) a details)"

definition pgm_within_tx :: "(world, 'a) prog \<Rightarrow> (world, 'a) prog" where
  "pgm_within_tx m = with_tx m"

definition pgm_invalidate :: "string \<Rightarrow> string \<Rightarrow> (world, unit) prog" where
  "pgm_invalidate w p = returnP ()"

definition seed_locations :: "(string \<times> location_row) list" where
  "seed_locations =
     [(''STAGE-01'', \<lparr>wl_zone = ''STAGE'', wl_capacity = 100, wl_used = 35, wl_item = None\<rparr>),
      (''PICK-01'', \<lparr>wl_zone = ''PICK'', wl_capacity = 100, wl_used = 20, wl_item = Some ''ITEM-001''\<rparr>),
      (''BULK-01'', \<lparr>wl_zone = ''BULK'', wl_capacity = 200, wl_used = 80, wl_item = None\<rparr>),
      (''PICK-02'', \<lparr>wl_zone = ''PICK'', wl_capacity = 25, wl_used = 5, wl_item = Some ''ITEM-002''\<rparr>)]"

definition pgm_seed_task :: "movement \<Rightarrow> (world, unit) prog" where
  "pgm_seed_task t =
     bindP (sql (on_table warehouse_task (\<lambda>x d. d\<lparr>warehouse_task := x\<rparr>) (\<lambda>now tab.
       no_value (insert_ignore ''warehouse_task'' warehouse_ok (mv_id t)
         \<lparr>wt_category = mv_workflow t, wt_status = mv_status t, wt_priority = 50,
          wt_warehouse = mv_warehouse t, wt_operator = mv_operator t, wt_version = mv_version t,
          wt_updated = mv_updated t\<rparr> tab)))) (\<lambda>_.
     bindP (sql (on_table movement_task (\<lambda>x d. d\<lparr>movement_task := x\<rparr>) (\<lambda>now tab.
       no_value (insert_ignore ''movement_task'' movement_row_ok (mv_id t)
         \<lparr>mt_workflow = mv_workflow t, mt_status = mv_status t, mt_warehouse = mv_warehouse t,
          mt_operator = mv_operator t, mt_version = mv_version t, mt_source = mv_source t,
          mt_dest = mv_dest t, mt_item = mv_item t, mt_barcode = mv_barcode t,
          mt_required = mv_required t, mt_done = mv_done t, mt_source_ok = mv_source_ok t,
          mt_dest_ok = mv_dest_ok t, mt_item_ok = mv_item_ok t, mt_updated = mv_updated t\<rparr> tab)))) (\<lambda>_.
     bindP clock_now (\<lambda>ts.
     on_stock (\<lambda>now tab. no_value (insert_ignore ''inventory_location_balance'' stock_ok
       (place t (mv_source t)) \<lparr>st_quantity = mv_required t + 10, st_version = 1, st_updated = ts\<rparr> tab)))))"

definition pgm_seed :: "movement list \<Rightarrow> (world, unit) prog" where
  "pgm_seed ts = with_tx (thenP
     (forP seed_locations (\<lambda>(l, r). sql (on_table warehouse_location (\<lambda>x d. d\<lparr>warehouse_location := x\<rparr>)
        (\<lambda>now tab. no_value (insert_ignore ''warehouse_location'' location_ok (''WH-01'', l) r tab)))))
     (forP ts pgm_seed_task))"

definition pg_mv_ports :: "(uuid \<Rightarrow> string) \<Rightarrow> world mv_ports" where
  "pg_mv_ports uuid_string = \<lparr>mp_list = pgm_list, mp_get = pgm_get, mp_get_for_update = pgm_get,
     mp_save = pgm_save, mp_suggestions = pgm_suggestions, mp_check_move = pgm_check_move,
     mp_apply_move = pgm_apply_move, mp_find = pgm_find, mp_save_command = pgm_save_command,
     mp_within_tx = pgm_within_tx, mp_append = pgm_append, mp_audit = pgm_audit,
     mp_publish = publish_event, mp_invalidate = pgm_invalidate, mp_now = clock_now,
     mp_new_uuid = new_uuid, mp_uuid_string = uuid_string\<rparr>"

lemma pg_mv_ports_sel [simp]:
  "mp_list (pg_mv_ports u) = pgm_list" "mp_get (pg_mv_ports u) = pgm_get"
  "mp_get_for_update (pg_mv_ports u) = pgm_get" "mp_save (pg_mv_ports u) = pgm_save"
  "mp_suggestions (pg_mv_ports u) = pgm_suggestions" "mp_check_move (pg_mv_ports u) = pgm_check_move"
  "mp_apply_move (pg_mv_ports u) = pgm_apply_move" "mp_find (pg_mv_ports u) = pgm_find"
  "mp_save_command (pg_mv_ports u) = pgm_save_command" "mp_within_tx (pg_mv_ports u) = pgm_within_tx"
  "mp_append (pg_mv_ports u) = pgm_append" "mp_audit (pg_mv_ports u) = pgm_audit"
  "mp_publish (pg_mv_ports u) = publish_event" "mp_invalidate (pg_mv_ports u) = pgm_invalidate"
  "mp_now (pg_mv_ports u) = clock_now" "mp_new_uuid (pg_mv_ports u) = new_uuid"
  "mp_uuid_string (pg_mv_ports u) = u"
  by (simp_all add: pg_mv_ports_def)

section \<open>The contract holds\<close>

definition stock_of :: "tables \<Rightarrow> stock" where
  "stock_of d = (\<lambda>k. map_option st_quantity (map_of (inventory_location_balance d) k))"

definition mv_keys_of :: "tables \<Rightarrow> string \<Rightarrow> mv_command_result option" where
  "mv_keys_of d k = map_option (\<lambda>(i, r). \<lparr>mr_id = i, mr_workflow = cr_scope r,
         mr_warehouse = cr_warehouse r, mr_operator = cr_operator r, mr_result = Some (cr_result r)\<rparr>)
       (command_by_key k (movement_command_status d))"

definition mv_db :: "tables \<Rightarrow> mv_view" where
  "mv_db d = \<lparr>vv_tasks = (\<lambda>i. map_option (scan_movement i) (map_of (movement_task d) i)),
     vv_keys = mv_keys_of d, vv_outbox = outbox_of d, vv_stock = stock_of d\<rparr>"

lemma take_at_stock:
  assumes "take_at k q now tab = Inr (1, tab')"
  shows "take_stock (\<lambda>k. map_option st_quantity (map_of tab k)) k q
    = Some (\<lambda>k. map_option st_quantity (map_of tab' k))"
proof -
  from assms obtain r m where r: "map_of tab k = Some r" "i64_le q (st_quantity r)"
    "bigint_sub (st_quantity r) q = Some m"
    and upd: "update_at ''inventory_location_balance'' stock_ok k
       (\<lambda>r. r\<lparr>st_quantity := m, st_version := st_version r + 1, st_updated := now\<rparr>) tab = Inr (1, tab')"
    by (auto simp: take_at_def split: option.splits if_splits)
  from r update_at_map [OF upd] show ?thesis by (auto simp: take_stock_def fun_eq_iff)
qed

lemma put_at_stock: "put_at k q now tab = Inr tab' \<Longrightarrow>
    add_stock (\<lambda>k. map_option st_quantity (map_of tab k)) k q = Some (\<lambda>k. map_option st_quantity (map_of tab' k))"
  unfolding put_at_def by (rule upsert_stock_add)

text \<open>Taking at one place and putting at another, one statement after the other.\<close>

lemma take_put_stock:
  assumes "on_stock (\<lambda>now tab. take_at a q (ts now) tab) s = (Inr 1, s1)"
    and "on_stock (\<lambda>now tab. no_value (put_at b q (ts' now) tab)) s1 = (Inr u, s2)"
  obtains tab where "w_db s2 = (w_db s)\<lparr>inventory_location_balance := tab\<rparr>"
    and "move_stock (stock_of (w_db s)) a b q = Some (stock_of (w_db s2))"
proof -
  from assms(1) obtain now1 tab1 where t1: "take_at a q (ts now1) (inventory_location_balance (w_db s)) = Inr (1, tab1)"
    and d1: "w_db s1 = (w_db s)\<lparr>inventory_location_balance := tab1\<rparr>"
    by (rule sql_table_Inr) auto
  from assms(2) obtain now2 tab2 where t2: "put_at b q (ts' now2) tab1 = Inr tab2"
    and d2: "w_db s2 = (w_db s1)\<lparr>inventory_location_balance := tab2\<rparr>"
    by (rule sql_table_Inr) (auto simp: no_value_Inr d1)
  from take_at_stock [OF t1] put_at_stock [OF t2] d1 d2 show thesis
    by (intro that [of tab2]) (simp_all add: move_stock_def stock_of_def)
qed

lemma mv_db_frames [simp]:
  "mv_db (d\<lparr>warehouse_task := a\<rparr>) = mv_db d" "mv_db (d\<lparr>warehouse_location := b\<rparr>) = mv_db d"
  "mv_db (d\<lparr>inventory_movement := c\<rparr>) = mv_db d" "mv_db (d\<lparr>audit_record := e\<rparr>) = mv_db d"
  by (simp_all add: mv_db_def mv_keys_of_def [abs_def] outbox_of_def stock_of_def)

definition pg_mv_view :: "world \<Rightarrow> mv_view" where
  "pg_mv_view = of_db mv_db"

lemma frame_pgm_reads:
  "frame pg_mv_view (pgm_find k)" "frame pg_mv_view (pgm_get i)" "frame pg_mv_view (pgm_invalidate w p)"
  unfolding pg_mv_view_def pgm_find_def pgm_get_def pgm_invalidate_def advisory_lock_def
  by (intro frame_intros)+

lemma frame_pgm_env:
  "frame pg_mv_view clock_now" "frame pg_mv_view new_uuid" "frame pg_mv_view (publish_event e)"
  unfolding pg_mv_view_def by (intro frame_db_env)+

lemma frame_insert_audit: "frame pg_mv_view (insert_audit i a oc g ac j)"
  unfolding pg_mv_view_def insert_audit_def by (rule frame_on_table) simp

lemma frame_pgm_audit: "frame pg_mv_view (pgm_audit a t ac j)"
  unfolding pgm_audit_def by (intro frame_intros frame_pgm_env frame_insert_audit)

lemma frame_use_capacity: "frame pg_mv_view (use_capacity f k q)"
  unfolding pg_mv_view_def use_capacity_def by (rule frame_on_table) simp

lemma frame_insert_movement: "frame pg_mv_view (insert_movement i r)"
  unfolding pg_mv_view_def insert_movement_def by (rule frame_on_table) simp

lemma frame_mirror_task: "frame pg_mv_view (mirror_task i st p v ts)"
  unfolding pg_mv_view_def mirror_task_def by (rule frame_on_table) simp

lemma frame_pgm_check: "frame pg_mv_view (pgm_check_move t q)"
proof
  fix s r s' assume run: "pgm_check_move t q s = (r, s')"
  obtain x s1 where q1: "query (\<lambda>now d. map_of (inventory_location_balance d) (place t (mv_source t))) s = (x, s1)"
    by fastforce
  have v1: "pg_mv_view s1 = pg_mv_view s"
    using query_db [OF q1] by (simp add: pg_mv_view_def of_db_def)
  have rest: "frame pg_mv_view (bindP (query (\<lambda>now d. map_of (warehouse_location d) (mv_warehouse t, mv_dest t))) (\<lambda>loc.
           case loc of
             None \<Rightarrow> failP ErrDestination
           | Some l \<Rightarrow> if \<not> suits (mv_item t) l then failP ErrCapacity
               else if i64_less (wl_capacity l - wl_used l) q then failP ErrCapacity
               else returnP ()))"
    unfolding pg_mv_view_def by (intro frame_intros)
  from run q1 v1 show "pg_mv_view s' = pg_mv_view s"
    by (auto simp: pgm_check_move_def split: sum.splits option.splits if_splits dest: frameD [OF rest])
qed

lemma pgm_find_ok: "pgm_find k s = (Inr x, s') \<Longrightarrow> vv_keys (pg_mv_view s) k = x"
  by (auto simp: pgm_find_def advisory_lock_def prog_iffs pg_mv_view_def of_db_def mv_db_def
      mv_keys_of_def elim!: query_Inr)

lemma pgm_get_ok: "pgm_get i s = (Inr t, s') \<Longrightarrow> vv_tasks (pg_mv_view s) i = Some t \<and> mv_id t = i"
  by (auto simp: pgm_get_def prog_iffs pg_mv_view_def of_db_def mv_db_def scan_movement_def
      split: option.splits elim!: query_Inr)

text \<open>The fields that the columns carry determine a loaded task; the rest are zero values.\<close>

lemma scan_store_movement:
  assumes "mv_work (scan_movement i r) t"
  shows "scan_movement i (store_movement t r) = persisted (scan_movement i r) t"
proof -
  have "persisted (scan_movement i r) t = (mv_frame t)
     \<lparr>mv_operator := mv_operator t, mv_status := mv_status t,
      mv_version := mv_version t, mv_done := mv_done t, mv_source_ok := mv_source_ok t,
      mv_dest_ok := mv_dest_ok t, mv_item_ok := mv_item_ok t, mv_lot_ok := False,
      mv_updated := mv_updated t\<rparr>"
    by (simp add: persisted_def mv_frame_def scan_movement_def)
  also have "mv_frame t = mv_frame (scan_movement i r)" using assms by (simp add: mv_work_def)
  finally show ?thesis by (simp add: mv_frame_def scan_movement_def store_movement_def)
qed

lemma pgm_save_ok:
  assumes "pgm_save t s = (Inr u, s')" and "vv_tasks (pg_mv_view s) (mv_id t) = Some t0" and "mv_work t0 t"
  shows "pg_mv_view s' = (pg_mv_view s)\<lparr>vv_tasks := (vv_tasks (pg_mv_view s))(mv_id t \<mapsto> persisted t0 t)\<rparr>"
proof -
  from assms(1) obtain s1 n s2 where
    upd: "sql (on_table movement_task (\<lambda>x d. d\<lparr>movement_task := x\<rparr>) (\<lambda>now tab.
       update_at ''movement_task'' movement_row_ok (mv_id t) (store_movement t) tab)) s = (Inr 1, s1)"
    and mir: "mirror_task (mv_id t) (mv_status t) (mv_operator t) (mv_version t) (mv_updated t) s1 = (Inr n, s2)"
    and "s' = s2"
    unfolding pgm_save_def by (auto simp: prog_iffs)
  from upd obtain tab' where
    tab: "update_at ''movement_task'' movement_row_ok (mv_id t) (store_movement t) (movement_task (w_db s)) = Inr (1, tab')"
    and db: "w_db s1 = (w_db s)\<lparr>movement_task := tab'\<rparr>"
    by (rule sql_table_Inr) auto
  from assms(2) obtain r where r: "map_of (movement_task (w_db s)) (mv_id t) = Some r"
    and t0: "t0 = scan_movement (mv_id t) r"
    by (auto simp: pg_mv_view_def of_db_def mv_db_def)
  have "pg_mv_view s1 = (pg_mv_view s)\<lparr>vv_tasks := (vv_tasks (pg_mv_view s))(mv_id t \<mapsto> persisted t0 t)\<rparr>"
    using update_at_map [OF tab] r scan_store_movement assms(3) t0
    by (auto simp: pg_mv_view_def of_db_def mv_db_def outbox_of_def stock_of_def mv_keys_of_def [abs_def] db fun_eq_iff)
  with frameD [OF frame_mirror_task mir] \<open>s' = s2\<close> show ?thesis by simp
qed

lemma on_stock_view:
  "w_db s' = (w_db s)\<lparr>inventory_location_balance := tab\<rparr> \<Longrightarrow>
    pg_mv_view s' = (pg_mv_view s)\<lparr>vv_stock := \<lambda>k. map_option st_quantity (map_of tab k)\<rparr>"
  by (simp add: pg_mv_view_def of_db_def mv_db_def outbox_of_def stock_of_def mv_keys_of_def [abs_def])

lemma stock_of_view: "vv_stock (pg_mv_view s) = stock_of (w_db s)"
  by (simp add: pg_mv_view_def of_db_def mv_db_def)

lemma pgm_apply_ok:
  assumes "pgm_apply_move t q s = (Inr u, s')"
  shows "\<exists>st. move_stock (vv_stock (pg_mv_view s)) (place t (mv_source t)) (place t (mv_dest t)) q = Some st
    \<and> pg_mv_view s' = (pg_mv_view s)\<lparr>vv_stock := st\<rparr>"
proof -
  let ?a = "place t (mv_source t)" and ?b = "place t (mv_dest t)"
  from assms obtain s1 s2 s3 s4 s5 i where
    take: "on_stock (\<lambda>now tab. take_at ?a q now tab) s = (Inr 1, s1)"
    and put: "on_stock (\<lambda>now tab. no_value (put_at ?b q now tab)) s1 = (Inr (), s2)"
    and use1: "use_capacity bigint_sub (mv_warehouse t, mv_source t) q s2 = (Inr (), s3)"
    and use2: "use_capacity bigint_add (mv_warehouse t, mv_dest t) q s3 = (Inr (), s4)"
    and uuid: "new_uuid s4 = (Inr i, s5)"
    and ins: "insert_movement i \<lparr>im_task = mv_id t, im_workflow = mv_workflow t, im_warehouse = mv_warehouse t,
       im_item = mv_item t, im_source = mv_source t, im_dest = mv_dest t, im_quantity = q,
       im_version = mv_version t, im_at = mv_updated t\<rparr> s5 = (Inr u, s')"
    unfolding pgm_apply_move_def by (auto simp: prog_iffs)
  have rest: "pg_mv_view s' = pg_mv_view s2"
    using frameD [OF frame_insert_movement ins] frameD [OF frame_pgm_env(2) uuid]
      frameD [OF frame_use_capacity use2] frameD [OF frame_use_capacity use1] by simp
  from take put obtain tab where d2: "w_db s2 = (w_db s)\<lparr>inventory_location_balance := tab\<rparr>"
    and mv: "move_stock (stock_of (w_db s)) ?a ?b q = Some (stock_of (w_db s2))" by (rule take_put_stock)
  from mv d2 on_stock_view [OF d2] rest show ?thesis by (simp add: stock_of_view stock_of_def)
qed

lemma pgm_append_ok:
  assumes "well_formed e" and "pgm_append e s = (Inr u, s')"
  shows "pg_mv_view s' = (pg_mv_view s)\<lparr>vv_outbox := vv_outbox (pg_mv_view s) @ [e]\<rparr>"
proof -
  from assms have "insert_outbox e s = (Inr u, s')"
    by (auto simp: pgm_append_def prog_iffs well_formed_marshal)
  then show ?thesis
    by (rule insert_outbox_ok)
      (simp add: pg_mv_view_def of_db_def mv_db_def outbox_of_def stock_of_def mv_keys_of_def [abs_def])
qed

lemma pgm_save_command_ok:
  assumes "pgm_save_command k r s = (Inr u, s')"
  shows "pg_mv_view s' = (pg_mv_view s)\<lparr>vv_keys := (vv_keys (pg_mv_view s))(k \<mapsto> r)\<rparr>"
proof -
  from assms obtain t where t: "mr_result r = Some t" and ins: "sql (on_table movement_command_status
       (\<lambda>x d. d\<lparr>movement_command_status := x\<rparr>) (\<lambda>now tab.
       no_value (insert_command ''movement_command_status'' (mr_id r)
         \<lparr>cr_key = k, cr_type = ''MUTATE'', cr_scope = mr_workflow r, cr_warehouse = mr_warehouse r,
          cr_operator = mr_operator r, cr_result = t\<rparr> tab))) s = (Inr u, s')"
    by (auto simp: pgm_save_command_def split: option.splits)
  from ins obtain tab' where tab: "insert_command ''movement_command_status'' (mr_id r)
         \<lparr>cr_key = k, cr_type = ''MUTATE'', cr_scope = mr_workflow r, cr_warehouse = mr_warehouse r,
          cr_operator = mr_operator r, cr_result = t\<rparr> (movement_command_status (w_db s)) = Inr tab'"
    and db: "w_db s' = (w_db s)\<lparr>movement_command_status := tab'\<rparr>"
    by (rule sql_table_Inr) (auto simp: no_value_Inr)
  have "\<lparr>mr_id = mr_id r, mr_workflow = mr_workflow r, mr_warehouse = mr_warehouse r,
      mr_operator = mr_operator r, mr_result = Some t\<rparr> = r" using t by simp
  then show ?thesis
    by (simp add: pg_mv_view_def of_db_def mv_db_def outbox_of_def stock_of_def mv_keys_of_def
        db insert_command_key [OF tab] fun_eq_iff)
qed

lemmas pgm_tx_ok = with_tx_view_ok [where g = mv_db, folded pg_mv_view_def]

lemmas pgm_tx_fail = with_tx_view_fail [where g = mv_db, folded pg_mv_view_def]

interpretation pgm: movement_store "pg_mv_ports u" pg_mv_view
  by (unfold_locales, unfold pg_mv_ports_sel pgm_within_tx_def)
    ((rule frame_pgm_reads frame_pgm_env frame_pgm_audit frame_pgm_check pgm_find_ok pgm_get_ok pgm_save_ok
        pgm_apply_ok pgm_append_ok pgm_save_command_ok pgm_tx_ok pgm_tx_fail; assumption?)+)

end
