(* ===== verification/Movement_Properties.thy ===== *)
theory Movement_Properties
  imports Pg_Movement_Store Exec_Properties
begin

text \<open>
  The movement services on the PostgreSQL store: every command as a step of the contract, the
  stock ledger over any sequence of commands and any database faults, and what a completed
  command did.
\<close>

section \<open>Sequences of calls\<close>

datatype mv_call =
    PutawayClaim mv_command | PutawayStart mv_command
  | PutawaySource mv_command string | PutawayLPN mv_command string
  | PutawayItem mv_command string | PutawayLot mv_command string
  | PutawayDestination mv_command string | PutawayConfirm mv_command int64
  | PutawayGroup mv_command
  | PickingClaim mv_command | PickingStart mv_command
  | PickingLocation mv_command string | PickingBarcode mv_command string
  | PickingLot mv_command string | PickingDestination mv_command string
  | PickingConfirm mv_command int64 | PickingFinish mv_command
  | ReplenishmentSource mv_command string | ReplenishmentDestination mv_command string
  | ReplenishmentItem mv_command string | ReplenishmentConfirm mv_command int64

fun run_mv :: "'s mv_ports \<Rightarrow> mv_call \<Rightarrow> 's \<Rightarrow> movement reply \<times> 's" where
  "run_mv P (PutawayClaim x) = putaway_claim P x"
| "run_mv P (PutawayStart x) = putaway_start P x"
| "run_mv P (PutawaySource x v) = putaway_validate_source P x v"
| "run_mv P (PutawayLPN x v) = putaway_validate_lpn P x v"
| "run_mv P (PutawayItem x v) = putaway_validate_item P x v"
| "run_mv P (PutawayLot x v) = putaway_validate_lot P x v"
| "run_mv P (PutawayDestination x v) = putaway_validate_destination P x v"
| "run_mv P (PutawayConfirm x q) = putaway_confirm P x q"
| "run_mv P (PutawayGroup x) = putaway_confirm_group P x"
| "run_mv P (PickingClaim x) = picking_claim P x"
| "run_mv P (PickingStart x) = picking_start P x"
| "run_mv P (PickingLocation x v) = picking_validate_location P x v"
| "run_mv P (PickingBarcode x v) = picking_resolve_barcode P x v"
| "run_mv P (PickingLot x v) = picking_validate_lot P x v"
| "run_mv P (PickingDestination x v) = picking_validate_destination P x v"
| "run_mv P (PickingConfirm x q) = picking_confirm P x q"
| "run_mv P (PickingFinish x) = picking_finish P x"
| "run_mv P (ReplenishmentSource x v) = replenishment_validate_source P x v"
| "run_mv P (ReplenishmentDestination x v) = replenishment_validate_destination P x v"
| "run_mv P (ReplenishmentItem x v) = replenishment_validate_item P x v"
| "run_mv P (ReplenishmentConfirm x q) = replenishment_confirm P x q"

fun run_mvs :: "'s mv_ports \<Rightarrow> mv_call list \<Rightarrow> 's \<Rightarrow> 's" where
  "run_mvs P [] s = s"
| "run_mvs P (c # cs) s = run_mvs P cs (snd (run_mv P c s))"

fun mv_call_command :: "mv_call \<Rightarrow> mv_command" where
  "mv_call_command (PutawayClaim x) = x" | "mv_call_command (PutawayStart x) = x"
| "mv_call_command (PutawaySource x v) = x" | "mv_call_command (PutawayLPN x v) = x"
| "mv_call_command (PutawayItem x v) = x" | "mv_call_command (PutawayLot x v) = x"
| "mv_call_command (PutawayDestination x v) = x" | "mv_call_command (PutawayConfirm x q) = x"
| "mv_call_command (PutawayGroup x) = x"
| "mv_call_command (PickingClaim x) = x" | "mv_call_command (PickingStart x) = x"
| "mv_call_command (PickingLocation x v) = x" | "mv_call_command (PickingBarcode x v) = x"
| "mv_call_command (PickingLot x v) = x" | "mv_call_command (PickingDestination x v) = x"
| "mv_call_command (PickingConfirm x q) = x" | "mv_call_command (PickingFinish x) = x"
| "mv_call_command (ReplenishmentSource x v) = x" | "mv_call_command (ReplenishmentDestination x v) = x"
| "mv_call_command (ReplenishmentItem x v) = x" | "mv_call_command (ReplenishmentConfirm x q) = x"

definition is_group :: "mv_call \<Rightarrow> bool" where
  "is_group c \<longleftrightarrow> c = PutawayGroup (mv_call_command c)"

text \<open>An action that only works on a task nobody else holds.\<close>

definition own :: "mv_command \<Rightarrow> (time \<Rightarrow> movement \<Rightarrow> err + movement) \<Rightarrow> bool" where
  "own x f \<longleftrightarrow> (\<forall>now t t'. f now t = Inr t' \<longrightarrow> mv_operator t = None \<or> mv_operator t = Some (mc_op x))"

lemma own_actions:
  "own x (mv_claim (mc_op x) b)" "own x (mv_start (mc_op x) b)" "own x (validate_source (mc_op x) v b)"
  "own x (validate_destination (mc_op x) v b)" "own x (validate_item (mc_op x) v b)"
  "own x (validate_lot (mc_op x) v b)" "own x (move (mc_op x) q b)" "own x (picking_complete (mc_op x) b)"
  by (auto simp: own_def mv_claim_def mv_start_def validate_source_def validate_destination_def
      validate_item_def validate_lot_def move_def guarded_Inr picking_complete_def
      guard_completion_def mv_guard_def split: if_splits)

lemma action_work: "mv_action x f q \<Longrightarrow> f now t = Inr t' \<Longrightarrow> mv_work t t'"
  by (erule mv_action.cases)
    (auto simp: mv_claim_def mv_start_def validate_source_def validate_destination_def Let_def
      validate_item_def validate_lot_def move_def guarded_Inr group_complete_def picking_complete_def
      touch_def mv_work_def mv_frame_def split: if_splits sum.splits)

text \<open>Every call is one or two mutations: a relation that every mutation respects holds between
  the views before and after a call.\<close>

locale mv_relation = movement_store +
  fixes R :: "mv_view \<Rightarrow> mv_view \<Rightarrow> bool" and c :: mv_call
  assumes R_refl: "R v v"
    and R_trans: "R v1 v2 \<Longrightarrow> R v2 v3 \<Longrightarrow> R v1 v3"
    and R_mutate: "mv_mutate P w x et tr q s = (rep, s') \<Longrightarrow> runs tr f \<Longrightarrow> mv_action x f q \<Longrightarrow>
      mc_op x = mc_op (mv_call_command c) \<Longrightarrow> is_group c \<or> own x f \<Longrightarrow> R (view s) (view s')"
begin

lemma timed_R: "mv_mutate P w x et (mv_timed P f) q s = (rep, s') \<Longrightarrow> mv_action x f q \<Longrightarrow>
    mc_op x = mc_op (mv_call_command c) \<Longrightarrow> own x f \<Longrightarrow> R (view s) (view s')"
  by (rule R_mutate [OF _ runs_timed _ _ disjI2])

lemma start_R:
  assumes "mv_mutate P w y et (mv_timed P (mv_start p b)) 0 s = (rep, s')"
    and "p = mc_op y" and "b = mc_base y" and "mc_op y = mc_op (mv_call_command c)"
  shows "R (view s) (view s')"
  using timed_R [OF assms(1) [unfolded assms(2,3)] mv_action.intros(2) assms(4) own_actions(2)] .

lemma start_after_R:
  assumes "start_after P w et x (rep1, s1) = (rep, s')" and "mc_op x = mc_op (mv_call_command c)"
  shows "R (view s1) (view s')"
proof (cases "\<exists>t cid s2. rep1 = Done t \<and> mv_status t \<noteq> MvInProgress \<and> mp_new_uuid P s1 = (Inr cid, s2)")
  case True
  then obtain t cid s2 where t: "rep1 = Done t" "mv_status t \<noteq> MvInProgress"
    and cid: "mp_new_uuid P s1 = (Inr cid, s2)" by auto
  with assms have "mv_mutate P w (x\<lparr>mc_base_version := mv_version t, mc_id := cid,
       mc_key := mp_uuid_string P cid @ '':start''\<rparr>) et
       (mv_timed P (mv_start (mc_op x) (mv_version t))) 0 s2 = (rep, s')"
    by (simp add: start_after_def Let_def)
  then have "R (view s2) (view s')" by (rule start_R) (simp_all add: assms(2))
  with frameD [OF frame_uuid cid] show ?thesis by simp
next
  case False
  with assms have "view s' = view s1"
    by (auto simp: start_after_def Let_def dest: frameD [OF frame_uuid]
        split: reply.splits if_splits prod.splits sum.splits)
  then show ?thesis by (simp add: R_refl)
qed

lemma run_mv_R: "run_mv P c s = (rep, s') \<Longrightarrow> R (view s) (view s')"
proof (cases c)
  assume run: "run_mv P c s = (rep, s')"
  {
    fix x assume c: "c = PutawayStart x"
    obtain r1 s1 where cl: "putaway_claim P x s = (r1, s1)" by fastforce
    have "R (view s) (view s1)"
      by (rule timed_R [OF cl [unfolded putaway_claim_def] mv_action.intros(1)]) (simp_all add: c own_actions)
    moreover from run c cl have "start_after P Putaway ''PutawayTaskStarted'' x (r1, s1) = (rep, s')"
      by (simp add: putaway_start_def)
    then have "R (view s1) (view s')" by (rule start_after_R) (simp add: c)
    ultimately show ?thesis by (rule R_trans)
  next
    fix x assume c: "c = PickingStart x"
    obtain r1 s1 where cl: "picking_claim P x s = (r1, s1)" by fastforce
    have "R (view s) (view s1)"
      by (rule timed_R [OF cl [unfolded picking_claim_def] mv_action.intros(1)]) (simp_all add: c own_actions)
    moreover from run c cl have "start_after P Picking ''PickingTaskStarted'' x (r1, s1) = (rep, s')"
      by (simp add: picking_start_def)
    then have "R (view s1) (view s')" by (rule start_after_R) (simp add: c)
    ultimately show ?thesis by (rule R_trans)
  next
    fix x assume c: "c = PutawayGroup x"
    with run have "mv_mutate P Putaway x ''PutawayGroupCompleted'' (late P group_complete) 0 s = (rep, s')"
      by (simp add: putaway_confirm_group_def)
    then show ?thesis
      by (rule R_mutate [OF _ runs_late mv_action.intros(8)]) (simp_all add: c is_group_def)
  next
    fix x assume c: "c = PickingFinish x"
    with run have "mv_mutate P Picking x ''PickingTaskCompleted''
        (late P (picking_complete (mc_op x) (mc_base x))) 0 s = (rep, s')"
      by (simp add: picking_finish_def)
    then show ?thesis
      by (rule R_mutate [OF _ runs_late mv_action.intros(9)]) (simp_all add: c own_actions)
  }
qed (auto simp: putaway_claim_def putaway_validate_source_def putaway_validate_lpn_def
    putaway_validate_item_def putaway_validate_lot_def putaway_validate_destination_def
    putaway_confirm_def picking_claim_def picking_validate_location_def picking_resolve_barcode_def
    picking_validate_lot_def picking_validate_destination_def picking_confirm_def
    replenishment_validate_source_def replenishment_validate_destination_def
    replenishment_validate_item_def replenishment_confirm_def own_actions
    intro!: timed_R mv_action.intros)

end

context movement_store
begin

lemma mutate_steps:
  assumes "mv_mutate P w x et tr q s = (rep, s')" and "runs tr f" and "mv_action x f q"
  shows "mv_step\<^sup>*\<^sup>* (view s) (view s')"
proof -
  have "keeps_work f" using action_work [OF assms(3)] by (auto simp: keeps_work_def)
  with mv_mutate_cases [OF assms(1,2)] assms(3) show ?thesis by (auto intro: mv_step.acts)
qed

lemma mutate_owner:
  assumes "mv_mutate P w x et tr q s = (rep, s')" and "runs tr f" and "mv_action x f q"
    and "own x f" and "vv_tasks (view s) i = Some t" and "mv_operator t = Some p" and "p \<noteq> mc_op x"
  shows "vv_tasks (view s') i = Some t"
proof -
  have "keeps_work f" using action_work [OF assms(3)] by (auto simp: keeps_work_def)
  with mv_mutate_cases [OF assms(1,2)] consider
    t' e where "mv_effect w x et f q (view s) t' e (view s')" | "view s' = view s" by auto
  then show ?thesis
  proof cases
    case 1
    then show ?thesis
    proof cases
      case (changed t0 now e' eid ts st)
      with assms(4) have "mv_operator t0 = None \<or> mv_operator t0 = Some (mc_op x)"
        by (auto simp: own_def)
      with changed assms(5-7) show ?thesis by auto
    qed (simp add: assms(5))
  qed (simp add: assms(5))
qed

end

interpretation pgm_history: mv_relation "pg_mv_ports u" pg_mv_view "mv_step\<^sup>*\<^sup>*" c
  by unfold_locales (auto intro: pgm.mutate_steps rtranclp_trans)

definition keeps_held :: "string \<Rightarrow> string \<Rightarrow> mv_call \<Rightarrow> mv_view \<Rightarrow> mv_view \<Rightarrow> bool" where
  "keeps_held i p c v v' \<longleftrightarrow> (\<not> is_group c \<and> mc_op (mv_call_command c) \<noteq> p \<longrightarrow>
     (\<forall>t. vv_tasks v i = Some t \<longrightarrow> mv_operator t = Some p \<longrightarrow> vv_tasks v' i = Some t))"

interpretation pgm_held: mv_relation "pg_mv_ports u" pg_mv_view "keeps_held i p c" c
proof unfold_locales
  fix w x et tr f q s rep s'
  assume "mv_mutate (pg_mv_ports u) w x et tr q s = (rep, s')" "movement_store.runs pg_mv_view tr f"
    "mv_action x f q" "mc_op x = mc_op (mv_call_command c)" "is_group c \<or> own x f"
  then show "keeps_held i p c (pg_mv_view s) (pg_mv_view s')"
    using pgm.mutate_owner [of u w x et tr q s rep s' f i] by (auto simp: keeps_held_def)
qed (auto simp: keeps_held_def)

lemma run_mvs_steps: "mv_step\<^sup>*\<^sup>* (pg_mv_view s) (pg_mv_view (run_mvs (pg_mv_ports u) cs s))"
proof (induction cs arbitrary: s)
  case (Cons c cs)
  obtain rep s1 where run: "run_mv (pg_mv_ports u) c s = (rep, s1)" by fastforce
  from rtranclp_trans [OF pgm_history.run_mv_R [OF run] Cons.IH] run show ?case by simp
qed simp

lemma run_mvs_held:
  assumes "vv_tasks (pg_mv_view s) i = Some t" and "mv_operator t = Some p"
    and "\<forall>c \<in> set cs. \<not> is_group c \<and> mc_op (mv_call_command c) \<noteq> p"
  shows "vv_tasks (pg_mv_view (run_mvs (pg_mv_ports u) cs s)) i = Some t"
  using assms
proof (induction cs arbitrary: s)
  case (Cons c cs)
  obtain rep s1 where run: "run_mv (pg_mv_ports u) c s = (rep, s1)" by fastforce
  from pgm_held.run_mv_R [OF run, of i p] Cons.prems have "vv_tasks (pg_mv_view s1) i = Some t"
    by (simp add: keeps_held_def)
  from Cons.IH [OF this] Cons.prems run show ?case by simp
qed simp

lemma finite_mv_tasks: "finite (dom (vv_tasks (mv_db d)))"
proof -
  have "dom (vv_tasks (mv_db d)) = fst ` set (movement_task d)"
    by (auto simp: mv_db_def dom_map_of_conv_image_fst [symmetric])
  then show ?thesis by simp
qed

lemma pg_mv_view_eq: "pg_mv_view s = mv_db (w_db s)"
  by (simp add: pg_mv_view_def of_db_def)

fun confirm_of :: "mv_call \<Rightarrow> (mv_command \<times> int64) option" where
  "confirm_of (PutawayConfirm x q) = Some (x, q)"
| "confirm_of (PickingConfirm x q) = Some (x, q)"
| "confirm_of (ReplenishmentConfirm x q) = Some (x, q)"
| "confirm_of _ = None"

lemma confirm_mutate:
  assumes "confirm_of c = Some (x, q)"
  obtains w et where "run_mv P c = mv_mutate P w x et (mv_timed P (move (mc_op x) q (mc_base x))) q"
  using assms
  by (cases c) (auto simp: fun_eq_iff putaway_confirm_def picking_confirm_def replenishment_confirm_def)

text \<open>The effect of a mutation that answered with a value on a fresh key.\<close>

lemma pg_mutate_changed:
  assumes "mv_mutate (pg_mv_ports u) w x et (mv_timed (pg_mv_ports u) f) q s = (rep, s')"
    and "reply_value rep = Some t'" and "mv_action x f q" and "mv_keys_of (w_db s) (mc_key x) = None"
  obtains r now eid ts st where "map_of (movement_task (w_db s)) (mc_task x) = Some r"
    and "mt_workflow r = w" "mt_warehouse r = ac_warehouse (mc_actor x)"
    and "f now (scan_movement (mc_task x) r) = Inr t'"
    and "stock_after t' q (stock_of (w_db s)) = Some st"
    and "mv_db (w_db s') = \<lparr>vv_tasks = (vv_tasks (mv_db (w_db s)))(mc_task x \<mapsto> persisted (scan_movement (mc_task x) r) t'),
       vv_keys = (mv_keys_of (w_db s))(mc_key x \<mapsto> mv_result w x t'),
       vv_outbox = outbox_of (w_db s) @ [mv_event w x et eid ts t' (mv_payload t' q)], vv_stock = st\<rparr>"
proof -
  have "movement_store.keeps_work f"
    using action_work [OF assms(3)] by (auto simp: pgm.keeps_work_def)
  from pgm.mv_mutate_cases [OF assms(1) pgm.runs_timed this] assms(2) obtain e where
    "mv_effect w x et f q (pg_mv_view s) t' e (pg_mv_view s')" by auto
  then show thesis
  proof cases
    case replayed
    with assms(4) show thesis by (simp add: pg_mv_view_eq mv_db_def)
  next
    case (changed t now e' eid ts st)
    then obtain r where "map_of (movement_task (w_db s)) (mc_task x) = Some r" "t = scan_movement (mc_task x) r"
      by (auto simp: pg_mv_view_eq mv_db_def)
    with changed show thesis
      by (intro that [of r now st eid ts]) (simp_all add: pg_mv_view_eq mv_db_def scan_movement_def)
  qed
qed

lemma scan_movement_sel [simp]:
  "mv_id (scan_movement i r) = i" "mv_workflow (scan_movement i r) = mt_workflow r"
  "mv_status (scan_movement i r) = mt_status r" "mv_warehouse (scan_movement i r) = mt_warehouse r"
  "mv_operator (scan_movement i r) = mt_operator r" "mv_version (scan_movement i r) = mt_version r"
  "mv_source (scan_movement i r) = mt_source r" "mv_dest (scan_movement i r) = mt_dest r"
  "mv_item (scan_movement i r) = mt_item r" "mv_required (scan_movement i r) = mt_required r"
  "mv_done (scan_movement i r) = mt_done r" "mv_source_ok (scan_movement i r) = mt_source_ok r"
  "mv_dest_ok (scan_movement i r) = mt_dest_ok r" "mv_item_ok (scan_movement i r) = mt_item_ok r"
  by (simp_all add: scan_movement_def)

lemma row_of_view:
  assumes "vv_tasks (mv_db d) i = Some (persisted t0 t)"
  shows "\<exists>r'. map_of (movement_task d) i = Some r' \<and> mt_done r' = mv_done t \<and> mt_status r' = mv_status t
      \<and> mt_version r' = mv_version t"
proof -
  from assms obtain z where "map_of (movement_task d) i = Some z" and "scan_movement i z = persisted t0 t"
    by (auto simp: mv_db_def)
  from this(1) arg_cong [OF this(2), of mv_done] arg_cong [OF this(2), of mv_status]
    arg_cong [OF this(2), of mv_version] show ?thesis by (simp add: persisted_def)
qed

section \<open>Keys\<close>

definition is_start :: "mv_call \<Rightarrow> bool" where
  "is_start c \<longleftrightarrow> c = PutawayStart (mv_call_command c) \<or> c = PickingStart (mv_call_command c)"

definition mutates :: "'s mv_ports \<Rightarrow> mv_command \<Rightarrow> 's \<Rightarrow> movement reply \<times> 's \<Rightarrow> bool" where
  "mutates P x s r \<longleftrightarrow> (\<exists>w et f q. mv_action x f q \<and>
     (r = mv_mutate P w x et (mv_timed P f) q s \<or> r = mv_mutate P w x et (late P f) q s))"

lemma mutates_intros:
  "mv_action x f q \<Longrightarrow> mutates P x s (mv_mutate P w x et (mv_timed P f) q s)"
  "mv_action x f q \<Longrightarrow> mutates P x s (mv_mutate P w x et (late P f) q s)"
  by (auto simp: mutates_def)

lemma run_mv_mutates: "\<not> is_start c \<Longrightarrow> mutates P (mv_call_command c) s (run_mv P c s)"
  by (cases c) (auto simp: is_start_def putaway_claim_def putaway_validate_source_def putaway_validate_lpn_def
      putaway_validate_item_def putaway_validate_lot_def putaway_validate_destination_def
      putaway_confirm_def picking_claim_def picking_validate_location_def picking_resolve_barcode_def
      picking_validate_lot_def picking_validate_destination_def picking_confirm_def
      replenishment_validate_source_def replenishment_validate_destination_def
      replenishment_validate_item_def replenishment_confirm_def putaway_confirm_group_def
      picking_finish_def intro!: mutates_intros mv_action.intros)

lemma mutates_claim:
  "mutates P x s (putaway_claim P x s)" "mutates P x s (picking_claim P x s)"
  unfolding putaway_claim_def picking_claim_def by (rule mutates_intros(1), rule mv_action.intros(1))+

lemma run_mv_start:
  assumes "is_start c"
  shows "\<exists>w et r. mutates P (mv_call_command c) s r \<and> run_mv P c s = start_after P w et (mv_call_command c) r"
proof -
  from assms consider x where "c = PutawayStart x" | x where "c = PickingStart x"
    by (auto simp: is_start_def)
  then show ?thesis
  proof cases
    case 1
    then have "mutates P (mv_call_command c) s (putaway_claim P x s) \<and> run_mv P c s
        = start_after P Putaway ''PutawayTaskStarted'' (mv_call_command c) (putaway_claim P x s)"
      by (simp add: putaway_start_def mutates_claim)
    then show ?thesis by (intro exI)
  next
    case 2
    then have "mutates P (mv_call_command c) s (picking_claim P x s) \<and> run_mv P c s
        = start_after P Picking ''PickingTaskStarted'' (mv_call_command c) (picking_claim P x s)"
      by (simp add: picking_start_def mutates_claim)
    then show ?thesis by (intro exI)
  qed
qed

context movement_store
begin

lemma mutates_effect:
  assumes "mutates P x s (rep, s')"
  shows "(\<exists>w et f q t e. mv_effect w x et f q (view s) t e (view s') \<and> reply_value rep \<in> {None, Some t})
    \<or> view s' = view s \<and> reply_value rep = None"
proof -
  from assms obtain w et tr f q where act: "mv_action x f q" and tr: "runs tr f"
    and run: "mv_mutate P w x et tr q s = (rep, s')"
    using runs_timed runs_late unfolding mutates_def by metis
  have "keeps_work f" using action_work [OF act] by (auto simp: keeps_work_def)
  from mv_mutate_cases [OF run tr this] show ?thesis by blast
qed

end

lemma effect_on_used_key:
  "mv_effect w x et f q v t e v' \<Longrightarrow> vv_keys v (mc_key x) = Some r \<Longrightarrow>
    v' = v \<and> mr_result r = Some t \<and> mr_warehouse r = ac_warehouse (mc_actor x)
    \<and> mr_operator r = ac_operator (mc_actor x) \<and> mr_workflow r = w \<and> mv_id t = mc_task x"
  by (erule mv_effect.cases) auto

lemma effect_keeps_mv_keys: "mv_effect w x et f q v t e v' \<Longrightarrow> vv_keys v k = Some r \<Longrightarrow> vv_keys v' k = Some r"
  by (erule mv_effect.cases) auto

lemma effect_records_key:
  "mv_effect w x et f q v t e v' \<Longrightarrow> \<exists>r. vv_keys v' (mc_key x) = Some r \<and> mr_result r = Some t"
  by (erule mv_effect.cases) (auto simp: mv_result_def)

lemma steps_keep_mv_keys: "mv_step\<^sup>*\<^sup>* v v' \<Longrightarrow> vv_keys v k = Some r \<Longrightarrow> vv_keys v' k = Some r"
  by (induction rule: rtranclp_induct) (auto elim!: mv_step.cases dest: effect_keeps_mv_keys)

section \<open>Properties\<close>

text \<open>C7: A confirmed move. When the confirmation of a putaway, a pick or a replenishment answers
  with a value on a fresh idempotency key, the command named the stored version and its
  operator holds the task, source and destination were validated, the quantity is positive and
  within what remains, the task counts it and is completed exactly when nothing remains, the
  stock of the item fell at the source and rose at the destination by that quantity and is the
  same everywhere else, and one event of the task was appended to the outbox.\<close>

theorem confirm_moves_stock:
  assumes "run_mv (pg_mv_ports u) c s = (rep, s')" and "reply_value rep = Some t"
    and "confirm_of c = Some (x, q)" and "mv_keys_of (w_db s) (mc_key x) = None"
    and "map_of (movement_task (w_db s)) (mc_task x) = Some r"
    and "0 \<le> sint (mt_done r) \<and> sint (mt_done r) \<le> sint (mt_required r)"
  shows "mt_version r = mc_base_version x \<and> mt_operator r = Some (ac_operator (mc_actor x))
    \<and> mt_source_ok r \<and> mt_dest_ok r \<and> 0 < sint q \<and> sint q \<le> sint (mt_required r) - sint (mt_done r)
    \<and> (\<exists>r'. map_of (movement_task (w_db s')) (mc_task x) = Some r'
         \<and> sint (mt_done r') = sint (mt_done r) + sint q \<and> mt_version r' = mt_version r + 1
         \<and> mt_status r' = (if sint (mt_done r') = sint (mt_required r) then MvCompleted else MvPartiallyCompleted))
    \<and> (\<forall>k. stock_at (stock_of (w_db s')) k = stock_at (stock_of (w_db s)) k
         - (if k = (mt_warehouse r, mt_source r, mt_item r) then sint q else 0)
         + (if k = (mt_warehouse r, mt_dest r, mt_item r) then sint q else 0))
    \<and> (\<exists>e. outbox_of (w_db s') = outbox_of (w_db s) @ [e] \<and> ev_agg_id e = mc_task x)"
proof -
  obtain w et where "run_mv (pg_mv_ports u) c
      = mv_mutate (pg_mv_ports u) w x et (mv_timed (pg_mv_ports u) (move (mc_op x) q (mc_base x))) q"
    by (rule confirm_mutate [OF assms(3)])
  with assms(1) have run: "mv_mutate (pg_mv_ports u) w x et
      (mv_timed (pg_mv_ports u) (move (mc_op x) q (mc_base x))) q s = (rep, s')" by simp
  let ?t0 = "scan_movement (mc_task x) r"
  from pg_mutate_changed [OF run assms(2) mv_action.intros(7) assms(4)] obtain r0 now eid ts st where
    r0: "map_of (movement_task (w_db s)) (mc_task x) = Some r0"
    and "mt_workflow r0 = w" "mt_warehouse r0 = ac_warehouse (mc_actor x)"
    and mv: "move (mc_op x) q (mc_base x) now (scan_movement (mc_task x) r0) = Inr t"
    and st: "stock_after t q (stock_of (w_db s)) = Some st"
    and db0: "mv_db (w_db s') = \<lparr>vv_tasks = (vv_tasks (mv_db (w_db s)))(mc_task x \<mapsto> persisted (scan_movement (mc_task x) r0) t),
       vv_keys = (mv_keys_of (w_db s))(mc_key x \<mapsto> mv_result w x t),
       vv_outbox = outbox_of (w_db s) @ [mv_event w x et eid ts t (mv_payload t q)], vv_stock = st\<rparr>" .
  have r: "r0 = r" using r0 assms(5) by simp
  note mv = mv [unfolded r] and db = db0 [unfolded r]
  have "mv_quantities ?t0" using assms(6) by (simp add: mv_quantities_def)
  note m = move_ok [OF mv this] and work = mv_work_sel [OF m(1)]
  have "\<exists>r'. map_of (movement_task (w_db s')) (mc_task x) = Some r' \<and> mt_done r' = mv_done t
      \<and> mt_status r' = mv_status t \<and> mt_version r' = mv_version t"
    by (rule row_of_view [where ?t0.0 = ?t0]) (simp add: db)
  then have row: "\<exists>r'. map_of (movement_task (w_db s')) (mc_task x) = Some r'
         \<and> sint (mt_done r') = sint (mt_done r) + sint q \<and> mt_version r' = mt_version r + 1
         \<and> mt_status r' = (if sint (mt_done r') = sint (mt_required r) then MvCompleted else MvPartiallyCompleted)"
    using m(4,6,9) work(7) by fastforce
  have "stock_of (w_db s') = st" using arg_cong [OF db, of vv_stock] by (simp add: mv_db_def)
  then have stock: "\<forall>k. stock_at (stock_of (w_db s')) k = stock_at (stock_of (w_db s)) k
         - (if k = (mt_warehouse r, mt_source r, mt_item r) then sint q else 0)
         + (if k = (mt_warehouse r, mt_dest r, mt_item r) then sint q else 0)"
    using stock_after_at [OF st] m(3) work by (simp add: place_def moved_def)
  have out: "outbox_of (w_db s') = outbox_of (w_db s) @ [mv_event w x et eid ts t (mv_payload t q)]"
    using arg_cong [OF db, of vv_outbox] by (simp add: mv_db_def)
  moreover have "sint q \<le> sint (mt_required r) - sint (mt_done r)"
    using m(4,5) work(7) by (simp add: mv_quantities_def)
  moreover have "mt_source_ok r" "mt_dest_ok r" using m(2) by (simp_all add: validated_def)
  moreover have "ev_agg_id (mv_event w x et eid ts t (mv_payload t q)) = mc_task x"
    using work(1) by (simp add: mv_event_def)
  ultimately show ?thesis using m(3,7,8) row stock by simp
qed

text \<open>C6: Conservation of stock. Over any sequence of putaway, picking and replenishment
  commands, by whomever, replayed or not, and under whatever database faults, the stock at a
  place plus what the tasks have taken from it minus what they have brought there never
  changes; no stock becomes negative, no task does more than it requires, and no task has
  moved anything before its locations were validated.\<close>

theorem stock_conserved:
  assumes "mv_inv (mv_db (w_db s))"
  shows "ledger (mv_db (w_db (run_mvs (pg_mv_ports u) cs s))) k = ledger (mv_db (w_db s)) k
    \<and> mv_inv (mv_db (w_db (run_mvs (pg_mv_ports u) cs s)))"
  using mv_history_ledger [OF run_mvs_steps [of s u cs], of k] assms finite_mv_tasks
  by (simp add: pg_mv_view_eq)

text \<open>A held movement task is safe. While an operator holds a task, no sequence of commands
  of other operators changes it, as long as none of them is the completion of a putaway group,
  which does not look at the operator.\<close>

theorem held_task_untouched:
  assumes "map_of (movement_task (w_db s)) i = Some r" and "mt_operator r = Some p"
    and "\<forall>c \<in> set cs. \<not> is_group c \<and> ac_operator (mc_actor (mv_call_command c)) \<noteq> p"
  shows "map_option (scan_movement i) (map_of (movement_task (w_db (run_mvs (pg_mv_ports u) cs s))) i)
    = Some (scan_movement i r)"
  using run_mvs_held [of s i "scan_movement i r" p cs u] assms by (simp add: pg_mv_view_eq mv_db_def)

text \<open>A retried movement command. When a command other than a start has answered with a
  value, then after any further commands the same command, if it answers with a value, answers
  with the same task and changes neither tasks, nor stock, nor keys, nor outbox.\<close>

theorem mv_retry_is_idempotent:
  assumes "run_mv (pg_mv_ports u) c s = (rep, s1)" and "reply_value rep = Some t"
    and "\<not> is_start c"
    and "run_mv (pg_mv_ports u) c (run_mvs (pg_mv_ports u) cs s1) = (rep2, s3)"
    and "reply_value rep2 = Some t2"
  shows "t2 = t \<and> mv_db (w_db s3) = mv_db (w_db (run_mvs (pg_mv_ports u) cs s1))"
proof -
  let ?x = "mv_call_command c" and ?s2 = "run_mvs (pg_mv_ports u) cs s1"
  from pgm.mutates_effect [of u ?x s rep s1] run_mv_mutates [OF assms(3), of "pg_mv_ports u" s] assms(1,2)
  obtain w et f q e where "mv_effect w ?x et f q (pg_mv_view s) t e (pg_mv_view s1)" by auto
  from effect_records_key [OF this] obtain r where
    "vv_keys (pg_mv_view s1) (mc_key ?x) = Some r" and r: "mr_result r = Some t" by auto
  from steps_keep_mv_keys [OF run_mvs_steps this(1)]
  have k: "vv_keys (pg_mv_view ?s2) (mc_key ?x) = Some r" .
  from pgm.mutates_effect [of u ?x ?s2 rep2 s3] run_mv_mutates [OF assms(3), of "pg_mv_ports u" ?s2] assms(4,5)
  obtain w2 et2 f2 q2 e2 where "mv_effect w2 ?x et2 f2 q2 (pg_mv_view ?s2) t2 e2 (pg_mv_view s3)" by auto
  from effect_on_used_key [OF this k] r show ?thesis by (simp add: pg_mv_view_eq)
qed

text \<open>A foreign key is refused. A command that carries an idempotency key recorded for
  another operator, another warehouse or another task never answers with a value and changes
  nothing.\<close>

theorem foreign_key_refused:
  assumes "run_mv (pg_mv_ports u) c s = (rep, s')"
    and "mv_keys_of (w_db s) (mc_key (mv_call_command c)) = Some prev"
    and "mr_operator prev \<noteq> ac_operator (mc_actor (mv_call_command c))
      \<or> mr_warehouse prev \<noteq> ac_warehouse (mc_actor (mv_call_command c))
      \<or> map_option mv_id (mr_result prev) \<noteq> Some (mc_task (mv_call_command c))"
  shows "reply_value rep = None \<and> mv_db (w_db s') = mv_db (w_db s)"
proof -
  let ?x = "mv_call_command c"
  have k: "vv_keys (pg_mv_view s) (mc_key ?x) = Some prev" using assms(2) by (simp add: pg_mv_view_eq mv_db_def)
  have main: "reply_value r = None \<and> pg_mv_view s1 = pg_mv_view s"
    if "mutates (pg_mv_ports u) ?x s (r, s1)" for r s1
    using pgm.mutates_effect [OF that] effect_on_used_key [OF _ k] assms(3) by fastforce
  show ?thesis
  proof (cases "is_start c")
    case False
    from main [of rep s'] run_mv_mutates [OF False, of "pg_mv_ports u" s] assms(1) show ?thesis
      by (simp add: pg_mv_view_eq)
  next
    case True
    from run_mv_start [OF True, of "pg_mv_ports u" s] obtain w et r s1 where
      "mutates (pg_mv_ports u) ?x s (r, s1)"
      and start: "run_mv (pg_mv_ports u) c s = start_after (pg_mv_ports u) w et ?x (r, s1)" by auto
    from main [OF this(1)] start assms(1) show ?thesis
      by (cases r) (auto simp: start_after_def pg_mv_view_eq)
  qed
qed

text \<open>C8: Completing a finished pick. Once the last pick has set a picking task to completed, the
  completion command of the service is refused and changes nothing: the guard it runs only
  accepts tasks in progress.\<close>

theorem completed_pick_cannot_finish:
  assumes "run_mv (pg_mv_ports u) (PickingFinish x) s = (rep, s')"
    and "map_of (movement_task (w_db s)) (mc_task x) = Some r" and "mt_status r = MvCompleted"
    and "mv_keys_of (w_db s) (mc_key x) = None"
  shows "reply_value rep = None \<and> mv_db (w_db s') = mv_db (w_db s)"
proof -
  let ?f = "picking_complete (mc_op x) (mc_base x)"
  have run: "mv_mutate (pg_mv_ports u) Picking x ''PickingTaskCompleted'' (late (pg_mv_ports u) ?f) 0 s = (rep, s')"
    using assms(1) by (simp add: picking_finish_def)
  have "movement_store.keeps_work ?f"
    using action_work [OF mv_action.intros(9) [of x]] by (auto simp: pgm.keeps_work_def)
  note cases = pgm.mv_mutate_cases [OF run pgm.runs_late this]
  have "\<not> mv_effect Picking x ''PickingTaskCompleted'' ?f 0 (pg_mv_view s) t e v" for t e v
  proof
    assume "mv_effect Picking x ''PickingTaskCompleted'' ?f 0 (pg_mv_view s) t e v"
    then show False
      by cases (use assms(2-4) in \<open>auto simp: pg_mv_view_eq mv_db_def picking_complete_def
        guard_completion_def mv_guard_def const_defs split: if_splits sum.splits\<close>)
  qed
  with cases show ?thesis by (auto simp: pg_mv_view_eq)
qed

section \<open>Sample runs\<close>

definition ex_movement :: movement_row where
  "ex_movement = \<lparr>mt_workflow = ''PICKING'', mt_status = ''IN_PROGRESS'', mt_warehouse = ''WH-01'',
     mt_operator = Some ''A'', mt_version = 4, mt_source = ''PICK-01'', mt_dest = ''STAGE-01'',
     mt_item = ''ITEM-001'', mt_barcode = ''B1'', mt_required = 5, mt_done = 0, mt_source_ok = True,
     mt_dest_ok = True, mt_item_ok = True, mt_updated = 5\<rparr>"

definition ex_mv_tables :: "movement_row \<Rightarrow> tables" where
  "ex_mv_tables r = empty_tables\<lparr>warehouse_task := [(''M1'', ex_row)], movement_task := [(''M1'', r)],
     warehouse_location := map (\<lambda>(l, x). ((''WH-01'', l), x)) seed_locations,
     inventory_location_balance := [((''WH-01'', ''PICK-01'', ''ITEM-001''),
        \<lparr>st_quantity = 15, st_version = 1, st_updated = 0\<rparr>)]\<rparr>"

definition ex_mv_command :: "string \<Rightarrow> string \<Rightarrow> int64 \<Rightarrow> mv_command" where
  "ex_mv_command p k v = \<lparr>mc_id = 7, mc_key = k, mc_task = ''M1'', mc_base_version = v, mc_actor = ex_actor p\<rparr>"

abbreviation ex_mv_ports :: "world mv_ports" where
  "ex_mv_ports \<equiv> pg_mv_ports (\<lambda>_. ''U'')"

definition ex_mv_start :: world where
  "ex_mv_start = ex_world (ex_mv_tables ex_movement)"

definition ex_pick :: mv_call where
  "ex_pick = PickingConfirm (ex_mv_command ''A'' ''k'' 4) 5"

definition ex_picked :: world where
  "ex_picked = snd (run_mv ex_mv_ports ex_pick ex_mv_start)"

definition mv_answers :: "mv_call \<Rightarrow> world \<Rightarrow> bool" where
  "mv_answers c s \<longleftrightarrow> reply_value (fst (run_mv ex_mv_ports c s)) \<noteq> None"

lemma mv_answersD: "mv_answers c s \<Longrightarrow>
    run_mv ex_mv_ports c s = (fst (run_mv ex_mv_ports c s), snd (run_mv ex_mv_ports c s))
    \<and> reply_value (fst (run_mv ex_mv_ports c s)) = Some (the (reply_value (fst (run_mv ex_mv_ports c s))))"
  by (auto simp: mv_answers_def)

lemma ex_pick_runs:
  "case run_mv ex_mv_ports ex_pick ex_mv_start of (r1, s1) \<Rightarrow>
     reply_value r1 \<noteq> None \<and> mv_answers ex_pick (run_mvs ex_mv_ports [] s1)
     \<and> (mv_keys_of (w_db s1) ''k'' \<noteq> None \<and> mr_operator (the (mv_keys_of (w_db s1) ''k'')) = ''A''
        \<and> map_of (movement_task (w_db s1)) ''M1'' \<noteq> None
        \<and> mt_status (the (map_of (movement_task (w_db s1)) ''M1'')) = MvCompleted
        \<and> mv_keys_of (w_db s1) ''l'' = None)"
  by code_simp

lemmas ex_pick_facts = ex_pick_runs [unfolded case_prod_beta, folded ex_picked_def]

lemma ex_mv_answers: "mv_answers ex_pick ex_mv_start" "mv_answers ex_pick (run_mvs ex_mv_ports [] ex_picked)"
  using ex_pick_facts by (simp_all add: mv_answers_def)

lemma ex_mv_inv: "mv_inv (mv_db (w_db ex_mv_start))"
  by (auto simp: mv_inv_def mv_db_def ex_mv_start_def ex_world_def ex_mv_tables_def ex_movement_def
      stock_of_def stock_at_def scan_movement_def mv_ok_def mv_quantities_def empty_tables_def split: option.splits if_splits)

lemma ex_mv_tables_run:
  "mv_keys_of (w_db ex_mv_start) (mc_key (ex_mv_command ''A'' ''k'' 4)) = None"
  "map_of (movement_task (w_db ex_mv_start)) ''M1'' = Some ex_movement"
  by (simp_all add: ex_mv_start_def ex_world_def ex_mv_tables_def empty_tables_def mv_keys_of_def
      command_by_key_def)

theorem confirm_moves_stock_witness:
  "mt_version ex_movement = 4 \<and> mt_operator ex_movement = Some ''A'' \<and> 0 < sint (5 :: int64)
    \<and> stock_at (stock_of (w_db ex_picked)) (''WH-01'', ''PICK-01'', ''ITEM-001'') = 10
    \<and> stock_at (stock_of (w_db ex_picked)) (''WH-01'', ''STAGE-01'', ''ITEM-001'') = 5"
  using confirm_moves_stock [where c = ex_pick and x = "ex_mv_command ''A'' ''k'' 4" and q = 5
      and r = ex_movement, OF mv_answersD [OF ex_mv_answers(1), THEN conjunct1]
        mv_answersD [OF ex_mv_answers(1), THEN conjunct2] _ ex_mv_tables_run(1)]
    ex_mv_tables_run(2)
  by (simp add: ex_pick_def ex_picked_def ex_mv_command_def ex_movement_def ex_actor_def
      ex_mv_start_def ex_world_def ex_mv_tables_def stock_of_def stock_at_def)

theorem stock_conserved_witness:
  "ledger (mv_db (w_db (run_mvs ex_mv_ports [ex_pick] ex_mv_start))) (''WH-01'', ''PICK-01'', ''ITEM-001'')
   = ledger (mv_db (w_db ex_mv_start)) (''WH-01'', ''PICK-01'', ''ITEM-001'')"
  using stock_conserved [OF ex_mv_inv] by blast

theorem held_task_untouched_witness:
  "map_option (scan_movement ''M1'') (map_of (movement_task (w_db (run_mvs ex_mv_ports
     [PickingConfirm (ex_mv_command ''B'' ''k'' 4) 5, PickingClaim (ex_mv_command ''B'' ''l'' 4)] ex_mv_start))) ''M1'')
   = Some (scan_movement ''M1'' ex_movement)"
  by (rule held_task_untouched [where p = "''A''"])
    (simp_all add: ex_mv_tables_run ex_movement_def is_group_def ex_mv_command_def ex_actor_def)

theorem mv_retry_is_idempotent_witness:
  "reply_value (fst (run_mv ex_mv_ports ex_pick (run_mvs ex_mv_ports [] ex_picked)))
   = reply_value (fst (run_mv ex_mv_ports ex_pick ex_mv_start))"
proof -
  have "\<not> is_start ex_pick" by (simp add: is_start_def ex_pick_def)
  from mv_retry_is_idempotent [OF mv_answersD [OF ex_mv_answers(1), THEN conjunct1]
      mv_answersD [OF ex_mv_answers(1), THEN conjunct2] this, folded ex_picked_def,
      OF mv_answersD [OF ex_mv_answers(2), THEN conjunct1]
      mv_answersD [OF ex_mv_answers(2), THEN conjunct2]]
  show ?thesis using mv_answersD [OF ex_mv_answers(1), THEN conjunct2]
      mv_answersD [OF ex_mv_answers(2), THEN conjunct2] by metis
qed

lemma ex_picked_run:
  "mv_keys_of (w_db ex_picked) ''k'' = Some (the (mv_keys_of (w_db ex_picked) ''k''))"
  "mr_operator (the (mv_keys_of (w_db ex_picked) ''k'')) = ''A''"
  "map_of (movement_task (w_db ex_picked)) ''M1'' = Some (the (map_of (movement_task (w_db ex_picked)) ''M1''))"
  "mt_status (the (map_of (movement_task (w_db ex_picked)) ''M1'')) = MvCompleted"
  "mv_keys_of (w_db ex_picked) ''l'' = None"
  using ex_pick_facts by auto

theorem foreign_key_refused_witness:
  "reply_value (fst (run_mv ex_mv_ports (PickingConfirm (ex_mv_command ''B'' ''k'' 4) 5) ex_picked)) = None"
  using foreign_key_refused [where c = "PickingConfirm (ex_mv_command ''B'' ''k'' 4) 5" and u = "\<lambda>_. ''U''"
      and s = ex_picked, OF prod.collapse [symmetric]] ex_picked_run(1,2)
  by (simp add: ex_mv_command_def ex_actor_def)

theorem completed_pick_cannot_finish_witness:
  "reply_value (fst (run_mv ex_mv_ports (PickingFinish (ex_mv_command ''A'' ''l'' 5)) ex_picked)) = None"
  using completed_pick_cannot_finish [where x = "ex_mv_command ''A'' ''l'' 5" and u = "\<lambda>_. ''U''"
      and s = ex_picked, OF prod.collapse [symmetric] _ ex_picked_run(4)] ex_picked_run(3,5)
  by (simp add: ex_mv_command_def)

section \<open>Behaviour worth knowing\<close>

text \<open>A claim reopens a task that was completed.\<close>

lemma claim_reopens:
  "mv_version t = base \<Longrightarrow> mv_operator t = Some p \<Longrightarrow> mv_status t = MvCompleted \<Longrightarrow>
    mv_claim p base now t = Inr (touch now (t\<lparr>mv_operator := Some p, mv_status := MvAssigned\<rparr>))"
  by (simp add: mv_claim_def const_defs)

text \<open>Starting a task twice with the same command: the claim is replayed and returns the task
  as it was after the claim, and the start that follows it has a fresh key, so it meets a
  newer version.\<close>

definition ex_new_putaway :: world where
  "ex_new_putaway = ex_world (ex_mv_tables (ex_movement\<lparr>mt_workflow := ''PUTAWAY'', mt_status := ''NEW'',
     mt_operator := None, mt_version := 1\<rparr>))"

definition ex_distinct_ports :: "world mv_ports" where
  "ex_distinct_ports = pg_mv_ports (\<lambda>n. replicate n (CHR ''U''))"

lemma started_twice_conflicts:
  "case run_mv ex_distinct_ports (PutawayStart (ex_mv_command ''A'' ''k'' 1)) ex_new_putaway of (r1, s1) \<Rightarrow>
     reply_error r1 = None
     \<and> reply_error (fst (run_mv ex_distinct_ports (PutawayStart (ex_mv_command ''A'' ''k'' 1)) s1)) = Some ErrMvVersion"
  by code_simp

text \<open>Completing a putaway group checks neither operator nor version nor what remains.\<close>

lemma group_ignores_operator:
  "mv_status t = MvPartiallyCompleted \<Longrightarrow>
    group_complete now t = Inr (touch now (t\<lparr>mv_status := MvCompleted\<rparr>))"
  by (simp add: group_complete_def)

end
