(* ===== verification/Inventory_Service.thy ===== *)
theory Inventory_Service
  imports Inventory_Domain Movement_Service
begin

text \<open>
  The inventory service of \<open>internal/inventory/application/service.go\<close> over the ports of
  \<open>internal/inventory/ports/inventory.go\<close>: balances, transfers and cycle counts.
\<close>

section \<open>Ports\<close>

text \<open>The stored result is a JSON document; \<open>None\<close> stands for bytes that do not decode.\<close>

record inv_result =
  ir_id :: uuid
  ir_warehouse :: string
  ir_operator :: string
  ir_result :: "inventory_document option"

record 's inv_ports =
  ip_search :: "string \<Rightarrow> string \<Rightarrow> ('s, balance list) prog"
  ip_balances :: "string \<Rightarrow> string \<Rightarrow> string \<Rightarrow> ('s, balance list) prog"
  ip_movements :: "string \<Rightarrow> string \<Rightarrow> string \<Rightarrow> ('s, stock_move list) prog"
  ip_validate :: "string \<Rightarrow> string \<Rightarrow> string \<Rightarrow> string \<Rightarrow> int64 \<Rightarrow> ('s, unit) prog"
  ip_transfer :: "transfer \<Rightarrow> ('s, unit) prog"
  ip_list_counts :: "string \<Rightarrow> string \<Rightarrow> ('s, count_task list) prog"
  ip_get_count :: "string \<Rightarrow> ('s, count_task) prog"
  ip_get_count_for_update :: "string \<Rightarrow> ('s, count_task) prog"
  ip_save_count :: "count_task \<Rightarrow> ('s, unit) prog"
  ip_find :: "string \<Rightarrow> ('s, inv_result option) prog"
  ip_save_command :: "string \<Rightarrow> string \<Rightarrow> inv_result \<Rightarrow> ('s, unit) prog"
  ip_transfer_tx :: "('s, transfer \<times> envelope option) prog \<Rightarrow> ('s, transfer \<times> envelope option) prog"
  ip_count_tx :: "('s, count_task \<times> envelope option) prog \<Rightarrow> ('s, count_task \<times> envelope option) prog"
  ip_append :: "envelope \<Rightarrow> ('s, unit) prog"
  ip_audit :: "string \<Rightarrow> string \<Rightarrow> actor \<Rightarrow> json \<Rightarrow> ('s, unit) prog"
  ip_publish :: "envelope \<Rightarrow> ('s, unit) prog"
  ip_invalidate :: "string \<Rightarrow> string \<Rightarrow> string \<Rightarrow> ('s, unit) prog"
  ip_now :: "('s, time) prog"
  ip_new_uuid :: "('s, uuid) prog"
  ip_uuid_string :: "uuid \<Rightarrow> string"

record inv_command =
  ic_id :: uuid
  ic_key :: string
  ic_base_version :: int64
  ic_actor :: actor

record transfer_command = inv_command +
  tc_source :: string
  tc_dest :: string
  tc_item :: string
  tc_lot :: string
  tc_quantity :: int64

definition key_context_mismatch :: err where
  [err_defs]: "key_context_mismatch =
     DomainError ''IDEMPOTENCY_KEY_REUSED'' ''Idempotency key context mismatch'' False"

definition transfer_pending :: err where
  [err_defs]: "transfer_pending = DomainError ''MESSAGING_PUBLISH_PENDING''
     ''Transfer committed; publication pending'' True"

definition count_denied :: err where
  [err_defs]: "count_denied = DomainError ''WAREHOUSE_ACCESS_DENIED'' ''Count access denied'' False"

section \<open>Balances and movements\<close>

definition normalize_balance :: "balance \<Rightarrow> balance" where
  "normalize_balance b = b\<lparr>bl_item_code := bl_item b, bl_location_code := bl_location b,
     bl_on_hand := bl_quantity b, bl_available := bl_quantity b - bl_reserved b,
     bl_uom := if bl_uom b = '''' then ''EA'' else bl_uom b\<rparr>"

definition normalize_balances :: "balance list \<Rightarrow> balance list" where
  "normalize_balances bs = map normalize_balance bs"

definition inv_search :: "'s inv_ports \<Rightarrow> string \<Rightarrow> actor \<Rightarrow> ('s, balance list) prog" where
  "inv_search P q a =
     bindP (ip_search P (ac_warehouse a) q) (\<lambda>bs. returnP (normalize_balances bs))"

definition inv_balances :: "'s inv_ports \<Rightarrow> string \<Rightarrow> string \<Rightarrow> actor \<Rightarrow> ('s, balance list) prog" where
  "inv_balances P item loc a =
     bindP (ip_balances P (ac_warehouse a) item loc) (\<lambda>bs. returnP (normalize_balances bs))"

definition inv_movements :: "'s inv_ports \<Rightarrow> string \<Rightarrow> string \<Rightarrow> actor \<Rightarrow> ('s, stock_move list) prog" where
  "inv_movements P item cursor a = ip_movements P (ac_warehouse a) item cursor"

section \<open>Transfers\<close>

definition validate_transfer :: "'s inv_ports \<Rightarrow> transfer_command \<Rightarrow> ('s, unit) prog" where
  "validate_transfer P x =
     ip_validate P (ac_warehouse (ic_actor x)) (tc_source x) (tc_dest x) (tc_item x) (tc_quantity x)"

text \<open>A query that fails gives no snapshot.\<close>

definition balance_snapshot ::
    "'s inv_ports \<Rightarrow> string \<Rightarrow> string \<Rightarrow> string \<Rightarrow> ('s, balance option) prog" where
  "balance_snapshot P w item loc s =
     (case ip_balances P w item loc s of
        (Inl e, s') \<Rightarrow> (Inr None, s')
      | (Inr [], s') \<Rightarrow> (Inr None, s')
      | (Inr (b # bs), s') \<Rightarrow> (Inr (Some (hd (normalize_balances (b # bs)))), s'))"

definition inv_event ::
    "string \<Rightarrow> string \<Rightarrow> string \<Rightarrow> int64 \<Rightarrow> actor \<Rightarrow> uuid \<Rightarrow> json \<Rightarrow> uuid \<Rightarrow> time \<Rightarrow> envelope" where
  "inv_event event_type agg i v a cause payload eid ts =
     \<lparr>ev_id = eid, ev_type = event_type, ev_version = 1, ev_agg_type = agg, ev_agg_id = i,
      ev_agg_version = v, ev_at = ts, ev_correlation = ac_correlation a, ev_cause = cause,
      ev_warehouse = ac_warehouse a, ev_operator = ac_operator a, ev_device = ac_device a,
      ev_topic = ''pda.inventory.events.v1'', ev_payload = RawJSON payload\<rparr>"

definition make_event ::
    "'s inv_ports \<Rightarrow> string \<Rightarrow> string \<Rightarrow> string \<Rightarrow> int64 \<Rightarrow> actor \<Rightarrow> uuid \<Rightarrow> json \<Rightarrow> ('s, envelope) prog" where
  "make_event P event_type agg i v a cause payload =
     bindP (ip_new_uuid P) (\<lambda>eid.
     bindP (ip_now P) (\<lambda>ts.
     returnP (inv_event event_type agg i v a cause payload eid ts)))"

definition new_transfer ::
    "'s inv_ports \<Rightarrow> transfer_command \<Rightarrow> balance option \<Rightarrow> balance option \<Rightarrow> time \<Rightarrow> transfer" where
  "new_transfer P x before_source before_dest ts =
     (let i = ip_uuid_string P (ic_id x) in
      zero_transfer\<lparr>tr_command := i, tr_transfer_id := i, tr_warehouse := ac_warehouse (ic_actor x),
        tr_source := tc_source x, tr_dest := tc_dest x, tr_item := tc_item x,
        tr_quantity := tc_quantity x, tr_status := ''COMPLETED'', tr_before_source := before_source,
        tr_before_dest := before_dest, tr_audit := i, tr_as_of := ts\<rparr>)"

text \<open>The closure after the move of stock: outbox, audit trail, idempotency record.\<close>

definition transfer_record ::
    "'s inv_ports \<Rightarrow> transfer_command \<Rightarrow> transfer \<Rightarrow> ('s, transfer \<times> envelope option) prog" where
  "transfer_record P x t =
     (let i = ip_uuid_string P (ic_id x); a = ic_actor x; payload = transfer_json t in
      bindP (make_event P ''StockTransferConfirmed'' ''StockTransfer'' i 1 a (ic_id x) payload) (\<lambda>e.
      bindP (liftE (validate e)) (\<lambda>_.
      bindP (ip_append P e) (\<lambda>_.
      bindP (ip_audit P ''StockTransferConfirmed'' i a payload) (\<lambda>_.
      bindP (ip_save_command P (ic_key x) ''TRANSFER''
         \<lparr>ir_id = ic_id x, ir_warehouse = ac_warehouse a, ir_operator = ac_operator a,
          ir_result = Some (TransferDoc t)\<rparr>) (\<lambda>_.
      returnP (t, Some e)))))))"

definition transfer_body ::
    "'s inv_ports \<Rightarrow> transfer_command \<Rightarrow> ('s, transfer \<times> envelope option) prog" where
  "transfer_body P x =
     (let w = ac_warehouse (ic_actor x); snap = (\<lambda>l. balance_snapshot P w (tc_item x) l) in
      bindP (validate_transfer P x) (\<lambda>_.
      bindP (snap (tc_source x)) (\<lambda>before_source.
      bindP (snap (tc_dest x)) (\<lambda>before_dest.
      bindP (ip_now P) (\<lambda>ts.
      let t = new_transfer P x before_source before_dest ts in
      bindP (ip_transfer P t) (\<lambda>_.
      bindP (snap (tc_source x)) (\<lambda>after_source.
      bindP (snap (tc_dest x)) (\<lambda>after_dest.
      transfer_record P x (t\<lparr>tr_after_source := after_source, tr_after_dest := after_dest\<rparr>)))))))))"

definition transfer_tx ::
    "'s inv_ports \<Rightarrow> transfer_command \<Rightarrow> ('s, transfer \<times> envelope option) prog" where
  "transfer_tx P x =
     bindP (ip_find P (ic_key x)) (\<lambda>found.
       case found of
         Some old \<Rightarrow>
           (if ir_warehouse old \<noteq> ac_warehouse (ic_actor x) \<or> ir_operator old \<noteq> ac_operator (ic_actor x)
            then failP key_context_mismatch
            else case ir_result old of None \<Rightarrow> failP undecodable
                   | Some d \<Rightarrow> returnP (decode_transfer d, None))
       | None \<Rightarrow> transfer_body P x)"

definition inv_transfer :: "'s inv_ports \<Rightarrow> transfer_command \<Rightarrow> 's \<Rightarrow> transfer reply \<times> 's" where
  "inv_transfer P x s =
     (case ip_transfer_tx P (transfer_tx P x) s of
        (Inl e, s1) \<Rightarrow> (Failed e, s1)
      | (Inr (t, None), s1) \<Rightarrow> (Done t, s1)
      | (Inr (t, Some e), s1) \<Rightarrow>
          let w = ac_warehouse (ic_actor x);
              s2 = snd (ip_invalidate P w (tc_item x) (tc_source x) s1);
              s3 = snd (ip_invalidate P w (tc_item x) (tc_dest x) s2) in
          case ip_publish P e s3 of
            (Inl _, s4) \<Rightarrow> (DonePending t transfer_pending, s4)
          | (Inr _, s4) \<Rightarrow> (Done t, s4))"

section \<open>Cycle counts\<close>

text \<open>\<open>CommandStatus\<close> and \<open>CountCommandStatus\<close> have the same body: they look the command id up
  among the keys.\<close>

definition inv_command_status :: "'s inv_ports \<Rightarrow> uuid \<Rightarrow> actor \<Rightarrow> ('s, inv_result) prog" where
  "inv_command_status P cid a =
     bindP (ip_find P (ip_uuid_string P cid)) (\<lambda>found.
       case found of
         None \<Rightarrow> failP ErrInvNotFound
       | Some r \<Rightarrow> if ir_warehouse r \<noteq> ac_warehouse a \<or> ir_operator r \<noteq> ac_operator a
                   then failP command_denied else returnP r)"

definition count_command_status :: "'s inv_ports \<Rightarrow> uuid \<Rightarrow> actor \<Rightarrow> ('s, inv_result) prog" where
  "count_command_status P cid a =
     bindP (ip_find P (ip_uuid_string P cid)) (\<lambda>found.
       case found of
         None \<Rightarrow> failP ErrInvNotFound
       | Some r \<Rightarrow> if ir_warehouse r \<noteq> ac_warehouse a \<or> ir_operator r \<noteq> ac_operator a
                   then failP command_denied else returnP r)"

definition list_counts :: "'s inv_ports \<Rightarrow> actor \<Rightarrow> ('s, count_task list) prog" where
  "list_counts P a = ip_list_counts P (ac_warehouse a) (ac_operator a)"

definition count_detail :: "'s inv_ports \<Rightarrow> string \<Rightarrow> actor \<Rightarrow> ('s, count_task) prog" where
  "count_detail P i a =
     bindP (ip_get_count P i) (\<lambda>t.
       if ct_warehouse t \<noteq> ac_warehouse a
          \<or> (ct_operator t \<noteq> None \<and> ct_operator t \<noteq> Some (ac_operator a))
       then failP count_denied else returnP t)"

definition validate_count_location :: "'s inv_ports \<Rightarrow> string \<Rightarrow> string \<Rightarrow> actor \<Rightarrow> ('s, unit) prog" where
  "validate_count_location P i loc a =
     bindP (count_detail P i a) (\<lambda>t. checkP (ct_location t \<noteq> loc) ErrLocationInvalid)"

definition validate_count_item ::
    "'s inv_ports \<Rightarrow> string \<Rightarrow> string \<Rightarrow> string \<Rightarrow> actor \<Rightarrow> ('s, unit) prog" where
  "validate_count_item P i line item a =
     bindP (count_detail P i a) (\<lambda>t.
       checkP (\<not> list_ex (\<lambda>l. cl_id l = line \<and> cl_item l = item) (ct_lines t)) ErrItemNotInDocument)"

definition count_record ::
    "'s inv_ports \<Rightarrow> 'a inv_command_scheme \<Rightarrow> string \<Rightarrow> count_task \<Rightarrow> ('s, count_task \<times> envelope option) prog" where
  "count_record P x event_type t =
     (let a = ic_actor x; payload = count_json t in
      bindP (ip_save_count P t) (\<lambda>_.
      bindP (make_event P event_type ''CycleCountTask'' (ct_id t) (ct_version t) a (ic_id x) payload) (\<lambda>e.
      bindP (liftE (wrap_err ''event'' (validate e))) (\<lambda>_.
      bindP (ip_append P e) (\<lambda>_.
      bindP (ip_audit P event_type (ct_id t) a payload) (\<lambda>_.
      bindP (ip_save_command P (ic_key x) ''COUNT''
         \<lparr>ir_id = ic_id x, ir_warehouse = ac_warehouse a, ir_operator = ac_operator a,
          ir_result = Some (CountDoc t)\<rparr>) (\<lambda>_.
      returnP (t, Some e))))))))"

text \<open>A used key is replayed without comparing its context.\<close>

definition count_tx ::
    "'s inv_ports \<Rightarrow> string \<Rightarrow> 'a inv_command_scheme \<Rightarrow> string \<Rightarrow> (time \<Rightarrow> count_task \<Rightarrow> err + count_task)
     \<Rightarrow> ('s, count_task \<times> envelope option) prog" where
  "count_tx P i x event_type f =
     bindP (ip_find P (ic_key x)) (\<lambda>found.
       case found of
         Some old \<Rightarrow> (case ir_result old of None \<Rightarrow> failP undecodable
             | Some d \<Rightarrow> returnP (decode_count d, None))
       | None \<Rightarrow>
          bindP (ip_get_count_for_update P i) (\<lambda>t.
          bindP (checkP (ct_warehouse t \<noteq> ac_warehouse (ic_actor x)) count_denied) (\<lambda>_.
          bindP (ip_now P) (\<lambda>now.
          bindP (liftE (f now t)) (count_record P x event_type)))))"

text \<open>After the commit a failed publication is returned as it is.\<close>

definition count_mutation ::
    "'s inv_ports \<Rightarrow> string \<Rightarrow> 'a inv_command_scheme \<Rightarrow> string \<Rightarrow> (time \<Rightarrow> count_task \<Rightarrow> err + count_task)
     \<Rightarrow> 's \<Rightarrow> count_task reply \<times> 's" where
  "count_mutation P i x event_type f s =
     (case ip_count_tx P (count_tx P i x event_type f) s of
        (Inl e, s1) \<Rightarrow> (Failed e, s1)
      | (Inr (t, None), s1) \<Rightarrow> (Done t, s1)
      | (Inr (t, Some e), s1) \<Rightarrow>
          let s2 = snd (ip_invalidate P (ac_warehouse (ic_actor x)) '''' (ct_location t) s1) in
          case ip_publish P e s2 of
            (Inl er, s3) \<Rightarrow> (DonePending t er, s3)
          | (Inr _, s3) \<Rightarrow> (Done t, s3))"

definition submit_count ::
    "'s inv_ports \<Rightarrow> string \<Rightarrow> string \<Rightarrow> int64 \<Rightarrow> inv_command \<Rightarrow> 's \<Rightarrow> count_task reply \<times> 's" where
  "submit_count P i line q x = count_mutation P i x ''CycleCountSubmitted''
     (ct_submit (ac_operator (ic_actor x)) line q (ic_base_version x))"

definition recount_count ::
    "'s inv_ports \<Rightarrow> string \<Rightarrow> string \<Rightarrow> inv_command \<Rightarrow> 's \<Rightarrow> count_task reply \<times> 's" where
  "recount_count P i line x = count_mutation P i x ''CycleCountRecountRequested''
     (ct_recount (ac_operator (ic_actor x)) line (ic_base_version x))"

definition complete_count ::
    "'s inv_ports \<Rightarrow> string \<Rightarrow> inv_command \<Rightarrow> 's \<Rightarrow> count_task reply \<times> 's" where
  "complete_count P i x = count_mutation P i x ''CycleCountCompleted''
     (ct_complete (ac_operator (ic_actor x)) (ic_base_version x))"

end
