(* ===== verification/Inventory_Contract.thy ===== *)
theory Inventory_Contract
  imports Inventory_Service Stock
begin

text \<open>
  The contract of an inventory store, and what a transfer or a count command does to stock,
  counts, outbox and idempotency records when it takes effect.
\<close>

section \<open>What the count transitions do\<close>

text \<open>The part of a count task that no transition touches.\<close>

definition cl_core :: "count_line \<Rightarrow> count_line" where
  "cl_core l = l\<lparr>cl_counted := None, cl_variance := None, cl_recount := False\<rparr>"

definition ct_frame :: "count_task \<Rightarrow> count_task" where
  "ct_frame t = t\<lparr>ct_status := '''', ct_operator := None, ct_version := 0, ct_updated := 0,
     ct_lines := map cl_core (ct_lines t)\<rparr>"

definition ct_work :: "count_task \<Rightarrow> count_task \<Rightarrow> bool" where
  "ct_work t t' \<longleftrightarrow> ct_frame t' = ct_frame t"

lemma ct_work_sel:
  assumes "ct_work t t'"
  shows "ct_id t' = ct_id t" "ct_warehouse t' = ct_warehouse t" "ct_location t' = ct_location t"
    "map cl_core (ct_lines t') = map cl_core (ct_lines t)"
  using arg_cong [OF assms [unfolded ct_work_def], of ct_id] arg_cong [OF assms [unfolded ct_work_def], of ct_warehouse]
    arg_cong [OF assms [unfolded ct_work_def], of ct_location] arg_cong [OF assms [unfolded ct_work_def], of ct_lines]
  by (simp_all add: ct_frame_def)

lemma cl_core_sel [simp]:
  "cl_id (cl_core l) = cl_id l" "cl_core (submitted q l) = cl_core l" "cl_core (recounted l) = cl_core l"
  by (simp_all add: cl_core_def submitted_def recounted_def Let_def)

lemma map_core_ids: "map cl_core ls' = map cl_core ls \<Longrightarrow> map cl_id ls' = map cl_id ls"
  by (drule arg_cong [of _ _ "map cl_id"]) (simp add: comp_def)

lemma update_line_Some: "update_line i f ls = Some ls' \<Longrightarrow>
    \<exists>ls1 l ls2. ls = ls1 @ l # ls2 \<and> ls' = ls1 @ f l # ls2 \<and> cl_id l = i \<and> i \<notin> cl_id ` set ls1"
proof (induction ls arbitrary: ls')
  case (Cons a ls)
  show ?case
  proof (cases "cl_id a = i")
    case True
    with Cons.prems show ?thesis by (intro exI [of _ "[]"]) auto
  next
    case False
    with Cons.prems obtain ls'' where "update_line i f ls = Some ls''" and ls': "ls' = a # ls''" by auto
    from Cons.IH [OF this(1)] obtain ls1 l ls2 where "ls = ls1 @ l # ls2" "ls'' = ls1 @ f l # ls2"
      "cl_id l = i" "i \<notin> cl_id ` set ls1" by auto
    with False ls' show ?thesis by (intro exI [of _ "a # ls1"] exI [of _ l] exI [of _ ls2]) auto
  qed
qed simp

lemma ct_guard_ok: "ct_guard op base t = Inr t1 \<Longrightarrow> ct_version t = base
    \<and> (ct_operator t = None \<or> ct_operator t = Some op) \<and> t1 = t\<lparr>ct_operator := Some op\<rparr>"
  by (auto simp: ct_guard_def split: if_splits option.splits)

lemma ct_touch_sel [simp]:
  "ct_id (ct_touch st now t) = ct_id t" "ct_lines (ct_touch st now t) = ct_lines t"
  "ct_status (ct_touch st now t) = st" "ct_version (ct_touch st now t) = ct_version t + 1"
  "ct_operator (ct_touch st now t) = ct_operator t" "ct_frame (ct_touch st now t) = ct_frame t"
  by (simp_all add: ct_touch_def ct_frame_def)

lemma ct_frame_operator [simp]: "ct_frame (t\<lparr>ct_operator := p\<rparr>) = ct_frame t"
  by (simp add: ct_frame_def)

lemma ct_line_step_ok:
  assumes "ct_line_step status f op line base now t = Inr t'" and "\<And>l. cl_core (f l) = cl_core l"
  obtains ls1 l ls2 where "ct_lines t = ls1 @ l # ls2" "ct_lines t' = ls1 @ f l # ls2" "cl_id l = line"
    "ct_work t t'" "ct_status t' = status" "ct_version t' = ct_version t + 1" "ct_operator t' = Some op"
    "ct_version t = base" "ct_operator t = None \<or> ct_operator t = Some op"
proof -
  from assms(1) obtain t1 ls where g: "ct_guard op base t = Inr t1" and u: "update_line line f (ct_lines t1) = Some ls"
    and t': "t' = ct_touch status now (t1\<lparr>ct_lines := ls\<rparr>)"
    by (auto simp: ct_line_step_def split: sum.splits option.splits)
  note g' = ct_guard_ok [OF g]
  from update_line_Some [OF u] g' obtain ls1 l ls2 where ls: "ct_lines t = ls1 @ l # ls2" "ls = ls1 @ f l # ls2"
    "cl_id l = line" by auto
  have "ct_work t t'" using ls assms(2) g' by (simp add: t' ct_work_def) (simp add: ct_frame_def)
  with ls g' t' that show thesis by simp
qed

lemma ct_complete_ok:
  assumes "ct_complete op base now t = Inr t'"
  shows "ct_work t t'" "ct_lines t' = ct_lines t" "ct_status t' = ''COMPLETED''"
    "ct_version t' = ct_version t + 1" "ct_operator t' = Some op" "ct_version t = base"
    "ct_operator t = None \<or> ct_operator t = Some op"
    "\<forall>l \<in> set (ct_lines t). cl_counted l \<noteq> None \<and> \<not> cl_recount l"
  using assms
  by (auto simp: ct_complete_def ct_work_def split: sum.splits if_splits dest!: ct_guard_ok)

inductive count_action :: "'a inv_command_scheme \<Rightarrow> (time \<Rightarrow> count_task \<Rightarrow> err + count_task) \<Rightarrow> bool"
  for x :: "'a inv_command_scheme" where
  "count_action x (ct_submit (ac_operator (ic_actor x)) line q (ic_base_version x))"
| "count_action x (ct_recount (ac_operator (ic_actor x)) line (ic_base_version x))"
| "count_action x (ct_complete (ac_operator (ic_actor x)) (ic_base_version x))"

lemma count_action_work: "count_action x f \<Longrightarrow> f now t = Inr t' \<Longrightarrow> ct_work t t'"
  by (erule count_action.cases) (auto simp: ct_submit_def ct_recount_def ct_complete_ok elim!: ct_line_step_ok)

text \<open>A counted line carries its variance; a completed count has every line counted as expected.\<close>

definition line_sound :: "count_line \<Rightarrow> bool" where
  "line_sound l \<longleftrightarrow> (case cl_counted l of None \<Rightarrow> cl_variance l = None
     | Some q \<Rightarrow> cl_variance l = Some (q - cl_expected l) \<and> cl_recount l = (q \<noteq> cl_expected l))"

definition count_sound :: "count_task \<Rightarrow> bool" where
  "count_sound t \<longleftrightarrow> (\<forall>l \<in> set (ct_lines t). line_sound l)
     \<and> (ct_status t = ''COMPLETED'' \<longrightarrow> (\<forall>l \<in> set (ct_lines t). cl_counted l = Some (cl_expected l)))"

lemma line_sound_steps [simp]: "line_sound (submitted q l)" "line_sound (recounted l)"
  by (simp_all add: line_sound_def submitted_def recounted_def Let_def)

lemma line_sound_counted: "line_sound l \<Longrightarrow> cl_counted l \<noteq> None \<Longrightarrow> \<not> cl_recount l \<Longrightarrow> cl_counted l = Some (cl_expected l)"
  by (auto simp: line_sound_def)

lemma count_action_sound:
  assumes "count_action x f" and "f now t = Inr t'" and "count_sound t"
  shows "count_sound t'"
  using assms(1)
proof cases
  case (1 line q)
  with assms(2) have "ct_line_step ''IN_PROGRESS'' (submitted q) (ac_operator (ic_actor x)) line (ic_base_version x) now t = Inr t'"
    by (simp add: ct_submit_def)
  then show ?thesis by (rule ct_line_step_ok) (use assms(3) in \<open>auto simp: count_sound_def\<close>)
next
  case (2 line)
  with assms(2) have "ct_line_step ''RECOUNT'' recounted (ac_operator (ic_actor x)) line (ic_base_version x) now t = Inr t'"
    by (simp add: ct_recount_def)
  then show ?thesis by (rule ct_line_step_ok) (use assms(3) in \<open>auto simp: count_sound_def\<close>)
next
  case 3
  with assms(2) have "ct_complete (ac_operator (ic_actor x)) (ic_base_version x) now t = Inr t'" by simp
  from ct_complete_ok [OF this] assms(3) show ?thesis by (auto simp: count_sound_def dest: line_sound_counted)
qed

section \<open>Effects\<close>

type_synonym places = "string \<times> string \<times> string \<Rightarrow> int64 option"

record inv_view =
  iv_stock :: places
  iv_counts :: "string \<rightharpoonup> count_task"
  iv_keys :: "string \<rightharpoonup> inv_result"
  iv_outbox :: "envelope list"

definition ct_rows_ok :: "count_task \<Rightarrow> bool" where
  "ct_rows_ok t \<longleftrightarrow> 1 \<le> sint (ct_version t) \<and> (\<forall>l \<in> set (ct_lines t). \<forall>q. cl_counted l = Some q \<longrightarrow> 0 \<le> sint q)"

definition inv_result_of :: "inv_command \<Rightarrow> inventory_document \<Rightarrow> inv_result" where
  "inv_result_of x d = \<lparr>ir_id = ic_id x, ir_warehouse = ac_warehouse (ic_actor x),
     ir_operator = ac_operator (ic_actor x), ir_result = Some d\<rparr>"

definition at_place :: "transfer_command \<Rightarrow> string \<Rightarrow> string \<times> string \<times> string" where
  "at_place x l = (ac_warehouse (ic_actor x), l, tc_item x)"

definition base_command :: "transfer_command \<Rightarrow> inv_command" where
  "base_command x = inv_command.truncate x"

lemma base_command_sel [simp]:
  "ic_id (base_command x) = ic_id x" "ic_key (base_command x) = ic_key x" "ic_actor (base_command x) = ic_actor x"
  by (simp_all add: base_command_def inv_command.defs)

inductive transfer_effect ::
    "(uuid \<Rightarrow> string) \<Rightarrow> transfer_command \<Rightarrow> inv_view \<Rightarrow> transfer \<Rightarrow> envelope option \<Rightarrow> inv_view \<Rightarrow> bool"
  for u :: "uuid \<Rightarrow> string" and x :: transfer_command where
  transfer_replayed: "iv_keys v (ic_key x) = Some r \<Longrightarrow> ir_warehouse r = ac_warehouse (ic_actor x) \<Longrightarrow>
    ir_operator r = ac_operator (ic_actor x) \<Longrightarrow> ir_result r = Some d \<Longrightarrow>
    transfer_effect u x v (decode_transfer d) None v"
| transferred: "iv_keys v (ic_key x) = None \<Longrightarrow> tc_source x \<noteq> tc_dest x \<Longrightarrow> 0 < sint (tc_quantity x) \<Longrightarrow>
    move_stock (iv_stock v) (at_place x (tc_source x)) (at_place x (tc_dest x)) (tc_quantity x) = Some st \<Longrightarrow>
    tr_source t = tc_source x \<Longrightarrow> tr_dest t = tc_dest x \<Longrightarrow> tr_item t = tc_item x \<Longrightarrow>
    tr_warehouse t = ac_warehouse (ic_actor x) \<Longrightarrow> tr_quantity t = tc_quantity x \<Longrightarrow>
    tr_command t = u (ic_id x) \<Longrightarrow> tr_status t = ''COMPLETED'' \<Longrightarrow>
    e = inv_event ''StockTransferConfirmed'' ''StockTransfer'' (u (ic_id x)) 1 (ic_actor x) (ic_id x)
      (transfer_json t) eid ts \<Longrightarrow> well_formed e \<Longrightarrow>
    transfer_effect u x v t (Some e)
      (v\<lparr>iv_stock := st, iv_keys := (iv_keys v)(ic_key x \<mapsto> inv_result_of (base_command x) (TransferDoc t)),
         iv_outbox := iv_outbox v @ [e]\<rparr>)"

inductive count_effect ::
    "string \<Rightarrow> inv_command \<Rightarrow> string \<Rightarrow> (time \<Rightarrow> count_task \<Rightarrow> err + count_task)
     \<Rightarrow> inv_view \<Rightarrow> count_task \<Rightarrow> envelope option \<Rightarrow> inv_view \<Rightarrow> bool"
  for i :: string and x :: inv_command and et :: string and f where
  count_replayed: "iv_keys v (ic_key x) = Some r \<Longrightarrow> ir_result r = Some d \<Longrightarrow>
    count_effect i x et f v (decode_count d) None v"
| counted: "iv_keys v (ic_key x) = None \<Longrightarrow> iv_counts v i = Some t0 \<Longrightarrow> ct_id t0 = i \<Longrightarrow>
    ct_warehouse t0 = ac_warehouse (ic_actor x) \<Longrightarrow> f now t0 = Inr t \<Longrightarrow> ct_rows_ok t \<Longrightarrow>
    e = inv_event et ''CycleCountTask'' (ct_id t) (ct_version t) (ic_actor x) (ic_id x) (count_json t) eid ts \<Longrightarrow>
    well_formed e \<Longrightarrow>
    count_effect i x et f v t (Some e)
      (v\<lparr>iv_counts := (iv_counts v)(i \<mapsto> t), iv_keys := (iv_keys v)(ic_key x \<mapsto> inv_result_of x (CountDoc t)),
         iv_outbox := iv_outbox v @ [e]\<rparr>)"

section \<open>The contract\<close>

locale inventory_store =
  fixes P :: "'s inv_ports" and view :: "'s \<Rightarrow> inv_view"
  assumes frame_find: "frame view (ip_find P k)"
    and frame_get: "frame view (ip_get_count_for_update P i)"
    and frame_balances: "frame view (ip_balances P w it l)"
    and frame_validate: "frame view (ip_validate P w sl dl it q)"
    and frame_audit: "frame view (ip_audit P a g ac j)"
    and frame_now: "frame view (ip_now P)"
    and frame_uuid: "frame view (ip_new_uuid P)"
    and frame_publish: "frame view (ip_publish P e)"
    and frame_invalidate: "frame view (ip_invalidate P w it l)"
    and find_ok: "ip_find P k s = (Inr found, s') \<Longrightarrow> iv_keys (view s) k = found"
    and validate_ok: "ip_validate P w sl dl it q s = (Inr z, s') \<Longrightarrow> sl \<noteq> dl"
    and transfer_ok: "ip_transfer P t s = (Inr z, s') \<Longrightarrow> 0 < sint (tr_quantity t) \<and>
      (\<exists>st. move_stock (iv_stock (view s)) (tr_warehouse t, tr_source t, tr_item t)
           (tr_warehouse t, tr_dest t, tr_item t) (tr_quantity t) = Some st
         \<and> view s' = (view s)\<lparr>iv_stock := st\<rparr>)"
    and get_ok: "ip_get_count_for_update P i s = (Inr c, s') \<Longrightarrow>
      iv_counts (view s) i = Some c \<and> ct_id c = i \<and> distinct (map cl_id (ct_lines c))"
    and save_ok: "ip_save_count P c s = (Inr z, s') \<Longrightarrow> iv_counts (view s) (ct_id c) = Some c0 \<Longrightarrow>
      ct_work c0 c \<Longrightarrow> ct_rows_ok c \<and> view s' = (view s)\<lparr>iv_counts := (iv_counts (view s))(ct_id c \<mapsto> c)\<rparr>"
    and append_ok: "well_formed e \<Longrightarrow> ip_append P e s = (Inr z, s') \<Longrightarrow>
      view s' = (view s)\<lparr>iv_outbox := iv_outbox (view s) @ [e]\<rparr>"
    and save_command_ok: "ip_save_command P k ty r s = (Inr z, s') \<Longrightarrow>
      view s' = (view s)\<lparr>iv_keys := (iv_keys (view s))(k \<mapsto> r)\<rparr>"
    and transfer_tx_ok: "ip_transfer_tx P m s = (Inr y, s') \<Longrightarrow>
      \<exists>s1 s2. view s1 = view s \<and> m s1 = (Inr y, s2) \<and> view s' = view s2"
    and transfer_tx_fail: "ip_transfer_tx P m s = (Inl er, s') \<Longrightarrow> view s' = view s \<or>
      (\<exists>y s1 s2. view s1 = view s \<and> m s1 = (Inr y, s2) \<and> view s' = view s2)"
    and count_tx_ok: "ip_count_tx P n s = (Inr x, s') \<Longrightarrow>
      \<exists>s1 s2. view s1 = view s \<and> n s1 = (Inr x, s2) \<and> view s' = view s2"
    and count_tx_fail: "ip_count_tx P n s = (Inl er, s') \<Longrightarrow> view s' = view s \<or>
      (\<exists>z s1 s2. view s1 = view s \<and> n s1 = (Inr z, s2) \<and> view s' = view s2)"
begin

lemma snapshot_frame: "balance_snapshot P w it l s = (r, s') \<Longrightarrow> view s' = view s"
  by (auto simp: balance_snapshot_def split: prod.splits sum.splits list.splits dest: frameD [OF frame_balances])

lemma make_event_ok: "make_event P et agg i v a c j s = (Inr e, s') \<Longrightarrow>
    (\<exists>eid ts. e = inv_event et agg i v a c j eid ts) \<and> view s' = view s"
  by (auto simp: make_event_def prog_iffs frameD [OF frame_now] frameD [OF frame_uuid])

lemma transfer_record_ok:
  assumes "transfer_record P x t s = (Inr (r, z), s')"
  obtains e eid ts where "r = t" "z = Some e" "well_formed e"
    "e = inv_event ''StockTransferConfirmed'' ''StockTransfer'' (ip_uuid_string P (ic_id x)) 1 (ic_actor x)
       (ic_id x) (transfer_json t) eid ts"
    "view s' = (view s)\<lparr>iv_keys := (iv_keys (view s))(ic_key x \<mapsto> inv_result_of (base_command x) (TransferDoc t)),
       iv_outbox := iv_outbox (view s) @ [e]\<rparr>"
proof -
  from assms obtain e s1 s2 s3 where
    ev: "make_event P ''StockTransferConfirmed'' ''StockTransfer'' (ip_uuid_string P (ic_id x)) 1 (ic_actor x)
       (ic_id x) (transfer_json t) s = (Inr e, s1)"
    and valid: "validate e = Inr ()" and out: "ip_append P e s1 = (Inr (), s2)"
    and aud: "ip_audit P ''StockTransferConfirmed'' (ip_uuid_string P (ic_id x)) (ic_actor x) (transfer_json t) s2 = (Inr (), s3)"
    and cmd: "ip_save_command P (ic_key x) ''TRANSFER'' (inv_result_of (base_command x) (TransferDoc t)) s3 = (Inr (), s')"
    and rz: "r = t" "z = Some e"
    unfolding transfer_record_def Let_def inv_result_of_def base_command_sel by (auto simp: prog_iffs)
  have wf: "well_formed e" using valid by (simp add: validate_accepts)
  have "view s' = (view s)\<lparr>iv_keys := (iv_keys (view s))(ic_key x \<mapsto> inv_result_of (base_command x) (TransferDoc t)),
       iv_outbox := iv_outbox (view s) @ [e]\<rparr>"
    using save_command_ok [OF cmd] frameD [OF frame_audit aud] append_ok [OF wf out] make_event_ok [OF ev] by simp
  with make_event_ok [OF ev] wf rz that show thesis by blast
qed

lemma transfer_body_effect:
  assumes run: "transfer_body P x s = (Inr (r, z), s')" and key: "iv_keys (view s) (ic_key x) = None"
  shows "transfer_effect (ip_uuid_string P) x (view s) r z (view s')"
proof -
  from run obtain s1 s2 s3 s4 s5 s6 s7 bs bd ts as' ad u where
    val: "ip_validate P (ac_warehouse (ic_actor x)) (tc_source x) (tc_dest x) (tc_item x) (tc_quantity x) s = (Inr u, s1)"
    and snaps: "balance_snapshot P (ac_warehouse (ic_actor x)) (tc_item x) (tc_source x) s1 = (Inr bs, s2)"
    "balance_snapshot P (ac_warehouse (ic_actor x)) (tc_item x) (tc_dest x) s2 = (Inr bd, s3)"
    and clock: "ip_now P s3 = (Inr ts, s4)"
    and tr: "ip_transfer P (new_transfer P x bs bd ts) s4 = (Inr (), s5)"
    and snaps': "balance_snapshot P (ac_warehouse (ic_actor x)) (tc_item x) (tc_source x) s5 = (Inr as', s6)"
    "balance_snapshot P (ac_warehouse (ic_actor x)) (tc_item x) (tc_dest x) s6 = (Inr ad, s7)"
    and rest: "transfer_record P x ((new_transfer P x bs bd ts)\<lparr>tr_after_source := as', tr_after_dest := ad\<rparr>) s7 = (Inr (r, z), s')"
    unfolding transfer_body_def Let_def validate_transfer_def by (auto simp: prog_iffs)
  have v4: "view s4 = view s"
    using frameD [OF frame_validate val] snaps [THEN snapshot_frame] frameD [OF frame_now clock] by simp
  from transfer_ok [OF tr] v4 obtain st where q: "0 < sint (tc_quantity x)"
    and st: "move_stock (iv_stock (view s)) (at_place x (tc_source x)) (at_place x (tc_dest x)) (tc_quantity x) = Some st"
    and v5: "view s5 = (view s)\<lparr>iv_stock := st\<rparr>"
    by (auto simp: new_transfer_def at_place_def Let_def)
  have v7: "view s7 = (view s)\<lparr>iv_stock := st\<rparr>" using snaps' [THEN snapshot_frame] v5 by simp
  from rest show ?thesis
  proof (rule transfer_record_ok)
    fix e eid ts' assume *: "r = new_transfer P x bs bd ts\<lparr>tr_after_source := as', tr_after_dest := ad\<rparr>" "z = Some e"
      "well_formed e" "e = inv_event ''StockTransferConfirmed'' ''StockTransfer'' (ip_uuid_string P (ic_id x)) 1 (ic_actor x)
       (ic_id x) (transfer_json (new_transfer P x bs bd ts\<lparr>tr_after_source := as', tr_after_dest := ad\<rparr>)) eid ts'"
      "view s' = (view s7)\<lparr>iv_keys := (iv_keys (view s7))(ic_key x \<mapsto> inv_result_of (base_command x)
        (TransferDoc (new_transfer P x bs bd ts\<lparr>tr_after_source := as', tr_after_dest := ad\<rparr>))),
       iv_outbox := iv_outbox (view s7) @ [e]\<rparr>"
    have "view s' = (view s)\<lparr>iv_stock := st, iv_keys := (iv_keys (view s))(ic_key x \<mapsto> inv_result_of (base_command x) (TransferDoc r)),
         iv_outbox := iv_outbox (view s) @ [e]\<rparr>"
      using *(1,5) by (simp add: v7)
    moreover have "transfer_effect (ip_uuid_string P) x (view s) r (Some e)
       ((view s)\<lparr>iv_stock := st, iv_keys := (iv_keys (view s))(ic_key x \<mapsto> inv_result_of (base_command x) (TransferDoc r)),
         iv_outbox := iv_outbox (view s) @ [e]\<rparr>)"
      by (rule transferred [OF key validate_ok [OF val] q st])
        (use *(1,3,4) in \<open>simp_all add: new_transfer_def Let_def\<close>)
    ultimately show ?thesis using *(2) by simp
  qed
qed

lemma transfer_tx_effect:
  assumes run: "transfer_tx P x s = (Inr (r, z), s')"
  shows "transfer_effect (ip_uuid_string P) x (view s) r z (view s')"
proof -
  from run obtain found s1 where find: "ip_find P (ic_key x) s = (Inr found, s1)"
    unfolding transfer_tx_def by (auto simp: prog_iffs)
  note v1 = frameD [OF frame_find find] and key = find_ok [OF find]
  show ?thesis
  proof (cases found)
    case (Some old)
    with run find v1 key show ?thesis
      unfolding transfer_tx_def
      by (auto simp: bindP_run split: option.splits if_splits intro: transfer_replayed)
  next
    case None
    with run find have "transfer_body P x s1 = (Inr (r, z), s')"
      unfolding transfer_tx_def by (auto simp: bindP_run)
    from transfer_body_effect [OF this] key None v1 show ?thesis by simp
  qed
qed

lemma count_record_effect:
  assumes run: "count_record P x et t s = (Inr (r, z), s')"
    and key: "iv_keys (view s) (ic_key x) = None" and task: "iv_counts (view s) i = Some t0" "ct_id t0 = i"
    and wh: "ct_warehouse t0 = ac_warehouse (ic_actor x)" and f: "f now t0 = Inr t" and work: "ct_work t0 t"
  shows "count_effect i (x :: inv_command) et f (view s) r z (view s')"
proof -
  from run obtain e s1 s2 s3 s4 where save: "ip_save_count P t s = (Inr (), s1)"
    and ev: "make_event P et ''CycleCountTask'' (ct_id t) (ct_version t) (ic_actor x) (ic_id x) (count_json t) s1 = (Inr e, s2)"
    and valid: "validate e = Inr ()" and out: "ip_append P e s2 = (Inr (), s3)"
    and aud: "ip_audit P et (ct_id t) (ic_actor x) (count_json t) s3 = (Inr (), s4)"
    and cmd: "ip_save_command P (ic_key x) ''COUNT'' (inv_result_of x (CountDoc t)) s4 = (Inr (), s')"
    and rz: "r = t" "z = Some e"
    unfolding count_record_def Let_def inv_result_of_def by (auto simp: prog_iffs)
  have id: "ct_id t = i" using ct_work_sel(1) [OF work] task(2) by simp
  from save_ok [OF save _ work] task(1) id have ok: "ct_rows_ok t"
    and v1: "view s1 = (view s)\<lparr>iv_counts := (iv_counts (view s))(i \<mapsto> t)\<rparr>" by auto
  have wf: "well_formed e" using valid by (simp add: validate_accepts)
  from make_event_ok [OF ev] obtain eid ts where e: "e = inv_event et ''CycleCountTask'' (ct_id t) (ct_version t)
      (ic_actor x) (ic_id x) (count_json t) eid ts" and v2: "view s2 = view s1" by auto
  have "view s' = (view s)\<lparr>iv_counts := (iv_counts (view s))(i \<mapsto> t),
      iv_keys := (iv_keys (view s))(ic_key x \<mapsto> inv_result_of x (CountDoc t)), iv_outbox := iv_outbox (view s) @ [e]\<rparr>"
    using save_command_ok [OF cmd] frameD [OF frame_audit aud] append_ok [OF wf out] v1 v2 by simp
  with counted [where f = f, OF key task wh f ok e wf] rz show ?thesis by simp
qed

lemma count_tx_effect:
  assumes run: "count_tx P i x et f s = (Inr (r, z), s')" and act: "count_action x f"
  shows "count_effect i (x :: inv_command) et f (view s) r z (view s')"
proof -
  from run obtain found s1 where find: "ip_find P (ic_key x) s = (Inr found, s1)"
    unfolding count_tx_def by (auto simp: prog_iffs)
  note v1 = frameD [OF frame_find find] and key = find_ok [OF find]
  show ?thesis
  proof (cases found)
    case (Some old)
    with run find v1 key show ?thesis
      unfolding count_tx_def by (auto simp: bindP_run split: option.splits intro: count_replayed)
  next
    case None
    with run find obtain t0 t now s2 s3 where get: "ip_get_count_for_update P i s1 = (Inr t0, s2)"
      and wh: "ct_warehouse t0 = ac_warehouse (ic_actor x)" and clock: "ip_now P s2 = (Inr now, s3)"
      and f: "f now t0 = Inr t" and rest: "count_record P x et t s3 = (Inr (r, z), s')"
      unfolding count_tx_def by (auto simp: prog_iffs)
    have v: "view s3 = view s" using frameD [OF frame_get get] frameD [OF frame_now clock] v1 by simp
    from rest have "count_effect i x et f (view s3) r z (view s')"
      by (rule count_record_effect) (use get_ok [OF get] key None v v1 wh f count_action_work [OF act f] in auto)
    with v show ?thesis by simp
  qed
qed

lemma inv_transfer_cases:
  assumes run: "inv_transfer P x s = (rep, s')"
  shows "(\<exists>t z. transfer_effect (ip_uuid_string P) x (view s) t z (view s') \<and> reply_value rep \<in> {None, Some t})
     \<or> view s' = view s \<and> reply_value rep = None"
proof -
  obtain y s1 where tx: "ip_transfer_tx P (transfer_tx P x) s = (y, s1)" by fastforce
  show ?thesis
  proof (cases y)
    case (Inl e)
    with run tx have rep: "rep = Failed e" "s' = s1" by (auto simp: inv_transfer_def)
    from transfer_tx_fail [OF tx [unfolded Inl]] show ?thesis
    proof (elim disjE exE conjE)
      fix z sa sb assume "view sa = view s" "transfer_tx P x sa = (Inr z, sb)" "view s1 = view sb"
      with transfer_tx_effect [of x sa "fst z" "snd z" sb] rep show ?thesis by auto
    qed (use rep in simp)
  next
    case (Inr tz)
    obtain t z where tz: "tz = (t, z)" by fastforce
    from transfer_tx_ok [OF tx [unfolded Inr]] tz obtain sa sb where "view sa = view s" "view s1 = view sb"
      "transfer_tx P x sa = (Inr (t, z), sb)" by auto
    with transfer_tx_effect [of x sa t z sb]
    have eff: "transfer_effect (ip_uuid_string P) x (view s) t z (view s1)" by simp
    obtain u2 s2 where i2: "ip_invalidate P (ac_warehouse (ic_actor x)) (tc_item x) (tc_source x) s1 = (u2, s2)" by fastforce
    obtain u3 s3 where i3: "ip_invalidate P (ac_warehouse (ic_actor x)) (tc_item x) (tc_dest x) s2 = (u3, s3)" by fastforce
    have "view s' = view s1 \<and> reply_value rep = Some t"
      using run tx i2 i3 frameD [OF frame_invalidate i2] frameD [OF frame_invalidate i3] unfolding Inr tz
      by (auto simp: inv_transfer_def Let_def split: option.splits prod.splits sum.splits
          dest: frameD [OF frame_publish])
    with eff show ?thesis by auto
  qed
qed

lemma count_mutation_cases:
  assumes run: "count_mutation P i x et f s = (rep, s')" and act: "count_action x f"
  shows "(\<exists>t z. count_effect i (x :: inv_command) et f (view s) t z (view s') \<and> reply_value rep \<in> {None, Some t})
     \<or> view s' = view s \<and> reply_value rep = None"
proof -
  obtain y s1 where tx: "ip_count_tx P (count_tx P i x et f) s = (y, s1)" by fastforce
  show ?thesis
  proof (cases y)
    case (Inl e)
    with run tx have rep: "rep = Failed e" "s' = s1" by (auto simp: count_mutation_def)
    from count_tx_fail [OF tx [unfolded Inl]] show ?thesis
    proof (elim disjE exE conjE)
      fix z sa sb assume "view sa = view s" "count_tx P i x et f sa = (Inr z, sb)" "view s1 = view sb"
      with count_tx_effect [of i x et f sa "fst z" "snd z" sb] act rep show ?thesis by auto
    qed (use rep in simp)
  next
    case (Inr tz)
    obtain t z where tz: "tz = (t, z)" by fastforce
    from count_tx_ok [OF tx [unfolded Inr]] tz obtain sa sb where "view sa = view s" "view s1 = view sb"
      "count_tx P i x et f sa = (Inr (t, z), sb)" by auto
    with count_tx_effect [of i x et f sa t z sb] act have eff: "count_effect i x et f (view s) t z (view s1)" by simp
    obtain u2 s2 where i2: "ip_invalidate P (ac_warehouse (ic_actor x)) '''' (ct_location t) s1 = (u2, s2)" by fastforce
    have "view s' = view s1 \<and> reply_value rep = Some t"
      using run tx i2 frameD [OF frame_invalidate i2] unfolding Inr tz
      by (auto simp: count_mutation_def Let_def split: option.splits prod.splits sum.splits
          dest: frameD [OF frame_publish])
    with eff show ?thesis by auto
  qed
qed

end

section \<open>Histories\<close>

inductive inv_step :: "(uuid \<Rightarrow> string) \<Rightarrow> inv_view \<Rightarrow> inv_view \<Rightarrow> bool" for u :: "uuid \<Rightarrow> string" where
  transfers: "transfer_effect u x v t z v' \<Longrightarrow> inv_step u v v'"
| counts: "count_action x f \<Longrightarrow> count_effect i x et f v t z v' \<Longrightarrow> inv_step u v v'"

definition inv_inv :: "inv_view \<Rightarrow> bool" where
  "inv_inv v \<longleftrightarrow> (\<forall>i t. iv_counts v i = Some t \<longrightarrow> ct_id t = i \<and> count_sound t)"

lemma inv_step_inv:
  assumes "inv_step u v v'" and "inv_inv v"
  shows "inv_inv v'"
  using assms(1)
proof cases
  case (transfers x t z)
  then show ?thesis using assms(2) by cases (simp_all add: inv_inv_def)
next
  case (counts x f i et t z)
  from counts(2) show ?thesis
  proof cases
    case (counted t0 now e eid ts)
    then have "ct_work t0 t" "count_sound t"
      using count_action_work [OF counts(1)] count_action_sound [OF counts(1)] assms(2) by (auto simp: inv_inv_def)
    with counted ct_work_sel(1) [of t0 t] assms(2) show ?thesis by (simp add: inv_inv_def)
  qed (simp add: assms(2))
qed

text \<open>Stock moves between the places of one item in one warehouse, and nowhere else.\<close>

definition item_place :: "string \<Rightarrow> string \<Rightarrow> string \<times> string \<times> string \<Rightarrow> bool" where
  "item_place w item k \<longleftrightarrow> fst k = w \<and> snd (snd k) = item"

definition stock_sound :: "places \<Rightarrow> bool" where
  "stock_sound st \<longleftrightarrow> finite (dom st) \<and> (\<forall>k. 0 \<le> stock_at st k)"

definition same_totals :: "places \<Rightarrow> places \<Rightarrow> bool" where
  "same_totals st st' \<longleftrightarrow> (stock_sound st \<longrightarrow>
     stock_sound st' \<and> (\<forall>w item. stock_total (item_place w item) st' = stock_total (item_place w item) st))"

lemma same_totals_refl [simp]: "same_totals st st"
  by (simp add: same_totals_def)

lemma same_totals_trans: "same_totals a b \<Longrightarrow> same_totals b c \<Longrightarrow> same_totals a c"
  by (simp add: same_totals_def)

lemma move_same_totals:
  assumes "move_stock st (w, l, item) (w, m, item) q = Some st'" and "0 < sint q"
  shows "same_totals st st'"
  using move_stock_class_total [OF assms(1)] move_stock_nonneg [OF assms]
  by (simp add: same_totals_def stock_sound_def item_place_def)

lemma inv_step_totals:
  assumes "inv_step u v v'"
  shows "same_totals (iv_stock v) (iv_stock v')"
  using assms
proof cases
  case (transfers x t z)
  then show ?thesis by cases (auto simp: at_place_def intro: move_same_totals)
next
  case (counts x f i et t z)
  from counts(2) show ?thesis by cases simp_all
qed

end
