(* ===== verification/Pg_Inventory_Store.thy ===== *)
theory Pg_Inventory_Store
  imports Inventory_Contract Pg_Movement_Store Pg_Common
begin

text \<open>
  The PostgreSQL inventory store of \<open>internal/inventory/adapters/postgres/store.go\<close>. It shares
  the stock table and the movement ledger with the movement store.
\<close>

section \<open>Rows\<close>

definition scan_balance :: "(string \<times> string \<times> string) \<times> stock_row \<Rightarrow> balance" where
  "scan_balance = (\<lambda>((w, l, it), r). \<lparr>bl_warehouse = w, bl_location = l, bl_item = it, bl_item_code = '''',
     bl_description = '''', bl_location_code = '''', bl_quantity = st_quantity r, bl_on_hand = 0,
     bl_reserved = 0, bl_available = 0, bl_damaged = 0, bl_hold = 0, bl_quarantine = 0,
     bl_in_transit = 0, bl_uom = '''', bl_lot = '''', bl_serial = '''', bl_stale = False,
     bl_version = st_version r, bl_as_of = st_updated r\<rparr>)"

definition scan_stock_move :: "(uuid \<Rightarrow> string) \<Rightarrow> uuid \<times> inventory_movement_row \<Rightarrow> stock_move" where
  "scan_stock_move u = (\<lambda>(i, r). \<lparr>sm_id = u i, sm_task = im_task r, sm_workflow = im_workflow r,
     sm_warehouse = im_warehouse r, sm_item = im_item r, sm_source = im_source r, sm_dest = im_dest r,
     sm_quantity = im_quantity r, sm_version = im_version r, sm_at = im_at r\<rparr>)"

definition scan_count_line :: "string \<Rightarrow> count_line_row \<Rightarrow> count_line" where
  "scan_count_line l r = \<lparr>cl_id = l, cl_item = ccl_item r, cl_expected = ccl_expected r,
     cl_counted = ccl_counted r, cl_variance = ccl_variance r, cl_recount = ccl_recount r\<rparr>"

definition scan_count :: "string \<Rightarrow> count_row \<Rightarrow> count_line list \<Rightarrow> count_task" where
  "scan_count i r ls = \<lparr>ct_id = i, ct_warehouse = cc_warehouse r, ct_location = cc_location r,
     ct_status = cc_status r, ct_operator = cc_operator r, ct_version = cc_version r, ct_blind = False,
     ct_tolerance = 0, ct_lines = ls, ct_updated = cc_updated r\<rparr>"

text \<open>The CHECK constraints of \<open>cycle_count_task\<close> and \<open>cycle_count_line\<close>; a NULL passes a check.\<close>

definition count_ok :: "count_row \<Rightarrow> bool" where
  "count_ok r \<longleftrightarrow> i64_less 0 (cc_version r)"

definition count_line_ok :: "count_line_row \<Rightarrow> bool" where
  "count_line_ok r \<longleftrightarrow> i64_le 0 (ccl_expected r)
     \<and> (case ccl_counted r of None \<Rightarrow> True | Some q \<Rightarrow> i64_le 0 q)"

section \<open>Balances and the ledger\<close>

definition pgi_balances :: "string \<Rightarrow> string \<Rightarrow> string \<Rightarrow> (world, balance list) prog" where
  "pgi_balances w item loc = query (\<lambda>now d. map scan_balance
     (sort_key (\<lambda>((_, l, _), _). l) (sort_key (\<lambda>((_, _, it), _). it)
       (filter (\<lambda>((w', l, it), _). w' = w \<and> (item = '''' \<or> ilike it item) \<and> (loc = '''' \<or> ilike l loc))
         (inventory_location_balance d)))))"

definition pgi_search :: "string \<Rightarrow> string \<Rightarrow> (world, balance list) prog" where
  "pgi_search w q = pgi_balances w q q"

definition pgi_movements :: "(uuid \<Rightarrow> string) \<Rightarrow> string \<Rightarrow> string \<Rightarrow> string \<Rightarrow> (world, stock_move list) prog" where
  "pgi_movements u w item cursor = query (\<lambda>now d. map (scan_stock_move u) (take 50
     (rev (sort_key (im_at \<circ> snd) (sort_key fst (filter (\<lambda>(i, r). im_warehouse r = w
        \<and> (item = '''' \<or> im_item r = item) \<and> (cursor = '''' \<or> u i < cursor)) (inventory_movement d)))))))"

definition pgi_validate ::
    "string \<Rightarrow> string \<Rightarrow> string \<Rightarrow> string \<Rightarrow> int64 \<Rightarrow> (world, unit) prog" where
  "pgi_validate w src dst item q =
     (if src = dst then failP ErrSameLocation
      else bindP (query (\<lambda>now d. map_of (inventory_location_balance d) (w, src, item))) (\<lambda>row.
        case row of
          None \<Rightarrow> failP ErrInvSource
        | Some r \<Rightarrow>
            if i64_less (st_quantity r) q then failP ErrInvStock
            else bindP (query (\<lambda>now d. map_of (warehouse_location d) (w, dst) \<noteq> None)) (\<lambda>exists.
              checkP (\<not> exists) ErrInvDestination)))"

text \<open>The ledger row carries the command id as its task and 1 as its version: the unique key
  admits one transfer per command. \<open>parse\<close> is \<open>uuid.Parse\<close> with the error dropped.\<close>

definition pgi_transfer :: "(string \<Rightarrow> uuid) \<Rightarrow> transfer \<Rightarrow> (world, unit) prog" where
  "pgi_transfer parse t =
     (let q = tr_quantity t; w = tr_warehouse t; item = tr_item t in
      bindP (on_stock (\<lambda>now tab. take_at (w, tr_source t, item) q (tr_as_of t) tab)) (\<lambda>n.
      bindP (checkP (n \<noteq> 1) ErrInvStock) (\<lambda>_.
      bindP (on_stock (\<lambda>now tab. no_value (put_at (w, tr_dest t, item) q (tr_as_of t) tab))) (\<lambda>_.
      insert_movement (parse (tr_command t)) \<lparr>im_task = tr_command t, im_workflow = ''TRANSFER'',
        im_warehouse = w, im_item = item, im_source = tr_source t, im_dest = tr_dest t, im_quantity = q,
        im_version = 1, im_at = tr_as_of t\<rparr>))))"

section \<open>Commands and audit\<close>

definition inv_status_of :: "uuid \<times> inventory_document command_row \<Rightarrow> inv_result" where
  "inv_status_of = (\<lambda>(i, r). \<lparr>ir_id = i, ir_warehouse = cr_warehouse r, ir_operator = cr_operator r,
     ir_result = Some (cr_result r)\<rparr>)"

definition pgi_find :: "string \<Rightarrow> (world, inv_result option) prog" where
  "pgi_find k = bindP advisory_lock (\<lambda>_.
     query (\<lambda>now d. map_option inv_status_of (command_by_key k (inventory_command_status d))))"

definition pgi_save_command :: "string \<Rightarrow> string \<Rightarrow> inv_result \<Rightarrow> (world, unit) prog" where
  "pgi_save_command k ty r = (case ir_result r of
     None \<Rightarrow> failP (TextError ''invalid input syntax for type json'')
   | Some t \<Rightarrow> sql (on_table inventory_command_status (\<lambda>x d. d\<lparr>inventory_command_status := x\<rparr>) (\<lambda>now tab.
       no_value (insert_command ''inventory_command_status'' (ir_id r)
         \<lparr>cr_key = k, cr_type = ty, cr_scope = '''', cr_warehouse = ir_warehouse r,
          cr_operator = ir_operator r, cr_result = t\<rparr> tab))))"

definition pgi_append :: "envelope \<Rightarrow> (world, unit) prog" where
  "pgi_append e = bindP (liftE (marshal_envelope e)) insert_outbox"

definition pgi_audit :: "string \<Rightarrow> string \<Rightarrow> actor \<Rightarrow> json \<Rightarrow> (world, unit) prog" where
  "pgi_audit action i a details = bindP new_uuid (\<lambda>eid. insert_audit eid action ''SUCCESS'' i a details)"

definition pgi_within_tx :: "(world, 'a) prog \<Rightarrow> (world, 'a) prog" where
  "pgi_within_tx m = with_tx m"

definition pgi_invalidate :: "string \<Rightarrow> string \<Rightarrow> string \<Rightarrow> (world, unit) prog" where
  "pgi_invalidate w item l = returnP ()"

section \<open>Cycle counts\<close>

text \<open>\<open>SELECT \<dots> FROM cycle_count_line WHERE task_id = $1 ORDER BY line_id\<close>.\<close>

definition count_lines_of :: "string \<Rightarrow> (string \<times> count_line_row) list \<Rightarrow> count_line list" where
  "count_lines_of i tab = children ccl_task scan_count_line i tab"

definition pgi_get_count :: "string \<Rightarrow> (world, count_task) prog" where
  "pgi_get_count i = bindP (query (\<lambda>now d. map_of (cycle_count_task d) i)) (\<lambda>row.
     case row of
       None \<Rightarrow> failP ErrInvNotFound
     | Some r \<Rightarrow> bindP (query (\<lambda>now d. count_lines_of i (cycle_count_line d))) (\<lambda>ls.
         returnP (scan_count i r ls)))"

definition pgi_list_counts :: "string \<Rightarrow> string \<Rightarrow> (world, count_task list) prog" where
  "pgi_list_counts w op = bindP (query (\<lambda>now d. sort (map fst (filter (\<lambda>(i, r). cc_warehouse r = w
       \<and> (cc_operator r = None \<or> cc_operator r = Some op)) (cycle_count_task d))))) (mapP pgi_get_count)"

definition store_count :: "count_task \<Rightarrow> count_row \<Rightarrow> count_row" where
  "store_count t r = r\<lparr>cc_operator := ct_operator t, cc_status := ct_status t,
     cc_version := ct_version t, cc_updated := ct_updated t\<rparr>"

definition store_count_line :: "count_line \<Rightarrow> count_line_row \<Rightarrow> count_line_row" where
  "store_count_line l r = r\<lparr>ccl_counted := cl_counted l, ccl_variance := cl_variance l, ccl_recount := cl_recount l\<rparr>"

definition pgi_save_line :: "count_line \<Rightarrow> (world, unit) prog" where
  "pgi_save_line l = save_child ''cycle_count_line'' count_line_ok cycle_count_line
     (\<lambda>x d. d\<lparr>cycle_count_line := x\<rparr>) (cl_id l) (store_count_line l)"

definition pgi_save_count :: "count_task \<Rightarrow> (world, unit) prog" where
  "pgi_save_count t =
     bindP (sql (on_table cycle_count_task (\<lambda>x d. d\<lparr>cycle_count_task := x\<rparr>) (\<lambda>now tab.
       update_at ''cycle_count_task'' count_ok (ct_id t) (store_count t) tab))) (\<lambda>_.
     bindP (mirror_task (ct_id t) (ct_status t) (ct_operator t) (ct_version t) (ct_updated t)) (\<lambda>_.
     forP (ct_lines t) pgi_save_line))"

text \<open>The primary keys make a second run a no-op, and so does
  \<open>UNIQUE(task_id, item_id)\<close> on the lines.\<close>

definition pgi_seed :: "(world, unit) prog" where
  "pgi_seed = pgi_within_tx (let ts = seed_instant in
     bindP (sql (on_table warehouse_task (\<lambda>x d. d\<lparr>warehouse_task := x\<rparr>) (\<lambda>now tab.
       no_value (insert_ignore ''warehouse_task'' warehouse_ok ''CC-001''
         \<lparr>wt_category = ''CYCLE_COUNT'', wt_status = ''NEW'', wt_priority = 50, wt_warehouse = ''WH-01'',
          wt_operator = None, wt_version = 1, wt_updated = ts\<rparr> tab)))) (\<lambda>_.
     bindP (sql (on_table cycle_count_task (\<lambda>x d. d\<lparr>cycle_count_task := x\<rparr>) (\<lambda>now tab.
       no_value (insert_ignore ''cycle_count_task'' count_ok ''CC-001''
         \<lparr>cc_warehouse = ''WH-01'', cc_operator = None, cc_location = ''PICK-01'', cc_status = ''NEW'',
          cc_version = 1, cc_updated = ts\<rparr> tab)))) (\<lambda>_.
     sql (on_table cycle_count_line (\<lambda>x d. d\<lparr>cycle_count_line := x\<rparr>) (\<lambda>now tab.
       if \<exists>(l, r) \<in> set tab. ccl_task r = ''CC-001'' \<and> ccl_item r = ''ITEM-001'' then Inr ((), tab)
       else no_value (insert_ignore ''cycle_count_line'' count_line_ok ''CC-LINE-01''
         \<lparr>ccl_task = ''CC-001'', ccl_item = ''ITEM-001'', ccl_expected = 16, ccl_counted = None,
          ccl_variance = None, ccl_recount = False\<rparr> tab))))))"

definition pg_inv_ports :: "(uuid \<Rightarrow> string) \<Rightarrow> (string \<Rightarrow> uuid) \<Rightarrow> world inv_ports" where
  "pg_inv_ports u parse = \<lparr>ip_search = pgi_search, ip_balances = pgi_balances,
     ip_movements = pgi_movements u, ip_validate = pgi_validate, ip_transfer = pgi_transfer parse,
     ip_list_counts = pgi_list_counts, ip_get_count = pgi_get_count,
     ip_get_count_for_update = pgi_get_count, ip_save_count = pgi_save_count, ip_find = pgi_find,
     ip_save_command = pgi_save_command, ip_transfer_tx = pgi_within_tx, ip_count_tx = pgi_within_tx,
     ip_append = pgi_append, ip_audit = pgi_audit, ip_publish = publish_event,
     ip_invalidate = pgi_invalidate, ip_now = clock_now, ip_new_uuid = new_uuid, ip_uuid_string = u\<rparr>"

lemma pg_inv_ports_sel [simp]:
  "ip_search (pg_inv_ports u p) = pgi_search" "ip_balances (pg_inv_ports u p) = pgi_balances"
  "ip_movements (pg_inv_ports u p) = pgi_movements u" "ip_validate (pg_inv_ports u p) = pgi_validate"
  "ip_transfer (pg_inv_ports u p) = pgi_transfer p" "ip_list_counts (pg_inv_ports u p) = pgi_list_counts"
  "ip_get_count (pg_inv_ports u p) = pgi_get_count" "ip_get_count_for_update (pg_inv_ports u p) = pgi_get_count"
  "ip_save_count (pg_inv_ports u p) = pgi_save_count" "ip_find (pg_inv_ports u p) = pgi_find"
  "ip_save_command (pg_inv_ports u p) = pgi_save_command" "ip_transfer_tx (pg_inv_ports u p) = pgi_within_tx"
  "ip_count_tx (pg_inv_ports u p) = pgi_within_tx" "ip_append (pg_inv_ports u p) = pgi_append"
  "ip_audit (pg_inv_ports u p) = pgi_audit" "ip_publish (pg_inv_ports u p) = publish_event"
  "ip_invalidate (pg_inv_ports u p) = pgi_invalidate" "ip_now (pg_inv_ports u p) = clock_now"
  "ip_new_uuid (pg_inv_ports u p) = new_uuid" "ip_uuid_string (pg_inv_ports u p) = u"
  by (simp_all add: pg_inv_ports_def)

section \<open>The contract holds\<close>

definition inv_keys_of :: "tables \<Rightarrow> string \<Rightarrow> inv_result option" where
  "inv_keys_of d k = map_option inv_status_of (command_by_key k (inventory_command_status d))"

definition count_of :: "tables \<Rightarrow> string \<Rightarrow> count_task option" where
  "count_of d i = map_option (\<lambda>r. scan_count i r (count_lines_of i (cycle_count_line d))) (map_of (cycle_count_task d) i)"

definition inv_db :: "tables \<Rightarrow> inv_view" where
  "inv_db d = \<lparr>iv_stock = stock_of d, iv_counts = count_of d, iv_keys = inv_keys_of d, iv_outbox = outbox_of d\<rparr>"

definition pg_inv_view :: "world \<Rightarrow> inv_view" where
  "pg_inv_view = of_db inv_db"

lemma pg_inv_view_eq: "pg_inv_view s = inv_db (w_db s)"
  by (simp add: pg_inv_view_def of_db_def)

lemma inv_db_frames [simp]:
  "inv_db (d\<lparr>warehouse_task := a\<rparr>) = inv_db d" "inv_db (d\<lparr>inventory_movement := c\<rparr>) = inv_db d"
  "inv_db (d\<lparr>audit_record := e\<rparr>) = inv_db d"
  by (simp_all add: inv_db_def inv_keys_of_def [abs_def] count_of_def [abs_def] outbox_of_def stock_of_def)

lemma inv_db_updates:
  "inv_db (d\<lparr>inventory_location_balance := st\<rparr>)
     = (inv_db d)\<lparr>iv_stock := \<lambda>k. map_option st_quantity (map_of st k)\<rparr>"
  "inv_db (d\<lparr>domain_outbox := ob\<rparr>) = (inv_db d)\<lparr>iv_outbox := map (ob_envelope \<circ> snd) ob\<rparr>"
  "inv_db (d\<lparr>inventory_command_status := cs\<rparr>)
     = (inv_db d)\<lparr>iv_keys := \<lambda>k. map_option inv_status_of (command_by_key k cs)\<rparr>"
  by (simp_all add: inv_db_def inv_keys_of_def [abs_def] count_of_def [abs_def] outbox_of_def stock_of_def)

lemma frame_pgi_reads:
  "frame pg_inv_view (pgi_find k)" "frame pg_inv_view (pgi_get_count i)"
  "frame pg_inv_view (pgi_balances w it l)" "frame pg_inv_view (pgi_validate w sl dl it q)"
  "frame pg_inv_view (pgi_invalidate w it l)"
  unfolding pg_inv_view_def pgi_find_def pgi_get_count_def pgi_balances_def pgi_validate_def
    pgi_invalidate_def advisory_lock_def
  by (intro frame_intros)+

lemma frame_pgi_env:
  "frame pg_inv_view clock_now" "frame pg_inv_view new_uuid" "frame pg_inv_view (publish_event e)"
  unfolding pg_inv_view_def by (intro frame_db_env)+

lemma frame_pgi_audit: "frame pg_inv_view (pgi_audit a g ac j)"
proof -
  have "frame pg_inv_view (insert_audit i a oc g ac j)" for i oc
    unfolding pg_inv_view_def insert_audit_def by (rule frame_on_table) simp
  then show ?thesis unfolding pgi_audit_def by (intro frame_intros frame_pgi_env)
qed

lemma frame_pgi_mirror: "frame pg_inv_view (mirror_task i st p v ts)"
  unfolding pg_inv_view_def mirror_task_def by (rule frame_on_table) simp

lemma pgi_find_ok: "pgi_find k s = (Inr x, s') \<Longrightarrow> iv_keys (pg_inv_view s) k = x"
  by (auto simp: pgi_find_def advisory_lock_def prog_iffs pg_inv_view_eq inv_db_def inv_keys_of_def elim!: query_Inr)

lemma pgi_validate_ok: "pgi_validate w sl dl it q s = (Inr z, s') \<Longrightarrow> sl \<noteq> dl"
  by (auto simp: pgi_validate_def split: if_splits)

interpretation count_lines: child_table "''cycle_count_line''" count_line_ok cycle_count_line
  "\<lambda>x d. d\<lparr>cycle_count_line := x\<rparr>" ccl_task scan_count_line cl_id store_count_line cl_core
proof
  show "cl_id c = cl_id c'" if "cl_core c = cl_core c'" for c c'
    using arg_cong [OF that, of cl_id] by simp
  fix c r assume core: "cl_core c = cl_core (scan_count_line (cl_id c) r)"
  have "cl_item c = ccl_item r" "cl_expected c = ccl_expected r"
    using arg_cong [OF core, of cl_item] arg_cong [OF core, of cl_expected]
    by (simp_all add: cl_core_def scan_count_line_def)
  then show "scan_count_line (cl_id c) (store_count_line c r) = c"
    by (simp add: scan_count_line_def store_count_line_def)
qed (simp_all add: scan_count_line_def store_count_line_def)

lemmas count_lines_ids = count_lines.children_ids [folded count_lines_of_def]

lemma pgi_get_ok: "pgi_get_count i s = (Inr c, s') \<Longrightarrow>
    iv_counts (pg_inv_view s) i = Some c \<and> ct_id c = i \<and> distinct (map cl_id (ct_lines c))"
  by (auto simp: pgi_get_count_def prog_iffs pg_inv_view_eq inv_db_def count_of_def scan_count_def
      count_lines_ids distinct_child_keys split: option.splits elim!: query_Inr)

lemma pgi_save_ok:
  assumes "pgi_save_count t s = (Inr u, s')" and "iv_counts (pg_inv_view s) (ct_id t) = Some t0" and "ct_work t0 t"
  shows "ct_rows_ok t \<and> pg_inv_view s' = (pg_inv_view s)\<lparr>iv_counts := (iv_counts (pg_inv_view s))(ct_id t \<mapsto> t)\<rparr>"
proof -
  from assms(1) obtain n m s1 s2 where
    upd: "sql (on_table cycle_count_task (\<lambda>x d. d\<lparr>cycle_count_task := x\<rparr>) (\<lambda>now tab.
       update_at ''cycle_count_task'' count_ok (ct_id t) (store_count t) tab)) s = (Inr n, s1)"
    and mir: "mirror_task (ct_id t) (ct_status t) (ct_operator t) (ct_version t) (ct_updated t) s1 = (Inr m, s2)"
    and lines: "forP (ct_lines t) pgi_save_line s2 = (Inr u, s')"
    unfolding pgi_save_count_def by (auto simp: prog_iffs)
  from upd obtain tab' where
    tab: "update_at ''cycle_count_task'' count_ok (ct_id t) (store_count t) (cycle_count_task (w_db s)) = Inr (n, tab')"
    and db: "w_db s1 = (w_db s)\<lparr>cycle_count_task := tab'\<rparr>"
    by (rule sql_table_Inr) auto
  from assms(2) obtain r where r: "map_of (cycle_count_task (w_db s)) (ct_id t) = Some r"
    and t0: "t0 = scan_count (ct_id t) r (count_lines_of (ct_id t) (cycle_count_line (w_db s)))"
    by (auto simp: pg_inv_view_eq inv_db_def count_of_def)
  from mir obtain wt where d1: "w_db s2 = (w_db s1)\<lparr>warehouse_task := wt\<rparr>"
    unfolding mirror_task_def by (rule sql_table_Inr) auto
  have "map cl_core (ct_lines t) = map cl_core (count_lines_of (ct_id t) (cycle_count_line (w_db s2)))"
    using ct_work_sel(4) [OF assms(3)] by (simp add: t0 scan_count_def d1 db)
  with count_lines.save_children [OF lines [unfolded pgi_save_line_def], of "ct_id t"] obtain ltab where
    d2: "w_db s' = (w_db s2)\<lparr>cycle_count_line := ltab\<rparr>"
    and ls: "count_lines_of (ct_id t) ltab = ct_lines t"
      "\<And>j. j \<noteq> ct_id t \<Longrightarrow> count_lines_of j ltab = count_lines_of j (cycle_count_line (w_db s))"
    and ok: "\<forall>l \<in> set (ct_lines t). \<exists>r. count_line_ok (store_count_line l r)"
    by (auto simp: db d1 count_lines_of_def)
  have rows: "ct_rows_ok t"
    using ok tab r by (auto simp: ct_rows_ok_def count_line_ok_def store_count_line_def i64_le_def
        update_at_Inr count_ok_def store_count_def i64_less_def)
  have scan: "scan_count (ct_id t) (store_count t r) (ct_lines t) = t"
  proof -
    have "t = (ct_frame t)\<lparr>ct_status := ct_status t, ct_operator := ct_operator t, ct_version := ct_version t,
       ct_updated := ct_updated t, ct_lines := ct_lines t\<rparr>" by (simp add: ct_frame_def)
    also have "ct_frame t = ct_frame t0" using assms(3) by (simp add: ct_work_def)
    finally show ?thesis by (simp add: ct_frame_def t0 scan_count_def store_count_def)
  qed
  have "count_of (w_db s') = (count_of (w_db s))(ct_id t \<mapsto> t)"
    using update_at_map [OF tab] r scan ls by (auto simp: count_of_def fun_eq_iff d2 d1 db)
  then have "pg_inv_view s' = (pg_inv_view s)\<lparr>iv_counts := (iv_counts (pg_inv_view s))(ct_id t \<mapsto> t)\<rparr>"
    by (simp add: pg_inv_view_eq inv_db_def outbox_of_def stock_of_def inv_keys_of_def [abs_def] d2 d1 db)
  with rows show ?thesis by simp
qed

lemma pgi_transfer_ok:
  assumes "pgi_transfer parse t s = (Inr z, s')"
  shows "0 < sint (tr_quantity t) \<and> (\<exists>st. move_stock (iv_stock (pg_inv_view s)) (tr_warehouse t, tr_source t, tr_item t)
           (tr_warehouse t, tr_dest t, tr_item t) (tr_quantity t) = Some st
         \<and> pg_inv_view s' = (pg_inv_view s)\<lparr>iv_stock := st\<rparr>)"
proof -
  let ?a = "(tr_warehouse t, tr_source t, tr_item t)" and ?b = "(tr_warehouse t, tr_dest t, tr_item t)"
  from assms obtain s1 s2 where
    take: "on_stock (\<lambda>now tab. take_at ?a (tr_quantity t) (tr_as_of t) tab) s = (Inr 1, s1)"
    and put: "on_stock (\<lambda>now tab. no_value (put_at ?b (tr_quantity t) (tr_as_of t) tab)) s1 = (Inr (), s2)"
    and ins: "insert_movement (parse (tr_command t)) \<lparr>im_task = tr_command t, im_workflow = ''TRANSFER'',
        im_warehouse = tr_warehouse t, im_item = tr_item t, im_source = tr_source t, im_dest = tr_dest t,
        im_quantity = tr_quantity t, im_version = 1, im_at = tr_as_of t\<rparr> s2 = (Inr z, s')"
    unfolding pgi_transfer_def Let_def by (auto simp: prog_iffs)
  from take put obtain tab where d2: "w_db s2 = (w_db s)\<lparr>inventory_location_balance := tab\<rparr>"
    and mv: "move_stock (stock_of (w_db s)) ?a ?b (tr_quantity t) = Some (stock_of (w_db s2))"
    by (rule take_put_stock)
  from ins obtain im where d3: "w_db s' = (w_db s2)\<lparr>inventory_movement := im\<rparr>" and q: "0 < sint (tr_quantity t)"
    unfolding insert_movement_def
    by (rule sql_table_Inr) (auto simp: no_value_Inr insert_at_Inr inventory_movement_ok_def i64_less_def)
  from mv q show ?thesis by (auto simp: pg_inv_view_eq inv_db_updates d3 d2) (simp add: inv_db_def stock_of_def)
qed

lemma pgi_append_ok:
  assumes "well_formed e" and "pgi_append e s = (Inr u, s')"
  shows "pg_inv_view s' = (pg_inv_view s)\<lparr>iv_outbox := iv_outbox (pg_inv_view s) @ [e]\<rparr>"
proof -
  from assms have "insert_outbox e s = (Inr u, s')" by (auto simp: pgi_append_def prog_iffs well_formed_marshal)
  then show ?thesis
    by (rule insert_outbox_ok) (simp add: pg_inv_view_eq inv_db_updates, simp add: inv_db_def)
qed

lemma pgi_save_command_ok:
  assumes "pgi_save_command k ty r s = (Inr u, s')"
  shows "pg_inv_view s' = (pg_inv_view s)\<lparr>iv_keys := (iv_keys (pg_inv_view s))(k \<mapsto> r)\<rparr>"
proof -
  from assms obtain t where t: "ir_result r = Some t" and ins: "sql (on_table inventory_command_status
       (\<lambda>x d. d\<lparr>inventory_command_status := x\<rparr>) (\<lambda>now tab.
       no_value (insert_command ''inventory_command_status'' (ir_id r)
         \<lparr>cr_key = k, cr_type = ty, cr_scope = '''', cr_warehouse = ir_warehouse r,
          cr_operator = ir_operator r, cr_result = t\<rparr> tab))) s = (Inr u, s')"
    by (auto simp: pgi_save_command_def split: option.splits)
  from ins obtain tab' where tab: "insert_command ''inventory_command_status'' (ir_id r)
         \<lparr>cr_key = k, cr_type = ty, cr_scope = '''', cr_warehouse = ir_warehouse r,
          cr_operator = ir_operator r, cr_result = t\<rparr> (inventory_command_status (w_db s)) = Inr tab'"
    and db: "w_db s' = (w_db s)\<lparr>inventory_command_status := tab'\<rparr>"
    by (rule sql_table_Inr) (auto simp: no_value_Inr)
  have "\<lparr>ir_id = ir_id r, ir_warehouse = ir_warehouse r, ir_operator = ir_operator r, ir_result = Some t\<rparr> = r"
    using t by simp
  then show ?thesis
    by (simp add: pg_inv_view_eq db inv_db_updates insert_command_key [OF tab] fun_eq_iff inv_status_of_def)
      (simp add: inv_db_def inv_keys_of_def [abs_def] fun_eq_iff inv_status_of_def)
qed

lemmas pgi_tx_ok = with_tx_view_ok [where g = inv_db, folded pg_inv_view_def]

lemmas pgi_tx_fail = with_tx_view_fail [where g = inv_db, folded pg_inv_view_def]

interpretation pgi: inventory_store "pg_inv_ports u parse" pg_inv_view
  by (unfold_locales, unfold pg_inv_ports_sel pgi_within_tx_def)
    ((rule frame_pgi_reads frame_pgi_env frame_pgi_audit pgi_find_ok pgi_validate_ok pgi_transfer_ok pgi_get_ok
        pgi_save_ok pgi_append_ok pgi_save_command_ok pgi_tx_ok pgi_tx_fail; assumption?)+)

section \<open>Runs\<close>

text \<open>
  Sequences of inventory commands through any store with the inventory contract, as steps of
  that contract, and what such sequences keep.
\<close>

section \<open>Sequences of calls\<close>

datatype inv_call =
    TransferCall transfer_command
  | SubmitCall string string int64 inv_command
  | RecountCall string string inv_command
  | CompleteCall string inv_command

fun run_inv :: "'s inv_ports \<Rightarrow> inv_call \<Rightarrow> 's \<Rightarrow> 's" where
  "run_inv P (TransferCall x) s = snd (inv_transfer P x s)"
| "run_inv P (SubmitCall i l q x) s = snd (submit_count P i l q x s)"
| "run_inv P (RecountCall i l x) s = snd (recount_count P i l x s)"
| "run_inv P (CompleteCall i x) s = snd (complete_count P i x s)"

fun run_invs :: "'s inv_ports \<Rightarrow> inv_call list \<Rightarrow> 's \<Rightarrow> 's" where
  "run_invs P [] s = s"
| "run_invs P (c # cs) s = run_invs P cs (run_inv P c s)"

context inventory_store
begin

lemma transfer_steps: "(inv_step (ip_uuid_string P))\<^sup>*\<^sup>* (view s) (view (snd (inv_transfer P x s)))"
  using inv_transfer_cases [of x s "fst (inv_transfer P x s)" "snd (inv_transfer P x s)"]
  by (auto intro: inv_step.transfers)

lemma count_steps:
  assumes "count_action (x :: inv_command) f"
  shows "(inv_step (ip_uuid_string P))\<^sup>*\<^sup>* (view s) (view (snd (count_mutation P i x et f s)))"
  using count_mutation_cases [of i x et f s "fst (count_mutation P i x et f s)" "snd (count_mutation P i x et f s)"] assms
  by (auto intro: inv_step.counts)

lemma run_inv_steps: "(inv_step (ip_uuid_string P))\<^sup>*\<^sup>* (view s) (view (run_inv P c s))"
  by (cases c) (auto simp: submit_count_def recount_count_def complete_count_def
      intro!: transfer_steps count_steps count_action.intros)

lemma run_invs_steps: "(inv_step (ip_uuid_string P))\<^sup>*\<^sup>* (view s) (view (run_invs P cs s))"
  by (induction cs arbitrary: s) (auto intro: rtranclp_trans run_inv_steps)

end

lemma inv_steps_inv: "(inv_step u)\<^sup>*\<^sup>* v v' \<Longrightarrow> inv_inv v \<Longrightarrow> inv_inv v'"
  by (induction rule: rtranclp_induct) (auto intro: inv_step_inv)

lemma inv_steps_totals: "(inv_step u)\<^sup>*\<^sup>* v v' \<Longrightarrow> same_totals (iv_stock v) (iv_stock v')"
  by (induction rule: rtranclp_induct) (auto intro: same_totals_trans inv_step_totals)

lemma inv_stock_view: "iv_stock (pg_inv_view s) = stock_of (w_db s)"
  by (simp add: pg_inv_view_eq inv_db_def)

lemma finite_stock_of: "finite (dom (stock_of d))"
proof -
  have "dom (stock_of d) = dom (map_of (inventory_location_balance d))" by (auto simp: stock_of_def)
  then show ?thesis by (simp add: finite_dom_map_of)
qed

lemma stock_sound_db: "stock_sound (stock_of d) \<longleftrightarrow> (\<forall>k. 0 \<le> stock_at (stock_of d) k)"
  by (simp add: stock_sound_def finite_stock_of)

end
