(* ===== verification/Inventory_Properties.thy ===== *)
theory Inventory_Properties
  imports Movement_Properties Pg_Inventory_Store
begin

text \<open>
  The inventory service on the PostgreSQL store: every command as a step of the contract, item
  totals over any interleaving with movement commands, transfers and their replay, and what a
  completed cycle count says.
\<close>

section \<open>Movement and inventory commands\<close>

text \<open>Movement and inventory commands on one database, in any order.\<close>

datatype warehouse_call = MovementCall mv_call | InventoryCall inv_call

fun run_wh :: "(uuid \<Rightarrow> string) \<Rightarrow> (string \<Rightarrow> uuid) \<Rightarrow> warehouse_call list \<Rightarrow> world \<Rightarrow> world" where
  "run_wh u parse [] s = s"
| "run_wh u parse (MovementCall c # cs) s = run_wh u parse cs (snd (run_mv (pg_mv_ports u) c s))"
| "run_wh u parse (InventoryCall c # cs) s = run_wh u parse cs (run_inv (pg_inv_ports u parse) c s)"

lemma mv_step_totals:
  assumes "mv_step v v'"
  shows "same_totals (vv_stock v) (vv_stock v')"
  using assms
proof cases
  case (acts x f q w et t e)
  from acts(2) show ?thesis
    by cases (auto simp: stock_after_def place_def i64_less_def split: if_splits intro: move_same_totals)
qed

lemma mv_steps_totals: "mv_step\<^sup>*\<^sup>* v v' \<Longrightarrow> same_totals (vv_stock v) (vv_stock v')"
  by (induction rule: rtranclp_induct) (auto intro: same_totals_trans mv_step_totals)

lemma run_wh_totals: "same_totals (stock_of (w_db s)) (stock_of (w_db (run_wh u parse cs s)))"
proof (induction u parse cs s rule: run_wh.induct)
  case (2 u parse c cs s)
  have "mv_step\<^sup>*\<^sup>* (pg_mv_view s) (pg_mv_view (snd (run_mv (pg_mv_ports u) c s)))"
    by (rule pgm_history.run_mv_R [OF prod.collapse [symmetric]])
  from same_totals_trans [OF mv_steps_totals [OF this, unfolded stock_of_view] 2] show ?case by simp
next
  case (3 u parse c cs s)
  from same_totals_trans [OF inv_steps_totals [OF pgi.run_inv_steps, unfolded inv_stock_view] 3] show ?case by simp
qed simp

section \<open>Properties\<close>

text \<open>C10: Item totals. Over any interleaving of movement commands and inventory commands on the same
  database, replayed or refused, and under whatever database faults, the quantity of every item
  over all locations of a warehouse stays what it was and no location falls below zero: moves
  and transfers neither create nor lose stock, and counts leave it alone.\<close>

theorem item_totals_conserved:
  assumes "\<forall>k. 0 \<le> stock_at (stock_of (w_db s)) k"
  shows "stock_total (item_place w item) (stock_of (w_db (run_wh u parse cs s)))
      = stock_total (item_place w item) (stock_of (w_db s))
    \<and> 0 \<le> stock_at (stock_of (w_db (run_wh u parse cs s))) k"
  using run_wh_totals [of s u parse cs] assms
  by (simp add: same_totals_def stock_sound_db del: split_paired_All)

text \<open>A confirmed transfer. When a transfer answers with a value on a fresh key, its ends differ,
  its quantity is positive and was on hand at the source, the stock of the item fell there and
  rose at the destination by that quantity and nowhere else, the answer describes that move, and
  one event of the transfer, with the answer as its payload, is appended to the outbox.\<close>

theorem transfer_moves_stock:
  assumes "inv_transfer (pg_inv_ports u parse) x s = (rep, s')" and "reply_value rep = Some t"
    and "inv_keys_of (w_db s) (ic_key x) = None"
  shows "tc_source x \<noteq> tc_dest x \<and> 0 < sint (tc_quantity x)
    \<and> sint (tc_quantity x) \<le> stock_at (stock_of (w_db s)) (at_place x (tc_source x))
    \<and> (\<forall>k. stock_at (stock_of (w_db s')) k = stock_at (stock_of (w_db s)) k
         - (if k = at_place x (tc_source x) then sint (tc_quantity x) else 0)
         + (if k = at_place x (tc_dest x) then sint (tc_quantity x) else 0))
    \<and> tr_source t = tc_source x \<and> tr_dest t = tc_dest x \<and> tr_item t = tc_item x
    \<and> tr_quantity t = tc_quantity x \<and> tr_status t = ''COMPLETED''
    \<and> (\<exists>e. outbox_of (w_db s') = outbox_of (w_db s) @ [e] \<and> ev_agg_id e = u (ic_id x)
         \<and> ev_payload e = RawJSON (transfer_json t))"
proof -
  from pgi.inv_transfer_cases [OF assms(1)] assms(2) obtain z where
    "transfer_effect u x (pg_inv_view s) t z (pg_inv_view s')" by auto
  then show ?thesis
  proof cases
    case transfer_replayed
    with assms(3) show ?thesis by (simp add: pg_inv_view_eq inv_db_def)
  next
    case (transferred st e eid ts)
    have db: "stock_of (w_db s') = st" "outbox_of (w_db s') = outbox_of (w_db s) @ [e]"
      "iv_stock (pg_inv_view s) = stock_of (w_db s)"
      using arg_cong [OF transferred(2), of iv_stock] arg_cong [OF transferred(2), of iv_outbox]
      by (simp_all add: pg_inv_view_eq inv_db_def)
    from transferred db have mv: "move_stock (stock_of (w_db s)) (at_place x (tc_source x)) (at_place x (tc_dest x))
        (tc_quantity x) = Some st" by simp
    then have "sint (tc_quantity x) \<le> stock_at (stock_of (w_db s)) (at_place x (tc_source x))"
      by (auto simp: move_stock_def take_stock_def stock_at_def i64_le_def bind_eq_Some_conv split: option.splits if_splits)
    with transferred db move_stock_at [OF mv] show ?thesis by (simp add: inv_event_def)
  qed
qed

lemma transfer_on_used_key:
  "transfer_effect u x v t e v' \<Longrightarrow> iv_keys v (ic_key x) = Some r \<Longrightarrow>
    v' = v \<and> ir_warehouse r = ac_warehouse (ic_actor x) \<and> ir_operator r = ac_operator (ic_actor x)
    \<and> (\<exists>d. ir_result r = Some d \<and> t = decode_transfer d)"
  by (erule transfer_effect.cases) auto

lemma transfer_records_key: "transfer_effect u x v t e v' \<Longrightarrow>
    \<exists>r d. iv_keys v' (ic_key x) = Some r \<and> ir_result r = Some d \<and> decode_transfer d = t"
  by (erule transfer_effect.cases) (auto simp: inv_result_of_def)

lemma inv_step_keeps_keys: "inv_step u v v' \<Longrightarrow> iv_keys v k = Some r \<Longrightarrow> iv_keys v' k = Some r"
  by (erule inv_step.cases) (auto elim!: transfer_effect.cases count_effect.cases)

lemma inv_steps_keep_keys: "(inv_step u)\<^sup>*\<^sup>* v v' \<Longrightarrow> iv_keys v k = Some r \<Longrightarrow> iv_keys v' k = Some r"
  by (induction rule: rtranclp_induct) (auto dest: inv_step_keeps_keys)

text \<open>A retried transfer. When a transfer has answered with a value, then after any further
  inventory commands the same transfer, if it answers with a value, answers with the same
  document, snapshots included, and moves no stock and adds no event and no key.\<close>

theorem transfer_retry_is_idempotent:
  assumes "inv_transfer (pg_inv_ports u parse) x s = (rep, s1)" and "reply_value rep = Some t"
    and "inv_transfer (pg_inv_ports u parse) x (run_invs (pg_inv_ports u parse) cs s1) = (rep2, s3)"
    and "reply_value rep2 = Some t2"
  shows "t2 = t \<and> inv_db (w_db s3) = inv_db (w_db (run_invs (pg_inv_ports u parse) cs s1))"
proof -
  let ?s2 = "run_invs (pg_inv_ports u parse) cs s1"
  from pgi.inv_transfer_cases [OF assms(1)] assms(2) obtain z where
    "transfer_effect u x (pg_inv_view s) t z (pg_inv_view s1)" by auto
  from transfer_records_key [OF this] obtain r d where
    "iv_keys (pg_inv_view s1) (ic_key x) = Some r" and r: "ir_result r = Some d" "decode_transfer d = t" by auto
  from inv_steps_keep_keys [OF pgi.run_invs_steps this(1)]
  have k: "iv_keys (pg_inv_view ?s2) (ic_key x) = Some r" .
  from pgi.inv_transfer_cases [OF assms(3)] assms(4) obtain z2 where
    "transfer_effect u x (pg_inv_view ?s2) t2 z2 (pg_inv_view s3)" by auto
  from transfer_on_used_key [OF this k] r show ?thesis by (auto simp: pg_inv_view_eq)
qed

text \<open>C11: A completed count. After any sequence of inventory commands, by whomever and under whatever
  database faults, a cycle count that is completed has every line counted, with exactly the
  expected quantity and variance zero.\<close>

theorem completed_count_reconciled:
  assumes "inv_inv (inv_db (w_db s))"
    and "count_of (w_db (run_invs (pg_inv_ports u parse) cs s)) i = Some t" and "ct_status t = ''COMPLETED''"
  shows "list_all (\<lambda>l. cl_counted l = Some (cl_expected l) \<and> cl_variance l = Some 0 \<and> \<not> cl_recount l) (ct_lines t)"
proof -
  have "inv_inv (pg_inv_view (run_invs (pg_inv_ports u parse) cs s))"
    by (rule inv_steps_inv [OF pgi.run_invs_steps]) (simp add: pg_inv_view_eq assms(1))
  with assms(2) have "count_sound t" by (auto simp: inv_inv_def pg_inv_view_eq inv_db_def)
  with assms(3) show ?thesis by (auto simp: count_sound_def list_all_iff line_sound_def)
qed

text \<open>A submitted count. When the submission of a counted quantity answers with a value on a fresh
  key, the command named the stored version, the operator holds the task afterwards and nobody
  else held it before, the first line with that id carries the quantity and its difference from
  the expected one, recount is asked for exactly when they differ, the other lines are as they
  were, and no stock moves.\<close>

theorem submitted_count:
  assumes "submit_count (pg_inv_ports u parse) i line q x s = (rep, s')" and "reply_value rep = Some t'"
    and "inv_keys_of (w_db s) (ic_key x) = None" and "count_of (w_db s) i = Some t"
  shows "ct_version t = ic_base_version x \<and> ct_operator t \<in> {None, Some (ac_operator (ic_actor x))}
    \<and> (\<exists>ls1 l ls2. ct_lines t = ls1 @ l # ls2 \<and> cl_id l = line
        \<and> ct_lines t' = ls1 @ l\<lparr>cl_counted := Some q, cl_variance := Some (q - cl_expected l),
                                 cl_recount := q \<noteq> cl_expected l\<rparr> # ls2)
    \<and> ct_operator t' = Some (ac_operator (ic_actor x)) \<and> ct_status t' = ''IN_PROGRESS''
    \<and> ct_version t' = ct_version t + 1 \<and> 0 \<le> sint q
    \<and> count_of (w_db s') = (count_of (w_db s))(i \<mapsto> t') \<and> stock_of (w_db s') = stock_of (w_db s)"
proof -
  let ?f = "ct_submit (ac_operator (ic_actor x)) line q (ic_base_version x)"
  from assms(1) have run: "count_mutation (pg_inv_ports u parse) i x ''CycleCountSubmitted'' ?f s = (rep, s')"
    by (simp add: submit_count_def)
  from pgi.count_mutation_cases [OF run count_action.intros(1)] assms(2) obtain z where
    "count_effect i x ''CycleCountSubmitted'' ?f (pg_inv_view s) t' z (pg_inv_view s')" by auto
  then show ?thesis
  proof cases
    case count_replayed
    with assms(3) show ?thesis by (simp add: pg_inv_view_eq inv_db_def)
  next
    case (counted t0 now e eid ts)
    have t0: "t0 = t" using counted assms(4) by (simp add: pg_inv_view_eq inv_db_def)
    have db: "count_of (w_db s') = (count_of (w_db s))(i \<mapsto> t')" "stock_of (w_db s') = stock_of (w_db s)"
      using counted(2) by (simp_all add: pg_inv_view_eq inv_db_def)
    from counted have "ct_line_step ''IN_PROGRESS'' (submitted q) (ac_operator (ic_actor x)) line (ic_base_version x) now t = Inr t'"
      by (simp add: ct_submit_def t0)
    then show ?thesis
    proof (rule ct_line_step_ok)
      fix ls1 l ls2 assume *: "ct_lines t = ls1 @ l # ls2" "ct_lines t' = ls1 @ submitted q l # ls2" "cl_id l = line"
        "ct_status t' = ''IN_PROGRESS''" "ct_version t' = ct_version t + 1" "ct_operator t' = Some (ac_operator (ic_actor x))"
        "ct_version t = ic_base_version x" "ct_operator t = None \<or> ct_operator t = Some (ac_operator (ic_actor x))"
      from *(2) counted have "0 \<le> sint q" by (auto simp: ct_rows_ok_def submitted_def Let_def)
      with * db show ?thesis by (auto simp: submitted_def Let_def)
    qed simp
  qed
qed

section \<open>Sample runs\<close>

text \<open>Identifiers are printed as that many letters and read back by counting them.\<close>

abbreviation ex_inv_ports :: "world inv_ports" where
  "ex_inv_ports \<equiv> pg_inv_ports (\<lambda>n. replicate n CHR ''u'') length"

definition ex_stock :: "int64 \<Rightarrow> stock_row" where
  "ex_stock q = \<lparr>st_quantity = q, st_version = 1, st_updated = 5\<rparr>"

definition ex_count_row :: "string \<Rightarrow> count_row" where
  "ex_count_row st = \<lparr>cc_warehouse = ''WH-01'', cc_operator = None, cc_location = ''PICK-01'', cc_status = st,
     cc_version = 1, cc_updated = 5\<rparr>"

definition ex_count_line :: "string \<Rightarrow> int64 \<Rightarrow> count_line_row" where
  "ex_count_line item q = \<lparr>ccl_task = ''CC-001'', ccl_item = item, ccl_expected = q, ccl_counted = None,
     ccl_variance = None, ccl_recount = False\<rparr>"

definition ex_inv_start :: world where
  "ex_inv_start = ex_world (empty_tables\<lparr>
     inventory_location_balance := [((''WH-01'', ''PICK-01'', ''ITEM-001''), ex_stock 16),
       ((''WH-01'', ''OLD-PICK-01'', ''ITEM-001''), ex_stock 3)],
     warehouse_location := [((''WH-01'', ''BULK-01''), \<lparr>wl_zone = ''BULK'', wl_capacity = 10, wl_used = 0, wl_item = None\<rparr>)],
     cycle_count_task := [(''CC-001'', ex_count_row ''NEW'')],
     cycle_count_line := [(''L1'', ex_count_line ''ITEM-001'' 16)]\<rparr>)"

definition ex_inv_command :: "string \<Rightarrow> uuid \<Rightarrow> string \<Rightarrow> int64 \<Rightarrow> inv_command" where
  "ex_inv_command p i k v = \<lparr>ic_id = i, ic_key = k, ic_base_version = v, ic_actor = ex_actor p\<rparr>"

definition ex_transfer :: "int64 \<Rightarrow> transfer_command" where
  "ex_transfer q = \<lparr>ic_id = 7, ic_key = ''k'', ic_base_version = 0, ic_actor = ex_actor ''A'',
     tc_source = ''PICK-01'', tc_dest = ''BULK-01'', tc_item = ''ITEM-001'', tc_lot = '''', tc_quantity = q\<rparr>"

definition ex_transferred :: "transfer reply \<times> world" where
  "ex_transferred = inv_transfer ex_inv_ports (ex_transfer 4) ex_inv_start"

definition ex_counting :: "inv_call list" where
  "ex_counting = [SubmitCall ''CC-001'' ''L1'' 16 (ex_inv_command ''A'' 8 ''s'' 1),
     CompleteCall ''CC-001'' (ex_inv_command ''A'' 9 ''c'' 2)]"

definition ex_submitted :: "count_task reply \<times> world" where
  "ex_submitted = submit_count ex_inv_ports ''CC-001'' ''L1'' 14 (ex_inv_command ''A'' 8 ''s'' 1) ex_inv_start"

lemma ex_inv_sound: "inv_inv (inv_db (w_db ex_inv_start))"
  by (auto simp: inv_inv_def inv_db_def count_of_def ex_inv_start_def ex_world_def empty_tables_def
      scan_count_def count_sound_def line_sound_def count_lines_of_def children_def child_keys_def
      scan_count_line_def ex_count_line_def ex_count_row_def split: if_splits)

lemma ex_inv_nonneg: "\<forall>k. 0 \<le> stock_at (stock_of (w_db ex_inv_start)) k"
  by (auto simp: stock_at_def stock_of_def ex_inv_start_def ex_world_def empty_tables_def ex_stock_def)

definition ex_retransferred :: "transfer reply \<times> world" where
  "ex_retransferred = inv_transfer ex_inv_ports (ex_transfer 4) (run_invs ex_inv_ports [] (snd ex_transferred))"

definition ex_counted :: "count_task option" where
  "ex_counted = count_of (w_db (run_invs ex_inv_ports ex_counting ex_inv_start)) ''CC-001''"

text \<open>One evaluation of the transfer answers every question about it: the answer, the answer of its
  repetition, the snapshots it recorded and what its key answers to a count.\<close>

lemma ex_transfer_runs:
  "case inv_transfer ex_inv_ports (ex_transfer 4) ex_inv_start of (r1, s1) \<Rightarrow>
     reply_value r1 \<noteq> None
     \<and> map_option (\<lambda>t. (map_option bl_location (tr_before_source t), map_option bl_quantity (tr_before_source t),
          map_option bl_quantity (tr_after_source t))) (reply_value r1) = Some (Some ''OLD-PICK-01'', Some 3, Some 3)
     \<and> fst (complete_count ex_inv_ports ''CC-001'' (ex_inv_command ''B'' 9 ''k'' 1) s1)
        = Done (zero_count\<lparr>ct_warehouse := ''WH-01'', ct_status := ''COMPLETED''\<rparr>)
     \<and> reply_value (fst (inv_transfer ex_inv_ports (ex_transfer 4) (run_invs ex_inv_ports [] s1))) \<noteq> None"
  by code_simp

lemmas ex_transfer_facts =
  ex_transfer_runs [unfolded case_prod_beta, folded ex_transferred_def, folded ex_retransferred_def]

lemmas ex_transferred_answer = ex_transfer_facts [THEN conjunct1]

lemmas ex_retransferred_answer = ex_transfer_facts [THEN conjunct2, THEN conjunct2, THEN conjunct2]

text \<open>The count is submitted with a variance, which blocks its completion; submitted as expected it
  completes, and another submission opens it again.\<close>

lemma ex_submit_runs:
  "case submit_count ex_inv_ports ''CC-001'' ''L1'' 14 (ex_inv_command ''A'' 8 ''s'' 1) ex_inv_start of (r1, s1) \<Rightarrow>
     reply_value r1 \<noteq> None
     \<and> fst (complete_count ex_inv_ports ''CC-001'' (ex_inv_command ''A'' 9 ''c'' 2) s1) = Failed ErrCountIncomplete"
  by code_simp

lemma ex_count_runs:
  "case run_invs ex_inv_ports ex_counting ex_inv_start of s1 \<Rightarrow>
     (count_of (w_db s1) ''CC-001'' \<noteq> None \<and> ct_status (the (count_of (w_db s1) ''CC-001'')) = ''COMPLETED'')
     \<and> map_option ct_status (reply_value (fst (submit_count ex_inv_ports ''CC-001'' ''L1'' 3
          (ex_inv_command ''A'' 10 ''r'' 3) s1))) = Some ''IN_PROGRESS''"
  by code_simp

lemmas ex_submit_facts = ex_submit_runs [unfolded case_prod_beta, folded ex_submitted_def]

lemma ex_counted_status: "ex_counted \<noteq> None" "ct_status (the ex_counted) = ''COMPLETED''"
  unfolding ex_counted_def using ex_count_runs by blast+

lemmas ex_submitted_answer = ex_submit_facts [THEN conjunct1]

lemma ex_count_known: "count_of (w_db ex_inv_start) ''CC-001'' \<noteq> None"
  by code_simp

lemma ex_inv_fresh: "inv_keys_of (w_db ex_inv_start) k = None"
  by (simp add: inv_keys_of_def ex_inv_start_def ex_world_def empty_tables_def command_by_key_def)

theorem item_totals_conserved_witness:
  "0 \<le> stock_at (stock_of (w_db (run_wh (\<lambda>n. replicate n CHR ''u'') length
      [InventoryCall (TransferCall (ex_transfer 4)), MovementCall ex_pick] ex_inv_start))) (''WH-01'', ''PICK-01'', ''ITEM-001'')"
  using item_totals_conserved [OF ex_inv_nonneg] by blast

theorem transfer_moves_stock_witness:
  "stock_at (stock_of (w_db (snd ex_transferred))) (''WH-01'', ''BULK-01'', ''ITEM-001'')
   = stock_at (stock_of (w_db ex_inv_start)) (''WH-01'', ''BULK-01'', ''ITEM-001'') + 4"
proof -
  have at: "at_place (ex_transfer 4) l = (''WH-01'', l, ''ITEM-001'')" "tc_source (ex_transfer 4) = ''PICK-01''"
    "tc_dest (ex_transfer 4) = ''BULK-01''" "tc_quantity (ex_transfer 4) = 4" for l
    by (simp_all add: at_place_def ex_transfer_def ex_actor_def)
  from transfer_moves_stock [OF ex_transferred_def [symmetric, THEN trans, OF split_run]
      ex_transferred_answer [THEN some_the] ex_inv_fresh, unfolded at]
  have "stock_at (stock_of (w_db (snd ex_transferred))) k = stock_at (stock_of (w_db ex_inv_start)) k
      - (if k = (''WH-01'', ''PICK-01'', ''ITEM-001'') then sint (4 :: int64) else 0)
      + (if k = (''WH-01'', ''BULK-01'', ''ITEM-001'') then sint (4 :: int64) else 0)" for k by blast
  then show ?thesis by simp
qed

theorem transfer_retry_is_idempotent_witness:
  "the (reply_value (fst ex_retransferred)) = the (reply_value (fst ex_transferred))"
  by (rule transfer_retry_is_idempotent [THEN conjunct1])
    (rule ex_transferred_def [symmetric, THEN trans, OF split_run] ex_retransferred_def [symmetric, THEN trans, OF split_run]
      ex_transferred_answer [THEN some_the] ex_retransferred_answer [THEN some_the])+

theorem completed_count_reconciled_witness: "list_all (\<lambda>l. cl_counted l = Some (cl_expected l)) (ct_lines (the ex_counted))"
  using completed_count_reconciled [OF ex_inv_sound ex_counted_status(1) [THEN some_the, unfolded ex_counted_def],
      folded ex_counted_def, OF ex_counted_status(2)] by (simp add: list_all_iff)

theorem submitted_count_witness: "ct_status (the (reply_value (fst ex_submitted))) = ''IN_PROGRESS''"
  using submitted_count [OF ex_submitted_def [symmetric, THEN trans, OF split_run] ex_submitted_answer [THEN some_the]
      ex_inv_fresh ex_count_known [THEN some_the]] by blast

section \<open>Behaviour worth knowing\<close>

text \<open>The snapshots of a transfer are the first balance whose location merely contains the name of the
  source: here they show another location, whose quantity did not change.\<close>

lemma snapshot_of_another_location:
  "map_option (\<lambda>t. (map_option bl_location (tr_before_source t), map_option bl_quantity (tr_before_source t),
      map_option bl_quantity (tr_after_source t))) (reply_value (fst ex_transferred))
   = Some (Some ''OLD-PICK-01'', Some 3, Some 3)"
  using ex_transfer_facts by blast

text \<open>A count whose quantity differs from the expected one cannot be completed, whatever its
  tolerance: the line asks for a recount until the expected quantity is entered.\<close>

lemma variance_blocks_completion:
  "fst (complete_count ex_inv_ports ''CC-001'' (ex_inv_command ''A'' 9 ''c'' 2) (snd ex_submitted))
   = Failed ErrCountIncomplete"
  using ex_submit_facts by blast

text \<open>A completed count accepts another submission, which opens it again.\<close>

lemma completed_count_reopens:
  "map_option ct_status (reply_value (fst (submit_count ex_inv_ports ''CC-001'' ''L1'' 3
      (ex_inv_command ''A'' 10 ''r'' 3) (run_invs ex_inv_ports ex_counting ex_inv_start)))) = Some ''IN_PROGRESS''"
  using ex_count_runs by blast

text \<open>The key of a transfer, used again by anyone for a count, is answered with a count made of the
  members both documents share.\<close>

lemma transfer_replayed_as_count:
  "fst (complete_count ex_inv_ports ''CC-001'' (ex_inv_command ''B'' 9 ''k'' 1) (snd ex_transferred))
   = Done (zero_count\<lparr>ct_warehouse := ''WH-01'', ct_status := ''COMPLETED''\<rparr>)"
  using ex_transfer_facts by blast

end
