(* ===== verification/Shipping_Service.thy ===== *)
theory Shipping_Service
  imports Shipping_Domain Inventory_Service
begin

text \<open>
  The shipping service of \<open>internal/shipping/application/service.go\<close> over the ports of
  \<open>internal/shipping/ports/shipping.go\<close>.
\<close>

section \<open>Ports\<close>

record sh_result =
  hr_id :: uuid
  hr_shipment :: string
  hr_warehouse :: string
  hr_operator :: string
  hr_result :: "shipment option"

text \<open>The closures of both commands give the shipment and the events they appended; no event means
  that nothing changed.\<close>

type_synonym sh_outcome = "shipment \<times> envelope list"

record 's sh_ports =
  sp_get :: "string \<Rightarrow> ('s, shipment) prog"
  sp_get_for_update :: "string \<Rightarrow> ('s, shipment) prog"
  sp_save :: "shipment \<Rightarrow> ('s, unit) prog"
  sp_verify :: "string \<Rightarrow> string \<Rightarrow> ('s, unit) prog"
  sp_project :: "string \<Rightarrow> ('s, unit) prog"
  sp_find_key :: "string \<Rightarrow> ('s, sh_result option) prog"
  sp_find_id :: "uuid \<Rightarrow> ('s, sh_result option) prog"
  sp_save_command :: "string \<Rightarrow> sh_result \<Rightarrow> ('s, unit) prog"
  sp_within_tx :: "('s, sh_outcome) prog \<Rightarrow> ('s, sh_outcome) prog"
  sp_append :: "envelope \<Rightarrow> ('s, unit) prog"
  sp_audit :: "string \<Rightarrow> shipment \<Rightarrow> actor \<Rightarrow> json \<Rightarrow> ('s, unit) prog"
  sp_publish :: "envelope \<Rightarrow> ('s, unit) prog"
  sp_invalidate :: "string \<Rightarrow> string \<Rightarrow> ('s, unit) prog"
  sp_now :: "('s, time) prog"
  sp_new_uuid :: "('s, uuid) prog"

record sh_command =
  sc_id :: uuid
  sc_key :: string
  sc_shipment :: string
  sc_carrier :: string
  sc_tracking :: string
  sc_base_version :: int64
  sc_verified :: "string list"
  sc_actor :: actor

record verify_command =
  vc_shipment :: string
  vc_package :: string
  vc_barcode :: string
  vc_base_version :: int64
  vc_actor :: actor

definition shipment_denied :: err where
  [err_defs]: "shipment_denied =
     DomainError ''WAREHOUSE_ACCESS_DENIED'' ''Shipment access denied'' False"

definition sh_key_mismatch :: err where
  [err_defs]: "sh_key_mismatch =
     DomainError ''IDEMPOTENCY_KEY_REUSED'' ''Idempotency context mismatch'' False"

definition verify_pending :: err where
  [err_defs]: "verify_pending = DomainError ''MESSAGING_PUBLISH_PENDING''
     ''Package verification committed; publication pending'' True"

definition shipment_pending :: err where
  [err_defs]: "shipment_pending = DomainError ''MESSAGING_PUBLISH_PENDING''
     ''Shipment committed; publication pending'' True"

section \<open>Queries\<close>

definition sh_summary :: "'s sh_ports \<Rightarrow> string \<Rightarrow> actor \<Rightarrow> ('s, shipment) prog" where
  "sh_summary P i a =
     bindP (sp_get P i) (\<lambda>x. if sh_warehouse x \<noteq> ac_warehouse a then failP shipment_denied else returnP x)"

definition sh_readiness :: "'s sh_ports \<Rightarrow> string \<Rightarrow> actor \<Rightarrow> ('s, readiness_report) prog" where
  "sh_readiness P i a = bindP (sh_summary P i a) (\<lambda>x. returnP (readiness x))"

definition project_picking_complete :: "'s sh_ports \<Rightarrow> string \<Rightarrow> ('s, unit) prog" where
  "project_picking_complete P i = sp_project P i"

definition sh_command_status :: "'s sh_ports \<Rightarrow> uuid \<Rightarrow> actor \<Rightarrow> ('s, sh_result) prog" where
  "sh_command_status P cid a =
     bindP (sp_find_id P cid) (\<lambda>found.
       case found of
         None \<Rightarrow> failP ErrShNotFound
       | Some r \<Rightarrow> if hr_warehouse r \<noteq> ac_warehouse a \<or> hr_operator r \<noteq> ac_operator a
                   then failP command_denied else returnP r)"

section \<open>Commands\<close>

definition sh_event :: "string \<Rightarrow> shipment \<Rightarrow> actor \<Rightarrow> uuid \<Rightarrow> uuid \<Rightarrow> time \<Rightarrow> envelope" where
  "sh_event event_type s a cause eid ts =
     \<lparr>ev_id = eid, ev_type = event_type, ev_version = 1, ev_agg_type = ''Shipment'',
      ev_agg_id = sh_id s, ev_agg_version = sh_version s, ev_at = ts,
      ev_correlation = ac_correlation a, ev_cause = cause, ev_warehouse = ac_warehouse a,
      ev_operator = ac_operator a, ev_device = ac_device a, ev_topic = ''pda.shipping.events.v1'',
      ev_payload = RawJSON (shipment_json s)\<rparr>"

text \<open>Verifying a package: the event's cause is a new id, for the command has none.\<close>

definition verify_record :: "'s sh_ports \<Rightarrow> verify_command \<Rightarrow> shipment \<Rightarrow> ('s, sh_outcome) prog" where
  "verify_record P x s =
     bindP (sp_save P s) (\<lambda>_.
     bindP (sp_verify P (sh_id s) (vc_package x)) (\<lambda>_.
     bindP (sp_new_uuid P) (\<lambda>eid.
     bindP (sp_now P) (\<lambda>ts.
     bindP (sp_new_uuid P) (\<lambda>cause.
     let e = sh_event ''ShipmentPackageVerified'' s (vc_actor x) cause eid ts in
     bindP (liftE (validate e)) (\<lambda>_.
     bindP (sp_append P e) (\<lambda>_.
     bindP (sp_audit P ''ShipmentPackageVerified'' s (vc_actor x) (shipment_json s)) (\<lambda>_.
     returnP (s, [e])))))))))"

definition verify_tx :: "'s sh_ports \<Rightarrow> verify_command \<Rightarrow> ('s, sh_outcome) prog" where
  "verify_tx P x =
     bindP (sp_get_for_update P (vc_shipment x)) (\<lambda>s.
     bindP (checkP (sh_warehouse s \<noteq> ac_warehouse (vc_actor x)) shipment_denied) (\<lambda>_.
     bindP (sp_now P) (\<lambda>now.
     bindP (liftE (verify_package (vc_package x) (vc_barcode x) (vc_base_version x) now s)) (\<lambda>s'.
     if sh_version s' = sh_version s then returnP (s', []) else verify_record P x s'))))"

definition sh_verify_package :: "'s sh_ports \<Rightarrow> verify_command \<Rightarrow> 's \<Rightarrow> shipment reply \<times> 's" where
  "sh_verify_package P x s =
     (case sp_within_tx P (verify_tx P x) s of
        (Inl e, s1) \<Rightarrow> (Failed e, s1)
      | (Inr (t, []), s1) \<Rightarrow> (Done t, s1)
      | (Inr (t, e # es), s1) \<Rightarrow>
          let s2 = snd (sp_invalidate P (ac_warehouse (vc_actor x)) (ac_operator (vc_actor x)) s1) in
          case sp_publish P e s2 of
            (Inl _, s3) \<Rightarrow> (DonePending t verify_pending, s3)
          | (Inr _, s3) \<Rightarrow> (Done t, s3))"

definition ship_events :: "string list" where
  "ship_events = [''ShipmentReadinessChanged'', ''ShipmentConfirmed'', ''OrderShipped'']"

definition ship_event :: "'s sh_ports \<Rightarrow> sh_command \<Rightarrow> shipment \<Rightarrow> string \<Rightarrow> ('s, envelope) prog" where
  "ship_event P x s typ =
     bindP (sp_new_uuid P) (\<lambda>eid.
     bindP (sp_now P) (\<lambda>ts.
     let e = sh_event typ s (sc_actor x) (sc_id x) eid ts in
     bindP (liftE (validate e)) (\<lambda>_.
     bindP (sp_append P e) (\<lambda>_.
     returnP e))))"

definition ship_record :: "'s sh_ports \<Rightarrow> sh_command \<Rightarrow> shipment \<Rightarrow> ('s, sh_outcome) prog" where
  "ship_record P x s =
     bindP (sp_save P s) (\<lambda>_.
     bindP (mapP (ship_event P x s) ship_events) (\<lambda>events.
     bindP (sp_audit P ''ShipmentConfirmed'' s (sc_actor x) (shipment_json s)) (\<lambda>_.
     bindP (sp_save_command P (sc_key x)
        \<lparr>hr_id = sc_id x, hr_shipment = sh_id s, hr_warehouse = ac_warehouse (sc_actor x),
         hr_operator = ac_operator (sc_actor x), hr_result = Some s\<rparr>) (\<lambda>_.
     returnP (s, events)))))"

definition ship_tx :: "'s sh_ports \<Rightarrow> sh_command \<Rightarrow> ('s, sh_outcome) prog" where
  "ship_tx P x =
     bindP (sp_find_key P (sc_key x)) (\<lambda>found.
       case found of
         Some old \<Rightarrow>
           (if hr_shipment old \<noteq> sc_shipment x \<or> hr_warehouse old \<noteq> ac_warehouse (sc_actor x)
               \<or> hr_operator old \<noteq> ac_operator (sc_actor x) then failP sh_key_mismatch
            else case hr_result old of None \<Rightarrow> failP undecodable | Some t \<Rightarrow> returnP (t, []))
       | None \<Rightarrow>
          bindP (sp_get_for_update P (sc_shipment x)) (\<lambda>s.
          bindP (checkP (sh_warehouse s \<noteq> ac_warehouse (sc_actor x)) shipment_denied) (\<lambda>_.
          bindP (sp_now P) (\<lambda>now.
          bindP (liftE (confirm_with_packages (sc_carrier x) (sc_tracking x) (sc_verified x)
            (sc_base_version x) now s)) (ship_record P x)))))"

text \<open>After the commit the events are published in order, up to the first failure.\<close>

definition sh_confirm_shipment :: "'s sh_ports \<Rightarrow> sh_command \<Rightarrow> 's \<Rightarrow> shipment reply \<times> 's" where
  "sh_confirm_shipment P x s =
     (case sp_within_tx P (ship_tx P x) s of
        (Inl e, s1) \<Rightarrow> (Failed e, s1)
      | (Inr (t, []), s1) \<Rightarrow> (Done t, s1)
      | (Inr (t, e # es), s1) \<Rightarrow>
          let s2 = snd (sp_invalidate P (ac_warehouse (sc_actor x)) (ac_operator (sc_actor x)) s1) in
          case forP (e # es) (sp_publish P) s2 of
            (Inl _, s3) \<Rightarrow> (DonePending t shipment_pending, s3)
          | (Inr _, s3) \<Rightarrow> (Done t, s3))"

end
