(* ===== verification/Shipping_Contract.thy ===== *)
theory Shipping_Contract
  imports Shipping_Service
begin

text \<open>
  The contract of a shipping store, what a shipping command does when it takes effect, and the
  life cycle of a shipment that the service implements.
\<close>

section \<open>What the transitions do\<close>

lemma sh_touch_sel [simp]:
  "sh_id (sh_touch now s) = sh_id s" "sh_warehouse (sh_touch now s) = sh_warehouse s"
  "sh_packages (sh_touch now s) = sh_packages s" "sh_status (sh_touch now s) = sh_status s"
  "sh_version (sh_touch now s) = sh_version s + 1" "sh_picked (sh_touch now s) = sh_picked s"
  "sh_carrier (sh_touch now s) = sh_carrier s" "sh_tracking (sh_touch now s) = sh_tracking s"
  "sh_order (sh_touch now s) = sh_order s"
  by (simp_all add: sh_touch_def)

definition close_package :: "string \<Rightarrow> package \<Rightarrow> package" where
  "close_package i p = (if pk_id p = i then p\<lparr>pk_status := ''VERIFIED''\<rparr> else p)"

lemma close_package_sel [simp]: "pk_id (close_package i p) = pk_id p"
  by (simp add: close_package_def)

lemma package_closed_close [simp]: "package_closed (close_package i p) \<longleftrightarrow> package_closed p \<or> pk_id p = i"
  by (simp add: close_package_def package_closed_def)

lemma close_other: "i \<notin> pk_id ` set ps \<Longrightarrow> map (close_package i) ps = ps"
  by (induction ps) (auto simp: close_package_def)

lemma verify_packages_Some:
  "verify_packages i barcode ps = Inr (Some ps') \<Longrightarrow> distinct (map pk_id ps) \<Longrightarrow>
    ps' = map (close_package i) ps \<and> i \<in> pk_id ` set ps \<and> (barcode = '''' \<or> barcode = i)
    \<and> (\<exists>p \<in> set ps. pk_id p = i \<and> \<not> package_closed p)"
proof (induction ps arbitrary: ps')
  case (Cons p ps)
  show ?case
  proof (cases "pk_id p = i")
    case True
    with Cons.prems show ?thesis
      using close_other [of i ps] by (auto simp: close_package_def [of i p] split: if_splits)
  next
    case False
    with Cons.prems obtain qs where "verify_packages i barcode ps = Inr (Some qs)" "ps' = p # qs"
      by (auto simp: map_sum_def split: sum.splits)
    with Cons.IH [of qs] Cons.prems(2) False show ?thesis by (auto simp: close_package_def)
  qed
qed simp

lemma verify_package_cases:
  assumes "verify_package i barcode base now s = Inr t" and "distinct (map pk_id (sh_packages s))"
  obtains (same) "t = s" "sh_version s = base"
  | (closed) "t = sh_touch now (s\<lparr>sh_packages := map (close_package i) (sh_packages s)\<rparr>)" "sh_version s = base"
      "i \<in> pk_id ` set (sh_packages s)" "barcode = '''' \<or> barcode = i"
      "\<exists>p \<in> set (sh_packages s). pk_id p = i \<and> \<not> package_closed p"
  using assms
  by (auto simp: verify_package_def split: if_splits sum.splits option.splits dest: verify_packages_Some)

lemma confirm_ok:
  assumes "confirm_with_packages carrier tracking verified base now s = Inr t"
  shows "t = sh_touch now (s\<lparr>sh_carrier := Some (to_upper (trim_space carrier)),
      sh_tracking := Some (trim_space tracking), sh_status := ''SHIPPED''\<rparr>)"
    and "sh_version s = base" and "sh_status s \<noteq> ''SHIPPED''" and "sh_picked s"
    and "list_all package_closed (sh_packages s)" and "sh_packages s \<noteq> []"
    and "verified = [] \<or> pk_id ` set (sh_packages s) \<subseteq> set verified"
    and "to_upper (trim_space carrier) \<in> set carriers" and "tracking_ok (trim_space tracking)"
  using assms by (auto simp: confirm_with_packages_def readiness_def Let_def split: if_splits)

section \<open>Effects\<close>

record sh_view =
  hv_ships :: "string \<rightharpoonup> shipment"
  hv_keys :: "string \<rightharpoonup> sh_result"
  hv_outbox :: "envelope list"

definition sh_result_of :: "sh_command \<Rightarrow> shipment \<Rightarrow> sh_result" where
  "sh_result_of x t = \<lparr>hr_id = sc_id x, hr_shipment = sh_id t, hr_warehouse = ac_warehouse (sc_actor x),
     hr_operator = ac_operator (sc_actor x), hr_result = Some t\<rparr>"

definition ship_log :: "sh_command \<Rightarrow> shipment \<Rightarrow> envelope list \<Rightarrow> bool" where
  "ship_log x t es \<longleftrightarrow> map ev_type es = ship_events
     \<and> (\<forall>e \<in> set es. well_formed e \<and> (\<exists>eid ts. e = sh_event (ev_type e) t (sc_actor x) (sc_id x) eid ts))"

inductive verify_effect :: "verify_command \<Rightarrow> sh_view \<Rightarrow> shipment \<Rightarrow> envelope list \<Rightarrow> sh_view \<Rightarrow> bool"
  for x :: verify_command where
  verify_nothing: "hv_ships v (vc_shipment x) = Some t \<Longrightarrow> sh_warehouse t = ac_warehouse (vc_actor x) \<Longrightarrow>
    sh_version t = vc_base_version x \<Longrightarrow> verify_effect x v t [] v"
| verified: "hv_ships v (vc_shipment x) = Some s \<Longrightarrow> sh_warehouse s = ac_warehouse (vc_actor x) \<Longrightarrow>
    verify_package (vc_package x) (vc_barcode x) (vc_base_version x) now s = Inr t \<Longrightarrow> sh_version t \<noteq> sh_version s \<Longrightarrow>
    e = sh_event ''ShipmentPackageVerified'' t (vc_actor x) cause eid ts \<Longrightarrow> well_formed e \<Longrightarrow>
    verify_effect x v t [e] (v\<lparr>hv_ships := (hv_ships v)(vc_shipment x \<mapsto> t), hv_outbox := hv_outbox v @ [e]\<rparr>)"

inductive ship_effect :: "sh_command \<Rightarrow> sh_view \<Rightarrow> shipment \<Rightarrow> envelope list \<Rightarrow> sh_view \<Rightarrow> bool"
  for x :: sh_command where
  ship_replayed: "hv_keys v (sc_key x) = Some r \<Longrightarrow> hr_shipment r = sc_shipment x \<Longrightarrow>
    hr_warehouse r = ac_warehouse (sc_actor x) \<Longrightarrow> hr_operator r = ac_operator (sc_actor x) \<Longrightarrow>
    hr_result r = Some t \<Longrightarrow> ship_effect x v t [] v"
| shipped: "hv_keys v (sc_key x) = None \<Longrightarrow> hv_ships v (sc_shipment x) = Some s \<Longrightarrow>
    sh_warehouse s = ac_warehouse (sc_actor x) \<Longrightarrow>
    confirm_with_packages (sc_carrier x) (sc_tracking x) (sc_verified x) (sc_base_version x) now s = Inr t \<Longrightarrow>
    ship_log x t es \<Longrightarrow>
    ship_effect x v t es (v\<lparr>hv_ships := (hv_ships v)(sc_shipment x \<mapsto> t),
      hv_keys := (hv_keys v)(sc_key x \<mapsto> sh_result_of x t), hv_outbox := hv_outbox v @ es\<rparr>)"

text \<open>Picking is projected from elsewhere: a statement with no other guard than the id.\<close>

definition project_ship :: "string \<Rightarrow> time \<Rightarrow> sh_view \<Rightarrow> sh_view" where
  "project_ship i now v = (case hv_ships v i of None \<Rightarrow> v
     | Some s \<Rightarrow> v\<lparr>hv_ships := (hv_ships v)(i \<mapsto> sh_touch now (s\<lparr>sh_picked := True\<rparr>))\<rparr>)"

section \<open>The contract\<close>

locale shipping_store =
  fixes P :: "'s sh_ports" and view :: "'s \<Rightarrow> sh_view"
  assumes frame_find: "frame view (sp_find_key P k)"
    and frame_get: "frame view (sp_get_for_update P i)"
    and frame_audit: "frame view (sp_audit P a t ac j)"
    and frame_now: "frame view (sp_now P)"
    and frame_uuid: "frame view (sp_new_uuid P)"
    and frame_publish: "frame view (sp_publish P e)"
    and frame_invalidate: "frame view (sp_invalidate P w o')"
    and find_ok: "sp_find_key P k s = (Inr found, s') \<Longrightarrow> hv_keys (view s) k = found"
    and get_ok: "sp_get_for_update P i s = (Inr t, s') \<Longrightarrow>
      hv_ships (view s) i = Some t \<and> sh_id t = i \<and> distinct (map pk_id (sh_packages t))"
    and save_ok: "sp_save P t s = (Inr z, s') \<Longrightarrow> hv_ships (view s) (sh_id t) = Some t0 \<Longrightarrow>
      sh_order t = sh_order t0 \<Longrightarrow> sh_warehouse t = sh_warehouse t0 \<Longrightarrow> sh_picked t = sh_picked t0 \<Longrightarrow>
      view s' = (view s)\<lparr>hv_ships := (hv_ships (view s))(sh_id t \<mapsto> t\<lparr>sh_packages := sh_packages t0\<rparr>)\<rparr>"
    and verify_ok: "sp_verify P i p s = (Inr z, s') \<Longrightarrow> hv_ships (view s) i = Some t0 \<Longrightarrow>
      \<exists>q \<in> set (sh_packages t0). pk_id q = p \<and> \<not> package_closed q \<Longrightarrow>
      view s' = (view s)\<lparr>hv_ships := (hv_ships (view s))
        (i \<mapsto> t0\<lparr>sh_packages := map (close_package p) (sh_packages t0)\<rparr>)\<rparr>"
    and project_ok: "sp_project P i s = (r, s') \<Longrightarrow> view s' = view s \<or> (\<exists>now. view s' = project_ship i now (view s))"
    and append_ok: "well_formed e \<Longrightarrow> sp_append P e s = (Inr z, s') \<Longrightarrow>
      view s' = (view s)\<lparr>hv_outbox := hv_outbox (view s) @ [e]\<rparr>"
    and save_command_ok: "sp_save_command P k c s = (Inr z, s') \<Longrightarrow>
      view s' = (view s)\<lparr>hv_keys := (hv_keys (view s))(k \<mapsto> c)\<rparr>"
    and tx_ok: "sp_within_tx P m s = (Inr y, s') \<Longrightarrow>
      \<exists>s1 s2. view s1 = view s \<and> m s1 = (Inr y, s2) \<and> view s' = view s2"
    and tx_fail: "sp_within_tx P m s = (Inl er, s') \<Longrightarrow> view s' = view s \<or>
      (\<exists>y s1 s2. view s1 = view s \<and> m s1 = (Inr y, s2) \<and> view s' = view s2)"
begin

lemma verify_record_effect:
  assumes run: "verify_record P x t s = (Inr (r, es), s')"
    and ship: "hv_ships (view s) (vc_shipment x) = Some s0" "sh_id s0 = vc_shipment x"
      "sh_warehouse s0 = ac_warehouse (vc_actor x)" "distinct (map pk_id (sh_packages s0))"
    and v: "verify_package (vc_package x) (vc_barcode x) (vc_base_version x) now s0 = Inr t"
    and ne: "sh_version t \<noteq> sh_version s0"
  shows "verify_effect x (view s) r es (view s')"
proof -
  from run obtain s1 s2 s3 s4 s5 s6 eid ts cause e where
    save: "sp_save P t s = (Inr (), s1)" and ver: "sp_verify P (sh_id t) (vc_package x) s1 = (Inr (), s2)"
    and u1: "sp_new_uuid P s2 = (Inr eid, s3)" and clock: "sp_now P s3 = (Inr ts, s4)"
    and u2: "sp_new_uuid P s4 = (Inr cause, s5)"
    and e: "e = sh_event ''ShipmentPackageVerified'' t (vc_actor x) cause eid ts" and valid: "validate e = Inr ()"
    and out: "sp_append P e s5 = (Inr (), s6)"
    and aud: "sp_audit P ''ShipmentPackageVerified'' t (vc_actor x) (shipment_json t) s6 = (Inr (), s')"
    and rx: "r = t" "es = [e]"
    unfolding verify_record_def Let_def by (auto simp: prog_iffs)
  from v ship(4) obtain t': "t = sh_touch now (s0\<lparr>sh_packages := map (close_package (vc_package x)) (sh_packages s0)\<rparr>)"
    and open_p: "\<exists>p \<in> set (sh_packages s0). pk_id p = vc_package x \<and> \<not> package_closed p"
    by (rule verify_package_cases) (use ne in auto)
  have id: "sh_id t = vc_shipment x" using t' ship(2) by simp
  have v1: "view s1 = (view s)\<lparr>hv_ships := (hv_ships (view s))(vc_shipment x \<mapsto> t\<lparr>sh_packages := sh_packages s0\<rparr>)\<rparr>"
    using save_ok [OF save, of s0] ship(1) id t' by simp
  have tt: "t\<lparr>sh_packages := map (close_package (vc_package x)) (sh_packages s0)\<rparr> = t"
    by (simp add: t' sh_touch_def)
  have v2: "view s2 = (view s)\<lparr>hv_ships := (hv_ships (view s))(vc_shipment x \<mapsto> t)\<rparr>"
    using verify_ok [OF ver, of "t\<lparr>sh_packages := sh_packages s0\<rparr>"] v1 id open_p tt by simp
  have v5: "view s5 = view s2"
    using frameD [OF frame_uuid u1] frameD [OF frame_uuid u2] frameD [OF frame_now clock] by simp
  have wf: "well_formed e" using valid by (simp add: validate_accepts)
  have "view s' = (view s)\<lparr>hv_ships := (hv_ships (view s))(vc_shipment x \<mapsto> t), hv_outbox := hv_outbox (view s) @ [e]\<rparr>"
    using frameD [OF frame_audit aud] append_ok [OF wf out] v5 v2 by simp
  with verify_effect.verified [OF ship(1,3) v ne e wf] rx show ?thesis by simp
qed

lemma verify_tx_effect:
  assumes run: "verify_tx P x s = (Inr (r, es), s')"
  shows "verify_effect x (view s) r es (view s')"
proof -
  from run obtain s0 t s1 s2 now where get: "sp_get_for_update P (vc_shipment x) s = (Inr s0, s1)"
    and wh: "sh_warehouse s0 = ac_warehouse (vc_actor x)" and clock: "sp_now P s1 = (Inr now, s2)"
    and v: "verify_package (vc_package x) (vc_barcode x) (vc_base_version x) now s0 = Inr t"
    and rest: "(if sh_version t = sh_version s0 then returnP (t, []) else verify_record P x t) s2 = (Inr (r, es), s')"
    unfolding verify_tx_def by (auto simp: prog_iffs simp del: if_split)
  note g = get_ok [OF get] and v2 = frameD [OF frame_now clock] frameD [OF frame_get get]
  show ?thesis
  proof (cases "sh_version t = sh_version s0")
    case True
    from v g [THEN conjunct2, THEN conjunct2] have "t = s0" "sh_version s0 = vc_base_version x"
      by (rule verify_package_cases, use True in simp_all)+
    with rest True g v2 wh show ?thesis by (auto intro: verify_effect.verify_nothing)
  next
    case False
    with rest have "verify_record P x t s2 = (Inr (r, es), s')" by simp
    then have "verify_effect x (view s2) r es (view s')"
      by (rule verify_record_effect) (use g v2 wh v False in simp_all)
    with v2 show ?thesis by simp
  qed
qed

lemma ship_event_effect:
  assumes "ship_event P x t ty s = (Inr e, s')"
  shows "well_formed e \<and> ev_type e = ty \<and> (\<exists>eid ts. e = sh_event ty t (sc_actor x) (sc_id x) eid ts)
    \<and> view s' = (view s)\<lparr>hv_outbox := hv_outbox (view s) @ [e]\<rparr>"
proof -
  from assms obtain s1 s2 eid ts where u: "sp_new_uuid P s = (Inr eid, s1)"
    and clock: "sp_now P s1 = (Inr ts, s2)" and e: "e = sh_event ty t (sc_actor x) (sc_id x) eid ts"
    and valid: "validate e = Inr ()" and out: "sp_append P e s2 = (Inr (), s')"
    by (auto simp: ship_event_def Let_def prog_iffs)
  have wf: "well_formed e" using valid by (simp add: validate_accepts)
  have "view s' = (view s)\<lparr>hv_outbox := hv_outbox (view s) @ [e]\<rparr>"
    using append_ok [OF wf out] frameD [OF frame_now clock] frameD [OF frame_uuid u] by simp
  moreover have "ev_type e = ty" by (simp add: e sh_event_def)
  ultimately show ?thesis using wf e by blast
qed

lemma ship_events_effect:
  "mapP (ship_event P x t) tys s = (Inr es, s') \<Longrightarrow>
    map ev_type es = tys \<and> (\<forall>e \<in> set es. well_formed e \<and> (\<exists>eid ts. e = sh_event (ev_type e) t (sc_actor x) (sc_id x) eid ts))
    \<and> view s' = (view s)\<lparr>hv_outbox := hv_outbox (view s) @ es\<rparr>"
proof (induction tys arbitrary: s es)
  case (Cons ty tys)
  from Cons.prems obtain e es' s1 where one: "ship_event P x t ty s = (Inr e, s1)"
    and rest: "mapP (ship_event P x t) tys s1 = (Inr es', s')" and es: "es = e # es'"
    by (auto simp: prog_iffs)
  from Cons.IH [OF rest] ship_event_effect [OF one] es show ?case by auto
qed simp

lemma ship_record_effect:
  assumes run: "ship_record P x t s = (Inr (r, es), s')" and key: "hv_keys (view s) (sc_key x) = None"
    and ship: "hv_ships (view s) (sc_shipment x) = Some s0" "sh_id s0 = sc_shipment x"
      "sh_warehouse s0 = ac_warehouse (sc_actor x)"
    and c: "confirm_with_packages (sc_carrier x) (sc_tracking x) (sc_verified x) (sc_base_version x) now s0 = Inr t"
  shows "ship_effect x (view s) r es (view s')"
proof -
  from run obtain s1 s2 s3 where save: "sp_save P t s = (Inr (), s1)"
    and evs: "mapP (ship_event P x t) ship_events s1 = (Inr es, s2)"
    and aud: "sp_audit P ''ShipmentConfirmed'' t (sc_actor x) (shipment_json t) s2 = (Inr (), s3)"
    and cmd: "sp_save_command P (sc_key x) (sh_result_of x t) s3 = (Inr (), s')" and r: "r = t"
    unfolding ship_record_def sh_result_of_def by (auto simp: prog_iffs)
  note t' = confirm_ok(1) [OF c]
  have tt: "t\<lparr>sh_packages := sh_packages s0\<rparr> = t" by (simp add: t' sh_touch_def)
  have sel: "sh_id t = sh_id s0" "sh_order t = sh_order s0" "sh_warehouse t = sh_warehouse s0" "sh_picked t = sh_picked s0"
    by (simp_all add: t')
  have v1: "view s1 = (view s)\<lparr>hv_ships := (hv_ships (view s))(sc_shipment x \<mapsto> t)\<rparr>"
    using save_ok [OF save, of s0] ship sel tt by simp
  have "view s' = (view s)\<lparr>hv_ships := (hv_ships (view s))(sc_shipment x \<mapsto> t),
      hv_keys := (hv_keys (view s))(sc_key x \<mapsto> sh_result_of x t), hv_outbox := hv_outbox (view s) @ es\<rparr>"
    using save_command_ok [OF cmd] frameD [OF frame_audit aud] ship_events_effect [OF evs] v1 by simp
  moreover have "ship_log x t es" using ship_events_effect [OF evs] by (auto simp: ship_log_def)
  ultimately show ?thesis using ship_effect.shipped [OF key ship(1,3) c] r by simp
qed

lemma ship_tx_effect:
  assumes run: "ship_tx P x s = (Inr (r, es), s')"
  shows "ship_effect x (view s) r es (view s')"
proof -
  from run obtain found s1 where find: "sp_find_key P (sc_key x) s = (Inr found, s1)"
    unfolding ship_tx_def by (auto simp: prog_iffs)
  note v1 = frameD [OF frame_find find] and key = find_ok [OF find]
  show ?thesis
  proof (cases found)
    case (Some old)
    with run find v1 key show ?thesis
      unfolding ship_tx_def
      by (auto simp: bindP_run split: option.splits if_splits intro: ship_effect.ship_replayed)
  next
    case None
    with run find obtain s0 t now s2 s3 where get: "sp_get_for_update P (sc_shipment x) s1 = (Inr s0, s2)"
      and wh: "sh_warehouse s0 = ac_warehouse (sc_actor x)" and clock: "sp_now P s2 = (Inr now, s3)"
      and c: "confirm_with_packages (sc_carrier x) (sc_tracking x) (sc_verified x) (sc_base_version x) now s0 = Inr t"
      and rest: "ship_record P x t s3 = (Inr (r, es), s')"
      unfolding ship_tx_def by (auto simp: prog_iffs)
    have v: "view s3 = view s" using frameD [OF frame_get get] frameD [OF frame_now clock] v1 by simp
    from rest have "ship_effect x (view s3) r es (view s')"
      by (rule ship_record_effect) (use get_ok [OF get] key None v v1 wh c in auto)
    with v show ?thesis by simp
  qed
qed

lemma sh_verify_cases:
  assumes run: "sh_verify_package P x s = (rep, s')"
  shows "(\<exists>t es. verify_effect x (view s) t es (view s') \<and> reply_value rep \<in> {None, Some t})
     \<or> view s' = view s \<and> reply_value rep = None"
proof -
  obtain y s1 where tx: "sp_within_tx P (verify_tx P x) s = (y, s1)" by fastforce
  show ?thesis
  proof (cases y)
    case (Inl e)
    with run tx have rep: "rep = Failed e" "s' = s1" by (auto simp: sh_verify_package_def)
    from tx_fail [OF tx [unfolded Inl]] show ?thesis
    proof (elim disjE exE conjE)
      fix z sa sb assume "view sa = view s" "verify_tx P x sa = (Inr z, sb)" "view s1 = view sb"
      with verify_tx_effect [of x sa "fst z" "snd z" sb] rep show ?thesis by auto
    qed (use rep in simp)
  next
    case (Inr z)
    obtain t es where z: "z = (t, es)" by fastforce
    from tx_ok [OF tx [unfolded Inr]] z obtain sa sb where "view sa = view s" "view s1 = view sb"
      "verify_tx P x sa = (Inr (t, es), sb)" by auto
    with verify_tx_effect [of x sa t es sb] have eff: "verify_effect x (view s) t es (view s1)" by simp
    obtain u s2 where i: "sp_invalidate P (ac_warehouse (vc_actor x)) (ac_operator (vc_actor x)) s1 = (u, s2)" by fastforce
    have "view s' = view s1 \<and> reply_value rep = Some t"
      using run tx i frameD [OF frame_invalidate i] unfolding Inr z
      by (auto simp: sh_verify_package_def Let_def split: list.splits prod.splits sum.splits
          dest: frameD [OF frame_publish])
    with eff show ?thesis by auto
  qed
qed

lemma sh_confirm_cases:
  assumes run: "sh_confirm_shipment P x s = (rep, s')"
  shows "(\<exists>t es. ship_effect x (view s) t es (view s') \<and> reply_value rep \<in> {None, Some t})
     \<or> view s' = view s \<and> reply_value rep = None"
proof -
  obtain y s1 where tx: "sp_within_tx P (ship_tx P x) s = (y, s1)" by fastforce
  show ?thesis
  proof (cases y)
    case (Inl e)
    with run tx have rep: "rep = Failed e" "s' = s1" by (auto simp: sh_confirm_shipment_def)
    from tx_fail [OF tx [unfolded Inl]] show ?thesis
    proof (elim disjE exE conjE)
      fix z sa sb assume "view sa = view s" "ship_tx P x sa = (Inr z, sb)" "view s1 = view sb"
      with ship_tx_effect [of x sa "fst z" "snd z" sb] rep show ?thesis by auto
    qed (use rep in simp)
  next
    case (Inr z)
    obtain t es where z: "z = (t, es)" by fastforce
    from tx_ok [OF tx [unfolded Inr]] z obtain sa sb where "view sa = view s" "view s1 = view sb"
      "ship_tx P x sa = (Inr (t, es), sb)" by auto
    with ship_tx_effect [of x sa t es sb] have eff: "ship_effect x (view s) t es (view s1)" by simp
    obtain u s2 where i: "sp_invalidate P (ac_warehouse (sc_actor x)) (ac_operator (sc_actor x)) s1 = (u, s2)" by fastforce
    have pub: "frame view (forP l (sp_publish P))" for l by (intro frame_intros frame_publish)
    have "view s' = view s1 \<and> reply_value rep = Some t"
      using run tx i frameD [OF frame_invalidate i] unfolding Inr z
      by (auto simp: sh_confirm_shipment_def Let_def simp del: forP.simps split: list.splits prod.splits sum.splits
          dest: frameD [OF pub])
    with eff show ?thesis by auto
  qed
qed

end

section \<open>Histories\<close>

inductive sh_step :: "sh_view \<Rightarrow> sh_view \<Rightarrow> bool" where
  verifies: "verify_effect x v t es v' \<Longrightarrow> sh_step v v'"
| ships: "ship_effect x v t es v' \<Longrightarrow> sh_step v v'"
| projects: "sh_step v (project_ship i now v)"

text \<open>The life of a shipment: it is open, with picking done or not and some packages closed, and it
  is shipped once all of that is complete.\<close>

datatype lifecycle = Open bool "string set" | Shipped string string

definition lifecycle_of :: "shipment \<Rightarrow> lifecycle" where
  "lifecycle_of s =
     (if sh_status s = ''SHIPPED'' then Shipped (the (sh_carrier s)) (the (sh_tracking s))
      else Open (sh_picked s) (pk_id ` set (filter package_closed (sh_packages s))))"

inductive lifecycle_step :: "string set \<Rightarrow> lifecycle \<Rightarrow> lifecycle \<Rightarrow> bool" for packages :: "string set" where
  pick: "lifecycle_step packages (Open p C) (Open True C)"
| close: "i \<in> packages \<Longrightarrow> i \<notin> C \<Longrightarrow> lifecycle_step packages (Open p C) (Open p (insert i C))"
| ship: "packages \<noteq> {} \<Longrightarrow> c \<in> set carriers \<Longrightarrow> tracking_ok t \<Longrightarrow>
    lifecycle_step packages (Open True packages) (Shipped c t)"

definition sh_sound :: "shipment \<Rightarrow> bool" where
  "sh_sound s \<longleftrightarrow> distinct (map pk_id (sh_packages s)) \<and> (sh_status s = ''SHIPPED'' \<longrightarrow>
     sh_picked s \<and> list_all package_closed (sh_packages s) \<and> sh_packages s \<noteq> []
     \<and> (\<exists>c t. sh_carrier s = Some c \<and> sh_tracking s = Some t \<and> c \<in> set carriers \<and> tracking_ok t))"

definition sh_inv :: "sh_view \<Rightarrow> bool" where
  "sh_inv v \<longleftrightarrow> (\<forall>i s. hv_ships v i = Some s \<longrightarrow> sh_id s = i \<and> sh_sound s)"

definition package_ids :: "shipment \<Rightarrow> string set" where
  "package_ids s = pk_id ` set (sh_packages s)"

text \<open>What one step does to one shipment.\<close>

lemma verify_moves:
  assumes "verify_package i barcode base now s = Inr t" and "sh_sound s" and "sh_version t \<noteq> sh_version s"
  shows "sh_sound t \<and> sh_id t = sh_id s \<and> package_ids t = package_ids s \<and> sh_status s \<noteq> ''SHIPPED''
    \<and> sh_status t = sh_status s \<and> lifecycle_step (package_ids s) (lifecycle_of s) (lifecycle_of t)"
proof -
  from assms(2) have d: "distinct (map pk_id (sh_packages s))" by (simp add: sh_sound_def)
  from assms(1) d show ?thesis
  proof (rule verify_package_cases)
    assume t: "t = sh_touch now (s\<lparr>sh_packages := map (close_package i) (sh_packages s)\<rparr>)"
      and i: "i \<in> pk_id ` set (sh_packages s)"
      and op: "\<exists>p \<in> set (sh_packages s). pk_id p = i \<and> \<not> package_closed p"
    from op assms(2) have st: "sh_status s \<noteq> ''SHIPPED''" by (auto simp: sh_sound_def list_all_iff)
    from op d have un: "\<not> package_closed p" if "p \<in> set (sh_packages s)" "pk_id p = i" for p
      using that by (metis (no_types) distinct_map inj_on_def)
    have "pk_id ` set (filter package_closed (sh_packages t))
        = insert i (pk_id ` set (filter package_closed (sh_packages s)))"
      using i by (auto simp: t filter_map image_image)
    moreover have "i \<notin> pk_id ` set (filter package_closed (sh_packages s))" using un by auto
    ultimately have "lifecycle_step (package_ids s) (lifecycle_of s) (lifecycle_of t)"
      using st i by (simp add: lifecycle_of_def package_ids_def t lifecycle_step.close)
    moreover have "map pk_id (sh_packages t) = map pk_id (sh_packages s)" by (simp add: t comp_def)
    ultimately show ?thesis
      using st d by (simp add: t sh_sound_def package_ids_def image_image comp_def)
  qed (use assms(3) in simp)
qed

lemma confirm_moves:
  assumes "confirm_with_packages carrier tracking ids base now s = Inr t" and "sh_sound s"
  shows "sh_sound t \<and> sh_id t = sh_id s \<and> package_ids t = package_ids s \<and> sh_status s \<noteq> ''SHIPPED''
    \<and> sh_status t = ''SHIPPED'' \<and> lifecycle_step (package_ids s) (lifecycle_of s) (lifecycle_of t)"
proof -
  note c = confirm_ok [OF assms(1)]
  have "lifecycle_of s = Open True (package_ids s)"
    using c(3-5) by (simp add: lifecycle_of_def package_ids_def list_all_iff)
  moreover have "lifecycle_of t = Shipped (to_upper (trim_space carrier)) (trim_space tracking)"
    by (simp add: lifecycle_of_def c(1))
  moreover have "package_ids s \<noteq> {}" using c(6) by (simp add: package_ids_def)
  ultimately have "lifecycle_step (package_ids s) (lifecycle_of s) (lifecycle_of t)"
    using c(8,9) by (simp add: lifecycle_step.ship)
  with c assms(2) show ?thesis by (simp add: sh_sound_def package_ids_def)
qed

lemma pick_moves:
  assumes "sh_sound s"
  shows "let t = sh_touch now (s\<lparr>sh_picked := True\<rparr>) in sh_sound t \<and> sh_id t = sh_id s
    \<and> package_ids t = package_ids s \<and> sh_status t = sh_status s
    \<and> (lifecycle_step (package_ids s))\<^sup>*\<^sup>* (lifecycle_of s) (lifecycle_of t)"
  using assms by (auto simp: Let_def sh_sound_def package_ids_def lifecycle_of_def intro: lifecycle_step.pick)

text \<open>A step leaves a shipment alone, or moves it along its life cycle.\<close>

definition sh_moves :: "shipment \<Rightarrow> shipment \<Rightarrow> bool" where
  "sh_moves s t \<longleftrightarrow> sh_sound t \<and> sh_id t = sh_id s \<and> package_ids t = package_ids s
     \<and> (lifecycle_step (package_ids s))\<^sup>*\<^sup>* (lifecycle_of s) (lifecycle_of t)"

lemma sh_moves_refl: "sh_sound s \<Longrightarrow> sh_moves s s"
  by (simp add: sh_moves_def)

lemma sh_moves_trans: "sh_moves s t \<Longrightarrow> sh_moves t u \<Longrightarrow> sh_moves s u"
  unfolding sh_moves_def by (metis rtranclp_trans)

definition order_events :: "string \<Rightarrow> envelope list \<Rightarrow> nat" where
  "order_events i es = length (filter (\<lambda>e. ev_type e = ''OrderShipped'' \<and> ev_agg_id e = i) es)"

definition shipped_now :: "sh_view \<Rightarrow> string \<Rightarrow> nat" where
  "shipped_now v i = (case hv_ships v i of None \<Rightarrow> 0 | Some s \<Rightarrow> if sh_status s = ''SHIPPED'' then 1 else 0)"

lemma order_events_append [simp]: "order_events i (es @ fs) = order_events i es + order_events i fs"
  by (simp add: order_events_def)

lemma sh_event_sel [simp]: "ev_type (sh_event ty t a c eid ts) = ty" "ev_agg_id (sh_event ty t a c eid ts) = sh_id t"
  by (simp_all add: sh_event_def)

lemma ship_log_orders: "ship_log x t es \<Longrightarrow> order_events i es = (if i = sh_id t then 1 else 0)"
proof -
  assume a: "ship_log x t es"
  then have ids: "\<forall>e \<in> set es. ev_agg_id e = sh_id t" by (auto simp: ship_log_def) (metis sh_event_sel(2))
  from a obtain e1 e2 e3 where "es = [e1, e2, e3]" "ev_type e1 = ''ShipmentReadinessChanged''"
    "ev_type e2 = ''ShipmentConfirmed''" "ev_type e3 = ''OrderShipped''"
    by (auto simp: ship_log_def ship_events_def map_eq_Cons_conv)
  with ids show ?thesis by (auto simp: order_events_def)
qed

lemma sh_step_cases:
  assumes "sh_step v v'" and "sh_inv v"
  obtains (same) "v' = v"
  | (moved) j s t es where "hv_ships v j = Some s" "hv_ships v' = (hv_ships v)(j \<mapsto> t)" "sh_moves s t"
      "hv_outbox v' = hv_outbox v @ es" "sh_status s = ''SHIPPED'' \<longrightarrow> sh_status t = ''SHIPPED'' \<and> es = []"
      "\<forall>i. order_events i es = (if i = j \<and> sh_status s \<noteq> ''SHIPPED'' \<and> sh_status t = ''SHIPPED'' then 1 else 0)"
  using assms(1)
proof cases
  case (verifies x t es)
  from verifies(1) show thesis
  proof cases
    case (verified s now e cause eid ts)
    with assms(2) have "sh_sound s" by (auto simp: sh_inv_def)
    from verify_moves [OF verified(5) this verified(6)] verified show thesis
      by (intro moved [of "vc_shipment x" s t es]) (auto simp: sh_moves_def order_events_def)
  qed (use same in simp)
next
  case (ships x t es)
  from ships(1) show thesis
  proof cases
    case (shipped s now)
    with assms(2) have s: "sh_sound s" "sh_id s = sc_shipment x" by (auto simp: sh_inv_def)
    from confirm_moves [OF shipped(5) s(1)] shipped s(2) ship_log_orders [OF shipped(6)] show thesis
      by (intro moved [of "sc_shipment x" s t es]) (auto simp: sh_moves_def)
  qed (use same in simp)
next
  case (projects i now)
  show thesis
  proof (cases "hv_ships v i")
    case None
    with projects same show thesis by (simp add: project_ship_def)
  next
    case (Some s)
    with assms(2) have s: "sh_sound s" by (auto simp: sh_inv_def)
    from pick_moves [OF s, of now] Some projects show thesis
      by (intro moved [of i s "sh_touch now (s\<lparr>sh_picked := True\<rparr>)" "[]"])
        (auto simp: project_ship_def sh_moves_def Let_def order_events_def)
  qed
qed

lemma sh_step_ok:
  assumes "sh_step v v'" and "sh_inv v"
  shows "sh_inv v' \<and> (\<forall>i s. hv_ships v i = Some s \<longrightarrow> (\<exists>t. hv_ships v' i = Some t \<and> sh_moves s t))
    \<and> order_events i (hv_outbox v') + shipped_now v i = order_events i (hv_outbox v) + shipped_now v' i"
  using assms
proof (cases rule: sh_step_cases)
  case same
  with assms(2) show ?thesis by (auto simp: sh_inv_def intro: sh_moves_refl)
next
  case (moved j s t es)
  then have "sh_inv v'" using assms(2) by (auto simp: sh_inv_def sh_moves_def)
  moreover have "\<forall>i s. hv_ships v i = Some s \<longrightarrow> (\<exists>t. hv_ships v' i = Some t \<and> sh_moves s t)"
    using moved assms(2) by (auto simp: sh_inv_def intro: sh_moves_refl)
  moreover have "order_events i (hv_outbox v') + shipped_now v i = order_events i (hv_outbox v) + shipped_now v' i"
    using moved by (auto simp: shipped_now_def)
  ultimately show ?thesis by simp
qed

lemma sh_history:
  assumes "sh_step\<^sup>*\<^sup>* v0 v" and "sh_inv v0"
  shows "sh_inv v \<and> (\<forall>i s. hv_ships v0 i = Some s \<longrightarrow> (\<exists>t. hv_ships v i = Some t \<and> sh_moves s t))
    \<and> order_events i (hv_outbox v) + shipped_now v0 i = order_events i (hv_outbox v0) + shipped_now v i"
  using assms
proof (induction rule: rtranclp_induct)
  case base
  then show ?case by (auto simp: sh_inv_def intro: sh_moves_refl)
next
  case (step v v')
  from step.IH [OF step.prems] sh_step_ok [OF step(2), of i] show ?case
    by (auto dest: sh_moves_trans) (metis sh_moves_trans)
qed

text \<open>A shipped shipment goes nowhere.\<close>

lemma shipped_final: "(lifecycle_step ps)\<^sup>*\<^sup>* (Shipped c t) l \<Longrightarrow> l = Shipped c t"
  by (induction rule: rtranclp_induct) (auto elim: lifecycle_step.cases)

end
