(* ===== verification/Pg_Shipping_Store.thy ===== *)
theory Pg_Shipping_Store
  imports Shipping_Contract Pg_Common
begin

text \<open>
  The PostgreSQL shipping store of \<open>internal/shipping/adapters/postgres/store.go\<close>.
\<close>

section \<open>Rows\<close>

definition scan_package :: "string \<Rightarrow> package_row \<Rightarrow> package" where
  "scan_package i r = \<lparr>pk_id = i, pk_status = pr_status r, pk_weight = pr_weight r\<rparr>"

definition scan_shipment :: "string \<Rightarrow> shipment_row \<Rightarrow> package list \<Rightarrow> shipment" where
  "scan_shipment i r ps = \<lparr>sh_id = i, sh_order = sr_order r, sh_warehouse = sr_warehouse r,
     sh_status = sr_status r, sh_carrier = sr_carrier r, sh_tracking = sr_tracking r,
     sh_picked = sr_picked r, sh_version = sr_version r, sh_packages = ps, sh_updated = sr_updated r\<rparr>"

text \<open>The CHECK constraints of \<open>shipment\<close> and \<open>shipment_package\<close>.\<close>

definition shipment_ok :: "shipment_row \<Rightarrow> bool" where
  "shipment_ok r \<longleftrightarrow> i64_less 0 (sr_version r)"

definition package_ok :: "package_row \<Rightarrow> bool" where
  "package_ok r \<longleftrightarrow> i64_less 0 (pr_weight r)"

section \<open>Statements\<close>

definition pgs_within_tx :: "(world, 'a) prog \<Rightarrow> (world, 'a) prog" where
  "pgs_within_tx m = with_tx m"

text \<open>\<open>SELECT \<dots> FROM shipment_package WHERE shipment_id = $1 ORDER BY package_id\<close>.\<close>

definition packages_of :: "string \<Rightarrow> (string \<times> package_row) list \<Rightarrow> package list" where
  "packages_of i tab = children pr_shipment scan_package i tab"

definition pgs_get :: "string \<Rightarrow> (world, shipment) prog" where
  "pgs_get i = bindP (query (\<lambda>now d. map_of (shipment_table d) i)) (\<lambda>row.
     case row of
       None \<Rightarrow> failP ErrShNotFound
     | Some r \<Rightarrow> bindP (query (\<lambda>now d. packages_of i (shipment_package d))) (\<lambda>ps.
         returnP (scan_shipment i r ps)))"

abbreviation (input) on_shipments ::
    "(time \<Rightarrow> (string \<times> shipment_row) list \<Rightarrow> err + 'a \<times> (string \<times> shipment_row) list) \<Rightarrow> (world, 'a) prog" where
  "on_shipments f \<equiv> sql (on_table shipment_table (\<lambda>x d. d\<lparr>shipment_table := x\<rparr>) f)"

abbreviation (input) on_packages ::
    "(time \<Rightarrow> (string \<times> package_row) list \<Rightarrow> err + 'a \<times> (string \<times> package_row) list) \<Rightarrow> (world, 'a) prog" where
  "on_packages f \<equiv> sql (on_table shipment_package (\<lambda>x d. d\<lparr>shipment_package := x\<rparr>) f)"

definition store_shipment :: "shipment \<Rightarrow> shipment_row \<Rightarrow> shipment_row" where
  "store_shipment x r = r\<lparr>sr_status := sh_status x, sr_carrier := sh_carrier x,
     sr_tracking := sh_tracking x, sr_version := sh_version x, sr_updated := sh_updated x\<rparr>"

text \<open>\<open>Save\<close> writes the shipment's row and looks neither at the number of rows nor at the packages.\<close>

definition pgs_save :: "shipment \<Rightarrow> (world, unit) prog" where
  "pgs_save x = bindP (on_shipments (\<lambda>now tab. update_at ''shipment'' shipment_ok (sh_id x) (store_shipment x) tab))
     (\<lambda>n. returnP ())"

definition open_row :: "string \<Rightarrow> package_row \<Rightarrow> bool" where
  "open_row i r \<longleftrightarrow> pr_shipment r = i \<and> pr_status r \<notin> {''COMPLETED'', ''VERIFIED''}"

definition pgs_verify :: "string \<Rightarrow> string \<Rightarrow> (world, unit) prog" where
  "pgs_verify i p =
     bindP (on_packages (\<lambda>now tab. case map_of tab p of
         None \<Rightarrow> Inr (0, tab)
       | Some r \<Rightarrow> if \<not> open_row i r then Inr (0, tab)
           else update_at ''shipment_package'' package_ok p (\<lambda>r. r\<lparr>pr_status := ''VERIFIED''\<rparr>) tab)) (\<lambda>n.
     if n \<noteq> 0 then returnP ()
     else bindP (query (\<lambda>now d. map_option pr_shipment (map_of (shipment_package d) p) = Some i)) (\<lambda>exists.
       checkP (\<not> exists) ErrPackageNotFound))"

definition pgs_project :: "string \<Rightarrow> (world, unit) prog" where
  "pgs_project i = bindP (on_shipments (\<lambda>now tab. case map_of tab i of
       None \<Rightarrow> Inr (0, tab)
     | Some r \<Rightarrow> (case bigint_add (sr_version r) 1 of
           None \<Rightarrow> Inl (violates ''bigint out of range'')
         | Some v \<Rightarrow> update_at ''shipment'' shipment_ok i
             (\<lambda>r. r\<lparr>sr_picked := True, sr_version := v, sr_updated := now\<rparr>) tab)))
     (\<lambda>n. returnP ())"

definition sh_status_of :: "uuid \<times> shipment command_row \<Rightarrow> sh_result" where
  "sh_status_of = (\<lambda>(i, r). \<lparr>hr_id = i, hr_shipment = cr_scope r, hr_warehouse = cr_warehouse r,
     hr_operator = cr_operator r, hr_result = Some (cr_result r)\<rparr>)"

definition pgs_find_key :: "string \<Rightarrow> (world, sh_result option) prog" where
  "pgs_find_key k = bindP advisory_lock (\<lambda>_.
     query (\<lambda>now d. map_option sh_status_of (command_by_key k (shipping_command_status d))))"

definition pgs_find_id :: "uuid \<Rightarrow> (world, sh_result option) prog" where
  "pgs_find_id i = query (\<lambda>now d.
     map_option (\<lambda>r. sh_status_of (i, r)) (map_of (shipping_command_status d) i))"

definition pgs_save_command :: "string \<Rightarrow> sh_result \<Rightarrow> (world, unit) prog" where
  "pgs_save_command k r = (case hr_result r of
     None \<Rightarrow> failP (TextError ''invalid input syntax for type json'')
   | Some t \<Rightarrow> sql (on_table shipping_command_status (\<lambda>x d. d\<lparr>shipping_command_status := x\<rparr>) (\<lambda>now tab.
       no_value (insert_command ''shipping_command_status'' (hr_id r)
         \<lparr>cr_key = k, cr_type = ''COMPLETED'', cr_scope = hr_shipment r, cr_warehouse = hr_warehouse r,
          cr_operator = hr_operator r, cr_result = t\<rparr> tab))))"

definition pgs_append :: "envelope \<Rightarrow> (world, unit) prog" where
  "pgs_append e = bindP (liftE (marshal_envelope e)) insert_outbox"

definition pgs_audit :: "string \<Rightarrow> shipment \<Rightarrow> actor \<Rightarrow> json \<Rightarrow> (world, unit) prog" where
  "pgs_audit action x a details =
     bindP new_uuid (\<lambda>i. insert_audit i action ''SUCCESS'' (sh_id x) a details)"

definition pgs_invalidate :: "string \<Rightarrow> string \<Rightarrow> (world, unit) prog" where
  "pgs_invalidate w p = returnP ()"

text \<open>The seed of 2026-08-01 runs outside a transaction; \<open>ON CONFLICT DO NOTHING\<close> covers the unique
  order id, too.\<close>

definition pgs_seed :: "(world, unit) prog" where
  "pgs_seed = (let ts = seed_instant in
     bindP (on_shipments (\<lambda>now tab. if \<exists>r \<in> set (map snd tab). sr_order r = ''ORDER-001'' then Inr ((), tab)
       else no_value (insert_ignore ''shipment'' shipment_ok ''SHIP-001''
         \<lparr>sr_order = ''ORDER-001'', sr_warehouse = ''WH-01'', sr_status = ''PENDING'', sr_carrier = None,
          sr_tracking = None, sr_picked = False, sr_version = 1, sr_updated = ts\<rparr> tab))) (\<lambda>_.
     on_packages (\<lambda>now tab. no_value (insert_ignore ''shipment_package'' package_ok ''PKG-001''
       \<lparr>pr_shipment = ''SHIP-001'', pr_status = ''COMPLETED'', pr_weight = 1200\<rparr> tab))))"

definition pg_sh_ports :: "world sh_ports" where
  "pg_sh_ports = \<lparr>sp_get = pgs_get, sp_get_for_update = pgs_get, sp_save = pgs_save,
     sp_verify = pgs_verify, sp_project = pgs_project, sp_find_key = pgs_find_key,
     sp_find_id = pgs_find_id, sp_save_command = pgs_save_command, sp_within_tx = pgs_within_tx,
     sp_append = pgs_append, sp_audit = pgs_audit, sp_publish = publish_event,
     sp_invalidate = pgs_invalidate, sp_now = clock_now, sp_new_uuid = new_uuid\<rparr>"

lemma pg_sh_ports_sel [simp]:
  "sp_get pg_sh_ports = pgs_get" "sp_get_for_update pg_sh_ports = pgs_get" "sp_save pg_sh_ports = pgs_save"
  "sp_verify pg_sh_ports = pgs_verify" "sp_project pg_sh_ports = pgs_project"
  "sp_find_key pg_sh_ports = pgs_find_key" "sp_find_id pg_sh_ports = pgs_find_id"
  "sp_save_command pg_sh_ports = pgs_save_command" "sp_within_tx pg_sh_ports = pgs_within_tx"
  "sp_append pg_sh_ports = pgs_append" "sp_audit pg_sh_ports = pgs_audit"
  "sp_publish pg_sh_ports = publish_event" "sp_invalidate pg_sh_ports = pgs_invalidate"
  "sp_now pg_sh_ports = clock_now" "sp_new_uuid pg_sh_ports = new_uuid"
  by (simp_all add: pg_sh_ports_def)

section \<open>The contract holds\<close>

definition sh_keys_of :: "tables \<Rightarrow> string \<Rightarrow> sh_result option" where
  "sh_keys_of d k = map_option sh_status_of (command_by_key k (shipping_command_status d))"

definition shipment_of :: "tables \<Rightarrow> string \<Rightarrow> shipment option" where
  "shipment_of d i = map_option (\<lambda>r. scan_shipment i r (packages_of i (shipment_package d))) (map_of (shipment_table d) i)"

definition sh_db :: "tables \<Rightarrow> sh_view" where
  "sh_db d = \<lparr>hv_ships = shipment_of d, hv_keys = sh_keys_of d, hv_outbox = outbox_of d\<rparr>"

definition pg_sh_view :: "world \<Rightarrow> sh_view" where
  "pg_sh_view = of_db sh_db"

lemma pg_sh_view_eq: "pg_sh_view s = sh_db (w_db s)"
  by (simp add: pg_sh_view_def of_db_def)

lemma sh_db_updates [simp]:
  "sh_db (d\<lparr>audit_record := e\<rparr>) = sh_db d"
  "sh_db (d\<lparr>domain_outbox := ob\<rparr>) = (sh_db d)\<lparr>hv_outbox := map (ob_envelope \<circ> snd) ob\<rparr>"
  "sh_db (d\<lparr>shipping_command_status := cs\<rparr>)
     = (sh_db d)\<lparr>hv_keys := \<lambda>k. map_option sh_status_of (command_by_key k cs)\<rparr>"
  by (simp_all add: sh_db_def sh_keys_of_def [abs_def] shipment_of_def [abs_def] outbox_of_def)

lemma hv_sel [simp]: "hv_ships (sh_db d) = shipment_of d" "hv_outbox (sh_db d) = outbox_of d" "hv_keys (sh_db d) = sh_keys_of d"
  by (simp_all add: sh_db_def)

lemma frame_pgs_reads:
  "frame pg_sh_view (pgs_find_key k)" "frame pg_sh_view (pgs_get i)" "frame pg_sh_view (pgs_invalidate w p)"
  unfolding pg_sh_view_def pgs_find_key_def pgs_get_def pgs_invalidate_def advisory_lock_def
  by (intro frame_intros)+

lemma frame_pgs_env:
  "frame pg_sh_view clock_now" "frame pg_sh_view new_uuid" "frame pg_sh_view (publish_event e)"
  unfolding pg_sh_view_def by (intro frame_db_env)+

lemma frame_pgs_audit: "frame pg_sh_view (pgs_audit a t ac j)"
proof -
  have "frame pg_sh_view (insert_audit i a oc g ac j)" for i oc g
    unfolding pg_sh_view_def insert_audit_def by (rule frame_on_table) simp
  then show ?thesis unfolding pgs_audit_def by (intro frame_intros frame_pgs_env)
qed

lemma pgs_find_ok: "pgs_find_key k s = (Inr x, s') \<Longrightarrow> hv_keys (pg_sh_view s) k = x"
  by (auto simp: pgs_find_key_def advisory_lock_def prog_iffs pg_sh_view_eq sh_keys_of_def elim!: query_Inr)

interpretation packages: child_table "''shipment_package''" package_ok shipment_package
  "\<lambda>x d. d\<lparr>shipment_package := x\<rparr>" pr_shipment scan_package pk_id "\<lambda>p r. r\<lparr>pr_status := pk_status p\<rparr>"
  "\<lambda>p. p\<lparr>pk_status := ''''\<rparr>"
proof
  show "pk_id c = pk_id c'" if "c\<lparr>pk_status := ''''\<rparr> = c'\<lparr>pk_status := ''''\<rparr>" for c c'
    using arg_cong [OF that, of pk_id] by simp
  fix c r assume "c\<lparr>pk_status := ''''\<rparr> = scan_package (pk_id c) r\<lparr>pk_status := ''''\<rparr>"
  then have "pk_weight c = pr_weight r" by (auto dest: arg_cong [where f = pk_weight] simp: scan_package_def)
  then show "scan_package (pk_id c) (r\<lparr>pr_status := pk_status c\<rparr>) = c" by (simp add: scan_package_def)
qed (simp_all add: scan_package_def)

lemmas packages_ids = packages.children_ids [folded packages_of_def]

lemma pgs_get_ok: "pgs_get i s = (Inr t, s') \<Longrightarrow>
    hv_ships (pg_sh_view s) i = Some t \<and> sh_id t = i \<and> distinct (map pk_id (sh_packages t))"
  by (auto simp: pgs_get_def prog_iffs pg_sh_view_eq shipment_of_def scan_shipment_def
      packages_ids distinct_child_keys split: option.splits elim!: query_Inr)

lemma shipment_at: "shipment_of d i = Some t \<longleftrightarrow>
    (\<exists>r. map_of (shipment_table d) i = Some r \<and> t = scan_shipment i r (packages_of i (shipment_package d)))"
  by (auto simp: shipment_of_def)

lemma sh_db_shipments:
  assumes "map_of tab i = Some r" and "\<And>j. j \<noteq> i \<Longrightarrow> map_of tab j = map_of (shipment_table d) j"
  shows "sh_db (d\<lparr>shipment_table := tab\<rparr>)
    = (sh_db d)\<lparr>hv_ships := (hv_ships (sh_db d))(i \<mapsto> scan_shipment i r (packages_of i (shipment_package d)))\<rparr>"
proof -
  have "shipment_of (d\<lparr>shipment_table := tab\<rparr>) = (shipment_of d)(i \<mapsto> scan_shipment i r (packages_of i (shipment_package d)))"
    using assms by (auto simp: shipment_of_def fun_eq_iff)
  then show ?thesis by (simp add: sh_db_def sh_keys_of_def [abs_def] outbox_of_def)
qed

lemma pgs_save_ok:
  assumes "pgs_save t s = (Inr u, s')" and "hv_ships (pg_sh_view s) (sh_id t) = Some t0"
    and "sh_order t = sh_order t0" "sh_warehouse t = sh_warehouse t0" "sh_picked t = sh_picked t0"
  shows "pg_sh_view s' = (pg_sh_view s)\<lparr>hv_ships := (hv_ships (pg_sh_view s))(sh_id t \<mapsto> t\<lparr>sh_packages := sh_packages t0\<rparr>)\<rparr>"
proof -
  from assms(1) obtain n where
    upd: "on_shipments (\<lambda>now tab. update_at ''shipment'' shipment_ok (sh_id t) (store_shipment t) tab) s = (Inr n, s')"
    by (auto simp: pgs_save_def prog_iffs)
  then obtain tab' where
    tab: "update_at ''shipment'' shipment_ok (sh_id t) (store_shipment t) (shipment_table (w_db s)) = Inr (n, tab')"
    and db: "w_db s' = (w_db s)\<lparr>shipment_table := tab'\<rparr>" by (rule sql_table_Inr) auto
  from assms(2) obtain r where r: "map_of (shipment_table (w_db s)) (sh_id t) = Some r"
    and t0: "t0 = scan_shipment (sh_id t) r (packages_of (sh_id t) (shipment_package (w_db s)))"
    by (auto simp: pg_sh_view_eq shipment_at)
  have "scan_shipment (sh_id t) (store_shipment t r) (packages_of (sh_id t) (shipment_package (w_db s)))
      = t\<lparr>sh_packages := sh_packages t0\<rparr>"
    using assms(3-5) by (simp add: scan_shipment_def store_shipment_def t0)
  moreover have "map_of tab' = (map_of (shipment_table (w_db s)))(sh_id t \<mapsto> store_shipment t r)"
    using update_at_map [OF tab] r by simp
  ultimately show ?thesis
    using sh_db_shipments [of tab' "sh_id t" "store_shipment t r" "w_db s"] by (simp add: pg_sh_view_eq db)
qed

lemma pgs_verify_ok:
  assumes "pgs_verify i p s = (Inr u, s')" and "hv_ships (pg_sh_view s) i = Some t0"
    and "\<exists>q \<in> set (sh_packages t0). pk_id q = p \<and> \<not> package_closed q"
  shows "pg_sh_view s' = (pg_sh_view s)\<lparr>hv_ships := (hv_ships (pg_sh_view s))
     (i \<mapsto> t0\<lparr>sh_packages := map (close_package p) (sh_packages t0)\<rparr>)\<rparr>"
proof -
  let ?T = "shipment_package (w_db s)" and ?f = "\<lambda>r :: package_row. r\<lparr>pr_status := ''VERIFIED''\<rparr>"
  from assms(2) obtain r0 where r0: "map_of (shipment_table (w_db s)) i = Some r0"
    and t0: "t0 = scan_shipment i r0 (packages_of i ?T)" by (auto simp: pg_sh_view_eq shipment_at)
  from assms(3) t0 obtain r where r: "map_of ?T p = Some r" "pr_shipment r = i"
    "\<not> package_closed (scan_package p r)"
    by (auto simp: scan_shipment_def packages_of_def children_def child_keys_def scan_package_def)
  then have "open_row i r" by (simp add: open_row_def package_closed_def scan_package_def)
  with r assms(1) obtain tab' where tab: "update_at ''shipment_package'' package_ok p ?f ?T = Inr (1, tab')"
    and db: "w_db s' = (w_db s)\<lparr>shipment_package := tab'\<rparr>"
    unfolding pgs_verify_def
    by (auto simp: prog_iffs update_at_Inr elim!: sql_table_Inr split: if_splits)
  have at: "map_of tab' = (map_of ?T)(p \<mapsto> ?f r)" using update_at_map [OF tab] r(1) by simp
  have keys: "map fst tab' = map fst ?T" by (rule update_keys_same [OF tab])
  have ck: "child_keys pr_shipment j tab' = child_keys pr_shipment j ?T" for j
    by (rule child_keys_cong [OF keys]) (simp add: at r(1))
  have "packages_of i tab' = map (close_package p) (packages_of i ?T)"
    unfolding packages_of_def children_def ck
    by (auto simp: at r(1) close_package_def scan_package_def)
  moreover have "packages_of j tab' = packages_of j ?T" if "j \<noteq> i" for j
    unfolding packages_of_def children_def ck
    by (rule map_cong) (use that r in \<open>auto simp: at child_keys_def\<close>)
  ultimately have "shipment_of (w_db s') = (shipment_of (w_db s))
      (i \<mapsto> t0\<lparr>sh_packages := map (close_package p) (sh_packages t0)\<rparr>)"
    using r0 by (auto simp: shipment_of_def fun_eq_iff db t0 scan_shipment_def)
  then show ?thesis by (simp add: pg_sh_view_eq sh_db_def db sh_keys_of_def [abs_def] outbox_of_def)
qed

lemma pgs_project_ok:
  assumes "pgs_project i s = (r, s')"
  shows "pg_sh_view s' = pg_sh_view s \<or> (\<exists>now. pg_sh_view s' = project_ship i now (pg_sh_view s))"
proof -
  let ?f = "\<lambda>now tab. case map_of tab i of
       None \<Rightarrow> Inr (0, tab)
     | Some r \<Rightarrow> (case bigint_add (sr_version r) 1 of
           None \<Rightarrow> Inl (violates ''bigint out of range'')
         | Some v \<Rightarrow> update_at ''shipment'' shipment_ok i
             (\<lambda>r. r\<lparr>sr_picked := True, sr_version := v, sr_updated := now\<rparr>) tab)"
  have step: "sh_db (d\<lparr>shipment_table := tab\<rparr>) = sh_db d \<or> (\<exists>now. sh_db (d\<lparr>shipment_table := tab\<rparr>) = project_ship i now (sh_db d))"
    if f: "?f now (shipment_table d) = Inr (n, tab)" for now n tab d
  proof (cases "map_of (shipment_table d) i")
    case None
    with f have "tab = shipment_table d" by simp
    then show ?thesis by simp
  next
    case (Some row)
    with f have upd: "update_at ''shipment'' shipment_ok i
        (\<lambda>r. r\<lparr>sr_picked := True, sr_version := sr_version row + 1, sr_updated := now\<rparr>) (shipment_table d) = Inr (n, tab)"
      by (auto simp: bigint_add_def split: option.splits if_splits)
    have "map_of tab = (map_of (shipment_table d))(i \<mapsto> row\<lparr>sr_picked := True, sr_version := sr_version row + 1, sr_updated := now\<rparr>)"
      using update_at_map [OF upd] Some by simp
    then have "sh_db (d\<lparr>shipment_table := tab\<rparr>) = project_ship i now (sh_db d)"
      using sh_db_shipments [of tab i _ d] Some
      by (simp add: project_ship_def shipment_of_def scan_shipment_def sh_touch_def)
    then show ?thesis by blast
  qed
  from assms obtain q where "on_shipments ?f s = (q, s')"
    unfolding pgs_project_def by (auto simp: bindP_def split: prod.splits sum.splits)
  from sql_db_cases [OF this] show ?thesis
  proof (elim disjE exE)
    fix now n assume "on_table shipment_table (\<lambda>x d. d\<lparr>shipment_table := x\<rparr>) ?f now (w_db s) = Inr (n, w_db s')"
    then obtain tab where "?f now (shipment_table (w_db s)) = Inr (n, tab)" and "w_db s' = (w_db s)\<lparr>shipment_table := tab\<rparr>"
      by (auto simp only: on_table_Inr)
    from step [OF this(1)] this(2) show ?thesis by (simp add: pg_sh_view_eq)
  qed (simp add: pg_sh_view_eq)
qed

lemma pgs_append_ok:
  assumes "well_formed e" and "pgs_append e s = (Inr u, s')"
  shows "pg_sh_view s' = (pg_sh_view s)\<lparr>hv_outbox := hv_outbox (pg_sh_view s) @ [e]\<rparr>"
proof -
  from assms have "insert_outbox e s = (Inr u, s')" by (auto simp: pgs_append_def prog_iffs well_formed_marshal)
  then show ?thesis by (rule insert_outbox_ok) (simp add: pg_sh_view_eq)
qed

lemma pgs_save_command_ok:
  assumes "pgs_save_command k r s = (Inr u, s')"
  shows "pg_sh_view s' = (pg_sh_view s)\<lparr>hv_keys := (hv_keys (pg_sh_view s))(k \<mapsto> r)\<rparr>"
proof -
  from assms obtain t where t: "hr_result r = Some t" and ins: "sql (on_table shipping_command_status
       (\<lambda>x d. d\<lparr>shipping_command_status := x\<rparr>) (\<lambda>now tab.
       no_value (insert_command ''shipping_command_status'' (hr_id r)
         \<lparr>cr_key = k, cr_type = ''COMPLETED'', cr_scope = hr_shipment r, cr_warehouse = hr_warehouse r,
          cr_operator = hr_operator r, cr_result = t\<rparr> tab))) s = (Inr u, s')"
    by (auto simp: pgs_save_command_def split: option.splits)
  from ins obtain tab' where tab: "insert_command ''shipping_command_status'' (hr_id r)
         \<lparr>cr_key = k, cr_type = ''COMPLETED'', cr_scope = hr_shipment r, cr_warehouse = hr_warehouse r,
          cr_operator = hr_operator r, cr_result = t\<rparr> (shipping_command_status (w_db s)) = Inr tab'"
    and db: "w_db s' = (w_db s)\<lparr>shipping_command_status := tab'\<rparr>"
    by (rule sql_table_Inr) (auto simp: no_value_Inr)
  have "\<lparr>hr_id = hr_id r, hr_shipment = hr_shipment r, hr_warehouse = hr_warehouse r,
      hr_operator = hr_operator r, hr_result = Some t\<rparr> = r" using t by simp
  then show ?thesis
    by (simp add: pg_sh_view_eq db insert_command_key [OF tab] fun_eq_iff sh_status_of_def sh_keys_of_def)
qed

lemmas pgs_tx_ok = with_tx_view_ok [where g = sh_db, folded pg_sh_view_def]

lemmas pgs_tx_fail = with_tx_view_fail [where g = sh_db, folded pg_sh_view_def]

interpretation pgs: shipping_store pg_sh_ports pg_sh_view
  by (unfold_locales, unfold pg_sh_ports_sel pgs_within_tx_def)
    ((rule frame_pgs_reads frame_pgs_env frame_pgs_audit pgs_find_ok pgs_get_ok pgs_save_ok pgs_verify_ok
        pgs_project_ok pgs_append_ok pgs_save_command_ok pgs_tx_ok pgs_tx_fail; assumption?)+)

end
