(* ===== verification/Shipping_Properties.thy ===== *)
theory Shipping_Properties
  imports Pg_Shipping_Store Exec_Properties
begin

text \<open>
  The shipping service on the PostgreSQL store: the life cycle that any sequence of calls follows,
  the one \<open>OrderShipped\<close> event of a shipment, and what a confirmation did.
\<close>

section \<open>Sequences of calls\<close>

datatype sh_call = VerifyCall verify_command | ConfirmCall sh_command | ProjectCall string

fun run_sh :: "'s sh_ports \<Rightarrow> sh_call \<Rightarrow> 's \<Rightarrow> 's" where
  "run_sh P (VerifyCall x) s = snd (sh_verify_package P x s)"
| "run_sh P (ConfirmCall x) s = snd (sh_confirm_shipment P x s)"
| "run_sh P (ProjectCall i) s = snd (project_picking_complete P i s)"

fun run_shs :: "'s sh_ports \<Rightarrow> sh_call list \<Rightarrow> 's \<Rightarrow> 's" where
  "run_shs P [] s = s"
| "run_shs P (c # cs) s = run_shs P cs (run_sh P c s)"

context shipping_store
begin

lemma run_sh_steps: "sh_step\<^sup>*\<^sup>* (view s) (view (run_sh P c s))"
proof (cases c)
  case (VerifyCall x)
  then show ?thesis
    using sh_verify_cases [of x s "fst (sh_verify_package P x s)" "snd (sh_verify_package P x s)"]
    by (auto intro: sh_step.verifies)
next
  case (ConfirmCall x)
  then show ?thesis
    using sh_confirm_cases [of x s "fst (sh_confirm_shipment P x s)" "snd (sh_confirm_shipment P x s)"]
    by (auto intro: sh_step.ships)
next
  case (ProjectCall i)
  then show ?thesis
    using project_ok [of i s "fst (sp_project P i s)" "snd (sp_project P i s)"] sh_step.projects [of "view s" i]
    by (auto simp: project_picking_complete_def)
qed

lemma run_shs_steps: "sh_step\<^sup>*\<^sup>* (view s) (view (run_shs P cs s))"
  by (induction cs arbitrary: s) (auto intro: rtranclp_trans run_sh_steps)

end

lemma ship_on_used_key: "ship_effect x v t es v' \<Longrightarrow> hv_keys v (sc_key x) = Some r \<Longrightarrow>
    v' = v \<and> hr_result r = Some t \<and> hr_shipment r = sc_shipment x \<and> hr_warehouse r = ac_warehouse (sc_actor x)
    \<and> hr_operator r = ac_operator (sc_actor x)"
  by (erule ship_effect.cases) auto

lemma ship_records_key: "ship_effect x v t es v' \<Longrightarrow> \<exists>r. hv_keys v' (sc_key x) = Some r \<and> hr_result r = Some t"
  by (erule ship_effect.cases) (auto simp: sh_result_of_def)

lemma sh_steps_keep_keys: "sh_step\<^sup>*\<^sup>* v v' \<Longrightarrow> hv_keys v k = Some r \<Longrightarrow> hv_keys v' k = Some r"
proof (induction rule: rtranclp_induct)
  case (step v' v'')
  then have k: "hv_keys v' k = Some r" by simp
  from step(2) show ?case
    by cases (use k in \<open>auto simp: project_ship_def split: option.split elim!: verify_effect.cases ship_effect.cases\<close>)
qed simp

lemma pg_sh_history:
  assumes "sh_inv (sh_db (w_db s))"
  shows "sh_inv (sh_db (w_db (run_shs pg_sh_ports cs s)))
    \<and> (\<forall>i t. shipment_of (w_db s) i = Some t \<longrightarrow>
         (\<exists>t'. shipment_of (w_db (run_shs pg_sh_ports cs s)) i = Some t' \<and> sh_moves t t'))
    \<and> order_events i (outbox_of (w_db (run_shs pg_sh_ports cs s))) + shipped_now (sh_db (w_db s)) i
      = order_events i (outbox_of (w_db s)) + shipped_now (sh_db (w_db (run_shs pg_sh_ports cs s))) i"
  using sh_history [OF pgs.run_shs_steps [of s cs], of i] assms by (simp add: pg_sh_view_eq)

section \<open>Properties\<close>

text \<open>C12: The life cycle of a shipment. Any sequence of package verifications, picking projections and
  confirmations, by whomever and under whatever database faults, refines the abstract life cycle:
  a shipment is open until picking is done and its packages, which stay the same, have been closed
  one by one; only then can it be shipped, by a known carrier under a well-formed tracking number,
  and a shipped one changes no more.\<close>

theorem shipment_lifecycle:
  assumes "sh_inv (sh_db (w_db s))" and "shipment_of (w_db s) i = Some t"
  shows "\<exists>t'. shipment_of (w_db (run_shs pg_sh_ports cs s)) i = Some t' \<and> package_ids t' = package_ids t
    \<and> (lifecycle_step (package_ids t))\<^sup>*\<^sup>* (lifecycle_of t) (lifecycle_of t')"
  using pg_sh_history [OF assms(1), of cs] assms(2) by (fastforce simp: sh_moves_def)

text \<open>A shipped shipment is final: after any further calls it is still shipped with the same carrier
  and tracking number.\<close>

theorem shipped_is_final:
  assumes "sh_inv (sh_db (w_db s))" and "shipment_of (w_db s) i = Some t" and "sh_status t = ''SHIPPED''"
  shows "\<exists>t'. shipment_of (w_db (run_shs pg_sh_ports cs s)) i = Some t' \<and> sh_status t' = ''SHIPPED''
    \<and> sh_carrier t' = sh_carrier t \<and> sh_tracking t' = sh_tracking t"
proof -
  from pg_sh_history [OF assms(1), of cs] assms(2) obtain t' where
    t': "shipment_of (w_db (run_shs pg_sh_ports cs s)) i = Some t'" "sh_moves t t'" by blast
  have l: "lifecycle_of t = Shipped (the (sh_carrier t)) (the (sh_tracking t))" using assms(3) by (simp add: lifecycle_of_def)
  from t'(2) have "lifecycle_of t' = lifecycle_of t" unfolding sh_moves_def l by (auto dest: shipped_final)
  then have "sh_status t' = ''SHIPPED''" "the (sh_carrier t') = the (sh_carrier t)" "the (sh_tracking t') = the (sh_tracking t)"
    by (auto simp: l) (auto simp: lifecycle_of_def split: if_splits)
  moreover have "sh_sound t" "sh_sound t'" using assms(1,2) t'(2) by (auto simp: sh_inv_def sh_moves_def)
  ultimately show ?thesis using t'(1) assms(3) by (auto simp: sh_sound_def)
qed

text \<open>C13: One shipping event. If the outbox has an \<open>OrderShipped\<close> event of a shipment exactly when the
  shipment is shipped, so it has after any sequence of calls and faults: never two, and never one
  without the shipment.\<close>

theorem order_shipped_once:
  assumes "sh_inv (sh_db (w_db s))" and "order_events i (outbox_of (w_db s)) = shipped_now (sh_db (w_db s)) i"
  shows "order_events i (outbox_of (w_db (run_shs pg_sh_ports cs s))) = shipped_now (sh_db (w_db (run_shs pg_sh_ports cs s))) i"
  using pg_sh_history [OF assms(1), of cs i] assms(2) by simp

text \<open>A confirmed shipment. When a confirmation answers with a value on a fresh key, the command named
  the stored version, the shipment was not shipped, picking was complete, every package was closed
  and, if packages were listed, listed; it is stored as shipped with the upper-case carrier, one of
  the four known, and the trimmed tracking number, and the outbox gained the three events of the
  confirmation in order, all of the new version.\<close>

theorem confirmed_shipment:
  assumes "sh_confirm_shipment pg_sh_ports x s = (rep, s')" and "reply_value rep = Some t'"
    and "sh_keys_of (w_db s) (sc_key x) = None" and "shipment_of (w_db s) (sc_shipment x) = Some t"
  shows "sh_version t = sc_base_version x \<and> sh_status t \<noteq> ''SHIPPED'' \<and> sh_picked t
    \<and> list_all package_closed (sh_packages t) \<and> sh_packages t \<noteq> []
    \<and> (sc_verified x = [] \<or> package_ids t \<subseteq> set (sc_verified x))
    \<and> shipment_of (w_db s') (sc_shipment x) = Some t' \<and> sh_status t' = ''SHIPPED''
    \<and> sh_carrier t' = Some (to_upper (trim_space (sc_carrier x))) \<and> to_upper (trim_space (sc_carrier x)) \<in> set carriers
    \<and> sh_tracking t' = Some (trim_space (sc_tracking x)) \<and> tracking_ok (trim_space (sc_tracking x))
    \<and> (\<exists>es. outbox_of (w_db s') = outbox_of (w_db s) @ es
         \<and> map ev_type es = [''ShipmentReadinessChanged'', ''ShipmentConfirmed'', ''OrderShipped'']
         \<and> list_all (\<lambda>e. ev_agg_id e = sh_id t \<and> ev_agg_version e = sh_version t + 1) es)"
proof -
  from pgs.sh_confirm_cases [OF assms(1)] assms(2) obtain es where
    "ship_effect x (pg_sh_view s) t' es (pg_sh_view s')" by auto
  then show ?thesis
  proof cases
    case ship_replayed
    with assms(3) show ?thesis by (simp add: pg_sh_view_eq)
  next
    case (shipped s0 now)
    have s0: "s0 = t" using shipped(3) assms(4) by (simp add: pg_sh_view_eq)
    note c = confirm_ok [OF shipped(5) [unfolded s0]]
    have db: "shipment_of (w_db s') (sc_shipment x) = Some t'" "outbox_of (w_db s') = outbox_of (w_db s) @ es"
      using arg_cong [OF shipped(1), of hv_ships] arg_cong [OF shipped(1), of hv_outbox]
      by (simp_all add: pg_sh_view_eq)
    have "ev_agg_id e = sh_id t \<and> ev_agg_version e = sh_version t + 1" if e: "e \<in> set es" for e
    proof -
      from shipped(6) e obtain eid ts where "e = sh_event (ev_type e) t' (sc_actor x) (sc_id x) eid ts"
        by (auto simp: ship_log_def)
      from arg_cong [OF this, of ev_agg_id] arg_cong [OF this, of ev_agg_version] c(1) show ?thesis
        by (simp add: sh_event_def)
    qed
    then have "list_all (\<lambda>e. ev_agg_id e = sh_id t \<and> ev_agg_version e = sh_version t + 1) es"
      by (simp add: list_all_iff)
    moreover have "map ev_type es = [''ShipmentReadinessChanged'', ''ShipmentConfirmed'', ''OrderShipped'']"
      using shipped(6) by (simp add: ship_log_def ship_events_def)
    moreover have "sh_status t' = ''SHIPPED''" "sh_carrier t' = Some (to_upper (trim_space (sc_carrier x)))"
      "sh_tracking t' = Some (trim_space (sc_tracking x))" by (simp_all add: c(1))
    ultimately show ?thesis
      using c(2-9) db by (simp add: package_ids_def)
  qed
qed

text \<open>A retried confirmation. When a confirmation has answered with a value, then after any further
  calls the same confirmation, if it answers with a value, answers with the same shipment and
  changes neither shipments, keys nor outbox.\<close>

theorem confirm_retry_is_idempotent:
  assumes "sh_confirm_shipment pg_sh_ports x s = (rep, s1)" and "reply_value rep = Some t"
    and "sh_confirm_shipment pg_sh_ports x (run_shs pg_sh_ports cs s1) = (rep2, s3)" and "reply_value rep2 = Some t2"
  shows "t2 = t \<and> sh_db (w_db s3) = sh_db (w_db (run_shs pg_sh_ports cs s1))"
proof -
  let ?s2 = "run_shs pg_sh_ports cs s1"
  from pgs.sh_confirm_cases [OF assms(1)] assms(2) obtain es where
    "ship_effect x (pg_sh_view s) t es (pg_sh_view s1)" by auto
  from ship_records_key [OF this] obtain r where
    "hv_keys (pg_sh_view s1) (sc_key x) = Some r" and r: "hr_result r = Some t" by auto
  from sh_steps_keep_keys [OF pgs.run_shs_steps this(1)]
  have k: "hv_keys (pg_sh_view ?s2) (sc_key x) = Some r" .
  from pgs.sh_confirm_cases [OF assms(3)] assms(4) obtain es2 where
    "ship_effect x (pg_sh_view ?s2) t2 es2 (pg_sh_view s3)" by auto
  from ship_on_used_key [OF this k] r show ?thesis by (auto simp: pg_sh_view_eq)
qed

section \<open>Sample runs\<close>

definition ex_sh_start :: world where
  "ex_sh_start = ex_world (empty_tables\<lparr>
     shipment_table := [(''S1'', \<lparr>sr_order = ''O1'', sr_warehouse = ''WH-01'', sr_status = ''PENDING'',
        sr_carrier = None, sr_tracking = None, sr_picked = True, sr_version = 1, sr_updated = 5\<rparr>)],
     shipment_package := [(''P1'', \<lparr>pr_shipment = ''S1'', pr_status = ''COMPLETED'', pr_weight = 7\<rparr>)]\<rparr>)"

definition ex_ship :: sh_command where
  "ex_ship = \<lparr>sc_id = 7, sc_key = ''k'', sc_shipment = ''S1'', sc_carrier = '' dhl'', sc_tracking = ''ABC-123'',
     sc_base_version = 1, sc_verified = [], sc_actor = ex_actor ''A''\<rparr>"

definition ex_shipped :: "shipment reply \<times> world" where
  "ex_shipped = sh_confirm_shipment pg_sh_ports ex_ship ex_sh_start"

definition ex_reshipped :: "shipment reply \<times> world" where
  "ex_reshipped = sh_confirm_shipment pg_sh_ports ex_ship (run_shs pg_sh_ports [ProjectCall ''S1''] (snd ex_shipped))"

definition ex_shipment :: "shipment option" where
  "ex_shipment = shipment_of (w_db (snd ex_shipped)) ''S1''"

lemma ex_sh_inv: "sh_inv (sh_db (w_db ex_sh_start))"
  by (auto simp: sh_inv_def shipment_of_def ex_sh_start_def ex_world_def empty_tables_def
      scan_shipment_def sh_sound_def packages_ids distinct_child_keys split: if_splits)

lemma ex_shipped_is: "snd ex_shipped = run_shs pg_sh_ports [ConfirmCall ex_ship] ex_sh_start"
  by (simp add: ex_shipped_def)

lemma ex_shipped_inv: "sh_inv (sh_db (w_db (snd ex_shipped)))"
  using pg_sh_history [OF ex_sh_inv] unfolding ex_shipped_is by blast

lemma ex_ship_runs:
  "case sh_confirm_shipment pg_sh_ports ex_ship ex_sh_start of (r1, s1) \<Rightarrow>
     reply_value r1 \<noteq> None
     \<and> (shipment_of (w_db s1) ''S1'' \<noteq> None \<and> sh_status (the (shipment_of (w_db s1) ''S1'')) = ''SHIPPED'')
     \<and> reply_value (fst (sh_confirm_shipment pg_sh_ports ex_ship (run_shs pg_sh_ports [ProjectCall ''S1''] s1))) \<noteq> None"
  by code_simp

lemmas ex_ship_facts = ex_ship_runs [unfolded case_prod_beta, folded ex_shipped_def, folded ex_reshipped_def]

lemmas ex_shipped_answer = ex_ship_facts [THEN conjunct1]

lemmas ex_reshipped_answer = ex_ship_facts [THEN conjunct2, THEN conjunct2]

lemma ex_shipment_status: "ex_shipment \<noteq> None" "sh_status (the ex_shipment) = ''SHIPPED''"
  unfolding ex_shipment_def using ex_ship_facts by blast+

lemma ex_sh_known: "shipment_of (w_db ex_sh_start) ''S1'' \<noteq> None"
  by code_simp

theorem shipment_lifecycle_witness:
  "package_ids (the (shipment_of (w_db (run_shs pg_sh_ports [ConfirmCall ex_ship] ex_sh_start)) ''S1''))
   = package_ids (the (shipment_of (w_db ex_sh_start) ''S1''))"
  using shipment_lifecycle [OF ex_sh_inv ex_sh_known [THEN some_the], of "[ConfirmCall ex_ship]"] by auto

theorem shipped_is_final_witness:
  "\<exists>t'. shipment_of (w_db (run_shs pg_sh_ports [ProjectCall ''S1''] (snd ex_shipped))) ''S1'' = Some t'
    \<and> sh_status t' = ''SHIPPED''"
  using shipped_is_final [OF ex_shipped_inv ex_shipment_status(1) [THEN some_the, unfolded ex_shipment_def],
      folded ex_shipment_def, OF ex_shipment_status(2)] by blast

theorem order_shipped_once_witness:
  "order_events ''S1'' (outbox_of (w_db (run_shs pg_sh_ports [ConfirmCall ex_ship, ConfirmCall ex_ship] ex_sh_start)))
   = shipped_now (sh_db (w_db (run_shs pg_sh_ports [ConfirmCall ex_ship, ConfirmCall ex_ship] ex_sh_start))) ''S1''"
  by (rule order_shipped_once [OF ex_sh_inv])
    (simp add: order_events_def outbox_of_def shipped_now_def shipment_of_def ex_sh_start_def ex_world_def
      empty_tables_def scan_shipment_def)

theorem confirmed_shipment_witness: "sh_carrier (the (reply_value (fst ex_shipped))) = Some (to_upper (trim_space '' dhl''))"
proof -
  have f: "sh_keys_of (w_db ex_sh_start) (sc_key ex_ship) = None"
    by (simp add: sh_keys_of_def ex_sh_start_def ex_world_def empty_tables_def command_by_key_def)
  have k: "shipment_of (w_db ex_sh_start) (sc_shipment ex_ship) = Some (the (shipment_of (w_db ex_sh_start) ''S1''))"
    using ex_sh_known [THEN some_the] by (simp add: ex_ship_def)
  have c: "sc_carrier ex_ship = '' dhl''" by (simp add: ex_ship_def)
  from confirmed_shipment [OF ex_shipped_def [symmetric, THEN trans, OF split_run] ex_shipped_answer [THEN some_the] f k, unfolded c]
  show ?thesis by blast
qed

theorem confirm_retry_is_idempotent_witness:
  "the (reply_value (fst ex_reshipped)) = the (reply_value (fst ex_shipped))"
  by (rule confirm_retry_is_idempotent [THEN conjunct1])
    (rule ex_shipped_def [symmetric, THEN trans, OF split_run] ex_reshipped_def [symmetric, THEN trans, OF split_run]
      ex_shipped_answer [THEN some_the] ex_reshipped_answer [THEN some_the])+

end
