(* ===== verification/Cache.thy ===== *)
theory Cache
  imports Environment Go_Strings "HOL-Library.Signed_Division"
begin

text \<open>
  The cache-aside layer of \<open>internal/platform/cache/cache.go\<close> and \<open>invalidation.go\<close>: keys, the
  \<open>Store\<close> port, \<open>Get\<close> with its fall-back to the last value seen in this process,
  deletion by pattern, the invalidator of the read views, and the Redis adapter of
  \<open>internal/platform/cache/adapters/redis/store.go\<close>. A cached document is modelled as the value
  that its JSON text stands for; \<open>mk\<close> and \<open>rd\<close> are \<open>json.Marshal\<close> and \<open>json.Unmarshal\<close> at
  the type of the caller. Requests for one key run one after the other, which is what
  \<open>singleflight\<close> makes of concurrent ones. The clock that feeds \<open>LatencyNanos\<close> is not modelled.
\<close>

section \<open>Keys\<close>

definition ErrMiss :: err where
  [err_defs]: "ErrMiss = TextError ''cache miss''"

definition clean_part :: "string \<Rightarrow> string" where
  "clean_part p = replace_char CHR '':'' CHR ''_'' p"

definition cache_key :: "string \<Rightarrow> string \<Rightarrow> string list \<Rightarrow> string" where
  "cache_key version kind parts = str_join '':'' ([''pda'', version, kind] @ map clean_part parts)"

section \<open>The store port\<close>

text \<open>Set takes the expiry in nanoseconds; Scan takes a cursor, a pattern and a page size.\<close>

record ('r, 'd) cache_store =
  cs_get :: "string \<Rightarrow> ('r, 'd) prog"
  cs_set :: "string \<Rightarrow> 'd \<Rightarrow> int \<Rightarrow> ('r, unit) prog"
  cs_del :: "string list \<Rightarrow> ('r, unit) prog"
  cs_scan :: "64 word \<Rightarrow> string \<Rightarrow> int \<Rightarrow> ('r, string list \<times> 64 word) prog"

section \<open>State\<close>

record cache_metrics =
  cm_hits :: "64 word"
  cm_misses :: "64 word"
  cm_errors :: "64 word"
  cm_stale_served :: "64 word"
  cm_inv_ok :: "64 word"
  cm_inv_fail :: "64 word"

text \<open>The state of a process with a cache: the store of the service behind it, the remote
  cache, the counters and the values last seen, by key.\<close>

record ('w, 'r, 'd) cached =
  cw_world :: 'w
  cw_redis :: 'r
  cw_metrics :: cache_metrics
  cw_stale :: "string \<rightharpoonup> 'd"

definition on_world :: "('w, 'a) prog \<Rightarrow> (('w, 'r, 'd) cached, 'a) prog" where
  "on_world m s = (case m (cw_world s) of (r, w) \<Rightarrow> (r, s\<lparr>cw_world := w\<rparr>))"

definition on_redis :: "('r, 'a) prog \<Rightarrow> (('w, 'r, 'd) cached, 'a) prog" where
  "on_redis m s = (case m (cw_redis s) of (r, w) \<Rightarrow> (r, s\<lparr>cw_redis := w\<rparr>))"

definition metric :: "(cache_metrics \<Rightarrow> cache_metrics) \<Rightarrow> ('w, 'r, 'd) cached \<Rightarrow> ('w, 'r, 'd) cached" where
  "metric f s = s\<lparr>cw_metrics := f (cw_metrics s)\<rparr>"

definition keep_stale :: "string \<Rightarrow> 'd \<Rightarrow> ('w, 'r, 'd) cached \<Rightarrow> ('w, 'r, 'd) cached" where
  "keep_stale k d s = s\<lparr>cw_stale := (cw_stale s)(k \<mapsto> d)\<rparr>"

section \<open>Get\<close>

record 'a cache_result =
  res_value :: 'a
  res_hit :: bool
  res_stale :: bool

text \<open>The closure that \<open>singleflight\<close> runs: load, and put the value into the cache.\<close>

definition aside_load ::
    "('r, 'd) cache_store \<Rightarrow> int \<Rightarrow> ('a \<Rightarrow> 'd) \<Rightarrow> string \<Rightarrow> ('w, 'a) prog \<Rightarrow> (('w, 'r, 'd) cached, 'a) prog" where
  "aside_load C ttl mk key load s =
     (case on_world load s of
        (Inl e, s1) \<Rightarrow> (Inl e, s1)
      | (Inr v, s1) \<Rightarrow>
          (case on_redis (cs_set C key (mk v) ttl) s1 of
             (Inl _, s2) \<Rightarrow> (Inr v, keep_stale key (mk v) (metric (cm_errors_update (\<lambda>n. n + 1)) s2))
           | (Inr _, s2) \<Rightarrow> (Inr v, keep_stale key (mk v) s2)))"

text \<open>After an answer that does not decode or a miss, \<open>Misses\<close> counts; after any other error of the
  store, \<open>Errors\<close>. A load that fails is answered with the value last seen, if there is one.\<close>

definition count_lookup :: "err + 'd \<Rightarrow> cache_metrics \<Rightarrow> cache_metrics" where
  "count_lookup got m = (case got of
     Inl e \<Rightarrow> if errors_is e ErrMiss then m\<lparr>cm_misses := cm_misses m + 1\<rparr> else m\<lparr>cm_errors := cm_errors m + 1\<rparr>
   | Inr _ \<Rightarrow> m\<lparr>cm_misses := cm_misses m + 1\<rparr>)"

definition aside_get ::
    "('r, 'd) cache_store \<Rightarrow> int \<Rightarrow> ('a \<Rightarrow> 'd) \<Rightarrow> ('d \<Rightarrow> 'a option) \<Rightarrow> string \<Rightarrow> ('w, 'a) prog
     \<Rightarrow> (('w, 'r, 'd) cached, 'a cache_result) prog" where
  "aside_get C ttl mk rd key load s =
     (case on_redis (cs_get C key) s of (got, s1) \<Rightarrow>
        (case (case got of Inl e \<Rightarrow> None | Inr raw \<Rightarrow> rd raw) of
           Some v \<Rightarrow> (Inr \<lparr>res_value = v, res_hit = True, res_stale = False\<rparr>,
                      keep_stale key (mk v) (metric (cm_hits_update (\<lambda>n. n + 1)) s1))
         | None \<Rightarrow>
             (case aside_load C ttl mk key load (metric (count_lookup got) s1) of
                (Inr v, s2) \<Rightarrow> (Inr \<lparr>res_value = v, res_hit = False, res_stale = False\<rparr>, s2)
              | (Inl e, s2) \<Rightarrow>
                  (case Option.bind (cw_stale s2 key) rd of
                     Some v \<Rightarrow> (Inr \<lparr>res_value = v, res_hit = False, res_stale = True\<rparr>,
                                metric (cm_stale_served_update (\<lambda>n. n + 1)) s2)
                   | None \<Rightarrow> (Inl e, s2)))))"

section \<open>Deletion\<close>

definition aside_delete :: "('r, 'd) cache_store \<Rightarrow> string list \<Rightarrow> (('w, 'r, 'd) cached, unit) prog" where
  "aside_delete C keys = on_redis (cs_del C keys)"

text \<open>The loop ends when the store returns cursor 0 or an error; \<open>None\<close> is a loop that does not
  end.\<close>

partial_function (option) scan_delete ::
    "('r, 'd) cache_store \<Rightarrow> string \<Rightarrow> 64 word \<Rightarrow> ('w, 'r, 'd) cached \<Rightarrow> ((err + unit) \<times> ('w, 'r, 'd) cached) option" where
  "scan_delete C pattern cursor s =
     (case on_redis (cs_scan C cursor pattern 100) s of
        (Inl e, s1) \<Rightarrow> Some (Inl e, s1)
      | (Inr (keys, after), s1) \<Rightarrow>
          (case (if keys \<noteq> [] then on_redis (cs_del C keys) s1 else (Inr (), s1)) of
             (Inl e, s2) \<Rightarrow> Some (Inl e, s2)
           | (Inr _, s2) \<Rightarrow> if after = 0 then Some (Inr (), s2) else scan_delete C pattern after s2))"

definition delete_pattern ::
    "('r, 'd) cache_store \<Rightarrow> string \<Rightarrow> ('w, 'r, 'd) cached \<Rightarrow> ((err + unit) \<times> ('w, 'r, 'd) cached) option" where
  "delete_pattern C pattern s = scan_delete C pattern 0 s"

definition validate_ttl :: "int64 \<Rightarrow> err + unit" where
  "validate_ttl v =
     (if i64_le v 0 \<or> i64_less 86400000000000 v
      then Inl (TextError ''cache TTL must be between zero and 24h'') else Inr ())"

section \<open>Invalidation of the read views\<close>

definition view_patterns :: "string \<Rightarrow> string \<Rightarrow> string \<Rightarrow> string list" where
  "view_patterns version w p =
     (let o' = (if p = '''' then ''*'' else p) in
      [cache_key version ''dashboard'' [w, o'], cache_key version ''task-summary'' [w, o'] @ ''*'',
       cache_key version ''inventory-search'' [w] @ ''*'', cache_key version ''inventory-balance'' [w] @ ''*'',
       cache_key version ''shipment'' [] @ ''*''])"

text \<open>\<open>errors.Join\<close> collects the errors in order; an empty list is \<open>nil\<close>.\<close>

fun clear_patterns ::
    "('r, 'd) cache_store \<Rightarrow> string list \<Rightarrow> err list \<Rightarrow> ('w, 'r, 'd) cached \<Rightarrow> (err list \<times> ('w, 'r, 'd) cached) option" where
  "clear_patterns C [] es s = Some (es, s)"
| "clear_patterns C (p # ps) es s =
     (case delete_pattern C p s of
        None \<Rightarrow> None
      | Some (Inl e, s1) \<Rightarrow> clear_patterns C ps (es @ [e]) (metric (cm_inv_fail_update (\<lambda>n. n + 1)) s1)
      | Some (Inr _, s1) \<Rightarrow> clear_patterns C ps es (metric (cm_inv_ok_update (\<lambda>n. n + 1)) s1))"

definition clear_views ::
    "('r, 'd) cache_store \<Rightarrow> string \<Rightarrow> string \<Rightarrow> string \<Rightarrow> ('w, 'r, 'd) cached
     \<Rightarrow> (err list \<times> ('w, 'r, 'd) cached) option" where
  "clear_views C version w p s = clear_patterns C (view_patterns version w p) [] s"

definition invalidate_task_views ::
    "('r, 'd) cache_store \<Rightarrow> string \<Rightarrow> string \<Rightarrow> string \<Rightarrow> ('w, 'r, 'd) cached
     \<Rightarrow> (err list \<times> ('w, 'r, 'd) cached) option" where
  "invalidate_task_views C version w p = clear_views C version w p"

definition invalidate_receiving_views ::
    "('r, 'd) cache_store \<Rightarrow> string \<Rightarrow> string \<Rightarrow> string \<Rightarrow> ('w, 'r, 'd) cached
     \<Rightarrow> (err list \<times> ('w, 'r, 'd) cached) option" where
  "invalidate_receiving_views C version w p = clear_views C version w p"

definition invalidate_movement_views ::
    "('r, 'd) cache_store \<Rightarrow> string \<Rightarrow> string \<Rightarrow> string \<Rightarrow> ('w, 'r, 'd) cached
     \<Rightarrow> (err list \<times> ('w, 'r, 'd) cached) option" where
  "invalidate_movement_views C version w p = clear_views C version w p"

definition invalidate_inventory ::
    "('r, 'd) cache_store \<Rightarrow> string \<Rightarrow> string \<Rightarrow> string \<Rightarrow> string \<Rightarrow> ('w, 'r, 'd) cached
     \<Rightarrow> (err list \<times> ('w, 'r, 'd) cached) option" where
  "invalidate_inventory C version w item location = clear_views C version w ''''"

definition invalidate_shipping_views ::
    "('r, 'd) cache_store \<Rightarrow> string \<Rightarrow> string \<Rightarrow> string \<Rightarrow> ('w, 'r, 'd) cached
     \<Rightarrow> (err list \<times> ('w, 'r, 'd) cached) option" where
  "invalidate_shipping_views C version w p = clear_views C version w p"

section \<open>The Redis adapter\<close>

text \<open>The client is the package \<open>go-redis\<close>, given as the operations the adapter calls; \<open>rc_nil\<close> is
  \<open>redis.Nil\<close>, its answer for a key that does not exist. \<open>rc_rate\<close> runs the script of the rate
  limiter, \<open>INCR\<close> with an expiry set on the first increment, and returns the counter.\<close>

record ('r, 'd) redis_client =
  rc_nil :: err
  rc_get :: "string \<Rightarrow> ('r, 'd) prog"
  rc_set :: "string \<Rightarrow> 'd \<Rightarrow> int \<Rightarrow> ('r, unit) prog"
  rc_del :: "string list \<Rightarrow> ('r, unit) prog"
  rc_scan :: "64 word \<Rightarrow> string \<Rightarrow> int \<Rightarrow> ('r, string list \<times> 64 word) prog"
  rc_rate :: "string \<Rightarrow> int64 \<Rightarrow> 'r \<Rightarrow> int64 \<times> err option \<times> 'r"

definition redis_get :: "('r, 'd) redis_client \<Rightarrow> string \<Rightarrow> ('r, 'd) prog" where
  "redis_get R k s = (case rc_get R k s of
     (Inl e, s') \<Rightarrow> (Inl (if errors_is e (rc_nil R) then ErrMiss else e), s')
   | (Inr v, s') \<Rightarrow> (Inr v, s'))"

definition redis_set :: "('r, 'd) redis_client \<Rightarrow> string \<Rightarrow> 'd \<Rightarrow> int \<Rightarrow> ('r, unit) prog" where
  "redis_set R k v t = rc_set R k v t"

definition redis_del :: "('r, 'd) redis_client \<Rightarrow> string list \<Rightarrow> ('r, unit) prog" where
  "redis_del R ks = (if ks = [] then returnP () else rc_del R ks)"

definition redis_scan ::
    "('r, 'd) redis_client \<Rightarrow> 64 word \<Rightarrow> string \<Rightarrow> int \<Rightarrow> ('r, string list \<times> 64 word) prog" where
  "redis_scan R x p n = rc_scan R x p n"

definition redis_store :: "('r, 'd) redis_client \<Rightarrow> ('r, 'd) cache_store" where
  "redis_store R = \<lparr>cs_get = redis_get R, cs_set = redis_set R, cs_del = redis_del R, cs_scan = redis_scan R\<rparr>"

text \<open>The answer and the error are returned together; a failed script has the counter 0.
  \<open>Milliseconds\<close> truncates the window.\<close>

definition rate_allow ::
    "('r, 'd) redis_client \<Rightarrow> string \<Rightarrow> int64 \<Rightarrow> int64 \<Rightarrow> string \<Rightarrow> 'r \<Rightarrow> bool \<times> err option \<times> 'r" where
  "rate_allow R version limit window subject s =
     (case rc_rate R (cache_key version ''rate'' [subject]) (word_of_int (sint window sdiv 1000000)) s of
        (n, e, s') \<Rightarrow> (i64_le n limit, e, s'))"

section \<open>Keys\<close>

lemma clean_part_no_colon: "CHR '':'' \<notin> set (clean_part p)"
  by (auto simp: clean_part_def replace_char_def)

lemma clean_part_id [simp]: "CHR '':'' \<notin> set p \<Longrightarrow> clean_part p = p"
  unfolding clean_part_def replace_char_def by (rule map_idI) auto

lemma clean_part_idem [simp]: "clean_part (clean_part p) = clean_part p"
  by (rule clean_part_id [OF clean_part_no_colon])

lemma cache_key_split:
  assumes "CHR '':'' \<notin> set version" and "CHR '':'' \<notin> set kind"
  shows "split_char CHR '':'' (cache_key version kind parts) = ''pda'' # version # kind # map clean_part parts"
  unfolding cache_key_def by (subst split_join) (use assms clean_part_no_colon in auto)

section \<open>Deletion by pattern\<close>

lemma on_redis_run [simp]:
  "cw_world (snd (on_redis m s)) = cw_world s" "cw_stale (snd (on_redis m s)) = cw_stale s"
  "cw_metrics (snd (on_redis m s)) = cw_metrics s"
  by (simp_all add: on_redis_def split: prod.split)

text \<open>Redis promises that a scan started at 0 comes back to 0: cursors go down in some rank until
  they do.\<close>

definition scan_ends :: "('r, 'd) cache_store \<Rightarrow> (64 word \<Rightarrow> nat) \<Rightarrow> string \<Rightarrow> bool" where
  "scan_ends C rank p \<longleftrightarrow> (\<forall>x n s ks y s'. cs_scan C x p n s = (Inr (ks, y), s') \<longrightarrow> y = 0 \<or> rank y < rank x)"

lemma scan_delete_ends:
  fixes s :: "('w, 'r, 'd) cached"
  assumes "scan_ends C rank p"
  shows "scan_delete C p x s \<noteq> None"
proof (induction "rank x" arbitrary: x s rule: less_induct)
  case less
  show ?case
  proof (cases "on_redis (cs_scan C x p 100) s")
    case (Pair r s1)
    show ?thesis
    proof (cases r)
      case (Inl e)
      with Pair show ?thesis by (subst scan_delete.simps) simp
    next
      case (Inr ky)
      obtain ks y where ky: "ky = (ks, y)" by fastforce
      have "y = 0 \<or> rank y < rank x"
        using Pair Inr ky assms [unfolded scan_ends_def, rule_format, of x 100 "cw_redis s" ks y]
        by (auto simp: on_redis_def split: prod.splits)
      with less have "y \<noteq> 0 \<Longrightarrow> scan_delete C p y s2 \<noteq> None" for s2 :: "('w, 'r, 'd) cached" by blast
      with Pair Inr ky show ?thesis
        by (subst scan_delete.simps) (auto split: prod.splits sum.splits simp del: not_None_eq)
    qed
  qed
qed

section \<open>What the cache may hold\<close>

text \<open>What Redis promises: a value that it returns or holds was put there under that key, whatever
  errors occur; entries may vanish at any time.\<close>

definition shrinks :: "('k \<rightharpoonup> 'v) \<Rightarrow> ('k \<rightharpoonup> 'v) \<Rightarrow> bool" where
  "shrinks m' m \<longleftrightarrow> (\<forall>k d. m' k = Some d \<longrightarrow> m k = Some d)"

definition redis_laws :: "('r, 'd) redis_client \<Rightarrow> ('r \<Rightarrow> string \<rightharpoonup> 'd) \<Rightarrow> bool" where
  "redis_laws R kv \<longleftrightarrow>
     (\<forall>k s d s'. rc_get R k s = (Inr d, s') \<longrightarrow> kv s k = Some d)
     \<and> (\<forall>k s. shrinks (kv (snd (rc_get R k s))) (kv s))
     \<and> (\<forall>ks s. shrinks (kv (snd (rc_del R ks s))) (kv s))
     \<and> (\<forall>x p n s. shrinks (kv (snd (rc_scan R x p n s))) (kv s))
     \<and> (\<forall>k d t s k' d'. kv (snd (rc_set R k d t s)) k' = Some d' \<longrightarrow> kv s k' = Some d' \<or> (k' = k \<and> d' = d))"

definition holds_only :: "('r \<Rightarrow> string \<rightharpoonup> 'd) \<Rightarrow> (string \<Rightarrow> 'd \<Rightarrow> bool) \<Rightarrow> ('w, 'r, 'd) cached \<Rightarrow> bool" where
  "holds_only kv Q s \<longleftrightarrow> (\<forall>k d. kv (cw_redis s) k = Some d \<longrightarrow> Q k d) \<and> (\<forall>k d. cw_stale s k = Some d \<longrightarrow> Q k d)"

lemma holds_only_updates [simp]:
  "holds_only kv Q (s\<lparr>cw_world := w\<rparr>) = holds_only kv Q s" "holds_only kv Q (metric f s) = holds_only kv Q s"
  by (simp_all add: holds_only_def metric_def)

lemma keep_stale_holds: "holds_only kv Q s \<Longrightarrow> Q k d \<Longrightarrow> holds_only kv Q (keep_stale k d s)"
  by (auto simp: holds_only_def keep_stale_def)

lemma keeps_on_world [keeps_intros]: "keeps (holds_only kv Q) (on_world m)"
  by (rule keepsI) (auto simp: on_world_def split: prod.splits)

lemma shrinks_holds: "shrinks (kv r') (kv (cw_redis s)) \<Longrightarrow> holds_only kv Q s \<Longrightarrow> holds_only kv Q (s\<lparr>cw_redis := r'\<rparr>)"
  by (auto simp: holds_only_def shrinks_def)

lemma on_redis_snd: "snd (on_redis m s) = s\<lparr>cw_redis := snd (m (cw_redis s))\<rparr>"
  by (simp add: on_redis_def split: prod.split)

lemma redis_get_Inr: "redis_get R k s = (Inr d, s') \<Longrightarrow> rc_get R k s = (Inr d, s')"
  by (auto simp: redis_get_def split: prod.splits sum.splits)

lemma redis_get_snd: "snd (redis_get R k s) = snd (rc_get R k s)"
  by (simp add: redis_get_def split: prod.split sum.split)

lemma redis_keeps:
  assumes "redis_laws R kv"
  shows "keeps (holds_only kv Q) (on_redis (redis_get R k))"
    and "keeps (holds_only kv Q) (on_redis (redis_del R ks))"
    and "keeps (holds_only kv Q) (on_redis (redis_scan R x p n))"
  using assms unfolding keeps_def on_redis_snd
  by (auto simp: redis_laws_def redis_get_snd redis_del_def redis_scan_def intro!: shrinks_holds)

lemma redis_set_holds:
  assumes "redis_laws R kv" and "Q k d"
  shows "keeps (holds_only kv Q) (on_redis (redis_set R k d t))"
  using assms unfolding keeps_def on_redis_snd redis_laws_def redis_set_def holds_only_def
  by simp blast

lemma redis_store_sel [simp]:
  "cs_get (redis_store R) = redis_get R" "cs_set (redis_store R) = redis_set R"
  "cs_del (redis_store R) = redis_del R" "cs_scan (redis_store R) = redis_scan R"
  by (simp_all add: redis_store_def)

text \<open>What a load gives, the cache gives: \<open>Q\<close> is a property of the values under a key.\<close>

definition loads :: "(string \<Rightarrow> 'd \<Rightarrow> bool) \<Rightarrow> ('a \<Rightarrow> 'd) \<Rightarrow> string \<Rightarrow> ('w, 'a) prog \<Rightarrow> bool" where
  "loads Q mk key load \<longleftrightarrow> (\<forall>w v w'. load w = (Inr v, w') \<longrightarrow> Q key (mk v))"

lemma aside_load_holds:
  assumes "redis_laws R kv" and "loads Q mk key load" and "holds_only kv Q s"
    and "aside_load (redis_store R) ttl mk key load s = (r, s')"
  shows "holds_only kv Q s' \<and> (\<forall>v. r = Inr v \<longrightarrow> Q key (mk v))"
proof (cases "load (cw_world s)")
  case (Pair q w)
  show ?thesis
  proof (cases q)
    case (Inl e)
    with Pair assms show ?thesis by (auto simp: aside_load_def on_world_def)
  next
    case (Inr v)
    with Pair assms(2) have Q: "Q key (mk v)" by (auto simp: loads_def)
    obtain p s2 where set: "on_redis (redis_set R key (mk v) ttl) (s\<lparr>cw_world := w\<rparr>) = (p, s2)" by fastforce
    have "holds_only kv Q s2"
      using keepsD [OF redis_set_holds [of R kv Q, OF assms(1) Q] set] assms(3) by simp
    with Q Pair Inr assms(4) set show ?thesis
      by (auto simp: aside_load_def on_world_def keep_stale_holds split: sum.splits)
  qed
qed

lemma aside_get_holds:
  assumes "redis_laws R kv" and "loads Q mk key load" and "holds_only kv Q s"
    and rd: "\<And>d v. rd d = Some v \<Longrightarrow> mk v = d"
    and "aside_get (redis_store R) ttl mk rd key load s = (r, s')"
  shows "holds_only kv Q s' \<and> (\<forall>x. r = Inr x \<longrightarrow> Q key (mk (res_value x)))"
proof -
  obtain got s1 where get: "on_redis (redis_get R key) s = (got, s1)" by fastforce
  have s1: "holds_only kv Q s1" using keepsD [OF redis_keeps(1) [OF assms(1)] get assms(3)] .
  have got: "Q key d" if "got = Inr d" for d
    using get that assms(1,3)
    by (auto simp: on_redis_def redis_laws_def holds_only_def split: prod.splits dest: redis_get_Inr)
  show ?thesis
  proof (cases "case got of Inl e \<Rightarrow> None | Inr raw \<Rightarrow> rd raw")
    case (Some v)
    then obtain d where d: "got = Inr d" "rd d = Some v" by (auto split: sum.splits)
    with got rd have "Q key (mk v)" by auto
    with Some get assms(5) s1 show ?thesis by (auto simp: aside_get_def keep_stale_holds)
  next
    case None
    obtain q s2 where load: "aside_load (redis_store R) ttl mk key load (metric (count_lookup got) s1) = (q, s2)"
      by fastforce
    have q: "holds_only kv Q s2 \<and> (\<forall>v. q = Inr v \<longrightarrow> Q key (mk v))"
      using aside_load_holds [OF assms(1,2) _ load] s1 by simp
    have stale: "Q key (mk v)" if "Option.bind (cw_stale s2 key) rd = Some v" for v
      using that q rd by (auto simp: bind_eq_Some_conv holds_only_def)
    from q stale None get load assms(5) show ?thesis
      by (auto simp: aside_get_def split: sum.splits option.splits)
  qed
qed

text \<open>A request runs the load at most once, and only the load touches the store behind the cache.\<close>

lemma aside_load_world: "aside_load C ttl mk key load s = (r, s') \<Longrightarrow>
    \<exists>q. load (cw_world s) = (q, cw_world s') \<and> r = q"
  by (auto simp: aside_load_def on_world_def on_redis_def keep_stale_def metric_def split: prod.splits sum.splits)

lemma aside_get_world:
  assumes "aside_get C ttl mk rd key load s = (r, s')"
  shows "cw_world s' = cw_world s \<or> (\<exists>q. load (cw_world s) = (q, cw_world s'))"
proof -
  obtain got s1 where get: "on_redis (cs_get C key) s = (got, s1)" by fastforce
  then have s1: "cw_world s1 = cw_world s" by (auto simp: on_redis_def split: prod.splits)
  obtain q s2 where load: "aside_load C ttl mk key load (metric (count_lookup got) s1) = (q, s2)" by fastforce
  from aside_load_world [OF load] s1 have "load (cw_world s) = (q, cw_world s2)" by (simp add: metric_def)
  with assms get load s1 show ?thesis
    by (auto simp: aside_get_def keep_stale_def metric_def split: sum.splits option.splits)
qed

lemma frame_aside_get: "frame v load \<Longrightarrow> frame (v \<circ> cw_world) (aside_get C ttl mk rd key load)"
  by (rule frameI) (auto dest: aside_get_world frameD)

lemma frame_on_world: "frame v m \<Longrightarrow> frame (v \<circ> cw_world) (on_world m)"
  by (rule frameI) (auto simp: on_world_def split: prod.splits dest: frameD)

lemma on_world_Inr: "on_world m s = (r, s') \<Longrightarrow> m (cw_world s) = (r, cw_world s')"
  by (auto simp: on_world_def split: prod.splits)

lemma aside_get_Inl:
  assumes "aside_get C ttl mk rd key load s = (Inl e, s')"
  shows "fst (load (cw_world s)) = Inl e"
proof -
  obtain got s1 where get: "on_redis (cs_get C key) s = (got, s1)" by fastforce
  then have s1: "cw_world s1 = cw_world s" by (auto simp: on_redis_def split: prod.splits)
  obtain q s2 where load: "aside_load C ttl mk key load (metric (count_lookup got) s1) = (q, s2)" by fastforce
  with aside_load_world [OF load] s1 assms get show ?thesis
    by (auto simp: aside_get_def metric_def split: sum.splits option.splits)
qed

text \<open>Deletion and invalidation leave the store behind the cache alone and never add to the cache.\<close>

lemma scan_delete_keeps:
  assumes "scan_delete C p x s = Some (r, s')" and "I s"
    and scan: "\<And>x n. keeps I (on_redis (cs_scan C x p n))" and del: "\<And>ks. keeps I (on_redis (cs_del C ks))"
  shows "I s'"
proof -
  have "I s \<longrightarrow> I (snd (r, s'))"
  proof (rule scan_delete.raw_induct [where P = "\<lambda>C' p' x s rs.
      (C' = C \<and> p' = p) \<longrightarrow> I s \<longrightarrow> I (snd rs)", OF _ assms(1), THEN mp])
    fix f C' p' x s rs
    assume IH: "\<And>C' p' x s rs. f C' p' x s = Some rs \<Longrightarrow> (C' = C \<and> p' = p) \<longrightarrow> I s \<longrightarrow> I (snd rs)"
      and body: "(case on_redis (cs_scan C' x p' 100) s of (Inl e, s1) \<Rightarrow> Some (Inl e, s1)
        | (Inr (keys, after), s1) \<Rightarrow>
          (case if keys \<noteq> [] then on_redis (cs_del C' keys) s1 else (Inr (), s1) of
             (Inl e, s2) \<Rightarrow> Some (Inl e, s2)
           | (Inr _, s2) \<Rightarrow> if after = 0 then Some (Inr (), s2) else f C' p' after s2)) = Some rs"
    show "(C' = C \<and> p' = p) \<longrightarrow> I s \<longrightarrow> I (snd rs)"
    proof (intro impI, elim conjE)
      assume C: "C' = C" "p' = p" and s: "I s"
      obtain q s1 where 1: "on_redis (cs_scan C x p 100) s = (q, s1)" by fastforce
      with keepsD [OF scan] s have s1: "I s1" by blast
      show "I (snd rs)"
      proof (cases q)
        case (Inl e)
        with 1 C body s1 show ?thesis by auto
      next
        case (Inr ky)
        obtain ks y where ky: "ky = (ks, y)" by fastforce
        obtain q2 s2 where 2: "(if ks \<noteq> [] then on_redis (cs_del C ks) s1 else (Inr (), s1)) = (q2, s2)" by fastforce
        with s1 keepsD [OF del] have s2: "I s2" by (auto split: if_splits)
        have "(case q2 of Inl e \<Rightarrow> Some (Inl e, s2)
           | Inr _ \<Rightarrow> if y = 0 then Some (Inr (), s2) else f C p y s2) = Some rs"
          using body [unfolded C 1 Inr ky prod.case sum.case 2] by simp
        with s2 show ?thesis by (cases q2) (auto split: if_splits dest: IH)
      qed
    qed
  qed simp
  then show ?thesis using assms(2) by simp
qed

lemma clear_patterns_keeps:
  assumes "clear_patterns C ps es s = Some (r, s')" and "I s"
    and scan: "\<And>p x n. keeps I (on_redis (cs_scan C x p n))" and del: "\<And>ks. keeps I (on_redis (cs_del C ks))"
    and metric: "\<And>f s. I (metric f s) = I s"
  shows "I s'"
  using assms(1,2)
proof (induction ps arbitrary: es s)
  case (Cons p ps)
  from Cons.prems(1) obtain q s1 where d: "delete_pattern C p s = Some (q, s1)"
    by (auto split: option.splits)
  have "I s1" by (rule scan_delete_keeps [OF d [unfolded delete_pattern_def] Cons.prems(2) scan del])
  with Cons d show ?case by (auto simp: metric split: sum.splits)
qed simp

lemma clear_world:
  assumes "clear_views C version w p s = Some (r, s')"
  shows "cw_world s' = cw_world s"
  by (rule clear_patterns_keeps [OF assms [unfolded clear_views_def], where I = "\<lambda>x. cw_world x = cw_world s"])
    (auto simp: keeps_def metric_def)

lemma clear_holds:
  assumes "clear_views (redis_store R) version w p s = Some (r, s')" and "redis_laws R kv" and "holds_only kv Q s"
  shows "holds_only kv Q s'"
  by (rule clear_patterns_keeps [OF assms(1) [unfolded clear_views_def], where I = "holds_only kv Q"])
    (simp_all add: assms(3) redis_keeps [OF assms(2)])

text \<open>Every pattern is tried, whatever happened to the ones before it, and is counted.\<close>

lemma delete_pattern_metrics:
  assumes "delete_pattern C p s = Some (r, s')"
  shows "cw_metrics s' = cw_metrics s"
  by (rule scan_delete_keeps [OF assms [unfolded delete_pattern_def], where I = "\<lambda>x. cw_metrics x = cw_metrics s"])
    (auto simp: keeps_def)

lemma clear_patterns_metrics:
  assumes "clear_patterns C ps es s = Some (es', s')"
  obtains fs where "es' = es @ fs" "length fs \<le> length ps"
    "cm_inv_fail (cw_metrics s') = cm_inv_fail (cw_metrics s) + of_nat (length fs)"
    "cm_inv_ok (cw_metrics s') = cm_inv_ok (cw_metrics s) + of_nat (length ps - length fs)"
  using assms
proof (induction ps arbitrary: es s thesis)
  case (Cons p ps)
  from Cons.prems(2) obtain q s1 where d: "delete_pattern C p s = Some (q, s1)"
    by (auto split: option.splits)
  note m = delete_pattern_metrics [OF d]
  show ?case
  proof (cases q)
    case (Inl e)
    with Cons.prems d have "clear_patterns C ps (es @ [e]) (metric (cm_inv_fail_update (\<lambda>n. n + 1)) s1) = Some (es', s')"
      by simp
    then show ?thesis
      by (rule Cons.IH [rotated]) (rule Cons.prems(1) [of "e # _"], simp_all add: metric_def m del: of_nat_diff)
  next
    case (Inr u)
    with Cons.prems d have "clear_patterns C ps es (metric (cm_inv_ok_update (\<lambda>n. n + 1)) s1) = Some (es', s')"
      by simp
    then obtain fs where fs: "es' = es @ fs" "length fs \<le> length ps"
      "cm_inv_fail (cw_metrics s') = cm_inv_fail (cw_metrics s) + of_nat (length fs)"
      "cm_inv_ok (cw_metrics s') = cm_inv_ok (cw_metrics s) + 1 + of_nat (length ps - length fs)"
      by (rule Cons.IH [rotated]) (simp add: metric_def m del: of_nat_diff)
    from fs(2) have "length (p # ps) - length fs = Suc (length ps - length fs)" by simp
    with fs show ?thesis by (intro Cons.prems(1) [of fs]) simp_all
  qed
qed simp

end
