(* ===== verification/Cached_Stores.thy ===== *)
theory Cached_Stores
  imports Cache Pg_Inventory_Store Pg_Shipping_Store Pg_Task_Store
begin

text \<open>
  The Redis repositories that \<open>cmd/pda-api-gateway/main.go\<close> puts in front of the PostgreSQL
  stores: \<open>internal/execution/adapters/rediscache/store.go\<close>,
  \<open>internal/inventory/adapters/rediscache/store.go\<close> and
  \<open>internal/shipping/adapters/rediscache/store.go\<close>, and the services composed over them as the
  gateway composes them. Reads that are not listed go to the store behind the cache unchanged.
\<close>

section \<open>Documents\<close>

text \<open>The types that are cached. Keys of different kinds are different, so a document is always
  read back at the type it was written at.\<close>

datatype cache_doc =
    DashboardText dashboard
  | SummaryText "summary_item list"
  | BalancesText "balance list"
  | ShipmentText shipment

fun read_dashboard :: "cache_doc \<Rightarrow> dashboard option" where
  "read_dashboard (DashboardText x) = Some x"
| "read_dashboard _ = None"

fun read_summary :: "cache_doc \<Rightarrow> summary_item list option" where
  "read_summary (SummaryText x) = Some x"
| "read_summary _ = None"

fun read_balances :: "cache_doc \<Rightarrow> balance list option" where
  "read_balances (BalancesText x) = Some x"
| "read_balances _ = None"

fun read_shipment :: "cache_doc \<Rightarrow> shipment option" where
  "read_shipment (ShipmentText x) = Some x"
| "read_shipment _ = None"

fun_cases read_dashboardE: "read_dashboard d = Some x"
fun_cases read_summaryE: "read_summary d = Some x"
fun_cases read_balancesE: "read_balances d = Some x"
fun_cases read_shipmentE: "read_shipment d = Some x"

text \<open>The cache of a process: the Redis client, the expiry and the key version.\<close>

record 'r cache_setup =
  cf_client :: "('r, cache_doc) redis_client"
  cf_ttl :: int
  cf_version :: string

type_synonym 'r cstate = "(world, 'r, cache_doc) cached"

definition value_of :: "('s, 'a cache_result) prog \<Rightarrow> ('s, 'a) prog" where
  "value_of m = bindP m (\<lambda>r. returnP (res_value r))"

section \<open>The execution repository\<close>

definition ct_dashboard :: "'r cache_setup \<Rightarrow> string \<Rightarrow> string \<Rightarrow> ('r cstate, dashboard) prog" where
  "ct_dashboard F w p = value_of (aside_get (redis_store (cf_client F)) (cf_ttl F) DashboardText read_dashboard
     (cache_key (cf_version F) ''dashboard'' [w, p]) (pg_dashboard w p))"

definition ct_summary ::
    "'r cache_setup \<Rightarrow> string \<Rightarrow> string \<Rightarrow> string \<Rightarrow> ('r cstate, summary_item list) prog" where
  "ct_summary F w p status = value_of (aside_get (redis_store (cf_client F)) (cf_ttl F) SummaryText read_summary
     (cache_key (cf_version F) ''task-summary'' [w, p, status]) (pg_summary w p status))"

section \<open>The inventory repository\<close>

definition ci_search :: "'r cache_setup \<Rightarrow> string \<Rightarrow> string \<Rightarrow> ('r cstate, balance list) prog" where
  "ci_search F w q = value_of (aside_get (redis_store (cf_client F)) (cf_ttl F) BalancesText read_balances
     (cache_key (cf_version F) ''inventory-search'' [w, q]) (pgi_search w q))"

definition ci_balances :: "'r cache_setup \<Rightarrow> string \<Rightarrow> string \<Rightarrow> string \<Rightarrow> ('r cstate, balance list) prog" where
  "ci_balances F w item loc = value_of (aside_get (redis_store (cf_client F)) (cf_ttl F) BalancesText read_balances
     (cache_key (cf_version F) ''inventory-balance'' [w, item, loc]) (pgi_balances w item loc))"

section \<open>The shipping repository\<close>

definition cs_shipment :: "'r cache_setup \<Rightarrow> string \<Rightarrow> ('r cstate, shipment) prog" where
  "cs_shipment F i = value_of (aside_get (redis_store (cf_client F)) (cf_ttl F) ShipmentText read_shipment
     (cache_key (cf_version F) ''shipment'' [i]) (pgs_get i))"

definition cs_project :: "'r cache_setup \<Rightarrow> string \<Rightarrow> ('r cstate, unit) prog" where
  "cs_project F i s = (case on_world (pgs_project i) s of
     (Inl e, s1) \<Rightarrow> (Inl e, s1)
   | (Inr _, s1) \<Rightarrow>
       (Inr (), snd (aside_delete (redis_store (cf_client F)) [cache_key (cf_version F) ''shipment'' [i]] s1)))"

section \<open>Invalidation\<close>

text \<open>The stores clear their own keys and never report an error; the gateway wires the services to
  the \<open>Invalidator\<close> instead. \<open>forget\<close> drops the error of one deletion (\<open>_ = \<dots>\<close>).\<close>

definition forget :: "((err + unit) \<times> 's) option \<Rightarrow> 's option" where
  "forget r = map_option snd r"

definition ct_invalidate :: "'r cache_setup \<Rightarrow> string \<Rightarrow> string \<Rightarrow> 'r cstate \<Rightarrow> 'r cstate option" where
  "ct_invalidate F w p s = (let C = redis_store (cf_client F); key = cache_key (cf_version F) in
     Option.bind (forget (delete_pattern C (key ''dashboard'' [w, p]) s)) (\<lambda>s1.
     forget (delete_pattern C (key ''task-summary'' [w, p] @ ''*'') s1)))"

definition ci_invalidate :: "'r cache_setup \<Rightarrow> string \<Rightarrow> string \<Rightarrow> string \<Rightarrow> 'r cstate \<Rightarrow> 'r cstate option" where
  "ci_invalidate F w item loc s = (let C = redis_store (cf_client F); key = cache_key (cf_version F) in
     Option.bind (forget (delete_pattern C (key ''inventory-search'' [w] @ ''*'') s)) (\<lambda>s1.
     forget (delete_pattern C (key ''inventory-balance'' [w] @ ''*'') s1)))"

definition cs_invalidate :: "'r cache_setup \<Rightarrow> string \<Rightarrow> string \<Rightarrow> 'r cstate \<Rightarrow> 'r cstate option" where
  "cs_invalidate F w p s =
     forget (delete_pattern (redis_store (cf_client F)) (cache_key (cf_version F) ''shipment'' [] @ ''*'') s)"

text \<open>The invalidator as the services call it: they ignore its error. A scan that never ends
  (excluded by \<open>scan_delete_ends\<close>) would leave the cache as it is.\<close>

definition settled :: "('s \<Rightarrow> (err list \<times> 's) option) \<Rightarrow> ('s, unit) prog" where
  "settled f s = (case f s of
     None \<Rightarrow> (Inl (TextError ''scan does not end''), s)
   | Some ([], s1) \<Rightarrow> (Inr (), s1)
   | Some (e # es, s1) \<Rightarrow> (Inl e, s1))"

section \<open>Transactions\<close>

text \<open>The PostgreSQL transaction around a body that may also use the cache: a rollback undoes the
  tables, never the cache.\<close>

definition cached_tx :: "('r cstate, 'a) prog \<Rightarrow> ('r cstate, 'a) prog" where
  "cached_tx m s =
     (let w = cw_world s; n = w_tick w; w0 = w\<lparr>w_tick := Suc n\<rparr>; put = (\<lambda>x s. s\<lparr>cw_world := x\<rparr>) in
      if w_fault w n \<noteq> NoFault then (Inl (DriverError n), put w0 s)
      else case m (put (w0\<lparr>w_in_tx := True, w_aborted := False\<rparr>) s) of
        (Inl e, s2) \<Rightarrow> (Inl e, put (end_tx ((cw_world s2)\<lparr>w_db := w_db w\<rparr>)) s2)
      | (Inr x, s2) \<Rightarrow>
          (let w2 = cw_world s2; k = w_tick w2; w3 = w2\<lparr>w_tick := Suc k\<rparr> in
           if w_aborted w2 then (Inl (DriverError k), put (end_tx (w3\<lparr>w_db := w_db w\<rparr>)) s2)
           else case w_fault w2 k of
             NoFault \<Rightarrow> (Inr x, put (end_tx w3) s2)
           | FailBefore \<Rightarrow> (Inl (DriverError k), put (end_tx (w3\<lparr>w_db := w_db w\<rparr>)) s2)
           | FailAfter \<Rightarrow> (Inl (DriverError k), put (end_tx w3) s2)))"

section \<open>The composition of the gateway\<close>

definition gw_task_ports :: "'r cache_setup \<Rightarrow> (uuid \<Rightarrow> string) \<Rightarrow> 'r cstate task_ports" where
  "gw_task_ports F u = \<lparr>tsp_get = \<lambda>i. on_world (pg_get i), tsp_save = \<lambda>t. on_world (pg_save t),
     tsp_list = \<lambda>f. on_world (pg_list f), tsp_summary = ct_summary F, tsp_dashboard = ct_dashboard F,
     tsp_find = \<lambda>k. on_world (pg_find k), tsp_save_key = \<lambda>k r. on_world (pg_save_key k r),
     tsp_append = \<lambda>e. on_world (pg_append e), tsp_within_tx = cached_tx,
     tsp_publish = \<lambda>e. on_world (publish_event e),
     tsp_invalidate = \<lambda>w p. settled (invalidate_task_views (redis_store (cf_client F)) (cf_version F) w p),
     tsp_now = on_world clock_now, tsp_new_uuid = on_world new_uuid, tsp_uuid_string = u\<rparr>"

definition gw_inv_ports :: "'r cache_setup \<Rightarrow> (uuid \<Rightarrow> string) \<Rightarrow> (string \<Rightarrow> uuid) \<Rightarrow> 'r cstate inv_ports" where
  "gw_inv_ports F u parse = \<lparr>ip_search = ci_search F, ip_balances = ci_balances F,
     ip_movements = \<lambda>w i c. on_world (pgi_movements u w i c),
     ip_validate = \<lambda>w a b i q. on_world (pgi_validate w a b i q),
     ip_transfer = \<lambda>t. on_world (pgi_transfer parse t),
     ip_list_counts = \<lambda>w p. on_world (pgi_list_counts w p), ip_get_count = \<lambda>i. on_world (pgi_get_count i),
     ip_get_count_for_update = \<lambda>i. on_world (pgi_get_count i),
     ip_save_count = \<lambda>t. on_world (pgi_save_count t), ip_find = \<lambda>k. on_world (pgi_find k),
     ip_save_command = \<lambda>k ty r. on_world (pgi_save_command k ty r),
     ip_transfer_tx = cached_tx, ip_count_tx = cached_tx,
     ip_append = \<lambda>e. on_world (pgi_append e), ip_audit = \<lambda>x i a j. on_world (pgi_audit x i a j),
     ip_publish = \<lambda>e. on_world (publish_event e),
     ip_invalidate = \<lambda>w it l. settled (invalidate_inventory (redis_store (cf_client F)) (cf_version F) w it l),
     ip_now = on_world clock_now, ip_new_uuid = on_world new_uuid, ip_uuid_string = u\<rparr>"

definition gw_sh_ports :: "'r cache_setup \<Rightarrow> 'r cstate sh_ports" where
  "gw_sh_ports F = \<lparr>sp_get = cs_shipment F, sp_get_for_update = \<lambda>i. on_world (pgs_get i),
     sp_save = \<lambda>x. on_world (pgs_save x), sp_verify = \<lambda>i p. on_world (pgs_verify i p),
     sp_project = cs_project F, sp_find_key = \<lambda>k. on_world (pgs_find_key k),
     sp_find_id = \<lambda>i. on_world (pgs_find_id i), sp_save_command = \<lambda>k r. on_world (pgs_save_command k r),
     sp_within_tx = cached_tx, sp_append = \<lambda>e. on_world (pgs_append e),
     sp_audit = \<lambda>x y a j. on_world (pgs_audit x y a j), sp_publish = \<lambda>e. on_world (publish_event e),
     sp_invalidate = \<lambda>w p. settled (invalidate_shipping_views (redis_store (cf_client F)) (cf_version F) w p),
     sp_now = on_world clock_now, sp_new_uuid = on_world new_uuid\<rparr>"

lemma gw_task_ports_sel [simp]:
  "tsp_get (gw_task_ports F u) = (\<lambda>i. on_world (pg_get i))" "tsp_save (gw_task_ports F u) = (\<lambda>t. on_world (pg_save t))"
  "tsp_summary (gw_task_ports F u) = ct_summary F" "tsp_dashboard (gw_task_ports F u) = ct_dashboard F"
  "tsp_within_tx (gw_task_ports F u) = cached_tx"
  by (simp_all add: gw_task_ports_def)

lemma gw_inv_ports_sel [simp]:
  "ip_search (gw_inv_ports F u p) = ci_search F" "ip_balances (gw_inv_ports F u p) = ci_balances F"
  "ip_validate (gw_inv_ports F u p) = (\<lambda>w a b i q. on_world (pgi_validate w a b i q))"
  "ip_transfer (gw_inv_ports F u p) = (\<lambda>t. on_world (pgi_transfer p t))"
  "ip_get_count_for_update (gw_inv_ports F u p) = (\<lambda>i. on_world (pgi_get_count i))"
  "ip_save_count (gw_inv_ports F u p) = (\<lambda>t. on_world (pgi_save_count t))"
  "ip_find (gw_inv_ports F u p) = (\<lambda>k. on_world (pgi_find k))"
  "ip_save_command (gw_inv_ports F u p) = (\<lambda>k ty r. on_world (pgi_save_command k ty r))"
  "ip_transfer_tx (gw_inv_ports F u p) = cached_tx" "ip_count_tx (gw_inv_ports F u p) = cached_tx"
  "ip_append (gw_inv_ports F u p) = (\<lambda>e. on_world (pgi_append e))"
  "ip_audit (gw_inv_ports F u p) = (\<lambda>x i a j. on_world (pgi_audit x i a j))"
  "ip_publish (gw_inv_ports F u p) = (\<lambda>e. on_world (publish_event e))"
  "ip_invalidate (gw_inv_ports F u p) =
     (\<lambda>w it l. settled (invalidate_inventory (redis_store (cf_client F)) (cf_version F) w it l))"
  "ip_now (gw_inv_ports F u p) = on_world clock_now" "ip_new_uuid (gw_inv_ports F u p) = on_world new_uuid"
  "ip_uuid_string (gw_inv_ports F u p) = u"
  by (simp_all add: gw_inv_ports_def)

lemma gw_sh_ports_sel [simp]:
  "sp_get (gw_sh_ports F) = cs_shipment F" "sp_get_for_update (gw_sh_ports F) = (\<lambda>i. on_world (pgs_get i))"
  "sp_save (gw_sh_ports F) = (\<lambda>x. on_world (pgs_save x))" "sp_verify (gw_sh_ports F) = (\<lambda>i p. on_world (pgs_verify i p))"
  "sp_project (gw_sh_ports F) = cs_project F" "sp_find_key (gw_sh_ports F) = (\<lambda>k. on_world (pgs_find_key k))"
  "sp_find_id (gw_sh_ports F) = (\<lambda>i. on_world (pgs_find_id i))"
  "sp_save_command (gw_sh_ports F) = (\<lambda>k r. on_world (pgs_save_command k r))"
  "sp_within_tx (gw_sh_ports F) = cached_tx" "sp_append (gw_sh_ports F) = (\<lambda>e. on_world (pgs_append e))"
  "sp_audit (gw_sh_ports F) = (\<lambda>x y a j. on_world (pgs_audit x y a j))"
  "sp_publish (gw_sh_ports F) = (\<lambda>e. on_world (publish_event e))"
  "sp_invalidate (gw_sh_ports F) =
     (\<lambda>w p. settled (invalidate_shipping_views (redis_store (cf_client F)) (cf_version F) w p))"
  "sp_now (gw_sh_ports F) = on_world clock_now" "sp_new_uuid (gw_sh_ports F) = on_world new_uuid"
  by (simp_all add: gw_sh_ports_def)

section \<open>The contracts still hold\<close>

lemma cached_tx_ok:
  assumes "cached_tx m s = (Inr x, s')"
  shows "\<exists>s1 s2. (of_db g \<circ> cw_world) s1 = (of_db g \<circ> cw_world) s \<and> m s1 = (Inr x, s2)
    \<and> (of_db g \<circ> cw_world) s' = (of_db g \<circ> cw_world) s2"
proof -
  let ?s1 = "s\<lparr>cw_world := (cw_world s)\<lparr>w_tick := Suc (w_tick (cw_world s)), w_in_tx := True, w_aborted := False\<rparr>\<rparr>"
  obtain r s2 where m: "m ?s1 = (r, s2)" by fastforce
  with assms have "r = Inr x" "w_db (cw_world s') = w_db (cw_world s2)"
    by (auto simp: cached_tx_def Let_def split: if_splits sum.splits fault.splits)
  with m show ?thesis by (intro exI [of _ ?s1] exI [of _ s2]) (simp add: of_db_def)
qed

lemma cached_tx_fail:
  assumes "cached_tx m s = (Inl e, s')"
  shows "(of_db g \<circ> cw_world) s' = (of_db g \<circ> cw_world) s \<or>
    (\<exists>x s1 s2. (of_db g \<circ> cw_world) s1 = (of_db g \<circ> cw_world) s \<and> m s1 = (Inr x, s2)
      \<and> (of_db g \<circ> cw_world) s' = (of_db g \<circ> cw_world) s2)"
proof -
  let ?s1 = "s\<lparr>cw_world := (cw_world s)\<lparr>w_tick := Suc (w_tick (cw_world s)), w_in_tx := True, w_aborted := False\<rparr>\<rparr>"
  obtain r s2 where m: "m ?s1 = (r, s2)" by fastforce
  show ?thesis
  proof (cases r)
    case (Inl x)
    with assms m have "w_db (cw_world s') = w_db (cw_world s)"
      by (auto simp: cached_tx_def Let_def split: if_splits)
    then show ?thesis by (simp add: of_db_def)
  next
    case (Inr x)
    with assms m have "w_db (cw_world s') = w_db (cw_world s) \<or> w_db (cw_world s') = w_db (cw_world s2)"
      by (auto simp: cached_tx_def Let_def split: if_splits fault.splits)
    then show ?thesis
    proof
      assume "w_db (cw_world s') = w_db (cw_world s2)"
      with m Inr show ?thesis by (intro disjI2 exI [of _ x] exI [of _ ?s1] exI [of _ s2]) (simp add: of_db_def)
    qed (simp add: of_db_def)
  qed
qed

lemma settled_world:
  assumes "\<And>es s'. f s = Some (es, s') \<Longrightarrow> cw_world s' = cw_world s" and "settled f s = (r, s')"
  shows "cw_world s' = cw_world s"
  using assms by (auto simp: settled_def split: option.splits list.splits)

lemma frame_settled_views:
  "frame (v \<circ> cw_world) (settled (invalidate_inventory C version w it l))"
  "frame (v \<circ> cw_world) (settled (invalidate_shipping_views C version w p))"
  "frame (v \<circ> cw_world) (settled (invalidate_task_views C version w p))"
  by (rule frameI, drule settled_world [rotated],
      simp_all add: invalidate_inventory_def invalidate_shipping_views_def invalidate_task_views_def clear_world)+

lemma frame_value_of: "frame v m \<Longrightarrow> frame v (value_of m)"
  unfolding value_of_def by (intro frame_intros)

definition gw_inv_view :: "'r cstate \<Rightarrow> inv_view" where
  "gw_inv_view = pg_inv_view \<circ> cw_world"

lemma gw_inv_view_eq: "gw_inv_view s = pg_inv_view (cw_world s)"
  by (simp add: gw_inv_view_def)

lemma gw_frame: "frame pg_inv_view m \<Longrightarrow> frame gw_inv_view (on_world m)"
  unfolding gw_inv_view_def by (rule frame_on_world)

lemmas gw_inv_frames = frame_pgi_reads [THEN gw_frame] frame_pgi_audit [THEN gw_frame] frame_pgi_env [THEN gw_frame]

lemma gw_frame_invalidate: "frame gw_inv_view (settled (invalidate_inventory C version w it l))"
  unfolding gw_inv_view_def by (rule frame_settled_views)

lemma frame_ci_balances: "frame gw_inv_view (ci_balances F w it l)"
  unfolding ci_balances_def gw_inv_view_def by (intro frame_value_of frame_aside_get frame_pgi_reads)

lemma gw_inv_laws:
  "on_world (pgi_find k) s = (Inr x, s') \<Longrightarrow> iv_keys (gw_inv_view s) k = x"
  "on_world (pgi_validate w sl dl it q) s = (Inr z, s') \<Longrightarrow> sl \<noteq> dl"
  by (drule on_world_Inr, simp add: pgi_find_ok gw_inv_view_eq, drule on_world_Inr, simp add: pgi_validate_ok)

lemma gw_world: "on_world m (s :: 'r cstate) = (r, s') \<Longrightarrow> m (cw_world s) = (r, cw_world s')"
  by (rule on_world_Inr)

lemmas gw_inv_updates =
  gw_world [where m = "pgi_transfer p t" for p t, THEN pgi_transfer_ok, folded gw_inv_view_eq]
  gw_world [where m = "pgi_get_count i" for i, THEN pgi_get_ok, folded gw_inv_view_eq]
  gw_world [where m = "pgi_save_count t" for t, THEN pgi_save_ok, folded gw_inv_view_eq]
  pgi_append_ok [OF _ gw_world [where m = "pgi_append e" for e], folded gw_inv_view_eq]
  gw_world [where m = "pgi_save_command k ty r" for k ty r, THEN pgi_save_command_ok, folded gw_inv_view_eq]

lemmas gw_inv_tx =
  cached_tx_ok [where g = inv_db, folded pg_inv_view_def, folded gw_inv_view_def]
  cached_tx_fail [where g = inv_db, folded pg_inv_view_def, folded gw_inv_view_def]

interpretation gwi: inventory_store "gw_inv_ports F u parse" gw_inv_view
  by (unfold_locales, unfold gw_inv_ports_sel)
    ((rule gw_inv_frames gw_frame_invalidate frame_ci_balances gw_inv_laws gw_inv_updates gw_inv_tx; assumption?)+)

end
