(* ===== verification/Cache_Properties.thy ===== *)
theory Cache_Properties
  imports Cached_Stores
begin

text \<open>
  The cache in front of the services: which answers it may give, what a cache outage changes, and
  the inventory service as the gateway composes it, with the cache in front of its queries.
\<close>

section \<open>What is cached stays in its warehouse\<close>

text \<open>Balances are cached under keys that name the warehouse they were read for.\<close>

definition warehouse_doc :: "string \<Rightarrow> string \<Rightarrow> cache_doc \<Rightarrow> bool" where
  "warehouse_doc version k d \<longleftrightarrow> (case d of
     BalancesText bs \<Rightarrow> \<forall>b \<in> set bs. \<exists>kind parts.
       k = cache_key version kind (bl_warehouse b # parts) \<and> CHR '':'' \<notin> set kind
   | _ \<Rightarrow> True)"

definition cache_sound :: "'r cache_setup \<Rightarrow> ('r \<Rightarrow> string \<rightharpoonup> cache_doc) \<Rightarrow> 'r cstate \<Rightarrow> bool" where
  "cache_sound F kv s \<longleftrightarrow> holds_only kv (warehouse_doc (cf_version F)) s"

lemma pgi_balances_warehouse: "pgi_balances w it l s = (Inr bs, s') \<Longrightarrow> b \<in> set bs \<Longrightarrow> bl_warehouse b = w"
  by (auto simp: pgi_balances_def scan_balance_def elim!: query_Inr)

lemma balances_load:
  "CHR '':'' \<notin> set kind \<Longrightarrow>
    loads (warehouse_doc version) BalancesText (cache_key version kind (w # parts)) (pgi_balances w it l)"
  by (auto simp: loads_def warehouse_doc_def dest: pgi_balances_warehouse)

lemma cached_balances:
  assumes "redis_laws (cf_client F) kv" and "cache_sound F kv s" and "CHR '':'' \<notin> set (cf_version F)"
    and "CHR '':'' \<notin> set kind"
    and run: "value_of (aside_get (redis_store (cf_client F)) (cf_ttl F) BalancesText read_balances
      (cache_key (cf_version F) kind (w # parts)) (pgi_balances w it l)) s = (r, s')"
  shows "cache_sound F kv s' \<and> (\<forall>bs. r = Inr bs \<longrightarrow> (\<forall>b \<in> set bs. clean_part (bl_warehouse b) = clean_part w))"
proof -
  let ?key = "cache_key (cf_version F) kind (w # parts)"
  obtain q s1 where get: "aside_get (redis_store (cf_client F)) (cf_ttl F) BalancesText read_balances ?key
      (pgi_balances w it l) s = (q, s1)" by fastforce
  have "holds_only kv (warehouse_doc (cf_version F)) s1
    \<and> (\<forall>x. q = Inr x \<longrightarrow> warehouse_doc (cf_version F) ?key (BalancesText (res_value x)))"
    by (rule aside_get_holds [OF assms(1) balances_load [OF assms(4)] _ _ get])
      (use assms(2) in \<open>auto simp: cache_sound_def elim: read_balancesE\<close>)
  moreover from run get have "s' = s1" "r = map_sum id res_value q"
    by (auto simp: value_of_def bindP_run map_sum_def split: sum.splits)
  moreover have "clean_part (bl_warehouse b) = clean_part w"
    if "?key = cache_key (cf_version F) kind' (bl_warehouse b # parts')" "CHR '':'' \<notin> set kind'" for b kind' parts'
    using arg_cong [OF that(1), of "split_char CHR '':''"]
    by (simp add: cache_key_split assms(3,4) that(2))
  ultimately show ?thesis by (fastforce simp: cache_sound_def warehouse_doc_def map_sum_def split: sum.splits)
qed

lemma cache_sound_world [simp]: "cache_sound F kv (s\<lparr>cw_world := w\<rparr>) = cache_sound F kv s"
  by (simp add: cache_sound_def)

lemma keeps_cached_tx [keeps_intros]:
  assumes "keeps (cache_sound F kv) m"
  shows "keeps (cache_sound F kv) (cached_tx m)"
proof
  fix s r s' assume run: "cached_tx m s = (r, s')" and I: "cache_sound F kv s"
  let ?s1 = "s\<lparr>cw_world := (cw_world s)\<lparr>w_tick := Suc (w_tick (cw_world s)), w_in_tx := True, w_aborted := False\<rparr>\<rparr>"
  obtain q s2 where m: "m ?s1 = (q, s2)" by fastforce
  from keepsD [OF assms m] I have "cache_sound F kv s2" by simp
  with run m I show "cache_sound F kv s'"
    by (auto simp: cached_tx_def Let_def split: if_splits sum.splits fault.splits)
qed

lemma keeps_cache_world [keeps_intros]: "keeps (cache_sound F kv) (on_world m)"
  by (rule keepsI) (auto simp: on_world_def split: prod.splits)

lemma keeps_cached_reads:
  assumes "redis_laws (cf_client F) kv" and "CHR '':'' \<notin> set (cf_version F)"
  shows "keeps (cache_sound F kv) (ci_search F w q)" "keeps (cache_sound F kv) (ci_balances F w it l)"
  unfolding ci_search_def ci_balances_def pgi_search_def
  by (rule keepsI; drule cached_balances [OF assms(1) _ assms(2), rotated 2]; simp)+

lemma keeps_settled:
  assumes "redis_laws (cf_client F) kv"
  shows "keeps (cache_sound F kv) (settled (invalidate_inventory (redis_store (cf_client F)) v w it l))"
proof
  fix s r s' assume "settled (invalidate_inventory (redis_store (cf_client F)) v w it l) s = (r, s')" "cache_sound F kv s"
  then show "cache_sound F kv s'"
    by (auto simp: settled_def invalidate_inventory_def cache_sound_def split: option.splits list.splits
        dest: clear_holds [OF _ assms])
qed

lemma keeps_snapshot:
  assumes "keeps I (ip_balances P w it l)"
  shows "keeps I (balance_snapshot P w it l)"
  using assms unfolding keeps_def balance_snapshot_def by (auto split: prod.splits sum.splits list.splits)

lemma keeps_inv_outcome [keeps_intros]:
  "keeps I m \<Longrightarrow> (\<And>x. keeps I (k x)) \<Longrightarrow> keeps I (case v of Inl e \<Rightarrow> m | Inr x \<Rightarrow> k x)"
  by (cases v) simp_all

lemma keeps_let [keeps_intros]: "keeps I (f x) \<Longrightarrow> keeps I (let y = x in f y)"
  by simp

text \<open>Every command of the inventory service over the cached repository.\<close>

lemma keeps_gw_inv:
  assumes "redis_laws (cf_client F) kv" and "CHR '':'' \<notin> set (cf_version F)"
  shows "keeps (cache_sound F kv) (transfer_tx (gw_inv_ports F u parse) x)"
    and "keeps (cache_sound F kv) (count_tx (gw_inv_ports F u parse) i y et f)"
proof -
  have snap: "keeps (cache_sound F kv) (balance_snapshot (gw_inv_ports F u parse) w it l)" for w it l
    by (rule keeps_snapshot) (simp add: keeps_cached_reads [OF assms])
  note defs = transfer_tx_def transfer_body_def validate_transfer_def transfer_record_def make_event_def
    count_tx_def count_record_def Let_def gw_inv_ports_sel
  show "keeps (cache_sound F kv) (transfer_tx (gw_inv_ports F u parse) x)"
    unfolding defs by (intro keeps_intros snap)
  show "keeps (cache_sound F kv) (count_tx (gw_inv_ports F u parse) i y et f)"
    unfolding defs by (intro keeps_intros)
qed

lemma run_inv_sound:
  assumes "redis_laws (cf_client F) kv" and "CHR '':'' \<notin> set (cf_version F)" and "cache_sound F kv s"
  shows "cache_sound F kv (run_inv (gw_inv_ports F u parse) c s)"
proof -
  have tx: "cache_sound F kv (snd (cached_tx m s))" if "keeps (cache_sound F kv) m" for m :: "('a cstate, 'b) prog"
    using keeps_cached_tx [OF that] assms(3) by (simp add: keeps_def)
  have inv: "cache_sound F kv s1 \<Longrightarrow> cache_sound F kv (snd (settled (invalidate_inventory
      (redis_store (cf_client F)) (cf_version F) w it l) s1))" for s1 w it l
    using keeps_settled [OF assms(1)] by (simp add: keeps_def)
  have pub: "on_world (publish_event e) s1 = (r, s2) \<Longrightarrow> cache_sound F kv s1 \<Longrightarrow> cache_sound F kv s2" for s1 s2 e r
    by (rule keepsD [OF keeps_cache_world])
  have transfer: "cache_sound F kv (snd (inv_transfer (gw_inv_ports F u parse) x s))" for x
    using tx [OF keeps_gw_inv(1) [OF assms(1,2), of u parse x]]
    by (auto simp: inv_transfer_def Let_def split: prod.splits sum.splits option.splits intro!: inv elim!: pub)
  have count: "cache_sound F kv (snd (count_mutation (gw_inv_ports F u parse) i y et f s))" for i et f and y :: inv_command
    using tx [OF keeps_gw_inv(2) [OF assms(1,2), of u parse i y et f]]
    by (auto simp: count_mutation_def Let_def split: prod.splits sum.splits option.splits intro!: inv elim!: pub)
  show ?thesis
    by (cases c) (simp_all add: transfer count submit_count_def recount_count_def complete_count_def)
qed

section \<open>Requests to the gateway\<close>

datatype gw_call =
    SearchCall string actor
  | BalancesCall string string actor
  | StockCall inv_call

fun run_gw :: "'r cache_setup \<Rightarrow> (uuid \<Rightarrow> string) \<Rightarrow> (string \<Rightarrow> uuid) \<Rightarrow> gw_call list \<Rightarrow> 'r cstate \<Rightarrow> 'r cstate" where
  "run_gw F u parse [] s = s"
| "run_gw F u parse (SearchCall q a # cs) s = run_gw F u parse cs (snd (inv_search (gw_inv_ports F u parse) q a s))"
| "run_gw F u parse (BalancesCall it l a # cs) s =
     run_gw F u parse cs (snd (inv_balances (gw_inv_ports F u parse) it l a s))"
| "run_gw F u parse (StockCall c # cs) s = run_gw F u parse cs (run_inv (gw_inv_ports F u parse) c s)"

lemma normalize_warehouse: "bl_warehouse ` set (normalize_balances bs) = bl_warehouse ` set bs"
  by (auto simp: normalize_balances_def normalize_balance_def image_iff)

lemma frame_run_queries:
  "frame gw_inv_view (inv_search (gw_inv_ports F u parse) q a)"
  "frame gw_inv_view (inv_balances (gw_inv_ports F u parse) it l a)"
proof -
  have "frame gw_inv_view (ci_search F w q)" for w
    unfolding ci_search_def pgi_search_def gw_inv_view_def by (intro frame_value_of frame_aside_get frame_pgi_reads)
  then show "frame gw_inv_view (inv_search (gw_inv_ports F u parse) q a)"
    "frame gw_inv_view (inv_balances (gw_inv_ports F u parse) it l a)"
    unfolding inv_search_def inv_balances_def by (auto intro!: frame_intros frame_ci_balances)
qed

lemma run_gw_sound:
  assumes "redis_laws (cf_client F) kv" and "CHR '':'' \<notin> set (cf_version F)" and "cache_sound F kv s"
  shows "cache_sound F kv (run_gw F u parse cs s)"
  using assms(3)
proof (induction cs arbitrary: s)
  case (Cons c cs)
  have "keeps (cache_sound F kv) (inv_search (gw_inv_ports F u parse) q a)"
    "keeps (cache_sound F kv) (inv_balances (gw_inv_ports F u parse) it l a)" for q it l a
    unfolding inv_search_def inv_balances_def gw_inv_ports_sel by (intro keeps_intros keeps_cached_reads assms(1,2))+
  with Cons run_inv_sound [OF assms(1,2) Cons.prems] show ?case
    by (cases c) (simp_all add: keeps_def)
qed simp

lemma run_gw_steps: "(inv_step u)\<^sup>*\<^sup>* (gw_inv_view s) (gw_inv_view (run_gw F u parse cs s))"
proof (induction cs arbitrary: s)
  case (Cons c cs)
  have q: "gw_inv_view (snd (inv_search (gw_inv_ports F u parse) q a s)) = gw_inv_view s"
    "gw_inv_view (snd (inv_balances (gw_inv_ports F u parse) it l a s)) = gw_inv_view s" for q it l a
    using frame_run_queries unfolding frame_def by blast+
  note IH = Cons.IH [of "snd (inv_search (gw_inv_ports F u parse) q a s)" for q a, unfolded q]
    Cons.IH [of "snd (inv_balances (gw_inv_ports F u parse) it l a s)" for it l a, unfolded q]
  show ?case
    using IH rtranclp_trans [OF gwi.run_inv_steps [of F u parse, unfolded gw_inv_ports_sel] Cons.IH] by (cases c) simp_all
qed simp

lemma shrinks_trans: "shrinks m2 m1 \<Longrightarrow> shrinks m1 m \<Longrightarrow> shrinks m2 m"
  by (auto simp: shrinks_def)

section \<open>Properties\<close>

text \<open>C16: Balances stay in their warehouse. Whatever searches, balance queries, transfers and counts came
  before, with whatever cache hits, misses and outages, the balances that a search answers are
  of the warehouse of the actor who asked, up to the colons that cache keys replace.\<close>

theorem search_stays_in_warehouse:
  assumes "redis_laws (cf_client F) kv" and "CHR '':'' \<notin> set (cf_version F)" and "cache_sound F kv s"
    and "inv_search (gw_inv_ports F u parse) q a (run_gw F u parse cs s) = (Inr bs, s')" and "b \<in> set bs"
  shows "clean_part (bl_warehouse b) = clean_part (ac_warehouse a)"
proof -
  note sound = run_gw_sound [OF assms(1-3), of u parse cs]
  from assms(4) obtain bs0 where run: "ci_search F (ac_warehouse a) q (run_gw F u parse cs s) = (Inr bs0, s')"
    and bs: "bs = normalize_balances bs0"
    by (auto simp: inv_search_def prog_iffs)
  from run [unfolded ci_search_def pgi_search_def]
  have "\<forall>b \<in> set bs0. clean_part (bl_warehouse b) = clean_part (ac_warehouse a)"
    using cached_balances [OF assms(1) sound assms(2), where kind = "''inventory-search''"] by fastforce
  moreover from assms(5) bs have "bl_warehouse b \<in> bl_warehouse ` set bs0"
    using normalize_warehouse by blast
  ultimately show ?thesis by auto
qed

text \<open>The cache does not touch the stock. Behind the gateway's cache, over any sequence of searches,
  balance queries, transfers and counts and whatever the cache and the database do, the quantity of
  every item over all locations of a warehouse stays the same and no location falls below zero.\<close>

theorem gateway_totals_conserved:
  assumes "\<forall>k. 0 \<le> stock_at (stock_of (w_db (cw_world s))) k"
  shows "stock_total (item_place w item) (stock_of (w_db (cw_world (run_gw F u parse cs s))))
      = stock_total (item_place w item) (stock_of (w_db (cw_world s)))
    \<and> 0 \<le> stock_at (stock_of (w_db (cw_world (run_gw F u parse cs s)))) k"
  using inv_steps_totals [OF run_gw_steps [of u s F parse cs], unfolded gw_inv_view_eq inv_stock_view] assms
  by (simp add: same_totals_def stock_sound_db del: split_paired_All)

text \<open>C17: Keys are as good as what they are made of. With a version without colons, two cache keys are
  equal exactly when their kinds are and their parts are, up to the colons that the key replaces.\<close>

theorem cache_keys_equal:
  assumes "CHR '':'' \<notin> set version" and "CHR '':'' \<notin> set kind" and "CHR '':'' \<notin> set kind'"
  shows "cache_key version kind parts = cache_key version kind' parts'
    \<longleftrightarrow> kind = kind' \<and> map clean_part parts = map clean_part parts'"
proof
  assume "cache_key version kind parts = cache_key version kind' parts'"
  then have "split_char CHR '':'' (cache_key version kind parts) = split_char CHR '':'' (cache_key version kind' parts')"
    by simp
  then show "kind = kind' \<and> map clean_part parts = map clean_part parts'"
    by (simp add: cache_key_split assms)
qed (simp add: cache_key_def)

text \<open>C18: Deletion by pattern ends. When the store's scan comes back to cursor 0, as Redis promises, the
  loop returns from every state; it leaves the database alone and, whenever it returns, no entry
  is in the cache that was not there before.\<close>

theorem delete_pattern_returns:
  assumes "scan_ends (redis_store R) rank p" and "redis_laws R kv"
  shows "\<exists>r s'. delete_pattern (redis_store R) p s = Some (r, s') \<and> cw_world s' = cw_world s
    \<and> shrinks (kv (cw_redis s')) (kv (cw_redis s))"
proof -
  obtain r s' where run: "delete_pattern (redis_store R) p s = Some (r, s')"
    using scan_delete_ends [OF assms(1), of 0 s] unfolding delete_pattern_def by auto
  have "cw_world s' = cw_world s"
    by (rule scan_delete_keeps [OF run [unfolded delete_pattern_def], where I = "\<lambda>x. cw_world x = cw_world s"])
      (auto simp: keeps_def)
  moreover have "shrinks (kv (cw_redis s')) (kv (cw_redis s))"
  proof (rule scan_delete_keeps [OF run [unfolded delete_pattern_def], where I = "\<lambda>x. shrinks (kv (cw_redis x)) (kv (cw_redis s))"])
    show "keeps (\<lambda>x. shrinks (kv (cw_redis x)) (kv (cw_redis s))) (on_redis (cs_scan (redis_store R) x p n))" for x n
      using assms(2) unfolding keeps_def on_redis_snd redis_laws_def
      by (auto simp: redis_scan_def elim!: shrinks_trans [rotated])
    show "keeps (\<lambda>x. shrinks (kv (cw_redis x)) (kv (cw_redis s))) (on_redis (cs_del (redis_store R) ks))" for ks
      using assms(2) unfolding keeps_def on_redis_snd redis_laws_def
      by (auto simp: redis_del_def elim!: shrinks_trans [rotated])
  qed (simp add: shrinks_def)
  ultimately show ?thesis using run by blast
qed

section \<open>Sample runs\<close>

text \<open>A Redis that is a map, scans nothing and counts requests by key.\<close>

definition ex_redis :: "(string \<rightharpoonup> cache_doc, cache_doc) redis_client" where
  "ex_redis = \<lparr>rc_nil = TextError ''redis: nil'',
     rc_get = \<lambda>k m. (case m k of None \<Rightarrow> (Inl (TextError ''redis: nil''), m) | Some d \<Rightarrow> (Inr d, m)),
     rc_set = \<lambda>k d t m. (Inr (), m(k \<mapsto> d)), rc_del = \<lambda>ks m. (Inr (), m |` (- set ks)),
     rc_scan = \<lambda>x p n m. (Inr ([p], 0), m), rc_rate = \<lambda>k t m. (1, None, m)\<rparr>"

definition ex_setup :: "(string \<rightharpoonup> cache_doc) cache_setup" where
  "ex_setup = \<lparr>cf_client = ex_redis, cf_ttl = 60, cf_version = ''v1''\<rparr>"

definition ex_cached :: "(string \<rightharpoonup> cache_doc) cstate" where
  "ex_cached = \<lparr>cw_world = \<lparr>env_clock = (\<lambda>n. int n + 1), env_reads = 0, env_uuid = (\<lambda>n. n + 1), env_ids = 0,
       env_log = \<lparr>el_events = []\<rparr>, env_fail_type = '''', w_db = empty_tables\<lparr>
         inventory_location_balance := [((''W'', ''L'', ''I''), \<lparr>st_quantity = 5, st_version = 1, st_updated = 0\<rparr>)]\<rparr>,
       w_fault = (\<lambda>n. NoFault), w_tick = 0, w_in_tx = False, w_aborted = False, w_sql_now = (\<lambda>n. 9)\<rparr>,
     cw_redis = Map.empty,
     cw_metrics = \<lparr>cm_hits = 0, cm_misses = 0, cm_errors = 0, cm_stale_served = 0, cm_inv_ok = 0, cm_inv_fail = 0\<rparr>,
     cw_stale = Map.empty\<rparr>"

definition ex_clerk :: actor where
  "ex_clerk = \<lparr>ac_operator = ''A'', ac_device = ''D'', ac_warehouse = ''W'', ac_correlation = ''X''\<rparr>"

lemma ex_redis_laws: "redis_laws ex_redis (\<lambda>m. m)"
  by (auto simp: redis_laws_def ex_redis_def shrinks_def restrict_map_def split: option.splits if_splits)

lemma ex_cached_sound: "cache_sound ex_setup (\<lambda>m. m) ex_cached"
  by (simp add: cache_sound_def holds_only_def ex_cached_def)

text \<open>One that gives its keys in two pages: the cursor goes to 1, then back to 0.\<close>

definition ex_paged :: "(string \<rightharpoonup> cache_doc, cache_doc) redis_client" where
  "ex_paged = ex_redis\<lparr>rc_scan := \<lambda>x p n m. (Inr ([p], if x = 0 then 1 else 0), m)\<rparr>"

lemma ex_paged_laws: "redis_laws ex_paged (\<lambda>m. m)"
  by (auto simp: redis_laws_def ex_paged_def ex_redis_def shrinks_def restrict_map_def split: option.splits if_splits)

lemma ex_scan_ends: "scan_ends (redis_store ex_paged) (\<lambda>x. if x = 0 then 1 else 0) p"
  by (simp add: scan_ends_def redis_scan_def ex_paged_def ex_redis_def)

definition ex_found :: "err + balance list" where
  "ex_found = fst (inv_search (gw_inv_ports ex_setup (\<lambda>_. ''U'') (\<lambda>_. 0)) '''' ex_clerk
     (run_gw ex_setup (\<lambda>_. ''U'') (\<lambda>_. 0) [SearchCall '''' ex_clerk] ex_cached))"

lemma ex_found_some: "\<not> isl ex_found \<and> sum.projr ex_found \<noteq> []"
  by code_simp

theorem search_stays_in_warehouse_witness:
  "clean_part (bl_warehouse (hd (sum.projr ex_found))) = clean_part ''W''"
proof -
  define bs where "bs = sum.projr ex_found"
  with ex_found_some have bs: "ex_found = Inr bs" "bs \<noteq> []" by (simp_all add: sum.collapse(2))
  have v: "CHR '':'' \<notin> set (cf_version ex_setup)" and l: "redis_laws (cf_client ex_setup) (\<lambda>m. m)"
    using ex_redis_laws by (simp_all add: ex_setup_def)
  have "inv_search (gw_inv_ports ex_setup (\<lambda>_. ''U'') (\<lambda>_. 0)) '''' ex_clerk
     (run_gw ex_setup (\<lambda>_. ''U'') (\<lambda>_. 0) [SearchCall '''' ex_clerk] ex_cached) = (Inr bs, snd (inv_search
       (gw_inv_ports ex_setup (\<lambda>_. ''U'') (\<lambda>_. 0)) '''' ex_clerk
       (run_gw ex_setup (\<lambda>_. ''U'') (\<lambda>_. 0) [SearchCall '''' ex_clerk] ex_cached)))"
    using bs(1) unfolding ex_found_def by (simp add: prod_eq_iff)
  from search_stays_in_warehouse [OF l v ex_cached_sound this hd_in_set [OF bs(2)]]
  show ?thesis by (simp add: ex_clerk_def bs_def)
qed

theorem gateway_totals_conserved_witness:
  "0 \<le> stock_at (stock_of (w_db (cw_world (run_gw ex_setup (\<lambda>_. ''U'') (\<lambda>_. 0)
     [SearchCall '''' ex_clerk] ex_cached)))) (''W'', ''L'', ''I'')"
proof -
  have "\<forall>k. 0 \<le> stock_at (stock_of (w_db (cw_world ex_cached))) k"
    by (auto simp: stock_at_def stock_of_def ex_cached_def)
  from gateway_totals_conserved [OF this] show ?thesis by blast
qed

theorem cache_keys_equal_witness:
  "cache_key ''v1'' ''inventory-search'' [''W'', ''a:b''] = cache_key ''v1'' ''inventory-search'' [''W'', ''a_b'']"
  by (subst cache_keys_equal) (simp_all add: clean_part_def replace_char_def)

theorem delete_pattern_returns_witness:
  "map_option (\<lambda>(r, s). cw_world s) (delete_pattern (redis_store ex_paged) ''k*'' ex_cached) = Some (cw_world ex_cached)"
proof -
  from delete_pattern_returns [OF ex_scan_ends ex_paged_laws, of "''k*''" ex_cached]
  obtain r s' where "delete_pattern (redis_store ex_paged) ''k*'' ex_cached = Some (r, s')" "cw_world s' = cw_world ex_cached"
    by blast
  then show ?thesis by simp
qed

end
