(* ===== verification/Gateway_Limits.thy ===== *)
theory Gateway_Limits
  imports Event
begin

text \<open>
  The guards the gateway keeps in memory, \<open>internal/gateway/adapters/http/router.go\<close>: the settings,
  the rate limiter of the login routes (a fixed window per client) and the circuit breaker in
  front of every route. Each operation holds a mutex, so a history of one of them is a list of
  calls with the instants the clock gave them.
\<close>

section \<open>Settings\<close>

record settings =
  gs_timeout :: int
  gs_rate_limit :: int
  gs_window :: int
  gs_threshold :: int

definition settings_validate :: "settings \<Rightarrow> err + unit" where
  "settings_validate s =
     (if gs_timeout s \<le> 0 \<or> gs_rate_limit s < 1 \<or> gs_window s \<le> 0 \<or> gs_threshold s < 1
      then Inl (TextError ''gateway timeout, rate limit, rate window, and circuit threshold must be positive'')
      else Inr ())"

section \<open>Rate limiter\<close>

text \<open>The counts of the limiter and the breaker are \<open>int\<close> in the code; they go up by one and start again at
  0 with each window or success, so the wrap after \<open>2 ^ 63\<close> requests in one window is left out.\<close>

record rate_entry =
  re_count :: int
  re_reset :: time

record rate_limiter =
  rl_limit :: int
  rl_window :: int
  rl_entries :: "(string \<times> rate_entry) list"

definition new_rate_limiter :: "int \<Rightarrow> int \<Rightarrow> rate_limiter" where
  "new_rate_limiter limit window = \<lparr>rl_limit = limit, rl_window = window, rl_entries = []\<rparr>"

definition rate_entry_of :: "rate_limiter \<Rightarrow> string \<Rightarrow> rate_entry" where
  "rate_entry_of l k = (case map_of (rl_entries l) k of Some e \<Rightarrow> e | None \<Rightarrow> \<lparr>re_count = 0, re_reset = time_zero\<rparr>)"

definition rate_step :: "int \<Rightarrow> time \<Rightarrow> rate_entry \<Rightarrow> rate_entry" where
  "rate_step window current e =
     (let e1 = (if \<not> current < re_reset e then \<lparr>re_count = 0, re_reset = current + window\<rparr> else e)
      in e1\<lparr>re_count := re_count e1 + 1\<rparr>)"

definition limiter_allow :: "time \<Rightarrow> string \<Rightarrow> rate_limiter \<Rightarrow> bool \<times> rate_limiter" where
  "limiter_allow current k l =
     (let e = rate_step (rl_window l) current (rate_entry_of l k)
      in (re_count e \<le> rl_limit l, l\<lparr>rl_entries := AList.update k e (rl_entries l)\<rparr>))"

text \<open>The answers to a history of requests.\<close>

fun limiter_run :: "rate_limiter \<Rightarrow> (time \<times> string) list \<Rightarrow> bool list" where
  "limiter_run l [] = []"
| "limiter_run l ((t, k) # rs) = (case limiter_allow t k l of (ok, l') \<Rightarrow> ok # limiter_run l' rs)"

text \<open>How many requests of \<open>k\<close> were let through in the window that starts at \<open>a\<close>.\<close>

definition admitted :: "rate_limiter \<Rightarrow> (time \<times> string) list \<Rightarrow> string \<Rightarrow> time \<Rightarrow> int" where
  "admitted l rs k a = int (length (filter (\<lambda>((t, k'), ok). ok \<and> k' = k \<and> a \<le> t \<and> t < a + rl_window l)
     (zip rs (limiter_run l rs))))"

text \<open>What the window that starts at \<open>a\<close> can still admit, given the entry of the client.\<close>

definition rate_credit :: "int \<Rightarrow> int \<Rightarrow> time \<Rightarrow> rate_entry \<Rightarrow> int" where
  "rate_credit limit window a e =
     (let rest = max 0 (limit - re_count e) in
      if re_reset e \<ge> a + window then rest else if re_reset e > a then rest + limit else 2 * limit)"

lemma limiter_allow_sel [simp]: "rl_window (snd (limiter_allow t k l)) = rl_window l"
    "rl_limit (snd (limiter_allow t k l)) = rl_limit l"
  by (simp_all add: limiter_allow_def Let_def)

lemma limiter_allow_fst: "fst (limiter_allow t k l) \<longleftrightarrow> re_count (rate_step (rl_window l) t (rate_entry_of l k)) \<le> rl_limit l"
  by (simp add: limiter_allow_def Let_def)

lemma rate_entry_after: "rate_entry_of (snd (limiter_allow t k l)) k' =
    (if k' = k then rate_step (rl_window l) t (rate_entry_of l k) else rate_entry_of l k')"
  by (simp add: limiter_allow_def Let_def rate_entry_of_def update_conv')

lemma admitted_Nil: "admitted l [] k a = 0"
  by (simp add: admitted_def)

lemma admitted_Cons: "admitted l ((t, k') # rs) k a =
    (if fst (limiter_allow t k' l) \<and> k' = k \<and> a \<le> t \<and> t < a + rl_window l then 1 else 0)
    + admitted (snd (limiter_allow t k' l)) rs k a"
  using limiter_allow_sel(1) [of t k' l] by (simp add: admitted_def split: prod.split)

lemma admitted_late:
  assumes "\<forall>r \<in> set rs. a + rl_window l \<le> fst r"
  shows "admitted l rs k a = 0"
  using assms
proof (induction rs arbitrary: l)
  case (Cons r rs)
  then show ?case by (cases r) (simp add: admitted_Cons)
qed (simp add: admitted_Nil)

lemma rate_credit_nonneg: "0 \<le> limit \<Longrightarrow> 0 \<le> rate_credit limit window a e"
  by (simp add: rate_credit_def Let_def)

text \<open>A request that is let through inside the window takes one from the credit; no request adds to it.\<close>

lemma rate_credit_step:
  assumes "0 < limit" "0 < window" and "t < a + window"
  shows "(if re_count (rate_step window t e) \<le> limit \<and> a \<le> t then 1 else 0)
    + rate_credit limit window a (rate_step window t e) \<le> rate_credit limit window a e"
  using assms by (auto simp: rate_step_def rate_credit_def Let_def)

lemma admitted_credit:
  assumes "0 < rl_limit l" "0 < rl_window l" and "sorted (map fst rs)"
  shows "admitted l rs k a \<le> rate_credit (rl_limit l) (rl_window l) a (rate_entry_of l k)"
  using assms
proof (induction rs arbitrary: l)
  case Nil
  then show ?case by (simp add: admitted_Nil rate_credit_nonneg)
next
  case (Cons r rs)
  obtain t k' where r: "r = (t, k')" by (cases r)
  let ?l = "snd (limiter_allow t k' l)"
  have IH: "admitted ?l rs k a \<le> rate_credit (rl_limit l) (rl_window l) a (rate_entry_of ?l k)"
    using Cons.IH [of ?l] Cons.prems by (simp add: r)
  show ?case
  proof (cases "a + rl_window l \<le> t")
    case True
    with Cons.prems have "admitted ?l rs k a = 0" by (intro admitted_late) (auto simp: r)
    with True Cons.prems show ?thesis by (simp add: r admitted_Cons rate_credit_nonneg)
  next
    case False
    from False rate_credit_step [of "rl_limit l" "rl_window l" t a "rate_entry_of l k"] Cons.prems IH
    show ?thesis by (cases "k' = k") (simp_all add: r admitted_Cons rate_entry_after limiter_allow_fst split: if_splits)
  qed
qed

text \<open>C30: in any stretch of time as long as the window, whatever other clients ask, at most twice the
  limit of requests of one client is let through.\<close>

theorem rate_limit_bounds:
  assumes "settings_validate s = Inr ()" and "sorted (map fst rs)"
  defines "l \<equiv> new_rate_limiter (gs_rate_limit s) (gs_window s)"
  shows "admitted l rs k a \<le> 2 * gs_rate_limit s"
proof -
  have "admitted l rs k a \<le> rate_credit (gs_rate_limit s) (gs_window s) a (rate_entry_of l k)"
    using admitted_credit [of l rs k a] assms by (simp add: new_rate_limiter_def settings_validate_def split: if_splits)
  also have "\<dots> \<le> 2 * gs_rate_limit s"
    using assms(1) by (simp add: rate_credit_def Let_def rate_entry_of_def l_def new_rate_limiter_def settings_validate_def split: if_splits)
  finally show ?thesis .
qed

section \<open>Circuit breaker\<close>

record breaker =
  br_failures :: int
  br_threshold :: int
  br_reset :: int
  br_open_until :: time

definition new_breaker :: "int \<Rightarrow> int \<Rightarrow> breaker" where
  "new_breaker threshold reset = \<lparr>br_failures = 0, br_threshold = threshold, br_reset = reset, br_open_until = time_zero\<rparr>"

definition breaker_allow :: "time \<Rightarrow> breaker \<Rightarrow> bool \<times> breaker" where
  "breaker_allow now b =
     (if is_zero (br_open_until b) then (True, b)
      else if \<not> now < br_open_until b then (True, b\<lparr>br_open_until := time_zero, br_failures := 0\<rparr>)
      else (False, b))"

definition breaker_record :: "bool \<Rightarrow> time \<Rightarrow> breaker \<Rightarrow> breaker" where
  "breaker_record failed now b =
     (if \<not> failed then b\<lparr>br_failures := 0\<rparr>
      else let b1 = b\<lparr>br_failures := br_failures b + 1\<rparr> in
        if br_threshold b1 \<le> br_failures b1 then b1\<lparr>br_open_until := now + br_reset b1\<rparr> else b1)"

text \<open>Requests in flight overlap, so a history is any order of admissions and results.\<close>

datatype breaker_event = Ask time | Result bool time

fun breaker_event_step :: "breaker_event \<Rightarrow> breaker \<Rightarrow> breaker" where
  "breaker_event_step (Ask t) b = snd (breaker_allow t b)"
| "breaker_event_step (Result failed t) b = breaker_record failed t b"

fun event_time :: "breaker_event \<Rightarrow> time" where
  "event_time (Ask t) = t"
| "event_time (Result f t) = t"

definition breaker_run :: "breaker_event list \<Rightarrow> breaker \<Rightarrow> breaker" where
  "breaker_run es b = fold breaker_event_step es b"

lemma breaker_step_sel [simp]: "br_reset (breaker_event_step e b) = br_reset b"
    "br_threshold (breaker_event_step e b) = br_threshold b"
  by (cases e; simp add: breaker_allow_def breaker_record_def Let_def)+

lemma breaker_run_sel [simp]: "br_reset (breaker_run es b) = br_reset b" "br_threshold (breaker_run es b) = br_threshold b"
  unfolding breaker_run_def by (induction es arbitrary: b) simp_all

lemma breaker_run_Cons: "breaker_run (e # es) b = breaker_run es (breaker_event_step e b)"
  by (simp add: breaker_run_def)

lemma breaker_run_snoc: "breaker_run (es @ [e]) b = breaker_event_step e (breaker_run es b)"
  by (simp add: breaker_run_def)

text \<open>The breaker is never open for longer than the reset time after the last event.\<close>

lemma breaker_opens_until:
  assumes "br_open_until b \<le> T + br_reset b" and "\<forall>e \<in> set es. event_time e \<le> T" and "0 \<le> T + br_reset b"
  shows "br_open_until (breaker_run es b) \<le> T + br_reset b"
  using assms
proof (induction es arbitrary: b)
  case (Cons e es)
  have "br_open_until (breaker_event_step e b) \<le> T + br_reset b"
    using Cons.prems by (cases e) (auto simp: breaker_allow_def breaker_record_def Let_def time_zero_def)
  with Cons.IH [of "breaker_event_step e b"] Cons.prems show ?case by (simp add: breaker_run_Cons)
qed (simp add: breaker_run_def)

lemma failures_counted:
  assumes "\<forall>e \<in> set es. \<exists>t. e = Result True t \<and> 0 \<le> t" and "0 < br_reset b" and "0 < br_threshold b"
    and "br_open_until b = time_zero \<longleftrightarrow> br_failures b < br_threshold b"
  shows "br_failures (breaker_run es b) = br_failures b + int (length es)
    \<and> (br_open_until (breaker_run es b) = time_zero \<longleftrightarrow> br_failures (breaker_run es b) < br_threshold b)"
  using assms
proof (induction es arbitrary: b)
  case (Cons e es)
  then obtain t where e: "e = Result True t" "0 \<le> t" by auto
  let ?b = "breaker_event_step e b"
  have "br_failures ?b = br_failures b + 1" "br_open_until ?b = time_zero \<longleftrightarrow> br_failures ?b < br_threshold ?b"
    using Cons.prems e by (auto simp: breaker_record_def Let_def time_zero_def)
  with Cons show ?case by (simp add: breaker_run_Cons)
qed (simp add: breaker_run_def)

text \<open>C31: the circuit of a gateway with valid settings recovers: after any overlapping history of
  admissions and results, the next request that comes no earlier than one window after the last
  event is let through, and with fewer consecutive failures than the threshold every request is;
  when the threshold is reached, requests are refused until the window is over.\<close>

theorem breaker_recovers:
  assumes "settings_validate s = Inr ()" and "list_all (\<lambda>e. 0 \<le> event_time e \<and> event_time e \<le> T) es"
    and "0 \<le> T" and "T + gs_window s \<le> later" and "list_all (\<lambda>t. 0 \<le> t) ts"
  shows "fst (breaker_allow later (breaker_run es (new_breaker (gs_threshold s) (gs_window s))))
    \<and> (fst (breaker_allow now (breaker_run (map (Result True) ts) (new_breaker (gs_threshold s) (gs_window s))))
        \<longleftrightarrow> int (length ts) < gs_threshold s \<or> last ts + gs_window s \<le> now)"
proof
  from assms(1) have v: "0 < gs_window s" "0 < gs_threshold s" by (auto simp: settings_validate_def split: if_splits)
  let ?n = "new_breaker (gs_threshold s) (gs_window s)"
  have "br_open_until (breaker_run es ?n) \<le> T + gs_window s"
    using breaker_opens_until [of ?n T es] assms(2,3) v by (auto simp: new_breaker_def time_zero_def list_all_iff)
  with assms(4) show "fst (breaker_allow later (breaker_run es ?n))" by (simp add: breaker_allow_def)
  let ?b = "breaker_run (map (Result True) ts) ?n"
  have f: "br_failures ?b = int (length ts)" "br_open_until ?b = time_zero \<longleftrightarrow> br_failures ?b < gs_threshold s"
    using failures_counted [of "map (Result True) ts" ?n] assms(5) v by (auto simp: new_breaker_def list_all_iff)
  show "fst (breaker_allow now ?b) \<longleftrightarrow> int (length ts) < gs_threshold s \<or> last ts + gs_window s \<le> now"
  proof (cases "int (length ts) < gs_threshold s")
    case True
    with f show ?thesis by (simp add: breaker_allow_def is_zero_def)
  next
    case False
    with v obtain ts' t where tt: "ts = ts' @ [t]" by (cases ts rule: rev_cases) auto
    have "br_open_until ?b = t + gs_window s"
      using False f by (simp add: tt breaker_run_snoc breaker_record_def Let_def new_breaker_def split: if_splits)
    with False f show ?thesis by (simp add: breaker_allow_def is_zero_def tt)
  qed
qed

section \<open>Examples\<close>

definition ex_settings :: settings where
  "ex_settings = \<lparr>gs_timeout = 1, gs_rate_limit = 1, gs_window = 10, gs_threshold = 2\<rparr>"

theorem rate_limit_bounds_witness:
  "admitted (new_rate_limiter 1 10) [(5, ''a''), (14, ''a''), (15, ''b''), (15, ''a''), (16, ''a'')] ''a'' 5 \<le> 2
   \<and> admitted (new_rate_limiter 1 10) [(5, ''a''), (14, ''a''), (15, ''b''), (15, ''a''), (16, ''a'')] ''a'' 6 = 1"
proof
  show "admitted (new_rate_limiter 1 10) [(5, ''a''), (14, ''a''), (15, ''b''), (15, ''a''), (16, ''a'')] ''a'' 5 \<le> 2"
    using rate_limit_bounds [of ex_settings "[(5, ''a''), (14, ''a''), (15, ''b''), (15, ''a''), (16, ''a'')]" "''a''" 5]
    by (simp add: ex_settings_def settings_validate_def)
qed code_simp

theorem breaker_recovers_witness:
  "fst (breaker_allow 17 (breaker_run [Result True 5, Ask 6, Result True 7, Ask 7] (new_breaker 2 10)))
   \<and> \<not> fst (breaker_allow 16 (breaker_run (map (Result True) [5, 7]) (new_breaker 2 10)))"
  using breaker_recovers [of ex_settings 7 "[Result True 5, Ask 6, Result True 7, Ask 7]" 17 "[5, 7]" 16]
  by (simp add: ex_settings_def settings_validate_def)

end
