(* ===== verification/Identity_Service.thy ===== *)
theory Identity_Service
  imports Environment
begin

text \<open>
  Who may use the backend: operators, warehouses and devices
  (\<open>internal/identity/domain/model.go\<close>), the ports of \<open>internal/identity/ports/identity.go\<close> and the
  service of \<open>internal/identity/application/service.go\<close> with its two modes: production sessions,
  and the token provider of the local mock.
\<close>

section \<open>Domain\<close>

record operator =
  op_id :: string
  op_employee :: string
  op_username :: string
  op_display :: string
  op_password :: string
  op_hash :: string
  op_roles :: "string list"
  op_permissions :: "string list"
  op_warehouses :: "string list"
  op_shift :: string
  op_active :: bool

record warehouse =
  wh_id :: string
  wh_name :: string

record device_registration =
  dr_device :: string
  dr_operator :: string
  dr_warehouse :: string

definition can_access_warehouse :: "operator \<Rightarrow> string \<Rightarrow> bool" where
  "can_access_warehouse p i \<longleftrightarrow> i \<in> set (op_warehouses p)"

section \<open>Ports\<close>

definition ErrLoginLocked :: err where [err_defs]: "ErrLoginLocked = TextError ''identity account locked''"
definition ErrLoginDisabled :: err where [err_defs]: "ErrLoginDisabled = TextError ''identity account disabled''"
definition ErrAccessTokenExpired :: err where [err_defs]: "ErrAccessTokenExpired = TextError ''access token expired''"
definition ErrAccessTokenInvalid :: err where [err_defs]: "ErrAccessTokenInvalid = TextError ''access token invalid''"
definition ErrRefreshTokenInvalid :: err where [err_defs]: "ErrRefreshTokenInvalid = TextError ''refresh token invalid''"
definition ErrRefreshTokenExpired :: err where [err_defs]: "ErrRefreshTokenExpired = TextError ''refresh token expired''"
definition ErrRefreshTokenRevoked :: err where [err_defs]: "ErrRefreshTokenRevoked = TextError ''refresh token revoked''"
definition ErrRefreshTokenReused :: err where [err_defs]: "ErrRefreshTokenReused = TextError ''refresh token reused''"
definition ErrSessionRevoked :: err where [err_defs]: "ErrSessionRevoked = TextError ''session revoked''"
definition ErrUserDisabled :: err where [err_defs]: "ErrUserDisabled = TextError ''user disabled''"
definition ErrDeviceMismatch :: err where [err_defs]: "ErrDeviceMismatch = TextError ''session device mismatch''"

record claims =
  jc_operator :: string
  jc_token :: string
  jc_session :: string
  jc_device :: string
  jc_warehouse :: string
  jc_expires :: time

record security_record =
  sy_action :: string
  sy_outcome :: string
  sy_operator :: string
  sy_device :: string
  sy_warehouse :: string
  sy_correlation :: string
  sy_at :: time

text \<open>What \<open>SessionManager.Refresh\<close> returns next to its error.\<close>

record refreshed =
  rs_access :: string
  rs_refresh :: string
  rs_access_expires :: time
  rs_refresh_expires :: time
  rs_operator :: string
  rs_device :: string
  rs_warehouse :: string

record 's session_manager =
  sx_create :: "operator \<Rightarrow> string \<Rightarrow> string \<Rightarrow> time \<Rightarrow> ('s, string \<times> string \<times> time \<times> time) prog"
  sx_authenticate :: "string \<Rightarrow> time \<Rightarrow> ('s, claims) prog"
  sx_refresh :: "string \<Rightarrow> string \<Rightarrow> time \<Rightarrow> ('s, refreshed) prog"
  sx_logout :: "string \<Rightarrow> time \<Rightarrow> ('s, unit) prog"
  sx_revoke_refresh :: "string \<Rightarrow> time \<Rightarrow> ('s, unit) prog"

record 's login_protector =
  lp_check :: "string \<Rightarrow> time \<Rightarrow> ('s, unit) prog"
  lp_failure :: "string \<Rightarrow> time \<Rightarrow> ('s, unit) prog"
  lp_success :: "string \<Rightarrow> time \<Rightarrow> ('s, unit) prog"

text \<open>\<open>SessionTokenProvider\<close> is an optional interface of the token provider.\<close>

record 's refresh_provider =
  rp_issue :: "operator \<Rightarrow> time \<Rightarrow> ('s, string) prog"
  rp_validate :: "string \<Rightarrow> time \<Rightarrow> ('s, claims) prog"

record 's token_provider =
  tp_issue :: "operator \<Rightarrow> time \<Rightarrow> ('s, string) prog"
  tp_validate :: "string \<Rightarrow> time \<Rightarrow> ('s, claims) prog"
  tp_revoke :: "string \<Rightarrow> ('s, unit) prog"
  tp_sessions :: "'s refresh_provider option"

text \<open>\<open>ix_verify\<close> is the password verifier, \<open>None\<close> where the service has none; the operators, the
  devices and the audit trail are repositories.\<close>

record 's id_ports =
  ix_by_username :: "string \<Rightarrow> ('s, operator option) prog"
  ix_by_id :: "string \<Rightarrow> ('s, operator option) prog"
  ix_warehouses :: "string list \<Rightarrow> ('s, warehouse list) prog"
  ix_tokens :: "'s token_provider"
  ix_register :: "device_registration \<Rightarrow> ('s, unit) prog"
  ix_is_registered :: "device_registration \<Rightarrow> ('s, bool) prog"
  ix_audit :: "security_record \<Rightarrow> ('s, unit) prog"
  ix_verify :: "(string \<Rightarrow> string \<Rightarrow> bool) option"
  ix_sessions :: "'s session_manager option"
  ix_protector :: "'s login_protector option"
  ix_now :: "('s, time) prog"

section \<open>Errors\<close>

definition AuthInvalidCredentials :: err where
  [err_defs]: "AuthInvalidCredentials = DomainError ''AUTH_INVALID_CREDENTIALS'' ''Invalid credentials'' False"
definition AuthUnauthorized :: err where
  [err_defs]: "AuthUnauthorized = DomainError ''AUTH_SESSION_EXPIRED'' ''Authentication is required'' False"
definition AuthAccessExpired :: err where
  [err_defs]: "AuthAccessExpired = DomainError ''ACCESS_TOKEN_EXPIRED'' ''Access token has expired.'' False"
definition AuthAccessInvalid :: err where
  [err_defs]: "AuthAccessInvalid = DomainError ''ACCESS_TOKEN_INVALID'' ''Access token is invalid.'' False"
definition AuthRefreshInvalid :: err where
  [err_defs]: "AuthRefreshInvalid = DomainError ''REFRESH_TOKEN_INVALID'' ''Refresh token is invalid.'' False"
definition AuthRefreshExpired :: err where
  [err_defs]: "AuthRefreshExpired = DomainError ''REFRESH_TOKEN_EXPIRED'' ''Refresh token has expired.'' False"
definition AuthRefreshRevoked :: err where
  [err_defs]: "AuthRefreshRevoked = DomainError ''REFRESH_TOKEN_REVOKED'' ''Refresh token has been revoked.'' False"
definition AuthRefreshReused :: err where
  [err_defs]: "AuthRefreshReused = DomainError ''REFRESH_TOKEN_REUSED'' ''Refresh token has already been used.'' False"
definition AuthSessionRevoked :: err where
  [err_defs]: "AuthSessionRevoked = DomainError ''SESSION_REVOKED'' ''Session has been revoked.'' False"
definition AuthUserDisabled :: err where
  [err_defs]: "AuthUserDisabled = DomainError ''USER_DISABLED'' ''User account is disabled.'' False"
definition AuthWarehouseDenied :: err where
  [err_defs]: "AuthWarehouseDenied = DomainError ''WAREHOUSE_ACCESS_DENIED'' ''Warehouse access denied'' False"
definition AuthDeviceNotRegistered :: err where
  [err_defs]: "AuthDeviceNotRegistered = DomainError ''DEVICE_NOT_REGISTERED'' ''Device is not registered'' False"
definition AuthAccountLocked :: err where
  [err_defs]: "AuthAccountLocked = DomainError ''AUTH_ACCOUNT_LOCKED'' ''Account is temporarily locked'' True"
definition AuthAccountDisabled :: err where
  [err_defs]: "AuthAccountDisabled = DomainError ''AUTH_ACCOUNT_DISABLED'' ''Account is disabled'' False"
definition AuthDeviceMismatch :: err where
  [err_defs]: "AuthDeviceMismatch = DomainError ''SESSION_DEVICE_MISMATCH'' ''Session device does not match.'' False"

text \<open>The cases of \<open>mapSessionError\<close>, in their order.\<close>

definition session_errors :: "(err \<times> err) list" where
  "session_errors = [(ErrAccessTokenExpired, AuthAccessExpired), (ErrAccessTokenInvalid, AuthAccessInvalid),
     (ErrRefreshTokenExpired, AuthRefreshExpired), (ErrRefreshTokenRevoked, AuthRefreshRevoked),
     (ErrRefreshTokenReused, AuthRefreshReused), (ErrRefreshTokenInvalid, AuthRefreshInvalid),
     (ErrSessionRevoked, AuthSessionRevoked), (ErrUserDisabled, AuthUserDisabled),
     (ErrDeviceMismatch, AuthDeviceMismatch)]"

definition map_session_error :: "bool \<Rightarrow> err \<Rightarrow> err" where
  "map_session_error refresh e = (case find (\<lambda>(x, y). errors_is e x) session_errors of
     Some (x, y) \<Rightarrow> y
   | None \<Rightarrow> if refresh then AuthRefreshInvalid else AuthUnauthorized)"

section \<open>Logging in\<close>

record session =
  se_access :: string
  se_refresh :: string
  se_expires :: time
  se_refresh_expires :: time
  se_device :: string
  se_warehouse :: string

text \<open>The audit record of a login; the time is read when the record is built.\<close>

definition audit_login :: "'s id_ports \<Rightarrow> string \<Rightarrow> string \<Rightarrow> string \<Rightarrow> ('s, unit) prog" where
  "audit_login P outcome oid corr = bindP (ix_now P) (\<lambda>t. ix_audit P
     \<lparr>sy_action = ''LOGIN'', sy_outcome = outcome, sy_operator = oid, sy_device = '''', sy_warehouse = '''',
      sy_correlation = corr, sy_at = t\<rparr>)"

definition login_error :: "err \<Rightarrow> err" where
  "login_error e = (if errors_is e ErrLoginLocked then AuthAccountLocked
     else if errors_is e ErrLoginDisabled then AuthAccountDisabled else e)"

definition password_ok :: "'s id_ports \<Rightarrow> operator \<Rightarrow> string \<Rightarrow> bool" where
  "password_ok P p pw \<longleftrightarrow> (case ix_verify P of Some verify \<Rightarrow> verify (op_hash p) pw | None \<Rightarrow> op_password p = pw)"

definition protect :: "'s id_ports \<Rightarrow> ('s login_protector \<Rightarrow> time \<Rightarrow> ('s, unit) prog) \<Rightarrow> ('s, unit) prog" where
  "protect P f = (case ix_protector P of None \<Rightarrow> returnP () | Some lp \<Rightarrow> bindP (ix_now P) (f lp))"

definition authenticate_credentials ::
    "'s id_ports \<Rightarrow> string \<Rightarrow> string \<Rightarrow> string \<Rightarrow> ('s, operator) prog" where
  "authenticate_credentials P username password corr =
     bindP (ix_by_username P username) (\<lambda>found.
     bindP (protect P (\<lambda>lp t. mapped login_error (lp_check lp username t))) (\<lambda>_.
     case (case found of Some p \<Rightarrow> if op_active p \<and> password_ok P p password then Some p else None | None \<Rightarrow> None) of
       None \<Rightarrow>
         bindP (case found of None \<Rightarrow> returnP ()
                | Some p \<Rightarrow> ignoreP (protect P (\<lambda>lp t. lp_failure lp (op_username p) t))) (\<lambda>_.
         bindP (audit_login P ''DENIED'' '''' corr) (\<lambda>_. failP AuthInvalidCredentials))
     | Some p \<Rightarrow>
         bindP (protect P (\<lambda>lp t. lp_success lp (op_username p) t)) (\<lambda>_.
         bindP (audit_login P ''SUCCESS'' (op_id p) corr) (\<lambda>_. returnP p))))"

definition issue_token :: "'s id_ports \<Rightarrow> operator \<Rightarrow> ('s, string) prog" where
  "issue_token P p = bindP (ix_now P) (tp_issue (ix_tokens P) p)"

definition login :: "'s id_ports \<Rightarrow> string \<Rightarrow> string \<Rightarrow> string \<Rightarrow> ('s, string \<times> operator) prog" where
  "login P username password corr =
     bindP (authenticate_credentials P username password corr) (\<lambda>p.
     case ix_sessions P of
       Some _ \<Rightarrow> returnP ('''', p)
     | None \<Rightarrow> bindP (issue_token P p) (\<lambda>t. returnP (t, p)))"

definition validate_context :: "'s id_ports \<Rightarrow> operator \<Rightarrow> string \<Rightarrow> string \<Rightarrow> ('s, unit) prog" where
  "validate_context P p device wh =
     bindP (checkP (\<not> can_access_warehouse p wh) AuthWarehouseDenied) (\<lambda>_.
     bindP (ix_is_registered P \<lparr>dr_device = device, dr_operator = op_id p, dr_warehouse = wh\<rparr>) (\<lambda>ok.
     checkP (\<not> ok) AuthDeviceNotRegistered))"

definition create_production_session ::
    "'s id_ports \<Rightarrow> 's session_manager \<Rightarrow> operator \<Rightarrow> string \<Rightarrow> string \<Rightarrow> ('s, session \<times> operator) prog" where
  "create_production_session P M p device wh =
     bindP (ix_now P) (\<lambda>t. bindP (sx_create M p device wh t) (\<lambda>(access, refresh, expires, refresh_expires).
     returnP (\<lparr>se_access = access, se_refresh = refresh, se_expires = expires, se_refresh_expires = refresh_expires,
       se_device = device, se_warehouse = wh\<rparr>, p)))"

definition one_hour :: time where "one_hour = 3600000000000"

text \<open>A session of the local mock: no device, no warehouse, no expiry of the refresh token.\<close>

definition mock_session :: "string \<Rightarrow> string \<Rightarrow> time \<Rightarrow> session" where
  "mock_session access refresh t = \<lparr>se_access = access, se_refresh = refresh, se_expires = t + one_hour,
     se_refresh_expires = time_zero, se_device = '''', se_warehouse = ''''\<rparr>"

definition login_session_context ::
    "'s id_ports \<Rightarrow> string \<Rightarrow> string \<Rightarrow> string \<Rightarrow> string \<Rightarrow> string \<Rightarrow> ('s, session \<times> operator) prog" where
  "login_session_context P username password device wh corr =
     bindP (authenticate_credentials P username password corr) (\<lambda>p.
     case ix_sessions P of
       Some M \<Rightarrow>
         bindP (checkP (device = '''') AuthDeviceNotRegistered) (\<lambda>_.
         bindP (checkP (wh = '''') AuthWarehouseDenied) (\<lambda>_.
         bindP (validate_context P p device wh) (\<lambda>_.
         create_production_session P M p device wh)))
     | None \<Rightarrow>
         bindP (issue_token P p) (\<lambda>access. bindP (ix_now P) (\<lambda>t.
         bindP (case tp_sessions (ix_tokens P) of None \<Rightarrow> returnP ''''
                | Some rp \<Rightarrow> bindP (ix_now P) (rp_issue rp p)) (\<lambda>refresh.
         returnP (mock_session access refresh t, p)))))"

definition login_session :: "'s id_ports \<Rightarrow> string \<Rightarrow> string \<Rightarrow> string \<Rightarrow> ('s, session \<times> operator) prog" where
  "login_session P username password corr = login_session_context P username password '''' '''' corr"

section \<open>Using, renewing and ending a session\<close>

text \<open>The operator a session belongs to must still be there and active.\<close>

definition active_operator :: "'s id_ports \<Rightarrow> string \<Rightarrow> ('s, operator) prog" where
  "active_operator P i = bindP (tryP (ix_by_id P i)) (\<lambda>r.
     case r of Inr (Some p) \<Rightarrow> if op_active p then returnP p else failP AuthUserDisabled
     | _ \<Rightarrow> failP AuthUserDisabled)"

definition authenticate_token :: "'s id_ports \<Rightarrow> string \<Rightarrow> ('s, operator) prog" where
  "authenticate_token P token = (case ix_sessions P of
     Some M \<Rightarrow> bindP (ix_now P) (\<lambda>t. bindP (mapped (map_session_error False) (sx_authenticate M token t)) (\<lambda>c.
       active_operator P (jc_operator c)))
   | None \<Rightarrow> bindP (ix_now P) (\<lambda>t. bindP (mapped (\<lambda>_. AuthUnauthorized) (tp_validate (ix_tokens P) token t)) (\<lambda>c.
       bindP (ix_by_id P (jc_operator c)) (\<lambda>found.
       case found of None \<Rightarrow> failP AuthUnauthorized | Some p \<Rightarrow> returnP p))))"

definition revoke_token :: "'s id_ports \<Rightarrow> string \<Rightarrow> ('s, unit) prog" where
  "revoke_token P token = mapped (\<lambda>_. AuthUnauthorized) (tp_revoke (ix_tokens P) token)"

definition refresh_token :: "'s id_ports \<Rightarrow> string \<Rightarrow> ('s, string) prog" where
  "refresh_token P token = (case ix_sessions P of
     Some M \<Rightarrow> failP AuthRefreshInvalid
   | None \<Rightarrow> bindP (authenticate_token P token) (\<lambda>p. bindP (revoke_token P token) (\<lambda>_. issue_token P p)))"

definition refresh_session_context :: "'s id_ports \<Rightarrow> string \<Rightarrow> string \<Rightarrow> ('s, session \<times> operator) prog" where
  "refresh_session_context P refresh device = (case ix_sessions P of
     Some M \<Rightarrow>
       bindP (ix_now P) (\<lambda>t. bindP (mapped (map_session_error True) (sx_refresh M refresh device t)) (\<lambda>r.
       bindP (active_operator P (rs_operator r)) (\<lambda>p.
       returnP (\<lparr>se_access = rs_access r, se_refresh = rs_refresh r, se_expires = rs_access_expires r,
         se_refresh_expires = rs_refresh_expires r, se_device = rs_device r,
         se_warehouse = rs_warehouse r\<rparr>, p))))
   | None \<Rightarrow> (case tp_sessions (ix_tokens P) of
       None \<Rightarrow> failP AuthUnauthorized
     | Some rp \<Rightarrow>
         bindP (ix_now P) (\<lambda>t. bindP (mapped (\<lambda>_. AuthUnauthorized) (rp_validate rp refresh t)) (\<lambda>c.
         bindP (mapped (\<lambda>_. AuthUnauthorized) (ix_by_id P (jc_operator c))) (\<lambda>found.
         case found of None \<Rightarrow> failP AuthUnauthorized
         | Some p \<Rightarrow>
             bindP (revoke_token P refresh) (\<lambda>_. bindP (issue_token P p) (\<lambda>access.
             bindP (ix_now P) (\<lambda>t2. bindP (rp_issue rp p t2) (\<lambda>renewed.
             bindP (ix_now P) (\<lambda>t3. returnP (mock_session access renewed t3, p)))))))))))"

definition refresh_session :: "'s id_ports \<Rightarrow> string \<Rightarrow> ('s, session \<times> operator) prog" where
  "refresh_session P refresh = refresh_session_context P refresh ''''"

definition logout_context :: "'s id_ports \<Rightarrow> string \<Rightarrow> string \<Rightarrow> ('s, unit) prog" where
  "logout_context P access refresh = (case ix_sessions P of
     Some M \<Rightarrow> bindP (ix_now P) (\<lambda>t.
       if refresh \<noteq> '''' then mapped (map_session_error True) (sx_revoke_refresh M refresh t)
       else mapped (map_session_error False) (sx_logout M access t))
   | None \<Rightarrow> revoke_token P access)"

definition logout :: "'s id_ports \<Rightarrow> string \<Rightarrow> ('s, unit) prog" where
  "logout P access = logout_context P access ''''"

section \<open>Warehouses and devices\<close>

definition operator_warehouses :: "'s id_ports \<Rightarrow> operator \<Rightarrow> ('s, warehouse list) prog" where
  "operator_warehouses P p = ix_warehouses P (op_warehouses p)"

definition register_device :: "'s id_ports \<Rightarrow> operator \<Rightarrow> string \<Rightarrow> string \<Rightarrow> string \<Rightarrow> ('s, device_registration) prog" where
  "register_device P p device wh corr =
     (let reg = \<lparr>dr_device = device, dr_operator = op_id p, dr_warehouse = wh\<rparr> in
      bindP (checkP (\<not> can_access_warehouse p wh) AuthWarehouseDenied) (\<lambda>_.
      bindP (ix_register P reg) (\<lambda>_. bindP (ix_now P) (\<lambda>t.
      bindP (ix_audit P \<lparr>sy_action = ''DEVICE_REGISTER'', sy_outcome = ''SUCCESS'', sy_operator = op_id p,
        sy_device = device, sy_warehouse = wh, sy_correlation = corr, sy_at = t\<rparr>) (\<lambda>_. returnP reg)))))"

definition device_status :: "'s id_ports \<Rightarrow> operator \<Rightarrow> string \<Rightarrow> string \<Rightarrow> ('s, string) prog" where
  "device_status P p device wh =
     (if device = '''' then returnP ''UNREGISTERED''
      else bindP (ix_is_registered P \<lparr>dr_device = device, dr_operator = op_id p, dr_warehouse = wh\<rparr>) (\<lambda>ok.
        returnP (if ok then ''REGISTERED'' else ''UNREGISTERED'')))"

end
