(* ===== verification/Gateway_Http.thy ===== *)
theory Gateway_Http
  imports Gateway_Limits Identity_Service
begin

text \<open>
  The ground of the gateway's HTTP layer, \<open>internal/gateway/adapters/http/router.go\<close>: requests and
  responses, the number formats of headers and query parameters, the strict decoding of request
  bodies into structs, the response envelope with its error table, and the middlewares in front of
  the handlers. A handler is a program that fails with the error it would hand to \<open>writeError\<close>.
  Identifiers and RFC 3339 instants in requests are read by functions of other packages, which are
  parameters here.
\<close>

section \<open>Requests and responses\<close>

text \<open>\<open>rq_body\<close> is the first JSON value within the first 16 KiB of the body: nothing, bytes that are
  not JSON, or the value. A number without fraction and exponent is a \<open>JInt\<close>, any other a \<open>JNum\<close>.
  \<open>rq_operator\<close>, \<open>rq_correlation\<close> and \<open>rq_locale\<close> are the values the middlewares put into the context.\<close>

record request =
  rq_header :: "string \<Rightarrow> string"
  rq_query :: "string \<Rightarrow> string"
  rq_param :: "string \<Rightarrow> string"
  rq_remote :: string
  rq_body :: raw_message
  rq_length :: int
  rq_operator :: operator
  rq_correlation :: string
  rq_locale :: string

record response =
  hp_status :: int
  hp_headers :: "(string \<times> string) list"
  hp_body :: "json option"

definition with_header :: "string \<Rightarrow> string \<Rightarrow> response \<Rightarrow> response" where
  "with_header k v r = r\<lparr>hp_headers := AList.update k v (hp_headers r)\<rparr>"

definition response_header :: "response \<Rightarrow> string \<Rightarrow> string" where
  "response_header r k = (case map_of (hp_headers r) k of Some v \<Rightarrow> v | None \<Rightarrow> '''')"

section \<open>Numbers and addresses\<close>

text \<open>\<open>strconv.ParseInt\<close> in base 10: an optional sign and digits; \<open>atoi\<close> with its error ignored is the
  value it returns next to the error, the nearest bound when the number is out of range.\<close>

definition digit_value :: "char \<Rightarrow> int option" where
  "digit_value c = (let n = (of_char c :: int) in if 48 \<le> n \<and> n \<le> 57 then Some (n - 48) else None)"

definition parse_digits :: "string \<Rightarrow> int option" where
  "parse_digits s = (if s = [] then None
     else fold (\<lambda>c a. case (a, digit_value c) of (Some x, Some d) \<Rightarrow> Some (10 * x + d) | _ \<Rightarrow> None) s (Some 0))"

definition parse_decimal :: "string \<Rightarrow> int option" where
  "parse_decimal s = (case s of
     [] \<Rightarrow> None
   | c # cs \<Rightarrow> if c = CHR ''-'' then map_option uminus (parse_digits cs)
               else if c = CHR ''+'' then parse_digits cs else parse_digits s)"

definition parse_int64 :: "string \<Rightarrow> int64 option" where
  "parse_int64 s = (case parse_decimal s of
     Some k \<Rightarrow> if in_int64 k then Some (word_of_int k) else None | None \<Rightarrow> None)"

definition atoi :: "string \<Rightarrow> int64" where
  "atoi s = (case parse_decimal s of
     None \<Rightarrow> 0 | Some k \<Rightarrow> word_of_int (max min_int64 (min max_int64 k)))"

definition trim_quotes :: "string \<Rightarrow> string" where
  "trim_quotes s = rev (dropWhile (\<lambda>c. c = CHR 0x22) (rev (dropWhile (\<lambda>c. c = CHR 0x22) s)))"

text \<open>\<open>net.SplitHostPort\<close>, of which the host is used.\<close>

definition split_host :: "string \<Rightarrow> string option" where
  "split_host s = (if CHR '':'' \<notin> set s then None
     else let port = rev (takeWhile (\<lambda>c. c \<noteq> CHR '':'') (rev s));
              pre = take (length s - length port - 1) s in
       if take 1 s = [CHR ''[''] then
         (if last pre = CHR '']'' \<and> CHR '']'' \<notin> set (butlast pre) \<and> CHR '']'' \<notin> set port
             \<and> CHR ''['' \<notin> set (tl s) then Some (butlast (tl pre)) else None)
       else if CHR '':'' \<in> set pre \<or> CHR ''['' \<in> set s \<or> CHR '']'' \<in> set s then None else Some pre)"

definition client_host :: "string \<Rightarrow> string" where
  "client_host remote = (case split_host remote of Some h \<Rightarrow> if h = '''' then remote else h | None \<Rightarrow> remote)"

section \<open>Decoding request bodies\<close>

text \<open>A struct is described by the JSON names and kinds of its fields. The decoder matches a member
  of the object by its exact name, else by its name up to letter case; a name no field has is an
  error (where the code asks for that: \<open>strict\<close>), a \<open>null\<close> leaves a plain field alone, a later member overwrites an earlier one, and a value
  of another kind is an error that does not stop the others. \<open>KRows\<close> is a slice of structs.\<close>

datatype kind = KStr | KInt | KUuid | KBool | KTimePtr | KStrPtr | KStrs | KRaw

datatype field = Plain kind | KRows "(string \<times> kind) list"

type_synonym members = "(string \<times> json) list"

record parsers =
  px_uuid :: "string \<Rightarrow> uuid option"
  px_time :: "string \<Rightarrow> time option"
  px_time_text :: "string \<Rightarrow> time option"

text \<open>\<open>KRaw\<close> keeps the value as it is. \<open>px_time\<close> is the JSON decoder's strict reading of an instant, \<open>px_time_text\<close> is \<open>time.Parse\<close>.
  \<open>None\<close>: the value does not fit; \<open>Some None\<close>: the field stays as it is.\<close>

fun string_element :: "json \<Rightarrow> json option" where
  "string_element JNull = Some (JStr '''')"
| "string_element (JStr s) = Some (JStr s)"
| "string_element _ = None"

fun decode_kind :: "parsers \<Rightarrow> kind \<Rightarrow> json \<Rightarrow> json option option" where
  "decode_kind px KRaw j = Some (Some j)"
| "decode_kind px KTimePtr JNull = Some (Some JNull)"
| "decode_kind px KStrPtr JNull = Some (Some JNull)"
| "decode_kind px KStrs JNull = Some (Some JNull)"
| "decode_kind px k JNull = Some None"
| "decode_kind px KStr (JStr s) = Some (Some (JStr s))"
| "decode_kind px KStrPtr (JStr s) = Some (Some (JStr s))"
| "decode_kind px KInt (JInt n) = (if in_int64 n then Some (Some (JInt n)) else None)"
| "decode_kind px KBool (JBool b) = Some (Some (JBool b))"
| "decode_kind px KUuid (JStr s) = map_option (\<lambda>u. Some (JUuid u)) (px_uuid px s)"
| "decode_kind px KTimePtr (JStr s) = map_option (\<lambda>t. Some (JTime t)) (px_time px s)"
| "decode_kind px KStrs (JArr js) = map_option (\<lambda>xs. Some (JArr xs)) (those (map string_element js))"
| "decode_kind px k _ = None"

definition lookup_field :: "(string \<times> 'f) list \<Rightarrow> string \<Rightarrow> (string \<times> 'f) option" where
  "lookup_field fs k = (case map_of fs k of Some f \<Rightarrow> Some (k, f) | None \<Rightarrow> find (\<lambda>(n, _). equal_fold n k) fs)"

fun decode_members ::
    "bool \<Rightarrow> ('f \<Rightarrow> json \<Rightarrow> json option option) \<Rightarrow> (string \<times> 'f) list \<Rightarrow> members \<Rightarrow> bool \<times> members
     \<Rightarrow> bool \<times> members" where
  "decode_members strict d fs [] acc = acc"
| "decode_members strict d fs ((k, v) # ms) acc = decode_members strict d fs ms
     (case lookup_field fs k of
        None \<Rightarrow> (fst acc \<and> \<not> strict, snd acc)
      | Some (n, f) \<Rightarrow>
          (case d f v of
             None \<Rightarrow> (False, snd acc)
           | Some None \<Rightarrow> acc
           | Some (Some x) \<Rightarrow> (fst acc, AList.update n x (snd acc))))"

definition decode_object ::
    "bool \<Rightarrow> ('f \<Rightarrow> json \<Rightarrow> json option option) \<Rightarrow> (string \<times> 'f) list \<Rightarrow> json \<Rightarrow> bool \<times> members" where
  "decode_object strict d fs j = (case j of
     JObj ms \<Rightarrow> decode_members strict d fs ms (True, []) | _ \<Rightarrow> (j = JNull, []))"

definition decode_rows ::
    "bool \<Rightarrow> ('f \<Rightarrow> json \<Rightarrow> json option option) \<Rightarrow> (string \<times> 'f) list \<Rightarrow> json \<Rightarrow> json option option" where
  "decode_rows strict d fs j = (case j of
     JNull \<Rightarrow> Some (Some JNull)
   | JArr js \<Rightarrow> (let rows = map (decode_object strict d fs) js in
       if list_all fst rows then Some (Some (JArr (map (JObj \<circ> snd) rows))) else None)
   | _ \<Rightarrow> None)"

fun decode_field :: "bool \<Rightarrow> parsers \<Rightarrow> field \<Rightarrow> json \<Rightarrow> json option option" where
  "decode_field strict px (Plain k) j = decode_kind px k j"
| "decode_field strict px (KRows fs) j = decode_rows strict (decode_kind px) fs j"

definition decode_struct :: "parsers \<Rightarrow> (string \<times> field) list \<Rightarrow> raw_message \<Rightarrow> bool \<times> members" where
  "decode_struct px fs b = (case b of
     RawJSON j \<Rightarrow> decode_object True (decode_field True px) fs j | _ \<Rightarrow> (False, []))"

definition invalid_request :: "string \<Rightarrow> err" where
  [err_defs]: "invalid_request m = DomainError ''INVALID_REQUEST'' m False"

definition wrong_context :: "string \<Rightarrow> err" where
  [err_defs]: "wrong_context m = DomainError ''BARCODE_WRONG_CONTEXT'' m False"

definition decode_body :: "parsers \<Rightarrow> (string \<times> field) list \<Rightarrow> request \<Rightarrow> err + members" where
  "decode_body px fs q = (case decode_struct px fs (rq_body q) of
     (ok, xs) \<Rightarrow> if ok then Inr xs else Inl (invalid_request ''Invalid request''))"

text \<open>Reading the fields of a decoded struct; an absent one has the zero value.\<close>

definition str_of :: "members \<Rightarrow> string \<Rightarrow> string" where
  "str_of xs k = (case map_of xs k of Some (JStr s) \<Rightarrow> s | _ \<Rightarrow> '''')"

definition int_of :: "members \<Rightarrow> string \<Rightarrow> int64" where
  "int_of xs k = (case map_of xs k of Some (JInt n) \<Rightarrow> word_of_int n | _ \<Rightarrow> 0)"

definition uuid_of :: "members \<Rightarrow> string \<Rightarrow> uuid" where
  "uuid_of xs k = (case map_of xs k of Some (JUuid u) \<Rightarrow> u | _ \<Rightarrow> uuid_nil)"

definition time_ptr_of :: "members \<Rightarrow> string \<Rightarrow> time option" where
  "time_ptr_of xs k = (case map_of xs k of Some (JTime t) \<Rightarrow> Some t | _ \<Rightarrow> None)"

definition str_ptr_of :: "members \<Rightarrow> string \<Rightarrow> string option" where
  "str_ptr_of xs k = (case map_of xs k of Some (JStr s) \<Rightarrow> Some s | _ \<Rightarrow> None)"

definition strs_of :: "members \<Rightarrow> string \<Rightarrow> string list" where
  "strs_of xs k = (case map_of xs k of
     Some (JArr js) \<Rightarrow> map (\<lambda>j. case j of JStr s \<Rightarrow> s | _ \<Rightarrow> '''') js | _ \<Rightarrow> [])"

definition rows_of :: "members \<Rightarrow> string \<Rightarrow> members list" where
  "rows_of xs k = (case map_of xs k of
     Some (JArr js) \<Rightarrow> map (\<lambda>j. case j of JObj ms \<Rightarrow> ms | _ \<Rightarrow> []) js | _ \<Rightarrow> [])"

definition first_of :: "string \<Rightarrow> string \<Rightarrow> string" where
  "first_of a b = (if a = '''' then b else a)"

section \<open>The response envelope\<close>

text \<open>Members of a Go map are written in the order of their names. \<open>write_data\<close> copies the fields of
  the data that page and version it into \<open>meta\<close>; numbers pass through \<open>float64\<close> there, which is
  exact up to \<open>2^53\<close>.\<close>

definition meta_keys :: "string list" where
  "meta_keys = [''version'', ''nextCursor'', ''hasMore'', ''asOf'', ''stale'']"

definition data_fields :: "json \<Rightarrow> members" where
  "data_fields j = (case j of JObj ms \<Rightarrow> ms | _ \<Rightarrow> [])"

definition meta_of :: "json \<Rightarrow> string \<Rightarrow> time \<Rightarrow> members" where
  "meta_of data corr now =
     (let field = (\<lambda>k d. case map_of (data_fields data) k of Some j \<Rightarrow> j | None \<Rightarrow> d);
          cursor = field ''nextCursor'' JNull in
      [(''asOf'', field ''asOf'' JNull), (''correlationId'', JStr corr),
       (''hasMore'', if cursor \<noteq> JNull then JBool True else field ''hasMore'' (JBool False)),
       (''nextCursor'', cursor), (''serverTime'', JTime now), (''stale'', field ''stale'' (JBool False)),
       (''version'', field ''version'' JNull)])"

definition content_json :: "(string \<times> string) list" where
  "content_json = [(''Content-Type'', ''application/json'')]"

definition write_data :: "int \<Rightarrow> json \<Rightarrow> string \<Rightarrow> time \<Rightarrow> response" where
  "write_data status data corr now = \<lparr>hp_status = status, hp_headers = content_json,
     hp_body = Some (JObj [(''data'', data), (''errors'', JArr []), (''meta'', JObj (meta_of data corr now))])\<rparr>"

definition no_content :: response where
  "no_content = \<lparr>hp_status = 204, hp_headers = [], hp_body = None\<rparr>"

definition status_table :: "(string list \<times> int) list" where
  "status_table =
     [([''INVALID_REQUEST'', ''DEVICE_NOT_REGISTERED''], 400),
      ([''AUTH_INVALID_CREDENTIALS'', ''AUTH_SESSION_EXPIRED'', ''AUTH_TOKEN_INVALID'', ''AUTH_TOKEN_REVOKED'',
        ''UPSTREAM_UNAUTHORIZED'', ''ACCESS_TOKEN_EXPIRED'', ''ACCESS_TOKEN_INVALID'', ''REFRESH_TOKEN_INVALID'',
        ''REFRESH_TOKEN_EXPIRED'', ''REFRESH_TOKEN_REVOKED'', ''REFRESH_TOKEN_REUSED'', ''SESSION_REVOKED''], 401),
      ([''AUTH_ACCOUNT_LOCKED''], 429),
      ([''AUTH_ACCOUNT_DISABLED'', ''USER_DISABLED''], 403),
      ([''WAREHOUSE_ACCESS_DENIED'', ''OPERATOR_CONTEXT_MISMATCH'', ''SESSION_DEVICE_MISMATCH''], 403),
      ([''RATE_LIMITED''], 429),
      ([''GATEWAY_CIRCUIT_OPEN'', ''UPSTREAM_WMS_UNAVAILABLE'', ''MES_TRACE_TEMPORARILY_UNAVAILABLE'',
        ''WMS_TRACE_UNAVAILABLE'', ''MES_EXECUTION_TRACE_UNAVAILABLE'', ''MES_TRACEABILITY_UNAVAILABLE'',
        ''MESSAGING_PUBLISH_PENDING''], 503),
      ([''FINISHED_PRODUCT_BARCODE_AMBIGUOUS'', ''TASK_LOCKED'', ''TASK_VERSION_CONFLICT'',
        ''SHIPMENT_VERSION_CONFLICT'', ''DUPLICATE_COMMAND'', ''IDEMPOTENCY_KEY_REUSED'', ''VERSION_CONFLICT'',
        ''IDEMPOTENCY_CONFLICT'', ''RECEIPT_NOT_CONFIRMABLE'', ''OVER_RECEIPT_APPROVAL_REQUIRED'',
        ''UPSTREAM_CONFLICT''], 409),
      ([''FINISHED_PRODUCT_NOT_FOUND'', ''TASK_NOT_FOUND'', ''INVENTORY_NOT_FOUND'', ''SHIPMENT_NOT_FOUND'',
        ''COMMAND_NOT_FOUND'', ''RECEIPT_NOT_FOUND'', ''UPSTREAM_NOT_FOUND''], 404),
      ([''BARCODE_UNKNOWN'', ''BARCODE_WRONG_CONTEXT'', ''QUANTITY_EXCEEDS_ALLOWED'', ''REMARK_REQUIRED'',
        ''CONDITION_INVALID'', ''RECEIVING_TASK_INCOMPLETE'', ''TASK_NOT_ASSIGNED'', ''TASK_ALREADY_COMPLETED'',
        ''SOURCE_LOCATION_INVALID'', ''DESTINATION_LOCATION_INVALID'', ''ITEM_INVALID'',
        ''VALIDATION_SEQUENCE_INVALID'', ''SCAN_MISMATCH'', ''INSUFFICIENT_STOCK'', ''LOCATION_CAPACITY_EXCEEDED'',
        ''TASK_INCOMPLETE'', ''PUTAWAY_GROUP_INCOMPLETE'', ''SOURCE_EQUALS_DESTINATION'', ''SHIPMENT_NOT_READY'',
        ''PACKAGE_INCOMPLETE'', ''CARRIER_INVALID'', ''TRACKING_INVALID'', ''SHIPMENT_ALREADY_CONFIRMED'',
        ''COUNT_VARIANCE_REQUIRES_REVIEW'', ''ITEM_NOT_IN_DOCUMENT'', ''LOCATION_INVALID'',
        ''RECEIPT_LINE_MISMATCH'', ''RECEIPT_QUANTITY_INVALID'', ''RECEIPT_BATCH_LINE_INVALID'',
        ''RECEIPT_BATCH_LINES_INCOMPLETE'', ''RECEIPT_BATCH_DUPLICATE_LINE'', ''RECEIPT_LOT_DIMENSION_MISMATCH'',
        ''RECEIPT_LINE_FAILED_FINAL'', ''INVALID_INVENTORY_REQUEST''], 422),
      ([''RECEIPT_VERSION_REQUIRED''], 400),
      ([''RECEIPT_NOT_EDITABLE'', ''RECEIPT_NOT_CLAIMABLE''], 409)]"

definition error_status :: "string \<Rightarrow> int" where
  "error_status code = (case find (\<lambda>(codes, _). code \<in> set codes) status_table of
     Some (_, s) \<Rightarrow> s | None \<Rightarrow> 500)"

text \<open>\<open>Details\<close> is never set by the code, so it is \<open>null\<close>.\<close>

definition domain_error :: "err \<Rightarrow> string \<times> string \<times> bool" where
  "domain_error e = (case errors_as_domain e of
     Some d \<Rightarrow> d | None \<Rightarrow> (''INTERNAL_ERROR'', ''Internal error'', False))"

definition write_error :: "err \<Rightarrow> string \<Rightarrow> time \<Rightarrow> response" where
  "write_error e corr now = (case domain_error e of (code, m, retryable) \<Rightarrow>
     \<lparr>hp_status = error_status code,
      hp_headers = (if code = ''UPSTREAM_WMS_UNAVAILABLE'' \<or> code = ''MESSAGING_PUBLISH_PENDING''
         then [(''X-Gateway-Dependency-Failure'', ''1'')] else []) @ content_json,
      hp_body = Some (JObj [(''data'', JNull),
        (''errors'', JArr [JObj [(''code'', JStr code), (''details'', JNull), (''message'', JStr m),
           (''retryable'', JBool retryable)]]),
        (''meta'', JObj [(''correlationId'', JStr corr), (''serverTime'', JTime now)])])\<rparr>)"

definition dependency_failure :: "response \<Rightarrow> bool" where
  "dependency_failure r \<longleftrightarrow> response_header r ''X-Gateway-Dependency-Failure'' = ''1''"

end
