(* ===== verification/Gateway_Views.thy ===== *)
theory Gateway_Views
  imports Gateway_Http Receiving_Service Shipping_Service
begin

text \<open>
  What the gateway shows: the JSON documents of the domain types by their struct tags, and the views
  of \<open>internal/gateway/adapters/http\<close> (\<open>taskView\<close>, \<open>receivingTaskView\<close>, \<open>receivingView\<close>, \<open>movementView\<close>
  with its next step, \<open>countView\<close>, \<open>shippingView\<close>, \<open>filterBalances\<close>, \<open>canonicalCommand\<close>). A Go map is
  written in the order of its keys. Floating-point numbers are exact rationals, which Go's are for
  the quantities up to \<open>2^53\<close>.
\<close>

definition go_map :: "members \<Rightarrow> json" where
  "go_map ms = JObj (sort_key fst ms)"

definition omit_empty :: "string \<Rightarrow> string \<Rightarrow> members" where
  "omit_empty k s = (if s = '''' then [] else [(k, JStr s)])"

definition omit_zero :: "string \<Rightarrow> int64 \<Rightarrow> members" where
  "omit_zero k n = (if n = 0 then [] else [(k, json_int64 n)])"

definition json_float :: "int64 \<Rightarrow> json" where
  "json_float n = JNum (of_int (sint n))"

section \<open>Documents of the domain\<close>

definition snapshot_json :: "receiving_line_snapshot \<Rightarrow> json" where
  "snapshot_json l = JObj ([(''lineId'', JStr (rl_line l)), (''itemId'', JStr (rl_item l))]
     @ omit_empty ''sku'' (rl_sku l) @ omit_empty ''itemName'' (rl_item_name l)
     @ omit_empty ''uomCode'' (rl_uom l) @ omit_empty ''lotCode'' (rl_lot l)
     @ omit_empty ''barcode'' (rl_barcode l)
     @ [(''expectedQuantity'', JNum (rl_expected l)), (''handedOverQuantity'', JNum (rl_handed_over l)),
        (''receivedQuantity'', JNum (rl_received l)), (''remainingQuantity'', JNum (rl_remaining l)),
        (''lotRequired'', JBool (rl_lot_required l)), (''serialRequired'', JBool (rl_serial_required l))])"

definition task_json :: "task \<Rightarrow> json" where
  "task_json t = JObj ([(''id'', JStr (tk_id t)), (''category'', JStr (tk_category t)),
     (''status'', JStr (tk_status t)), (''priority'', json_int64 (tk_priority t)), (''title'', JStr (tk_title t)),
     (''lineCount'', json_int64 (tk_line_count t)), (''pieceCount'', json_int64 (tk_piece_count t)),
     (''dueAt'', json_opt JTime (tk_due t)), (''warehouseId'', JStr (tk_warehouse t)),
     (''operatorId'', json_opt JStr (tk_operator t)), (''lockState'', JStr (tk_lock_state t)),
     (''version'', json_int64 (tk_version t)), (''createdAt'', JTime (tk_created t)),
     (''updatedAt'', JTime (tk_updated t))]
     @ omit_empty ''purchaseOrderId'' (tk_purchase_order t) @ omit_empty ''lpnCode'' (tk_lpn t)
     @ omit_empty ''supplier'' (tk_supplier t)
     @ (if tk_lines t = [] then [] else [(''lines'', JArr (map snapshot_json (tk_lines t)))]))"

definition summary_json :: "summary_item \<Rightarrow> json" where
  "summary_json x = JObj [(''category'', JStr (si_category x)), (''status'', JStr (si_status x)),
     (''count'', json_int64 (si_count x))]"

definition dashboard_json :: "dashboard \<Rightarrow> json" where
  "dashboard_json d = JObj ([(''inboundCount'', json_int64 (db_inbound d)), (''putawayCount'', json_int64 (db_putaway d)),
     (''pickingCount'', json_int64 (db_picking d)), (''shippingCount'', json_int64 (db_shipping d)),
     (''inProgressCount'', json_int64 (db_in_progress_count d)),
     (''completedCount'', json_int64 (db_completed_count d)), (''completionPercent'', JNum (db_percent d)),
     (''pendingSyncCount'', json_opt json_int64 (db_pending_sync d)),
     (''actionableAlertCount'', json_int64 (db_alerts d)), (''asOf'', JTime (db_as_of d))]
     @ omit_zero ''total'' (db_total d) @ omit_zero ''assigned'' (db_assigned d)
     @ omit_zero ''inProgress'' (db_in_progress d) @ omit_zero ''completed'' (db_completed d)
     @ omit_zero ''highPriority'' (db_high_priority d) @ [(''updatedAt'', JTime (db_updated d))])"

definition policy_json :: "policy \<Rightarrow> json" where
  "policy_json p = JObj [(''allowOverReceipt'', JBool (po_over_receipt p)),
     (''requireRemarkOnVariance'', JBool (po_remark_on_variance p)), (''lotRequired'', JBool (po_lot_required p)),
     (''serialRequired'', JBool (po_serial_required p)),
     (''conditionPolicy'', json_slice JStr (po_conditions p))]"

definition rline_json :: "rline \<Rightarrow> json" where
  "rline_json l = JObj ([(''id'', JStr (ln_id l)), (''itemId'', JStr (ln_item l)), (''itemName'', JStr (ln_item_name l)),
     (''barcode'', JStr (ln_barcode l)), (''expectedQuantity'', json_int64 (ln_expected l)),
     (''receivedQuantity'', json_int64 (ln_received l)), (''sku'', JStr (ln_sku l)), (''uomCode'', JStr (ln_uom l)),
     (''lotCode'', JStr (ln_lot l)), (''handedOverQuantity'', json_int64 (ln_handed_over l)),
     (''remainingQuantity'', json_int64 (ln_remaining l)), (''lotRequired'', JBool (ln_lot_required l)),
     (''serialRequired'', JBool (ln_serial_required l))]
     @ (if ln_verified l then [(''receiptVerified'', JBool True)] else []))"

definition receiving_json :: "receiving \<Rightarrow> json" where
  "receiving_json t = JObj ([(''id'', JStr (rv_id t)), (''orderId'', JStr (rv_order t)), (''poNumber'', JStr (rv_po t))]
     @ omit_empty ''lpnCode'' (rv_lpn t) @ [(''supplier'', JStr (rv_supplier t))]
     @ omit_empty ''sourceType'' (rv_source_type t) @ omit_empty ''sourceSystem'' (rv_source_system t)
     @ omit_empty ''sourceDocumentType'' (rv_doc_type t) @ omit_empty ''sourceDocumentId'' (rv_doc_id t)
     @ omit_empty ''sourceDocumentCode'' (rv_doc_code t) @ omit_empty ''workOrderId'' (rv_work_order t)
     @ omit_empty ''workOrderCode'' (rv_work_order_code t) @ omit_empty ''productionOutputId'' (rv_output t)
     @ omit_empty ''receiptRequestId'' (rv_request t) @ omit_empty ''sourceConfirmationId'' (rv_confirmation t)
     @ [(''status'', JStr (rv_status t)), (''warehouseId'', JStr (rv_warehouse t)),
        (''operatorId'', json_opt JStr (rv_operator t)), (''version'', json_int64 (rv_version t)),
        (''policy'', policy_json (rv_policy t)), (''lines'', json_slice rline_json (rv_lines t)),
        (''updatedAt'', JTime (rv_updated t))])"

definition movement_json :: "movement \<Rightarrow> json" where
  "movement_json t = JObj ([(''id'', JStr (mv_id t))]
     @ omit_empty ''parentTaskId'' (mv_parent t) @ omit_empty ''lineId'' (mv_line t)
     @ [(''workflow'', JStr (mv_workflow t)), (''status'', JStr (mv_status t)), (''warehouseId'', JStr (mv_warehouse t)),
        (''operatorId'', json_opt JStr (mv_operator t)), (''version'', json_int64 (mv_version t)),
        (''sourceLocation'', JStr (mv_source t))]
     @ omit_empty ''sourceLocationId'' (mv_source_id t) @ omit_empty ''sourceLocationCode'' (mv_source_code t)
     @ omit_empty ''sourceLocationName'' (mv_source_name t) @ omit_empty ''sourceBin'' (mv_source_bin t)
     @ omit_empty ''sourceBinId'' (mv_source_bin_id t) @ omit_empty ''sourceBinCode'' (mv_source_bin_code t)
     @ [(''destinationLocation'', JStr (mv_dest t))]
     @ omit_empty ''destinationLocationId'' (mv_dest_id t) @ omit_empty ''destinationLocationCode'' (mv_dest_code t)
     @ omit_empty ''destinationLocationName'' (mv_dest_name t) @ omit_empty ''destinationCode'' (mv_dest_short_code t)
     @ omit_empty ''destinationBinId'' (mv_dest_bin_id t) @ omit_empty ''destinationBinCode'' (mv_dest_bin_code t)
     @ [(''itemId'', JStr (mv_item t))]
     @ omit_empty ''itemCode'' (mv_item_code t) @ omit_empty ''itemName'' (mv_item_name t)
     @ omit_empty ''salesFulfillmentId'' (mv_fulfillment t) @ omit_empty ''salesOrderId'' (mv_sales_order t)
     @ omit_empty ''salesOrderCode'' (mv_sales_order_code t) @ omit_empty ''materialRequestId'' (mv_material_request t)
     @ omit_empty ''workOrderId'' (mv_work_order t) @ omit_empty ''workOrderCode'' (mv_work_order_code t)
     @ omit_empty ''sourceReceiptId'' (mv_receipt t) @ omit_empty ''sourceReceiptCode'' (mv_receipt_code t)
     @ omit_empty ''lotId'' (mv_lot_id t) @ omit_empty ''lpnCode'' (mv_lpn t) @ omit_empty ''uomCode'' (mv_uom t)
     @ [(''barcode'', JStr (mv_barcode t))] @ omit_empty ''lot'' (mv_lot t)
     @ [(''requiredQuantity'', json_int64 (mv_required t)), (''completedQuantity'', json_int64 (mv_done t)),
        (''sourceValidated'', JBool (mv_source_ok t)), (''lpnValidated'', JBool (mv_lpn_ok t)),
        (''destinationValidated'', JBool (mv_dest_ok t)), (''itemValidated'', JBool (mv_item_ok t)),
        (''lotValidated'', JBool (mv_lot_ok t))]
     @ (if mv_scan_requirements t = [] then [] else [(''scanRequirements'', JArr (map JStr (mv_scan_requirements t)))])
     @ (if mv_active_lines t = [] then [] else [(''activeLineIds'', JArr (map JStr (mv_active_lines t)))])
     @ [(''updatedAt'', JTime (mv_updated t))])"

definition location_json :: "location \<Rightarrow> json" where
  "location_json l = JObj [(''id'', JStr (lo_id l)), (''zone'', JStr (lo_zone l)), (''capacity'', json_int64 (lo_capacity l)),
     (''usedCapacity'', json_int64 (lo_used l)), (''compatibleItemId'', json_opt JStr (lo_item l))]"

definition stock_move_json :: "stock_move \<Rightarrow> json" where
  "stock_move_json m = JObj [(''id'', JStr (sm_id m)), (''taskId'', JStr (sm_task m)), (''workflow'', JStr (sm_workflow m)),
     (''warehouseId'', JStr (sm_warehouse m)), (''itemId'', JStr (sm_item m)), (''sourceLocation'', JStr (sm_source m)),
     (''destinationLocation'', JStr (sm_dest m)), (''quantity'', json_int64 (sm_quantity m)),
     (''aggregateVersion'', json_int64 (sm_version m)), (''occurredAt'', JTime (sm_at m))]"

definition warehouse_json :: "warehouse \<Rightarrow> json" where
  "warehouse_json w = JObj [(''id'', JStr (wh_id w)), (''name'', JStr (wh_name w))]"

definition registration_json :: "device_registration \<Rightarrow> json" where
  "registration_json r = JObj [(''deviceId'', JStr (dr_device r)), (''operatorId'', JStr (dr_operator r)),
     (''warehouseId'', JStr (dr_warehouse r))]"

text \<open>A stored result that does not decode into the type that wrote it is some other document, \<open>other\<close>.
  The results of inventory and shipping commands have no tags: their Go field names are shown.\<close>

definition stored_json :: "json \<Rightarrow> ('a \<Rightarrow> json) \<Rightarrow> 'a option \<Rightarrow> json" where
  "stored_json other f x = (case x of None \<Rightarrow> other | Some y \<Rightarrow> f y)"

fun inventory_document_json :: "inventory_document \<Rightarrow> json" where
  "inventory_document_json (TransferDoc t) = transfer_json t"
| "inventory_document_json (CountDoc t) = count_json t"

definition rv_status_json :: "json \<Rightarrow> rv_command_status \<Rightarrow> json" where
  "rv_status_json other r = JObj [(''commandId'', JUuid (rv_command_status.rs_id r)), (''commandType'', JStr (rv_command_status.rs_type r)),
     (''status'', JStr (rv_command_status.rs_status r)),
     (''result'', stored_json other receiving_json (rv_command_status.rs_result r))]"

definition inv_result_json :: "json \<Rightarrow> inv_result \<Rightarrow> json" where
  "inv_result_json other r = JObj [(''CommandID'', JUuid (ir_id r)), (''WarehouseID'', JStr (ir_warehouse r)),
     (''OperatorID'', JStr (ir_operator r)), (''Result'', stored_json other inventory_document_json (ir_result r))]"

definition sh_result_json :: "json \<Rightarrow> sh_result \<Rightarrow> json" where
  "sh_result_json other r = JObj [(''ID'', JUuid (hr_id r)), (''ShipmentID'', JStr (hr_shipment r)),
     (''WarehouseID'', JStr (hr_warehouse r)), (''OperatorID'', JStr (hr_operator r)),
     (''Result'', stored_json other shipment_json (hr_result r))]"

section \<open>Views of tasks\<close>

definition lock_state :: "string option \<Rightarrow> string \<Rightarrow> string" where
  "lock_state holder p = (case holder of None \<Rightarrow> ''AVAILABLE''
     | Some x \<Rightarrow> if x = p then ''OWNED'' else ''LOCKED'')"

definition task_view :: "task \<Rightarrow> string \<Rightarrow> json" where
  "task_view t p = go_map [(''id'', JStr (tk_id t)), (''category'', JStr (tk_category t)), (''type'', JStr (tk_category t)),
     (''status'', JStr (tk_status t)), (''priority'', json_int64 (tk_priority t)),
     (''title'', JStr (if tk_title t = '''' then tk_category t @ '' task'' else tk_title t)),
     (''lineCount'', json_int64 (tk_line_count t)), (''pieceCount'', json_int64 (tk_piece_count t)),
     (''dueAt'', json_opt JTime (tk_due t)), (''assignedOperatorId'', json_opt JStr (tk_operator t)),
     (''lockState'', JStr (if tk_lock_state t = '''' then lock_state (tk_operator t) p else tk_lock_state t)),
     (''version'', json_int64 (tk_version t)),
     (''createdAt'', JTime (if is_zero (tk_created t) then tk_updated t else tk_created t)),
     (''updatedAt'', JTime (tk_updated t)), (''warehouseId'', JStr (tk_warehouse t)),
     (''purchaseOrderId'', JStr (tk_purchase_order t)), (''supplier'', JStr (tk_supplier t)),
     (''lines'', json_slice snapshot_json (tk_lines t))]"

definition receiving_snapshot :: "policy \<Rightarrow> rline \<Rightarrow> receiving_line_snapshot" where
  "receiving_snapshot p l = \<lparr>rl_line = ln_id l, rl_item = ln_item l, rl_sku = ln_sku l,
     rl_item_name = ln_item_name l, rl_uom = ln_uom l, rl_lot = ln_lot l, rl_barcode = ln_barcode l,
     rl_expected = of_int (sint (ln_expected l)), rl_handed_over = of_int (sint (ln_handed_over l)),
     rl_received = of_int (sint (ln_received l)), rl_remaining = of_int (sint (ln_expected l - ln_received l)),
     rl_lot_required = po_lot_required p, rl_serial_required = po_serial_required p\<rparr>"

definition receiving_task_view :: "receiving \<Rightarrow> string \<Rightarrow> json" where
  "receiving_task_view t p = go_map [(''id'', JStr (rv_id t)), (''category'', JStr ''RECEIVING''),
     (''type'', JStr ''RECEIVING''), (''status'', JStr (rv_status t)), (''priority'', JInt 0),
     (''title'', JStr (rv_po t)), (''lineCount'', JInt (int (length (rv_lines t)))),
     (''pieceCount'', json_int64 (sum_list (map ln_expected (rv_lines t)))), (''dueAt'', JNull),
     (''assignedOperatorId'', json_opt JStr (rv_operator t)), (''lockState'', JStr (lock_state (rv_operator t) p)),
     (''version'', json_int64 (rv_version t)), (''createdAt'', JTime (rv_updated t)),
     (''updatedAt'', JTime (rv_updated t)), (''warehouseId'', JStr (rv_warehouse t)),
     (''purchaseOrderId'', JStr (rv_lpn t)), (''lpnCode'', JStr (rv_lpn t)), (''supplier'', JStr (rv_supplier t)),
     (''lines'', JArr (map (snapshot_json \<circ> receiving_snapshot (rv_policy t)) (rv_lines t)))]"

definition receiving_line_view :: "policy \<Rightarrow> rline \<Rightarrow> json" where
  "receiving_line_view p l = go_map [(''lineId'', JStr (ln_id l)), (''itemId'', JStr (ln_item l)), (''sku'', JStr (ln_sku l)),
     (''itemName'', JStr (ln_item_name l)), (''barcode'', JStr (ln_barcode l)), (''lotCode'', JStr (ln_lot l)),
     (''uomCode'', JStr (ln_uom l)), (''expectedQuantity'', json_int64 (ln_expected l)),
     (''receivedQuantity'', json_int64 (ln_received l)),
     (''remainingQuantity'', json_int64 (ln_expected l - ln_received l)),
     (''lotRequired'', JBool (po_lot_required p)), (''serialRequired'', JBool (po_serial_required p))]"

definition receiving_members :: "receiving \<Rightarrow> members" where
  "receiving_members t =
     (let expected = sum_list (map ln_expected (rv_lines t)); received = sum_list (map ln_received (rv_lines t)) in
      [(''taskId'', JStr (rv_id t)), (''orderId'', JStr (rv_order t)), (''purchaseOrderId'', JStr (rv_lpn t)),
       (''lpnCode'', JStr (rv_lpn t)), (''poNumber'', JStr (rv_lpn t)), (''supplier'', JStr (rv_supplier t)),
       (''status'', JStr (rv_status t)), (''warehouseId'', JStr (rv_warehouse t)),
       (''assignedOperatorId'', json_opt JStr (rv_operator t)), (''version'', json_int64 (rv_version t)),
       (''expectedQuantity'', json_int64 expected), (''receivedQuantity'', json_int64 received),
       (''remainingQuantity'', json_int64 (expected - received)), (''quantityPolicy'', policy_json (rv_policy t)),
       (''conditionPolicy'', json_slice JStr (po_conditions (rv_policy t))),
       (''lines'', JArr (map (receiving_line_view (rv_policy t)) (rv_lines t))),
       (''updatedAt'', JTime (rv_updated t)), (''asOf'', JTime (rv_updated t))])"

definition receiving_view :: "receiving \<Rightarrow> json" where
  "receiving_view t = go_map (receiving_members t)"

section \<open>Views of movements\<close>

definition movement_requires :: "movement \<Rightarrow> string \<Rightarrow> bool" where
  "movement_requires t what \<longleftrightarrow> list_ex (\<lambda>v. equal_fold v what) (mv_scan_requirements t)"

definition next_step :: "movement \<Rightarrow> string" where
  "next_step t =
     (if movement_requires t ''LPN'' \<and> \<not> mv_lpn_ok t then ''VALIDATE_LPN''
      else if movement_requires t ''SOURCE'' \<and> \<not> mv_source_ok t then ''VALIDATE_SOURCE''
      else if movement_requires t ''ITEM'' \<and> \<not> mv_item_ok t then ''VALIDATE_ITEM''
      else if (movement_requires t ''LOT'' \<or> mv_lot t \<noteq> '''') \<and> \<not> mv_lot_ok t then ''VALIDATE_LOT''
      else if movement_requires t ''DESTINATION'' \<and> \<not> mv_dest_ok t then ''VALIDATE_DESTINATION''
      else if mv_status t = MvCompleted then ''COMPLETED''
      else ''CONFIRM_QUANTITY'')"

definition max_int64_of :: "int64 \<Rightarrow> int64 \<Rightarrow> int64" where
  "max_int64_of v m = (if i64_less v m then m else v)"

definition set_members :: "members \<Rightarrow> members \<Rightarrow> members" where
  "set_members new ms = fold (\<lambda>(k, v). AList.update k v) new ms"

definition movement_view :: "movement \<Rightarrow> json" where
  "movement_view t = go_map (set_members
     [(''remainingQuantity'', json_int64 (remaining t)),
      (''progressPercent'', JNum (of_int (sint (mv_done t)) * 100 / of_int (sint (max_int64_of (mv_required t) 1)))),
      (''shortPickPolicy'', JStr ''DISABLED''), (''sourceBalance'', JNull), (''destinationBalance'', JNull),
      (''nextStep'', JStr (next_step t))]
     (data_fields (movement_json t)))"

section \<open>Views of inventory and shipments\<close>

definition balance_matches :: "request \<Rightarrow> balance \<Rightarrow> bool" where
  "balance_matches q b \<longleftrightarrow>
     (let query = to_lower (rq_query q ''q''); item = to_lower (rq_query q ''itemId'');
          barcode = to_lower (rq_query q ''barcode'');
          loc = first_of (to_lower (rq_query q ''locationCode'')) (to_lower (rq_query q ''locationId''));
          code = to_lower (bl_item b); place = to_lower (bl_location b) in
      \<not> (query \<noteq> '''' \<and> \<not> str_contains code query \<and> \<not> str_contains place query
         \<or> item \<noteq> '''' \<and> code \<noteq> item \<or> barcode \<noteq> '''' \<and> code \<noteq> barcode \<or> loc \<noteq> '''' \<and> place \<noteq> loc))"

definition balance_limit :: "request \<Rightarrow> nat" where
  "balance_limit q = (case parse_int64 (rq_query q ''limit'') of
     Some n \<Rightarrow> if 0 < sint n \<and> sint n \<le> 100 then nat (sint n) else 50 | None \<Rightarrow> 50)"

definition filter_balances :: "balance list \<Rightarrow> request \<Rightarrow> balance list" where
  "filter_balances bs q = take (balance_limit q) (filter (balance_matches q) bs)"

definition variance_state :: "int64 option \<Rightarrow> string" where
  "variance_state v = (case v of None \<Rightarrow> ''NONE''
     | Some d \<Rightarrow> if i64_less d 0 then ''UNDER'' else if i64_less 0 d then ''OVER'' else ''NONE'')"

definition count_line_view :: "bool \<Rightarrow> count_line \<Rightarrow> json" where
  "count_line_view blind l =
     (let off = (cl_variance l \<noteq> None \<and> cl_variance l \<noteq> Some 0) in
      go_map ([(''lineId'', JStr (cl_id l)), (''itemId'', JStr (cl_item l)),
        (''countedQuantity'', json_opt json_int64 (cl_counted l)), (''variance'', json_opt json_int64 (cl_variance l)),
        (''varianceState'', JStr (variance_state (cl_variance l))), (''reviewRequired'', JBool off),
        (''approvalRequired'', JBool off), (''recountRequired'', JBool (cl_recount l))]
        @ (if blind then [] else [(''systemQuantity'', json_int64 (cl_expected l))])))"

definition count_members :: "count_task \<Rightarrow> members" where
  "count_members t = [(''taskId'', JStr (ct_id t)), (''warehouseId'', JStr (ct_warehouse t)),
     (''locationId'', JStr (ct_location t)), (''status'', JStr (ct_status t)),
     (''assignedOperatorId'', json_opt JStr (ct_operator t)), (''version'', json_int64 (ct_version t)),
     (''blindCount'', JBool (ct_blind t)), (''tolerance'', json_int64 (ct_tolerance t)),
     (''lines'', JArr (map (count_line_view (ct_blind t)) (ct_lines t))), (''updatedAt'', JTime (ct_updated t)),
     (''asOf'', JTime (ct_updated t))]"

definition count_view :: "count_task \<Rightarrow> json" where
  "count_view t = go_map (count_members t)"

definition readiness_text :: "bool \<Rightarrow> string" where
  "readiness_text b = (if b then ''READY'' else ''BLOCKED'')"

definition readiness_view :: "readiness_report \<Rightarrow> json" where
  "readiness_view r = go_map [(''readinessStatus'', JStr (readiness_text (rd_ready r))), (''ready'', JBool (rd_ready r)),
     (''blockingReasons'', json_slice JStr (rd_blocking r)), (''asOf'', JTime (rd_as_of r)), (''stale'', JBool False)]"

definition shipping_members :: "shipment \<Rightarrow> members" where
  "shipping_members s =
     (let r = readiness s in
      [(''shipmentId'', JStr (sh_id s)), (''salesOrderId'', JStr (sh_order s)), (''customer'', JNull), (''shipTo'', JNull),
       (''packageCount'', JInt (int (length (sh_packages s)))),
       (''verifiedPackageCount'', JInt (int (length (filter package_closed (sh_packages s))))),
       (''carrierCode'', JStr (case sh_carrier s of None \<Rightarrow> '''' | Some c \<Rightarrow> c)),
       (''trackingNumber'', json_opt JStr (sh_tracking s)), (''readinessStatus'', JStr (readiness_text (rd_ready r))),
       (''blockingReasons'', json_slice JStr (rd_blocking r)), (''status'', JStr (sh_status s)),
       (''version'', json_int64 (sh_version s)), (''packages'', json_slice package_json (sh_packages s)),
       (''asOf'', JTime (sh_updated s)), (''manifestReference'', JNull)])"

definition shipping_view :: "shipment \<Rightarrow> json" where
  "shipping_view s = go_map (shipping_members s)"

section \<open>The status of a command\<close>

definition aggregate_id :: "json \<Rightarrow> string" where
  "aggregate_id result =
     (let ids = map (str_of (data_fields result)) [''taskId'', ''id'', ''shipmentId'', ''transferId'', ''commandId''] in
      case find (\<lambda>i. i \<noteq> '''') ids of Some i \<Rightarrow> i | None \<Rightarrow> '''')"

definition canonical_command :: "uuid \<Rightarrow> string \<Rightarrow> string \<Rightarrow> json \<Rightarrow> json" where
  "canonical_command cid operation status result =
     go_map [(''commandId'', JUuid cid), (''idempotencyKey'', JUuid cid), (''operation'', JStr operation),
       (''type'', JStr operation), (''status'', JStr status), (''aggregateId'', JStr (aggregate_id result)),
       (''version'', JNull), (''result'', result), (''errorCode'', JNull), (''correlationId'', JNull),
       (''processedAt'', JNull)]"

definition command_lookup_miss :: "err \<Rightarrow> bool" where
  "command_lookup_miss e \<longleftrightarrow> (case errors_as_domain e of
     Some (code, _) \<Rightarrow> code \<in> {''TASK_NOT_FOUND'', ''INVENTORY_NOT_FOUND'', ''SHIPMENT_NOT_FOUND'', ''COMMAND_NOT_FOUND''}
   | None \<Rightarrow> False)"

end
