(* ===== verification/Gateway_Router.thy ===== *)
theory Gateway_Router
  imports Gateway_Views
begin

text \<open>
  The gateway's router (\<open>internal/gateway/adapters/http/router.go\<close>) over the operation interfaces of
  \<open>internal/gateway/ports/operations.go\<close>, and its handlers for sessions, devices, tasks, receiving and
  command status. \<open>cmd/pda-api-gateway\<close> hands the router every interface but the trace, so only that
  one, the delivery acknowledger and the WMS task routes may be absent. An operation gives a value or
  an error; a value next to an error is not looked at.
\<close>

section \<open>Operations\<close>

record 's task_ops =
  to_status :: "uuid \<Rightarrow> actor \<Rightarrow> ('s, idempotency_result) prog"
  to_list :: "task_filter \<Rightarrow> actor \<Rightarrow> ('s, task_page) prog"
  to_detail :: "string \<Rightarrow> actor \<Rightarrow> ('s, task) prog"
  to_summary :: "string \<Rightarrow> string \<Rightarrow> actor \<Rightarrow> ('s, summary_item list) prog"
  to_dashboard :: "actor \<Rightarrow> ('s, dashboard) prog"
  to_claim :: "task_command \<Rightarrow> ('s, task) prog"
  to_release :: "task_command \<Rightarrow> ('s, task) prog"

text \<open>The last three are optional interfaces of an implementation.\<close>

record 's receiving_ops =
  ro_list :: "rv_filter \<Rightarrow> actor \<Rightarrow> ('s, rv_page) prog"
  ro_detail :: "string \<Rightarrow> actor \<Rightarrow> ('s, receiving) prog"
  ro_claim :: "rv_command \<Rightarrow> ('s, receiving) prog"
  ro_resolve :: "string \<Rightarrow> string \<Rightarrow> actor \<Rightarrow> ('s, rline) prog"
  ro_start :: "rv_command \<Rightarrow> ('s, receiving) prog"
  ro_confirm :: "rv_confirm \<Rightarrow> ('s, receiving) prog"
  ro_complete :: "rv_command \<Rightarrow> ('s, receiving) prog"
  ro_status :: "uuid \<Rightarrow> actor \<Rightarrow> ('s, rv_command_status) prog"
  ro_symbology :: "(string \<Rightarrow> string \<Rightarrow> string \<Rightarrow> actor \<Rightarrow> ('s, rline) prog) option"
  ro_context :: "(string \<Rightarrow> string \<Rightarrow> string \<Rightarrow> string \<Rightarrow> actor \<Rightarrow> ('s, rline) prog) option"
  ro_batch :: "(rv_batch_confirm \<Rightarrow> ('s, receiving) prog) option"

record 's putaway_ops =
  pa_list :: "actor \<Rightarrow> ('s, movement list) prog"
  pa_detail :: "string \<Rightarrow> actor \<Rightarrow> ('s, movement) prog"
  pa_claim :: "mv_command \<Rightarrow> ('s, movement) prog"
  pa_start :: "mv_command \<Rightarrow> ('s, movement) prog"
  pa_suggestions :: "string \<Rightarrow> actor \<Rightarrow> ('s, location list) prog"
  pa_source :: "mv_command \<Rightarrow> string \<Rightarrow> ('s, movement) prog"
  pa_lpn :: "mv_command \<Rightarrow> string \<Rightarrow> ('s, movement) prog"
  pa_item :: "mv_command \<Rightarrow> string \<Rightarrow> ('s, movement) prog"
  pa_lot :: "mv_command \<Rightarrow> string \<Rightarrow> ('s, movement) prog"
  pa_destination :: "mv_command \<Rightarrow> string \<Rightarrow> ('s, movement) prog"
  pa_confirm :: "mv_command \<Rightarrow> int64 \<Rightarrow> ('s, movement) prog"
  pa_group :: "mv_command \<Rightarrow> ('s, movement) prog"

record 's picking_ops =
  pi_list :: "actor \<Rightarrow> ('s, movement list) prog"
  pi_detail :: "string \<Rightarrow> actor \<Rightarrow> ('s, movement) prog"
  pi_claim :: "mv_command \<Rightarrow> ('s, movement) prog"
  pi_start :: "mv_command \<Rightarrow> ('s, movement) prog"
  pi_allocate :: "mv_command \<Rightarrow> ('s, movement) prog"
  pi_location :: "mv_command \<Rightarrow> string \<Rightarrow> ('s, movement) prog"
  pi_barcode :: "mv_command \<Rightarrow> string \<Rightarrow> ('s, movement) prog"
  pi_lot :: "mv_command \<Rightarrow> string \<Rightarrow> ('s, movement) prog"
  pi_destination :: "mv_command \<Rightarrow> string \<Rightarrow> ('s, movement) prog"
  pi_confirm :: "mv_command \<Rightarrow> int64 \<Rightarrow> ('s, movement) prog"
  pi_complete :: "mv_command \<Rightarrow> ('s, movement) prog"

record 's replenishment_ops =
  rn_list :: "actor \<Rightarrow> ('s, movement list) prog"
  rn_detail :: "string \<Rightarrow> actor \<Rightarrow> ('s, movement) prog"
  rn_source :: "mv_command \<Rightarrow> string \<Rightarrow> ('s, movement) prog"
  rn_destination :: "mv_command \<Rightarrow> string \<Rightarrow> ('s, movement) prog"
  rn_item :: "mv_command \<Rightarrow> string \<Rightarrow> ('s, movement) prog"
  rn_confirm :: "mv_command \<Rightarrow> int64 \<Rightarrow> ('s, movement) prog"

record 's inventory_ops =
  io_search :: "string \<Rightarrow> actor \<Rightarrow> ('s, balance list) prog"
  io_balances :: "string \<Rightarrow> string \<Rightarrow> actor \<Rightarrow> ('s, balance list) prog"
  io_movements :: "string \<Rightarrow> string \<Rightarrow> actor \<Rightarrow> ('s, stock_move list) prog"
  io_validate :: "transfer_command \<Rightarrow> ('s, unit) prog"
  io_transfer :: "transfer_command \<Rightarrow> ('s, transfer) prog"
  io_status :: "uuid \<Rightarrow> actor \<Rightarrow> ('s, inv_result) prog"
  io_counts :: "actor \<Rightarrow> ('s, count_task list) prog"
  io_count :: "string \<Rightarrow> actor \<Rightarrow> ('s, count_task) prog"
  io_location :: "string \<Rightarrow> string \<Rightarrow> actor \<Rightarrow> ('s, unit) prog"
  io_item :: "string \<Rightarrow> string \<Rightarrow> string \<Rightarrow> actor \<Rightarrow> ('s, unit) prog"
  io_submit :: "string \<Rightarrow> string \<Rightarrow> int64 \<Rightarrow> inv_command \<Rightarrow> ('s, count_task) prog"
  io_recount :: "string \<Rightarrow> string \<Rightarrow> inv_command \<Rightarrow> ('s, count_task) prog"
  io_complete :: "string \<Rightarrow> inv_command \<Rightarrow> ('s, count_task) prog"
  io_count_status :: "uuid \<Rightarrow> actor \<Rightarrow> ('s, inv_result) prog"

record 's shipping_ops =
  so_summary :: "string \<Rightarrow> actor \<Rightarrow> ('s, shipment) prog"
  so_readiness :: "string \<Rightarrow> actor \<Rightarrow> ('s, readiness_report) prog"
  so_verify :: "verify_command \<Rightarrow> ('s, shipment) prog"
  so_confirm :: "sh_command \<Rightarrow> ('s, shipment) prog"
  so_status :: "uuid \<Rightarrow> actor \<Rightarrow> ('s, sh_result) prog"

text \<open>The services of the backend as operations.\<close>

definition answer :: "('s \<Rightarrow> 'a reply \<times> 's) \<Rightarrow> ('s, 'a) prog" where
  "answer f s = (case f s of (rep, s1) \<Rightarrow>
     (case rep of Done x \<Rightarrow> (Inr x, s1) | Failed e \<Rightarrow> (Inl e, s1) | DonePending x e \<Rightarrow> (Inl e, s1)))"

definition task_service :: "'s task_ports \<Rightarrow> 's task_ops" where
  "task_service P = \<lparr>to_status = command_status P, to_list = list_tasks P, to_detail = detail P,
     to_summary = Exec_Service.summary P, to_dashboard = get_dashboard P,
     to_claim = \<lambda>c. answer (claim_task P c), to_release = \<lambda>c. answer (release_task P c)\<rparr>"

definition receiving_service :: "'s rv_ports \<Rightarrow> 's receiving_ops" where
  "receiving_service P = \<lparr>ro_list = rv_list P, ro_detail = rv_detail P, ro_claim = \<lambda>c. answer (claim_receiving P c),
     ro_resolve = rv_resolve_barcode P, ro_start = \<lambda>c. answer (start_receiving P c),
     ro_confirm = \<lambda>c. answer (confirm_receiving P c), ro_complete = \<lambda>c. answer (complete_receiving P c),
     ro_status = rv_command_status_of P, ro_symbology = None, ro_context = None, ro_batch = None\<rparr>"

definition putaway_service :: "'s mv_ports \<Rightarrow> 's putaway_ops" where
  "putaway_service P = \<lparr>pa_list = putaway_list P, pa_detail = putaway_detail P,
     pa_claim = \<lambda>c. answer (putaway_claim P c), pa_start = \<lambda>c. answer (putaway_start P c),
     pa_suggestions = putaway_suggestions P, pa_source = \<lambda>c v. answer (putaway_validate_source P c v),
     pa_lpn = \<lambda>c v. answer (putaway_validate_lpn P c v), pa_item = \<lambda>c v. answer (putaway_validate_item P c v),
     pa_lot = \<lambda>c v. answer (putaway_validate_lot P c v),
     pa_destination = \<lambda>c v. answer (putaway_validate_destination P c v),
     pa_confirm = \<lambda>c n. answer (putaway_confirm P c n), pa_group = \<lambda>c. answer (putaway_confirm_group P c)\<rparr>"

definition picking_service :: "'s mv_ports \<Rightarrow> 's picking_ops" where
  "picking_service P = \<lparr>pi_list = picking_list P, pi_detail = picking_detail P,
     pi_claim = \<lambda>c. answer (picking_claim P c), pi_start = \<lambda>c. answer (picking_start P c),
     pi_allocate = picking_allocate P, pi_location = \<lambda>c v. answer (picking_validate_location P c v),
     pi_barcode = \<lambda>c v. answer (picking_resolve_barcode P c v), pi_lot = \<lambda>c v. answer (picking_validate_lot P c v),
     pi_destination = \<lambda>c v. answer (picking_validate_destination P c v),
     pi_confirm = \<lambda>c n. answer (picking_confirm P c n), pi_complete = \<lambda>c. answer (picking_finish P c)\<rparr>"

definition replenishment_service :: "'s mv_ports \<Rightarrow> 's replenishment_ops" where
  "replenishment_service P = \<lparr>rn_list = replenishment_list P, rn_detail = replenishment_detail P,
     rn_source = \<lambda>c v. answer (replenishment_validate_source P c v),
     rn_destination = \<lambda>c v. answer (replenishment_validate_destination P c v),
     rn_item = \<lambda>c v. answer (replenishment_validate_item P c v),
     rn_confirm = \<lambda>c n. answer (replenishment_confirm P c n)\<rparr>"

definition inventory_service :: "'s inv_ports \<Rightarrow> 's inventory_ops" where
  "inventory_service P = \<lparr>io_search = inv_search P, io_balances = inv_balances P, io_movements = inv_movements P,
     io_validate = validate_transfer P, io_transfer = \<lambda>c. answer (inv_transfer P c),
     io_status = inv_command_status P, io_counts = list_counts P, io_count = count_detail P,
     io_location = validate_count_location P, io_item = validate_count_item P,
     io_submit = \<lambda>i l n c. answer (submit_count P i l n c), io_recount = \<lambda>i l c. answer (recount_count P i l c),
     io_complete = \<lambda>i c. answer (complete_count P i c), io_count_status = count_command_status P\<rparr>"

definition shipping_service :: "'s sh_ports \<Rightarrow> 's shipping_ops" where
  "shipping_service P = \<lparr>so_summary = sh_summary P, so_readiness = sh_readiness P,
     so_verify = \<lambda>c. answer (sh_verify_package P c), so_confirm = \<lambda>c. answer (sh_confirm_shipment P c),
     so_status = sh_command_status P\<rparr>"

section \<open>The router\<close>

text \<open>\<open>gx_now\<close> is the router's clock, \<open>gx_wall\<close> is \<open>time.Now\<close>, which \<open>writeError\<close> reads; \<open>gx_get\<close> is the
  HTTP client (status and body of a GET, \<open>None\<close> when it failed), \<open>gx_base\<close> the configured address of
  the WMS, \<open>gx_range\<close> the order in which the runtime ranges over a map. \<open>gx_events\<close>, the stream of
  events, and \<open>gx_wms\<close>, the routes of the WMS task service, are handlers of their own.\<close>

record 's router =
  gx_identity :: "'s id_ports"
  gx_tasks :: "'s task_ops"
  gx_receiving :: "'s receiving_ops"
  gx_putaway :: "'s putaway_ops"
  gx_picking :: "'s picking_ops"
  gx_replenishment :: "'s replenishment_ops"
  gx_movement_status :: "uuid \<Rightarrow> actor \<Rightarrow> ('s, mv_command_result) prog"
  gx_inventory :: "'s inventory_ops"
  gx_shipping :: "'s shipping_ops"
  gx_trace :: "(string \<Rightarrow> actor \<Rightarrow> ('s, json) prog) option"
  gx_ack :: "(string \<Rightarrow> actor \<Rightarrow> time \<Rightarrow> ('s, unit) prog) option"
  gx_events :: "request \<Rightarrow> ('s, response) prog"
  gx_wms :: "(request \<Rightarrow> ('s, response) prog) option"
  gx_settings :: settings
  gx_now :: "'s \<Rightarrow> time \<times> 's"
  gx_wall :: "'s \<Rightarrow> time \<times> 's"
  gx_new_uuid :: "'s \<Rightarrow> uuid \<times> 's"
  gx_uuid_string :: "uuid \<Rightarrow> string"
  gx_parsers :: parsers
  gx_base :: string
  gx_get :: "string \<Rightarrow> ('s, (int \<times> raw_message) option) prog"
  gx_range :: "string list \<Rightarrow> string list"
  gx_other :: json

type_synonym 's handler = "'s router \<Rightarrow> request \<Rightarrow> ('s, response) prog"

definition nowP :: "'s router \<Rightarrow> ('s, time) prog" where
  "nowP R = (\<lambda>s. case gx_now R s of (t, s1) \<Rightarrow> (Inr t, s1))"

definition reply :: "'s router \<Rightarrow> request \<Rightarrow> int \<Rightarrow> json \<Rightarrow> ('s, response) prog" where
  "reply R q status data = bindP (nowP R) (\<lambda>t. returnP (write_data status data (rq_correlation q) t))"

definition actor_of :: "request \<Rightarrow> actor" where
  "actor_of q = \<lparr>ac_operator = op_id (rq_operator q), ac_device = rq_header q ''X-Device-Id'',
     ac_warehouse = rq_header q ''X-Warehouse-Id'', ac_correlation = rq_correlation q\<rparr>"

abbreviation body_of :: "'s router \<Rightarrow> (string \<times> field) list \<Rightarrow> request \<Rightarrow> err + members" where
  "body_of R fs q \<equiv> decode_body (gx_parsers R) fs q"

end
