(* ===== verification/Gateway_Sessions.thy ===== *)
theory Gateway_Sessions
  imports Gateway_Router
begin

text \<open>
  The session and device handlers of \<open>internal/gateway/adapters/http/router.go\<close> and the profile data they
  answer with: login, refresh, logout, profile, warehouses, device registration, bootstrap, and the
  optional read of the operator's assignments from the WMS.
\<close>

section \<open>Assignments read from the WMS\<close>

text \<open>\<open>url.QueryEscape\<close> and \<open>url.PathEscape\<close>.\<close>

definition unreserved :: "char \<Rightarrow> bool" where
  "unreserved c \<longleftrightarrow> (let n = (of_char c :: nat) in
     65 \<le> n \<and> n \<le> 90 \<or> 97 \<le> n \<and> n \<le> 122 \<or> 48 \<le> n \<and> n \<le> 57) \<or> c \<in> set ''-_.~''"

definition percent :: "char \<Rightarrow> string" where
  "percent c = (let n = (of_char c :: nat); hex = ''0123456789ABCDEF'' in [CHR 0x25, hex ! (n div 16), hex ! (n mod 16)])"

definition query_escape :: "string \<Rightarrow> string" where
  "query_escape s = concat (map (\<lambda>c. if unreserved c then [c] else if c = CHR '' '' then ''+'' else percent c) s)"

definition path_escape :: "string \<Rightarrow> string" where
  "path_escape s = concat (map (\<lambda>c. if unreserved c \<or> c \<in> set ''$&+=:@'' then [c] else percent c) s)"

text \<open>\<open>localizedAssignmentName\<close>: a plain text, or the first non-blank one of the preferred languages,
  or of any language.\<close>

fun string_map :: "members \<Rightarrow> members option" where
  "string_map [] = Some []"
| "string_map ((k, v) # ms) = (case v of
     JStr s \<Rightarrow> map_option ((#) (k, v)) (string_map ms)
   | JNull \<Rightarrow> map_option ((#) (k, JStr '''')) (string_map ms)
   | _ \<Rightarrow> None)"

definition first_text :: "string list \<Rightarrow> string" where
  "first_text xs = (case find (\<lambda>x. x \<noteq> '''') (map trim_space xs) of Some x \<Rightarrow> x | None \<Rightarrow> '''')"

definition localized_name :: "(string list \<Rightarrow> string list) \<Rightarrow> json option \<Rightarrow> string" where
  "localized_name order raw = (case raw of
     Some (JStr s) \<Rightarrow> trim_space s
   | Some (JObj ms) \<Rightarrow> (case string_map ms of
       None \<Rightarrow> ''''
     | Some values \<Rightarrow> (let at_key = (\<lambda>k. str_of (rev values) k) in
         first_text (map at_key [''vi'', ''en'', ''ja'', ''ko''] @ map at_key (order (remdups (map fst values))))))
   | _ \<Rightarrow> '''')"

record assignments =
  as_warehouses :: "(string \<times> string) list"
  as_areas :: "(string \<times> string) list"

text \<open>The payload of the operator query: the first entry of \<open>data\<close>, decoded leniently.\<close>

record access_entry =
  ae_warehouse_ids :: "string list"
  ae_zone_ids :: "string list"
  ae_warehouses :: "(string \<times> json option) list"
  ae_zones :: "(string \<times> json option) list"

definition id_name_rows :: "members \<Rightarrow> string \<Rightarrow> (string \<times> json option) list" where
  "id_name_rows ms k = map (\<lambda>r. (str_of r ''id'', map_of r ''name'')) (rows_of ms k)"

definition access_entry_of :: "members \<Rightarrow> access_entry" where
  "access_entry_of ms = \<lparr>ae_warehouse_ids = strs_of ms ''warehouse_ids'', ae_zone_ids = strs_of ms ''zone_ids'',
     ae_warehouses = id_name_rows ms ''warehouse_assignments'', ae_zones = id_name_rows ms ''zone_assignments''\<rparr>"

definition access_fields :: "(string \<times> field) list" where
  "access_fields = [(''warehouse_ids'', Plain KStrs), (''zone_ids'', Plain KStrs),
     (''warehouse_assignments'', KRows [(''id'', KStr), (''name'', KRaw)]),
     (''zone_assignments'', KRows [(''id'', KStr), (''name'', KRaw)])]"

definition first_access :: "parsers \<Rightarrow> raw_message \<Rightarrow> access_entry option" where
  "first_access px b = (case b of
     RawJSON j \<Rightarrow>
       (case decode_object False (\<lambda>fs. decode_rows False (decode_field False px) fs) [(''data'', access_fields)] j of
          (ok, ms) \<Rightarrow> (case rows_of ms ''data'' of
             [] \<Rightarrow> None | r # rs \<Rightarrow> if ok then Some (access_entry_of r) else None))
   | _ \<Rightarrow> None)"

definition success_body :: "(int \<times> raw_message) option \<Rightarrow> raw_message option" where
  "success_body r = (case r of Some (code, b) \<Rightarrow> if code < 200 \<or> 300 \<le> code then None else Some b | None \<Rightarrow> None)"

definition warehouse_name_of :: "warehouse list \<Rightarrow> string \<Rightarrow> string" where
  "warehouse_name_of ws i = (case find (\<lambda>w. wh_id w = i) (rev ws) of Some w \<Rightarrow> wh_name w | None \<Rightarrow> '''')"

definition assigned_warehouses ::
    "(string list \<Rightarrow> string list) \<Rightarrow> warehouse list \<Rightarrow> access_entry \<Rightarrow> (string \<times> string) list" where
  "assigned_warehouses order ws a =
     (if ae_warehouses a \<noteq> []
      then map (\<lambda>(i, n). (i, first_of (localized_name order n) (warehouse_name_of ws i))) (ae_warehouses a)
      else map (\<lambda>i. (i, warehouse_name_of ws i)) (ae_warehouse_ids a))"

text \<open>The name of a zone is asked for one by one; whatever goes wrong leaves its id.\<close>

definition zone_name ::
    "parsers \<Rightarrow> (string list \<Rightarrow> string list) \<Rightarrow> string \<Rightarrow> (int \<times> raw_message) option \<Rightarrow> string" where
  "zone_name px order i got = (case success_body got of
     Some (RawJSON j) \<Rightarrow>
       (case decode_object False (decode_kind px) [(''zone_code'', KStr), (''zone_name'', KRaw)] j of
          (ok, ms) \<Rightarrow>
            (let localized = localized_name order (map_of ms ''zone_name''); code = str_of ms ''zone_code'' in
             if \<not> ok then i else if localized \<noteq> [] then localized else if trim_space code \<noteq> [] then code else i))
   | _ \<Rightarrow> i)"

definition zone_areas :: "'s router \<Rightarrow> string list \<Rightarrow> ('s, (string \<times> string) list) prog" where
  "zone_areas R ids = mapP (\<lambda>i.
     bindP (gx_get R (gx_base R @ ''/api/wms/master-data/zones/'' @ path_escape i)) (\<lambda>r.
     returnP (i, zone_name (gx_parsers R) (gx_range R) i r))) ids"

definition operator_assignments :: "'s router \<Rightarrow> operator \<Rightarrow> warehouse list \<Rightarrow> ('s, assignments) prog" where
  "operator_assignments R p ws =
     (let own = \<lparr>as_warehouses = map (\<lambda>w. (wh_id w, wh_name w)) ws, as_areas = []\<rparr> in
      if gx_base R = '''' then returnP own
      else bindP (gx_get R (gx_base R
             @ ''/api/wms/master-data/operator-access/operators?account_type=PDA_APP&login_username=''
             @ query_escape (op_username p) @ ''&limit=1'')) (\<lambda>r.
        case (case success_body r of Some b \<Rightarrow> first_access (gx_parsers R) b | None \<Rightarrow> None) of
          None \<Rightarrow> returnP own
        | Some a \<Rightarrow>
            (let whs = assigned_warehouses (gx_range R) ws a in
             if ae_zones a \<noteq> [] then returnP \<lparr>as_warehouses = whs,
               as_areas = map (\<lambda>(i, n). (i, first_of (localized_name (gx_range R) n) i)) (ae_zones a)\<rparr>
             else bindP (zone_areas R (ae_zone_ids a)) (\<lambda>areas.
               returnP \<lparr>as_warehouses = whs, as_areas = areas\<rparr>))))"

section \<open>Session data\<close>

definition id_name_json :: "string \<times> string \<Rightarrow> json" where
  "id_name_json x = (case x of (i, n) \<Rightarrow> go_map [(''id'', JStr i), (''name'', JStr n)])"

text \<open>A \<open>time.Duration\<close> saturates; its seconds are truncated.\<close>

definition seconds_left :: "time \<Rightarrow> time \<Rightarrow> int" where
  "seconds_left until now =
     (if is_zero until then 0 else max 0 (max min_int64 (min max_int64 (until - now)) div 1000000000))"

definition operator_members :: "operator \<Rightarrow> members" where
  "operator_members p = [(''operatorId'', JStr (op_id p)), (''employeeCode'', JStr (op_employee p)),
     (''displayName'', JStr (op_display p)), (''roles'', json_slice JStr (op_roles p)),
     (''permissions'', json_slice JStr (op_permissions p)), (''shiftCode'', JStr (op_shift p))]"

definition policy_members :: members where
  "policy_members = [(''featureFlags'', JObj []), (''scannerPolicy'', JObj []),
     (''localePolicy'', JArr [JStr ''en-US'', JStr ''vi-VN''])]"

definition assignment_members :: "assignments \<Rightarrow> members" where
  "assignment_members a = [(''warehouseAssignments'', JArr (map id_name_json (as_warehouses a))),
     (''areaAssignments'', JArr (map id_name_json (as_areas a)))]"

definition session_data :: "'s router \<Rightarrow> operator \<Rightarrow> session \<Rightarrow> string \<Rightarrow> string \<Rightarrow> ('s, json) prog" where
  "session_data R p se device wh =
     bindP (operator_warehouses (gx_identity R) p) (\<lambda>ws.
     bindP (device_status (gx_identity R) p device wh) (\<lambda>status.
     bindP (operator_assignments R p ws) (\<lambda>a.
     bindP (if is_zero (se_expires se) then returnP time_zero else nowP R) (\<lambda>now.
     returnP (go_map (operator_members p @ policy_members @ assignment_members a @
       [(''accessToken'', JStr (se_access se)), (''refreshToken'', JStr (se_refresh se)), (''tokenType'', JStr ''Bearer''),
        (''expiresAt'', JTime (se_expires se)), (''accessTokenExpiresIn'', JInt (seconds_left (se_expires se) now)),
        (''refreshTokenExpiresAt'', JTime (se_refresh_expires se)), (''username'', JStr (op_username p)),
        (''warehouseId'', JStr wh),
        (''warehouseName'', JStr (case find (\<lambda>w. wh_id w = wh) ws of Some w \<Rightarrow> wh_name w | None \<Rightarrow> '''')),
        (''deviceRegistrationStatus'', JStr status)]))))))"

section \<open>Handlers\<close>

definition login_fields :: "(string \<times> field) list" where
  "login_fields = map (\<lambda>k. (k, Plain KStr)) [''username'', ''password'', ''deviceId'', ''deviceModel'',
     ''appVersion'', ''warehouseId'', ''locale'']"

definition handle_login :: "'s handler" where
  "handle_login R q = (case decode_struct (gx_parsers R) login_fields (rq_body q) of (ok, x) \<Rightarrow>
     bindP (checkP (\<not> ok \<or> blank (str_of x ''username'') \<or> str_of x ''password'' = '''')
        (invalid_request ''Username and password are required'')) (\<lambda>_.
     bindP (checkP (str_of x ''locale'' \<notin> {'''', ''en-US'', ''vi-VN''}) (invalid_request ''Unsupported language'')) (\<lambda>_.
     bindP (login_session_context (gx_identity R) (trim_space (str_of x ''username'')) (str_of x ''password'')
        (str_of x ''deviceId'') (str_of x ''warehouseId'') (rq_correlation q)) (\<lambda>(se, p).
     bindP (session_data R p se (str_of x ''deviceId'') (str_of x ''warehouseId'')) (reply R q 200)))))"

definition bearer :: "string \<Rightarrow> string" where
  "bearer header = (if has_prefix header ''Bearer '' then drop 7 header else header)"

definition zero_operator :: operator where
  "zero_operator = \<lparr>op_id = '''', op_employee = '''', op_username = '''', op_display = '''', op_password = '''',
     op_hash = '''', op_roles = [], op_permissions = [], op_warehouses = [], op_shift = '''', op_active = False\<rparr>"

text \<open>The old form of a refresh, with the access token in the header: the new token is tried out, and
  the operator is empty when that fails.\<close>

definition header_refresh :: "'s router \<Rightarrow> string \<Rightarrow> ('s, session \<times> operator) prog" where
  "header_refresh R header =
     bindP (checkP (\<not> has_prefix header ''Bearer '') AuthUnauthorized) (\<lambda>_.
     bindP (tryP (refresh_token (gx_identity R) (bearer header))) (\<lambda>r.
     bindP (nowP R) (\<lambda>t.
     bindP (tryP (authenticate_token (gx_identity R) (case r of Inr token \<Rightarrow> token | Inl _ \<Rightarrow> ''''))) (\<lambda>o'.
     case r of
       Inl e \<Rightarrow> failP e
     | Inr token \<Rightarrow> returnP (\<lparr>se_access = token, se_refresh = '''', se_expires = t + one_hour,
         se_refresh_expires = time_zero, se_device = '''', se_warehouse = ''''\<rparr>,
         case o' of Inr p \<Rightarrow> p | Inl _ \<Rightarrow> zero_operator)))))"

definition handle_refresh :: "'s handler" where
  "handle_refresh R q =
     bindP (if rq_length q \<noteq> 0
            then liftE (body_of R [(''refreshToken'', Plain KStr), (''deviceId'', Plain KStr)] q) else returnP []) (\<lambda>x.
     bindP (if str_of x ''refreshToken'' \<noteq> ''''
            then refresh_session_context (gx_identity R) (str_of x ''refreshToken'') (str_of x ''deviceId'')
            else header_refresh R (rq_header q ''Authorization'')) (\<lambda>(se, p).
     bindP (session_data R p se (first_of (se_device se) (str_of x ''deviceId'')) (se_warehouse se)) (reply R q 200)))"

text \<open>The body of a logout is read as far as it goes.\<close>

definition handle_logout :: "'s handler" where
  "handle_logout R q =
     (let x = (if 0 < rq_length q then snd (decode_struct (gx_parsers R) [(''refreshToken'', Plain KStr)] (rq_body q)) else []) in
      bindP (logout_context (gx_identity R) (bearer (rq_header q ''Authorization'')) (str_of x ''refreshToken'')) (\<lambda>_.
      returnP no_content))"

definition handle_operational :: "'s handler" where
  "handle_operational R q = reply R q 200 (go_map [(''status'', JStr ''UP''), (''service'', JStr ''pda-api-gateway'')])"

definition handle_me :: "'s handler" where
  "handle_me R q = (let p = rq_operator q in reply R q 200 (go_map (operator_members p @
     [(''username'', JStr (op_username p)), (''active'', JBool (op_active p))])))"

definition handle_warehouses :: "'s handler" where
  "handle_warehouses R q = bindP (operator_warehouses (gx_identity R) (rq_operator q)) (\<lambda>ws.
     reply R q 200 (JArr (map warehouse_json ws)))"

definition handle_register_device :: "'s handler" where
  "handle_register_device R q =
     (case decode_struct (gx_parsers R) [(''deviceId'', Plain KStr), (''warehouseId'', Plain KStr)] (rq_body q) of (ok, x) \<Rightarrow>
     bindP (checkP (\<not> ok \<or> str_of x ''deviceId'' = '''' \<or> str_of x ''warehouseId'' = '''')
        (invalid_request ''Device and warehouse are required'')) (\<lambda>_.
     bindP (register_device (gx_identity R) (rq_operator q) (str_of x ''deviceId'') (str_of x ''warehouseId'')
        (rq_correlation q)) (\<lambda>r. reply R q 201 (registration_json r))))"

definition handle_bootstrap :: "'s handler" where
  "handle_bootstrap R q =
     (let p = rq_operator q; device = rq_header q ''X-Device-Id''; wh = rq_header q ''X-Warehouse-Id'' in
      bindP (operator_warehouses (gx_identity R) p) (\<lambda>ws.
      bindP (device_status (gx_identity R) p device wh) (\<lambda>status.
      bindP (operator_assignments R p ws) (\<lambda>a.
      bindP (nowP R) (\<lambda>t.
      reply R q 200 (go_map (operator_members p @ policy_members @ assignment_members a @
        [(''warehouseId'', JStr wh), (''warehouses'', JArr (map warehouse_json ws)), (''deviceId'', JStr device),
         (''deviceRegistrationStatus'', JStr status), (''serverTime'', JTime t)])))))))"

end
