(* ===== verification/Gateway_Tasks.thy ===== *)
theory Gateway_Tasks
  imports Gateway_Sessions
begin

text \<open>
  The handlers of \<open>internal/gateway/adapters/http/router.go\<close> for warehouse tasks, receiving and the status
  of commands, the finished product trace (\<open>finished_product_trace.go\<close>) and the delivery
  acknowledgement (\<open>delivery_ack.go\<close>, its handler).
\<close>

section \<open>Commands in headers\<close>

text \<open>\<open>taskCommand\<close>, \<open>receivingBaseCommand\<close> and \<open>movementCommand\<close> have the same body: the
  idempotency key is a UUID and names the command, \<open>If-Match\<close> is the base version.\<close>

definition if_match :: "request \<Rightarrow> int64 option" where
  "if_match q = parse_int64 (trim_quotes (rq_header q ''If-Match''))"

definition base_command :: "'s router \<Rightarrow> request \<Rightarrow> err + uuid \<times> string \<times> int64" where
  "base_command R q = (let key = rq_header q ''Idempotency-Key'' in
     case px_uuid (gx_parsers R) key of
       None \<Rightarrow> Inl (invalid_request ''A UUID Idempotency-Key is required'')
     | Some i \<Rightarrow> (case if_match q of
           None \<Rightarrow> Inl (invalid_request ''A numeric If-Match version is required'')
         | Some v \<Rightarrow> Inr (i, key, v)))"

definition task_command_of :: "'s router \<Rightarrow> request \<Rightarrow> err + task_command" where
  "task_command_of R q = map_sum id (\<lambda>(i, key, v). \<lparr>tc_task = rq_param q ''taskId'', tc_key = key, tc_id = i,
     tc_base_version = v, tc_actor = actor_of q\<rparr>) (base_command R q)"

definition rv_command_of :: "'s router \<Rightarrow> request \<Rightarrow> err + rv_command" where
  "rv_command_of R q = map_sum id (\<lambda>(i, key, v). \<lparr>rc_id = i, rc_key = key, rc_task = rq_param q ''taskId'',
     rc_base_version = v, rc_actor = actor_of q\<rparr>) (base_command R q)"

section \<open>Tasks\<close>

definition handle_dashboard :: "'s handler" where
  "handle_dashboard R q = bindP (to_dashboard (gx_tasks R) (actor_of q)) (\<lambda>d. reply R q 200 (dashboard_json d))"

definition handle_task_summary :: "'s handler" where
  "handle_task_summary R q =
     bindP (to_summary (gx_tasks R) (rq_header q ''X-Warehouse-Id'') (rq_query q ''status'') (actor_of q)) (\<lambda>xs.
     reply R q 200 (JArr (map summary_json xs)))"

definition task_filter_of :: "request \<Rightarrow> task_filter" where
  "task_filter_of q = \<lparr>tf_warehouse = rq_header q ''X-Warehouse-Id'', tf_operator = '''',
     tf_category = rq_query q ''category'', tf_status = rq_query q ''status'', tf_query = rq_query q ''q'',
     tf_cursor = rq_query q ''cursor'', tf_priority_min = atoi (rq_query q ''priorityMin''),
     tf_priority_max = atoi (rq_query q ''priorityMax''), tf_zone = rq_query q ''zone'',
     tf_date_from = rq_query q ''dateFrom'', tf_date_to = rq_query q ''dateTo'', tf_sort = rq_query q ''sort'',
     tf_direction = rq_query q ''direction'', tf_limit = atoi (rq_query q ''limit'')\<rparr>"

text \<open>A page is answered with one reading of the clock.\<close>

definition page_reply :: "'s router \<Rightarrow> request \<Rightarrow> json list \<Rightarrow> string option \<Rightarrow> ('s, response) prog" where
  "page_reply R q items cursor = bindP (nowP R) (\<lambda>t. returnP (write_data 200
     (go_map [(''items'', JArr items), (''nextCursor'', json_opt JStr cursor), (''asOf'', JTime t), (''stale'', JBool False)])
     (rq_correlation q) t))"

definition handle_tasks_list :: "'s handler" where
  "handle_tasks_list R q = bindP (to_list (gx_tasks R) (task_filter_of q) (actor_of q)) (\<lambda>page.
     page_reply R q (map (\<lambda>t. task_view t (op_id (rq_operator q))) (tp_tasks page)) (tp_next_cursor page))"

text \<open>A task the execution store does not know is looked up among the receiving tasks.\<close>

definition not_found_task :: "err \<Rightarrow> bool" where
  "not_found_task e \<longleftrightarrow> (case errors_as_domain e of Some (code, _) \<Rightarrow> code = ''TASK_NOT_FOUND'' | None \<Rightarrow> False)"

definition handle_task_detail :: "'s handler" where
  "handle_task_detail R q =
     (let i = rq_param q ''taskId''; p = op_id (rq_operator q) in
      bindP (tryP (to_detail (gx_tasks R) i (actor_of q))) (\<lambda>r.
      case r of
        Inr t \<Rightarrow> reply R q 200 (task_view t p)
      | Inl e \<Rightarrow>
          if not_found_task e
          then bindP (tryP (ro_detail (gx_receiving R) i (actor_of q))) (\<lambda>r2.
            case r2 of Inr t \<Rightarrow> reply R q 200 (receiving_task_view t p) | Inl _ \<Rightarrow> failP e)
          else failP e))"

definition task_mutation :: "(task_command \<Rightarrow> ('s, task) prog) \<Rightarrow> 's handler" where
  "task_mutation f R q = bindP (liftE (task_command_of R q)) (\<lambda>c. bindP (f c) (\<lambda>t. reply R q 200 (task_json t)))"

definition handle_claim_task :: "'s handler" where
  "handle_claim_task R q = task_mutation (to_claim (gx_tasks R)) R q"

definition handle_release_task :: "'s handler" where
  "handle_release_task R q = task_mutation (to_release (gx_tasks R)) R q"

section \<open>Receiving\<close>

definition rv_filter_of :: "request \<Rightarrow> rv_filter" where
  "rv_filter_of q = \<lparr>rf_warehouse = rq_header q ''X-Warehouse-Id'', rf_operator = '''', rf_status = rq_query q ''status'',
     rf_query = rq_query q ''q'', rf_cursor = rq_query q ''cursor'', rf_limit = atoi (rq_query q ''limit'')\<rparr>"

definition handle_receiving_list :: "'s handler" where
  "handle_receiving_list R q = bindP (ro_list (gx_receiving R) (rv_filter_of q) (actor_of q)) (\<lambda>page.
     page_reply R q (map receiving_view (rp_items page)) (rp_next_cursor page))"

definition handle_receiving_detail :: "'s handler" where
  "handle_receiving_detail R q = bindP (ro_detail (gx_receiving R) (rq_param q ''taskId'') (actor_of q)) (\<lambda>t.
     reply R q 200 (receiving_view t))"

definition receiving_mutation :: "(receiving \<Rightarrow> json) \<Rightarrow> (rv_command \<Rightarrow> ('s, receiving) prog) \<Rightarrow> 's handler" where
  "receiving_mutation view f R q = bindP (liftE (rv_command_of R q)) (\<lambda>c. bindP (f c) (\<lambda>t. reply R q 200 (view t)))"

definition handle_receiving_start :: "'s handler" where
  "handle_receiving_start R q = receiving_mutation receiving_json (ro_start (gx_receiving R)) R q"

definition handle_receiving_claim :: "'s handler" where
  "handle_receiving_claim R q = receiving_mutation receiving_view (ro_claim (gx_receiving R)) R q"

definition handle_receiving_complete :: "'s handler" where
  "handle_receiving_complete R q = receiving_mutation receiving_view (ro_complete (gx_receiving R)) R q"

definition barcode_fields :: "(string \<times> field) list" where
  "barcode_fields = [(''taskId'', Plain KStr), (''lineId'', Plain KStrPtr), (''rawValue'', Plain KStr),
     (''normalizedValue'', Plain KStr), (''barcode'', Plain KStr), (''symbology'', Plain KStr),
     (''scanContext'', Plain KStr), (''operatorId'', Plain KStr), (''warehouseId'', Plain KStr),
     (''deviceId'', Plain KStr), (''scannedAt'', Plain KTimePtr)]"

text \<open>The resolver is the most specific interface that the implementation offers.\<close>

definition resolve_scan ::
    "'s receiving_ops \<Rightarrow> string \<Rightarrow> string \<Rightarrow> string \<Rightarrow> string \<Rightarrow> actor \<Rightarrow> ('s, rline) prog" where
  "resolve_scan ops i barcode symbology scan_context a =
     (let kind = first_of (to_upper (trim_space symbology)) ''UNKNOWN'' in
      case ro_context ops of
        Some f \<Rightarrow> f i barcode kind scan_context a
      | None \<Rightarrow> (case ro_symbology ops of
            Some f \<Rightarrow> f i barcode kind a
          | None \<Rightarrow> ro_resolve ops i barcode a))"

definition scan_view :: "members \<Rightarrow> string \<Rightarrow> string \<Rightarrow> rline \<Rightarrow> json" where
  "scan_view x barcode scan_context l = go_map
     [(''lineId'', JStr (ln_id l)), (''itemId'', JStr (ln_item l)), (''sku'', JStr (ln_sku l)),
      (''itemName'', JStr (ln_item_name l)), (''barcode'', JStr (ln_barcode l)),
      (''rawValue'', JStr (str_of x ''rawValue'')), (''normalizedValue'', JStr barcode),
      (''symbology'', JStr (str_of x ''symbology'')), (''scanContext'', JStr scan_context),
      (''receiptVerified'', JBool (ln_verified l)),
      (''remainingQuantity'', json_int64 (ln_expected l - ln_received l)),
      (''quantityPolicy'', go_map [(''allowOverReceipt'', JBool False)]),
      (''nextStep'', JStr (if ln_verified l then ''SCAN_ITEM'' else ''CONFIRM_QUANTITY'')), (''taskVersion'', JNull),
      (''scannedAt'', json_opt JTime (time_ptr_of x ''scannedAt''))]"

definition other_than :: "string \<Rightarrow> string \<Rightarrow> bool" where
  "other_than given actual \<longleftrightarrow> given \<noteq> '''' \<and> given \<noteq> actual"

definition handle_receiving_barcode :: "'s handler" where
  "handle_receiving_barcode R q =
     (let i = rq_param q ''taskId''; a = actor_of q in
      bindP (liftE (body_of R barcode_fields q)) (\<lambda>x.
      let barcode = first_of (str_of x ''normalizedValue'') (str_of x ''barcode'');
          scan_context = first_of (str_of x ''scanContext'') ''RECEIVING_ITEM'' in
      bindP (checkP (barcode = '''') (invalid_request ''Barcode is required'')) (\<lambda>_.
      bindP (checkP (other_than (str_of x ''taskId'') i
            \<or> scan_context \<notin> {''RECEIVING_ITEM'', ''RECEIVING_LOT'', ''RECEIVING_LPN''})
          (wrong_context ''Barcode scan context is invalid'')) (\<lambda>_.
      bindP (checkP (other_than (str_of x ''operatorId'') (ac_operator a) \<or> other_than (str_of x ''warehouseId'') (ac_warehouse a)
            \<or> other_than (str_of x ''deviceId'') (ac_device a))
          (invalid_request ''Scanner context does not match the request headers'')) (\<lambda>_.
      bindP (resolve_scan (gx_receiving R) i barcode (str_of x ''symbology'') scan_context a) (\<lambda>l.
      reply R q 200 (scan_view x barcode scan_context l)))))))"

definition row_fields :: "(string \<times> kind) list" where
  "row_fields = [(''lineId'', KStr), (''line_id'', KStr), (''itemRevisionId'', KStr), (''item_revision_id'', KStr),
     (''lotCode'', KStr), (''lot_code'', KStr), (''uomCode'', KStr), (''uom_code'', KStr),
     (''actualQuantity'', KInt), (''actual_quantity'', KInt)]"

definition confirm_fields :: "(string \<times> field) list" where
  "confirm_fields = [(''commandId'', Plain KUuid), (''command_id'', Plain KUuid), (''idempotencyKey'', Plain KStr),
     (''idempotency_key'', Plain KStr), (''taskId'', Plain KStr), (''task_id'', Plain KStr), (''lineId'', Plain KStr),
     (''barcode'', Plain KStr), (''quantity'', Plain KInt), (''condition'', Plain KStr), (''remark'', Plain KStrPtr),
     (''baseVersion'', Plain KInt), (''base_version'', Plain KInt), (''scannedAt'', Plain KTimePtr),
     (''lines'', KRows row_fields)]"

definition batch_line_of :: "members \<Rightarrow> batch_line" where
  "batch_line_of r = \<lparr>bt_line = first_of (str_of r ''lineId'') (str_of r ''line_id''),
     bt_revision = first_of (str_of r ''itemRevisionId'') (str_of r ''item_revision_id''),
     bt_lot = first_of (str_of r ''lotCode'') (str_of r ''lot_code''),
     bt_uom = first_of (str_of r ''uomCode'') (str_of r ''uom_code''),
     bt_actual = (if int_of r ''actualQuantity'' = 0 then int_of r ''actual_quantity'' else int_of r ''actualQuantity'')\<rparr>"

text \<open>The input takes the snake-case values before the body is decoded, when every one is still
  zero; so the comparison below sees the camel-case fields only.\<close>

definition confirm_mismatch :: "rv_command \<Rightarrow> members \<Rightarrow> bool" where
  "confirm_mismatch c x \<longleftrightarrow> uuid_of x ''commandId'' \<noteq> rc_id c \<or> int_of x ''baseVersion'' \<noteq> rc_base_version c
     \<or> other_than (str_of x ''taskId'') (rc_task c) \<or> other_than (str_of x ''idempotencyKey'') (rc_key c)"

definition confirm_of :: "rv_command \<Rightarrow> members \<Rightarrow> rv_confirm" where
  "confirm_of c x = rv_command.extend c \<lparr>rc_line = str_of x ''lineId'', rc_barcode = str_of x ''barcode'',
     rc_quantity = int_of x ''quantity'', rc_condition = str_of x ''condition'', rc_remark = str_ptr_of x ''remark'',
     rc_scanned = time_ptr_of x ''scannedAt''\<rparr>"

definition batch_of :: "rv_command \<Rightarrow> members \<Rightarrow> rv_batch_confirm" where
  "batch_of c x = rv_command.extend c \<lparr>rc_lines = map batch_line_of (rows_of x ''lines''),
     rc_batch_remark = str_ptr_of x ''remark''\<rparr>"

definition receive_lines :: "'s receiving_ops \<Rightarrow> rv_command \<Rightarrow> members \<Rightarrow> ('s, receiving) prog" where
  "receive_lines ops c x =
     (if rows_of x ''lines'' = [] then ro_confirm ops (confirm_of c x)
      else (case ro_batch ops of
          None \<Rightarrow> failP (DomainError ''RECEIVING_BATCH_UNAVAILABLE'' ''Batch receiving is not available for this runtime'' False)
        | Some f \<Rightarrow> f (batch_of c x)))"

definition confirmed_view :: "uuid \<Rightarrow> receiving \<Rightarrow> json" where
  "confirmed_view cid t = go_map (receiving_members t @
     [(''commandStatus'', go_map [(''commandId'', JUuid cid), (''status'', JStr ''COMPLETED'')]), (''auditId'', JUuid cid),
      (''nextStep'', JStr ''CONTINUE_SCANNING'')])"

definition handle_receiving_confirm :: "'s handler" where
  "handle_receiving_confirm R q =
     bindP (liftE (rv_command_of R q)) (\<lambda>c.
     case decode_struct (gx_parsers R) confirm_fields (rq_body q) of (ok, x) \<Rightarrow>
     bindP (checkP (\<not> ok \<or> confirm_mismatch c x) (invalid_request ''Command metadata does not match headers'')) (\<lambda>_.
     bindP (receive_lines (gx_receiving R) c x) (\<lambda>t.
     reply R q 200 (confirmed_view (rc_id c) t))))"

section \<open>Command status\<close>

definition command_id_of :: "'s router \<Rightarrow> request \<Rightarrow> err + uuid" where
  "command_id_of R q = (case px_uuid (gx_parsers R) (rq_param q ''commandId'') of
     None \<Rightarrow> Inl (invalid_request ''Invalid command ID'') | Some i \<Rightarrow> Inr i)"

definition handle_receiving_command_status :: "'s handler" where
  "handle_receiving_command_status R q = bindP (liftE (command_id_of R q)) (\<lambda>i.
     bindP (ro_status (gx_receiving R) i (actor_of q)) (\<lambda>st. reply R q 200 (rv_status_json (gx_other R) st)))"

text \<open>The workflows are asked in turn; the next one only when this one does not know the command.\<close>

fun first_known :: "('s, json) prog list \<Rightarrow> ('s, json) prog" where
  "first_known [] = failP (DomainError ''COMMAND_NOT_FOUND'' ''Command status not found'' False)"
| "first_known (m # ms) = bindP (tryP m) (\<lambda>r. case r of
     Inr j \<Rightarrow> returnP j
   | Inl e \<Rightarrow> if command_lookup_miss e then first_known ms else failP e)"

definition status_lookups :: "'s router \<Rightarrow> uuid \<Rightarrow> actor \<Rightarrow> ('s, json) prog list" where
  "status_lookups R i a =
     [bindP (ro_status (gx_receiving R) i a) (\<lambda>st. returnP (canonical_command i (rv_command_status.rs_type st)
        (rv_command_status.rs_status st) (stored_json (gx_other R) receiving_json (rv_command_status.rs_result st)))),
      bindP (gx_movement_status R i a) (\<lambda>st. returnP (canonical_command i (mr_workflow st) ''ACKNOWLEDGED''
        (stored_json (gx_other R) movement_json (mr_result st)))),
      bindP (io_status (gx_inventory R) i a) (\<lambda>st. returnP (canonical_command i ''INVENTORY'' ''ACKNOWLEDGED''
        (stored_json (gx_other R) inventory_document_json (ir_result st)))),
      bindP (so_status (gx_shipping R) i a) (\<lambda>st. returnP (canonical_command i ''SHIPMENT_CONFIRM'' ''ACKNOWLEDGED''
        (stored_json (gx_other R) shipment_json (hr_result st)))),
      bindP (to_status (gx_tasks R) i a) (\<lambda>st. returnP (canonical_command i ''TASK_MUTATION'' ''ACKNOWLEDGED''
        (task_json (ir_task st))))]"

definition handle_command_status :: "'s handler" where
  "handle_command_status R q = bindP (liftE (command_id_of R q)) (\<lambda>i.
     bindP (first_known (status_lookups R i (actor_of q))) (reply R q 200))"

section \<open>Trace and delivery acknowledgement\<close>

definition handle_trace :: "'s handler" where
  "handle_trace R q = (case gx_trace R of
     None \<Rightarrow> failP (DomainError ''UPSTREAM_OPERATION_NOT_IMPLEMENTED'' ''Finished product trace is not available'' False)
   | Some f \<Rightarrow> bindP (f (rq_param q ''barcode'') (actor_of q)) (reply R q 200))"

text \<open>The body is read leniently, and an instant that is not given is the zero time.\<close>

definition acked_at :: "parsers \<Rightarrow> string \<Rightarrow> err + time" where
  "acked_at px s = (if s = '''' then Inr time_zero else case px_time_text px s of
     Some t \<Rightarrow> Inr t
   | None \<Rightarrow> Inl (DomainError ''DELIVERY_TIMESTAMP_INVALID'' ''Delivery timestamp is invalid'' False))"

definition ack_text :: "parsers \<Rightarrow> request \<Rightarrow> string" where
  "ack_text px q = (case rq_body q of
     RawJSON j \<Rightarrow> str_of (snd (decode_object False (decode_kind px) [(''receivedAt'', KStr)] j)) ''receivedAt''
   | _ \<Rightarrow> '''')"

definition handle_delivery_ack :: "'s handler" where
  "handle_delivery_ack R q = (case gx_ack R of
     None \<Rightarrow> failP (DomainError ''DELIVERY_ACK_UNAVAILABLE'' ''Delivery acknowledgement is unavailable'' False)
   | Some f \<Rightarrow>
       (let a = actor_of q; i = rq_param q ''eventId''; received = ack_text (gx_parsers R) q in
        bindP (checkP (ac_operator a = '''' \<or> ac_device a = '''' \<or> ac_warehouse a = '''')
           (DomainError ''OPERATOR_CONTEXT_REQUIRED'' ''Operator and device context are required'' False)) (\<lambda>_.
        bindP (checkP (i = '''') (DomainError ''EVENT_ID_REQUIRED'' ''Event ID is required'' False)) (\<lambda>_.
        bindP (liftE (acked_at (gx_parsers R) received)) (\<lambda>t.
        bindP (f i a t) (\<lambda>_.
        reply R q 200 (go_map [(''eventId'', JStr i), (''acknowledged'', JBool True), (''receivedAt'', JStr received)])))))))"

end
