(* ===== verification/Gateway_Stock.thy ===== *)
theory Gateway_Stock
  imports Gateway_Tasks
begin

text \<open>
  The gateway's handlers for movements (\<open>internal/gateway/adapters/http/movement_handlers.go\<close>), inventory
  (\<open>inventory_handlers.go\<close>) and shipments (\<open>shipping_handlers.go\<close>).
\<close>

section \<open>Movements\<close>

definition mv_command_of :: "'s router \<Rightarrow> request \<Rightarrow> err + mv_command" where
  "mv_command_of R q = map_sum id (\<lambda>(i, key, v). \<lparr>mc_id = i, mc_key = key, mc_task = rq_param q ''taskId'',
     mc_base_version = v, mc_actor = actor_of q\<rparr>) (base_command R q)"

definition movement_mirrors :: "'s router \<Rightarrow> request \<Rightarrow> members \<Rightarrow> err + unit" where
  "movement_mirrors R q x =
     (let key = rq_header q ''Idempotency-Key'';
          header_id = (case px_uuid (gx_parsers R) key of Some i \<Rightarrow> i | None \<Rightarrow> uuid_nil);
          version = int_of x ''baseVersion'' in
      if other_than (str_of x ''taskId'') (rq_param q ''taskId'')
      then Inl (invalid_request ''Task context does not match the path'')
      else if other_than (str_of x ''idempotencyKey'') key
      then Inl (invalid_request ''Idempotency key does not match the header'')
      else if uuid_of x ''commandId'' \<noteq> uuid_nil \<and> header_id = uuid_nil
      then Inl (invalid_request ''A UUID Idempotency-Key is required'')
      else if version \<noteq> 0 \<and> if_match q \<noteq> Some version
      then Inl (invalid_request ''Base version does not match If-Match'')
      else Inr ())"

definition mirror_fields :: "(string \<times> field) list" where
  "mirror_fields = [(''taskId'', Plain KStr), (''baseVersion'', Plain KInt), (''commandId'', Plain KUuid),
     (''idempotencyKey'', Plain KStr), (''scannedAt'', Plain KTimePtr)]"

definition value_fields :: "(string \<times> field) list" where
  "value_fields = map (\<lambda>k. (k, Plain KStr)) [''value'', ''location'', ''barcode'', ''rawValue'', ''normalizedValue'',
     ''symbology'', ''scanContext''] @ mirror_fields"

definition movement_contexts :: "string list" where
  "movement_contexts = ['''', ''PUTAWAY_LPN'', ''PUTAWAY_SOURCE'', ''PUTAWAY_ITEM'', ''PUTAWAY_LOT'',
     ''PUTAWAY_DESTINATION'', ''PICKING_LOCATION'', ''PICKING_ITEM'', ''PICKING_LOT'', ''PICKING_DESTINATION'',
     ''REPLENISHMENT_SOURCE'', ''REPLENISHMENT_ITEM'', ''REPLENISHMENT_DESTINATION'']"

definition scanned_value :: "members \<Rightarrow> string option" where
  "scanned_value x = find (\<lambda>v. v \<noteq> '''')
     (map (str_of x) [''normalizedValue'', ''rawValue'', ''value'', ''location'', ''barcode''])"

definition movement_value :: "'s router \<Rightarrow> request \<Rightarrow> err + string" where
  "movement_value R q = (case body_of R value_fields q of
     Inl e \<Rightarrow> Inl e
   | Inr x \<Rightarrow>
      if other_than (str_of x ''taskId'') (rq_param q ''taskId'')
      then Inl (invalid_request ''Task context does not match the path'')
      else case movement_mirrors R q x of
        Inl e \<Rightarrow> Inl e
      | Inr _ \<Rightarrow>
          if str_of x ''scanContext'' \<notin> set movement_contexts then Inl (wrong_context ''Scanner context is invalid'')
          else case scanned_value x of
            Some v \<Rightarrow> Inr v
          | None \<Rightarrow> Inl (invalid_request ''Validation value is required''))"

definition movement_quantity :: "'s router \<Rightarrow> request \<Rightarrow> err + int64" where
  "movement_quantity R q = (case body_of R ((''quantity'', Plain KInt) # mirror_fields) q of
     Inl e \<Rightarrow> Inl e
   | Inr x \<Rightarrow>
      (case movement_mirrors R q x of
        Inl e \<Rightarrow> Inl e
      | Inr _ \<Rightarrow>
          if i64_le (int_of x ''quantity'') 0 then Inl (invalid_request ''Positive quantity is required'')
          else Inr (int_of x ''quantity'')))"

definition movement_reply :: "'s router \<Rightarrow> request \<Rightarrow> movement \<Rightarrow> ('s, response) prog" where
  "movement_reply R q t = reply R q 200 (movement_view t)"

definition movements_reply :: "'s router \<Rightarrow> request \<Rightarrow> movement list \<Rightarrow> ('s, response) prog" where
  "movements_reply R q ts = bindP (nowP R) (\<lambda>t.
     reply R q 200 (go_map [(''items'', JArr (map movement_view ts)), (''asOf'', JTime t), (''stale'', JBool False)]))"

definition movement_list :: "(actor \<Rightarrow> ('s, movement list) prog) \<Rightarrow> 's handler" where
  "movement_list f R q = bindP (f (actor_of q)) (movements_reply R q)"

definition movement_detail :: "(string \<Rightarrow> actor \<Rightarrow> ('s, movement) prog) \<Rightarrow> 's handler" where
  "movement_detail f R q = bindP (f (rq_param q ''taskId'') (actor_of q)) (movement_reply R q)"

definition movement_step :: "(mv_command \<Rightarrow> ('s, movement) prog) \<Rightarrow> 's handler" where
  "movement_step f R q = bindP (liftE (mv_command_of R q)) (\<lambda>c. bindP (f c) (movement_reply R q))"

definition movement_validation :: "(mv_command \<Rightarrow> string \<Rightarrow> ('s, movement) prog) \<Rightarrow> 's handler" where
  "movement_validation f R q = bindP (liftE (mv_command_of R q)) (\<lambda>c.
     bindP (liftE (movement_value R q)) (\<lambda>v. bindP (f c v) (movement_reply R q)))"

definition movement_confirm :: "(mv_command \<Rightarrow> int64 \<Rightarrow> ('s, movement) prog) \<Rightarrow> 's handler" where
  "movement_confirm f R q = bindP (liftE (mv_command_of R q)) (\<lambda>c.
     bindP (liftE (movement_quantity R q)) (\<lambda>n. bindP (f c n) (movement_reply R q)))"

definition handle_putaway_list :: "'s handler" where
  "handle_putaway_list R q = movement_list (pa_list (gx_putaway R)) R q"
definition handle_putaway_detail :: "'s handler" where
  "handle_putaway_detail R q = movement_detail (pa_detail (gx_putaway R)) R q"
definition handle_putaway_claim :: "'s handler" where
  "handle_putaway_claim R q = movement_step (pa_claim (gx_putaway R)) R q"
definition handle_putaway_start :: "'s handler" where
  "handle_putaway_start R q = movement_step (pa_start (gx_putaway R)) R q"
definition handle_putaway_suggestions :: "'s handler" where
  "handle_putaway_suggestions R q =
     bindP (pa_suggestions (gx_putaway R) (rq_param q ''taskId'') (actor_of q)) (\<lambda>ls.
     reply R q 200 (json_slice location_json ls))"
definition handle_putaway_source :: "'s handler" where
  "handle_putaway_source R q = movement_validation (pa_source (gx_putaway R)) R q"
definition handle_putaway_lpn :: "'s handler" where
  "handle_putaway_lpn R q = movement_validation (pa_lpn (gx_putaway R)) R q"
definition handle_putaway_item :: "'s handler" where
  "handle_putaway_item R q = movement_validation (pa_item (gx_putaway R)) R q"
definition handle_putaway_lot :: "'s handler" where
  "handle_putaway_lot R q = movement_validation (pa_lot (gx_putaway R)) R q"
definition handle_putaway_destination :: "'s handler" where
  "handle_putaway_destination R q = movement_validation (pa_destination (gx_putaway R)) R q"
definition handle_putaway_confirm :: "'s handler" where
  "handle_putaway_confirm R q = movement_confirm (pa_confirm (gx_putaway R)) R q"
definition handle_putaway_group_confirm :: "'s handler" where
  "handle_putaway_group_confirm R q = movement_step (pa_group (gx_putaway R)) R q"

definition handle_picking_list :: "'s handler" where
  "handle_picking_list R q = movement_list (pi_list (gx_picking R)) R q"
definition handle_picking_detail :: "'s handler" where
  "handle_picking_detail R q = movement_detail (pi_detail (gx_picking R)) R q"
definition handle_picking_claim :: "'s handler" where
  "handle_picking_claim R q = movement_step (pi_claim (gx_picking R)) R q"
definition handle_picking_start :: "'s handler" where
  "handle_picking_start R q = movement_step (pi_start (gx_picking R)) R q"
definition handle_picking_allocate :: "'s handler" where
  "handle_picking_allocate R q = movement_step (pi_allocate (gx_picking R)) R q"
definition handle_picking_location :: "'s handler" where
  "handle_picking_location R q = movement_validation (pi_location (gx_picking R)) R q"
definition handle_picking_barcode :: "'s handler" where
  "handle_picking_barcode R q = movement_validation (pi_barcode (gx_picking R)) R q"
definition handle_picking_lot :: "'s handler" where
  "handle_picking_lot R q = movement_validation (pi_lot (gx_picking R)) R q"
definition handle_picking_destination :: "'s handler" where
  "handle_picking_destination R q = movement_validation (pi_destination (gx_picking R)) R q"
definition handle_picking_confirm :: "'s handler" where
  "handle_picking_confirm R q = movement_confirm (pi_confirm (gx_picking R)) R q"
definition handle_picking_complete :: "'s handler" where
  "handle_picking_complete R q = movement_step (pi_complete (gx_picking R)) R q"

definition handle_replenishment_list :: "'s handler" where
  "handle_replenishment_list R q = movement_list (rn_list (gx_replenishment R)) R q"
definition handle_replenishment_detail :: "'s handler" where
  "handle_replenishment_detail R q = movement_detail (rn_detail (gx_replenishment R)) R q"
definition handle_replenishment_source :: "'s handler" where
  "handle_replenishment_source R q = movement_validation (rn_source (gx_replenishment R)) R q"
definition handle_replenishment_destination :: "'s handler" where
  "handle_replenishment_destination R q = movement_validation (rn_destination (gx_replenishment R)) R q"
definition handle_replenishment_item :: "'s handler" where
  "handle_replenishment_item R q = movement_validation (rn_item (gx_replenishment R)) R q"
definition handle_replenishment_confirm :: "'s handler" where
  "handle_replenishment_confirm R q = movement_confirm (rn_confirm (gx_replenishment R)) R q"

section \<open>Inventory\<close>

text \<open>\<open>inventoryResponse\<close> is given the time as an argument, so the clock is read before the error is
  looked at.\<close>

definition inventory_response :: "'s router \<Rightarrow> request \<Rightarrow> ('s, json) prog \<Rightarrow> ('s, response) prog" where
  "inventory_response R q m = bindP (tryP m) (\<lambda>r. bindP (nowP R) (\<lambda>t.
     case r of
       Inl e \<Rightarrow> failP e
     | Inr j \<Rightarrow> returnP (write_data 200 (go_map [(''items'', j), (''asOf'', JTime t), (''stale'', JBool False)])
         (rq_correlation q) t)))"

definition balances_json :: "request \<Rightarrow> balance list \<Rightarrow> json" where
  "balances_json q bs = JArr (map balance_json (filter_balances bs q))"

definition handle_inventory_search :: "'s handler" where
  "handle_inventory_search R q = inventory_response R q
     (bindP (io_search (gx_inventory R) '''' (actor_of q)) (\<lambda>bs. returnP (balances_json q bs)))"

definition handle_inventory_balances :: "'s handler" where
  "handle_inventory_balances R q = inventory_response R q
     (bindP (io_balances (gx_inventory R) '''' '''' (actor_of q)) (\<lambda>bs. returnP (balances_json q bs)))"

definition handle_inventory_movements :: "'s handler" where
  "handle_inventory_movements R q = inventory_response R q
     (bindP (io_movements (gx_inventory R) (rq_query q ''itemId'') (rq_query q ''cursor'') (actor_of q)) (\<lambda>ms.
      returnP (json_slice stock_move_json ms)))"

definition transfer_fields :: "(string \<times> field) list" where
  "transfer_fields = [(''taskId'', Plain KStr), (''sourceLocation'', Plain KStr), (''destinationLocation'', Plain KStr),
     (''itemId'', Plain KStr), (''lotId'', Plain KStr), (''quantity'', Plain KInt), (''lotNumber'', Plain KStr),
     (''serialNumber'', Plain KStr), (''scanContext'', Plain KStr), (''baseVersion'', Plain KInt),
     (''commandId'', Plain KUuid), (''idempotencyKey'', Plain KStr), (''reason'', Plain KStr)]"

definition transfer_of :: "inv_command \<Rightarrow> members \<Rightarrow> transfer_command" where
  "transfer_of c x = inv_command.extend c \<lparr>tc_source = str_of x ''sourceLocation'', tc_dest = str_of x ''destinationLocation'',
     tc_item = str_of x ''itemId'', tc_lot = str_of x ''lotId'', tc_quantity = int_of x ''quantity''\<rparr>"

text \<open>A validation carries no command, only the actor. It serves the scans of source, destination
  and item alike.\<close>

definition handle_transfer_validation :: "'s handler" where
  "handle_transfer_validation R q = bindP (liftE (body_of R transfer_fields q)) (\<lambda>x.
     bindP (io_validate (gx_inventory R) (transfer_of
        \<lparr>ic_id = uuid_nil, ic_key = '''', ic_base_version = 0, ic_actor = actor_of q\<rparr> x)) (\<lambda>_.
     reply R q 200 (go_map [(''valid'', JBool True)])))"

definition inventory_command :: "'s router \<Rightarrow> request \<Rightarrow> err + inv_command" where
  "inventory_command R q = (let key = rq_header q ''Idempotency-Key''; raw = trim_quotes (rq_header q ''If-Match'') in
     case px_uuid (gx_parsers R) key of
       None \<Rightarrow> Inl (invalid_request ''UUID Idempotency-Key required'')
     | Some i \<Rightarrow> (case (if raw = '''' then Some 0 else parse_int64 raw) of
           None \<Rightarrow> Inl (invalid_request ''Numeric If-Match required'')
         | Some v \<Rightarrow> Inr \<lparr>ic_id = i, ic_key = key, ic_base_version = v, ic_actor = actor_of q\<rparr>))"

definition inventory_mismatch :: "inv_command \<Rightarrow> members \<Rightarrow> bool" where
  "inventory_mismatch c x \<longleftrightarrow> uuid_of x ''commandId'' \<noteq> uuid_nil \<and> uuid_of x ''commandId'' \<noteq> ic_id c
     \<or> other_than (str_of x ''idempotencyKey'') (ic_key c)
     \<or> int_of x ''baseVersion'' \<noteq> 0 \<and> int_of x ''baseVersion'' \<noteq> ic_base_version c"

definition transfer_contexts :: "string list" where
  "transfer_contexts = ['''', ''TRANSFER_DESTINATION'', ''TRANSFER_ITEM'', ''TRANSFER_SOURCE'']"

definition handle_transfer_confirm :: "'s handler" where
  "handle_transfer_confirm R q =
     bindP (liftE (inventory_command R q)) (\<lambda>c.
     bindP (liftE (body_of R transfer_fields q)) (\<lambda>x.
     bindP (checkP (other_than (str_of x ''taskId'') (rq_param q ''taskId'')
           \<or> str_of x ''scanContext'' \<notin> set transfer_contexts)
        (wrong_context ''Transfer scan context is invalid'')) (\<lambda>_.
     bindP (checkP (inventory_mismatch c x)
        (invalid_request ''Transfer command metadata does not match headers'')) (\<lambda>_.
     bindP (io_transfer (gx_inventory R) (transfer_of c x)) (\<lambda>t.
     reply R q 200 (transfer_json t))))))"

definition handle_transfer_command_status :: "'s handler" where
  "handle_transfer_command_status R q = bindP (liftE (command_id_of R q)) (\<lambda>i.
     bindP (io_status (gx_inventory R) i (actor_of q)) (\<lambda>st. reply R q 200 (inv_result_json (gx_other R) st)))"

definition handle_count_list :: "'s handler" where
  "handle_count_list R q = bindP (io_counts (gx_inventory R) (actor_of q)) (\<lambda>ts.
     bindP (nowP R) (\<lambda>t.
     reply R q 200 (go_map [(''items'', JArr (map count_view ts)), (''asOf'', JTime t), (''stale'', JBool False)])))"

definition handle_count_detail :: "'s handler" where
  "handle_count_detail R q = bindP (io_count (gx_inventory R) (rq_param q ''taskId'') (actor_of q)) (\<lambda>t.
     reply R q 200 (count_view t))"

definition valid_next :: "string \<Rightarrow> json" where
  "valid_next step = go_map [(''valid'', JBool True), (''nextStep'', JStr step)]"

definition handle_count_location :: "'s handler" where
  "handle_count_location R q =
     bindP (liftE (body_of R [(''location'', Plain KStr), (''taskId'', Plain KStr)] q)) (\<lambda>x.
     bindP (checkP (other_than (str_of x ''taskId'') (rq_param q ''taskId''))
        (invalid_request ''Task context does not match the path'')) (\<lambda>_.
     bindP (io_location (gx_inventory R) (rq_param q ''taskId'') (str_of x ''location'') (actor_of q)) (\<lambda>_.
     reply R q 200 (valid_next ''VALIDATE_ITEM''))))"

definition handle_count_item :: "'s handler" where
  "handle_count_item R q =
     bindP (liftE (body_of R [(''item'', Plain KStr), (''itemId'', Plain KStr), (''lineId'', Plain KStr)] q)) (\<lambda>x.
     bindP (io_item (gx_inventory R) (rq_param q ''taskId'') (str_of x ''lineId'')
        (first_of (str_of x ''item'') (str_of x ''itemId'')) (actor_of q)) (\<lambda>_.
     reply R q 200 (valid_next ''SUBMIT_COUNT'')))"

definition count_reply :: "'s router \<Rightarrow> request \<Rightarrow> inv_command \<Rightarrow> string \<Rightarrow> count_task \<Rightarrow> ('s, response) prog" where
  "count_reply R q c step t = reply R q 200 (go_map (count_members t
     @ [(''auditId'', JUuid (ic_id c)), (''nextStep'', JStr step)]))"

definition count_mismatch :: "err" where
  "count_mismatch = invalid_request ''Count command metadata does not match headers''"

definition submit_fields :: "(string \<times> field) list" where
  "submit_fields = [(''taskId'', Plain KStr), (''lineId'', Plain KStr), (''quantity'', Plain KInt),
     (''countedQuantity'', Plain KInt), (''commandId'', Plain KUuid), (''idempotencyKey'', Plain KStr),
     (''baseVersion'', Plain KInt), (''location'', Plain KStr), (''item'', Plain KStr), (''lot'', Plain KStr),
     (''serial'', Plain KStr), (''blindCount'', Plain KBool), (''reasonCode'', Plain KStr), (''recount'', Plain KBool)]"

definition handle_count_submit :: "'s handler" where
  "handle_count_submit R q =
     bindP (liftE (inventory_command R q)) (\<lambda>c.
     bindP (liftE (body_of R submit_fields q)) (\<lambda>x.
     let counted = int_of x ''countedQuantity'';
         n = (if i64_less 0 counted then counted else int_of x ''quantity'') in
     bindP (checkP (other_than (str_of x ''taskId'') (rq_param q ''taskId'') \<or> inventory_mismatch c x) count_mismatch) (\<lambda>_.
     bindP (io_submit (gx_inventory R) (rq_param q ''taskId'') (first_of (str_of x ''lineId'') (rq_param q ''lineId'')) n c)
       (count_reply R q c ''REVIEW_VARIANCE''))))"

definition handle_count_recount :: "'s handler" where
  "handle_count_recount R q =
     bindP (liftE (inventory_command R q)) (\<lambda>c.
     bindP (liftE (body_of R [(''lineId'', Plain KStr), (''commandId'', Plain KUuid), (''idempotencyKey'', Plain KStr),
        (''baseVersion'', Plain KInt)] q)) (\<lambda>x.
     bindP (checkP (inventory_mismatch c x) count_mismatch) (\<lambda>_.
     bindP (io_recount (gx_inventory R) (rq_param q ''taskId'') (str_of x ''lineId'') c)
       (count_reply R q c ''SUBMIT_COUNT''))))"

definition handle_count_complete :: "'s handler" where
  "handle_count_complete R q =
     bindP (liftE (inventory_command R q)) (\<lambda>c.
     bindP (io_complete (gx_inventory R) (rq_param q ''taskId'') c) (count_reply R q c ''COMPLETED''))"

definition handle_count_command_status :: "'s handler" where
  "handle_count_command_status R q = bindP (liftE (command_id_of R q)) (\<lambda>i.
     bindP (io_count_status (gx_inventory R) i (actor_of q)) (\<lambda>st. reply R q 200 (inv_result_json (gx_other R) st)))"

section \<open>Shipments\<close>

definition handle_shipment_summary :: "'s handler" where
  "handle_shipment_summary R q = bindP (so_summary (gx_shipping R) (rq_param q ''shipmentId'') (actor_of q)) (\<lambda>s.
     reply R q 200 (shipping_view s))"

definition handle_shipment_readiness :: "'s handler" where
  "handle_shipment_readiness R q = bindP (so_readiness (gx_shipping R) (rq_param q ''shipmentId'') (actor_of q)) (\<lambda>r.
     reply R q 200 (readiness_view r))"

definition numeric_if_match :: "request \<Rightarrow> err + int64" where
  "numeric_if_match q = (case if_match q of
     None \<Rightarrow> Inl (invalid_request ''Numeric If-Match required'') | Some v \<Rightarrow> Inr v)"

definition verify_fields :: "(string \<times> field) list" where
  "verify_fields = map (\<lambda>k. (k, Plain KStr)) [''shipmentId'', ''packageId'', ''rawValue'', ''normalizedValue'',
     ''symbology'', ''scanContext''] @ [(''baseVersion'', Plain KInt)]"

definition handle_package_verify :: "'s handler" where
  "handle_package_verify R q =
     (let i = rq_param q ''shipmentId''; p = rq_param q ''packageId'' in
      bindP (liftE (numeric_if_match q)) (\<lambda>base.
      bindP (liftE (body_of R verify_fields q)) (\<lambda>x.
      bindP (checkP (other_than (str_of x ''shipmentId'') i \<or> other_than (str_of x ''packageId'') p
            \<or> int_of x ''baseVersion'' \<noteq> 0 \<and> int_of x ''baseVersion'' \<noteq> base
            \<or> other_than (str_of x ''scanContext'') ''SHIPPING_PACKAGE'')
         (wrong_context ''Package scanner context does not match the request'')) (\<lambda>_.
      bindP (so_verify (gx_shipping R) \<lparr>vc_shipment = i, vc_package = p,
         vc_barcode = first_of (str_of x ''normalizedValue'') (str_of x ''rawValue''), vc_base_version = base,
         vc_actor = actor_of q\<rparr>) (\<lambda>s.
      reply R q 200 (shipping_view s))))))"

definition ship_fields :: "(string \<times> field) list" where
  "ship_fields = [(''commandId'', Plain KUuid), (''idempotencyKey'', Plain KStr), (''shipmentId'', Plain KStr),
     (''carrier'', Plain KStr), (''carrierCode'', Plain KStr), (''trackingNumber'', Plain KStr),
     (''verifiedPackageIds'', Plain KStrs), (''baseVersion'', Plain KInt)]"

definition shipment_key :: "'s router \<Rightarrow> request \<Rightarrow> err + uuid" where
  "shipment_key R q = (case px_uuid (gx_parsers R) (rq_header q ''Idempotency-Key'') of
     None \<Rightarrow> Inl (invalid_request ''UUID Idempotency-Key required'') | Some i \<Rightarrow> Inr i)"

definition handle_shipment_confirm :: "'s handler" where
  "handle_shipment_confirm R q =
     (let sid = rq_param q ''shipmentId''; key = rq_header q ''Idempotency-Key'' in
      bindP (liftE (shipment_key R q)) (\<lambda>i.
      bindP (liftE (numeric_if_match q)) (\<lambda>base.
      bindP (liftE (body_of R ship_fields q)) (\<lambda>x.
      bindP (checkP (other_than (str_of x ''shipmentId'') sid
            \<or> uuid_of x ''commandId'' \<noteq> uuid_nil \<and> uuid_of x ''commandId'' \<noteq> i
            \<or> other_than (str_of x ''idempotencyKey'') key
            \<or> int_of x ''baseVersion'' \<noteq> 0 \<and> int_of x ''baseVersion'' \<noteq> base)
         (invalid_request ''Shipment command metadata does not match headers'')) (\<lambda>_.
      bindP (so_confirm (gx_shipping R) \<lparr>sc_id = i, sc_key = key, sc_shipment = sid,
         sc_carrier = first_of (str_of x ''carrier'') (str_of x ''carrierCode''),
         sc_tracking = str_of x ''trackingNumber'', sc_base_version = base,
         sc_verified = strs_of x ''verifiedPackageIds'', sc_actor = actor_of q\<rparr>) (\<lambda>s.
      reply R q 200 (go_map (set_members [(''manifestReference'', JNull), (''auditId'', JUuid i)]
        (shipping_members s)))))))))"

definition handle_shipment_command_status :: "'s handler" where
  "handle_shipment_command_status R q = bindP (liftE (command_id_of R q)) (\<lambda>i.
     bindP (so_status (gx_shipping R) i (actor_of q)) (\<lambda>st. reply R q 200 (sh_result_json (gx_other R) st)))"

end
