(* ===== verification/Gateway_Routes.thy ===== *)
theory Gateway_Routes
  imports Gateway_Stock
begin

text \<open>
  The gateway as a whole (\<open>newRouter\<close> of \<open>internal/gateway/adapters/http/router.go\<close>): the middlewares
  around a handler, the table of routes, and how a request is answered. Matching a path against the
  registered patterns is the work of the router package chi, a parameter here, and so is whether the
  deadline of a request passes before its answer is ready. Logging is left out.
\<close>

section \<open>Middlewares\<close>

text \<open>\<open>respond\<close> runs a handler and writes its error.\<close>

definition respond :: "'s router \<Rightarrow> request \<Rightarrow> ('s, response) prog \<Rightarrow> 's \<Rightarrow> response \<times> 's" where
  "respond R q m s = (case m s of
     (Inr r, s1) \<Rightarrow> (r, s1)
   | (Inl e, s1) \<Rightarrow> (case gx_wall R s1 of (t, s2) \<Rightarrow> (write_error e (rq_correlation q) t, s2)))"

definition operator_mismatch :: err where
  [err_defs]: "operator_mismatch = DomainError ''OPERATOR_CONTEXT_MISMATCH''
     ''Operator context does not match the authenticated session'' False"

definition authenticate_request :: "'s router \<Rightarrow> request \<Rightarrow> ('s, request) prog" where
  "authenticate_request R q =
     (let header = rq_header q ''Authorization'' in
      bindP (checkP (\<not> has_prefix header ''Bearer '') AuthUnauthorized) (\<lambda>_.
      bindP (authenticate_token (gx_identity R) (bearer header)) (\<lambda>p.
      bindP (checkP (other_than (trim_space (rq_header q ''X-Operator-Id'')) (op_id p)) operator_mismatch) (\<lambda>_.
      returnP (q\<lparr>rq_operator := p\<rparr>)))))"

definition device_warehouse_context :: "'s router \<Rightarrow> request \<Rightarrow> ('s, unit) prog" where
  "device_warehouse_context R q =
     (let device = rq_header q ''X-Device-Id''; wh = rq_header q ''X-Warehouse-Id'' in
      bindP (checkP (device = '''') AuthDeviceNotRegistered) (\<lambda>_.
      bindP (checkP (wh = '''') AuthWarehouseDenied) (\<lambda>_.
      validate_context (gx_identity R) (rq_operator q) device wh)))"

datatype guard = Open | Limited | Session | Context

record 's route =
  rt_method :: string
  rt_pattern :: string
  rt_guard :: guard
  rt_handler :: "'s handler"

definition route :: "string \<Rightarrow> string \<Rightarrow> guard \<Rightarrow> 's handler \<Rightarrow> 's route" where
  "route m p g h = \<lparr>rt_method = m, rt_pattern = p, rt_guard = g, rt_handler = h\<rparr>"

definition guarded_handler :: "'s route \<Rightarrow> 's handler" where
  "guarded_handler rt R q = (case rt_guard rt of
     Session \<Rightarrow> bindP (authenticate_request R q) (\<lambda>q1. rt_handler rt R q1)
   | Context \<Rightarrow> bindP (authenticate_request R q) (\<lambda>q1.
       bindP (device_warehouse_context R q1) (\<lambda>_. rt_handler rt R q1))
   | _ \<Rightarrow> rt_handler rt R q)"

text \<open>The guards in memory live next to the state of the operations.\<close>

record 's gateway_state =
  gt_inner :: 's
  gt_limiter :: rate_limiter
  gt_breaker :: breaker

definition new_gateway :: "settings \<Rightarrow> 's \<Rightarrow> 's gateway_state" where
  "new_gateway st s = \<lparr>gt_inner = s, gt_limiter = new_rate_limiter (gs_rate_limit st) (gs_window st),
     gt_breaker = new_breaker (gs_threshold st) (gs_window st)\<rparr>"

definition rate_limited :: err where
  [err_defs]: "rate_limited = DomainError ''RATE_LIMITED'' ''Too many requests'' True"

fun decimal :: "nat \<Rightarrow> string" where
  "decimal n = (if n < 10 then [char_of (48 + n)] else decimal (n div 10) @ [char_of (48 + n mod 10)])"

declare decimal.simps [simp del]

definition retry_after :: "settings \<Rightarrow> string" where
  "retry_after st = decimal (nat ((gs_window st + 999999999) div 1000000000))"

definition run_route :: "'s router \<Rightarrow> 's route \<Rightarrow> request \<Rightarrow> 's gateway_state \<Rightarrow> response \<times> 's gateway_state" where
  "run_route R rt q g =
     (if rt_guard rt = Limited then
        (case gx_now R (gt_inner g) of (t, s1) \<Rightarrow>
         (case limiter_allow t (client_host (rq_remote q)) (gt_limiter g) of (ok, l) \<Rightarrow>
           if ok then (case respond R q (guarded_handler rt R q) s1 of
               (r, s2) \<Rightarrow> (r, g\<lparr>gt_inner := s2, gt_limiter := l\<rparr>))
           else (case respond R q (failP rate_limited) s1 of
               (r, s2) \<Rightarrow> (with_header ''Retry-After'' (retry_after (gx_settings R)) r,
                  g\<lparr>gt_inner := s2, gt_limiter := l\<rparr>))))
      else (case respond R q (guarded_handler rt R q) (gt_inner g) of (r, s2) \<Rightarrow> (r, g\<lparr>gt_inner := s2\<rparr>)))"

text \<open>The breaker reads the clock only when it is open, and when a failure opens it.\<close>

definition circuit_open :: err where
  [err_defs]: "circuit_open =
     DomainError ''GATEWAY_CIRCUIT_OPEN'' ''Gateway dependency circuit is open'' True"

definition circuit_admits :: "'s router \<Rightarrow> 's gateway_state \<Rightarrow> bool \<times> 's gateway_state" where
  "circuit_admits R g =
     (case (if is_zero (br_open_until (gt_breaker g)) then (time_zero, gt_inner g) else gx_now R (gt_inner g)) of
        (t, s1) \<Rightarrow> (case breaker_allow t (gt_breaker g) of (ok, b) \<Rightarrow> (ok, g\<lparr>gt_inner := s1, gt_breaker := b\<rparr>)))"

definition circuit_notes :: "'s router \<Rightarrow> bool \<Rightarrow> 's gateway_state \<Rightarrow> 's gateway_state" where
  "circuit_notes R failed g =
     (let b = gt_breaker g in
      case (if failed \<and> br_threshold b \<le> br_failures b + 1 then gx_now R (gt_inner g) else (time_zero, gt_inner g)) of
        (t, s1) \<Rightarrow> g\<lparr>gt_inner := s1, gt_breaker := breaker_record failed t b\<rparr>)"

definition circuit_break ::
    "'s router \<Rightarrow> request \<Rightarrow> ('s gateway_state \<Rightarrow> response \<times> 's gateway_state) \<Rightarrow> 's gateway_state
     \<Rightarrow> response \<times> 's gateway_state" where
  "circuit_break R q next g =
     (case circuit_admits R g of (ok, g1) \<Rightarrow>
        if \<not> ok then (case respond R q (failP circuit_open) (gt_inner g1) of (r, s2) \<Rightarrow> (r, g1\<lparr>gt_inner := s2\<rparr>))
        else (case next g1 of (r, g2) \<Rightarrow> (r, circuit_notes R (dependency_failure r) g2)))"

definition requested_locale :: "string \<Rightarrow> string" where
  "requested_locale header = (let l = trim_space header in
     if l = '''' then ''en-US'' else trim_space (hd (split_char CHR '','' l)))"

definition with_locale ::
    "'s router \<Rightarrow> request \<Rightarrow> (request \<Rightarrow> 's gateway_state \<Rightarrow> response \<times> 's gateway_state) \<Rightarrow> 's gateway_state
     \<Rightarrow> response \<times> 's gateway_state" where
  "with_locale R q next g =
     (let l = requested_locale (rq_header q ''Accept-Language'') in
      if l \<noteq> ''vi-VN'' \<and> l \<noteq> ''en-US''
      then (case respond R q (failP (invalid_request ''Unsupported language'')) (gt_inner g) of
              (r, s1) \<Rightarrow> (r, g\<lparr>gt_inner := s1\<rparr>))
      else (case next (q\<lparr>rq_locale := l\<rparr>) g of (r, g1) \<Rightarrow> (with_header ''Content-Language'' l r, g1)))"

definition with_correlation ::
    "'s router \<Rightarrow> request \<Rightarrow> (request \<Rightarrow> 's gateway_state \<Rightarrow> response \<times> 's gateway_state) \<Rightarrow> 's gateway_state
     \<Rightarrow> response \<times> 's gateway_state" where
  "with_correlation R q next g =
     (let given = rq_header q ''X-Correlation-Id'' in
      case (if px_uuid (gx_parsers R) given = None
            then (case gx_new_uuid R (gt_inner g) of (u, s1) \<Rightarrow> (gx_uuid_string R u, s1)) else (given, gt_inner g)) of
        (i, s1) \<Rightarrow> (case next (q\<lparr>rq_correlation := i\<rparr>) (g\<lparr>gt_inner := s1\<rparr>) of
          (r, g1) \<Rightarrow> (with_header ''X-Correlation-Id'' i r, g1)))"

section \<open>Routes\<close>

definition entry_routes :: "'s route list" where
  "entry_routes = [route ''GET'' ''/healthz'' Open handle_operational,
     route ''GET'' ''/livez'' Open handle_operational,
     route ''GET'' ''/readyz'' Open handle_operational,
     route ''POST'' ''/api/pda/v1/auth/login'' Limited handle_login,
     route ''POST'' ''/api/pda/v1/auth/refresh'' Limited handle_refresh,
     route ''POST'' ''/api/pda/v1/auth/logout'' Session handle_logout,
     route ''GET'' ''/api/pda/v1/me'' Session handle_me,
     route ''GET'' ''/api/pda/v1/me/warehouses'' Session handle_warehouses,
     route ''POST'' ''/api/pda/v1/devices/registrations'' Session handle_register_device]"

definition task_routes :: "'s route list" where
  "task_routes = [route ''GET'' ''/api/pda/v1/bootstrap'' Context handle_bootstrap,
     route ''GET'' ''/api/pda/v1/dashboard'' Context handle_dashboard,
     route ''GET'' ''/api/pda/v1/finished-products/{barcode}/trace'' Context handle_trace,
     route ''GET'' ''/api/pda/v1/tasks/summary'' Context handle_task_summary,
     route ''GET'' ''/api/pda/v1/tasks'' Context handle_tasks_list,
     route ''POST'' ''/api/pda/v1/events/{eventId}/ack'' Context handle_delivery_ack,
     route ''GET'' ''/api/pda/v1/tasks/{taskId}'' Context handle_task_detail,
     route ''POST'' ''/api/pda/v1/tasks/{taskId}/claim'' Context handle_claim_task,
     route ''POST'' ''/api/pda/v1/tasks/{taskId}/release'' Context handle_release_task,
     route ''GET'' ''/api/pda/v1/commands/{commandId}'' Context handle_command_status]"

definition receiving_routes :: "'s route list" where
  "receiving_routes = [route ''GET'' ''/api/pda/v1/receiving/tasks'' Context handle_receiving_list,
     route ''GET'' ''/api/pda/v1/receiving/tasks/{taskId}'' Context handle_receiving_detail,
     route ''GET'' ''/api/pda/v1/receiving'' Context handle_receiving_list,
     route ''GET'' ''/api/pda/v1/receiving/{taskId}'' Context handle_receiving_detail,
     route ''POST'' ''/api/pda/v1/receiving/tasks/{taskId}/claim'' Context handle_receiving_claim,
     route ''POST'' ''/api/pda/v1/receiving/{taskId}/claim'' Context handle_receiving_claim,
     route ''POST'' ''/api/pda/v1/receiving/tasks/{taskId}/start'' Context handle_receiving_start,
     route ''POST'' ''/api/pda/v1/receiving/tasks/{taskId}/barcode-resolutions'' Context handle_receiving_barcode,
     route ''POST'' ''/api/pda/v1/receiving/tasks/{taskId}/receipts'' Context handle_receiving_confirm,
     route ''POST'' ''/api/pda/v1/receiving/{taskId}/resolve-barcode'' Context handle_receiving_barcode,
     route ''POST'' ''/api/pda/v1/receiving/{taskId}/confirm'' Context handle_receiving_confirm,
     route ''POST'' ''/api/pda/v1/receiving/tasks/{taskId}/completion'' Context handle_receiving_complete,
     route ''GET'' ''/api/pda/v1/receiving/commands/{commandId}'' Context handle_receiving_command_status]"

definition putaway_routes :: "'s route list" where
  "putaway_routes = [route ''GET'' ''/api/pda/v1/putaway/tasks'' Context handle_putaway_list,
     route ''GET'' ''/api/pda/v1/putaway/tasks/{taskId}'' Context handle_putaway_detail,
     route ''GET'' ''/api/pda/v1/putaway'' Context handle_putaway_list,
     route ''GET'' ''/api/pda/v1/putaway/{taskId}'' Context handle_putaway_detail,
     route ''POST'' ''/api/pda/v1/putaway/tasks/{taskId}/claim'' Context handle_putaway_claim,
     route ''POST'' ''/api/pda/v1/putaway/tasks/{taskId}/start'' Context handle_putaway_start,
     route ''POST'' ''/api/pda/v1/putaway/tasks/{taskId}/source-validations'' Context handle_putaway_source,
     route ''POST'' ''/api/pda/v1/putaway/{taskId}/validate-source'' Context handle_putaway_source,
     route ''POST'' ''/api/pda/v1/putaway/tasks/{taskId}/lpn-validations'' Context handle_putaway_lpn,
     route ''POST'' ''/api/pda/v1/putaway/{taskId}/validate-lpn'' Context handle_putaway_lpn,
     route ''POST'' ''/api/pda/v1/putaway/tasks/{taskId}/item-validations'' Context handle_putaway_item,
     route ''POST'' ''/api/pda/v1/putaway/{taskId}/validate-item'' Context handle_putaway_item,
     route ''POST'' ''/api/pda/v1/putaway/tasks/{taskId}/lot-validations'' Context handle_putaway_lot,
     route ''POST'' ''/api/pda/v1/putaway/{taskId}/validate-lot'' Context handle_putaway_lot,
     route ''GET'' ''/api/pda/v1/putaway/tasks/{taskId}/destination-suggestions'' Context handle_putaway_suggestions,
     route ''POST'' ''/api/pda/v1/putaway/tasks/{taskId}/destination-validations'' Context handle_putaway_destination,
     route ''POST'' ''/api/pda/v1/putaway/{taskId}/validate-destination'' Context handle_putaway_destination,
     route ''POST'' ''/api/pda/v1/putaway/tasks/{taskId}/confirmation'' Context handle_putaway_confirm,
     route ''POST'' ''/api/pda/v1/putaway/tasks/{taskId}/group-confirmation'' Context handle_putaway_group_confirm,
     route ''POST'' ''/api/pda/v1/putaway/{taskId}/confirm'' Context handle_putaway_confirm]"

definition picking_routes :: "'s route list" where
  "picking_routes = [route ''GET'' ''/api/pda/v1/picking/tasks'' Context handle_picking_list,
     route ''GET'' ''/api/pda/v1/picking/tasks/{taskId}'' Context handle_picking_detail,
     route ''POST'' ''/api/pda/v1/picking/tasks/{taskId}/claim'' Context handle_picking_claim,
     route ''POST'' ''/api/pda/v1/picking/tasks/{taskId}/start'' Context handle_picking_start,
     route ''GET'' ''/api/pda/v1/picking'' Context handle_picking_list,
     route ''GET'' ''/api/pda/v1/picking/{taskId}'' Context handle_picking_detail,
     route ''POST'' ''/api/pda/v1/picking/tasks/{taskId}/allocation'' Context handle_picking_allocate,
     route ''POST'' ''/api/pda/v1/picking/{taskId}/allocate'' Context handle_picking_allocate,
     route ''POST'' ''/api/pda/v1/picking/tasks/{taskId}/location-validations'' Context handle_picking_location,
     route ''POST'' ''/api/pda/v1/picking/{taskId}/validate-location'' Context handle_picking_location,
     route ''POST'' ''/api/pda/v1/picking/tasks/{taskId}/barcode-resolutions'' Context handle_picking_barcode,
     route ''POST'' ''/api/pda/v1/picking/tasks/{taskId}/lot-validations'' Context handle_picking_lot,
     route ''POST'' ''/api/pda/v1/picking/tasks/{taskId}/destination-validations'' Context handle_picking_destination,
     route ''POST'' ''/api/pda/v1/picking/{taskId}/resolve-item'' Context handle_picking_barcode,
     route ''POST'' ''/api/pda/v1/picking/tasks/{taskId}/picks'' Context handle_picking_confirm,
     route ''POST'' ''/api/pda/v1/picking/{taskId}/pick'' Context handle_picking_confirm,
     route ''POST'' ''/api/pda/v1/picking/tasks/{taskId}/completion'' Context handle_picking_complete,
     route ''POST'' ''/api/pda/v1/picking/{taskId}/complete'' Context handle_picking_complete]"

definition replenishment_routes :: "'s route list" where
  "replenishment_routes = [route ''GET'' ''/api/pda/v1/replenishment/tasks'' Context handle_replenishment_list,
     route ''GET'' ''/api/pda/v1/replenishment/tasks/{taskId}'' Context handle_replenishment_detail,
     route ''GET'' ''/api/pda/v1/replenishment'' Context handle_replenishment_list,
     route ''GET'' ''/api/pda/v1/replenishment/{taskId}'' Context handle_replenishment_detail,
     route ''POST'' ''/api/pda/v1/replenishment/tasks/{taskId}/source-validations'' Context handle_replenishment_source,
     route ''POST'' ''/api/pda/v1/replenishment/{taskId}/validate-source'' Context handle_replenishment_source,
     route ''POST'' ''/api/pda/v1/replenishment/tasks/{taskId}/destination-validations'' Context handle_replenishment_destination,
     route ''POST'' ''/api/pda/v1/replenishment/{taskId}/validate-destination'' Context handle_replenishment_destination,
     route ''POST'' ''/api/pda/v1/replenishment/tasks/{taskId}/item-validations'' Context handle_replenishment_item,
     route ''POST'' ''/api/pda/v1/replenishment/{taskId}/validate-item'' Context handle_replenishment_item,
     route ''POST'' ''/api/pda/v1/replenishment/tasks/{taskId}/confirmation'' Context handle_replenishment_confirm,
     route ''POST'' ''/api/pda/v1/replenishment/{taskId}/confirm'' Context handle_replenishment_confirm]"

definition inventory_routes :: "'s route list" where
  "inventory_routes = [route ''GET'' ''/api/pda/v1/inventory/search'' Context handle_inventory_search,
     route ''GET'' ''/api/pda/v1/inventory/items'' Context handle_inventory_search,
     route ''GET'' ''/api/pda/v1/inventory/balances'' Context handle_inventory_balances,
     route ''GET'' ''/api/pda/v1/inventory/movements'' Context handle_inventory_movements,
     route ''POST'' ''/api/pda/v1/inventory/transfers/source-validations'' Context handle_transfer_validation,
     route ''POST'' ''/api/pda/v1/inventory/transfers/destination-validations'' Context handle_transfer_validation,
     route ''POST'' ''/api/pda/v1/inventory/transfers/item-resolutions'' Context handle_transfer_validation,
     route ''POST'' ''/api/pda/v1/inventory/transfers'' Context handle_transfer_confirm,
     route ''POST'' ''/api/pda/v1/transfers/validate'' Context handle_transfer_validation,
     route ''POST'' ''/api/pda/v1/transfers/confirm'' Context handle_transfer_confirm,
     route ''GET'' ''/api/pda/v1/transfers/commands/{commandId}'' Context handle_transfer_command_status,
     route ''GET'' ''/api/pda/v1/cycle-count/tasks'' Context handle_count_list,
     route ''GET'' ''/api/pda/v1/cycle-count/tasks/{taskId}'' Context handle_count_detail,
     route ''GET'' ''/api/pda/v1/counts'' Context handle_count_list,
     route ''GET'' ''/api/pda/v1/counts/{taskId}'' Context handle_count_detail,
     route ''POST'' ''/api/pda/v1/counts/{taskId}/validate-location'' Context handle_count_location,
     route ''POST'' ''/api/pda/v1/counts/{taskId}/validate-item'' Context handle_count_item,
     route ''POST'' ''/api/pda/v1/cycle-count/tasks/{taskId}/counts'' Context handle_count_submit,
     route ''POST'' ''/api/pda/v1/counts/{taskId}/lines/{lineId}/submit'' Context handle_count_submit,
     route ''POST'' ''/api/pda/v1/cycle-count/tasks/{taskId}/recounts'' Context handle_count_recount,
     route ''POST'' ''/api/pda/v1/counts/{taskId}/recount'' Context handle_count_recount,
     route ''POST'' ''/api/pda/v1/cycle-count/tasks/{taskId}/completion'' Context handle_count_complete,
     route ''POST'' ''/api/pda/v1/counts/{taskId}/complete'' Context handle_count_complete,
     route ''GET'' ''/api/pda/v1/counts/commands/{commandId}'' Context handle_count_command_status]"

definition shipping_routes :: "'s route list" where
  "shipping_routes = [route ''GET'' ''/api/pda/v1/shipments/{shipmentId}'' Context handle_shipment_summary,
     route ''GET'' ''/api/pda/v1/shipments/{shipmentId}/readiness'' Context handle_shipment_readiness,
     route ''POST'' ''/api/pda/v1/shipments/{shipmentId}/confirmation'' Context handle_shipment_confirm,
     route ''POST'' ''/api/pda/v1/shipments/{shipmentId}/packages/{packageId}/verify'' Context handle_package_verify,
     route ''POST'' ''/api/pda/v1/shipments/{shipmentId}/confirm'' Context handle_shipment_confirm,
     route ''GET'' ''/api/pda/v1/shipments/{shipmentId}/commands/{commandId}'' Context handle_shipment_command_status]"

text \<open>Every method under the WMS task routes belongs to their own router, when there is one.\<close>

definition wms_routes :: "'s router \<Rightarrow> 's route list" where
  "wms_routes R = (case gx_wms R of None \<Rightarrow> []
     | Some f \<Rightarrow> [route ''*'' ''/api/pda/v1/wms-tasks/*'' Context (\<lambda>_. f)])"

definition api_routes :: "'s route list" where
  "api_routes = entry_routes @ task_routes @ receiving_routes @ putaway_routes @ picking_routes
     @ replenishment_routes @ inventory_routes @ shipping_routes"

definition stream_route :: "'s route" where
  "stream_route = route ''GET'' ''/api/pda/v1/events'' Context gx_events"

definition routes :: "'s router \<Rightarrow> 's route list" where
  "routes R = api_routes @ stream_route # wms_routes R"

text \<open>chi answers with the method and pattern of a registered route and the URL parameters, or, when
  none matches, itself.\<close>

type_synonym matcher = "string \<Rightarrow> string \<Rightarrow> response + string \<times> string \<times> (string \<Rightarrow> string)"

definition find_route :: "'s router \<Rightarrow> string \<Rightarrow> string \<Rightarrow> 's route option" where
  "find_route R m p = find (\<lambda>rt. rt_method rt = m \<and> rt_pattern rt = p) (routes R)"

definition dispatch ::
    "'s router \<Rightarrow> matcher \<Rightarrow> string \<Rightarrow> string \<Rightarrow> request \<Rightarrow> 's gateway_state \<Rightarrow> response \<times> 's gateway_state" where
  "dispatch R match method path q g = (case match method path of
     Inl r \<Rightarrow> (r, g)
   | Inr (m, p, params) \<Rightarrow> (case find_route R m p of
         None \<Rightarrow> (no_content, g)
       | Some rt \<Rightarrow> run_route R rt (q\<lparr>rq_param := params\<rparr>) g))"

definition mux ::
    "'s router \<Rightarrow> matcher \<Rightarrow> string \<Rightarrow> string \<Rightarrow> request \<Rightarrow> 's gateway_state \<Rightarrow> response \<times> 's gateway_state" where
  "mux R match method path q g = with_correlation R q (\<lambda>q1. with_locale R q1 (\<lambda>q2.
     circuit_break R q2 (dispatch R match method path q2))) g"

text \<open>The deadline around the whole router. \<open>http.TimeoutHandler\<close> runs the handler beside a timer
  and keeps its answer back; when the timer wins (\<open>overdue\<close>), the caller gets the fixed body with status
  503, without any of the headers the handler had set, and the handler runs on to its end with a
  cancelled context, which its statements may meet as faults. The event stream has no deadline.\<close>

definition timeout_answer :: response where
  "timeout_answer = \<lparr>hp_status = 503, hp_headers = [],
     hp_body = Some (JObj [(''data'', JNull),
       (''meta'', JObj [(''serverTime'', JNull), (''correlationId'', JStr '''')]),
       (''errors'', JArr [JObj [(''code'', JStr ''GATEWAY_TIMEOUT''), (''message'', JStr ''Request timed out''),
          (''retryable'', JBool True)]])])\<rparr>"

definition streaming :: "string \<Rightarrow> bool" where
  "streaming path \<longleftrightarrow> suffix ''/events'' path"

definition with_timeout ::
    "bool \<Rightarrow> string \<Rightarrow> ('s gateway_state \<Rightarrow> response \<times> 's gateway_state) \<Rightarrow> 's gateway_state \<Rightarrow> response \<times> 's gateway_state" where
  "with_timeout overdue path k g =
     (if streaming path then k g
      else case k g of (r, g1) \<Rightarrow> (if overdue then timeout_answer else r, g1))"

definition serve ::
    "'s router \<Rightarrow> bool \<Rightarrow> matcher \<Rightarrow> string \<Rightarrow> string \<Rightarrow> request \<Rightarrow> 's gateway_state \<Rightarrow> response \<times> 's gateway_state" where
  "serve R overdue match method path q = with_timeout overdue path (mux R match method path q)"

end
