(* ===== verification/Gateway_Properties.thy ===== *)
theory Gateway_Properties
  imports Gateway_Routes
begin

text \<open>
  What holds of every answer of the gateway.
\<close>

named_theorems answers_intros \<open>programs that answer with an envelope\<close>

section \<open>Envelopes\<close>

text \<open>An answer without content, or an object with the members \<open>data\<close>, \<open>errors\<close> and \<open>meta\<close>: the errors
  are empty exactly for a status below 400, data is null when there are errors,
  and \<open>meta\<close> names the
  correlation.\<close>

definition envelope_shape :: "int \<Rightarrow> json \<Rightarrow> string \<Rightarrow> bool" where
  "envelope_shape status j corr \<longleftrightarrow> (case j of
     JObj [(a, data), (b, JArr errors), (c, JObj meta)] \<Rightarrow>
       a = ''data'' \<and> b = ''errors'' \<and> c = ''meta'' \<and> (errors = [] \<longleftrightarrow> status < 400)
       \<and> (errors \<noteq> [] \<longrightarrow> data = JNull) \<and> map_of meta ''correlationId'' = Some (JStr corr)
   | _ \<Rightarrow> False)"

definition known_statuses :: "int list" where
  "known_statuses = [200, 201, 204, 400, 401, 403, 404, 409, 422, 429, 500, 503]"

definition is_envelope :: "string \<Rightarrow> response \<Rightarrow> bool" where
  "is_envelope corr r \<longleftrightarrow> hp_status r \<in> set known_statuses \<and> (case hp_body r of
     None \<Rightarrow> hp_status r = 204
   | Some j \<Rightarrow> envelope_shape (hp_status r) j corr
       \<and> response_header r ''Content-Type'' = ''application/json'')"

definition answers :: "string \<Rightarrow> ('s, response) prog \<Rightarrow> bool" where
  "answers corr m \<longleftrightarrow> (\<forall>s r s'. m s = (Inr r, s') \<longrightarrow> is_envelope corr r)"

lemma answers_bindP [answers_intros]: "(\<And>x. answers corr (f x)) \<Longrightarrow> answers corr (bindP m f)"
  unfolding answers_def bindP_Inr_iff by blast

lemma answers_failP [answers_intros]: "answers corr (failP e)"
  by (simp add: answers_def)

lemma answers_if [answers_intros]: "answers corr m \<Longrightarrow> answers corr n \<Longrightarrow> answers corr (if b then m else n)"
  by simp

lemma answers_option [answers_intros]:
  "answers corr m \<Longrightarrow> (\<And>x. answers corr (f x)) \<Longrightarrow> answers corr (case v of None \<Rightarrow> m | Some x \<Rightarrow> f x)"
  by (cases v) simp_all

lemma answers_sum [answers_intros]:
  "(\<And>e. answers corr (f e)) \<Longrightarrow> (\<And>x. answers corr (k x)) \<Longrightarrow> answers corr (case v of Inl e \<Rightarrow> f e | Inr x \<Rightarrow> k x)"
  by (cases v) simp_all

lemma answers_prod [answers_intros]:
  "(\<And>x y. answers corr (f x y)) \<Longrightarrow> answers corr (case v of (x, y) \<Rightarrow> f x y)"
  by (cases v) simp

lemma write_data_envelope: "status \<in> {200, 201} \<Longrightarrow> is_envelope corr (write_data status data corr t)"
  by (auto simp: is_envelope_def envelope_shape_def write_data_def meta_of_def Let_def response_header_def
      content_json_def known_statuses_def)

lemma no_content_envelope: "is_envelope corr no_content"
  by (simp add: is_envelope_def no_content_def known_statuses_def)

lemma answers_data [answers_intros]:
  "status \<in> {200, 201} \<Longrightarrow> answers (rq_correlation q) (returnP (write_data status data (rq_correlation q) t))"
  by (simp add: answers_def write_data_envelope)

lemma answers_no_content [answers_intros]: "answers corr (returnP no_content)"
  by (simp add: answers_def no_content_envelope)

lemma answers_reply [answers_intros]: "status \<in> {200, 201} \<Longrightarrow> answers (rq_correlation q) (reply R q status data)"
  unfolding reply_def by (intro answers_bindP answers_data)

lemmas handler_defs = handle_login_def handle_refresh_def handle_logout_def handle_operational_def handle_me_def
  handle_warehouses_def handle_register_device_def handle_bootstrap_def handle_dashboard_def handle_task_summary_def
  handle_tasks_list_def page_reply_def handle_task_detail_def handle_claim_task_def handle_release_task_def
  task_mutation_def handle_receiving_list_def handle_receiving_detail_def receiving_mutation_def
  handle_receiving_start_def handle_receiving_claim_def handle_receiving_complete_def handle_receiving_barcode_def
  handle_receiving_confirm_def handle_receiving_command_status_def handle_command_status_def handle_trace_def
  handle_delivery_ack_def

lemmas movement_handler_defs = movement_reply_def movements_reply_def movement_list_def movement_detail_def
  movement_step_def movement_validation_def movement_confirm_def handle_putaway_list_def handle_putaway_detail_def
  handle_putaway_claim_def handle_putaway_start_def handle_putaway_suggestions_def handle_putaway_source_def
  handle_putaway_lpn_def handle_putaway_item_def handle_putaway_lot_def handle_putaway_destination_def
  handle_putaway_confirm_def handle_putaway_group_confirm_def handle_picking_list_def handle_picking_detail_def
  handle_picking_claim_def handle_picking_start_def handle_picking_allocate_def handle_picking_location_def
  handle_picking_barcode_def handle_picking_lot_def handle_picking_destination_def handle_picking_confirm_def
  handle_picking_complete_def handle_replenishment_list_def handle_replenishment_detail_def
  handle_replenishment_source_def handle_replenishment_destination_def handle_replenishment_item_def
  handle_replenishment_confirm_def

lemmas stock_handler_defs = inventory_response_def handle_inventory_search_def handle_inventory_balances_def
  handle_inventory_movements_def handle_transfer_validation_def handle_transfer_confirm_def
  handle_transfer_command_status_def handle_count_list_def handle_count_detail_def handle_count_location_def
  handle_count_item_def count_reply_def handle_count_submit_def handle_count_recount_def handle_count_complete_def
  handle_count_command_status_def handle_shipment_summary_def handle_shipment_readiness_def
  handle_package_verify_def handle_shipment_confirm_def handle_shipment_command_status_def

text \<open>Every handler of the table answers with an envelope.\<close>

definition enveloped :: "'s route \<Rightarrow> bool" where
  "enveloped rt \<longleftrightarrow> (\<forall>R q. answers (rq_correlation q) (rt_handler rt R q))"

lemma enveloped_route: "(\<And>R q. answers (rq_correlation q) (h R q)) \<Longrightarrow> enveloped (route m p g h)"
  by (simp add: enveloped_def route_def)

lemma entry_enveloped: "list_all enveloped entry_routes"
  unfolding entry_routes_def list.pred_inject handler_defs Let_def
  by (intro conjI TrueI enveloped_route answers_intros) simp_all

lemma task_enveloped: "list_all enveloped task_routes"
  unfolding task_routes_def list.pred_inject handler_defs Let_def
  by (intro conjI TrueI enveloped_route answers_intros) simp_all

lemma receiving_enveloped: "list_all enveloped receiving_routes"
  unfolding receiving_routes_def list.pred_inject handler_defs Let_def
  by (intro conjI TrueI enveloped_route answers_intros) simp_all

lemma putaway_enveloped: "list_all enveloped putaway_routes"
  unfolding putaway_routes_def list.pred_inject movement_handler_defs Let_def
  by (intro conjI TrueI enveloped_route answers_intros) simp_all

lemma picking_enveloped: "list_all enveloped picking_routes"
  unfolding picking_routes_def list.pred_inject movement_handler_defs Let_def
  by (intro conjI TrueI enveloped_route answers_intros) simp_all

lemma replenishment_enveloped: "list_all enveloped replenishment_routes"
  unfolding replenishment_routes_def list.pred_inject movement_handler_defs Let_def
  by (intro conjI TrueI enveloped_route answers_intros) simp_all

lemma inventory_enveloped: "list_all enveloped inventory_routes"
  unfolding inventory_routes_def list.pred_inject stock_handler_defs Let_def
  by (intro conjI TrueI enveloped_route answers_intros) simp_all

lemma shipping_enveloped: "list_all enveloped shipping_routes"
  unfolding shipping_routes_def list.pred_inject stock_handler_defs Let_def
  by (intro conjI TrueI enveloped_route answers_intros) simp_all

lemma api_enveloped: "list_all enveloped api_routes"
  by (simp add: api_routes_def entry_enveloped task_enveloped receiving_enveloped putaway_enveloped
      picking_enveloped replenishment_enveloped inventory_enveloped shipping_enveloped)

section \<open>Answers of the gateway\<close>

lemma error_status_known: "error_status code \<in> {400, 401, 403, 404, 409, 422, 429, 500, 503}"
  by (auto simp: error_status_def status_table_def)

lemma write_error_envelope: "is_envelope corr (write_error e corr t)"
proof -
  obtain code m b where d: "domain_error e = (code, m, b)" by (metis prod_cases3)
  have "400 \<le> error_status code" "error_status code \<in> set known_statuses"
    using error_status_known [of code] by (auto simp: known_statuses_def)
  with d show ?thesis
    by (auto simp: is_envelope_def envelope_shape_def write_error_def response_header_def content_json_def)
qed

lemma respond_envelope:
  "answers (rq_correlation q) m \<Longrightarrow> is_envelope (rq_correlation q) (fst (respond R q m s))"
  by (auto simp: respond_def answers_def write_error_envelope split: prod.split sum.split)

lemma respond_error_envelope: "is_envelope (rq_correlation q) (fst (respond R q (failP e) s))"
  by (rule respond_envelope [OF answers_failP])

lemma response_header_with [simp]:
  "response_header (with_header k v r) k' = (if k' = k then v else response_header r k')"
  by (simp add: response_header_def with_header_def update_conv')

lemma with_header_sel: "hp_status (with_header k v r) = hp_status r" "hp_body (with_header k v r) = hp_body r"
  by (simp_all add: with_header_def)

lemma with_header_envelope [simp]:
  "k \<noteq> ''Content-Type'' \<Longrightarrow> is_envelope corr (with_header k v r) = is_envelope corr r"
  by (simp add: is_envelope_def with_header_sel split: option.split)

lemma guarded_answers:
  assumes "enveloped rt"
  shows "answers (rq_correlation q) (guarded_handler rt R q)"
proof -
  have h: "answers (rq_correlation q) (rt_handler rt R (q\<lparr>rq_operator := p\<rparr>))" for p
    using assms [unfolded enveloped_def, rule_format, of "q\<lparr>rq_operator := p\<rparr>" R] by simp
  have a: "answers (rq_correlation q) (bindP (authenticate_request R q) k)"
    if "\<And>p. answers (rq_correlation q) (k (q\<lparr>rq_operator := p\<rparr>))" for k
    using that unfolding answers_def authenticate_request_def Let_def
    by (simp add: bindP_Inr_iff) blast
  show ?thesis
  proof (cases "rt_guard rt")
    case Session
    show ?thesis unfolding guarded_handler_def Session guard.case by (rule a) (rule h)
  next
    case Context
    show ?thesis unfolding guarded_handler_def Context guard.case by (rule a) (intro answers_bindP h)
  qed (use assms in \<open>simp_all add: guarded_handler_def enveloped_def\<close>)
qed

lemma run_route_envelope:
  assumes "enveloped rt"
  shows "is_envelope (rq_correlation q) (fst (run_route R rt q g))"
proof -
  have h: "is_envelope (rq_correlation q) (fst (respond R q (guarded_handler rt R q) s))" for s
    by (rule respond_envelope [OF guarded_answers [OF assms]])
  show ?thesis by (simp add: run_route_def h respond_error_envelope split_def)
qed

definition route_key :: "'s route \<Rightarrow> string \<times> string" where
  "route_key rt = (rt_method rt, rt_pattern rt)"

lemma find_route_enveloped:
  fixes R :: "'s router"
  assumes "(m, p) \<in> set (map route_key (api_routes :: 's route list))"
  shows "\<exists>rt. find_route R m p = Some rt \<and> enveloped rt"
proof -
  have "find (\<lambda>rt. rt_method rt = m \<and> rt_pattern rt = p) (api_routes :: 's route list) \<noteq> None"
    using assms by (auto simp: find_None_iff route_key_def)
  then obtain rt :: "'s route" where f: "find (\<lambda>rt. rt_method rt = m \<and> rt_pattern rt = p) api_routes = Some rt" by auto
  then have "rt \<in> set api_routes" by (auto simp: find_Some_iff)
  with api_enveloped f show ?thesis by (auto simp: find_route_def routes_def find_append list_all_iff)
qed

lemma circuit_envelope:
  "(\<And>g. is_envelope (rq_correlation q) (fst (k g))) \<Longrightarrow> is_envelope (rq_correlation q) (fst (circuit_break R q k g))"
  by (simp add: circuit_break_def split_def respond_error_envelope)

lemma locale_envelope:
  "(\<And>l g. is_envelope (rq_correlation q) (fst (k (q\<lparr>rq_locale := l\<rparr>) g)))
   \<Longrightarrow> is_envelope (rq_correlation q) (fst (with_locale R q k g))"
  by (simp add: with_locale_def split_def Let_def respond_error_envelope)

lemma mux_envelope:
  fixes R :: "'s router"
  assumes "mux R match method path q g = (r, g')"
    and "match method path = Inr (m, p, params)" and "(m, p) \<in> set (map route_key (api_routes :: 's route list))"
  shows "is_envelope (response_header r ''X-Correlation-Id'') r
    \<and> (px_uuid (gx_parsers R) (rq_header q ''X-Correlation-Id'') = None
       \<or> response_header r ''X-Correlation-Id'' = rq_header q ''X-Correlation-Id'')"
proof -
  obtain rt where rt: "find_route R m p = Some rt" "enveloped rt" using find_route_enveloped [OF assms(3)] by blast
  have d: "is_envelope (rq_correlation q1) (fst (dispatch R match method path q1 g1))" for q1 g1
    using run_route_envelope [OF rt(2), of "q1\<lparr>rq_param := params\<rparr>" R g1] by (simp add: dispatch_def assms(2) rt(1))
  have l: "is_envelope (rq_correlation q1)
      (fst (with_locale R q1 (\<lambda>q2. circuit_break R q2 (dispatch R match method path q2)) g1))" for q1 g1
  proof (rule locale_envelope)
    fix l g2
    show "is_envelope (rq_correlation q1) (fst (circuit_break R (q1\<lparr>rq_locale := l\<rparr>)
        (dispatch R match method path (q1\<lparr>rq_locale := l\<rparr>)) g2))"
      using circuit_envelope [of "q1\<lparr>rq_locale := l\<rparr>" "dispatch R match method path (q1\<lparr>rq_locale := l\<rparr>)" R g2]
        d [of "q1\<lparr>rq_locale := l\<rparr>"] by simp
  qed
  have c: "is_envelope i (fst (with_locale R (q\<lparr>rq_correlation := i\<rparr>)
      (\<lambda>q2. circuit_break R q2 (dispatch R match method path q2)) g1))" for i g1
    using l [of "q\<lparr>rq_correlation := i\<rparr>"] by simp
  show ?thesis using assms(1) by (cases "px_uuid (gx_parsers R) (rq_header q ''X-Correlation-Id'')")
    (auto simp: mux_def with_correlation_def Let_def split_def c)
qed

lemma response_header_timeout: "response_header timeout_answer k = ''''"
  by (simp add: response_header_def timeout_answer_def)

lemma timeout_no_envelope: "\<not> is_envelope corr timeout_answer"
  by (simp add: is_envelope_def envelope_shape_def timeout_answer_def)

text \<open>C24: every answer of the gateway to a request that matches a route of its API, the event stream and
  the WMS task routes apart, is an envelope, whatever the operations, the guards in memory and the
  request: a known status, no content or an object of \<open>data\<close>, \<open>errors\<close> and \<open>meta\<close> in which there are
  errors, and no data, exactly when the status is 400 or above, with the correlation id of the answer's
  header, which is the caller's when that is a UUID. The one exception is a request whose deadline has
  passed: it is answered with the fixed 503 \<open>GATEWAY_TIMEOUT\<close> body, whose correlation id is empty and
  which has neither the correlation header nor the JSON content type; the answer never mixes the two.\<close>

theorem every_answer_is_an_envelope:
  fixes R :: "'s router"
  assumes "serve R overdue match method path q g = (r, g')"
    and "match method path = Inr (m, p, params)" and "(m, p) \<in> set (map route_key (api_routes :: 's route list))"
  shows "if overdue \<and> \<not> streaming path
    then r = timeout_answer \<and> (\<forall>k. response_header r k = '''') \<and> (\<forall>corr. \<not> is_envelope corr r)
    else is_envelope (response_header r ''X-Correlation-Id'') r
      \<and> (px_uuid (gx_parsers R) (rq_header q ''X-Correlation-Id'') = None
         \<or> response_header r ''X-Correlation-Id'' = rq_header q ''X-Correlation-Id'')"
proof -
  obtain r0 g0 where mux: "mux R match method path q g = (r0, g0)" by fastforce
  with assms(1) have "r = (if overdue \<and> \<not> streaming path then timeout_answer else r0)"
    by (auto simp: serve_def with_timeout_def split: if_splits)
  with mux_envelope [OF mux assms(2,3)] show ?thesis
    by (simp add: response_header_timeout timeout_no_envelope)
qed

end
