(* ===== verification/Identity_Contract.thy ===== *)
theory Identity_Contract
  imports Identity_Service
begin

text \<open>
  What the identity service asks of the backend behind its ports, as two locales: an
  invariant that every operation of the backend keeps, and refresh tokens that can be spent
  once. The lemmas about whole sequences of calls are proved here for every backend.
\<close>

section \<open>Sequences of calls\<close>

datatype id_call =
    LoginCall string string string string string
  | TokenLoginCall string string string
  | AuthenticateCall string
  | RefreshCall string string
  | RefreshTokenCall string
  | LogoutCall string string
  | RegisterCall operator string string string
  | ContextCall operator string string
  | StatusCall operator string string
  | WarehousesCall operator

fun run_id :: "'s id_ports \<Rightarrow> id_call \<Rightarrow> 's \<Rightarrow> 's" where
  "run_id P (LoginCall u pw dev wh corr) s = snd (login_session_context P u pw dev wh corr s)"
| "run_id P (TokenLoginCall u pw corr) s = snd (login P u pw corr s)"
| "run_id P (AuthenticateCall t) s = snd (authenticate_token P t s)"
| "run_id P (RefreshCall raw dev) s = snd (refresh_session_context P raw dev s)"
| "run_id P (RefreshTokenCall t) s = snd (refresh_token P t s)"
| "run_id P (LogoutCall access raw) s = snd (logout_context P access raw s)"
| "run_id P (RegisterCall p dev wh corr) s = snd (register_device P p dev wh corr s)"
| "run_id P (ContextCall p dev wh) s = snd (validate_context P p dev wh s)"
| "run_id P (StatusCall p dev wh) s = snd (device_status P p dev wh s)"
| "run_id P (WarehousesCall p) s = snd (operator_warehouses P p s)"

definition run_ids :: "'s id_ports \<Rightarrow> id_call list \<Rightarrow> 's \<Rightarrow> 's" where
  "run_ids P cs s = fold (run_id P) cs s"

section \<open>Invariants of a backend\<close>

locale identity_invariant =
  fixes P :: "'s id_ports" and I :: "'s \<Rightarrow> bool"
  assumes keeps_reads: "keeps I (ix_by_username P u)" "keeps I (ix_by_id P i)" "keeps I (ix_warehouses P ws)"
      "keeps I (ix_is_registered P r)" "keeps I (ix_now P)"
    and keeps_writes: "keeps I (ix_register P r)" "keeps I (ix_audit P a)"
    and keeps_protector: "ix_protector P = Some lp \<Longrightarrow>
      keeps I (lp_check lp u t) \<and> keeps I (lp_failure lp u t) \<and> keeps I (lp_success lp u t)"
    and keeps_sessions: "ix_sessions P = Some M \<Longrightarrow> keeps I (sx_create M p dev wh t)
      \<and> keeps I (sx_authenticate M tok t) \<and> keeps I (sx_refresh M tok dev t) \<and> keeps I (sx_logout M tok t)
      \<and> keeps I (sx_revoke_refresh M tok t)"
    and keeps_tokens: "ix_sessions P = None \<Longrightarrow> keeps I (tp_issue (ix_tokens P) p t)
      \<and> keeps I (tp_validate (ix_tokens P) tok t) \<and> keeps I (tp_revoke (ix_tokens P) tok)"
    and keeps_refresh: "ix_sessions P = None \<Longrightarrow> tp_sessions (ix_tokens P) = Some rp \<Longrightarrow>
      keeps I (rp_issue rp p t) \<and> keeps I (rp_validate rp tok t)"
begin

lemma keeps_ignore: "keeps I m \<Longrightarrow> keeps I (ignoreP m)"
  by (simp add: keeps_def)

lemma keeps_protect: "(\<And>lp t. ix_protector P = Some lp \<Longrightarrow> keeps I (f lp t)) \<Longrightarrow> keeps I (protect P f)"
  by (auto simp: protect_def intro!: keeps_intros keeps_reads split: option.split)

lemma keeps_Pair [simp]: "keeps I (Pair r)"
  by (simp add: keeps_def)

lemmas keeps_ports = keeps_reads keeps_writes keeps_protect keeps_ignore
  keeps_protector [THEN conjunct1] keeps_protector [THEN conjunct2, THEN conjunct1]
  keeps_protector [THEN conjunct2, THEN conjunct2]

lemma keeps_audit_login: "keeps I (audit_login P out oid corr)"
  unfolding audit_login_def by (intro keeps_intros keeps_ports)

lemma keeps_credentials: "keeps I (authenticate_credentials P u pw corr)"
  unfolding authenticate_credentials_def
  by (intro keeps_intros keeps_ports keeps_audit_login)

lemma keeps_issue: "ix_sessions P = None \<Longrightarrow> keeps I (issue_token P p)"
  unfolding issue_token_def using keeps_tokens by (intro keeps_intros keeps_ports) blast

lemma keeps_validate_context: "keeps I (validate_context P p dev wh)"
  unfolding validate_context_def by (intro keeps_intros keeps_ports)

lemma keeps_create: "ix_sessions P = Some M \<Longrightarrow> keeps I (create_production_session P M p dev wh)"
  unfolding create_production_session_def using keeps_sessions
  by (auto intro!: keeps_intros keeps_ports split: prod.split)

lemma keeps_login: "keeps I (login_session_context P u pw dev wh corr)"
proof (cases "ix_sessions P")
  case None
  then show ?thesis unfolding login_session_context_def
    by (cases "tp_sessions (ix_tokens P)")
      (auto intro!: keeps_intros keeps_ports keeps_credentials keeps_issue simp: keeps_refresh)
next
  case (Some M)
  then show ?thesis unfolding login_session_context_def
    by (auto intro!: keeps_intros keeps_ports keeps_credentials keeps_create keeps_validate_context)
qed

lemma keeps_token_login: "keeps I (login P u pw corr)"
  unfolding login_def
  by (cases "ix_sessions P") (auto intro!: keeps_intros keeps_credentials keeps_issue)

lemma keeps_active: "keeps I (active_operator P i)"
  unfolding active_operator_def
  by (auto intro!: keeps_intros keeps_ports split: sum.split option.split)

lemma keeps_authenticate: "keeps I (authenticate_token P t)"
proof (cases "ix_sessions P")
  case None
  then show ?thesis unfolding authenticate_token_def using keeps_tokens
    by (auto intro!: keeps_intros keeps_ports)
next
  case (Some M)
  with keeps_sessions [OF Some] show ?thesis unfolding authenticate_token_def
    by (auto intro!: keeps_intros keeps_ports keeps_active)
qed

lemma keeps_revoke: "ix_sessions P = None \<Longrightarrow> keeps I (revoke_token P t)"
  unfolding revoke_token_def using keeps_tokens by (intro keeps_intros) blast

lemma keeps_refresh_token: "keeps I (refresh_token P t)"
  unfolding refresh_token_def
  by (cases "ix_sessions P") (auto intro!: keeps_intros keeps_authenticate keeps_revoke keeps_issue)

lemma keeps_refresh_session: "keeps I (refresh_session_context P raw dev)"
proof (cases "ix_sessions P")
  case None
  then show ?thesis unfolding refresh_session_context_def
    by (cases "tp_sessions (ix_tokens P)")
      (auto intro!: keeps_intros keeps_ports keeps_revoke keeps_issue simp: keeps_refresh)
next
  case (Some M)
  with keeps_sessions [OF Some] show ?thesis unfolding refresh_session_context_def
    by (auto intro!: keeps_intros keeps_ports keeps_active)
qed

lemma keeps_logout: "keeps I (logout_context P access raw)"
proof (cases "ix_sessions P")
  case None
  then show ?thesis by (simp add: logout_context_def keeps_revoke)
next
  case (Some M)
  with keeps_sessions [OF Some] show ?thesis unfolding logout_context_def
    by (auto intro!: keeps_intros keeps_ports)
qed

lemma keeps_register: "keeps I (register_device P p dev wh corr)"
  unfolding register_device_def Let_def by (intro keeps_intros keeps_ports)

lemma keeps_status: "keeps I (device_status P p dev wh)"
  unfolding device_status_def by (intro keeps_intros keeps_ports)

lemma keeps_calls: "I s \<Longrightarrow> I (run_id P c s)"
  using keeps_login keeps_token_login keeps_authenticate keeps_refresh_session keeps_refresh_token keeps_logout
    keeps_register keeps_validate_context keeps_status keeps_reads(3)
  by (cases c) (simp_all add: keeps_def operator_warehouses_def)

lemma kept: "I s \<Longrightarrow> I (run_ids P cs s)"
  by (induction cs arbitrary: s) (simp_all add: run_ids_def keeps_calls)

end

section \<open>Refresh tokens are spent once\<close>

text \<open>\<open>spent raw s\<close>: the refresh token \<open>raw\<close> has been exchanged. \<open>inv\<close> is what the backend keeps of its tables.\<close>

locale one_time_refresh = base: identity_invariant P inv
  for P :: "'s id_ports" and inv :: "'s \<Rightarrow> bool" +
  fixes spent :: "string \<Rightarrow> 's \<Rightarrow> bool"
  assumes spent_kept: "identity_invariant P (spent raw)"
    and refresh_spends: "ix_sessions P = Some M \<Longrightarrow> inv s \<Longrightarrow> sx_refresh M raw dev t s = (Inr x, s') \<Longrightarrow>
      \<not> spent raw s \<and> spent raw s'"
    and live_only: "ix_sessions P = None \<Longrightarrow> tp_sessions (ix_tokens P) = Some rp \<Longrightarrow>
      rp_validate rp raw t s = (Inr c, s') \<Longrightarrow> \<not> spent raw s"
    and revoke_spends: "ix_sessions P = None \<Longrightarrow> tp_revoke (ix_tokens P) raw s = (Inr u, s') \<Longrightarrow> spent raw s'"
begin

lemma spent_back: "keeps (spent raw) m \<Longrightarrow> m s = (r, s') \<Longrightarrow> \<not> spent raw s' \<Longrightarrow> \<not> spent raw s"
  by (auto dest: keepsD)

lemma exchanged:
  assumes inv: "inv s" and run: "refresh_session_context P raw dev s = (Inr v, s')"
  shows "\<not> spent raw s \<and> spent raw s'"
proof (cases "ix_sessions P")
  case (Some M)
  obtain t s0 x s1 where now: "ix_now P s = (Inr t, s0)" and ref: "sx_refresh M raw dev t s0 = (Inr x, s1)"
    and act: "\<exists>p. active_operator P (rs_operator x) s1 = (Inr p, s')"
    using run by (auto simp: refresh_session_context_def Some prog_iffs)
  from keepsD [OF base.keeps_reads(5) now inv] have "inv s0" .
  from refresh_spends [OF Some this ref] have "\<not> spent raw s0" "spent raw s1" by simp_all
  with spent_back [OF identity_invariant.keeps_reads(5) [OF spent_kept] now] act show ?thesis
    by (auto dest: keepsD [OF identity_invariant.keeps_active [OF spent_kept]])
next
  case None
  note keep = identity_invariant.keeps_reads [OF spent_kept] identity_invariant.keeps_issue [OF spent_kept None]
    identity_invariant.keeps_refresh [OF spent_kept None]
  obtain rp t s0 c s1 p s2 u s3 where rp: "tp_sessions (ix_tokens P) = Some rp" and now: "ix_now P s = (Inr t, s0)"
    and val: "rp_validate rp raw t s0 = (Inr c, s1)" and by_id: "ix_by_id P (jc_operator c) s1 = (Inr (Some p), s2)"
    and rev: "tp_revoke (ix_tokens P) raw s2 = (Inr u, s3)"
    and rest: "\<exists>w. bindP (issue_token P p) (\<lambda>access. bindP (ix_now P) (\<lambda>t2. bindP (rp_issue rp p t2) (\<lambda>renewed.
         bindP (ix_now P) (\<lambda>t3. returnP (mock_session access renewed t3, p))))) s3 = (Inr w, s')"
    using run by (auto simp: refresh_session_context_def None prog_iffs revoke_token_def split: option.splits)
  from live_only [OF None rp val] spent_back [OF keep(5) now] have "\<not> spent raw s" by blast
  moreover have "spent raw s3" by (rule revoke_spends [OF None rev])
  with rest have "spent raw s'"
    using keepsD [OF keep(6)] keepsD [OF keep(5)] keepsD [OF keep(7) [OF rp, THEN conjunct1]]
    by (auto simp: prog_iffs)
  ultimately show ?thesis ..
qed

text \<open>Once exchanged, whatever is called next, the token is not exchanged again.\<close>

theorem exchanged_once:
  assumes inv: "inv s" and run: "refresh_session_context P raw dev s = (Inr v, s1)"
    and again: "refresh_session_context P raw dev' (run_ids P cs s1) = (r, s2)"
  shows "\<exists>e. r = Inl e"
proof (cases r)
  case (Inr w)
  from keepsD [OF base.keeps_refresh_session run inv] have "inv (run_ids P cs s1)" by (rule base.kept)
  from exchanged [OF this again [unfolded Inr]] have "\<not> spent raw (run_ids P cs s1)" by simp
  moreover have "spent raw (run_ids P cs s1)"
    using exchanged [OF inv run] identity_invariant.kept [OF spent_kept] by blast
  ultimately show ?thesis by contradiction
qed simp

end

end
