(* ===== verification/Access_Token.thy ===== *)
theory Access_Token
  imports Identity_Service Go_Strings
begin

text \<open>
  The tokens of the two identity modes: the signed access tokens of
  \<open>internal/identity/adapters/postgres/session.go\<close> (\<open>sign\<close>, \<open>parse\<close>), and the token provider of
  \<open>internal/identity/adapters/mock/token.go\<close> with its set of revoked token ids. The JSON codec of the
  claims, the message authentication code and the RSA signature are parameters.
\<close>

section \<open>Seconds since 1970\<close>

text \<open>\<open>Unix()\<close> and \<open>time.Unix(s, 0)\<close>; instants count from the first of January of the year 1.\<close>

definition nanos :: int where "nanos = 1000000000"
definition unix_epoch :: int where "unix_epoch = 62135596800"

definition unix_seconds :: "time \<Rightarrow> int" where
  "unix_seconds t = t div nanos - unix_epoch"

definition time_of_unix :: "int \<Rightarrow> time" where
  "time_of_unix s = (s + unix_epoch) * nanos"

lemma time_of_unix_seconds: "time_of_unix (unix_seconds t) = t - t mod nanos"
  by (simp add: time_of_unix_def unix_seconds_def minus_mod_eq_div_mult)

lemma time_of_unix_le: "time_of_unix (unix_seconds t) \<le> t"
  by (simp add: time_of_unix_seconds nanos_def)

lemma time_of_unix_gt: "t - nanos < time_of_unix (unix_seconds t)"
  by (simp add: time_of_unix_seconds nanos_def)

section \<open>Three parts joined by dots\<close>

definition dotted :: "string \<Rightarrow> string \<Rightarrow> string" where
  "dotted a b = a @ ''.'' @ b"

definition dot :: char where "dot = CHR 0x2E"

lemma dot_not_b64: "dot \<notin> set b64_alphabet"
  by (simp add: dot_def b64_alphabet_def)

lemma dot_not_encoded: "dot \<notin> set (raw_url_encode s)"
proof -
  have "\<forall>n \<in> set (sextets (map of_char s)). n < 64" by (rule sextets_less) auto
  then have "set (raw_url_encode s) \<subseteq> set b64_alphabet"
    by (auto simp: raw_url_encode_def b64_encode_sextets intro: b64_char_in)
  with dot_not_b64 show ?thesis by blast
qed

lemma split_dotted: "dot \<notin> set a \<Longrightarrow> split_char dot (dotted a b) = a # split_char dot b"
  by (simp add: dotted_def dot_def split_char_append)

lemma split_three: "dot \<notin> set a \<Longrightarrow> dot \<notin> set b \<Longrightarrow> dot \<notin> set c \<Longrightarrow>
    split_char dot (dotted (dotted a b) c) = [a, b, c]"
  using split_dotted [of a "dotted b c"] split_dotted [of b c]
  by (simp add: split_char_no_sep dotted_def)

section \<open>Production access tokens\<close>

record token_claims =
  tc_issuer :: string
  tc_audience :: string
  tc_subject :: string
  tc_id :: string
  tc_session :: string
  tc_operator :: string
  tc_device :: string
  tc_warehouse :: string
  tc_issued :: int
  tc_not_before :: int
  tc_expires :: int

text \<open>\<open>jw_header\<close> and \<open>jw_claims\<close> marshal, the other two unmarshal; a key of RSA is a string.\<close>

record jwt_codec =
  jw_header :: "string \<Rightarrow> string \<Rightarrow> string"
  jw_read_header :: "string \<Rightarrow> (string \<times> string) option"
  jw_claims :: "token_claims \<Rightarrow> string"
  jw_read_claims :: "string \<Rightarrow> token_claims option"
  jw_hmac :: "string \<Rightarrow> string \<Rightarrow> string"
  jw_rsa_sign :: "string \<Rightarrow> string \<Rightarrow> err + string"
  jw_rsa_verify :: "string \<Rightarrow> string \<Rightarrow> string \<Rightarrow> bool"
  jw_sha256 :: "string \<Rightarrow> string"

record session_config =
  sm_secret :: string
  sm_issuer :: string
  sm_audience :: string
  sm_access_ttl :: int
  sm_refresh_ttl :: int
  sm_mode :: string
  sm_key_id :: string
  sm_private :: string
  sm_public :: "string \<Rightarrow> string option"
  sm_codec :: jwt_codec

definition absolute_refresh_lifetime :: int where
  "absolute_refresh_lifetime = 30 * 24 * one_hour"

definition new_session_manager ::
    "jwt_codec \<Rightarrow> string \<Rightarrow> string \<Rightarrow> string \<Rightarrow> int \<Rightarrow> int \<Rightarrow> err + session_config" where
  "new_session_manager J secret issuer audience access refresh =
     (if length secret < 32 \<or> issuer = '''' \<or> audience = '''' \<or> access \<le> 0 \<or> refresh \<noteq> absolute_refresh_lifetime
      then Inl (TextError ''invalid production identity configuration'')
      else Inr \<lparr>sm_secret = secret, sm_issuer = issuer, sm_audience = audience, sm_access_ttl = access,
        sm_refresh_ttl = refresh, sm_mode = '''', sm_key_id = '''', sm_private = '''',
        sm_public = (\<lambda>k. None), sm_codec = J\<rparr>)"

definition new_rsa_session_manager ::
    "jwt_codec \<Rightarrow> (string \<Rightarrow> string option) \<Rightarrow> string option \<Rightarrow> string \<Rightarrow> string \<Rightarrow> string \<Rightarrow> int \<Rightarrow> int
     \<Rightarrow> err + session_config" where
  "new_rsa_session_manager J keys private key_id issuer audience access refresh =
     (case private of None \<Rightarrow> Inl (TextError ''invalid RSA identity configuration'')
      | Some k \<Rightarrow>
      if keys key_id = None \<or> key_id = '''' \<or> issuer = '''' \<or> audience = '''' \<or> access \<le> 0
        \<or> refresh \<noteq> absolute_refresh_lifetime
      then Inl (TextError ''invalid RSA identity configuration'')
      else Inr \<lparr>sm_secret = '''', sm_issuer = issuer, sm_audience = audience, sm_access_ttl = access,
        sm_refresh_ttl = refresh, sm_mode = ''RS256'', sm_key_id = key_id, sm_private = k,
        sm_public = keys, sm_codec = J\<rparr>)"

definition algorithm :: "session_config \<Rightarrow> string" where
  "algorithm M = (if sm_mode M = ''RS256'' then ''RS256'' else ''HS256'')"

definition sign_token :: "session_config \<Rightarrow> token_claims \<Rightarrow> err + string" where
  "sign_token M c =
     (let J = sm_codec M;
          h = raw_url_encode (jw_header J (algorithm M) (sm_key_id M));
          msg = dotted h (raw_url_encode (jw_claims J c))
      in if sm_mode M = ''RS256''
         then map_sum id (\<lambda>s. dotted msg (raw_url_encode s)) (jw_rsa_sign J (sm_private M) (jw_sha256 J msg))
         else Inr (dotted msg (raw_url_encode (jw_hmac J (sm_secret M) msg))))"

text \<open>The signature a token carries, checked with the key its mode calls for.\<close>

definition signature_ok :: "session_config \<Rightarrow> string \<times> string \<Rightarrow> string \<Rightarrow> string \<Rightarrow> bool" where
  "signature_ok M header msg signature \<longleftrightarrow>
     (let J = sm_codec M in
      if sm_mode M = ''RS256''
      then fst header = ''RS256'' \<and> (case sm_public M (snd header) of None \<Rightarrow> False
             | Some k \<Rightarrow> jw_rsa_verify J k (jw_sha256 J msg) signature)
      else fst header = ''HS256'' \<and> jw_hmac J (sm_secret M) msg = signature)"

definition read_header :: "jwt_codec \<Rightarrow> string \<Rightarrow> (string \<times> string) option" where
  "read_header J part = Option.bind (raw_url_decode part) (jw_read_header J)"

definition read_claims :: "jwt_codec \<Rightarrow> string \<Rightarrow> token_claims option" where
  "read_claims J part = Option.bind (raw_url_decode part) (jw_read_claims J)"

definition claims_ok :: "session_config \<Rightarrow> token_claims \<Rightarrow> time \<Rightarrow> bool" where
  "claims_ok M c now \<longleftrightarrow> tc_issuer c = sm_issuer M \<and> tc_audience c = sm_audience M \<and> tc_operator c \<noteq> ''''
     \<and> tc_session c \<noteq> '''' \<and> time_of_unix (tc_not_before c) \<le> now"

definition parse_token :: "session_config \<Rightarrow> string \<Rightarrow> time \<Rightarrow> err + token_claims" where
  "parse_token M raw now =
     (case split_char dot raw of
        [h, p, s] \<Rightarrow>
          (case (read_header (sm_codec M) h, raw_url_decode s) of
             (Some header, Some signature) \<Rightarrow>
               if \<not> signature_ok M header (dotted h p) signature then Inl ErrAccessTokenInvalid
               else (case read_claims (sm_codec M) p of
                   None \<Rightarrow> Inl ErrAccessTokenInvalid
                 | Some c \<Rightarrow>
                     if \<not> claims_ok M c now then Inl ErrAccessTokenInvalid
                     else if \<not> now < time_of_unix (tc_expires c) then Inl ErrAccessTokenExpired
                     else Inr c)
           | _ \<Rightarrow> Inl ErrAccessTokenInvalid)
      | _ \<Rightarrow> Inl ErrAccessTokenInvalid)"

subsection \<open>What a token that is accepted carries\<close>

lemma parse_token_Inr:
  assumes "parse_token M raw now = Inr c"
  obtains h p e s header where "split_char dot raw = [h, p, e]" and "raw_url_decode e = Some s"
    and "read_header (sm_codec M) h = Some header" and "signature_ok M header (dotted h p) s"
    and "read_claims (sm_codec M) p = Some c" and "claims_ok M c now"
    and "now < time_of_unix (tc_expires c)"
  using assms by (auto simp: parse_token_def split: list.splits option.splits if_splits)

text \<open>Documented behaviour of the packages behind the codec, for claims in ASCII: marshalled values are
  read back, and a signature made with a private key is verified by its public key.\<close>

definition ascii :: "string \<Rightarrow> bool" where
  "ascii s \<longleftrightarrow> list_all (\<lambda>c. of_char c < (128 :: nat)) s"

definition ascii_claims :: "token_claims \<Rightarrow> bool" where
  "ascii_claims c \<longleftrightarrow> list_all ascii [tc_issuer c, tc_audience c, tc_subject c, tc_id c, tc_session c,
     tc_operator c, tc_device c, tc_warehouse c]"

definition codec_laws :: "jwt_codec \<Rightarrow> bool" where
  "codec_laws J \<longleftrightarrow> (\<forall>a k. ascii a \<longrightarrow> ascii k \<longrightarrow> jw_read_header J (jw_header J a k) = Some (a, k))
     \<and> (\<forall>c. ascii_claims c \<longrightarrow> jw_read_claims J (jw_claims J c) = Some c)"

definition key_pair :: "session_config \<Rightarrow> bool" where
  "key_pair M \<longleftrightarrow> ascii (sm_key_id M) \<and> (sm_mode M = ''RS256'' \<longrightarrow> (\<exists>k. sm_public M (sm_key_id M) = Some k
     \<and> (\<forall>d s. jw_rsa_sign (sm_codec M) (sm_private M) d = Inr s \<longrightarrow> jw_rsa_verify (sm_codec M) k d s)))"

lemma ascii_algorithm: "ascii (algorithm M)"
  by (simp add: algorithm_def ascii_def)

lemma sign_token_signed:
  assumes signed: "sign_token M c = Inr raw" and laws: "codec_laws (sm_codec M)" and keys: "key_pair M"
    and ascii: "ascii_claims c"
  obtains h p s header where "raw = dotted (dotted h p) (raw_url_encode s)" "dot \<notin> set h" "dot \<notin> set p"
    "read_header (sm_codec M) h = Some header" "signature_ok M header (dotted h p) s"
    "read_claims (sm_codec M) p = Some c"
proof -
  let ?J = "sm_codec M"
  let ?h = "raw_url_encode (jw_header ?J (algorithm M) (sm_key_id M))" and ?p = "raw_url_encode (jw_claims ?J c)"
  obtain s where raw: "raw = dotted (dotted ?h ?p) (raw_url_encode s)"
    and s: "if sm_mode M = ''RS256'' then jw_rsa_sign ?J (sm_private M) (jw_sha256 ?J (dotted ?h ?p)) = Inr s
        else s = jw_hmac ?J (sm_secret M) (dotted ?h ?p)"
    using signed by (auto simp: sign_token_def Let_def map_sum_def split: if_splits sum.splits)
  have header: "read_header ?J ?h = Some (algorithm M, sm_key_id M)"
    using laws keys by (simp add: read_header_def raw_url_roundtrip codec_laws_def key_pair_def ascii_algorithm)
  moreover have "read_claims ?J ?p = Some c"
    using laws ascii by (simp add: read_claims_def raw_url_roundtrip codec_laws_def)
  moreover have "signature_ok M (algorithm M, sm_key_id M) (dotted ?h ?p) s"
    using s keys by (auto simp: signature_ok_def key_pair_def algorithm_def Let_def split: if_splits)
  ultimately show thesis using raw by (intro that) (simp_all add: dot_not_encoded)
qed

lemma parse_signed:
  assumes "sign_token M c = Inr raw" and "codec_laws (sm_codec M)" and "key_pair M" and "ascii_claims c"
  shows "parse_token M raw now =
     (if \<not> claims_ok M c now then Inl ErrAccessTokenInvalid
      else if now < time_of_unix (tc_expires c) then Inr c else Inl ErrAccessTokenExpired)"
proof -
  obtain h p s header where raw: "raw = dotted (dotted h p) (raw_url_encode s)" and "dot \<notin> set h" "dot \<notin> set p"
    and facts: "read_header (sm_codec M) h = Some header" "signature_ok M header (dotted h p) s"
    "read_claims (sm_codec M) p = Some c"
    using sign_token_signed [OF assms] by blast
  then have "split_char dot raw = [h, p, raw_url_encode s]"
    by (simp only: raw split_three dot_not_encoded not_False_eq_True)
  with facts show ?thesis by (simp add: parse_token_def raw_url_roundtrip)
qed

end
