(* ===== verification/Mock_Identity.thy ===== *)
theory Mock_Identity
  imports Access_Token
begin

text \<open>
  The identity backend of the local mock, \<open>internal/identity/adapters/mock\<close>: the store loaded from
  a fixture and the token provider with its set of revoked token ids. JSON and the message
  authentication code are parameters; so is \<open>uuid.NewString\<close>.
\<close>

section \<open>State\<close>

record mock_claims =
  mc_subject :: string
  mc_id :: string
  mc_expires :: int
  mc_issuer :: string
  mc_kind :: string

record mock_config =
  mp_secret :: string
  mp_ttl :: int
  mp_write :: "mock_claims \<Rightarrow> string"
  mp_read :: "string \<Rightarrow> mock_claims option"
  mp_hmac :: "string \<Rightarrow> string \<Rightarrow> string"
  mp_uuid :: "uuid \<Rightarrow> string"

record mock_world = env +
  mk_operators :: "(string \<times> operator) list"
  mk_by_id :: "(string \<times> operator) list"
  mk_warehouses :: "(string \<times> warehouse) list"
  mk_devices :: "(string \<times> device_registration) list"
  mk_audit :: "security_record list"
  mk_revoked :: "string list"

section \<open>The fixture\<close>

record operator_fixture =
  of_id :: string
  of_employee :: string
  of_username :: string
  of_display :: string
  of_password :: string
  of_roles :: "string list"
  of_permissions :: "string list"
  of_warehouses :: "string list"
  of_shift :: string
  of_active :: bool

record identity_fixture =
  fx_version :: int
  fx_operators :: "operator_fixture list"
  fx_warehouses :: "warehouse list"

definition operator_of_fixture :: "operator_fixture \<Rightarrow> operator" where
  "operator_of_fixture f = \<lparr>op_id = of_id f, op_employee = of_employee f, op_username = of_username f,
     op_display = of_display f, op_password = of_password f, op_hash = '''', op_roles = of_roles f,
     op_permissions = of_permissions f, op_warehouses = of_warehouses f, op_shift = of_shift f,
     op_active = of_active f\<rparr>"

text \<open>The loaded store, given the environment it runs in; a later record replaces an earlier one.\<close>

definition load_fixture :: "identity_fixture \<Rightarrow> env \<Rightarrow> err + mock_world" where
  "load_fixture f e =
     (if fx_version f < 1 then Inl (TextError ''fixtureVersion must be positive'')
      else let ops = map operator_of_fixture (fx_operators f) in
        Inr (env.extend e \<lparr>mk_operators = fold (\<lambda>p. AList.update (op_username p) p) ops [],
          mk_by_id = fold (\<lambda>p. AList.update (op_id p) p) ops [],
          mk_warehouses = fold (\<lambda>w. AList.update (wh_id w) w) (fx_warehouses f) [],
          mk_devices = [], mk_audit = [], mk_revoked = []\<rparr>))"

section \<open>Store\<close>

definition mock_by_username :: "string \<Rightarrow> (mock_world, operator option) prog" where
  "mock_by_username u s = (Inr (map_of (mk_operators s) u), s)"

definition mock_by_id :: "string \<Rightarrow> (mock_world, operator option) prog" where
  "mock_by_id i s = (Inr (map_of (mk_by_id s) i), s)"

definition mock_warehouses :: "string list \<Rightarrow> (mock_world, warehouse list) prog" where
  "mock_warehouses ids s = (Inr (List.map_filter (map_of (mk_warehouses s)) ids), s)"

definition mock_register :: "device_registration \<Rightarrow> (mock_world, unit) prog" where
  "mock_register r s = (Inr (), s\<lparr>mk_devices := AList.update (dr_device r) r (mk_devices s)\<rparr>)"

definition mock_is_registered :: "device_registration \<Rightarrow> (mock_world, bool) prog" where
  "mock_is_registered r s = (Inr (map_of (mk_devices s) (dr_device r) = Some r), s)"

definition mock_append :: "security_record \<Rightarrow> (mock_world, unit) prog" where
  "mock_append r s = (Inr (), s\<lparr>mk_audit := mk_audit s @ [r]\<rparr>)"

section \<open>Token provider\<close>

definition new_token_provider ::
    "string \<Rightarrow> int \<Rightarrow> (mock_claims \<Rightarrow> string) \<Rightarrow> (string \<Rightarrow> mock_claims option)
     \<Rightarrow> (string \<Rightarrow> string \<Rightarrow> string) \<Rightarrow> (uuid \<Rightarrow> string) \<Rightarrow> err + mock_config" where
  "new_token_provider secret ttl write read hmac u =
     (if length secret < 32 then Inl (TextError ''mock token secret must contain at least 32 bytes'')
      else Inr \<lparr>mp_secret = secret, mp_ttl = ttl, mp_write = write, mp_read = read, mp_hmac = hmac, mp_uuid = u\<rparr>)"

text \<open>\<open>json.Marshal\<close> writes the keys of a map in order.\<close>

definition mock_header :: string where
  "mock_header = ''{\"alg\":\"HS256\",\"mock\":\"true\",\"typ\":\"JWT\"}''"

definition mock_sign :: "mock_config \<Rightarrow> string \<Rightarrow> string" where
  "mock_sign C msg = raw_url_encode (mp_hmac C (mp_secret C) msg)"

definition mock_issuer :: string where "mock_issuer = ''pda-local-mock''"

definition issue_claims :: "mock_config \<Rightarrow> mock_claims \<Rightarrow> string" where
  "issue_claims C c = (let msg = dotted (raw_url_encode mock_header) (raw_url_encode (mp_write C c))
     in dotted msg (mock_sign C msg))"

definition mock_issue_kind :: "mock_config \<Rightarrow> string \<Rightarrow> int \<Rightarrow> operator \<Rightarrow> time \<Rightarrow> (mock_world, string) prog" where
  "mock_issue_kind C kind ttl p now = bindP new_uuid (\<lambda>i. returnP (issue_claims C
     \<lparr>mc_subject = op_id p, mc_id = mp_uuid C i, mc_expires = unix_seconds (now + ttl), mc_issuer = mock_issuer,
      mc_kind = kind\<rparr>))"

definition mock_issue :: "mock_config \<Rightarrow> operator \<Rightarrow> time \<Rightarrow> (mock_world, string) prog" where
  "mock_issue C = mock_issue_kind C ''access'' (mp_ttl C)"

definition mock_issue_refresh :: "mock_config \<Rightarrow> operator \<Rightarrow> time \<Rightarrow> (mock_world, string) prog" where
  "mock_issue_refresh C = mock_issue_kind C ''refresh'' (mp_ttl C * 24)"

text \<open>\<open>mock_read\<close> is the part of \<open>validate\<close> that looks at the token alone.\<close>

definition mock_read :: "mock_config \<Rightarrow> string \<Rightarrow> err + mock_claims" where
  "mock_read C token =
     (case split_char dot token of
        [h, p, s] \<Rightarrow>
          if s \<noteq> mock_sign C (dotted h p) then Inl (TextError ''invalid mock token'')
          else (case raw_url_decode p of
              None \<Rightarrow> Inl (TextError ''illegal base64 data'')
            | Some d \<Rightarrow> (case mp_read C d of None \<Rightarrow> Inl (TextError ''json'') | Some c \<Rightarrow> Inr c))
      | _ \<Rightarrow> Inl (TextError ''invalid mock token''))"

definition mock_accepts :: "string list \<Rightarrow> mock_claims \<Rightarrow> time \<Rightarrow> string \<Rightarrow> bool" where
  "mock_accepts revoked c now kind \<longleftrightarrow> mc_issuer c = mock_issuer \<and> mc_kind c = kind \<and> mc_subject c \<noteq> ''''
     \<and> mc_id c \<noteq> '''' \<and> mc_id c \<notin> set revoked \<and> now < time_of_unix (mc_expires c)"

definition mock_validate_kind :: "mock_config \<Rightarrow> string \<Rightarrow> string \<Rightarrow> time \<Rightarrow> (mock_world, claims) prog" where
  "mock_validate_kind C kind token now s =
     (case mock_read C token of
        Inl e \<Rightarrow> (Inl e, s)
      | Inr c \<Rightarrow> if mock_accepts (mk_revoked s) c now kind
          then (Inr \<lparr>jc_operator = mc_subject c, jc_token = mc_id c, jc_session = '''', jc_device = '''',
            jc_warehouse = '''', jc_expires = time_of_unix (mc_expires c)\<rparr>, s)
          else (Inl (TextError ''expired or revoked mock token''), s))"

definition mock_validate :: "mock_config \<Rightarrow> string \<Rightarrow> time \<Rightarrow> (mock_world, claims) prog" where
  "mock_validate C = mock_validate_kind C ''access''"

definition mock_validate_refresh :: "mock_config \<Rightarrow> string \<Rightarrow> time \<Rightarrow> (mock_world, claims) prog" where
  "mock_validate_refresh C = mock_validate_kind C ''refresh''"

definition mock_revoke :: "mock_config \<Rightarrow> string \<Rightarrow> (mock_world, unit) prog" where
  "mock_revoke C token =
     bindP (tryP (mock_validate_kind C ''access'' token (time_of_unix 0))) (\<lambda>r.
     bindP (case r of Inr c \<Rightarrow> returnP c | Inl _ \<Rightarrow> mock_validate_kind C ''refresh'' token (time_of_unix 0)) (\<lambda>c s.
     (Inr (), s\<lparr>mk_revoked := List.insert (jc_token c) (mk_revoked s)\<rparr>)))"

definition mock_tokens :: "mock_config \<Rightarrow> mock_world token_provider" where
  "mock_tokens C = \<lparr>tp_issue = mock_issue C, tp_validate = mock_validate C, tp_revoke = mock_revoke C,
     tp_sessions = Some \<lparr>rp_issue = mock_issue_refresh C, rp_validate = mock_validate_refresh C\<rparr>\<rparr>"

definition mock_identity :: "mock_config \<Rightarrow> mock_world id_ports" where
  "mock_identity C = \<lparr>ix_by_username = mock_by_username, ix_by_id = mock_by_id,
     ix_warehouses = mock_warehouses, ix_tokens = mock_tokens C, ix_register = mock_register,
     ix_is_registered = mock_is_registered, ix_audit = mock_append, ix_verify = None, ix_sessions = None,
     ix_protector = None, ix_now = clock_now\<rparr>"

section \<open>Rules\<close>

lemma mock_identity_sel [simp]:
  "ix_by_username (mock_identity C) = mock_by_username" "ix_by_id (mock_identity C) = mock_by_id"
  "ix_warehouses (mock_identity C) = mock_warehouses" "ix_tokens (mock_identity C) = mock_tokens C"
  "ix_register (mock_identity C) = mock_register" "ix_is_registered (mock_identity C) = mock_is_registered"
  "ix_audit (mock_identity C) = mock_append" "ix_verify (mock_identity C) = None"
  "ix_sessions (mock_identity C) = None" "ix_protector (mock_identity C) = None"
  "ix_now (mock_identity C) = clock_now"
  by (simp_all add: mock_identity_def)

lemma mock_tokens_sel [simp]:
  "tp_issue (mock_tokens C) = mock_issue C" "tp_validate (mock_tokens C) = mock_validate C"
  "tp_revoke (mock_tokens C) = mock_revoke C"
  "tp_sessions (mock_tokens C) = Some \<lparr>rp_issue = mock_issue_refresh C, rp_validate = mock_validate_refresh C\<rparr>"
  by (simp_all add: mock_tokens_def)

text \<open>A token whose id is in the set of revoked ids.\<close>

definition mock_spent :: "mock_config \<Rightarrow> string \<Rightarrow> mock_world \<Rightarrow> bool" where
  "mock_spent C token s \<longleftrightarrow> (\<exists>c. mock_read C token = Inr c \<and> mc_id c \<in> set (mk_revoked s))"

lemma mock_validate_state: "mock_validate_kind C kind token now s = (r, s') \<Longrightarrow> s' = s"
  by (auto simp: mock_validate_kind_def split: sum.splits if_splits)

lemma mock_validate_Inr:
  assumes "mock_validate_kind C kind token now s = (Inr c, s')"
  obtains d where "mock_read C token = Inr d" "mock_accepts (mk_revoked s) d now kind" "jc_token c = mc_id d"
    "jc_operator c = mc_subject d" "s' = s"
  using assms by (auto simp: mock_validate_kind_def split: sum.splits if_splits)

lemma mock_validate_live: "mock_validate_kind C kind token now s = (Inr c, s') \<Longrightarrow> \<not> mock_spent C token s"
  by (erule mock_validate_Inr) (auto simp: mock_spent_def mock_accepts_def)

lemma mock_revoke_state: "mock_revoke C token s = (r, s') \<Longrightarrow>
    s' = s \<or> (\<exists>i. s' = s\<lparr>mk_revoked := List.insert i (mk_revoked s)\<rparr>)"
  by (auto simp: mock_revoke_def bindP_def tryP_def dest!: mock_validate_state split: sum.splits prod.splits)

lemma mock_revoke_spends:
  assumes "mock_revoke C token s = (Inr u, s')"
  shows "mock_spent C token s'"
proof -
  obtain kind now c s0 s1 where "mock_validate_kind C kind token now s0 = (Inr c, s1)"
    and s': "s' = s1\<lparr>mk_revoked := List.insert (jc_token c) (mk_revoked s1)\<rparr>"
    using assms unfolding mock_revoke_def
    by (auto simp: bindP_def tryP_def split: sum.splits prod.splits)
  then show ?thesis by (auto simp: mock_spent_def elim!: mock_validate_Inr)
qed

lemma mock_issue_read:
  assumes "mp_read C (mp_write C c) = Some c"
  shows "mock_read C (issue_claims C c) = Inr c"
  using assms split_three [of "raw_url_encode mock_header" "raw_url_encode (mp_write C c)"
      "mock_sign C (dotted (raw_url_encode mock_header) (raw_url_encode (mp_write C c)))"]
  by (simp add: issue_claims_def mock_read_def Let_def dot_not_encoded mock_sign_def raw_url_roundtrip)

end
