(* ===== verification/Pg_Identity.thy ===== *)
theory Pg_Identity
  imports Access_Token SQL
begin

text \<open>
  The PostgreSQL identity backend: the tables of \<open>migrations/execution/000007\<close>, the store of
  \<open>internal/identity/adapters/postgres/store.go\<close> and the session manager of \<open>session.go\<close>. SHA-256,
  the random source and the text form of a UUID are parameters; \<open>lower\<close> folds ASCII.
\<close>

section \<open>Tables\<close>

record operator_row =
  ow_username :: string
  ow_employee :: string
  ow_display :: string
  ow_hash :: string
  ow_status :: string
  ow_shift :: string
  ow_failed :: int
  ow_locked :: "time option"
  ow_last_login :: "time option"
  ow_updated :: time

record device_row =
  dw_status :: string
  dw_approved :: "time option"
  dw_revoked :: "time option"
  dw_updated :: time

record session_row =
  sn_operator :: string
  sn_device :: "string option"
  sn_warehouse :: "string option"
  sn_status :: string
  sn_expires :: time
  sn_revoked :: "time option"
  sn_reason :: "string option"

record refresh_row =
  rf_session :: uuid
  rf_hash :: string
  rf_family :: uuid
  rf_parent :: "uuid option"
  rf_issued :: time
  rf_expires :: time
  rf_used :: "time option"
  rf_revoked :: "time option"
  rf_replaced :: "uuid option"
  rf_reused :: "time option"

record security_row =
  sw_event :: string
  sw_operator :: "string option"
  sw_device :: "string option"
  sw_warehouse :: "string option"
  sw_correlation :: "string option"
  sw_outcome :: string
  sw_created :: time

record identity_tables =
  it_operators :: "(string \<times> operator_row) list"
  it_roles :: "(nat \<times> string \<times> bool) list"
  it_permissions :: "(nat \<times> string) list"
  it_operator_roles :: "(string \<times> nat) list"
  it_role_permissions :: "(nat \<times> nat) list"
  it_warehouses :: "(string \<times> string) list"
  it_operator_warehouses :: "((string \<times> string) \<times> bool) list"
  it_devices :: "(string \<times> device_row) list"
  it_operator_devices :: "((string \<times> string \<times> string) \<times> bool) list"
  it_sessions :: "(uuid \<times> session_row) list"
  it_refresh :: "(uuid \<times> refresh_row) list"
  it_audit :: "security_row list"

type_synonym id_world = "identity_tables db_world"

section \<open>Operators\<close>

text \<open>\<open>lower(username) = lower($1)\<close>; the row with its primary key.\<close>

definition same_username :: "string \<Rightarrow> string \<times> operator_row \<Rightarrow> bool" where
  "same_username u kr \<longleftrightarrow> to_lower (ow_username (snd kr)) = to_lower (trim_space u)"

text \<open>The rows of the join of roles and permissions; a role without permissions has a NULL.\<close>

definition rows_of_role ::
    "(nat \<times> string \<times> bool) list \<Rightarrow> (nat \<times> nat) list \<Rightarrow> (nat \<times> string) list \<Rightarrow> nat \<Rightarrow> (string \<times> string option) list" where
  "rows_of_role roles role_perms perms rid =
     (case map_of roles rid of
        Some (code, True) \<Rightarrow>
          (case filter (\<lambda>(r, p). r = rid) role_perms of
             [] \<Rightarrow> [(code, None)]
           | ps \<Rightarrow> map (\<lambda>(r, p). (code, map_of perms p)) ps)
      | _ \<Rightarrow> [])"

definition role_rows :: "identity_tables \<Rightarrow> string \<Rightarrow> (string \<times> string option) list" where
  "role_rows d oid = concat (map (\<lambda>(o', rid). rows_of_role (it_roles d) (it_role_permissions d) (it_permissions d) rid)
     (filter (\<lambda>(o', rid). o' = oid) (it_operator_roles d)))"

definition sorted_role_rows :: "identity_tables \<Rightarrow> string \<Rightarrow> (string \<times> string option) list" where
  "sorted_role_rows d oid = sort_key fst
     (let rows = role_rows d oid in
      sort_key (\<lambda>(r, p). case p of Some c \<Rightarrow> c | None \<Rightarrow> '''') (filter (\<lambda>(r, p). p \<noteq> None) rows)
      @ filter (\<lambda>(r, p). p = None) rows)"

definition add_once :: "string \<Rightarrow> string list \<Rightarrow> string list" where
  "add_once x xs = (if x \<noteq> '''' \<and> x \<notin> set xs then xs @ [x] else xs)"

text \<open>Scanning a NULL into a Go string is an error.\<close>

fun scan_roles :: "(string \<times> string option) list \<Rightarrow> string list \<Rightarrow> string list \<Rightarrow> err + string list \<times> string list" where
  "scan_roles [] roles perms = Inr (roles, perms)"
| "scan_roles ((r, None) # rows) roles perms = Inl (TextError ''cannot scan NULL into *string'')"
| "scan_roles ((r, Some p) # rows) roles perms = scan_roles rows (add_once r roles) (add_once p perms)"

definition active_warehouses :: "identity_tables \<Rightarrow> string \<Rightarrow> string list" where
  "active_warehouses d oid = sort (map (snd \<circ> fst) (filter (\<lambda>((o', w), a). o' = oid \<and> a) (it_operator_warehouses d)))"

definition find_operator :: "(string \<times> operator_row \<Rightarrow> bool) \<Rightarrow> (id_world, operator option) prog" where
  "find_operator match =
     bindP (query (\<lambda>now d. find match (it_operators d))) (\<lambda>row.
     case row of
       None \<Rightarrow> returnP None
     | Some (i, r) \<Rightarrow>
         bindP (query (\<lambda>now d. active_warehouses d i)) (\<lambda>whs.
         bindP (query (\<lambda>now d. sorted_role_rows d i)) (\<lambda>rows.
         bindP (liftE (scan_roles rows [] [])) (\<lambda>(roles, perms).
         returnP (Some \<lparr>op_id = i, op_employee = ow_employee r, op_username = ow_username r,
           op_display = ow_display r, op_password = '''', op_hash = ow_hash r, op_roles = roles,
           op_permissions = perms, op_warehouses = whs, op_shift = ow_shift r,
           op_active = (ow_status r = ''ACTIVE'')\<rparr>)))))"

definition pg_by_username :: "string \<Rightarrow> (id_world, operator option) prog" where
  "pg_by_username u = find_operator (same_username u)"

definition pg_by_id :: "string \<Rightarrow> (id_world, operator option) prog" where
  "pg_by_id i = find_operator (\<lambda>kr. fst kr = i)"

section \<open>Login protection\<close>

definition login_allowed :: "operator_row \<Rightarrow> time \<Rightarrow> err + unit" where
  "login_allowed r now =
     (if ow_status r = ''DISABLED'' \<or> ow_status r = ''DELETED'' then Inl ErrLoginDisabled
      else if ow_status r = ''LOCKED'' \<or> (case ow_locked r of Some t \<Rightarrow> now < t | None \<Rightarrow> False) then Inl ErrLoginLocked
      else Inr ())"

definition pg_check_login :: "string \<Rightarrow> time \<Rightarrow> (id_world, unit) prog" where
  "pg_check_login u now =
     bindP (query (\<lambda>_ d. find (same_username u) (it_operators d))) (\<lambda>row.
     case row of None \<Rightarrow> returnP () | Some (i, r) \<Rightarrow> liftE (login_allowed r now))"

text \<open>The CHECK and the width of the counter.\<close>

definition operator_ok :: "operator_row \<Rightarrow> bool" where
  "operator_ok r \<longleftrightarrow> ow_status r \<in> {''ACTIVE'', ''DISABLED'', ''LOCKED''} \<and> ow_failed r \<le> 2147483647"

text \<open>An UPDATE of every operator of that name: all of them or, when one is refused, none.\<close>

definition update_operators ::
    "(string \<times> operator_row \<Rightarrow> bool) \<Rightarrow> (operator_row \<Rightarrow> operator_row) \<Rightarrow> (id_world, unit) prog" where
  "update_operators match f = sql (on_table it_operators (\<lambda>x d. d\<lparr>it_operators := x\<rparr>) (\<lambda>now tab.
     if list_all (\<lambda>kr. match kr \<longrightarrow> operator_ok (f (snd kr))) tab
     then Inr ((), map (\<lambda>kr. if match kr then (fst kr, f (snd kr)) else kr) tab)
     else Inl (violates ''identity_operators'')))"

definition fifteen_minutes :: time where "fifteen_minutes = 900000000000"

definition failed_row :: "time \<Rightarrow> operator_row \<Rightarrow> operator_row" where
  "failed_row t r = (let n = ow_failed r + 1 in
     r\<lparr>ow_failed := n, ow_locked := (if n \<ge> 5 then Some t else ow_locked r),
       ow_status := (if n \<ge> 5 then ''LOCKED'' else ow_status r), ow_updated := t\<rparr>)"

definition pg_login_failure :: "string \<Rightarrow> time \<Rightarrow> (id_world, unit) prog" where
  "pg_login_failure u now = update_operators (same_username u) (failed_row (now + fifteen_minutes))"

definition logged_in_row :: "time \<Rightarrow> operator_row \<Rightarrow> operator_row" where
  "logged_in_row t r = r\<lparr>ow_failed := 0, ow_locked := None, ow_status := ''ACTIVE'', ow_last_login := Some t,
     ow_updated := t\<rparr>"

definition pg_login_success :: "string \<Rightarrow> time \<Rightarrow> (id_world, unit) prog" where
  "pg_login_success u now = update_operators (same_username u) (logged_in_row now)"

section \<open>Warehouses, devices, audit\<close>

definition pg_id_warehouses :: "string list \<Rightarrow> (id_world, warehouse list) prog" where
  "pg_id_warehouses ids = query (\<lambda>now d. map (\<lambda>(i, n). \<lparr>wh_id = i, wh_name = n\<rparr>)
     (sort_key fst (filter (\<lambda>(i, n). i \<in> set ids) (it_warehouses d))))"

definition upsert_device :: "string \<Rightarrow> (id_world, unit) prog" where
  "upsert_device code = sql (on_table it_devices (\<lambda>x d. d\<lparr>it_devices := x\<rparr>) (\<lambda>now tab.
     Inr ((), case map_of tab code of
         None \<Rightarrow> tab @ [(code, \<lparr>dw_status = ''ACTIVE'', dw_approved = Some now, dw_revoked = None, dw_updated = now\<rparr>)]
       | Some r \<Rightarrow> AList.update code (r\<lparr>dw_updated := now, dw_status := ''ACTIVE'', dw_revoked := None\<rparr>) tab)))"

text \<open>The row references an operator, a device and a warehouse.\<close>

definition upsert_operator_device :: "device_registration \<Rightarrow> (id_world, unit) prog" where
  "upsert_operator_device r = sql (\<lambda>now d.
     let k = (dr_operator r, dr_device r, dr_warehouse r) in
     if map_of (it_operators d) (dr_operator r) = None \<or> map_of (it_devices d) (dr_device r) = None
       \<or> map_of (it_warehouses d) (dr_warehouse r) = None
     then Inl (violates ''identity_operator_devices'')
     else Inr ((), d\<lparr>it_operator_devices := AList.update k True (it_operator_devices d)\<rparr>))"

definition pg_register :: "device_registration \<Rightarrow> (id_world, unit) prog" where
  "pg_register r = bindP (upsert_device (dr_device r)) (\<lambda>_. upsert_operator_device r)"

definition device_registered :: "identity_tables \<Rightarrow> device_registration \<Rightarrow> bool" where
  "device_registered d r \<longleftrightarrow>
     (case map_of (it_devices d) (dr_device r) of
        None \<Rightarrow> False
      | Some dev \<Rightarrow> dw_status dev = ''ACTIVE''
          \<and> map_of (it_operator_devices d) (dr_operator r, dr_device r, dr_warehouse r) = Some True)"

definition pg_is_registered :: "device_registration \<Rightarrow> (id_world, bool) prog" where
  "pg_is_registered r = query (\<lambda>now d. device_registered d r)"

definition null_string :: "string \<Rightarrow> string option" where
  "null_string v = (if v = '''' then None else Some v)"

definition pg_id_append :: "security_record \<Rightarrow> (id_world, unit) prog" where
  "pg_id_append r = sql (on_table it_audit (\<lambda>x d. d\<lparr>it_audit := x\<rparr>) (\<lambda>now tab.
     Inr ((), tab @ [\<lparr>sw_event = sy_action r, sw_operator = null_string (sy_operator r),
       sw_device = null_string (sy_device r), sw_warehouse = null_string (sy_warehouse r),
       sw_correlation = null_string (sy_correlation r), sw_outcome = sy_outcome r, sw_created = sy_at r\<rparr>])))"

section \<open>Sessions\<close>

text \<open>The session manager's configuration and what it takes from other packages: \<open>id_str\<close> and
  \<open>id_parse\<close> are a UUID's text, \<open>id_random n\<close> the 32 bytes of the \<open>n\<close>-th draw from the random
  source, which the UUIDs come from too.\<close>

record id_params =
  id_config :: session_config
  id_str :: "uuid \<Rightarrow> string"
  id_parse :: "string \<Rightarrow> uuid option"
  id_random :: "nat \<Rightarrow> err + string"

definition random_token :: "id_params \<Rightarrow> (id_world, string) prog" where
  "random_token X = bindP new_uuid (\<lambda>n. bindP (liftE (id_random X n)) (\<lambda>b. returnP (raw_url_encode b)))"

definition token_hash :: "id_params \<Rightarrow> string \<Rightarrow> string" where
  "token_hash X raw = jw_sha256 (sm_codec (id_config X)) raw"

definition insert_session :: "uuid \<Rightarrow> session_row \<Rightarrow> (id_world, unit) prog" where
  "insert_session i r = sql (\<lambda>now d.
     on_table it_sessions (\<lambda>x d. d\<lparr>it_sessions := x\<rparr>) (\<lambda>now tab.
       no_value (insert_at ''identity_sessions'' (\<lambda>r. map_of (it_operators d) (sn_operator r) \<noteq> None) i r tab)) now d)"

definition hash_known :: "string \<Rightarrow> (uuid \<times> refresh_row) list \<Rightarrow> (uuid \<times> refresh_row) option" where
  "hash_known h tab = find (\<lambda>(i, r). rf_hash r = h) tab"

definition insert_refresh :: "uuid \<Rightarrow> refresh_row \<Rightarrow> (id_world, unit) prog" where
  "insert_refresh i r = sql (\<lambda>now d.
     on_table it_refresh (\<lambda>x d. d\<lparr>it_refresh := x\<rparr>) (\<lambda>now tab.
       no_value (insert_at ''identity_refresh_tokens'' (\<lambda>r. hash_known (rf_hash r) tab = None
         \<and> map_of (it_sessions d) (rf_session r) \<noteq> None
         \<and> (case rf_parent r of None \<Rightarrow> True | Some p \<Rightarrow> map_of tab p \<noteq> None)) i r tab)) now d)"

definition new_refresh :: "uuid \<Rightarrow> string \<Rightarrow> uuid \<Rightarrow> uuid option \<Rightarrow> time \<Rightarrow> time \<Rightarrow> refresh_row" where
  "new_refresh session h family parent now expires = \<lparr>rf_session = session, rf_hash = h, rf_family = family,
     rf_parent = parent, rf_issued = now, rf_expires = expires, rf_used = None, rf_revoked = None,
     rf_replaced = None, rf_reused = None\<rparr>"

definition session_claims ::
    "id_params \<Rightarrow> string \<Rightarrow> uuid \<Rightarrow> uuid \<Rightarrow> string \<Rightarrow> string \<Rightarrow> time \<Rightarrow> time \<Rightarrow> token_claims" where
  "session_claims X oid jti sid device wh now expires = (let M = id_config X in
     \<lparr>tc_issuer = sm_issuer M, tc_audience = sm_audience M, tc_subject = oid, tc_id = id_str X jti,
      tc_session = id_str X sid, tc_operator = oid, tc_device = device, tc_warehouse = wh,
      tc_issued = unix_seconds now, tc_not_before = unix_seconds now, tc_expires = unix_seconds expires\<rparr>)"

definition sign_session ::
    "id_params \<Rightarrow> string \<Rightarrow> uuid \<Rightarrow> string \<Rightarrow> string \<Rightarrow> time \<Rightarrow> time \<Rightarrow> (id_world, string) prog" where
  "sign_session X oid sid device wh now expires = bindP new_uuid (\<lambda>jti.
     liftE (sign_token (id_config X) (session_claims X oid jti sid device wh now expires)))"

definition pg_create :: "id_params \<Rightarrow> operator \<Rightarrow> string \<Rightarrow> string \<Rightarrow> time \<Rightarrow> (id_world, string \<times> string \<times> time \<times> time) prog" where
  "pg_create X p device wh now =
     (let M = id_config X; expires = now + sm_access_ttl M; refresh_expires = now + sm_refresh_ttl M;
          reg = \<lparr>dr_device = device, dr_operator = op_id p, dr_warehouse = wh\<rparr> in
      bindP (checkP (wh \<noteq> '''' \<and> \<not> can_access_warehouse p wh) (TextError ''warehouse denied'')) (\<lambda>_.
      bindP (if device \<noteq> '''' \<and> wh \<noteq> ''''
             then bindP (mapped (\<lambda>_. TextError ''device not registered'') (pg_is_registered reg)) (\<lambda>ok.
               checkP (\<not> ok) (TextError ''device not registered''))
             else returnP ()) (\<lambda>_.
      with_tx (
        bindP new_uuid (\<lambda>sid. bindP new_uuid (\<lambda>rid. bindP new_uuid (\<lambda>family.
        bindP (random_token X) (\<lambda>refresh.
        bindP (insert_session sid \<lparr>sn_operator = op_id p, sn_device = null_string device,
          sn_warehouse = null_string wh, sn_status = ''ACTIVE'', sn_expires = refresh_expires, sn_revoked = None,
          sn_reason = None\<rparr>) (\<lambda>_.
        bindP (insert_refresh rid (new_refresh sid (token_hash X refresh) family None now refresh_expires)) (\<lambda>_.
        bindP (sign_session X (op_id p) sid device wh now expires) (\<lambda>access.
        returnP (access, refresh, expires, refresh_expires))))))))))))"

text \<open>A text that is no UUID makes the statement fail.\<close>

definition session_of :: "id_params \<Rightarrow> string \<Rightarrow> identity_tables \<Rightarrow> session_row option" where
  "session_of X i d = Option.bind (id_parse X i) (map_of (it_sessions d))"

definition session_live :: "time \<Rightarrow> session_row \<Rightarrow> bool" where
  "session_live now r \<longleftrightarrow> sn_status r = ''ACTIVE'' \<and> now < sn_expires r"

definition pg_authenticate :: "id_params \<Rightarrow> string \<Rightarrow> time \<Rightarrow> (id_world, claims) prog" where
  "pg_authenticate X token now =
     bindP (liftE (parse_token (id_config X) token now)) (\<lambda>c.
     bindP (mapped (\<lambda>_. ErrSessionRevoked) (query (\<lambda>_ d. session_of X (tc_session c) d))) (\<lambda>row.
     case row of
       None \<Rightarrow> failP ErrSessionRevoked
     | Some r \<Rightarrow>
         bindP (checkP (\<not> session_live now r) ErrSessionRevoked) (\<lambda>_.
         returnP \<lparr>jc_operator = tc_operator c, jc_token = tc_id c, jc_session = tc_session c,
           jc_device = tc_device c, jc_warehouse = tc_warehouse c, jc_expires = time_of_unix (tc_expires c)\<rparr>)))"

text \<open>The row of a refresh token joined with its session and its operator.\<close>

definition find_refresh :: "string \<Rightarrow> identity_tables \<Rightarrow> (uuid \<times> refresh_row \<times> session_row \<times> operator_row) option" where
  "find_refresh h d =
     (case hash_known h (it_refresh d) of
        None \<Rightarrow> None
      | Some (i, r) \<Rightarrow>
          (case map_of (it_sessions d) (rf_session r) of
             None \<Rightarrow> None
           | Some sn \<Rightarrow> map_option (\<lambda>op. (i, r, sn, op)) (map_of (it_operators d) (sn_operator sn))))"

definition coalesce :: "string option \<Rightarrow> string" where
  "coalesce v = (case v of None \<Rightarrow> '''' | Some x \<Rightarrow> x)"

definition refresh_update :: "uuid \<Rightarrow> (refresh_row \<Rightarrow> refresh_row) \<Rightarrow> (id_world, nat) prog" where
  "refresh_update i f = sql (on_table it_refresh (\<lambda>x d. d\<lparr>it_refresh := x\<rparr>) (\<lambda>now tab.
     update_at ''identity_refresh_tokens'' (\<lambda>_. True) i f tab))"

definition first_time :: "time option \<Rightarrow> time \<Rightarrow> time option" where
  "first_time v now = (case v of None \<Rightarrow> Some now | Some t \<Rightarrow> Some t)"

definition mark_reuse :: "uuid \<Rightarrow> time \<Rightarrow> (id_world, nat) prog" where
  "mark_reuse i now = refresh_update i (\<lambda>r. r\<lparr>rf_reused := first_time (rf_reused r) now\<rparr>)"

definition mark_used :: "uuid \<Rightarrow> time \<Rightarrow> uuid \<Rightarrow> (id_world, nat) prog" where
  "mark_used i now new_id = refresh_update i (\<lambda>r. r\<lparr>rf_used := Some now, rf_replaced := Some new_id\<rparr>)"

definition revoked_row :: "string \<Rightarrow> time \<Rightarrow> session_row \<Rightarrow> session_row" where
  "revoked_row reason now r = r\<lparr>sn_status := ''REVOKED'', sn_revoked := Some now, sn_reason := Some reason\<rparr>"

text \<open>\<open>UPDATE identity_sessions \<dots> WHERE id = $1\<close>, with or without \<open>AND status = 'ACTIVE'\<close>.\<close>

definition revoke_session :: "bool \<Rightarrow> string \<Rightarrow> uuid \<Rightarrow> time \<Rightarrow> (id_world, nat) prog" where
  "revoke_session active_only reason i now = sql (on_table it_sessions (\<lambda>x d. d\<lparr>it_sessions := x\<rparr>) (\<lambda>_ tab.
     update_at ''identity_sessions'' (\<lambda>_. True) i
       (\<lambda>r. if active_only \<and> sn_status r \<noteq> ''ACTIVE'' then r else revoked_row reason now r) tab))"

definition reuse_detected :: "uuid \<Rightarrow> uuid \<Rightarrow> time \<Rightarrow> (id_world, unit) prog" where
  "reuse_detected i sid now = bindP (ignoreP (mark_reuse i now)) (\<lambda>_. ignoreP (revoke_session True ''refresh_reuse'' sid now))"

text \<open>Why a refresh token that was found and was not used before is refused.\<close>

definition refresh_refused :: "refresh_row \<Rightarrow> session_row \<Rightarrow> string \<Rightarrow> time \<Rightarrow> err option" where
  "refresh_refused r sn device now =
     (if sn_status sn \<noteq> ''ACTIVE'' then Some ErrRefreshTokenRevoked
      else if \<not> now < rf_expires r \<or> \<not> now < sn_expires sn then Some ErrRefreshTokenExpired
      else if device \<noteq> '''' \<and> coalesce (sn_device sn) \<noteq> '''' \<and> device \<noteq> coalesce (sn_device sn) then Some ErrDeviceMismatch
      else None)"

definition rotate_refresh ::
    "id_params \<Rightarrow> uuid \<Rightarrow> refresh_row \<Rightarrow> session_row \<Rightarrow> time \<Rightarrow> (id_world, refreshed) prog" where
  "rotate_refresh X i r sn now =
     (let device = coalesce (sn_device sn); wh = coalesce (sn_warehouse sn); expires = now + sm_access_ttl (id_config X) in
      bindP (random_token X) (\<lambda>raw. bindP new_uuid (\<lambda>new_id.
      bindP (query (\<lambda>_ d. map_of (it_refresh d) i)) (\<lambda>found.
      case found of
        None \<Rightarrow> failP (TextError ''no rows in result set'')
      | Some r1 \<Rightarrow>
          bindP (insert_refresh new_id (new_refresh (rf_session r) (token_hash X raw) (rf_family r1) (Some i) now
            (sn_expires sn))) (\<lambda>_.
          bindP (mark_used i now new_id) (\<lambda>_.
          bindP (sign_session X (sn_operator sn) (rf_session r) device wh now expires) (\<lambda>access.
          returnP \<lparr>rs_access = access, rs_refresh = raw, rs_access_expires = expires,
            rs_refresh_expires = sn_expires sn, rs_operator = sn_operator sn, rs_device = device,
            rs_warehouse = wh\<rparr>)))))))"

text \<open>\<open>Inr (Inl e)\<close>: the transaction commits and \<open>e\<close> is the answer.\<close>

definition refresh_found ::
    "id_params \<Rightarrow> string \<Rightarrow> time \<Rightarrow> uuid \<times> refresh_row \<times> session_row \<times> operator_row
     \<Rightarrow> (id_world, err + refreshed) prog" where
  "refresh_found X device now row = (case row of (i, r, sn, op) \<Rightarrow>
     if ow_status op \<noteq> ''ACTIVE'' then failP ErrUserDisabled
     else if rf_used r \<noteq> None \<or> rf_revoked r \<noteq> None
     then bindP (reuse_detected i (rf_session r) now) (\<lambda>_. returnP (Inl ErrRefreshTokenReused))
     else (case refresh_refused r sn device now of
         Some e \<Rightarrow> failP e
       | None \<Rightarrow> bindP (rotate_refresh X i r sn now) (\<lambda>x. returnP (Inr x))))"

definition refresh_body :: "id_params \<Rightarrow> string \<Rightarrow> string \<Rightarrow> time \<Rightarrow> (id_world, err + refreshed) prog" where
  "refresh_body X raw device now =
     bindP (mapped (\<lambda>_. ErrRefreshTokenInvalid) (query (\<lambda>_ d. find_refresh (token_hash X raw) d))) (\<lambda>row.
     case row of None \<Rightarrow> failP ErrRefreshTokenInvalid | Some x \<Rightarrow> refresh_found X device now x)"

definition pg_refresh :: "id_params \<Rightarrow> string \<Rightarrow> string \<Rightarrow> time \<Rightarrow> (id_world, refreshed) prog" where
  "pg_refresh X raw device now =
     bindP (commit_report (refresh_body X raw device now)) (\<lambda>(r, commit_error).
     case r of
       Inl e \<Rightarrow> failP e
     | Inr x \<Rightarrow> (case commit_error of None \<Rightarrow> returnP x | Some e \<Rightarrow> failP e))"

definition pg_logout :: "id_params \<Rightarrow> string \<Rightarrow> time \<Rightarrow> (id_world, unit) prog" where
  "pg_logout X token now =
     bindP (liftE (parse_token (id_config X) token now)) (\<lambda>c.
     case id_parse X (tc_session c) of
       None \<Rightarrow> bindP (query (\<lambda>_ d. ())) (\<lambda>_. failP (TextError ''invalid input syntax for type uuid''))
     | Some i \<Rightarrow> bindP (revoke_session True ''logout'' i now) (\<lambda>_. returnP ()))"

definition revoke_refresh_rows :: "uuid \<Rightarrow> time \<Rightarrow> (id_world, unit) prog" where
  "revoke_refresh_rows sid now = sql (on_table it_refresh (\<lambda>x d. d\<lparr>it_refresh := x\<rparr>) (\<lambda>_ tab.
     Inr ((), map (\<lambda>(i, r). if rf_session r = sid \<and> rf_revoked r = None then (i, r\<lparr>rf_revoked := Some now\<rparr>) else (i, r)) tab)))"

definition pg_revoke_refresh :: "id_params \<Rightarrow> string \<Rightarrow> time \<Rightarrow> (id_world, unit) prog" where
  "pg_revoke_refresh X raw now = with_tx (
     bindP (mapped (\<lambda>_. ErrRefreshTokenInvalid) (query (\<lambda>_ d.
       Option.bind (hash_known (token_hash X raw) (it_refresh d)) (\<lambda>(i, r).
         map_option (\<lambda>sn. (rf_session r, sn_status sn)) (map_of (it_sessions d) (rf_session r)))))) (\<lambda>row.
     case row of
       None \<Rightarrow> failP ErrRefreshTokenInvalid
     | Some (sid, status) \<Rightarrow>
         bindP (checkP (status \<noteq> ''ACTIVE'') ErrSessionRevoked) (\<lambda>_.
         bindP (revoke_session False ''logout'' sid now) (\<lambda>_. revoke_refresh_rows sid now))))"

section \<open>Ports\<close>

definition pg_sessions :: "id_params \<Rightarrow> id_world session_manager" where
  "pg_sessions X = \<lparr>sx_create = pg_create X, sx_authenticate = pg_authenticate X, sx_refresh = pg_refresh X,
     sx_logout = pg_logout X, sx_revoke_refresh = pg_revoke_refresh X\<rparr>"

definition pg_protector :: "id_world login_protector" where
  "pg_protector = \<lparr>lp_check = pg_check_login, lp_failure = pg_login_failure, lp_success = pg_login_success\<rparr>"

text \<open>\<open>NewProductionService\<close>: the store is the login protector too; the token provider is the
  caller's, and so is the password verifier.\<close>

definition pg_identity :: "id_params \<Rightarrow> id_world token_provider \<Rightarrow> (string \<Rightarrow> string \<Rightarrow> bool) \<Rightarrow> id_world id_ports" where
  "pg_identity X T verify = \<lparr>ix_by_username = pg_by_username, ix_by_id = pg_by_id,
     ix_warehouses = pg_id_warehouses, ix_tokens = T, ix_register = pg_register,
     ix_is_registered = pg_is_registered, ix_audit = pg_id_append, ix_verify = Some verify,
     ix_sessions = Some (pg_sessions X), ix_protector = Some pg_protector, ix_now = clock_now\<rparr>"

lemma pg_identity_sel [simp]:
  "ix_by_username (pg_identity X T v) = pg_by_username" "ix_by_id (pg_identity X T v) = pg_by_id"
  "ix_warehouses (pg_identity X T v) = pg_id_warehouses" "ix_tokens (pg_identity X T v) = T"
  "ix_register (pg_identity X T v) = pg_register" "ix_is_registered (pg_identity X T v) = pg_is_registered"
  "ix_audit (pg_identity X T v) = pg_id_append" "ix_verify (pg_identity X T v) = Some v"
  "ix_sessions (pg_identity X T v) = Some (pg_sessions X)" "ix_protector (pg_identity X T v) = Some pg_protector"
  "ix_now (pg_identity X T v) = clock_now"
  by (simp_all add: pg_identity_def)

lemma pg_sessions_sel [simp]:
  "sx_create (pg_sessions X) = pg_create X" "sx_authenticate (pg_sessions X) = pg_authenticate X"
  "sx_refresh (pg_sessions X) = pg_refresh X" "sx_logout (pg_sessions X) = pg_logout X"
  "sx_revoke_refresh (pg_sessions X) = pg_revoke_refresh X"
  by (simp_all add: pg_sessions_def)

lemma pg_protector_sel [simp]: "lp_check pg_protector = pg_check_login"
  "lp_failure pg_protector = pg_login_failure" "lp_success pg_protector = pg_login_success"
  by (simp_all add: pg_protector_def)

end
