(* ===== verification/Identity_Stores.thy ===== *)
theory Identity_Stores
  imports Identity_Contract Mock_Identity Pg_Identity
begin

text \<open>
  The two identity backends keep the contract: the interpretations of the locales on the mock
  backend and on PostgreSQL, for the tables' keys, spent refresh tokens and ended sessions.
\<close>

section \<open>The mock backend\<close>

lemma keeps_mock_reads: "keeps I (mock_by_username u)" "keeps I (mock_by_id i)" "keeps I (mock_warehouses ws)"
    "keeps I (mock_is_registered r)" "keeps I (mock_validate_kind C kind t now)"
  by (simp_all add: keeps_def mock_by_username_def mock_by_id_def mock_warehouses_def mock_is_registered_def
      mock_validate_kind_def split: sum.split)

lemma store_only_spent: "store_only (mock_spent C raw)"
  by (simp add: store_only_def mock_spent_def)

lemma mock_spent_kept: "identity_invariant (mock_identity C) (mock_spent C raw)"
proof -
  note env = keeps_env [OF store_only_spent [of C raw]]
  have issue: "keeps (mock_spent C raw) (mock_issue_kind C kind ttl p t)" for kind ttl p t
    unfolding mock_issue_kind_def by (intro keeps_intros env)
  have revoke: "keeps (mock_spent C raw) (mock_revoke C tok)" for tok
    by (rule keepsI) (auto dest!: mock_revoke_state simp: mock_spent_def)
  have reg: "keeps (mock_spent C raw) (mock_register r)" for r
    by (simp add: keeps_def mock_register_def mock_spent_def)
  have app: "keeps (mock_spent C raw) (mock_append a)" for a
    by (simp add: keeps_def mock_append_def mock_spent_def)
  show ?thesis
    by unfold_locales
      (auto simp: keeps_mock_reads env issue revoke reg app mock_issue_def mock_issue_refresh_def
        mock_validate_def mock_validate_refresh_def)
qed

lemma keeps_True [simp]: "keeps (\<lambda>s. True) m"
  by (simp add: keeps_def)

interpretation mk: one_time_refresh "mock_identity C" "\<lambda>s. True" "mock_spent C" for C
proof (intro one_time_refresh.intro one_time_refresh_axioms.intro)
  show "identity_invariant (mock_identity C) (\<lambda>s. True)" by unfold_locales simp_all
  show "identity_invariant (mock_identity C) (mock_spent C raw)" for raw by (rule mock_spent_kept)
qed (auto simp: mock_validate_refresh_def dest: mock_validate_live mock_revoke_spends)

section \<open>PostgreSQL\<close>

text \<open>An observation of the sessions and the refresh tokens that every write to them keeps.\<close>

locale token_view =
  fixes g :: "(uuid \<times> session_row) list \<Rightarrow> (uuid \<times> refresh_row) list \<Rightarrow> bool"
  assumes new_session: "g ss rs \<Longrightarrow> map_of ss i = None \<Longrightarrow> g (ss @ [(i, sn)]) rs"
    and new_token: "g ss rs \<Longrightarrow> map_of rs j = None \<Longrightarrow> hash_known (rf_hash r) rs = None \<Longrightarrow> g ss (rs @ [(j, r)])"
    and token_changed: "g ss rs \<Longrightarrow> map_of rs j = Some r \<Longrightarrow> rf_session r' = rf_session r \<Longrightarrow>
      rf_hash r' = rf_hash r \<Longrightarrow> (rf_used r \<noteq> None \<longrightarrow> rf_used r' \<noteq> None) \<Longrightarrow> g ss (AList.update j r' rs)"
    and session_changed: "g ss rs \<Longrightarrow> map_of ss i = Some sn \<Longrightarrow> g (AList.update i (revoked_row why t sn) ss) rs"
    and tokens_revoked: "g ss rs \<Longrightarrow>
      g ss (map (\<lambda>(j, r). if rf_session r = i \<and> rf_revoked r = None then (j, r\<lparr>rf_revoked := Some t\<rparr>) else (j, r)) rs)"
begin

definition seen :: "id_world \<Rightarrow> bool" where
  "seen = of_db (\<lambda>d. g (it_sessions d) (it_refresh d))"

lemma keeps_seen_sql: "(\<And>now d x d'. g (it_sessions d) (it_refresh d) \<Longrightarrow> f now d = Inr (x, d') \<Longrightarrow>
    g (it_sessions d') (it_refresh d')) \<Longrightarrow> keeps seen (sql f)"
  unfolding seen_def by (rule keeps_sql)

lemma keeps_seen_env: "keeps seen clock_now" "keeps seen new_uuid" "keeps seen (query q)"
  unfolding seen_def by (intro keeps_db_env keeps_query)+

lemma keeps_other: "keeps seen (update_operators match f)" "keeps seen (upsert_device code)"
    "keeps seen (upsert_operator_device reg)" "keeps seen (pg_id_append rec)"
  unfolding update_operators_def upsert_device_def upsert_operator_device_def pg_id_append_def
  by (rule keeps_seen_sql, auto simp: on_table_Inr Let_def split: if_splits)+

lemma keeps_tokens_stmts: "keeps seen (insert_session i sn)" "keeps seen (insert_refresh j r)"
    "keeps seen (mark_reuse j t)" "keeps seen (mark_used j t k)"
    "keeps seen (revoke_session b why i t)" "keeps seen (revoke_refresh_rows i t)"
  unfolding insert_session_def insert_refresh_def mark_reuse_def mark_used_def refresh_update_def
    revoke_session_def revoke_refresh_rows_def
       apply (rule keeps_seen_sql, auto simp: stmt_iffs insert_at_Inr intro: new_session)[1]
      apply (rule keeps_seen_sql, auto simp: stmt_iffs insert_at_Inr intro: new_token)[1]
     apply (rule keeps_seen_sql, auto simp: stmt_iffs update_at_Inr token_changed split: option.splits)[1]
    apply (rule keeps_seen_sql, auto simp: stmt_iffs update_at_Inr token_changed split: option.splits)[1]
   apply (rule keeps_seen_sql, auto simp: stmt_iffs update_at_Inr session_changed update_triv split: option.splits if_splits)[1]
  apply (rule keeps_seen_sql, auto simp: stmt_iffs tokens_revoked)[1]
  done

lemma keeps_seen_tx: "keeps seen m \<Longrightarrow> keeps seen (with_tx m)"
  unfolding seen_def by (rule keeps_with_tx)

lemma keeps_seen_report: "keeps seen m \<Longrightarrow> keeps seen (commit_report m)"
  unfolding seen_def by (rule keeps_commit_report)

lemma keeps_seen_ignore: "keeps seen m \<Longrightarrow> keeps seen (ignoreP m)"
  by (simp add: keeps_def)

lemmas keeps_seen = keeps_seen_env keeps_other keeps_tokens_stmts keeps_seen_tx keeps_seen_report keeps_seen_ignore

lemma keeps_reads_pg: "keeps seen (pg_by_username u)" "keeps seen (pg_by_id i)" "keeps seen (pg_check_login u t)"
    "keeps seen (pg_id_warehouses ws)" "keeps seen (pg_is_registered reg)"
  unfolding pg_by_username_def pg_by_id_def find_operator_def pg_check_login_def pg_id_warehouses_def pg_is_registered_def
  by (auto intro!: keeps_intros keeps_seen split: prod.split)

lemma keeps_writes_pg: "keeps seen (pg_register reg)" "keeps seen (pg_login_failure u t)" "keeps seen (pg_login_success u t)"
  unfolding pg_register_def pg_login_failure_def pg_login_success_def by (intro keeps_intros keeps_seen)+

lemma keeps_sign: "keeps seen (sign_session X oid sid dev wh t e)" "keeps seen (random_token X)"
  unfolding sign_session_def random_token_def by (intro keeps_intros keeps_seen)+

lemma keeps_create_pg: "keeps seen (pg_create X p dev wh t)"
  unfolding pg_create_def Let_def by (intro keeps_intros keeps_seen keeps_reads_pg keeps_sign)

lemma keeps_authenticate_pg: "keeps seen (pg_authenticate X tok t)"
  unfolding pg_authenticate_def by (intro keeps_intros keeps_seen)

lemma keeps_rotate: "keeps seen (rotate_refresh X i r sn t)"
  unfolding rotate_refresh_def Let_def by (intro keeps_intros keeps_seen keeps_sign)

lemma keeps_reuse: "keeps seen (reuse_detected i sid t)"
  unfolding reuse_detected_def by (intro keeps_intros keeps_seen)

lemma keeps_refresh_pg: "keeps seen (pg_refresh X raw dev t)"
  unfolding pg_refresh_def refresh_body_def refresh_found_def
  by (auto intro!: keeps_intros keeps_seen keeps_rotate keeps_reuse split: prod.split sum.split)

lemma keeps_logout_pg: "keeps seen (pg_logout X tok t)"
  unfolding pg_logout_def by (intro keeps_intros keeps_seen)

lemma keeps_revoke_pg: "keeps seen (pg_revoke_refresh X raw t)"
  unfolding pg_revoke_refresh_def by (auto intro!: keeps_intros keeps_seen split: prod.split)

lemma pg_invariant: "identity_invariant (pg_identity X T v) seen"
  by unfold_locales (auto simp: keeps_seen keeps_reads_pg keeps_writes_pg keeps_create_pg keeps_authenticate_pg
      keeps_refresh_pg keeps_logout_pg keeps_revoke_pg)

end

text \<open>Four such observations: the keys, a spent token, an ended session, the session of a token.\<close>

definition token_keys :: "(uuid \<times> session_row) list \<Rightarrow> (uuid \<times> refresh_row) list \<Rightarrow> bool" where
  "token_keys ss rs \<longleftrightarrow> distinct (map fst ss) \<and> distinct (map fst rs)"

definition hash_row :: "string \<Rightarrow> (refresh_row \<Rightarrow> bool) \<Rightarrow> (uuid \<times> refresh_row) list \<Rightarrow> bool" where
  "hash_row h A rs \<longleftrightarrow> (\<exists>i r. hash_known h rs = Some (i, r) \<and> A r)"

definition hash_spent :: "string \<Rightarrow> (uuid \<times> session_row) list \<Rightarrow> (uuid \<times> refresh_row) list \<Rightarrow> bool" where
  "hash_spent h ss rs \<longleftrightarrow> hash_row h (\<lambda>r. rf_used r \<noteq> None) rs"

definition session_ended :: "uuid \<Rightarrow> (uuid \<times> session_row) list \<Rightarrow> (uuid \<times> refresh_row) list \<Rightarrow> bool" where
  "session_ended i ss rs \<longleftrightarrow> (\<exists>sn. map_of ss i = Some sn \<and> sn_status sn \<noteq> ''ACTIVE'')"

definition hash_of_session :: "string \<Rightarrow> uuid \<Rightarrow> (uuid \<times> session_row) list \<Rightarrow> (uuid \<times> refresh_row) list \<Rightarrow> bool" where
  "hash_of_session h i ss rs \<longleftrightarrow> hash_row h (\<lambda>r. rf_session r = i) rs"

lemma hash_row_Cons: "hash_row h A ((i, r) # rs) \<longleftrightarrow> (if rf_hash r = h then A r else hash_row h A rs)"
  by (simp add: hash_row_def hash_known_def)

lemma hash_row_Nil: "\<not> hash_row h A []"
  by (simp add: hash_row_def hash_known_def)

lemma hash_row_append: "hash_row h A rs \<Longrightarrow> hash_row h A (rs @ xs)"
  by (auto simp: hash_row_def hash_known_def find_append)

lemma hash_row_update: "hash_row h A rs \<Longrightarrow> map_of rs j = Some r \<Longrightarrow> rf_hash r' = rf_hash r \<Longrightarrow> (A r \<longrightarrow> A r') \<Longrightarrow>
    hash_row h A (AList.update j r' rs)"
  by (induction rs) (auto simp: hash_row_Cons hash_row_Nil split: if_splits)

lemma hash_row_revoked: "hash_row h A rs \<Longrightarrow> (\<And>r. A r \<Longrightarrow> A (r\<lparr>rf_revoked := t\<rparr>)) \<Longrightarrow>
    hash_row h A (map (\<lambda>(j, r). if P r then (j, r\<lparr>rf_revoked := t\<rparr>) else (j, r)) rs)"
  by (induction rs) (auto simp: hash_row_Cons hash_row_Nil)

lemma map_fst_revoked: "map fst (map (\<lambda>(j, r). if P r then (j, r\<lparr>rf_revoked := t\<rparr>) else (j, r)) rs) = map fst rs"
  by (induction rs) auto

interpretation tk: token_view token_keys
  by unfold_locales
    (auto simp: token_keys_def map_fst_revoked distinct_update map_of_eq_None_iff simp del: map_map)

interpretation ts: token_view "hash_spent h" for h
  by unfold_locales (auto simp: hash_spent_def hash_row_append hash_row_update hash_row_revoked)

interpretation te: token_view "session_ended i" for i
  by unfold_locales (auto simp: session_ended_def update_conv' revoked_row_def map_add_def split: option.splits)

interpretation to: token_view "hash_of_session h i" for h i
  by unfold_locales (auto simp: hash_of_session_def hash_row_append hash_row_update hash_row_revoked)

section \<open>A refresh spends its token\<close>

lemma sign_random_db:
  "sign_session X oid sid dev wh t e s = (r, s') \<Longrightarrow> w_db s' = w_db s"
  "random_token X s = (q, s') \<Longrightarrow> w_db s' = w_db s"
  by (auto simp: sign_session_def random_token_def bindP_def new_uuid_def split: sum.splits)

lemma new_uuid_db: "new_uuid s = (r, s') \<Longrightarrow> w_db s' = w_db (s :: 'd db_world)"
  by (auto simp: new_uuid_def)

lemma insert_refresh_ok: "insert_refresh i r s = (Inr u, s') \<Longrightarrow>
    it_refresh (w_db s') = it_refresh (w_db s) @ [(i, r)] \<and> map_of (it_refresh (w_db s)) i = None"
  unfolding insert_refresh_def by (erule sql_Inr) (auto simp: stmt_iffs insert_at_Inr)

lemma refresh_update_ok: "refresh_update i f s = (Inr n, s') \<Longrightarrow>
    (case map_of (it_refresh (w_db s)) i of None \<Rightarrow> it_refresh (w_db s') = it_refresh (w_db s)
     | Some r \<Rightarrow> it_refresh (w_db s') = AList.update i (f r) (it_refresh (w_db s)))"
  unfolding refresh_update_def by (erule sql_Inr) (auto simp: stmt_iffs update_at_Inr split: option.splits)

lemma hash_known_in: "hash_known h rs = Some (i, r) \<Longrightarrow> (i, r) \<in> set rs \<and> rf_hash r = h"
  by (auto simp: hash_known_def find_Some_iff in_set_conv_nth)

lemma hash_row_known: "hash_known h rs = Some (i, r) \<Longrightarrow> hash_row h A rs \<longleftrightarrow> A r"
  by (auto simp: hash_row_def)

lemma hash_row_mark: "hash_known h rs = Some (i, r) \<Longrightarrow> rf_hash r = h \<Longrightarrow> map_of rs i = Some r \<Longrightarrow> rf_hash r' = rf_hash r \<Longrightarrow> A r' \<Longrightarrow>
    hash_row h A (AList.update i r' rs)"
  by (induction rs) (auto simp: hash_row_Cons hash_known_def split: if_splits)

lemma rotate_spends:
  assumes run: "rotate_refresh X i r sn t s = (Inr x, s')" and known: "hash_known h (it_refresh (w_db s)) = Some (i, r)"
    and keys: "distinct (map fst (it_refresh (w_db s)))"
  shows "hash_row h (\<lambda>q. rf_used q \<noteq> None) (it_refresh (w_db s'))"
proof -
  obtain u new_id row s1 s2 u2 n s3 where ins: "insert_refresh new_id row s1 = (Inr u2, s2)"
    and used: "mark_used i t new_id s2 = (Inr n, s3)" and db: "w_db s1 = w_db s" "w_db s' = w_db s3"
    using run unfolding rotate_refresh_def Let_def
    by (auto simp: prog_iffs dest!: sign_random_db new_uuid_db query_db split: option.splits)
  let ?rs = "it_refresh (w_db s)"
  have i: "map_of ?rs i = Some r" using known keys by (auto dest: hash_known_in)
  from insert_refresh_ok [OF ins] db i
  have rs2: "it_refresh (w_db s2) = ?rs @ [(new_id, row)]" and i2: "map_of (it_refresh (w_db s2)) i = Some r"
    by (auto simp: map_add_def split: option.split)
  have "it_refresh (w_db s3) = AList.update i (r\<lparr>rf_used := Some t, rf_replaced := Some new_id\<rparr>) (it_refresh (w_db s2))"
    using refresh_update_ok [OF used [unfolded mark_used_def]] i2 by simp
  moreover have "hash_known h (it_refresh (w_db s2)) = Some (i, r)"
    using known by (simp add: rs2 hash_known_def find_append)
  ultimately show ?thesis using i2 db hash_known_in [OF known] by (simp add: hash_row_mark)
qed

text \<open>What a refresh that succeeded ran, and from where.\<close>

lemma pg_refresh_ok:
  assumes "pg_refresh X raw dev t s = (Inr x, s')"
  obtains i r sn op s1 s2 where "find_refresh (token_hash X raw) (w_db s) = Some (i, r, sn, op)"
    "ow_status op = ''ACTIVE''" "rf_used r = None" "rf_revoked r = None" "refresh_refused r sn dev t = None"
    "w_db s1 = w_db s" "rotate_refresh X i r sn t s1 = (Inr x, s2)" "w_db s' = w_db s2"
proof -
  obtain a b s0 where "commit_report (refresh_body X raw dev t) s = (Inr (a, b), s0)"
    and "(case a of Inl e \<Rightarrow> failP e | Inr x \<Rightarrow> (case b of None \<Rightarrow> returnP x | Some e \<Rightarrow> failP e)) s0 = (Inr x, s')"
    using assms by (auto simp: pg_refresh_def prog_iffs)
  then have "commit_report (refresh_body X raw dev t) s = (Inr (Inr x, None), s')"
    by (cases a; cases b) simp_all
  then obtain w1 w2 where "w_db w1 = w_db s" "refresh_body X raw dev t w1 = (Inr (Inr x), w2)" "w_db s' = w_db w2"
    by (rule commit_report_ok)
  then obtain row w3 where q: "query (\<lambda>_ d. find_refresh (token_hash X raw) d) w1 = (Inr (Some row), w3)"
    and found: "refresh_found X dev t row w3 = (Inr (Inr x), w2)"
    by (auto simp: refresh_body_def prog_iffs split: option.splits)
  obtain i r sn op where row: "row = (i, r, sn, op)" by (cases row)
  have run: "ow_status op = ''ACTIVE'' \<and> rf_used r = None \<and> rf_revoked r = None \<and> refresh_refused r sn dev t = None
      \<and> rotate_refresh X i r sn t w3 = (Inr x, w2)"
    using found by (auto simp: row refresh_found_def prog_iffs split: if_splits option.splits)
  from q have "find_refresh (token_hash X raw) (w_db w1) = Some (i, r, sn, op)" "w_db w3 = w_db w1"
    by (auto simp: row elim!: query_Inr)
  with run \<open>w_db w1 = w_db s\<close> \<open>w_db s' = w_db w2\<close> show thesis by (intro that [of i r sn op w3 w2]) simp_all
qed

lemma find_refresh_known: "find_refresh h d = Some (i, r, sn, op) \<Longrightarrow>
    hash_known h (it_refresh d) = Some (i, r) \<and> map_of (it_sessions d) (rf_session r) = Some sn
    \<and> map_of (it_operators d) (sn_operator sn) = Some op"
  by (auto simp: find_refresh_def split: option.splits)

definition pg_spent :: "id_params \<Rightarrow> string \<Rightarrow> id_world \<Rightarrow> bool" where
  "pg_spent X raw w \<longleftrightarrow> hash_spent (token_hash X raw) (it_sessions (w_db w)) (it_refresh (w_db w))"

lemma pg_spent_seen: "pg_spent X raw = ts.seen (token_hash X raw)"
  by (rule ext) (simp add: pg_spent_def ts.seen_def of_db_def)

definition pg_keys :: "id_world \<Rightarrow> bool" where
  "pg_keys w \<longleftrightarrow> token_keys (it_sessions (w_db w)) (it_refresh (w_db w))"

lemma pg_keys_seen: "pg_keys = tk.seen"
  by (rule ext) (simp add: pg_keys_def tk.seen_def of_db_def)

lemma pg_refresh_spends:
  assumes keys: "pg_keys s" and run: "pg_refresh X raw dev t s = (Inr x, s')"
  shows "\<not> pg_spent X raw s \<and> pg_spent X raw s'"
  using run
proof (rule pg_refresh_ok)
  fix i r sn op s1 s2
  assume "find_refresh (token_hash X raw) (w_db s) = Some (i, r, sn, op)" and used: "rf_used r = None"
    and db: "w_db s1 = w_db s" "w_db s' = w_db s2" and rot: "rotate_refresh X i r sn t s1 = (Inr x, s2)"
  then have known: "hash_known (token_hash X raw) (it_refresh (w_db s)) = Some (i, r)"
    by (simp add: find_refresh_known)
  with rotate_spends [OF rot] keys db used show ?thesis
    by (simp add: pg_spent_def hash_spent_def hash_row_known pg_keys_def token_keys_def)
qed

interpretation pgr: one_time_refresh "pg_identity X T v" pg_keys "pg_spent X" for X T v
proof (intro one_time_refresh.intro one_time_refresh_axioms.intro)
  show "identity_invariant (pg_identity X T v) pg_keys" unfolding pg_keys_seen by (rule tk.pg_invariant)
  show "identity_invariant (pg_identity X T v) (pg_spent X raw)" for raw
    unfolding pg_spent_seen by (rule ts.pg_invariant)
qed (auto dest: pg_refresh_spends)

end
