(* ===== verification/Identity_Properties.thy ===== *)
theory Identity_Properties
  imports Identity_Stores
begin

text \<open>
  The properties of the identity component: refresh tokens are exchanged once, a replayed one
  ends its session for good, five wrong passwords lock an account, an access token says what it
  was signed with, and the tokens of the mock are of one kind each.
\<close>

section \<open>Ended sessions\<close>

definition ended :: "uuid \<Rightarrow> id_world \<Rightarrow> bool" where
  "ended i w \<longleftrightarrow> session_ended i (it_sessions (w_db w)) (it_refresh (w_db w))"

definition token_of :: "id_params \<Rightarrow> string \<Rightarrow> uuid \<Rightarrow> id_world \<Rightarrow> bool" where
  "token_of X raw i w \<longleftrightarrow> hash_of_session (token_hash X raw) i (it_sessions (w_db w)) (it_refresh (w_db w))"

lemma ended_seen: "ended i = te.seen i"
  by (rule ext) (simp add: ended_def te.seen_def of_db_def)

lemma token_of_seen: "token_of X raw i = to.seen (token_hash X raw) i"
  by (rule ext) (simp add: token_of_def to.seen_def of_db_def)

lemma ended_run: "ended i s \<Longrightarrow> ended i (run_ids (pg_identity X T v) cs s)"
  unfolding ended_seen by (rule identity_invariant.kept [OF te.pg_invariant])

lemma token_of_run: "token_of X raw i s \<Longrightarrow> token_of X raw i (run_ids (pg_identity X T v) cs s)"
  unfolding token_of_seen by (rule identity_invariant.kept [OF to.pg_invariant])

lemma clock_now_db: "clock_now s = (r, s') \<Longrightarrow> w_db s' = w_db (s :: 'd db_world)"
  by (auto simp: clock_now_def)

lemma ended_refresh_refused:
  assumes ended: "ended i s" and "token_of X raw i s"
  shows "\<exists>e. fst (refresh_session_context (pg_identity X T v) raw dev s) = Inl e"
proof (cases "refresh_session_context (pg_identity X T v) raw dev s")
  case (Pair q s')
  show ?thesis
  proof (cases q)
    case (Inr y)
    with Pair obtain t s0 x s1 where "clock_now s = (Inr t, s0)" and ref: "pg_refresh X raw dev t s0 = (Inr x, s1)"
      by (auto simp: refresh_session_context_def prog_iffs)
    then have db: "w_db s0 = w_db s" by (auto dest: clock_now_db)
    from ref obtain j r sn op where f: "find_refresh (token_hash X raw) (w_db s) = Some (j, r, sn, op)"
      and ok: "refresh_refused r sn dev t = None"
      unfolding db [symmetric] by (rule pg_refresh_ok)
    from find_refresh_known [OF f] assms(2) have "rf_session r = i" and "map_of (it_sessions (w_db s)) i = Some sn"
      by (auto simp: token_of_def hash_of_session_def hash_row_known)
    with ended ok show ?thesis by (simp add: ended_def session_ended_def refresh_refused_def)
  qed (use Pair in simp)
qed

lemma ended_access_refused:
  assumes ended: "ended i s" and tok: "\<And>t c. parse_token (id_config X) tok t = Inr c \<Longrightarrow> id_parse X (tc_session c) = Some i"
  shows "\<exists>e. fst (authenticate_token (pg_identity X T v) tok s) = Inl e"
proof (cases "authenticate_token (pg_identity X T v) tok s")
  case (Pair q s')
  show ?thesis
  proof (cases q)
    case (Inr y)
    with Pair obtain t s0 x s1 where "clock_now s = (Inr t, s0)" and au: "pg_authenticate X tok t s0 = (Inr x, s1)"
      by (auto simp: authenticate_token_def prog_iffs)
    then have db: "w_db s0 = w_db s" by (auto dest: clock_now_db)
    from au obtain c r s2 where c: "parse_token (id_config X) tok t = Inr c" and live: "session_live t r"
      and q: "query (\<lambda>_ d. session_of X (tc_session c) d) s0 = (Inr (Some r), s2)"
      by (auto simp: pg_authenticate_def prog_iffs split: option.splits)
    from q db have "session_of X (tc_session c) (w_db s) = Some r" by (auto elim!: query_Inr)
    with ended live tok [OF c] show ?thesis by (auto simp: session_of_def ended_def session_ended_def session_live_def)
  qed (use Pair in simp)
qed

section \<open>A replayed refresh token\<close>

lemma sql_healthy_ok:
  assumes "healthy w" and "f (w_sql_now w (w_tick w)) (w_db w) = Inr (x, d)"
  shows "sql f w = (Inr x, w\<lparr>w_tick := Suc (w_tick w), w_db := d\<rparr>)"
  using assms by (simp add: sql_def healthy_def Let_def)

lemma update_any: "\<exists>n tab'. update_at name (\<lambda>_. True) k f tab = Inr (n, tab')"
  by (simp add: update_at_def split: option.split)

lemma refresh_update_healthy:
  assumes "healthy w"
  obtains n rs where "refresh_update i f w = (Inr n, w\<lparr>w_tick := Suc (w_tick w), w_db := (w_db w)\<lparr>it_refresh := rs\<rparr>\<rparr>)"
proof -
  obtain n rs where "update_at ''identity_refresh_tokens'' (\<lambda>_. True) i f (it_refresh (w_db w)) = Inr (n, rs)"
    using update_any [of _ i f "it_refresh (w_db w)"] by blast
  then show thesis using assms
    by (intro that [of n rs]) (simp add: refresh_update_def sql_healthy_ok on_table_def)
qed

lemma revoke_active_healthy:
  assumes "healthy w" and sn: "map_of (it_sessions (w_db w)) i = Some sn"
  obtains n ss where "revoke_session True why i t w = (Inr n, w\<lparr>w_tick := Suc (w_tick w), w_db := (w_db w)\<lparr>it_sessions := ss\<rparr>\<rparr>)"
    and "\<exists>sn'. map_of ss i = Some sn' \<and> sn_status sn' \<noteq> ''ACTIVE''"
proof -
  let ?f = "\<lambda>r. if sn_status r \<noteq> ''ACTIVE'' then r else revoked_row why t r"
  let ?ss = "AList.update i (?f sn) (it_sessions (w_db w))"
  have "update_at ''identity_sessions'' (\<lambda>_. True) i ?f (it_sessions (w_db w)) = Inr (1, ?ss)"
    using sn by (simp add: update_at_def)
  then have "revoke_session True why i t w = (Inr 1, w\<lparr>w_tick := Suc (w_tick w), w_db := (w_db w)\<lparr>it_sessions := ?ss\<rparr>\<rparr>)"
    using assms(1) by (simp add: revoke_session_def sql_healthy_ok on_table_def)
  then show thesis by (rule that) (simp add: update_conv' revoked_row_def)
qed

lemma commit_report_healthy:
  assumes "healthy w" and "m (w\<lparr>w_tick := Suc (w_tick w), w_in_tx := True, w_aborted := False\<rparr>) = (Inr x, w2)"
    and "healthy w2"
  shows "commit_report m w = (Inr (x, None), end_tx (w2\<lparr>w_tick := Suc (w_tick w2)\<rparr>))"
  using assms by (simp add: commit_report_def healthy_def Let_def)

lemma reuse_detected_healthy:
  assumes h: "healthy w" and sn: "map_of (it_sessions (w_db w)) sid = Some sn"
  obtains w' where "reuse_detected i sid t w = (Inr (), w')" "healthy w'"
    "ended sid w'"
proof -
  obtain n rs where m: "mark_reuse i t w = (Inr n, w\<lparr>w_tick := Suc (w_tick w), w_db := (w_db w)\<lparr>it_refresh := rs\<rparr>\<rparr>)"
    unfolding mark_reuse_def using refresh_update_healthy [OF h] by blast
  let ?w1 = "w\<lparr>w_tick := Suc (w_tick w), w_db := (w_db w)\<lparr>it_refresh := rs\<rparr>\<rparr>"
  have h1: "healthy ?w1" using h by (simp add: healthy_def)
  from sn have "map_of (it_sessions (w_db ?w1)) sid = Some sn" by simp
  with h1 obtain k ss where r: "revoke_session True ''refresh_reuse'' sid t ?w1 =
        (Inr k, ?w1\<lparr>w_tick := Suc (w_tick ?w1), w_db := (w_db ?w1)\<lparr>it_sessions := ss\<rparr>\<rparr>)"
    and ss: "\<exists>sn'. map_of ss sid = Some sn' \<and> sn_status sn' \<noteq> ''ACTIVE''"
    by (rule revoke_active_healthy)
  let ?w2 = "?w1\<lparr>w_tick := Suc (w_tick ?w1), w_db := (w_db ?w1)\<lparr>it_sessions := ss\<rparr>\<rparr>"
  have "reuse_detected i sid t w = (Inr (), ?w2)" by (simp add: reuse_detected_def bindP_run m r)
  moreover have "healthy ?w2" using h by (simp add: healthy_def)
  moreover have "ended sid ?w2" using ss by (simp add: ended_def session_ended_def)
  ultimately show thesis by (intro that) simp_all
qed

lemma reuse_ends:
  assumes h: "healthy s" and f: "find_refresh (token_hash X raw) (w_db s) = Some (i, r, sn, op)"
    and op: "ow_status op = ''ACTIVE''" and used: "rf_used r \<noteq> None \<or> rf_revoked r \<noteq> None"
  obtains s' where "refresh_session_context (pg_identity X T v) raw dev s = (Inl AuthRefreshReused, s')" "ended (rf_session r) s'"
proof -
  let ?s0 = "s\<lparr>env_reads := Suc (env_reads s)\<rparr>" and ?t = "env_clock s (env_reads s)"
  let ?w1 = "?s0\<lparr>w_tick := Suc (w_tick s), w_in_tx := True, w_aborted := False\<rparr>"
  let ?w2 = "?w1\<lparr>w_tick := Suc (Suc (w_tick s))\<rparr>"
  have h0: "healthy ?s0" "healthy ?w1" "healthy ?w2" using h by (simp_all add: healthy_def)
  have "map_of (it_sessions (w_db ?w2)) (rf_session r) = Some sn" using find_refresh_known [OF f] by simp
  then obtain w3 where re: "reuse_detected i (rf_session r) ?t ?w2 = (Inr (), w3)" and w3: "healthy w3" "ended (rf_session r) w3"
    using reuse_detected_healthy [OF h0(3)] by metis
  have "query (\<lambda>_ d. find_refresh (token_hash X raw) d) ?w1 = (Inr (Some (i, r, sn, op)), ?w2)"
    using query_healthy [OF h0(2), of "\<lambda>_ d. find_refresh (token_hash X raw) d"] f by simp
  with re op used have body: "refresh_body X raw dev ?t ?w1 = (Inr (Inl ErrRefreshTokenReused), w3)"
    by (auto simp: refresh_body_def bindP_run mapped_run refresh_found_def)
  let ?s1 = "end_tx (w3\<lparr>w_tick := Suc (w_tick w3)\<rparr>)"
  have "commit_report (refresh_body X raw dev ?t) ?s0 = (Inr (Inl ErrRefreshTokenReused, None), ?s1)"
    by (rule commit_report_healthy [OF h0(1) _ w3(1)]) (use body in simp)
  then have "pg_refresh X raw dev ?t ?s0 = (Inl ErrRefreshTokenReused, ?s1)"
    by (simp add: pg_refresh_def bindP_run)
  moreover have "map_session_error True ErrRefreshTokenReused = AuthRefreshReused" by code_simp
  ultimately have "refresh_session_context (pg_identity X T v) raw dev s = (Inl AuthRefreshReused, ?s1)"
    by (simp add: refresh_session_context_def bindP_run clock_now_def mapped_run)
  moreover have "ended (rf_session r) ?s1" using w3(2) by (simp add: ended_def)
  ultimately show thesis by (rule that)
qed

text \<open>C19: a refresh token is exchanged at most once: after a refresh that succeeded, whatever calls
  follow (logins, other refreshes, logouts, device registrations), presenting the same token
  again, from any device, is refused.\<close>

theorem refresh_token_exchanged_once:
  assumes "pg_keys s" and "refresh_session_context (pg_identity X T v) raw dev s = (Inr x, s1)"
  shows "\<exists>e. fst (refresh_session_context (pg_identity X T v) raw dev' (run_ids (pg_identity X T v) cs s1)) = Inl e"
  using pgr.exchanged_once [OF assms] by (metis prod.collapse)

text \<open>An operator who is not active is answered before the token is looked at: nothing is revoked.\<close>

lemma refused_before_reuse:
  assumes h: "healthy s" and f: "find_refresh (token_hash X raw) (w_db s) = Some (i, r, sn, op)"
    and op: "ow_status op \<noteq> ''ACTIVE''"
  shows "\<exists>s1. refresh_session_context (pg_identity X T v) raw dev s = (Inl AuthUserDisabled, s1) \<and> w_db s1 = w_db s"
proof -
  have "map_session_error True ErrUserDisabled = AuthUserDisabled" by code_simp
  with h f op show ?thesis
    by (simp add: refresh_session_context_def pg_refresh_def commit_report_def refresh_body_def refresh_found_def
        healthy_def query_def sql_def clock_now_def mapped_run bindP_run failP_def Let_def end_tx_def)
qed

text \<open>A revocation that the database fails is not noticed: the answer is the same, the session lives on.\<close>

lemma lost_revocation_unnoticed:
  assumes f: "find_refresh (token_hash X raw) (w_db s) = Some (i, r, sn, op)"
    and op: "ow_status op = ''ACTIVE''" and used: "rf_used r \<noteq> None \<or> rf_revoked r \<noteq> None"
    and "w_fault s (w_tick s) = NoFault" and "w_fault s (Suc (w_tick s)) = NoFault"
    and "w_fault s (Suc (Suc (w_tick s))) = FailBefore"
  shows "\<exists>s1. refresh_session_context (pg_identity X T v) raw dev s = (Inl AuthRefreshReused, s1) \<and> w_db s1 = w_db s"
proof -
  have "map_session_error True ErrRefreshTokenReused = AuthRefreshReused" by code_simp
  with assms show ?thesis
    by (auto simp: refresh_session_context_def pg_refresh_def commit_report_def refresh_body_def refresh_found_def
        reuse_detected_def mark_reuse_def refresh_update_def revoke_session_def ignoreP_def
        query_def sql_def clock_now_def mapped_run bindP_run failP_def returnP_def Let_def end_tx_def fail_world_def)
qed

text \<open>C20: on a database that meets no fault, presenting a refresh token of an active operator that was used
  or revoked before is answered \<open>REFRESH_TOKEN_REUSED\<close> and ends the session it belongs to: whatever is
  called afterwards, no refresh token of that session is exchanged again and no access token that
  names it is accepted. Both conditions are needed. When the operator is not active, the answer is
  \<open>USER_DISABLED\<close>, which comes first, and nothing is revoked; and when the database fails the revocation
  or its commit, the code does not notice (the lemma before this one).\<close>

theorem replayed_token_ends_session:
  assumes "healthy s" and "find_refresh (token_hash X raw) (w_db s) = Some (i, r, sn, op)"
    and "rf_used r \<noteq> None \<or> rf_revoked r \<noteq> None"
  shows "if ow_status op = ''ACTIVE''
    then \<exists>s1. refresh_session_context (pg_identity X T v) raw dev s = (Inl AuthRefreshReused, s1)
      \<and> (\<forall>cs. let s2 = run_ids (pg_identity X T v) cs s1 in
          (\<forall>raw2 dev2. token_of X raw2 (rf_session r) s2 \<longrightarrow>
             (\<exists>e. fst (refresh_session_context (pg_identity X T v) raw2 dev2 s2) = Inl e))
        \<and> (\<forall>tok. (\<forall>t c. parse_token (id_config X) tok t = Inr c \<longrightarrow> id_parse X (tc_session c) = Some (rf_session r)) \<longrightarrow>
             (\<exists>e. fst (authenticate_token (pg_identity X T v) tok s2) = Inl e)))
    else \<exists>s1. refresh_session_context (pg_identity X T v) raw dev s = (Inl AuthUserDisabled, s1) \<and> w_db s1 = w_db s"
proof (cases "ow_status op = ''ACTIVE''")
  case True
  obtain s1 where run: "refresh_session_context (pg_identity X T v) raw dev s = (Inl AuthRefreshReused, s1)"
    and "ended (rf_session r) s1"
    using reuse_ends [OF assms(1,2) True assms(3)] .
  then have "ended (rf_session r) (run_ids (pg_identity X T v) cs s1)" for cs by (simp add: ended_run)
  with run True show ?thesis
    by (intro iffD2 [OF if_P]) (auto simp: Let_def intro!: exI [of _ s1] ended_refresh_refused ended_access_refused)
next
  case False
  with refused_before_reuse [OF assms(1,2)] show ?thesis by simp
qed

section \<open>Wrong passwords\<close>

text \<open>The one account of a name, whose roles all have permissions, on a database that answers.\<close>

definition account :: "string \<Rightarrow> string \<Rightarrow> operator_row \<Rightarrow> id_world \<Rightarrow> bool" where
  "account u i r w \<longleftrightarrow> healthy w \<and> filter (same_username u) (it_operators (w_db w)) = [(i, r)]
     \<and> (\<exists>rp. scan_roles (sorted_role_rows (w_db w) i) [] [] = Inr rp) \<and> trim_space (ow_username r) = ow_username r"

lemma healthy_updates [simp]: "healthy (w\<lparr>w_db := d\<rparr>) = healthy w" "healthy (w\<lparr>env_reads := n\<rparr>) = healthy w"
  by (simp_all add: healthy_def)

lemma find_filter: "filter P xs = [x] \<Longrightarrow> find P xs = Some x"
  by (induction xs) (auto split: if_splits)

lemma account_name: "account u i r w \<Longrightarrow> same_username (ow_username r) = same_username u"
proof -
  assume a: "account u i r w"
  then have "(i, r) \<in> set (filter (same_username u) (it_operators (w_db w)))" by (simp add: account_def)
  then have "to_lower (ow_username r) = to_lower (trim_space u)" by (simp add: same_username_def)
  with a show ?thesis by (simp add: account_def same_username_def fun_eq_iff)
qed

lemma by_username_account:
  assumes "account u i r w"
  obtains p where "pg_by_username u w = (Inr (Some p), w\<lparr>w_tick := Suc (Suc (Suc (w_tick w)))\<rparr>)"
    "op_username p = ow_username r" "op_hash p = ow_hash r" "op_active p \<longleftrightarrow> ow_status r = ''ACTIVE''"
proof -
  from assms obtain roles perms where h: "healthy w" and f: "find (same_username u) (it_operators (w_db w)) = Some (i, r)"
    and sc: "scan_roles (sorted_role_rows (w_db w) i) [] [] = Inr (roles, perms)"
    by (auto simp: account_def find_filter)
  then show thesis
    by (intro that) (auto simp: pg_by_username_def find_operator_def bindP_run query_healthy)
qed

lemma check_login_account:
  assumes "account u i r w"
  shows "pg_check_login u t w = (login_allowed r t, w\<lparr>w_tick := Suc (w_tick w)\<rparr>)"
  using assms by (simp add: pg_check_login_def bindP_run query_healthy account_def find_filter)

lemma account_tick [simp]: "account u i r (w\<lparr>w_tick := n\<rparr>) = account u i r w"
    "account u i r (w\<lparr>env_reads := n\<rparr>) = account u i r w"
  by (simp_all add: account_def)

lemma role_rows_updates [simp]:
  "sorted_role_rows (d\<lparr>it_operators := x\<rparr>) i = sorted_role_rows d i"
  "sorted_role_rows (d\<lparr>it_audit := y\<rparr>) i = sorted_role_rows d i"
  by (simp_all add: sorted_role_rows_def role_rows_def)

text \<open>The state after an attempt: the environment and the audit trail moved on, the row is the given one.\<close>

lemma locked_login:
  assumes a: "account u i r s" and "ow_status r = ''LOCKED''"
  shows "\<exists>s'. login_session_context (pg_identity X T v) u pw dev wh corr s = (Inl AuthAccountLocked, s') \<and> account u i r s'"
proof -
  obtain p where p: "pg_by_username u s = (Inr (Some p), s\<lparr>w_tick := Suc (Suc (Suc (w_tick s)))\<rparr>)"
    using by_username_account [OF a] by blast
  let ?s1 = "s\<lparr>w_tick := Suc (Suc (Suc (w_tick s)))\<rparr>" and ?t = "env_clock s (env_reads s)"
  let ?s2 = "?s1\<lparr>env_reads := Suc (env_reads s)\<rparr>"
  have a2: "account u i r ?s2" using a by simp
  have "login_allowed r ?t = Inl ErrLoginLocked" using assms by (simp add: login_allowed_def)
  with check_login_account [OF a2] have c: "pg_check_login u ?t ?s2 = (Inl ErrLoginLocked, ?s2\<lparr>w_tick := Suc (w_tick ?s2)\<rparr>)"
    by simp
  have "login_error ErrLoginLocked = AuthAccountLocked" by code_simp
  then have "login_session_context (pg_identity X T v) u pw dev wh corr s = (Inl AuthAccountLocked, ?s2\<lparr>w_tick := Suc (w_tick ?s2)\<rparr>)"
    using c by (simp add: login_session_context_def authenticate_credentials_def bindP_run p protect_def clock_now_def mapped_run)
  with a2 show ?thesis by simp
qed

lemma update_account:
  assumes a: "account u i r w" and "operator_ok (f r)" and "ow_username (f r) = ow_username r"
  obtains w' where "update_operators (same_username u) f w = (Inr (), w')" "account u i (f r) w'" "healthy w'"
proof -
  let ?upd = "\<lambda>kr. if same_username u kr then (fst kr, f (snd kr)) else kr"
  let ?d = "(w_db w)\<lparr>it_operators := map ?upd (it_operators (w_db w))\<rparr>"
  let ?w = "w\<lparr>w_tick := Suc (w_tick w), w_db := ?d\<rparr>"
  have only: "filter (same_username u) (it_operators (w_db w)) = [(i, r)]" using a by (simp add: account_def)
  have all: "list_all (\<lambda>kr. same_username u kr \<longrightarrow> operator_ok (f (snd kr))) xs
      \<and> filter (same_username u) (map ?upd xs) = map ?upd (filter (same_username u) xs)"
    if "set (filter (same_username u) xs) \<subseteq> {(i, r)}" for xs
    using that assms(2,3) by (induction xs) (auto simp: same_username_def)
  from all [of "it_operators (w_db w)"] only
  have ok: "list_all (\<lambda>kr. same_username u kr \<longrightarrow> operator_ok (f (snd kr))) (it_operators (w_db w))"
    and filt: "filter (same_username u) (map ?upd (it_operators (w_db w))) = map ?upd [(i, r)]" by simp_all
  have "(i, r) \<in> set (filter (same_username u) (it_operators (w_db w)))" using only by simp
  then have same: "same_username u (i, r)" by simp
  have "update_operators (same_username u) f w = (Inr (), ?w)"
    using a ok by (simp add: update_operators_def sql_healthy_ok on_table_def account_def)
  moreover have "account u i (f r) ?w"
    using a filt same assms(3) by (simp add: account_def)
  ultimately show thesis using a by (intro that [of ?w]) (simp_all add: account_def)
qed

lemma append_account:
  assumes "account u i r w"
  obtains w' where "pg_id_append rec w = (Inr (), w')" "account u i r w'"
  using assms
  unfolding account_def by (intro that) (simp add: pg_id_append_def sql_healthy_ok on_table_def, simp add: account_def)

lemma wrong_password_login:
  assumes a: "account u i r s" and act: "ow_status r = ''ACTIVE''" and lk: "ow_locked r = None" and wrong: "\<not> v (ow_hash r) pw"
    and n: "ow_failed r < 5"
  shows "\<exists>s' t. login_session_context (pg_identity X T v) u pw dev wh corr s = (Inl AuthInvalidCredentials, s')
    \<and> account u i (failed_row t r) s'"
proof -
  obtain p where p: "pg_by_username u s = (Inr (Some p), s\<lparr>w_tick := Suc (Suc (Suc (w_tick s)))\<rparr>)"
    and pf: "op_username p = ow_username r" "op_hash p = ow_hash r"
    using by_username_account [OF a] by blast
  let ?s1 = "s\<lparr>w_tick := Suc (Suc (Suc (w_tick s)))\<rparr>" and ?t = "env_clock s (env_reads s)"
  let ?s2 = "?s1\<lparr>env_reads := Suc (env_reads s)\<rparr>"
  have a2: "account u i r ?s2" using a by simp
  have c: "pg_check_login u ?t ?s2 = (Inr (), ?s2\<lparr>w_tick := Suc (w_tick ?s2)\<rparr>)"
    using check_login_account [OF a2, of ?t] act lk by (simp add: login_allowed_def)
  let ?s3 = "?s2\<lparr>w_tick := Suc (w_tick ?s2)\<rparr>"
  let ?t2 = "env_clock s (Suc (env_reads s))" and ?s4 = "?s3\<lparr>env_reads := Suc (Suc (env_reads s))\<rparr>"
  let ?f = "failed_row (?t2 + fifteen_minutes)"
  have "account u i r ?s4" using a by simp
  moreover have "operator_ok (?f r)" using act n by (simp add: operator_ok_def failed_row_def Let_def)
  moreover have "ow_username (?f r) = ow_username r" by (simp add: failed_row_def Let_def)
  ultimately obtain s5 where u5: "update_operators (same_username u) ?f ?s4 = (Inr (), s5)" and a5: "account u i (?f r) s5"
    by (rule update_account)
  let ?s6 = "s5\<lparr>env_reads := Suc (env_reads s5)\<rparr>"
  have "account u i (?f r) ?s6" using a5 by simp
  then obtain s7 where u7: "pg_id_append \<lparr>sy_action = ''LOGIN'', sy_outcome = ''DENIED'', sy_operator = '''', sy_device = '''',
      sy_warehouse = '''', sy_correlation = corr, sy_at = env_clock s5 (env_reads s5)\<rparr> ?s6 = (Inr (), s7)"
    and a7: "account u i (?f r) s7"
    by (rule append_account)
  have fl: "pg_login_failure (op_username p) ?t2 ?s4 = (Inr (), s5)"
    using u5 by (simp add: pg_login_failure_def pf account_name [OF a])
  have "\<not> password_ok (pg_identity X T v) p pw" using wrong by (simp add: password_ok_def pf)
  then have "login_session_context (pg_identity X T v) u pw dev wh corr s = (Inl AuthInvalidCredentials, s7)"
    using c fl u7 by (simp add: login_session_context_def authenticate_credentials_def bindP_run p protect_def clock_now_def
        mapped_run audit_login_def)
  with a7 show ?thesis by blast
qed

definition attempts :: "string \<Rightarrow> string list \<Rightarrow> id_call list" where
  "attempts u pws = map (\<lambda>pw. LoginCall u pw '''' '''' '''') pws"

lemma run_ids_Cons: "run_ids P (c # cs) s = run_ids P cs (run_id P c s)"
  by (simp add: run_ids_def)

lemma run_ids_append: "run_ids P (cs @ ds) s = run_ids P ds (run_ids P cs s)"
  by (simp add: run_ids_def)

lemma locked_attempts: "account u i r s \<Longrightarrow> ow_status r = ''LOCKED'' \<Longrightarrow>
    account u i r (run_ids (pg_identity X T v) (attempts u pws) s)"
proof (induction pws arbitrary: s)
  case (Cons pw pws)
  from locked_login [OF Cons.prems] obtain s' where
    "login_session_context (pg_identity X T v) u pw '''' '''' '''' s = (Inl AuthAccountLocked, s')" "account u i r s'" by blast
  with Cons show ?case by (simp add: attempts_def run_ids_Cons)
qed (simp add: attempts_def run_ids_def)

lemma wrong_attempts:
  assumes "account u i r s" and "ow_status r = ''LOCKED'' \<or> ow_status r = ''ACTIVE'' \<and> ow_locked r = None \<and> ow_failed r < 5
      \<and> 5 \<le> ow_failed r + int (length pws)" and "list_all (\<lambda>pw. \<not> v (ow_hash r) pw) pws"
  shows "\<exists>r'. account u i r' (run_ids (pg_identity X T v) (attempts u pws) s) \<and> ow_status r' = ''LOCKED''"
  using assms
proof (induction pws arbitrary: s r)
  case Nil
  then show ?case by (auto simp: attempts_def run_ids_def)
next
  case (Cons pw pws)
  show ?case
  proof (cases "ow_status r = ''LOCKED''")
    case True
    with Cons.prems(1) show ?thesis by (blast intro: locked_attempts)
  next
    case False
    with Cons.prems have "ow_status r = ''ACTIVE''" "ow_locked r = None" "ow_failed r < 5" "\<not> v (ow_hash r) pw"
      and n: "5 \<le> ow_failed r + 1 + int (length pws)" by auto
    with wrong_password_login [OF Cons.prems(1)] obtain s' t where
      run: "login_session_context (pg_identity X T v) u pw '''' '''' '''' s = (Inl AuthInvalidCredentials, s')"
      and a': "account u i (failed_row t r) s'" by blast
    have "\<exists>r'. account u i r' (run_ids (pg_identity X T v) (attempts u pws) s') \<and> ow_status r' = ''LOCKED''"
      by (rule Cons.IH [OF a']) (use Cons.prems n \<open>ow_locked r = None\<close> \<open>ow_status r = ''ACTIVE''\<close> in \<open>simp_all add: failed_row_def Let_def\<close>)
    with run show ?thesis by (simp add: attempts_def run_ids_Cons)
  qed
qed

text \<open>C21: a name with one active account, on a database that answers: once the count of failed logins
  reaches five, the account is locked, and every later attempt, with whatever password, at
  whatever time and however many came before it, is answered \<open>AUTH_ACCOUNT_LOCKED\<close>.\<close>

theorem five_failures_lock:
  assumes "account u i r s" and "ow_status r = ''ACTIVE''" and "ow_locked r = None" and "ow_failed r < 5"
    and "5 \<le> ow_failed r + int (length wrong)" and "list_all (\<lambda>pw. \<not> v (ow_hash r) pw) wrong"
  shows "fst (login_session_context (pg_identity X T v) u pw dev wh corr
    (run_ids (pg_identity X T v) (attempts u (wrong @ later)) s)) = Inl AuthAccountLocked"
proof -
  obtain r' where a: "account u i r' (run_ids (pg_identity X T v) (attempts u wrong) s)" and l: "ow_status r' = ''LOCKED''"
    using wrong_attempts [of u i r s wrong v X T] assms by blast
  have "account u i r' (run_ids (pg_identity X T v) (attempts u (wrong @ later)) s)"
    using locked_attempts [OF a l] by (simp add: attempts_def run_ids_append)
  from locked_login [OF this l] show ?thesis by (metis fst_conv)
qed

section \<open>Access tokens\<close>

text \<open>What \<open>Create\<close> signed and stored.\<close>

lemma insert_session_ok: "insert_session i r s = (Inr u, s') \<Longrightarrow>
    it_sessions (w_db s') = it_sessions (w_db s) @ [(i, r)] \<and> map_of (it_sessions (w_db s)) i = None"
  unfolding insert_session_def by (erule sql_Inr) (auto simp: stmt_iffs insert_at_Inr)

lemma insert_refresh_sessions: "insert_refresh i r s = (q, s') \<Longrightarrow> it_sessions (w_db s') = it_sessions (w_db s)"
  unfolding insert_refresh_def by (drule sql_db_cases) (auto simp: stmt_iffs)

lemma pg_create_ok:
  assumes "pg_create X p dev wh t s = (Inr (access, refresh, expires, refresh_expires), s')"
  obtains sid jti sn where "map_of (it_sessions (w_db s')) sid = Some sn"
    "sn_status sn = ''ACTIVE''" "sn_expires sn = t + sm_refresh_ttl (id_config X)"
    "sign_token (id_config X) (session_claims X (op_id p) jti sid dev wh t expires) = Inr access"
    "expires = t + sm_access_ttl (id_config X)" "refresh_expires = t + sm_refresh_ttl (id_config X)"
proof -
  let ?m = "bindP new_uuid (\<lambda>sid. bindP new_uuid (\<lambda>rid. bindP new_uuid (\<lambda>family. bindP (random_token X) (\<lambda>refresh.
        bindP (insert_session sid \<lparr>sn_operator = op_id p, sn_device = null_string dev,
          sn_warehouse = null_string wh, sn_status = ''ACTIVE'', sn_expires = t + sm_refresh_ttl (id_config X), sn_revoked = None,
          sn_reason = None\<rparr>) (\<lambda>_.
        bindP (insert_refresh rid (new_refresh sid (token_hash X refresh) family None t (t + sm_refresh_ttl (id_config X)))) (\<lambda>_.
        bindP (sign_session X (op_id p) sid dev wh t (t + sm_access_ttl (id_config X))) (\<lambda>access.
        returnP (access, refresh, t + sm_access_ttl (id_config X), t + sm_refresh_ttl (id_config X)))))))))"
  obtain s0 where "with_tx ?m s0 = (Inr (access, refresh, expires, refresh_expires), s')"
    using assms by (auto simp: pg_create_def Let_def bindP_Inr_iff)
  then obtain w1 w2 where "?m w1 = (Inr (access, refresh, expires, refresh_expires), w2)" "w_db s' = w_db w2"
    by (rule with_tx_Inr)
  then obtain ss sid sn jti where ss: "it_sessions (w_db s') = ss @ [(sid, sn)]" "map_of ss sid = None"
    and sn: "sn_status sn = ''ACTIVE''" "sn_expires sn = t + sm_refresh_ttl (id_config X)"
    and sg: "sign_token (id_config X) (session_claims X (op_id p) jti sid dev wh t expires) = Inr access"
    and ex: "expires = t + sm_access_ttl (id_config X)" "refresh_expires = t + sm_refresh_ttl (id_config X)"
    by (auto simp: prog_iffs sign_session_def dest!: insert_session_ok insert_refresh_sessions sign_random_db new_uuid_db)
  from ss have "map_of (it_sessions (w_db s')) sid = Some sn" by (simp add: map_add_def)
  from that [OF this sn sg ex] show thesis .
qed

lemma unix_not_before: "time_of_unix (unix_seconds t) \<le> t'" if "t \<le> t'"
  using time_of_unix_le [of t] that by linarith

text \<open>C22: the access token of a new session, presented to a database that answers, is accepted from the
  instant of its creation until the full second its lifetime ends in (at most one second before
  the expiry the caller was told), and says the operator, device, warehouse and session it was
  made for; after that it is refused as expired.\<close>

theorem access_token_round_trip:
  assumes "pg_create X p dev wh t s = (Inr (access, refresh, expires, refresh_expires), s1)"
    and "codec_laws (sm_codec (id_config X))" and "key_pair (id_config X)"
    and "\<And>jti sid. ascii_claims (session_claims X (op_id p) jti sid dev wh t expires)"
    and "op_id p \<noteq> ''''" and "\<And>i. id_str X i \<noteq> '''' \<and> id_parse X (id_str X i) = Some i"
    and "healthy s2" and "w_db s2 = w_db s1" and "t \<le> now" and "expires \<le> refresh_expires"
  shows "\<exists>sid jti. fst (pg_authenticate X access now s2) =
      (if now < expires - expires mod nanos
       then Inr \<lparr>jc_operator = op_id p, jc_token = id_str X jti, jc_session = id_str X sid, jc_device = dev,
         jc_warehouse = wh, jc_expires = expires - expires mod nanos\<rparr>
       else Inl ErrAccessTokenExpired)
    \<and> map_of (it_sessions (w_db s1)) sid \<noteq> None"
proof -
  obtain sid jti sn where sn: "map_of (it_sessions (w_db s1)) sid = Some sn" "sn_status sn = ''ACTIVE''"
      "sn_expires sn = t + sm_refresh_ttl (id_config X)"
    and sg: "sign_token (id_config X) (session_claims X (op_id p) jti sid dev wh t expires) = Inr access"
    and ex: "expires = t + sm_access_ttl (id_config X)" "refresh_expires = t + sm_refresh_ttl (id_config X)"
    using assms(1) by (rule pg_create_ok)
  let ?c = "session_claims X (op_id p) jti sid dev wh t expires"
  have ok: "claims_ok (id_config X) ?c now"
    using assms(5,6,9) by (simp add: claims_ok_def session_claims_def Let_def unix_not_before)
  have "parse_token (id_config X) access now =
      (if now < time_of_unix (tc_expires ?c) then Inr ?c else Inl ErrAccessTokenExpired)"
    using parse_signed [OF sg assms(2,3,4)] ok by simp
  then have parse: "parse_token (id_config X) access now =
      (if now < expires - expires mod nanos then Inr ?c else Inl ErrAccessTokenExpired)"
    by (simp add: session_claims_def Let_def time_of_unix_seconds)
  have row: "session_of X (tc_session ?c) (w_db s2) = Some sn"
    using sn assms(6,8) by (simp add: session_of_def session_claims_def Let_def)
  have "0 \<le> expires mod nanos" by (simp add: nanos_def)
  with assms(10) sn ex have live: "now < expires - expires mod nanos \<Longrightarrow> session_live now sn"
    by (simp add: session_live_def)
  have "fst (pg_authenticate X access now s2) =
      (if now < expires - expires mod nanos
       then Inr \<lparr>jc_operator = op_id p, jc_token = id_str X jti, jc_session = id_str X sid, jc_device = dev,
         jc_warehouse = wh, jc_expires = expires - expires mod nanos\<rparr>
       else Inl ErrAccessTokenExpired)"
    using assms(7) row live
    by (simp add: pg_authenticate_def bindP_run parse mapped_run query_healthy checkP_run)
      (simp add: session_claims_def Let_def time_of_unix_seconds)
  with sn show ?thesis by blast
qed

end
