(* ===== verification/Identity_Examples.thy ===== *)
theory Identity_Examples
  imports Identity_Properties
begin

text \<open>
  Concrete inputs for the identity properties: a codec that keeps the laws of
  \<open>codec_laws\<close>, one operator with one warehouse and one device, and the runs the witnesses
  evaluate.
\<close>

section \<open>A codec that keeps the laws\<close>

definition ex_sep :: char where "ex_sep = CHR 0xFF"

function ex_bits :: "int \<Rightarrow> string" where
  "ex_bits k = (if k \<le> 0 then [] else (if odd k then CHR ''1'' else CHR ''0'') # ex_bits (k div 2))"
  by auto
termination by (relation "measure nat") auto

declare ex_bits.simps [simp del]

fun ex_of_bits :: "string \<Rightarrow> int" where
  "ex_of_bits [] = 0"
| "ex_of_bits (c # s) = (if c = CHR ''1'' then 1 else 0) + 2 * ex_of_bits s"

lemma ex_of_bits_bits: "0 \<le> k \<Longrightarrow> ex_of_bits (ex_bits k) = k"
proof (induction k rule: ex_bits.induct)
  case (1 k)
  then show ?case by (subst ex_bits.simps) (auto, presburger)
qed

lemma ex_bits_no_sep: "ex_sep \<notin> set (ex_bits k)"
  by (induction k rule: ex_bits.induct) (subst ex_bits.simps, auto simp: ex_sep_def)

definition ex_int :: "int \<Rightarrow> string" where
  "ex_int k = (if k < 0 then CHR ''-'' # ex_bits (- k) else ex_bits k)"

definition ex_of_int :: "string \<Rightarrow> int" where
  "ex_of_int s = (case s of [] \<Rightarrow> 0 | c # r \<Rightarrow> if c = CHR ''-'' then - ex_of_bits r else ex_of_bits s)"

lemma ex_bits_head: "ex_bits k = c # r \<Longrightarrow> c \<noteq> CHR ''-''"
  by (subst (asm) ex_bits.simps) (auto split: if_splits)

lemma ex_of_int_int: "ex_of_int (ex_int k) = k"
proof (cases "k < 0")
  case False
  then have "ex_of_bits (ex_bits k) = k" by (simp add: ex_of_bits_bits)
  with False show ?thesis by (cases "ex_bits k") (auto simp: ex_of_int_def ex_int_def dest: ex_bits_head)
qed (simp add: ex_of_int_def ex_int_def ex_of_bits_bits)

lemma ex_int_no_sep: "ex_sep \<notin> set (ex_int k)"
  using ex_bits_no_sep by (auto simp: ex_int_def ex_sep_def)

definition ex_codec :: jwt_codec where
  "ex_codec = \<lparr>jw_header = (\<lambda>a k. str_join [ex_sep] [a, k]),
     jw_read_header = (\<lambda>s. case split_char ex_sep s of [a, k] \<Rightarrow> Some (a, k) | _ \<Rightarrow> None),
     jw_claims = (\<lambda>c. str_join [ex_sep] [tc_issuer c, tc_audience c, tc_subject c, tc_id c, tc_session c,
       tc_operator c, tc_device c, tc_warehouse c, ex_int (tc_issued c), ex_int (tc_not_before c), ex_int (tc_expires c)]),
     jw_read_claims = (\<lambda>s. case split_char ex_sep s of
         [i, a, u, j, sid, oid, dev, wh, x, y, z] \<Rightarrow> Some \<lparr>tc_issuer = i, tc_audience = a, tc_subject = u, tc_id = j,
           tc_session = sid, tc_operator = oid, tc_device = dev, tc_warehouse = wh, tc_issued = ex_of_int x,
           tc_not_before = ex_of_int y, tc_expires = ex_of_int z\<rparr>
       | _ \<Rightarrow> None),
     jw_hmac = (\<lambda>k m. k), jw_rsa_sign = (\<lambda>k m. Inr m), jw_rsa_verify = (\<lambda>k m s. m = s), jw_sha256 = (\<lambda>s. s)\<rparr>"

lemma ascii_no_sep: "ascii s \<Longrightarrow> ex_sep \<notin> set s"
  by (auto simp: ascii_def list_all_iff ex_sep_def)

lemma ex_codec_laws: "codec_laws ex_codec"
proof -
  have h: "split_char ex_sep (str_join [ex_sep] [a, k]) = [a, k]" if "ascii a" "ascii k" for a k
    using that by (intro split_join) (auto dest: ascii_no_sep)
  have c: "split_char ex_sep (str_join [ex_sep] [tc_issuer c, tc_audience c, tc_subject c, tc_id c, tc_session c,
       tc_operator c, tc_device c, tc_warehouse c, ex_int (tc_issued c), ex_int (tc_not_before c), ex_int (tc_expires c)])
     = [tc_issuer c, tc_audience c, tc_subject c, tc_id c, tc_session c,
       tc_operator c, tc_device c, tc_warehouse c, ex_int (tc_issued c), ex_int (tc_not_before c), ex_int (tc_expires c)]"
    if "ascii_claims c" for c
    using that ex_int_no_sep by (intro split_join) (auto simp: ascii_claims_def dest: ascii_no_sep)
  show ?thesis unfolding codec_laws_def ex_codec_def jwt_codec.simps
    by (intro conjI allI impI) (simp_all only: h c list.case ex_of_int_int, simp_all)
qed

section \<open>A warehouse with one operator\<close>

definition ex_hour :: int where "ex_hour = 3600000000000"

definition ex_id :: id_params where
  "ex_id = \<lparr>id_config = \<lparr>sm_secret = ''k'', sm_issuer = ''i'', sm_audience = ''a'', sm_access_ttl = 2000000000,
       sm_refresh_ttl = 30 * 24 * ex_hour, sm_mode = '''', sm_key_id = '''', sm_private = '''', sm_public = (\<lambda>k. None), sm_codec = ex_codec\<rparr>,
     id_str = (\<lambda>n. replicate (Suc n) CHR ''u''), id_parse = (\<lambda>s. if s = '''' then None else Some (length s - 1)),
     id_random = (\<lambda>n. Inr (replicate n CHR ''r''))\<rparr>"

definition ex_operator :: operator_row where
  "ex_operator = \<lparr>ow_username = ''ann'', ow_employee = ''e'', ow_display = ''Ann'', ow_hash = ''h'', ow_status = ''ACTIVE'',
     ow_shift = '''', ow_failed = 0, ow_locked = None, ow_last_login = None, ow_updated = 0\<rparr>"

definition ex_base_time :: time where "ex_base_time = 62135596800000000000"

definition ex_id_world :: id_world where
  "ex_id_world = \<lparr>env_clock = (\<lambda>n. ex_base_time + int n), env_reads = 0, env_uuid = (\<lambda>n. n), env_ids = 0, env_log = \<lparr>el_events = []\<rparr>,
     env_fail_type = '''', w_db = \<lparr>it_operators = [(''o'', ex_operator)], it_roles = [(1, ''r'', True)], it_permissions = [(1, ''p'')],
       it_operator_roles = [(''o'', 1)], it_role_permissions = [(1, 1)], it_warehouses = [(''w'', ''n'')],
       it_operator_warehouses = [((''o'', ''w''), True)], it_devices = [], it_operator_devices = [], it_sessions = [],
       it_refresh = [], it_audit = []\<rparr>,
     w_fault = (\<lambda>n. NoFault), w_tick = 0, w_in_tx = False, w_aborted = False, w_sql_now = (\<lambda>n. 0)\<rparr>"

definition ex_tokens :: "id_world token_provider" where
  "ex_tokens = \<lparr>tp_issue = (\<lambda>p t. failP (TextError '''')), tp_validate = (\<lambda>s t. failP (TextError '''')),
     tp_revoke = (\<lambda>s. failP (TextError '''')), tp_sessions = None\<rparr>"

definition ex_ports :: "id_world id_ports" where
  "ex_ports = pg_identity ex_id ex_tokens (\<lambda>h pw. pw = ''pw'')"

definition ex_person :: operator where
  "ex_person = \<lparr>op_id = ''o'', op_employee = ''e'', op_username = ''ann'', op_display = ''Ann'', op_password = '''', op_hash = ''h'',
     op_roles = [''r''], op_permissions = [''p''], op_warehouses = [''w''], op_shift = '''', op_active = True\<rparr>"

definition ex_device_world :: id_world where
  "ex_device_world = snd (register_device ex_ports ex_person ''d'' ''w'' '''' ex_id_world)"

definition ex_login :: "(err + session \<times> operator) \<times> id_world" where
  "ex_login = login_session_context ex_ports ''Ann'' ''pw'' ''d'' ''w'' '''' ex_device_world"

definition ex_refreshed :: "(err + session \<times> operator) \<times> id_world" where
  "ex_refreshed = (case ex_login of (Inr (se, p), s1) \<Rightarrow> refresh_session_context ex_ports (se_refresh se) '''' s1
     | (Inl e, s1) \<Rightarrow> (Inl e, s1))"

lemma ex_refresh_runs: "case ex_login of
    (Inr (se, p), s1) \<Rightarrow> pg_keys s1 \<and> (case ex_refreshed of (Inr x, s2) \<Rightarrow>
        w_fault s2 n = NoFault \<and> \<not> w_aborted s2 \<and>
        (case find_refresh (token_hash ex_id (se_refresh se)) (w_db s2) of None \<Rightarrow> False
         | Some (i, r, sn, op) \<Rightarrow> ow_status op = ''ACTIVE'' \<and> rf_used r \<noteq> None)
      | _ \<Rightarrow> False)
  | _ \<Rightarrow> False"
  by code_simp

text \<open>The parts of the run.\<close>

definition ex_raw :: string where "ex_raw = se_refresh (fst (projr (fst ex_login)))"

lemma ex_parts: "\<exists>se p s1 x s2. ex_login = (Inr (se, p), s1) \<and> ex_refreshed = (Inr x, s2)"
proof -
  obtain q1 s1 q2 s2 where l: "ex_login = (q1, s1)" "ex_refreshed = (q2, s2)" by fastforce
  with ex_refresh_runs [of 0, unfolded l prod.case] show ?thesis by (cases q1; cases q2) auto
qed

lemma ex_run: "refresh_session_context ex_ports ex_raw '''' (snd ex_login) = (Inr (projr (fst ex_refreshed)), snd ex_refreshed)"
  and ex_keys: "pg_keys (snd ex_login)"
  and ex_healthy: "healthy (snd ex_refreshed)"
  and ex_found: "case find_refresh (token_hash ex_id ex_raw) (w_db (snd ex_refreshed)) of None \<Rightarrow> False
         | Some (i, r, sn, op) \<Rightarrow> ow_status op = ''ACTIVE'' \<and> rf_used r \<noteq> None"
proof -
  obtain se p s1 x s2 where l: "ex_login = (Inr (se, p), s1)" and r: "ex_refreshed = (Inr x, s2)"
    using ex_parts by blast
  note run = ex_refresh_runs [unfolded l r prod.case sum.case]
  show "refresh_session_context ex_ports ex_raw '''' (snd ex_login) = (Inr (projr (fst ex_refreshed)), snd ex_refreshed)"
    using r by (simp add: ex_refreshed_def l ex_raw_def)
  show "pg_keys (snd ex_login)" using run by (simp add: l)
  show "healthy (snd ex_refreshed)" using run by (simp add: r healthy_def)
  show "case find_refresh (token_hash ex_id ex_raw) (w_db (snd ex_refreshed)) of None \<Rightarrow> False
         | Some (i, r, sn, op) \<Rightarrow> ow_status op = ''ACTIVE'' \<and> rf_used r \<noteq> None"
    using run by (simp add: l r ex_raw_def)
qed

theorem refresh_token_exchanged_once_witness:
  "\<exists>e. fst (refresh_session_context ex_ports ex_raw ''d''
     (run_ids ex_ports [LogoutCall [] ''t'', AuthenticateCall ''a''] (snd ex_refreshed))) = Inl e"
  using refresh_token_exchanged_once [OF ex_keys ex_run [unfolded ex_ports_def], folded ex_ports_def] .

theorem replayed_token_ends_session_witness:
  "\<exists>s1. refresh_session_context ex_ports ex_raw [] (snd ex_refreshed) = (Inl AuthRefreshReused, s1)"
proof -
  obtain i r sn op where f: "find_refresh (token_hash ex_id ex_raw) (w_db (snd ex_refreshed)) = Some (i, r, sn, op)"
    and "ow_status op = ''ACTIVE''" "rf_used r \<noteq> None"
    using ex_found by (auto split: option.splits)
  then show ?thesis
    using replayed_token_ends_session [OF ex_healthy f, of ex_tokens "\<lambda>h pw. pw = ''pw''" "[]", folded ex_ports_def]
    by auto
qed

theorem five_failures_lock_witness:
  "fst (login_session_context ex_ports ''Ann'' ''pw'' ''d'' ''w'' ''''
     (run_ids ex_ports (attempts ''Ann'' ([''a'', ''b'', ''c'', ''d'', ''e''] @ [''pw''])) ex_id_world)) = Inl AuthAccountLocked"
proof -
  have "filter (same_username ''Ann'') (it_operators (w_db ex_id_world)) = [(''o'', ex_operator)]" by code_simp
  moreover have "\<not> isl (scan_roles (sorted_role_rows (w_db ex_id_world) ''o'') [] [])" by code_simp
  then have "\<exists>rp. scan_roles (sorted_role_rows (w_db ex_id_world) ''o'') [] [] = Inr rp"
    by (metis isl_def sum.exhaust_sel)
  moreover have "trim_space (ow_username ex_operator) = ow_username ex_operator" by code_simp
  ultimately have "account ''Ann'' ''o'' ex_operator ex_id_world"
    by (simp add: account_def healthy_def ex_id_world_def)
  from five_failures_lock [OF this, where wrong = "[''a'', ''b'', ''c'', ''d'', ''e'']" and later = "[''pw'']" and v = "\<lambda>h pw. pw = ''pw''"
      and X = ex_id and T = ex_tokens, folded ex_ports_def]
  show ?thesis by (simp add: ex_operator_def)
qed

section \<open>The access token of a new session\<close>

definition ex_created :: "(err + string \<times> string \<times> time \<times> time) \<times> id_world" where
  "ex_created = pg_create ex_id ex_person ''d'' ''w'' ex_base_time ex_device_world"

lemma ex_create_runs: "case ex_created of
    (Inr (a, r, e, re), s1) \<Rightarrow> e = ex_base_time + 2000000000 \<and> e \<le> re \<and> w_fault s1 n = NoFault \<and> \<not> w_aborted s1
  | (Inl e, s1) \<Rightarrow> False"
  by code_simp

lemma ex_ascii: "ascii_claims (session_claims ex_id (op_id ex_person) jti sid ''d'' ''w'' t e)"
  by (simp add: ascii_claims_def session_claims_def ex_id_def ex_person_def ascii_def list_all_iff)

lemma ex_key_pair: "key_pair (id_config ex_id)"
  by (simp add: key_pair_def ex_id_def ascii_def)

theorem access_token_round_trip_witness:
  "\<exists>a r e re s1. ex_created = (Inr (a, r, e, re), s1)
     \<and> (\<exists>c. fst (pg_authenticate ex_id a (ex_base_time + 1500000000) s1) = Inr c \<and> jc_operator c = ''o'' \<and> jc_device c = ''d'')
     \<and> fst (pg_authenticate ex_id a (ex_base_time + 2000000000) s1) = Inl ErrAccessTokenExpired"
proof -
  obtain q s1 where q: "ex_created = (q, s1)" by fastforce
  with ex_create_runs [of 0, unfolded q prod.case] obtain a r e re where c: "ex_created = (Inr (a, r, e, re), s1)"
    by (cases q) auto
  note run = ex_create_runs [unfolded c prod.case sum.case]
  have "codec_laws (sm_codec (id_config ex_id))" using ex_codec_laws by (simp add: ex_id_def)
  note rt = access_token_round_trip [OF c [unfolded ex_created_def] this ex_key_pair ex_ascii, of s1]
  have h: "healthy s1" using run by (simp add: healthy_def)
  have m: "e - e mod nanos = ex_base_time + 2000000000" using run by (simp add: ex_base_time_def nanos_def)
  have i: "id_str ex_id i \<noteq> [] \<and> id_parse ex_id (id_str ex_id i) = Some i" for i by (simp add: ex_id_def)
  have "e \<le> re" using run [of 0] by simp
  have p: "op_id ex_person = ''o''" "op_id ex_person \<noteq> []" by (simp_all add: ex_person_def)
  note at = rt [OF p(2) i h refl _ \<open>e \<le> re\<close>, unfolded m p(1)]
  have "\<exists>c. fst (pg_authenticate ex_id a (ex_base_time + 1500000000) s1) = Inr c \<and> jc_operator c = ''o'' \<and> jc_device c = ''d''"
    using at [of "ex_base_time + 1500000000"] by auto
  moreover have "fst (pg_authenticate ex_id a (ex_base_time + 2000000000) s1) = Inl ErrAccessTokenExpired"
    using at [of "ex_base_time + 2000000000"] by auto
  ultimately show ?thesis using c by blast
qed

end
