(* ===== verification/Gateway_Security.thy ===== *)
theory Gateway_Security
  imports Gateway_Properties Identity_Examples
begin

text \<open>
  Who gets past the gateway's guards, for a gateway whose identity service is the one on PostgreSQL:
  the world of the identity service stands next to whatever the other operations work on.
\<close>

section \<open>An identity service beside other state\<close>

definition on_first :: "('a, 'x) prog \<Rightarrow> ('a \<times> 'b, 'x) prog" where
  "on_first m = (\<lambda>(a, b). case m a of (r, a1) \<Rightarrow> (r, (a1, b)))"

definition first_sessions :: "'a session_manager \<Rightarrow> ('a \<times> 'b) session_manager" where
  "first_sessions M = \<lparr>sx_create = \<lambda>p d w t. on_first (sx_create M p d w t),
     sx_authenticate = \<lambda>x t. on_first (sx_authenticate M x t), sx_refresh = \<lambda>x d t. on_first (sx_refresh M x d t),
     sx_logout = \<lambda>x t. on_first (sx_logout M x t), sx_revoke_refresh = \<lambda>x t. on_first (sx_revoke_refresh M x t)\<rparr>"

definition first_protector :: "'a login_protector \<Rightarrow> ('a \<times> 'b) login_protector" where
  "first_protector L = \<lparr>lp_check = \<lambda>u t. on_first (lp_check L u t), lp_failure = \<lambda>u t. on_first (lp_failure L u t),
     lp_success = \<lambda>u t. on_first (lp_success L u t)\<rparr>"

definition first_refresh :: "'a refresh_provider \<Rightarrow> ('a \<times> 'b) refresh_provider" where
  "first_refresh X = \<lparr>rp_issue = \<lambda>p t. on_first (rp_issue X p t), rp_validate = \<lambda>x t. on_first (rp_validate X x t)\<rparr>"

definition first_tokens :: "'a token_provider \<Rightarrow> ('a \<times> 'b) token_provider" where
  "first_tokens T = \<lparr>tp_issue = \<lambda>p t. on_first (tp_issue T p t), tp_validate = \<lambda>x t. on_first (tp_validate T x t),
     tp_revoke = \<lambda>x. on_first (tp_revoke T x), tp_sessions = map_option first_refresh (tp_sessions T)\<rparr>"

definition first_identity :: "'a id_ports \<Rightarrow> ('a \<times> 'b) id_ports" where
  "first_identity P = \<lparr>ix_by_username = \<lambda>u. on_first (ix_by_username P u), ix_by_id = \<lambda>i. on_first (ix_by_id P i),
     ix_warehouses = \<lambda>ids. on_first (ix_warehouses P ids), ix_tokens = first_tokens (ix_tokens P),
     ix_register = \<lambda>r. on_first (ix_register P r), ix_is_registered = \<lambda>r. on_first (ix_is_registered P r),
     ix_audit = \<lambda>r. on_first (ix_audit P r), ix_verify = ix_verify P,
     ix_sessions = map_option first_sessions (ix_sessions P), ix_protector = map_option first_protector (ix_protector P),
     ix_now = on_first (ix_now P)\<rparr>"

lemma on_first_run: "on_first m s = (fst (m (fst s)), (snd (m (fst s)), snd s))"
  by (simp add: on_first_def split_def)

lemma on_first_bindP: "on_first (bindP m f) = bindP (on_first m) (\<lambda>x. on_first (f x))"
  by (rule ext) (simp add: on_first_def bindP_def split: prod.split sum.split)

lemma on_first_pure: "on_first (returnP x) = returnP x" "on_first (failP e) = failP e" "on_first (checkP b e) = checkP b e"
  by (rule ext, simp add: on_first_run checkP_run)+

lemma on_first_mapped: "on_first (mapped f m) = mapped f (on_first m)"
  by (rule ext) (simp add: on_first_run mapped_run)

lemma on_first_tryP: "on_first (tryP m) = tryP (on_first m)"
  by (rule ext) (simp add: on_first_def tryP_def split: prod.split)

lemma on_first_cases:
  "on_first (case r of Inl e \<Rightarrow> f e | Inr x \<Rightarrow> k x) = (case r of Inl e \<Rightarrow> on_first (f e) | Inr x \<Rightarrow> on_first (k x))"
  "on_first (case v of None \<Rightarrow> m | Some y \<Rightarrow> h y) = (case v of None \<Rightarrow> on_first m | Some y \<Rightarrow> on_first (h y))"
  "on_first (if b then m else n) = (if b then on_first m else on_first n)"
  by (simp_all split: sum.split option.split)

lemmas on_first_simps = on_first_bindP on_first_pure on_first_mapped on_first_tryP on_first_cases

lemma first_identity_sel [simp]:
  "ix_now (first_identity P) = on_first (ix_now P)" "ix_by_id (first_identity P) = (\<lambda>i. on_first (ix_by_id P i))"
  "ix_sessions (first_identity P) = map_option first_sessions (ix_sessions P)"
  "ix_is_registered (first_identity P) = (\<lambda>r. on_first (ix_is_registered P r))"
  "sx_authenticate (first_sessions M) = (\<lambda>x t. on_first (sx_authenticate M x t))"
  by (simp_all add: first_identity_def first_sessions_def)

lemma first_active_operator:
  "active_operator (first_identity P) = (\<lambda>i. on_first (active_operator P i))"
  unfolding active_operator_def first_identity_sel on_first_simps ..

lemma first_authenticate:
  "authenticate_token (first_identity (pg_identity X T v)) token = on_first (authenticate_token (pg_identity X T v) token)"
  unfolding authenticate_token_def by (simp add: on_first_simps first_active_operator)

section \<open>What a session proves\<close>

text \<open>The token is one the session manager signed and has not expired, its session is alive in the
  database, and the operator it names is active; \<open>p\<close> is that operator.\<close>

definition live_session :: "id_params \<Rightarrow> identity_tables \<Rightarrow> string \<Rightarrow> time \<Rightarrow> operator \<Rightarrow> bool" where
  "live_session X d token t p \<longleftrightarrow> (case parse_token (id_config X) token t of
     Inl e \<Rightarrow> False
   | Inr c \<Rightarrow> op_id p = tc_operator c
       \<and> (case session_of X (tc_session c) d of None \<Rightarrow> False | Some sn \<Rightarrow> session_live t sn)
       \<and> (case map_of (it_operators d) (tc_operator c) of None \<Rightarrow> False | Some r \<Rightarrow> ow_status r = ''ACTIVE'')
       \<and> op_warehouses p = active_warehouses d (tc_operator c))"

lemma find_key: "find (\<lambda>kr. fst kr = k) xs = Some (k', v) \<Longrightarrow> k' = k \<and> map_of xs k = Some v"
  by (induction xs) (auto split: if_splits)

lemma pg_by_id_some:
  assumes "pg_by_id i w = (Inr (Some p), w')"
  shows "op_id p = i" and "op_warehouses p = active_warehouses (w_db w) i" and "w_db w' = w_db w"
    and "\<exists>r. map_of (it_operators (w_db w)) i = Some r \<and> op_active p = (ow_status r = ''ACTIVE'')"
proof -
  from assms obtain row w1 where q1: "query (\<lambda>_ d. find (\<lambda>kr. fst kr = i) (it_operators d)) w = (Inr row, w1)"
    and k: "(case row of None \<Rightarrow> returnP None | Some (i, r) \<Rightarrow>
         bindP (query (\<lambda>now d. active_warehouses d i)) (\<lambda>whs.
         bindP (query (\<lambda>now d. sorted_role_rows d i)) (\<lambda>rows.
         bindP (liftE (scan_roles rows [] [])) (\<lambda>(roles, perms).
         returnP (Some \<lparr>op_id = i, op_employee = ow_employee r, op_username = ow_username r,
           op_display = ow_display r, op_password = [], op_hash = ow_hash r, op_roles = roles,
           op_permissions = perms, op_warehouses = whs, op_shift = ow_shift r,
           op_active = (ow_status r = ''ACTIVE'')\<rparr>))))) w1 = (Inr (Some p), w')"
    unfolding pg_by_id_def find_operator_def by (auto simp: bindP_Inr_iff)
  from q1 obtain "row = find (\<lambda>kr. fst kr = i) (it_operators (w_db w))" and d1: "w_db w1 = w_db w"
    by (rule query_Inr) auto
  moreover from k obtain j r where row: "row = Some (j, r)" by (cases row) auto
  ultimately have f: "j = i" "map_of (it_operators (w_db w)) i = Some r" using find_key by metis+
  from k row obtain whs w2 rows w3 rp where q2: "query (\<lambda>now d. active_warehouses d j) w1 = (Inr whs, w2)"
    and q3: "query (\<lambda>now d. sorted_role_rows d j) w2 = (Inr rows, w3)"
    and p: "op_id p = j" "op_warehouses p = whs" "op_active p = (ow_status r = ''ACTIVE'')" "w' = w3"
    by (auto simp: bindP_Inr_iff liftE_Inr_iff)
  from q2 obtain "whs = active_warehouses (w_db w1) j" "w_db w2 = w_db w1" by (rule query_Inr) auto
  with p d1 f query_db [OF q3] show "op_id p = i" "op_warehouses p = active_warehouses (w_db w) i" "w_db w' = w_db w"
      "\<exists>r. map_of (it_operators (w_db w)) i = Some r \<and> op_active p = (ow_status r = ''ACTIVE'')"
    by auto
qed

lemma frame_find_operator: "frame w_db (find_operator match)"
  unfolding find_operator_def
  by (rule frame_bindP, rule frameI, erule query_db)
    (auto split: option.split intro!: frame_intros intro: frameI query_db)

lemma frame_query_db: "frame w_db (query f)"
  by (rule frameI) (rule query_db)

lemma frame_clock_db: "frame w_db clock_now"
  by (simp add: frame_def clock_now_def)

lemma frame_authenticate: "frame w_db (authenticate_token (pg_identity X T v) token)"
  unfolding authenticate_token_def pg_identity_sel option.case active_operator_def pg_sessions_sel pg_authenticate_def pg_by_id_def
  by (intro frame_bindP frame_clock_db frame_mapped frame_tryP frame_find_operator frame_liftE frame_query_db)
    (auto split: sum.split option.split intro!: frame_intros)

lemma active_operator_Inr:
  assumes "active_operator P i w = (Inr p, w')"
  shows "ix_by_id P i w = (Inr (Some p), w')" and "op_active p"
proof -
  from assms obtain r where "ix_by_id P i w = (r, w')" "r = Inr (Some p) \<and> op_active p"
    by (cases "fst (ix_by_id P i w)"; cases "projr (fst (ix_by_id P i w))")
      (auto simp: active_operator_def bindP_def tryP_def split: prod.splits sum.splits option.splits if_splits)
  then show "ix_by_id P i w = (Inr (Some p), w')" "op_active p" by simp_all
qed

lemma authenticate_live:
  assumes "authenticate_token (pg_identity X T v) token w = (Inr p, w')"
  shows "live_session X (w_db w) token (env_clock w (env_reads w)) p"
proof -
  let ?t = "env_clock w (env_reads w)"
  from assms obtain w1 jc w2 where c: "clock_now w = (Inr ?t, w1)" "pg_authenticate X token ?t w1 = (Inr jc, w2)"
    and a: "active_operator (pg_identity X T v) (jc_operator jc) w2 = (Inr p, w')"
    by (auto simp: authenticate_token_def bindP_Inr_iff mapped_Inr clock_now_Inr)
  have d1: "w_db w1 = w_db w" using c(1) by (simp add: clock_now_def) (auto)
  from c(2) obtain cl w3 row where cl: "parse_token (id_config X) token ?t = Inr cl" "jc_operator jc = tc_operator cl"
    and q: "query (\<lambda>_ d. session_of X (tc_session cl) d) w1 = (Inr row, w3)" and r: "w2 = w3"
    and sn: "case row of None \<Rightarrow> False | Some sn \<Rightarrow> session_live ?t sn"
    by (auto simp: pg_authenticate_def bindP_Inr_iff liftE_Inr_iff mapped_Inr checkP_Inr_iff split: option.splits)
  from q obtain "row = session_of X (tc_session cl) (w_db w1)" "w_db w3 = w_db w1" by (rule query_Inr) auto
  note ses = sn [unfolded this(1) d1] and d3 = this(2) [unfolded d1]
  note act = active_operator_Inr(2) [OF a]
  have o: "pg_by_id (tc_operator cl) w3 = (Inr (Some p), w')"
    using active_operator_Inr(1) [OF a] by (simp add: r cl(2))
  note o = pg_by_id_some [OF o, unfolded d3]
  show ?thesis using cl ses o act by (auto simp: live_session_def)
qed

section \<open>Who gets past the guards\<close>

definition health_patterns :: "string list" where
  "health_patterns = [''/healthz'', ''/livez'', ''/readyz'']"

definition login_patterns :: "string list" where
  "login_patterns = [''/api/pda/v1/auth/login'', ''/api/pda/v1/auth/refresh'']"

definition personal_patterns :: "string list" where
  "personal_patterns = [''/api/pda/v1/auth/logout'', ''/api/pda/v1/me'', ''/api/pda/v1/me/warehouses'',
     ''/api/pda/v1/devices/registrations'']"

definition guard_fits :: "'s route \<Rightarrow> bool" where
  "guard_fits rt \<longleftrightarrow> rt_guard rt =
     (if rt_pattern rt \<in> set health_patterns then Open
      else if rt_pattern rt \<in> set login_patterns then Limited
      else if rt_pattern rt \<in> set personal_patterns then Session else Context)"

lemma routes_guarded: "list_all guard_fits (routes R)"
  by (simp add: routes_def api_routes_def entry_routes_def task_routes_def receiving_routes_def putaway_routes_def
      picking_routes_def replenishment_routes_def inventory_routes_def shipping_routes_def stream_route_def
      wms_routes_def route_def guard_fits_def health_patterns_def login_patterns_def personal_patterns_def
      split: option.split)

text \<open>The caller's headers name nobody else, and, where the route works in a warehouse, a warehouse the
  operator is assigned to and a device that is registered for both.\<close>

definition headers_fit :: "bool \<Rightarrow> identity_tables \<Rightarrow> request \<Rightarrow> operator \<Rightarrow> bool" where
  "headers_fit in_warehouse d q p \<longleftrightarrow> has_prefix (rq_header q ''Authorization'') ''Bearer ''
     \<and> \<not> other_than (trim_space (rq_header q ''X-Operator-Id'')) (op_id p)
     \<and> (in_warehouse \<longrightarrow> rq_header q ''X-Device-Id'' \<noteq> ''''
        \<and> rq_header q ''X-Warehouse-Id'' \<in> set (active_warehouses d (op_id p))
        \<and> device_registered d \<lparr>dr_device = rq_header q ''X-Device-Id'', dr_operator = op_id p,
             dr_warehouse = rq_header q ''X-Warehouse-Id''\<rparr>)"

definition seen_state :: "id_world \<times> 'w \<Rightarrow> identity_tables \<times> 'w" where
  "seen_state s = (w_db (fst s), snd s)"

lemma frame_on_first: "frame w_db m \<Longrightarrow> frame seen_state (on_first m)"
  by (simp add: frame_def seen_state_def on_first_run)

lemma frame_guards:
  fixes R :: "(id_world \<times> 'w) router"
  assumes "gx_identity R = first_identity (pg_identity X T v)"
  shows "frame seen_state (authenticate_request R q)" and "frame seen_state (device_warehouse_context R q)"
proof -
  show "frame seen_state (authenticate_request R q)"
    unfolding authenticate_request_def assms first_authenticate Let_def
    by (intro frame_bindP frame_checkP frame_on_first frame_authenticate frame_returnP)
  show "frame seen_state (device_warehouse_context R q)"
    unfolding device_warehouse_context_def validate_context_def assms first_identity_sel pg_identity_sel
      pg_is_registered_def Let_def
    by (intro frame_bindP frame_checkP frame_on_first frame_query_db)
qed

lemma authenticate_request_ok:
  fixes R :: "(id_world \<times> 'w) router"
  assumes "gx_identity R = first_identity (pg_identity X T v)" and "authenticate_request R q s = (Inr q1, s1)"
  obtains p where "q1 = q\<lparr>rq_operator := p\<rparr>" and "headers_fit False d q p"
    and "live_session X (w_db (fst s)) (bearer (rq_header q ''Authorization'')) (env_clock (fst s) (env_reads (fst s))) p"
proof -
  from assms obtain p s2 where a: "on_first (authenticate_token (pg_identity X T v) (bearer (rq_header q ''Authorization''))) s = (Inr p, s2)"
    and h: "has_prefix (rq_header q ''Authorization'') ''Bearer ''"
      "\<not> other_than (trim_space (rq_header q ''X-Operator-Id'')) (op_id p)" and q1: "q1 = q\<lparr>rq_operator := p\<rparr>"
    by (auto simp: authenticate_request_def Let_def bindP_Inr_iff checkP_Inr_iff first_authenticate)
  from a have "authenticate_token (pg_identity X T v) (bearer (rq_header q ''Authorization'')) (fst s) = (Inr p, fst s2)"
    by (simp add: on_first_run prod_eq_iff)
  from authenticate_live [OF this] h q1 show thesis by (intro that [of p]) (simp_all add: headers_fit_def)
qed

lemma device_context_ok:
  fixes R :: "(id_world \<times> 'w) router"
  assumes "gx_identity R = first_identity (pg_identity X T v)" and "device_warehouse_context R q s = (Inr u, s1)"
  shows "rq_header q ''X-Device-Id'' \<noteq> [] \<and> rq_header q ''X-Warehouse-Id'' \<in> set (op_warehouses (rq_operator q))
    \<and> device_registered (w_db (fst s)) \<lparr>dr_device = rq_header q ''X-Device-Id'', dr_operator = op_id (rq_operator q),
         dr_warehouse = rq_header q ''X-Warehouse-Id''\<rparr>"
proof -
  from assms(2) obtain s2 where f: "on_first (query (\<lambda>now d. device_registered d \<lparr>dr_device = rq_header q ''X-Device-Id'',
        dr_operator = op_id (rq_operator q), dr_warehouse = rq_header q ''X-Warehouse-Id''\<rparr>)) s = (Inr True, s2)"
    and h: "rq_header q ''X-Device-Id'' \<noteq> []" "can_access_warehouse (rq_operator q) (rq_header q ''X-Warehouse-Id'')"
    by (auto simp: device_warehouse_context_def validate_context_def assms(1) Let_def bindP_Inr_iff checkP_Inr_iff
        pg_is_registered_def)
  from f have "query (\<lambda>now d. device_registered d \<lparr>dr_device = rq_header q ''X-Device-Id'',
        dr_operator = op_id (rq_operator q), dr_warehouse = rq_header q ''X-Warehouse-Id''\<rparr>) (fst s) = (Inr True, fst s2)"
    by (simp add: on_first_run prod_eq_iff)
  then have "device_registered (w_db (fst s)) \<lparr>dr_device = rq_header q ''X-Device-Id'', dr_operator = op_id (rq_operator q),
      dr_warehouse = rq_header q ''X-Warehouse-Id''\<rparr>"
    by (elim query_Inr) simp
  with h show ?thesis by (simp add: can_access_warehouse_def)
qed

text \<open>A program before the handler fails, or the handler runs from a state that looks the same.\<close>

lemma respond_bindP:
  assumes "frame f m" and "\<And>s. f (snd (gx_wall R s)) = f s" and "respond R q (bindP m k) s = (r, s')"
  shows "400 \<le> hp_status r \<and> f s' = f s
    \<or> (\<exists>x s1. m s = (Inr x, s1) \<and> f s1 = f s \<and> respond R q (k x) s1 = (r, s'))"
proof (cases "m s")
  case (Pair y s1)
  with assms(1) have f: "f s1 = f s" by (rule frameD)
  show ?thesis
  proof (cases y)
    case (Inl e)
    have "hp_status (write_error e c t) \<ge> 400" for c t
      using error_status_known [of "fst (domain_error e)"] by (auto simp: write_error_def split_def)
    moreover have "f (snd (gx_wall R s1)) = f s" by (simp add: assms(2) f)
    ultimately show ?thesis
      using assms(3) by (auto simp: respond_def bindP_def Pair Inl split_def)
  next
    case (Inr x)
    with f Pair assms(3) show ?thesis by (auto simp: respond_def bindP_def)
  qed
qed

text \<open>C23: on every route but the health checks, login and refresh, a request is refused and changes nothing,
  or it carries a bearer token that the session manager signed and that has not expired, of a session
  that is alive in the database, for an operator who is active there, and its headers name that
  operator or none; outside the personal routes also a device that is registered for the operator
  and a warehouse that is assigned to them. Then the handler runs for this operator, from what was
  there before.\<close>

theorem protected_routes_need_a_live_session:
  fixes R :: "(id_world \<times> 'w) router"
  assumes "rt \<in> set (routes R)" and "rt_pattern rt \<notin> set (health_patterns @ login_patterns)"
    and "gx_identity R = first_identity (pg_identity X T v)"
    and "\<And>s. seen_state (snd (gx_wall R s)) = seen_state s"
    and "run_route R rt q g = (r, g')"
  shows "400 \<le> hp_status r \<and> seen_state (gt_inner g') = seen_state (gt_inner g)
    \<or> (\<exists>p s1. live_session X (w_db (fst (gt_inner g))) (bearer (rq_header q ''Authorization''))
          (env_clock (fst (gt_inner g)) (env_reads (fst (gt_inner g)))) p
        \<and> headers_fit (rt_pattern rt \<notin> set personal_patterns) (w_db (fst (gt_inner g))) q p
        \<and> seen_state s1 = seen_state (gt_inner g)
        \<and> respond R q (rt_handler rt R (q\<lparr>rq_operator := p\<rparr>)) s1 = (r, gt_inner g'))"
proof -
  let ?s = "gt_inner g"
  note wall = assms(4)
  have fits: "rt_guard rt = (if rt_pattern rt \<in> set personal_patterns then Session else Context)"
    using routes_guarded [of R] assms(1,2) by (auto simp: list_all_iff guard_fits_def)
  then have run: "respond R q (guarded_handler rt R q) ?s = (r, gt_inner g')"
    using assms(5) by (auto simp: run_route_def split: prod.splits if_splits)
  define k where "k q1 = (if rt_guard rt = Session then rt_handler rt R q1
      else bindP (device_warehouse_context R q1) (\<lambda>_. rt_handler rt R q1))" for q1
  have "k = (if rt_guard rt = Session then rt_handler rt R
      else (\<lambda>q1. bindP (device_warehouse_context R q1) (\<lambda>_. rt_handler rt R q1)))"
    by (rule ext) (simp add: k_def)
  with fits have "guarded_handler rt R q = bindP (authenticate_request R q) k"
    by (simp add: guarded_handler_def)
  note one = respond_bindP [OF frame_guards(1) [OF assms(3)] wall, OF run [unfolded this]]
  show ?thesis
  proof (cases "400 \<le> hp_status r \<and> seen_state (gt_inner g') = seen_state ?s")
    case False
    with one obtain q1 s1 where a: "authenticate_request R q ?s = (Inr q1, s1)" and s1: "seen_state s1 = seen_state ?s"
      and h: "respond R q (k q1) s1 = (r, gt_inner g')" by blast
    from authenticate_request_ok [OF assms(3) a, of "w_db (fst ?s)"] obtain p where p: "q1 = q\<lparr>rq_operator := p\<rparr>"
      "headers_fit False (w_db (fst ?s)) q p"
      and l: "live_session X (w_db (fst ?s)) (bearer (rq_header q ''Authorization'')) (env_clock (fst ?s) (env_reads (fst ?s))) p"
      by metis
    have d: "w_db (fst s1) = w_db (fst ?s)" using s1 by (simp add: seen_state_def)
    show ?thesis
    proof (cases "rt_guard rt = Session")
      case True
      with fits have "rt_pattern rt \<in> set personal_patterns" by (auto split: if_splits)
      with True p l h s1 show ?thesis by (intro disjI2 exI [of _ p] exI [of _ s1]) (simp add: k_def)
    next
      case ctx: False
      have "respond R q (bindP (device_warehouse_context R q1) (\<lambda>_. rt_handler rt R q1)) s1 = (r, gt_inner g')"
        using h ctx by (simp add: k_def)
      from respond_bindP [OF frame_guards(2) [OF assms(3)] wall, OF this] False s1
      obtain u s2 where c: "device_warehouse_context R q1 s1 = (Inr u, s2)" "seen_state s2 = seen_state ?s"
        "respond R q (rt_handler rt R q1) s2 = (r, gt_inner g')" by auto
      from device_context_ok [OF assms(3) c(1)] l p d
      have "headers_fit True (w_db (fst ?s)) q p"
        by (auto simp: headers_fit_def live_session_def split: sum.splits)
      moreover have "rt_pattern rt \<notin> set personal_patterns" using ctx fits by (auto split: if_splits)
      ultimately show ?thesis using l c p(1) by (intro disjI2 exI [of _ p] exI [of _ s2]) simp
    qed
  qed simp
qed

end
