(* ===== verification/Gateway_Examples.thy ===== *)
theory Gateway_Examples
  imports Gateway_Security
begin

text \<open>
  A gateway in front of the identity service of \<open>Identity_Examples\<close>, with operations that only answer
  the dashboard, and the requests the witnesses of the gateway properties evaluate.
\<close>

section \<open>A gateway\<close>

definition ex_refuse :: "('s, 'a) prog" where
  "ex_refuse = failP (TextError ''unavailable'')"

definition ex_task_ops :: "'s task_ops" where
  "ex_task_ops = \<lparr>to_status = \<lambda>_ _. ex_refuse, to_list = \<lambda>_ _. ex_refuse, to_detail = \<lambda>_ _. ex_refuse,
     to_summary = \<lambda>_ _ _. ex_refuse, to_dashboard = \<lambda>_. returnP zero_dashboard, to_claim = \<lambda>_. ex_refuse,
     to_release = \<lambda>_. ex_refuse\<rparr>"

definition ex_receiving_ops :: "'s receiving_ops" where
  "ex_receiving_ops = \<lparr>ro_list = \<lambda>_ _. ex_refuse, ro_detail = \<lambda>_ _. ex_refuse, ro_claim = \<lambda>_. ex_refuse,
     ro_resolve = \<lambda>_ _ _. ex_refuse, ro_start = \<lambda>_. ex_refuse, ro_confirm = \<lambda>_. ex_refuse, ro_complete = \<lambda>_. ex_refuse,
     ro_status = \<lambda>_ _. ex_refuse, ro_symbology = None, ro_context = None, ro_batch = None\<rparr>"

definition ex_putaway_ops :: "'s putaway_ops" where
  "ex_putaway_ops = \<lparr>pa_list = \<lambda>_. ex_refuse, pa_detail = \<lambda>_ _. ex_refuse, pa_claim = \<lambda>_. ex_refuse,
     pa_start = \<lambda>_. ex_refuse, pa_suggestions = \<lambda>_ _. ex_refuse, pa_source = \<lambda>_ _. ex_refuse, pa_lpn = \<lambda>_ _. ex_refuse,
     pa_item = \<lambda>_ _. ex_refuse, pa_lot = \<lambda>_ _. ex_refuse, pa_destination = \<lambda>_ _. ex_refuse, pa_confirm = \<lambda>_ _. ex_refuse,
     pa_group = \<lambda>_. ex_refuse\<rparr>"

definition ex_picking_ops :: "'s picking_ops" where
  "ex_picking_ops = \<lparr>pi_list = \<lambda>_. ex_refuse, pi_detail = \<lambda>_ _. ex_refuse, pi_claim = \<lambda>_. ex_refuse,
     pi_start = \<lambda>_. ex_refuse, pi_allocate = \<lambda>_. ex_refuse, pi_location = \<lambda>_ _. ex_refuse, pi_barcode = \<lambda>_ _. ex_refuse,
     pi_lot = \<lambda>_ _. ex_refuse, pi_destination = \<lambda>_ _. ex_refuse, pi_confirm = \<lambda>_ _. ex_refuse, pi_complete = \<lambda>_. ex_refuse\<rparr>"

definition ex_replenishment_ops :: "'s replenishment_ops" where
  "ex_replenishment_ops = \<lparr>rn_list = \<lambda>_. ex_refuse, rn_detail = \<lambda>_ _. ex_refuse, rn_source = \<lambda>_ _. ex_refuse,
     rn_destination = \<lambda>_ _. ex_refuse, rn_item = \<lambda>_ _. ex_refuse, rn_confirm = \<lambda>_ _. ex_refuse\<rparr>"

definition ex_inventory_ops :: "'s inventory_ops" where
  "ex_inventory_ops = \<lparr>io_search = \<lambda>_ _. ex_refuse, io_balances = \<lambda>_ _ _. ex_refuse, io_movements = \<lambda>_ _ _. ex_refuse,
     io_validate = \<lambda>_. ex_refuse, io_transfer = \<lambda>_. ex_refuse, io_status = \<lambda>_ _. ex_refuse, io_counts = \<lambda>_. ex_refuse,
     io_count = \<lambda>_ _. ex_refuse, io_location = \<lambda>_ _ _. ex_refuse, io_item = \<lambda>_ _ _ _. ex_refuse,
     io_submit = \<lambda>_ _ _ _. ex_refuse, io_recount = \<lambda>_ _ _. ex_refuse, io_complete = \<lambda>_ _. ex_refuse,
     io_count_status = \<lambda>_ _. ex_refuse\<rparr>"

definition ex_shipping_ops :: "'s shipping_ops" where
  "ex_shipping_ops = \<lparr>so_summary = \<lambda>_ _. ex_refuse, so_readiness = \<lambda>_ _. ex_refuse, so_verify = \<lambda>_. ex_refuse,
     so_confirm = \<lambda>_. ex_refuse, so_status = \<lambda>_ _. ex_refuse\<rparr>"

definition ex_parsers :: parsers where
  "ex_parsers = \<lparr>px_uuid = \<lambda>s. if s = ''u'' then Some 1 else None, px_time = \<lambda>_. None, px_time_text = \<lambda>_. None\<rparr>"

definition ex_router :: "(id_world \<times> unit) router" where
  "ex_router = \<lparr>gx_identity = first_identity (pg_identity ex_id ex_tokens (\<lambda>h pw. pw = ''pw'')), gx_tasks = ex_task_ops,
     gx_receiving = ex_receiving_ops, gx_putaway = ex_putaway_ops, gx_picking = ex_picking_ops,
     gx_replenishment = ex_replenishment_ops, gx_movement_status = \<lambda>_ _. ex_refuse, gx_inventory = ex_inventory_ops,
     gx_shipping = ex_shipping_ops, gx_trace = None, gx_ack = None, gx_events = \<lambda>_. ex_refuse, gx_wms = None,
     gx_settings = \<lparr>gs_timeout = 1, gs_rate_limit = 1, gs_window = 1, gs_threshold = 1\<rparr>,
     gx_now = \<lambda>s. (1, s), gx_wall = \<lambda>s. (1, s), gx_new_uuid = \<lambda>s. (1, s), gx_uuid_string = \<lambda>_. ''u'', gx_parsers = ex_parsers,
     gx_base = '''', gx_get = \<lambda>_. ex_refuse, gx_range = \<lambda>xs. xs, gx_other = JNull\<rparr>"

definition ex_dashboard_path :: string where "ex_dashboard_path = ''/api/pda/v1/dashboard''"

text \<open>A matcher that knows one path.\<close>

definition ex_match :: matcher where
  "ex_match m p = (if p = ex_dashboard_path then Inr (''GET'', ex_dashboard_path, \<lambda>_. '''') else Inl no_content)"

definition ex_request :: "string \<Rightarrow> request" where
  "ex_request token = \<lparr>rq_header = (\<lambda>h. if h = ''Authorization'' then ''Bearer '' @ token else if h = ''X-Device-Id'' then ''d''
       else if h = ''X-Warehouse-Id'' then ''w'' else if h = ''X-Correlation-Id'' then ''u'' else ''''),
     rq_query = \<lambda>_. '''', rq_param = \<lambda>_. '''', rq_remote = '''', rq_body = RawEmpty, rq_length = 0,
     rq_operator = ex_person, rq_correlation = '''', rq_locale = ''''\<rparr>"

section \<open>Witnesses\<close>

definition ex_gateway :: "id_world \<Rightarrow> (id_world \<times> unit) gateway_state" where
  "ex_gateway w = new_gateway (gx_settings ex_router) (w, ())"

text \<open>A request without a token is refused with an envelope of one error, in time; when it is late, the
  fixed answer comes instead.\<close>

theorem every_answer_is_an_envelope_witness:
  "is_envelope ''u'' (fst (serve ex_router False ex_match ''GET'' ex_dashboard_path (ex_request '''') (ex_gateway ex_id_world)))
   \<and> fst (serve ex_router True ex_match ''GET'' ex_dashboard_path (ex_request '''') (ex_gateway ex_id_world)) = timeout_answer"
proof -
  let ?S = "\<lambda>late. serve ex_router late ex_match ''GET'' ex_dashboard_path (ex_request '''') (ex_gateway ex_id_world)"
  have m: "ex_match ''GET'' ex_dashboard_path = Inr (''GET'', ex_dashboard_path, \<lambda>_. '''')" by (simp add: ex_match_def)
  have k: "(''GET'', ex_dashboard_path) \<in> set (map route_key (api_routes :: (id_world \<times> unit) route list))"
    by (simp add: api_routes_def task_routes_def route_key_def route_def ex_dashboard_path_def)
  have "px_uuid (gx_parsers ex_router) (rq_header (ex_request '''') ''X-Correlation-Id'') = Some 1"
    "rq_header (ex_request '''') ''X-Correlation-Id'' = ''u''" "\<not> streaming ex_dashboard_path" by code_simp+
  note q = this
  obtain r g1 where r: "?S False = (r, g1)" by fastforce
  obtain t g2 where t: "?S True = (t, g2)" by fastforce
  have e: "is_envelope (response_header r ''X-Correlation-Id'') r \<and> response_header r ''X-Correlation-Id'' = ''u''"
    using every_answer_is_an_envelope [OF r m k] q by auto
  have "is_envelope ''u'' r" by (rule conjunct1 [OF e, unfolded conjunct2 [OF e]])
  moreover have "t = timeout_answer" using every_answer_is_an_envelope [OF t m k] q(3) by simp
  ultimately show ?thesis unfolding r t fst_conv by blast
qed

text \<open>The operator who just logged in sees the dashboard.\<close>

definition ex_bearer :: string where "ex_bearer = se_access (fst (projr (fst ex_login)))"

definition ex_dashboard :: "response \<times> (id_world \<times> unit) gateway_state" where
  "ex_dashboard = run_route ex_router (route ''GET'' ex_dashboard_path Context handle_dashboard) (ex_request ex_bearer)
     (ex_gateway (snd ex_login))"

lemma ex_dashboard_status: "hp_status (fst ex_dashboard) = 200"
  by code_simp

theorem protected_routes_need_a_live_session_witness:
  "\<exists>p. live_session ex_id (w_db (snd ex_login)) (bearer (''Bearer '' @ ex_bearer))
     (env_clock (snd ex_login) (env_reads (snd ex_login))) p \<and> headers_fit True (w_db (snd ex_login)) (ex_request ex_bearer) p"
proof -
  let ?rt = "route ''GET'' ex_dashboard_path Context handle_dashboard :: (id_world \<times> unit) route"
  have i: "gx_identity ex_router = first_identity (pg_identity ex_id ex_tokens (\<lambda>h pw. pw = ''pw''))"
    by (simp add: ex_router_def)
  have wall: "seen_state (snd (gx_wall ex_router s)) = seen_state s" for s by (simp add: ex_router_def)
  have rt: "?rt \<in> set (routes ex_router)"
    by (simp add: routes_def api_routes_def task_routes_def ex_dashboard_path_def)
  have p: "rt_pattern ?rt \<notin> set (health_patterns @ login_patterns)" "rt_pattern ?rt \<notin> set personal_patterns" by code_simp+
  obtain r g' where r: "run_route ex_router ?rt (ex_request ex_bearer) (ex_gateway (snd ex_login)) = (r, g')" by fastforce
  have "hp_status r = 200" using ex_dashboard_status r by (simp add: ex_dashboard_def)
  moreover have "rq_header (ex_request ex_bearer) ''Authorization'' = ''Bearer '' @ ex_bearer" by (simp add: ex_request_def)
  ultimately show ?thesis
    using protected_routes_need_a_live_session [OF rt p(1) i wall r] p(2)
    by (auto simp: ex_gateway_def new_gateway_def)
qed

end
