(* ===== verification/Wms_Database.thy ===== *)
theory Wms_Database
  imports Gateway_Routes Pg_Common
begin

text \<open>
  The tables of the tasks that WMS dispatches over Kafka, \<open>migrations/execution/000006\<close> and
  \<open>000008\<close> to \<open>000016\<close>, beside those of the warehouse services, and the numbers and texts that
  are written into them. A \<open>jsonb\<close> column is the document it holds; a quantity is the rational
  number a \<open>float64\<close> or a \<open>numeric(18,6)\<close> stands for.
\<close>

section \<open>Tables\<close>

record projection_row =
  pj_type :: string
  pj_version :: int64
  pj_status :: string
  pj_priority :: int64
  pj_site :: "string option"
  pj_warehouse :: string
  pj_warehouse_code :: "string option"
  pj_source :: "string option"
  pj_dest :: "string option"
  pj_work_order :: "string option"
  pj_work_order_code :: "string option"
  pj_request :: "string option"
  pj_request_line :: "string option"
  pj_receipt :: "string option"
  pj_item :: "string option"
  pj_item_code :: "string option"
  pj_revision :: "string option"
  pj_revision_code :: "string option"
  pj_requested :: rat
  pj_confirmed :: rat
  pj_remaining :: rat
  pj_uom_id :: "string option"
  pj_uom :: "string option"
  pj_lot :: "string option"
  pj_lot_code :: "string option"
  pj_serials :: "string list"
  pj_scans :: "string list"
  pj_correlation :: "string option"
  pj_cause :: "string option"
  pj_payload :: json
  pj_event :: uuid
  pj_dispatched :: time
  pj_source_dispatched :: "time option"
  pj_received :: time
  pj_source_code :: "string option"
  pj_source_bin :: "string option"
  pj_source_bin_code :: "string option"
  pj_dest_code :: "string option"
  pj_dest_bin :: "string option"
  pj_dest_bin_code :: "string option"
  pj_lpn :: "string option"
  pj_allocations :: "json list"
  pj_updated :: time

record execution_row =
  xr_task_id :: uuid
  xr_version :: int64
  xr_state :: string
  xr_operator :: "string option"
  xr_device :: "string option"
  xr_confirmed :: rat
  xr_reason :: "string option"
  xr_started :: "time option"
  xr_finished :: "time option"
  xr_updated :: time

record scan_row =
  zr_value :: string
  zr_accepted :: bool
  zr_reason :: "string option"
  zr_operator :: string
  zr_device :: string
  zr_at :: time

record integration_row =
  ig_topic :: string
  ig_type :: string
  ig_aggregate :: string
  ig_version :: int64
  ig_key :: string
  ig_envelope :: json
  ig_created :: time
  ig_available :: time
  ig_attempts :: int64
  ig_error :: "string option"
  ig_published :: "time option"

record dead_letter_row =
  dl_event :: uuid
  dl_topic :: string
  dl_type :: string
  dl_envelope :: json
  dl_attempts :: int64
  dl_error :: string

record stale_row =
  sd_event :: uuid
  sd_task :: string
  sd_incoming :: int64
  sd_projected :: int64
  sd_type :: string

record ack_row =
  ak_warehouse :: string
  ak_count :: int64
  ak_correlation :: string
  ak_device_at :: "time option"
  ak_backend_at :: "time option"
  ak_evidence :: "uuid option"

record dlq_row =
  dq_envelope :: json
  dq_attempts :: int64
  dq_error :: string

record receiving_work_row =
  rw_location :: string
  rw_status :: string
  rw_version :: int64
  rw_event :: uuid
  rw_correlation :: string
  rw_trace :: string
  rw_payload :: json

text \<open>The device-facing view of a task, \<open>wmstask.Task\<close>; the result column of a command is one, or
  \<open>None\<close> when it does not decode.\<close>

record wms_task =
  wk_id :: string
  wk_pda_id :: string
  wk_type :: string
  wk_version :: int64
  wk_status :: string
  wk_state :: string
  wk_priority :: int64
  wk_warehouse :: string
  wk_work_order_code :: string
  wk_item_code :: string
  wk_revision :: string
  wk_lot :: string
  wk_source :: string
  wk_source_code :: string
  wk_source_bin :: string
  wk_source_bin_code :: string
  wk_dest :: string
  wk_dest_code :: string
  wk_dest_bin :: string
  wk_dest_bin_code :: string
  wk_lpn :: string
  wk_allocations :: "json list"
  wk_requested :: rat
  wk_confirmed :: rat
  wk_remaining :: rat
  wk_uom :: string
  wk_scans :: "string list"
  wk_completed_scans :: "string list"
  wk_operator :: string
  wk_correlation :: string

record wms_command_row =
  kr_task :: string
  kr_type :: string
  kr_hash :: string
  kr_result :: "wms_task option"

text \<open>Scans are keyed by task, scan type and hash, acknowledgements by event, operator and device,
  the inbox and the dead letters of the consumers by event and consumer group.\<close>

record wms_tables = tables +
  wms_task_projection :: "(string \<times> projection_row) list"
  pda_task_execution :: "(string \<times> execution_row) list"
  pda_task_scan :: "((string \<times> string \<times> string) \<times> scan_row) list"
  pda_task_command :: "(uuid \<times> wms_command_row) list"
  integration_outbox :: "(uuid \<times> integration_row) list"
  integration_dead_letters :: "dead_letter_row list"
  wms_task_stale_delivery :: "stale_row list"
  event_inbox :: "((uuid \<times> string) \<times> time) list"
  event_dlq :: "((uuid \<times> string) \<times> dlq_row) list"
  pda_event_delivery_ack :: "((string \<times> string \<times> string) \<times> ack_row) list"
  receiving_work_projection :: "(string \<times> receiving_work_row) list"

type_synonym wms_world = "wms_tables db_world"

text \<open>The CHECK constraints; the state is one of four, and so is the type of a command.\<close>

definition projection_ok :: "projection_row \<Rightarrow> bool" where
  "projection_ok r \<longleftrightarrow> i64_less 0 (pj_version r)"

definition execution_ok :: "execution_row \<Rightarrow> bool" where
  "execution_ok r \<longleftrightarrow> xr_state r \<in> {''DISPATCHED'', ''STARTED'', ''COMPLETED'', ''FAILED''}"

definition wms_command_ok :: "wms_command_row \<Rightarrow> bool" where
  "wms_command_ok r \<longleftrightarrow> kr_type r \<in> {''START'', ''SCAN'', ''COMPLETE'', ''FAIL''}"

section \<open>Values\<close>

definition null_if :: "string \<Rightarrow> string option" where
  "null_if s = (if s = '''' then None else Some s)"

definition coalesce :: "string option \<Rightarrow> string" where
  "coalesce x = (case x of None \<Rightarrow> '''' | Some s \<Rightarrow> s)"

text \<open>A value is rounded to the six places of \<open>numeric(18,6)\<close>, half away from zero, and must leave
  twelve places before the point.\<close>

definition numeric6 :: "rat \<Rightarrow> err + rat" where
  "numeric6 x = (let n = \<lfloor>\<bar>x\<bar> * 1000000 + 1 / 2\<rfloor> in
     if n \<ge> 10 ^ 18 then Inl (TextError ''numeric field overflow'')
     else Inr ((if x < 0 then - of_int n else of_int n) / 1000000))"

definition int_text :: "int \<Rightarrow> string" where
  "int_text k = (if k < 0 then CHR ''-'' # decimal (nat (- k)) else decimal (nat k))"

text \<open>\<open>%.6f\<close>: six places, the exact value rounded half to even.\<close>

definition fixed6 :: "rat \<Rightarrow> string" where
  "fixed6 x = (let y = \<bar>x\<bar> * 1000000; f = \<lfloor>y\<rfloor>; r = y - of_int f;
       n = (if r > 1 / 2 \<or> r = 1 / 2 \<and> odd f then f + 1 else f);
       d = decimal (nat (n mod 1000000)) in
     (if x < 0 then ''-'' else '''') @ decimal (nat (n div 1000000)) @ ''.'' @ replicate (6 - length d) CHR ''0'' @ d)"

lemma coalesce_null_if [simp]: "coalesce (null_if s) = s"
  by (simp add: coalesce_def null_if_def)

lemma execution_ok_simps [simp]: "execution_ok (r\<lparr>xr_state := s\<rparr>) \<longleftrightarrow> s \<in> {''DISPATCHED'', ''STARTED'', ''COMPLETED'', ''FAILED''}"
  by (simp add: execution_ok_def)

section \<open>Upserts\<close>

text \<open>\<open>INSERT \<dots> ON CONFLICT (key) DO UPDATE\<close>: the proposed row must satisfy the checks even when there is
  a row already, which is then updated instead.\<close>

definition upsert_at ::
    "string \<Rightarrow> ('r \<Rightarrow> bool) \<Rightarrow> 'k \<Rightarrow> 'r \<Rightarrow> ('r \<Rightarrow> 'r) \<Rightarrow> ('k \<times> 'r) list \<Rightarrow> err + ('k \<times> 'r) list" where
  "upsert_at name ok k r f tab =
     (if \<not> ok r then Inl (violates name)
      else case map_of tab k of
        None \<Rightarrow> Inr (tab @ [(k, r)])
      | Some r0 \<Rightarrow> if ok (f r0) then Inr (AList.update k (f r0) tab) else Inl (violates name))"

lemma upsert_at_Inr: "upsert_at name ok k r f tab = Inr tab' \<longleftrightarrow> ok r \<and>
    (case map_of tab k of None \<Rightarrow> tab' = tab @ [(k, r)]
     | Some r0 \<Rightarrow> ok (f r0) \<and> tab' = AList.update k (f r0) tab)"
  by (auto simp: upsert_at_def split: option.splits)

lemma upsert_at_map: "upsert_at name ok k r f tab = Inr tab' \<Longrightarrow>
    map_of tab' = (map_of tab)(k \<mapsto> (case map_of tab k of None \<Rightarrow> r | Some r0 \<Rightarrow> f r0))"
  by (auto simp: upsert_at_Inr update_conv' map_add_def fun_eq_iff split: option.splits)

text \<open>A query that must give a row.\<close>

definition no_rows :: err where
  [err_defs]: "no_rows = TextError ''no rows in result set''"

section \<open>Transactions that may end early\<close>

text \<open>A body that returns \<open>Inl x\<close> returned before its commit, without having written anything: the
  deferred rollback follows, whose error is discarded. \<open>Inr x\<close> is followed by the commit.\<close>

definition with_tx_or_leave :: "('d db_world, 'a + 'a) prog \<Rightarrow> ('d db_world, 'a) prog" where
  "with_tx_or_leave m = bindP (commit_report m) (\<lambda>(r, c). case r of
     Inl x \<Rightarrow> returnP x
   | Inr x \<Rightarrow> (case c of None \<Rightarrow> returnP x | Some e \<Rightarrow> failP e))"

end
