(* ===== verification/Wms_Tasks.thy ===== *)
theory Wms_Tasks
  imports Wms_Database
begin

text \<open>
  The operator workflow of a task that WMS dispatched, \<open>internal/wmstask/command.go\<close> and
  \<open>service.go\<close>, on its tables: the command envelope with its idempotency record, the events for WMS
  in \<open>integration_outbox\<close>, and the four commands. SHA-256 in hexadecimal, name-based UUIDs, the order
  in which \<open>SELECT DISTINCT\<close> returns its rows and the text of an error the driver reports are
  parameters. Foreign keys hold because projections are never deleted; the one of a scan is checked.
\<close>

record wms_params =
  wx_sha256 :: "string \<Rightarrow> string"
  wx_sha1 :: "string \<Rightarrow> uuid"
  wx_uuid_string :: "uuid \<Rightarrow> string"
  wx_parsers :: parsers
  wx_distinct :: "string list \<Rightarrow> string list"
  wx_error :: "err \<Rightarrow> string"

section \<open>Constants\<close>

definition EventTaskStarted :: string where [const_defs]: "EventTaskStarted = ''PDA.TaskStarted.v1''"
definition EventTaskCompleted :: string where [const_defs]: "EventTaskCompleted = ''PDA.TaskCompleted.v1''"
definition EventTaskFailed :: string where [const_defs]: "EventTaskFailed = ''PDA.TaskFailed.v1''"
definition PDATaskEventTopic :: string where [const_defs]: "PDATaskEventTopic = ''PDA.TaskEvents.v1''"

definition ErrWmsTaskNotFound :: err where [err_defs]: "ErrWmsTaskNotFound = TextError ''WMS_TASK_NOT_FOUND''"
definition ErrWmsVersionConflict :: err where [err_defs]: "ErrWmsVersionConflict = TextError ''WMS_TASK_VERSION_CONFLICT''"
definition ErrNotStarted :: err where [err_defs]: "ErrNotStarted = TextError ''WMS_TASK_NOT_STARTED''"
definition ErrAlreadyFinished :: err where [err_defs]: "ErrAlreadyFinished = TextError ''WMS_TASK_ALREADY_FINISHED''"
definition ErrScanMismatch :: err where [err_defs]: "ErrScanMismatch = TextError ''SCAN_MISMATCH''"
definition ErrScanTypeInvalid :: err where [err_defs]: "ErrScanTypeInvalid = TextError ''SCAN_TYPE_NOT_REQUIRED''"
definition ErrScansIncomplete :: err where [err_defs]: "ErrScansIncomplete = TextError ''REQUIRED_SCANS_INCOMPLETE''"
definition ErrQuantityInvalid :: err where [err_defs]: "ErrQuantityInvalid = TextError ''CONFIRM_QUANTITY_INVALID''"
definition ErrCommandConflict :: err where [err_defs]: "ErrCommandConflict = TextError ''COMMAND_ID_PAYLOAD_CONFLICT''"
definition ErrReasonRequired :: err where [err_defs]: "ErrReasonRequired = TextError ''FAILURE_REASON_REQUIRED''"
definition ErrOperatorRequired :: err where [err_defs]: "ErrOperatorRequired = TextError ''OPERATOR_CONTEXT_REQUIRED''"

section \<open>What a command reads\<close>

record projection =
  pn_type :: string
  pn_version :: int64
  pn_status :: string
  pn_warehouse :: string
  pn_source :: string
  pn_dest :: string
  pn_revision :: string
  pn_item_code :: string
  pn_lot :: string
  pn_uom :: string
  pn_requested :: rat
  pn_remaining :: rat
  pn_scans :: "string list"
  pn_correlation :: string
  pn_work_order :: string
  pn_request :: string
  pn_site :: string

record execution =
  en_pda_id :: string
  en_state :: string

definition projection_of :: "projection_row \<Rightarrow> projection" where
  "projection_of r = \<lparr>pn_type = pj_type r, pn_version = pj_version r, pn_status = pj_status r,
     pn_warehouse = pj_warehouse r, pn_source = coalesce (pj_source r), pn_dest = coalesce (pj_dest r),
     pn_revision = coalesce (pj_revision r), pn_item_code = coalesce (pj_item_code r), pn_lot = coalesce (pj_lot r),
     pn_uom = coalesce (pj_uom r), pn_requested = pj_requested r, pn_remaining = pj_remaining r, pn_scans = pj_scans r,
     pn_correlation = coalesce (pj_correlation r), pn_work_order = coalesce (pj_work_order r),
     pn_request = coalesce (pj_request r), pn_site = coalesce (pj_site r)\<rparr>"

definition load_projection :: "string \<Rightarrow> (wms_world, projection) prog" where
  "load_projection i = bindP (query (\<lambda>now d. map_of (wms_task_projection d) i)) (\<lambda>row.
     case row of None \<Rightarrow> failP ErrWmsTaskNotFound | Some r \<Rightarrow> returnP (projection_of r))"

definition load_execution :: "wms_params \<Rightarrow> string \<Rightarrow> (wms_world, execution) prog" where
  "load_execution X i = bindP (query (\<lambda>now d. map_of (pda_task_execution d) i)) (\<lambda>row.
     returnP (case row of None \<Rightarrow> \<lparr>en_pda_id = '''', en_state = ''DISPATCHED''\<rparr>
       | Some r \<Rightarrow> \<lparr>en_pda_id = wx_uuid_string X (xr_task_id r), en_state = xr_state r\<rparr>))"

definition expected_scan_value :: "projection \<Rightarrow> string \<Rightarrow> string option" where
  "expected_scan_value p t =
     (if t = ''SOURCE'' then Some (pn_source p)
      else if t = ''DESTINATION'' then Some (pn_dest p)
      else if t = ''ITEM'' then Some (pn_revision p)
      else if t = ''LOT'' then Some (pn_lot p) else None)"

definition accepted_types :: "string \<Rightarrow> wms_tables \<Rightarrow> string list" where
  "accepted_types i d = remdups (map (\<lambda>((_, t, _), _). t)
     (filter (\<lambda>((k, _, _), r). k = i \<and> zr_accepted r) (pda_task_scan d)))"

definition accepted_scan_types :: "wms_params \<Rightarrow> string \<Rightarrow> (wms_world, string list) prog" where
  "accepted_scan_types X i = query (\<lambda>now d. wx_distinct X (accepted_types i d))"

definition scan_evidence :: "string \<Rightarrow> (wms_world, json) prog" where
  "scan_evidence i = query (\<lambda>now d. JArr (map (\<lambda>((_, t, _), r).
       go_map [(''scan_type'', JStr t), (''scan_value'', JStr (zr_value r)), (''accepted'', JBool (zr_accepted r)),
         (''scanned_at'', JTime (zr_at r))])
     (sort_key (zr_at \<circ> snd) (filter (\<lambda>((k, _, _), r). k = i) (pda_task_scan d)))))"

definition contains_fold :: "string list \<Rightarrow> string \<Rightarrow> bool" where
  "contains_fold xs x \<longleftrightarrow> (\<exists>y \<in> set xs. equal_fold y x)"

section \<open>The task as the device sees it\<close>

definition scan_wms_task :: "wms_params \<Rightarrow> string \<Rightarrow> projection_row \<Rightarrow> execution_row option \<Rightarrow> wms_task" where
  "scan_wms_task X i p e = \<lparr>wk_id = i, wk_pda_id = (case e of None \<Rightarrow> '''' | Some r \<Rightarrow> wx_uuid_string X (xr_task_id r)),
     wk_type = pj_type p, wk_version = pj_version p, wk_status = pj_status p,
     wk_state = (case e of None \<Rightarrow> ''DISPATCHED'' | Some r \<Rightarrow> xr_state r), wk_priority = pj_priority p,
     wk_warehouse = pj_warehouse p, wk_work_order_code = coalesce (pj_work_order_code p),
     wk_item_code = coalesce (pj_item_code p), wk_revision = coalesce (pj_revision p), wk_lot = coalesce (pj_lot p),
     wk_source = coalesce (pj_source p), wk_source_code = coalesce (pj_source_code p),
     wk_source_bin = coalesce (pj_source_bin p), wk_source_bin_code = coalesce (pj_source_bin_code p),
     wk_dest = coalesce (pj_dest p), wk_dest_code = coalesce (pj_dest_code p),
     wk_dest_bin = coalesce (pj_dest_bin p), wk_dest_bin_code = coalesce (pj_dest_bin_code p),
     wk_lpn = coalesce (pj_lpn p), wk_allocations = pj_allocations p, wk_requested = pj_requested p,
     wk_confirmed = (case e of None \<Rightarrow> 0 | Some r \<Rightarrow> xr_confirmed r), wk_remaining = pj_remaining p,
     wk_uom = coalesce (pj_uom p), wk_scans = pj_scans p, wk_completed_scans = [],
     wk_operator = (case e of None \<Rightarrow> '''' | Some r \<Rightarrow> coalesce (xr_operator r)),
     wk_correlation = coalesce (pj_correlation p)\<rparr>"

definition find_task :: "wms_params \<Rightarrow> string \<Rightarrow> wms_tables \<Rightarrow> wms_task option" where
  "find_task X i d = map_option (\<lambda>p. scan_wms_task X i p (map_of (pda_task_execution d) i)) (map_of (wms_task_projection d) i)"

definition read_task :: "wms_params \<Rightarrow> string \<Rightarrow> (wms_world, wms_task) prog" where
  "read_task X i = bindP (query (\<lambda>now d. find_task X i d)) (\<lambda>row. case row of
     None \<Rightarrow> failP no_rows
   | Some t \<Rightarrow> bindP (accepted_scan_types X i) (\<lambda>xs. returnP (t\<lparr>wk_completed_scans := xs\<rparr>)))"

section \<open>Events for WMS\<close>

text \<open>\<open>gen_random_uuid()\<close> draws from the same generator as \<open>uuid.New()\<close>.\<close>

definition insert_execution :: "string \<Rightarrow> execution_row \<Rightarrow> (execution_row \<Rightarrow> execution_row)
    \<Rightarrow> (string \<times> execution_row) list \<Rightarrow> err + (string \<times> execution_row) list" where
  "insert_execution i r f tab =
     (if map_of tab i = None \<and> xr_task_id r \<in> xr_task_id ` snd ` set tab then Inl (violates ''pda_task_execution_pda_task_id_key'')
      else upsert_at ''pda_task_execution'' execution_ok i r f tab)"

definition new_execution :: "uuid \<Rightarrow> int64 \<Rightarrow> string \<Rightarrow> time \<Rightarrow> execution_row" where
  "new_execution u v state now = \<lparr>xr_task_id = u, xr_version = v, xr_state = state, xr_operator = None, xr_device = None,
     xr_confirmed = 0, xr_reason = None, xr_started = None, xr_finished = None, xr_updated = now\<rparr>"

definition ensure_pda_task_id :: "wms_params \<Rightarrow> string \<Rightarrow> (wms_world, string) prog" where
  "ensure_pda_task_id X i = bindP (query (\<lambda>now d. map_of (pda_task_execution d) i)) (\<lambda>row. case row of
     Some r \<Rightarrow> returnP (wx_uuid_string X (xr_task_id r))
   | None \<Rightarrow> bindP new_uuid (\<lambda>u.
       bindP (sql (\<lambda>now d. case map_of (wms_task_projection d) i of
           None \<Rightarrow> Inr (False, d)
         | Some p \<Rightarrow> map_sum id (\<lambda>tab. (True, d\<lparr>pda_task_execution := tab\<rparr>))
             (insert_execution i (new_execution u (pj_version p) ''DISPATCHED'' now) id (pda_task_execution d)))) (\<lambda>found.
       if found then returnP (wx_uuid_string X u) else failP no_rows)))"

definition fact_members :: "projection \<Rightarrow> string \<Rightarrow> string \<Rightarrow> string \<Rightarrow> members" where
  "fact_members p i pid corr =
     [(''pda_task_id'', JStr pid), (''warehouse_task_id'', JStr i), (''task_version'', json_int64 (pn_version p)),
      (''task_type'', JStr (pn_type p)), (''warehouse_id'', JStr (pn_warehouse p))]
     @ (if pn_work_order p = '''' then [] else [(''work_order_id'', JStr (pn_work_order p))])
     @ (if pn_request p = '''' then [] else [(''material_request_id'', JStr (pn_request p))])
     @ [(''correlation_id'', JStr corr)]"

definition integration_envelope :: "string \<Rightarrow> string \<Rightarrow> time \<Rightarrow> string \<Rightarrow> projection \<Rightarrow> string \<Rightarrow> json \<Rightarrow> json" where
  "integration_envelope eid ty now i p corr payload = go_map
     [(''event_id'', JStr eid), (''event_type'', JStr ty), (''event_version'', JInt 1), (''occurred_at'', JTime now),
      (''source_service'', JStr ''pda-backend''), (''producer'', JStr ''pda-backend''),
      (''aggregate_type'', JStr ''WarehouseTask''), (''aggregate_id'', JStr i),
      (''aggregate_version'', json_int64 (pn_version p)), (''correlation_id'', JStr corr), (''causation_id'', JStr i),
      (''site_id'', JStr (pn_site p)), (''schema_version'', JInt 1),
      (''metadata'', go_map [(''partition_key'', JStr i), (''producer'', JStr ''pda-backend'')]), (''payload'', payload)]"

definition integration_event ::
    "string \<Rightarrow> string \<Rightarrow> string \<Rightarrow> int64 \<Rightarrow> string \<Rightarrow> json \<Rightarrow> time \<Rightarrow> integration_row" where
  "integration_event topic ty aggregate v key j now = \<lparr>ig_topic = topic, ig_type = ty, ig_aggregate = aggregate,
     ig_version = v, ig_key = key, ig_envelope = j, ig_created = now, ig_available = now, ig_attempts = 0,
     ig_error = None, ig_published = None\<rparr>"

definition append_integration_event ::
    "wms_params \<Rightarrow> string \<Rightarrow> string \<Rightarrow> projection \<Rightarrow> members \<Rightarrow> actor \<Rightarrow> (wms_world, unit) prog" where
  "append_integration_event X ty i p payload a =
     bindP (ensure_pda_task_id X i) (\<lambda>pid.
     let corr = first_of (pn_correlation p) (ac_correlation a);
         body = go_map (set_members (fact_members p i pid corr) payload) in
     bindP new_uuid (\<lambda>eid.
     bindP clock_now (\<lambda>now.
     sql (on_table integration_outbox (\<lambda>x d. d\<lparr>integration_outbox := x\<rparr>) (\<lambda>t tab.
       no_value (insert_at ''integration_outbox'' (\<lambda>_. True) eid
         (integration_event PDATaskEventTopic ty i (pn_version p) i
           (integration_envelope (wx_uuid_string X eid) ty now i p corr body) t) tab))))))"

section \<open>Commands\<close>

text \<open>\<open>apply\<close> changes the state and says which event to publish, if any.\<close>

type_synonym apply_change = "projection \<Rightarrow> execution \<Rightarrow> (wms_world, (string \<times> members) option) prog"

definition request_hash :: "wms_params \<Rightarrow> string \<Rightarrow> string \<Rightarrow> int64 \<Rightarrow> string \<Rightarrow> rat \<Rightarrow> string \<Rightarrow> string" where
  "request_hash X i ty v operator q extra = wx_sha256 X
     (i @ ''|'' @ ty @ ''|'' @ int_text (sint v) @ ''|'' @ operator @ ''|'' @ fixed6 q @ ''|'' @ extra)"

definition command_effect ::
    "wms_params \<Rightarrow> string \<Rightarrow> string \<Rightarrow> uuid \<Rightarrow> string \<Rightarrow> apply_change \<Rightarrow> actor \<Rightarrow> (wms_world, wms_task) prog" where
  "command_effect X i ty cid h apply a =
     bindP (load_projection i) (\<lambda>p.
     bindP (load_execution X i) (\<lambda>e.
     bindP (apply p e) (\<lambda>fact.
     bindP (case fact of None \<Rightarrow> returnP () | Some (ev, payload) \<Rightarrow> append_integration_event X ev i p payload a) (\<lambda>_.
     bindP (read_task X i) (\<lambda>t.
     bindP (sql (on_table pda_task_command (\<lambda>x d. d\<lparr>pda_task_command := x\<rparr>) (\<lambda>now tab.
       no_value (insert_ignore ''pda_task_command'' wms_command_ok cid
         \<lparr>kr_task = i, kr_type = ty, kr_hash = h, kr_result = Some t\<rparr> tab)))) (\<lambda>_.
     returnP t))))))"

definition command_body ::
    "wms_params \<Rightarrow> string \<Rightarrow> string \<Rightarrow> uuid \<Rightarrow> string \<Rightarrow> apply_change \<Rightarrow> actor \<Rightarrow> (wms_world, wms_task + wms_task) prog" where
  "command_body X i ty cid h apply a =
     bindP (query (\<lambda>now d. map_of (pda_task_command d) cid)) (\<lambda>row.
     let effect = bindP (command_effect X i ty cid h apply a) (\<lambda>t. returnP (Inr t)) in
     case row of
       None \<Rightarrow> effect
     | Some r \<Rightarrow> if kr_hash r \<noteq> h then failP ErrCommandConflict
         else (case kr_result r of Some t \<Rightarrow> returnP (Inl t) | None \<Rightarrow> effect))"

definition wms_command ::
    "wms_params \<Rightarrow> string \<Rightarrow> string \<Rightarrow> uuid \<Rightarrow> string \<Rightarrow> apply_change \<Rightarrow> actor \<Rightarrow> (wms_world, wms_task) prog" where
  "wms_command X i ty cid h apply a =
     bindP (if cid = uuid_nil then new_uuid else returnP cid) (\<lambda>k.
     with_tx_or_leave (command_body X i ty k h apply a))"

end
