(* ===== verification/Wms_Service.thy ===== *)
theory Wms_Service
  imports Wms_Tasks Identity_Service
begin

text \<open>
  The operations of the WMS task workflow, \<open>internal/wmstask/service.go\<close>, its HTTP surface \<open>http.go\<close>,
  and the acknowledgement of a delivery, there and in
  \<open>internal/gateway/adapters/http/delivery_ack.go\<close>.
\<close>

section \<open>Queries\<close>

definition wms_list :: "wms_params \<Rightarrow> string \<Rightarrow> string \<Rightarrow> (wms_world, wms_task list) prog" where
  "wms_list X wh state = query (\<lambda>now d.
     let st = to_upper state;
         rows = filter (\<lambda>(i, p). (wh = '''' \<or> pj_warehouse p = wh \<or> pj_warehouse_code p = Some wh)
           \<and> (st = '''' \<or> (case map_of (pda_task_execution d) i of None \<Rightarrow> ''DISPATCHED'' | Some r \<Rightarrow> xr_state r) = st)
           \<and> pj_status p \<notin> {''CANCELLED'', ''FAILED''}) (wms_task_projection d) in
     map (\<lambda>(i, p). scan_wms_task X i p (map_of (pda_task_execution d) i))
       (sort_key (sint \<circ> pj_priority \<circ> snd) (sort_key (pj_dispatched \<circ> snd) rows)))"

definition wms_get :: "wms_params \<Rightarrow> string \<Rightarrow> (wms_world, wms_task) prog" where
  "wms_get X i = bindP (query (\<lambda>now d. find_task X i d)) (\<lambda>row. case row of
     None \<Rightarrow> failP ErrWmsTaskNotFound
   | Some t \<Rightarrow> bindP (query (\<lambda>now d. sort (accepted_types i d))) (\<lambda>xs. returnP (t\<lparr>wk_completed_scans := xs\<rparr>)))"

section \<open>Commands\<close>

definition put_execution ::
    "string \<Rightarrow> execution_row \<Rightarrow> (execution_row \<Rightarrow> execution_row) \<Rightarrow> (wms_world, unit) prog" where
  "put_execution i r f = sql (on_table pda_task_execution (\<lambda>x d. d\<lparr>pda_task_execution := x\<rparr>) (\<lambda>now tab.
     no_value (insert_execution i r f tab)))"

definition start_change :: "string \<Rightarrow> int64 \<Rightarrow> actor \<Rightarrow> apply_change" where
  "start_change i v a p e =
     bindP (checkP (pn_version p \<noteq> v) ErrWmsVersionConflict) (\<lambda>_.
     bindP (checkP (en_state e = ''COMPLETED'' \<or> en_state e = ''FAILED'') ErrAlreadyFinished) (\<lambda>_.
     bindP clock_now (\<lambda>now.
     bindP new_uuid (\<lambda>u.
     bindP (put_execution i
        ((new_execution u (pn_version p) ''STARTED'' now)\<lparr>xr_operator := Some (ac_operator a), xr_device := Some (ac_device a),
          xr_started := Some now\<rparr>)
        (\<lambda>r. r\<lparr>xr_version := pn_version p, xr_state := ''STARTED'', xr_operator := Some (ac_operator a),
          xr_device := Some (ac_device a),
          xr_started := (case xr_started r of None \<Rightarrow> Some now | Some t \<Rightarrow> Some t), xr_updated := now\<rparr>)) (\<lambda>_.
     returnP (Some (EventTaskStarted, [(''operator_id'', JStr (ac_operator a)), (''device_id'', JStr (ac_device a)),
       (''started_at'', JTime now)])))))))"

definition wms_start :: "wms_params \<Rightarrow> string \<Rightarrow> int64 \<Rightarrow> uuid \<Rightarrow> actor \<Rightarrow> (wms_world, wms_task) prog" where
  "wms_start X i v cid a =
     bindP (checkP (ac_operator a = '''' \<or> ac_device a = '''') ErrOperatorRequired) (\<lambda>_.
     wms_command X i ''START'' cid (request_hash X i ''START'' v (ac_operator a) 0 '''') (start_change i v a) a)"

text \<open>A scan row belongs to an execution; a second scan of the same value is ignored.\<close>

definition insert_scan :: "wms_params \<Rightarrow> string \<Rightarrow> string \<Rightarrow> string \<Rightarrow> bool \<Rightarrow> string option \<Rightarrow> actor \<Rightarrow> (wms_world, unit) prog" where
  "insert_scan X i ty val ok reason a = sql (\<lambda>now d.
     if map_of (pda_task_execution d) i = None \<and> map_of (pda_task_scan d) (i, ty, wx_sha256 X (ty @ ''|'' @ val)) = None
     then Inl (violates ''pda_task_scan_warehouse_task_id_fkey'')
     else on_table pda_task_scan (\<lambda>x d. d\<lparr>pda_task_scan := x\<rparr>) (\<lambda>now tab.
       no_value (insert_ignore ''pda_task_scan'' (\<lambda>_. True) (i, ty, wx_sha256 X (ty @ ''|'' @ val))
         \<lparr>zr_value = val, zr_accepted = ok, zr_reason = reason, zr_operator = ac_operator a, zr_device = ac_device a,
          zr_at = now\<rparr> tab)) now d)"

definition scan_change :: "wms_params \<Rightarrow> string \<Rightarrow> string \<Rightarrow> string \<Rightarrow> int64 \<Rightarrow> actor \<Rightarrow> apply_change" where
  "scan_change X i ty val v a p e =
     bindP (checkP (pn_version p \<noteq> v) ErrWmsVersionConflict) (\<lambda>_.
     bindP (checkP (en_state e \<noteq> ''STARTED'') ErrNotStarted) (\<lambda>_.
     bindP (checkP (\<not> contains_fold (pn_scans p) ty) ErrScanTypeInvalid) (\<lambda>_.
     bindP (checkP (case expected_scan_value p ty of None \<Rightarrow> True | Some x \<Rightarrow> x = '''' \<or> x \<noteq> val) ErrScanMismatch) (\<lambda>_.
     bindP (insert_scan X i ty val True None a) (\<lambda>_.
     returnP None)))))"

definition record_rejected_scan :: "wms_params \<Rightarrow> string \<Rightarrow> string \<Rightarrow> string \<Rightarrow> actor \<Rightarrow> (wms_world, unit) prog" where
  "record_rejected_scan X i ty val a = ignoreP (insert_scan X i ty val False (Some ''SCAN_MISMATCH'') a)"

definition wms_scan ::
    "wms_params \<Rightarrow> string \<Rightarrow> string \<Rightarrow> string \<Rightarrow> int64 \<Rightarrow> uuid \<Rightarrow> actor \<Rightarrow> (wms_world, wms_task) prog" where
  "wms_scan X i given_type given_value v cid a =
     (let ty = to_upper (trim_space given_type); val = trim_space given_value in
      bindP (checkP (ty = '''' \<or> val = '''') ErrScanTypeInvalid) (\<lambda>_.
      bindP (tryP (wms_command X i ''SCAN'' cid
         (request_hash X i ''SCAN'' v (ac_operator a) 0 (ty @ ''|'' @ val)) (scan_change X i ty val v a) a)) (\<lambda>r.
      case r of
        Inr t \<Rightarrow> returnP t
      | Inl e \<Rightarrow> bindP (if errors_is e ErrScanMismatch then record_rejected_scan X i ty val a else returnP ()) (\<lambda>_. failP e))))"

definition finish_execution :: "string \<Rightarrow> rat \<Rightarrow> time \<Rightarrow> (wms_world, unit) prog" where
  "finish_execution i q now = sql (on_table pda_task_execution (\<lambda>x d. d\<lparr>pda_task_execution := x\<rparr>) (\<lambda>_ tab.
     case numeric6 q of
       Inl e \<Rightarrow> Inl e
     | Inr n \<Rightarrow> map_sum id (\<lambda>(_, t). ((), t)) (update_at ''pda_task_execution'' execution_ok i
         (\<lambda>r. r\<lparr>xr_state := ''COMPLETED'', xr_confirmed := n, xr_finished := Some now, xr_updated := now\<rparr>) tab)))"

definition first_missing :: "string list \<Rightarrow> string list \<Rightarrow> string option" where
  "first_missing accepted required = find (\<lambda>x. \<not> contains_fold accepted x) required"

definition complete_change :: "wms_params \<Rightarrow> string \<Rightarrow> rat \<Rightarrow> int64 \<Rightarrow> actor \<Rightarrow> apply_change" where
  "complete_change X i q v a p e =
     bindP (checkP (pn_version p \<noteq> v) ErrWmsVersionConflict) (\<lambda>_.
     bindP (checkP (en_state e \<noteq> ''STARTED'') ErrNotStarted) (\<lambda>_.
     bindP (checkP (q \<le> 0 \<or> q > pn_remaining p + 1 / 1000000) ErrQuantityInvalid) (\<lambda>_.
     bindP (accepted_scan_types X i) (\<lambda>accepted.
     bindP (case first_missing accepted (pn_scans p) of
         None \<Rightarrow> returnP () | Some x \<Rightarrow> failP (WrapError ('':'' @ x) ErrScansIncomplete)) (\<lambda>_.
     bindP clock_now (\<lambda>now.
     bindP (finish_execution i q now) (\<lambda>_.
     bindP (scan_evidence i) (\<lambda>evidence.
     returnP (Some (EventTaskCompleted, [(''operator_id'', JStr (ac_operator a)), (''device_id'', JStr (ac_device a)),
       (''confirmed_quantity'', JNum q), (''requested_quantity'', JNum (pn_requested p)),
       (''remaining_quantity'', JNum (pn_remaining p - q)), (''uom_code'', JStr (pn_uom p)),
       (''scan_evidence'', evidence), (''completed_at'', JTime now)]))))))))))"

definition wms_complete :: "wms_params \<Rightarrow> string \<Rightarrow> rat \<Rightarrow> int64 \<Rightarrow> uuid \<Rightarrow> actor \<Rightarrow> (wms_world, wms_task) prog" where
  "wms_complete X i q v cid a =
     wms_command X i ''COMPLETE'' cid (request_hash X i ''COMPLETE'' v (ac_operator a) q '''') (complete_change X i q v a) a"

definition fail_change :: "string \<Rightarrow> string \<Rightarrow> int64 \<Rightarrow> actor \<Rightarrow> apply_change" where
  "fail_change i reason v a p e =
     bindP (checkP (pn_version p \<noteq> v) ErrWmsVersionConflict) (\<lambda>_.
     bindP (checkP (en_state e = ''COMPLETED'' \<or> en_state e = ''FAILED'') ErrAlreadyFinished) (\<lambda>_.
     bindP clock_now (\<lambda>now.
     bindP new_uuid (\<lambda>u.
     bindP (put_execution i
        ((new_execution u (pn_version p) ''FAILED'' now)\<lparr>xr_operator := Some (ac_operator a), xr_device := Some (ac_device a),
          xr_reason := Some reason, xr_finished := Some now\<rparr>)
        (\<lambda>r. r\<lparr>xr_state := ''FAILED'', xr_reason := Some reason, xr_operator := Some (ac_operator a),
          xr_device := Some (ac_device a), xr_finished := Some now, xr_updated := now\<rparr>)) (\<lambda>_.
     bindP (scan_evidence i) (\<lambda>evidence.
     returnP (Some (EventTaskFailed, [(''operator_id'', JStr (ac_operator a)), (''device_id'', JStr (ac_device a)),
       (''reason_code'', JStr reason), (''scan_evidence'', evidence), (''failed_at'', JTime now)]))))))))"

definition wms_fail :: "wms_params \<Rightarrow> string \<Rightarrow> string \<Rightarrow> int64 \<Rightarrow> uuid \<Rightarrow> actor \<Rightarrow> (wms_world, wms_task) prog" where
  "wms_fail X i given_reason v cid a =
     (let reason = to_upper (trim_space given_reason) in
      bindP (checkP (reason = '''') ErrReasonRequired) (\<lambda>_.
      wms_command X i ''FAIL'' cid (request_hash X i ''FAIL'' v (ac_operator a) 0 reason) (fail_change i reason v a) a))"

section \<open>Acknowledged deliveries\<close>

definition delivery_event_id :: "wms_params \<Rightarrow> string \<Rightarrow> actor \<Rightarrow> uuid" where
  "delivery_event_id X e a = wx_sha1 X (''PDA.TaskReceivedOnDevice.v1:'' @ e @ '':'' @ ac_operator a @ '':'' @ ac_device a)"

text \<open>The row after an acknowledgement, unless one with another time on the device stands there; \<open>ev\<close> is
  the evidence the first row is given.\<close>

definition upsert_ack ::
    "string \<Rightarrow> actor \<Rightarrow> time \<Rightarrow> time \<Rightarrow> uuid option \<Rightarrow> wms_tables \<Rightarrow> err + ack_row option \<times> wms_tables" where
  "upsert_ack e a at_device at_backend ev d =
     (let k = (e, ac_operator a, ac_device a); tab = pda_event_delivery_ack d in
      case map_of tab k of
        None \<Rightarrow>
          if ev \<noteq> None \<and> ev \<in> ak_evidence ` snd ` set tab then Inl (violates ''pda_event_delivery_ack_evidence_event_uidx'')
          else (let r = \<lparr>ak_warehouse = ac_warehouse a, ak_count = 1, ak_correlation = ac_correlation a,
                ak_device_at = Some at_device, ak_backend_at = Some at_backend, ak_evidence = ev\<rparr>
            in Inr (Some r, d\<lparr>pda_event_delivery_ack := tab @ [(k, r)]\<rparr>))
      | Some r0 \<Rightarrow>
          if ak_device_at r0 = None \<or> ak_device_at r0 = Some at_device
          then (let r = r0\<lparr>ak_count := ak_count r0 + 1, ak_correlation := ac_correlation a, ak_warehouse := ac_warehouse a\<rparr>
            in Inr (Some r, d\<lparr>pda_event_delivery_ack := AList.update k r tab\<rparr>))
          else Inr (None, d))"

definition set_evidence :: "string \<Rightarrow> actor \<Rightarrow> uuid \<Rightarrow> (wms_world, unit) prog" where
  "set_evidence e a ev = sql (on_table pda_event_delivery_ack (\<lambda>x d. d\<lparr>pda_event_delivery_ack := x\<rparr>) (\<lambda>now tab.
     let k = (e, ac_operator a, ac_device a) in
     if Some ev \<in> ak_evidence ` snd ` set (filter (\<lambda>(k', r). k' \<noteq> k) tab)
     then Inl (violates ''pda_event_delivery_ack_evidence_event_uidx'')
     else map_sum id (\<lambda>(_, t). ((), t)) (update_at ''pda_event_delivery_ack'' (\<lambda>_. True) k (\<lambda>r. r\<lparr>ak_evidence := Some ev\<rparr>) tab)))"

record ack_projection =
  ap_document :: json
  ap_task :: string
  ap_version :: int64
  ap_type :: string
  ap_work_order :: string
  ap_request :: string
  ap_source :: string
  ap_dispatched :: "time option"
  ap_error :: string

definition resolve_ack_projection :: "wms_params \<Rightarrow> string \<Rightarrow> (wms_world, ack_projection) prog" where
  "resolve_ack_projection X e =
     bindP (tryP (query (\<lambda>now d. find (\<lambda>(i, p). wx_uuid_string X (pj_event p) = e) (wms_task_projection d)))) (\<lambda>r.
     returnP (case r of
       Inr (Some (i, p)) \<Rightarrow> \<lparr>ap_document = (case pj_payload p of JObj ms \<Rightarrow> JObj ms | JNull \<Rightarrow> JNull | _ \<Rightarrow> JObj []),
         ap_task = i, ap_version = pj_version p, ap_type = pj_type p, ap_work_order = coalesce (pj_work_order p),
         ap_request = coalesce (pj_request p), ap_source = wx_uuid_string X (pj_event p),
         ap_dispatched = Some (pj_dispatched p), ap_error = ''''\<rparr>
     | _ \<Rightarrow> \<lparr>ap_document = JObj [], ap_task = '''', ap_version = 0, ap_type = '''', ap_work_order = '''', ap_request = '''',
         ap_source = '''', ap_dispatched = None, ap_error = ''WMS_TASK_PROJECTION_NOT_FOUND''\<rparr>))"

text \<open>Both acknowledgers write the event of the same type under the evidence id, unless it is there.\<close>

definition ack_topic :: string where [const_defs]: "ack_topic = ''PDA.TaskReceivedOnDevice.v1''"

definition insert_ack_event :: "uuid \<Rightarrow> string \<Rightarrow> json \<Rightarrow> (wms_world, unit) prog" where
  "insert_ack_event ev aggregate j = sql (on_table integration_outbox (\<lambda>x d. d\<lparr>integration_outbox := x\<rparr>) (\<lambda>now tab.
     no_value (insert_ignore ''integration_outbox'' (\<lambda>_. True) ev
       (integration_event ack_topic ack_topic aggregate 1 aggregate j now) tab)))"

definition ack_envelope :: "string \<Rightarrow> time \<Rightarrow> string \<Rightarrow> string \<Rightarrow> string \<Rightarrow> string \<Rightarrow> json \<Rightarrow> json" where
  "ack_envelope ev at_device kind aggregate corr e payload = go_map
     [(''event_id'', JStr ev), (''event_type'', JStr ack_topic), (''event_version'', JInt 1), (''occurred_at'', JTime at_device),
      (''source_service'', JStr ''pda-backend''), (''aggregate_type'', JStr kind), (''aggregate_id'', JStr aggregate),
      (''aggregate_version'', JInt 1), (''correlation_id'', JStr corr), (''causation_id'', JStr e),
      (''schema_version'', JInt 1), (''metadata'', go_map [(''partition_key'', JStr e)]), (''payload'', payload)]"

definition append_delivery_ack ::
    "wms_params \<Rightarrow> string \<Rightarrow> uuid \<Rightarrow> actor \<Rightarrow> time \<Rightarrow> time \<Rightarrow> (wms_world, unit) prog" where
  "append_delivery_ack X e ev a at_device at_backend =
     bindP (resolve_ack_projection X e) (\<lambda>p.
     let payload = go_map ([(''delivery_event_id'', JStr e), (''operator_id'', JStr (ac_operator a)),
           (''device_id'', JStr (ac_device a)), (''warehouse_id'', JStr (ac_warehouse a)),
           (''device_received_at'', JTime at_device), (''backend_recorded_at'', JTime at_backend),
           (''warehouse_task_id'', JStr (ap_task p)), (''task_version'', json_int64 (ap_version p)),
           (''task_type'', JStr (ap_type p)), (''work_order_id'', JStr (ap_work_order p)),
           (''material_request_id'', JStr (ap_request p)), (''source_event_id'', JStr (ap_source p)),
           (''source_dispatched_at'', json_opt JTime (ap_dispatched p)), (''task_projection'', ap_document p)]
         @ (if ap_error p = '''' then [] else [(''correlation_error'', JStr (ap_error p))])) in
     insert_ack_event ev (first_of (ap_task p) e)
       (ack_envelope (wx_uuid_string X ev) at_device ''WarehouseTask'' (first_of (ap_task p) e)
         (first_of (ac_correlation a) e) e payload))"

text \<open>\<open>given\<close> is the time on the device, zero when there is none.\<close>

definition ack_body :: "(wms_world, ack_row option) prog \<Rightarrow> err \<Rightarrow> (uuid \<Rightarrow> (wms_world, unit) prog)
    \<Rightarrow> (uuid \<Rightarrow> ack_row \<Rightarrow> (wms_world, unit) prog) \<Rightarrow> uuid \<Rightarrow> (wms_world, unit) prog" where
  "ack_body upsert conflict link announce ev =
     bindP upsert (\<lambda>row. case row of
       None \<Rightarrow> failP conflict
     | Some r \<Rightarrow>
         bindP (case ak_evidence r of None \<Rightarrow> bindP (link ev) (\<lambda>_. returnP ev) | Some stored \<Rightarrow> returnP stored) (\<lambda>stored.
         if ak_count r = 1 then announce stored r else returnP ()))"

definition wms_ack_delivery :: "wms_params \<Rightarrow> string \<Rightarrow> actor \<Rightarrow> time \<Rightarrow> (wms_world, unit) prog" where
  "wms_ack_delivery X e a given =
     bindP (checkP (blank e \<or> ac_operator a = '''' \<or> ac_device a = '''' \<or> ac_warehouse a = '''') ErrOperatorRequired) (\<lambda>_.
     bindP (if is_zero given then clock_now else returnP given) (\<lambda>at_device.
     with_tx (bindP clock_now (\<lambda>at_backend.
       ack_body
         (bindP (sql (\<lambda>now. upsert_ack e a at_device at_backend None)) (\<lambda>row.
          case row of Some r \<Rightarrow> if ak_device_at r = None then failP (TextError ''cannot scan NULL into *time.Time'') else returnP row
          | None \<Rightarrow> returnP None))
         (TextError ''PDA_ACK_TIMESTAMP_CONFLICT'') (set_evidence e a)
         (\<lambda>ev r. append_delivery_ack X e ev a (case ak_device_at r of Some t \<Rightarrow> t | None \<Rightarrow> time_zero) at_backend)
         (delivery_event_id X e a)))))"

definition pg_ack_delivery :: "wms_params \<Rightarrow> string \<Rightarrow> actor \<Rightarrow> time \<Rightarrow> (wms_world, unit) prog" where
  "pg_ack_delivery X e a given =
     bindP (checkP (e = '''' \<or> ac_operator a = '''' \<or> ac_device a = '''' \<or> ac_warehouse a = '''')
       (DomainError ''OPERATOR_CONTEXT_REQUIRED'' ''Operator and device context are required'' False)) (\<lambda>_.
     bindP (if is_zero given then clock_now else returnP given) (\<lambda>at_device.
     with_tx (bindP clock_now (\<lambda>at_backend.
       let ev = delivery_event_id X e a;
           payload = go_map [(''delivery_event_id'', JStr e), (''operator_id'', JStr (ac_operator a)),
             (''device_id'', JStr (ac_device a)), (''warehouse_id'', JStr (ac_warehouse a)),
             (''device_received_at'', JTime at_device), (''backend_recorded_at'', JTime at_backend)] in
       ack_body (sql (\<lambda>now. upsert_ack e a at_device at_backend (Some ev)))
         (DomainError ''PDA_ACK_TIMESTAMP_CONFLICT'' ''Delivery acknowledgement timestamp conflicts with existing evidence'' False)
         (set_evidence e a)
         (\<lambda>out r. insert_ack_event out e
            (ack_envelope (wx_uuid_string X out) at_device ''PDAEventDelivery'' e (ac_correlation a) e payload))
         ev))))"

section \<open>The HTTP surface\<close>

text \<open>
  The HTTP surface of the WMS task workflow, \<open>internal/wmstask/http.go\<close>. Its answers are not the
  envelopes of the gateway, and its handlers write their own errors, so they never fail.
\<close>

section \<open>Documents\<close>

definition wms_task_json :: "wms_task \<Rightarrow> json" where
  "wms_task_json t = JObj ([(''warehouseTaskId'', JStr (wk_id t)), (''pdaTaskId'', JStr (wk_pda_id t)),
     (''taskType'', JStr (wk_type t)), (''taskVersion'', json_int64 (wk_version t)), (''wmsStatus'', JStr (wk_status t)),
     (''executionState'', JStr (wk_state t)), (''priority'', json_int64 (wk_priority t)),
     (''warehouseId'', JStr (wk_warehouse t))]
     @ omit_empty ''workOrderCode'' (wk_work_order_code t) @ omit_empty ''itemCode'' (wk_item_code t)
     @ omit_empty ''revisionId'' (wk_revision t) @ omit_empty ''lotId'' (wk_lot t)
     @ omit_empty ''sourceLocationId'' (wk_source t) @ omit_empty ''sourceLocationCode'' (wk_source_code t)
     @ omit_empty ''sourceBinId'' (wk_source_bin t) @ omit_empty ''sourceBinCode'' (wk_source_bin_code t)
     @ omit_empty ''destinationLocationId'' (wk_dest t) @ omit_empty ''destinationLocationCode'' (wk_dest_code t)
     @ omit_empty ''destinationBinId'' (wk_dest_bin t) @ omit_empty ''destinationBinCode'' (wk_dest_bin_code t)
     @ omit_empty ''lpnCode'' (wk_lpn t)
     @ [(''allocations'', JArr (wk_allocations t)), (''requestedQuantity'', JNum (wk_requested t)),
        (''confirmedQuantity'', JNum (wk_confirmed t)), (''remainingQuantity'', JNum (wk_remaining t))]
     @ omit_empty ''uomCode'' (wk_uom t)
     @ [(''scanRequirements'', JArr (map JStr (wk_scans t))), (''completedScans'', JArr (map JStr (wk_completed_scans t)))]
     @ omit_empty ''operatorId'' (wk_operator t) @ omit_empty ''correlationId'' (wk_correlation t))"

definition wms_json :: "int \<Rightarrow> json \<Rightarrow> response" where
  "wms_json status j = \<lparr>hp_status = status, hp_headers = content_json, hp_body = Some j\<rparr>"

section \<open>Errors\<close>

text \<open>\<open>err.Error()\<close>; the one wrapped error puts its text behind the cause.\<close>

fun error_text :: "wms_params \<Rightarrow> err \<Rightarrow> string" where
  "error_text X (TextError m) = m"
| "error_text X (WrapError m e) = error_text X e @ m"
| "error_text X e = wx_error X e"

definition status_for :: "err \<Rightarrow> int" where
  "status_for e =
     (if errors_is e ErrWmsTaskNotFound then 404
      else if errors_is e ErrWmsVersionConflict \<or> errors_is e ErrCommandConflict \<or> errors_is e ErrAlreadyFinished then 409
      else if errors_is e ErrOperatorRequired then 403 else 422)"

definition wms_error :: "wms_params \<Rightarrow> err \<Rightarrow> response" where
  "wms_error X e = wms_json (status_for e) (JObj [(''error'', JObj [(''code'', JStr (error_text X e))])])"

definition wms_respond :: "wms_params \<Rightarrow> (wms_world, json) prog \<Rightarrow> (wms_world, response) prog" where
  "wms_respond X m = bindP (tryP m) (\<lambda>r. returnP (case r of
     Inl e \<Rightarrow> wms_error X e | Inr j \<Rightarrow> wms_json 200 (JObj [(''data'', j)])))"

section \<open>Command bodies\<close>

record command_fields =
  cf_command :: string
  cf_version :: int64
  cf_scan_type :: string
  cf_scan_value :: string
  cf_quantity :: rat
  cf_reason :: string

definition command_body_fields :: "(string \<times> field) list" where
  "command_body_fields = [(''commandId'', Plain KStr), (''expectedVersion'', Plain KInt), (''scanType'', Plain KStr),
     (''scanValue'', Plain KStr), (''confirmedQuantity'', Plain KRaw), (''reasonCode'', Plain KStr)]"

definition float_of :: "members \<Rightarrow> string \<Rightarrow> rat option" where
  "float_of ms k = (case map_of ms k of
     None \<Rightarrow> Some 0 | Some JNull \<Rightarrow> Some 0 | Some (JInt n) \<Rightarrow> Some (of_int n) | Some (JNum x) \<Rightarrow> Some x | _ \<Rightarrow> None)"

definition read_command_body :: "parsers \<Rightarrow> raw_message \<Rightarrow> command_fields option" where
  "read_command_body px b =
     (case (case b of RawEmpty \<Rightarrow> (True, []) | RawInvalid \<Rightarrow> (False, [])
        | RawJSON j \<Rightarrow> decode_object False (decode_field False px) command_body_fields j) of
      (ok, ms) \<Rightarrow> (case float_of ms ''confirmedQuantity'' of
        None \<Rightarrow> None
      | Some x \<Rightarrow> if ok then Some \<lparr>cf_command = str_of ms ''commandId'', cf_version = int_of ms ''expectedVersion'',
            cf_scan_type = str_of ms ''scanType'', cf_scan_value = str_of ms ''scanValue'', cf_quantity = x,
            cf_reason = str_of ms ''reasonCode''\<rparr> else None))"

text \<open>Without a command id the version in \<open>If-Match\<close> is not looked at.\<close>

definition decode_command :: "wms_params \<Rightarrow> request \<Rightarrow> (wms_world, command_fields \<times> uuid) prog" where
  "decode_command X q = (case read_command_body (wx_parsers X) (rq_body q) of
     None \<Rightarrow> failP (TextError ''INVALID_REQUEST_BODY'')
   | Some b \<Rightarrow>
      (let raw = first_of (trim_space (cf_command b)) (trim_space (rq_header q ''Idempotency-Key'')) in
       if raw = '''' then bindP new_uuid (\<lambda>u. returnP (b, u))
       else case px_uuid (wx_parsers X) raw of
         None \<Rightarrow> failP (TextError ''INVALID_COMMAND_ID'')
       | Some u \<Rightarrow> returnP (if cf_version b = 0
           then (case if_match q of Some v \<Rightarrow> (b\<lparr>cf_version := v\<rparr>, u) | None \<Rightarrow> (b, u)) else (b, u))))"

section \<open>Handlers\<close>

type_synonym wms_handler = "wms_params \<Rightarrow> request \<Rightarrow> (wms_world, response) prog"

definition wms_handle_list :: wms_handler where
  "wms_handle_list X q = wms_respond X (bindP
     (wms_list X (first_of (rq_query q ''warehouseId'') (ac_warehouse (actor_of q))) (rq_query q ''state''))
     (\<lambda>ts. returnP (JArr (map wms_task_json ts))))"

definition wms_handle_detail :: wms_handler where
  "wms_handle_detail X q = wms_respond X (bindP (wms_get X (rq_param q ''taskId'')) (\<lambda>t. returnP (wms_task_json t)))"

definition wms_handle_command ::
    "(command_fields \<Rightarrow> uuid \<Rightarrow> actor \<Rightarrow> string \<Rightarrow> (wms_world, wms_task) prog) \<Rightarrow> wms_handler" where
  "wms_handle_command f X q = wms_respond X
     (bindP (decode_command X q) (\<lambda>(b, u).
      bindP (f b u (actor_of q) (rq_param q ''taskId'')) (\<lambda>t. returnP (wms_task_json t))))"

definition wms_handle_start :: wms_handler where
  "wms_handle_start X = wms_handle_command (\<lambda>b u a i. wms_start X i (cf_version b) u a) X"

definition wms_handle_scan :: wms_handler where
  "wms_handle_scan X = wms_handle_command (\<lambda>b u a i. wms_scan X i (cf_scan_type b) (cf_scan_value b) (cf_version b) u a) X"

definition wms_handle_complete :: wms_handler where
  "wms_handle_complete X = wms_handle_command (\<lambda>b u a i. wms_complete X i (cf_quantity b) (cf_version b) u a) X"

definition wms_handle_fail :: wms_handler where
  "wms_handle_fail X = wms_handle_command (\<lambda>b u a i. wms_fail X i (cf_reason b) (cf_version b) u a) X"

definition wms_task_routes :: "(string \<times> string \<times> wms_handler) list" where
  "wms_task_routes = [(''GET'', ''/'', wms_handle_list), (''GET'', ''/{taskId}'', wms_handle_detail),
     (''POST'', ''/{taskId}/start'', wms_handle_start), (''POST'', ''/{taskId}/scans'', wms_handle_scan),
     (''POST'', ''/{taskId}/completion'', wms_handle_complete), (''POST'', ''/{taskId}/failure'', wms_handle_fail)]"

end
