(* ===== verification/Wms_Consumer.thy ===== *)
theory Wms_Consumer
  imports Wms_Service
begin

text \<open>
  What the backend takes in from Kafka: the canonical envelope of
  \<open>internal/integration/adapters/kafka/integration_envelope.go\<close>, the tasks WMS dispatches
  (\<open>wms_task_consumer.go\<close>) and the receipts Inbound confirmed (\<open>inbound_receipt_consumer.go\<close>). The loops
  that fetch and commit offsets are Kafka's; what happens to one message is modelled.
\<close>

record consumer_params =
  kx_group :: string
  kx_parsers :: parsers
  kx_sha1 :: "string \<Rightarrow> uuid"
  kx_range :: "string list \<Rightarrow> string list"
  kx_quote :: "string \<Rightarrow> string"
  kx_text :: "raw_message \<Rightarrow> string"

record kafka_message =
  km_topic :: string
  km_partition :: int
  km_offset :: int
  km_value :: raw_message
  km_time :: time

section \<open>The envelope\<close>

record wire_envelope =
  we_id :: string
  we_type :: string
  we_occurred :: string
  we_trace :: string
  we_aggregate :: string
  we_correlation :: string
  we_metadata :: members
  we_payload :: raw_message

definition wire_fields :: "(string \<times> field) list" where
  "wire_fields = [(''event_id'', Plain KStr), (''event_type'', Plain KStr), (''event_version'', Plain KInt),
     (''occurred_at'', Plain KStr), (''published_at'', Plain KStr), (''source_service'', Plain KStr),
     (''producer'', Plain KStr), (''trace_id'', Plain KStr), (''aggregate_type'', Plain KStr), (''aggregate_id'', Plain KStr),
     (''aggregate_version'', Plain KInt), (''correlation_id'', Plain KStr), (''causation_id'', Plain KStr),
     (''site_id'', Plain KStr), (''schema_version'', Plain KInt), (''metadata'', Plain KRaw), (''payload'', Plain KRaw)]"

text \<open>\<open>json.Unmarshal\<close>: unknown members are ignored, a member of the wrong kind is an error.\<close>

definition unmarshal :: "parsers \<Rightarrow> (string \<times> field) list \<Rightarrow> raw_message \<Rightarrow> members option" where
  "unmarshal px fs b = (case b of
     RawJSON j \<Rightarrow> (case decode_object False (decode_field False px) fs j of (ok, ms) \<Rightarrow> if ok then Some ms else None)
   | _ \<Rightarrow> None)"

definition object_of :: "members \<Rightarrow> string \<Rightarrow> members option" where
  "object_of ms k = (case map_of ms k of None \<Rightarrow> Some [] | Some JNull \<Rightarrow> Some [] | Some (JObj os) \<Rightarrow> Some os | _ \<Rightarrow> None)"

definition wire_envelope_of :: "parsers \<Rightarrow> raw_message \<Rightarrow> wire_envelope option" where
  "wire_envelope_of px b = (case unmarshal px wire_fields b of
     None \<Rightarrow> None
   | Some ms \<Rightarrow> map_option (\<lambda>meta. \<lparr>we_id = str_of ms ''event_id'', we_type = str_of ms ''event_type'',
       we_occurred = str_of ms ''occurred_at'', we_trace = str_of ms ''trace_id'', we_aggregate = str_of ms ''aggregate_id'',
       we_correlation = str_of ms ''correlation_id'', we_metadata = meta,
       we_payload = (case map_of ms ''payload'' of None \<Rightarrow> RawEmpty | Some j \<Rightarrow> RawJSON j)\<rparr>) (object_of ms ''metadata''))"

text \<open>The required members are looked at in the order Go's map gives them.\<close>

definition parse_timestamp :: "consumer_params \<Rightarrow> string \<Rightarrow> err + time" where
  "parse_timestamp K s = (case px_time_text (kx_parsers K) s of
     Some t \<Rightarrow> Inr t | None \<Rightarrow> Inl (TextError (''unrecognised timestamp '' @ kx_quote K s)))"

definition missing_members :: "wire_envelope \<Rightarrow> string list" where
  "missing_members e = (if blank (we_id e) then [''event_id''] else []) @ (if blank (we_type e) then [''event_type''] else [])
     @ (if we_payload e = RawEmpty then [''payload''] else [])"

definition validate_wire :: "consumer_params \<Rightarrow> wire_envelope \<Rightarrow> string + unit" where
  "validate_wire K e =
     (case filter (\<lambda>k. k \<in> set (missing_members e)) (kx_range K [''event_id'', ''event_type'', ''payload'']) of
        k # _ \<Rightarrow> Inl (''integration envelope '' @ k @ '' is required'')
      | [] \<Rightarrow> if we_payload e = RawEmpty then Inl ''integration envelope payload must be valid JSON''
          else if we_occurred e \<noteq> '''' \<and> isl (parse_timestamp K (we_occurred e))
          then Inl (''integration envelope occurred_at must be UTC ISO-8601: unrecognised timestamp '' @ kx_quote K (we_occurred e))
          else Inr ())"

text \<open>\<open>fmt.Sscanf\<close> with \<open>%d\<close> behind the last \<open>.v\<close>: spaces, a sign, digits as far as they go.\<close>

fun after_last :: "string \<Rightarrow> string \<Rightarrow> string option" where
  "after_last p [] = None"
| "after_last p (c # s) = (case after_last p s of
     Some r \<Rightarrow> Some r
   | None \<Rightarrow> if take (length p) (c # s) = p then Some (drop (length p) (c # s)) else None)"

definition scan_decimal :: "string \<Rightarrow> int option" where
  "scan_decimal s =
     (let s1 = dropWhile (\<lambda>c. c = CHR '' '') s;
          signed = (case s1 of c # r \<Rightarrow> c = CHR ''-'' \<or> c = CHR ''+'' | [] \<Rightarrow> False);
          digits = takeWhile (\<lambda>c. digit_value c \<noteq> None) (if signed then tl s1 else s1) in
      case parse_digits digits of
        None \<Rightarrow> None
      | Some n \<Rightarrow> (let v = (if signed \<and> hd s1 = CHR ''-'' then - n else n) in if in_int64 v then Some v else None))"

definition contract_version :: "wire_envelope \<Rightarrow> int" where
  "contract_version e = (case after_last ''.v'' (we_type e) of
     None \<Rightarrow> 0 | Some r \<Rightarrow> (case scan_decimal r of None \<Rightarrow> 0 | Some n \<Rightarrow> n))"

definition partition_key :: "wire_envelope \<Rightarrow> string" where
  "partition_key e = (case map_of (we_metadata e) ''partition_key'' of
     Some (JStr k) \<Rightarrow> first_of k (we_aggregate e) | _ \<Rightarrow> we_aggregate e)"

section \<open>Dispatched tasks\<close>

record dispatch =
  dp_task :: string
  dp_type :: string
  dp_version :: int64
  dp_status :: string
  dp_priority :: int64
  dp_text :: "string \<Rightarrow> string"
  dp_requested :: rat
  dp_confirmed :: rat
  dp_remaining :: rat
  dp_serials :: "string list"
  dp_allocations :: "json list"
  dp_scans :: "string list"

text \<open>\<open>dp_text\<close> holds the fields that are texts and nothing more, by the name of their member.\<close>

definition dispatch_texts :: "string list" where
  "dispatch_texts = [''site_id'', ''warehouse_id'', ''warehouse_code'', ''source_location_id'', ''source_location_code'',
     ''source_bin_id'', ''source_bin_code'', ''destination_location_id'', ''destination_location_code'',
     ''destination_bin_id'', ''destination_bin_code'', ''work_order_id'', ''work_order_code'', ''material_request_id'',
     ''material_request_line_id'', ''expected_receipt_id'', ''item_id'', ''item_code'', ''revision_id'', ''revision_code'',
     ''uom_id'', ''uom_code'', ''lot_id'', ''lot_code'', ''lpn_code'', ''assigned_operator_id'', ''assigned_device_id'',
     ''correlation_id'', ''causation_id'']"

definition dispatch_fields :: "(string \<times> field) list" where
  "dispatch_fields = [(''warehouse_task_id'', Plain KStr), (''task_type'', Plain KStr), (''task_version'', Plain KInt),
     (''status'', Plain KStr), (''priority'', Plain KInt)] @ map (\<lambda>k. (k, Plain KStr)) dispatch_texts
     @ [(''requested_quantity'', Plain KRaw), (''confirmed_quantity'', Plain KRaw), (''remaining_quantity'', Plain KRaw),
        (''serial_numbers'', Plain KStrs), (''allocations'', Plain KRaw), (''scan_requirements'', Plain KStrs)]"

definition number_of :: "members \<Rightarrow> string \<Rightarrow> rat option" where
  "number_of ms k = (case map_of ms k of
     None \<Rightarrow> Some 0 | Some JNull \<Rightarrow> Some 0 | Some (JInt n) \<Rightarrow> Some (of_int n) | Some (JNum x) \<Rightarrow> Some x | _ \<Rightarrow> None)"

definition values_of :: "members \<Rightarrow> string \<Rightarrow> json list option" where
  "values_of ms k = (case map_of ms k of None \<Rightarrow> Some [] | Some JNull \<Rightarrow> Some [] | Some (JArr js) \<Rightarrow> Some js | _ \<Rightarrow> None)"

definition dispatch_of :: "parsers \<Rightarrow> raw_message \<Rightarrow> dispatch option" where
  "dispatch_of px b = (case unmarshal px dispatch_fields b of
     None \<Rightarrow> None
   | Some ms \<Rightarrow>
       (case (number_of ms ''requested_quantity'', number_of ms ''confirmed_quantity'', number_of ms ''remaining_quantity'',
              values_of ms ''allocations'') of
         (Some x, Some y, Some z, Some js) \<Rightarrow> Some \<lparr>dp_task = str_of ms ''warehouse_task_id'', dp_type = str_of ms ''task_type'',
            dp_version = int_of ms ''task_version'', dp_status = str_of ms ''status'', dp_priority = int_of ms ''priority'',
            dp_text = str_of ms, dp_requested = x, dp_confirmed = y, dp_remaining = z,
            dp_serials = strs_of ms ''serial_numbers'', dp_allocations = js, dp_scans = strs_of ms ''scan_requirements''\<rparr>
       | _ \<Rightarrow> None))"

definition task_category :: "string \<Rightarrow> string option" where
  "task_category ty =
     (let t = to_upper ty in
      if t \<in> {''PICKING'', ''STAGE_TO_PRODUCTION'', ''ISSUE_TO_PRODUCTION''} then Some ''PICKING''
      else if t = ''PUTAWAY'' then Some ''PUTAWAY''
      else if t \<in> {''RECEIVE_FINISHED_GOODS'', ''RECEIVE_SEMI_FINISHED'', ''RETURN_FROM_PRODUCTION''} then Some ''RECEIVING''
      else if t \<in> {''REPLENISHMENT'', ''TRANSFER''} then Some ''REPLENISHMENT'' else None)"

definition queue_status :: "string \<Rightarrow> string option" where
  "queue_status status =
     (let s = to_upper status in
      if s = ''CREATED'' then Some ''NEW''
      else if s \<in> {''ASSIGNED'', ''CLAIMED''} then Some ''ASSIGNED''
      else if s \<in> {''IN_PROGRESS'', ''PARTIALLY_COMPLETED''} then Some ''IN_PROGRESS''
      else if s = ''COMPLETED'' then Some ''COMPLETED''
      else if s \<in> {''CANCELLED'', ''FAILED''} then Some '''' else None)"

definition priority_or_default :: "int64 \<Rightarrow> int64" where
  "priority_or_default p = (if i64_le p 0 \<or> i64_less 100 p then 5 else p)"

section \<open>Dead letters\<close>

definition message_key :: "kafka_message \<Rightarrow> string" where
  "message_key m = km_topic m @ ''|'' @ int_text (km_partition m) @ ''|'' @ int_text (km_offset m)"

definition dead_letter ::
    "consumer_params \<Rightarrow> uuid \<Rightarrow> string \<Rightarrow> string \<Rightarrow> kafka_message \<Rightarrow> (wms_world, unit) prog" where
  "dead_letter K eid ty failure m =
     (let i = (if eid = uuid_nil then kx_sha1 K (message_key m) else eid);
          j = go_map [(''raw_payload'', JStr (kx_text K (km_value m))), (''topic'', JStr (km_topic m)),
            (''partition'', JInt (km_partition m)), (''offset'', JInt (km_offset m)), (''event_type'', JStr ty)] in
      sql (on_table event_dlq (\<lambda>x d. d\<lparr>event_dlq := x\<rparr>) (\<lambda>now tab. no_value (upsert_at ''event_dlq'' (\<lambda>_. True) (i, kx_group K)
        \<lparr>dq_envelope = j, dq_attempts = 1, dq_error = failure\<rparr>
        (\<lambda>r. r\<lparr>dq_attempts := dq_attempts r + 1, dq_error := failure\<rparr>) tab))))"

section \<open>The projection\<close>

definition projection_row_of ::
    "uuid \<Rightarrow> dispatch \<Rightarrow> json \<Rightarrow> time option \<Rightarrow> time \<Rightarrow> time \<Rightarrow> rat \<times> rat \<times> rat \<Rightarrow> projection_row" where
  "projection_row_of eid p raw sent got now quantities =
     (let t = (\<lambda>k. null_if (dp_text p k)) in
      \<lparr>pj_type = to_upper (dp_type p), pj_version = dp_version p, pj_status = to_upper (dp_status p),
       pj_priority = priority_or_default (dp_priority p), pj_site = t ''site_id'', pj_warehouse = dp_text p ''warehouse_id'',
       pj_warehouse_code = t ''warehouse_code'', pj_source = t ''source_location_id'', pj_dest = t ''destination_location_id'',
       pj_work_order = t ''work_order_id'', pj_work_order_code = t ''work_order_code'', pj_request = t ''material_request_id'',
       pj_request_line = t ''material_request_line_id'', pj_receipt = t ''expected_receipt_id'', pj_item = t ''item_id'',
       pj_item_code = t ''item_code'', pj_revision = t ''revision_id'', pj_revision_code = t ''revision_code'',
       pj_requested = fst quantities, pj_confirmed = fst (snd quantities), pj_remaining = snd (snd quantities),
       pj_uom_id = t ''uom_id'', pj_uom = t ''uom_code'', pj_lot = t ''lot_id'', pj_lot_code = t ''lot_code'',
       pj_serials = dp_serials p, pj_scans = dp_scans p, pj_correlation = t ''correlation_id'', pj_cause = t ''causation_id'',
       pj_payload = raw, pj_event = eid, pj_dispatched = now, pj_source_dispatched = sent, pj_received = got,
       pj_source_code = t ''source_location_code'', pj_source_bin = t ''source_bin_id'',
       pj_source_bin_code = t ''source_bin_code'', pj_dest_code = t ''destination_location_code'',
       pj_dest_bin = t ''destination_bin_id'', pj_dest_bin_code = t ''destination_bin_code'', pj_lpn = t ''lpn_code'',
       pj_allocations = dp_allocations p, pj_updated = now\<rparr>)"

definition merge_projection :: "projection_row \<Rightarrow> projection_row \<Rightarrow> projection_row" where
  "merge_projection new old = new\<lparr>pj_dispatched := pj_dispatched old,
     pj_source_dispatched := (case pj_source_dispatched new of None \<Rightarrow> pj_source_dispatched old | Some t \<Rightarrow> Some t),
     pj_received := min (pj_received old) (pj_received new)\<rparr>"

definition quantities_of :: "dispatch \<Rightarrow> err + rat \<times> rat \<times> rat" where
  "quantities_of p = (case (numeric6 (dp_requested p), numeric6 (dp_confirmed p), numeric6 (dp_remaining p)) of
     (Inr x, Inr y, Inr z) \<Rightarrow> Inr (x, y, z) | _ \<Rightarrow> Inl (TextError ''numeric field overflow''))"

definition upsert_projection ::
    "uuid \<Rightarrow> dispatch \<Rightarrow> json \<Rightarrow> time option \<Rightarrow> time \<Rightarrow> (wms_world, unit) prog" where
  "upsert_projection eid p raw sent got =
     sql (on_table wms_task_projection (\<lambda>x d. d\<lparr>wms_task_projection := x\<rparr>) (\<lambda>now tab.
       no_value (case quantities_of p of
           Inl e \<Rightarrow> Inl e
         | Inr qs \<Rightarrow> (let r = projection_row_of eid p raw sent got now qs in
             upsert_at ''wms_task_projection'' projection_ok (dp_task p) r (merge_projection r) tab))))"

section \<open>The operators' queue\<close>

definition queue_row :: "dispatch \<Rightarrow> string \<Rightarrow> string \<Rightarrow> time \<Rightarrow> warehouse_row" where
  "queue_row p category status now = \<lparr>wt_category = category, wt_status = status,
     wt_priority = priority_or_default (dp_priority p), wt_warehouse = dp_text p ''warehouse_id'',
     wt_operator = null_if (dp_text p ''assigned_operator_id''), wt_version = dp_version p, wt_updated = now\<rparr>"

definition merge_queue :: "warehouse_row \<Rightarrow> warehouse_row \<Rightarrow> warehouse_row" where
  "merge_queue new old = new\<lparr>wt_operator := (case wt_operator new of None \<Rightarrow> wt_operator old | Some o1 \<Rightarrow> Some o1)\<rparr>"

definition sync_operator_queue :: "dispatch \<Rightarrow> string \<Rightarrow> string \<Rightarrow> (wms_world, unit) prog" where
  "sync_operator_queue p category status =
     sql (on_table warehouse_task (\<lambda>x d. d\<lparr>warehouse_task := x\<rparr>) (\<lambda>now tab. no_value
       (if status = '''' then Inr (AList.delete (dp_task p) tab)
        else (let r = queue_row p category status now in
          upsert_at ''warehouse_task'' warehouse_ok (dp_task p) r (merge_queue r) tab))))"

section \<open>One delivery\<close>

text \<open>A message that passed the checks: event id and type, what it says, its category and status in the
  queue, the payload as it came, and when it was sent, which the validation of the envelope has parsed.\<close>

record accepted =
  xa_event :: uuid
  xa_type :: string
  xa_dispatch :: dispatch
  xa_category :: string
  xa_status :: string
  xa_payload :: json
  xa_sent :: "time option"

datatype verdict = Rejected uuid string string | Accepted accepted

definition examine :: "consumer_params \<Rightarrow> kafka_message \<Rightarrow> verdict" where
  "examine K m = (case wire_envelope_of (kx_parsers K) (km_value m) of
     None \<Rightarrow> Rejected uuid_nil '''' ''MALFORMED_ENVELOPE''
   | Some e \<Rightarrow> (case validate_wire K e of
       Inl text \<Rightarrow> Rejected uuid_nil (we_type e) (''INVALID_ENVELOPE:'' @ text)
     | Inr _ \<Rightarrow> (case px_uuid (kx_parsers K) (we_id e) of
         None \<Rightarrow> Rejected uuid_nil (we_type e) ''EVENT_ID_NOT_UUID''
       | Some eid \<Rightarrow>
           if contract_version e = 0 \<or> contract_version e > 1
           then Rejected eid (we_type e) (''UNSUPPORTED_EVENT_VERSION:'' @ int_text (contract_version e))
           else case dispatch_of (kx_parsers K) (we_payload e) of
             None \<Rightarrow> Rejected eid (we_type e) ''MALFORMED_PAYLOAD''
           | Some p \<Rightarrow>
               if dp_task p = '''' \<or> dp_text p ''warehouse_id'' = '''' \<or> i64_less (dp_version p) 1
               then Rejected eid (we_type e) ''MISSING_REQUIRED_IDENTITY''
               else case task_category (dp_type p) of
                 None \<Rightarrow> Rejected eid (we_type e) (''UNSUPPORTED_TASK_TYPE:'' @ dp_type p)
               | Some cat \<Rightarrow> (case queue_status (dp_status p) of
                   None \<Rightarrow> Rejected eid (we_type e) (''UNSUPPORTED_TASK_STATUS:'' @ dp_status p)
                 | Some st \<Rightarrow> Accepted \<lparr>xa_event = eid, xa_type = we_type e, xa_dispatch = p, xa_category = cat,
                     xa_status = st, xa_payload = (case we_payload e of RawJSON j \<Rightarrow> j | _ \<Rightarrow> JNull),
                     xa_sent = (if we_occurred e = '''' then None else px_time_text (kx_parsers K) (we_occurred e))\<rparr>))))"

text \<open>\<open>INSERT \<dots> ON CONFLICT DO NOTHING\<close>: did the row go in?\<close>

definition claim_event :: "uuid \<Rightarrow> string \<Rightarrow> (wms_world, bool) prog" where
  "claim_event eid grp = sql (on_table event_inbox (\<lambda>x d. d\<lparr>event_inbox := x\<rparr>) (\<lambda>now tab.
     Inr (if map_of tab (eid, grp) = None then (True, tab @ [((eid, grp), now)]) else (False, tab))))"

definition insert_stale :: "stale_row \<Rightarrow> (wms_world, unit) prog" where
  "insert_stale r = sql (on_table wms_task_stale_delivery (\<lambda>x d. d\<lparr>wms_task_stale_delivery := x\<rparr>) (\<lambda>now tab.
     Inr ((), tab @ [r])))"

text \<open>The version is read with \<open>FOR UPDATE\<close>: the row is locked until the transaction ends, if there is a
  row; what is written afterwards goes by the version read. (How transactions overlap in between is
  the subject of the theory of deliveries.)\<close>

definition read_projected :: "string \<Rightarrow> (wms_world, int64) prog" where
  "read_projected i = query (\<lambda>now d. case map_of (wms_task_projection d) i of None \<Rightarrow> 0 | Some r \<Rightarrow> pj_version r)"

definition write_delivery :: "consumer_params \<Rightarrow> time \<Rightarrow> accepted \<Rightarrow> int64 \<Rightarrow> (wms_world, unit) prog" where
  "write_delivery K at_broker x projected =
     (let p = xa_dispatch x in
      if i64_le (dp_version p) projected
      then insert_stale \<lparr>sd_event = xa_event x, sd_task = dp_task p, sd_incoming = dp_version p, sd_projected = projected,
          sd_type = xa_type x\<rparr>
      else bindP (if is_zero at_broker then clock_now else returnP at_broker) (\<lambda>got.
        bindP (upsert_projection (xa_event x) p (xa_payload x) (xa_sent x) got) (\<lambda>_.
        sync_operator_queue p (xa_category x) (xa_status x))))"

definition apply_delivery :: "consumer_params \<Rightarrow> time \<Rightarrow> accepted \<Rightarrow> (wms_world, unit) prog" where
  "apply_delivery K at_broker x =
     bindP (claim_event (xa_event x) (kx_group K)) (\<lambda>fresh.
     if \<not> fresh then returnP ()
     else bindP (read_projected (dp_task (xa_dispatch x))) (write_delivery K at_broker x))"

definition process_dispatch :: "consumer_params \<Rightarrow> kafka_message \<Rightarrow> (wms_world, unit) prog" where
  "process_dispatch K m = (case examine K m of
     Rejected eid ty failure \<Rightarrow> dead_letter K eid ty failure m
   | Accepted x \<Rightarrow> with_tx (apply_delivery K (km_time m) x))"

section \<open>Confirmed receipts\<close>

definition InboundReceiptConfirmedTopic :: string where
  [const_defs]: "InboundReceiptConfirmedTopic = ''WMS.Inbound.ReceiptConfirmed.v1''"

definition receipt_fields :: "(string \<times> field) list" where
  "receipt_fields = [(''receipt_id'', Plain KStr), (''status'', Plain KStr), (''warehouse_location_id'', Plain KStr)]"

definition receipt_of :: "consumer_params \<Rightarrow> kafka_message \<Rightarrow> err + uuid \<times> wire_envelope \<times> members" where
  "receipt_of K m = (case wire_envelope_of (kx_parsers K) (km_value m) of
     None \<Rightarrow> Inl (TextError ''decode envelope'')
   | Some e \<Rightarrow> (case validate_wire K e of
       Inl text \<Rightarrow> Inl (TextError text)
     | Inr _ \<Rightarrow>
         if we_type e \<noteq> InboundReceiptConfirmedTopic \<or> contract_version e \<noteq> 1
         then Inl (TextError (''unsupported inbound receipt event '' @ kx_quote K (we_type e)))
         else case px_uuid (kx_parsers K) (we_id e) of
           None \<Rightarrow> Inl (TextError (''invalid event_id '' @ kx_quote K (we_id e)))
         | Some eid \<Rightarrow> (case unmarshal (kx_parsers K) receipt_fields (we_payload e) of
             None \<Rightarrow> Inl (TextError ''decode receipt payload'')
           | Some ms \<Rightarrow>
               if str_of ms ''receipt_id'' = '''' \<or> str_of ms ''warehouse_location_id'' = '''' \<or> str_of ms ''status'' = ''''
               then Inl (TextError ''receipt confirmation payload is missing identity'')
               else Inr (eid, e, ms))))"

definition receipt_row :: "uuid \<Rightarrow> wire_envelope \<Rightarrow> members \<Rightarrow> receiving_work_row" where
  "receipt_row eid e ms = \<lparr>rw_location = str_of ms ''warehouse_location_id'', rw_status = str_of ms ''status'', rw_version = 1,
     rw_event = eid, rw_correlation = we_correlation e, rw_trace = we_trace e,
     rw_payload = (case we_payload e of RawJSON j \<Rightarrow> j | _ \<Rightarrow> JNull)\<rparr>"

text \<open>The source event of every row is another one; the version raises when it leaves \<open>bigint\<close>.\<close>

definition upsert_receipt :: "uuid \<Rightarrow> wire_envelope \<Rightarrow> members \<Rightarrow> (wms_world, unit) prog" where
  "upsert_receipt eid e ms = sql (on_table receiving_work_projection (\<lambda>x d. d\<lparr>receiving_work_projection := x\<rparr>) (\<lambda>now tab.
     let k = str_of ms ''receipt_id''; r = receipt_row eid e ms in
     no_value (if eid \<in> rw_event ` snd ` set (filter (\<lambda>(k', _). k' \<noteq> k) tab)
       then Inl (violates ''receiving_work_projection_source_event_id_key'')
       else case map_of tab k of
         None \<Rightarrow> Inr (tab @ [(k, r)])
       | Some old \<Rightarrow> (case bigint_add (rw_version old) 1 of
           None \<Rightarrow> Inl (TextError ''bigint out of range'')
         | Some v \<Rightarrow> Inr (AList.update k (r\<lparr>rw_version := v\<rparr>) tab)))))"

definition process_receipt :: "consumer_params \<Rightarrow> kafka_message \<Rightarrow> (wms_world, unit) prog" where
  "process_receipt K m = bindP (liftE (receipt_of K m)) (\<lambda>(eid, e, ms).
     with_tx (bindP (claim_event eid (kx_group K)) (\<lambda>fresh.
       if fresh then upsert_receipt eid e ms else returnP ())))"

end
