(* ===== verification/Wms_Contract.thy ===== *)
theory Wms_Contract
  imports Wms_Service Wms_Consumer
begin

text \<open>
  What the transactions of the WMS task workflow do to its tables: a rule for each command, the event
  it leaves in the outbox, and the invariants a sequence of calls keeps.
\<close>

section \<open>Transactions that may end early\<close>

lemma with_tx_or_leave_db:
  assumes "with_tx_or_leave m w = (r, w')"
  obtains (unchanged) "w_db w' = w_db w"
  | (committed) w1 w2 x where "w_db w1 = w_db w" "m w1 = (Inr (Inr x), w2)" "w_db w' = w_db w2"
  | (left) w1 w2 x where "w_db w1 = w_db w" "m w1 = (Inr (Inl x), w2)" "w_db w' = w_db w2"
proof -
  obtain q w1 where c: "commit_report m w = (q, w1)" by fastforce
  with assms have "w_db w' = w_db w1"
    by (auto simp: with_tx_or_leave_def bindP_def split: sum.splits prod.splits option.splits)
  from c show thesis
  proof (cases rule: commit_report_db)
    case unchanged with \<open>w_db w' = w_db w1\<close> that(1) show ?thesis by simp
  next
    case (committed w2 w3 x) with \<open>w_db w' = w_db w1\<close> that(2,3) show ?thesis by (cases x) auto
  qed
qed

lemma with_tx_or_leave_Inr:
  assumes "with_tx_or_leave m w = (Inr x, w')"
  obtains w1 w2 where "w_db w1 = w_db w" "m w1 = (Inr (Inr x), w2)" "w_db w' = w_db w2"
  | (left) w1 w2 where "m w1 = (Inr (Inl x), w2)" "w_db w1 = w_db w"
proof -
  from assms obtain r c w1 where c: "commit_report m w = (Inr (r, c), w1)"
    and k: "(case r of Inl x \<Rightarrow> returnP x | Inr x \<Rightarrow> (case c of None \<Rightarrow> returnP x | Some e \<Rightarrow> failP e)) w1 = (Inr x, w')"
    by (auto simp: with_tx_or_leave_def bindP_Inr_iff)
  from k have w': "w' = w1" and r: "r = Inl x \<or> r = Inr x \<and> c = None"
    by (auto split: sum.splits option.splits)
  show thesis
  proof (cases "r = Inl x")
    case True
    from c obtain w2 w3 where "m w2 = (Inr r, w3)" "w_db w2 = w_db w"
    proof -
      let ?w1 = "w\<lparr>w_tick := Suc (w_tick w), w_in_tx := True, w_aborted := False\<rparr>"
      obtain q w2 where m: "m ?w1 = (q, w2)" by fastforce
      with c have "q = Inr r"
        by (auto simp: commit_report_def Let_def split: if_splits sum.splits fault.splits)
      with m show thesis by (intro that [of ?w1 w2]) simp_all
    qed
    with True left show ?thesis by blast
  next
    case False
    with r c have "commit_report m w = (Inr (Inr x, None), w1)" by simp
    then show ?thesis by (rule commit_report_ok) (use w' that(1) in auto)
  qed
qed

section \<open>States and events\<close>

definition state_of :: "string \<Rightarrow> wms_tables \<Rightarrow> string" where
  "state_of i d = (case map_of (pda_task_execution d) i of None \<Rightarrow> ''DISPATCHED'' | Some r \<Rightarrow> xr_state r)"

definition facts_of :: "string \<Rightarrow> string \<Rightarrow> wms_tables \<Rightarrow> integration_row list" where
  "facts_of ty i d = filter (\<lambda>r. ig_type r = ty \<and> ig_aggregate r = i) (map snd (integration_outbox d))"

text \<open>What stands in the tables once the command is through, given what stood there when its change was
  made: the fact it reports, if any, is the last row of the outbox, for which a task that had no
  execution yet was given one.\<close>

definition given_id :: "string \<Rightarrow> (string \<times> execution_row) list \<Rightarrow> (string \<times> execution_row) list \<Rightarrow> bool" where
  "given_id i tab tab' \<longleftrightarrow> tab' = tab \<or> map_of tab i = None
     \<and> (\<exists>u v now. tab' = tab @ [(i, new_execution u v ''DISPATCHED'' now)])"

definition recorded :: "(string \<times> members) option \<Rightarrow> string \<Rightarrow> wms_tables \<Rightarrow> wms_tables \<Rightarrow> bool" where
  "recorded news i d d' \<longleftrightarrow> (\<exists>tab out cmds. d' = d\<lparr>pda_task_execution := tab, integration_outbox := out, pda_task_command := cmds\<rparr>
     \<and> given_id i (pda_task_execution d) tab
     \<and> (case news of None \<Rightarrow> out = integration_outbox d
        | Some (ty, _) \<Rightarrow> (\<exists>k r. out = integration_outbox d @ [(k, r)] \<and> ig_type r = ty \<and> ig_aggregate r = i
            \<and> map_of (integration_outbox d) k = None)))"

lemma wms_reads:
  "load_projection i w = (Inr p, w') \<Longrightarrow> w_db w' = w_db w \<and> (\<exists>r. map_of (wms_task_projection (w_db w)) i = Some r \<and> p = projection_of r)"
  "load_execution X i w = (Inr e, w') \<Longrightarrow> w_db w' = w_db w \<and> en_state e = state_of i (w_db w)"
  by (auto simp: load_projection_def load_execution_def prog_iffs state_of_def split: option.splits elim!: query_Inr)

lemma accepted_scan_types_Inr:
  "accepted_scan_types X i w = (Inr xs, w') \<Longrightarrow> w_db w' = w_db w \<and> xs = wx_distinct X (accepted_types i (w_db w))"
  by (auto simp: accepted_scan_types_def elim!: query_Inr)

lemma scan_evidence_Inr: "scan_evidence i w = (Inr j, w') \<Longrightarrow> w_db w' = w_db w"
  by (auto simp: scan_evidence_def elim!: query_Inr)

lemma read_task_Inr: "read_task X i w = (Inr t, w') \<Longrightarrow> w_db w' = w_db w
    \<and> (\<exists>t0. find_task X i (w_db w) = Some t0 \<and> t = t0\<lparr>wk_completed_scans := wx_distinct X (accepted_types i (w_db w))\<rparr>)"
  by (auto simp: read_task_def prog_iffs dest!: accepted_scan_types_Inr split: option.splits elim!: query_Inr)

lemma clock_uuid_db: "clock_now w = (r, w') \<Longrightarrow> w_db w' = w_db w" "new_uuid w = (q, w') \<Longrightarrow> w_db w' = w_db w"
  by (auto simp: clock_now_def new_uuid_def)

lemma insert_execution_None: "map_of tab i = None \<Longrightarrow> insert_execution i r f tab = Inr tab' \<Longrightarrow> tab' = tab @ [(i, r)]"
  by (auto simp: insert_execution_def upsert_at_def split: if_splits)

lemma ensure_pda_task_id_Inr:
  assumes "ensure_pda_task_id X i w = (Inr pid, w')"
  shows "\<exists>tab. w_db w' = (w_db w)\<lparr>pda_task_execution := tab\<rparr> \<and> given_id i (pda_task_execution (w_db w)) tab"
proof -
  from assms obtain row w1 where q: "query (\<lambda>now d. map_of (pda_task_execution d) i) w = (Inr row, w1)"
    and k: "(case row of Some r \<Rightarrow> returnP (wx_uuid_string X (xr_task_id r))
      | None \<Rightarrow> bindP new_uuid (\<lambda>u.
         bindP (sql (\<lambda>now d. case map_of (wms_task_projection d) i of
             None \<Rightarrow> Inr (False, d)
           | Some p \<Rightarrow> map_sum id (\<lambda>tab. (True, d\<lparr>pda_task_execution := tab\<rparr>))
               (insert_execution i (new_execution u (pj_version p) ''DISPATCHED'' now) id (pda_task_execution d)))) (\<lambda>found.
         if found then returnP (wx_uuid_string X u) else failP no_rows))) w1 = (Inr pid, w')"
    unfolding ensure_pda_task_id_def bindP_Inr_iff by blast
  from q obtain row: "row = map_of (pda_task_execution (w_db w)) i" and d1: "w_db w1 = w_db w" by (rule query_Inr) auto
  show ?thesis
  proof (cases row)
    case (Some r)
    with k d1 show ?thesis by (intro exI [of _ "pda_task_execution (w_db w)"]) (auto simp: given_id_def)
  next
    case None
    with k obtain u w2 w3 where u: "new_uuid w1 = (Inr u, w2)" and s: "sql (\<lambda>now d. case map_of (wms_task_projection d) i of
             None \<Rightarrow> Inr (False, d)
           | Some p \<Rightarrow> map_sum id (\<lambda>tab. (True, d\<lparr>pda_task_execution := tab\<rparr>))
               (insert_execution i (new_execution u (pj_version p) ''DISPATCHED'' now) id (pda_task_execution d))) w2 = (Inr True, w3)"
      and w': "w' = w3"
      by (auto simp: prog_iffs split: if_splits)
    from s obtain now tab and p :: projection_row where ins: "insert_execution i (new_execution u (pj_version p) ''DISPATCHED'' now) id (pda_task_execution (w_db w2)) = Inr tab"
      and d3: "(w_db w2)\<lparr>pda_task_execution := tab\<rparr> = w_db w3"
      by (rule sql_Inr) (auto simp: map_sum_def split: option.splits sum.splits)
    have d2: "w_db w2 = w_db w" using clock_uuid_db(2) [OF u] d1 by simp
    have n: "map_of (pda_task_execution (w_db w)) i = None" using None row by simp
    from insert_execution_None [OF n ins [unfolded d2]] d3 n show ?thesis unfolding w' d2
      by (intro exI [of _ tab]) (auto simp: given_id_def)
  qed
qed

lemma integration_event_sel [simp]: "ig_type (integration_event topic ty agg v k j now) = ty"
    "ig_aggregate (integration_event topic ty agg v k j now) = agg" "ig_topic (integration_event topic ty agg v k j now) = topic"
    "ig_published (integration_event topic ty agg v k j now) = None"
  by (simp_all add: integration_event_def)

lemma append_integration_event_Inr:
  assumes "append_integration_event X ty i p payload a w = (Inr u, w')"
  shows "\<exists>tab k r. w_db w' = (w_db w)\<lparr>pda_task_execution := tab, integration_outbox := integration_outbox (w_db w) @ [(k, r)]\<rparr>
    \<and> ig_type r = ty \<and> ig_aggregate r = i \<and> map_of (integration_outbox (w_db w)) k = None
    \<and> given_id i (pda_task_execution (w_db w)) tab"
proof -
  from assms obtain pid w1 eid w2 now w3 j where e: "ensure_pda_task_id X i w = (Inr pid, w1)"
    and n: "new_uuid w1 = (Inr eid, w2)" "clock_now w2 = (Inr now, w3)"
    and s: "sql (on_table integration_outbox (\<lambda>x d. d\<lparr>integration_outbox := x\<rparr>) (\<lambda>t tab.
       no_value (insert_at ''integration_outbox'' (\<lambda>_. True) eid
         (integration_event PDATaskEventTopic ty i (pn_version p) i j t) tab))) w3 = (Inr u, w')"
    unfolding append_integration_event_def Let_def bindP_Inr_iff by blast
  have d3: "w_db w3 = w_db w1" using clock_uuid_db(2) [OF n(1)] clock_uuid_db(1) [OF n(2)] by simp
  from ensure_pda_task_id_Inr [OF e] obtain tab where tab: "w_db w1 = (w_db w)\<lparr>pda_task_execution := tab\<rparr>"
    "given_id i (pda_task_execution (w_db w)) tab" by blast
  obtain t out where "no_value (insert_at ''integration_outbox'' (\<lambda>_. True) eid
      (integration_event PDATaskEventTopic ty i (pn_version p) i j t) (integration_outbox (w_db w3))) = Inr (u, out)"
    and d': "w_db w' = (w_db w3)\<lparr>integration_outbox := out\<rparr>"
    using s by (rule sql_table_Inr)
  then have "out = integration_outbox (w_db w3) @ [(eid, integration_event PDATaskEventTopic ty i (pn_version p) i j t)]"
    "map_of (integration_outbox (w_db w3)) eid = None"
    by (simp_all add: no_value_Inr insert_at_Inr)
  with tab d' show ?thesis unfolding d3 tab(1)
    by (intro exI [of _ tab] exI [of _ eid] exI [of _ "integration_event PDATaskEventTopic ty i (pn_version p) i j t"]) simp
qed

lemma command_effect_Inr:
  assumes "command_effect X i ty cid h change a w = (Inr t, w')"
  obtains r e news w1 w2 where "map_of (wms_task_projection (w_db w)) i = Some r"
    and "w_db w1 = w_db w" and "en_state e = state_of i (w_db w)"
    and "change (projection_of r) e w1 = (Inr news, w2)" and "recorded news i (w_db w2) (w_db w')"
proof -
  let ?pub = "\<lambda>p news. case news of None \<Rightarrow> returnP () | Some (ev, payload) \<Rightarrow> append_integration_event X ev i p payload a"
  from assms obtain p w0 e w1 news w2 u w3 w4 v where l: "load_projection i w = (Inr p, w0)" "load_execution X i w0 = (Inr e, w1)"
    and c: "change p e w1 = (Inr news, w2)" and pub: "?pub p news w2 = (Inr u, w3)" and rd: "read_task X i w3 = (Inr t, w4)"
    and s: "sql (on_table pda_task_command (\<lambda>x d. d\<lparr>pda_task_command := x\<rparr>) (\<lambda>now tab.
       no_value (insert_ignore ''pda_task_command'' wms_command_ok cid
         \<lparr>kr_task = i, kr_type = ty, kr_hash = h, kr_result = Some t\<rparr> tab))) w4 = (Inr v, w')"
    unfolding command_effect_def bindP_Inr_iff by auto
  from wms_reads(1) [OF l(1)] wms_reads(2) [OF l(2)] obtain r where r: "map_of (wms_task_projection (w_db w)) i = Some r"
    "p = projection_of r" and d1: "w_db w1 = w_db w" and e: "en_state e = state_of i (w_db w)"
    by auto
  from s obtain cmds where d': "w_db w' = (w_db w4)\<lparr>pda_task_command := cmds\<rparr>" by (rule sql_table_Inr)
  have "w_db w4 = w_db w3" using read_task_Inr [OF rd] by simp
  with d' have "w_db w' = (w_db w3)\<lparr>pda_task_command := cmds\<rparr>" by simp
  moreover have "\<exists>tab out. w_db w3 = (w_db w2)\<lparr>pda_task_execution := tab, integration_outbox := out\<rparr>
      \<and> given_id i (pda_task_execution (w_db w2)) tab \<and> (case news of None \<Rightarrow> out = integration_outbox (w_db w2)
        | Some (ty, _) \<Rightarrow> (\<exists>k r. out = integration_outbox (w_db w2) @ [(k, r)] \<and> ig_type r = ty \<and> ig_aggregate r = i
            \<and> map_of (integration_outbox (w_db w2)) k = None))"
  proof (cases news)
    case None
    with pub show ?thesis
      by (intro exI [of _ "pda_task_execution (w_db w2)"] exI [of _ "integration_outbox (w_db w2)"]) (simp add: given_id_def)
  next
    case (Some n)
    obtain ev pl where n: "n = (ev, pl)" by (cases n)
    from pub Some n have "append_integration_event X ev i p pl a w2 = (Inr u, w3)" by simp
    from append_integration_event_Inr [OF this] Some n show ?thesis by auto
  qed
  ultimately have "recorded news i (w_db w2) (w_db w')"
    unfolding recorded_def by (elim exE conjE) (intro exI conjI, auto)
  with r d1 e c that show thesis by blast
qed

section \<open>The changes of the commands\<close>

lemma put_execution_Inr:
  assumes "put_execution i r f w = (Inr u, w')"
  obtains tab where "w_db w' = (w_db w)\<lparr>pda_task_execution := tab\<rparr>"
    and "map_of tab = (map_of (pda_task_execution (w_db w)))(i \<mapsto> (case map_of (pda_task_execution (w_db w)) i of None \<Rightarrow> r | Some r0 \<Rightarrow> f r0))"
proof -
  obtain now tab where "no_value (insert_execution i r f (pda_task_execution (w_db w))) = Inr (u, tab)"
    and d: "w_db w' = (w_db w)\<lparr>pda_task_execution := tab\<rparr>"
    using assms unfolding put_execution_def by (rule sql_table_Inr)
  then have "upsert_at ''pda_task_execution'' execution_ok i r f (pda_task_execution (w_db w)) = Inr tab"
    by (simp add: no_value_Inr insert_execution_def split: if_splits)
  from upsert_at_map [OF this] d show thesis by (rule that [rotated])
qed

lemma insert_scan_Inr:
  assumes "insert_scan X i ty val ok reason a w = (Inr u, w')"
  obtains now where "w_db w' = (w_db w)\<lparr>pda_task_scan :=
      (if map_of (pda_task_scan (w_db w)) (i, ty, wx_sha256 X (ty @ ''|'' @ val)) = None
       then pda_task_scan (w_db w) @ [((i, ty, wx_sha256 X (ty @ ''|'' @ val)),
         \<lparr>zr_value = val, zr_accepted = ok, zr_reason = reason, zr_operator = ac_operator a, zr_device = ac_device a, zr_at = now\<rparr>)]
       else pda_task_scan (w_db w))\<rparr>"
  using assms [unfolded insert_scan_def]
  by (rule sql_Inr) (auto simp: on_table_Inr no_value_Inr insert_ignore_def split: if_splits)

text \<open>The row a change leaves: it starts, completes or fails the execution of the task and says so, or
  leaves every execution and the outbox alone.\<close>

definition moved :: "string \<Rightarrow> (string \<times> members) option \<Rightarrow> wms_tables \<Rightarrow> wms_tables \<Rightarrow> bool" where
  "moved i news d d' \<longleftrightarrow> integration_outbox d' = integration_outbox d \<and>
     (case news of
       None \<Rightarrow> pda_task_execution d' = pda_task_execution d
     | Some (ty, _) \<Rightarrow> state_of i d \<noteq> ''COMPLETED'' \<and> state_of i d \<noteq> ''FAILED'' \<and>
         (\<exists>r. map_of (pda_task_execution d') = (map_of (pda_task_execution d))(i \<mapsto> r) \<and>
            (ty = EventTaskStarted \<and> xr_state r = ''STARTED'' \<or> ty = EventTaskCompleted \<and> xr_state r = ''COMPLETED''
             \<or> ty = EventTaskFailed \<and> xr_state r = ''FAILED'')))"

lemma start_change_Inr:
  assumes "start_change i v a p e w = (Inr news, w')" and "en_state e = state_of i (w_db w)"
  shows "moved i news (w_db w) (w_db w')" and "pn_version p = v"
    and "\<exists>ms. news = Some (EventTaskStarted, ms)"
proof -
  let ?r = "\<lambda>now u. (new_execution u (pn_version p) ''STARTED'' now)\<lparr>xr_operator := Some (ac_operator a),
      xr_device := Some (ac_device a), xr_started := Some now\<rparr>"
  let ?f = "\<lambda>now r. r\<lparr>xr_version := pn_version p, xr_state := ''STARTED'', xr_operator := Some (ac_operator a),
      xr_device := Some (ac_device a), xr_started := (case xr_started r of None \<Rightarrow> Some now | Some t \<Rightarrow> Some t), xr_updated := now\<rparr>"
  from assms(1) obtain now w1 u w2 where v: "pn_version p = v" and st: "en_state e \<noteq> ''COMPLETED''" "en_state e \<noteq> ''FAILED''"
    and n: "clock_now w = (Inr now, w1)" "new_uuid w1 = (Inr u, w2)"
    and put: "put_execution i (?r now u) (?f now) w2 = (Inr (), w')" and news: "\<exists>ms. news = Some (EventTaskStarted, ms)"
    by (auto simp: start_change_def prog_iffs)
  obtain r and f :: "execution_row \<Rightarrow> execution_row" where rf: "r = ?r now u" "f = ?f now" "xr_state r = ''STARTED''" "\<And>r0. xr_state (f r0) = ''STARTED''"
    by (simp add: new_execution_def)
  note put = put [folded rf(1,2)]
  show "pn_version p = v" "\<exists>ms. news = Some (EventTaskStarted, ms)" by fact+
  have d2: "w_db w2 = w_db w" using clock_uuid_db(1) [OF n(1)] clock_uuid_db(2) [OF n(2)] by simp
  from put obtain tab where "w_db w' = (w_db w2)\<lparr>pda_task_execution := tab\<rparr>"
    "map_of tab = (map_of (pda_task_execution (w_db w2)))(i \<mapsto> (case map_of (pda_task_execution (w_db w2)) i of None \<Rightarrow> r | Some r0 \<Rightarrow> f r0))"
    by (rule put_execution_Inr)
  with news st rf assms(2) show "moved i news (w_db w) (w_db w')"
    by (auto simp: moved_def d2 split: option.splits)
qed

lemma fail_change_Inr:
  assumes "fail_change i reason v a p e w = (Inr news, w')" and "en_state e = state_of i (w_db w)"
  shows "moved i news (w_db w) (w_db w')" and "pn_version p = v"
    and "\<exists>ms. news = Some (EventTaskFailed, ms)"
proof -
  let ?r = "\<lambda>now u. (new_execution u (pn_version p) ''FAILED'' now)\<lparr>xr_operator := Some (ac_operator a),
      xr_device := Some (ac_device a), xr_reason := Some reason, xr_finished := Some now\<rparr>"
  let ?f = "\<lambda>now r. r\<lparr>xr_state := ''FAILED'', xr_reason := Some reason, xr_operator := Some (ac_operator a),
      xr_device := Some (ac_device a), xr_finished := Some now, xr_updated := now\<rparr>"
  from assms(1) obtain now w1 u w2 w3 j where v: "pn_version p = v" and st: "en_state e \<noteq> ''COMPLETED''" "en_state e \<noteq> ''FAILED''"
    and n: "clock_now w = (Inr now, w1)" "new_uuid w1 = (Inr u, w2)"
    and put: "put_execution i (?r now u) (?f now) w2 = (Inr (), w3)"
    and ev: "scan_evidence i w3 = (Inr j, w')" and news: "\<exists>ms. news = Some (EventTaskFailed, ms)"
    by (auto simp: fail_change_def prog_iffs)
  obtain r and f :: "execution_row \<Rightarrow> execution_row" where rf: "r = ?r now u" "f = ?f now" "xr_state r = ''FAILED''" "\<And>r0. xr_state (f r0) = ''FAILED''"
    by (simp add: new_execution_def)
  note put = put [folded rf(1,2)]
  show "pn_version p = v" "\<exists>ms. news = Some (EventTaskFailed, ms)" by fact+
  have d2: "w_db w2 = w_db w" using clock_uuid_db(1) [OF n(1)] clock_uuid_db(2) [OF n(2)] by simp
  from put obtain tab where "w_db w3 = (w_db w2)\<lparr>pda_task_execution := tab\<rparr>"
    "map_of tab = (map_of (pda_task_execution (w_db w2)))(i \<mapsto> (case map_of (pda_task_execution (w_db w2)) i of None \<Rightarrow> r | Some r0 \<Rightarrow> f r0))"
    by (rule put_execution_Inr)
  with news st rf assms(2) show "moved i news (w_db w) (w_db w')"
    by (auto simp: moved_def d2 scan_evidence_Inr [OF ev] split: option.splits)
qed

lemma finish_execution_Inr:
  assumes "finish_execution i q now w = (Inr u, w')"
  obtains n tab where "numeric6 q = Inr n" and "w_db w' = (w_db w)\<lparr>pda_task_execution := tab\<rparr>"
    and "map_of tab = (map_of (pda_task_execution (w_db w)))(i := map_option
      (\<lambda>r. r\<lparr>xr_state := ''COMPLETED'', xr_confirmed := n, xr_finished := Some now, xr_updated := now\<rparr>) (map_of (pda_task_execution (w_db w)) i))"
proof -
  let ?f = "\<lambda>n r. r\<lparr>xr_state := ''COMPLETED'', xr_confirmed := n, xr_finished := Some now, xr_updated := now\<rparr>"
  obtain t :: time and tab where r: "(case numeric6 q of Inl e \<Rightarrow> Inl e
      | Inr n \<Rightarrow> map_sum id (\<lambda>(_, t). ((), t)) (update_at ''pda_task_execution'' execution_ok i (?f n) (pda_task_execution (w_db w)))) = Inr (u, tab)"
    and d: "w_db w' = (w_db w)\<lparr>pda_task_execution := tab\<rparr>"
    using assms unfolding finish_execution_def by (rule sql_table_Inr)
  from r obtain n k where n: "numeric6 q = Inr n" and up: "update_at ''pda_task_execution'' execution_ok i (?f n) (pda_task_execution (w_db w)) = Inr (k, tab)"
    by (auto simp: map_sum_def split: sum.splits prod.splits)
  from update_at_map [OF up] show thesis by (intro that [OF n d]) simp
qed

lemma complete_change_Inr:
  assumes "complete_change X i q v a p e w = (Inr news, w')" and "en_state e = state_of i (w_db w)"
  shows "moved i news (w_db w) (w_db w')" and "pn_version p = v" and "state_of i (w_db w) = ''STARTED''"
    and "0 < q" "q \<le> pn_remaining p + 1 / 1000000"
    and "list_all (contains_fold (wx_distinct X (accepted_types i (w_db w)))) (pn_scans p)"
    and "\<exists>ms. news = Some (EventTaskCompleted, ms)"
    and "\<exists>r n. numeric6 q = Inr n \<and> map_of (pda_task_execution (w_db w')) i = Some r \<and> xr_state r = ''COMPLETED'' \<and> xr_confirmed r = n"
proof -
  from assms(1) obtain xs w1 now w2 w3 j where v: "pn_version p = v" and st: "en_state e = ''STARTED''"
    and q: "\<not> (q \<le> 0 \<or> q > pn_remaining p + 1 / 1000000)" and acc: "accepted_scan_types X i w = (Inr xs, w1)"
    and miss: "first_missing xs (pn_scans p) = None" and n: "clock_now w1 = (Inr now, w2)"
    and f: "finish_execution i q now w2 = (Inr (), w3)" and ev: "scan_evidence i w3 = (Inr j, w')"
    and news: "\<exists>ms. news = Some (EventTaskCompleted, ms)"
    by (auto simp: complete_change_def prog_iffs split: option.splits)
  show "pn_version p = v" "0 < q" "q \<le> pn_remaining p + 1 / 1000000" "\<exists>ms. news = Some (EventTaskCompleted, ms)"
    using v q news by auto
  show st': "state_of i (w_db w) = ''STARTED''" using st assms(2) by simp
  from accepted_scan_types_Inr [OF acc] miss
  show "list_all (contains_fold (wx_distinct X (accepted_types i (w_db w)))) (pn_scans p)"
    by (simp add: first_missing_def find_None_iff list_all_iff)
  have d2: "w_db w2 = w_db w" using accepted_scan_types_Inr [OF acc] clock_uuid_db(1) [OF n] by simp
  from st' obtain r where r: "map_of (pda_task_execution (w_db w)) i = Some r" by (auto simp: state_of_def split: option.splits)
  from f obtain m tab where m: "numeric6 q = Inr m" "w_db w3 = (w_db w)\<lparr>pda_task_execution := tab\<rparr>"
    "map_of tab = (map_of (pda_task_execution (w_db w)))(i \<mapsto> r\<lparr>xr_state := ''COMPLETED'', xr_confirmed := m, xr_finished := Some now, xr_updated := now\<rparr>)"
    by (rule finish_execution_Inr) (simp add: d2 r)
  let ?r = "r\<lparr>xr_state := ''COMPLETED'', xr_confirmed := m, xr_finished := Some now, xr_updated := now\<rparr>"
  from m scan_evidence_Inr [OF ev] have d': "map_of (pda_task_execution (w_db w')) = (map_of (pda_task_execution (w_db w)))(i \<mapsto> ?r)"
    "integration_outbox (w_db w') = integration_outbox (w_db w)" by simp_all
  then show "\<exists>r n. numeric6 q = Inr n \<and> map_of (pda_task_execution (w_db w')) i = Some r \<and> xr_state r = ''COMPLETED'' \<and> xr_confirmed r = n"
    using m(1) by simp
  show "moved i news (w_db w) (w_db w')"
    using news st' d' unfolding moved_def by (auto intro!: exI [of _ ?r])
qed

lemma scan_change_Inr:
  assumes "scan_change X i ty val v a p e w = (Inr news, w')"
  shows "news = None" and "moved i news (w_db w) (w_db w')" and "pn_version p = v" and "en_state e = ''STARTED''"
    and "contains_fold (pn_scans p) ty" and "expected_scan_value p ty = Some val"
    and "\<exists>tab. w_db w' = (w_db w)\<lparr>pda_task_scan := tab\<rparr>"
  using assms by (auto simp: scan_change_def prog_iffs moved_def split: option.splits elim!: insert_scan_Inr)

end
