(* ===== verification/Wms_Properties.thy ===== *)
theory Wms_Properties
  imports Wms_Contract
begin

text \<open>
  Sequences of calls on the WMS task workflow, as devices, the gateway and the Kafka consumers make
  them, and what holds of the executions and of the facts reported to WMS under any database faults.
\<close>

section \<open>Sequences of calls\<close>

datatype wms_call =
    StartCall string int64 uuid actor
  | ScanCall string string string int64 uuid actor
  | CompleteCall string rat int64 uuid actor
  | FailCall string string int64 uuid actor
  | AckCall string actor time
  | GatewayAckCall string actor time
  | DispatchCall kafka_message
  | ReceiptCall kafka_message

fun run_wms :: "wms_params \<Rightarrow> consumer_params \<Rightarrow> wms_call \<Rightarrow> wms_world \<Rightarrow> wms_world" where
  "run_wms X K (StartCall i v cid a) w = snd (wms_start X i v cid a w)"
| "run_wms X K (ScanCall i ty val v cid a) w = snd (wms_scan X i ty val v cid a w)"
| "run_wms X K (CompleteCall i q v cid a) w = snd (wms_complete X i q v cid a w)"
| "run_wms X K (FailCall i reason v cid a) w = snd (wms_fail X i reason v cid a w)"
| "run_wms X K (AckCall e a t) w = snd (wms_ack_delivery X e a t w)"
| "run_wms X K (GatewayAckCall e a t) w = snd (pg_ack_delivery X e a t w)"
| "run_wms X K (DispatchCall m) w = snd (process_dispatch K m w)"
| "run_wms X K (ReceiptCall m) w = snd (process_receipt K m w)"

fun run_wms_calls :: "wms_params \<Rightarrow> consumer_params \<Rightarrow> wms_call list \<Rightarrow> wms_world \<Rightarrow> wms_world" where
  "run_wms_calls X K [] w = w"
| "run_wms_calls X K (c # cs) w = run_wms_calls X K cs (run_wms X K c w)"

section \<open>Invariants of the executions and the facts\<close>

lemma keeps_ignoreP: "keeps I m \<Longrightarrow> keeps I (ignoreP m)"
  by (simp add: keeps_def)

lemma keeps_sum:
  "(\<And>e. keeps I (f e)) \<Longrightarrow> (\<And>x. keeps I (k x)) \<Longrightarrow> keeps I (case v of Inl e \<Rightarrow> f e | Inr x \<Rightarrow> k x)"
  by (cases v) simp_all

lemma keeps_prod: "(\<And>x y. keeps I (f x y)) \<Longrightarrow> keeps I (case v of (x, y) \<Rightarrow> f x y)"
  by (cases v) simp

text \<open>An invariant of the executions and the outbox that a recorded change keeps, and that does not look
  at acknowledged deliveries.\<close>

locale wms_invariant =
  fixes I :: "wms_tables \<Rightarrow> bool"
  assumes step: "I d \<Longrightarrow> moved i news d d1 \<Longrightarrow> recorded news i d1 d2 \<Longrightarrow> I d2"
    and elsewhere: "pda_task_execution d' = pda_task_execution d \<Longrightarrow> integration_outbox d' = integration_outbox d \<Longrightarrow> I d \<Longrightarrow> I d'"
    and acked: "ig_type r = ack_topic \<Longrightarrow> I d \<Longrightarrow> I (d\<lparr>integration_outbox := integration_outbox d @ [(k, r)]\<rparr>)"
begin

lemma keeps_elsewhere:
  "(\<And>now d x d'. f now d = Inr (x, d') \<Longrightarrow> pda_task_execution d' = pda_task_execution d \<and> integration_outbox d' = integration_outbox d)
   \<Longrightarrow> keeps (of_db I) (sql f)"
  by (rule keeps_sql) (metis elsewhere)

lemma keeps_command:
  assumes sound: "\<And>p e w news w'. change p e w = (Inr news, w') \<Longrightarrow> en_state e = state_of i (w_db w) \<Longrightarrow> moved i news (w_db w) (w_db w')"
  shows "keeps (of_db I) (wms_command X i ty cid h change a)"
proof -
  have effect: "I (w_db w')" if "command_effect X i ty k h change a w = (Inr t, w')" "I (w_db w)" for k w t w'
    using that(1)
  proof (rule command_effect_Inr)
    fix r e news w1 w2
    assume "w_db w1 = w_db w" "en_state e = state_of i (w_db w)" "change (projection_of r) e w1 = (Inr news, w2)"
      "recorded news i (w_db w2) (w_db w')"
    with sound step that(2) show ?thesis by metis
  qed
  have body: "I (w_db w')" if "command_body X i ty k h change a w = (Inr x, w')" "I (w_db w)" for k w x w'
  proof -
    from that(1) obtain row w1 where q: "query (\<lambda>now d. map_of (pda_task_command d) k) w = (Inr row, w1)"
      and "w' = w1 \<or> (\<exists>t. command_effect X i ty k h change a w1 = (Inr t, w'))"
      by (auto simp: command_body_def Let_def bindP_Inr_iff split: option.splits if_splits)
    with query_db [OF q] effect that(2) show ?thesis by auto
  qed
  have tx: "keeps (of_db I) (with_tx_or_leave (command_body X i ty k h change a))" for k
  proof
    fix w r w' assume "with_tx_or_leave (command_body X i ty k h change a) w = (r, w')" "of_db I w"
    then show "of_db I w'" by (cases rule: with_tx_or_leave_db) (use body in \<open>auto simp: of_db_def\<close>)
  qed
  show ?thesis unfolding wms_command_def
    by (intro keeps_bindP keeps_if keeps_db_env keeps_pure tx)
qed

lemma keeps_insert_scan: "keeps (of_db I) (insert_scan X i ty val ok reason a)"
  unfolding insert_scan_def by (rule keeps_elsewhere) (auto simp: on_table_Inr split: if_splits)

lemma keeps_ack_event: "keeps (of_db I) (insert_ack_event ev aggregate j)"
  unfolding insert_ack_event_def
  by (rule keeps_sql) (auto simp: on_table_Inr no_value_Inr insert_ignore_def split: if_splits intro: acked elsewhere)

lemma keeps_upsert_ack: "keeps (of_db I) (sql (\<lambda>now. upsert_ack e a s t ev))"
  by (rule keeps_elsewhere) (auto simp: upsert_ack_def Let_def split: option.splits if_splits)

lemma keeps_set_evidence: "keeps (of_db I) (set_evidence e a ev)"
  unfolding set_evidence_def by (rule keeps_elsewhere) (auto simp: on_table_Inr)

lemma keeps_ack_body:
  assumes "keeps (of_db I) upsert" "\<And>ev. keeps (of_db I) (link ev)" "\<And>ev r. keeps (of_db I) (announce ev r)"
  shows "keeps (of_db I) (ack_body upsert conflict link announce ev)"
  unfolding ack_body_def by (intro keeps_bindP keeps_option keeps_if keeps_pure assms)

lemma keeps_resolve: "keeps (of_db I) (resolve_ack_projection X e)"
  unfolding resolve_ack_projection_def by (intro keeps_bindP keeps_tryP keeps_query keeps_pure)

lemma keeps_acks: "keeps (of_db I) (wms_ack_delivery X e a t)" "keeps (of_db I) (pg_ack_delivery X e a t)"
  unfolding wms_ack_delivery_def pg_ack_delivery_def append_delivery_ack_def Let_def
  by (intro keeps_bindP keeps_if keeps_with_tx keeps_db_env keeps_pure keeps_ack_body keeps_option keeps_upsert_ack
      keeps_set_evidence keeps_ack_event keeps_resolve)+

lemma keeps_consumers: "keeps (of_db I) (process_dispatch K m)" "keeps (of_db I) (process_receipt K m)"
proof -
  have claim: "keeps (of_db I) (claim_event eid grp)" for eid grp
    unfolding claim_event_def by (rule keeps_elsewhere) (auto simp: on_table_Inr)
  have d: "keeps (of_db I) (dead_letter K eid ty failure m)" for eid ty failure
    unfolding dead_letter_def Let_def by (rule keeps_elsewhere) (auto simp: on_table_Inr)
  have stale: "keeps (of_db I) (insert_stale r)" for r
    unfolding insert_stale_def by (rule keeps_elsewhere) (auto simp: on_table_Inr)
  have up: "keeps (of_db I) (upsert_projection eid p raw sent got)" for eid p raw sent got
    unfolding upsert_projection_def by (rule keeps_elsewhere) (auto simp: on_table_Inr)
  have queue: "keeps (of_db I) (sync_operator_queue p cat st)" for p cat st
    unfolding sync_operator_queue_def by (rule keeps_elsewhere) (auto simp: on_table_Inr)
  have receipt: "keeps (of_db I) (upsert_receipt eid e ms)" for eid e ms
    unfolding upsert_receipt_def by (rule keeps_elsewhere) (auto simp: on_table_Inr)
  have delivery: "keeps (of_db I) (apply_delivery K t x)" for t x
    unfolding apply_delivery_def read_projected_def write_delivery_def Let_def
    by (intro keeps_bindP keeps_if keeps_db_env keeps_pure keeps_query claim stale up queue)
  show "keeps (of_db I) (process_dispatch K m)"
    unfolding process_dispatch_def by (cases "examine K m") (simp_all add: d keeps_with_tx delivery)
  show "keeps (of_db I) (process_receipt K m)"
    unfolding process_receipt_def
    by (intro keeps_bindP keeps_pure keeps_prod keeps_with_tx keeps_if claim receipt)
qed

lemma keeps_run: "of_db I w \<Longrightarrow> of_db I (run_wms X K c w)"
proof -
  assume w: "of_db I w"
  have scan: "keeps (of_db I) (wms_scan X i ty val v cid a)" for i ty val v cid a
    unfolding wms_scan_def Let_def record_rejected_scan_def
    by (intro keeps_bindP keeps_pure keeps_tryP keeps_sum keeps_if keeps_ignoreP keeps_insert_scan keeps_command)
      (rule scan_change_Inr)
  have start: "keeps (of_db I) (wms_start X i v cid a)" for i v cid a
    unfolding wms_start_def by (intro keeps_bindP keeps_pure keeps_command) (rule start_change_Inr)
  have complete: "keeps (of_db I) (wms_complete X i q v cid a)" for i q v cid a
    unfolding wms_complete_def by (intro keeps_command) (rule complete_change_Inr)
  have fails: "keeps (of_db I) (wms_fail X i reason v cid a)" for i reason v cid a
    unfolding wms_fail_def Let_def by (intro keeps_bindP keeps_pure keeps_command) (rule fail_change_Inr)
  show ?thesis
    using w scan start complete fails keeps_acks keeps_consumers by (cases c) (auto simp: keeps_def)
qed

lemma keeps_calls: "I (w_db w) \<Longrightarrow> I (w_db (run_wms_calls X K cs w))"
proof (induction cs arbitrary: w)
  case (Cons c cs)
  then show ?case using keeps_run [of w X K c] by (simp add: of_db_def)
qed simp

end

section \<open>Every result is reported once\<close>

definition reported :: "wms_tables \<Rightarrow> bool" where
  "reported d \<longleftrightarrow> (\<forall>i. length (facts_of EventTaskCompleted i d) = (if state_of i d = ''COMPLETED'' then 1 else 0)
     \<and> length (facts_of EventTaskFailed i d) = (if state_of i d = ''FAILED'' then 1 else 0))"

text \<open>What a recorded change does to states and facts.\<close>

lemma recorded_tables: "recorded news i d d' \<Longrightarrow> given_id i (pda_task_execution d) (pda_task_execution d')"
  by (auto simp: recorded_def)

lemma recorded_state:
  assumes "recorded news i d d'"
  shows "state_of k d' = state_of k d"
  using recorded_tables [OF assms]
  by (auto simp: given_id_def state_of_def new_execution_def map_add_def split: option.splits if_splits)

lemma recorded_execution: "recorded news i d d' \<Longrightarrow> map_of (pda_task_execution d) k = Some r \<Longrightarrow> map_of (pda_task_execution d') k = Some r"
  by (drule recorded_tables) (auto simp: given_id_def map_add_def)

lemma recorded_facts:
  assumes "recorded news i d d'"
  shows "length (facts_of ty k d') = length (facts_of ty k d)
    + (case news of None \<Rightarrow> 0 | Some (ty', _) \<Rightarrow> if ty' = ty \<and> k = i then 1 else 0)"
proof (cases news)
  case None
  with assms show ?thesis by (auto simp: recorded_def facts_of_def)
next
  case (Some n)
  obtain ty' ms where n: "n = (ty', ms)" by (cases n)
  from assms Some n obtain j r where "integration_outbox d' = integration_outbox d @ [(j, r)]" "ig_type r = ty'" "ig_aggregate r = i"
    by (auto simp: recorded_def)
  with Some n show ?thesis by (auto simp: facts_of_def)
qed

lemma moved_facts: "moved i news d d' \<Longrightarrow> facts_of ty k d' = facts_of ty k d"
  by (simp add: moved_def facts_of_def)

lemma moved_state: "moved i news d d' \<Longrightarrow> k \<noteq> i \<Longrightarrow> state_of k d' = state_of k d"
  by (auto simp: moved_def state_of_def split: option.splits)

lemma event_types: "EventTaskStarted \<noteq> EventTaskCompleted" "EventTaskStarted \<noteq> EventTaskFailed"
    "EventTaskCompleted \<noteq> EventTaskFailed" "ack_topic \<noteq> EventTaskCompleted" "ack_topic \<noteq> EventTaskFailed"
  by (simp_all add: const_defs)

lemma reported_step:
  assumes "reported d" and m: "moved i news d d1" and r: "recorded news i d1 d2"
  shows "reported d2"
  unfolding reported_def
proof
  fix k
  note f = recorded_facts [OF r] moved_facts [OF m] and s = recorded_state [OF r]
  from assms(1) have k: "length (facts_of EventTaskCompleted k d) = (if state_of k d = ''COMPLETED'' then 1 else 0)"
    "length (facts_of EventTaskFailed k d) = (if state_of k d = ''FAILED'' then 1 else 0)"
    by (auto simp: reported_def)
  show "length (facts_of EventTaskCompleted k d2) = (if state_of k d2 = ''COMPLETED'' then 1 else 0)
     \<and> length (facts_of EventTaskFailed k d2) = (if state_of k d2 = ''FAILED'' then 1 else 0)"
  proof (cases news)
    case None
    with m have "state_of k d1 = state_of k d" by (simp add: moved_def state_of_def)
    with k f s None show ?thesis by simp
  next
    case (Some n)
    obtain ty ms where n: "n = (ty, ms)" by (cases n)
    show ?thesis
    proof (cases "k = i")
      case False
      with k f s Some n moved_state [OF m False] show ?thesis by simp
    next
      case True
      from m Some n have "state_of i d \<noteq> ''COMPLETED''" "state_of i d \<noteq> ''FAILED''"
        "ty = EventTaskStarted \<and> state_of i d1 = ''STARTED'' \<or> ty = EventTaskCompleted \<and> state_of i d1 = ''COMPLETED''
         \<or> ty = EventTaskFailed \<and> state_of i d1 = ''FAILED''"
        by (auto simp: moved_def state_of_def)
      with k f s Some n True event_types show ?thesis by auto
    qed
  qed
qed

lemma reported_elsewhere:
  "pda_task_execution d' = pda_task_execution d \<Longrightarrow> integration_outbox d' = integration_outbox d \<Longrightarrow> reported d \<Longrightarrow> reported d'"
  by (simp add: reported_def facts_of_def state_of_def)

lemma reported_acked:
  "ig_type r = ack_topic \<Longrightarrow> reported d \<Longrightarrow> reported (d\<lparr>integration_outbox := integration_outbox d @ [(k, r)]\<rparr>)"
  using event_types by (simp add: reported_def facts_of_def state_of_def)

interpretation wms_reported: wms_invariant reported
  by unfold_locales (rule reported_step, assumption+, rule reported_elsewhere, assumption+, rule reported_acked)

text \<open>C26: whatever calls devices, the gateway and the consumers make, and whatever faults the database
  meets, the outbox to WMS holds one completion fact of a task exactly when its execution is
  completed, one failure fact exactly when it failed, and never a second one.\<close>

theorem results_reported_once:
  assumes "reported (w_db w)"
  shows "length (facts_of EventTaskCompleted i (w_db (run_wms_calls X K cs w)))
      = (if state_of i (w_db (run_wms_calls X K cs w)) = ''COMPLETED'' then 1 else 0)
    \<and> length (facts_of EventTaskFailed i (w_db (run_wms_calls X K cs w)))
      = (if state_of i (w_db (run_wms_calls X K cs w)) = ''FAILED'' then 1 else 0)"
  using wms_reported.keeps_calls [OF assms] by (simp add: reported_def)

section \<open>A result is final\<close>

definition finished_as :: "string \<Rightarrow> execution_row \<Rightarrow> wms_tables \<Rightarrow> bool" where
  "finished_as i r d \<longleftrightarrow> map_of (pda_task_execution d) i = Some r \<and> xr_state r \<in> {''COMPLETED'', ''FAILED''}"

lemma finished_step:
  assumes "finished_as i r d" and m: "moved k news d d1" and rec: "recorded news k d1 d2"
  shows "finished_as i r d2"
proof -
  have "map_of (pda_task_execution d1) i = Some r"
    using assms(1) m by (auto simp: finished_as_def moved_def state_of_def split: option.splits)
  with assms(1) recorded_execution [OF rec] show ?thesis by (simp add: finished_as_def)
qed

interpretation wms_finished: wms_invariant "finished_as i r" for i r
  by unfold_locales (erule finished_step, assumption+, simp_all add: finished_as_def)

text \<open>C27: once an operator completed or failed a task, its execution keeps state, operator, quantity,
  reason and times for good: no start, scan, completion, failure, acknowledgement, redispatch by WMS
  or database fault changes it.\<close>

theorem finished_task_is_final:
  assumes "map_of (pda_task_execution (w_db w)) i = Some r" and "xr_state r \<in> {''COMPLETED'', ''FAILED''}"
  shows "map_of (pda_task_execution (w_db (run_wms_calls X K cs w))) i = Some r"
  using wms_finished.keeps_calls [of i r w X K cs] assms by (simp add: finished_as_def)

section \<open>What calls leave alone\<close>

text \<open>
  What no call on the WMS task workflow touches: a condition on the tables that does not look at the
  tables the calls write, and that rows added to the scans keep, holds after any calls and faults.
\<close>

text \<open>The key of the row a scan is recorded in.\<close>

definition scan_key :: "wms_params \<Rightarrow> string \<Rightarrow> string \<Rightarrow> string \<Rightarrow> string \<times> string \<times> string" where
  "scan_key X i ty val = (i, ty, wx_sha256 X (ty @ ''|'' @ val))"

lemma keeps_with_tx_or_leave: "keeps (of_db g) m \<Longrightarrow> keeps (of_db g) (with_tx_or_leave m)"
  unfolding with_tx_or_leave_def
  by (intro keeps_bindP keeps_commit_report keeps_prod keeps_sum keeps_option keeps_pure)

locale wms_frame =
  fixes Q :: "wms_tables \<Rightarrow> bool" and safe :: "string \<times> string \<times> string \<Rightarrow> bool"
  assumes elsewhere [simp]: "Q (d\<lparr>pda_task_execution := ex\<rparr>) = Q d" "Q (d\<lparr>integration_outbox := ou\<rparr>) = Q d"
    "Q (d\<lparr>pda_task_command := co\<rparr>) = Q d" "Q (d\<lparr>pda_event_delivery_ack := ac\<rparr>) = Q d" "Q (d\<lparr>event_inbox := ib\<rparr>) = Q d"
    "Q (d\<lparr>event_dlq := dq\<rparr>) = Q d" "Q (d\<lparr>wms_task_projection := pj\<rparr>) = Q d" "Q (d\<lparr>warehouse_task := wt\<rparr>) = Q d"
    "Q (d\<lparr>wms_task_stale_delivery := sd\<rparr>) = Q d" "Q (d\<lparr>receiving_work_projection := rw\<rparr>) = Q d"
    and scanned: "safe k \<Longrightarrow> Q d \<Longrightarrow> map_of (pda_task_scan d) k = None \<Longrightarrow> Q (d\<lparr>pda_task_scan := pda_task_scan d @ [(k, row)]\<rparr>)"
begin

lemma keeps_table:
  "(\<And>t d. Q (put t d) = Q d) \<Longrightarrow> keeps (of_db Q) (sql (on_table get put f))"
  by (rule keeps_sql) (auto simp: on_table_Inr)

lemma keeps_insert_scan:
  assumes "safe (scan_key X i ty val)"
  shows "keeps (of_db Q) (insert_scan X i ty val ok reason a)"
  unfolding insert_scan_def
proof (rule keeps_sql)
  fix now :: time and d u d'
  assume "Q d" and "(if map_of (pda_task_execution d) i = None \<and> map_of (pda_task_scan d) (i, ty, wx_sha256 X (ty @ ''|'' @ val)) = None
     then Inl (violates ''pda_task_scan_warehouse_task_id_fkey'')
     else on_table pda_task_scan (\<lambda>x d. d\<lparr>pda_task_scan := x\<rparr>) (\<lambda>now tab.
       no_value (insert_ignore ''pda_task_scan'' (\<lambda>_. True) (i, ty, wx_sha256 X (ty @ ''|'' @ val))
         \<lparr>zr_value = val, zr_accepted = ok, zr_reason = reason, zr_operator = ac_operator a, zr_device = ac_device a,
          zr_at = now\<rparr> tab)) now d) = Inr (u, d')"
  with assms scanned show "Q d'"
    by (auto simp: scan_key_def on_table_Inr no_value_Inr insert_ignore_def split: if_splits)
qed

lemma keeps_command:
  assumes "\<And>p e. keeps (of_db Q) (change p e)"
  shows "keeps (of_db Q) (wms_command X i ty cid h change a)"
proof -
  have id: "keeps (of_db Q) (ensure_pda_task_id X i)"
    unfolding ensure_pda_task_id_def
    by (intro keeps_bindP keeps_query keeps_option keeps_pure keeps_db_env keeps_if keeps_sql)
      (auto simp: map_sum_def split: option.splits sum.splits)
  have fact: "keeps (of_db Q) (append_integration_event X ev i p ms a)" for ev p ms
    unfolding append_integration_event_def Let_def by (intro keeps_bindP id keeps_db_env keeps_table) simp
  have effect: "keeps (of_db Q) (command_effect X i ty c h change a)" for c
    unfolding command_effect_def load_projection_def load_execution_def read_task_def accepted_scan_types_def
    by (intro keeps_bindP keeps_query keeps_option keeps_pure keeps_prod fact assms keeps_table) simp
  show ?thesis unfolding wms_command_def command_body_def Let_def
    by (intro keeps_bindP keeps_if keeps_db_env keeps_pure keeps_with_tx_or_leave keeps_query keeps_option effect)
qed

lemma keeps_changes:
  "keeps (of_db Q) (start_change i v a p e)" "keeps (of_db Q) (complete_change X i n v a p e)"
  "keeps (of_db Q) (fail_change i reason v a p e)"
  unfolding start_change_def complete_change_def fail_change_def put_execution_def finish_execution_def
    scan_evidence_def accepted_scan_types_def
  by (intro keeps_bindP keeps_pure keeps_db_env keeps_option keeps_query keeps_table; simp)+

lemma keeps_scan_change:
  "safe (scan_key X i ty val) \<Longrightarrow> keeps (of_db Q) (scan_change X i ty val v a p e)"
  unfolding scan_change_def by (intro keeps_bindP keeps_pure keeps_insert_scan)

lemma keeps_wms_scan:
  assumes "safe (scan_key X i (to_upper (trim_space ty)) (trim_space val))"
  shows "keeps (of_db Q) (wms_scan X i ty val v cid a)"
  unfolding wms_scan_def Let_def record_rejected_scan_def
  by (intro keeps_bindP keeps_pure keeps_tryP keeps_sum keeps_if keeps_ignoreP keeps_insert_scan keeps_command
      keeps_scan_change assms)

lemma keeps_run:
  assumes P: "\<And>k. safe k" and w: "of_db Q w"
  shows "of_db Q (run_wms X K c w)"
proof -
  have scan: "keeps (of_db Q) (wms_scan X i ty val v cid a)" for i ty val v cid a
    by (rule keeps_wms_scan [OF P])
  have start: "keeps (of_db Q) (wms_start X i v cid a)" for i v cid a
    unfolding wms_start_def by (intro keeps_bindP keeps_pure keeps_command keeps_changes)
  have complete: "keeps (of_db Q) (wms_complete X i q v cid a)" for i q v cid a
    unfolding wms_complete_def by (intro keeps_command keeps_changes)
  have fails: "keeps (of_db Q) (wms_fail X i reason v cid a)" for i reason v cid a
    unfolding wms_fail_def Let_def by (intro keeps_bindP keeps_pure keeps_command keeps_changes)
  have upsert: "keeps (of_db Q) (sql (\<lambda>now. upsert_ack e a s t ev))" for e a s t ev
    by (rule keeps_sql) (auto simp: upsert_ack_def Let_def split: option.splits if_splits)
  have acks: "keeps (of_db Q) (wms_ack_delivery X e a t)" "keeps (of_db Q) (pg_ack_delivery X e a t)" for e a t
    unfolding wms_ack_delivery_def pg_ack_delivery_def append_delivery_ack_def ack_body_def set_evidence_def insert_ack_event_def
      resolve_ack_projection_def Let_def
    by (intro keeps_bindP keeps_if keeps_with_tx keeps_db_env keeps_pure keeps_option upsert keeps_tryP keeps_query keeps_table; simp)+
  have receipt: "keeps (of_db Q) (process_receipt K m)" for m
    unfolding process_receipt_def upsert_receipt_def claim_event_def
    by (intro keeps_bindP keeps_pure keeps_prod keeps_with_tx keeps_if keeps_table; simp)
  have delivery: "keeps (of_db Q) (apply_delivery K t x)" for t x
    unfolding apply_delivery_def read_projected_def write_delivery_def claim_event_def insert_stale_def upsert_projection_def sync_operator_queue_def Let_def
    by (intro keeps_bindP keeps_if keeps_db_env keeps_pure keeps_query keeps_table; simp)
  have refuse: "keeps (of_db Q) (dead_letter K eid ty failure m)" for eid ty failure m
    unfolding dead_letter_def Let_def by (intro keeps_table) simp
  have dispatch: "keeps (of_db Q) (process_dispatch K m)" for m
    unfolding process_dispatch_def by (cases "examine K m") (simp_all add: refuse keeps_with_tx delivery)
  show ?thesis using w scan start complete fails acks receipt dispatch by (cases c) (auto simp: keeps_def)
qed

lemma kept:
  assumes "\<And>k. safe k" and "Q (w_db w)"
  shows "Q (w_db (run_wms_calls X K cs w))"
  using assms(2)
proof (induction cs arbitrary: w)
  case (Cons c cs)
  then show ?case using keeps_run [OF assms(1), of w X K c] by (simp add: of_db_def)
qed simp

end

end
