(* ===== verification/Wms_Relay.thy ===== *)
theory Wms_Relay
  imports Wms_Properties Gateway_Security Environment
begin

text \<open>
  The relay that brings the facts for WMS from \<open>integration_outbox\<close> to Kafka,
  \<open>internal/integration/adapters/kafka/integration_relay.go\<close>, beside a broker whose writes may fail.
  The loop that runs a cycle every second is the scheduler's.
\<close>

record broker_message =
  bm_topic :: string
  bm_key :: string
  bm_value :: json

type_synonym relay_world = "wms_world \<times> broker_message broker"

section \<open>One cycle\<close>

record relay_params =
  rx_error :: "err \<Rightarrow> string"
  rx_order :: "(uuid \<times> integration_row) list \<Rightarrow> (uuid \<times> integration_row) list"
  rx_batch :: nat

definition maxIntegrationAttempts :: int64 where "maxIntegrationAttempts = 8"

definition relay_batch_size :: nat where "relay_batch_size = 100"

text \<open>The statement picks the oldest rows, and \<open>UPDATE \<dots> RETURNING\<close> gives them in an order of its own.\<close>

definition pending_rows :: "time \<Rightarrow> (uuid \<times> integration_row) list \<Rightarrow> (uuid \<times> integration_row) list" where
  "pending_rows now tab = sort_key (ig_created \<circ> snd) (sort_key fst
     (filter (\<lambda>(k, r). ig_published r = None \<and> ig_available r \<le> now) tab))"

definition count_attempts :: "uuid set \<Rightarrow> (uuid \<times> integration_row) list \<Rightarrow> (uuid \<times> integration_row) list" where
  "count_attempts ids = map (\<lambda>(k, r). (k, if k \<in> ids then r\<lparr>ig_attempts := ig_attempts r + 1\<rparr> else r))"

definition claim_batch :: "relay_params \<Rightarrow> (wms_world, (uuid \<times> integration_row) list) prog" where
  "claim_batch R = sql (on_table integration_outbox (\<lambda>x d. d\<lparr>integration_outbox := x\<rparr>) (\<lambda>now tab.
     let ids = map fst (take (rx_batch R) (pending_rows now tab)); tab1 = count_attempts (set ids) tab in
     Inr (rx_order R (map (\<lambda>k. (k, the (map_of tab1 k))) ids), tab1)))"

text \<open>The value is decoded into a map, whose members come out sorted; a value that does not decode is
  sent as it is. The column only ever holds objects: a JSON \<open>null\<close>, which would decode into a nil map
  and stop the program at the assignment, is never written there.\<close>

definition with_published_at :: "json \<Rightarrow> time \<Rightarrow> json" where
  "with_published_at raw now = (case raw of
     JObj ms \<Rightarrow>
       (case map_of ms ''published_at'' of
          Some (JStr s) \<Rightarrow> if s \<noteq> '''' then raw else go_map (set_members [(''published_at'', JTime now)] ms)
        | Some (JTime t) \<Rightarrow> raw
        | Some (JUuid u) \<Rightarrow> raw
        | _ \<Rightarrow> go_map (set_members [(''published_at'', JTime now)] ms))
   | _ \<Rightarrow> raw)"

definition relay_message :: "integration_row \<Rightarrow> time \<Rightarrow> broker_message" where
  "relay_message r now = \<lparr>bm_topic = ig_topic r, bm_key = ig_key r, bm_value = with_published_at (ig_envelope r) now\<rparr>"

definition update_event :: "uuid \<Rightarrow> (time \<Rightarrow> integration_row \<Rightarrow> integration_row) \<Rightarrow> (wms_world, unit) prog" where
  "update_event k f = sql (on_table integration_outbox (\<lambda>x d. d\<lparr>integration_outbox := x\<rparr>) (\<lambda>now tab.
     map_sum id (\<lambda>(_, t). ((), t)) (update_at ''integration_outbox'' (\<lambda>_. True) k (f now) tab)))"

definition mark_published :: "uuid \<Rightarrow> string option \<Rightarrow> (wms_world, unit) prog" where
  "mark_published k e = update_event k (\<lambda>now r. r\<lparr>ig_published := Some now, ig_error := e\<rparr>)"

definition backoff :: "int64 \<Rightarrow> time" where
  "backoff tries = min (2 ^ nat (sint tries) * 1000000000) (300 * 1000000000)"

definition postpone :: "uuid \<Rightarrow> int64 \<Rightarrow> string \<Rightarrow> (wms_world, unit) prog" where
  "postpone k tries e = update_event k (\<lambda>now r. r\<lparr>ig_available := now + backoff tries, ig_error := Some e\<rparr>)"

definition insert_dead_letter :: "uuid \<Rightarrow> integration_row \<Rightarrow> string \<Rightarrow> (wms_world, unit) prog" where
  "insert_dead_letter k r e = sql (on_table integration_dead_letters (\<lambda>x d. d\<lparr>integration_dead_letters := x\<rparr>) (\<lambda>now tab.
     Inr ((), tab @ [\<lparr>dl_event = k, dl_topic = ig_topic r, dl_type = ig_type r, dl_envelope = ig_envelope r,
       dl_attempts = ig_attempts r, dl_error = e\<rparr>])))"

text \<open>One row of the batch: was it published?\<close>

definition publish_row :: "relay_params \<Rightarrow> uuid \<times> integration_row \<Rightarrow> (relay_world, bool) prog" where
  "publish_row R x = (case x of (k, r) \<Rightarrow>
     bindP (on_first clock_now) (\<lambda>now.
     bindP (tryP (on_second (write_message (relay_message r now)))) (\<lambda>q. case q of
       Inr _ \<Rightarrow> bindP (on_first (mark_published k None)) (\<lambda>_. returnP True)
     | Inl e \<Rightarrow>
         if i64_le maxIntegrationAttempts (ig_attempts r)
         then bindP (on_first (insert_dead_letter k r (rx_error R e))) (\<lambda>_.
           bindP (on_first (mark_published k (Some (''RETRY_EXHAUSTED:'' @ rx_error R e)))) (\<lambda>_. returnP False))
         else bindP (on_first (postpone k (ig_attempts r) (rx_error R e))) (\<lambda>_. returnP False))))"

fun publish_rows :: "relay_params \<Rightarrow> (uuid \<times> integration_row) list \<Rightarrow> nat \<Rightarrow> (relay_world, nat) prog" where
  "publish_rows R [] n = returnP n"
| "publish_rows R (x # xs) n = bindP (publish_row R x) (\<lambda>sent. publish_rows R xs (if sent then Suc n else n))"

definition relay_once :: "relay_params \<Rightarrow> (relay_world, nat) prog" where
  "relay_once R = bindP (on_first (claim_batch R)) (\<lambda>xs. publish_rows R xs 0)"

text \<open>How many rows wait, and for how many seconds the oldest one does.\<close>

definition pending_depth :: "(wms_world, nat \<times> rat) prog" where
  "pending_depth = query (\<lambda>now d.
     let ts = map (ig_created \<circ> snd) (filter (\<lambda>(k, r). ig_published r = None) (integration_outbox d)) in
     (length ts, if ts = [] then 0 else of_int (now - Min (set ts)) / 1000000000))"

end
