(* ===== verification/Wms_Delivery.thy ===== *)
theory Wms_Delivery
  imports Wms_Relay
begin

text \<open>
  What the relay guarantees: a fact for WMS waits in the outbox, is in the log of its topic, or is among
  the dead letters, whatever fails; and a cycle that meets no failure empties the outbox.
\<close>

section \<open>Statements of a cycle\<close>

definition same_event :: "integration_row \<Rightarrow> integration_row \<Rightarrow> bool" where
  "same_event r r0 \<longleftrightarrow> ig_topic r = ig_topic r0 \<and> ig_type r = ig_type r0 \<and> ig_key r = ig_key r0 \<and> ig_envelope r = ig_envelope r0"

definition sent_as :: "integration_row \<Rightarrow> broker_message broker \<Rightarrow> bool" where
  "sent_as r b \<longleftrightarrow> (\<exists>t. relay_message r t \<in> set (bk_log b))"

definition dead_lettered :: "uuid \<Rightarrow> wms_tables \<Rightarrow> bool" where
  "dead_lettered k d \<longleftrightarrow> k \<in> dl_event ` set (integration_dead_letters d)"

definition accounted :: "uuid \<Rightarrow> integration_row \<Rightarrow> relay_world \<Rightarrow> bool" where
  "accounted k r0 s \<longleftrightarrow> (\<exists>r. map_of (integration_outbox (w_db (fst s))) k = Some r \<and> same_event r r0
     \<and> (ig_published r = None \<or> sent_as r0 (snd s) \<or> dead_lettered k (w_db (fst s))))"

lemma same_event_refl [simp]: "same_event r r"
  by (simp add: same_event_def)

lemma same_event_fields [simp]:
  "same_event (r\<lparr>ig_attempts := n\<rparr>) r0 = same_event r r0" "same_event (r\<lparr>ig_published := p\<rparr>) r0 = same_event r r0"
  "same_event (r\<lparr>ig_error := e\<rparr>) r0 = same_event r r0" "same_event (r\<lparr>ig_available := t\<rparr>) r0 = same_event r r0"
  by (simp_all add: same_event_def)

lemma relay_message_same: "same_event r r0 \<Longrightarrow> relay_message r t = relay_message r0 t"
  by (simp add: relay_message_def same_event_def)

lemma map_of_count_attempts: "map_of (count_attempts ids tab) k = map_option (\<lambda>r. if k \<in> ids then r\<lparr>ig_attempts := ig_attempts r + 1\<rparr> else r) (map_of tab k)"
  by (induction tab) (auto simp: count_attempts_def)

lemma pending_in: "x \<in> set (pending_rows now tab) \<Longrightarrow> x \<in> set tab \<and> ig_published (snd x) = None"
  by (auto simp: pending_rows_def)

text \<open>A claim keeps every row but its attempts, and what it gives are rows of the table.\<close>

lemma claim_batch_db:
  assumes "claim_batch R w = (q, w')"
  shows "integration_dead_letters (w_db w') = integration_dead_letters (w_db w)
    \<and> (\<forall>k. rel_option (\<lambda>r r'. same_event r' r \<and> ig_published r' = ig_published r)
        (map_of (integration_outbox (w_db w)) k) (map_of (integration_outbox (w_db w')) k))"
proof -
  have "same_event (r\<lparr>ig_attempts := n\<rparr>) r \<and> same_event r r" for r :: integration_row and n by simp
  then show ?thesis
    using sql_db_cases [OF assms [unfolded claim_batch_def]]
    by (auto simp: on_table_Inr Let_def map_of_count_attempts option_rel_Some1 rel_option_iff split: option.splits)
qed

lemma claim_batch_rows:
  assumes "claim_batch R w = (Inr xs, w')" and order: "\<And>ys. set (rx_order R ys) = set ys" and "(k, r) \<in> set xs"
  shows "map_of (integration_outbox (w_db w')) k = Some r"
proof -
  obtain now tab where s: "(let ids = map fst (take (rx_batch R) (pending_rows now (integration_outbox (w_db w))));
      tab1 = count_attempts (set ids) (integration_outbox (w_db w)) in
      (Inr (rx_order R (map (\<lambda>k. (k, the (map_of tab1 k))) ids), tab1) :: err + _)) = Inr (xs, tab)"
    and d: "w_db w' = (w_db w)\<lparr>integration_outbox := tab\<rparr>"
    using assms(1) unfolding claim_batch_def by (rule sql_table_Inr)
  let ?old = "integration_outbox (w_db w)" and ?ids = "map fst (take (rx_batch R) (pending_rows now (integration_outbox (w_db w))))"
  from s have tab: "count_attempts (set ?ids) ?old = tab"
    and "rx_order R (map (\<lambda>k. (k, the (map_of (count_attempts (set ?ids) ?old) k))) ?ids) = xs"
    unfolding Let_def sum.inject prod.inject by blast+
  from this(2) [unfolded tab] order have xs: "set xs = (\<lambda>k. (k, the (map_of tab k))) ` set ?ids" by fastforce
  from xs assms(3) have k: "k \<in> set ?ids" and r: "r = the (map_of tab k)" by auto
  from k obtain r0 where "(k, r0) \<in> set ?old" by (auto dest!: in_set_takeD pending_in)
  then have "map_of ?old k \<noteq> None" by (metis image_eqI map_of_eq_None_iff fst_conv)
  with r d show ?thesis unfolding tab [symmetric] by (auto simp: map_of_count_attempts)
qed

lemma update_event_db:
  assumes "update_event k f w = (q, w')"
  shows "integration_dead_letters (w_db w') = integration_dead_letters (w_db w)
    \<and> (map_of (integration_outbox (w_db w')) = map_of (integration_outbox (w_db w))
      \<or> (\<exists>now. map_of (integration_outbox (w_db w')) = (map_of (integration_outbox (w_db w)))(k := map_option (f now) (map_of (integration_outbox (w_db w)) k))))"
  using sql_db_cases [OF assms [unfolded update_event_def]]
  by (auto simp: on_table_Inr rows_dropped dest!: update_at_map)

lemma insert_dead_letter_db:
  assumes "insert_dead_letter k r e w = (q, w')"
  shows "integration_outbox (w_db w') = integration_outbox (w_db w)"
    and "dead_lettered j (w_db w) \<Longrightarrow> dead_lettered j (w_db w')" and "q = Inr () \<Longrightarrow> dead_lettered k (w_db w')"
proof -
  note run = assms [unfolded insert_dead_letter_def]
  show "integration_outbox (w_db w') = integration_outbox (w_db w)"
    and "dead_lettered j (w_db w) \<Longrightarrow> dead_lettered j (w_db w')"
    using sql_db_cases [OF run] by (auto simp: on_table_Inr dead_lettered_def)
  show "dead_lettered k (w_db w')" if "q = Inr ()"
    using run [unfolded that] by (rule sql_table_Inr) (auto simp: dead_lettered_def)
qed

section \<open>Nothing is lost\<close>

lemma accounted_update:
  assumes "accounted k r0 (w, b)" and "update_event j f w = (q, w')"
    and f: "\<And>now r. same_event (f now r) r"
    and p: "\<And>now r. j = k \<Longrightarrow> ig_published (f now r) = ig_published r \<or> sent_as r0 b \<or> dead_lettered k (w_db w)"
  shows "accounted k r0 (w', b)"
proof -
  from assms(1) obtain r where r: "map_of (integration_outbox (w_db w)) k = Some r" "same_event r r0"
    and fate: "ig_published r = None \<or> sent_as r0 b \<or> dead_lettered k (w_db w)" by (auto simp: accounted_def)
  from update_event_db [OF assms(2)] have dead: "dead_lettered k (w_db w') = dead_lettered k (w_db w)"
    and out: "map_of (integration_outbox (w_db w')) k = Some r \<or> j = k \<and> (\<exists>now. map_of (integration_outbox (w_db w')) k = Some (f now r))"
    using r(1) by (auto simp: dead_lettered_def split: if_splits)
  from out show ?thesis
  proof (elim disjE conjE exE)
    assume "map_of (integration_outbox (w_db w')) k = Some r"
    with r fate dead show ?thesis by (simp add: accounted_def)
  next
    fix now assume "j = k" and now: "map_of (integration_outbox (w_db w')) k = Some (f now r)"
    moreover have "same_event (f now r) r0" using f [of now r] r(2) by (simp add: same_event_def)
    moreover have "ig_published (f now r) = None \<or> sent_as r0 b \<or> dead_lettered k (w_db w)"
      using p [OF \<open>j = k\<close>, of now r] fate by auto
    ultimately show ?thesis using dead by (simp add: accounted_def)
  qed
qed

lemma accounted_grows:
  assumes "accounted k r0 (w, b)" and "integration_outbox (w_db w') = integration_outbox (w_db w)"
    and "dead_lettered k (w_db w) \<Longrightarrow> dead_lettered k (w_db w')" and "set (bk_log b) \<subseteq> set (bk_log b')"
  shows "accounted k r0 (w', b')"
  using assms by (auto simp: accounted_def sent_as_def)

lemma on_first_split: "on_first m (w, b) = (q, s) \<longleftrightarrow> (\<exists>w'. m w = (q, w') \<and> s = (w', b))"
  by (auto simp: on_first_def split: prod.splits)

lemma publish_row_accounted:
  assumes x: "j = k \<Longrightarrow> same_event r r0" and acc: "accounted k r0 s" and run: "publish_row R (j, r) s = (q, s')"
  shows "accounted k r0 s'"
proof -
  obtain w b where s: "s = (w, b)" by (cases s)
  obtain now w1 where c: "clock_now w = (Inr now, w1)" by (simp add: clock_now_def)
  obtain a b2 where wr: "write_message (relay_message r now) b = (a, b2)"
    by (cases "write_message (relay_message r now) b")
  note w2 = write_message_log [OF wr]
  have acc2: "accounted k r0 (w1, b2)"
  proof (rule accounted_grows [OF acc [unfolded s] _ _ w2(1)])
    have "w_db w1 = w_db w" by (rule clock_uuid_db(1) [OF c])
    then show "integration_outbox (w_db w1) = integration_outbox (w_db w)"
      "dead_lettered k (w_db w) \<Longrightarrow> dead_lettered k (w_db w1)" by simp_all
  qed
  have rest: "(case a of
       Inr _ \<Rightarrow> bindP (on_first (mark_published j None)) (\<lambda>_. returnP True)
     | Inl e \<Rightarrow>
         if i64_le maxIntegrationAttempts (ig_attempts r)
         then bindP (on_first (insert_dead_letter j r (rx_error R e))) (\<lambda>_.
           bindP (on_first (mark_published j (Some (''RETRY_EXHAUSTED:'' @ rx_error R e)))) (\<lambda>_. returnP False))
         else bindP (on_first (postpone j (ig_attempts r) (rx_error R e))) (\<lambda>_. returnP False)) (w1, b2) = (q, s')"
    using run c wr by (simp add: publish_row_def s bindP_def on_first_def on_second_def tryP_def)
  have marked: "accounted k r0 s1" if "on_first (mark_published j e) (w3, b2) = (p, s1)" "accounted k r0 (w3, b2)"
      "j = k \<Longrightarrow> sent_as r0 b2 \<or> dead_lettered k (w_db w3)" for e w3 p s1
    using that unfolding mark_published_def on_first_split by (auto intro: accounted_update [where b = b2])
  show ?thesis
  proof (cases a)
    case (Inr u)
    have "j = k \<Longrightarrow> sent_as r0 b2" using w2(2) Inr x by (auto simp: sent_as_def relay_message_same)
    with rest Inr acc2 marked show ?thesis by (auto simp: bindP_def split: prod.splits sum.splits)
  next
    case (Inl e)
    show ?thesis
    proof (cases "i64_le maxIntegrationAttempts (ig_attempts r)")
      case False
      with rest Inl obtain p s1 where "on_first (postpone j (ig_attempts r) (rx_error R e)) (w1, b2) = (p, s1)" "s' = s1"
        by (auto simp: bindP_def split: prod.splits sum.splits)
      with acc2 show ?thesis unfolding postpone_def on_first_split by (auto intro: accounted_update [where b = b2])
    next
      case True
      obtain p w3 where d: "insert_dead_letter j r (rx_error R e) w1 = (p, w3)" by fastforce
      note w3 = insert_dead_letter_db [OF d]
      have acc3: "accounted k r0 (w3, b2)" by (rule accounted_grows [OF acc2 w3(1) w3(2)]) simp_all
      show ?thesis
      proof (cases p)
        case (Inl e')
        with rest \<open>a = Inl e\<close> True d acc3 show ?thesis by (simp add: bindP_def on_first_def)
      next
        case (Inr u)
        obtain p4 s4 where m: "on_first (mark_published j (Some (''RETRY_EXHAUSTED:'' @ rx_error R e))) (w3, b2) = (p4, s4)"
          by (cases "on_first (mark_published j (Some (''RETRY_EXHAUSTED:'' @ rx_error R e))) (w3, b2)")
        with rest \<open>a = Inl e\<close> True d Inr have "s' = s4" by (auto simp: bindP_def on_first_split on_first_def split: prod.splits sum.splits)
        with marked [OF m acc3] w3(3) Inr show ?thesis by auto
      qed
    qed
  qed
qed

lemma publish_rows_accounted:
  "(\<And>r. (k, r) \<in> set xs \<Longrightarrow> same_event r r0) \<Longrightarrow> accounted k r0 s \<Longrightarrow> publish_rows R xs n s = (q, s') \<Longrightarrow> accounted k r0 s'"
proof (induction xs arbitrary: n s)
  case (Cons x xs)
  obtain j r where x: "x = (j, r)" by (cases x)
  obtain a s1 where p: "publish_row R x s = (a, s1)" by (cases "publish_row R x s")
  have acc: "accounted k r0 s1"
    using publish_row_accounted [OF _ Cons.prems(2) p [unfolded x]] Cons.prems(1) x by auto
  from Cons.prems(3) p show ?case
    by (cases a) (use acc Cons.IH Cons.prems(1) in \<open>auto simp: bindP_def\<close>)
qed simp

lemma relay_once_accounted:
  assumes order: "\<And>ys. set (rx_order R ys) = set ys" and acc: "accounted k r0 s" and run: "relay_once R s = (q, s')"
  shows "accounted k r0 s'"
proof -
  obtain w b where s: "s = (w, b)" by (cases s)
  obtain a w1 where c: "claim_batch R w = (a, w1)" by fastforce
  from acc obtain r where r: "map_of (integration_outbox (w_db w)) k = Some r" "same_event r r0"
    "ig_published r = None \<or> sent_as r0 b \<or> dead_lettered k (w_db w)" by (auto simp: accounted_def s)
  have rel: "rel_option (\<lambda>r r'. same_event r' r \<and> ig_published r' = ig_published r)
      (map_of (integration_outbox (w_db w)) k) (map_of (integration_outbox (w_db w1)) k)"
    and d: "integration_dead_letters (w_db w1) = integration_dead_letters (w_db w)" using claim_batch_db [OF c] by blast+
  from rel [unfolded r(1) option_rel_Some1] obtain r' where r': "map_of (integration_outbox (w_db w1)) k = Some r'"
    "same_event r' r" "ig_published r' = ig_published r" by blast
  have acc1: "accounted k r0 (w1, b)"
    using r r' d by (auto simp: accounted_def dead_lettered_def same_event_def)
  show ?thesis
  proof (cases a)
    case (Inl e)
    with run c acc1 show ?thesis by (simp add: relay_once_def s bindP_def on_first_def)
  next
    case (Inr xs)
    with run c have "publish_rows R xs 0 (w1, b) = (q, s')" by (simp add: relay_once_def s bindP_def on_first_def)
    moreover have "same_event r2 r0" if "(k, r2) \<in> set xs" for r2
      using claim_batch_rows [OF c [unfolded Inr] order that] r' r(2) by (auto simp: same_event_def)
    ultimately show ?thesis using publish_rows_accounted acc1 by blast
  qed
qed

text \<open>Calls on the workflow leave the rows of the outbox and the dead letters alone.\<close>

interpretation kept_row: wms_invariant "\<lambda>d. map_of (integration_outbox d) k = Some r" for k r
  by unfold_locales (auto simp: moved_def recorded_def map_add_def split: option.splits)

interpretation kept_letters: wms_frame "\<lambda>d. integration_dead_letters d = ls" "\<lambda>_. True" for ls
  by unfold_locales auto

datatype relay_call = Cycle | WorkflowCall wms_call

fun run_relay :: "wms_params \<Rightarrow> consumer_params \<Rightarrow> relay_params \<Rightarrow> relay_call list \<Rightarrow> relay_world \<Rightarrow> relay_world" where
  "run_relay X K R [] s = s"
| "run_relay X K R (Cycle # cs) s = run_relay X K R cs (snd (relay_once R s))"
| "run_relay X K R (WorkflowCall c # cs) s = run_relay X K R cs (run_wms X K c (fst s), snd s)"

lemma workflow_accounted:
  assumes "accounted k r0 (w, b)"
  shows "accounted k r0 (run_wms X K c w, b)"
proof -
  from assms obtain r where r: "map_of (integration_outbox (w_db w)) k = Some r" "same_event r r0"
    "ig_published r = None \<or> sent_as r0 b \<or> dead_lettered k (w_db w)" by (auto simp: accounted_def)
  have "map_of (integration_outbox (w_db (run_wms X K c w))) k = Some r"
    using kept_row.keeps_calls [OF r(1), of X K "[c]"] by simp
  moreover have "integration_dead_letters (w_db (run_wms X K c w)) = integration_dead_letters (w_db w)"
    using kept_letters.kept [of w "integration_dead_letters (w_db w)" X K "[c]"] by simp
  ultimately show ?thesis using r by (auto simp: accounted_def dead_lettered_def)
qed

text \<open>C32: a fact for WMS is never lost. Once it is in the outbox it stays there with its topic, key and
  document, through any relay cycles and calls, any failures of the database and any behaviour of the
  broker; and when it counts as published, it is in the log of its topic, under its key, with its
  document stamped at the time of publication, or it is among the dead letters.\<close>

theorem nothing_is_lost:
  assumes "\<forall>ys. set (rx_order R ys) = set ys"
    and "map_of (integration_outbox (w_db w)) k = Some r" and "ig_published r = None"
  shows "accounted k r (run_relay X K R cs (w, b))"
proof -
  have "accounted k r s \<Longrightarrow> accounted k r (run_relay X K R cs s)" for s
  proof (induction cs arbitrary: s)
    case (Cons c cs)
    obtain q s1 where q: "relay_once R s = (q, s1)" by (cases "relay_once R s")
    obtain v u where s: "s = (v, u)" by (cases s)
    show ?case
    proof (cases c)
      case Cycle
      have "accounted k r s1" using relay_once_accounted [OF _ Cons.prems q] assms(1) by blast
      with Cons.IH q Cycle show ?thesis by simp
    next
      case (WorkflowCall x)
      with Cons.IH workflow_accounted [OF Cons.prems [unfolded s]] s show ?thesis by simp
    qed
  qed simp
  then show ?thesis using assms(2,3) by (simp add: accounted_def)
qed

section \<open>A cycle without failures\<close>

definition working :: "relay_world \<Rightarrow> bool" where
  "working s \<longleftrightarrow> healthy (fst s) \<and> (\<forall>n. bk_acked (snd s) n)"

abbreviation outbox_row :: "wms_world \<Rightarrow> uuid \<Rightarrow> integration_row option" where
  "outbox_row w \<equiv> map_of (integration_outbox (w_db w))"

lemma healthy_update_event:
  assumes "healthy w"
  obtains w' now where "update_event k f w = (Inr (), w')" and "healthy w'"
    and "outbox_row w' = (outbox_row w)(k := map_option (f now) (outbox_row w k))"
proof -
  let ?now = "w_sql_now w (w_tick w)"
  let ?tab = "case outbox_row w k of None \<Rightarrow> integration_outbox (w_db w) | Some r \<Rightarrow> AList.update k (f ?now r) (integration_outbox (w_db w))"
  let ?w = "w\<lparr>w_tick := Suc (w_tick w), w_db := (w_db w)\<lparr>integration_outbox := ?tab\<rparr>\<rparr>"
  have "update_event k f w = (Inr (), ?w)"
    using assms by (auto simp: update_event_def sql_def healthy_def Let_def on_table_def update_at_def split: option.split)
  moreover have "healthy ?w" using assms by (simp add: healthy_def)
  moreover have "outbox_row ?w = (outbox_row w)(k := map_option (f ?now) (outbox_row w k))"
    by (auto simp: update_conv' fun_upd_idem split: option.split)
  ultimately show thesis by (rule that)
qed

lemma publish_row_working:
  assumes "working (w, b)"
  obtains w' b' now where "publish_row R (k, r) (w, b) = (Inr True, (w', b'))" and "working (w', b')"
    and "set (bk_log b) \<subseteq> set (bk_log b')" and "sent_as r b'"
    and "outbox_row w' = (outbox_row w)(k := map_option (\<lambda>r. r\<lparr>ig_published := Some now, ig_error := None\<rparr>) (outbox_row w k))"
proof -
  let ?t = "env_clock w (env_reads w)" and ?w1 = "w\<lparr>env_reads := Suc (env_reads w)\<rparr>"
  let ?b = "b\<lparr>bk_writes := Suc (bk_writes b), bk_log := bk_log b @ replicate (Suc (bk_copies b (bk_writes b))) (relay_message r ?t)\<rparr>"
  from assms have h: "healthy ?w1" and a: "\<forall>n. bk_acked b n" by (simp_all add: working_def healthy_def)
  from h obtain w2 now where u: "update_event k (\<lambda>now r. r\<lparr>ig_published := Some now, ig_error := None\<rparr>) ?w1 = (Inr (), w2)"
    and h2: "healthy w2" and rows: "outbox_row w2 = (outbox_row ?w1)(k := map_option (\<lambda>r. r\<lparr>ig_published := Some now, ig_error := None\<rparr>) (outbox_row ?w1 k))"
    by (rule healthy_update_event)
  have "publish_row R (k, r) (w, b) = (Inr True, (w2, ?b))"
    using u a by (simp add: publish_row_def bindP_def on_first_def clock_now_def on_second_def tryP_def write_message_def Let_def mark_published_def)
  moreover have "working (w2, ?b)" using h2 a by (simp add: working_def)
  moreover have "set (bk_log b) \<subseteq> set (bk_log ?b)" "sent_as r ?b" by (auto simp: sent_as_def)
  ultimately show thesis using rows by (intro that) simp_all
qed

lemma publish_rows_working:
  assumes "working (w, b)"
  obtains n' w' b' where "publish_rows R xs n (w, b) = (Inr n', (w', b'))" and "working (w', b')"
    and "set (bk_log b) \<subseteq> set (bk_log b')" and "\<And>k r. (k, r) \<in> set xs \<Longrightarrow> sent_as r b'"
    and "\<And>k r. outbox_row w' k = Some r \<Longrightarrow> ig_published r \<noteq> None \<or> k \<notin> fst ` set xs \<and> outbox_row w k = Some r"
proof -
  have "\<exists>n' w' b'. publish_rows R xs n (w, b) = (Inr n', (w', b')) \<and> working (w', b') \<and> set (bk_log b) \<subseteq> set (bk_log b')
    \<and> (\<forall>(k, r) \<in> set xs. sent_as r b')
    \<and> (\<forall>k r. outbox_row w' k = Some r \<longrightarrow> ig_published r \<noteq> None \<or> k \<notin> fst ` set xs \<and> outbox_row w k = Some r)"
    using assms
  proof (induction xs arbitrary: n w b)
    case Nil
    then show ?case by auto
  next
    case (Cons x xs)
    obtain k r where x: "x = (k, r)" by (cases x)
    from Cons.prems obtain w1 b1 now where p: "publish_row R (k, r) (w, b) = (Inr True, (w1, b1))" and w1: "working (w1, b1)"
      and log: "set (bk_log b) \<subseteq> set (bk_log b1)" and sent: "sent_as r b1"
      and row: "outbox_row w1 = (outbox_row w)(k := map_option (\<lambda>r. r\<lparr>ig_published := Some now, ig_error := None\<rparr>) (outbox_row w k))"
      by (rule publish_row_working [where R = R and k = k and r = r])
    from Cons.IH [OF w1, of "Suc n"] obtain n' w' b' where IH: "publish_rows R xs (Suc n) (w1, b1) = (Inr n', (w', b'))"
      "working (w', b')" "set (bk_log b1) \<subseteq> set (bk_log b')" "\<forall>(k, r) \<in> set xs. sent_as r b'"
      "\<And>k r. outbox_row w' k = Some r \<Longrightarrow> ig_published r \<noteq> None \<or> k \<notin> fst ` set xs \<and> outbox_row w1 k = Some r" by blast
    have "publish_rows R (x # xs) n (w, b) = (Inr n', (w', b'))" using p IH(1) by (simp add: x bindP_def)
    moreover have "sent_as r b'" using sent IH(3) by (auto simp: sent_as_def)
    moreover have "ig_published r' \<noteq> None \<or> j \<notin> fst ` set (x # xs) \<and> outbox_row w j = Some r'" if "outbox_row w' j = Some r'" for j r'
      using IH(5) [OF that] row by (auto simp: x split: if_splits)
    ultimately show ?case using IH(2,3,4) log by (intro exI conjI) (auto simp: x)
  qed
  then show thesis using that by (metis case_prodD)
qed

lemma claim_batch_healthy:
  assumes "healthy w" and order: "\<And>ys. set (rx_order R ys) = set ys"
    and ready: "\<forall>(k, r) \<in> set (integration_outbox (w_db w)). ig_published r = None \<longrightarrow> ig_available r \<le> w_sql_now w (w_tick w)"
    and few: "length (filter (\<lambda>(k, r). ig_published r = None) (integration_outbox (w_db w))) \<le> rx_batch R"
  obtains xs w' where "claim_batch R w = (Inr xs, w')" and "healthy w'"
    and "\<And>k r. outbox_row w k = Some r \<Longrightarrow> ig_published r = None \<Longrightarrow> k \<in> fst ` set xs"
proof -
  let ?now = "w_sql_now w (w_tick w)" and ?old = "integration_outbox (w_db w)"
  let ?ids = "map fst (take (rx_batch R) (pending_rows ?now ?old))"
  let ?tab = "count_attempts (set ?ids) ?old" let ?xs = "rx_order R (map (\<lambda>k. (k, the (map_of ?tab k))) ?ids)"
  let ?w = "w\<lparr>w_tick := Suc (w_tick w), w_db := (w_db w)\<lparr>integration_outbox := ?tab\<rparr>\<rparr>"
  have "claim_batch R w = (Inr ?xs, ?w)"
    using assms(1) by (simp add: claim_batch_def sql_def healthy_def Let_def on_table_def)
  moreover have "healthy ?w" using assms(1) by (simp add: healthy_def)
  moreover have "k \<in> fst ` set ?xs" if "outbox_row w k = Some r" "ig_published r = None" for k r
  proof -
    have "filter (\<lambda>(k, r). ig_published r = None \<and> ig_available r \<le> ?now) ?old = filter (\<lambda>(k, r). ig_published r = None) ?old"
      by (rule filter_cong) (use ready in auto)
    then have "take (rx_batch R) (pending_rows ?now ?old) = pending_rows ?now ?old" using few by (simp add: pending_rows_def)
    moreover have "(k, r) \<in> set (pending_rows ?now ?old)"
      using map_of_SomeD [OF that(1)] that(2) ready by (auto simp: pending_rows_def)
    ultimately have "k \<in> set ?ids" by force
    then show ?thesis by (simp add: order image_image)
  qed
  ultimately show thesis by (rule that)
qed

text \<open>C33: a cycle in which neither the database nor the broker fails brings everything that waits to Kafka,
  when it is due and fits a batch: afterwards the outbox has no unpublished row, and the document of
  each row that waited is in the log.\<close>

theorem quiet_cycle_drains:
  assumes "healthy w" and "\<forall>n. bk_acked b n" and "\<forall>ys. set (rx_order R ys) = set ys"
    and "\<forall>(k, r) \<in> set (integration_outbox (w_db w)). ig_published r = None \<longrightarrow> ig_available r \<le> w_sql_now w (w_tick w)"
    and "length (filter (\<lambda>(k, r). ig_published r = None) (integration_outbox (w_db w))) \<le> rx_batch R"
  shows "\<exists>n w' b'. relay_once R (w, b) = (Inr n, (w', b'))
    \<and> (\<forall>k r. map_of (integration_outbox (w_db w')) k = Some r \<longrightarrow> ig_published r \<noteq> None)
    \<and> (\<forall>k r. map_of (integration_outbox (w_db w)) k = Some r \<and> ig_published r = None \<longrightarrow> sent_as r b')"
proof -
  have order: "\<And>ys. set (rx_order R ys) = set ys" using assms(3) by blast
  obtain xs w1 where c: "claim_batch R w = (Inr xs, w1)" and h: "healthy w1"
    and all: "\<And>k r. outbox_row w k = Some r \<Longrightarrow> ig_published r = None \<Longrightarrow> k \<in> fst ` set xs"
    using claim_batch_healthy [OF assms(1) order assms(4,5)] by blast
  have working: "working (w1, b)" using h assms(2) by (simp add: working_def)
  obtain n w' b' where p: "publish_rows R xs 0 (w1, b) = (Inr n, (w', b'))" and "working (w', b')"
    and "set (bk_log b) \<subseteq> set (bk_log b')" and sent: "\<And>k r. (k, r) \<in> set xs \<Longrightarrow> sent_as r b'"
    and rows: "\<And>k r. outbox_row w' k = Some r \<Longrightarrow> ig_published r \<noteq> None \<or> k \<notin> fst ` set xs \<and> outbox_row w1 k = Some r"
    using publish_rows_working [OF working, of R xs 0] by metis
  have same: "rel_option (\<lambda>r r'. same_event r' r \<and> ig_published r' = ig_published r) (outbox_row w k) (outbox_row w1 k)" for k
    using claim_batch_db [OF c] by blast
  have "relay_once R (w, b) = (Inr n, (w', b'))" using c p by (simp add: relay_once_def bindP_def on_first_def)
  moreover have "ig_published r \<noteq> None" if "outbox_row w' k = Some r" for k r
  proof (rule ccontr)
    assume none: "\<not> ig_published r \<noteq> None"
    with rows [OF that] have "k \<notin> fst ` set xs" "outbox_row w1 k = Some r" by auto
    with same [of k] obtain r0 where "outbox_row w k = Some r0" "ig_published r0 = None" using none by (auto simp: option_rel_Some2)
    with all \<open>k \<notin> fst ` set xs\<close> show False by blast
  qed
  moreover have "sent_as r b'" if "outbox_row w k = Some r" "ig_published r = None" for k r
  proof -
    from all [OF that] obtain r1 where r1: "(k, r1) \<in> set xs" by auto
    have "outbox_row w1 k = Some r1" by (rule claim_batch_rows [OF c order r1])
    with same [of k] that have "same_event r1 r" by simp
    with sent [OF r1] show ?thesis by (simp add: sent_as_def relay_message_same)
  qed
  ultimately show ?thesis by blast
qed

section \<open>Several relays\<close>

lemma sort_key_map: "sort_key f (map g xs) = map g (sort_key (f \<circ> g) xs)"
proof -
  have "insort_key f (g x) (map g ys) = map g (insort_key (f \<circ> g) x ys)" for x ys by (induction ys) auto
  then show ?thesis by (induction xs) simp_all
qed

lemma pending_counted:
  "pending_rows now (count_attempts ids tab) = count_attempts ids (pending_rows now tab)"
proof -
  let ?g = "\<lambda>(k, r). (k, if k \<in> ids then r\<lparr>ig_attempts := ig_attempts r + 1\<rparr> else r)"
  have f: "filter (\<lambda>(k, r). ig_published r = None \<and> ig_available r \<le> now) (map ?g tab)
    = map ?g (filter (\<lambda>(k, r). ig_published r = None \<and> ig_available r \<le> now) tab)"
    by (induction tab) (auto split: if_splits)
  have g: "fst \<circ> ?g = fst" "(ig_created \<circ> snd) \<circ> ?g = ig_created \<circ> snd" by (auto simp: fun_eq_iff)
  show ?thesis unfolding pending_rows_def count_attempts_def by (simp only: f sort_key_map g)
qed

text \<open>A claim takes no lease: the row locks end with the statement, so a second relay that claims before
  the first has published gets the same rows, and publishes them again.\<close>

lemma claims_are_not_exclusive:
  assumes "claim_batch R w = (Inr xs, w1)" and "claim_batch R w1 = (Inr ys, w2)"
    and "\<And>zs. set (rx_order R zs) = set zs" and "\<And>n. w_sql_now w n = now" and "\<And>n. w_sql_now w1 n = now"
  shows "fst ` set ys = fst ` set xs"
proof -
  have ids: "fst ` set xs = fst ` set (take (rx_batch R) (pending_rows now (integration_outbox (w_db w))))
      \<and> (\<exists>ids. integration_outbox (w_db w1) = count_attempts ids (integration_outbox (w_db w)))"
    if run: "claim_batch R w = (Inr xs, w1)" and t: "\<And>n. w_sql_now w n = now" for w w1 xs
  proof -
    let ?ids = "map fst (take (rx_batch R) (pending_rows now (integration_outbox (w_db w))))"
    let ?tab = "count_attempts (set ?ids) (integration_outbox (w_db w))"
    have "rx_order R (map (\<lambda>k. (k, the (map_of ?tab k))) ?ids) = xs" and out: "integration_outbox (w_db w1) = ?tab"
      using run t by (auto simp: claim_batch_def sql_def on_table_def Let_def split: if_splits fault.splits)
    then have "set xs = (\<lambda>k. (k, the (map_of ?tab k))) ` set ?ids" using assms(3) by fastforce
    then have "fst ` set xs = set ?ids" by (simp add: image_image)
    with out show ?thesis by auto
  qed
  from ids [OF assms(1,4)] obtain js where js: "integration_outbox (w_db w1) = count_attempts js (integration_outbox (w_db w))" by blast
  have "fst ` set (take n (count_attempts js zs)) = fst ` set (take n zs)" for n zs
    by (simp add: count_attempts_def take_map image_image split_def)
  with ids [OF assms(1,4)] ids [OF assms(2,5)] js show ?thesis by (simp add: pending_counted)
qed

end
