(* ===== verification/Wms_Scans.thy ===== *)
theory Wms_Scans
  imports Wms_Properties
begin

text \<open>
  Scans and completions: what a completion takes for granted, and what becomes of a scan that was
  refused once.
\<close>

section \<open>Completion\<close>

text \<open>A command with an id of its own that was not used before makes its change.\<close>

lemma fresh_command_Inr:
  assumes "wms_command X i ty cid h change a w = (Inr t, w')"
    and "cid \<noteq> uuid_nil" and "map_of (pda_task_command (w_db w)) cid = None"
  obtains w1 w2 where "w_db w1 = w_db w" "command_effect X i ty cid h change a w1 = (Inr t, w2)" "w_db w' = w_db w2"
proof -
  from assms(1,2) have run: "with_tx_or_leave (command_body X i ty cid h change a) w = (Inr t, w')"
    by (simp add: wms_command_def bindP_def)
  have effect: "\<exists>s. w_db s = w_db w \<and> bindP (command_effect X i ty cid h change a) (\<lambda>t. returnP (Inr t)) s = (Inr x, w2)"
    if body: "command_body X i ty cid h change a w1 = (Inr x, w2)" and d: "w_db w1 = w_db w" for x w1 w2
  proof -
    from body obtain row s where q: "query (\<lambda>now d. map_of (pda_task_command d) cid) w1 = (Inr row, s)"
      and k: "(case row of None \<Rightarrow> bindP (command_effect X i ty cid h change a) (\<lambda>t. returnP (Inr t))
        | Some r \<Rightarrow> if kr_hash r \<noteq> h then failP ErrCommandConflict
           else (case kr_result r of Some t \<Rightarrow> returnP (Inl t)
             | None \<Rightarrow> bindP (command_effect X i ty cid h change a) (\<lambda>t. returnP (Inr t)))) s = (Inr x, w2)"
      unfolding command_body_def Let_def bindP_Inr_iff by blast
    from q obtain now where "map_of (pda_task_command (w_db w1)) cid = row" "w_db s = w_db w1" by (rule query_Inr)
    with d assms(3) k show ?thesis by (intro exI [of _ s]) simp
  qed
  from run show thesis
  proof (cases rule: with_tx_or_leave_Inr)
    case (1 w1 w2)
    from effect [OF this(2,1)] obtain s where "w_db s = w_db w" "command_effect X i ty cid h change a s = (Inr t, w2)"
      by (auto simp: prog_iffs)
    with 1 that show thesis by blast
  next
    case (left w1 w2)
    from effect [OF this] show thesis by (auto simp: prog_iffs)
  qed
qed

definition confirmed_scan :: "string \<Rightarrow> string \<Rightarrow> wms_tables \<Rightarrow> bool" where
  "confirmed_scan i ty d \<longleftrightarrow> (\<exists>((k, t, _), r) \<in> set (pda_task_scan d). k = i \<and> equal_fold t ty \<and> zr_accepted r)"

lemma confirmed_scan_types:
  assumes "set (distinct_rows (accepted_types i d)) = set (accepted_types i d)"
  shows "contains_fold (distinct_rows (accepted_types i d)) ty \<longleftrightarrow> confirmed_scan i ty d"
  unfolding contains_fold_def assms by (auto simp: accepted_types_def confirmed_scan_def)

lemma command_facts:
  assumes "moved i news d d1" and "recorded news i d1 d2" and "news = Some (ty, ms)"
  shows "length (facts_of ty i d2) = Suc (length (facts_of ty i d))"
  using recorded_facts [OF assms(2), of ty i] moved_facts [OF assms(1), of ty i] assms(3) by simp

text \<open>C28: a completion under a command id, which is not a replay, was for the version of the task that stands in the projection,
  of a started execution, for a quantity above zero and at most what remains, a millionth apart, and
  every scan the task asks for was accepted. It stores the quantity, rounded to six places, and adds
  one completion fact. The order of \<open>SELECT DISTINCT\<close> does not matter.\<close>

theorem completion_was_earned:
  assumes "wms_complete X i q v cid a w = (Inr t, w')"
    and "cid \<noteq> uuid_nil" and "map_of (pda_task_command (w_db w)) cid = None"
    and "set (wx_distinct X (accepted_types i (w_db w))) = set (accepted_types i (w_db w))"
  shows "\<exists>p r n. map_of (wms_task_projection (w_db w)) i = Some p \<and> pj_version p = v \<and> state_of i (w_db w) = ''STARTED''
    \<and> 0 < q \<and> q \<le> pj_remaining p + 1 / 1000000 \<and> list_all (\<lambda>ty. confirmed_scan i ty (w_db w)) (pj_scans p)
    \<and> map_of (pda_task_execution (w_db w')) i = Some r \<and> xr_state r = ''COMPLETED'' \<and> numeric6 q = Inr n \<and> xr_confirmed r = n
    \<and> length (facts_of EventTaskCompleted i (w_db w')) = Suc (length (facts_of EventTaskCompleted i (w_db w)))"
proof -
  obtain w1 w2 where d: "w_db w1 = w_db w" "w_db w' = w_db w2"
    and e: "command_effect X i ''COMPLETE'' cid (request_hash X i ''COMPLETE'' v (ac_operator a) q '''') (complete_change X i q v a) a w1
      = (Inr t, w2)"
    using assms(1) [unfolded wms_complete_def] assms(2,3) by (rule fresh_command_Inr)
  from e obtain p en news w3 w4 where p: "map_of (wms_task_projection (w_db w1)) i = Some p"
    and d3: "w_db w3 = w_db w1" and en: "en_state en = state_of i (w_db w1)"
    and ch: "complete_change X i q v a (projection_of p) en w3 = (Inr news, w4)" and rec: "recorded news i (w_db w4) (w_db w2)"
    by (rule command_effect_Inr)
  have en3: "en_state en = state_of i (w_db w3)" using en d3 by simp
  note c = complete_change_Inr [OF ch en3]
  from c(7) obtain ms where news: "news = Some (EventTaskCompleted, ms)" by blast
  from c(8) obtain r n where r: "numeric6 q = Inr n" "map_of (pda_task_execution (w_db w4)) i = Some r"
    "xr_state r = ''COMPLETED''" "xr_confirmed r = n" by blast
  have "map_of (pda_task_execution (w_db w')) i = Some r" using recorded_execution [OF rec r(2)] d by simp
  moreover have "list_all (\<lambda>ty. confirmed_scan i ty (w_db w)) (pj_scans p)"
    using c(6) confirmed_scan_types [where distinct_rows = "wx_distinct X", OF assms(4)] d d3 by (simp add: projection_of_def list_all_iff)
  ultimately show ?thesis
    using p c(2-5) r command_facts [OF c(1) rec news] d d3 by (simp add: projection_of_def)
qed

section \<open>Refused scans\<close>

text \<open>Rows of scans are never changed, and a scan of a value that has its row adds none.\<close>

interpretation refused: wms_frame "\<lambda>d. map_of (pda_task_scan d) k = Some r" "\<lambda>_. True" for k r
  by unfold_locales (auto simp: map_add_def split: option.split)

interpretation rescanned: wms_frame "\<lambda>d. pda_task_scan d = tab" "\<lambda>k. map_of tab k \<noteq> None" for tab
  by unfold_locales auto

text \<open>C29: a value that was once refused for a scan type is never counted, whatever comes later: the row
  that says so stays, and a scan of that value that is answered with success, because a newer version
  of the task asks for it, leaves the accepted scans, which a completion looks at, as they were.\<close>

theorem refused_scan_never_counts:
  assumes "map_of (pda_task_scan (w_db w)) (scan_key X i (to_upper (trim_space ty)) (trim_space val)) = Some r"
    and "\<not> zr_accepted r"
    and "wms_scan X i ty val v cid a (run_wms_calls X K cs w) = (Inr t, w')"
  shows "map_of (pda_task_scan (w_db w')) (scan_key X i (to_upper (trim_space ty)) (trim_space val)) = Some r
    \<and> accepted_types i (w_db w') = accepted_types i (w_db (run_wms_calls X K cs w))"
proof -
  let ?k = "scan_key X i (to_upper (trim_space ty)) (trim_space val)" and ?w = "run_wms_calls X K cs w"
  have "map_of (pda_task_scan (w_db ?w)) ?k = Some r"
    by (rule refused.kept [OF _ assms(1)]) simp
  moreover from this have "keeps (of_db (\<lambda>d. pda_task_scan d = pda_task_scan (w_db ?w))) (wms_scan X i ty val v cid a)"
    by (intro rescanned.keeps_wms_scan) simp
  then have "pda_task_scan (w_db w') = pda_task_scan (w_db ?w)"
    using assms(3) by (auto simp: keeps_def of_db_def)
  ultimately show ?thesis by (simp add: accepted_types_def)
qed

end
