(* ===== verification/Wms_Dispatch.thy ===== *)
theory Wms_Dispatch
  imports Wms_Contract
begin

text \<open>
  Deliveries of dispatched tasks: Kafka delivers a message at least once, and \<open>WMSTaskConsumer.Start\<close>
  reads each topic in a goroutine of its own, so messages repeat, overtake each other, and are
  processed in transactions that overlap. A run is a sequence of turns: a delivery looks at the
  projection, and later it writes by what it saw and commits. The lock \<open>FOR UPDATE\<close> takes keeps the
  deliveries of one task apart, except the first ones: where there is no row there is no lock. As
  long as the first delivery of a task is alone, what the projection holds in the end depends on the
  messages alone.
\<close>

section \<open>What a task shows\<close>

text \<open>The times of a row tell when its versions arrived; the rest is its content.\<close>

definition task_content :: "projection_row \<Rightarrow> projection_row" where
  "task_content r = r\<lparr>pj_dispatched := 0, pj_source_dispatched := None, pj_received := 0, pj_updated := 0\<rparr>"

definition content_of :: "accepted \<Rightarrow> projection_row option" where
  "content_of x = (case quantities_of (xa_dispatch x) of
     Inl e \<Rightarrow> None
   | Inr qs \<Rightarrow> Some (projection_row_of (xa_event x) (xa_dispatch x) (xa_payload x) None 0 0 qs))"

definition dispatches :: "consumer_params \<Rightarrow> kafka_message set \<Rightarrow> accepted set" where
  "dispatches K ms = {x. \<exists>m \<in> ms. examine K m = Accepted x}"

definition claimed :: "consumer_params \<Rightarrow> wms_tables \<Rightarrow> accepted \<Rightarrow> bool" where
  "claimed K d x \<longleftrightarrow> map_of (event_inbox d) (xa_event x, kx_group K) \<noteq> None"

abbreviation task_of :: "accepted \<Rightarrow> string" where
  "task_of x \<equiv> dp_task (xa_dispatch x)"

abbreviation version_of :: "accepted \<Rightarrow> int64" where
  "version_of x \<equiv> dp_version (xa_dispatch x)"

text \<open>The inbox names messages of \<open>U\<close> only, and each row of the projection shows the latest version
  among the messages in the inbox.\<close>

definition latest :: "consumer_params \<Rightarrow> accepted set \<Rightarrow> wms_tables \<Rightarrow> bool" where
  "latest K U d \<longleftrightarrow>
     (\<forall>e. map_of (event_inbox d) (e, kx_group K) \<noteq> None \<longrightarrow> (\<exists>x \<in> U. xa_event x = e)) \<and>
     (\<forall>i. case map_of (wms_task_projection d) i of
        None \<Rightarrow> \<forall>x \<in> U. claimed K d x \<longrightarrow> task_of x \<noteq> i
      | Some r \<Rightarrow> \<exists>x \<in> U. claimed K d x \<and> task_of x = i \<and> content_of x = Some (task_content r) \<and> pj_version r = version_of x
          \<and> (\<forall>y \<in> U. claimed K d y \<and> task_of y = i \<longrightarrow> i64_le (version_of y) (version_of x)))"

section \<open>One delivery\<close>

lemma examine_version: "examine K m = Accepted x \<Longrightarrow> \<not> i64_less (version_of x) 1"
  by (auto simp: examine_def split: option.splits sum.splits if_splits)

lemma task_content_row: "task_content (projection_row_of eid p raw sent got now qs) = projection_row_of eid p raw None 0 0 qs"
  by (simp add: task_content_def projection_row_of_def Let_def)

lemma task_content_merge: "task_content (merge_projection new old) = task_content new"
  by (simp add: task_content_def merge_projection_def)

lemma upsert_projection_Inr:
  assumes "upsert_projection eid p raw sent got w = (Inr u, w')"
  obtains qs r tab where "quantities_of p = Inr qs" and "w_db w' = (w_db w)\<lparr>wms_task_projection := tab\<rparr>"
    and "map_of tab = (map_of (wms_task_projection (w_db w)))(dp_task p \<mapsto> r)"
    and "task_content r = projection_row_of eid p raw None 0 0 qs" and "pj_version r = dp_version p"
proof -
  let ?r = "\<lambda>now qs. projection_row_of eid p raw sent got now qs"
  obtain now tab where s: "no_value (case quantities_of p of Inl e \<Rightarrow> Inl e
      | Inr qs \<Rightarrow> (let r = ?r now qs in
          upsert_at ''wms_task_projection'' projection_ok (dp_task p) r (merge_projection r) (wms_task_projection (w_db w)))) = Inr (u, tab)"
    and d: "w_db w' = (w_db w)\<lparr>wms_task_projection := tab\<rparr>"
    using assms unfolding upsert_projection_def by (rule sql_table_Inr)
  from s obtain qs where q: "quantities_of p = Inr qs"
    and up: "upsert_at ''wms_task_projection'' projection_ok (dp_task p) (?r now qs) (merge_projection (?r now qs)) (wms_task_projection (w_db w)) = Inr tab"
    by (auto simp: no_value_Inr Let_def split: sum.splits)
  let ?new = "case map_of (wms_task_projection (w_db w)) (dp_task p) of None \<Rightarrow> ?r now qs | Some r0 \<Rightarrow> merge_projection (?r now qs) r0"
  have "task_content ?new = projection_row_of eid p raw None 0 0 qs"
    by (simp add: task_content_merge task_content_row split: option.split)
  moreover have "pj_version ?new = dp_version p"
    by (simp add: merge_projection_def projection_row_of_def Let_def split: option.split)
  ultimately show thesis using upsert_at_map [OF up] by (intro that [OF q d]) auto
qed

lemma claim_event_Inr:
  assumes "claim_event eid grp w = (Inr fresh, w')"
  obtains tab where "w_db w' = (w_db w)\<lparr>event_inbox := tab\<rparr>"
    and "fresh \<longleftrightarrow> map_of (event_inbox (w_db w)) (eid, grp) = None"
    and "dom (map_of tab) = insert (eid, grp) (dom (map_of (event_inbox (w_db w))))"
proof -
  let ?old = "event_inbox (w_db w)"
  obtain now tab where s: "Inr (if map_of ?old (eid, grp) = None then (True, ?old @ [((eid, grp), now)]) else (False, ?old))
      = (Inr (fresh, tab) :: err + _)" and d: "w_db w' = (w_db w)\<lparr>event_inbox := tab\<rparr>"
    using assms unfolding claim_event_def by (rule sql_table_Inr)
  show thesis
  proof (cases "map_of ?old (eid, grp)")
    case None
    with s have "fresh" "tab = ?old @ [((eid, grp), now)]" by simp_all
    with None show thesis by (intro that [OF d]) (auto simp: dom_def map_add_def split: if_splits)
  next
    case (Some t)
    with s have "\<not> fresh" "tab = ?old" by simp_all
    with Some show thesis by (intro that [OF d]) auto
  qed
qed

lemma sync_operator_queue_db:
  "sync_operator_queue p cat st w = (r, w') \<Longrightarrow> wms_task_projection (w_db w') = wms_task_projection (w_db w)
     \<and> event_inbox (w_db w') = event_inbox (w_db w)"
  unfolding sync_operator_queue_def by (drule sql_db_cases) (auto simp: on_table_Inr)

lemma insert_stale_db:
  "insert_stale x w = (r, w') \<Longrightarrow> wms_task_projection (w_db w') = wms_task_projection (w_db w)
     \<and> event_inbox (w_db w') = event_inbox (w_db w)"
  unfolding insert_stale_def by (drule sql_db_cases) (auto simp: on_table_Inr)

text \<open>What a delivery that went through leaves: it is in the inbox; if it was there before, or is at most
  as new as the projection, it changes nothing else here, otherwise it replaces the row.\<close>

definition projected_version :: "string \<Rightarrow> wms_tables \<Rightarrow> int64" where
  "projected_version i d = (case map_of (wms_task_projection d) i of None \<Rightarrow> 0 | Some r \<Rightarrow> pj_version r)"

definition delivered :: "consumer_params \<Rightarrow> accepted \<Rightarrow> wms_tables \<Rightarrow> wms_tables \<Rightarrow> bool" where
  "delivered K x d d' \<longleftrightarrow> dom (map_of (event_inbox d')) = insert (xa_event x, kx_group K) (dom (map_of (event_inbox d)))
     \<and> (if claimed K d x \<or> i64_le (version_of x) (projected_version (task_of x) d)
        then map_of (wms_task_projection d') = map_of (wms_task_projection d)
        else \<exists>r. map_of (wms_task_projection d') = (map_of (wms_task_projection d))(task_of x \<mapsto> r)
          \<and> content_of x = Some (task_content r) \<and> pj_version r = version_of x)"

lemma write_delivery_Inr:
  assumes "write_delivery K t x v w = (Inr u, w')"
  shows "event_inbox (w_db w') = event_inbox (w_db w)
    \<and> (if i64_le (version_of x) v then wms_task_projection (w_db w') = wms_task_projection (w_db w)
       else \<exists>r. map_of (wms_task_projection (w_db w')) = (map_of (wms_task_projection (w_db w)))(task_of x \<mapsto> r)
          \<and> content_of x = Some (task_content r) \<and> pj_version r = version_of x)"
proof (cases "i64_le (version_of x) v")
  case True
  with assms insert_stale_db show ?thesis by (auto simp: write_delivery_def Let_def)
next
  case False
  let ?p = "xa_dispatch x"
  from False assms have "bindP (if is_zero t then clock_now else returnP t) (\<lambda>got.
      bindP (upsert_projection (xa_event x) ?p (xa_payload x) (xa_sent x) got) (\<lambda>_.
      sync_operator_queue ?p (xa_category x) (xa_status x))) w = (Inr u, w')" by (simp only: write_delivery_def Let_def if_False)
  then obtain got w3 w4 u1 where g: "(if is_zero t then clock_now else returnP t) w = (Inr got, w3)"
    and up: "upsert_projection (xa_event x) ?p (xa_payload x) (xa_sent x) got w3 = (Inr u1, w4)"
    and sy: "sync_operator_queue ?p (xa_category x) (xa_status x) w4 = (Inr u, w')"
    unfolding bindP_Inr_iff by blast
  have d3: "w_db w3 = w_db w" using g by (auto dest: clock_uuid_db split: if_splits)
  from up obtain qs r tab where "quantities_of ?p = Inr qs" "w_db w4 = (w_db w3)\<lparr>wms_task_projection := tab\<rparr>"
    "map_of tab = (map_of (wms_task_projection (w_db w3)))(dp_task ?p \<mapsto> r)"
    "task_content r = projection_row_of (xa_event x) ?p (xa_payload x) None 0 0 qs" "pj_version r = dp_version ?p"
    by (rule upsert_projection_Inr)
  with False d3 sync_operator_queue_db [OF sy] show ?thesis
    by (simp add: content_of_def) (rule exI [of _ r], simp)
qed

text \<open>Claimed and written, by a version that is still the one in the projection.\<close>

lemma claim_and_write_Inr:
  assumes "bindP (claim_event (xa_event x) (kx_group K)) (\<lambda>fresh. if \<not> fresh then returnP () else k) w = (Inr u, w')"
    and k: "\<And>w1. k w1 = (Inr u, w') \<Longrightarrow> w_db w1 = (w_db w)\<lparr>event_inbox := event_inbox (w_db w1)\<rparr>
      \<Longrightarrow> \<exists>w2 v t. w_db w2 = w_db w1 \<and> v = projected_version (task_of x) (w_db w) \<and> write_delivery K t x v w2 = (Inr u, w')"
  shows "delivered K x (w_db w) (w_db w')"
proof -
  from assms(1) obtain fresh w1 where c: "claim_event (xa_event x) (kx_group K) w = (Inr fresh, w1)"
    and rest: "(if \<not> fresh then returnP () else k) w1 = (Inr u, w')"
    unfolding bindP_Inr_iff by blast
  from c obtain tab where d1: "w_db w1 = (w_db w)\<lparr>event_inbox := tab\<rparr>"
    and fr0: "fresh \<longleftrightarrow> map_of (event_inbox (w_db w)) (xa_event x, kx_group K) = None"
    and dom: "dom (map_of tab) = insert (xa_event x, kx_group K) (dom (map_of (event_inbox (w_db w))))"
    by (rule claim_event_Inr)
  have fr: "fresh \<longleftrightarrow> \<not> claimed K (w_db w) x" using fr0 by (simp add: claimed_def)
  show ?thesis
  proof (cases fresh)
    case False
    with rest have "w' = w1" by (simp add: returnP_def)
    with False fr dom d1 show ?thesis by (simp add: delivered_def)
  next
    case True
    with rest have "k w1 = (Inr u, w')" by simp
    moreover have "w_db w1 = (w_db w)\<lparr>event_inbox := event_inbox (w_db w1)\<rparr>" using d1 by simp
    ultimately obtain w2 v t where w2: "w_db w2 = w_db w1" and v: "v = projected_version (task_of x) (w_db w)"
      and wr: "write_delivery K t x v w2 = (Inr u, w')" using k by blast
    from write_delivery_Inr [OF wr] True fr dom show ?thesis
      by (cases "i64_le (version_of x) v") (simp_all add: delivered_def v w2 d1)
  qed
qed

lemma apply_delivery_Inr:
  assumes "apply_delivery K t x w = (Inr u, w')"
  shows "delivered K x (w_db w) (w_db w')"
proof (rule claim_and_write_Inr [OF assms [unfolded apply_delivery_def]])
  fix w1 assume k: "bindP (read_projected (task_of x)) (write_delivery K t x) w1 = (Inr u, w')"
    and d1: "w_db w1 = (w_db w)\<lparr>event_inbox := event_inbox (w_db w1)\<rparr>"
  from k obtain v w2 where q: "read_projected (task_of x) w1 = (Inr v, w2)" and wr: "write_delivery K t x v w2 = (Inr u, w')"
    unfolding bindP_Inr_iff by blast
  have "wms_task_projection (w_db w1) = wms_task_projection (w_db w)" by (subst d1) simp
  with q have "v = projected_version (task_of x) (w_db w)" and "w_db w2 = w_db w1"
    unfolding read_projected_def projected_version_def by (auto elim!: query_Inr)
  with wr show "\<exists>w2 v t. w_db w2 = w_db w1 \<and> v = projected_version (task_of x) (w_db w) \<and> write_delivery K t x v w2 = (Inr u, w')"
    by blast
qed

text \<open>A delivery keeps \<open>latest\<close>.\<close>

lemma latest_delivered:
  assumes "latest K U d" and "delivered K x d d'" and "x \<in> U" and v: "\<not> i64_less (version_of x) 1"
    and one: "\<And>y z. y \<in> U \<Longrightarrow> z \<in> U \<Longrightarrow> xa_event y = xa_event z \<Longrightarrow> y = z"
  shows "latest K U d'"
proof -
  have dom: "dom (map_of (event_inbox d')) = insert (xa_event x, kx_group K) (dom (map_of (event_inbox d)))"
    using assms(2) by (simp add: delivered_def)
  then have cl: "claimed K d' y \<longleftrightarrow> claimed K d y \<or> y = x" if "y \<in> U" for y
    using that one [OF that \<open>x \<in> U\<close>] by (auto simp: claimed_def dom_def set_eq_iff)
  have e: "\<forall>e. map_of (event_inbox d') (e, kx_group K) \<noteq> None \<longrightarrow> (\<exists>x \<in> U. xa_event x = e)"
    using assms(1,3) dom by (auto simp: latest_def dom_def set_eq_iff)
  let ?row = "\<lambda>d i. case map_of (wms_task_projection d) i of
        None \<Rightarrow> \<forall>x \<in> U. claimed K d x \<longrightarrow> task_of x \<noteq> i
      | Some r \<Rightarrow> \<exists>x \<in> U. claimed K d x \<and> task_of x = i \<and> content_of x = Some (task_content r) \<and> pj_version r = version_of x
          \<and> (\<forall>y \<in> U. claimed K d y \<and> task_of y = i \<longrightarrow> i64_le (version_of y) (version_of x))"
  have old: "?row d i" for i using assms(1) by (simp add: latest_def)
  have "?row d' i" for i
  proof (cases "claimed K d x \<or> i64_le (version_of x) (projected_version (task_of x) d)")
    case True
    then have same: "map_of (wms_task_projection d') = map_of (wms_task_projection d)"
      using assms(2) by (simp add: delivered_def)
    show ?thesis
    proof (cases "claimed K d x")
      case True
      with cl have "\<And>y. y \<in> U \<Longrightarrow> claimed K d' y = claimed K d y" by auto
      with old [of i] same show ?thesis by (simp cong: option.case_cong)
    next
      case new: False
      with True have le: "i64_le (version_of x) (projected_version (task_of x) d)" by simp
      then obtain r where r: "map_of (wms_task_projection d) (task_of x) = Some r" "i64_le (version_of x) (pj_version r)"
        using v by (auto simp: projected_version_def i64_le_def i64_less_def split: option.splits)
      show ?thesis
      proof (cases "i = task_of x")
        case True
        with old [of i] r same cl show ?thesis by fastforce
      next
        case False
        with old [of i] same cl show ?thesis by (cases "map_of (wms_task_projection d) i") fastforce+
      qed
    qed
  next
    case False
    then obtain r where r: "map_of (wms_task_projection d') = (map_of (wms_task_projection d))(task_of x \<mapsto> r)"
      "content_of x = Some (task_content r)" "pj_version r = version_of x"
      using assms(2) by (auto simp: delivered_def)
    show ?thesis
    proof (cases "i = task_of x")
      case True
      have "i64_le (version_of y) (version_of x)" if "y \<in> U" "claimed K d y" "task_of y = task_of x" for y
        using old [of "task_of x"] that False
        by (fastforce simp: projected_version_def i64_le_def split: option.splits)
      with True r cl \<open>x \<in> U\<close> show ?thesis by (auto simp: i64_le_def)
    next
      case False
      with old [of i] r cl show ?thesis by (cases "map_of (wms_task_projection d) i") fastforce+
    qed
  qed
  with e show ?thesis by (simp add: latest_def)
qed

section \<open>All deliveries\<close>

lemma dead_letter_db:
  "dead_letter K eid ty failure m w = (r, w') \<Longrightarrow> wms_task_projection (w_db w') = wms_task_projection (w_db w)
     \<and> event_inbox (w_db w') = event_inbox (w_db w)"
  unfolding dead_letter_def Let_def by (drule sql_db_cases) (auto simp: on_table_Inr)

text \<open>A message either leaves the inbox and the projection alone, which it does only if it was refused or
  failed, or it was delivered.\<close>

lemma process_dispatch_cases:
  assumes "process_dispatch K m w = (r, w')"
  obtains (same) "event_inbox (w_db w') = event_inbox (w_db w)" "wms_task_projection (w_db w') = wms_task_projection (w_db w)"
      "\<And>x. examine K m = Accepted x \<Longrightarrow> isl r"
  | (delivered) x where "examine K m = Accepted x" "delivered K x (w_db w) (w_db w')"
proof (cases "examine K m")
  case (Rejected eid ty failure)
  with assms dead_letter_db show thesis by (intro same) (auto simp: process_dispatch_def)
next
  case (Accepted x)
  with assms have tx: "with_tx (apply_delivery K (km_time m) x) w = (r, w')" by (simp add: process_dispatch_def)
  show thesis
  proof (cases r)
    case (Inr u)
    with tx obtain w1 w2 where "w_db w1 = w_db w" "apply_delivery K (km_time m) x w1 = (Inr u, w2)" "w_db w' = w_db w2"
      by (auto elim: with_tx_Inr)
    with apply_delivery_Inr [of K "km_time m" x w1 u w2] show thesis by (intro delivered [OF Accepted]) simp
  next
    case (Inl e)
    from tx [unfolded Inl] show thesis
    proof (cases rule: with_tx_Inl)
      case rolled_back
      with Inl show thesis by (intro same) simp_all
    next
      case (committed w1 w2 u)
      with apply_delivery_Inr [of K "km_time m" x w1 u w2] show thesis by (intro delivered [OF Accepted]) simp
    qed
  qed
qed

lemma latest_cong:
  "event_inbox d' = event_inbox d \<Longrightarrow> wms_task_projection d' = wms_task_projection d \<Longrightarrow> latest K U d' = latest K U d"
  by (simp add: latest_def claimed_def cong: option.case_cong)

lemma claimed_delivered: "delivered K x d d' \<Longrightarrow> claimed K d' y \<longleftrightarrow> claimed K d y \<or> xa_event y = xa_event x"
  by (auto simp: delivered_def claimed_def dom_def set_eq_iff)

section \<open>Deliveries that overlap\<close>

text \<open>A delivery under way has claimed its event and seen a version of its task, under the lock of the
  row when there was one. Nobody sees what it writes before it commits, so its statements may be taken
  together at that moment, with the version it saw.\<close>

record flight =
  fl_message :: kafka_message
  fl_accepted :: accepted
  fl_seen :: int64
  fl_locks :: bool

record consumer_run =
  cr_world :: wms_world
  cr_flights :: "flight list"
  cr_results :: "(kafka_message \<times> (err + unit)) list"

definition whole :: "consumer_params \<Rightarrow> kafka_message \<Rightarrow> consumer_run \<Rightarrow> consumer_run" where
  "whole K m s = (case process_dispatch K m (cr_world s) of
     (r, w') \<Rightarrow> s\<lparr>cr_world := w', cr_results := cr_results s @ [(m, r)]\<rparr>)"

text \<open>The insertion of the inbox row waits for a delivery of the same event, the \<open>SELECT\<close> for the lock.
  A delivery that waits makes no turn.\<close>

definition look :: "consumer_params \<Rightarrow> kafka_message \<Rightarrow> consumer_run \<Rightarrow> consumer_run" where
  "look K m s = (case examine K m of
     Rejected eid ty failure \<Rightarrow> whole K m s
   | Accepted x \<Rightarrow>
       if list_ex (\<lambda>f. xa_event (fl_accepted f) = xa_event x
            \<or> (fl_locks f \<and> task_of (fl_accepted f) = task_of x)) (cr_flights s) then s
       else if claimed K (w_db (cr_world s)) x then whole K m s
       else s\<lparr>cr_flights := cr_flights s @ [\<lparr>fl_message = m, fl_accepted = x,
         fl_seen = projected_version (task_of x) (w_db (cr_world s)),
         fl_locks = (map_of (wms_task_projection (w_db (cr_world s))) (task_of x) \<noteq> None)\<rparr>]\<rparr>)"

definition seen_delivery :: "consumer_params \<Rightarrow> flight \<Rightarrow> (wms_world, unit) prog" where
  "seen_delivery K f = with_tx (bindP (claim_event (xa_event (fl_accepted f)) (kx_group K)) (\<lambda>fresh.
     if \<not> fresh then returnP () else write_delivery K (km_time (fl_message f)) (fl_accepted f) (fl_seen f)))"

definition finish :: "consumer_params \<Rightarrow> nat \<Rightarrow> consumer_run \<Rightarrow> consumer_run" where
  "finish K i s = (if length (cr_flights s) \<le> i then s
     else let f = cr_flights s ! i; others = take i (cr_flights s) @ drop (Suc i) (cr_flights s) in
       if list_ex (\<lambda>g. fl_locks g \<and> task_of (fl_accepted g) = task_of (fl_accepted f)) others then s
       else case seen_delivery K f (cr_world s) of
         (r, w') \<Rightarrow> s\<lparr>cr_world := w', cr_flights := others, cr_results := cr_results s @ [(fl_message f, r)]\<rparr>)"

datatype turn = Look kafka_message | Finish nat

fun take_turn :: "consumer_params \<Rightarrow> turn \<Rightarrow> consumer_run \<Rightarrow> consumer_run" where
  "take_turn K (Look m) s = look K m s"
| "take_turn K (Finish i) s = finish K i s"

fun take_turns :: "consumer_params \<Rightarrow> turn list \<Rightarrow> consumer_run \<Rightarrow> consumer_run" where
  "take_turns K [] s = s"
| "take_turns K (t # ts) s = take_turns K ts (take_turn K t s)"

definition consumer_start :: "wms_world \<Rightarrow> consumer_run" where
  "consumer_start w = \<lparr>cr_world = w, cr_flights = [], cr_results = []\<rparr>"

fun looked_at :: "turn list \<Rightarrow> kafka_message set" where
  "looked_at [] = {}"
| "looked_at (Look m # ts) = insert m (looked_at ts)"
| "looked_at (Finish i # ts) = looked_at ts"

text \<open>No delivery looks at a task whose first delivery, the one without a lock, is still under way.\<close>

fun alone :: "consumer_params \<Rightarrow> turn \<Rightarrow> consumer_run \<Rightarrow> bool" where
  "alone K (Look m) s = (case examine K m of Rejected eid ty failure \<Rightarrow> True
     | Accepted x \<Rightarrow> \<not> list_ex (\<lambda>f. \<not> fl_locks f \<and> task_of (fl_accepted f) = task_of x) (cr_flights s))"
| "alone K (Finish i) s = True"

fun first_alone :: "consumer_params \<Rightarrow> turn list \<Rightarrow> consumer_run \<Rightarrow> bool" where
  "first_alone K [] s = True"
| "first_alone K (t # ts) s = (alone K t s \<and> first_alone K ts (take_turn K t s))"

text \<open>Then the deliveries under way are of different tasks, and what each saw is still there.\<close>

definition in_step :: "consumer_params \<Rightarrow> accepted set \<Rightarrow> consumer_run \<Rightarrow> bool" where
  "in_step K U s \<longleftrightarrow> latest K U (w_db (cr_world s)) \<and> distinct (map (\<lambda>f. task_of (fl_accepted f)) (cr_flights s))
     \<and> (\<forall>f \<in> set (cr_flights s). fl_accepted f \<in> U \<and> examine K (fl_message f) = Accepted (fl_accepted f)
          \<and> \<not> claimed K (w_db (cr_world s)) (fl_accepted f)
          \<and> fl_seen f = projected_version (task_of (fl_accepted f)) (w_db (cr_world s)))
     \<and> (\<forall>m x. (m, Inr ()) \<in> set (cr_results s) \<and> examine K m = Accepted x \<longrightarrow> claimed K (w_db (cr_world s)) x)"

lemma seen_delivery_cases:
  assumes "seen_delivery K f w = (r, w')"
    and "fl_seen f = projected_version (task_of (fl_accepted f)) (w_db w)"
  obtains (rolled_back) "w_db w' = w_db w" "isl r" | (delivered) "delivered K (fl_accepted f) (w_db w) (w_db w')"
proof -
  let ?x = "fl_accepted f" and ?t = "km_time (fl_message f)"
  let ?body = "bindP (claim_event (xa_event ?x) (kx_group K)) (\<lambda>fresh.
     if \<not> fresh then returnP () else write_delivery K ?t ?x (fl_seen f))"
  have body: "delivered K ?x (w_db w1) (w_db w2)" if "?body w1 = (Inr u, w2)" "w_db w1 = w_db w" for w1 w2 u
    by (rule claim_and_write_Inr [OF that(1)]) (use assms(2) that(2) in auto)
  from assms(1) have tx: "with_tx ?body w = (r, w')" by (simp add: seen_delivery_def)
  show thesis
  proof (cases r)
    case (Inr u)
    with tx obtain w1 w2 where "w_db w1 = w_db w" "?body w1 = (Inr u, w2)" "w_db w' = w_db w2"
      by (auto elim: with_tx_Inr)
    with body show thesis by (metis delivered)
  next
    case (Inl e)
    from tx [unfolded Inl] show thesis
    proof (cases rule: with_tx_Inl)
      case rolled_back
      with Inl show thesis by (intro that(1)) simp_all
    next
      case (committed w1 w2 u)
      with body show thesis by (metis delivered)
    qed
  qed
qed

lemma other_task_seen: "delivered K x d d' \<Longrightarrow> i \<noteq> task_of x \<Longrightarrow> projected_version i d' = projected_version i d"
  by (auto simp: delivered_def projected_version_def split: if_splits)

lemma in_stepI:
  assumes "latest K U (w_db (cr_world s))" and "distinct (map (\<lambda>f. task_of (fl_accepted f)) (cr_flights s))"
    and "\<And>f. f \<in> set (cr_flights s) \<Longrightarrow> fl_accepted f \<in> U" 
    and "\<And>f. f \<in> set (cr_flights s) \<Longrightarrow> examine K (fl_message f) = Accepted (fl_accepted f)"
    and "\<And>f. f \<in> set (cr_flights s) \<Longrightarrow> \<not> claimed K (w_db (cr_world s)) (fl_accepted f)"
    and "\<And>f. f \<in> set (cr_flights s) \<Longrightarrow> fl_seen f = projected_version (task_of (fl_accepted f)) (w_db (cr_world s))"
    and "\<And>m x. (m, Inr ()) \<in> set (cr_results s) \<Longrightarrow> examine K m = Accepted x \<Longrightarrow> claimed K (w_db (cr_world s)) x"
  shows "in_step K U s"
  using assms unfolding in_step_def by blast

lemma in_stepD:
  assumes "in_step K U s"
  shows "latest K U (w_db (cr_world s))" and "distinct (map (\<lambda>f. task_of (fl_accepted f)) (cr_flights s))"
    and "f \<in> set (cr_flights s) \<Longrightarrow> fl_accepted f \<in> U"
    and "f \<in> set (cr_flights s) \<Longrightarrow> examine K (fl_message f) = Accepted (fl_accepted f)"
    and "f \<in> set (cr_flights s) \<Longrightarrow> \<not> claimed K (w_db (cr_world s)) (fl_accepted f)"
    and "f \<in> set (cr_flights s) \<Longrightarrow> fl_seen f = projected_version (task_of (fl_accepted f)) (w_db (cr_world s))"
    and "(m, Inr ()) \<in> set (cr_results s) \<Longrightarrow> examine K m = Accepted x \<Longrightarrow> claimed K (w_db (cr_world s)) x"
  using assms unfolding in_step_def by blast+

lemma claimed_same: "dom (map_of (event_inbox d')) = dom (map_of (event_inbox d)) \<Longrightarrow> claimed K d' x = claimed K d x"
  by (auto simp: claimed_def dom_def set_eq_iff)

lemma latest_same:
  assumes dom: "dom (map_of (event_inbox d')) = dom (map_of (event_inbox d))"
    and proj: "map_of (wms_task_projection d') = map_of (wms_task_projection d)"
  shows "latest K U d' = latest K U d"
proof -
  have "map_of (event_inbox d') k \<noteq> None \<longleftrightarrow> map_of (event_inbox d) k \<noteq> None" for k
    using dom by (metis domIff)
  then show ?thesis by (simp only: latest_def claimed_same [OF dom] proj)
qed

text \<open>A message that is refused, or was claimed before, changes nothing the deliveries under way rest on.\<close>

lemma whole_keeps:
  assumes "whole K m s = s'" and "\<And>x. examine K m = Accepted x \<Longrightarrow> claimed K (w_db (cr_world s)) x"
  shows "dom (map_of (event_inbox (w_db (cr_world s')))) = dom (map_of (event_inbox (w_db (cr_world s))))
    \<and> map_of (wms_task_projection (w_db (cr_world s'))) = map_of (wms_task_projection (w_db (cr_world s)))
    \<and> cr_flights s' = cr_flights s \<and> (\<exists>r. cr_results s' = cr_results s @ [(m, r)])"
proof -
  obtain r w' where p: "process_dispatch K m (cr_world s) = (r, w')" by fastforce
  with assms(1) have s': "s' = s\<lparr>cr_world := w', cr_results := cr_results s @ [(m, r)]\<rparr>" by (simp add: whole_def)
  from p show ?thesis
  proof (cases rule: process_dispatch_cases)
    case (delivered x)
    with assms(2) have "claimed K (w_db (cr_world s)) x" by simp
    then have "(xa_event x, kx_group K) \<in> dom (map_of (event_inbox (w_db (cr_world s))))" by (simp add: claimed_def dom_def)
    with delivered(2) \<open>claimed K (w_db (cr_world s)) x\<close> show ?thesis by (simp add: s' delivered_def insert_absorb)
  qed (simp add: s')
qed

lemma whole_in_step:
  assumes "in_step K U s" and "\<And>x. examine K m = Accepted x \<Longrightarrow> claimed K (w_db (cr_world s)) x"
  shows "in_step K U (whole K m s)"
proof -
  obtain s' where s': "whole K m s = s'" by simp
  from whole_keeps [OF s' assms(2)] obtain r where
    dom: "dom (map_of (event_inbox (w_db (cr_world s')))) = dom (map_of (event_inbox (w_db (cr_world s))))"
    and proj: "map_of (wms_task_projection (w_db (cr_world s'))) = map_of (wms_task_projection (w_db (cr_world s)))"
    and rest: "cr_flights s' = cr_flights s" "cr_results s' = cr_results s @ [(m, r)]" by auto
  have seen: "projected_version i (w_db (cr_world s')) = projected_version i (w_db (cr_world s))" for i
    by (simp add: projected_version_def proj)
  show ?thesis using assms unfolding s' in_step_def latest_same [OF dom proj] claimed_same [OF dom] rest seen by auto
qed

lemma look_in_step:
  assumes s: "in_step K U s" and a: "alone K (Look m) s" and U: "\<And>x. examine K m = Accepted x \<Longrightarrow> x \<in> U"
  shows "in_step K U (look K m s)"
proof (cases "examine K m")
  case (Rejected eid ty failure)
  with whole_in_step [OF s, of m] show ?thesis by (simp add: look_def)
next
  case (Accepted x)
  let ?waits = "list_ex (\<lambda>f. xa_event (fl_accepted f) = xa_event x \<or> (fl_locks f \<and> task_of (fl_accepted f) = task_of x)) (cr_flights s)"
  consider (waits) ?waits | (claimed) "\<not> ?waits" "claimed K (w_db (cr_world s)) x"
    | (flies) "\<not> ?waits" "\<not> claimed K (w_db (cr_world s)) x" by blast
  then show ?thesis
  proof cases
    case waits
    with Accepted s show ?thesis by (simp add: look_def)
  next
    case claimed
    with Accepted whole_in_step [OF s, of m] show ?thesis by (simp add: look_def)
  next
    case flies
    from a Accepted have free: "\<forall>f \<in> set (cr_flights s). fl_locks f \<or> task_of (fl_accepted f) \<noteq> task_of x"
      by (simp add: list_ex_iff) 
    from flies(1) have unlocked: "\<forall>f \<in> set (cr_flights s). fl_locks f \<longrightarrow> task_of (fl_accepted f) \<noteq> task_of x"
      by (simp add: list_ex_iff)
    have new: "task_of x \<notin> (\<lambda>f. task_of (fl_accepted f)) ` set (cr_flights s)"
    proof
      assume "task_of x \<in> (\<lambda>f. task_of (fl_accepted f)) ` set (cr_flights s)"
      then obtain f where f: "f \<in> set (cr_flights s)" and "task_of x = task_of (fl_accepted f)" by (rule imageE)
      with bspec [OF free f] bspec [OF unlocked f] show False by simp
    qed
    let ?f = "\<lparr>fl_message = m, fl_accepted = x, fl_seen = projected_version (task_of x) (w_db (cr_world s)),
         fl_locks = (map_of (wms_task_projection (w_db (cr_world s))) (task_of x) \<noteq> None)\<rparr>"
    have l: "look K m s = s\<lparr>cr_flights := cr_flights s @ [?f]\<rparr>" using flies Accepted by (simp add: look_def)
    show ?thesis unfolding l
    proof (rule in_stepI)
      fix f assume f: "f \<in> set (cr_flights (s\<lparr>cr_flights := cr_flights s @ [?f]\<rparr>))"
      then have c: "f \<in> set (cr_flights s) \<or> f = ?f" by auto
      show "fl_accepted f \<in> U" using c in_stepD(3) [OF s] U [OF Accepted] by auto
      show "examine K (fl_message f) = Accepted (fl_accepted f)" using c in_stepD(4) [OF s] Accepted by auto
      show "\<not> claimed K (w_db (cr_world (s\<lparr>cr_flights := cr_flights s @ [?f]\<rparr>))) (fl_accepted f)"
        using c in_stepD(5) [OF s] flies(2) by auto
      show "fl_seen f = projected_version (task_of (fl_accepted f)) (w_db (cr_world (s\<lparr>cr_flights := cr_flights s @ [?f]\<rparr>)))"
        using c in_stepD(6) [OF s] by auto
    qed (use new in_stepD(1,2,7) [OF s] in simp_all)
  qed
qed

lemma finish_in_step:
  assumes s: "in_step K U s" and one: "\<And>y z. y \<in> U \<Longrightarrow> z \<in> U \<Longrightarrow> xa_event y = xa_event z \<Longrightarrow> y = z"
  shows "in_step K U (finish K i s)"
proof (cases "finish K i s = s")
  case False
  let ?fs = "cr_flights s" and ?d = "w_db (cr_world s)" and ?task = "\<lambda>f. task_of (fl_accepted f)"
  define f where "f = ?fs ! i"
  define others where "others = take i ?fs @ drop (Suc i) ?fs"
  from False have i: "i < length ?fs" by (simp add: finish_def split: if_splits)
  obtain r w' where run: "seen_delivery K f (cr_world s) = (r, w')" by fastforce
  with False i have fin: "finish K i s = s\<lparr>cr_world := w', cr_flights := others, cr_results := cr_results s @ [(fl_message f, r)]\<rparr>"
    by (auto simp: finish_def Let_def f_def others_def split: if_splits)
  have fs: "?fs = take i ?fs @ f # drop (Suc i) ?fs" using i by (simp add: f_def id_take_nth_drop)
  have f: "f \<in> set ?fs" using i by (simp add: f_def)
  have sub: "set others \<subseteq> set ?fs" by (auto simp: others_def dest: in_set_takeD in_set_dropD)
  have "distinct (map ?task (take i ?fs @ f # drop (Suc i) ?fs))" using s fs by (simp add: in_step_def)
  then have apart: "distinct (map ?task others)" "\<And>g. g \<in> set others \<Longrightarrow> ?task g \<noteq> ?task f"
    by (auto simp: others_def image_iff)
  have flying: "fl_accepted g \<in> U" "examine K (fl_message g) = Accepted (fl_accepted g)" "\<not> claimed K ?d (fl_accepted g)"
    "fl_seen g = projected_version (?task g) ?d" if "g \<in> set ?fs" for g
    using in_stepD(3-6) [OF s that] .
  from run flying(4) [OF f] show ?thesis
  proof (cases rule: seen_delivery_cases)
    case rolled_back
    show ?thesis unfolding fin
    proof (rule in_stepI)
      fix m x assume "(m, Inr ()) \<in> set (cr_results (s\<lparr>cr_world := w', cr_flights := others, cr_results := cr_results s @ [(fl_message f, r)]\<rparr>))"
        and m: "examine K m = Accepted x"
      with rolled_back(2) have "(m, Inr ()) \<in> set (cr_results s)" by auto
      with m show "claimed K (w_db (cr_world (s\<lparr>cr_world := w', cr_flights := others, cr_results := cr_results s @ [(fl_message f, r)]\<rparr>))) x"
        by (simp add: rolled_back(1) in_stepD(7) [OF s])
    qed (use in_stepD(1) [OF s] apart(1) flying sub in \<open>simp_all add: rolled_back(1) subset_iff\<close>)
  next
    case delivered
    have l: "latest K U (w_db w')"
      using latest_delivered [OF _ delivered flying(1) [OF f] examine_version [OF flying(2) [OF f]] one] in_stepD(1) [OF s]
      by blast
    have sel: "cr_world (finish K i s) = w'" "cr_flights (finish K i s) = others"
      "cr_results (finish K i s) = cr_results s @ [(fl_message f, r)]" by (simp_all add: fin)
    show ?thesis
    proof (rule in_stepI, unfold sel)
      show "latest K U (w_db w')" by (rule l)
      show "distinct (map ?task others)" by (rule apart(1))
      fix g assume o: "g \<in> set others"
      with sub have g: "g \<in> set ?fs" by auto
      show "fl_accepted g \<in> U" "examine K (fl_message g) = Accepted (fl_accepted g)" by (rule flying [OF g])+
      have "xa_event (fl_accepted g) \<noteq> xa_event (fl_accepted f)"
        using one [OF flying(1) [OF g] flying(1) [OF f]] apart(2) [OF o] by auto
      with flying(3) [OF g] show "\<not> claimed K (w_db w') (fl_accepted g)" by (simp add: claimed_delivered [OF delivered])
      show "fl_seen g = projected_version (?task g) (w_db w')"
        by (simp add: flying(4) [OF g] other_task_seen [OF delivered apart(2) [OF o]])
    next
      fix m x assume m: "(m, Inr ()) \<in> set (cr_results s @ [(fl_message f, r)])" and x: "examine K m = Accepted x"
      have "claimed K ?d x \<or> x = fl_accepted f" using m x in_stepD(7) [OF s _ x] flying(2) [OF f] by auto
      then show "claimed K (w_db w') x" by (auto simp: claimed_delivered [OF delivered])
    qed
  qed
qed (use s in simp)

lemma turns_in_step:
  assumes one: "\<And>y z. y \<in> U \<Longrightarrow> z \<in> U \<Longrightarrow> xa_event y = xa_event z \<Longrightarrow> y = z"
  shows "in_step K U s \<Longrightarrow> first_alone K ts s \<Longrightarrow> {x. \<exists>m \<in> looked_at ts. examine K m = Accepted x} \<subseteq> U
    \<Longrightarrow> in_step K U (take_turns K ts s)"
proof (induction ts arbitrary: s)
  case (Cons t ts)
  have "in_step K U (take_turn K t s)"
  proof (cases t)
    case (Look m)
    have "x \<in> U" if "examine K m = Accepted x" for x
      by (rule subsetD [OF Cons.prems(3)]) (use that in \<open>simp add: Look\<close>)
    moreover have "alone K (Look m) s" using Cons.prems(2) by (simp only: Look first_alone.simps)
    ultimately show ?thesis unfolding Look take_turn.simps using look_in_step [OF Cons.prems(1)] by blast
  next
    case (Finish i)
    show ?thesis unfolding Finish take_turn.simps by (rule finish_in_step [OF Cons.prems(1)]) (rule one)
  qed
  moreover have "first_alone K ts (take_turn K t s)" using Cons.prems(2) by simp
  moreover have "{x. \<exists>m \<in> looked_at ts. examine K m = Accepted x} \<subseteq> U" 
  proof -
    have "looked_at ts \<subseteq> looked_at (t # ts)" by (cases t) auto
    with Cons.prems(3) show ?thesis by blast
  qed
  ultimately show ?case unfolding take_turns.simps by (rule Cons.IH)
qed simp

text \<open>Once a task has a row, the lock keeps its deliveries apart by itself: only the first ones need to
  be alone.\<close>

lemma locked_alone:
  assumes "\<And>f. f \<in> set (cr_flights s) \<Longrightarrow> task_of (fl_accepted f) = i \<Longrightarrow> fl_locks f"
    and "map_of (wms_task_projection (w_db (cr_world s))) i \<noteq> None" and "examine K m = Accepted x" and "task_of x = i"
  shows "alone K (Look m) s \<and> (\<forall>f \<in> set (cr_flights (look K m s)). task_of (fl_accepted f) = i \<longrightarrow> fl_locks f)"
proof -
  have "cr_flights (whole K m s) = cr_flights s" by (simp add: whole_def split: prod.split)
  with assms show ?thesis by (auto simp: look_def list_ex_iff)
qed

lemma latest_unique:
  assumes d: "latest K U d" "\<And>x. x \<in> U \<Longrightarrow> claimed K d x" and d': "latest K U d'" "\<And>x. x \<in> U \<Longrightarrow> claimed K d' x"
    and one: "\<And>x y. x \<in> U \<Longrightarrow> y \<in> U \<Longrightarrow> task_of x = task_of y \<Longrightarrow> version_of x = version_of y \<Longrightarrow> x = y"
  shows "map_option task_content (map_of (wms_task_projection d) i) = map_option task_content (map_of (wms_task_projection d') i)"
proof -
  let ?max = "\<lambda>x. x \<in> U \<and> task_of x = i \<and> (\<forall>y \<in> U. task_of y = i \<longrightarrow> i64_le (version_of y) (version_of x))"
  have row: "case map_of (wms_task_projection e) i of None \<Rightarrow> \<forall>x \<in> U. task_of x \<noteq> i
      | Some r \<Rightarrow> \<exists>x. ?max x \<and> content_of x = Some (task_content r)"
    if "latest K U e" "\<And>x. x \<in> U \<Longrightarrow> claimed K e x" for e
    using that by (fastforce simp: latest_def split: option.splits)
  have "x = y" if "?max x" "?max y" for x y
  proof -
    from that have "sint (version_of x) = sint (version_of y)" by (simp add: i64_le_def order_antisym)
    then have "version_of x = version_of y" by (simp add: signed_word_eqI)
    with that one [of x y] show ?thesis by simp
  qed
  then show ?thesis
    using row [OF d] row [OF d'] by (auto split: option.splits) (metis option.inject)+
qed

text \<open>C25: The projection of WMS tasks depends on what was dispatched and on nothing else, as long as the
  first delivery of a task is alone. Take two runs of the consumer over the same messages, in any
  order, with any repetitions, with any overlap of the transactions, under any failures of the
  database, from an empty projection, in which every message got through at least once, and in which no
  delivery looks at a task while its first delivery, which found no row to lock, is under way: every
  task shows the same content in both, times apart. Asked of the producer: an event id names one
  message, and a task has one message per version. The condition on first deliveries is needed (two
  first deliveries that overlap may leave the older version) and concerns only them: from then on the
  row lock keeps the deliveries of a task apart.\<close>

theorem dispatch_converges:
  assumes "looked_at ts = looked_at us"
    and "take_turns K ts (consumer_start w) = s" and "take_turns K us (consumer_start v) = s'"
    and "first_alone K ts (consumer_start w)" and "first_alone K us (consumer_start v)"
    and "event_inbox (w_db w) = []" and "wms_task_projection (w_db w) = []"
    and "event_inbox (w_db v) = []" and "wms_task_projection (w_db v) = []"
    and "\<forall>m \<in> looked_at ts. (m, Inr ()) \<in> set (cr_results s)" and "\<forall>m \<in> looked_at us. (m, Inr ()) \<in> set (cr_results s')"
    and "\<forall>x \<in> dispatches K (looked_at ts). \<forall>y \<in> dispatches K (looked_at ts). xa_event x = xa_event y \<longrightarrow> x = y"
    and "\<forall>x \<in> dispatches K (looked_at ts). \<forall>y \<in> dispatches K (looked_at ts).
      task_of x = task_of y \<and> version_of x = version_of y \<longrightarrow> x = y"
  shows "map_option task_content (map_of (wms_task_projection (w_db (cr_world s))) i)
    = map_option task_content (map_of (wms_task_projection (w_db (cr_world s'))) i)"
proof -
  let ?U = "dispatches K (looked_at ts)"
  have one: "y = z" if "y \<in> ?U" "z \<in> ?U" "xa_event y = xa_event z" for y z using assms(12) that by blast
  have start: "in_step K ?U (consumer_start w)" "in_step K ?U (consumer_start v)"
    using assms(6-9) by (simp_all add: in_step_def consumer_start_def latest_def claimed_def)
  have sub: "{x. \<exists>m \<in> looked_at ts. examine K m = Accepted x} \<subseteq> ?U" "{x. \<exists>m \<in> looked_at us. examine K m = Accepted x} \<subseteq> ?U"
    unfolding dispatches_def assms(1) by (rule order_refl)+
  have s: "in_step K ?U s" unfolding assms(2) [symmetric]
    by (rule turns_in_step [OF one start(1) assms(4) sub(1)])
  have s': "in_step K ?U s'" unfolding assms(3) [symmetric]
    by (rule turns_in_step [OF one start(2) assms(5) sub(2)])
  show ?thesis
  proof (rule latest_unique [OF in_stepD(1) [OF s] _ in_stepD(1) [OF s']])
    fix x assume "x \<in> ?U"
    then obtain m where "m \<in> looked_at ts" and m: "examine K m = Accepted x" by (auto simp: dispatches_def)
    with assms(1,10,11) in_stepD(7) [OF s _ m] in_stepD(7) [OF s' _ m]
    show "claimed K (w_db (cr_world s)) x" "claimed K (w_db (cr_world s')) x" by blast+
  qed (use assms(13) in blast)
qed

end
