(* ===== verification/Wms_Examples.thy ===== *)
theory Wms_Examples
  imports Wms_Scans Wms_Dispatch Wms_Service
begin

text \<open>
  A warehouse task on its way from WMS to an operator and back, which the witnesses of the properties
  evaluate: two messages, a device, and the table of tasks.
\<close>

section \<open>Messages and worlds\<close>

definition ex_wms_parsers :: parsers where
  "ex_wms_parsers = \<lparr>px_uuid = \<lambda>s. if s = ''e1'' then Some 11 else if s = ''e2'' then Some 12 else None, px_time = \<lambda>_. None,
     px_time_text = \<lambda>_. None\<rparr>"

definition ex_consumer :: consumer_params where
  "ex_consumer = \<lparr>kx_group = ''pda'', kx_parsers = ex_wms_parsers, kx_sha1 = \<lambda>_. 99, kx_range = \<lambda>xs. xs,
     kx_quote = \<lambda>s. s, kx_text = \<lambda>_. ''''\<rparr>"

definition ex_wms :: wms_params where
  "ex_wms = \<lparr>wx_sha256 = \<lambda>s. s, wx_sha1 = \<lambda>_. 77, wx_uuid_string = \<lambda>_. ''u'', wx_parsers = ex_wms_parsers,
     wx_distinct = \<lambda>xs. xs, wx_error = \<lambda>_. ''''\<rparr>"

text \<open>A task to take five from a source, in the version and from the source given.\<close>

definition ex_message :: "string \<Rightarrow> int \<Rightarrow> string \<Rightarrow> int \<Rightarrow> kafka_message" where
  "ex_message e v source n = \<lparr>km_topic = ''t'', km_partition = 0, km_offset = n, km_value = RawJSON (JObj
     [(''event_id'', JStr e), (''event_type'', JStr ''WMS.PDA.WarehouseTaskUpdated.v1''),
      (''payload'', JObj [(''warehouse_task_id'', JStr ''T1''), (''warehouse_id'', JStr ''W''), (''task_type'', JStr ''PICKING''),
        (''task_version'', JInt v), (''status'', JStr ''CREATED''), (''requested_quantity'', JInt 5),
        (''remaining_quantity'', JInt 5), (''source_location_id'', JStr source),
        (''scan_requirements'', JArr [JStr ''SOURCE''])])]), km_time = 1\<rparr>"

definition ex_m1 :: kafka_message where "ex_m1 = ex_message ''e1'' 1 ''L1'' 0"
definition ex_m2 :: kafka_message where "ex_m2 = ex_message ''e2'' 2 ''L2'' 1"

definition ex_wms_tables :: wms_tables where
  "ex_wms_tables = tables.extend empty_tables \<lparr>wms_task_projection = [], pda_task_execution = [], pda_task_scan = [],
     pda_task_command = [], integration_outbox = [], integration_dead_letters = [], wms_task_stale_delivery = [],
     event_inbox = [], event_dlq = [], pda_event_delivery_ack = [], receiving_work_projection = []\<rparr>"

definition ex_wms_world :: wms_world where
  "ex_wms_world = \<lparr>env_clock = (\<lambda>n. int n + 1), env_reads = 0, env_uuid = (\<lambda>n. n + 1), env_ids = 0,
     env_log = \<lparr>el_events = []\<rparr>, env_fail_type = '''', w_db = ex_wms_tables, w_fault = (\<lambda>_. NoFault),
     w_tick = 0, w_in_tx = False, w_aborted = False, w_sql_now = (\<lambda>n. int n)\<rparr>"

definition ex_picker :: actor where
  "ex_picker = \<lparr>ac_operator = ''o'', ac_device = ''d'', ac_warehouse = ''W'', ac_correlation = ''c''\<rparr>"

section \<open>Deliveries\<close>

text \<open>In order; and with the second version first, a repetition of it that waits for the first version to
  be set aside, and the repetition again.\<close>

definition ex_in_order :: "turn list" where
  "ex_in_order = [Look ex_m1, Finish 0, Look ex_m2, Finish 0]"

definition ex_overtaken :: "turn list" where
  "ex_overtaken = [Look ex_m2, Finish 0, Look ex_m1, Look ex_m2, Finish 0, Look ex_m2]"

abbreviation ex_run :: "turn list \<Rightarrow> consumer_run" where
  "ex_run ts \<equiv> take_turns ex_consumer ts (consumer_start ex_wms_world)"

lemma ex_delivered:
  "(ex_m1, Inr ()) \<in> set (cr_results (ex_run ex_in_order))" "(ex_m2, Inr ()) \<in> set (cr_results (ex_run ex_in_order))"
  "(ex_m1, Inr ()) \<in> set (cr_results (ex_run ex_overtaken))" "(ex_m2, Inr ()) \<in> set (cr_results (ex_run ex_overtaken))"
  by code_simp+

lemma ex_first_alone: "first_alone ex_consumer ex_in_order (consumer_start ex_wms_world)"
  "first_alone ex_consumer ex_overtaken (consumer_start ex_wms_world)"
  by code_simp+

lemma ex_accepted:
  "case examine ex_consumer ex_m1 of Accepted x \<Rightarrow> (xa_event x, task_of x, version_of x) = (11, ''T1'', 1) | _ \<Rightarrow> False"
  "case examine ex_consumer ex_m2 of Accepted x \<Rightarrow> (xa_event x, task_of x, version_of x) = (12, ''T1'', 2) | _ \<Rightarrow> False"
  by code_simp+

theorem dispatch_converges_witness:
  "map_option task_content (map_of (wms_task_projection (w_db (cr_world (ex_run ex_in_order)))) ''T1'')
   = map_option task_content (map_of (wms_task_projection (w_db (cr_world (ex_run ex_overtaken)))) ''T1'')"
proof (rule dispatch_converges [OF _ refl refl ex_first_alone])
  have ms: "looked_at ex_in_order = {ex_m1, ex_m2}" "looked_at ex_overtaken = {ex_m1, ex_m2}"
    by (auto simp: ex_in_order_def ex_overtaken_def)
  show "looked_at ex_in_order = looked_at ex_overtaken" by (simp add: ms)
  show "\<forall>m \<in> looked_at ex_in_order. (m, Inr ()) \<in> set (cr_results (ex_run ex_in_order))"
    "\<forall>m \<in> looked_at ex_overtaken. (m, Inr ()) \<in> set (cr_results (ex_run ex_overtaken))"
    unfolding ms using ex_delivered by blast+
  obtain x y where "examine ex_consumer ex_m1 = Accepted x" "(xa_event x, task_of x, version_of x) = (11, ''T1'', 1)"
    "examine ex_consumer ex_m2 = Accepted y" "(xa_event y, task_of y, version_of y) = (12, ''T1'', 2)"
    using ex_accepted by (auto split: verdict.splits)
  moreover from this have "dispatches ex_consumer (looked_at ex_in_order) = {x, y}" by (auto simp: dispatches_def ms)
  ultimately show "\<forall>x \<in> dispatches ex_consumer (looked_at ex_in_order). \<forall>y \<in> dispatches ex_consumer (looked_at ex_in_order).
      xa_event x = xa_event y \<longrightarrow> x = y"
    "\<forall>x \<in> dispatches ex_consumer (looked_at ex_in_order). \<forall>y \<in> dispatches ex_consumer (looked_at ex_in_order).
      task_of x = task_of y \<and> version_of x = version_of y \<longrightarrow> x = y" by simp_all
qed (simp_all add: ex_wms_world_def ex_wms_tables_def tables.extend_def)

text \<open>Two first deliveries that overlap: both see no row, both succeed, and the one that commits last
  wins. Here that is the older version; in order it is the newer one.\<close>

lemma first_deliveries_race:
  "map_option pj_version (map_of (wms_task_projection (w_db (cr_world (ex_run ex_in_order)))) ''T1'') = Some 2"
  "map_option pj_version (map_of (wms_task_projection (w_db (cr_world
     (ex_run [Look ex_m1, Look ex_m2, Finish 1, Finish 0])))) ''T1'') = Some 1"
  "map snd (cr_results (ex_run [Look ex_m1, Look ex_m2, Finish 1, Finish 0])) = [Inr (), Inr ()]"
  "\<not> first_alone ex_consumer [Look ex_m1, Look ex_m2, Finish 1, Finish 0] (consumer_start ex_wms_world)"
  by code_simp+

section \<open>A pick\<close>

text \<open>The task arrives, the operator starts it and scans its source.\<close>

definition ex_picking :: wms_world where
  "ex_picking = run_wms_calls ex_wms ex_consumer [DispatchCall ex_m1, StartCall ''T1'' 1 1 ex_picker,
     ScanCall ''T1'' ''source'' '' L1'' 1 2 ex_picker] ex_wms_world"

definition ex_completion :: "(err + wms_task) \<times> wms_world" where
  "ex_completion = wms_complete ex_wms ''T1'' 5 1 3 ex_picker ex_picking"

lemma ex_completed: "\<not> isl (fst ex_completion)" "map_of (pda_task_command (w_db ex_picking)) 3 = None"
    "map_option xr_state (map_of (pda_task_execution (w_db (snd ex_completion))) ''T1'') = Some ''COMPLETED''"
  by code_simp+

theorem completion_was_earned_witness:
  "state_of ''T1'' (w_db ex_picking) = ''STARTED'' \<and> confirmed_scan ''T1'' ''SOURCE'' (w_db ex_picking)"
proof -
  obtain t where "fst ex_completion = Inr t" using ex_completed(1) by (cases "fst ex_completion") auto
  then have run: "wms_complete ex_wms ''T1'' 5 1 3 ex_picker ex_picking = (Inr t, snd ex_completion)"
    by (simp only: ex_completion_def [symmetric] prod_eq_iff fst_conv snd_conv)
  have p: "map_option pj_scans (map_of (wms_task_projection (w_db ex_picking)) ''T1'') = Some [''SOURCE'']" by code_simp
  show ?thesis
    using completion_was_earned [OF run _ ex_completed(2)] p by (auto simp: ex_wms_def uuid_nil_def)
qed

theorem results_reported_once_witness:
  "length (facts_of EventTaskCompleted ''T1'' (w_db (run_wms_calls ex_wms ex_consumer [CompleteCall ''T1'' 5 1 3 ex_picker,
      CompleteCall ''T1'' 5 1 4 ex_picker] ex_picking))) = 1"
proof -
  let ?cs = "[DispatchCall ex_m1, StartCall ''T1'' 1 1 ex_picker, ScanCall ''T1'' ''source'' '' L1'' 1 2 ex_picker,
    CompleteCall ''T1'' 5 1 3 ex_picker, CompleteCall ''T1'' 5 1 4 ex_picker]"
  have start: "reported (w_db ex_wms_world)"
    by (simp add: reported_def facts_of_def state_of_def ex_wms_world_def ex_wms_tables_def tables.extend_def)
  have "state_of ''T1'' (w_db (run_wms_calls ex_wms ex_consumer ?cs ex_wms_world)) = ''COMPLETED''" by code_simp
  with results_reported_once [OF start, of "''T1''" ex_wms ex_consumer ?cs] show ?thesis by (simp add: ex_picking_def)
qed

theorem finished_task_is_final_witness:
  "map_option xr_state (map_of (pda_task_execution (w_db (run_wms_calls ex_wms ex_consumer [StartCall ''T1'' 1 5 ex_picker, DispatchCall ex_m2]
     (snd ex_completion)))) ''T1'') = Some ''COMPLETED''"
proof -
  obtain r where "map_of (pda_task_execution (w_db (snd ex_completion))) ''T1'' = Some r" "xr_state r = ''COMPLETED''"
    using ex_completed(3) by auto
  with finished_task_is_final [OF this(1), of ex_wms ex_consumer "[StartCall ''T1'' 1 5 ex_picker, DispatchCall ex_m2]"]
  show ?thesis by simp
qed

section \<open>A refused scan\<close>

text \<open>The operator scans the second source while WMS still asks for the first one.\<close>

definition ex_refused :: wms_world where
  "ex_refused = run_wms_calls ex_wms ex_consumer [DispatchCall ex_m1, StartCall ''T1'' 1 1 ex_picker,
     ScanCall ''T1'' ''SOURCE'' ''L2'' 1 2 ex_picker] ex_wms_world"

definition ex_rescan :: "(err + wms_task) \<times> wms_world" where
  "ex_rescan = wms_scan ex_wms ''T1'' ''SOURCE'' ''L2'' 2 3 ex_picker (run_wms_calls ex_wms ex_consumer [DispatchCall ex_m2] ex_refused)"

lemma ex_rescanned: "\<not> isl (fst ex_rescan)"
    "map_option zr_accepted (map_of (pda_task_scan (w_db ex_refused)) (scan_key ex_wms ''T1'' (to_upper (trim_space ''SOURCE'')) (trim_space ''L2''))) = Some False"
    "accepted_types ''T1'' (w_db (run_wms_calls ex_wms ex_consumer [DispatchCall ex_m2] ex_refused)) = []"
  by code_simp+

text \<open>Now it is the right one, the device is told so, and it does not count.\<close>

theorem refused_scan_never_counts_witness: "\<not> isl (fst ex_rescan) \<and> accepted_types ''T1'' (w_db (snd ex_rescan)) = []"
proof -
  obtain t where "fst ex_rescan = Inr t" using ex_rescanned(1) by (cases "fst ex_rescan") auto
  then have run: "wms_scan ex_wms ''T1'' ''SOURCE'' ''L2'' 2 3 ex_picker (run_wms_calls ex_wms ex_consumer [DispatchCall ex_m2] ex_refused)
      = (Inr t, snd ex_rescan)"
    by (simp only: ex_rescan_def [symmetric] prod_eq_iff fst_conv snd_conv)
  obtain r where r: "map_of (pda_task_scan (w_db ex_refused)) (scan_key ex_wms ''T1'' (to_upper (trim_space ''SOURCE'')) (trim_space ''L2'')) = Some r"
    "\<not> zr_accepted r" using ex_rescanned(2) by auto
  from refused_scan_never_counts [OF r run] ex_rescanned(1,3) show ?thesis by simp
qed

end
