(* ===== verification/Event_Outbox.thy ===== *)
theory Event_Outbox
  imports Pg_Common Environment Stock
begin

text \<open>
  Domain events on their way to Kafka and back: the store \<open>postgres_store.go\<close> on the tables of
  \<open>migrations/execution/000006\<close>, the publisher of \<open>config.go\<close>, the worker \<open>outbox_worker.go\<close>, the
  marking publisher and the consumer, all of \<open>internal/integration/adapters/kafka\<close>, with the counters of
  \<open>internal/platform/messaging\<close>. Here \<open>domain_outbox\<close> has all its columns; an envelope column is
  \<open>None\<close> when it does not decode. The loops that call the worker every second, and the pauses between
  attempts, are the scheduler's.
\<close>

section \<open>Tables\<close>

record event_row =
  eo_aggregate :: string
  eo_version :: int64
  eo_type :: string
  eo_envelope :: "envelope option"
  eo_created :: time
  eo_published :: "time option"
  eo_attempts :: int64
  eo_available :: time
  eo_error :: "string option"

record event_letter =
  el_envelope :: envelope
  el_attempts :: int64
  el_error :: string

record event_tables =
  event_outbox :: "(uuid \<times> event_row) list"
  processed_events :: "((uuid \<times> string) \<times> time) list"
  event_letters :: "((uuid \<times> string) \<times> event_letter) list"

type_synonym event_world = "event_tables db_world"

text \<open>\<open>messaging.OutboxRecord\<close> and \<open>messaging.Metrics\<close>.\<close>

record outbox_record =
  or_id :: uuid
  or_envelope :: envelope
  or_created :: time
  or_published :: "time option"

record metrics =
  mt_published :: int64
  mt_failed :: int64
  mt_backlog :: int64
  mt_lag :: int64

definition new_metrics :: metrics where
  "new_metrics = \<lparr>mt_published = 0, mt_failed = 0, mt_backlog = 0, mt_lag = 0\<rparr>"

definition metrics_snapshot :: "metrics \<Rightarrow> int64 \<times> int64 \<times> int64 \<times> int64" where
  "metrics_snapshot m = (mt_published m, mt_failed m, mt_backlog m, mt_lag m)"

section \<open>The store\<close>

definition defaultConsumerGroup :: string where [const_defs]: "defaultConsumerGroup = ''pda-backend''"

definition store_group :: "string \<Rightarrow> string" where
  "store_group g = (if trim_space g = '''' then defaultConsumerGroup else trim_space g)"

definition eo_append :: "outbox_record \<Rightarrow> (event_world, unit) prog" where
  "eo_append r = bindP (liftE (marshal_envelope (or_envelope r))) (\<lambda>e.
     sql (on_table event_outbox (\<lambda>x d. d\<lparr>event_outbox := x\<rparr>) (\<lambda>now tab.
       no_value (insert_ignore ''domain_outbox'' (\<lambda>_. True) (or_id r)
         \<lparr>eo_aggregate = ev_agg_id e, eo_version = ev_agg_version e, eo_type = ev_type e, eo_envelope = Some e,
          eo_created = or_created r, eo_published = or_published r, eo_attempts = 0, eo_available = now, eo_error = None\<rparr> tab))))"

text \<open>The statement picks the oldest rows that are due; \<open>order\<close> is the one in which it gives them.\<close>

definition due_events :: "time \<Rightarrow> (uuid \<times> event_row) list \<Rightarrow> (uuid \<times> event_row) list" where
  "due_events now tab = sort_key (eo_created \<circ> snd) (sort_key fst
     (filter (\<lambda>(k, r). eo_published r = None \<and> eo_available r \<le> now) tab))"

definition attempted :: "uuid set \<Rightarrow> (uuid \<times> event_row) list \<Rightarrow> (uuid \<times> event_row) list" where
  "attempted ids = map (\<lambda>(k, r). (k, if k \<in> ids then r\<lparr>eo_attempts := eo_attempts r + 1\<rparr> else r))"

definition decode_event :: "uuid \<times> event_row \<Rightarrow> err + outbox_record" where
  "decode_event x = (case x of (k, r) \<Rightarrow> (case eo_envelope r of
     None \<Rightarrow> Inl (TextError ''envelope_json does not decode'')
   | Some e \<Rightarrow> Inr \<lparr>or_id = k, or_envelope = e, or_created = eo_created r, or_published = eo_published r\<rparr>))"

fun decode_events :: "(uuid \<times> event_row) list \<Rightarrow> err + outbox_record list" where
  "decode_events [] = Inr []"
| "decode_events (x # xs) = (case decode_event x of
     Inl e \<Rightarrow> Inl e
   | Inr r \<Rightarrow> (case decode_events xs of Inl e \<Rightarrow> Inl e | Inr rs \<Rightarrow> Inr (r # rs)))"

definition claim_rows :: "(uuid list \<Rightarrow> uuid list) \<Rightarrow> int64 \<Rightarrow> (event_world, outbox_record list) prog" where
  "claim_rows order limit =
     bindP (sql (on_table event_outbox (\<lambda>x d. d\<lparr>event_outbox := x\<rparr>) (\<lambda>now tab.
       let ids = map fst (take (nat (sint limit)) (due_events now tab)); tab1 = attempted (set ids) tab in
       Inr (map (\<lambda>k. (k, the (map_of tab1 k))) (order ids), tab1)))) (\<lambda>rows.
     liftE (decode_events rows))"

definition claim_pending :: "(uuid list \<Rightarrow> uuid list) \<Rightarrow> int64 \<Rightarrow> (event_world, outbox_record list) prog" where
  "claim_pending order limit =
     bindP (checkP (i64_less limit 1) (TextError ''claim limit must be positive'')) (\<lambda>_.
     with_tx (claim_rows order limit))"

definition update_row :: "uuid \<Rightarrow> (event_row \<Rightarrow> event_row) \<Rightarrow> (event_world, unit) prog" where
  "update_row k f = sql (on_table event_outbox (\<lambda>x d. d\<lparr>event_outbox := x\<rparr>) (\<lambda>_ tab.
     map_sum id (\<lambda>(_, t). ((), t)) (update_at ''domain_outbox'' (\<lambda>_. True) k f tab)))"

definition eo_mark_published :: "uuid \<Rightarrow> time \<Rightarrow> (event_world, unit) prog" where
  "eo_mark_published k t = update_row k (\<lambda>r. r\<lparr>eo_published := Some t, eo_error := None\<rparr>)"

definition eo_mark_failed :: "uuid \<Rightarrow> string \<Rightarrow> time \<Rightarrow> (event_world, unit) prog" where
  "eo_mark_failed k cause next = update_row k
     (\<lambda>r. if eo_published r = None then r\<lparr>eo_available := next, eo_error := Some cause\<rparr> else r)"

definition already_processed :: "string \<Rightarrow> uuid \<Rightarrow> (event_world, bool) prog" where
  "already_processed grp k = query (\<lambda>now d. map_of (processed_events d) (k, grp) \<noteq> None)"

definition mark_processed :: "string \<Rightarrow> uuid \<Rightarrow> time \<Rightarrow> (event_world, unit) prog" where
  "mark_processed grp k t = sql (on_table processed_events (\<lambda>x d. d\<lparr>processed_events := x\<rparr>) (\<lambda>now tab.
     no_value (insert_ignore ''event_inbox'' (\<lambda>_. True) (k, grp) t tab)))"

definition move_to_dlq :: "string \<Rightarrow> envelope \<Rightarrow> string \<Rightarrow> int64 \<Rightarrow> (event_world, unit) prog" where
  "move_to_dlq grp e cause tries = bindP (liftE (marshal_envelope e)) (\<lambda>b.
     sql (on_table event_letters (\<lambda>x d. d\<lparr>event_letters := x\<rparr>) (\<lambda>now tab. Inr ((),
       case map_of tab (ev_id e, grp) of
         None \<Rightarrow> tab @ [((ev_id e, grp), \<lparr>el_envelope = b, el_attempts = tries, el_error = cause\<rparr>)]
       | Some r \<Rightarrow> AList.update (ev_id e, grp) (r\<lparr>el_attempts := tries, el_error := cause\<rparr>) tab))))"

section \<open>Configuration\<close>

definition normalize_brokers :: "string list \<Rightarrow> string list" where
  "normalize_brokers bs = filter (\<lambda>b. b \<noteq> '''') (map trim_space bs)"

record kafka_config =
  kc_brokers :: "string list"
  kc_group :: string
  kc_prefix :: string
  kc_protocol :: string
  kc_ca :: string
  kc_cert :: string
  kc_key :: string
  kc_server :: string

definition config_validate :: "kafka_config \<Rightarrow> err + unit" where
  "config_validate c =
     (if normalize_brokers (kc_brokers c) = [] then Inl (TextError ''at least one Kafka broker is required'')
      else if blank (kc_group c) \<or> blank (kc_prefix c) then Inl (TextError ''Kafka group ID and topic prefix are required'')
      else Inr ())"

definition trim_dots :: "string \<Rightarrow> string" where
  "trim_dots s = rev (dropWhile (\<lambda>c. c = CHR ''.'') (rev (dropWhile (\<lambda>c. c = CHR ''.'') s)))"

definition resolve_topic :: "string \<Rightarrow> string \<Rightarrow> string" where
  "resolve_topic pre topic = (let p = trim_dots pre; t = trim_dots topic in
     if p = '''' \<or> has_prefix t (p @ ''.'') then t else p @ ''.'' @ t)"

text \<open>TLS settings: which files are read, and what they hold, is outside; \<open>read\<close> gives the content of a file,
  \<open>roots\<close> whether it holds certificates, \<open>pair\<close> whether two files are a certificate and its key.\<close>

definition ErrSecurityUnsupported :: err where
  [err_defs]: "ErrSecurityUnsupported = TextError ''requested Kafka security protocol is not configured''"

definition load_tls_config ::
    "(string \<Rightarrow> err + string) \<Rightarrow> (string \<Rightarrow> bool) \<Rightarrow> (string \<Rightarrow> string \<Rightarrow> err option) \<Rightarrow> kafka_config \<Rightarrow> err + bool" where
  "load_tls_config read roots pair c =
     (if kc_protocol c = ''PLAINTEXT'' then Inr False
      else if kc_protocol c = ''TLS'' then
        (if blank (kc_ca c) then Inl (TextError ''Kafka TLS requires a CA file'')
         else case read (kc_ca c) of
           Inl e \<Rightarrow> Inl (WrapError ''read Kafka TLS CA file'' e)
         | Inr pem \<Rightarrow>
             if \<not> roots pem then Inl (TextError ''Kafka TLS CA file contains no certificates'')
             else if kc_cert c \<noteq> '''' \<or> kc_key c \<noteq> '''' then
               (if kc_cert c = '''' \<or> kc_key c = ''''
                then Inl (TextError ''Kafka TLS client certificate and key must be provided together'')
                else case pair (kc_cert c) (kc_key c) of
                  Some e \<Rightarrow> Inl (WrapError ''load Kafka TLS client certificate'' e)
                | None \<Rightarrow> Inr True)
             else Inr True)
      else Inl ErrSecurityUnsupported)"

definition plain_by_default :: "kafka_config \<Rightarrow> kafka_config" where
  "plain_by_default c = (if kc_protocol c = '''' then c\<lparr>kc_protocol := ''PLAINTEXT''\<rparr> else c)"

text \<open>The configuration of the publisher and of the consumer, or why there is none.\<close>

definition new_publisher ::
    "(string \<Rightarrow> err + string) \<Rightarrow> (string \<Rightarrow> bool) \<Rightarrow> (string \<Rightarrow> string \<Rightarrow> err option) \<Rightarrow> kafka_config \<Rightarrow> err + kafka_config" where
  "new_publisher read roots pair c0 =
     (let c = (plain_by_default c0)\<lparr>kc_brokers := normalize_brokers (kc_brokers c0)\<rparr> in
      case config_validate c of
        Inl e \<Rightarrow> Inl e
      | Inr _ \<Rightarrow> (case load_tls_config read roots pair c of Inl e \<Rightarrow> Inl e | Inr _ \<Rightarrow> Inr c))"

definition new_consumer_topic ::
    "(string \<Rightarrow> err + string) \<Rightarrow> (string \<Rightarrow> bool) \<Rightarrow> (string \<Rightarrow> string \<Rightarrow> err option) \<Rightarrow> kafka_config \<Rightarrow> string \<Rightarrow> err + string" where
  "new_consumer_topic read roots pair c0 topic =
     (let c = c0\<lparr>kc_brokers := normalize_brokers (kc_brokers c0)\<rparr> in
      case config_validate c of
        Inl e \<Rightarrow> Inl e
      | Inr _ \<Rightarrow> (case load_tls_config read roots pair (plain_by_default c) of
          Inl e \<Rightarrow> Inl e
        | Inr _ \<Rightarrow> if topic = '''' then Inl (TextError ''consumer topic, store, and handler are required'')
            else Inr (resolve_topic (kc_prefix c) topic)))"

section \<open>Publishing\<close>

record event_message =
  em_topic :: string
  em_key :: string
  em_value :: envelope
  em_time :: time

text \<open>The database, the broker, the counters of publisher, worker and consumer, the committed messages, and
  what the handler of the consumer works on. \<open>dy_commits\<close> says which commits of an offset succeed.\<close>

record 'x delivery =
  dy_db :: event_world
  dy_broker :: "event_message broker"
  dy_publisher :: metrics
  dy_worker :: metrics
  dy_consumer :: metrics
  dy_committed :: "string list"
  dy_commits :: "nat \<Rightarrow> bool"
  dy_tries :: nat
  dy_app :: 'x

definition on_db :: "(event_world, 'a) prog \<Rightarrow> ('x delivery, 'a) prog" where
  "on_db m s = (case m (dy_db s) of (r, w) \<Rightarrow> (r, s\<lparr>dy_db := w\<rparr>))"

definition on_broker :: "(event_message broker, 'a) prog \<Rightarrow> ('x delivery, 'a) prog" where
  "on_broker m s = (case m (dy_broker s) of (r, b) \<Rightarrow> (r, s\<lparr>dy_broker := b\<rparr>))"

definition on_app :: "('x, 'a) prog \<Rightarrow> ('x delivery, 'a) prog" where
  "on_app m s = (case m (dy_app s) of (r, x) \<Rightarrow> (r, s\<lparr>dy_app := x\<rparr>))"

definition changeP :: "('s \<Rightarrow> 's) \<Rightarrow> ('s, unit) prog" where
  "changeP f s = (Inr (), f s)"

definition count_published :: "metrics \<Rightarrow> metrics" where "count_published m = m\<lparr>mt_published := mt_published m + 1\<rparr>"
definition count_failed :: "metrics \<Rightarrow> metrics" where "count_failed m = m\<lparr>mt_failed := mt_failed m + 1\<rparr>"
definition add_backlog :: "int64 \<Rightarrow> metrics \<Rightarrow> metrics" where "add_backlog n m = m\<lparr>mt_backlog := mt_backlog m + n\<rparr>"

definition kafka_publish :: "kafka_config \<Rightarrow> envelope \<Rightarrow> ('x delivery, unit) prog" where
  "kafka_publish c e =
     bindP (liftE (validate e)) (\<lambda>_.
     bindP (liftE (marshal_envelope e)) (\<lambda>data.
     bindP (tryP (on_broker (write_message \<lparr>em_topic = resolve_topic (kc_prefix c) (ev_topic e), em_key = ev_agg_id e,
       em_value = data, em_time = ev_at e\<rparr>))) (\<lambda>r. case r of
       Inl x \<Rightarrow> bindP (changeP (\<lambda>s. s\<lparr>dy_publisher := count_failed (dy_publisher s)\<rparr>)) (\<lambda>_. failP x)
     | Inr _ \<Rightarrow> changeP (\<lambda>s. s\<lparr>dy_publisher := count_published (dy_publisher s)\<rparr>))))"

definition marking_publish :: "kafka_config \<Rightarrow> envelope \<Rightarrow> ('x delivery, unit) prog" where
  "marking_publish c e =
     bindP (kafka_publish c e) (\<lambda>_.
     bindP (on_db clock_now) (\<lambda>now.
     on_db (eo_mark_published (ev_id e) now)))"

section \<open>The worker\<close>

definition deliver_record :: "(err \<Rightarrow> string) \<Rightarrow> kafka_config \<Rightarrow> outbox_record \<Rightarrow> ('x delivery, unit) prog" where
  "deliver_record text c r =
     bindP (tryP (kafka_publish c (or_envelope r))) (\<lambda>q. case q of
       Inl x \<Rightarrow>
         bindP (on_db clock_now) (\<lambda>now.
         bindP (on_db (eo_mark_failed (or_id r) (text x) (now + 5 * 1000000000))) (\<lambda>_.
         changeP (\<lambda>s. s\<lparr>dy_worker := count_failed (dy_worker s)\<rparr>)))
     | Inr _ \<Rightarrow>
         bindP (on_db clock_now) (\<lambda>now.
         bindP (on_db (eo_mark_published (or_id r) now)) (\<lambda>_.
         changeP (\<lambda>s. s\<lparr>dy_worker := count_published (dy_worker s)\<rparr>))))"

fun deliver_records :: "(err \<Rightarrow> string) \<Rightarrow> kafka_config \<Rightarrow> outbox_record list \<Rightarrow> ('x delivery, unit) prog" where
  "deliver_records text c [] = returnP ()"
| "deliver_records text c (r # rs) = bindP (deliver_record text c r) (\<lambda>_. deliver_records text c rs)"

definition worker_once ::
    "(err \<Rightarrow> string) \<Rightarrow> (uuid list \<Rightarrow> uuid list) \<Rightarrow> kafka_config \<Rightarrow> int64 \<Rightarrow> ('x delivery, nat) prog" where
  "worker_once text order c batch =
     bindP (on_db (claim_pending order (if i64_less batch 1 then 100 else batch))) (\<lambda>rs.
     bindP (deliver_records text c rs) (\<lambda>_. returnP (length rs)))"

section \<open>The consumer\<close>

text \<open>A message: its place in the log, which a commit names, when the broker took it, and its value.\<close>

record event_delivery =
  ed_place :: string
  ed_time :: time
  ed_envelope :: "envelope option"

definition commit_offset :: "event_delivery \<Rightarrow> ('x delivery, unit) prog" where
  "commit_offset m s =
     (let n = dy_tries s; s1 = s\<lparr>dy_tries := Suc n\<rparr> in
      if dy_commits s n then (Inr (), s1\<lparr>dy_committed := dy_committed s @ [ed_place m]\<rparr>)
      else (Inl (TextError ''commit failed''), s1))"

definition maxConsumerAttempts :: int64 where "maxConsumerAttempts = 3"

text \<open>The handler is tried until it succeeds, \<open>n\<close> times at most; the error is the last one.\<close>

fun try_handler :: "nat \<Rightarrow> (envelope \<Rightarrow> ('x, unit) prog) \<Rightarrow> envelope \<Rightarrow> ('x delivery, err option) prog" where
  "try_handler 0 h e = returnP None"
| "try_handler (Suc n) h e = bindP (tryP (on_app (h e))) (\<lambda>q. case q of
     Inr _ \<Rightarrow> returnP None
   | Inl x \<Rightarrow> if n = 0 then returnP (Some x) else try_handler n h e)"

definition settle :: "event_delivery \<Rightarrow> ('x delivery, unit) prog" where
  "settle m = bindP (commit_offset m) (\<lambda>_. changeP (\<lambda>s. s\<lparr>dy_consumer := add_backlog (- 1) (dy_consumer s)\<rparr>))"

definition observe :: "event_delivery \<Rightarrow> ('x delivery, unit) prog" where
  "observe m =
     bindP (changeP (\<lambda>s. s\<lparr>dy_consumer := add_backlog 1 (dy_consumer s)\<rparr>)) (\<lambda>_.
     if is_zero (ed_time m) then returnP ()
     else bindP (on_db clock_now) (\<lambda>now.
       let d = now - ed_time m; secs = (if 0 \<le> d then d div 1000000000 else - (- d div 1000000000)) in
       changeP (\<lambda>s. s\<lparr>dy_consumer := (dy_consumer s)\<lparr>mt_lag := word_of_int secs\<rparr>\<rparr>)))"

definition process_event ::
    "(err \<Rightarrow> string) \<Rightarrow> string \<Rightarrow> (envelope \<Rightarrow> ('x, unit) prog) \<Rightarrow> envelope \<Rightarrow> ('x delivery, unit) prog" where
  "process_event text grp h e =
     bindP (try_handler (nat (sint maxConsumerAttempts)) h e) (\<lambda>q.
     bindP (case q of
         None \<Rightarrow> returnP ()
       | Some x \<Rightarrow> bindP (changeP (\<lambda>s. s\<lparr>dy_consumer := count_failed (dy_consumer s)\<rparr>)) (\<lambda>_.
           on_db (move_to_dlq grp e (text x) maxConsumerAttempts))) (\<lambda>_.
     bindP (changeP (\<lambda>s. s\<lparr>dy_consumer := count_published (dy_consumer s)\<rparr>)) (\<lambda>_.
     bindP (on_db clock_now) (\<lambda>now.
     on_db (mark_processed grp (ev_id e) now)))))"

definition consume_one ::
    "(err \<Rightarrow> string) \<Rightarrow> string \<Rightarrow> (envelope \<Rightarrow> ('x, unit) prog) \<Rightarrow> event_delivery \<Rightarrow> ('x delivery, unit) prog" where
  "consume_one text grp h m =
     bindP (observe m) (\<lambda>_.
     case ed_envelope m of
       None \<Rightarrow> settle m
     | Some e \<Rightarrow>
         bindP (on_db (already_processed grp (ev_id e))) (\<lambda>seen.
         if seen then settle m
         else bindP (process_event text grp h e) (\<lambda>_. settle m)))"

end
