(* ===== verification/Event_Delivery.thy ===== *)
theory Event_Delivery
  imports Event_Outbox
begin

text \<open>
  What the worker and the consumer of domain events guarantee, and where they do not: an event counts as
  published only when it is in the log; an outbox row that does not decode stops the worker for good;
  a message is committed only after it was handled, recorded as handled before, or dead-lettered.
\<close>

section \<open>Programs on the parts of a delivery\<close>

abbreviation event_rows :: "'x delivery \<Rightarrow> (uuid \<times> event_row) list" where
  "event_rows s \<equiv> event_outbox (w_db (dy_db s))"

lemma on_db_split: "on_db m s = (q, s') \<longleftrightarrow> (\<exists>w. m (dy_db s) = (q, w) \<and> s' = s\<lparr>dy_db := w\<rparr>)"
  by (auto simp: on_db_def split: prod.splits)

lemma on_broker_split: "on_broker m s = (q, s') \<longleftrightarrow> (\<exists>b. m (dy_broker s) = (q, b) \<and> s' = s\<lparr>dy_broker := b\<rparr>)"
  by (auto simp: on_broker_def split: prod.splits)

lemma on_app_split: "on_app m s = (q, s') \<longleftrightarrow> (\<exists>x. m (dy_app s) = (q, x) \<and> s' = s\<lparr>dy_app := x\<rparr>)"
  by (auto simp: on_app_def split: prod.splits)

lemma changeP_split: "changeP f s = (q, s') \<longleftrightarrow> q = Inr () \<and> s' = f s"
  by (auto simp: changeP_def)

lemmas part_splits = on_db_split on_broker_split on_app_split changeP_split

section \<open>Published means sent\<close>

definition event_sent :: "kafka_config \<Rightarrow> envelope \<Rightarrow> event_message broker \<Rightarrow> bool" where
  "event_sent c e b \<longleftrightarrow> \<lparr>em_topic = resolve_topic (kc_prefix c) (ev_topic e), em_key = ev_agg_id e, em_value = e, em_time = ev_at e\<rparr>
     \<in> set (bk_log b)"

definition event_kept :: "kafka_config \<Rightarrow> uuid \<Rightarrow> envelope \<Rightarrow> 'x delivery \<Rightarrow> bool" where
  "event_kept c k e s \<longleftrightarrow> (\<exists>r. map_of (event_rows s) k = Some r \<and> eo_envelope r = Some e
     \<and> (eo_published r = None \<or> event_sent c e (dy_broker s)))"

lemma kafka_publish_ok:
  assumes "kafka_publish c e s = (Inr u, s')"
  shows "event_sent c e (dy_broker s') \<and> dy_db s' = dy_db s"
proof -
  from assms have "validate e = Inr ()"
    unfolding kafka_publish_def bindP_Inr_iff by (auto simp: prog_iffs)
  then have m: "marshal_envelope e = Inr e" by (simp add: validate_accepts well_formed_marshal)
  obtain q b where w: "write_message \<lparr>em_topic = resolve_topic (kc_prefix c) (ev_topic e), em_key = ev_agg_id e,
       em_value = e, em_time = ev_at e\<rparr> (dy_broker s) = (q, b)" by fastforce
  from assms have "q = Inr ()" "dy_broker s' = b" "dy_db s' = dy_db s"
    using m w by (auto simp: kafka_publish_def prog_iffs part_splits split: sum.splits)
  with write_message_log(2) [OF w] show ?thesis by (simp add: event_sent_def)
qed

lemma kafka_publish_parts:
  assumes "kafka_publish c e s = (q, s')"
  shows "dy_db s' = dy_db s \<and> set (bk_log (dy_broker s)) \<subseteq> set (bk_log (dy_broker s'))"
proof (cases "validate e")
  case (Inl x)
  with assms show ?thesis by (simp add: kafka_publish_def bindP_def)
next
  case (Inr v)
  then have m: "marshal_envelope e = Inr e" by (simp add: validate_accepts well_formed_marshal)
  obtain r b where w: "write_message \<lparr>em_topic = resolve_topic (kc_prefix c) (ev_topic e), em_key = ev_agg_id e,
       em_value = e, em_time = ev_at e\<rparr> (dy_broker s) = (r, b)" by fastforce
  with assms m Inr have "dy_db s' = dy_db s \<and> dy_broker s' = b"
    by (cases r) (auto simp: kafka_publish_def bindP_def on_broker_def tryP_def changeP_def)
  with write_message_log(1) [OF w] show ?thesis by simp
qed

lemma update_row_db:
  assumes "update_row j f w = (q, w')"
  shows "map_of (event_outbox (w_db w')) = map_of (event_outbox (w_db w))
    \<or> map_of (event_outbox (w_db w')) = (map_of (event_outbox (w_db w)))(j := map_option f (map_of (event_outbox (w_db w)) j))"
  using sql_db_cases [OF assms [unfolded update_row_def]]
  by (auto simp: on_table_Inr rows_dropped dest!: update_at_map)

lemma event_kept_update:
  assumes "event_kept c k e s" and "on_db (update_row j f) s = (q, s')"
    and "\<And>r. eo_envelope (f r) = eo_envelope r"
    and "\<And>r. j = k \<Longrightarrow> eo_published (f r) = eo_published r \<or> event_sent c e (dy_broker s)"
  shows "event_kept c k e s'"
proof -
  from assms(1) obtain r where r: "map_of (event_rows s) k = Some r" "eo_envelope r = Some e"
    and p: "eo_published r = None \<or> event_sent c e (dy_broker s)" by (auto simp: event_kept_def)
  from assms(2) obtain w where w: "update_row j f (dy_db s) = (q, w)" and s': "s' = s\<lparr>dy_db := w\<rparr>" by (auto simp: on_db_split)
  from update_row_db [OF w] r(1) have "map_of (event_outbox (w_db w)) k = Some r \<or> j = k \<and> map_of (event_outbox (w_db w)) k = Some (f r)"
    by (auto split: if_splits)
  then show ?thesis using r p assms(3) [of r] assms(4) [of r] by (auto simp: event_kept_def s')
qed

lemma event_kept_grows:
  "event_kept c k e s \<Longrightarrow> event_rows s' = event_rows s \<Longrightarrow> set (bk_log (dy_broker s)) \<subseteq> set (bk_log (dy_broker s')) \<Longrightarrow> event_kept c k e s'"
  by (auto simp: event_kept_def event_sent_def)

lemma deliver_record_kept:
  assumes kept: "event_kept c k e s" and same: "or_id r = k \<Longrightarrow> or_envelope r = e"
    and run: "deliver_record text c r s = (q, s')"
  shows "event_kept c k e s'"
proof -
  obtain a s1 where p: "kafka_publish c (or_envelope r) s = (a, s1)" by fastforce
  have kept1: "event_kept c k e s1"
    by (rule event_kept_grows [OF kept]) (use kafka_publish_parts [OF p] in simp_all)
  define s2 where "s2 = s1\<lparr>dy_db := snd (clock_now (dy_db s1))\<rparr>"
  obtain now where now: "on_db clock_now s1 = (Inr now, s2)" by (simp add: on_db_def clock_now_def s2_def)
  have kept2: "event_kept c k e s2" by (rule event_kept_grows [OF kept1]) (simp_all add: s2_def clock_now_def)
  have counted: "event_kept c k e (s3\<lparr>dy_worker := m\<rparr>)" if "event_kept c k e s3" for s3 m
    by (rule event_kept_grows [OF that]) simp_all
  show ?thesis
  proof (cases a)
    case (Inl x)
    obtain b s3 where u: "on_db (eo_mark_failed (or_id r) (text x) (now + 5 * 1000000000)) s2 = (b, s3)" by fastforce
    have "event_kept c k e s3" by (rule event_kept_update [OF kept2 u [unfolded eo_mark_failed_def]]) simp_all
    with run p Inl now u counted show ?thesis
      by (auto simp: deliver_record_def bindP_def tryP_def changeP_def split: sum.splits)
  next
    case (Inr v)
    obtain b s3 where u: "on_db (eo_mark_published (or_id r) now) s2 = (b, s3)" by fastforce
    have "event_sent c e (dy_broker s2)" if "or_id r = k"
      using kafka_publish_ok [OF p [unfolded Inr]] same [OF that] by (simp add: s2_def)
    then have "event_kept c k e s3" by (intro event_kept_update [OF kept2 u [unfolded eo_mark_published_def]]) simp_all
    with run p Inr now u counted show ?thesis
      by (auto simp: deliver_record_def bindP_def tryP_def changeP_def split: sum.splits)
  qed
qed

lemma deliver_records_kept:
  "event_kept c k e s \<Longrightarrow> (\<And>r. r \<in> set rs \<Longrightarrow> or_id r = k \<Longrightarrow> or_envelope r = e) \<Longrightarrow> deliver_records text c rs s = (q, s')
    \<Longrightarrow> event_kept c k e s'"
proof (induction rs arbitrary: s)
  case (Cons r rs)
  obtain a s1 where p: "deliver_record text c r s = (a, s1)" by fastforce
  have "event_kept c k e s1" using deliver_record_kept [OF Cons.prems(1) _ p] Cons.prems(2) by simp
  with Cons p show ?case by (cases a) (auto simp: bindP_def)
qed simp


lemma map_of_attempted: "map_of (attempted ids tab) k
    = map_option (\<lambda>r. if k \<in> ids then r\<lparr>eo_attempts := eo_attempts r + 1\<rparr> else r) (map_of tab k)"
  by (induction tab) (auto simp: attempted_def)

lemma decode_events_Inr: "decode_events xs = Inr rs \<longleftrightarrow> list_all2 (\<lambda>x r. decode_event x = Inr r) xs rs"
proof (induction xs arbitrary: rs)
  case (Cons x xs)
  show ?case
    by (cases rs) (auto simp flip: Cons.IH split: sum.split)
qed auto

lemma decode_event_Inr: "decode_event (k, r) = Inr q \<longleftrightarrow>
    or_id q = k \<and> eo_envelope r = Some (or_envelope q) \<and> or_created q = eo_created r \<and> or_published q = eo_published r"
  by (cases q) (auto simp: decode_event_def split: option.splits)

text \<open>What a claim does: nothing, or it counts the attempts of rows and returns these rows.\<close>

definition claimed :: "(uuid list \<Rightarrow> uuid list) \<Rightarrow> int64 \<Rightarrow> time \<Rightarrow> event_tables \<Rightarrow> outbox_record list \<Rightarrow> event_tables \<Rightarrow> bool" where
  "claimed order limit now d rs d' \<longleftrightarrow>
     (let ids = map fst (take (nat (sint limit)) (due_events now (event_outbox d))); tab = attempted (set ids) (event_outbox d) in
      d' = d\<lparr>event_outbox := tab\<rparr> \<and> decode_events (map (\<lambda>k. (k, the (map_of tab k))) (order ids)) = Inr rs)"

lemma claim_rows_Inr:
  "claim_rows order limit w = (Inr rs, w') \<Longrightarrow> \<exists>n. claimed order limit (w_sql_now w n) (w_db w) rs (w_db w')"
  unfolding claim_rows_def bindP_Inr_iff liftE_Inr_iff
  by (auto simp: sql_def on_table_def claimed_def Let_def split: if_splits fault.splits)

lemma with_tx_sql_now:
  assumes "with_tx m w = (q, w')" and "\<And>v p v'. m v = (p, v') \<Longrightarrow> w_sql_now v' = w_sql_now v"
  shows "w_sql_now w' = w_sql_now w"
proof -
  let ?w1 = "w\<lparr>w_tick := Suc (w_tick w), w_in_tx := True, w_aborted := False\<rparr>"
  obtain p w2 where m: "m ?w1 = (p, w2)" by fastforce
  from assms(2) [OF this] assms(1) m show ?thesis
    by (auto simp: with_tx_def end_tx_def Let_def split: if_splits sum.splits fault.splits)
qed

lemma sql_sql_now: "sql f w = (q, w') \<Longrightarrow> w_sql_now w' = w_sql_now w"
  by (auto simp: sql_def fail_world_def Let_def split: if_splits fault.splits sum.splits prod.splits)

lemma with_tx_body:
  assumes "with_tx m w = (q, w')"
  shows "(\<exists>e. q = Inl e) \<and> w_db w' = w_db w
    \<or> (\<exists>w1 x w2. w_db w1 = w_db w \<and> w_sql_now w1 = w_sql_now w \<and> m w1 = (Inr x, w2) \<and> w_db w' = w_db w2 \<and> (q = Inr x \<or> (\<exists>e. q = Inl e)))"
proof -
  let ?w1 = "w\<lparr>w_tick := Suc (w_tick w), w_in_tx := True, w_aborted := False\<rparr>"
  have w1: "w_db ?w1 = w_db w \<and> w_sql_now ?w1 = w_sql_now w" by simp
  obtain p w2 where m: "m ?w1 = (p, w2)" by fastforce
  have "(\<exists>e. q = Inl e) \<and> w_db w' = w_db w \<or> (\<exists>x. p = Inr x \<and> w_db w' = w_db w2 \<and> (q = Inr x \<or> (\<exists>e. q = Inl e)))"
    using assms m by (auto simp: with_tx_def Let_def split: if_splits sum.splits fault.splits)
  with m w1 show ?thesis by metis
qed

lemma claim_pending_db:
  assumes "claim_pending order limit w = (q, w')"
  obtains (unchanged) e where "q = Inl e" "w_db w' = w_db w"
  | (rows) n rs where "claimed order limit (w_sql_now w n) (w_db w) rs (w_db w')" "q = Inr rs \<or> (\<exists>e. q = Inl e)"
proof (cases "i64_less limit 1")
  case True
  with assms show thesis by (intro unchanged) (auto simp: claim_pending_def checkP_def)
next
  case False
  with assms have "with_tx (claim_rows order limit) w = (q, w')" by (simp add: claim_pending_def checkP_def)
  from with_tx_body [OF this] show thesis
  proof (elim disjE exE conjE)
    fix w1 x w2 assume w: "w_db w1 = w_db w" "w_sql_now w1 = w_sql_now w" "w_db w' = w_db w2"
      and "claim_rows order limit w1 = (Inr x, w2)"
    from claim_rows_Inr [OF this(4)] obtain n where n: "claimed order limit (w_sql_now w n) (w_db w) x (w_db w')"
      unfolding w by blast
    show thesis if "q = Inr x" using rows [OF n] that by simp
    show thesis if "q = Inl e" for e using rows [OF n] that by simp
  qed (rule unchanged)
qed

lemma list_all2_source: "list_all2 P xs ys \<Longrightarrow> y \<in> set ys \<Longrightarrow> \<exists>x \<in> set xs. P x y"
  by (induction rule: list_all2_induct) auto

lemma decode_events_all: "decode_events (map f ks) = Inr rs \<Longrightarrow> k \<in> set ks \<Longrightarrow> \<exists>p. decode_event (f k) = Inr p"
  by (induction ks arbitrary: rs) (auto split: sum.splits)

lemma claimed_records:
  assumes "claimed order limit now d rs d'" and order: "\<And>ks. set (order ks) = set ks" and "q \<in> set rs"
  shows "\<exists>r. map_of (event_outbox d') (or_id q) = Some r \<and> eo_envelope r = Some (or_envelope q)"
proof -
  let ?ids = "map fst (take (nat (sint limit)) (due_events now (event_outbox d)))"
  from assms(1) have d': "event_outbox d' = attempted (set ?ids) (event_outbox d)"
    and dec: "list_all2 (\<lambda>x r. decode_event x = Inr r) (map (\<lambda>k. (k, the (map_of (event_outbox d') k))) (order ?ids)) rs"
    by (auto simp: claimed_def Let_def decode_events_Inr)
  from list_all2_source [OF dec assms(3)] obtain k where "k \<in> set (order ?ids)"
    and q: "decode_event (k, the (map_of (event_outbox d') k)) = Inr q" by auto
  then have k: "k \<in> set ?ids" unfolding order by blast
  from k obtain r0 where "(k, r0) \<in> set (event_outbox d)" by (auto simp: due_events_def dest!: in_set_takeD)
  then have "map_of (event_outbox d) k \<noteq> None" by (metis image_eqI map_of_eq_None_iff fst_conv)
  then obtain r where "map_of (event_outbox d') k = Some r" by (auto simp: d' map_of_attempted)
  with q show ?thesis by (auto simp: decode_event_Inr)
qed

lemma worker_once_kept:
  assumes order: "\<And>ks. set (order ks) = set ks" and kept: "event_kept c k e s" and run: "worker_once text order c batch s = (q, s')"
  shows "event_kept c k e s'"
proof -
  obtain a w where cl: "claim_pending order (if i64_less batch 1 then 100 else batch) (dy_db s) = (a, w)" by fastforce
  let ?s = "s\<lparr>dy_db := w\<rparr>"
  from kept obtain r where r: "map_of (event_rows s) k = Some r" "eo_envelope r = Some e"
    "eo_published r = None \<or> event_sent c e (dy_broker s)" by (auto simp: event_kept_def)
  have kept1: "event_kept c k e ?s"
    by (rule claim_pending_db [OF cl]) (use r in \<open>auto simp: event_kept_def claimed_def Let_def map_of_attempted\<close>)
  show ?thesis
  proof (cases a)
    case (Inl x)
    with run cl kept1 show ?thesis by (simp add: worker_once_def bindP_def on_db_def)
  next
    case (Inr rs)
    obtain b s2 where d: "deliver_records text c rs ?s = (b, s2)" by fastforce
    have "or_envelope p = e" if "p \<in> set rs" "or_id p = k" for p
    proof -
      obtain n where "claimed order (if i64_less batch 1 then 100 else batch) (w_sql_now (dy_db s) n) (w_db (dy_db s)) rs (w_db w)"
        by (rule claim_pending_db [OF cl]) (auto simp: Inr)
      from claimed_records [OF this order that(1)] that(2) kept1 show ?thesis by (auto simp: event_kept_def)
    qed
    then have "event_kept c k e s2" by (rule deliver_records_kept [OF kept1 _ d])
    with run cl d Inr show ?thesis by (auto simp: worker_once_def bindP_def on_db_def split: sum.splits)
  qed
qed

fun run_worker :: "(err \<Rightarrow> string) \<Rightarrow> kafka_config \<Rightarrow> ((uuid list \<Rightarrow> uuid list) \<times> int64) list \<Rightarrow> 'x delivery \<Rightarrow> (err + nat) list \<times> 'x delivery" where
  "run_worker text c [] s = ([], s)"
| "run_worker text c ((order, batch) # cs) s =
     (case worker_once text order c batch s of (q, s1) \<Rightarrow> (case run_worker text c cs s1 of (qs, s2) \<Rightarrow> (q # qs, s2)))"

text \<open>C34: a domain event counts as published only when it is in the log: through any cycles of the worker,
  any failures of the database and any behaviour of the broker, the row of an event stays in the outbox
  with its envelope, and while it is marked as published its message is in the log, in the topic of the
  event with the configured prefix, under the key of its aggregate.\<close>

theorem published_event_is_sent:
  assumes "\<forall>(order, batch) \<in> set cs. \<forall>ks. set (order ks) = set ks"
    and "map_of (event_outbox (w_db (dy_db s))) k = Some r" and "eo_envelope r = Some e" and "eo_published r = None"
  shows "\<exists>r'. map_of (event_outbox (w_db (dy_db (snd (run_worker text c cs s))))) k = Some r' \<and> eo_envelope r' = Some e
    \<and> (eo_published r' = None \<or> event_sent c e (dy_broker (snd (run_worker text c cs s))))"
proof -
  have "event_kept c k e s \<Longrightarrow> \<forall>(order, batch) \<in> set cs. \<forall>ks. set (order ks) = set ks
    \<Longrightarrow> event_kept c k e (snd (run_worker text c cs s))" for s :: "'x delivery"
  proof (induction cs arbitrary: s)
    case (Cons x cs)
    obtain order batch where x: "x = (order, batch)" by (cases x)
    obtain q s1 where q: "worker_once text order c batch s = (q, s1)" by fastforce
    have "event_kept c k e s1" using worker_once_kept [OF _ Cons.prems(1) q] Cons.prems(2) x by auto
    with Cons.IH [of s1] Cons.prems(2) q x show ?case by (simp split: prod.split) (metis snd_conv)
  qed simp
  moreover have "event_kept c k e s" using assms(2-4) by (simp add: event_kept_def)
  ultimately show ?thesis using assms(1) unfolding event_kept_def by blast
qed

section \<open>A row that does not decode\<close>

text \<open>The oldest waiting row of the outbox is due and does not decode.\<close>

definition poisoned :: "uuid \<Rightarrow> event_world \<Rightarrow> bool" where
  "poisoned k w \<longleftrightarrow> (\<exists>r. map_of (event_outbox (w_db w)) k = Some r \<and> eo_envelope r = None \<and> eo_published r = None
     \<and> (\<forall>n. eo_available r \<le> w_sql_now w n) \<and> distinct (map fst (event_outbox (w_db w)))
     \<and> (\<forall>(j, q) \<in> set (event_outbox (w_db w)). j \<noteq> k \<and> eo_published q = None \<longrightarrow> eo_created r < eo_created q))"

lemma hd_sort_key:
  assumes "x \<in> set xs" and "\<And>y. y \<in> set xs \<Longrightarrow> y \<noteq> x \<Longrightarrow> f x < (f y :: 'k :: linorder)"
  obtains ys where "sort_key f xs = x # ys"
proof (cases "sort_key f xs")
  case Nil
  with assms(1) have False by (metis set_sort empty_iff list.set(1))
  then show thesis ..
next
  case (Cons y ys)
  have mem: "set (y # ys) = set xs" using Cons by (metis set_sort)
  have "sorted (map f (y # ys))" using Cons by (metis sorted_sort_key)
  moreover have "x \<in> set (y # ys)" using assms(1) mem by blast
  ultimately have "f y \<le> f x" by auto
  moreover have "y \<in> set xs" using mem by (metis list.set_intros(1))
  ultimately have "y = x" using assms(2) by force
  with Cons that show thesis by blast
qed

lemma poisoned_first:
  assumes "poisoned k w"
  obtains r rest where "due_events (w_sql_now w n) (event_outbox (w_db w)) = (k, r) # rest"
    and "map_of (event_outbox (w_db w)) k = Some r" and "eo_envelope r = None"
proof -
  let ?tab = "event_outbox (w_db w)"
  let ?due = "filter (\<lambda>(j, q). eo_published q = None \<and> eo_available q \<le> w_sql_now w n) ?tab"
  from assms obtain r where r: "map_of ?tab k = Some r" "eo_envelope r = None" "eo_published r = None" "eo_available r \<le> w_sql_now w n"
    and dis: "distinct (map fst ?tab)" and old: "\<forall>(j, q) \<in> set ?tab. j \<noteq> k \<and> eo_published q = None \<longrightarrow> eo_created r < eo_created q"
    by (auto simp: poisoned_def)
  have "(k, r) \<in> set (sort_key fst ?due)" using r by (auto dest: map_of_SomeD)
  moreover have "(eo_created \<circ> snd) (k, r) < (eo_created \<circ> snd) y" if "y \<in> set (sort_key fst ?due)" "y \<noteq> (k, r)" for y
  proof -
    obtain j q where y: "y = (j, q)" by (cases y)
    with that have "(j, q) \<in> set ?tab" "eo_published q = None" by auto
    moreover from this have "j \<noteq> k" using dis r(1) that(2) y by (metis map_of_is_SomeI option.inject)
    ultimately show ?thesis using old y by auto
  qed
  ultimately obtain ys where "due_events (w_sql_now w n) ?tab = (k, r) # ys"
    unfolding due_events_def by (rule hd_sort_key)
  with r show thesis by (intro that)
qed

lemma claim_poisoned:
  assumes poison: "poisoned k w" and order: "\<And>ks. set (order ks) = set ks" and run: "claim_pending order limit w = (q, w')"
  shows "(\<exists>e. q = Inl e) \<and> w_db w' = w_db w"
proof (cases "i64_less limit 1")
  case True
  with run show ?thesis by (auto simp: claim_pending_def checkP_def)
next
  case False
  show ?thesis
  proof (cases rule: claim_pending_db [OF run])
    case (2 n rs)
    let ?ids = "map fst (take (nat (sint limit)) (due_events (w_sql_now w n) (event_outbox (w_db w))))"
    let ?tab = "attempted (set ?ids) (event_outbox (w_db w))"
    obtain r rest where due: "due_events (w_sql_now w n) (event_outbox (w_db w)) = (k, r) # rest"
      and r: "map_of (event_outbox (w_db w)) k = Some r" "eo_envelope r = None"
      using poisoned_first [OF poison] by metis
    from False have "k \<in> set (order ?ids)" by (cases "nat (sint limit)") (simp_all add: order due i64_less_def)
    moreover have "decode_events (map (\<lambda>k. (k, the (map_of ?tab k))) (order ?ids)) = Inr rs"
      using 2(1) by (simp add: claimed_def Let_def)
    ultimately have "\<exists>p. decode_event (k, the (map_of ?tab k)) = Inr p" by (rule decode_events_all [rotated])
    with r have False by (auto simp: map_of_attempted decode_event_Inr split: if_splits)
    then show ?thesis ..
  qed simp
qed

lemma claim_pending_sql_now: "claim_pending order limit w = (q, w') \<Longrightarrow> w_sql_now w' = w_sql_now w"
proof (cases "i64_less limit 1")
  case False
  moreover have "w_sql_now v' = w_sql_now v" if "claim_rows order limit v = (p, v')" for v p v'
    using that by (auto simp: claim_rows_def bindP_def split: prod.splits sum.splits dest!: sql_sql_now)
  moreover assume "claim_pending order limit w = (q, w')"
  ultimately show ?thesis by (auto simp: claim_pending_def checkP_def intro: with_tx_sql_now)
qed (simp add: claim_pending_def checkP_def)

lemma worker_poisoned:
  assumes "poisoned k (dy_db s)" and "\<And>ks. set (order ks) = set ks" and "worker_once text order c batch s = (q, s')"
  shows "(\<exists>e. q = Inl e) \<and> w_db (dy_db s') = w_db (dy_db s) \<and> dy_broker s' = dy_broker s \<and> poisoned k (dy_db s')"
proof -
  obtain a w where cl: "claim_pending order (if i64_less batch 1 then 100 else batch) (dy_db s) = (a, w)" by fastforce
  from claim_poisoned [OF assms(1,2) cl] obtain e where a: "a = Inl e" and db: "w_db w = w_db (dy_db s)" by blast
  have "q = Inl e \<and> s' = s\<lparr>dy_db := w\<rparr>" using assms(3) cl a by (simp add: worker_once_def bindP_def on_db_def)
  moreover have "poisoned k w" using assms(1) db claim_pending_sql_now [OF cl] by (simp add: poisoned_def)
  ultimately show ?thesis using db by simp
qed

text \<open>C35: a row that does not decode stops the outbox. While the oldest waiting row does not decode, every
  cycle of the worker fails, whatever its batch size, and neither the tables nor the log of the broker
  change: no attempt is counted, the row is never set aside, and no later event gets out.\<close>

theorem poison_row_stops_outbox:
  assumes "poisoned k (dy_db s)" and "\<forall>(order, batch) \<in> set cs. \<forall>ks. set (order ks) = set ks"
  shows "length (fst (run_worker text c cs s)) = length cs \<and> list_all (\<lambda>q. \<exists>e. q = Inl e) (fst (run_worker text c cs s))
    \<and> w_db (dy_db (snd (run_worker text c cs s))) = w_db (dy_db s) \<and> dy_broker (snd (run_worker text c cs s)) = dy_broker s"
  using assms
proof (induction cs arbitrary: s)
  case (Cons x cs)
  obtain order batch where x: "x = (order, batch)" by (cases x)
  obtain q s1 where q: "worker_once text order c batch s = (q, s1)" by fastforce
  have ord: "\<And>ks. set (order ks) = set ks" using Cons.prems(2) x by auto
  note first = worker_poisoned [OF Cons.prems(1) ord q]
  have "\<forall>(order, batch) \<in> set cs. \<forall>ks. set (order ks) = set ks" using Cons.prems(2) by simp
  from Cons.IH [OF _ this, of s1] first x q show ?case by (auto simp: split_def)
qed simp

section \<open>The consumer\<close>

text \<open>The state of the application after \<open>n\<close> calls of the handler that failed, one after the other.\<close>

primrec failing :: "nat \<Rightarrow> (envelope \<Rightarrow> ('x, unit) prog) \<Rightarrow> envelope \<Rightarrow> 'x \<Rightarrow> 'x option" where
  "failing 0 h e x = Some x"
| "failing (Suc n) h e x = (case h e x of (Inl z, y) \<Rightarrow> failing n h e y | (Inr u, y) \<Rightarrow> None)"

lemma try_handler_None:
  "try_handler (Suc n) h e s = (Inr None, s') \<Longrightarrow>
    \<exists>k x. k \<le> n \<and> failing k h e (dy_app s) = Some x \<and> h e x = (Inr (), dy_app s')"
proof (induction n arbitrary: s)
  case 0
  then show ?case by (auto simp: bindP_def tryP_def on_app_def split: prod.splits sum.splits)
next
  case (Suc n)
  obtain q x where q: "h e (dy_app s) = (q, x)" by fastforce
  show ?case
  proof (cases q)
    case (Inl z)
    with Suc.prems q have "try_handler (Suc n) h e (s\<lparr>dy_app := x\<rparr>) = (Inr None, s')"
      by (simp add: bindP_def tryP_def on_app_def)
    from Suc.IH [OF this] obtain k y where "k \<le> n" "failing k h e x = Some y" "h e y = (Inr (), dy_app s')" by auto
    with q Inl show ?thesis by (intro exI [of _ "Suc k"] exI [of _ y]) simp
  next
    case (Inr u)
    with Suc.prems q show ?thesis by (intro exI [of _ 0]) (auto simp: bindP_def tryP_def on_app_def)
  qed
qed

lemma try_handler_Some:
  "try_handler (Suc n) h e s = (Inr (Some z), s') \<Longrightarrow>
    \<exists>x. failing n h e (dy_app s) = Some x \<and> h e x = (Inl z, dy_app s')"
proof (induction n arbitrary: s)
  case 0
  then show ?case by (auto simp: bindP_def tryP_def on_app_def split: prod.splits sum.splits)
next
  case (Suc n)
  obtain q x where q: "h e (dy_app s) = (q, x)" by fastforce
  with Suc.prems obtain y where y: "q = Inl y" by (cases q) (auto simp: bindP_def tryP_def on_app_def)
  with Suc.prems q have "try_handler (Suc n) h e (s\<lparr>dy_app := x\<rparr>) = (Inr (Some z), s')"
    by (simp add: bindP_def tryP_def on_app_def)
  from Suc.IH [OF this] q y show ?case by simp
qed

lemma try_handler_parts:
  "try_handler n h e s = (q, s') \<Longrightarrow> dy_db s' = dy_db s \<and> dy_committed s' = dy_committed s"
proof (induction n arbitrary: s)
  case (Suc n)
  obtain r x where r: "h e (dy_app s) = (r, x)" by fastforce
  with Suc show ?case
    by (cases r) (auto simp: bindP_def tryP_def on_app_def split: if_splits)
qed simp

lemma settle_committed:
  "settle m s = (q, s') \<Longrightarrow> dy_committed s' \<noteq> dy_committed s \<Longrightarrow> q = Inr () \<and> dy_db s' = dy_db s \<and> dy_app s' = dy_app s
    \<and> dy_committed s' = dy_committed s @ [ed_place m]"
  by (auto simp: settle_def bindP_def commit_offset_def changeP_def Let_def split: if_splits)

lemma settle_ok: "settle m s = (Inr u, s') \<Longrightarrow> dy_committed s' \<noteq> dy_committed s"
  by (auto simp: settle_def bindP_def commit_offset_def changeP_def Let_def split: if_splits)

definition processed_by :: "string \<Rightarrow> uuid \<Rightarrow> 'x delivery \<Rightarrow> bool" where
  "processed_by grp k s \<longleftrightarrow> map_of (processed_events (w_db (dy_db s))) (k, grp) \<noteq> None"

definition set_aside :: "string \<Rightarrow> uuid \<Rightarrow> 'x delivery \<Rightarrow> bool" where
  "set_aside grp k s \<longleftrightarrow> map_of (event_letters (w_db (dy_db s))) (k, grp) \<noteq> None"

lemma insert_ignore_has: "insert_ignore name ok k r tab = Inr t \<Longrightarrow> map_of t k \<noteq> None"
  by (auto simp: insert_ignore_def map_add_def split: if_splits option.splits)

lemma insert_ignore_keeps: "insert_ignore name ok k r tab = Inr t \<Longrightarrow> map_of tab j \<noteq> None \<Longrightarrow> map_of t j \<noteq> None"
  by (auto simp: insert_ignore_def map_add_def split: if_splits option.splits)

lemma mark_processed_Inr:
  assumes "mark_processed grp k t w = (Inr u, w')"
  shows "map_of (processed_events (w_db w')) (k, grp) \<noteq> None \<and> event_letters (w_db w') = event_letters (w_db w)"
proof -
  from assms [unfolded mark_processed_def] obtain tab where
    "insert_ignore ''event_inbox'' (\<lambda>_. True) (k, grp) t (processed_events (w_db w)) = Inr tab"
    and "w_db w' = (w_db w)\<lparr>processed_events := tab\<rparr>"
    by (rule sql_table_Inr) (auto simp: no_value_Inr)
  with insert_ignore_has show ?thesis by fastforce
qed

lemma move_to_dlq_Inr:
  assumes "move_to_dlq grp e cause tries w = (Inr u, w')"
  shows "\<exists>r. map_of (event_letters (w_db w')) (ev_id e, grp) = Some r \<and> el_attempts r = tries \<and> el_error r = cause"
proof -
  from assms obtain b where "sql (on_table event_letters (\<lambda>x d. d\<lparr>event_letters := x\<rparr>) (\<lambda>now tab. Inr ((),
       case map_of tab (ev_id e, grp) of
         None \<Rightarrow> tab @ [((ev_id e, grp), \<lparr>el_envelope = b, el_attempts = tries, el_error = cause\<rparr>)]
       | Some r \<Rightarrow> AList.update (ev_id e, grp) (r\<lparr>el_attempts := tries, el_error := cause\<rparr>) tab))) w = (Inr u, w')"
    unfolding move_to_dlq_def bindP_Inr_iff liftE_Inr_iff by blast
  then show ?thesis by (rule sql_table_Inr) (auto simp: map_add_def update_conv' split: option.splits)
qed

lemma bindP_through:
  assumes "bindP m f s = (q, s')" and "frame g m" and "g s' \<noteq> g s"
  obtains x s1 where "m s = (Inr x, s1)" and "f x s1 = (q, s')" and "g s1 = g s"
proof -
  obtain r s1 where r: "m s = (r, s1)" by fastforce
  with assms(2) have "g s1 = g s" by (rule frameD)
  with r assms(1,3) that show thesis by (cases r) (auto simp: bindP_def)
qed

lemma committed_frames [frame_intros]:
  "frame dy_committed (on_db p)" "frame dy_committed (on_app a)"
  "(\<And>s. dy_committed (f s) = dy_committed s) \<Longrightarrow> frame dy_committed (changeP f)"
  "frame dy_committed (try_handler n h e)"
  by (auto intro!: frameI simp: part_splits dest: try_handler_parts)

lemma committed_process: "frame dy_committed (process_event text grp h e)"
  unfolding process_event_def by (intro frame_intros) simp_all

lemma committed_observe: "frame dy_committed (observe m)"
  unfolding observe_def Let_def by (intro frame_intros) simp_all

lemma observe_db: "observe m s = (q, s') \<Longrightarrow> w_db (dy_db s') = w_db (dy_db s) \<and> dy_app s' = dy_app s"
  by (auto simp: observe_def Let_def bindP_def changeP_def on_db_def clock_now_def split: if_splits)

text \<open>How a message came to be settled, from the state before (\<open>s\<close>) to the state after: the handler
  succeeded after at most two failures, or failed three times, the last time with the error of the
  dead letter.\<close>

definition handled :: "(envelope \<Rightarrow> ('x, unit) prog) \<Rightarrow> envelope \<Rightarrow> 'x delivery \<Rightarrow> 'x delivery \<Rightarrow> bool" where
  "handled h e s s' \<longleftrightarrow> (\<exists>k x. k \<le> 2 \<and> failing k h e (dy_app s) = Some x \<and> h e x = (Inr (), dy_app s'))
     \<and> event_letters (w_db (dy_db s')) = event_letters (w_db (dy_db s))"

definition gave_up ::
    "(err \<Rightarrow> string) \<Rightarrow> string \<Rightarrow> (envelope \<Rightarrow> ('x, unit) prog) \<Rightarrow> envelope \<Rightarrow> 'x delivery \<Rightarrow> 'x delivery \<Rightarrow> bool" where
  "gave_up text grp h e s s' \<longleftrightarrow> (\<exists>x z r. failing 2 h e (dy_app s) = Some x \<and> h e x = (Inl z, dy_app s')
     \<and> map_of (event_letters (w_db (dy_db s'))) (ev_id e, grp) = Some r \<and> el_attempts r = 3 \<and> el_error r = text z)"

lemma process_event_settles:
  assumes "process_event text grp h e s = (Inr u, s')"
  shows "processed_by grp (ev_id e) s' \<and> (handled h e s s' \<or> gave_up text grp h e s s')"
proof -
  have three: "nat (sint maxConsumerAttempts) = Suc 2" by (simp add: maxConsumerAttempts_def)
  from assms obtain q s1 v s2 s3 now s4 where tried: "try_handler (Suc 2) h e s = (Inr q, s1)"
    and dlq: "(case q of None \<Rightarrow> returnP ()
       | Some x \<Rightarrow> bindP (changeP (\<lambda>s. s\<lparr>dy_consumer := count_failed (dy_consumer s)\<rparr>)) (\<lambda>_.
           on_db (move_to_dlq grp e (text x) maxConsumerAttempts))) s1 = (Inr v, s2)"
    and s3: "s3 = s2\<lparr>dy_consumer := count_published (dy_consumer s2)\<rparr>" and s4: "on_db clock_now s3 = (Inr now, s4)"
    and mark: "on_db (mark_processed grp (ev_id e) now) s4 = (Inr u, s')"
    unfolding process_event_def three bindP_Inr_iff changeP_split by (elim exE conjE) (rule that, assumption+)
  have s4': "dy_app s4 = dy_app s2 \<and> w_db (dy_db s4) = w_db (dy_db s2)"
    using s4 by (auto simp: s3 on_db_def clock_now_def)
  from mark obtain w where w: "mark_processed grp (ev_id e) now (dy_db s4) = (Inr u, w)" and s': "s' = s4\<lparr>dy_db := w\<rparr>"
    by (auto simp: on_db_split)
  note stored = mark_processed_Inr [OF w]
  have same: "dy_app s' = dy_app s2" "event_letters (w_db (dy_db s')) = event_letters (w_db (dy_db s2))"
    using stored s4' by (simp_all add: s')
  have "handled h e s s2 \<or> gave_up text grp h e s s2"
  proof (cases q)
    case None
    with dlq have "s2 = s1" by (simp add: returnP_def)
    with try_handler_None [OF tried [unfolded None]] try_handler_parts [OF tried] show ?thesis by (simp add: handled_def)
  next
    case (Some x)
    with dlq obtain w2 where "move_to_dlq grp e (text x) maxConsumerAttempts (dy_db s1) = (Inr v, w2)" "dy_db s2 = w2"
      and "dy_app s2 = dy_app s1"
      by (auto simp: bindP_def changeP_def on_db_split)
    with move_to_dlq_Inr try_handler_Some [OF tried [unfolded Some]] show ?thesis
      by (fastforce simp: gave_up_def maxConsumerAttempts_def)
  qed
  then have "handled h e s s' \<or> gave_up text grp h e s s'" unfolding handled_def gave_up_def same .
  then show ?thesis using stored by (simp add: processed_by_def s')
qed

text \<open>C36: the consumer commits a message only when it is settled. If handling a message whose value
  decodes commits anything, it commits that message, and the event is recorded as processed by the
  group. Either it was recorded before, and the handler is not called; or it was not, and the handler
  has just succeeded on it, after at most two failures, and nothing went to the dead letters; or it
  was not, and the handler has just failed on it three times in a row, and the dead letter of the
  group names three attempts and the last error.\<close>

theorem committed_is_settled:
  assumes "consume_one text grp h m s = (q, s')" and "ed_envelope m = Some e" and "dy_committed s' \<noteq> dy_committed s"
  shows "q = Inr () \<and> dy_committed s' = dy_committed s @ [ed_place m] \<and> processed_by grp (ev_id e) s'
    \<and> (if processed_by grp (ev_id e) s then dy_app s' = dy_app s
       else handled h e s s' \<or> gave_up text grp h e s s')"
proof -
  from assms(1) [unfolded consume_one_def assms(2) option.case] committed_observe assms(3)
  obtain u s1 where o: "observe m s = (Inr u, s1)" and rest: "bindP (on_db (already_processed grp (ev_id e))) (\<lambda>seen.
      if seen then settle m else bindP (process_event text grp h e) (\<lambda>_. settle m)) s1 = (q, s')"
    and c1: "dy_committed s1 = dy_committed s" by (rule bindP_through)
  have "dy_committed s' \<noteq> dy_committed s1" using assms(3) c1 by simp
  from rest committed_frames(1) this obtain seen s2 where a: "on_db (already_processed grp (ev_id e)) s1 = (Inr seen, s2)"
    and last: "(if seen then settle m else bindP (process_event text grp h e) (\<lambda>_. settle m)) s2 = (q, s')"
    and c2: "dy_committed s2 = dy_committed s1" by (rule bindP_through)
  have was: "seen = processed_by grp (ev_id e) s" "w_db (dy_db s2) = w_db (dy_db s)" "dy_app s2 = dy_app s"
    using a observe_db [OF o] by (auto simp: on_db_split already_processed_def processed_by_def elim!: query_Inr)
  show ?thesis
  proof (cases seen)
    case True
    with last have "settle m s2 = (q, s')" by simp
    from settle_committed [OF this] assms(3) c1 c2 was True show ?thesis by (simp add: processed_by_def)
  next
    case False
    with last have last: "bindP (process_event text grp h e) (\<lambda>_. settle m) s2 = (q, s')" by simp
    have "dy_committed s' \<noteq> dy_committed s2" using assms(3) c1 c2 by simp
    from last committed_process this obtain v s3 where p: "process_event text grp h e s2 = (Inr v, s3)"
      and t: "settle m s3 = (q, s')" and c3: "dy_committed s3 = dy_committed s2" by (rule bindP_through)
    from settle_committed [OF t] assms(3) c1 c2 c3 process_event_settles [OF p] False was
    show ?thesis by (simp add: processed_by_def handled_def gave_up_def)
  qed
qed

end
