(* ===== verification/Delivery_Examples.thy ===== *)
theory Delivery_Examples
  imports Wms_Delivery Wms_Examples Event_Delivery
begin

text \<open>
  The completed pick of \<open>Wms_Examples\<close> on its way to Kafka: a broker that answers, and one that loses
  the first write.
\<close>

definition ex_relay :: relay_params where
  "ex_relay = \<lparr>rx_error = \<lambda>_. ''broker'', rx_order = \<lambda>xs. xs, rx_batch = relay_batch_size\<rparr>"

definition ex_broker :: "nat set \<Rightarrow> broker_message broker" where
  "ex_broker lost = \<lparr>bk_log = [], bk_writes = 0, bk_acked = \<lambda>n. n \<notin> lost, bk_copies = \<lambda>_. 0, bk_error = \<lambda>_. TextError ''broker''\<rparr>"

text \<open>The database after the pick, some time later.\<close>

definition ex_outbox :: "time \<Rightarrow> wms_tables \<Rightarrow> wms_world" where
  "ex_outbox now d = ex_wms_world\<lparr>w_db := d, w_sql_now := \<lambda>_. now\<rparr>"

definition ex_picked :: wms_tables where "ex_picked = w_db (snd ex_completion)"

lemma ex_waiting: "list_all (\<lambda>(k, r). ig_published r = None \<and> ig_available r \<le> 100) (integration_outbox ex_picked)"
    "map (\<lambda>(k, r). (k, ig_type r)) (integration_outbox ex_picked) = [(2, EventTaskStarted), (3, EventTaskCompleted)]"
  by code_simp+

lemma ex_rows: "map_option ig_type (map_of (integration_outbox ex_picked) 2) = Some EventTaskStarted"
    "map_option ig_published (map_of (integration_outbox ex_picked) 2) = Some None"
  by code_simp+

theorem quiet_cycle_drains_witness:
  "\<exists>r b'. map_of (integration_outbox ex_picked) 2 = Some r \<and> snd (snd (relay_once ex_relay (ex_outbox 100 ex_picked, ex_broker {}))) = b' \<and> sent_as r b'"
proof -
  let ?w = "ex_outbox 100 ex_picked"
  have d: "w_db ?w = ex_picked" by (simp add: ex_outbox_def)
  have h: "healthy ?w" by (simp add: healthy_def ex_outbox_def ex_wms_world_def)
  have ack: "\<forall>n. bk_acked (ex_broker {}) n" by (simp add: ex_broker_def)
  have order: "\<forall>ys. set (rx_order ex_relay ys) = set ys" by (simp add: ex_relay_def)
  have ready: "\<forall>(k, r) \<in> set (integration_outbox (w_db ?w)). ig_published r = None \<longrightarrow> ig_available r \<le> w_sql_now ?w (w_tick ?w)"
    using ex_waiting(1) unfolding d by (auto simp: list_all_iff ex_outbox_def)
  have "length (integration_outbox ex_picked) = 2" using arg_cong [OF ex_waiting(2), of length] by simp
  then have few: "length (filter (\<lambda>(k, r). ig_published r = None) (integration_outbox (w_db ?w))) \<le> rx_batch ex_relay"
    using length_filter_le [of "\<lambda>(k, r). ig_published r = None" "integration_outbox ex_picked"]
    by (simp add: d ex_relay_def relay_batch_size_def)
  obtain r where r: "map_of (integration_outbox ex_picked) 2 = Some r" "ig_published r = None" using ex_rows by auto
  with quiet_cycle_drains [OF h ack order ready few] show ?thesis unfolding d by fastforce
qed

section \<open>A lost write\<close>

text \<open>The first cycle loses the start of the pick, the second one is ten seconds later.\<close>

definition ex_lost :: relay_world where
  "ex_lost = snd (relay_once ex_relay (ex_outbox 100 ex_picked, ex_broker {0}))"

definition ex_retried :: relay_world where
  "ex_retried = snd (relay_once ex_relay (ex_outbox 10000000000 (w_db (fst ex_lost)), snd ex_lost))"

definition logged_types :: "broker_message broker \<Rightarrow> json option list" where
  "logged_types b = map (\<lambda>m. case bm_value m of JObj ms \<Rightarrow> map_of ms ''event_type'' | _ \<Rightarrow> None) (bk_log b)"

text \<open>The completion is published before the start, although both went to one partition in order.\<close>

lemma completion_overtakes_start:
  "logged_types (snd ex_retried) = [Some (JStr EventTaskCompleted), Some (JStr EventTaskStarted)]"
  by code_simp

theorem nothing_is_lost_witness:
  "\<exists>r. map_of (integration_outbox ex_picked) 2 = Some r
    \<and> accounted 2 r (run_relay ex_wms ex_consumer ex_relay [Cycle, WorkflowCall (DispatchCall ex_m2), Cycle] (ex_outbox 100 ex_picked, ex_broker {0}))"
proof -
  obtain r where r: "map_of (integration_outbox (w_db (ex_outbox 100 ex_picked))) 2 = Some r" "ig_published r = None"
    using ex_rows by (auto simp: ex_outbox_def)
  have order: "\<forall>ys. set (rx_order ex_relay ys) = set ys" by (simp add: ex_relay_def)
  have d: "w_db (ex_outbox 100 ex_picked) = ex_picked" by (simp add: ex_outbox_def)
  from nothing_is_lost [OF order r] r(1) show ?thesis unfolding d by blast
qed

section \<open>Domain events\<close>

text \<open>
  Two events in the outbox, a broker that loses the first write, a row that does not decode, and a
  consumer whose handler fails: runs of \<open>Event_Delivery\<close>, and the names of topics.
\<close>

definition ex_event :: "uuid \<Rightarrow> envelope" where
  "ex_event k = \<lparr>ev_id = k, ev_type = ''TaskClaimed'', ev_version = 1, ev_agg_type = ''task'', ev_agg_id = ''T1'',
     ev_agg_version = 2, ev_at = 5, ev_correlation = ''c'', ev_cause = 9, ev_warehouse = ''W'', ev_operator = ''o'',
     ev_device = ''d'', ev_topic = ''pda.task'', ev_payload = RawJSON JNull\<rparr>"

definition ex_event_row :: "envelope option \<Rightarrow> time \<Rightarrow> event_row" where
  "ex_event_row e t = \<lparr>eo_aggregate = ''T1'', eo_version = 2, eo_type = ''TaskClaimed'', eo_envelope = e, eo_created = t,
     eo_published = None, eo_attempts = 0, eo_available = 0, eo_error = None\<rparr>"

definition ex_events_world :: "(uuid \<times> event_row) list \<Rightarrow> event_world" where
  "ex_events_world rows = \<lparr>env_clock = (\<lambda>n. int n + 1), env_reads = 0, env_uuid = (\<lambda>n. n + 1), env_ids = 0,
     env_log = \<lparr>el_events = []\<rparr>, env_fail_type = '''',
     w_db = \<lparr>event_outbox = rows, processed_events = [], event_letters = []\<rparr>, w_fault = (\<lambda>_. NoFault),
     w_tick = 0, w_in_tx = False, w_aborted = False, w_sql_now = (\<lambda>n. int n)\<rparr>"

definition ex_delivery :: "(uuid \<times> event_row) list \<Rightarrow> nat set \<Rightarrow> nat delivery" where
  "ex_delivery rows lost = \<lparr>dy_db = ex_events_world rows,
     dy_broker = \<lparr>bk_log = [], bk_writes = 0, bk_acked = (\<lambda>n. n \<notin> lost), bk_copies = (\<lambda>_. 0), bk_error = (\<lambda>_. TextError ''broker'')\<rparr>,
     dy_publisher = new_metrics, dy_worker = new_metrics, dy_consumer = new_metrics, dy_committed = [],
     dy_commits = (\<lambda>_. True), dy_tries = 0, dy_app = 0\<rparr>"

definition ex_kafka :: kafka_config where
  "ex_kafka = \<lparr>kc_brokers = ['' b:9092 '', ''''], kc_group = ''g'', kc_prefix = ''pda'', kc_protocol = '''', kc_ca = '''',
     kc_cert = '''', kc_key = '''', kc_server = ''''\<rparr>"

definition ex_text :: "err \<Rightarrow> string" where "ex_text e = ''failed''"

abbreviation ex_two_events :: "(uuid \<times> event_row) list" where
  "ex_two_events \<equiv> [(1, ex_event_row (Some (ex_event 1)) 1), (2, ex_event_row (Some (ex_event 2)) 2)]"

section \<open>The worker\<close>

text \<open>The first write is lost: the second event gets out, and the first one waits five seconds.\<close>

lemma ex_worker_run: "map (map_option (\<lambda>r. (eo_published r, eo_attempts r)) \<circ> map_of (event_rows (snd (run_worker ex_text ex_kafka
      [(\<lambda>ks. ks, 10)] (ex_delivery ex_two_events {0}))))) [1, 2] = [Some (None, 1), Some (Some 2, 1)]"
  by code_simp

theorem published_event_is_sent_witness:
  "\<exists>r'. map_of (event_outbox (w_db (dy_db (snd (run_worker ex_text ex_kafka [(\<lambda>ks. ks, 10)] (ex_delivery ex_two_events {0})))))) 2 = Some r'
    \<and> event_sent ex_kafka (ex_event 2) (dy_broker (snd (run_worker ex_text ex_kafka [(\<lambda>ks. ks, 10)] (ex_delivery ex_two_events {0}))))"
proof -
  have row: "map_of (event_outbox (w_db (dy_db (ex_delivery ex_two_events {0})))) 2 = Some (ex_event_row (Some (ex_event 2)) 2)"
    by (simp add: ex_delivery_def ex_events_world_def)
  have order: "\<forall>(order, batch) \<in> set [(\<lambda>ks :: uuid list. ks, 10 :: int64)]. \<forall>ks. set (order ks) = set ks" by simp
  from published_event_is_sent [OF order row, of "ex_event 2" ex_text ex_kafka] ex_worker_run
  show ?thesis by (auto simp: ex_event_row_def)
qed

theorem poison_row_stops_outbox_witness:
  "dy_broker (snd (run_worker ex_text ex_kafka [(\<lambda>ks. ks, 10), (\<lambda>ks. ks, 1)]
      (ex_delivery ((3, ex_event_row None 0) # ex_two_events) {}))) = dy_broker (ex_delivery ((3, ex_event_row None 0) # ex_two_events) {})
   \<and> list_all (\<lambda>q. \<exists>e. q = Inl e) (fst (run_worker ex_text ex_kafka [(\<lambda>ks. ks, 10), (\<lambda>ks. ks, 1)]
      (ex_delivery ((3, ex_event_row None 0) # ex_two_events) {})))"
proof -
  have poison: "poisoned 3 (dy_db (ex_delivery ((3, ex_event_row None 0) # ex_two_events) {}))"
    by (simp add: poisoned_def ex_delivery_def ex_events_world_def ex_event_row_def)
  have order: "\<forall>(order, batch) \<in> set [(\<lambda>ks :: uuid list. ks, 10 :: int64), (\<lambda>ks. ks, 1)]. \<forall>ks. set (order ks) = set ks" by simp
  from poison_row_stops_outbox [OF poison order] show ?thesis by blast
qed

section \<open>The consumer\<close>

text \<open>A handler that fails twice and then succeeds, and one that always fails.\<close>

definition ex_flaky :: "envelope \<Rightarrow> (nat, unit) prog" where
  "ex_flaky e n = (if n < 2 then Inl (TextError ''busy'') else Inr (), Suc n)"

definition ex_broken :: "envelope \<Rightarrow> (nat, unit) prog" where
  "ex_broken e n = (Inl (TextError ''broken''), Suc n)"

definition ex_fetched :: event_delivery where
  "ex_fetched = \<lparr>ed_place = ''task/0/7'', ed_time = 1, ed_envelope = Some (ex_event 1)\<rparr>"

lemma ex_consumed:
  "let s = snd (consume_one ex_text ''g'' ex_flaky ex_fetched (ex_delivery [] {}))
   in (dy_committed s, dy_app s, length (event_letters (w_db (dy_db s)))) = ([''task/0/7''], 3, 0)"
  "let s = snd (consume_one ex_text ''g'' ex_broken ex_fetched (ex_delivery [] {}))
   in (dy_committed s, dy_app s, length (event_letters (w_db (dy_db s)))) = ([''task/0/7''], 3, 1)"
  by code_simp+

text \<open>A message that only failed and went to the dead letters counts as failed and as published.\<close>

lemma ex_broken_counts: "metrics_snapshot (dy_consumer (snd (consume_one ex_text ''g'' ex_broken ex_fetched (ex_delivery [] {})))) = (1, 1, 0, 0)"
  by code_simp

theorem committed_is_settled_witness:
  "gave_up ex_text ''g'' ex_broken (ex_event 1) (ex_delivery [] {})
     (snd (consume_one ex_text ''g'' ex_broken ex_fetched (ex_delivery [] {})))
   \<and> handled ex_flaky (ex_event 1) (ex_delivery [] {})
     (snd (consume_one ex_text ''g'' ex_flaky ex_fetched (ex_delivery [] {})))"
proof -
  let ?s = "ex_delivery [] {} :: nat delivery"
  have env: "ed_envelope ex_fetched = Some (ex_event 1)" by (simp add: ex_fetched_def)
  have new: "\<not> processed_by ''g'' (ev_id (ex_event 1)) ?s" by (simp add: processed_by_def ex_delivery_def ex_events_world_def)
  have settled: "handled h (ex_event 1) ?s (snd (consume_one ex_text ''g'' h ex_fetched ?s))
      \<or> gave_up ex_text ''g'' h (ex_event 1) ?s (snd (consume_one ex_text ''g'' h ex_fetched ?s))"
    if "dy_committed (snd (consume_one ex_text ''g'' h ex_fetched ?s)) = [''task/0/7'']" for h
  proof -
    have "dy_committed (snd (consume_one ex_text ''g'' h ex_fetched ?s)) \<noteq> dy_committed ?s"
      using that by (simp add: ex_delivery_def)
    from committed_is_settled [OF prod.collapse [symmetric] env this] new show ?thesis by simp
  qed
  have "dy_committed (snd (consume_one ex_text ''g'' ex_broken ex_fetched ?s)) = [''task/0/7'']"
    "dy_committed (snd (consume_one ex_text ''g'' ex_flaky ex_fetched ?s)) = [''task/0/7'']"
    using ex_consumed by (simp_all add: Let_def)
  note runs = this [THEN settled]
  have "ex_broken e x \<noteq> (Inr (), y)" for e x y by (simp add: ex_broken_def)
  then have "\<not> handled ex_broken (ex_event 1) ?s s" for s by (simp add: handled_def)
  moreover have "\<not> gave_up ex_text ''g'' ex_flaky (ex_event 1) ?s s" for s
    by (simp add: gave_up_def ex_flaky_def ex_delivery_def eval_nat_numeral)
  ultimately show ?thesis using runs by blast
qed

section \<open>Configuration\<close>

lemma load_tls_protocol: "load_tls_config read roots pair c = Inr b \<Longrightarrow>
    kc_protocol c = ''PLAINTEXT'' \<and> \<not> b \<or> kc_protocol c = ''TLS'' \<and> \<not> blank (kc_ca c) \<and> b"
  by (simp add: load_tls_config_def split: if_splits sum.splits option.splits)

lemma new_publisher_secure:
  assumes "new_publisher read roots pair c = Inr d"
  shows "kc_protocol d = ''PLAINTEXT'' \<and> kc_protocol c \<in> {'''', ''PLAINTEXT''} \<or> kc_protocol d = ''TLS'' \<and> kc_protocol c = ''TLS'' \<and> \<not> blank (kc_ca c)"
    and "kc_brokers d \<noteq> []" and "'''' \<notin> set (kc_brokers d)"
proof -
  from assms obtain b where d: "d = (plain_by_default c)\<lparr>kc_brokers := normalize_brokers (kc_brokers c)\<rparr>"
    and v: "config_validate d = Inr ()" and t: "load_tls_config read roots pair d = Inr b"
    unfolding new_publisher_def Let_def by (auto split: sum.splits)
  show "kc_protocol d = ''PLAINTEXT'' \<and> kc_protocol c \<in> {'''', ''PLAINTEXT''} \<or> kc_protocol d = ''TLS'' \<and> kc_protocol c = ''TLS'' \<and> \<not> blank (kc_ca c)"
    using load_tls_protocol [OF t] unfolding d plain_by_default_def by (auto split: if_splits)
  have brokers: "kc_brokers d = normalize_brokers (kc_brokers c)" by (simp add: d)
  show "kc_brokers d \<noteq> []"
    using v by (auto simp: config_validate_def normalize_brokers_def split: if_splits)
  show "'''' \<notin> set (kc_brokers d)" unfolding brokers by (simp add: normalize_brokers_def)
qed

lemma ex_topics: "map (resolve_topic ''pda.'') [''task'', ''pda.task'', ''.task.'', ''pda'', ''''] = [''pda.task'', ''pda.task'', ''pda.task'', ''pda.pda'', ''pda.'']"
  by code_simp

end
