(* ===== verification/Wms_Client.thy ===== *)
theory Wms_Client
  imports Gateway_Sessions Wms_Consumer
begin

text \<open>
  The HTTP client of the upstream WMS, \<open>internal/integration/adapters/wmshttp/client.go\<close> with the types of
  \<open>internal/integration/ports/upstream_wms.go\<close>: requests, the errors of the owner services, warehouses and
  their aliases, receipts, execution tasks, cycle counts, stock and shipments. The WMS itself answers as
  it likes, depending on what it was asked before. Tracing and logs are left out; the parsing of URLs is
  a parameter.
\<close>

section \<open>The WMS at the other end\<close>

record http_request =
  hq_method :: string
  hq_url :: string
  hq_headers :: "(string \<times> string) list"
  hq_body :: "json option"

text \<open>No answer, an answer, or one whose body breaks off. The body is what the limits of the client leave of it: 1 MiB, and
  8 KiB of an error.\<close>

datatype http_reply = NoReply err | Reply int raw_message | Broken int err

record upstream = env +
  up_peer :: "http_request list \<Rightarrow> http_request \<Rightarrow> http_reply"
  up_sent :: "http_request list"

definition send :: "http_request \<Rightarrow> (upstream, http_reply) prog" where
  "send q s = (Inr (up_peer s (up_sent s) q), s\<lparr>up_sent := up_sent s @ [q]\<rparr>)"

record wms_client =
  wc_base :: string
  wc_token :: string
  wc_service :: string
  wc_aliases :: "(string \<times> string) list"
  wc_parsers :: parsers
  wc_url_error :: "string \<Rightarrow> err option"
  wc_uuid_text :: "uuid \<Rightarrow> string"
  wc_sha256 :: "string \<Rightarrow> string"
  wc_sha1 :: "string \<Rightarrow> uuid"
  wc_quote :: "string \<Rightarrow> string"
  wc_order :: "string list \<Rightarrow> string list"

text \<open>\<open>parseWarehouseAliases\<close>: entries \<open>ALIAS=warehouse\<close>, separated by commas; the last one of an alias counts.\<close>

fun cut_at :: "char \<Rightarrow> string \<Rightarrow> (string \<times> string) option" where
  "cut_at c [] = None"
| "cut_at c (x # xs) = (if x = c then Some ([], xs) else map_option (\<lambda>(a, b). (x # a, b)) (cut_at c xs))"

definition alias_of :: "string \<Rightarrow> (string \<times> string) option" where
  "alias_of entry = (case cut_at (CHR ''='') entry of
     Some (a, b) \<Rightarrow> if blank a \<or> blank b then None else Some (to_upper (trim_space a), trim_space b)
   | None \<Rightarrow> None)"

definition parse_aliases :: "string \<Rightarrow> (string \<times> string) list" where
  "parse_aliases raw = fold (\<lambda>(k, v). AList.update k v) (List.map_filter alias_of (split_char (CHR '','') raw)) []"

definition trim_slashes :: "string \<Rightarrow> string" where
  "trim_slashes s = rev (dropWhile (\<lambda>c. c = CHR ''/'') (rev s))"

text \<open>\<open>New\<close>; \<open>parse\<close> gives the scheme and the host of a URL, \<open>env\<close> is \<open>os.Getenv\<close>.\<close>

definition new_client ::
    "(string \<Rightarrow> (string \<times> string) option) \<Rightarrow> (string \<Rightarrow> string) \<Rightarrow> wms_client \<Rightarrow> string \<Rightarrow> string \<Rightarrow> err + wms_client" where
  "new_client parse env C base token =
     (case parse (trim_slashes (trim_space base)) of
        None \<Rightarrow> Inl (TextError ''invalid WMS base URL'')
      | Some (scheme, host) \<Rightarrow>
          if host = '''' \<or> scheme \<noteq> ''http'' \<and> scheme \<noteq> ''https'' then Inl (TextError ''invalid WMS base URL'')
          else if blank token then Inl (TextError ''WMS bearer token is required'')
          else Inr (C\<lparr>wc_base := trim_slashes base, wc_token := token,
            wc_service := trim_space (env ''PDA_UPSTREAM_WMS_SERVICE_TOKEN''),
            wc_aliases := parse_aliases (env ''PDA_UPSTREAM_WMS_WAREHOUSE_ALIASES'')\<rparr>))"

section \<open>Requests and errors\<close>

definition apply_headers :: "wms_client \<Rightarrow> string \<Rightarrow> (string \<times> string) list" where
  "apply_headers C key =
     [(''Authorization'', ''Bearer '' @ wc_token C), (''X-Calling-Service'', ''PDA_BACKEND'')]
     @ (if wc_service C \<noteq> '''' then [(''X-Service-Token'', wc_service C)] else [])
     @ [(''Accept'', ''application/json'')]
     @ (if key \<noteq> '''' then [(''Idempotency-Key'', key)] else [])"

definition header_if :: "string \<Rightarrow> string \<Rightarrow> (string \<times> string) list" where
  "header_if k v = (if v \<noteq> '''' then [(k, v)] else [])"

definition json_content :: "(string \<times> string) list" where
  "json_content = [(''Content-Type'', ''application/json'')]"

definition ok_status :: "int \<Rightarrow> bool" where
  "ok_status s \<longleftrightarrow> 200 \<le> s \<and> s < 300"

definition is_machine_error_code :: "string \<Rightarrow> bool" where
  "is_machine_error_code value = (let v = trim_space value in v \<noteq> '''' \<and>
     list_all (\<lambda>c. let n = (of_char c :: nat) in 65 \<le> n \<and> n \<le> 90 \<or> 48 \<le> n \<and> n \<le> 57 \<or> c = CHR ''_'' \<or> c = CHR ''-'') v)"

text \<open>The decoder fills what fits, whatever it reports.\<close>

definition error_members :: "raw_message \<Rightarrow> members" where
  "error_members b = (case b of
     RawJSON j \<Rightarrow> snd (decode_object False (decode_kind \<lparr>px_uuid = \<lambda>_. None, px_time = \<lambda>_. None, px_time_text = \<lambda>_. None\<rparr>)
       [(''error'', KStr), (''code'', KStr), (''message'', KStr)] j)
   | _ \<Rightarrow> [])"

definition owner_code :: "raw_message \<Rightarrow> string" where
  "owner_code b = (let ms = error_members b; code = trim_space (str_of ms ''code'') in
     if code = '''' \<and> is_machine_error_code (str_of ms ''error'') then trim_space (str_of ms ''error'') else code)"

definition status_code :: "int \<Rightarrow> string" where
  "status_code s = (if s = 401 then ''UPSTREAM_UNAUTHORIZED'' else if s = 403 then ''WAREHOUSE_ACCESS_DENIED''
     else if s = 404 then ''UPSTREAM_NOT_FOUND'' else if s = 409 then ''UPSTREAM_CONFLICT'' else ''UPSTREAM_HTTP_ERROR'')"

definition owner_message :: "raw_message \<Rightarrow> string" where
  "owner_message b =
     (let ms = error_members b; m = trim_space (str_of ms ''message''); e = str_of ms ''error'' in
      if m \<noteq> '''' then m else if \<not> blank e \<and> \<not> is_machine_error_code e then trim_space e else ''WMS owner request failed'')"

definition owner_error :: "int \<Rightarrow> raw_message \<Rightarrow> err" where
  "owner_error s b = DomainError (if owner_code b = '''' then status_code s else owner_code b) (owner_message b)
     (500 \<le> s \<or> s = 429)"

definition owner_response_error :: "int \<Rightarrow> raw_message \<Rightarrow> err option" where
  "owner_response_error s b = (if ok_status s \<and> owner_code b = '''' then None else Some (owner_error s b))"

text \<open>One exchange: the status, the body, and the error that cut it off. \<open>build\<close> and \<open>failed\<close> are the texts of
  the errors of a request that cannot be made or is not answered.\<close>

definition exchange ::
    "wms_client \<Rightarrow> string \<Rightarrow> string \<Rightarrow> http_request \<Rightarrow> (upstream, int \<times> raw_message \<times> err option) prog" where
  "exchange C build failed q =
     (case wc_url_error C (hq_url q) of
        Some e \<Rightarrow> failP (WrapError build e)
      | None \<Rightarrow> bindP (send q) (\<lambda>r. case r of
          NoReply e \<Rightarrow> failP (WrapError failed e)
        | Reply s b \<Rightarrow> returnP (s, b, None)
        | Broken s e \<Rightarrow> returnP (s, RawInvalid, Some e)))"

definition json_error :: err where "json_error = TextError ''json: cannot unmarshal''"

text \<open>The three ways to end a call: decode the answer of a success, ignore it, or look for an error code in it first.\<close>

definition decoded :: "string \<Rightarrow> (raw_message \<Rightarrow> 'a option) \<Rightarrow> int \<times> raw_message \<times> err option \<Rightarrow> (upstream, 'a) prog" where
  "decoded label dec = (\<lambda>(s, b, lost).
     if \<not> ok_status s then failP (owner_error s b)
     else case lost of
       Some e \<Rightarrow> failP (WrapError label e)
     | None \<Rightarrow> (case dec b of None \<Rightarrow> failP (WrapError label json_error) | Some x \<Rightarrow> returnP x))"

definition acknowledged :: "int \<times> raw_message \<times> err option \<Rightarrow> (upstream, unit) prog" where
  "acknowledged = (\<lambda>(s, b, lost). if ok_status s then returnP () else failP (owner_error s b))"

definition owned :: "string \<Rightarrow> int \<times> raw_message \<times> err option \<Rightarrow> (upstream, raw_message) prog" where
  "owned label = (\<lambda>(s, b, lost). case lost of
     Some e \<Rightarrow> failP (WrapError label e)
   | None \<Rightarrow> (case owner_response_error s b of Some e \<Rightarrow> failP e | None \<Rightarrow> returnP b))"

definition get_json_bytes :: "wms_client \<Rightarrow> string \<Rightarrow> (upstream, raw_message) prog" where
  "get_json_bytes C path =
     bindP (exchange C ''build WMS read request'' ''WMS read request''
       \<lparr>hq_method = ''GET'', hq_url = wc_base C @ path, hq_headers = apply_headers C '''', hq_body = None\<rparr>) (\<lambda>(s, b, lost).
     if \<not> ok_status s then failP (owner_error s b)
     else case lost of Some e \<Rightarrow> failP (WrapError ''read WMS read response'' e) | None \<Rightarrow> returnP b)"

definition get_json :: "wms_client \<Rightarrow> string \<Rightarrow> (raw_message \<Rightarrow> 'a option) \<Rightarrow> (upstream, 'a) prog" where
  "get_json C path dec = bindP (get_json_bytes C path) (\<lambda>b. case dec b of
     None \<Rightarrow> failP (WrapError ''decode WMS read response'' json_error) | Some x \<Rightarrow> returnP x)"

definition post ::
    "wms_client \<Rightarrow> string \<Rightarrow> string \<Rightarrow> string \<Rightarrow> (string \<times> string) list \<Rightarrow> json option \<Rightarrow> (upstream, int \<times> raw_message \<times> err option) prog" where
  "post C build failed path hs body =
     exchange C build failed \<lparr>hq_method = ''POST'', hq_url = wc_base C @ path, hq_headers = hs, hq_body = body\<rparr>"

definition post_named ::
    "wms_client \<Rightarrow> string \<Rightarrow> string \<Rightarrow> (string \<times> string) list \<Rightarrow> json option \<Rightarrow> (upstream, int \<times> raw_message \<times> err option) prog" where
  "post_named C name path hs body = post C (''build WMS '' @ name) (''WMS '' @ name) path hs body"

text \<open>\<open>url.Values\<close>: parameters that are set once, written in the order of their names.\<close>

definition encode_query :: "(string \<times> string) list \<Rightarrow> string" where
  "encode_query ps = str_join ''&'' (map (\<lambda>(k, v). query_escape k @ ''='' @ query_escape v) (sort_key fst ps))"

definition with_query :: "string \<Rightarrow> (string \<times> string) list \<Rightarrow> string" where
  "with_query path ps = (if ps = [] then path else path @ ''?'' @ encode_query ps)"

definition param_if :: "string \<Rightarrow> string \<Rightarrow> (string \<times> string) list" where
  "param_if k v = (if v \<noteq> '''' then [(k, v)] else [])"

definition limit_param :: "int64 \<Rightarrow> (string \<times> string) list" where
  "limit_param n = (if i64_less 0 n then [(''limit'', int_text (sint n))] else [])"

section \<open>Decoding answers\<close>

definition struct_of :: "parsers \<Rightarrow> (string \<times> kind) list \<Rightarrow> json \<Rightarrow> members option" where
  "struct_of px fs j = (case decode_object False (decode_kind px) fs j of (ok, ms) \<Rightarrow> if ok then Some ms else None)"

definition body_of :: "(json \<Rightarrow> 'a option) \<Rightarrow> raw_message \<Rightarrow> 'a option" where
  "body_of f b = (case b of RawJSON j \<Rightarrow> f j | _ \<Rightarrow> None)"

text \<open>A slice inside a struct, a number behind a pointer, and the time that stays zero on \<open>null\<close>.\<close>

definition slice_of :: "(json \<Rightarrow> 'a option) \<Rightarrow> members \<Rightarrow> string \<Rightarrow> 'a list option" where
  "slice_of f ms k = (case values_of ms k of None \<Rightarrow> None | Some js \<Rightarrow> those (map f js))"

definition number_ptr_of :: "members \<Rightarrow> string \<Rightarrow> rat option option" where
  "number_ptr_of ms k = (case map_of ms k of
     None \<Rightarrow> Some None | Some JNull \<Rightarrow> Some None | Some (JInt n) \<Rightarrow> Some (Some (of_int n)) | Some (JNum x) \<Rightarrow> Some (Some x) | _ \<Rightarrow> None)"

definition bool_of :: "members \<Rightarrow> string \<Rightarrow> bool" where
  "bool_of ms k = (map_of ms k = Some (JBool True))"

definition time_of :: "members \<Rightarrow> string \<Rightarrow> time" where
  "time_of ms k = (case time_ptr_of ms k of Some t \<Rightarrow> t | None \<Rightarrow> time_zero)"

text \<open>\<open>int64\<close> of a \<open>float64\<close>: towards zero; what does not fit becomes the least integer, as on amd64.\<close>

definition truncate_float :: "rat \<Rightarrow> int64" where
  "truncate_float x = (let n = (if x < 0 then - \<lfloor>- x\<rfloor> else \<lfloor>x\<rfloor>) in word_of_int (if in_int64 n then n else min_int64))"

text \<open>\<open>{"data": [\<dots>]}\<close>\<close>

definition data_rows :: "parsers \<Rightarrow> (json \<Rightarrow> 'a option) \<Rightarrow> json \<Rightarrow> 'a list option" where
  "data_rows px f j = Option.bind (struct_of px [(''data'', KRaw)] j) (\<lambda>ms. slice_of f ms ''data'')"

section \<open>Warehouses and locations\<close>

record wms_warehouse =
  uw_id :: string
  uw_code :: string
  uw_name :: string

record wms_location =
  ul_id :: string
  ul_code :: string
  ul_name :: string
  ul_warehouse :: string
  ul_warehouse_code :: string

definition canonical_warehouse :: "wms_client \<Rightarrow> string \<Rightarrow> string" where
  "canonical_warehouse C value = (let v = trim_space value in
     case map_of (wc_aliases C) (to_upper v) of Some c \<Rightarrow> c | None \<Rightarrow> v)"

definition warehouse_matches :: "wms_client \<Rightarrow> wms_location \<Rightarrow> string \<Rightarrow> bool" where
  "warehouse_matches C l value \<longleftrightarrow>
     (let c = trim_space (canonical_warehouse C value) in
      equal_fold c ''*'' \<or> equal_fold (trim_space (ul_warehouse l)) c \<or> equal_fold (trim_space (ul_warehouse_code l)) c)"

definition languages :: "string list" where "languages = [''vi'', ''en'', ''ja'', ''ko'']"

text \<open>\<open>localizedName\<close>: a text in one of the languages, or the value itself when it is a text.\<close>

definition warehouse_name :: "json option \<Rightarrow> string option" where
  "warehouse_name raw =
     (let ts = (case raw of Some (JObj ms) \<Rightarrow> (case string_map ms of Some vs \<Rightarrow> map (\<lambda>k. trim_space (str_of (rev vs) k)) languages | None \<Rightarrow> [])
                | _ \<Rightarrow> []) in
      case find (\<lambda>t. t \<noteq> '''') ts of
        Some t \<Rightarrow> Some t
      | None \<Rightarrow> (case raw of Some (JStr s) \<Rightarrow> if blank s then None else Some s | _ \<Rightarrow> None))"

definition wms_warehouse_of :: "members \<Rightarrow> err + wms_warehouse" where
  "wms_warehouse_of ms =
     (if blank (str_of ms ''warehouse_id'') \<or> blank (str_of ms ''warehouse_code'')
      then Inl (TextError ''WMS warehouse response contains an incomplete warehouse'')
      else case warehouse_name (map_of ms ''warehouse_name'') of
        None \<Rightarrow> Inl (TextError ''WMS warehouse response contains no supported warehouse name'')
      | Some n \<Rightarrow> Inr \<lparr>uw_id = str_of ms ''warehouse_id'', uw_code = str_of ms ''warehouse_code'', uw_name = n\<rparr>)"

definition warehouses :: "wms_client \<Rightarrow> (upstream, wms_warehouse list) prog" where
  "warehouses C =
     bindP (exchange C ''build WMS warehouse request'' ''WMS warehouse request''
       \<lparr>hq_method = ''GET'', hq_url = wc_base C @ ''/api/wms/master-data/warehouses?limit=500'',
        hq_headers = [(''Authorization'', ''Bearer '' @ wc_token C), (''Accept'', ''application/json'')], hq_body = None\<rparr>)
       (\<lambda>(s, b, lost).
     if \<not> ok_status s then failP (TextError (''WMS warehouse request returned HTTP '' @ int_text s))
     else bindP (decoded ''decode WMS warehouse response'' (body_of (data_rows (wc_parsers C)
         (struct_of (wc_parsers C) [(''warehouse_id'', KStr), (''warehouse_code'', KStr), (''warehouse_name'', KRaw)]))) (s, b, lost)) (\<lambda>rows.
       mapP (\<lambda>ms. liftE (wms_warehouse_of ms)) rows))"

definition canonical_warehouse_id :: "wms_client \<Rightarrow> string \<Rightarrow> (upstream, string) prog" where
  "canonical_warehouse_id C value0 =
     (let value = canonical_warehouse C value0 in
      if value = ''*'' then returnP ''''
      else if px_uuid (wc_parsers C) value \<noteq> None then returnP value
      else bindP (mapped (WrapError (''resolve WMS warehouse '' @ wc_quote C value)) (warehouses C)) (\<lambda>ws.
        case find (\<lambda>w. equal_fold (uw_code w) value) ws of
          Some w \<Rightarrow> returnP (uw_id w)
        | None \<Rightarrow> failP (TextError (''WMS warehouse '' @ wc_quote C value @ '' was not found''))))"

definition location_of :: "members \<Rightarrow> wms_location" where
  "location_of ms = \<lparr>ul_id = str_of ms ''location_id'', ul_code = str_of ms ''location_code'',
     ul_name = (case warehouse_name (map_of ms ''location_name'') of Some n \<Rightarrow> n | None \<Rightarrow> ''''),
     ul_warehouse = str_of ms ''warehouse_id'', ul_warehouse_code = str_of ms ''warehouse_code''\<rparr>"

definition fetch_location :: "wms_client \<Rightarrow> string \<Rightarrow> (upstream, wms_location) prog" where
  "fetch_location C i =
     bindP (get_json C (''/api/wms/master-data/locations/'' @ path_escape i) (body_of (struct_of (wc_parsers C)
       [(''location_id'', KStr), (''location_code'', KStr), (''location_name'', KRaw), (''warehouse_id'', KStr), (''warehouse_code'', KStr)]))) (\<lambda>ms.
     let l = location_of ms in
     if ul_id l = '''' \<or> ul_warehouse l = '''' then failP (TextError ''WMS location response contains incomplete identity'')
     else returnP l)"

text \<open>\<open>ResolveBarcode\<close>, of whose answer the item and the unit are used.\<close>

definition resolve_wms_barcode ::
    "wms_client \<Rightarrow> string \<Rightarrow> string \<Rightarrow> string \<Rightarrow> string \<Rightarrow> string \<Rightarrow> string \<Rightarrow> (upstream, string \<times> string) prog" where
  "resolve_wms_barcode C raw symbology warehouse task line scan =
     bindP clock_now (\<lambda>now.
     bindP (post_named C ''barcode request'' ''/api/wms/master-data/barcode/resolve'' (apply_headers C scan @ json_content)
       (Some (go_map [(''raw_value'', JStr raw), (''symbology'', JStr symbology), (''scan_context'', JStr ''RECEIVING_ITEM''),
         (''warehouse_id'', JStr warehouse), (''task_id'', JStr task), (''line_id'', JStr line), (''scan_id'', JStr scan),
         (''scanned_at'', JTime now)]))) (\<lambda>r.
     bindP (decoded ''decode WMS barcode response'' (body_of (struct_of (wc_parsers C)
       [(''normalized_value'', KStr), (''item_revision_id'', KStr), (''uom_code'', KStr)])) r) (\<lambda>ms.
     if str_of ms ''item_revision_id'' = '''' then failP (TextError ''WMS barcode response contains incomplete item identity'')
     else returnP (str_of ms ''item_revision_id'', str_of ms ''uom_code''))))"

section \<open>Receipts\<close>

record receipt_line =
  wl_line :: string
  wl_revision :: string
  wl_item_name :: string
  wl_lot :: string
  wl_received :: rat
  wl_expected :: rat
  wl_uom :: string
  wl_version :: int64

record receipt =
  wr_id :: string
  wr_code :: string
  wr_lpn :: string
  wr_location :: string
  wr_status :: string
  wr_confirmation :: string
  wr_operator :: "string option"
  wr_assignment :: string
  wr_version :: int64
  wr_source_type :: string
  wr_source_system :: string
  wr_doc_type :: string
  wr_request :: string
  wr_output :: string
  wr_work_order :: string
  wr_work_order_code :: string
  wr_confirmation_id :: string
  wr_updated :: time
  wr_lines :: "receipt_line list"

record receipt_query =
  wq_status :: string
  wq_location :: string
  wq_operator :: string
  wq_text :: string
  wq_source :: string
  wq_limit :: int64

text \<open>\<open>ReceiptLine.UnmarshalJSON\<close>: the name is a text, or one of the texts of an object.\<close>

definition item_name_of :: "(string list \<Rightarrow> string list) \<Rightarrow> json option \<Rightarrow> string option" where
  "item_name_of order raw = (case raw of
     None \<Rightarrow> Some '''' | Some JNull \<Rightarrow> Some '''' | Some (JStr s) \<Rightarrow> Some s
   | Some (JObj ms) \<Rightarrow> map_option (\<lambda>vs.
       case find (\<lambda>t. t \<noteq> '''') (map (str_of (rev vs)) (languages @ order (remdups (map fst vs)))) of Some t \<Rightarrow> t | None \<Rightarrow> '''') (string_map ms)
   | _ \<Rightarrow> None)"

definition receipt_line_of :: "wms_client \<Rightarrow> json \<Rightarrow> receipt_line option" where
  "receipt_line_of C j = Option.bind (struct_of (wc_parsers C)
     [(''line_id'', KStr), (''item_revision_id'', KStr), (''item_name'', KRaw), (''lot_code'', KStr), (''qty'', KRaw),
      (''received_quantity'', KRaw), (''expected_quantity'', KRaw), (''uom_code'', KStr), (''row_version'', KInt)] j) (\<lambda>ms.
   case (number_of ms ''qty'', number_of ms ''received_quantity'', number_of ms ''expected_quantity'',
         item_name_of (wc_order C) (map_of ms ''item_name'')) of
     (Some _, Some got, Some expected, Some name) \<Rightarrow> Some \<lparr>wl_line = str_of ms ''line_id'', wl_revision = str_of ms ''item_revision_id'',
       wl_item_name = name, wl_lot = str_of ms ''lot_code'', wl_received = got, wl_expected = expected,
       wl_uom = str_of ms ''uom_code'', wl_version = int_of ms ''row_version''\<rparr>
   | _ \<Rightarrow> None)"

definition receipt_fields_wms :: "(string \<times> kind) list" where
  "receipt_fields_wms = map (\<lambda>k. (k, KStr)) [''receipt_id'', ''receipt_code'', ''lpn_code'', ''warehouse_location_id'', ''status'',
      ''confirmation_status'', ''assignment_status'', ''source_type'', ''source_system'', ''source_document_type'',
      ''source_request_id'', ''source_output_id'', ''source_wo_id'', ''source_wo_code'', ''source_confirmation_id'']
    @ [(''assigned_operator_id'', KStrPtr), (''assignment_version'', KInt), (''updated_at'', KTimePtr), (''lines'', KRaw)]"

text \<open>A row of the list has two members more, which no one reads but which must fit.\<close>

definition receipt_summary_fields :: "(string \<times> kind) list" where
  "receipt_summary_fields = receipt_fields_wms @ [(''line_count'', KInt), (''created_at'', KTimePtr)]"

definition wms_receipt_of :: "wms_client \<Rightarrow> (string \<times> kind) list \<Rightarrow> json \<Rightarrow> receipt option" where
  "wms_receipt_of C fs j = Option.bind (struct_of (wc_parsers C) fs j) (\<lambda>ms. map_option (\<lambda>ls.
     \<lparr>wr_id = str_of ms ''receipt_id'', wr_code = str_of ms ''receipt_code'', wr_lpn = str_of ms ''lpn_code'',
      wr_location = str_of ms ''warehouse_location_id'', wr_status = str_of ms ''status'',
      wr_confirmation = str_of ms ''confirmation_status'', wr_operator = str_ptr_of ms ''assigned_operator_id'',
      wr_assignment = str_of ms ''assignment_status'', wr_version = int_of ms ''assignment_version'',
      wr_source_type = str_of ms ''source_type'', wr_source_system = str_of ms ''source_system'',
      wr_doc_type = str_of ms ''source_document_type'', wr_request = str_of ms ''source_request_id'',
      wr_output = str_of ms ''source_output_id'', wr_work_order = str_of ms ''source_wo_id'',
      wr_work_order_code = str_of ms ''source_wo_code'', wr_confirmation_id = str_of ms ''source_confirmation_id'',
      wr_updated = time_of ms ''updated_at'', wr_lines = ls\<rparr>) (slice_of (receipt_line_of C) ms ''lines''))"

definition receipts_path :: string where "receipts_path = ''/api/wms/inbound/receipts''"

definition list_receipts :: "wms_client \<Rightarrow> receipt_query \<Rightarrow> (upstream, receipt list) prog" where
  "list_receipts C q = get_json C (with_query receipts_path
       (param_if ''status'' (wq_status q) @ param_if ''warehouse_location_id'' (wq_location q)
        @ param_if ''assigned_operator_id'' (wq_operator q) @ param_if ''q'' (wq_text q)
        @ param_if ''source_type'' (wq_source q) @ limit_param (wq_limit q)))
     (body_of (data_rows (wc_parsers C) (wms_receipt_of C receipt_summary_fields)))"

definition get_receipt :: "wms_client \<Rightarrow> string \<Rightarrow> (upstream, receipt) prog" where
  "get_receipt C i = get_json C (receipts_path @ ''/'' @ path_escape i) (body_of (wms_receipt_of C receipt_fields_wms))"

definition claim_receipt :: "wms_client \<Rightarrow> string \<Rightarrow> string \<Rightarrow> string \<Rightarrow> int \<Rightarrow> (upstream, unit) prog" where
  "claim_receipt C i operator key lease =
     bindP (post_named C ''receipt claim request'' (receipts_path @ ''/'' @ path_escape i @ ''/claim'')
       (apply_headers C key @ [(''X-User-ID'', operator), (''X-Operator-ID'', operator)] @ json_content)
       (Some (go_map [(''operator_id'', JStr operator), (''lease_seconds'', JInt lease)]))) (\<lambda>r.
     bindP (owned ''read WMS receipt claim response'' r) (\<lambda>_. returnP ()))"

record quantity_request =
  qq_actual :: rat
  qq_uom :: string
  qq_version :: int64
  qq_revision :: string
  qq_lot :: string
  qq_key :: string

text \<open>Of the answers to the receipt commands only their shape matters: no caller reads them.\<close>

definition quantity_result :: "parsers \<Rightarrow> json \<Rightarrow> unit option" where
  "quantity_result px j = Option.bind (struct_of px [(''command_id'', KStr), (''receipt_id'', KStr), (''line_id'', KStr), (''status'', KStr),
     (''actual_quantity'', KRaw), (''uom_code'', KStr), (''version'', KInt)] j) (\<lambda>ms. map_option (\<lambda>_. ()) (number_of ms ''actual_quantity''))"

definition record_receipt_quantity :: "wms_client \<Rightarrow> string \<Rightarrow> string \<Rightarrow> quantity_request \<Rightarrow> (upstream, unit) prog" where
  "record_receipt_quantity C i line q =
     bindP (post_named C ''receipt quantity request'' (receipts_path @ ''/'' @ path_escape i @ ''/lines/'' @ path_escape line @ ''/quantity'')
       (apply_headers C (qq_key q) @ json_content)
       (Some (JObj [(''actual_quantity'', JNum (qq_actual q)), (''uom_code'', JStr (qq_uom q)),
         (''expected_version'', json_int64 (qq_version q)), (''item_revision_id'', JStr (qq_revision q)), (''lot_code'', JStr (qq_lot q))])))
       (decoded ''decode WMS receipt quantity response'' (body_of (quantity_result (wc_parsers C))))"

definition confirm_receipt :: "wms_client \<Rightarrow> string \<Rightarrow> string \<Rightarrow> (upstream, unit) prog" where
  "confirm_receipt C i key =
     bindP (post_named C ''receipt confirmation request'' (receipts_path @ ''/'' @ path_escape i @ ''/confirm'') (apply_headers C key) None) (\<lambda>r.
     bindP (acknowledged r) (\<lambda>_.
     bindP (owned ''read WMS receipt confirmation response'' r) (\<lambda>b.
     case body_of (struct_of (wc_parsers C) [(''receipt_id'', KStr), (''status'', KStr), (''confirmation_status'', KStr),
         (''line_count'', KInt), (''result'', KStr)]) b of
       None \<Rightarrow> failP (WrapError ''decode WMS receipt confirmation response'' json_error)
     | Some _ \<Rightarrow> returnP ())))"

record receipt_batch_line =
  bb_line :: string
  bb_actual :: rat
  bb_uom :: string
  bb_revision :: string
  bb_lot :: string

definition batch_line_json :: "receipt_batch_line \<Rightarrow> json" where
  "batch_line_json l = JObj [(''line_id'', JStr (bb_line l)), (''actual_quantity'', JNum (bb_actual l)), (''uom_code'', JStr (bb_uom l)),
     (''item_revision_id'', JStr (bb_revision l)), (''lot_code'', JStr (bb_lot l))]"

definition receive_receipt ::
    "wms_client \<Rightarrow> string \<Rightarrow> uuid \<Rightarrow> int64 \<Rightarrow> receipt_batch_line list \<Rightarrow> string \<Rightarrow> (upstream, unit) prog" where
  "receive_receipt C i command version ls key =
     bindP (post_named C ''receipt batch request'' (receipts_path @ ''/'' @ path_escape i @ ''/receive'')
       (apply_headers C key @ json_content)
       (Some (JObj [(''command_id'', JStr (wc_uuid_text C command)), (''expected_receipt_version'', json_int64 version),
         (''lines'', JArr (map batch_line_json ls))]))) (\<lambda>r.
     bindP (decoded ''decode WMS receipt batch response'' (body_of (struct_of (wc_parsers C) [(''receipt_id'', KStr), (''status'', KStr),
       (''result'', KStr), (''command_status'', KStr), (''line_count'', KInt)])) r) (\<lambda>_. returnP ()))"

section \<open>Execution tasks\<close>

record execution_task =
  xt_id :: string
  xt_type :: string
  xt_status :: string
  xt_warehouse :: string
  xt_operator :: "string option"
  xt_version :: int64
  xt_priority :: int64
  xt_details :: members
  xt_created :: time
  xt_updated :: time

definition execution_task_of :: "parsers \<Rightarrow> json \<Rightarrow> execution_task option" where
  "execution_task_of px j = Option.bind (struct_of px
     [(''task_id'', KStr), (''task_type'', KStr), (''status'', KStr), (''warehouse_id'', KStr), (''assigned_operator_id'', KStrPtr),
      (''version'', KInt), (''priority'', KInt), (''details'', KRaw), (''created_at'', KTimePtr), (''updated_at'', KTimePtr)] j) (\<lambda>ms.
   map_option (\<lambda>d. \<lparr>xt_id = str_of ms ''task_id'', xt_type = str_of ms ''task_type'', xt_status = str_of ms ''status'',
     xt_warehouse = str_of ms ''warehouse_id'', xt_operator = str_ptr_of ms ''assigned_operator_id'', xt_version = int_of ms ''version'',
     xt_priority = int_of ms ''priority'', xt_details = d, xt_created = time_of ms ''created_at'', xt_updated = time_of ms ''updated_at''\<rparr>)
     (object_of ms ''details''))"

definition zero_execution_task :: execution_task where
  "zero_execution_task = \<lparr>xt_id = '''', xt_type = '''', xt_status = '''', xt_warehouse = '''', xt_operator = None, xt_version = 0,
     xt_priority = 0, xt_details = [], xt_created = time_zero, xt_updated = time_zero\<rparr>"

definition tasks_path :: string where "tasks_path = ''/api/wms/execution/tasks''"

definition list_execution_tasks ::
    "wms_client \<Rightarrow> string \<Rightarrow> string \<Rightarrow> string \<Rightarrow> string \<Rightarrow> string \<Rightarrow> int64 \<Rightarrow> (upstream, execution_task list) prog" where
  "list_execution_tasks C warehouse operator category status query_text limit =
     bindP (canonical_warehouse_id C warehouse) (\<lambda>w.
     get_json C (with_query tasks_path (param_if ''warehouse_id'' w @ param_if ''operator_id'' operator @ param_if ''task_type'' category
         @ param_if ''status'' status @ param_if ''q'' query_text @ limit_param limit))
       (body_of (data_rows (wc_parsers C) (execution_task_of (wc_parsers C)))))"

definition get_execution_task :: "wms_client \<Rightarrow> string \<Rightarrow> (upstream, execution_task) prog" where
  "get_execution_task C i = get_json C (tasks_path @ ''/'' @ path_escape i) (body_of (execution_task_of (wc_parsers C)))"

record task_order =
  xo_id :: string
  xo_type :: string
  xo_version :: int64
  xo_correlation :: string
  xo_cause :: string
  xo_quantity :: rat

definition task_order_json :: "task_order \<Rightarrow> json" where
  "task_order_json c = JObj (omit_empty ''command_id'' (xo_id c) @ [(''command_type'', JStr (xo_type c)),
     (''expected_version'', json_int64 (xo_version c))] @ omit_empty ''correlation_id'' (xo_correlation c)
     @ omit_empty ''causation_id'' (xo_cause c) @ (if xo_quantity c = 0 then [] else [(''confirm_qty'', JNum (xo_quantity c))]))"

definition route_command :: "string \<Rightarrow> string" where
  "route_command ty = to_lower (replace_char (CHR ''_'') (CHR ''-'') ty)"

text \<open>The answer names the task in a member; without it the task is the zero value.\<close>

definition task_answer :: "parsers \<Rightarrow> json \<Rightarrow> execution_task option" where
  "task_answer px j = Option.bind (struct_of px [(''task'', KRaw)] j) (\<lambda>ms. case map_of ms ''task'' of
     None \<Rightarrow> Some zero_execution_task | Some JNull \<Rightarrow> Some zero_execution_task | Some t \<Rightarrow> execution_task_of px t)"

definition apply_execution_task_command ::
    "wms_client \<Rightarrow> string \<Rightarrow> task_order \<Rightarrow> string \<Rightarrow> string \<Rightarrow> (upstream, execution_task) prog" where
  "apply_execution_task_command C i c operator key =
     bindP (post_named C ''task command request'' (tasks_path @ ''/'' @ path_escape i @ ''/'' @ route_command (xo_type c))
       (apply_headers C key @ [(''X-Role-Code'', ''WMS_EXECUTION_OPERATOR'')] @ header_if ''X-User-ID'' operator @ json_content)
       (Some (task_order_json c)))
       (decoded ''decode WMS task command response'' (body_of (task_answer (wc_parsers C))))"

definition allocate_execution_task ::
    "wms_client \<Rightarrow> string \<Rightarrow> uuid \<Rightarrow> string \<Rightarrow> string \<Rightarrow> string \<Rightarrow> (upstream, execution_task) prog" where
  "allocate_execution_task C i command trace operator key =
     bindP (post_named C ''task allocation request'' (tasks_path @ ''/'' @ path_escape i @ ''/allocate'')
       (apply_headers C key @ header_if ''X-User-ID'' operator @ header_if ''X-Trace-ID'' trace @ json_content)
       (Some (JObj [(''command_id'', JStr (wc_uuid_text C command))])))
       (decoded ''decode WMS task allocation response'' (body_of (execution_task_of (wc_parsers C))))"

definition record_execution_scan ::
    "wms_client \<Rightarrow> string \<Rightarrow> string \<Rightarrow> string \<Rightarrow> int64 \<Rightarrow> string \<Rightarrow> string \<Rightarrow> (upstream, unit) prog" where
  "record_execution_scan C i ty value version operator trace =
     bindP (post_named C ''task scan request'' (tasks_path @ ''/'' @ path_escape i @ ''/scans'')
       (apply_headers C '''' @ [(''X-Role-Code'', ''WMS_EXECUTION_OPERATOR'')] @ header_if ''X-User-ID'' operator
        @ header_if ''X-Trace-ID'' trace @ json_content)
       (Some (go_map [(''scan_type'', JStr ty), (''scan_value'', JStr value), (''expected_version'', json_int64 version)]))) acknowledged"

section \<open>Stock and cycle counts\<close>

record wms_balance =
  ub_lot_id :: string
  ub_lot :: string
  ub_location :: string
  ub_item :: string
  ub_on_hand :: rat
  ub_reserved :: rat
  ub_available :: rat
  ub_version :: int64

record wms_movement =
  um_id :: string
  um_type :: string
  um_item :: string
  um_from :: "string option"
  um_to :: "string option"
  um_quantity :: rat
  um_at :: string

record wms_count_line =
  un_id :: string
  un_item :: string
  un_snapshot :: "rat option"
  un_submitted :: "rat option"
  un_variance :: "rat option"
  un_status :: string

record wms_count =
  uc_id :: string
  uc_warehouse :: string
  uc_location :: string
  uc_status :: string
  uc_blind :: bool
  uc_operator :: "string option"
  uc_version :: int64
  uc_updated :: time
  uc_lines :: "wms_count_line list"

definition wms_balance_of :: "parsers \<Rightarrow> json \<Rightarrow> wms_balance option" where
  "wms_balance_of px j = Option.bind (struct_of px
     [(''lot_id'', KStr), (''lot_code'', KStr), (''location_id'', KStr), (''item_revision_id'', KStr), (''on_hand_qty'', KRaw),
      (''reserved_qty'', KRaw), (''available_qty'', KRaw), (''status'', KStr), (''row_version'', KInt)] j) (\<lambda>ms.
   case (number_of ms ''on_hand_qty'', number_of ms ''reserved_qty'', number_of ms ''available_qty'') of
     (Some h, Some r, Some a) \<Rightarrow> Some \<lparr>ub_lot_id = str_of ms ''lot_id'', ub_lot = str_of ms ''lot_code'',
       ub_location = str_of ms ''location_id'', ub_item = str_of ms ''item_revision_id'', ub_on_hand = h, ub_reserved = r,
       ub_available = a, ub_version = int_of ms ''row_version''\<rparr>
   | _ \<Rightarrow> None)"

definition wms_movement_of :: "parsers \<Rightarrow> json \<Rightarrow> wms_movement option" where
  "wms_movement_of px j = Option.bind (struct_of px
     [(''movement_id'', KStr), (''movement_type'', KStr), (''lot_id'', KStr), (''lot_code'', KStr), (''item_revision_id'', KStr),
      (''from_location_id'', KStrPtr), (''to_location_id'', KStrPtr), (''qty'', KRaw), (''occurred_at'', KStr)] j) (\<lambda>ms.
   map_option (\<lambda>n. \<lparr>um_id = str_of ms ''movement_id'', um_type = str_of ms ''movement_type'', um_item = str_of ms ''item_revision_id'',
     um_from = str_ptr_of ms ''from_location_id'', um_to = str_ptr_of ms ''to_location_id'', um_quantity = n,
     um_at = str_of ms ''occurred_at''\<rparr>) (number_of ms ''qty''))"

definition wms_count_line_of :: "parsers \<Rightarrow> json \<Rightarrow> wms_count_line option" where
  "wms_count_line_of px j = Option.bind (struct_of px
     [(''count_line_id'', KStr), (''item_revision_id'', KStr), (''snapshot_quantity'', KRaw), (''submitted_quantity'', KRaw),
      (''variance_quantity'', KRaw), (''status'', KStr), (''version'', KInt)] j) (\<lambda>ms.
   case (number_ptr_of ms ''snapshot_quantity'', number_ptr_of ms ''submitted_quantity'', number_ptr_of ms ''variance_quantity'') of
     (Some a, Some b, Some v) \<Rightarrow> Some \<lparr>un_id = str_of ms ''count_line_id'', un_item = str_of ms ''item_revision_id'',
       un_snapshot = a, un_submitted = b, un_variance = v, un_status = str_of ms ''status''\<rparr>
   | _ \<Rightarrow> None)"

definition wms_count_of :: "parsers \<Rightarrow> json \<Rightarrow> wms_count option" where
  "wms_count_of px j = Option.bind (struct_of px
     [(''count_task_id'', KStr), (''warehouse_id'', KStr), (''location_id'', KStr), (''status'', KStr), (''blind_count'', KBool),
      (''assigned_operator_id'', KStrPtr), (''version'', KInt), (''updated_at'', KTimePtr), (''lines'', KRaw)] j) (\<lambda>ms.
   map_option (\<lambda>ls. \<lparr>uc_id = str_of ms ''count_task_id'', uc_warehouse = str_of ms ''warehouse_id'', uc_location = str_of ms ''location_id'',
     uc_status = str_of ms ''status'', uc_blind = bool_of ms ''blind_count'', uc_operator = str_ptr_of ms ''assigned_operator_id'',
     uc_version = int_of ms ''version'', uc_updated = time_of ms ''updated_at'', uc_lines = ls\<rparr>) (slice_of (wms_count_line_of px) ms ''lines''))"

text \<open>A slice at the top of a body; \<open>null\<close> is the empty one.\<close>

definition array_of :: "(json \<Rightarrow> 'a option) \<Rightarrow> json \<Rightarrow> 'a list option" where
  "array_of f j = (case j of JArr js \<Rightarrow> those (map f js) | JNull \<Rightarrow> Some [] | _ \<Rightarrow> None)"

definition counts_path :: string where "counts_path = ''/api/wms/inventory/cycle-counts''"

definition list_cycle_counts :: "wms_client \<Rightarrow> string \<Rightarrow> string \<Rightarrow> string \<Rightarrow> (upstream, wms_count list) prog" where
  "list_cycle_counts C warehouse operator status =
     bindP (canonical_warehouse_id C warehouse) (\<lambda>w.
     get_json C (counts_path @ ''?'' @ encode_query ([(''warehouse_id'', w)] @ param_if ''operator_id'' operator @ param_if ''status'' status))
       (body_of (array_of (wms_count_of (wc_parsers C)))))"

definition get_cycle_count :: "wms_client \<Rightarrow> string \<Rightarrow> string \<Rightarrow> (upstream, wms_count) prog" where
  "get_cycle_count C i warehouse =
     get_json C (counts_path @ ''/'' @ path_escape i @ ''?warehouse_id='' @ query_escape warehouse) (body_of (wms_count_of (wc_parsers C)))"

definition submit_cycle_count ::
    "wms_client \<Rightarrow> string \<Rightarrow> string \<Rightarrow> int64 \<Rightarrow> int64 \<Rightarrow> string \<Rightarrow> string \<Rightarrow> string \<Rightarrow> (upstream, unit) prog" where
  "submit_cycle_count C i line quantity version key device operator =
     bindP (post_named C ''cycle count request'' (counts_path @ ''/'' @ path_escape i @ ''/lines/'' @ path_escape line @ ''/submit'')
       (apply_headers C key @ header_if ''X-User-ID'' operator @ json_content)
       (Some (go_map [(''quantity'', json_int64 quantity), (''base_version'', json_int64 version), (''idempotency_key'', JStr key),
         (''device_id'', JStr device)]))) acknowledged"

definition cycle_count_command :: "wms_client \<Rightarrow> string \<Rightarrow> uuid \<Rightarrow> int64 \<Rightarrow> string \<Rightarrow> (upstream, unit) prog" where
  "cycle_count_command C path command version key =
     bindP (post_named C ''cycle count command'' path (apply_headers C key @ json_content)
       (Some (go_map [(''command_id'', JStr (wc_uuid_text C command)), (''expected_version'', json_int64 version),
         (''idempotency_key'', JStr key)]))) acknowledged"

definition recount_cycle_count :: "wms_client \<Rightarrow> string \<Rightarrow> string \<Rightarrow> uuid \<Rightarrow> int64 \<Rightarrow> string \<Rightarrow> (upstream, unit) prog" where
  "recount_cycle_count C i line = cycle_count_command C (counts_path @ ''/'' @ path_escape i @ ''/lines/'' @ path_escape line @ ''/recount'')"

definition complete_cycle_count :: "wms_client \<Rightarrow> string \<Rightarrow> uuid \<Rightarrow> int64 \<Rightarrow> string \<Rightarrow> (upstream, unit) prog" where
  "complete_cycle_count C i = cycle_count_command C (counts_path @ ''/'' @ path_escape i @ ''/complete'')"

record wms_transfer =
  ut_command :: string
  ut_movement :: string
  ut_from :: string
  ut_to :: string
  ut_quantity :: rat
  ut_result :: string

definition wms_transfer_of :: "parsers \<Rightarrow> json \<Rightarrow> wms_transfer option" where
  "wms_transfer_of px j = Option.bind (struct_of px
     [(''command_id'', KStr), (''movement_id'', KStr), (''lot_id'', KStr), (''from_location_id'', KStr), (''to_location_id'', KStr),
      (''qty'', KRaw), (''replayed'', KBool), (''result'', KStr)] j) (\<lambda>ms.
   map_option (\<lambda>n. \<lparr>ut_command = str_of ms ''command_id'', ut_movement = str_of ms ''movement_id'', ut_from = str_of ms ''from_location_id'',
     ut_to = str_of ms ''to_location_id'', ut_quantity = n, ut_result = str_of ms ''result''\<rparr>) (number_of ms ''qty''))"

text \<open>\<open>{"data": {\<dots>}}\<close>; an absent object decodes as \<open>null\<close> does.\<close>

definition data_object :: "parsers \<Rightarrow> (json \<Rightarrow> 'a option) \<Rightarrow> json \<Rightarrow> 'a option" where
  "data_object px f j = Option.bind (struct_of px [(''data'', KRaw)] j) (\<lambda>ms.
     f (case map_of ms ''data'' of None \<Rightarrow> JNull | Some d \<Rightarrow> d))"

definition transfer_inventory ::
    "wms_client \<Rightarrow> uuid \<Rightarrow> string \<Rightarrow> string \<Rightarrow> string \<Rightarrow> int64 \<Rightarrow> string \<Rightarrow> string \<Rightarrow> (upstream, wms_transfer) prog" where
  "transfer_inventory C command lot from dest quantity operator trace =
     bindP (post_named C ''inventory transfer request'' ''/api/wms/inventory/movements/internal-transfer''
       (apply_headers C (wc_uuid_text C command) @ [(''X-Role-Code'', ''SYSTEM'')] @ header_if ''X-User-ID'' operator
        @ header_if ''X-Trace-ID'' trace @ json_content)
       (Some (go_map [(''command_id'', JStr (wc_uuid_text C command)), (''lot_id'', JStr lot), (''from_location_id'', JStr from),
         (''to_location_id'', JStr dest), (''qty'', json_int64 quantity)])))
       (decoded ''decode WMS inventory transfer response'' (body_of (data_object (wc_parsers C) (wms_transfer_of (wc_parsers C)))))"

text \<open>The balances come bare or in an envelope.\<close>

definition balances_of :: "parsers \<Rightarrow> json \<Rightarrow> wms_balance list option" where
  "balances_of px j = (case j of JArr js \<Rightarrow> those (map (wms_balance_of px) js) | _ \<Rightarrow> data_rows px (wms_balance_of px) j)"

definition list_inventory_balances :: "wms_client \<Rightarrow> string \<Rightarrow> string \<Rightarrow> (upstream, wms_balance list) prog" where
  "list_inventory_balances C item loc =
     bindP (get_json_bytes C (with_query ''/api/wms/inventory/balances'' (param_if ''item_revision_id'' item @ param_if ''location_id'' loc))) (\<lambda>b.
     case body_of (balances_of (wc_parsers C)) b of
       None \<Rightarrow> failP (WrapError ''decode WMS inventory balances response'' json_error) | Some xs \<Rightarrow> returnP xs)"

definition list_inventory_movements :: "wms_client \<Rightarrow> string \<Rightarrow> string \<Rightarrow> string \<Rightarrow> (upstream, wms_movement list) prog" where
  "list_inventory_movements C item loc cursor =
     get_json C (with_query ''/api/wms/inventory/movements'' (param_if ''item_revision_id'' item @ param_if ''location_id'' loc))
       (body_of (data_rows (wc_parsers C) (wms_movement_of (wc_parsers C))))"

section \<open>Shipments and traces\<close>

text \<open>\<open>map[string]any\<close>: of members with one name the last one counts.\<close>

definition any_object :: "json \<Rightarrow> members option" where
  "any_object j = (case j of JObj ms \<Rightarrow> Some ms | JNull \<Rightarrow> Some [] | _ \<Rightarrow> None)"

definition member :: "members \<Rightarrow> string \<Rightarrow> json option" where
  "member ms k = map_of (rev ms) k"

definition shipping_path :: string where "shipping_path = ''/api/wms/shipping''"

definition get_shipping_shipment :: "wms_client \<Rightarrow> string \<Rightarrow> (upstream, members) prog" where
  "get_shipping_shipment C i = get_json C (shipping_path @ ''/shipments/'' @ path_escape i) (body_of any_object)"

definition verify_shipping_package ::
    "wms_client \<Rightarrow> string \<Rightarrow> string \<Rightarrow> uuid \<Rightarrow> int64 \<Rightarrow> string \<Rightarrow> (upstream, unit) prog" where
  "verify_shipping_package C i barcode command version key =
     bindP (post_named C ''package verification request'' (shipping_path @ ''/packages/'' @ path_escape i @ ''/verify'')
       (apply_headers C key @ json_content)
       (Some (go_map [(''barcode'', JStr barcode), (''command_id'', JStr (wc_uuid_text C command)),
         (''expected_version'', json_int64 version)]))) (\<lambda>r.
     bindP (owned ''read WMS package verification response'' r) (\<lambda>_. returnP ()))"

definition confirm_shipping :: "wms_client \<Rightarrow> string \<Rightarrow> uuid \<Rightarrow> int64 \<Rightarrow> string \<Rightarrow> (upstream, unit) prog" where
  "confirm_shipping C i command version key =
     bindP (post_named C ''shipment confirmation request'' (shipping_path @ ''/shipments/'' @ path_escape i @ ''/confirm'')
       (apply_headers C key @ json_content)
       (Some (go_map [(''command_id'', JStr (wc_uuid_text C command)), (''expected_version'', json_int64 version)]))) (\<lambda>r.
     bindP (owned ''read WMS shipment confirmation response'' r) (\<lambda>b.
     if b = RawEmpty then returnP ()
     else case body_of any_object b of
       None \<Rightarrow> failP (WrapError ''decode WMS shipment confirmation response'' json_error) | Some _ \<Rightarrow> returnP ()))"

text \<open>\<open>finished_product_trace.go\<close>. Without an object in \<open>data\<close> there is no error to wrap: the text says so.\<close>

definition trace_product :: "wms_client \<Rightarrow> string \<Rightarrow> actor \<Rightarrow> (upstream, json) prog" where
  "trace_product C barcode a =
     (if barcode = '''' \<or> 160 < length barcode then failP (invalid_request ''Finished product barcode is invalid'')
      else bindP (get_json_bytes C (''/api/wms/inbound/finished-products/'' @ path_escape barcode @ ''/trace'')) (\<lambda>b.
        case body_of (struct_of (wc_parsers C) [(''data'', KRaw)]) b of
          None \<Rightarrow> failP (WrapError ''decode WMS finished product trace response'' json_error)
        | Some ms \<Rightarrow> (case map_of ms ''data'' of
            Some (JObj ds) \<Rightarrow> returnP (JObj ds)
          | None \<Rightarrow> failP (TextError ''decode WMS finished product trace response: %!w(<nil>)'')
          | Some JNull \<Rightarrow> failP (TextError ''decode WMS finished product trace response: %!w(<nil>)'')
          | _ \<Rightarrow> failP (WrapError ''decode WMS finished product trace response'' json_error))))"

end
