(* ===== verification/Remote_Movement.thy ===== *)
theory Remote_Movement
  imports Wms_Client
begin

text \<open>
  Putaway, picking and replenishment in the WMS, \<open>internal/integration/adapters/wmshttp/movement.go\<close>: the
  execution tasks of the WMS shown as movement tasks. A remote task carries its related tasks, which
  the local services never have. The request contexts are left out; they only end a call early.
\<close>

section \<open>Reading the details of a task\<close>

text \<open>\<open>stringValue\<close>, \<open>number\<close> and \<open>stringValues\<close>: of the first name with a member of that type.\<close>

fun string_value :: "members \<Rightarrow> string list \<Rightarrow> string" where
  "string_value ms [] = ''''"
| "string_value ms (k # ks) = (case member ms k of Some (JStr s) \<Rightarrow> s | _ \<Rightarrow> string_value ms ks)"

fun number_value :: "members \<Rightarrow> string list \<Rightarrow> rat" where
  "number_value ms [] = 0"
| "number_value ms (k # ks) = (case member ms k of
     Some (JInt n) \<Rightarrow> of_int n | Some (JNum x) \<Rightarrow> x | _ \<Rightarrow> number_value ms ks)"

definition string_values :: "json option \<Rightarrow> string list" where
  "string_values v = (case v of
     Some (JArr js) \<Rightarrow> List.map_filter (\<lambda>j. case j of JStr s \<Rightarrow> if blank s then None else Some s | _ \<Rightarrow> None) js
   | _ \<Rightarrow> [])"

definition objects :: "json option \<Rightarrow> members list" where
  "objects v = (case v of
     Some (JArr js) \<Rightarrow> List.map_filter (\<lambda>j. case j of JObj ms \<Rightarrow> Some ms | _ \<Rightarrow> None) js
   | _ \<Rightarrow> [])"

text \<open>A copy of one map into which the members of another are written: the later ones count.\<close>

definition flatten_task :: "members \<Rightarrow> members" where
  "flatten_task ms = (case member ms ''details'' of Some (JObj inner) \<Rightarrow> ms @ inner | _ \<Rightarrow> ms)"

definition movement_line_details :: "members \<Rightarrow> members list" where
  "movement_line_details d = (let own = objects (member d ''lines'') in
     if own \<noteq> [] then own else map flatten_task (objects (member d ''related_tasks'')))"

definition active_line_details :: "members \<Rightarrow> members" where
  "active_line_details d = (let active = string_value d [''active_line_id''] in
     if active = '''' then d
     else case find (\<lambda>l. string_value l [''line_id''] = active) (objects (member d ''lines'')) of
       Some l \<Rightarrow> d @ l | None \<Rightarrow> d)"

section \<open>The depth of a document\<close>

fun json_depth :: "json \<Rightarrow> nat" and array_depth :: "json list \<Rightarrow> nat" and object_depth :: "members \<Rightarrow> nat" where
  "json_depth (JArr js) = Suc (array_depth js)"
| "json_depth (JObj ms) = Suc (object_depth ms)"
| "json_depth _ = 0"
| "array_depth [] = 0"
| "array_depth (j # js) = max (json_depth j) (array_depth js)"
| "object_depth [] = 0"
| "object_depth ((k, v) # ms) = max (json_depth v) (object_depth ms)"

lemma element_depth: "j \<in> set js \<Longrightarrow> json_depth j \<le> array_depth js"
  by (induction js) auto

lemma entry_depth: "(k, v) \<in> set ms \<Longrightarrow> json_depth v \<le> object_depth ms"
  by (induction ms) auto

lemma object_depth_append [simp]: "object_depth (xs @ ys) = max (object_depth xs) (object_depth ys)"
  by (induction xs) auto

lemma member_in: "member ms k = Some v \<Longrightarrow> (k, v) \<in> set ms"
  unfolding member_def by (drule map_of_SomeD) simp

lemma member_depth: "member ms k = Some v \<Longrightarrow> json_depth v \<le> object_depth ms"
  by (rule entry_depth [OF member_in])

lemma objects_depth:
  assumes "ms \<in> set (objects (member d k))"
  shows "object_depth ms < object_depth d"
proof -
  from assms obtain js where js: "member d k = Some (JArr js)" "JObj ms \<in> set js"
    by (cases "member d k") (auto simp: objects_def List.map_filter_def split: json.splits)
  have "object_depth ms < Suc (array_depth js)"
    using element_depth [OF js(2)] by simp
  also have "Suc (array_depth js) \<le> object_depth d"
    using member_depth [OF js(1)] by simp
  finally show ?thesis .
qed

lemma flatten_depth [simp]: "object_depth (flatten_task ms) = object_depth ms"
  using member_depth [of ms "''details''"] by (auto simp: flatten_task_def split: option.splits json.splits)

lemma line_details_depth: "line \<in> set (movement_line_details d) \<Longrightarrow> object_depth line < object_depth d"
  by (auto simp: movement_line_details_def Let_def split: if_splits dest: objects_depth)

section \<open>Tasks\<close>

datatype remote_task = Remote (remote_head: movement) (remote_related: "remote_task list")

definition remote_status :: "members \<Rightarrow> string \<Rightarrow> string" where
  "remote_status d status =
     (let line = string_value d [''status'']; s = (if string_value d [''line_id''] \<noteq> '''' \<and> line \<noteq> '''' then line else status) in
      if s = ''CREATED'' then MvNew else if s = ''CLAIMED'' then MvAssigned
      else if s = ''PENDING'' \<or> s = ''READY'' then MvNew else s)"

definition remote_requirements :: "string \<Rightarrow> members \<Rightarrow> string list" where
  "remote_requirements workflow d =
     (if equal_fold (string_value d [''source_type'']) ''INBOUND_RECEIPT'' then
        (if member d ''lines'' \<noteq> None then [''LPN'', ''LOT'', ''DESTINATION''] else [''LPN'', ''DESTINATION''])
      else if equal_fold workflow ''PICKING'' then [''SOURCE'', ''DESTINATION'']
      else if string_value d [''lot_code'', ''lot_id''] \<noteq> '''' then [''SOURCE'', ''ITEM'', ''LOT'', ''DESTINATION'']
      else [''SOURCE'', ''DESTINATION''])"

text \<open>The entries of \<open>scan_state\<close>; two names that differ in case only meet in the order of the map.\<close>

definition scan_entries :: "wms_client \<Rightarrow> json option \<Rightarrow> (string \<times> bool) list" where
  "scan_entries C v = (case v of
     Some (JObj ms) \<Rightarrow> List.map_filter (\<lambda>k. case member ms k of Some (JBool b) \<Rightarrow> Some (to_upper k, b) | _ \<Rightarrow> None)
       (wc_order C (remdups (map fst ms)))
   | _ \<Rightarrow> [])"

definition group_scans :: "wms_client \<Rightarrow> members \<Rightarrow> (string \<times> bool) list" where
  "group_scans C line = filter snd (scan_entries C (member line ''scan_state''))
     @ (if member line ''lpn_validated'' = Some (JBool True) then [(''LPN'', True)] else [])"

definition grouped :: "string \<Rightarrow> members \<Rightarrow> bool" where
  "grouped workflow details \<longleftrightarrow> movement_line_details details \<noteq> [] \<and> equal_fold workflow ''PUTAWAY''"

definition remote_scans :: "wms_client \<Rightarrow> string \<Rightarrow> members \<Rightarrow> (string \<times> bool) list" where
  "remote_scans C workflow details = scan_entries C (member (active_line_details details) ''scan_state'')
     @ (if grouped workflow details then concat (map (group_scans C) (movement_line_details details)) else [])"

definition scanned :: "(string \<times> bool) list \<Rightarrow> string \<Rightarrow> bool" where
  "scanned xs k \<longleftrightarrow> map_of (rev xs) k = Some True"

definition first_non_blank :: "string \<Rightarrow> string \<Rightarrow> string" where
  "first_non_blank a b = (if \<not> blank a then a else if \<not> blank b then b else '''')"

definition remote_movement :: "wms_client \<Rightarrow> string \<Rightarrow> execution_task \<Rightarrow> movement" where
  "remote_movement C workflow row =
     (let d = active_line_details (xt_details row); group = grouped workflow (xt_details row);
          line = string_value d [''line_id'']; text = string_value d; scans = remote_scans C workflow (xt_details row) in
      \<lparr>mv_id = (if group then xt_id row else first_non_blank line (xt_id row)),
       mv_parent = (if \<not> group \<and> line \<noteq> '''' then xt_id row else ''''), mv_line = line,
       mv_workflow = workflow, mv_status = remote_status d (xt_status row), mv_warehouse = xt_warehouse row,
       mv_operator = xt_operator row, mv_version = xt_version row,
       mv_source = text [''source_location_id'', ''source_location''], mv_source_id = text [''source_location_id''],
       mv_source_code = text [''source_location_code''], mv_source_name = '''',
       mv_source_bin = text [''source_bin_code'', ''source_bin_id''], mv_source_bin_id = text [''source_bin_id''],
       mv_source_bin_code = text [''source_bin_code''],
       mv_dest = text [''destination_location_id'', ''destination_location''], mv_dest_id = text [''destination_location_id''],
       mv_dest_code = text [''destination_location_code''], mv_dest_name = '''',
       mv_dest_short_code = text [''destination_location_code'', ''destination_location_code''],
       mv_dest_bin_id = text [''destination_bin_id''], mv_dest_bin_code = text [''destination_bin_code''],
       mv_item = text [''item_revision_id'', ''item_id''], mv_item_code = text [''item_code'', ''barcode''],
       mv_item_name = text [''item_name''], mv_fulfillment = text [''sales_fulfillment_id'', ''fulfillment_id''],
       mv_sales_order = text [''sales_order_id''], mv_sales_order_code = text [''sales_order_code''],
       mv_material_request = text [''material_request_id''], mv_work_order = text [''work_order_id''],
       mv_work_order_code = text [''work_order_code''], mv_receipt = text [''source_receipt_id''],
       mv_receipt_code = text [''source_receipt_code'', ''receipt_code''], mv_lot_id = text [''lot_id''],
       mv_lpn = text [''lpn_code''], mv_uom = text [''uom_code''], mv_barcode = text [''barcode'', ''item_code''],
       mv_lot = text [''lot_code'', ''lot_id''],
       mv_required = truncate_float (number_value d [''qty'', ''quantity'', ''required_quantity'']),
       mv_done = truncate_float (number_value d [''completed_qty'', ''consumed_qty'', ''picked_qty'']),
       mv_source_ok = scanned scans ''SOURCE'', mv_lpn_ok = scanned scans ''LPN'', mv_dest_ok = scanned scans ''DESTINATION'',
       mv_item_ok = scanned scans ''ITEM'', mv_lot_ok = scanned scans ''LOT'',
       mv_scan_requirements = remote_requirements workflow d,
       mv_active_lines = string_values (member (xt_details row) ''active_line_ids''), mv_updated = xt_updated row\<rparr>)"

text \<open>\<open>mapMovementTask\<close>: every line of the details is a task of its own, with the head of the row.\<close>

function map_movement_task :: "wms_client \<Rightarrow> string \<Rightarrow> execution_task \<Rightarrow> remote_task" where
  "map_movement_task C workflow row = Remote (remote_movement C workflow row)
     (map (\<lambda>line. map_movement_task C workflow (row\<lparr>xt_details := line\<rparr>)) (movement_line_details (xt_details row)))"
  by pat_completeness auto
termination
  by (relation "measure (\<lambda>(C, workflow, row). object_depth (xt_details row))") (auto intro: line_details_depth)

declare map_movement_task.simps [simp del, code del]

text \<open>The same equation for evaluation, which goes through the lines one by one.\<close>

definition map_lines :: "wms_client \<Rightarrow> string \<Rightarrow> execution_task \<Rightarrow> members list \<Rightarrow> remote_task list" where
  "map_lines C workflow row ls = map (\<lambda>line. map_movement_task C workflow (row\<lparr>xt_details := line\<rparr>)) ls"

lemma map_lines_code [code]:
  "map_lines C workflow row [] = []"
  "map_lines C workflow row (line # ls) = map_movement_task C workflow (row\<lparr>xt_details := line\<rparr>) # map_lines C workflow row ls"
  by (simp_all add: map_lines_def)

lemma map_movement_task_code [code]:
  "map_movement_task C workflow row =
     Remote (remote_movement C workflow row) (map_lines C workflow row (movement_line_details (xt_details row)))"
  unfolding map_lines_def by (rule map_movement_task.simps)

section \<open>Names of places and receipts\<close>

definition with_source :: "wms_client \<Rightarrow> movement \<Rightarrow> (upstream, movement) prog" where
  "with_source C t =
     (if mv_source_id t = '''' then returnP t
      else bindP (mapped (WrapError (''resolve source location '' @ mv_source_id t)) (fetch_location C (mv_source_id t))) (\<lambda>l.
        returnP (t\<lparr>mv_source_code := first_non_blank (mv_source_code t) (ul_code l), mv_source_name := ul_name l\<rparr>)))"

definition with_destination :: "wms_client \<Rightarrow> movement \<Rightarrow> (upstream, movement) prog" where
  "with_destination C t =
     (if mv_dest_id t = '''' then returnP t
      else bindP (mapped (WrapError (''resolve destination location '' @ mv_dest_id t)) (fetch_location C (mv_dest_id t))) (\<lambda>l.
        returnP (t\<lparr>mv_dest_code := first_non_blank (mv_dest_code t) (ul_code l), mv_dest_name := ul_name l\<rparr>)))"

fun enrich_locations :: "wms_client \<Rightarrow> remote_task \<Rightarrow> (upstream, remote_task) prog"
  and enrich_all_locations :: "wms_client \<Rightarrow> remote_task list \<Rightarrow> (upstream, remote_task list) prog" where
  "enrich_locations C (Remote t rs) =
     bindP (with_source C t) (\<lambda>t1.
     bindP (with_destination C t1) (\<lambda>t2.
     bindP (enrich_all_locations C rs) (\<lambda>rs1. returnP (Remote t2 rs1))))"
| "enrich_all_locations C [] = returnP []"
| "enrich_all_locations C (r # rs) =
     bindP (enrich_locations C r) (\<lambda>r1. bindP (enrich_all_locations C rs) (\<lambda>rs1. returnP (r1 # rs1)))"

text \<open>A receipt that cannot be read leaves the code empty.\<close>

definition with_receipt_code :: "wms_client \<Rightarrow> movement \<Rightarrow> (upstream, movement) prog" where
  "with_receipt_code C t =
     (if mv_receipt t \<noteq> '''' \<and> mv_receipt_code t = '''' then
        bindP (tryP (get_receipt C (mv_receipt t))) (\<lambda>r. returnP (case r of
          Inl e \<Rightarrow> t | Inr rc \<Rightarrow> t\<lparr>mv_receipt_code := wr_code rc\<rparr>))
      else returnP t)"

fun enrich_receipts :: "wms_client \<Rightarrow> remote_task \<Rightarrow> (upstream, remote_task) prog"
  and enrich_all_receipts :: "wms_client \<Rightarrow> remote_task list \<Rightarrow> (upstream, remote_task list) prog" where
  "enrich_receipts C (Remote t rs) =
     bindP (with_receipt_code C t) (\<lambda>t1.
     bindP (enrich_all_receipts C rs) (\<lambda>rs1. returnP (Remote t1 rs1)))"
| "enrich_all_receipts C [] = returnP []"
| "enrich_all_receipts C (r # rs) =
     bindP (enrich_receipts C r) (\<lambda>r1. bindP (enrich_all_receipts C rs) (\<lambda>rs1. returnP (r1 # rs1)))"

definition enriched_task :: "wms_client \<Rightarrow> string \<Rightarrow> execution_task \<Rightarrow> (upstream, remote_task) prog" where
  "enriched_task C workflow row =
     bindP (enrich_receipts C (map_movement_task C workflow row)) (\<lambda>t. enrich_locations C t)"

section \<open>The operations all workflows share\<close>

definition open_statuses :: "string list" where
  "open_statuses = [''CREATED'', ''CLAIMED'', ''IN_PROGRESS'', ''PARTIALLY_COMPLETED'']"

definition listed_movement :: "string \<Rightarrow> actor \<Rightarrow> execution_task \<Rightarrow> bool" where
  "listed_movement workflow a row \<longleftrightarrow>
     \<not> (workflow = ''PICKING'' \<and> xt_operator row = None)
     \<and> (xt_operator row = None \<or> xt_operator row = Some (ac_operator a))
     \<and> xt_status row \<in> set open_statuses"

definition rm_list :: "wms_client \<Rightarrow> string \<Rightarrow> actor \<Rightarrow> (upstream, remote_task list) prog" where
  "rm_list C workflow a =
     bindP (list_execution_tasks C (ac_warehouse a) '''' workflow '''' '''' 100) (\<lambda>rows.
     mapP (\<lambda>row. enrich_locations C (map_movement_task C workflow row)) (filter (listed_movement workflow a) rows))"

definition remote_denied :: "string \<Rightarrow> err" where
  [err_defs]: "remote_denied m = DomainError ''WAREHOUSE_ACCESS_DENIED'' m False"

definition foreign_task :: "string \<Rightarrow> actor \<Rightarrow> execution_task \<Rightarrow> bool" where
  "foreign_task warehouse a row \<longleftrightarrow>
     warehouse \<noteq> '''' \<and> xt_warehouse row \<noteq> warehouse \<or> xt_operator row \<noteq> None \<and> xt_operator row \<noteq> Some (ac_operator a)"

text \<open>The tasks of the operator for the same receipt, for a putaway task that has no lines of its own.\<close>

definition receipt_siblings :: "wms_client \<Rightarrow> string \<Rightarrow> execution_task \<Rightarrow> actor \<Rightarrow> (upstream, remote_task list) prog" where
  "receipt_siblings C workflow row a =
     (let receipt = string_value (xt_details row) [''source_receipt_id''] in
      if workflow = ''PUTAWAY'' \<and> receipt \<noteq> '''' \<and> movement_line_details (xt_details row) = [] then
        bindP (list_execution_tasks C (xt_warehouse row) (ac_operator a) workflow '''' receipt 100) (\<lambda>rows.
        returnP (map (map_movement_task C workflow) (filter (\<lambda>r. xt_operator r = Some (ac_operator a)) rows)))
      else returnP [])"

text \<open>The detail of a row that was read, for the actor.\<close>

definition detail_of_row :: "wms_client \<Rightarrow> string \<Rightarrow> actor \<Rightarrow> execution_task \<Rightarrow> (upstream, remote_task) prog" where
  "detail_of_row C workflow a row =
     bindP (canonical_warehouse_id C (ac_warehouse a)) (\<lambda>w.
     bindP (checkP (foreign_task w a row) (remote_denied ''Movement task access denied'')) (\<lambda>_.
     bindP (checkP (workflow = ''PICKING'' \<and> xt_operator row = None) ErrMvNotAssigned) (\<lambda>_.
     bindP (enrich_receipts C (map_movement_task C workflow row)) (\<lambda>t.
     bindP (receipt_siblings C workflow row a) (\<lambda>more.
     enrich_locations C (Remote (remote_head t) (remote_related t @ more)))))))"

definition rm_detail :: "wms_client \<Rightarrow> string \<Rightarrow> string \<Rightarrow> actor \<Rightarrow> (upstream, remote_task) prog" where
  "rm_detail C workflow i a = bindP (get_execution_task C i) (detail_of_row C workflow a)"

definition rm_scan :: "wms_client \<Rightarrow> string \<Rightarrow> string \<Rightarrow> mv_command \<Rightarrow> string \<Rightarrow> (upstream, remote_task) prog" where
  "rm_scan C workflow ty c v =
     bindP (record_execution_scan C (mc_task c) ty v (mc_base_version c) (ac_operator (mc_actor c)) (ac_correlation (mc_actor c))) (\<lambda>_.
     rm_detail C workflow (mc_task c) (mc_actor c))"

text \<open>An order to the WMS, under an idempotency key of the command.\<close>

definition rm_order ::
    "wms_client \<Rightarrow> string \<Rightarrow> mv_command \<Rightarrow> task_order \<Rightarrow> string \<Rightarrow> (upstream, remote_task) prog" where
  "rm_order C workflow c order key =
     bindP (apply_execution_task_command C (mc_task c) order (ac_operator (mc_actor c)) key) (enriched_task C workflow)"

definition command_order :: "wms_client \<Rightarrow> mv_command \<Rightarrow> string \<Rightarrow> string \<Rightarrow> rat \<Rightarrow> task_order" where
  "command_order C c ty cause n = \<lparr>xo_id = wc_uuid_text C (mc_id c), xo_type = ty, xo_version = mc_base_version c,
     xo_correlation = ac_correlation (mc_actor c), xo_cause = cause, xo_quantity = n\<rparr>"

definition rm_claim :: "wms_client \<Rightarrow> string \<Rightarrow> mv_command \<Rightarrow> (upstream, remote_task) prog" where
  "rm_claim C workflow c = rm_order C workflow c (command_order C c ''CLAIM'' '''' 0) (mc_key c)"

definition rm_confirm :: "wms_client \<Rightarrow> string \<Rightarrow> mv_command \<Rightarrow> int64 \<Rightarrow> (upstream, remote_task) prog" where
  "rm_confirm C workflow c n =
     rm_order C workflow c (command_order C c ''CONFIRM'' (wc_uuid_text C (mc_id c)) (of_int (sint n))) (mc_key c)"

text \<open>The order that starts a claimed task has an id of its own and the version the claim left.\<close>

definition send_start :: "wms_client \<Rightarrow> string \<Rightarrow> mv_command \<Rightarrow> remote_task \<Rightarrow> (upstream, remote_task) prog" where
  "send_start C workflow c claimed =
     (if mv_status (remote_head claimed) = MvInProgress then returnP claimed
      else bindP new_uuid (\<lambda>u.
        rm_order C workflow c \<lparr>xo_id = wc_uuid_text C u, xo_type = ''START'', xo_version = mv_version (remote_head claimed),
          xo_correlation = ac_correlation (mc_actor c), xo_cause = '''', xo_quantity = 0\<rparr> (mc_key c @ '':start'')))"

definition not_startable :: "string \<Rightarrow> err" where
  [err_defs]: "not_startable m = DomainError ''TASK_NOT_STARTABLE'' m False"

definition not_mapped :: "string \<Rightarrow> err" where
  [err_defs]: "not_mapped m = DomainError ''UPSTREAM_OPERATION_NOT_IMPLEMENTED'' m False"

section \<open>Putaway\<close>

definition putaway_start_remote :: "wms_client \<Rightarrow> mv_command \<Rightarrow> (upstream, remote_task) prog" where
  "putaway_start_remote C c =
     bindP (rm_detail C ''PUTAWAY'' (mc_task c) (mc_actor c)) (\<lambda>current.
     let s = mv_status (remote_head current) in
     bindP (if s = MvNew then rm_claim C ''PUTAWAY'' c
            else if s = MvAssigned \<or> s = MvInProgress then returnP current
            else failP (not_startable ''Putaway task is not ready to start'')) (\<lambda>claimed.
     send_start C ''PUTAWAY'' c claimed))"

definition putaway_group_remote :: "wms_client \<Rightarrow> mv_command \<Rightarrow> (upstream, remote_task) prog" where
  "putaway_group_remote C c =
     rm_order C ''PUTAWAY'' c (command_order C c ''CONFIRM_GROUP'' (wc_uuid_text C (mc_id c)) 0) (mc_key c)"

definition putaway_suggestions_remote :: "string \<Rightarrow> actor \<Rightarrow> (upstream, location list) prog" where
  "putaway_suggestions_remote i a = failP (not_mapped ''WMS putaway destination suggestion is not mapped'')"

section \<open>Picking\<close>

definition picking_claim_remote :: "wms_client \<Rightarrow> mv_command \<Rightarrow> (upstream, remote_task) prog" where
  "picking_claim_remote C c =
     bindP (rm_detail C ''PICKING'' (mc_task c) (mc_actor c)) (\<lambda>current.
     bindP (checkP (mv_operator (remote_head current) \<noteq> Some (ac_operator (mc_actor c))) ErrMvNotAssigned) (\<lambda>_.
     rm_claim C ''PICKING'' c))"

definition picking_start_remote :: "wms_client \<Rightarrow> mv_command \<Rightarrow> (upstream, remote_task) prog" where
  "picking_start_remote C c =
     bindP (rm_detail C ''PICKING'' (mc_task c) (mc_actor c)) (\<lambda>current.
     let s = mv_status (remote_head current) in
     bindP (if s = MvNew \<or> s = MvAssigned then picking_claim_remote C c
            else if s = MvInProgress then returnP current
            else failP (not_startable ''Picking task is not ready to start'')) (\<lambda>claimed.
     send_start C ''PICKING'' c claimed))"

definition picking_allocate_remote :: "wms_client \<Rightarrow> mv_command \<Rightarrow> (upstream, remote_task) prog" where
  "picking_allocate_remote C c =
     bindP (allocate_execution_task C (mc_task c) (mc_id c) (ac_correlation (mc_actor c)) (ac_operator (mc_actor c)) (mc_key c)) (\<lambda>row.
     bindP (canonical_warehouse_id C (ac_warehouse (mc_actor c))) (\<lambda>w.
     bindP (checkP (foreign_task w (mc_actor c) row) (remote_denied ''Picking task access denied'')) (\<lambda>_.
     enriched_task C ''PICKING'' row)))"

definition picking_complete_remote :: "mv_command \<Rightarrow> (upstream, remote_task) prog" where
  "picking_complete_remote c = failP (not_mapped ''WMS picking completion is not mapped'')"

section \<open>The adapters as operations\<close>

text \<open>Behind the interface of the gateway a task has no related tasks.\<close>

definition head_of :: "(upstream, remote_task) prog \<Rightarrow> (upstream, movement) prog" where
  "head_of m = bindP m (\<lambda>t. returnP (remote_head t))"

definition heads_of :: "(upstream, remote_task list) prog \<Rightarrow> (upstream, movement list) prog" where
  "heads_of m = bindP m (\<lambda>ts. returnP (map remote_head ts))"

definition remote_putaway :: "wms_client \<Rightarrow> upstream putaway_ops" where
  "remote_putaway C = \<lparr>pa_list = \<lambda>a. heads_of (rm_list C ''PUTAWAY'' a), pa_detail = \<lambda>i a. head_of (rm_detail C ''PUTAWAY'' i a),
     pa_claim = \<lambda>c. head_of (rm_claim C ''PUTAWAY'' c), pa_start = \<lambda>c. head_of (putaway_start_remote C c),
     pa_suggestions = putaway_suggestions_remote, pa_source = \<lambda>c v. head_of (rm_scan C ''PUTAWAY'' ''SOURCE'' c v),
     pa_lpn = \<lambda>c v. head_of (rm_scan C ''PUTAWAY'' ''LPN'' c v), pa_item = \<lambda>c v. head_of (rm_scan C ''PUTAWAY'' ''ITEM'' c v),
     pa_lot = \<lambda>c v. head_of (rm_scan C ''PUTAWAY'' ''LOT'' c v),
     pa_destination = \<lambda>c v. head_of (rm_scan C ''PUTAWAY'' ''DESTINATION'' c v),
     pa_confirm = \<lambda>c n. head_of (rm_confirm C ''PUTAWAY'' c n), pa_group = \<lambda>c. head_of (putaway_group_remote C c)\<rparr>"

definition remote_picking :: "wms_client \<Rightarrow> upstream picking_ops" where
  "remote_picking C = \<lparr>pi_list = \<lambda>a. heads_of (rm_list C ''PICKING'' a), pi_detail = \<lambda>i a. head_of (rm_detail C ''PICKING'' i a),
     pi_claim = \<lambda>c. head_of (picking_claim_remote C c), pi_start = \<lambda>c. head_of (picking_start_remote C c),
     pi_allocate = \<lambda>c. head_of (picking_allocate_remote C c), pi_location = \<lambda>c v. head_of (rm_scan C ''PICKING'' ''SOURCE'' c v),
     pi_barcode = \<lambda>c v. head_of (rm_scan C ''PICKING'' ''ITEM'' c v), pi_lot = \<lambda>c v. head_of (rm_scan C ''PICKING'' ''LOT'' c v),
     pi_destination = \<lambda>c v. head_of (rm_scan C ''PICKING'' ''DESTINATION'' c v),
     pi_confirm = \<lambda>c n. head_of (rm_confirm C ''PICKING'' c n), pi_complete = \<lambda>c. head_of (picking_complete_remote c)\<rparr>"

definition remote_replenishment :: "wms_client \<Rightarrow> upstream replenishment_ops" where
  "remote_replenishment C = \<lparr>rn_list = \<lambda>a. heads_of (rm_list C ''REPLENISHMENT'' a),
     rn_detail = \<lambda>i a. head_of (rm_detail C ''REPLENISHMENT'' i a),
     rn_source = \<lambda>c v. head_of (rm_scan C ''REPLENISHMENT'' ''SOURCE'' c v),
     rn_destination = \<lambda>c v. head_of (rm_scan C ''REPLENISHMENT'' ''DESTINATION'' c v),
     rn_item = \<lambda>c v. head_of (rm_scan C ''REPLENISHMENT'' ''ITEM'' c v),
     rn_confirm = \<lambda>c n. head_of (rm_confirm C ''REPLENISHMENT'' c n)\<rparr>"

end
