(* ===== verification/Remote_Tasks.thy ===== *)
theory Remote_Tasks
  imports Wms_Client Remote_Movement
begin

text \<open>
  Receiving in the WMS, \<open>internal/integration/adapters/wmshttp/receiving.go\<close>: receipts of the inbound service
  shown as receiving tasks, and the commands forwarded to it.
\<close>

section \<open>Receipts as tasks\<close>

definition receipt_task_status :: "string \<Rightarrow> string \<Rightarrow> string \<Rightarrow> string" where
  "receipt_task_status status confirmation assignment =
     (if equal_fold confirmation ''CONFIRMED'' \<or> equal_fold status ''CONFIRMED'' then RvCompleted
      else if equal_fold assignment ''CLAIMED'' \<or> equal_fold assignment ''IN_PROGRESS'' then RvInProgress else RvNew)"

definition no_policy :: policy where
  "no_policy = \<lparr>po_over_receipt = False, po_remark_on_variance = False, po_lot_required = False, po_serial_required = False,
     po_conditions = []\<rparr>"

definition receipt_rline :: "receipt_line \<Rightarrow> rline" where
  "receipt_rline l =
     (let expected = truncate_float (wl_expected l); received = truncate_float (wl_received l) in
      \<lparr>ln_id = wl_line l, ln_item = wl_revision l, ln_item_name = wl_item_name l, ln_barcode = first_of (wl_lot l) (wl_revision l),
       ln_expected = expected, ln_received = received, ln_sku = wl_revision l, ln_uom = wl_uom l, ln_lot = wl_lot l,
       ln_handed_over = expected, ln_remaining = expected - received, ln_lot_required = wl_lot l \<noteq> '''',
       ln_serial_required = False, ln_verified = False\<rparr>)"

definition unix_zero :: time where "unix_zero = 62135596800 * 1000000000"

definition map_receipt_task :: "receipt \<Rightarrow> string \<Rightarrow> receiving" where
  "map_receipt_task r warehouse =
     (let lpn = first_of (wr_lpn r) (wr_code r) in
      \<lparr>rv_id = wr_id r, rv_order = wr_id r, rv_po = lpn, rv_lpn = lpn, rv_supplier = '''', rv_source_type = wr_source_type r,
       rv_source_system = wr_source_system r, rv_doc_type = wr_doc_type r, rv_doc_id = wr_request r,
       rv_doc_code = (if wr_source_type r = ''PRODUCTION_FINISHED_GOODS'' \<and> wr_work_order_code r \<noteq> '''' then wr_work_order_code r
         else wr_code r),
       rv_work_order = wr_work_order r, rv_work_order_code = wr_work_order_code r, rv_output = wr_output r,
       rv_request = wr_request r, rv_confirmation = wr_confirmation_id r,
       rv_status = receipt_task_status (wr_status r) (wr_confirmation r) (wr_assignment r), rv_warehouse = warehouse,
       rv_operator = wr_operator r, rv_version = (if i64_less (wr_version r) 1 then 1 else wr_version r), rv_policy = no_policy,
       rv_lines = map receipt_rline (filter (\<lambda>l. wl_line l \<noteq> '''') (wr_lines r)),
       rv_updated = (if is_zero (wr_updated r) then unix_zero else wr_updated r)\<rparr>)"

section \<open>Reading\<close>

definition receipt_denied :: "string \<Rightarrow> err" where
  [err_defs]: "receipt_denied m = DomainError ''WAREHOUSE_ACCESS_DENIED'' m False"

definition rr_detail :: "wms_client \<Rightarrow> string \<Rightarrow> actor \<Rightarrow> (upstream, receiving) prog" where
  "rr_detail C i a =
     bindP (get_receipt C i) (\<lambda>r.
     bindP (checkP (wr_location r = '''') (receipt_denied ''Receiving task has no warehouse location'')) (\<lambda>_.
     bindP (checkP (wr_operator r \<noteq> None \<and> wr_operator r \<noteq> Some (ac_operator a)) ErrRvNotAssigned) (\<lambda>_.
     bindP (fetch_location C (wr_location r)) (\<lambda>l.
     bindP (checkP (\<not> warehouse_matches C l (ac_warehouse a)) (receipt_denied ''Receiving task belongs to another warehouse'')) (\<lambda>_.
     returnP (map_receipt_task r (ac_warehouse a)))))))"

text \<open>The rows of the operator, then the drafts nobody has, each once.\<close>

fun add_drafts :: "string list \<Rightarrow> receipt list \<Rightarrow> receipt list" where
  "add_drafts seen [] = []"
| "add_drafts seen (r # rs) =
     (if wr_operator r = None \<and> wr_status r = ''Draft'' \<and> wr_id r \<notin> set seen
      then r # add_drafts (wr_id r # seen) rs else add_drafts seen rs)"

definition receipt_item :: "wms_client \<Rightarrow> actor \<Rightarrow> receipt \<Rightarrow> (upstream, receiving option) prog" where
  "receipt_item C a r =
     (if wr_location r = '''' then returnP None
      else if wr_operator r \<noteq> None \<and> wr_operator r \<noteq> Some (ac_operator a) then returnP None
      else bindP (fetch_location C (wr_location r)) (\<lambda>l.
        if \<not> warehouse_matches C l (ac_warehouse a) then returnP None
        else if wr_lines r \<noteq> [] then returnP (Some (map_receipt_task r (ac_warehouse a)))
        else bindP (rr_detail C (wr_id r) a) (\<lambda>t. returnP (Some t))))"

definition rr_list :: "wms_client \<Rightarrow> rv_filter \<Rightarrow> actor \<Rightarrow> (upstream, rv_page) prog" where
  "rr_list C f a =
     bindP (list_receipts C \<lparr>wq_status = rf_status f, wq_location = '''', wq_operator = rf_operator f, wq_text = rf_query f,
       wq_source = '''', wq_limit = rf_limit f\<rparr>) (\<lambda>own.
     bindP (list_receipts C \<lparr>wq_status = rf_status f, wq_location = '''', wq_operator = '''', wq_text = rf_query f,
       wq_source = '''', wq_limit = rf_limit f\<rparr>) (\<lambda>available.
     bindP (mapP (receipt_item C a) (own @ add_drafts (map wr_id own) available)) (\<lambda>xs.
     returnP \<lparr>rp_items = List.map_filter id xs, rp_next_cursor = None\<rparr>)))"

section \<open>Barcodes\<close>

definition line_open :: "rline \<Rightarrow> bool" where
  "line_open l \<longleftrightarrow> i64_less (ln_received l) (ln_expected l)"

text \<open>Is a line of this id among the lines of the receipt, read once more? An error counts as no lines.\<close>

definition has_owner_line :: "wms_client \<Rightarrow> string \<Rightarrow> string \<Rightarrow> (upstream, bool) prog" where
  "has_owner_line C task line = bindP (tryP (get_receipt C task)) (\<lambda>r. returnP (case r of
     Inl e \<Rightarrow> False | Inr r \<Rightarrow> list_ex (\<lambda>l. wl_line l = line) (wr_lines r)))"

fun resolve_line ::
    "wms_client \<Rightarrow> string \<Rightarrow> string \<Rightarrow> string \<Rightarrow> actor \<Rightarrow> rline list \<Rightarrow> (upstream, rline) prog" where
  "resolve_line C task barcode symbology a [] = failP ErrBarcodeUnknown"
| "resolve_line C task barcode symbology a (l # ls) =
     (if \<not> line_open l then resolve_line C task barcode symbology a ls
      else if ln_sku l = barcode then returnP l
      else bindP (has_owner_line C task (ln_id l)) (\<lambda>known.
        if \<not> known then resolve_line C task barcode symbology a ls
        else bindP (resolve_wms_barcode C barcode symbology (canonical_warehouse C (ac_warehouse a)) task (ln_id l)
               (wc_sha256 C (task @ ''|'' @ ln_id l @ ''|'' @ barcode))) (\<lambda>(item, uom).
          if item \<noteq> ln_item l then failP ErrBarcodeWrongContext else returnP (l\<lparr>ln_barcode := barcode\<rparr>))))"

definition rr_resolve :: "wms_client \<Rightarrow> string \<Rightarrow> string \<Rightarrow> string \<Rightarrow> actor \<Rightarrow> (upstream, rline) prog" where
  "rr_resolve C task barcode symbology a =
     bindP (rr_detail C task a) (\<lambda>t.
     if rv_lpn t \<noteq> '''' \<and> equal_fold (trim_space (rv_lpn t)) (trim_space barcode) then
       (case find line_open (rv_lines t) of
          Some l \<Rightarrow> returnP (l\<lparr>ln_verified := True\<rparr>) | None \<Rightarrow> failP ErrAlreadyCompleted)
     else case find (\<lambda>l. line_open l \<and> ln_barcode l = barcode) (rv_lines t) of
       Some l \<Rightarrow> returnP l
     | None \<Rightarrow> resolve_line C task barcode symbology a (rv_lines t))"

section \<open>Commands\<close>

definition rr_claim :: "wms_client \<Rightarrow> rv_command \<Rightarrow> (upstream, receiving) prog" where
  "rr_claim C c =
     bindP (claim_receipt C (rc_task c) (ac_operator (rc_actor c)) (rc_key c) 900) (\<lambda>_.
     rr_detail C (rc_task c) (rc_actor c))"

text \<open>A start is not told to anyone: it is answered from the task as it was read.\<close>

definition rr_start :: "wms_client \<Rightarrow> rv_command \<Rightarrow> (upstream, receiving) prog" where
  "rr_start C c =
     bindP (rr_detail C (rc_task c) (rc_actor c)) (\<lambda>t.
     bindP (checkP (rv_operator t \<noteq> Some (ac_operator (rc_actor c))) ErrRvNotAssigned) (\<lambda>_.
     bindP clock_now (\<lambda>now.
     liftE (rv_start (ac_operator (rc_actor c)) (rc_base_version c) now t))))"

definition normalize_barcode :: "string \<Rightarrow> string" where
  "normalize_barcode s = to_upper (trim_space s)"

definition receipt_confirmed :: "receipt \<Rightarrow> bool" where
  "receipt_confirmed r \<longleftrightarrow> equal_fold (wr_status r) ''CONFIRMED'' \<or> equal_fold (wr_confirmation r) ''CONFIRMED''"

definition receipt_line_at :: "receipt \<Rightarrow> string \<Rightarrow> receipt_line option" where
  "receipt_line_at r i = find (\<lambda>l. wl_line l = i) (wr_lines r)"

definition executable_by :: "receiving \<Rightarrow> actor \<Rightarrow> bool" where
  "executable_by t a \<longleftrightarrow> rv_operator t = Some (ac_operator a) \<and> (rv_status t = RvInProgress \<or> rv_status t = RvPartiallyCompleted)"

text \<open>A receipt that is confirmed already: the same batch is sent again, for the owner to replay.\<close>

definition replay_confirm :: "wms_client \<Rightarrow> receipt \<Rightarrow> rv_confirm \<Rightarrow> (upstream, receiving) prog" where
  "replay_confirm C r c =
     (case receipt_line_at r (rc_line c) of
        None \<Rightarrow> failP ErrBarcodeWrongContext
      | Some l \<Rightarrow>
          if normalize_barcode (wl_lot l) \<noteq> normalize_barcode (rc_barcode c) then failP ErrBarcodeWrongContext
          else bindP (receive_receipt C (rc_task c) (rc_id c) (wr_version r)
            [\<lparr>bb_line = wl_line l, bb_actual = of_int (sint (rc_quantity c)), bb_uom = wl_uom l, bb_revision = wl_revision l, bb_lot = wl_lot l\<rparr>]
            (rc_key c)) (\<lambda>_. rr_detail C (rc_task c) (rc_actor c)))"

definition rr_confirm :: "wms_client \<Rightarrow> rv_confirm \<Rightarrow> (upstream, receiving) prog" where
  "rr_confirm C c =
     bindP (get_receipt C (rc_task c)) (\<lambda>owner.
     if receipt_confirmed owner then replay_confirm C owner c
     else
       bindP (rr_detail C (rc_task c) (rc_actor c)) (\<lambda>t.
       bindP (checkP (\<not> executable_by t (rc_actor c)) ErrRvNotAssigned) (\<lambda>_.
       case find (\<lambda>l. ln_id l = rc_line c) (rv_lines t) of
         None \<Rightarrow> failP ErrBarcodeWrongContext
       | Some tline \<Rightarrow>
           bindP (get_receipt C (rc_task c)) (\<lambda>r.
           case receipt_line_at r (rc_line c) of
             None \<Rightarrow> failP ErrBarcodeWrongContext
           | Some l \<Rightarrow>
               if normalize_barcode (ln_barcode tline) \<noteq> normalize_barcode (rc_barcode c) then failP ErrBarcodeWrongContext
               else
                 bindP (record_receipt_quantity C (rc_task c) (rc_line c)
                   \<lparr>qq_actual = of_int (sint (rc_quantity c)), qq_uom = wl_uom l, qq_version = wl_version l,
                    qq_revision = wl_revision l, qq_lot = wl_lot l, qq_key = rc_key c\<rparr>) (\<lambda>_.
                 bindP (confirm_receipt C (rc_task c) (rc_key c)) (\<lambda>_.
                 rr_detail C (rc_task c) (rc_actor c)))))))"

definition owner_batch_line :: "batch_line \<Rightarrow> receipt_batch_line" where
  "owner_batch_line l = \<lparr>bb_line = bt_line l, bb_actual = of_int (sint (bt_actual l)), bb_uom = bt_uom l, bb_revision = bt_revision l,
     bb_lot = bt_lot l\<rparr>"

definition rr_confirm_batch :: "wms_client \<Rightarrow> rv_batch_confirm \<Rightarrow> (upstream, receiving) prog" where
  "rr_confirm_batch C c =
     bindP (get_receipt C (rc_task c)) (\<lambda>owner.
     let send_lines = bindP (receive_receipt C (rc_task c) (rc_id c) (wr_version owner) (map owner_batch_line (rc_lines c)) (rc_key c)) (\<lambda>_.
           rr_detail C (rc_task c) (rc_actor c)) in
     if receipt_confirmed owner then
       (if list_all (\<lambda>l. receipt_line_at owner (bt_line l) \<noteq> None) (rc_lines c) then send_lines else failP ErrBarcodeWrongContext)
     else
       bindP (rr_detail C (rc_task c) (rc_actor c)) (\<lambda>t.
       bindP (checkP (\<not> executable_by t (rc_actor c)) ErrRvNotAssigned) (\<lambda>_.
       bindP (checkP (rc_lines c = []) (TextError ''RECEIPT_LINES_REQUIRED'')) (\<lambda>_.
       send_lines))))"

definition rr_status :: "uuid \<Rightarrow> actor \<Rightarrow> (upstream, rv_command_status) prog" where
  "rr_status i a = failP (TextError ''COMMAND_STATUS_UNAVAILABLE_FROM_INBOUND'')"

definition remote_receiving :: "wms_client \<Rightarrow> upstream receiving_ops" where
  "remote_receiving C = \<lparr>ro_list = rr_list C, ro_detail = rr_detail C, ro_claim = rr_claim C,
     ro_resolve = (\<lambda>t b a. rr_resolve C t b ''UNKNOWN'' a), ro_start = rr_start C, ro_confirm = rr_confirm C,
     ro_complete = (\<lambda>c. rr_detail C (rc_task c) (rc_actor c)), ro_status = rr_status,
     ro_symbology = Some (\<lambda>t b s a. rr_resolve C t b s a), ro_context = Some (\<lambda>t b s ctx a. rr_resolve C t b s a),
     ro_batch = Some (rr_confirm_batch C)\<rparr>"

section \<open>The task board\<close>

text \<open>
  The task board over the WMS, \<open>internal/integration/adapters/wmshttp/tasks.go\<close>: execution tasks and receipts
  shown as tasks of the board, and the two commands forwarded to the WMS.
\<close>

definition map_execution_task :: "execution_task \<Rightarrow> task" where
  "map_execution_task r =
     \<lparr>tk_id = xt_id r,
      tk_category = (if xt_type r \<in> {CategoryPutaway, CategoryPicking, CategoryReplenishment, CategoryReceiving, CategoryCycleCount}
        then xt_type r else ''UNKNOWN''),
      tk_status = (if xt_status r \<in> {StatusNew, StatusAssigned, StatusInProgress, StatusCompleted, StatusOnHold}
        then xt_status r else StatusNew),
      tk_priority = xt_priority r, tk_title = xt_type r, tk_line_count = 0, tk_piece_count = 0, tk_due = None,
      tk_warehouse = xt_warehouse r, tk_operator = xt_operator r, tk_lock_state = '''', tk_version = xt_version r,
      tk_created = xt_created r, tk_updated = xt_updated r, tk_purchase_order = '''', tk_lpn = '''', tk_supplier = '''',
      tk_lines = []\<rparr>"

definition line_snapshot :: "rline \<Rightarrow> receiving_line_snapshot" where
  "line_snapshot l =
     \<lparr>rl_line = ln_id l, rl_item = ln_item l, rl_sku = ln_sku l, rl_item_name = ln_item_name l, rl_uom = ln_uom l, rl_lot = ln_lot l,
      rl_barcode = ln_barcode l, rl_expected = of_int (sint (ln_expected l)), rl_handed_over = of_int (sint (ln_handed_over l)),
      rl_received = of_int (sint (ln_received l)), rl_remaining = of_int (sint (ln_remaining l)),
      rl_lot_required = ln_lot_required l, rl_serial_required = ln_serial_required l\<rparr>"

definition map_receiving_task :: "receiving \<Rightarrow> task" where
  "map_receiving_task t =
     \<lparr>tk_id = rv_id t, tk_category = CategoryReceiving, tk_status = rv_status t, tk_priority = 0, tk_title = rv_lpn t,
      tk_line_count = of_nat (length (rv_lines t)), tk_piece_count = sum_list (map ln_expected (rv_lines t)), tk_due = None,
      tk_warehouse = rv_warehouse t, tk_operator = rv_operator t, tk_lock_state = '''', tk_version = rv_version t,
      tk_created = rv_updated t, tk_updated = rv_updated t, tk_purchase_order = rv_lpn t, tk_lpn = rv_lpn t,
      tk_supplier = rv_supplier t, tk_lines = map line_snapshot (rv_lines t)\<rparr>"

definition listed_task :: "actor \<Rightarrow> execution_task \<Rightarrow> bool" where
  "listed_task a r \<longleftrightarrow> (xt_operator r = None \<or> xt_operator r = Some (ac_operator a))
     \<and> \<not> (equal_fold (xt_type r) CategoryPicking \<and> xt_operator r = None)"

text \<open>Without a category the execution tasks are left out when they cannot be read.\<close>

definition execution_items :: "wms_client \<Rightarrow> task_filter \<Rightarrow> actor \<Rightarrow> (upstream, task list) prog" where
  "execution_items C f a =
     (if tf_category f \<noteq> '''' \<and> equal_fold (tf_category f) CategoryReceiving then returnP []
      else bindP (tryP (list_execution_tasks C (ac_warehouse a) '''' (tf_category f) (tf_status f) (tf_query f) (tf_limit f))) (\<lambda>r.
        case r of
          Inl e \<Rightarrow> if tf_category f \<noteq> '''' then failP e else returnP []
        | Inr rows \<Rightarrow> returnP (map map_execution_task (filter (listed_task a) rows))))"

definition receiving_items :: "upstream receiving_ops option \<Rightarrow> task_filter \<Rightarrow> actor \<Rightarrow> (upstream, task list) prog" where
  "receiving_items R f a = (case R of
     Some ops \<Rightarrow>
       if tf_category f = '''' \<or> equal_fold (tf_category f) CategoryReceiving then
         bindP (ro_list ops \<lparr>rf_warehouse = ac_warehouse a, rf_operator = ac_operator a, rf_status = tf_status f,
           rf_query = tf_query f, rf_cursor = '''', rf_limit = tf_limit f\<rparr> a) (\<lambda>p. returnP (map map_receiving_task (rp_items p)))
       else returnP []
   | None \<Rightarrow> returnP [])"

definition rt_list :: "wms_client \<Rightarrow> upstream receiving_ops option \<Rightarrow> task_filter \<Rightarrow> actor \<Rightarrow> (upstream, task_page) prog" where
  "rt_list C R f a =
     bindP (execution_items C f a) (\<lambda>xs.
     bindP (receiving_items R f a) (\<lambda>ys.
     returnP \<lparr>tp_tasks = xs @ ys, tp_next_cursor = None\<rparr>))"

definition rt_detail :: "wms_client \<Rightarrow> string \<Rightarrow> actor \<Rightarrow> (upstream, task) prog" where
  "rt_detail C i a =
     bindP (get_execution_task C i) (\<lambda>r.
     bindP (checkP (xt_warehouse r \<noteq> ac_warehouse a \<or> xt_operator r \<noteq> None \<and> xt_operator r \<noteq> Some (ac_operator a))
       (remote_denied ''Task access denied'')) (\<lambda>_.
     returnP (map_execution_task r)))"

definition rt_command :: "wms_client \<Rightarrow> string \<Rightarrow> task_command \<Rightarrow> (upstream, task) prog" where
  "rt_command C ty c =
     bindP (apply_execution_task_command C (tc_task c)
       \<lparr>xo_id = wc_uuid_text C (tc_id c), xo_type = ty, xo_version = tc_base_version c,
        xo_correlation = ac_correlation (tc_actor c), xo_cause = '''', xo_quantity = 0\<rparr>
       (ac_operator (tc_actor c)) (tc_key c)) (\<lambda>r. returnP (map_execution_task r))"

definition remote_tasks :: "wms_client \<Rightarrow> upstream receiving_ops option \<Rightarrow> upstream task_ops" where
  "remote_tasks C R = \<lparr>to_status = (\<lambda>i a. failP (not_mapped ''WMS task command status contract is not mapped'')),
     to_list = rt_list C R, to_detail = rt_detail C,
     to_summary = (\<lambda>w s a. failP (not_mapped ''WMS task summary contract is not mapped'')),
     to_dashboard = (\<lambda>a. failP (not_mapped ''WMS task dashboard contract is not mapped'')),
     to_claim = rt_command C ''CLAIM'', to_release = rt_command C ''RELEASE''\<rparr>"

end
