(* ===== verification/Remote_Stock.thy ===== *)
theory Remote_Stock
  imports Gateway_Router Remote_Movement
begin

text \<open>
  The capabilities of the WMS that are not mapped, \<open>internal/integration/adapters/wmshttp/unavailable.go\<close>:
  every operation fails with one error that names the capability, whatever it is given. The methods of
  \<open>Unavailable\<close> and of the adapter types that rename them are the fields of the operation records.
\<close>

definition unavailable :: "string \<Rightarrow> ('s, 'a) prog" where
  "unavailable capability = failP (DomainError ''UPSTREAM_OPERATION_NOT_IMPLEMENTED''
     (''WMS '' @ capability @ '' operation is not mapped'') False)"

definition unavailable_tasks :: "string \<Rightarrow> 's task_ops" where
  "unavailable_tasks u = \<lparr>to_status = (\<lambda>i a. unavailable u), to_list = (\<lambda>f a. unavailable u), to_detail = (\<lambda>i a. unavailable u),
     to_summary = (\<lambda>w s a. unavailable u), to_dashboard = (\<lambda>a. unavailable u), to_claim = (\<lambda>c. unavailable u),
     to_release = (\<lambda>c. unavailable u)\<rparr>"

definition unavailable_putaway :: "string \<Rightarrow> 's putaway_ops" where
  "unavailable_putaway u = \<lparr>pa_list = (\<lambda>a. unavailable u), pa_detail = (\<lambda>i a. unavailable u), pa_claim = (\<lambda>c. unavailable u),
     pa_start = (\<lambda>c. unavailable u), pa_suggestions = (\<lambda>i a. unavailable u), pa_source = (\<lambda>c v. unavailable u),
     pa_lpn = (\<lambda>c v. unavailable u), pa_item = (\<lambda>c v. unavailable u), pa_lot = (\<lambda>c v. unavailable u),
     pa_destination = (\<lambda>c v. unavailable u), pa_confirm = (\<lambda>c n. unavailable u), pa_group = (\<lambda>c. unavailable u)\<rparr>"

definition unavailable_picking :: "string \<Rightarrow> 's picking_ops" where
  "unavailable_picking u = \<lparr>pi_list = (\<lambda>a. unavailable u), pi_detail = (\<lambda>i a. unavailable u), pi_claim = (\<lambda>c. unavailable u),
     pi_start = (\<lambda>c. unavailable u), pi_allocate = (\<lambda>c. unavailable u), pi_location = (\<lambda>c v. unavailable u),
     pi_barcode = (\<lambda>c v. unavailable u), pi_lot = (\<lambda>c v. unavailable u), pi_destination = (\<lambda>c v. unavailable u),
     pi_confirm = (\<lambda>c n. unavailable u), pi_complete = (\<lambda>c. unavailable u)\<rparr>"

definition unavailable_replenishment :: "string \<Rightarrow> 's replenishment_ops" where
  "unavailable_replenishment u = \<lparr>rn_list = (\<lambda>a. unavailable u), rn_detail = (\<lambda>i a. unavailable u),
     rn_source = (\<lambda>c v. unavailable u), rn_destination = (\<lambda>c v. unavailable u), rn_item = (\<lambda>c v. unavailable u),
     rn_confirm = (\<lambda>c n. unavailable u)\<rparr>"

definition unavailable_commands :: "string \<Rightarrow> uuid \<Rightarrow> actor \<Rightarrow> ('s, mv_command_result) prog" where
  "unavailable_commands u i a = unavailable u"

definition unavailable_inventory :: "string \<Rightarrow> 's inventory_ops" where
  "unavailable_inventory u = \<lparr>io_search = (\<lambda>q a. unavailable u), io_balances = (\<lambda>i l a. unavailable u),
     io_movements = (\<lambda>i c a. unavailable u), io_validate = (\<lambda>c. unavailable u), io_transfer = (\<lambda>c. unavailable u),
     io_status = (\<lambda>i a. unavailable u), io_counts = (\<lambda>a. unavailable u), io_count = (\<lambda>i a. unavailable u),
     io_location = (\<lambda>i l a. unavailable u), io_item = (\<lambda>i l x a. unavailable u), io_submit = (\<lambda>i l n c. unavailable u),
     io_recount = (\<lambda>i l c. unavailable u), io_complete = (\<lambda>i c. unavailable u), io_count_status = (\<lambda>i a. unavailable u)\<rparr>"

definition unavailable_shipping :: "string \<Rightarrow> 's shipping_ops" where
  "unavailable_shipping u = \<lparr>so_summary = (\<lambda>i a. unavailable u), so_readiness = (\<lambda>i a. unavailable u),
     so_verify = (\<lambda>c. unavailable u), so_confirm = (\<lambda>c. unavailable u), so_status = (\<lambda>i a. unavailable u)\<rparr>"

text \<open>Nothing happens but the error.\<close>

lemma unavailable_run [simp]:
  "unavailable u s = (Inl (DomainError ''UPSTREAM_OPERATION_NOT_IMPLEMENTED'' (''WMS '' @ u @ '' operation is not mapped'') False), s)"
  by (simp add: unavailable_def)

section \<open>The adapters that are mapped\<close>

text \<open>
  Stock, cycle counts and shipments in the WMS: \<open>inventory.go\<close> and \<open>shipping.go\<close> of
  \<open>internal/integration/adapters/wmshttp\<close>. What the adapters do not map is the unavailable operation they embed.
\<close>

section \<open>Cycle counts\<close>

definition map_count_line :: "wms_count_line \<Rightarrow> count_line" where
  "map_count_line l =
     \<lparr>cl_id = un_id l, cl_item = un_item l,
      cl_expected = (case un_snapshot l of Some n \<Rightarrow> truncate_float n | None \<Rightarrow> 0),
      cl_counted = map_option truncate_float (un_submitted l), cl_variance = map_option truncate_float (un_variance l),
      cl_recount = (un_status l = ''RECOUNT_REQUIRED'')\<rparr>"

definition map_cycle_count :: "wms_count \<Rightarrow> count_task" where
  "map_cycle_count r =
     \<lparr>ct_id = uc_id r, ct_warehouse = uc_warehouse r, ct_location = uc_location r, ct_status = uc_status r,
      ct_operator = uc_operator r, ct_version = uc_version r, ct_blind = uc_blind r, ct_tolerance = 0,
      ct_lines = map map_count_line (uc_lines r), ct_updated = uc_updated r\<rparr>"

definition ri_counts :: "wms_client \<Rightarrow> actor \<Rightarrow> (upstream, count_task list) prog" where
  "ri_counts C a = bindP (list_cycle_counts C (ac_warehouse a) (ac_operator a) '''') (\<lambda>rows. returnP (map map_cycle_count rows))"

definition ri_count :: "wms_client \<Rightarrow> string \<Rightarrow> actor \<Rightarrow> (upstream, count_task) prog" where
  "ri_count C i a =
     bindP (get_cycle_count C i (ac_warehouse a)) (\<lambda>r.
     bindP (checkP (uc_warehouse r \<noteq> ac_warehouse a \<or> uc_operator r \<noteq> None \<and> uc_operator r \<noteq> Some (ac_operator a))
       (remote_denied ''Count access denied'')) (\<lambda>_.
     returnP (map_cycle_count r)))"

definition ri_location :: "wms_client \<Rightarrow> string \<Rightarrow> string \<Rightarrow> actor \<Rightarrow> (upstream, unit) prog" where
  "ri_location C i place a =
     bindP (ri_count C i a) (\<lambda>t. if ct_location t \<noteq> place then failP ErrLocationInvalid else returnP ())"

definition ri_item :: "wms_client \<Rightarrow> string \<Rightarrow> string \<Rightarrow> string \<Rightarrow> actor \<Rightarrow> (upstream, unit) prog" where
  "ri_item C i line item a =
     bindP (ri_count C i a) (\<lambda>t.
     if list_ex (\<lambda>l. cl_id l = line \<and> cl_item l = item) (ct_lines t) then returnP () else failP ErrItemNotInDocument)"

definition ri_submit :: "wms_client \<Rightarrow> string \<Rightarrow> string \<Rightarrow> int64 \<Rightarrow> inv_command \<Rightarrow> (upstream, count_task) prog" where
  "ri_submit C i line n c =
     bindP (submit_cycle_count C i line n (ic_base_version c) (ic_key c) (ac_device (ic_actor c)) (ac_operator (ic_actor c))) (\<lambda>_.
     ri_count C i (ic_actor c))"

definition ri_recount :: "wms_client \<Rightarrow> string \<Rightarrow> string \<Rightarrow> inv_command \<Rightarrow> (upstream, count_task) prog" where
  "ri_recount C i line c =
     bindP (recount_cycle_count C i line (ic_id c) (ic_base_version c) (ic_key c)) (\<lambda>_. ri_count C i (ic_actor c))"

definition ri_complete :: "wms_client \<Rightarrow> string \<Rightarrow> inv_command \<Rightarrow> (upstream, count_task) prog" where
  "ri_complete C i c =
     bindP (complete_cycle_count C i (ic_id c) (ic_base_version c) (ic_key c)) (\<lambda>_. ri_count C i (ic_actor c))"

section \<open>Balances, movements, transfers\<close>

definition map_balance :: "actor \<Rightarrow> wms_balance \<Rightarrow> time \<Rightarrow> balance" where
  "map_balance a b now =
     \<lparr>bl_warehouse = ac_warehouse a, bl_location = ub_location b, bl_item = ub_item b, bl_item_code = ub_item b, bl_description = '''',
      bl_location_code = ub_location b, bl_quantity = truncate_float (ub_on_hand b), bl_on_hand = truncate_float (ub_on_hand b),
      bl_reserved = truncate_float (ub_reserved b), bl_available = truncate_float (ub_available b), bl_damaged = 0, bl_hold = 0,
      bl_quarantine = 0, bl_in_transit = 0, bl_uom = '''', bl_lot = ub_lot b, bl_serial = '''', bl_stale = False,
      bl_version = ub_version b, bl_as_of = now\<rparr>"

definition ri_balances :: "wms_client \<Rightarrow> string \<Rightarrow> string \<Rightarrow> actor \<Rightarrow> (upstream, balance list) prog" where
  "ri_balances C item place a =
     bindP (list_inventory_balances C item place) (\<lambda>rows.
     mapP (\<lambda>b. bindP clock_now (\<lambda>now. returnP (map_balance a b now))) rows)"

definition text_or_empty :: "string option \<Rightarrow> string" where
  "text_or_empty x = (case x of Some s \<Rightarrow> s | None \<Rightarrow> '''')"

text \<open>A text that is no instant leaves the zero time.\<close>

definition map_stock_move :: "wms_client \<Rightarrow> actor \<Rightarrow> wms_movement \<Rightarrow> stock_move" where
  "map_stock_move C a m =
     \<lparr>sm_id = um_id m, sm_task = '''', sm_workflow = um_type m, sm_warehouse = ac_warehouse a, sm_item = um_item m,
      sm_source = text_or_empty (um_from m), sm_dest = text_or_empty (um_to m), sm_quantity = truncate_float (um_quantity m),
      sm_version = 0, sm_at = (case px_time_text (wc_parsers C) (um_at m) of Some t \<Rightarrow> t | None \<Rightarrow> time_zero)\<rparr>"

definition ri_movements :: "wms_client \<Rightarrow> string \<Rightarrow> string \<Rightarrow> actor \<Rightarrow> (upstream, stock_move list) prog" where
  "ri_movements C item cursor a =
     bindP (list_inventory_movements C item '''' cursor) (\<lambda>rows. returnP (map (map_stock_move C a) rows))"

definition ri_transfer :: "wms_client \<Rightarrow> transfer_command \<Rightarrow> (upstream, transfer) prog" where
  "ri_transfer C c =
     bindP (checkP (tc_lot c = '''') (DomainError ''LOT_REQUIRED'' ''Lot ID is required for an inventory transfer'' False)) (\<lambda>_.
     bindP (transfer_inventory C (ic_id c) (tc_lot c) (tc_source c) (tc_dest c) (tc_quantity c) (ac_operator (ic_actor c))
       (ac_correlation (ic_actor c))) (\<lambda>r.
     bindP clock_now (\<lambda>now.
     returnP \<lparr>tr_command = ut_command r, tr_warehouse = ac_warehouse (ic_actor c), tr_source = ut_from r, tr_dest = ut_to r,
       tr_item = tc_item c, tr_quantity = truncate_float (ut_quantity r), tr_status = first_of (ut_result r) ''COMPLETED'',
       tr_transfer_id = ut_movement r, tr_before_source = None, tr_after_source = None, tr_before_dest = None, tr_after_dest = None,
       tr_audit = ut_command r, tr_as_of = now\<rparr>)))"

definition remote_inventory :: "wms_client \<Rightarrow> upstream inventory_ops" where
  "remote_inventory C = (unavailable_inventory ''inventory'')
     \<lparr>io_search := (\<lambda>q a. ri_balances C q '''' a), io_balances := ri_balances C, io_movements := ri_movements C,
      io_transfer := ri_transfer C, io_counts := ri_counts C, io_count := ri_count C, io_location := ri_location C,
      io_item := ri_item C, io_submit := ri_submit C, io_recount := ri_recount C, io_complete := ri_complete C\<rparr>"

section \<open>Shipments\<close>

definition some_text :: "string \<Rightarrow> string option" where
  "some_text s = (if s = '''' then None else Some s)"

definition map_package :: "members \<Rightarrow> package option" where
  "map_package m = (let i = string_value m [''id'', ''package_id''] in
     if i = '''' then None
     else Some \<lparr>pk_id = i, pk_status = string_value m [''status'', ''package_status''],
       pk_weight = truncate_float (number_value m [''weight_grams'', ''weightGrams''])\<rparr>)"

definition map_shipment :: "wms_client \<Rightarrow> members \<Rightarrow> time \<Rightarrow> shipment" where
  "map_shipment C raw now =
     (let stamp = string_value raw [''updatedAt'', ''updated_at''] in
      \<lparr>sh_id = string_value raw [''id'', ''shipment_id''], sh_order = string_value raw [''orderId'', ''order_id'', ''sales_order_id''],
       sh_warehouse = string_value raw [''warehouseId'', ''warehouse_id''], sh_status = string_value raw [''status'', ''shipment_status''],
       sh_carrier = some_text (string_value raw [''carrier'', ''carrier_code'']),
       sh_tracking = some_text (string_value raw [''trackingNumber'', ''tracking_number'']), sh_picked = False,
       sh_version = truncate_float (number_value raw [''version'', ''row_version'']),
       sh_packages = List.map_filter map_package (objects (member raw ''packages'')),
       sh_updated = (if stamp = '''' then now else case px_time_text (wc_parsers C) stamp of Some t \<Rightarrow> t | None \<Rightarrow> now)\<rparr>)"

definition rs_summary :: "wms_client \<Rightarrow> string \<Rightarrow> actor \<Rightarrow> (upstream, shipment) prog" where
  "rs_summary C i a =
     bindP (get_shipping_shipment C i) (\<lambda>raw.
     bindP clock_now (\<lambda>now.
     let s = map_shipment C raw now in
     bindP (checkP (sh_warehouse s \<noteq> '''' \<and> sh_warehouse s \<noteq> ac_warehouse a) (remote_denied ''Shipment access denied'')) (\<lambda>_.
     returnP s)))"

definition rs_readiness :: "wms_client \<Rightarrow> string \<Rightarrow> actor \<Rightarrow> (upstream, readiness_report) prog" where
  "rs_readiness C i a = bindP (rs_summary C i a) (\<lambda>s. returnP (readiness s))"

text \<open>The id of the command is made from what is verified, so a repetition carries the same.\<close>

definition verification_id :: "wms_client \<Rightarrow> verify_command \<Rightarrow> uuid" where
  "verification_id C c =
     wc_sha1 C (vc_shipment c @ ''|'' @ vc_package c @ ''|'' @ vc_barcode c @ ''|'' @ int_text (sint (vc_base_version c)))"

definition rs_verify :: "wms_client \<Rightarrow> verify_command \<Rightarrow> (upstream, shipment) prog" where
  "rs_verify C c =
     bindP (rs_summary C (vc_shipment c) (vc_actor c)) (\<lambda>s.
     bindP (checkP (\<not> list_ex (\<lambda>p. pk_id p = vc_package c) (sh_packages s)) ErrPackageContext) (\<lambda>_.
     bindP (verify_shipping_package C (vc_package c) (vc_barcode c) (verification_id C c) (vc_base_version c)
       (wc_uuid_text C (verification_id C c))) (\<lambda>_.
     rs_summary C (vc_shipment c) (vc_actor c))))"

definition carrier_differs :: "sh_command \<Rightarrow> shipment \<Rightarrow> bool" where
  "carrier_differs c s \<longleftrightarrow> sc_carrier c \<noteq> '''' \<and> (case sh_carrier s of
     None \<Rightarrow> True | Some x \<Rightarrow> \<not> equal_fold (trim_space (sc_carrier c)) (trim_space x))"

definition tracking_differs :: "sh_command \<Rightarrow> shipment \<Rightarrow> bool" where
  "tracking_differs c s \<longleftrightarrow> sc_tracking c \<noteq> '''' \<and> (case sh_tracking s of
     None \<Rightarrow> True | Some x \<Rightarrow> trim_space (sc_tracking c) \<noteq> trim_space x)"

definition rs_confirm :: "wms_client \<Rightarrow> sh_command \<Rightarrow> (upstream, shipment) prog" where
  "rs_confirm C c =
     bindP (rs_summary C (sc_shipment c) (sc_actor c)) (\<lambda>s.
     bindP (checkP (carrier_differs c s) ErrCarrier) (\<lambda>_.
     bindP (checkP (tracking_differs c s) ErrTracking) (\<lambda>_.
     bindP (checkP (\<not> list_all (\<lambda>i. i \<in> set (map pk_id (sh_packages s))) (sc_verified c)) ErrPackageContext) (\<lambda>_.
     bindP (confirm_shipping C (sc_shipment c) (sc_id c) (sc_base_version c) (sc_key c)) (\<lambda>_.
     rs_summary C (sc_shipment c) (sc_actor c))))))"

definition remote_shipping :: "wms_client \<Rightarrow> upstream shipping_ops" where
  "remote_shipping C = (unavailable_shipping ''shipping'')
     \<lparr>so_summary := rs_summary C, so_readiness := rs_readiness C, so_verify := rs_verify C, so_confirm := rs_confirm C\<rparr>"

end
