(* ===== verification/Remote_Frame.thy ===== *)
theory Remote_Frame
  imports Remote_Tasks Remote_Stock
begin

text \<open>
  What the adapters ask of the WMS. \<open>sends P m\<close> says that every request of a run of \<open>m\<close> satisfies \<open>P\<close>. A
  property of requests that holds of the reads alone gives the operations that only look; one that
  holds of the commands too gives all of them.
\<close>

named_theorems sends_intros \<open>programs whose requests satisfy a property\<close>

section \<open>Requests of a run\<close>

definition sends :: "(http_request \<Rightarrow> bool) \<Rightarrow> (upstream, 'a) prog \<Rightarrow> bool" where
  "sends P m \<longleftrightarrow> (\<forall>s. up_peer (snd (m s)) = up_peer s \<and> (\<exists>qs. up_sent (snd (m s)) = up_sent s @ qs \<and> list_all P qs))"

lemma sendsI: "(\<And>s r s1. m s = (r, s1) \<Longrightarrow> up_peer s1 = up_peer s \<and> (\<exists>qs. up_sent s1 = up_sent s @ qs \<and> list_all P qs)) \<Longrightarrow> sends P m"
  unfolding sends_def by (metis prod.collapse)

lemma sendsE:
  assumes "sends P m" and "m s = (r, s1)"
  obtains qs where "up_sent s1 = up_sent s @ qs" and "list_all P qs" and "up_peer s1 = up_peer s"
  using assms unfolding sends_def by (metis snd_conv)

lemma sends_quiet:
  assumes "frame up_sent m" and "frame up_peer m"
  shows "sends P m"
  by (rule sendsI) (auto dest: frameD [OF assms(1)] frameD [OF assms(2)])

lemma sends_pure [sends_intros]:
  "sends P (returnP x)" "sends P (failP e)" "sends P (liftE r)" "sends P (checkP b e)" "sends P clock_now" "sends P new_uuid"
  "sends P (unavailable u)"
  by (auto simp: sends_def checkP_run clock_now_def new_uuid_def)

lemma sends_bindP [sends_intros]:
  assumes "sends P m" and "\<And>x. sends P (k x)"
  shows "sends P (bindP m k)"
proof (rule sendsI)
  fix s r s1 assume run: "bindP m k s = (r, s1)"
  obtain v s2 where m: "m s = (v, s2)" by fastforce
  obtain qs where q: "up_sent s2 = up_sent s @ qs" "list_all P qs" "up_peer s2 = up_peer s" by (rule sendsE [OF assms(1) m])
  show "up_peer s1 = up_peer s \<and> (\<exists>qs. up_sent s1 = up_sent s @ qs \<and> list_all P qs)"
  proof (cases v)
    case (Inl e) with run m q show ?thesis by (auto simp: bindP_def)
  next
    case (Inr x)
    with run m have "k x s2 = (r, s1)" by (simp add: bindP_def)
    then obtain ps where "up_sent s1 = up_sent s2 @ ps" "list_all P ps" "up_peer s1 = up_peer s2"
      by (rule sendsE [OF assms(2)])
    with q show ?thesis by (intro conjI exI [of _ "qs @ ps"]) auto
  qed
qed

lemma sends_mapped [sends_intros]: "sends P m \<Longrightarrow> sends P (mapped f m)"
  by (simp add: sends_def mapped_run)

lemma sends_tryP [sends_intros]: "sends P m \<Longrightarrow> sends P (tryP m)"
  by (simp add: sends_def tryP_def split: prod.split) (metis snd_conv)

lemma sends_mapP [sends_intros]: "(\<And>x. sends P (f x)) \<Longrightarrow> sends P (mapP f xs)"
  by (induction xs) (auto intro: sends_intros)

lemma sends_heads [sends_intros]: "sends P m \<Longrightarrow> sends P (head_of m)" "sends P l \<Longrightarrow> sends P (heads_of l)"
  unfolding head_of_def heads_of_def by (intro sends_intros; assumption)+

lemma sends_if [sends_intros]: "sends P m \<Longrightarrow> sends P n \<Longrightarrow> sends P (if b then m else n)"
  by simp

lemma sends_let [sends_intros]: "sends P (f a) \<Longrightarrow> sends P (let x = a in f x)"
  by (simp add: Let_def)

lemma sends_option [sends_intros]:
  "sends P m \<Longrightarrow> (\<And>x. sends P (k x)) \<Longrightarrow> sends P (case v of None \<Rightarrow> m | Some x \<Rightarrow> k x)"
  by (cases v) simp_all

lemma sends_prod [sends_intros]: "(\<And>a b. sends P (g a b)) \<Longrightarrow> sends P (case p of (a, b) \<Rightarrow> g a b)"
  by (cases p) simp

lemma sends_sum [sends_intros]:
  "(\<And>e. sends P (l e)) \<Longrightarrow> (\<And>x. sends P (k x)) \<Longrightarrow> sends P (case r of Inl e \<Rightarrow> l e | Inr x \<Rightarrow> k x)"
  by (cases r) simp_all

lemma sends_json [sends_intros]:
  "sends P m0 \<Longrightarrow> (\<And>b. sends P (m1 b)) \<Longrightarrow> (\<And>n. sends P (m2 n)) \<Longrightarrow> (\<And>n. sends P (m3 n)) \<Longrightarrow> (\<And>s. sends P (m4 s)) \<Longrightarrow>
     (\<And>u. sends P (m5 u)) \<Longrightarrow> (\<And>t. sends P (m6 t)) \<Longrightarrow> (\<And>js. sends P (m7 js)) \<Longrightarrow> (\<And>ms. sends P (m8 ms)) \<Longrightarrow>
     sends P (case j of JNull \<Rightarrow> m0 | JBool b \<Rightarrow> m1 b | JInt n \<Rightarrow> m2 n | JNum n \<Rightarrow> m3 n | JStr s \<Rightarrow> m4 s | JUuid u \<Rightarrow> m5 u
       | JTime t \<Rightarrow> m6 t | JArr js \<Rightarrow> m7 js | JObj ms \<Rightarrow> m8 ms)"
  by (cases j) simp_all

lemma sends_exchange:
  assumes "P q"
  shows "sends P (exchange C build failed q)"
proof -
  have "sends P (send q)" using assms by (auto simp: sends_def send_def)
  moreover have "sends P (case r of NoReply e \<Rightarrow> failP (WrapError failed e) | Reply st b \<Rightarrow> returnP (st, b, None)
      | Broken st e \<Rightarrow> returnP (st, RawInvalid, Some e))" for r
    by (cases r) (auto intro: sends_intros)
  ultimately show ?thesis unfolding exchange_def by (intro sends_intros)
qed

lemma sends_answers [sends_intros]: "sends P (decoded l d r)" "sends P (acknowledged r)" "sends P (owned l r)"
  by (cases r; simp add: decoded_def acknowledged_def owned_def split: option.split; intro sends_intros conjI impI allI)+

section \<open>Laws of the requests\<close>

definition authorised :: "wms_client \<Rightarrow> http_request \<Rightarrow> bool" where
  "authorised C q \<longleftrightarrow> (''Authorization'', ''Bearer '' @ wc_token C) \<in> set (hq_headers q)"

lemma apply_headers_authorised [simp]: "(''Authorization'', ''Bearer '' @ wc_token C) \<in> set (apply_headers C key)"
  by (simp add: apply_headers_def)

locale reading_law =
  fixes C :: wms_client and P :: "http_request \<Rightarrow> bool"
  assumes reads: "hq_method q = ''GET'' \<Longrightarrow> authorised C q \<Longrightarrow> P q"
begin

lemma get_json_bytes [sends_intros]: "sends P (get_json_bytes C path)"
  unfolding get_json_bytes_def by (intro sends_intros sends_exchange reads) (simp_all add: authorised_def apply_headers_def)

lemma get_json [sends_intros]: "sends P (get_json C path dec)"
  unfolding get_json_def by (intro sends_intros)

lemma warehouses [sends_intros]: "sends P (warehouses C)"
  unfolding warehouses_def by (intro sends_intros sends_exchange reads) (simp_all add: authorised_def apply_headers_def)

lemma canonical_warehouse_id [sends_intros]: "sends P (canonical_warehouse_id C w)"
  unfolding canonical_warehouse_id_def by (intro sends_intros)

lemma fetches [sends_intros]:
  "sends P (fetch_location C i)" "sends P (list_receipts C q)" "sends P (get_receipt C i)"
  "sends P (list_execution_tasks C w op cat st text n)" "sends P (get_execution_task C i)"
  "sends P (list_cycle_counts C w op st)" "sends P (get_cycle_count C i w)" "sends P (list_inventory_balances C item place)"
  "sends P (list_inventory_movements C item place cursor)" "sends P (get_shipping_shipment C i)" "sends P (trace_product C barcode a)"
  unfolding fetch_location_def list_receipts_def get_receipt_def list_execution_tasks_def get_execution_task_def
    list_cycle_counts_def get_cycle_count_def list_inventory_balances_def list_inventory_movements_def
    get_shipping_shipment_def trace_product_def
  by (intro sends_intros)+

lemma receiving_reads [sends_intros]:
  "sends P (rr_detail C i a)" "sends P (receipt_item C a r)" "sends P (has_owner_line C t l)" "sends P (rr_start C c)"
  unfolding rr_detail_def receipt_item_def has_owner_line_def rr_start_def by (intro sends_intros)+

lemma rr_list [sends_intros]: "sends P (rr_list C f a)"
  unfolding rr_list_def by (intro sends_intros)

lemma with_names [sends_intros]: "sends P (with_source C t)" "sends P (with_destination C t)" "sends P (with_receipt_code C t)"
  unfolding with_source_def with_destination_def with_receipt_code_def by (intro sends_intros)+

lemma enrichments [sends_intros]:
  "sends P (enrich_locations C t)" "sends P (enrich_all_locations C ts)" "sends P (enrich_receipts C t)" "sends P (enrich_all_receipts C ts)"
proof -
  have "C0 = C \<Longrightarrow> sends P (enrich_locations C0 t)" "C0 = C \<Longrightarrow> sends P (enrich_all_locations C0 ts)" for C0
    by (induction C0 t and C0 ts rule: enrich_locations_enrich_all_locations.induct) (auto intro!: sends_intros)
  then show "sends P (enrich_locations C t)" "sends P (enrich_all_locations C ts)" by simp_all
  have "C0 = C \<Longrightarrow> sends P (enrich_receipts C0 t)" "C0 = C \<Longrightarrow> sends P (enrich_all_receipts C0 ts)" for C0
    by (induction C0 t and C0 ts rule: enrich_receipts_enrich_all_receipts.induct) (auto intro!: sends_intros)
  then show "sends P (enrich_receipts C t)" "sends P (enrich_all_receipts C ts)" by simp_all
qed

lemma movement_reads [sends_intros]:
  "sends P (enriched_task C w row)" "sends P (receipt_siblings C w row a)" "sends P (rm_list C w a)"
  unfolding enriched_task_def receipt_siblings_def rm_list_def by (intro sends_intros)+

lemma rm_detail [sends_intros]: "sends P (rm_detail C w i a)"
  unfolding rm_detail_def detail_of_row_def by (intro sends_intros)

lemma task_reads [sends_intros]: "sends P (execution_items C f a)" "sends P (rt_detail C i a)"
  unfolding execution_items_def rt_detail_def by (intro sends_intros)+

lemma task_list: "(\<And>g b. sends P (ro_list R g b)) \<Longrightarrow> sends P (rt_list C (Some R) f a)"
  unfolding rt_list_def receiving_items_def option.case by (intro sends_intros)

lemma stock_reads [sends_intros]:
  "sends P (ri_counts C a)" "sends P (ri_count C i a)" "sends P (ri_balances C item place a)" "sends P (ri_movements C item cursor a)"
  "sends P (rs_summary C i a)"
  unfolding ri_counts_def ri_count_def ri_balances_def ri_movements_def rs_summary_def by (intro sends_intros)+

lemma stock_checks [sends_intros]:
  "sends P (ri_location C i place a)" "sends P (ri_item C i line item a)" "sends P (rs_readiness C i a)"
  unfolding ri_location_def ri_item_def rs_readiness_def by (intro sends_intros)+

end

locale calling_law = reading_law +
  assumes calls: "hq_method q = ''POST'' \<Longrightarrow> authorised C q \<Longrightarrow> P q"
begin

lemma post_named [sends_intros]: "sends P (post_named C name path (apply_headers C key @ hs) body)"
  unfolding post_named_def post_def by (rule sends_exchange, rule calls) (simp_all add: authorised_def apply_headers_def)

lemma post_plain [sends_intros]: "sends P (post_named C name path (apply_headers C key) body)"
  using post_named [of name path key "[]" body] by simp

lemma posts [sends_intros]:
  "sends P (resolve_wms_barcode C raw symb w t l scan)" "sends P (claim_receipt C i op key n)" "sends P (record_receipt_quantity C i l q)"
  "sends P (confirm_receipt C i key)" "sends P (receive_receipt C i u v ls key)" "sends P (apply_execution_task_command C i order op key)"
  "sends P (allocate_execution_task C i u trace op key)" "sends P (record_execution_scan C i ty raw v op trace)"
  "sends P (submit_cycle_count C i l nn v key dev op)" "sends P (cycle_count_command C path u v key)"
  "sends P (transfer_inventory C u lot f t nn op trace)" "sends P (verify_shipping_package C i barcode u v key)"
  "sends P (confirm_shipping C i u v key)"
  unfolding resolve_wms_barcode_def claim_receipt_def record_receipt_quantity_def confirm_receipt_def receive_receipt_def
    apply_execution_task_command_def allocate_execution_task_def record_execution_scan_def submit_cycle_count_def
    cycle_count_command_def transfer_inventory_def verify_shipping_package_def confirm_shipping_def
  by (intro sends_intros)+

lemma recounts [sends_intros]: "sends P (recount_cycle_count C i l u v key)" "sends P (complete_cycle_count C i u v key)"
  unfolding recount_cycle_count_def complete_cycle_count_def by (intro sends_intros)+

lemma resolve_line [sends_intros]: "sends P (resolve_line C t b symb a ls)"
  by (induction ls) (simp_all only: resolve_line.simps, (intro sends_intros; assumption?)+)

lemma receiving_calls [sends_intros]:
  "sends P (rr_resolve C t b symb a)" "sends P (rr_claim C c)" "sends P (replay_confirm C r x)" "sends P (rr_confirm_batch C y)"
  unfolding rr_resolve_def rr_claim_def replay_confirm_def rr_confirm_batch_def by (intro sends_intros)+

lemma rr_confirm [sends_intros]: "sends P (rr_confirm C x)"
  unfolding rr_confirm_def by (intro sends_intros)

lemma movement_calls [sends_intros]:
  "sends P (rm_scan C w ty c v)" "sends P (rm_order C w c order key)" "sends P (picking_allocate_remote C c)"
  unfolding rm_scan_def rm_order_def picking_allocate_remote_def by (intro sends_intros)+

lemma movement_commands [sends_intros]:
  "sends P (rm_claim C w c)" "sends P (rm_confirm C w c n)" "sends P (send_start C w c t)" "sends P (putaway_group_remote C c)"
  unfolding rm_claim_def rm_confirm_def send_start_def putaway_group_remote_def by (intro sends_intros)+

lemma movement_starts [sends_intros]:
  "sends P (putaway_start_remote C c)" "sends P (picking_claim_remote C c)" "sends P (picking_start_remote C c)"
proof -
  show claim: "sends P (picking_claim_remote C c)" for c unfolding picking_claim_remote_def by (intro sends_intros)
  show "sends P (putaway_start_remote C c)" "sends P (picking_start_remote C c)"
    unfolding putaway_start_remote_def picking_start_remote_def by (intro sends_intros claim)+
qed

lemma task_command [sends_intros]: "sends P (rt_command C ty c)"
  unfolding rt_command_def by (intro sends_intros)

lemma stock_calls [sends_intros]:
  "sends P (ri_submit C i l n c)" "sends P (ri_recount C i l c)" "sends P (ri_complete C i c)" "sends P (ri_transfer C x)"
  "sends P (rs_verify C v)" "sends P (rs_confirm C h)"
  unfolding ri_submit_def ri_recount_def ri_complete_def ri_transfer_def rs_verify_def rs_confirm_def by (intro sends_intros)+

end

text \<open>Every request is authorised; a read is a GET, and no read starts a task.\<close>

definition starts_task :: "http_request \<Rightarrow> bool" where
  "starts_task q \<longleftrightarrow> hq_method q = ''POST'' \<and>
     (case hq_body q of Some (JObj ms) \<Rightarrow> map_of ms ''command_type'' = Some (JStr ''START'') | _ \<Rightarrow> False)"

interpretation signed: calling_law C "authorised C" for C
  by unfold_locales

interpretation looking: reading_law C "\<lambda>q. hq_method q = ''GET''" for C
  by unfold_locales

interpretation unstarted: reading_law C "\<lambda>q. \<not> starts_task q" for C
  by unfold_locales (auto simp: starts_task_def)

end
