(* ===== verification/Remote_Properties.thy ===== *)
theory Remote_Properties
  imports Remote_Frame
begin

text \<open>
  Properties of the adapters over the WMS: what they ask, whose tasks they show, in which order a task is
  claimed and started, and two answers that do not depend on what was asked.
\<close>

section \<open>What a remote task keeps\<close>

fun remote_all :: "(movement \<Rightarrow> bool) \<Rightarrow> remote_task \<Rightarrow> bool" where
  "remote_all P (Remote m rs) \<longleftrightarrow> P m \<and> list_all (remote_all P) rs"

definition same_head :: "movement \<Rightarrow> movement \<Rightarrow> bool" where
  "same_head m m1 \<longleftrightarrow> mv_id m1 = mv_id m \<and> mv_operator m1 = mv_operator m \<and> mv_warehouse m1 = mv_warehouse m
     \<and> mv_status m1 = mv_status m \<and> mv_version m1 = mv_version m \<and> mv_workflow m1 = mv_workflow m"

lemma same_head_trans: "same_head a b \<Longrightarrow> same_head b c \<Longrightarrow> same_head a c"
  by (simp add: same_head_def)

lemma with_names_Inr:
  "with_source C t s = (Inr t1, s1) \<Longrightarrow> same_head t t1"
  "with_destination C t s = (Inr t1, s1) \<Longrightarrow> same_head t t1"
  by (auto simp: with_source_def with_destination_def same_head_def bindP_Inr_iff split: if_splits)

lemma with_receipt_code_Inr: "with_receipt_code C t s = (Inr t1, s1) \<Longrightarrow> same_head t t1"
  by (cases "get_receipt C (mv_receipt t) s"; cases "fst (get_receipt C (mv_receipt t) s)")
    (auto simp: with_receipt_code_def same_head_def bindP_Inr_iff tryP_def split: if_splits)

lemmas named_heads = with_names_Inr with_receipt_code_Inr

lemma enrich_locations_head: "enrich_locations C t s = (Inr t1, s1) \<Longrightarrow> same_head (remote_head t) (remote_head t1)"
  by (cases t) (auto simp: bindP_Inr_iff dest!: named_heads intro: same_head_trans)

lemma enrich_receipts_head: "enrich_receipts C t s = (Inr t1, s1) \<Longrightarrow> same_head (remote_head t) (remote_head t1)"
  by (cases t) (auto simp: bindP_Inr_iff dest!: named_heads intro: same_head_trans)

lemma enrich_locations_all:
  assumes "\<And>m m1. same_head m m1 \<Longrightarrow> P m \<Longrightarrow> P m1"
  shows "enrich_locations C t s = (Inr t1, s1) \<Longrightarrow> remote_all P t \<Longrightarrow> remote_all P t1"
    and "enrich_all_locations C ts s = (Inr ts1, s1) \<Longrightarrow> list_all (remote_all P) ts \<Longrightarrow> list_all (remote_all P) ts1"
  by (induction C t and C ts arbitrary: s t1 s1 and s ts1 s1 rule: enrich_locations_enrich_all_locations.induct)
    (fastforce simp: bindP_Inr_iff dest: named_heads assms)+

lemma enrich_receipts_all:
  assumes "\<And>m m1. same_head m m1 \<Longrightarrow> P m \<Longrightarrow> P m1"
  shows "enrich_receipts C t s = (Inr t1, s1) \<Longrightarrow> remote_all P t \<Longrightarrow> remote_all P t1"
    and "enrich_all_receipts C ts s = (Inr ts1, s1) \<Longrightarrow> list_all (remote_all P) ts \<Longrightarrow> list_all (remote_all P) ts1"
  by (induction C t and C ts arbitrary: s t1 s1 and s ts1 s1 rule: enrich_receipts_enrich_all_receipts.induct)
    (fastforce simp: bindP_Inr_iff dest: named_heads assms)+

text \<open>The tasks of a row belong to its operator and its warehouse, however deep its lines are nested.\<close>

lemma mapped_task_all:
  "remote_all (\<lambda>m. mv_operator m = xt_operator row \<and> mv_warehouse m = xt_warehouse row \<and> mv_version m = xt_version row)
     (map_movement_task C w row)"
proof (induction C w row rule: map_movement_task.induct)
  case (1 C w row)
  then show ?case
    by (subst map_movement_task.simps) (auto simp: list_all_iff remote_movement_def Let_def)
qed

lemma mapped_head [simp]:
  "mv_operator (remote_head (map_movement_task C w row)) = xt_operator row"
  "mv_warehouse (remote_head (map_movement_task C w row)) = xt_warehouse row"
  "mv_version (remote_head (map_movement_task C w row)) = xt_version row"
  using mapped_task_all [of row C w] by (cases "map_movement_task C w row"; simp)+

lemma remote_all_mono: "remote_all P t \<Longrightarrow> (\<And>m. P m \<Longrightarrow> Q m) \<Longrightarrow> remote_all Q t"
  by (induction t) (auto simp: list_all_iff)

text \<open>\<open>mine a\<close>: a task that nobody or this operator holds.\<close>

definition mine :: "actor \<Rightarrow> movement \<Rightarrow> bool" where
  "mine a m \<longleftrightarrow> mv_operator m = None \<or> mv_operator m = Some (ac_operator a)"

lemma mine_kept: "same_head m m1 \<Longrightarrow> mine a m \<Longrightarrow> mine a m1"
  by (simp add: same_head_def mine_def)

lemma mapped_mine: "xt_operator row = None \<or> xt_operator row = Some (ac_operator a) \<Longrightarrow> remote_all (mine a) (map_movement_task C w row)"
  by (rule remote_all_mono [OF mapped_task_all]) (auto simp: mine_def)

lemma siblings_mine:
  "receipt_siblings C w row a s = (Inr ts, s1) \<Longrightarrow> list_all (remote_all (mine a)) ts"
  by (auto simp: receipt_siblings_def Let_def bindP_Inr_iff list_all_iff mapped_mine split: if_splits)

lemma resolved_warehouse:
  assumes "px_uuid (wc_parsers C) (canonical_warehouse C w) \<noteq> None" and "canonical_warehouse C w \<noteq> ''*''"
    and "canonical_warehouse_id C w s = (Inr v, s1)"
  shows "v = canonical_warehouse C w"
  using assms by (auto simp: canonical_warehouse_id_def Let_def)

lemma rm_detail_Inr:
  assumes "rm_detail C w i a s = (Inr t, s1)"
  obtains row wh s2 s3 t1 s4 more s5 where "get_execution_task C i s = (Inr row, s2)"
    and "canonical_warehouse_id C (ac_warehouse a) s2 = (Inr wh, s3)" and "\<not> foreign_task wh a row"
    and "\<not> (w = ''PICKING'' \<and> xt_operator row = None)"
    and "enrich_receipts C (map_movement_task C w row) s3 = (Inr t1, s4)"
    and "receipt_siblings C w row a s4 = (Inr more, s5)"
    and "enrich_locations C (Remote (remote_head t1) (remote_related t1 @ more)) s5 = (Inr t, s1)"
  using assms unfolding rm_detail_def detail_of_row_def bindP_Inr_iff checkP_Inr_iff by (elim exE conjE) (rule that, assumption+, simp+)

lemma remote_all_parts: "remote_all P t \<longleftrightarrow> P (remote_head t) \<and> list_all (remote_all P) (remote_related t)"
  by (cases t) simp

lemma detail_all:
  assumes "enrich_receipts C (map_movement_task C w row) s3 = (Inr t1, s4)"
    and "enrich_locations C (Remote (remote_head t1) (remote_related t1 @ ts)) s5 = (Inr t, s1)"
    and Q: "\<And>m m1. same_head m m1 \<Longrightarrow> Q m \<Longrightarrow> Q m1"
    and "remote_all Q (map_movement_task C w row)" and "list_all (remote_all Q) ts"
  shows "remote_all Q t"
proof -
  have "remote_all Q t1" by (rule enrich_receipts_all(1) [OF _ assms(1,4)]) (rule Q)
  with assms(5) have "remote_all Q (Remote (remote_head t1) (remote_related t1 @ ts))" by (simp add: remote_all_parts)
  then show ?thesis by (rule enrich_locations_all(1) [OF _ assms(2), rotated]) (rule Q)
qed

text \<open>\<open>wh\<close> is what the warehouse of the session was resolved to; the empty text stands for all.\<close>

definition lies_in :: "string \<Rightarrow> movement \<Rightarrow> bool" where
  "lies_in wh m \<longleftrightarrow> wh = '''' \<or> mv_warehouse m = wh"

text \<open>C38: a detail that is shown, with all the tasks related to it at any depth, is nobody's or the operator's
  own; in picking every one of them is his. It lies in the warehouse the session's warehouse resolves to
  at the WMS, which is the session's own text when that is an id; so do its related tasks, except in
  putaway, where the tasks of the same receipt are asked for by warehouse but only their operator is
  checked. A session whose warehouse is an alias of \<open>*\<close> is bound to no warehouse at all.\<close>

theorem remote_detail_is_own:
  assumes "rm_detail C w i a s = (Inr t, s1)"
  shows "remote_all (mine a) t
    \<and> (w = ''PICKING'' \<longrightarrow> remote_all (\<lambda>m. mv_operator m = Some (ac_operator a)) t)
    \<and> (\<exists>wh s2 s3. canonical_warehouse_id C (ac_warehouse a) s2 = (Inr wh, s3) \<and> up_peer s2 = up_peer s
        \<and> lies_in wh (remote_head t) \<and> (w \<noteq> ''PUTAWAY'' \<longrightarrow> remote_all (lies_in wh) t)
        \<and> (px_uuid (wc_parsers C) (canonical_warehouse C (ac_warehouse a)) \<noteq> None
             \<and> canonical_warehouse C (ac_warehouse a) \<noteq> ''*'' \<longrightarrow> wh = canonical_warehouse C (ac_warehouse a)))"
proof -
  from assms(1) obtain row wh s2 s3 t1 s4 more s5 where got: "get_execution_task C i s = (Inr row, s2)"
    and wh: "canonical_warehouse_id C (ac_warehouse a) s2 = (Inr wh, s3)"
    and home: "\<not> foreign_task wh a row" and pick: "\<not> (w = ''PICKING'' \<and> xt_operator row = None)"
    and t1: "enrich_receipts C (map_movement_task C w row) s3 = (Inr t1, s4)"
    and more: "receipt_siblings C w row a s4 = (Inr more, s5)"
    and t: "enrich_locations C (Remote (remote_head t1) (remote_related t1 @ more)) s5 = (Inr t, s1)"
    by (rule rm_detail_Inr)
  note all = detail_all [OF t1 t]
  have row: "wh = '''' \<or> xt_warehouse row = wh" "xt_operator row = None \<or> xt_operator row = Some (ac_operator a)"
    using home by (auto simp: foreign_task_def)
  have mine: "remote_all (mine a) t"
    by (rule all [OF _ mapped_mine [OF row(2)] siblings_mine [OF more]]) (rule mine_kept)
  have none: "more = []" if "w \<noteq> ''PUTAWAY''" using more that by (simp add: receipt_siblings_def returnP_def)
  have his: "remote_all (\<lambda>m. mv_operator m = Some (ac_operator a)) t" if "w = ''PICKING''"
  proof (rule all)
    from pick that row(2) have "xt_operator row = Some (ac_operator a)" by auto
    then show "remote_all (\<lambda>m. mv_operator m = Some (ac_operator a)) (map_movement_task C w row)"
      by (intro remote_all_mono [OF mapped_task_all]) simp
  qed (simp_all add: same_head_def none that)
  have inside: "remote_all (lies_in wh) t" if "w \<noteq> ''PUTAWAY''"
  proof (rule all)
    show "remote_all (lies_in wh) (map_movement_task C w row)"
      by (rule remote_all_mono [OF mapped_task_all]) (use row(1) in \<open>auto simp: lies_in_def\<close>)
  qed (simp_all add: same_head_def lies_in_def none that)
  have head: "lies_in wh (remote_head t)"
    using enrich_receipts_head [OF t1] enrich_locations_head [OF t] row(1) by (auto simp: same_head_def lies_in_def)
  have peer: "up_peer s2 = up_peer s" by (rule sendsE [OF looking.fetches(5) got])
  show ?thesis using mine his inside head wh peer resolved_warehouse [OF _ _ wh] by blast
qed

section \<open>Reads and commands\<close>

text \<open>C39: what only shows the work of the WMS changes nothing there, it sends GET requests; so do, as they are written, the
  start and the completion of a receipt.\<close>

theorem remote_reads_only_look:
  "sends (\<lambda>q. hq_method q = ''GET'') (rt_list C (Some (remote_receiving C)) f a)
   \<and> sends (\<lambda>q. hq_method q = ''GET'') (rt_detail C i a)
   \<and> sends (\<lambda>q. hq_method q = ''GET'') (rm_list C w a) \<and> sends (\<lambda>q. hq_method q = ''GET'') (rm_detail C w i a)
   \<and> sends (\<lambda>q. hq_method q = ''GET'') (rr_list C g a) \<and> sends (\<lambda>q. hq_method q = ''GET'') (rr_detail C i a)
   \<and> sends (\<lambda>q. hq_method q = ''GET'') (rr_start C c) \<and> sends (\<lambda>q. hq_method q = ''GET'') (ro_complete (remote_receiving C) c)
   \<and> sends (\<lambda>q. hq_method q = ''GET'') (ri_counts C a) \<and> sends (\<lambda>q. hq_method q = ''GET'') (ri_count C i a)
   \<and> sends (\<lambda>q. hq_method q = ''GET'') (ri_item C i line item a) \<and> sends (\<lambda>q. hq_method q = ''GET'') (ri_balances C item place a)
   \<and> sends (\<lambda>q. hq_method q = ''GET'') (ri_location C i place a) \<and> sends (\<lambda>q. hq_method q = ''GET'') (ri_movements C item cursor a)
   \<and> sends (\<lambda>q. hq_method q = ''GET'') (rs_summary C i a) \<and> sends (\<lambda>q. hq_method q = ''GET'') (rs_readiness C i a)"
  by (intro conjI looking.task_list looking.task_reads looking.movement_reads looking.rm_detail looking.rr_list
      looking.receiving_reads looking.stock_reads looking.stock_checks)
    (simp_all add: remote_receiving_def looking.rr_list looking.receiving_reads)

text \<open>Every request of every operation of the adapters carries the bearer token of the client.\<close>

theorem remote_requests_authorised:
  "sends (authorised C) (to_list (remote_tasks C (Some (remote_receiving C))) f a)
   \<and> sends (authorised C) (to_claim (remote_tasks C R) tc) \<and> sends (authorised C) (to_release (remote_tasks C R) tc)
   \<and> sends (authorised C) (ro_resolve (remote_receiving C) i barcode a) \<and> sends (authorised C) (ro_claim (remote_receiving C) rc)
   \<and> sends (authorised C) (ro_confirm (remote_receiving C) rx) \<and> sends (authorised C) (rr_confirm_batch C rb)
   \<and> sends (authorised C) (pa_start (remote_putaway C) mc) \<and> sends (authorised C) (pa_group (remote_putaway C) mc)
   \<and> sends (authorised C) (pi_start (remote_picking C) mc) \<and> sends (authorised C) (pi_allocate (remote_picking C) mc)
   \<and> sends (authorised C) (pa_lpn (remote_putaway C) mc v) \<and> sends (authorised C) (pi_location (remote_picking C) mc v)
   \<and> sends (authorised C) (rn_confirm (remote_replenishment C) mc n)
   \<and> sends (authorised C) (io_search (remote_inventory C) item a) \<and> sends (authorised C) (io_transfer (remote_inventory C) x)
   \<and> sends (authorised C) (io_submit (remote_inventory C) i line n ic) \<and> sends (authorised C) (io_recount (remote_inventory C) i line ic)
   \<and> sends (authorised C) (io_complete (remote_inventory C) i ic) \<and> sends (authorised C) (io_status (remote_inventory C) u a)
   \<and> sends (authorised C) (so_verify (remote_shipping C) vc) \<and> sends (authorised C) (so_confirm (remote_shipping C) sc)"
  by (intro conjI)
    (simp_all add: remote_tasks_def remote_receiving_def remote_inventory_def remote_shipping_def unavailable_inventory_def
      unavailable_shipping_def remote_putaway_def remote_picking_def remote_replenishment_def sends_pure sends_heads signed.task_list signed.rr_list signed.task_command signed.receiving_calls signed.rr_confirm
      signed.movement_starts signed.movement_commands signed.movement_calls signed.stock_reads signed.stock_calls)

text \<open>C40: no shipment of the WMS is ever ready, since the adapter never learns that its picking is complete.\<close>

theorem remote_shipment_never_ready:
  assumes "rs_readiness C i a s = (Inr r, s1)"
  shows "\<not> rd_ready r \<and> rd_blocking r \<noteq> [] \<and> hd (rd_blocking r) = ''PICKING_INCOMPLETE''"
proof -
  from assms obtain x s2 where x: "rs_summary C i a s = (Inr x, s2)" and r: "r = readiness x"
    by (auto simp: rs_readiness_def bindP_Inr_iff)
  from x have "\<not> sh_picked x" by (auto simp: rs_summary_def Let_def bindP_Inr_iff checkP_Inr_iff map_shipment_def)
  with r show ?thesis by (simp add: readiness_def Let_def)
qed

text \<open>A barcode that WMS knows as an item of a later line is refused, because the first open line alone is compared with
  the item; the other lines are not looked at.\<close>

theorem barcode_judged_by_first_line:
  assumes "line_open l" and "ln_sku l \<noteq> barcode" and "has_owner_line C task (ln_id l) s = (Inr True, s1)"
    and "resolve_wms_barcode C barcode symb (canonical_warehouse C (ac_warehouse a)) task (ln_id l)
      (wc_sha256 C (task @ ''|'' @ ln_id l @ ''|'' @ barcode)) s1 = (Inr (item, uom), s2)" and "item \<noteq> ln_item l"
  shows "resolve_line C task barcode symb a (l # ls) s = (Inl ErrBarcodeWrongContext, s2)"
  using assms by (simp add: bindP_run)

section \<open>Claim, then start\<close>

definition task_request :: "wms_client \<Rightarrow> string \<Rightarrow> task_order \<Rightarrow> string \<Rightarrow> string \<Rightarrow> http_request" where
  "task_request C i order operator key = \<lparr>hq_method = ''POST'',
     hq_url = wc_base C @ tasks_path @ ''/'' @ path_escape i @ ''/'' @ route_command (xo_type order),
     hq_headers = apply_headers C key @ [(''X-Role-Code'', ''WMS_EXECUTION_OPERATOR'')] @ header_if ''X-User-ID'' operator @ json_content,
     hq_body = Some (task_order_json order)\<rparr>"

lemma starts_task_request [simp]: "starts_task (task_request C i order op key) \<longleftrightarrow> xo_type order = ''START''"
  by (simp add: starts_task_def task_request_def task_order_json_def omit_empty_def)

lemma sends_order: "P (task_request C i order op key) \<Longrightarrow> sends P (apply_execution_task_command C i order op key)"
  unfolding apply_execution_task_command_def post_named_def post_def task_request_def by (intro sends_intros sends_exchange)

text \<open>An order that succeeds was answered with the task it returns.\<close>

definition order_accepted :: "wms_client \<Rightarrow> upstream \<Rightarrow> http_request list \<Rightarrow> http_request \<Rightarrow> execution_task \<Rightarrow> bool" where
  "order_accepted C s before q row \<longleftrightarrow> (case up_peer s (up_sent s @ before) q of
     Reply st (RawJSON j) \<Rightarrow> ok_status st \<and> task_answer (wc_parsers C) j = Some row | _ \<Rightarrow> False)"

lemma order_Inr:
  assumes "apply_execution_task_command C i order op key s = (Inr row, s1)"
  shows "order_accepted C s [] (task_request C i order op key) row" and "up_sent s1 = up_sent s @ [task_request C i order op key]"
    and "up_peer s1 = up_peer s"
  using assms
  by (auto simp: order_accepted_def apply_execution_task_command_def post_named_def post_def task_request_def exchange_def send_def decoded_def
      bindP_Inr_iff body_of_def split: option.splits http_reply.splits if_splits raw_message.splits)

lemma order_sent:
  assumes "apply_execution_task_command C i order op key s = (x, s1)"
  shows "up_sent s1 = up_sent s \<or> up_sent s1 = up_sent s @ [task_request C i order op key]"
  using assms
  by (auto simp: apply_execution_task_command_def post_named_def post_def task_request_def exchange_def send_def decoded_def
      bindP_run split: option.splits http_reply.splits if_splits prod.splits sum.splits)

lemma split_at_first:
  assumes "xs @ x # ys = bs @ q # as" and "list_all (\<lambda>y. \<not> P y) xs" and "list_all (\<lambda>y. \<not> P y) ys" and "P q"
  shows "bs = xs" and "q = x" and "as = ys"
  using assms by (induction xs arbitrary: bs) (auto simp: list_all_iff Cons_eq_append_conv)

definition picking_orders :: "wms_client \<Rightarrow> mv_command \<Rightarrow> string \<Rightarrow> uuid \<Rightarrow> int64 \<Rightarrow> string \<Rightarrow> http_request" where
  "picking_orders C c ty u v key = task_request C (mc_task c) \<lparr>xo_id = wc_uuid_text C u, xo_type = ty, xo_version = v,
     xo_correlation = ac_correlation (mc_actor c), xo_cause = '''', xo_quantity = 0\<rparr> (ac_operator (mc_actor c)) key"

text \<open>The part of the start that comes before its order.\<close>

definition picking_claimed :: "wms_client \<Rightarrow> mv_command \<Rightarrow> (upstream, remote_task) prog" where
  "picking_claimed C c =
     bindP (rm_detail C ''PICKING'' (mc_task c) (mc_actor c)) (\<lambda>current.
     let s = mv_status (remote_head current) in
     if s = MvNew \<or> s = MvAssigned then picking_claim_remote C c
     else if s = MvInProgress then returnP current else failP (not_startable ''Picking task is not ready to start''))"

lemma picking_start_split: "picking_start_remote C c = bindP (picking_claimed C c) (send_start C ''PICKING'' c)"
  by (simp add: picking_start_remote_def picking_claimed_def Let_def)

lemma claim_sends: "sends (\<lambda>q. \<not> starts_task q) (picking_claim_remote C c)"
  unfolding picking_claim_remote_def rm_claim_def rm_order_def
  by (intro sends_intros sends_order unstarted.rm_detail unstarted.movement_reads) (simp add: command_order_def)

lemma claimed_sends: "sends (\<lambda>q. \<not> starts_task q) (picking_claimed C c)"
  unfolding picking_claimed_def by (intro sends_intros claim_sends unstarted.rm_detail)

lemma no_start:
  assumes "sends (\<lambda>q. \<not> starts_task q) m" and "m s = (r, s1)" and "up_sent s1 = up_sent s @ before @ q # after"
  shows "\<not> starts_task q"
  using assms by (auto elim!: sendsE)

lemma claim_Inr:
  assumes "picking_claim_remote C c s = (Inr t, s1)"
  obtains first row mid where "order_accepted C s first (picking_orders C c ''CLAIM'' (mc_id c) (mc_base_version c) (mc_key c)) row"
    and "up_sent s1 = up_sent s @ first @ picking_orders C c ''CLAIM'' (mc_id c) (mc_base_version c) (mc_key c) # mid"
    and "mv_version (remote_head t) = xt_version row" and "up_peer s1 = up_peer s"
    and "list_all (\<lambda>q. \<not> starts_task q) (first @ mid)"
proof -
  let ?claim = "picking_orders C c ''CLAIM'' (mc_id c) (mc_base_version c) (mc_key c)"
  from assms obtain current s2 row s3 t1 s4 where d: "rm_detail C ''PICKING'' (mc_task c) (mc_actor c) s = (Inr current, s2)"
    and o: "apply_execution_task_command C (mc_task c) (command_order C c ''CLAIM'' '''' 0) (ac_operator (mc_actor c)) (mc_key c) s2 = (Inr row, s3)"
    and e: "enriched_task C ''PICKING'' row s3 = (Inr t, s1)"
    by (auto simp: picking_claim_remote_def rm_claim_def rm_order_def bindP_Inr_iff checkP_Inr_iff)
  obtain first where f: "up_sent s2 = up_sent s @ first" "list_all (\<lambda>q. \<not> starts_task q) first" "up_peer s2 = up_peer s"
    by (rule sendsE [OF unstarted.rm_detail d])
  obtain mid where m: "up_sent s1 = up_sent s3 @ mid" "list_all (\<lambda>q. \<not> starts_task q) mid" "up_peer s1 = up_peer s3"
    by (rule sendsE [OF unstarted.movement_reads(1) e])
  have q: "task_request C (mc_task c) (command_order C c ''CLAIM'' '''' 0) (ac_operator (mc_actor c)) (mc_key c) = ?claim"
    by (simp add: picking_orders_def command_order_def)
  note order = order_Inr [OF o, unfolded q]
  from e have "mv_version (remote_head t) = xt_version row"
    by (auto simp: enriched_task_def bindP_Inr_iff same_head_def dest!: enrich_receipts_head enrich_locations_head)
  moreover have "order_accepted C s first ?claim row" using order(1) f by (simp add: order_accepted_def)
  ultimately show thesis using that [of first row mid] f m order by simp
qed

lemma start_sent:
  assumes "send_start C ''PICKING'' c t s = (r, s1)" and "mv_status (remote_head t) \<noteq> MvInProgress"
  obtains "up_sent s1 = up_sent s"
  | u mid where "up_sent s1 = up_sent s @ picking_orders C c ''START'' u (mv_version (remote_head t)) (mc_key c @ '':start'') # mid"
    and "list_all (\<lambda>q. \<not> starts_task q) mid"
proof -
  let ?u = "env_uuid s (env_ids s)"
  define q where "q = picking_orders C c ''START'' ?u (mv_version (remote_head t)) (mc_key c @ '':start'')"
  obtain x s2 where o: "apply_execution_task_command C (mc_task c) \<lparr>xo_id = wc_uuid_text C ?u, xo_type = ''START'',
      xo_version = mv_version (remote_head t), xo_correlation = ac_correlation (mc_actor c), xo_cause = '''', xo_quantity = 0\<rparr>
      (ac_operator (mc_actor c)) (mc_key c @ '':start'') (s\<lparr>env_ids := Suc (env_ids s)\<rparr>) = (x, s2)" by fastforce
  have sent: "up_sent s2 = up_sent s \<or> up_sent s2 = up_sent s @ [q]"
    using order_sent [OF o] by (simp add: q_def picking_orders_def)
  show thesis
  proof (cases x)
    case (Inl e)
    with assms o have "s1 = s2" by (simp add: send_start_def rm_order_def new_uuid_def bindP_run)
    with sent show thesis by (auto simp: q_def intro: that(1) that(2) [of _ "[]"])
  next
    case (Inr row)
    with assms o have e: "enriched_task C ''PICKING'' row s2 = (r, s1)" by (simp add: send_start_def rm_order_def new_uuid_def bindP_run)
    obtain mid where m: "up_sent s1 = up_sent s2 @ mid" "list_all (\<lambda>q. \<not> starts_task q) mid"
      by (rule sendsE [OF unstarted.movement_reads(1) e])
    have "up_sent s2 = up_sent s @ [q]" using o Inr by (auto simp: q_def picking_orders_def dest: order_Inr(2))
    with m show thesis by (auto simp: q_def intro: that(2) [of _ mid])
  qed
qed

lemma claimed_Inr:
  assumes "picking_claimed C c s = (Inr t, s1)" and "mv_status (remote_head t) \<noteq> MvInProgress"
  obtains first row mid where "order_accepted C s first (picking_orders C c ''CLAIM'' (mc_id c) (mc_base_version c) (mc_key c)) row"
    and "up_sent s1 = up_sent s @ first @ picking_orders C c ''CLAIM'' (mc_id c) (mc_base_version c) (mc_key c) # mid"
    and "mv_version (remote_head t) = xt_version row" and "list_all (\<lambda>q. \<not> starts_task q) (first @ mid)"
proof -
  from assms obtain current s0 where d: "rm_detail C ''PICKING'' (mc_task c) (mc_actor c) s = (Inr current, s0)"
    and cl: "picking_claim_remote C c s0 = (Inr t, s1)"
    by (auto simp: picking_claimed_def Let_def bindP_Inr_iff split: if_splits)
  obtain zero where z: "up_sent s0 = up_sent s @ zero" "list_all (\<lambda>q. \<not> starts_task q) zero" "up_peer s0 = up_peer s"
    by (rule sendsE [OF unstarted.rm_detail d])
  from cl show thesis
  proof (rule claim_Inr)
    fix first row mid
    assume "order_accepted C s0 first (picking_orders C c ''CLAIM'' (mc_id c) (mc_base_version c) (mc_key c)) row"
      "up_sent s1 = up_sent s0 @ first @ picking_orders C c ''CLAIM'' (mc_id c) (mc_base_version c) (mc_key c) # mid"
      "mv_version (remote_head t) = xt_version row" "list_all (\<lambda>q. \<not> starts_task q) (first @ mid)"
    with z show thesis by (intro that [of "zero @ first" row mid]) (simp_all add: order_accepted_def)
  qed
qed

text \<open>C37: picking is started by one order alone: if a run of the start sends an order that starts a task, no
  other request of the run starts one, before it or after it, and the order follows a claim that WMS
  accepted in the same run and carries the version WMS answered to that claim; an assignment is not
  enough to start.\<close>

theorem picking_started_after_claim:
  assumes "picking_start_remote C c s = (r, s1)" and "up_sent s1 = up_sent s @ before @ q # after" and "starts_task q"
  shows "\<exists>first mid row u. before = first @ picking_orders C c ''CLAIM'' (mc_id c) (mc_base_version c) (mc_key c) # mid
    \<and> order_accepted C s first (picking_orders C c ''CLAIM'' (mc_id c) (mc_base_version c) (mc_key c)) row
    \<and> q = picking_orders C c ''START'' u (xt_version row) (mc_key c @ '':start'')
    \<and> list_all (\<lambda>x. \<not> starts_task x) (before @ after)"
proof -
  let ?claim = "picking_orders C c ''CLAIM'' (mc_id c) (mc_base_version c) (mc_key c)"
  obtain x s2 where x: "picking_claimed C c s = (x, s2)" by fastforce
  show ?thesis
  proof (cases x)
    case (Inl e)
    with assms(1) x have "s1 = s2" by (simp add: picking_start_split bindP_run)
    with no_start [OF claimed_sends x] assms(2,3) show ?thesis by blast
  next
    case (Inr t)
    with assms(1) x have start: "send_start C ''PICKING'' c t s2 = (r, s1)" by (simp add: picking_start_split bindP_run)
    show ?thesis
    proof (cases "mv_status (remote_head t) = MvInProgress")
      case True
      with start have "s1 = s2" by (simp add: send_start_def)
      with no_start [OF claimed_sends x] assms(2,3) show ?thesis by blast
    next
      case False
      from x Inr have claimed: "picking_claimed C c s = (Inr t, s2)" by simp
      obtain first row mid where acc: "order_accepted C s first ?claim row" and s2: "up_sent s2 = up_sent s @ first @ ?claim # mid"
        and v: "mv_version (remote_head t) = xt_version row" and quiet: "list_all (\<lambda>q. \<not> starts_task q) (first @ mid)"
        by (rule claimed_Inr [OF claimed False])
      from start False show ?thesis
      proof (cases rule: start_sent)
        case 1
        with no_start [OF claimed_sends x] assms(2,3) show ?thesis by (metis append.assoc)
      next
        case (2 u rest)
        let ?start = "picking_orders C c ''START'' u (xt_version row) (mc_key c @ '':start'')"
        have "up_sent s1 = up_sent s @ (first @ ?claim # mid) @ ?start # rest" using 2 s2 v by simp
        with assms(2) have "(first @ ?claim # mid) @ ?start # rest = before @ q # after" by simp
        moreover have unstarting: "\<not> starts_task ?claim" by (simp add: picking_orders_def)
        ultimately have "before = first @ ?claim # mid" "q = ?start" "after = rest"
          using split_at_first [of "first @ ?claim # mid" ?start rest before q after starts_task] quiet 2(2) assms(3)
          by simp_all
        moreover from this have "list_all (\<lambda>x. \<not> starts_task x) (before @ after)"
          using quiet 2(2) unstarting by simp
        ultimately show ?thesis using acc by blast
      qed
    qed
  qed
qed

end
