(* ===== verification/Remote_Examples.thy ===== *)
theory Remote_Examples
  imports Remote_Properties
begin

text \<open>
  A WMS that answers by the address it is asked at, and a client of it, which the witnesses of the
  properties of the adapters evaluate.
\<close>

section \<open>A client and a WMS\<close>

definition ex_remote_parsers :: parsers where
  "ex_remote_parsers = \<lparr>px_uuid = \<lambda>s. if s = ''wh'' then Some 1 else None, px_time = \<lambda>_. None, px_time_text = \<lambda>_. None\<rparr>"

definition ex_client :: wms_client where
  "ex_client = \<lparr>wc_base = ''http://w'', wc_token = ''t'', wc_service = '''', wc_aliases = parse_aliases ''main = wh, B=x'',
     wc_parsers = ex_remote_parsers, wc_url_error = \<lambda>_. None, wc_uuid_text = \<lambda>_. ''u'', wc_sha256 = \<lambda>s. ''h'',
     wc_sha1 = \<lambda>_. 5, wc_quote = \<lambda>s. s, wc_order = \<lambda>ks. ks\<rparr>"

definition ex_remote_actor :: actor where
  "ex_remote_actor = \<lparr>ac_operator = ''o'', ac_device = ''d'', ac_warehouse = ''MAIN'', ac_correlation = ''c''\<rparr>"

definition ex_row :: "string \<Rightarrow> int \<Rightarrow> members \<Rightarrow> json" where
  "ex_row status v details = JObj [(''task_id'', JStr ''T1''), (''task_type'', JStr ''PICKING''), (''status'', JStr status),
     (''warehouse_id'', JStr ''wh''), (''assigned_operator_id'', JStr ''o''), (''version'', JInt v), (''details'', JObj details)]"

definition ex_details :: members where
  "ex_details = [(''lines'', JArr [JObj [(''line_id'', JStr ''L1''), (''scan_state'', JObj [(''source'', JBool True)])],
     JObj [(''line_id'', JStr ''L2'')]])]"

definition ex_answers :: "((string \<times> string) \<times> json) list" where
  "ex_answers =
     [((''GET'', ''http://w/api/wms/execution/tasks/T0''), ex_row ''ASSIGNED'' 3 ex_details),
      ((''GET'', ''http://w/api/wms/execution/tasks/T1''), ex_row ''ASSIGNED'' 3 []),
      ((''POST'', ''http://w/api/wms/execution/tasks/T1/claim''), JObj [(''task'', ex_row ''CLAIMED'' 4 [])]),
      ((''POST'', ''http://w/api/wms/execution/tasks/T1/start''), JObj [(''task'', ex_row ''IN_PROGRESS'' 5 [])]),
      ((''GET'', ''http://w/api/wms/inbound/receipts/R1''), JObj [(''receipt_id'', JStr ''R1''),
         (''lines'', JArr [JObj [(''line_id'', JStr ''L1'')], JObj [(''line_id'', JStr ''L2'')]])]),
      ((''POST'', ''http://w/api/wms/master-data/barcode/resolve''), JObj [(''item_revision_id'', JStr ''I2'')]),
      ((''GET'', ''http://w/api/wms/shipping/shipments/S1''), JObj [(''id'', JStr ''S1''), (''status'', JStr ''READY''),
         (''packages'', JArr [JObj [(''id'', JStr ''P1''), (''status'', JStr ''COMPLETED'')]])])]"

definition ex_upstream :: upstream where
  "ex_upstream = \<lparr>env_clock = \<lambda>n. int n + 1, env_reads = 0, env_uuid = \<lambda>n. n + 1, env_ids = 0, env_log = \<lparr>el_events = []\<rparr>,
     env_fail_type = '''',
     up_peer = \<lambda>_ q. case map_of ex_answers (hq_method q, hq_url q) of Some j \<Rightarrow> Reply 200 (RawJSON j) | None \<Rightarrow> Reply 404 RawEmpty,
     up_sent = []\<rparr>"

definition ex_mv_command :: mv_command where
  "ex_mv_command = \<lparr>mc_id = 7, mc_key = ''k'', mc_task = ''T1'', mc_base_version = 3, mc_actor = ex_remote_actor\<rparr>"

lemma outcome: "isl (fst p) = False \<Longrightarrow> p = (Inr (projr (fst p)), snd p)"
  by (cases p; cases "fst p") auto

section \<open>Reading a task\<close>

definition ex_shown :: "(err + remote_task) \<times> upstream" where
  "ex_shown = rm_detail ex_client ''PICKING'' ''T0'' ex_remote_actor ex_upstream"

lemma ex_shown_facts: "isl (fst ex_shown) = False" "canonical_warehouse ex_client (ac_warehouse ex_remote_actor) = ''wh''"
  "map (mv_id \<circ> remote_head) (remote_related (projr (fst ex_shown))) = [''L1'', ''L2'']"
  by code_simp+

theorem remote_detail_is_own_witness:
  "remote_all (\<lambda>m. mv_operator m = Some ''o'') (projr (fst ex_shown)) \<and> remote_all (lies_in ''wh'') (projr (fst ex_shown))
   \<and> length (remote_related (projr (fst ex_shown))) = 2"
proof -
  have "length (remote_related (projr (fst ex_shown))) = 2" using arg_cong [OF ex_shown_facts(3), of length] by simp
  moreover have "px_uuid (wc_parsers ex_client) ''wh'' \<noteq> None" "ac_operator ex_remote_actor = ''o''"
    by (simp_all add: ex_client_def ex_remote_parsers_def ex_remote_actor_def)
  ultimately show ?thesis
    using remote_detail_is_own [OF outcome [OF ex_shown_facts(1), unfolded ex_shown_def], folded ex_shown_def]
    unfolding ex_shown_facts(2) by auto
qed

section \<open>Starting a task\<close>

definition ex_started :: "(err + remote_task) \<times> upstream" where
  "ex_started = picking_start_remote ex_client ex_mv_command ex_upstream"

text \<open>The run in parts, each of which is evaluated: the detail, the detail before the claim, the claim.\<close>

definition ex_first :: "(err + remote_task) \<times> upstream" where
  "ex_first = rm_detail ex_client ''PICKING'' ''T1'' ex_remote_actor ex_upstream"

definition ex_again :: "(err + remote_task) \<times> upstream" where
  "ex_again = rm_detail ex_client ''PICKING'' ''T1'' ex_remote_actor (snd ex_first)"

definition ex_claimed :: "(err + remote_task) \<times> upstream" where
  "ex_claimed = rm_claim ex_client ''PICKING'' ex_mv_command (snd ex_again)"

lemma ex_part_facts:
  "mv_status (remote_head (projr (fst ex_first))) = MvAssigned" "isl (fst ex_again) = False"
  "mv_operator (remote_head (projr (fst ex_again))) = Some ''o''" "isl (fst ex_claimed) = False" "isl (fst ex_first) = False"
  by code_simp+

lemma ex_claim_run: "picking_claim_remote ex_client ex_mv_command (snd ex_first) = ex_claimed"
proof -
  have "rm_detail ex_client ''PICKING'' (mc_task ex_mv_command) (mc_actor ex_mv_command) (snd ex_first) = (Inr (projr (fst ex_again)), snd ex_again)"
    using outcome [OF ex_part_facts(2)] by (simp add: ex_again_def ex_mv_command_def)
  moreover have "ac_operator (mc_actor ex_mv_command) = ''o''" by (simp add: ex_mv_command_def ex_remote_actor_def)
  ultimately show ?thesis using ex_part_facts(3) by (simp add: picking_claim_remote_def bindP_run checkP_run ex_claimed_def)
qed

lemma ex_started_code [code]:
  "ex_started = send_start ex_client ''PICKING'' ex_mv_command (projr (fst ex_claimed)) (snd ex_claimed)"
proof -
  have c: "picking_claim_remote ex_client ex_mv_command (snd ex_first) = (Inr (projr (fst ex_claimed)), snd ex_claimed)"
    using ex_claim_run outcome [OF ex_part_facts(4)] by simp
  have d: "rm_detail ex_client ''PICKING'' (mc_task ex_mv_command) (mc_actor ex_mv_command) ex_upstream = (Inr (projr (fst ex_first)), snd ex_first)"
    using outcome [OF ex_part_facts(5)] by (simp add: ex_first_def ex_mv_command_def)
  show ?thesis
    using c d ex_part_facts(1) by (simp add: ex_started_def picking_start_remote_def bindP_run Let_def)
qed

lemma ex_started_facts: "length (up_sent (snd ex_started)) = 4" "starts_task (up_sent (snd ex_started) ! 3)"
  "up_sent ex_upstream = []"
  by code_simp+

theorem picking_started_after_claim_witness:
  "\<exists>first mid row u. take 3 (up_sent (snd ex_started)) = first @ picking_orders ex_client ex_mv_command ''CLAIM'' 7 3 ''k'' # mid
    \<and> order_accepted ex_client ex_upstream first (picking_orders ex_client ex_mv_command ''CLAIM'' 7 3 ''k'') row
    \<and> up_sent (snd ex_started) ! 3 = picking_orders ex_client ex_mv_command ''START'' u (xt_version row) ''k:start''
    \<and> list_all (\<lambda>x. \<not> starts_task x) (take 3 (up_sent (snd ex_started)))"
proof -
  have sent: "up_sent (snd ex_started) = up_sent ex_upstream @ take 3 (up_sent (snd ex_started)) @ up_sent (snd ex_started) ! 3 # []"
    using ex_started_facts(1,3) id_take_nth_drop [of 3 "up_sent (snd ex_started)"] by simp
  have run: "picking_start_remote ex_client ex_mv_command ex_upstream = (fst ex_started, snd ex_started)"
    by (simp add: ex_started_def)
  have c: "mc_id ex_mv_command = 7" "mc_base_version ex_mv_command = 3" "mc_key ex_mv_command = ''k''"
    "''k'' @ '':start'' = ''k:start''" by (simp_all add: ex_mv_command_def)
  show ?thesis using picking_started_after_claim [OF run sent ex_started_facts(2)] unfolding c append_Nil2 .
qed

section \<open>Barcodes and shipments\<close>

definition ex_open_line :: "string \<Rightarrow> string \<Rightarrow> rline" where
  "ex_open_line i item = \<lparr>ln_id = i, ln_item = item, ln_item_name = '''', ln_barcode = '''', ln_expected = 5, ln_received = 0, ln_sku = item,
     ln_uom = ''EA'', ln_lot = '''', ln_handed_over = 5, ln_remaining = 5, ln_lot_required = False, ln_serial_required = False,
     ln_verified = False\<rparr>"

text \<open>The barcode is one of \<open>I2\<close>, the item of the second line.\<close>

definition ex_known :: "(err + bool) \<times> upstream" where
  "ex_known = has_owner_line ex_client ''R1'' ''L1'' ex_upstream"

definition ex_resolved :: "(err + string \<times> string) \<times> upstream" where
  "ex_resolved = resolve_wms_barcode ex_client ''b'' ''EAN'' (canonical_warehouse ex_client (ac_warehouse ex_remote_actor)) ''R1'' ''L1''
     (wc_sha256 ex_client (''R1'' @ ''|'' @ ''L1'' @ ''|'' @ ''b'')) (snd ex_known)"

lemma ex_resolution: "fst ex_known = Inr True" "isl (fst ex_resolved) = False" "fst (projr (fst ex_resolved)) = ''I2''"
  by code_simp+

theorem barcode_judged_by_first_line_witness:
  "resolve_line ex_client ''R1'' ''b'' ''EAN'' ex_remote_actor [ex_open_line ''L1'' ''I1'', ex_open_line ''L2'' ''I2''] ex_upstream
     = (Inl ErrBarcodeWrongContext, snd ex_resolved)"
proof (rule barcode_judged_by_first_line)
  show "line_open (ex_open_line ''L1'' ''I1'')" "ln_sku (ex_open_line ''L1'' ''I1'') \<noteq> ''b''"
    by code_simp+
  show "has_owner_line ex_client ''R1'' (ln_id (ex_open_line ''L1'' ''I1'')) ex_upstream = (Inr True, snd ex_known)"
    using ex_resolution(1) by (simp add: ex_open_line_def ex_known_def prod_eq_iff)
  show "resolve_wms_barcode ex_client ''b'' ''EAN'' (canonical_warehouse ex_client (ac_warehouse ex_remote_actor)) ''R1''
      (ln_id (ex_open_line ''L1'' ''I1'')) (wc_sha256 ex_client (''R1'' @ ''|'' @ ln_id (ex_open_line ''L1'' ''I1'') @ ''|'' @ ''b''))
      (snd ex_known) = (Inr (''I2'', snd (projr (fst ex_resolved))), snd ex_resolved)"
    using outcome [OF ex_resolution(2)] ex_resolution(3)
    by (cases "projr (fst ex_resolved)") (simp add: ex_open_line_def ex_resolved_def)
  show "''I2'' \<noteq> ln_item (ex_open_line ''L1'' ''I1'')" by (simp add: ex_open_line_def)
qed

definition ex_ready :: "(err + readiness_report) \<times> upstream" where
  "ex_ready = rs_readiness ex_client ''S1'' ex_remote_actor ex_upstream"

lemma ex_ready_facts: "isl (fst ex_ready) = False" "rd_packages (projr (fst ex_ready))"
  by code_simp+

theorem remote_shipment_never_ready_witness:
  "\<not> rd_ready (projr (fst ex_ready)) \<and> rd_packages (projr (fst ex_ready))"
  using remote_shipment_never_ready [OF outcome [OF ex_ready_facts(1), unfolded ex_ready_def]] ex_ready_facts(2)
  by (simp add: ex_ready_def)

end
